(* ===== verification/Prelude.thy ===== *)
theory Prelude
  imports Main "HOL-Library.Word"
begin

text \<open>
  Shared vocabulary of the development: the machine-word types the hardware
  descriptions use, the readings of the Amaranth operators that occur in every
  component (slices, concatenation, multiplexers, sign extension) and the generic
  facts about them.  A one-bit signal is a \<^typ>\<open>bool\<close>; a wider signal is a word of
  exactly its width, so truncation on assignment is the \<open>ucast\<close> into that width.
\<close>

unbundle bit_operations_syntax

type_synonym u64 = "64 word"
type_synonym u16 = "16 word"
type_synonym byte = "8 word"
type_synonym reg_index = "4 word"
type_synonym regfile = "reg_index \<Rightarrow> u64"
type_synonym memory = "u64 \<Rightarrow> byte"

named_theorems field_simps_isa "unfolding rules of the instruction field extractors"
named_theorems core_step_simps "unfolding rules of the per-state handlers of the basic core"

section \<open>Slices\<close>

text \<open>Amaranth's \<open>value[lo:hi]\<close>: the width \<open>hi - lo\<close> is the width of the result type.\<close>

definition bslice :: "nat \<Rightarrow> 'a::len word \<Rightarrow> 'b::len word" where
  "bslice lo w = ucast (drop_bit lo w)"

lemma bit_bslice [bit_simps]:
  "bit (bslice lo w :: 'b::len word) n \<longleftrightarrow> n < LENGTH('b) \<and> bit (w :: 'a::len word) (lo + n)"
  by (auto simp: bslice_def bit_simps dest: bit_imp_le_length)

section \<open>Sign extension\<close>

text \<open>
  \<open>sign_extend(value, width, target_width)\<close> of \<open>helpers.py\<close>: the value, with
  \<open>target_width - width\<close> copies of its top bit above it.
\<close>

definition sign_extend :: "'a::len word \<Rightarrow> 'b::len word" where
  "sign_extend x =
     ucast x OR (if bit x (LENGTH('a) - 1) then push_bit LENGTH('a) (- 1) else 0)"

lemma bit_sign_extend:
  "bit (sign_extend (x :: 'a::len word) :: 'b::len word) n \<longleftrightarrow>
     n < LENGTH('b) \<and> bit x (min n (LENGTH('a) - 1))"
  by (auto simp: sign_extend_def bit_simps min_def dest: bit_imp_le_length)

lemma sign_extend_scast: "(sign_extend (x :: 'a::len word) :: 'b::len word) = scast x"
proof (rule bit_word_eqI)
  fix n assume n: "n < LENGTH('b)"
  then have "LENGTH('b) - Suc 0 \<le> n \<Longrightarrow> n = LENGTH('b) - Suc 0" by simp
  moreover have "n < LENGTH('a) \<Longrightarrow> LENGTH('a) - Suc 0 \<le> n \<Longrightarrow> n = LENGTH('a) - Suc 0" by simp
  ultimately show "bit (sign_extend x :: 'b word) n = bit (scast x :: 'b word) n"
    using n by (auto simp: bit_sign_extend bit_simps min_def)
qed

section \<open>Flags\<close>

text \<open>\<open>Cat(z, c, s)\<close> of three one-bit values.\<close>

definition cat3 :: "bool \<Rightarrow> bool \<Rightarrow> bool \<Rightarrow> 3 word" where
  "cat3 z c s = of_bool z OR push_bit 1 (of_bool c) OR push_bit 2 (of_bool s)"

lemma bit_cat3 [simp]:
  "bit (cat3 z c s) 0 = z"
  "bit (cat3 z c s) (Suc 0) = c"
  "bit (cat3 z c s) 2 = s"
  by (auto simp: cat3_def bit_simps)

lemma word3_eqI:
  "bit (x :: 3 word) 0 = bit y 0 \<Longrightarrow> bit x (Suc 0) = bit y (Suc 0) \<Longrightarrow> bit x 2 = bit y 2 \<Longrightarrow> x = y"
proof (rule bit_word_eqI)
  fix n assume *: "bit x 0 = bit y 0" "bit x (Suc 0) = bit y (Suc 0)" "bit x 2 = bit y 2"
    and n: "n < LENGTH(3)"
  from n have "n = 0 \<or> n = Suc 0 \<or> n = 2" by auto
  with * show "bit x n = bit y n" by auto
qed

lemma cat3_inject [simp]: "cat3 z c s = cat3 z' c' s' \<longleftrightarrow> z = z' \<and> c = c' \<and> s = s'"
proof
  assume eq: "cat3 z c s = cat3 z' c' s'"
  then have "bit (cat3 z c s) 0 = bit (cat3 z' c' s') 0"
    and "bit (cat3 z c s) (Suc 0) = bit (cat3 z' c' s') (Suc 0)"
    and "bit (cat3 z c s) 2 = bit (cat3 z' c' s') 2"
    by (simp_all only:)
  then show "z = z' \<and> c = c' \<and> s = s'" by (simp only: bit_cat3)
qed simp

lemma cat3_bits [simp]: "cat3 (bit f 0) (bit f (Suc 0)) (bit f 2) = f"
  by (rule word3_eqI) simp_all

section \<open>Words\<close>

lemma word_le_63_iff: "(b :: u64) < 64 \<longleftrightarrow> unat b < 64"
  by (simp add: word_less_nat_alt)

lemma word_ge_64_iff: "64 \<le> (b :: u64) \<longleftrightarrow> 64 \<le> unat b"
  by (simp add: word_le_nat_alt)

lemma ones64: "(0xFFFFFFFFFFFFFFFF :: u64) = - 1"
  by simp

lemma push_bit_64 [simp]: "64 \<le> n \<Longrightarrow> push_bit n (w :: u64) = 0"
  by (rule bit_word_eqI) (simp add: bit_simps)

lemma drop_bit_64 [simp]: "64 \<le> n \<Longrightarrow> drop_bit n (w :: u64) = 0"
  by (rule bit_word_eqI) (auto simp: bit_simps dest: bit_imp_le_length)

lemma word_eq_0_iff_bits: "(w :: 'a::len word) = 0 \<longleftrightarrow> (\<forall>n < LENGTH('a). \<not> bit w n)"
  by (metis bit_word_eqI bit_0_eq bot_apply bot_bool_def)

lemma and_bit: "(x :: u64) AND push_bit n 1 \<noteq> 0 \<longleftrightarrow> bit x n"
  by (auto simp: word_eq_0_iff_bits bit_simps dest: bit_imp_le_length)

lemma signed_drop_bit_bit:
  "bit (signed_drop_bit k (w :: u64)) n \<longleftrightarrow> n < 64 \<and> bit w (min (n + k) 63)"
  by (auto simp: bit_signed_drop_bit_iff min_def add.commute not_le simp del: One_nat_def
      dest: bit_imp_le_length)

lemma and_fff: "(x :: u64) AND 0xFFF = take_bit 12 x"
proof -
  have "(0xFFF :: u64) = mask 12" by (simp add: mask_eq_exp_minus_1)
  then show ?thesis by (simp add: take_bit_eq_mask)
qed

section \<open>Priority loops\<close>

text \<open>A loop that runs downwards and lets the last assignment win finds the first element.\<close>

lemma fold_rev_find_map: "fold (\<lambda>k v. if P k then Some (f k) else v) (rev xs) None = map_option f (find P xs)"
  by (induction xs) simp_all

lemma fold_rev_find: "fold (\<lambda>k v. if P k then Some k else v) (rev xs) None = find P xs"
  by (induction xs) simp_all

section \<open>Binary logarithm\<close>

text \<open>\<open>int(log2(n))\<close>, used by the components on powers of two.\<close>

fun int_log2 :: "nat \<Rightarrow> nat" where
  "int_log2 n = (if n \<le> 1 then 0 else Suc (int_log2 (n div 2)))"

declare int_log2.simps [simp del]

lemma int_log2_pow2 [simp]: "int_log2 (2 ^ k) = k"
proof (induction k)
  case 0
  show ?case by (simp add: int_log2.simps)
next
  case (Suc k)
  have "(1 :: nat) \<le> 2 ^ k" by simp
  then have "\<not> (2 :: nat) ^ Suc k \<le> 1" unfolding power_Suc by linarith
  then show ?case using Suc by (subst int_log2.simps) simp
qed

end
