(* ===== verification/Isa.thy ===== *)
theory Isa
  imports Prelude
begin

text \<open>
  The shared ISA metadata: \<open>isa.py\<close> (opcodes, control bits, trap vectors, special
  register selectors), \<open>mmu.py\<close> (page-table entry bits, access kinds, auxiliary
  subtypes) and the combinational helpers of \<open>v3/helpers.py\<close> and
  \<open>basic/helpers.py\<close> (field extractors, flag packing, branch conditions, the
  canonical-address test).
\<close>

section \<open>Opcodes\<close>

datatype ls_opcode =
    LS_LOAD | LS_STORE | LS_PUSH | LS_POP | LS_MOVE
  | LS_BYTE_LOAD | LS_BYTE_STORE | LS_SHORT_LOAD | LS_SHORT_STORE
  | LS_WORD_LOAD | LS_WORD_STORE
  | LS_JUMP_Z | LS_JUMP_C | LS_JUMP_S | LS_JUMP_GT | LS_JUMP_LT

text \<open>The numbering of \<open>LSOpcode\<close>; all sixteen codes are assigned.\<close>

fun ls_code :: "ls_opcode \<Rightarrow> 4 word" where
  "ls_code LS_LOAD = 0" | "ls_code LS_STORE = 1" | "ls_code LS_PUSH = 2" | "ls_code LS_POP = 3"
| "ls_code LS_MOVE = 4" | "ls_code LS_BYTE_LOAD = 5" | "ls_code LS_BYTE_STORE = 6"
| "ls_code LS_SHORT_LOAD = 7" | "ls_code LS_SHORT_STORE = 8" | "ls_code LS_WORD_LOAD = 9"
| "ls_code LS_WORD_STORE = 10" | "ls_code LS_JUMP_Z = 11" | "ls_code LS_JUMP_C = 12"
| "ls_code LS_JUMP_S = 13" | "ls_code LS_JUMP_GT = 14" | "ls_code LS_JUMP_LT = 15"

definition ls_opcode_of :: "4 word \<Rightarrow> ls_opcode" where
  "ls_opcode_of w =
     (if w = 0 then LS_LOAD else if w = 1 then LS_STORE else if w = 2 then LS_PUSH
      else if w = 3 then LS_POP else if w = 4 then LS_MOVE else if w = 5 then LS_BYTE_LOAD
      else if w = 6 then LS_BYTE_STORE else if w = 7 then LS_SHORT_LOAD
      else if w = 8 then LS_SHORT_STORE else if w = 9 then LS_WORD_LOAD
      else if w = 10 then LS_WORD_STORE else if w = 11 then LS_JUMP_Z
      else if w = 12 then LS_JUMP_C else if w = 13 then LS_JUMP_S
      else if w = 14 then LS_JUMP_GT else LS_JUMP_LT)"

datatype gp_opcode =
    GP_ADD | GP_SUB | GP_TEST | GP_LLR | GP_SCR | GP_AND | GP_OR | GP_XOR
  | GP_SLL | GP_SRL | GP_SRA | GP_SLLI | GP_SRLI | GP_SRAI
  | GP_SYSCALL | GP_LSR | GP_SSR | GP_IRET | GP_STOP

fun gp_code :: "gp_opcode \<Rightarrow> 5 word" where
  "gp_code GP_ADD = 0" | "gp_code GP_SUB = 1" | "gp_code GP_TEST = 2" | "gp_code GP_LLR = 3"
| "gp_code GP_SCR = 4" | "gp_code GP_AND = 16" | "gp_code GP_OR = 17" | "gp_code GP_XOR = 18"
| "gp_code GP_SLL = 20" | "gp_code GP_SRL = 21" | "gp_code GP_SRA = 22" | "gp_code GP_SLLI = 23"
| "gp_code GP_SRLI = 24" | "gp_code GP_SRAI = 25" | "gp_code GP_SYSCALL = 27"
| "gp_code GP_LSR = 28" | "gp_code GP_SSR = 29" | "gp_code GP_IRET = 30" | "gp_code GP_STOP = 31"

text \<open>The holes of the numbering are \<open>None\<close>: the default branch of every switch on it.\<close>

definition gp_opcode_of :: "5 word \<Rightarrow> gp_opcode option" where
  "gp_opcode_of w =
     (if w = 0 then Some GP_ADD else if w = 1 then Some GP_SUB else if w = 2 then Some GP_TEST
      else if w = 3 then Some GP_LLR else if w = 4 then Some GP_SCR else if w = 16 then Some GP_AND
      else if w = 17 then Some GP_OR else if w = 18 then Some GP_XOR else if w = 20 then Some GP_SLL
      else if w = 21 then Some GP_SRL else if w = 22 then Some GP_SRA else if w = 23 then Some GP_SLLI
      else if w = 24 then Some GP_SRLI else if w = 25 then Some GP_SRAI
      else if w = 27 then Some GP_SYSCALL else if w = 28 then Some GP_LSR
      else if w = 29 then Some GP_SSR else if w = 30 then Some GP_IRET
      else if w = 31 then Some GP_STOP else None)"

lemma ls_opcode_of_code [simp]: "ls_opcode_of (ls_code c) = c"
  by (cases c) (simp_all add: ls_opcode_of_def)

lemma gp_opcode_of_code [simp]: "gp_opcode_of (gp_code c) = Some c"
  by (cases c) (simp_all add: gp_opcode_of_def)

lemma gp_opcode_of_SomeD: "gp_opcode_of w = Some c \<Longrightarrow> w = gp_code c"
  by (auto simp: gp_opcode_of_def split: if_splits)

section \<open>Trap vectors\<close>

datatype trap_vector =
    EXEC_ALIGN | PRIVILEGED_INSTRUCTION | SYSCALL | SYSCALL_FROM_SUPERVISOR
  | PAGE_FAULT_NOT_PRESENT | PAGE_FAULT_PERMISSION | PAGE_FAULT_RESERVED | PAGE_FAULT_CANONICAL
  | INVALID_INSTRUCTION | FIRST_HW_IRQ

fun trap_code :: "trap_vector \<Rightarrow> u64" where
  "trap_code EXEC_ALIGN = 1"
| "trap_code PRIVILEGED_INSTRUCTION = 2"
| "trap_code SYSCALL = 3"
| "trap_code SYSCALL_FROM_SUPERVISOR = 4"
| "trap_code PAGE_FAULT_NOT_PRESENT = 5"
| "trap_code PAGE_FAULT_PERMISSION = 6"
| "trap_code PAGE_FAULT_RESERVED = 7"
| "trap_code PAGE_FAULT_CANONICAL = 8"
| "trap_code INVALID_INSTRUCTION = 9"
| "trap_code FIRST_HW_IRQ = 65"

section \<open>Special-register selectors\<close>

datatype special_register =
    CPU_CONTROL | PAGE_TABLE_ROOT_PHYSICAL | BOOT_INFO_FRAME_PHYSICAL | BOOT_SOURCE_PAGE_SIZE
  | BOOT_SOURCE_PAGE_COUNT | HYPERCALL_CAPS | INTERRUPT_TABLE_BASE | INTERRUPT_MASK
  | INTERRUPT_MASK_HIGH | INTERRUPT_STATES | INTERRUPT_STATES_HIGH | INTERRUPT_EPC
  | INTERRUPT_EFLAGS | INTERRUPT_CPU_CONTROL | TRAP_CAUSE | TRAP_FAULT_ADDR | TRAP_ACCESS
  | TRAP_PC | TRAP_AUX | THREAD_POINTER

fun sr_code :: "special_register \<Rightarrow> u16" where
  "sr_code CPU_CONTROL = 0"
| "sr_code PAGE_TABLE_ROOT_PHYSICAL = 11"
| "sr_code BOOT_INFO_FRAME_PHYSICAL = 12"
| "sr_code BOOT_SOURCE_PAGE_SIZE = 13"
| "sr_code BOOT_SOURCE_PAGE_COUNT = 14"
| "sr_code HYPERCALL_CAPS = 15"
| "sr_code INTERRUPT_TABLE_BASE = 16"
| "sr_code INTERRUPT_MASK = 17"
| "sr_code INTERRUPT_MASK_HIGH = 18"
| "sr_code INTERRUPT_STATES = 19"
| "sr_code INTERRUPT_STATES_HIGH = 20"
| "sr_code INTERRUPT_EPC = 21"
| "sr_code INTERRUPT_EFLAGS = 22"
| "sr_code INTERRUPT_CPU_CONTROL = 23"
| "sr_code TRAP_CAUSE = 24"
| "sr_code TRAP_FAULT_ADDR = 25"
| "sr_code TRAP_ACCESS = 26"
| "sr_code TRAP_PC = 27"
| "sr_code TRAP_AUX = 28"
| "sr_code THREAD_POINTER = 0x8000"

definition sr_of :: "u16 \<Rightarrow> special_register option" where
  "sr_of w =
     (if w = 0 then Some CPU_CONTROL else if w = 11 then Some PAGE_TABLE_ROOT_PHYSICAL
      else if w = 12 then Some BOOT_INFO_FRAME_PHYSICAL else if w = 13 then Some BOOT_SOURCE_PAGE_SIZE
      else if w = 14 then Some BOOT_SOURCE_PAGE_COUNT else if w = 15 then Some HYPERCALL_CAPS
      else if w = 16 then Some INTERRUPT_TABLE_BASE else if w = 17 then Some INTERRUPT_MASK
      else if w = 18 then Some INTERRUPT_MASK_HIGH else if w = 19 then Some INTERRUPT_STATES
      else if w = 20 then Some INTERRUPT_STATES_HIGH else if w = 21 then Some INTERRUPT_EPC
      else if w = 22 then Some INTERRUPT_EFLAGS else if w = 23 then Some INTERRUPT_CPU_CONTROL
      else if w = 24 then Some TRAP_CAUSE else if w = 25 then Some TRAP_FAULT_ADDR
      else if w = 26 then Some TRAP_ACCESS else if w = 27 then Some TRAP_PC
      else if w = 28 then Some TRAP_AUX else if w = 0x8000 then Some THREAD_POINTER else None)"

lemma sr_of_code [simp]: "sr_of (sr_code r) = Some r"
  by (cases r) (simp_all add: sr_of_def)

lemma sr_of_SomeD: "sr_of w = Some r \<Longrightarrow> w = sr_code r"
  by (auto simp: sr_of_def split: if_splits)

section \<open>Control bits, page-table bits, access kinds\<close>

definition CPU_CONTROL_INT_ENABLE :: u64 where "CPU_CONTROL_INT_ENABLE = push_bit 0 1"
definition CPU_CONTROL_IN_INTERRUPT :: u64 where "CPU_CONTROL_IN_INTERRUPT = push_bit 1 1"
definition CPU_CONTROL_CUR_INT_SHIFT :: nat where "CPU_CONTROL_CUR_INT_SHIFT = 2"
definition CPU_CONTROL_CUR_INT_MASK :: u64 where
  "CPU_CONTROL_CUR_INT_MASK = push_bit CPU_CONTROL_CUR_INT_SHIFT 0x7F"
definition CPU_CONTROL_PAGING_ENABLE :: u64 where "CPU_CONTROL_PAGING_ENABLE = push_bit 16 1"
definition CPU_CONTROL_USER_MODE :: u64 where "CPU_CONTROL_USER_MODE = push_bit 17 1"
definition CPU_CONTROL_WRITABLE_MASK :: u64 where
  "CPU_CONTROL_WRITABLE_MASK =
     CPU_CONTROL_INT_ENABLE OR CPU_CONTROL_IN_INTERRUPT OR CPU_CONTROL_CUR_INT_MASK OR
     CPU_CONTROL_PAGING_ENABLE OR CPU_CONTROL_USER_MODE"

lemmas cpu_control_defs =
  CPU_CONTROL_INT_ENABLE_def CPU_CONTROL_IN_INTERRUPT_def CPU_CONTROL_CUR_INT_SHIFT_def
  CPU_CONTROL_CUR_INT_MASK_def CPU_CONTROL_PAGING_ENABLE_def CPU_CONTROL_USER_MODE_def
  CPU_CONTROL_WRITABLE_MASK_def

definition PTE_V :: u64 where "PTE_V = push_bit 0 1"
definition PTE_R :: u64 where "PTE_R = push_bit 1 1"
definition PTE_W :: u64 where "PTE_W = push_bit 2 1"
definition PTE_X :: u64 where "PTE_X = push_bit 3 1"
definition PTE_U :: u64 where "PTE_U = push_bit 4 1"
definition PTE_RESERVED_MASK :: u64 where "PTE_RESERVED_MASK = 0xFFC0000000000000"

lemmas pte_defs = PTE_V_def PTE_R_def PTE_W_def PTE_X_def PTE_U_def PTE_RESERVED_MASK_def

definition ACCESS_READ :: "2 word" where "ACCESS_READ = 0"
definition ACCESS_WRITE :: "2 word" where "ACCESS_WRITE = 1"
definition ACCESS_EXECUTE :: "2 word" where "ACCESS_EXECUTE = 2"

lemmas access_defs = ACCESS_READ_def ACCESS_WRITE_def ACCESS_EXECUTE_def

definition AUX_SUBTYPE_NONE :: u64 where "AUX_SUBTYPE_NONE = 0"
definition AUX_SUBTYPE_NO_VALID_PTE :: u64 where "AUX_SUBTYPE_NO_VALID_PTE = 1"
definition AUX_SUBTYPE_INVALID_NONLEAF :: u64 where "AUX_SUBTYPE_INVALID_NONLEAF = 2"
definition AUX_SUBTYPE_PERMISSION :: u64 where "AUX_SUBTYPE_PERMISSION = 3"
definition AUX_SUBTYPE_RESERVED_BIT :: u64 where "AUX_SUBTYPE_RESERVED_BIT = 4"
definition AUX_SUBTYPE_CANONICAL :: u64 where "AUX_SUBTYPE_CANONICAL = 5"

lemmas aux_defs =
  AUX_SUBTYPE_NONE_def AUX_SUBTYPE_NO_VALID_PTE_def AUX_SUBTYPE_INVALID_NONLEAF_def
  AUX_SUBTYPE_PERMISSION_def AUX_SUBTYPE_RESERVED_BIT_def AUX_SUBTYPE_CANONICAL_def

section \<open>Instruction fields\<close>

definition instruction_rd :: "u16 \<Rightarrow> 4 word" where "instruction_rd i = bslice 0 i"
definition instruction_rs1 :: "u16 \<Rightarrow> 4 word" where "instruction_rs1 i = bslice 4 i"
definition instruction_gp_imm4 :: "u16 \<Rightarrow> 4 word" where "instruction_gp_imm4 i = bslice 4 i"
definition instruction_ldi_imm8 :: "u16 \<Rightarrow> 8 word" where "instruction_ldi_imm8 i = bslice 4 i"
definition instruction_ls_offset2 :: "u16 \<Rightarrow> 2 word" where "instruction_ls_offset2 i = bslice 8 i"
definition instruction_gp_opcode :: "u16 \<Rightarrow> 5 word" where "instruction_gp_opcode i = bslice 8 i"
definition instruction_ls_opcode :: "u16 \<Rightarrow> 4 word" where "instruction_ls_opcode i = bslice 10 i"
definition instruction_ldi_shift :: "u16 \<Rightarrow> 2 word" where "instruction_ldi_shift i = bslice 12 i"
definition instruction_top3 :: "u16 \<Rightarrow> 3 word" where "instruction_top3 i = bslice 13 i"
definition instruction_top2 :: "u16 \<Rightarrow> 2 word" where "instruction_top2 i = bslice 14 i"

lemmas instruction_field_defs =
  instruction_rd_def instruction_rs1_def instruction_gp_imm4_def instruction_ldi_imm8_def
  instruction_ls_offset2_def instruction_gp_opcode_def instruction_ls_opcode_def
  instruction_ldi_shift_def instruction_top3_def instruction_top2_def

text \<open>The two- and three-bit format fields overlap: \<open>top2\<close> is the upper part of \<open>top3\<close>.\<close>

lemma top2_of_top3: "instruction_top2 i = bslice 1 (instruction_top3 i)"
  by (rule bit_word_eqI) (auto simp: instruction_field_defs bit_simps)

lemma top3_11x: "instruction_top2 i = 3 \<Longrightarrow> instruction_top3 i = 6 \<or> instruction_top3 i = 7"
proof -
  assume "instruction_top2 i = 3"
  then have "bslice 1 (instruction_top3 i) = (3 :: 2 word)" by (simp add: top2_of_top3)
  then have "\<And>n. bit (bslice 1 (instruction_top3 i) :: 2 word) n = bit (3 :: 2 word) n" by simp
  from this [of 0] this [of "Suc 0"] have "bit (instruction_top3 i) (Suc 0)" "bit (instruction_top3 i) 2"
    by (simp_all add: bit_simps numeral_2_eq_2)
  moreover have "instruction_top3 i = cat3 (bit (instruction_top3 i) 0) (bit (instruction_top3 i) (Suc 0)) (bit (instruction_top3 i) 2)"
    by simp
  ultimately have "instruction_top3 i = cat3 (bit (instruction_top3 i) 0) True True"
    by (simp del: cat3_bits)
  then show ?thesis by (cases "bit (instruction_top3 i) 0") (simp_all add: cat3_def)
qed

section \<open>Flags, branch conditions, canonical addresses, auxiliary codes\<close>

definition flag_value :: "u64 \<Rightarrow> bool \<Rightarrow> 3 word" where
  "flag_value result carry = cat3 (result = 0) carry (bit result 63)"

text \<open>Flag bit numbers \<open>FLAG_Z\<close>, \<open>FLAG_C\<close>, \<open>FLAG_S\<close> are 0, 1, 2.\<close>

definition ls_condition :: "3 word \<Rightarrow> ls_opcode \<Rightarrow> bool" where
  "ls_condition flags opcode =
     (let z = bit flags 0; c = bit flags 1; s = bit flags 2
      in if opcode = LS_JUMP_Z then z
         else if opcode = LS_JUMP_C then c
         else if opcode = LS_JUMP_S then s
         else if opcode = LS_JUMP_GT then \<not> z \<and> \<not> s
         else if opcode = LS_JUMP_LT then s
         else False)"

definition is_canonical39 :: "u64 \<Rightarrow> bool" where
  "is_canonical39 addr =
     (let sign_bit = bit addr 38; upper = (bslice 39 addr :: 25 word)
      in if sign_bit then upper = 2 ^ 25 - 1 else upper = 0)"

definition encode_aux :: "u64 \<Rightarrow> u64 \<Rightarrow> u64" where
  "encode_aux subtype level = subtype OR push_bit 8 level"

text \<open>A canonical address is the sign extension of its low 39 bits.\<close>

lemma is_canonical39_iff_bits:
  "is_canonical39 addr \<longleftrightarrow> (\<forall>n. 39 \<le> n \<and> n < 64 \<longrightarrow> bit addr n = bit addr 38)"
proof -
  have up: "(bslice 39 addr :: 25 word) = v \<longleftrightarrow> (\<forall>n < 25. bit addr (39 + n) = bit v n)" for v
    by (auto simp: bit_eq_iff bit_simps dest: bit_imp_le_length)
  have m1: "(2 ^ 25 - 1 :: 25 word) = - 1" by simp
  have shift: "(\<forall>n < 25. bit addr (39 + n) = b) \<longleftrightarrow> (\<forall>n. 39 \<le> n \<and> n < 64 \<longrightarrow> bit addr n = b)" for b
  proof
    assume l: "\<forall>n < 25. bit addr (39 + n) = b"
    show "\<forall>n. 39 \<le> n \<and> n < 64 \<longrightarrow> bit addr n = b"
    proof (intro allI impI)
      fix n :: nat assume n: "39 \<le> n \<and> n < 64"
      then have "n - 39 < 25" by arith
      with n l [rule_format, of "n - 39"] show "bit addr n = b" by simp
    qed
  qed auto
  show ?thesis
  proof (cases "bit addr 38")
    case True
    then have "is_canonical39 addr \<longleftrightarrow> (\<forall>n < 25. bit addr (39 + n) = True)"
      by (simp only: is_canonical39_def Let_def if_True m1 up) simp
    with True shift [of True] show ?thesis by simp
  next
    case False
    then have "is_canonical39 addr \<longleftrightarrow> (\<forall>n < 25. bit addr (39 + n) = False)"
      by (simp only: is_canonical39_def Let_def up if_False) auto
    with False shift [of False] show ?thesis by simp
  qed
qed

text \<open>
  The canonical-address test accepts exactly the 64-bit addresses that are the sign extension of
  their low 39 bits.
\<close>

lemma is_canonical39_sign_extend:
  "is_canonical39 addr \<longleftrightarrow> addr = sign_extend (bslice 0 addr :: 39 word)"
  by (auto simp: is_canonical39_iff_bits bit_eq_iff bit_sign_extend bit_simps min_def not_le
      dest: bit_imp_le_length)

end
