(* ===== verification/Config.thy ===== *)
theory Config
  imports Prelude
begin

text \<open>
  \<open>config.py\<close> and \<open>variants.py\<close>: the core configuration record, the checks its
  constructor makes (each raised \<open>ValueError\<close> a value of \<open>config_error\<close>, in the
  order of the code) and the resolution of LiteX CPU variant names.
\<close>

section \<open>The configuration record\<close>

datatype core_variant = V_basic | V_v2 | V_v3 | V_v4 | V_other string
datatype cache_topology = C_none | C_unified | C_split | C_other string

definition SUPPORTED_CORE_VARIANTS :: "core_variant list" where
  "SUPPORTED_CORE_VARIANTS = [V_basic, V_v2, V_v3, V_v4]"

definition CACHE_TOPOLOGIES :: "cache_topology list" where
  "CACHE_TOPOLOGIES = [C_none, C_unified, C_split]"

definition DEFAULT_CORE_VARIANT :: core_variant where "DEFAULT_CORE_VARIANT = V_v4"
definition DEFAULT_BUS_TIMEOUT_CYCLES :: int where "DEFAULT_BUS_TIMEOUT_CYCLES = 1024"

record core_config =
  instruction_bus_width :: int
  data_bus_width :: int
  address_width :: int
  core_variant_of :: core_variant
  cache_topology_of :: cache_topology
  enable_mmu :: bool
  enable_tlb :: bool
  tlb_entries :: int
  optional_platform_registers :: bool
  irq_input_count :: int
  reset_vector :: int
  bus_timeout_cycles :: int

definition default_config :: core_config where
  "default_config = \<lparr>
     instruction_bus_width = 64, data_bus_width = 64, address_width = 64,
     core_variant_of = DEFAULT_CORE_VARIANT, cache_topology_of = C_none,
     enable_mmu = True, enable_tlb = True, tlb_entries = 64,
     optional_platform_registers = False, irq_input_count = 63, reset_vector = 0,
     bus_timeout_cycles = DEFAULT_BUS_TIMEOUT_CYCLES \<rparr>"

datatype config_error =
    Bad_instruction_bus | Bad_data_bus | Bad_address_width | Bad_core_variant | Bad_cache_topology
  | Bad_basic_cache | Bad_irq_count | Bad_tlb_entries_min | Bad_tlb_entries_pow2
  | Bad_tlb_disabled | Bad_reset_vector | Bad_bus_timeout

text \<open>\<open>__post_init__\<close>: the first failing check is the one that is raised.\<close>

definition check_config :: "core_config \<Rightarrow> config_error + core_config" where
  "check_config c =
     (if instruction_bus_width c \<noteq> 64 then Inl Bad_instruction_bus
      else if data_bus_width c \<noteq> 64 then Inl Bad_data_bus
      else if address_width c < 39 then Inl Bad_address_width
      else if core_variant_of c \<notin> set SUPPORTED_CORE_VARIANTS then Inl Bad_core_variant
      else if cache_topology_of c \<notin> set CACHE_TOPOLOGIES then Inl Bad_cache_topology
      else if core_variant_of c = V_basic \<and> cache_topology_of c \<noteq> C_none then Inl Bad_basic_cache
      else if irq_input_count c < 1 \<or> irq_input_count c > 63 then Inl Bad_irq_count
      else if enable_tlb c \<and> tlb_entries c < 2 then Inl Bad_tlb_entries_min
      else if enable_tlb c \<and> tlb_entries c AND (tlb_entries c - 1) \<noteq> 0 then Inl Bad_tlb_entries_pow2
      else if \<not> enable_tlb c \<and> tlb_entries c \<noteq> 0 then Inl Bad_tlb_disabled
      else if reset_vector c AND 1 \<noteq> 0 then Inl Bad_reset_vector
      else if bus_timeout_cycles c < 0 then Inl Bad_bus_timeout
      else Inr c)"

definition first_irq_vector :: "core_config \<Rightarrow> int" where "first_irq_vector c = 65"

definition last_irq_vector :: "core_config \<Rightarrow> int" where
  "last_irq_vector c = first_irq_vector c + irq_input_count c - 1"

section \<open>LiteX variants\<close>

definition LITEX_CPU_VARIANT_CONFIGS :: "(string \<times> core_variant \<times> cache_topology) list" where
  "LITEX_CPU_VARIANT_CONFIGS = [
     (''standard'', DEFAULT_CORE_VARIANT, C_none),
     (''standard-basic'', V_basic, C_none),
     (''standard-v2'', V_v2, C_none),
     (''standard-v2-none'', V_v2, C_none),
     (''standard-v2-unified'', V_v2, C_unified),
     (''standard-v2-split'', V_v2, C_split),
     (''standard-v3'', V_v3, C_none),
     (''standard-v3-none'', V_v3, C_none),
     (''standard-v3-unified'', V_v3, C_unified),
     (''standard-v3-split'', V_v3, C_split),
     (''standard-v4'', V_v4, C_none),
     (''standard-v4-none'', V_v4, C_none),
     (''standard-v4-unified'', V_v4, C_unified),
     (''standard-v4-split'', V_v4, C_split)]"

datatype variant_error = Unsupported_variant string | Bad_config config_error

definition resolve_litex_core_variant :: "string \<Rightarrow> variant_error + core_variant" where
  "resolve_litex_core_variant v =
     (case map_of LITEX_CPU_VARIANT_CONFIGS v of None \<Rightarrow> Inl (Unsupported_variant v) | Some (c, t) \<Rightarrow> Inr c)"

definition resolve_litex_cache_topology :: "string \<Rightarrow> variant_error + cache_topology" where
  "resolve_litex_cache_topology v =
     (case map_of LITEX_CPU_VARIANT_CONFIGS v of None \<Rightarrow> Inl (Unsupported_variant v) | Some (c, t) \<Rightarrow> Inr t)"

definition config_for_litex_variant :: "string \<Rightarrow> int \<Rightarrow> variant_error + core_config" where
  "config_for_litex_variant v reset =
     (case resolve_litex_core_variant v of
        Inl e \<Rightarrow> Inl e
      | Inr c \<Rightarrow>
         (case resolve_litex_cache_topology v of
            Inl e \<Rightarrow> Inl e
          | Inr t \<Rightarrow>
             (case check_config (default_config\<lparr>reset_vector := reset, core_variant_of := c,
                                                cache_topology_of := t\<rparr>) of
                Inl e \<Rightarrow> Inl (Bad_config e)
              | Inr cfg \<Rightarrow> Inr cfg)))"

section \<open>What an accepted configuration guarantees\<close>

text \<open>\<open>n AND (n - 1) = 0\<close> is the power-of-two test.\<close>

lemma nat_and_pred_zero_pow2:
  "0 < n \<Longrightarrow> n AND (n - 1) = (0::nat) \<Longrightarrow> \<exists>k. n = 2 ^ k"
proof (induction n rule: less_induct)
  case (less n)
  show ?case
  proof (cases "n = 1")
    case True
    then show ?thesis by (metis power_0)
  next
    case False
    have ev: "even n"
    proof (rule ccontr)
      assume "odd n"
      with False less.prems have "n - 1 \<noteq> 0" "n div 2 = (n - 1) div 2" by presburger+
      then have "(n AND (n - 1)) div 2 = n div 2"
        by (simp add: and_nat_rec [of n])
      with less.prems False \<open>odd n\<close> have "n div 2 = 0" by simp
      with False \<open>odd n\<close> show False by presburger
    qed
    with less.prems have h: "n div 2 < n" "0 < n div 2" "(n - 1) div 2 = n div 2 - 1" by presburger+
    have "n AND (n - 1) = 2 * ((n div 2) AND ((n - 1) div 2))"
      using ev by (subst and_nat_rec) simp
    with less.prems h have "(n div 2) AND (n div 2 - 1) = 0" by simp
    with less.IH h obtain k where "n div 2 = 2 ^ k" by blast
    with ev have "n = 2 ^ Suc k" by auto
    then show ?thesis by blast
  qed
qed

lemma int_and_pred_zero_pow2:
  assumes "2 \<le> (n::int)" and "n AND (n - 1) = 0"
  shows "\<exists>k. nat n = 2 ^ k"
proof -
  from assms obtain m where m: "n = int m" "2 \<le> m" by (cases n) auto
  then have "int (m AND (m - 1)) = n AND (n - 1)"
    by (simp add: of_nat_and_eq of_nat_diff)
  with assms have "m AND (m - 1) = 0" by simp
  with m have "\<exists>k. m = 2 ^ k" by (intro nat_and_pred_zero_pow2) simp_all
  with m show ?thesis by simp
qed

lemma check_config_Inr:
  assumes "check_config c = Inr c'"
  shows "c' = c"
    and "enable_tlb c \<Longrightarrow> 2 \<le> tlb_entries c \<and> tlb_entries c AND (tlb_entries c - 1) = 0"
    and "1 \<le> irq_input_count c \<and> irq_input_count c \<le> 63"
    and "even (reset_vector c)"
    and "39 \<le> address_width c"
  using assms by (auto simp: check_config_def and_one_eq split: if_splits)

text \<open>An accepted configuration is returned unchanged, and its fields are in range.\<close>

text \<open>
  A configuration accepted by the constructor is unchanged and has a power-of-two
  TLB when enabled, interrupt vectors between 66 and 127, an even reset vector and at least 39
  address bits.
\<close>

lemma config_accepted:
  assumes "check_config c = Inr c'"
  shows "c' = c \<and> (enable_tlb c \<longrightarrow> (\<exists>k. nat (tlb_entries c) = 2 ^ k)) \<and>
     65 < last_irq_vector c + 1 \<and> last_irq_vector c \<le> 127 \<and> even (reset_vector c) \<and> 39 \<le> address_width c"
  using check_config_Inr [OF assms] int_and_pred_zero_pow2 [of "tlb_entries c"]
  by (auto simp: last_irq_vector_def first_irq_vector_def)

lemma config_accepted_witness:
  "check_config default_config = Inr default_config \<and> last_irq_vector default_config \<le> 127"
proof -
  have c: "check_config default_config = Inr default_config" by code_simp
  with config_accepted [OF c] show ?thesis by blast
qed

text \<open>Every documented variant name resolves to an accepted configuration of its core and cache.\<close>

lemma check_variant:
  assumes "even reset" and "c = V_basic \<longrightarrow> t = C_none" and "c \<in> set SUPPORTED_CORE_VARIANTS"
    and "t \<in> set CACHE_TOPOLOGIES"
  shows "check_config (default_config\<lparr>reset_vector := reset, core_variant_of := c, cache_topology_of := t\<rparr>) =
     Inr (default_config\<lparr>reset_vector := reset, core_variant_of := c, cache_topology_of := t\<rparr>)"
proof -
  have "(64 :: int) AND 63 = 0" "reset AND 1 = 0" using assms(1) by (simp_all add: and_one_eq)
  then show ?thesis using assms(2-4)
    by (cases "c = V_basic") (simp_all add: check_config_def default_config_def DEFAULT_BUS_TIMEOUT_CYCLES_def)
qed

lemma variant_names: "distinct (map fst LITEX_CPU_VARIANT_CONFIGS)"
  by code_simp

lemma variant_pairs:
  "(v, c, t) \<in> set LITEX_CPU_VARIANT_CONFIGS \<Longrightarrow>
     (c = V_basic \<longrightarrow> t = C_none) \<and> c \<in> set SUPPORTED_CORE_VARIANTS \<and> t \<in> set CACHE_TOPOLOGIES"
proof -
  have "\<forall>x\<in>set LITEX_CPU_VARIANT_CONFIGS. (fst (snd x) = V_basic \<longrightarrow> snd (snd x) = C_none) \<and>
      fst (snd x) \<in> set SUPPORTED_CORE_VARIANTS \<and> snd (snd x) \<in> set CACHE_TOPOLOGIES" by code_simp
  then show "(v, c, t) \<in> set LITEX_CPU_VARIANT_CONFIGS \<Longrightarrow> ?thesis" by force
qed

text \<open>
  Every documented LiteX variant name resolves, for every even reset vector, to an accepted
  configuration with the core and cache topology of its table row.
\<close>

lemma litex_variants_resolve:
  assumes "(v, c, t) \<in> set LITEX_CPU_VARIANT_CONFIGS" and "even reset"
  shows "config_for_litex_variant v reset =
     Inr (default_config\<lparr>reset_vector := reset, core_variant_of := c, cache_topology_of := t\<rparr>)"
proof -
  have "map_of LITEX_CPU_VARIANT_CONFIGS v = Some (c, t)"
    by (rule map_of_is_SomeI [OF variant_names assms(1)])
  then show ?thesis
    using check_variant [OF assms(2)] variant_pairs [OF assms(1)]
    by (simp add: config_for_litex_variant_def resolve_litex_core_variant_def resolve_litex_cache_topology_def)
qed

lemma litex_variants_resolve_witness:
  "config_for_litex_variant ''standard-v3-split'' 0 =
     Inr (default_config\<lparr>reset_vector := 0, core_variant_of := V_v3, cache_topology_of := C_split\<rparr>)"
proof (rule litex_variants_resolve)
  show "(''standard-v3-split'', V_v3, C_split) \<in> set LITEX_CPU_VARIANT_CONFIGS" by code_simp
qed simp

end
