(* ===== verification/Special_Regs.thy ===== *)
theory Special_Regs
  imports Isa Config
begin

text \<open>
  The special-register file (\<open>basic/special_registers.py\<close>; the v2 and v3 files differ
  from it only in the class name): twenty 64-bit registers, the software port used by
  \<open>LSR\<close> and \<open>SSR\<close>, the privileged write ports the core drives on trap entry and
  \<open>IRET\<close>, and the latch of the interrupt lines.  \<open>sr_tick\<close> is one clock edge.
\<close>

section \<open>State and inputs\<close>

record special_regs =
  cpu_control :: u64
  page_table_root_physical :: u64
  boot_info_frame_physical :: u64
  boot_source_page_size :: u64
  boot_source_page_count :: u64
  hypercall_caps :: u64
  interrupt_table_base :: u64
  interrupt_mask :: u64
  interrupt_mask_high :: u64
  interrupt_states :: u64
  interrupt_states_high :: u64
  interrupt_epc :: u64
  interrupt_eflags :: u64
  interrupt_cpu_control :: u64
  trap_cause :: u64
  trap_fault_addr :: u64
  trap_access :: u64
  trap_pc :: u64
  trap_aux :: u64
  thread_pointer :: u64

definition sr_reset :: special_regs where
  "sr_reset = \<lparr>cpu_control = 0, page_table_root_physical = 0, boot_info_frame_physical = 0,
     boot_source_page_size = 0, boot_source_page_count = 0, hypercall_caps = 0,
     interrupt_table_base = 0, interrupt_mask = 0, interrupt_mask_high = 0, interrupt_states = 0,
     interrupt_states_high = 0, interrupt_epc = 0, interrupt_eflags = 0, interrupt_cpu_control = 0,
     trap_cause = 0, trap_fault_addr = 0, trap_access = 0, trap_pc = 0, trap_aux = 0,
     thread_pointer = 0\<rparr>"

text \<open>The write ports only the core drives; each is \<open>None\<close> when its strobe is low.\<close>

record trap_info =
  ti_cause :: u64
  ti_fault_addr :: u64
  ti_access :: u64
  ti_pc :: u64
  ti_aux :: u64

record core_strobes =
  core_cpu_control :: "u64 option"
  core_interrupt_cpu_control :: "u64 option"
  core_interrupt_epc :: "u64 option"
  core_interrupt_eflags :: "u64 option"
  core_trap :: "trap_info option"

definition no_strobes :: core_strobes where
  "no_strobes = \<lparr>core_cpu_control = None, core_interrupt_cpu_control = None,
     core_interrupt_epc = None, core_interrupt_eflags = None, core_trap = None\<rparr>"

text \<open>The software port: strobe, selector and data of an \<open>SSR\<close> in the execute state.\<close>

record sr_port =
  write_stb :: bool
  write_selector :: u16
  write_data :: u64

section \<open>Reads and access faults\<close>

definition trap_bank_read :: "special_regs \<Rightarrow> u16 \<Rightarrow> u64" where
  "trap_bank_read r sel =
     (case sr_of sel of
        Some TRAP_CAUSE \<Rightarrow> trap_cause r
      | Some TRAP_FAULT_ADDR \<Rightarrow> trap_fault_addr r
      | Some TRAP_ACCESS \<Rightarrow> trap_access r
      | Some TRAP_PC \<Rightarrow> trap_pc r
      | Some TRAP_AUX \<Rightarrow> trap_aux r
      | _ \<Rightarrow> 0)"

definition sr_read_data :: "core_config \<Rightarrow> special_regs \<Rightarrow> u16 \<Rightarrow> u64" where
  "sr_read_data cfg r sel =
     (let d = trap_bank_read r sel; plat = optional_platform_registers cfg in
      case sr_of sel of
        Some CPU_CONTROL \<Rightarrow> cpu_control r AND CPU_CONTROL_WRITABLE_MASK
      | Some PAGE_TABLE_ROOT_PHYSICAL \<Rightarrow> if enable_mmu cfg then page_table_root_physical r else d
      | Some BOOT_INFO_FRAME_PHYSICAL \<Rightarrow> if plat then boot_info_frame_physical r else d
      | Some BOOT_SOURCE_PAGE_SIZE \<Rightarrow> if plat then boot_source_page_size r else d
      | Some BOOT_SOURCE_PAGE_COUNT \<Rightarrow> if plat then boot_source_page_count r else d
      | Some HYPERCALL_CAPS \<Rightarrow> if plat then hypercall_caps r else d
      | Some INTERRUPT_TABLE_BASE \<Rightarrow> interrupt_table_base r
      | Some INTERRUPT_MASK \<Rightarrow> interrupt_mask r
      | Some INTERRUPT_MASK_HIGH \<Rightarrow> interrupt_mask_high r
      | Some INTERRUPT_STATES \<Rightarrow> interrupt_states r
      | Some INTERRUPT_STATES_HIGH \<Rightarrow> interrupt_states_high r
      | Some INTERRUPT_EPC \<Rightarrow> interrupt_epc r
      | Some INTERRUPT_EFLAGS \<Rightarrow> interrupt_eflags r
      | Some INTERRUPT_CPU_CONTROL \<Rightarrow> interrupt_cpu_control r AND CPU_CONTROL_WRITABLE_MASK
      | Some THREAD_POINTER \<Rightarrow> thread_pointer r
      | _ \<Rightarrow> d)"

definition sr_read_access_fault :: "bool \<Rightarrow> u16 \<Rightarrow> bool" where
  "sr_read_access_fault user_mode sel \<longleftrightarrow> user_mode \<and> sel \<noteq> sr_code THREAD_POINTER"

definition sr_write_access_fault :: "bool \<Rightarrow> sr_port \<Rightarrow> bool" where
  "sr_write_access_fault user_mode p \<longleftrightarrow>
     user_mode \<and> write_selector p \<noteq> sr_code THREAD_POINTER \<and> write_stb p"

section \<open>The clock edge\<close>

definition upd_if :: "'v option \<Rightarrow> ('v \<Rightarrow> 's \<Rightarrow> 's) \<Rightarrow> 's \<Rightarrow> 's" where
  "upd_if ov f s = (case ov of None \<Rightarrow> s | Some v \<Rightarrow> f v s)"

lemma upd_if_simps [simp]: "upd_if None f s = s" "upd_if (Some v) f s = f v s"
  by (simp_all add: upd_if_def)

definition trap_bank_tick :: "bool \<Rightarrow> sr_port \<Rightarrow> trap_info option \<Rightarrow> special_regs \<Rightarrow> special_regs" where
  "trap_bank_tick wen p core r =
     (case core of
        Some t \<Rightarrow> r\<lparr>trap_cause := ti_cause t, trap_fault_addr := ti_fault_addr t,
                     trap_access := ti_access t, trap_pc := ti_pc t, trap_aux := ti_aux t\<rparr>
      | None \<Rightarrow>
          (if wen then
             (case sr_of (write_selector p) of
                Some TRAP_CAUSE \<Rightarrow> r\<lparr>trap_cause := write_data p\<rparr>
              | Some TRAP_FAULT_ADDR \<Rightarrow> r\<lparr>trap_fault_addr := write_data p\<rparr>
              | Some TRAP_ACCESS \<Rightarrow> r\<lparr>trap_access := write_data p\<rparr>
              | Some TRAP_PC \<Rightarrow> r\<lparr>trap_pc := write_data p\<rparr>
              | Some TRAP_AUX \<Rightarrow> r\<lparr>trap_aux := write_data p\<rparr>
              | _ \<Rightarrow> r)
           else r))"

text \<open>The switch of the software write port over the registers outside the trap bank.\<close>

definition sr_write_switch ::
  "core_config \<Rightarrow> core_strobes \<Rightarrow> sr_port \<Rightarrow> u64 \<Rightarrow> special_regs \<Rightarrow> special_regs" where
  "sr_write_switch cfg c p irq_set r =
     (let v = write_data p; plat = optional_platform_registers cfg in
      case sr_of (write_selector p) of
        Some CPU_CONTROL \<Rightarrow>
          (if core_cpu_control c = None then r\<lparr>cpu_control := v AND CPU_CONTROL_WRITABLE_MASK\<rparr> else r)
      | Some PAGE_TABLE_ROOT_PHYSICAL \<Rightarrow>
          (if enable_mmu cfg then r\<lparr>page_table_root_physical := v\<rparr> else r)
      | Some BOOT_INFO_FRAME_PHYSICAL \<Rightarrow> (if plat then r\<lparr>boot_info_frame_physical := v\<rparr> else r)
      | Some BOOT_SOURCE_PAGE_SIZE \<Rightarrow> (if plat then r\<lparr>boot_source_page_size := v\<rparr> else r)
      | Some BOOT_SOURCE_PAGE_COUNT \<Rightarrow> (if plat then r\<lparr>boot_source_page_count := v\<rparr> else r)
      | Some HYPERCALL_CAPS \<Rightarrow> (if plat then r\<lparr>hypercall_caps := v\<rparr> else r)
      | Some INTERRUPT_TABLE_BASE \<Rightarrow> r\<lparr>interrupt_table_base := v\<rparr>
      | Some INTERRUPT_MASK \<Rightarrow> r\<lparr>interrupt_mask := v\<rparr>
      | Some INTERRUPT_MASK_HIGH \<Rightarrow> r\<lparr>interrupt_mask_high := v\<rparr>
      | Some INTERRUPT_STATES \<Rightarrow> r\<lparr>interrupt_states := v\<rparr>
      | Some INTERRUPT_STATES_HIGH \<Rightarrow> r\<lparr>interrupt_states_high := v OR irq_set\<rparr>
      | Some INTERRUPT_EPC \<Rightarrow> r\<lparr>interrupt_epc := v\<rparr>
      | Some INTERRUPT_EFLAGS \<Rightarrow>
          (if core_interrupt_eflags c = None then r\<lparr>interrupt_eflags := v\<rparr> else r)
      | Some INTERRUPT_CPU_CONTROL \<Rightarrow>
          (if core_interrupt_cpu_control c = None
           then r\<lparr>interrupt_cpu_control := v AND CPU_CONTROL_WRITABLE_MASK\<rparr> else r)
      | Some THREAD_POINTER \<Rightarrow> r\<lparr>thread_pointer := v\<rparr>
      | _ \<Rightarrow> r)"

text \<open>
  One edge: the core's ports first, then the software port (whose assignments come later
  in the source and so win), or, only when no software write is accepted in this cycle,
  the latch of the interrupt lines.
\<close>

definition sr_tick ::
  "core_config \<Rightarrow> bool \<Rightarrow> core_strobes \<Rightarrow> sr_port \<Rightarrow> u64 \<Rightarrow> special_regs \<Rightarrow> special_regs" where
  "sr_tick cfg user_mode c p irq_set r =
     (let wen = write_stb p \<and> \<not> sr_write_access_fault user_mode p;
          r1 = upd_if (core_cpu_control c) (\<lambda>v. cpu_control_update (\<lambda>_. v AND CPU_CONTROL_WRITABLE_MASK)) r;
          r2 = upd_if (core_interrupt_cpu_control c)
                 (\<lambda>v. interrupt_cpu_control_update (\<lambda>_. v AND CPU_CONTROL_WRITABLE_MASK)) r1;
          r3 = upd_if (core_interrupt_epc c) (\<lambda>v. interrupt_epc_update (\<lambda>_. v)) r2;
          r4 = upd_if (core_interrupt_eflags c) (\<lambda>v. interrupt_eflags_update (\<lambda>_. v)) r3;
          r5 = (if wen then sr_write_switch cfg c p irq_set r4
                else if irq_set \<noteq> 0 then r4\<lparr>interrupt_states_high := interrupt_states_high r OR irq_set\<rparr>
                else r4)
      in trap_bank_tick wen p (core_trap c) r5)"

definition sr_tlb_flush :: "core_config \<Rightarrow> bool \<Rightarrow> core_strobes \<Rightarrow> sr_port \<Rightarrow> bool" where
  "sr_tlb_flush cfg user_mode c p \<longleftrightarrow>
     core_cpu_control c \<noteq> None \<or>
     write_stb p \<and> \<not> sr_write_access_fault user_mode p \<and>
       (sr_of (write_selector p) = Some CPU_CONTROL \<and> core_cpu_control c = None \<or>
        sr_of (write_selector p) = Some PAGE_TABLE_ROOT_PHYSICAL \<and> enable_mmu cfg)"

section \<open>Well-formedness: reserved control bits stay clear\<close>

definition sr_wf :: "special_regs \<Rightarrow> bool" where
  "sr_wf r \<longleftrightarrow> cpu_control r AND CPU_CONTROL_WRITABLE_MASK = cpu_control r \<and>
     interrupt_cpu_control r AND CPU_CONTROL_WRITABLE_MASK = interrupt_cpu_control r"

lemma mask_idem [simp]: "(v AND m) AND m = (v AND m :: u64)"
  by (simp add: and.assoc)

lemma sr_wf_reset: "sr_wf sr_reset"
  by (simp add: sr_wf_def sr_reset_def)

lemma trap_bank_tick_frame [simp]:
  "cpu_control (trap_bank_tick wen p t r) = cpu_control r"
  "interrupt_cpu_control (trap_bank_tick wen p t r) = interrupt_cpu_control r"
  "page_table_root_physical (trap_bank_tick wen p t r) = page_table_root_physical r"
  "interrupt_table_base (trap_bank_tick wen p t r) = interrupt_table_base r"
  "interrupt_mask_high (trap_bank_tick wen p t r) = interrupt_mask_high r"
  "interrupt_states_high (trap_bank_tick wen p t r) = interrupt_states_high r"
  "interrupt_epc (trap_bank_tick wen p t r) = interrupt_epc r"
  "interrupt_eflags (trap_bank_tick wen p t r) = interrupt_eflags r"
  "thread_pointer (trap_bank_tick wen p t r) = thread_pointer r"
  by (simp_all add: trap_bank_tick_def split: option.split special_register.split)

lemma sr_write_switch_wf: "sr_wf r \<Longrightarrow> sr_wf (sr_write_switch cfg c p s r)"
  by (simp add: sr_write_switch_def sr_wf_def Let_def split: option.split special_register.split)

lemma sr_tick_wf: "sr_wf r \<Longrightarrow> sr_wf (sr_tick cfg u c p s r)"
proof -
  assume wf: "sr_wf r"
  have "sr_wf (upd_if (core_interrupt_eflags c) (\<lambda>v. interrupt_eflags_update (\<lambda>_. v))
     (upd_if (core_interrupt_epc c) (\<lambda>v. interrupt_epc_update (\<lambda>_. v))
       (upd_if (core_interrupt_cpu_control c)
         (\<lambda>v. interrupt_cpu_control_update (\<lambda>_. v AND CPU_CONTROL_WRITABLE_MASK))
         (upd_if (core_cpu_control c) (\<lambda>v. cpu_control_update (\<lambda>_. v AND CPU_CONTROL_WRITABLE_MASK)) r))))"
    (is "sr_wf ?r4")
    using wf by (simp add: sr_wf_def upd_if_def split: option.split)
  then have "sr_wf (sr_write_switch cfg c p s ?r4)" by (rule sr_write_switch_wf)
  with \<open>sr_wf ?r4\<close> show ?thesis
    by (simp add: sr_tick_def Let_def sr_wf_def)
qed

section \<open>The software port as a register bank\<close>

text \<open>
  The contract software relies on: reading a register gives the last value written to
  it, normalised, and no write disturbs another register.
\<close>

locale register_bank =
  fixes rd :: "'s \<Rightarrow> 'r \<Rightarrow> 'v"
    and wr :: "'r \<Rightarrow> 'v \<Rightarrow> 's \<Rightarrow> 's"
    and norm :: "'r \<Rightarrow> 'v \<Rightarrow> 'v"
  assumes read_own: "rd (wr r v s) r = norm r v"
    and read_other: "r \<noteq> r' \<Longrightarrow> rd (wr r v s) r' = rd s r'"
begin

lemma read_after_writes:
  "rd (fold (\<lambda>(r, v). wr r v) ws s) r =
     (case map_of (rev ws) r of None \<Rightarrow> rd s r | Some v \<Rightarrow> norm r v)"
proof (induction ws rule: rev_induct)
  case Nil
  show ?case by simp
next
  case (snoc w ws)
  obtain r' v where w: "w = (r', v)" by (cases w)
  show ?case
    by (cases "r = r'") (simp_all add: w snoc read_own read_other)
qed

lemma write_twice: "rd (wr r v (wr r u s)) q = rd (wr r v s) q"
  by (cases "q = r") (simp_all add: read_own read_other)

end

text \<open>A supervisor \<open>SSR\<close> in a cycle with no trap entry and no interrupt line raised.\<close>

definition ssr_port :: "special_register \<Rightarrow> u64 \<Rightarrow> sr_port" where
  "ssr_port r v = \<lparr>write_stb = True, write_selector = sr_code r, write_data = v\<rparr>"

definition sr_supervisor_write :: "core_config \<Rightarrow> special_register \<Rightarrow> u64 \<Rightarrow> special_regs \<Rightarrow> special_regs" where
  "sr_supervisor_write cfg r v s = sr_tick cfg False no_strobes (ssr_port r v) 0 s"

definition sr_norm :: "core_config \<Rightarrow> special_register \<Rightarrow> u64 \<Rightarrow> u64" where
  "sr_norm cfg r v =
     (if r = CPU_CONTROL \<or> r = INTERRUPT_CPU_CONTROL then v AND CPU_CONTROL_WRITABLE_MASK
      else if r = PAGE_TABLE_ROOT_PHYSICAL then (if enable_mmu cfg then v else 0)
      else if r \<in> {BOOT_INFO_FRAME_PHYSICAL, BOOT_SOURCE_PAGE_SIZE, BOOT_SOURCE_PAGE_COUNT, HYPERCALL_CAPS}
        then (if optional_platform_registers cfg then v else 0)
      else v)"

lemmas sr_unfold = sr_tick_def sr_write_switch_def trap_bank_tick_def sr_read_data_def
  trap_bank_read_def no_strobes_def ssr_port_def sr_write_access_fault_def Let_def

lemma sr_supervisor_read_own:
  "sr_read_data cfg (sr_supervisor_write cfg r v s) (sr_code r) = sr_norm cfg r v"
  by (cases r) (simp_all add: sr_supervisor_write_def sr_unfold sr_norm_def del: sr_code.simps)

lemma sr_supervisor_read_other:
  "r \<noteq> r' \<Longrightarrow> sr_read_data cfg (sr_supervisor_write cfg r v s) (sr_code r') = sr_read_data cfg s (sr_code r')"
  by (cases r; cases r') (simp_all add: sr_supervisor_write_def sr_unfold del: sr_code.simps)

interpretation sr_bank: register_bank
  "\<lambda>s r. sr_read_data cfg s (sr_code r)" "sr_supervisor_write cfg" "sr_norm cfg" for cfg
  by unfold_locales (rule sr_supervisor_read_own, rule sr_supervisor_read_other)

section \<open>User mode\<close>

text \<open>
  A user-mode write to any special register but the thread pointer changes no register.
\<close>

lemma user_write_confined:
  "write_selector p \<noteq> sr_code THREAD_POINTER \<Longrightarrow> sr_tick cfg True no_strobes p 0 s = s"
  by (simp add: sr_tick_def sr_write_access_fault_def no_strobes_def trap_bank_tick_def Let_def)

lemma user_write_confined_witness:
  "sr_tick default_config True no_strobes \<lparr>write_stb = True, write_selector = 0, write_data = 7\<rparr> 0 sr_reset = sr_reset"
  by (rule user_write_confined) (simp add: sr_code.simps)

section \<open>Every reachable register file\<close>

text \<open>Whatever the core, the software port and the interrupt lines did since reset.\<close>

text \<open>
  Property C39: Whatever the core, the software port and the interrupt lines drive from reset on,
  the control register and its saved copy keep every read-only bit clear.
\<close>

lemma special_registers_wf:
  "sr_wf (fold (\<lambda>(user, strobes, port, irqs). sr_tick cfg user strobes port irqs) edges sr_reset)"
  by (induction edges rule: rev_induct) (auto simp: sr_wf_reset sr_tick_wf)

text \<open>
  After any supervisor writes, a special register reads as the last value written to
  it, masked where the register is masked, and as before where it was not written.
\<close>

lemma special_register_read_after_writes:
  "sr_read_data cfg (fold (\<lambda>(r, v). sr_supervisor_write cfg r v) ws s) (sr_code r) =
     (case map_of (rev ws) r of None \<Rightarrow> sr_read_data cfg s (sr_code r) | Some v \<Rightarrow> sr_norm cfg r v)"
  by (rule sr_bank.read_after_writes)

text \<open>
  An interrupt line that pulses in the cycle of an accepted software write to another
  register leaves no trace; without the write it is latched.
\<close>

text \<open>
  An interrupt line that pulses in the cycle of an accepted software write to
  another special register is not latched; in a cycle without such a write it is.
\<close>

lemma irq_pulse_lost:
  "interrupt_states_high (sr_tick cfg False no_strobes (ssr_port THREAD_POINTER v) irqs r) = interrupt_states_high r \<and>
   interrupt_states_high (sr_tick cfg False no_strobes \<lparr>write_stb = False, write_selector = 0, write_data = v\<rparr> irqs r) =
     interrupt_states_high r OR irqs"
  by (simp add: sr_unfold del: sr_code.simps)

end
