(* ===== verification/Tlb.thy ===== *)
theory Tlb
  imports Isa
begin

text \<open>
  The translation look-aside buffer of the basic core (\<open>basic/tlb.py\<close>): a direct-mapped
  memory of packed entries, a valid bit per entry and a generation counter that makes
  \<open>flush_all\<close> a one-cycle operation.  The core instantiates it with the default
  \<open>address_width\<close> 64 and \<open>generation_bits\<close> 8, so a page number has 52 bits and a packed
  entry 8 + 2 * 52 + 4 = 116 bits; the number of index bits stays a parameter.
\<close>

section \<open>State\<close>

type_synonym page = "52 word"

record tlb_perms =
  perm_read :: bool
  perm_write :: bool
  perm_execute :: bool
  perm_user :: bool

record tlb =
  tlb_generation :: "8 word"
  tlb_valid :: "nat \<Rightarrow> bool"
  entry_mem :: "nat \<Rightarrow> 116 word"

definition tlb_reset :: tlb where
  "tlb_reset = \<lparr>tlb_generation = 0, tlb_valid = (\<lambda>_. False), entry_mem = (\<lambda>_. 0)\<rparr>"

section \<open>Packed entries\<close>

definition pack_entry :: "8 word \<Rightarrow> page \<Rightarrow> page \<Rightarrow> tlb_perms \<Rightarrow> 116 word" where
  "pack_entry g vtag ppage p =
     ucast g OR push_bit 8 (ucast vtag) OR push_bit 60 (ucast ppage) OR
     push_bit 112 (of_bool (perm_read p)) OR push_bit 113 (of_bool (perm_write p)) OR
     push_bit 114 (of_bool (perm_execute p)) OR push_bit 115 (of_bool (perm_user p))"

definition entry_generation :: "116 word \<Rightarrow> 8 word" where "entry_generation e = bslice 0 e"
definition entry_vtag :: "116 word \<Rightarrow> page" where "entry_vtag e = bslice 8 e"
definition entry_ppage :: "116 word \<Rightarrow> page" where "entry_ppage e = bslice 60 e"
definition entry_perms :: "116 word \<Rightarrow> tlb_perms" where
  "entry_perms e = \<lparr>perm_read = bit e 112, perm_write = bit e 113, perm_execute = bit e 114, perm_user = bit e 115\<rparr>"

lemma bit_pack_entry:
  "bit (pack_entry g vtag ppage p) n \<longleftrightarrow>
     (if n < 8 then bit g n
      else if n < 60 then bit vtag (n - 8)
      else if n < 112 then bit ppage (n - 60)
      else if n = 112 then perm_read p else if n = 113 then perm_write p
      else if n = 114 then perm_execute p else if n = 115 then perm_user p else False)"
proof -
  have "\<not> bit g m" if "8 \<le> m" for m using that by (auto dest: bit_imp_le_length)
  moreover have "\<not> bit vtag m" if "52 \<le> m" for m using that by (auto dest: bit_imp_le_length)
  moreover have "\<not> bit ppage m" if "52 \<le> m" for m using that by (auto dest: bit_imp_le_length)
  ultimately show ?thesis
    by (auto simp: pack_entry_def bit_simps not_less)
qed

lemma unpack_pack [simp]:
  "entry_generation (pack_entry g vtag ppage p) = g"
  "entry_vtag (pack_entry g vtag ppage p) = vtag"
  "entry_ppage (pack_entry g vtag ppage p) = ppage"
  "entry_perms (pack_entry g vtag ppage p) = p"
  by (rule bit_word_eqI, simp add: entry_generation_def bit_bslice bit_pack_entry)
    (rule bit_word_eqI, simp add: entry_vtag_def bit_bslice bit_pack_entry,
     rule bit_word_eqI, simp add: entry_ppage_def bit_bslice bit_pack_entry,
     simp add: entry_perms_def bit_pack_entry)

section \<open>Operations\<close>

definition page_of :: "u64 \<Rightarrow> page" where "page_of addr = bslice 12 addr"
definition page_offset :: "u64 \<Rightarrow> 12 word" where "page_offset addr = bslice 0 addr"

definition tlb_index :: "nat \<Rightarrow> page \<Rightarrow> nat" where
  "tlb_index index_bits vpage = unat (take_bit index_bits vpage)"

definition lookup_hit :: "nat \<Rightarrow> tlb \<Rightarrow> u64 \<Rightarrow> bool" where
  "lookup_hit ib t vaddr =
     (let i = tlb_index ib (page_of vaddr); e = entry_mem t i
      in tlb_valid t i \<and> entry_generation e = tlb_generation t \<and> entry_vtag e = page_of vaddr)"

definition lookup_paddr :: "nat \<Rightarrow> tlb \<Rightarrow> u64 \<Rightarrow> u64" where
  "lookup_paddr ib t vaddr =
     push_bit 12 (ucast (entry_ppage (entry_mem t (tlb_index ib (page_of vaddr)))))
     OR ucast (page_offset vaddr)"

definition lookup_perms :: "nat \<Rightarrow> tlb \<Rightarrow> u64 \<Rightarrow> tlb_perms" where
  "lookup_perms ib t vaddr = entry_perms (entry_mem t (tlb_index ib (page_of vaddr)))"

definition tlb_flush_all :: "tlb \<Rightarrow> tlb" where
  "tlb_flush_all t =
     (if tlb_generation t = 2 ^ 8 - 1 then t\<lparr>tlb_generation := 0, tlb_valid := (\<lambda>_. False)\<rparr>
      else t\<lparr>tlb_generation := tlb_generation t + 1\<rparr>)"

definition tlb_fill :: "nat \<Rightarrow> page \<Rightarrow> page \<Rightarrow> tlb_perms \<Rightarrow> tlb \<Rightarrow> tlb" where
  "tlb_fill ib vpage ppage p t =
     (let i = tlb_index ib vpage
      in t\<lparr>tlb_valid := (tlb_valid t)(i := True),
          entry_mem := (entry_mem t)(i := pack_entry (tlb_generation t) vpage ppage p)\<rparr>)"

text \<open>One edge: a flush wins over a fill requested in the same cycle.\<close>

definition tlb_tick :: "nat \<Rightarrow> bool \<Rightarrow> (page \<times> page \<times> tlb_perms) option \<Rightarrow> tlb \<Rightarrow> tlb" where
  "tlb_tick ib flush fill t =
     (if flush then tlb_flush_all t
      else case fill of Some (v, p, q) \<Rightarrow> tlb_fill ib v p q t | None \<Rightarrow> t)"

section \<open>The contract of a translation cache\<close>

text \<open>
  What the page walker and the translate states rely on, whatever the organisation of
  the cache: a flush forgets everything, a fill is found again, and a fill never
  invents or changes an entry for another page.
\<close>

locale translation_cache =
  fixes lookup :: "'t \<Rightarrow> 'v \<Rightarrow> 'e option"
    and flush :: "'t \<Rightarrow> 't"
    and fill :: "'v \<Rightarrow> 'e \<Rightarrow> 't \<Rightarrow> 't"
    and invar :: "'t \<Rightarrow> bool"
  assumes lookup_flush: "invar t \<Longrightarrow> lookup (flush t) v = None"
    and lookup_fill: "invar t \<Longrightarrow> lookup (fill v e t) v = Some e"
    and lookup_fill_other: "invar t \<Longrightarrow> v \<noteq> w \<Longrightarrow> lookup (fill v e t) w \<noteq> None \<Longrightarrow>
           lookup (fill v e t) w = lookup t w"
    and invar_flush: "invar t \<Longrightarrow> invar (flush t)"
    and invar_fill: "invar t \<Longrightarrow> invar (fill v e t)"
begin

definition coherent :: "('v \<Rightarrow> 'e \<Rightarrow> bool) \<Rightarrow> 't \<Rightarrow> bool" where
  "coherent R t \<longleftrightarrow> invar t \<and> (\<forall>v e. lookup t v = Some e \<longrightarrow> R v e)"

lemma coherent_flush: "invar t \<Longrightarrow> coherent R (flush t)"
  by (simp add: coherent_def lookup_flush invar_flush)

lemma coherent_fill: "coherent R t \<Longrightarrow> R v e \<Longrightarrow> coherent R (fill v e t)"
  unfolding coherent_def
  by (metis invar_fill lookup_fill lookup_fill_other option.distinct(1) option.inject)

text \<open>After any run of fills the cache holds, for each page, its last fill or nothing.\<close>

lemma lookup_fills:
  "invar t \<Longrightarrow> lookup (fold (\<lambda>(v, e). fill v e) fs (flush t)) w = Some e \<Longrightarrow>
     map_of (rev fs) w = Some e"
proof -
  assume t: "invar t"
  have "invar (fold (\<lambda>(v, e). fill v e) fs (flush t)) \<and>
    (\<forall>w e. lookup (fold (\<lambda>(v, e). fill v e) fs (flush t)) w = Some e \<longrightarrow> map_of (rev fs) w = Some e)"
  proof (induction fs rule: rev_induct)
    case Nil
    from t show ?case by (simp add: lookup_flush invar_flush)
  next
    case (snoc f fs)
    obtain v d where f: "f = (v, d)" by (cases f)
    from snoc.IH show ?case
      by (auto simp: f invar_fill lookup_fill dest: lookup_fill_other) (metis lookup_fill_other option.distinct(1))
  qed
  then show "lookup (fold (\<lambda>(v, e). fill v e) fs (flush t)) w = Some e \<Longrightarrow> map_of (rev fs) w = Some e"
    by blast
qed

end

section \<open>The basic TLB meets the contract\<close>

text \<open>
  The invariant behind generation flushing: a valid entry never carries a generation
  from the future, so after the increment no valid entry matches, and the wrap of the
  counter clears every valid bit.
\<close>

definition tlb_inv :: "tlb \<Rightarrow> bool" where
  "tlb_inv t \<longleftrightarrow> (\<forall>i. tlb_valid t i \<longrightarrow> entry_generation (entry_mem t i) \<le> tlb_generation t)"

definition tlb_lookup :: "nat \<Rightarrow> tlb \<Rightarrow> page \<Rightarrow> (page \<times> tlb_perms) option" where
  "tlb_lookup ib t vpage =
     (let i = tlb_index ib vpage; e = entry_mem t i
      in if tlb_valid t i \<and> entry_generation e = tlb_generation t \<and> entry_vtag e = vpage
         then Some (entry_ppage e, entry_perms e) else None)"

lemma lookup_hit_iff: "lookup_hit ib t vaddr \<longleftrightarrow> tlb_lookup ib t (page_of vaddr) \<noteq> None"
  by (simp add: lookup_hit_def tlb_lookup_def Let_def)

lemma lookup_outputs:
  "tlb_lookup ib t (page_of vaddr) = Some (pp, q) \<Longrightarrow>
     lookup_perms ib t vaddr = q \<and>
     lookup_paddr ib t vaddr = push_bit 12 (ucast pp) OR ucast (page_offset vaddr)"
  by (auto simp: tlb_lookup_def lookup_perms_def lookup_paddr_def Let_def split: if_splits)

lemma word8_less_succ: "(g :: 8 word) \<noteq> 255 \<Longrightarrow> g < g + 1"
proof -
  assume "g \<noteq> 255"
  then have "unat g \<noteq> 255" by unat_arith
  moreover have "unat g < 256" using unsigned_less [of g] by simp
  ultimately show ?thesis by (simp add: word_less_nat_alt unat_word_ariths)
qed

lemma tlb_inv_reset: "tlb_inv tlb_reset"
  by (simp add: tlb_inv_def tlb_reset_def)

lemma tlb_inv_flush: "tlb_inv t \<Longrightarrow> tlb_inv (tlb_flush_all t)"
  by (auto simp: tlb_inv_def tlb_flush_all_def intro: order_trans less_imp_le [OF word8_less_succ])

lemma tlb_inv_fill: "tlb_inv t \<Longrightarrow> tlb_inv (tlb_fill ib v p q t)"
  by (auto simp: tlb_inv_def tlb_fill_def Let_def)

lemma tlb_lookup_flush: "tlb_inv t \<Longrightarrow> tlb_lookup ib (tlb_flush_all t) v = None"
proof -
  assume inv: "tlb_inv t"
  show ?thesis
  proof (cases "tlb_generation t = 255")
    case True
    then show ?thesis by (simp add: tlb_flush_all_def tlb_lookup_def Let_def)
  next
    case False
    have "entry_generation (entry_mem t i) \<noteq> tlb_generation t + 1" if "tlb_valid t i" for i
      using inv that word8_less_succ [OF False] by (auto simp: tlb_inv_def dest!: spec [of _ i])
    then show ?thesis using False by (auto simp: tlb_flush_all_def tlb_lookup_def Let_def)
  qed
qed

lemma tlb_lookup_fill: "tlb_lookup ib (tlb_fill ib v p q t) v = Some (p, q)"
  by (simp add: tlb_lookup_def tlb_fill_def Let_def)

lemma tlb_lookup_fill_other:
  "v \<noteq> w \<Longrightarrow> tlb_lookup ib (tlb_fill ib v p q t) w \<noteq> None \<Longrightarrow>
     tlb_lookup ib (tlb_fill ib v p q t) w = tlb_lookup ib t w"
  by (cases "tlb_index ib v = tlb_index ib w") (simp_all add: tlb_lookup_def tlb_fill_def Let_def)

interpretation basic_tlb: translation_cache
  "tlb_lookup ib" tlb_flush_all "\<lambda>v e. tlb_fill ib v (fst e) (snd e)" tlb_inv for ib
  by unfold_locales
    (auto simp: tlb_lookup_flush tlb_lookup_fill tlb_inv_flush tlb_inv_fill dest: tlb_lookup_fill_other)

section \<open>What a hit means\<close>

text \<open>After a flush and any fills, a hit on the ports is the last fill of that page.\<close>

text \<open>
  After a flush and any fills, a hit of the basic TLB reports the physical page and
  permissions of the last fill of that very page; nothing from before the flush is ever reported,
  the generation counter's wrap included.
\<close>

lemma tlb_hit_is_last_fill:
  assumes "tlb_inv t" and "t' = fold (\<lambda>(v, e). tlb_fill ib v (fst e) (snd e)) fills (tlb_flush_all t)"
    and "lookup_hit ib t' vaddr"
  shows "\<exists>p q. map_of (rev fills) (page_of vaddr) = Some (p, q) \<and> lookup_perms ib t' vaddr = q \<and>
     lookup_paddr ib t' vaddr = push_bit 12 (ucast p) OR ucast (page_offset vaddr)"
proof -
  obtain p q where "tlb_lookup ib t' (page_of vaddr) = Some (p, q)"
    using assms(3) by (auto simp: lookup_hit_iff)
  then show ?thesis
    using basic_tlb.lookup_fills [OF assms(1)] assms(2) lookup_outputs by blast
qed

lemma tlb_hit_is_last_fill_witness:
  "\<exists>p q. map_of (rev [(1, 2, \<lparr>perm_read = True, perm_write = False, perm_execute = False, perm_user = False\<rparr>)])
       (page_of 0x1008) = Some (p, q) \<and> p = (2 :: page)"
  using tlb_hit_is_last_fill [OF tlb_inv_reset refl, of 6
    "[(1, 2, \<lparr>perm_read = True, perm_write = False, perm_execute = False, perm_user = False\<rparr>)]" "0x1008"]
  by (simp add: lookup_hit_def tlb_fill_def tlb_flush_all_def tlb_reset_def tlb_index_def page_of_def bslice_def Let_def)

end
