(* ===== verification/Byte_Lanes.thy ===== *)
theory Byte_Lanes
  imports Prelude
begin

text \<open>
  The unaligned-access datapath: byte-lane selects and rotated write data of one or two
  64-bit bus beats, and the reassembly of read data.  The same formulas occur in the
  memory states of the basic core and in the load/store units of v2, v3 and v4.  They
  are related here to a byte-addressed little-endian memory.
\<close>

section \<open>A byte-addressed little-endian memory\<close>

fun load_le :: "nat \<Rightarrow> memory \<Rightarrow> u64 \<Rightarrow> u64" where
  "load_le 0 m a = 0"
| "load_le (Suc n) m a = ucast (m a) OR push_bit 8 (load_le n m (a + 1))"

definition store_le :: "nat \<Rightarrow> memory \<Rightarrow> u64 \<Rightarrow> u64 \<Rightarrow> memory" where
  "store_le n m a v = (\<lambda>x. let i = unat (x - a) in if i < n then bslice (8 * i) v else m x)"

lemma bit_load_le:
  "bit (load_le n m a) k \<longleftrightarrow> k < 64 \<and> k < 8 * n \<and> bit (m (a + of_nat (k div 8))) (k mod 8)"
proof (induction n arbitrary: a k)
  case 0
  show ?case by simp
next
  case (Suc n)
  have hi: "\<not> bit (m a) k" if "8 \<le> k" using that by (auto dest: bit_imp_le_length)
  show ?case
  proof (cases "k < 8")
    case True
    then show ?thesis by (simp add: bit_simps)
  next
    case False
    then obtain j where k: "k = j + 8" by (metis add.commute le_add_diff_inverse not_less)
    have "bit (load_le (Suc n) m a) k \<longleftrightarrow> k < 64 \<and> bit (load_le n m (a + 1)) j"
      using hi [OF False [unfolded not_less]] by (simp add: bit_simps k)
    also have "\<dots> \<longleftrightarrow> k < 64 \<and> j < 8 * n \<and> bit (m (a + (1 + of_nat (j div 8)))) (j mod 8)"
      by (auto simp: Suc.IH k add.assoc)
    also have "1 + of_nat (j div 8) = (of_nat (k div 8) :: u64)"
    proof -
      have "k div 8 = Suc (j div 8)" using k by presburger
      then show ?thesis by simp
    qed
    finally show ?thesis by (simp add: k)
  qed
qed

section \<open>The bus\<close>

text \<open>
  A 64-bit Wishbone data bus addresses the doubleword that contains \<open>adr\<close>; the select
  lines choose the byte lanes a write changes.
\<close>

definition line_base :: "u64 \<Rightarrow> u64" where "line_base a = a AND NOT 7"

definition bus_read :: "memory \<Rightarrow> u64 \<Rightarrow> u64" where
  "bus_read m adr = load_le 8 m (line_base adr)"

definition bus_write :: "memory \<Rightarrow> u64 \<Rightarrow> byte \<Rightarrow> u64 \<Rightarrow> memory" where
  "bus_write m adr sel dat =
     (\<lambda>x. let i = unat (x - line_base adr) in if i < 8 \<and> bit sel i then bslice (8 * i) dat else m x)"

section \<open>The datapath\<close>

definition byte_offset :: "u64 \<Rightarrow> 3 word" where "byte_offset addr = bslice 0 addr"

definition base_sel :: "4 word \<Rightarrow> byte" where
  "base_sel width =
     (if width = 1 then 0x01 else if width = 2 then 0x03 else if width = 4 then 0x0F
      else if width = 8 then 0xFF else 0x00)"

definition shifted_sel :: "byte \<Rightarrow> 3 word \<Rightarrow> 16 word" where
  "shifted_sel sel off = push_bit (unat off) (ucast sel)"

definition shifted_dat_w :: "u64 \<Rightarrow> 3 word \<Rightarrow> 128 word" where
  "shifted_dat_w v off = push_bit (unat off * 8) (ucast v)"

definition first_beat_sel :: "byte \<Rightarrow> 3 word \<Rightarrow> byte" where
  "first_beat_sel sel off = bslice 0 (shifted_sel sel off)"

definition second_beat_sel :: "byte \<Rightarrow> 3 word \<Rightarrow> byte" where
  "second_beat_sel sel off = bslice 8 (shifted_sel sel off)"

definition first_beat_dat_w :: "u64 \<Rightarrow> 3 word \<Rightarrow> u64" where
  "first_beat_dat_w v off = bslice 0 (shifted_dat_w v off)"

definition second_beat_dat_w :: "u64 \<Rightarrow> 3 word \<Rightarrow> u64" where
  "second_beat_dat_w v off = bslice 64 (shifted_dat_w v off)"

definition split_needed :: "byte \<Rightarrow> 3 word \<Rightarrow> bool" where
  "split_needed sel off \<longleftrightarrow> second_beat_sel sel off \<noteq> 0"

definition single_read_data :: "3 word \<Rightarrow> u64 \<Rightarrow> u64" where
  "single_read_data off dat_r = drop_bit (unat off * 8) dat_r"

definition combined_read_data :: "3 word \<Rightarrow> u64 \<Rightarrow> u64 \<Rightarrow> u64" where
  "combined_read_data off first_data dat_r =
     (if off = 0 then first_data
      else drop_bit (unat off * 8) first_data OR
           push_bit (64 - unat off * 8) (take_bit (unat off * 8) dat_r))"

definition load_result :: "4 word \<Rightarrow> u64 \<Rightarrow> u64" where
  "load_result width x =
     (if width = 1 then x AND 0xFF else if width = 2 then x AND 0xFFFF
      else if width = 4 then x AND 0xFFFFFFFF else x)"

definition access_width :: "4 word \<Rightarrow> bool" where
  "access_width w \<longleftrightarrow> w = 1 \<or> w = 2 \<or> w = 4 \<or> w = 8"

section \<open>Lane arithmetic\<close>

lemma unat_offset_less: "unat (off :: 3 word) < 8"
  using unsigned_less [of off] by simp

lemma unat_width: "access_width w \<Longrightarrow> unat w \<in> {1, 2, 4, 8}"
  by (auto simp: access_width_def)

lemma base_sel_mask: "access_width w \<Longrightarrow> base_sel w = mask (unat w)"
  by (auto simp: access_width_def base_sel_def mask_eq_exp_minus_1)

lemma load_result_mask: "access_width w \<Longrightarrow> load_result w x = take_bit (8 * unat w) x"
proof -
  have m: "(0xFF :: u64) = mask 8" "(0xFFFF :: u64) = mask 16" "(0xFFFFFFFF :: u64) = mask 32"
    by (simp_all add: mask_eq_exp_minus_1)
  assume "access_width w"
  then show ?thesis
    by (intro bit_word_eqI) (auto simp: access_width_def load_result_def m bit_simps)
qed

lemma line_base_offset: "line_base a + of_nat (unat (byte_offset a)) = a"
proof -
  have seven: "(7 :: u64) = mask 3" by (simp add: mask_eq_exp_minus_1)
  have "of_nat (unat (byte_offset a)) = (ucast (byte_offset a) :: u64)"
    by (simp add: unsigned_ucast_eq)
  also have "\<dots> = a AND 7"
    by (rule bit_word_eqI) (auto simp: byte_offset_def seven bit_simps)
  finally have "line_base a + of_nat (unat (byte_offset a)) = (a AND NOT 7) + (a AND 7)"
    by (simp add: line_base_def)
  also have "\<dots> = (a AND NOT 7) OR (a AND 7)"
    by (rule disjunctive_add) (simp add: bit_simps)
  also have "\<dots> = a" by (rule bit_word_eqI) (auto simp: bit_simps)
  finally show ?thesis .
qed

lemma line_base_idem [simp]: "line_base (line_base a) = line_base a"
  by (simp add: line_base_def and.assoc)

lemma line_base_push: "line_base a = push_bit 3 (drop_bit 3 a)"
proof -
  have seven: "(7 :: u64) = mask 3" by (simp add: mask_eq_exp_minus_1)
  show ?thesis by (rule bit_word_eqI) (auto simp: line_base_def seven bit_simps)
qed

lemma line_base_push_bit [simp]: "line_base (push_bit 3 q) = push_bit 3 q"
  unfolding line_base_push by (rule bit_word_eqI) (auto simp: bit_simps)

lemma line_base_next [simp]: "line_base (line_base a + 8) = line_base a + 8"
proof -
  have "line_base a + 8 = push_bit 3 (drop_bit 3 a + 1)"
    by (simp add: line_base_push push_bit_add)
  then show ?thesis by simp
qed

text \<open>The address \<open>a\<close> is lane \<open>off\<close> of its line; byte \<open>j\<close> of an access is lane \<open>off + j\<close>.\<close>

lemma lane_address: "line_base a + of_nat (unat (byte_offset a) + j) = a + of_nat j"
proof -
  have "line_base a + of_nat (unat (byte_offset a) + j) =
      (line_base a + of_nat (unat (byte_offset a))) + of_nat j" by (simp add: add.assoc)
  then show ?thesis by (simp only: line_base_offset)
qed

lemma bit_first_beat_sel:
  "access_width w \<Longrightarrow> bit (first_beat_sel (base_sel w) off) i \<longleftrightarrow>
     i < 8 \<and> unat off \<le> i \<and> i < unat off + unat w"
  using unat_offset_less [of off] unat_width [of w]
  by (auto simp: first_beat_sel_def shifted_sel_def base_sel_mask bit_simps)

lemma bit_second_beat_sel:
  "access_width w \<Longrightarrow> bit (second_beat_sel (base_sel w) off) i \<longleftrightarrow>
     i < 8 \<and> i + 8 < unat off + unat w"
  using unat_offset_less [of off] unat_width [of w]
  by (auto simp: second_beat_sel_def shifted_sel_def base_sel_mask bit_simps)

lemma split_needed_iff:
  "access_width w \<Longrightarrow> split_needed (base_sel w) off \<longleftrightarrow> 8 < unat off + unat w"
proof -
  assume w: "access_width w"
  have "split_needed (base_sel w) off \<longleftrightarrow> (\<exists>i. i < 8 \<and> i + 8 < unat off + unat w)"
    by (auto simp: split_needed_def word_eq_0_iff_bits bit_second_beat_sel [OF w])
  also have "\<dots> \<longleftrightarrow> 8 < unat off + unat w"
    by (auto intro: exI [of _ 0])
  finally show ?thesis .
qed

section \<open>Loads\<close>

lemma bit_bus_read:
  "bit (bus_read m adr) k \<longleftrightarrow> k < 64 \<and> bit (m (line_base adr + of_nat (k div 8))) (k mod 8)"
  by (auto simp: bus_read_def bit_load_le)

lemma div8_shift: "(k + 8 * c) div 8 = k div 8 + (c :: nat)" "(k + 8 * c) mod 8 = k mod (8 :: nat)"
  by simp_all

lemma bit_lane:
  "bit (m (line_base a + of_nat ((unat (byte_offset a) * 8 + k) div 8))) ((unat (byte_offset a) * 8 + k) mod 8)
    \<longleftrightarrow> bit (m (a + of_nat (k div 8))) (k mod 8)"
proof -
  have "(unat (byte_offset a) * 8 + k) div 8 = unat (byte_offset a) + k div 8"
    "(unat (byte_offset a) * 8 + k) mod 8 = k mod 8" by simp_all
  then show ?thesis by (simp only: lane_address)
qed

text \<open>A one-beat load returns the addressed bytes, zero-extended.\<close>

lemma single_load_correct:
  assumes w: "access_width w" and ns: "\<not> split_needed (base_sel w) (byte_offset a)"
  shows "load_result w (single_read_data (byte_offset a) (bus_read m (line_base a))) = load_le (unat w) m a"
proof (rule bit_word_eqI)
  fix k :: nat assume "k < LENGTH(64)"
  have fit: "unat (byte_offset a) + unat w \<le> 8" using ns w by (simp add: split_needed_iff)
  have "bit (load_result w (single_read_data (byte_offset a) (bus_read m (line_base a)))) k \<longleftrightarrow>
      k < 8 * unat w \<and> unat (byte_offset a) * 8 + k < 64 \<and>
      bit (m (line_base a + of_nat ((unat (byte_offset a) * 8 + k) div 8))) ((unat (byte_offset a) * 8 + k) mod 8)"
    by (auto simp: load_result_mask [OF w] single_read_data_def bit_simps bit_bus_read)
  also have "\<dots> \<longleftrightarrow> bit (load_le (unat w) m a) k"
    unfolding bit_lane bit_load_le using fit by auto
  finally show "bit (load_result w (single_read_data (byte_offset a) (bus_read m (line_base a)))) k =
      bit (load_le (unat w) m a) k" .
qed

lemma combined_load_correct:
  assumes w: "access_width w" and sp: "split_needed (base_sel w) (byte_offset a)"
  shows "load_result w (combined_read_data (byte_offset a) (bus_read m (line_base a))
           (bus_read m (line_base a + 8))) = load_le (unat w) m a"
proof (rule bit_word_eqI)
  fix k :: nat assume k64: "k < LENGTH(64)"
  let ?o = "unat (byte_offset a)"
  have o: "?o < 8" "8 < ?o + unat w"
    using unat_offset_less sp w by (auto simp: split_needed_iff)
  with unat_width [OF w] have nz: "byte_offset a \<noteq> 0" by auto
  have next_lane: "line_base a + 8 + of_nat i = line_base a + of_nat (i + 8)" for i
    by simp
  have "bit (combined_read_data (byte_offset a) (bus_read m (line_base a)) (bus_read m (line_base a + 8))) k
      \<longleftrightarrow> bit (m (line_base a + of_nat ((?o * 8 + k) div 8))) ((?o * 8 + k) mod 8)"
  proof (cases "?o * 8 + k < 64")
    case True
    with nz k64 show ?thesis
      by (auto simp: combined_read_data_def bit_simps bit_bus_read)
  next
    case False
    then obtain j where j: "?o * 8 + k = j + 64" by (metis add.commute le_add_diff_inverse not_less)
    with o k64 have k: "64 - ?o * 8 \<le> k" "k - (64 - ?o * 8) = j" "j < ?o * 8" "j < 64" by auto
    have "(?o * 8 + k) div 8 = j div 8 + 8" "(?o * 8 + k) mod 8 = j mod 8"
      unfolding j by presburger+
    with nz k64 k False show ?thesis
      by (auto simp: combined_read_data_def bit_simps bit_bus_read next_lane)
  qed
  then show "bit (load_result w (combined_read_data (byte_offset a) (bus_read m (line_base a))
        (bus_read m (line_base a + 8)))) k = bit (load_le (unat w) m a) k"
    using k64 unfolding load_result_mask [OF w] bit_take_bit_iff bit_lane bit_load_le by auto
qed

section \<open>Stores\<close>

lemma byte_first_beat:
  "unat off \<le> i \<Longrightarrow> i < 8 \<Longrightarrow>
     (bslice (8 * i) (first_beat_dat_w v off) :: byte) = bslice (8 * (i - unat off)) v"
  by (rule bit_word_eqI) (auto simp: first_beat_dat_w_def shifted_dat_w_def bit_simps algebra_simps
      diff_mult_distrib2)

lemma byte_second_beat:
  "i < 8 \<Longrightarrow>
     (bslice (8 * i) (second_beat_dat_w v off) :: byte) = bslice (8 * (i + 8 - unat off)) v"
  using unat_offset_less [of off]
  by (intro bit_word_eqI) (auto simp: second_beat_dat_w_def shifted_dat_w_def bit_simps algebra_simps
      diff_mult_distrib2)

lemma lane_of_byte:
  fixes x a :: u64
  assumes "unat (x - a) = j" "j < 8"
  shows "unat (x - line_base a) = unat (byte_offset a) + j"
proof -
  have "x = a + of_nat j" using assms by auto
  then have "x - line_base a = of_nat (unat (byte_offset a) + j)"
    using lane_address [of a j] by (metis add_diff_cancel_left')
  then show ?thesis using assms(2) unat_offset_less [of "byte_offset a"]
    by (simp only: unat_of_nat) simp
qed

lemma byte_of_lane:
  fixes x a :: u64
  assumes "unat (x - line_base a) = unat (byte_offset a) + j" "j < 16"
  shows "unat (x - a) = j"
proof -
  have "x - line_base a = of_nat (unat (byte_offset a) + j)"
    using assms(1) by (metis of_nat_unat ucast_id)
  then have "x = a + of_nat j" by (metis lane_address diff_eq_eq add.commute)
  then show ?thesis using assms(2) by (simp add: unat_of_nat)
qed

lemma store_lane_hit:
  fixes x a :: u64
  assumes i: "unat (x - line_base a) = i" "i < 16" and n: "n \<le> 8"
  shows "unat (x - a) < n \<longleftrightarrow> unat (byte_offset a) \<le> i \<and> i < unat (byte_offset a) + n"
proof
  assume l: "unat (x - a) < n"
  with n have "unat (x - a) < 8" by linarith
  from lane_of_byte [OF refl this] have "i = unat (byte_offset a) + unat (x - a)"
    unfolding i(1) .
  with l show "unat (byte_offset a) \<le> i \<and> i < unat (byte_offset a) + n" by linarith
next
  assume h: "unat (byte_offset a) \<le> i \<and> i < unat (byte_offset a) + n"
  then obtain j where j: "i = unat (byte_offset a) + j" by (metis le_Suc_ex)
  from h j n have j16: "j < 16" by linarith
  have "unat (x - a) = j" using byte_of_lane [OF _ j16] i(1) j by blast
  with h j show "unat (x - a) < n" by linarith
qed

text \<open>No byte of the access lies outside the sixteen lanes of its two lines.\<close>

lemma store_outside_lanes:
  fixes x a :: u64
  assumes "16 \<le> unat (x - line_base a)" "n \<le> 8"
  shows "\<not> unat (x - a) < n"
  using assms lane_of_byte [OF refl, of x a] unat_offset_less [of "byte_offset a"] by auto

lemma next_line_lane:
  fixes x b :: u64
  shows "unat (x - (b + 8)) < 8 \<longleftrightarrow> 8 \<le> unat (x - b) \<and> unat (x - b) < 16"
    and "8 \<le> unat (x - b) \<Longrightarrow> unat (x - (b + 8)) = unat (x - b) - 8"
proof -
  have s: "unat (y - 8) = unat y - 8" if "8 \<le> unat y" for y :: u64
    using that by (simp add: unat_sub word_le_nat_alt)
  have e: "x - (b + 8) = (x - b) - 8" by simp
  show 2: "8 \<le> unat (x - b) \<Longrightarrow> unat (x - (b + 8)) = unat (x - b) - 8"
    unfolding e by (rule s)
  show "unat (x - (b + 8)) < 8 \<longleftrightarrow> 8 \<le> unat (x - b) \<and> unat (x - b) < 16"
  proof (cases "8 \<le> unat (x - b)")
    case True
    with 2 show ?thesis by auto
  next
    case False
    have "\<not> unat (x - (b + 8)) < 8"
    proof
      assume l: "unat (x - (b + 8)) < 8"
      have "x - b = (x - (b + 8)) + 8" by simp
      then have "unat (x - b) = unat (x - (b + 8)) + 8"
        using l by (simp only: unat_word_ariths) simp
      with False show False by simp
    qed
    with False show ?thesis by simp
  qed
qed

text \<open>The bytes the first and the second beat write, as bytes of the store operand.\<close>

lemma first_beat_write:
  assumes w: "access_width w"
  shows "bus_write m (line_base a) (first_beat_sel (base_sel w) (byte_offset a))
           (first_beat_dat_w v (byte_offset a)) x =
         (if unat (x - line_base a) < 8 \<and> unat (x - a) < unat w then bslice (8 * unat (x - a)) v else m x)"
proof -
  let ?i = "unat (x - line_base a)" and ?o = "unat (byte_offset a)"
  have n: "unat w \<le> 8" using unat_width [OF w] by auto
  show ?thesis
  proof (cases "?i < 8")
    case True
    then have hit: "unat (x - a) < unat w \<longleftrightarrow> ?o \<le> ?i \<and> ?i < ?o + unat w"
      by (intro store_lane_hit [OF refl _ n]) simp
    have "?i - ?o = unat (x - a)" if "unat (x - a) < unat w"
      using lane_of_byte [OF refl, of x a] that n by simp
    with True show ?thesis
      by (simp add: bus_write_def Let_def bit_first_beat_sel [OF w] hit byte_first_beat)
  next
    case False
    then show ?thesis by (simp add: bus_write_def Let_def)
  qed
qed

lemma second_beat_write:
  assumes w: "access_width w"
  shows "bus_write m (line_base a + 8) (second_beat_sel (base_sel w) (byte_offset a))
           (second_beat_dat_w v (byte_offset a)) x =
         (if 8 \<le> unat (x - line_base a) \<and> unat (x - a) < unat w then bslice (8 * unat (x - a)) v else m x)"
proof -
  let ?i = "unat (x - line_base a)" and ?o = "unat (byte_offset a)"
  have n: "unat w \<le> 8" using unat_width [OF w] by auto
  show ?thesis
  proof (cases "8 \<le> ?i \<and> ?i < 16")
    case True
    then have hit: "unat (x - a) < unat w \<longleftrightarrow> ?o \<le> ?i \<and> ?i < ?o + unat w"
      by (intro store_lane_hit [OF refl _ n]) simp
    have sub: "unat (x - (line_base a + 8)) = ?i - 8" using True next_line_lane(2) by blast
    have "?o < 8" by (rule unat_offset_less)
    with True have o: "?o \<le> ?i" by simp
    have "?i - ?o = unat (x - a)" if "unat (x - a) < unat w"
      using lane_of_byte [OF refl, of x a] that n by simp
    with True o show ?thesis
      by (auto simp: bus_write_def Let_def bit_second_beat_sel [OF w] hit byte_second_beat sub)
  next
    case False
    have "\<not> unat (x - (line_base a + 8)) < 8" using False by (simp add: next_line_lane(1))
    moreover have "\<not> (8 \<le> ?i \<and> unat (x - a) < unat w)"
      using False store_outside_lanes [of x a "unat w"] n by auto
    ultimately show ?thesis unfolding bus_write_def Let_def line_base_next by auto
  qed
qed

lemma single_store_correct:
  assumes w: "access_width w" and ns: "\<not> split_needed (base_sel w) (byte_offset a)"
  shows "bus_write m (line_base a) (first_beat_sel (base_sel w) (byte_offset a))
           (first_beat_dat_w v (byte_offset a)) = store_le (unat w) m a v"
proof
  fix x
  have fit: "unat (byte_offset a) + unat w \<le> 8" using ns w by (simp add: split_needed_iff)
  then have "unat (x - a) < unat w \<Longrightarrow> unat (x - line_base a) < 8"
    using lane_of_byte [OF refl, of x a] by simp
  then show "bus_write m (line_base a) (first_beat_sel (base_sel w) (byte_offset a))
      (first_beat_dat_w v (byte_offset a)) x = store_le (unat w) m a v x"
    by (auto simp: first_beat_write [OF w] store_le_def Let_def)
qed

lemma split_store_correct:
  assumes w: "access_width w"
  shows "bus_write
      (bus_write m (line_base a) (first_beat_sel (base_sel w) (byte_offset a)) (first_beat_dat_w v (byte_offset a)))
      (line_base a + 8) (second_beat_sel (base_sel w) (byte_offset a)) (second_beat_dat_w v (byte_offset a))
    = store_le (unat w) m a v"
  by (rule ext) (auto simp: first_beat_write [OF w] second_beat_write [OF w] store_le_def Let_def)

section \<open>Laws of the byte memory\<close>

lemma load_after_store: "n \<le> 8 \<Longrightarrow> load_le n (store_le n m a v) a = take_bit (8 * n) v"
proof (rule bit_word_eqI)
  fix k :: nat assume n: "n \<le> 8" and k: "k < LENGTH(64)"
  have u: "unat (word_of_nat (k div 8) :: u64) = k div 8" using k by (simp add: unat_of_nat)
  have "8 * (k div 8) + k mod 8 = k" by simp
  then show "bit (load_le n (store_le n m a v) a) k = bit (take_bit (8 * n) v) k"
    using k by (auto simp: bit_load_le bit_take_bit_iff store_le_def Let_def u bit_bslice)
qed

lemma store_le_outside: "n \<le> unat (x - a) \<Longrightarrow> store_le n m a v x = m x"
  by (simp add: store_le_def Let_def)

end
