(* ===== verification/Bus.thy ===== *)
theory Bus
  imports Byte_Lanes
begin

text \<open>
  The master side of the Wishbone port (\<open>wishbone.py\<close>) that every core and load-store
  unit drives: one cycle's outputs.  \<open>stb\<close> equals \<open>cyc\<close> and \<open>cti\<close>, \<open>bte\<close> are 0 in all of
  them.
\<close>

record bus_out =
  cyc :: bool
  we :: bool
  adr :: u64
  sel :: byte
  dat_w :: u64

text \<open>A memory behind the port performs a write in the cycle it acknowledges it.\<close>

definition bus_commit :: "bool \<Rightarrow> bus_out \<Rightarrow> memory \<Rightarrow> memory" where
  "bus_commit ack b m = (if cyc b \<and> we b \<and> ack then bus_write m (adr b) (sel b) (dat_w b) else m)"

section \<open>Half-words of a line\<close>

text \<open>The fetch units pick one of the four half-words of a line with address bits 1 and 2.\<close>

definition instruction_word :: "u64 \<Rightarrow> u64 \<Rightarrow> u16" where
  "instruction_word addr dat_r = bslice (16 * unat (bslice 1 addr :: 2 word)) dat_r"

text \<open>The instruction word at a physical address; instructions are two-byte aligned.\<close>

definition fetch_half :: "memory \<Rightarrow> u64 \<Rightarrow> u16" where
  "fetch_half m p = ucast (load_le 2 m (p AND NOT 1))"

lemma fetch_half_eq: "instruction_word p (bus_read m (p AND NOT 7)) = fetch_half m p"
proof -
  define j :: "2 word" where "j = bslice 1 p"
  have seven: "(7 :: u64) = mask 3" by (simp add: mask_eq_exp_minus_1)
  have push: "bit (push_bit 1 (ucast j) :: u64) n \<longleftrightarrow> 1 \<le> n \<and> n < 3 \<and> bit p n" for n
    by (simp only: bit_push_bit_iff bit_unsigned_iff j_def bit_bslice) auto
  have hi: "bit (line_base p) n \<Longrightarrow> 3 \<le> n" for n
    by (auto simp: line_base_def seven bit_simps)
  have "line_base p + 2 * of_nat (unat j) = line_base p + push_bit 1 (ucast j)"
    by (simp add: push_bit_eq_mult unsigned_ucast_eq mult.commute)
  also have "\<dots> = line_base p OR push_bit 1 (ucast j)"
    by (rule disjunctive_add) (meson push hi not_le)
  also have "\<dots> = p AND NOT 1"
    by (rule bit_word_eqI) (simp only: bit_or_iff push, auto simp: line_base_def seven bit_simps)
  finally have base: "line_base p + of_nat (2 * unat j + n) = (p AND NOT 1) + of_nat n" for n
    by (simp add: add.assoc [symmetric])
  have idx: "(16 * unat j + k) div 8 = 2 * unat j + k div 8" "(16 * unat j + k) mod 8 = k mod 8" for k
    by presburger+
  have "unat j < 4" using unsigned_less [of j] by simp
  then have lt: "k < 16 \<Longrightarrow> 16 * unat j + k < 64" for k by simp
  show ?thesis
    unfolding instruction_word_def fetch_half_def line_base_def [symmetric] j_def [symmetric]
  proof (rule bit_word_eqI)
    fix k assume k: "k < LENGTH(16)"
    then have k16: "k < 16" by simp
    have "bit (bslice (16 * unat j) (bus_read m (line_base p)) :: u16) k =
        bit (m (line_base p + of_nat (2 * unat j + k div 8))) (k mod 8)"
      using k16 lt [OF k16] by (simp only: bit_bslice bit_bus_read idx line_base_idem) simp
    also have "\<dots> = bit (ucast (load_le 2 m (p AND NOT 1)) :: u16) k"
      using k16 by (simp only: base) (simp add: bit_load_le bit_simps)
    finally show "bit (bslice (16 * unat j) (bus_read m (line_base p)) :: u16) k =
        bit (ucast (load_le 2 m (p AND NOT 1)) :: u16) k" .
  qed
qed

end
