(* ===== verification/Basic_Core.thy ===== *)
theory Basic_Core
  imports Isa Config Special_Regs Tlb Bus
begin

text \<open>
  The multi-cycle core of \<open>basic/core.py\<close>: its registers as the record \<open>core\<close>, the
  combinational signals of \<open>elaborate\<close> as functions of the state and of the bus inputs,
  one definition per state of the controller (\<open>CoreState\<close>), and \<open>core_tick\<close>, the
  clock edge that composes them with the special-register file and the TLB.  Handlers
  read the current state and return the next one together with the strobes they raise
  (\<open>core_out\<close>), which is how Amaranth's synchronous and combinational domains split.
  The address and data buses are 64 bits wide, as in the default configuration.
\<close>

section \<open>State\<close>

datatype core_state =
    RESET | FETCH_TRANSLATE | FETCH | EXECUTE | MEM_TRANSLATE | MEM_LOAD | MEM_STORE
  | WALK | WALK_PROCESS | HALTED | INTERRUPT_VECTOR_TRANSLATE | INTERRUPT_VECTOR_LOAD
  | MEM_LOAD_SPLIT | MEM_STORE_SPLIT

text \<open>The \<open>pending_*\<close> registers: the memory operation in flight.\<close>

record pending_op =
  pending_addr :: u64
  pending_virtual_addr :: u64
  pending_width_bytes :: "4 word"
  pending_rd :: reg_index
  pending_store_value :: u64
  pending_next_pc :: u64
  pending_fault_pc :: u64
  pending_mem_write :: bool
  pending_set_reservation :: bool
  pending_reservation_addr :: u64
  pending_post_mem_reg :: reg_index
  pending_post_mem_value :: u64
  pending_post_mem_delta :: u64
  pending_post_mem_write :: bool
  pending_post_mem_use_load_result :: bool
  pending_chain_store :: bool
  pending_chain_store_addr :: u64
  pending_chain_store_use_load_result :: bool
  pending_chain_store_value :: u64

text \<open>The \<open>walk_*\<close> registers of the page-table walker.\<close>

record walk_regs =
  walk_virtual_addr :: u64
  walk_table_addr :: u64
  walk_level :: "2 word"
  walk_access :: "2 word"
  walk_resume_state :: core_state
  walk_pte_latched :: u64

record core =
  state :: core_state
  current_instruction :: u16
  fetch_pc :: u64
  fetch_phys_addr :: u64
  regs :: regfile
  flags :: "3 word"
  ll_reservation_addr :: u64
  ll_reservation_valid :: bool
  halted :: bool
  locked_up :: bool
  pend :: pending_op
  walk :: walk_regs
  interrupt_entry_vector :: u64
  interrupt_entry_epc :: u64
  interrupt_vector_phys :: u64
  split_first_data :: u64
  split_first_cycle :: bool
  sregs :: special_regs
  tlb_state :: tlb

text \<open>What the two buses, the interrupt lines and the boot straps drive in one cycle.\<close>

record core_in =
  i_ack :: bool
  i_err :: bool
  i_dat_r :: u64
  d_ack :: bool
  d_err :: bool
  d_dat_r :: u64
  irq_lines :: u64
  boot_r1 :: u64
  boot_r13 :: u64

text \<open>The strobes a handler raises besides the next state.\<close>

record core_out =
  commit_valid :: bool
  strobes :: core_strobes
  tlb_fill_valid :: bool

definition quiet :: core_out where
  "quiet = \<lparr>commit_valid = False, strobes = no_strobes, tlb_fill_valid = False\<rparr>"

definition committing :: core_out where "committing = quiet\<lparr>commit_valid := True\<rparr>"

definition reset_pc :: "core_config \<Rightarrow> u64" where "reset_pc cfg = word_of_int (reset_vector cfg)"

section \<open>Instruction operands\<close>

definition current_pc :: "core \<Rightarrow> u64" where "current_pc s = regs s 15"
definition post_increment_pc :: "core \<Rightarrow> u64" where "post_increment_pc s = fetch_pc s + 2"
definition c_rd :: "core \<Rightarrow> reg_index" where "c_rd s = instruction_rd (current_instruction s)"
definition c_rs1 :: "core \<Rightarrow> reg_index" where "c_rs1 s = instruction_rs1 (current_instruction s)"
definition c_a :: "core \<Rightarrow> u64" where "c_a s = regs s (c_rd s)"
definition c_b :: "core \<Rightarrow> u64" where "c_b s = regs s (c_rs1 s)"

definition ls_rd_value :: "core \<Rightarrow> u64" where
  "ls_rd_value s = (if c_rd s = 15 then post_increment_pc s else c_a s)"
definition ls_rs1_value :: "core \<Rightarrow> u64" where
  "ls_rs1_value s = (if c_rs1 s = 15 then post_increment_pc s else c_b s)"
definition ls_addr :: "core \<Rightarrow> u64" where
  "ls_addr s = ls_rs1_value s + push_bit 1 (ucast (instruction_ls_offset2 (current_instruction s)))"
definition ls_push_addr :: "core \<Rightarrow> u64" where "ls_push_addr s = ls_rd_value s - 8"
definition ls_pc_rel6 :: "core \<Rightarrow> u64" where
  "ls_pc_rel6 s = sign_extend (bslice 4 (current_instruction s) :: 6 word)"
definition ls_pc_rel10 :: "core \<Rightarrow> u64" where
  "ls_pc_rel10 s = sign_extend (bslice 0 (current_instruction s) :: 10 word)"
definition ls_pc_effective :: "core \<Rightarrow> u64" where
  "ls_pc_effective s = post_increment_pc s + push_bit 1 (ls_pc_rel6 s)"
definition ls_jump_effective :: "core \<Rightarrow> u64" where
  "ls_jump_effective s = post_increment_pc s + push_bit 1 (ls_pc_rel10 s)"
definition ls_pc_push_addr :: "core \<Rightarrow> u64" where "ls_pc_push_addr s = c_a s - 8"

lemmas operand_defs = post_increment_pc_def c_rd_def c_rs1_def c_a_def c_b_def ls_rd_value_def
  ls_rs1_value_def ls_addr_def ls_push_addr_def ls_pc_rel6_def ls_pc_rel10_def ls_pc_effective_def
  ls_jump_effective_def ls_pc_push_addr_def

section \<open>Shifters\<close>

text \<open>
  The register shifts saturate the count at 64 in \<open>shift_index\<close>; results, carries, zero
  and sign flags are arrays indexed by the count.  The immediate shifts have arrays of
  their own over the counts 0 to 15.
\<close>

definition shift_index :: "u64 \<Rightarrow> nat" where
  "shift_index b = (if 64 \<le> b then 64 else unat (bslice 0 b :: 7 word))"

definition sll_result :: "u64 \<Rightarrow> nat \<Rightarrow> u64" where
  "sll_result a n = (if n = 64 then 0 else bslice 0 (push_bit n (ucast a :: 128 word)))"
definition srl_result :: "u64 \<Rightarrow> nat \<Rightarrow> u64" where
  "srl_result a n = (if n = 64 then 0 else drop_bit n a)"
definition sra_result :: "u64 \<Rightarrow> nat \<Rightarrow> u64" where
  "sra_result a n =
     (if n = 64 then (if bit a 63 then 0xFFFFFFFFFFFFFFFF else 0) else signed_drop_bit n a)"

definition sll_carries :: "u64 \<Rightarrow> nat \<Rightarrow> bool" where
  "sll_carries a n = (if n \<in> {0, 64} then False else drop_bit (64 - n) a \<noteq> 0)"
definition sll_zeroes :: "u64 \<Rightarrow> nat \<Rightarrow> bool" where
  "sll_zeroes a n = (if n = 0 then a = 0 else if n = 64 then True else take_bit (64 - n) a = 0)"
definition sll_signs :: "u64 \<Rightarrow> nat \<Rightarrow> bool" where
  "sll_signs a n = (if n = 0 then bit a 63 else if n = 64 then False else bit a (63 - n))"
definition srl_carries :: "u64 \<Rightarrow> nat \<Rightarrow> bool" where
  "srl_carries a n = (if n \<in> {0, 64} then False else drop_bit (n - 1) a AND 1 \<noteq> 0)"
definition srl_zeroes :: "u64 \<Rightarrow> nat \<Rightarrow> bool" where
  "srl_zeroes a n = (if n = 0 then a = 0 else if n = 64 then True else drop_bit n a = 0)"
definition srl_signs :: "u64 \<Rightarrow> nat \<Rightarrow> bool" where
  "srl_signs a n = (if n = 0 then bit a 63 else False)"
definition sra_carries :: "u64 \<Rightarrow> nat \<Rightarrow> bool" where
  "sra_carries a n = (if n \<in> {0, 64} then False else drop_bit (n - 1) a AND 1 \<noteq> 0)"
definition sra_zeroes :: "u64 \<Rightarrow> nat \<Rightarrow> bool" where
  "sra_zeroes a n =
     (if n = 0 then a = 0 else if n = 64 then \<not> bit a 63 else \<not> bit a 63 \<and> drop_bit n a = 0)"
definition sra_signs :: "u64 \<Rightarrow> nat \<Rightarrow> bool" where "sra_signs a n = bit a 63"

definition slli_results :: "u64 \<Rightarrow> nat \<Rightarrow> u64" where
  "slli_results a n = (if n = 0 then a else push_bit n a)"
definition slli_carries :: "u64 \<Rightarrow> nat \<Rightarrow> bool" where
  "slli_carries a n = (if n = 0 then False else drop_bit (64 - n) a \<noteq> 0)"
definition slli_zeroes :: "u64 \<Rightarrow> nat \<Rightarrow> bool" where
  "slli_zeroes a n = (if n = 0 then a = 0 else take_bit (64 - n) a = 0)"
definition slli_signs :: "u64 \<Rightarrow> nat \<Rightarrow> bool" where
  "slli_signs a n = (if n = 0 then bit a 63 else bit a (63 - n))"
definition srli_results :: "u64 \<Rightarrow> nat \<Rightarrow> u64" where
  "srli_results a n = (if n = 0 then a else drop_bit n a)"
definition srli_carries :: "u64 \<Rightarrow> nat \<Rightarrow> bool" where
  "srli_carries a n = (if n = 0 then False else drop_bit (n - 1) a AND 1 \<noteq> 0)"
definition srli_zeroes :: "u64 \<Rightarrow> nat \<Rightarrow> bool" where
  "srli_zeroes a n = (if n = 0 then a = 0 else drop_bit n a = 0)"
definition srli_signs :: "u64 \<Rightarrow> nat \<Rightarrow> bool" where
  "srli_signs a n = (if n = 0 then bit a 63 else False)"
definition srai_results :: "u64 \<Rightarrow> nat \<Rightarrow> u64" where
  "srai_results a n = (if n = 0 then a else signed_drop_bit n a)"
definition srai_carries :: "u64 \<Rightarrow> nat \<Rightarrow> bool" where
  "srai_carries a n = (if n = 0 then False else drop_bit (n - 1) a AND 1 \<noteq> 0)"
definition srai_zeroes :: "u64 \<Rightarrow> nat \<Rightarrow> bool" where
  "srai_zeroes a n = (if n = 0 then a = 0 else \<not> bit a 63 \<and> drop_bit n a = 0)"
definition srai_signs :: "u64 \<Rightarrow> nat \<Rightarrow> bool" where "srai_signs a n = bit a 63"

section \<open>Translation signals\<close>

definition paging_enabled :: "core \<Rightarrow> bool" where "paging_enabled s = bit (cpu_control (sregs s)) 16"
definition user_mode :: "core \<Rightarrow> bool" where "user_mode s = bit (cpu_control (sregs s)) 17"

definition data_access :: "core \<Rightarrow> 2 word" where
  "data_access s = (if pending_mem_write (pend s) then ACCESS_WRITE else ACCESS_READ)"

definition translation_access :: "core \<Rightarrow> 2 word" where
  "translation_access s =
     (if state s = FETCH_TRANSLATE then ACCESS_EXECUTE
      else if state s = INTERRUPT_VECTOR_TRANSLATE then ACCESS_READ
      else data_access s)"

definition interrupt_vector_table_addr :: "core \<Rightarrow> u64" where
  "interrupt_vector_table_addr s =
     interrupt_table_base (sregs s) + push_bit 3 (interrupt_entry_vector s)"

definition tlb_lookup_vaddr :: "core \<Rightarrow> u64" where
  "tlb_lookup_vaddr s =
     (if state s = FETCH_TRANSLATE then current_pc s
      else if state s = INTERRUPT_VECTOR_TRANSLATE then interrupt_vector_table_addr s
      else pending_addr (pend s))"

definition tlb_index_bits :: "core_config \<Rightarrow> nat" where
  "tlb_index_bits cfg = int_log2 (nat (tlb_entries cfg))"

definition tlb_perm_ok :: "core_config \<Rightarrow> core \<Rightarrow> bool" where
  "tlb_perm_ok cfg s =
     (let p = lookup_perms (tlb_index_bits cfg) (tlb_state s) (tlb_lookup_vaddr s) in
      enable_tlb cfg \<and>
      (if translation_access s = ACCESS_READ then perm_read p
       else if translation_access s = ACCESS_WRITE then perm_write p
       else perm_execute p))"

definition tlb_user_ok :: "core_config \<Rightarrow> core \<Rightarrow> bool" where
  "tlb_user_ok cfg s \<longleftrightarrow> \<not> user_mode s \<or>
     enable_tlb cfg \<and> perm_user (lookup_perms (tlb_index_bits cfg) (tlb_state s) (tlb_lookup_vaddr s))"

definition tlb_hit_ok :: "core_config \<Rightarrow> core \<Rightarrow> bool" where
  "tlb_hit_ok cfg s \<longleftrightarrow>
     enable_tlb cfg \<and> lookup_hit (tlb_index_bits cfg) (tlb_state s) (tlb_lookup_vaddr s) \<and>
     tlb_perm_ok cfg s \<and> tlb_user_ok cfg s"

definition tlb_paddr :: "core_config \<Rightarrow> core \<Rightarrow> u64" where
  "tlb_paddr cfg s = lookup_paddr (tlb_index_bits cfg) (tlb_state s) (tlb_lookup_vaddr s)"

definition walk_index :: "walk_regs \<Rightarrow> 9 word" where
  "walk_index w =
     (if walk_level w = 2 then bslice 30 (walk_virtual_addr w)
      else if walk_level w = 1 then bslice 21 (walk_virtual_addr w)
      else bslice 12 (walk_virtual_addr w))"

definition walk_pte_addr :: "walk_regs \<Rightarrow> u64" where
  "walk_pte_addr w = walk_table_addr w + push_bit 3 (ucast (walk_index w))"

definition pte_is_leaf :: "u64 \<Rightarrow> bool" where
  "pte_is_leaf pte \<longleftrightarrow> pte AND (PTE_R OR PTE_W OR PTE_X) \<noteq> 0"

definition pte_permission_ok :: "2 word \<Rightarrow> u64 \<Rightarrow> bool" where
  "pte_permission_ok access pte =
     (if access = ACCESS_READ then pte AND PTE_R \<noteq> 0
      else if access = ACCESS_WRITE then pte AND PTE_W \<noteq> 0
      else pte AND PTE_X \<noteq> 0)"

definition pte_user_ok :: "bool \<Rightarrow> u64 \<Rightarrow> bool" where
  "pte_user_ok user pte \<longleftrightarrow> \<not> user \<or> pte AND PTE_U \<noteq> 0"

definition pte_reserved :: "u64 \<Rightarrow> bool" where
  "pte_reserved pte \<longleftrightarrow> pte AND PTE_RESERVED_MASK \<noteq> 0"

definition pte_base :: "u64 \<Rightarrow> u64" where "pte_base pte = push_bit 12 (drop_bit 10 pte)"

definition walk_page_shift :: "2 word \<Rightarrow> nat" where
  "walk_page_shift level = (if level = 2 then 30 else if level = 1 then 21 else 12)"

definition walk_result_phys :: "walk_regs \<Rightarrow> u64" where
  "walk_result_phys w =
     pte_base (walk_pte_latched w) +
     (walk_virtual_addr w AND (push_bit (walk_page_shift (walk_level w)) 1 - 1))"

definition pte_perms :: "u64 \<Rightarrow> tlb_perms" where
  "pte_perms pte = \<lparr>perm_read = pte AND PTE_R \<noteq> 0, perm_write = pte AND PTE_W \<noteq> 0,
     perm_execute = pte AND PTE_X \<noteq> 0, perm_user = pte AND PTE_U \<noteq> 0\<rparr>"

section \<open>Interrupt lines\<close>

definition current_interrupt_vector :: "core \<Rightarrow> u64" where
  "current_interrupt_vector s =
     drop_bit CPU_CONTROL_CUR_INT_SHIFT (cpu_control (sregs s) AND CPU_CONTROL_CUR_INT_MASK)"

definition irq_line_pending_mask :: "core_config \<Rightarrow> core_in \<Rightarrow> u64" where
  "irq_line_pending_mask cfg i = push_bit 1 (take_bit (nat (irq_input_count cfg)) (irq_lines i))"

definition irq_valid_mask_high :: "core_config \<Rightarrow> u64" where
  "irq_valid_mask_high cfg = (push_bit (nat (irq_input_count cfg) + 1) 1 - 1) AND NOT 1"

definition pending_irq_high :: "core_config \<Rightarrow> core_in \<Rightarrow> core \<Rightarrow> u64" where
  "pending_irq_high cfg i s =
     (interrupt_states_high (sregs s) OR irq_line_pending_mask cfg i)
     AND interrupt_mask_high (sregs s) AND irq_valid_mask_high cfg"

text \<open>
  The loop over bits \<open>irq_input_count\<close> down to 1 assigns the vector of every pending bit;
  the last assignment, of the lowest bit, is the one that counts.
\<close>

definition pending_irq_bit :: "core_config \<Rightarrow> core_in \<Rightarrow> core \<Rightarrow> nat option" where
  "pending_irq_bit cfg i s =
     fold (\<lambda>k v. if bit (pending_irq_high cfg i s) k then Some k else v)
          (rev [1 ..< nat (irq_input_count cfg) + 1]) None"

definition pending_irq_vector :: "core_config \<Rightarrow> core_in \<Rightarrow> core \<Rightarrow> u64" where
  "pending_irq_vector cfg i s =
     (case pending_irq_bit cfg i s of Some k \<Rightarrow> of_nat (64 + k) | None \<Rightarrow> 0)"

definition pending_irq_available :: "core_config \<Rightarrow> core_in \<Rightarrow> core \<Rightarrow> bool" where
  "pending_irq_available cfg i s \<longleftrightarrow> pending_irq_bit cfg i s \<noteq> None"

definition can_preempt_pending_irq :: "core_config \<Rightarrow> core_in \<Rightarrow> core \<Rightarrow> bool" where
  "can_preempt_pending_irq cfg i s \<longleftrightarrow>
     \<not> bit (cpu_control (sregs s)) 1 \<or> current_interrupt_vector s = 0 \<or>
     pending_irq_vector cfg i s < current_interrupt_vector s"

definition take_irq :: "core_config \<Rightarrow> core_in \<Rightarrow> core \<Rightarrow> bool" where
  "take_irq cfg i s \<longleftrightarrow>
     pending_irq_available cfg i s \<and> bit (cpu_control (sregs s)) 0 \<and> can_preempt_pending_irq cfg i s"

section \<open>Actions shared by the handlers\<close>

text \<open>Register 0 has no case in \<open>write_reg\<close>: it is rewritten with zero on every edge.\<close>

definition write_reg :: "reg_index \<Rightarrow> u64 \<Rightarrow> core \<Rightarrow> core" where
  "write_reg r v s = (if r = 0 then s else s\<lparr>regs := (regs s)(r := v)\<rparr>)"

definition set_pc :: "u64 \<Rightarrow> core \<Rightarrow> core" where "set_pc v s = s\<lparr>regs := (regs s)(15 := v)\<rparr>"

definition goto :: "core_state \<Rightarrow> core \<Rightarrow> core" where "goto st s = s\<lparr>state := st\<rparr>"

definition enter_lockup :: "core \<Rightarrow> core \<times> core_out" where
  "enter_lockup s = (s\<lparr>locked_up := True, state := HALTED\<rparr>, quiet)"

definition cpu_control_entry_clear_mask :: u64 where
  "cpu_control_entry_clear_mask =
     CPU_CONTROL_INT_ENABLE OR CPU_CONTROL_IN_INTERRUPT OR CPU_CONTROL_CUR_INT_MASK OR CPU_CONTROL_USER_MODE"

definition entry_cpu_control :: "u64 \<Rightarrow> u64 \<Rightarrow> u64" where
  "entry_cpu_control cc vector =
     (cc AND ((- 1) - cpu_control_entry_clear_mask)) OR CPU_CONTROL_IN_INTERRUPT OR
     push_bit CPU_CONTROL_CUR_INT_SHIFT vector"

definition begin_interrupt_entry :: "u64 \<Rightarrow> u64 \<Rightarrow> core_strobes \<Rightarrow> core \<Rightarrow> core \<times> core_out" where
  "begin_interrupt_entry vector epc st s =
     (s\<lparr>interrupt_entry_vector := vector, interrupt_entry_epc := epc, state := INTERRUPT_VECTOR_TRANSLATE\<rparr>,
      quiet\<lparr>strobes := st\<lparr>
        core_interrupt_cpu_control := Some (cpu_control (sregs s)),
        core_cpu_control := Some (entry_cpu_control (cpu_control (sregs s)) vector)\<rparr>\<rparr>)"

text \<open>The condition under which a synchronous trap inside a trap handler is fatal.\<close>

definition nested_trap_fatal :: "core \<Rightarrow> u64 \<Rightarrow> bool" where
  "nested_trap_fatal s vector \<longleftrightarrow>
     bit (cpu_control (sregs s)) 1 \<and> current_interrupt_vector s \<noteq> 0 \<and>
     current_interrupt_vector s < trap_code FIRST_HW_IRQ \<and> current_interrupt_vector s \<le> vector"

definition raise_sync_trap ::
  "trap_vector \<Rightarrow> u64 \<Rightarrow> u64 \<Rightarrow> u64 \<Rightarrow> u64 \<Rightarrow> core \<Rightarrow> core \<times> core_out" where
  "raise_sync_trap tv pc fault_addr access aux s =
     (let vector = trap_code tv in
      if nested_trap_fatal s vector then enter_lockup s
      else begin_interrupt_entry vector pc
        (no_strobes\<lparr>core_trap := Some \<lparr>
           ti_cause = (if trap_cause (sregs s) = 0 then vector else trap_cause (sregs s)),
           ti_fault_addr = fault_addr, ti_access = access, ti_pc = pc, ti_aux = aux\<rparr>\<rparr>) s)"

definition start_walk :: "u64 \<Rightarrow> 2 word \<Rightarrow> core_state \<Rightarrow> core \<Rightarrow> core" where
  "start_walk vaddr access resume s =
     s\<lparr>walk := (walk s)\<lparr>walk_virtual_addr := vaddr,
          walk_table_addr := page_table_root_physical (sregs s),
          walk_level := 2, walk_access := access, walk_resume_state := resume\<rparr>,
       state := WALK\<rparr>"

definition finish :: "u64 \<Rightarrow> core \<Rightarrow> core \<times> core_out" where
  "finish pc s = (goto FETCH_TRANSLATE (set_pc pc s), committing)"

section \<open>Reset, fetch\<close>

definition do_reset :: "core_config \<Rightarrow> core_in \<Rightarrow> core \<Rightarrow> core \<times> core_out" where
  "do_reset cfg i s =
     (s\<lparr>regs := (regs s)(1 := boot_r1 i, 13 := boot_r13 i, 15 := reset_pc cfg),
        flags := 0, ll_reservation_addr := 0, ll_reservation_valid := False,
        halted := False, locked_up := False, state := FETCH_TRANSLATE\<rparr>,
      quiet\<lparr>strobes := no_strobes\<lparr>core_trap :=
        Some \<lparr>ti_cause = 0, ti_fault_addr = 0, ti_access = 0, ti_pc = 0, ti_aux = 0\<rparr>\<rparr>\<rparr>)"

definition do_fetch_translate :: "core_config \<Rightarrow> core_in \<Rightarrow> core \<Rightarrow> core \<times> core_out" where
  "do_fetch_translate cfg i s =
     (let pc = current_pc s;
          walk_it = (start_walk pc ACCESS_EXECUTE FETCH s)\<lparr>pend := (pend s)\<lparr>pending_fault_pc := pc\<rparr>\<rparr>
      in if bit pc 0 then
           raise_sync_trap EXEC_ALIGN pc pc (ucast ACCESS_EXECUTE) (encode_aux AUX_SUBTYPE_NONE 0) s
         else if paging_enabled s \<and> \<not> enable_mmu cfg then enter_lockup s
         else if take_irq cfg i s then
           begin_interrupt_entry (pending_irq_vector cfg i s) pc no_strobes s
         else if \<not> paging_enabled s then (s\<lparr>fetch_phys_addr := pc, state := FETCH\<rparr>, quiet)
         else if \<not> is_canonical39 pc then
           raise_sync_trap PAGE_FAULT_CANONICAL pc pc (ucast ACCESS_EXECUTE) (encode_aux AUX_SUBTYPE_CANONICAL 2) s
         else if page_table_root_physical (sregs s) AND 0xFFF \<noteq> 0 then
           raise_sync_trap PAGE_FAULT_RESERVED pc pc (ucast ACCESS_EXECUTE) (encode_aux AUX_SUBTYPE_RESERVED_BIT 2) s
         else if enable_tlb cfg then
           (if tlb_hit_ok cfg s then (s\<lparr>fetch_phys_addr := tlb_paddr cfg s, state := FETCH\<rparr>, quiet)
            else (walk_it, quiet))
         else (walk_it, quiet))"

definition do_fetch :: "core_in \<Rightarrow> core \<Rightarrow> core \<times> core_out" where
  "do_fetch i s =
     (if i_err i then (s\<lparr>locked_up := True, state := HALTED\<rparr>, quiet)
      else if i_ack i then
        (s\<lparr>fetch_pc := current_pc s,
           current_instruction := instruction_word (fetch_phys_addr s) (i_dat_r i),
           state := EXECUTE\<rparr>, quiet)
      else (s, quiet))"

section \<open>Execute: immediates\<close>

definition exec_ldi :: "core \<Rightarrow> core \<times> core_out" where
  "exec_ldi s =
     (let shift = instruction_ldi_shift (current_instruction s);
          imm8 = instruction_ldi_imm8 (current_instruction s);
          rd_value = c_a s;
          sign_extended_imm = sign_extend (push_bit 24 (ucast imm8) :: 32 word);
          ldi_value = (if shift = 0 then ucast imm8
                       else if shift = 1 then rd_value OR push_bit 8 (ucast imm8)
                       else if shift = 2 then rd_value OR push_bit 16 (ucast imm8)
                       else rd_value OR sign_extended_imm)
      in finish (post_increment_pc s) (write_reg (c_rd s) ldi_value s))"

section \<open>Execute: loads and stores\<close>

text \<open>The assignments every memory instruction makes to the pending operation.\<close>

definition pend_base :: "core \<Rightarrow> u64 \<Rightarrow> 4 word \<Rightarrow> bool \<Rightarrow> pending_op" where
  "pend_base s addr width wr = (pend s)\<lparr>
     pending_addr := addr, pending_virtual_addr := addr, pending_width_bytes := width,
     pending_next_pc := post_increment_pc s, pending_fault_pc := fetch_pc s,
     pending_mem_write := wr, pending_set_reservation := False,
     pending_post_mem_write := False, pending_post_mem_use_load_result := False,
     pending_post_mem_delta := 0, pending_chain_store := False,
     pending_chain_store_use_load_result := False, pending_chain_store_value := 0\<rparr>"

definition issue :: "pending_op \<Rightarrow> core \<Rightarrow> core \<times> core_out" where
  "issue p s = (goto MEM_TRANSLATE (s\<lparr>pend := p\<rparr>), quiet)"

definition load_width :: "ls_opcode \<Rightarrow> 4 word" where
  "load_width c = (if c = LS_BYTE_LOAD then 1 else if c = LS_SHORT_LOAD then 2
                   else if c = LS_WORD_LOAD then 4 else 8)"

definition store_width :: "ls_opcode \<Rightarrow> 4 word" where
  "store_width c = (if c = LS_BYTE_STORE then 1 else if c = LS_SHORT_STORE then 2
                    else if c = LS_WORD_STORE then 4 else 8)"

definition exec_load :: "u64 \<Rightarrow> ls_opcode \<Rightarrow> core \<Rightarrow> core \<times> core_out" where
  "exec_load addr c s = issue ((pend_base s addr (load_width c) False)\<lparr>pending_rd := c_rd s\<rparr>) s"

definition exec_store :: "u64 \<Rightarrow> u64 \<Rightarrow> ls_opcode \<Rightarrow> core \<Rightarrow> core \<times> core_out" where
  "exec_store addr v c s =
     issue ((pend_base s addr (store_width c) True)\<lparr>pending_store_value := v\<rparr>) s"

definition exec_reg_push :: "core \<Rightarrow> core \<times> core_out" where
  "exec_reg_push s =
     issue ((pend_base s (ls_push_addr s) 8 True)\<lparr>pending_store_value := ls_rs1_value s\<rparr>)
       (write_reg (c_rd s) (ls_push_addr s) s)"

definition exec_reg_pop :: "core \<Rightarrow> core \<times> core_out" where
  "exec_reg_pop s =
     issue ((pend_base s (ls_rd_value s) 8 False)\<lparr>
       pending_rd := c_rs1 s, pending_post_mem_reg := c_rd s,
       pending_post_mem_value := ls_rd_value s + 8, pending_post_mem_delta := 8,
       pending_post_mem_write := True,
       pending_post_mem_use_load_result := (c_rd s = c_rs1 s)\<rparr>) s"

definition exec_reg_move :: "core \<Rightarrow> core \<times> core_out" where
  "exec_reg_move s =
     finish (if c_rd s = 15 then ls_addr s else post_increment_pc s) (write_reg (c_rd s) (ls_addr s) s)"

definition exec_reg_jump :: "ls_opcode \<Rightarrow> core \<Rightarrow> core \<times> core_out" where
  "exec_reg_jump c s =
     (let taken = ls_condition (flags s) c
      in finish (if taken \<and> c_rd s = 15 then ls_addr s else post_increment_pc s)
           (if taken then write_reg (c_rd s) (ls_addr s) s else s))"

definition exec_ls_reg :: "ls_opcode \<Rightarrow> core \<Rightarrow> core \<times> core_out" where
  "exec_ls_reg c s =
     (case c of
        LS_LOAD \<Rightarrow> exec_load (ls_addr s) c s
      | LS_BYTE_LOAD \<Rightarrow> exec_load (ls_addr s) c s
      | LS_SHORT_LOAD \<Rightarrow> exec_load (ls_addr s) c s
      | LS_WORD_LOAD \<Rightarrow> exec_load (ls_addr s) c s
      | LS_STORE \<Rightarrow> exec_store (ls_addr s) (ls_rd_value s) c s
      | LS_BYTE_STORE \<Rightarrow> exec_store (ls_addr s) (ls_rd_value s) c s
      | LS_SHORT_STORE \<Rightarrow> exec_store (ls_addr s) (ls_rd_value s) c s
      | LS_WORD_STORE \<Rightarrow> exec_store (ls_addr s) (ls_rd_value s) c s
      | LS_PUSH \<Rightarrow> exec_reg_push s
      | LS_POP \<Rightarrow> exec_reg_pop s
      | LS_MOVE \<Rightarrow> exec_reg_move s
      | _ \<Rightarrow> exec_reg_jump c s)"

definition exec_pc_push :: "core \<Rightarrow> core \<times> core_out" where
  "exec_pc_push s =
     issue ((pend_base s (ls_pc_effective s) 8 False)\<lparr>
       pending_rd := 0, pending_post_mem_reg := c_rd s,
       pending_post_mem_value := ls_pc_push_addr s, pending_post_mem_write := True,
       pending_chain_store := True, pending_chain_store_addr := ls_pc_push_addr s,
       pending_chain_store_use_load_result := True\<rparr>) s"

definition exec_pc_pop :: "core \<Rightarrow> core \<times> core_out" where
  "exec_pc_pop s =
     issue ((pend_base s (c_a s) 8 False)\<lparr>
       pending_rd := 0, pending_post_mem_reg := c_rd s,
       pending_post_mem_value := c_a s + 8, pending_post_mem_write := True,
       pending_chain_store := True, pending_chain_store_addr := ls_pc_effective s,
       pending_chain_store_use_load_result := True\<rparr>) s"

definition exec_pc_move :: "core \<Rightarrow> core \<times> core_out" where
  "exec_pc_move s =
     finish (if c_rd s = 15 then ls_pc_effective s else post_increment_pc s)
       (write_reg (c_rd s) (ls_pc_effective s) s)"

definition exec_pc_jump :: "ls_opcode \<Rightarrow> core \<Rightarrow> core \<times> core_out" where
  "exec_pc_jump c s =
     finish (if ls_condition (flags s) c then ls_jump_effective s else post_increment_pc s) s"

definition exec_ls_pc :: "ls_opcode \<Rightarrow> core \<Rightarrow> core \<times> core_out" where
  "exec_ls_pc c s =
     (case c of
        LS_LOAD \<Rightarrow> exec_load (ls_pc_effective s) c s
      | LS_BYTE_LOAD \<Rightarrow> exec_load (ls_pc_effective s) c s
      | LS_SHORT_LOAD \<Rightarrow> exec_load (ls_pc_effective s) c s
      | LS_WORD_LOAD \<Rightarrow> exec_load (ls_pc_effective s) c s
      | LS_STORE \<Rightarrow> exec_store (ls_pc_effective s) (c_a s) c s
      | LS_BYTE_STORE \<Rightarrow> exec_store (ls_pc_effective s) (c_a s) c s
      | LS_SHORT_STORE \<Rightarrow> exec_store (ls_pc_effective s) (c_a s) c s
      | LS_WORD_STORE \<Rightarrow> exec_store (ls_pc_effective s) (c_a s) c s
      | LS_PUSH \<Rightarrow> exec_pc_push s
      | LS_POP \<Rightarrow> exec_pc_pop s
      | LS_MOVE \<Rightarrow> exec_pc_move s
      | _ \<Rightarrow> exec_pc_jump c s)"

section \<open>Execute: register operations\<close>

definition finish_alu :: "u64 option \<Rightarrow> 3 word \<Rightarrow> core \<Rightarrow> core \<times> core_out" where
  "finish_alu res fl s =
     finish (post_increment_pc s)
       ((case res of Some v \<Rightarrow> write_reg (c_rd s) v s | None \<Rightarrow> s)\<lparr>flags := fl\<rparr>)"

definition sum_value :: "u64 \<Rightarrow> u64 \<Rightarrow> 65 word" where "sum_value a b = ucast a + ucast b"

definition exec_arith :: "gp_opcode \<Rightarrow> core \<Rightarrow> core \<times> core_out" where
  "exec_arith c s =
     (let a = c_a s; b = c_b s; sum = sum_value a b; sub_value = a - b in
      case c of
        GP_ADD \<Rightarrow> finish_alu (Some (ucast sum)) (flag_value (ucast sum) (bit sum 64)) s
      | GP_SUB \<Rightarrow> finish_alu (Some sub_value) (flag_value sub_value (a < b)) s
      | GP_TEST \<Rightarrow> finish_alu None (flag_value sub_value (a < b)) s
      | GP_AND \<Rightarrow> finish_alu (Some (a AND b)) (flag_value (a AND b) False) s
      | GP_OR \<Rightarrow> finish_alu (Some (a OR b)) (flag_value (a OR b) False) s
      | _ \<Rightarrow> finish_alu (Some (a XOR b)) (flag_value (a XOR b) False) s)"

definition exec_shift :: "gp_opcode \<Rightarrow> core \<Rightarrow> core \<times> core_out" where
  "exec_shift c s =
     (let a = c_a s; n = shift_index (c_b s) in
      case c of
        GP_SLL \<Rightarrow> finish_alu (Some (sll_result a n)) (cat3 (sll_zeroes a n) (sll_carries a n) (sll_signs a n)) s
      | GP_SRL \<Rightarrow> finish_alu (Some (srl_result a n)) (cat3 (srl_zeroes a n) (srl_carries a n) (srl_signs a n)) s
      | _ \<Rightarrow> finish_alu (Some (sra_result a n)) (cat3 (sra_zeroes a n) (sra_carries a n) (sra_signs a n)) s)"

definition exec_shift_imm :: "gp_opcode \<Rightarrow> core \<Rightarrow> core \<times> core_out" where
  "exec_shift_imm c s =
     (let a = c_a s; n = unat (instruction_gp_imm4 (current_instruction s)) in
      case c of
        GP_SLLI \<Rightarrow> finish_alu (Some (slli_results a n)) (cat3 (slli_zeroes a n) (slli_carries a n) (slli_signs a n)) s
      | GP_SRLI \<Rightarrow> finish_alu (Some (srli_results a n)) (cat3 (srli_zeroes a n) (srli_carries a n) (srli_signs a n)) s
      | _ \<Rightarrow> finish_alu (Some (srai_results a n)) (cat3 (srai_zeroes a n) (srai_carries a n) (srai_signs a n)) s)"

section \<open>Execute: load-linked, store-conditional\<close>

definition exec_llr :: "core \<Rightarrow> core \<times> core_out" where
  "exec_llr s =
     issue ((pend_base s (c_b s) 8 False)\<lparr>
       pending_rd := c_rd s, pending_set_reservation := True, pending_reservation_addr := c_b s\<rparr>) s"

definition exec_scr :: "core \<Rightarrow> core \<times> core_out" where
  "exec_scr s =
     (if ll_reservation_valid s \<and> ll_reservation_addr s = c_b s then
        issue ((pend_base s (c_b s) 8 True)\<lparr>pending_store_value := c_a s\<rparr>)
          (s\<lparr>ll_reservation_valid := False, flags := cat3 True (bit (flags s) 1) (bit (flags s) 2)\<rparr>)
      else
        finish (post_increment_pc s)
          (s\<lparr>ll_reservation_valid := False, flags := cat3 False (bit (flags s) 1) (bit (flags s) 2)\<rparr>))"

section \<open>Execute: system instructions\<close>

definition ssr_write_port :: "core \<Rightarrow> sr_port" where
  "ssr_write_port s = \<lparr>
     write_stb = (state s = EXECUTE \<and> instruction_top3 (current_instruction s) = 6 \<and>
                  instruction_gp_opcode (current_instruction s) = gp_code GP_SSR),
     write_selector = ucast (c_b s), write_data = c_a s\<rparr>"

definition exec_lsr :: "core_config \<Rightarrow> core \<Rightarrow> core \<times> core_out" where
  "exec_lsr cfg s =
     (if sr_read_access_fault (user_mode s) (ucast (c_b s))
      then raise_sync_trap PRIVILEGED_INSTRUCTION (fetch_pc s) 0 0 0 s
      else finish (post_increment_pc s)
             (write_reg (c_rd s) (sr_read_data cfg (sregs s) (ucast (c_b s))) s))"

definition exec_ssr :: "core \<Rightarrow> core \<times> core_out" where
  "exec_ssr s =
     (if sr_write_access_fault (user_mode s) (ssr_write_port s)
      then raise_sync_trap PRIVILEGED_INSTRUCTION (fetch_pc s) 0 0 0 s
      else finish (post_increment_pc s) s)"

definition exec_syscall :: "core \<Rightarrow> core \<times> core_out" where
  "exec_syscall s =
     raise_sync_trap (if user_mode s then SYSCALL else SYSCALL_FROM_SUPERVISOR) (fetch_pc s) 0 0 0 s"

definition exec_iret :: "core \<Rightarrow> core \<times> core_out" where
  "exec_iret s =
     (if user_mode s then raise_sync_trap PRIVILEGED_INSTRUCTION (fetch_pc s) 0 0 0 s
      else (goto FETCH_TRANSLATE (set_pc (interrupt_epc (sregs s))
              (s\<lparr>flags := ucast (interrupt_eflags (sregs s))\<rparr>)),
            committing\<lparr>strobes := no_strobes\<lparr>
              core_cpu_control := Some (interrupt_cpu_control (sregs s))\<rparr>\<rparr>))"

definition exec_stop :: "core \<Rightarrow> core \<times> core_out" where
  "exec_stop s =
     (if user_mode s then raise_sync_trap PRIVILEGED_INSTRUCTION (fetch_pc s) 0 0 0 s
      else ((set_pc (post_increment_pc s) s)\<lparr>halted := True, state := HALTED\<rparr>, committing))"

definition exec_gp :: "core_config \<Rightarrow> core \<Rightarrow> core \<times> core_out" where
  "exec_gp cfg s =
     (case gp_opcode_of (instruction_gp_opcode (current_instruction s)) of
        None \<Rightarrow> raise_sync_trap INVALID_INSTRUCTION (fetch_pc s) 0 0 0 s
      | Some c \<Rightarrow>
          (case c of
             GP_LLR \<Rightarrow> exec_llr s | GP_SCR \<Rightarrow> exec_scr s
           | GP_SLL \<Rightarrow> exec_shift c s | GP_SRL \<Rightarrow> exec_shift c s | GP_SRA \<Rightarrow> exec_shift c s
           | GP_SLLI \<Rightarrow> exec_shift_imm c s | GP_SRLI \<Rightarrow> exec_shift_imm c s | GP_SRAI \<Rightarrow> exec_shift_imm c s
           | GP_LSR \<Rightarrow> exec_lsr cfg s | GP_SSR \<Rightarrow> exec_ssr s | GP_SYSCALL \<Rightarrow> exec_syscall s
           | GP_IRET \<Rightarrow> exec_iret s | GP_STOP \<Rightarrow> exec_stop s
           | _ \<Rightarrow> exec_arith c s))"

definition exec_ujmp :: "core \<Rightarrow> core \<times> core_out" where
  "exec_ujmp s =
     finish (post_increment_pc s +
       push_bit 1 (sign_extend (bslice 0 (current_instruction s) :: 13 word))) s"

text \<open>The format switch.  Its last branch is never taken, since the five conditions cover
  every instruction word; it is kept as the source has it.\<close>

definition do_execute :: "core_config \<Rightarrow> core \<Rightarrow> core \<times> core_out" where
  "do_execute cfg s =
     (let i = current_instruction s; ls = ls_opcode_of (instruction_ls_opcode i) in
      if instruction_top2 i = 2 then exec_ldi s
      else if instruction_top2 i = 0 then exec_ls_reg ls s
      else if instruction_top2 i = 1 then exec_ls_pc ls s
      else if instruction_top3 i = 6 then exec_gp cfg s
      else if instruction_top3 i = 7 then exec_ujmp s
      else enter_lockup s)"

section \<open>Data translation and the memory states\<close>

definition mem_state :: "core \<Rightarrow> core_state" where
  "mem_state s = (if pending_mem_write (pend s) then MEM_STORE else MEM_LOAD)"

definition do_mem_translate :: "core_config \<Rightarrow> core \<Rightarrow> core \<times> core_out" where
  "do_mem_translate cfg s =
     (let p = pend s; walk_it = start_walk (pending_virtual_addr p) (data_access s) (mem_state s) s in
      if paging_enabled s \<and> \<not> enable_mmu cfg then enter_lockup s
      else if \<not> paging_enabled s then (goto (mem_state s) s, quiet)
      else if \<not> is_canonical39 (pending_addr p) then
        raise_sync_trap PAGE_FAULT_CANONICAL (pending_fault_pc p) (pending_virtual_addr p)
          (ucast (data_access s)) (encode_aux AUX_SUBTYPE_CANONICAL 2) s
      else if page_table_root_physical (sregs s) AND 0xFFF \<noteq> 0 then
        raise_sync_trap PAGE_FAULT_RESERVED (pending_fault_pc p) (pending_virtual_addr p)
          (ucast (data_access s)) (encode_aux AUX_SUBTYPE_RESERVED_BIT 2) s
      else if enable_tlb cfg then
        (if tlb_hit_ok cfg s
         then (s\<lparr>pend := p\<lparr>pending_addr := tlb_paddr cfg s\<rparr>, state := mem_state s\<rparr>, quiet)
         else (walk_it, quiet))
      else (walk_it, quiet))"

definition pend_off :: "core \<Rightarrow> 3 word" where "pend_off s = byte_offset (pending_addr (pend s))"
definition pend_sel :: "core \<Rightarrow> byte" where "pend_sel s = base_sel (pending_width_bytes (pend s))"
definition core_split_needed :: "core \<Rightarrow> bool" where
  "core_split_needed s = split_needed (pend_sel s) (pend_off s)"

text \<open>
  What the last beat of a load does with the assembled value \<open>v\<close>: the same text twice in
  the source, for the one-beat and for the split load.
\<close>

definition complete_load :: "u64 \<Rightarrow> core \<Rightarrow> core \<times> core_out" where
  "complete_load v s =
     (let p = pend s;
          post_mem_value = (if pending_post_mem_use_load_result p then v + pending_post_mem_delta p
                            else pending_post_mem_value p);
          next_pc_after_load =
            (if pending_post_mem_write p \<and> pending_post_mem_reg p = 15 then post_mem_value
             else if pending_rd p = 15 then v else pending_next_pc p);
          s1 = write_reg (pending_rd p) v s;
          s2 = (if pending_post_mem_write p then write_reg (pending_post_mem_reg p) post_mem_value s1 else s1);
          s3 = (if pending_set_reservation p
                then s2\<lparr>ll_reservation_addr := pending_reservation_addr p, ll_reservation_valid := True\<rparr>
                else s2)
      in if pending_chain_store p then
           (s3\<lparr>pend := p\<lparr>
              pending_addr := pending_chain_store_addr p,
              pending_virtual_addr := pending_chain_store_addr p, pending_width_bytes := 8,
              pending_store_value := (if pending_chain_store_use_load_result p then v
                                      else pending_chain_store_value p),
              pending_mem_write := True, pending_set_reservation := False,
              pending_post_mem_write := False, pending_post_mem_use_load_result := False,
              pending_post_mem_delta := 0, pending_chain_store := False,
              pending_chain_store_use_load_result := False, pending_chain_store_value := 0\<rparr>,
              state := MEM_TRANSLATE\<rparr>, quiet)
         else finish next_pc_after_load s3)"

definition do_mem_load :: "core_in \<Rightarrow> core \<Rightarrow> core \<times> core_out" where
  "do_mem_load i s =
     (if d_err i then enter_lockup s
      else if d_ack i then
        (if core_split_needed s
         then (s\<lparr>split_first_data := d_dat_r i, split_first_cycle := True, state := MEM_LOAD_SPLIT\<rparr>, quiet)
         else complete_load
                (load_result (pending_width_bytes (pend s)) (single_read_data (pend_off s) (d_dat_r i))) s)
      else (s, quiet))"

definition do_mem_load_split :: "core_in \<Rightarrow> core \<Rightarrow> core \<times> core_out" where
  "do_mem_load_split i s =
     (if split_first_cycle s then (s\<lparr>split_first_cycle := False\<rparr>, quiet)
      else if d_err i then enter_lockup s
      else if d_ack i then
        complete_load (load_result (pending_width_bytes (pend s))
          (combined_read_data (pend_off s) (split_first_data s) (d_dat_r i))) s
      else (s, quiet))"

definition store_overlaps_reservation :: "core \<Rightarrow> bool" where
  "store_overlaps_reservation s \<longleftrightarrow>
     (let p = pend s; reservation_end = ll_reservation_addr s + 7;
          write_end = pending_virtual_addr p + ucast (pending_width_bytes p) - 1
      in ll_reservation_valid s \<and> pending_width_bytes p \<noteq> 0 \<and>
         pending_virtual_addr p \<le> reservation_end \<and> ll_reservation_addr s \<le> write_end)"

definition complete_store :: "core \<Rightarrow> core \<times> core_out" where
  "complete_store s =
     (let p = pend s;
          s1 = (if store_overlaps_reservation s then s\<lparr>ll_reservation_valid := False\<rparr> else s);
          s2 = (if pending_post_mem_write p
                then write_reg (pending_post_mem_reg p) (pending_post_mem_value p) s1 else s1)
      in finish (if pending_post_mem_write p \<and> pending_post_mem_reg p = 15
                 then pending_post_mem_value p else pending_next_pc p) s2)"

definition do_mem_store :: "core_in \<Rightarrow> core \<Rightarrow> core \<times> core_out" where
  "do_mem_store i s =
     (if d_err i then enter_lockup s
      else if d_ack i then
        (if core_split_needed s then (s\<lparr>split_first_cycle := True, state := MEM_STORE_SPLIT\<rparr>, quiet)
         else complete_store s)
      else (s, quiet))"

definition do_mem_store_split :: "core_in \<Rightarrow> core \<Rightarrow> core \<times> core_out" where
  "do_mem_store_split i s =
     (if split_first_cycle s then (s\<lparr>split_first_cycle := False\<rparr>, quiet)
      else if d_err i then enter_lockup s
      else if d_ack i then complete_store s
      else (s, quiet))"

section \<open>Trap entry\<close>

definition do_vector_translate :: "core_config \<Rightarrow> core \<Rightarrow> core \<times> core_out" where
  "do_vector_translate cfg s =
     (let va = interrupt_vector_table_addr s;
          walk_it = start_walk va ACCESS_READ INTERRUPT_VECTOR_LOAD s
      in if paging_enabled s \<and> \<not> enable_mmu cfg then enter_lockup s
         else if \<not> paging_enabled s
           then (s\<lparr>interrupt_vector_phys := va, state := INTERRUPT_VECTOR_LOAD\<rparr>, quiet)
         else if \<not> is_canonical39 va then enter_lockup s
         else if page_table_root_physical (sregs s) AND 0xFFF \<noteq> 0 then enter_lockup s
         else if enable_tlb cfg then
           (if tlb_hit_ok cfg s
            then (s\<lparr>interrupt_vector_phys := tlb_paddr cfg s, state := INTERRUPT_VECTOR_LOAD\<rparr>, quiet)
            else (walk_it, quiet))
         else (walk_it, quiet))"

definition do_vector_load :: "core_in \<Rightarrow> core \<Rightarrow> core \<times> core_out" where
  "do_vector_load i s =
     (if d_err i then enter_lockup s
      else if d_ack i then
        (if d_dat_r i = 0 then enter_lockup s
         else (goto FETCH_TRANSLATE (set_pc (d_dat_r i) s),
               quiet\<lparr>strobes := no_strobes\<lparr>
                 core_interrupt_epc := Some (interrupt_entry_epc s),
                 core_interrupt_eflags := Some (ucast (flags s))\<rparr>\<rparr>))
      else (s, quiet))"

section \<open>The page-table walk\<close>

definition do_walk :: "core_in \<Rightarrow> core \<Rightarrow> core \<times> core_out" where
  "do_walk i s =
     (if d_err i then enter_lockup s
      else if d_ack i then
        (s\<lparr>walk := (walk s)\<lparr>walk_pte_latched := d_dat_r i\<rparr>, state := WALK_PROCESS\<rparr>, quiet)
      else (s, quiet))"

text \<open>A failed walk traps, except during a vector fetch, where it locks the core up.\<close>

definition walk_fail :: "trap_vector \<Rightarrow> u64 \<Rightarrow> u64 \<Rightarrow> core \<Rightarrow> core \<times> core_out" where
  "walk_fail tv subtype level s =
     (if walk_resume_state (walk s) = INTERRUPT_VECTOR_LOAD then enter_lockup s
      else raise_sync_trap tv (pending_fault_pc (pend s)) (walk_virtual_addr (walk s))
             (ucast (walk_access (walk s))) (encode_aux subtype level) s)"

definition walk_succeed :: "core_config \<Rightarrow> core \<Rightarrow> core \<times> core_out" where
  "walk_succeed cfg s =
     (let phys = walk_result_phys (walk s); resume = walk_resume_state (walk s) in
      (if resume = FETCH then s\<lparr>fetch_phys_addr := phys, state := FETCH\<rparr>
       else if resume = INTERRUPT_VECTOR_LOAD
         then s\<lparr>interrupt_vector_phys := phys, state := INTERRUPT_VECTOR_LOAD\<rparr>
       else s\<lparr>pend := (pend s)\<lparr>pending_addr := phys\<rparr>, state := resume\<rparr>,
       quiet\<lparr>tlb_fill_valid := enable_tlb cfg\<rparr>))"

definition do_walk_process :: "core_config \<Rightarrow> core \<Rightarrow> core \<times> core_out" where
  "do_walk_process cfg s =
     (let w = walk s; pte = walk_pte_latched w; level = walk_level w;
          denied = (\<not> pte_permission_ok (walk_access w) pte \<or> \<not> pte_user_ok (user_mode s) pte)
      in if pte AND PTE_V = 0 then
           walk_fail PAGE_FAULT_NOT_PRESENT AUX_SUBTYPE_NO_VALID_PTE (ucast level) s
         else if 0 < level \<and> pte_is_leaf pte then
           (if denied then walk_fail PAGE_FAULT_PERMISSION AUX_SUBTYPE_PERMISSION (ucast level) s
            else walk_succeed cfg s)
         else if pte_reserved pte then
           walk_fail PAGE_FAULT_RESERVED AUX_SUBTYPE_RESERVED_BIT (ucast level) s
         else if level = 0 then
           (if \<not> pte_is_leaf pte then walk_fail PAGE_FAULT_RESERVED AUX_SUBTYPE_INVALID_NONLEAF 0 s
            else if denied then walk_fail PAGE_FAULT_PERMISSION AUX_SUBTYPE_PERMISSION 0 s
            else walk_succeed cfg s)
         else
           (s\<lparr>walk := w\<lparr>walk_table_addr := pte_base pte, walk_level := level - 1\<rparr>, state := WALK\<rparr>,
            quiet))"

definition do_halted :: "core \<Rightarrow> core \<times> core_out" where
  "do_halted s = (s\<lparr>halted := halted s \<or> \<not> locked_up s\<rparr>, quiet)"

section \<open>The clock edge\<close>

definition core_next :: "core_config \<Rightarrow> core_in \<Rightarrow> core \<Rightarrow> core \<times> core_out" where
  "core_next cfg i s =
     (case state s of
        RESET \<Rightarrow> do_reset cfg i s
      | FETCH_TRANSLATE \<Rightarrow> do_fetch_translate cfg i s
      | FETCH \<Rightarrow> do_fetch i s
      | EXECUTE \<Rightarrow> do_execute cfg s
      | MEM_TRANSLATE \<Rightarrow> do_mem_translate cfg s
      | MEM_LOAD \<Rightarrow> do_mem_load i s
      | MEM_LOAD_SPLIT \<Rightarrow> do_mem_load_split i s
      | MEM_STORE \<Rightarrow> do_mem_store i s
      | MEM_STORE_SPLIT \<Rightarrow> do_mem_store_split i s
      | INTERRUPT_VECTOR_TRANSLATE \<Rightarrow> do_vector_translate cfg s
      | INTERRUPT_VECTOR_LOAD \<Rightarrow> do_vector_load i s
      | WALK \<Rightarrow> do_walk i s
      | WALK_PROCESS \<Rightarrow> do_walk_process cfg s
      | HALTED \<Rightarrow> do_halted s)"

definition interrupt_states_high_set :: "core_config \<Rightarrow> core_in \<Rightarrow> core \<Rightarrow> u64" where
  "interrupt_states_high_set cfg i s =
     (let p = ssr_write_port s; m = irq_line_pending_mask cfg i in
      if m \<noteq> 0 \<and> \<not> (write_stb p \<and> write_selector p = sr_code INTERRUPT_STATES_HIGH) then m else 0)"

definition tlb_fill_request :: "core_out \<Rightarrow> core \<Rightarrow> (page \<times> page \<times> tlb_perms) option" where
  "tlb_fill_request out s =
     (if tlb_fill_valid out
      then Some (page_of (walk_virtual_addr (walk s)), page_of (walk_result_phys (walk s)),
                 pte_perms (walk_pte_latched (walk s)))
      else None)"

definition core_tick :: "core_config \<Rightarrow> core_in \<Rightarrow> core \<Rightarrow> core" where
  "core_tick cfg i s =
     (let (n, out) = core_next cfg i s; p = ssr_write_port s in
      n\<lparr>regs := (regs n)(0 := 0),
        sregs := sr_tick cfg (user_mode s) (strobes out) p (interrupt_states_high_set cfg i s) (sregs s),
        tlb_state := (if enable_tlb cfg
                      then tlb_tick (tlb_index_bits cfg) (sr_tlb_flush cfg (user_mode s) (strobes out) p)
                             (tlb_fill_request out s) (tlb_state s)
                      else tlb_state s)\<rparr>)"

definition core_commits :: "core_config \<Rightarrow> core_in \<Rightarrow> core \<Rightarrow> u64 option" where
  "core_commits cfg i s =
     (if commit_valid (snd (core_next cfg i s)) then Some (fetch_pc s) else None)"

section \<open>Bus outputs\<close>

definition i_bus_out :: "core \<Rightarrow> bus_out" where
  "i_bus_out s = \<lparr>cyc = (state s = FETCH), we = False,
     adr = fetch_phys_addr s AND NOT 7, sel = 0xFF, dat_w = 0\<rparr>"

definition d_bus_out :: "core \<Rightarrow> bus_out" where
  "d_bus_out s =
     (let st = state s; p = pend s; v = pending_store_value p;
          split = (st = MEM_LOAD_SPLIT \<or> st = MEM_STORE_SPLIT);
          word_aligned_addr = pending_addr p AND NOT 7;
          table_access = (st = WALK \<or> st = INTERRUPT_VECTOR_LOAD)
      in \<lparr>cyc = (st = MEM_LOAD \<or> st = MEM_STORE \<or> table_access \<or> split \<and> \<not> split_first_cycle s),
          we = (st = MEM_STORE \<or> st = MEM_STORE_SPLIT \<and> \<not> split_first_cycle s),
          adr = (if st = WALK then walk_pte_addr (walk s)
                 else if st = INTERRUPT_VECTOR_LOAD then interrupt_vector_phys s
                 else if split then word_aligned_addr + 8
                 else word_aligned_addr),
          sel = (if table_access then 0xFF
                 else if split then second_beat_sel (pend_sel s) (pend_off s)
                 else first_beat_sel (pend_sel s) (pend_off s)),
          dat_w = (if table_access then 0
                   else if st = MEM_STORE_SPLIT then second_beat_dat_w v (pend_off s)
                   else first_beat_dat_w v (pend_off s))\<rparr>)"

end
