(* ===== verification/Isa_Spec.thy ===== *)
theory Isa_Spec
  imports Isa
begin

text \<open>
  The instruction set as \<open>docs/hardware/instruction-set.md\<close> states it, independently of
  any core: the instructions as a datatype with their 16-bit encoding, the arithmetic
  and flag rules, and the effect one instruction has, as a value.  The execute logic of
  every core is later proved equal to \<open>isa_execute\<close>.
\<close>

section \<open>Instructions and their encoding\<close>

datatype instr =
    I_LDI "2 word" "8 word" reg_index
  | I_LS ls_opcode "2 word" reg_index reg_index
  | I_PC ls_opcode "6 word" reg_index
  | I_PCJ ls_opcode "10 word"
  | I_GP gp_opcode reg_index reg_index
  | I_GP_Invalid "5 word" reg_index reg_index
  | I_UJ "13 word"

definition is_jump :: "ls_opcode \<Rightarrow> bool" where
  "is_jump c \<longleftrightarrow> c \<in> {LS_JUMP_Z, LS_JUMP_C, LS_JUMP_S, LS_JUMP_GT, LS_JUMP_LT}"

lemma word4_all:
  fixes w :: "4 word"
  assumes "\<forall>n \<in> set [0..<16]. P (of_nat n :: 4 word)"
  shows "P w"
proof -
  have "unat w < 16" using unsigned_less [of w] by simp
  then have "unat w \<in> set [0..<16]" by simp
  with assms have "P (of_nat (unat w))" by (rule bspec)
  then show ?thesis by simp
qed

lemma is_jump_code [simp]: "is_jump (ls_opcode_of w) \<longleftrightarrow> 11 \<le> w"
  by (rule word4_all [of "\<lambda>w. is_jump (ls_opcode_of w) \<longleftrightarrow> 11 \<le> w"])
    (simp add: upt_conv_Cons is_jump_def ls_opcode_of_def word_le_nat_alt)

lemma ls_code_opcode_of [simp]: "ls_code (ls_opcode_of w) = w"
  by (rule word4_all [of "\<lambda>w. ls_code (ls_opcode_of w) = w"])
    (simp add: upt_conv_Cons ls_opcode_of_def)

definition decode :: "u16 \<Rightarrow> instr" where
  "decode w =
     (if instruction_top2 w = 2 then I_LDI (instruction_ldi_shift w) (instruction_ldi_imm8 w) (instruction_rd w)
      else if instruction_top2 w = 0
        then I_LS (ls_opcode_of (instruction_ls_opcode w)) (instruction_ls_offset2 w) (instruction_rs1 w) (instruction_rd w)
      else if instruction_top2 w = 1
        then (let c = ls_opcode_of (instruction_ls_opcode w)
              in if is_jump c then I_PCJ c (bslice 0 w) else I_PC c (bslice 4 w) (instruction_rd w))
      else if instruction_top3 w = 6
        then (case gp_opcode_of (instruction_gp_opcode w) of
                Some c \<Rightarrow> I_GP c (instruction_rs1 w) (instruction_rd w)
              | None \<Rightarrow> I_GP_Invalid (instruction_gp_opcode w) (instruction_rs1 w) (instruction_rd w))
      else I_UJ (bslice 0 w))"

text \<open>The fields of an encoding, from the least significant: widths add up to 16.\<close>

definition field :: "nat \<Rightarrow> 'a::len word \<Rightarrow> u16" where "field lo x = push_bit lo (ucast x)"

fun encode :: "instr \<Rightarrow> u16" where
  "encode (I_LDI sh imm rd) = field 0 rd OR field 4 imm OR field 12 sh OR field 14 (2 :: 2 word)"
| "encode (I_LS c off rs1 rd) = field 0 rd OR field 4 rs1 OR field 8 off OR field 10 (ls_code c) OR field 14 (0 :: 2 word)"
| "encode (I_PC c rel rd) = field 0 rd OR field 4 rel OR field 10 (ls_code c) OR field 14 (1 :: 2 word)"
| "encode (I_PCJ c rel) = field 0 rel OR field 10 (ls_code c) OR field 14 (1 :: 2 word)"
| "encode (I_GP c rs1 rd) = field 0 rd OR field 4 rs1 OR field 8 (gp_code c) OR field 13 (6 :: 3 word)"
| "encode (I_GP_Invalid c rs1 rd) = field 0 rd OR field 4 rs1 OR field 8 c OR field 13 (6 :: 3 word)"
| "encode (I_UJ rel) = field 0 rel OR field 13 (7 :: 3 word)"

definition wf_instr :: "instr \<Rightarrow> bool" where
  "wf_instr i = (case i of I_PC c _ _ \<Rightarrow> \<not> is_jump c | I_PCJ c _ \<Rightarrow> is_jump c
                 | I_GP_Invalid c _ _ \<Rightarrow> gp_opcode_of c = None | _ \<Rightarrow> True)"

lemma bit_field: "bit (field lo (x :: 'a::len word)) n \<longleftrightarrow> n < 16 \<and> lo \<le> n \<and> bit x (n - lo)"
  by (auto simp: field_def bit_simps dest: bit_imp_le_length)

subsection \<open>Both directions of the encoding\<close>

lemma bslice_or: "bslice lo (x OR y) = bslice lo x OR bslice lo y"
  by (rule bit_word_eqI) (auto simp: bit_simps)

lemma bslice_field_same:
  "lo + LENGTH('a) \<le> 16 \<Longrightarrow> (bslice lo (field lo (x :: 'a::len word)) :: 'a word) = x"
  by (rule bit_word_eqI) (auto simp: bit_bslice bit_field)

lemma bslice_field_below:
  "lo' + LENGTH('a) \<le> lo \<Longrightarrow> (bslice lo (field lo' (x :: 'a::len word)) :: 'b::len word) = 0"
  by (rule bit_word_eqI) (auto simp: bit_bslice bit_field dest: bit_imp_le_length)

lemma bslice_field_above:
  "lo + LENGTH('b) \<le> lo' \<Longrightarrow> (bslice lo (field lo' (x :: 'a::len word)) :: 'b::len word) = 0"
  by (rule bit_word_eqI) (auto simp: bit_bslice bit_field)

lemma top2_field13:
  "(bslice 14 (field 13 (6 :: 3 word)) :: 2 word) = 3"
  "(bslice 14 (field 13 (7 :: 3 word)) :: 2 word) = 3"
  by (simp_all add: bslice_def field_def)

lemmas bslice_fields = bslice_or bslice_field_same bslice_field_below bslice_field_above top2_field13

lemma decode_encode: "wf_instr i \<Longrightarrow> decode (encode i) = i"
proof (cases i)
  case (I_PC c rel rd)
  moreover assume "wf_instr i"
  ultimately show ?thesis
    by (simp add: decode_def instruction_field_defs bslice_fields wf_instr_def del: is_jump_code)
next
  case (I_PCJ c rel)
  moreover assume "wf_instr i"
  ultimately show ?thesis
    by (simp add: decode_def instruction_field_defs bslice_fields wf_instr_def del: is_jump_code)
next
  case (I_GP_Invalid c rs1 rd)
  moreover assume "wf_instr i"
  ultimately show ?thesis
    by (simp add: decode_def instruction_field_defs bslice_fields wf_instr_def)
qed (simp_all add: decode_def instruction_field_defs bslice_fields)

text \<open>Every instruction word is the concatenation of its fields, in each of the formats.\<close>

lemma bit_field_bslice:
  "bit (field lo (bslice lo w :: 'a::len word)) n \<longleftrightarrow> n < 16 \<and> lo \<le> n \<and> n < lo + LENGTH('a) \<and> bit (w :: u16) n"
  by (auto simp: bit_field bit_bslice)

lemma field_concat:
  fixes w :: u16
  shows "field 0 (bslice 0 w :: 4 word) OR field 4 (bslice 4 w :: 8 word) OR field 12 (bslice 12 w :: 2 word) OR field 14 (bslice 14 w :: 2 word) = w"
    and "field 0 (bslice 0 w :: 4 word) OR field 4 (bslice 4 w :: 4 word) OR field 8 (bslice 8 w :: 2 word) OR field 10 (bslice 10 w :: 4 word) OR field 14 (bslice 14 w :: 2 word) = w"
    and "field 0 (bslice 0 w :: 4 word) OR field 4 (bslice 4 w :: 6 word) OR field 10 (bslice 10 w :: 4 word) OR field 14 (bslice 14 w :: 2 word) = w"
    and "field 0 (bslice 0 w :: 10 word) OR field 10 (bslice 10 w :: 4 word) OR field 14 (bslice 14 w :: 2 word) = w"
    and "field 0 (bslice 0 w :: 4 word) OR field 4 (bslice 4 w :: 4 word) OR field 8 (bslice 8 w :: 5 word) OR field 13 (bslice 13 w :: 3 word) = w"
    and "field 0 (bslice 0 w :: 13 word) OR field 13 (bslice 13 w :: 3 word) = w"
  by (rule bit_word_eqI, auto simp: bit_or_iff bit_field_bslice)+

lemma top2_cases:
  "instruction_top2 w \<noteq> 2 \<Longrightarrow> instruction_top2 w \<noteq> 0 \<Longrightarrow> instruction_top2 w \<noteq> 1 \<Longrightarrow> instruction_top2 w = 3"
proof -
  have "unat (instruction_top2 w) < 4" using unsigned_less [of "instruction_top2 w"] by simp
  then show "instruction_top2 w \<noteq> 2 \<Longrightarrow> instruction_top2 w \<noteq> 0 \<Longrightarrow> instruction_top2 w \<noteq> 1 \<Longrightarrow> ?thesis"
    by unat_arith
qed

lemma encode_decode: "encode (decode w) = w"
proof -
  consider "instruction_top2 w = 2" | "instruction_top2 w = 0" | "instruction_top2 w = 1"
    | "instruction_top2 w = 3" "instruction_top3 w = 6" | "instruction_top2 w = 3" "instruction_top3 w = 7"
    using top2_cases [of w] top3_11x [of w] by blast
  then show ?thesis
  proof cases
    case 1
    then show ?thesis using field_concat(1) [of w] by (simp add: decode_def instruction_field_defs)
  next
    case 2
    then show ?thesis using field_concat(2) [of w] by (simp add: decode_def instruction_field_defs)
  next
    case 3
    then show ?thesis using field_concat(3,4) [of w]
      by (simp add: decode_def instruction_field_defs Let_def)
  next
    case 4
    then show ?thesis using field_concat(5) [of w]
      by (auto simp: decode_def instruction_field_defs dest: gp_opcode_of_SomeD split: option.split)
  next
    case 5
    then show ?thesis using field_concat(6) [of w] by (simp add: decode_def instruction_field_defs)
  qed
qed

lemma wf_decode: "wf_instr (decode w)"
  by (simp add: decode_def wf_instr_def Let_def split: option.split)

section \<open>Arithmetic and flags\<close>

text \<open>
  \<open>alu c a b imm\<close>: result and flags of the register operations, \<open>a\<close> the destination's old
  value, \<open>b\<close> the source.  Counts of the register shifts saturate at 64; the carry of a
  shift is the last bit shifted out (of a left shift: whether any bit was shifted out).
\<close>

definition shift_count :: "u64 \<Rightarrow> nat" where "shift_count b = min 64 (unat b)"

definition sll_spec :: "u64 \<Rightarrow> nat \<Rightarrow> u64 \<times> bool" where
  "sll_spec a n = (push_bit n a, 0 < n \<and> n < 64 \<and> drop_bit (64 - n) a \<noteq> 0)"

definition srl_spec :: "u64 \<Rightarrow> nat \<Rightarrow> u64 \<times> bool" where
  "srl_spec a n = (drop_bit n a, 0 < n \<and> n < 64 \<and> bit a (n - 1))"

definition sra_spec :: "u64 \<Rightarrow> nat \<Rightarrow> u64 \<times> bool" where
  "sra_spec a n = (signed_drop_bit n a, 0 < n \<and> n < 64 \<and> bit a (n - 1))"

definition alu :: "gp_opcode \<Rightarrow> u64 \<Rightarrow> u64 \<Rightarrow> 4 word \<Rightarrow> u64 \<times> bool" where
  "alu c a b imm =
     (case c of
        GP_ADD \<Rightarrow> (a + b, 2 ^ 64 \<le> unat a + unat b)
      | GP_SUB \<Rightarrow> (a - b, a < b)
      | GP_TEST \<Rightarrow> (a - b, a < b)
      | GP_AND \<Rightarrow> (a AND b, False)
      | GP_OR \<Rightarrow> (a OR b, False)
      | GP_XOR \<Rightarrow> (a XOR b, False)
      | GP_SLL \<Rightarrow> sll_spec a (shift_count b)
      | GP_SRL \<Rightarrow> srl_spec a (shift_count b)
      | GP_SRA \<Rightarrow> sra_spec a (shift_count b)
      | GP_SLLI \<Rightarrow> sll_spec a (unat imm)
      | GP_SRLI \<Rightarrow> srl_spec a (unat imm)
      | GP_SRAI \<Rightarrow> sra_spec a (unat imm)
      | _ \<Rightarrow> (a, False))"

definition is_alu :: "gp_opcode \<Rightarrow> bool" where
  "is_alu c \<longleftrightarrow> c \<in> {GP_ADD, GP_SUB, GP_TEST, GP_AND, GP_OR, GP_XOR,
     GP_SLL, GP_SRL, GP_SRA, GP_SLLI, GP_SRLI, GP_SRAI}"

definition ldi_value :: "2 word \<Rightarrow> 8 word \<Rightarrow> u64 \<Rightarrow> u64" where
  "ldi_value sh imm old =
     (if sh = 0 then ucast imm
      else if sh = 1 then old OR push_bit 8 (ucast imm)
      else if sh = 2 then old OR push_bit 16 (ucast imm)
      else old OR push_bit 24 (scast imm))"

section \<open>Effects\<close>

text \<open>
  A memory operation, with what happens to registers when it completes.  \<open>M_Push_PC\<close> and
  \<open>M_Pop_PC\<close> are the two-access forms: load from the first address, store the loaded
  value at the second, then move the stack register.
\<close>

datatype mem_op =
    M_Load u64 "4 word" reg_index
  | M_Store u64 "4 word" u64
  | M_Push u64 u64 reg_index
  | M_Pop u64 reg_index reg_index
  | M_Load_Linked u64 reg_index
  | M_Store_Cond u64 u64
  | M_Copy_Push u64 u64 reg_index
  | M_Copy_Pop u64 u64 reg_index

datatype effect =
    E_Write "(reg_index \<times> u64) option" "3 word option" u64
  | E_Mem mem_op
  | E_Sc_Fail
  | E_Trap trap_vector
  | E_Read_Special reg_index
  | E_Write_Special
  | E_Iret
  | E_Halt

text \<open>What an instruction reads: operands, flags, the incremented PC, mode and reservation.\<close>

record operands =
  op_a :: u64
  op_b :: u64
  op_flags :: "3 word"
  op_next :: u64
  op_user :: bool
  op_reserved :: "u64 option"
  op_read_fault :: bool
  op_write_fault :: bool

definition pc_view :: "operands \<Rightarrow> reg_index \<Rightarrow> u64 \<Rightarrow> u64" where
  "pc_view e r v = (if r = 15 then op_next e else v)"

definition access_bytes :: "ls_opcode \<Rightarrow> 4 word" where
  "access_bytes c =
     (if c \<in> {LS_BYTE_LOAD, LS_BYTE_STORE} then 1 else if c \<in> {LS_SHORT_LOAD, LS_SHORT_STORE} then 2
      else if c \<in> {LS_WORD_LOAD, LS_WORD_STORE} then 4 else 8)"

definition is_load :: "ls_opcode \<Rightarrow> bool" where
  "is_load c \<longleftrightarrow> c \<in> {LS_LOAD, LS_BYTE_LOAD, LS_SHORT_LOAD, LS_WORD_LOAD}"

definition is_store :: "ls_opcode \<Rightarrow> bool" where
  "is_store c \<longleftrightarrow> c \<in> {LS_STORE, LS_BYTE_STORE, LS_SHORT_STORE, LS_WORD_STORE}"

fun isa_execute :: "instr \<Rightarrow> operands \<Rightarrow> effect" where
  "isa_execute (I_LDI sh imm rd) e = E_Write (Some (rd, ldi_value sh imm (op_a e))) None (op_next e)"
| "isa_execute (I_LS c off rs1 rd) e =
     (let ea = pc_view e rs1 (op_b e) + 2 * ucast off; d = pc_view e rd (op_a e) in
      if is_load c then E_Mem (M_Load ea (access_bytes c) rd)
      else if is_store c then E_Mem (M_Store ea (access_bytes c) d)
      else if c = LS_PUSH then E_Mem (M_Push (d - 8) (pc_view e rs1 (op_b e)) rd)
      else if c = LS_POP then E_Mem (M_Pop d rs1 rd)
      else if c = LS_MOVE \<or> ls_condition (op_flags e) c
        then E_Write (Some (rd, ea)) None (if rd = 15 then ea else op_next e)
      else E_Write None None (op_next e))"
| "isa_execute (I_PC c rel rd) e =
     (let ea = op_next e + 2 * scast rel in
      if is_load c then E_Mem (M_Load ea (access_bytes c) rd)
      else if is_store c then E_Mem (M_Store ea (access_bytes c) (op_a e))
      else if c = LS_PUSH then E_Mem (M_Copy_Push ea (op_a e - 8) rd)
      else if c = LS_POP then E_Mem (M_Copy_Pop (op_a e) ea rd)
      else E_Write (Some (rd, ea)) None (if rd = 15 then ea else op_next e))"
| "isa_execute (I_PCJ c rel) e =
     E_Write None None (if ls_condition (op_flags e) c then op_next e + 2 * scast rel else op_next e)"
| "isa_execute (I_GP c rs1 rd) e =
     (if is_alu c
      then (let (res, carry) = alu c (op_a e) (op_b e) rs1
            in E_Write (if c = GP_TEST then None else Some (rd, res)) (Some (flag_value res carry)) (op_next e))
      else if c = GP_LLR then E_Mem (M_Load_Linked (op_b e) rd)
      else if c = GP_SCR
        then (if op_reserved e = Some (op_b e) then E_Mem (M_Store_Cond (op_b e) (op_a e)) else E_Sc_Fail)
      else if c = GP_LSR then (if op_read_fault e then E_Trap PRIVILEGED_INSTRUCTION else E_Read_Special rd)
      else if c = GP_SSR then (if op_write_fault e then E_Trap PRIVILEGED_INSTRUCTION else E_Write_Special)
      else if c = GP_SYSCALL then E_Trap (if op_user e then SYSCALL else SYSCALL_FROM_SUPERVISOR)
      else if op_user e then E_Trap PRIVILEGED_INSTRUCTION
      else if c = GP_IRET then E_Iret
      else E_Halt)"
| "isa_execute (I_GP_Invalid c rs1 rd) e = E_Trap INVALID_INSTRUCTION"
| "isa_execute (I_UJ rel) e = E_Write None None (op_next e + 2 * scast rel)"

section \<open>The encoding is a bijection\<close>

text \<open>
  Decoding and encoding are inverse: every 16-bit word is the encoding of the
  instruction it decodes to, and every well-formed instruction is decoded from its encoding.
\<close>

lemma encoding_roundtrip:
  "encode (decode w) = w \<and> wf_instr (decode w) \<and> (wf_instr i \<longrightarrow> decode (encode i) = i)"
  by (simp add: encode_decode wf_decode decode_encode)

lemma encoding_roundtrip_witness: "decode (encode (I_UJ 5)) = I_UJ 5"
  using encoding_roundtrip [of 0 "I_UJ 5"] by (simp add: wf_instr_def)

end
