(* ===== verification/Isa_Arith.thy ===== *)
theory Isa_Arith
  imports Isa_Spec
begin

text \<open>
  Word arithmetic shared by the execute stages: saturated shift counts, shifts and their
  flags, the carry of the 65-bit sum, and the immediate forms of the encoding.
\<close>

lemma saturated_count: "(if 64 \<le> b then 64 else unat (bslice 0 b :: 7 word)) = shift_count (b :: u64)"
proof (cases "64 \<le> b")
  case True
  then show ?thesis by (simp add: shift_count_def word_ge_64_iff)
next
  case False
  then have "unat b < 64" by (simp add: word_ge_64_iff)
  then show ?thesis using False
    by (simp add: shift_count_def bslice_def unsigned_ucast_eq take_bit_eq_mod min_def)
qed

lemma shift_count_le: "shift_count b \<le> 64"
  by (simp add: shift_count_def)

lemma and_1_neq_0: "(x :: u64) AND 1 \<noteq> 0 \<longleftrightarrow> bit x 0"
  by (simp add: and_one_eq bit_0 odd_iff_mod_2_eq_one)

lemma drop_bit_and_1: "drop_bit n (x :: u64) AND 1 \<noteq> 0 \<longleftrightarrow> bit x n"
  by (simp add: and_1_neq_0 bit_simps)

lemma take_bit_push_bit_zero: "n \<le> 64 \<Longrightarrow> take_bit (64 - n) (a :: u64) = 0 \<longleftrightarrow> push_bit n a = 0"
proof -
  assume n: "n \<le> 64"
  have "take_bit (64 - n) a = 0 \<longleftrightarrow> (\<forall>k < 64. \<not> (k < 64 - n \<and> bit a k))"
    by (auto simp: word_eq_0_iff_bits bit_take_bit_iff)
  also have "\<dots> \<longleftrightarrow> (\<forall>k < 64. \<not> (n \<le> k \<and> bit a (k - n)))"
    using n by (auto, metis add_diff_cancel_right' le_add2 less_diff_conv)
  also have "\<dots> \<longleftrightarrow> push_bit n a = 0"
    by (auto simp: word_eq_0_iff_bits bit_push_bit_iff)
  finally show ?thesis .
qed

lemma sra_64: "(if bit a 63 then 0xFFFFFFFFFFFFFFFF else 0) = signed_drop_bit 64 (a :: u64)"
  unfolding ones64 by (rule bit_word_eqI) (auto simp: signed_drop_bit_bit)

lemma signed_drop_bit_zero:
  "signed_drop_bit n (a :: u64) = 0 \<longleftrightarrow> \<not> bit a 63 \<and> drop_bit n a = 0"
proof -
  have "signed_drop_bit n a = 0 \<longleftrightarrow> (\<forall>k < 64. \<not> bit a (min (k + n) 63))"
    by (auto simp: word_eq_0_iff_bits signed_drop_bit_bit)
  also have "\<dots> \<longleftrightarrow> \<not> bit a 63 \<and> (\<forall>k < 64. \<not> bit a (n + k))"
  proof (intro iffI conjI allI impI notI)
    assume l: "\<forall>k < 64. \<not> bit a (min (k + n) 63)"
    have "min (63 + n) 63 = (63 :: nat)" by simp
    with l [rule_format, of 63] show "bit a 63 \<Longrightarrow> False" by simp
    fix k :: nat assume "k < 64" "bit a (n + k)"
    moreover from \<open>bit a (n + k)\<close> have "n + k < 64" by (auto dest: bit_imp_le_length)
    ultimately show False using l [rule_format, of k] by (simp add: min_def add.commute)
  next
    fix k :: nat assume h: "\<not> bit a 63 \<and> (\<forall>k < 64. \<not> bit a (n + k))" "k < 64" "bit a (min (k + n) 63)"
    then show False by (cases "k + n < 63") (auto simp: min_def add.commute split: if_splits)
  qed
  also have "\<dots> \<longleftrightarrow> \<not> bit a 63 \<and> drop_bit n a = 0"
    by (auto simp: word_eq_0_iff_bits bit_drop_bit_eq)
  finally show ?thesis .
qed

lemma double_ucast2: "2 * ucast (off :: 2 word) = (push_bit 1 (ucast off) :: u64)"
  by (simp add: push_bit_eq_mult)

lemma double_scast: "2 * scast (x :: 'a::len word) = (push_bit 1 (sign_extend x) :: u64)"
  by (simp add: push_bit_eq_mult sign_extend_scast)

lemma ldi_sign_extend:
  "sign_extend (push_bit 24 (ucast (imm :: 8 word)) :: 32 word) = (push_bit 24 (scast imm) :: u64)"
proof (rule bit_word_eqI)
  fix n assume n: "n < LENGTH(64)"
  have top: "n \<le> 31 \<Longrightarrow> 7 \<le> n - 24 \<Longrightarrow> n = 31" by arith
  show "bit (sign_extend (push_bit 24 (ucast imm) :: 32 word) :: u64) n = bit (push_bit 24 (scast imm) :: u64) n"
    using n top by (auto simp: bit_sign_extend bit_simps min_def not_le dest: bit_imp_le_length)
qed

lemma fst_shift_specs:
  "fst (sll_spec a n) = push_bit n a" "fst (srl_spec a n) = drop_bit n a"
  "fst (sra_spec a n) = signed_drop_bit n a"
  by (simp_all add: sll_spec_def srl_spec_def sra_spec_def)

lemma add_carry: "(ucast ((ucast a + ucast b :: 65 word)) :: u64) = a + b" "bit ((ucast a + ucast b :: 65 word)) 64 \<longleftrightarrow> 2 ^ 64 \<le> unat a + unat b"
proof -
  have a: "unat a < 2 ^ 64" and b: "unat b < 2 ^ 64" using unsigned_less [of a] unsigned_less [of b] by simp_all
  have u: "unat ((ucast a + ucast b :: 65 word)) = unat a + unat b"
    using a b by (simp add: unat_word_ariths unsigned_ucast_eq take_bit_eq_mod)
  show "(ucast ((ucast a + ucast b :: 65 word)) :: u64) = a + b"
    by (rule word_unat_eq_iff [THEN iffD2]) (use a b in \<open>simp add: unsigned_ucast_eq take_bit_eq_mod unat_word_ariths\<close>)
  have "bit ((ucast a + ucast b :: 65 word)) 64 \<longleftrightarrow> odd (unat ((ucast a + ucast b :: 65 word)) div 2 ^ 64)"
    by (metis bit_iff_odd bit_nat_iff bit_unsigned_iff possible_bit_nat)
  also have "\<dots> \<longleftrightarrow> 2 ^ 64 \<le> unat a + unat b"
  proof (cases "2 ^ 64 \<le> unat a + unat b")
    case True
    then have "(unat a + unat b) div 2 ^ 64 = 1" using a b by (intro div_nat_eqI) simp_all
    with True show ?thesis unfolding u by simp
  next
    case False
    then have "(unat a + unat b) div 2 ^ 64 = 0" by (simp add: not_le)
    with False show ?thesis unfolding u by simp
  qed
  finally show "bit ((ucast a + ucast b :: 65 word)) 64 \<longleftrightarrow> 2 ^ 64 \<le> unat a + unat b" .
qed

end
