(* ===== verification/Basic_Exec.thy ===== *)
theory Basic_Exec
  imports Basic_Core Isa_Arith
begin

text \<open>
  The execute state of the basic core against the instruction-set specification: the
  shifter arrays compute the specified shifts and flags, and for every instruction word
  \<open>do_execute\<close> is the specified effect, put into effect by \<open>apply_effect\<close>.
\<close>

section \<open>The shifter arrays\<close>

lemma shift_index_count: "shift_index b = shift_count b"
  by (simp add: shift_index_def saturated_count)

lemma sll_result_spec: "n \<le> 64 \<Longrightarrow> sll_result a n = push_bit n a"
  unfolding sll_result_def by (auto intro!: bit_word_eqI simp: bit_simps)

lemma sra_result_spec: "n \<le> 64 \<Longrightarrow> sra_result a n = signed_drop_bit n a"
  by (cases "n = 64") (simp_all only: sra_result_def sra_64 if_True if_False refl)

lemma sll_flags:
  "n \<le> 64 \<Longrightarrow> cat3 (sll_zeroes a n) (sll_carries a n) (sll_signs a n) =
     flag_value (fst (sll_spec a n)) (snd (sll_spec a n))"
  by (auto simp: flag_value_def sll_spec_def sll_zeroes_def sll_carries_def sll_signs_def
      take_bit_push_bit_zero bit_simps)

lemma srl_flags:
  "n \<le> 64 \<Longrightarrow> cat3 (srl_zeroes a n) (srl_carries a n) (srl_signs a n) =
     flag_value (fst (srl_spec a n)) (snd (srl_spec a n))"
  by (auto simp: flag_value_def srl_spec_def srl_zeroes_def srl_carries_def srl_signs_def
      drop_bit_and_1 bit_simps dest: bit_imp_le_length)

lemma sra_flags:
  "n \<le> 64 \<Longrightarrow> cat3 (sra_zeroes a n) (sra_carries a n) (sra_signs a n) =
     flag_value (fst (sra_spec a n)) (snd (sra_spec a n))"
  by (auto simp: flag_value_def sra_spec_def sra_zeroes_def sra_carries_def sra_signs_def
      signed_drop_bit_zero signed_drop_bit_bit drop_bit_and_1 min_def)

lemma imm_shift_arrays:
  assumes "n < 16"
  shows "slli_results a n = fst (sll_spec a n)"
    and "srli_results a n = fst (srl_spec a n)"
    and "srai_results a n = fst (sra_spec a n)"
    and "cat3 (slli_zeroes a n) (slli_carries a n) (slli_signs a n) = flag_value (fst (sll_spec a n)) (snd (sll_spec a n))"
    and "cat3 (srli_zeroes a n) (srli_carries a n) (srli_signs a n) = flag_value (fst (srl_spec a n)) (snd (srl_spec a n))"
    and "cat3 (srai_zeroes a n) (srai_carries a n) (srai_signs a n) = flag_value (fst (sra_spec a n)) (snd (sra_spec a n))"
proof -
  have n: "n \<le> 64" "n \<noteq> 64" using assms by auto
  show "slli_results a n = fst (sll_spec a n)"
    and "srli_results a n = fst (srl_spec a n)"
    and "srai_results a n = fst (sra_spec a n)"
    by (simp_all add: slli_results_def srli_results_def srai_results_def sll_spec_def srl_spec_def sra_spec_def)
  have "slli_zeroes a n = sll_zeroes a n" "slli_carries a n = sll_carries a n" "slli_signs a n = sll_signs a n"
    using n by (simp_all add: slli_zeroes_def sll_zeroes_def slli_carries_def sll_carries_def slli_signs_def sll_signs_def)
  then show "cat3 (slli_zeroes a n) (slli_carries a n) (slli_signs a n) = flag_value (fst (sll_spec a n)) (snd (sll_spec a n))"
    using sll_flags [OF n(1)] by simp
  have "srli_zeroes a n = srl_zeroes a n" "srli_carries a n = srl_carries a n" "srli_signs a n = srl_signs a n"
    using n by (simp_all add: srli_zeroes_def srl_zeroes_def srli_carries_def srl_carries_def srli_signs_def srl_signs_def)
  then show "cat3 (srli_zeroes a n) (srli_carries a n) (srli_signs a n) = flag_value (fst (srl_spec a n)) (snd (srl_spec a n))"
    using srl_flags [OF n(1)] by simp
  have "srai_zeroes a n = sra_zeroes a n" "srai_carries a n = sra_carries a n" "srai_signs a n = sra_signs a n"
    using n by (simp_all add: srai_zeroes_def sra_zeroes_def srai_carries_def sra_carries_def srai_signs_def sra_signs_def)
  then show "cat3 (srai_zeroes a n) (srai_carries a n) (srai_signs a n) = flag_value (fst (sra_spec a n)) (snd (sra_spec a n))"
    using sra_flags [OF n(1)] by simp
qed

section \<open>Effects on the core\<close>

definition operands_of :: "core \<Rightarrow> operands" where
  "operands_of s = \<lparr>op_a = c_a s, op_b = c_b s, op_flags = flags s, op_next = post_increment_pc s,
     op_user = user_mode s,
     op_reserved = (if ll_reservation_valid s then Some (ll_reservation_addr s) else None),
     op_read_fault = user_mode s \<and> ucast (c_b s) \<noteq> sr_code THREAD_POINTER,
     op_write_fault = user_mode s \<and> ucast (c_b s) \<noteq> sr_code THREAD_POINTER\<rparr>"

text \<open>The pending operation that stands for a memory operation.\<close>

fun pend_of :: "mem_op \<Rightarrow> core \<Rightarrow> pending_op" where
  "pend_of (M_Load a w r) s = (pend_base s a w False)\<lparr>pending_rd := r\<rparr>"
| "pend_of (M_Store a w v) s = (pend_base s a w True)\<lparr>pending_store_value := v\<rparr>"
| "pend_of (M_Push a v sp) s = (pend_base s a 8 True)\<lparr>pending_store_value := v\<rparr>"
| "pend_of (M_Pop a r sp) s = (pend_base s a 8 False)\<lparr>
     pending_rd := r, pending_post_mem_reg := sp, pending_post_mem_value := a + 8,
     pending_post_mem_delta := 8, pending_post_mem_write := True,
     pending_post_mem_use_load_result := (sp = r)\<rparr>"
| "pend_of (M_Load_Linked a r) s = (pend_base s a 8 False)\<lparr>
     pending_rd := r, pending_set_reservation := True, pending_reservation_addr := a\<rparr>"
| "pend_of (M_Store_Cond a v) s = (pend_base s a 8 True)\<lparr>pending_store_value := v\<rparr>"
| "pend_of (M_Copy_Push a b sp) s = (pend_base s a 8 False)\<lparr>
     pending_rd := 0, pending_post_mem_reg := sp, pending_post_mem_value := b,
     pending_post_mem_write := True, pending_chain_store := True, pending_chain_store_addr := b,
     pending_chain_store_use_load_result := True\<rparr>"
| "pend_of (M_Copy_Pop a b sp) s = (pend_base s a 8 False)\<lparr>
     pending_rd := 0, pending_post_mem_reg := sp, pending_post_mem_value := a + 8,
     pending_post_mem_write := True, pending_chain_store := True, pending_chain_store_addr := b,
     pending_chain_store_use_load_result := True\<rparr>"

text \<open>
  What the basic core has already changed when it issues a memory operation: a register
  push has moved the stack register, a store-conditional has cleared the reservation
  and set Z.
\<close>

fun pre_issue :: "mem_op \<Rightarrow> core \<Rightarrow> core" where
  "pre_issue (M_Push a v sp) s = write_reg sp a s"
| "pre_issue (M_Store_Cond a v) s =
     s\<lparr>ll_reservation_valid := False, flags := cat3 True (bit (flags s) 1) (bit (flags s) 2)\<rparr>"
| "pre_issue _ s = s"

fun apply_effect :: "core_config \<Rightarrow> effect \<Rightarrow> core \<Rightarrow> core \<times> core_out" where
  "apply_effect cfg (E_Write w f pc) s =
     finish pc ((case w of Some (r, v) \<Rightarrow> write_reg r v s | None \<Rightarrow> s)
                \<lparr>flags := (case f of Some x \<Rightarrow> x | None \<Rightarrow> flags s)\<rparr>)"
| "apply_effect cfg (E_Mem m) s = issue (pend_of m s) (pre_issue m s)"
| "apply_effect cfg E_Sc_Fail s =
     finish (post_increment_pc s)
       (s\<lparr>ll_reservation_valid := False, flags := cat3 False (bit (flags s) 1) (bit (flags s) 2)\<rparr>)"
| "apply_effect cfg (E_Trap t) s = raise_sync_trap t (fetch_pc s) 0 0 0 s"
| "apply_effect cfg (E_Read_Special r) s =
     finish (post_increment_pc s) (write_reg r (sr_read_data cfg (sregs s) (ucast (c_b s))) s)"
| "apply_effect cfg E_Write_Special s = finish (post_increment_pc s) s"
| "apply_effect cfg E_Iret s =
     (goto FETCH_TRANSLATE (set_pc (interrupt_epc (sregs s)) (s\<lparr>flags := ucast (interrupt_eflags (sregs s))\<rparr>)),
      committing\<lparr>strobes := no_strobes\<lparr>core_cpu_control := Some (interrupt_cpu_control (sregs s))\<rparr>\<rparr>)"
| "apply_effect cfg E_Halt s = ((set_pc (post_increment_pc s) s)\<lparr>halted := True, state := HALTED\<rparr>, committing)"

section \<open>Every instruction word\<close>

lemma finish_flags_id [simp]: "(write_reg r v s)\<lparr>flags := flags s\<rparr> = write_reg r v s" "s\<lparr>flags := flags s\<rparr> = s"
  by (simp_all add: write_reg_def)

lemma exec_ldi_spec:
  "instruction_top2 (current_instruction s) = 2 \<Longrightarrow>
     exec_ldi s = apply_effect cfg (isa_execute (decode (current_instruction s)) (operands_of s)) s"
  by (simp add: exec_ldi_def decode_def operands_of_def ldi_value_def ldi_sign_extend c_rd_def [symmetric]
      Let_def)

lemmas ls_sets = is_load_def is_store_def access_bytes_def load_width_def store_width_def

lemma exec_ls_reg_spec:
  "instruction_top2 (current_instruction s) = 0 \<Longrightarrow>
     exec_ls_reg (ls_opcode_of (instruction_ls_opcode (current_instruction s))) s =
     apply_effect cfg (isa_execute (decode (current_instruction s)) (operands_of s)) s"
  by (cases "ls_opcode_of (instruction_ls_opcode (current_instruction s))")
    (simp_all add: decode_def exec_ls_reg_def exec_load_def exec_store_def exec_reg_push_def
      exec_reg_pop_def exec_reg_move_def exec_reg_jump_def operands_of_def pc_view_def ls_sets Let_def
      ls_addr_def ls_rs1_value_def ls_rd_value_def ls_push_addr_def double_ucast2
      flip: c_rd_def c_rs1_def)

lemma exec_ls_pc_spec:
  "instruction_top2 (current_instruction s) = 1 \<Longrightarrow>
     exec_ls_pc (ls_opcode_of (instruction_ls_opcode (current_instruction s))) s =
     apply_effect cfg (isa_execute (decode (current_instruction s)) (operands_of s)) s"
  by (cases "ls_opcode_of (instruction_ls_opcode (current_instruction s))")
    (simp_all add: decode_def exec_ls_pc_def exec_load_def exec_store_def exec_pc_push_def
      exec_pc_pop_def exec_pc_move_def exec_pc_jump_def operands_of_def ls_sets Let_def is_jump_def
      ls_pc_effective_def ls_pc_rel6_def ls_jump_effective_def ls_pc_rel10_def ls_pc_push_addr_def double_scast
      del: is_jump_code flip: c_rd_def)

lemma srl_result_spec: "n \<le> 64 \<Longrightarrow> srl_result a n = drop_bit n a"
  by (cases "n = 64") (simp_all add: srl_result_def)

lemma exec_gp_alu_spec:
  assumes "gp_opcode_of (instruction_gp_opcode (current_instruction s)) = Some c" and "is_alu c"
  shows "exec_gp cfg s =
     apply_effect cfg (isa_execute (I_GP c (c_rs1 s) (c_rd s)) (operands_of s)) s"
proof -
  have imm: "unat (instruction_gp_imm4 (current_instruction s)) < 16"
    using unsigned_less [of "instruction_gp_imm4 (current_instruction s)"] by simp
  have imm_rs1: "instruction_gp_imm4 (current_instruction s) = c_rs1 s"
    by (simp add: c_rs1_def instruction_gp_imm4_def instruction_rs1_def)
  show ?thesis
    using assms(2)
    by (cases c)
      (simp_all add: exec_gp_def assms(1) is_alu_def exec_arith_def exec_shift_def exec_shift_imm_def
        finish_alu_def alu_def operands_of_def sum_value_def add_carry Let_def case_prod_beta
        shift_index_count sll_flags srl_flags sra_flags sll_result_spec srl_result_spec sra_result_spec fst_shift_specs shift_count_le
        imm_shift_arrays [OF imm, unfolded imm_rs1] imm_rs1)
qed

text \<open>The system instructions, and the codes with no instruction.\<close>

lemma exec_gp_system_spec:
  assumes "gp_opcode_of (instruction_gp_opcode (current_instruction s)) = Some c" and "\<not> is_alu c"
    and ex: "state s = EXECUTE" and t3: "instruction_top3 (current_instruction s) = 6"
  shows "exec_gp cfg s =
     apply_effect cfg (isa_execute (I_GP c (c_rs1 s) (c_rd s)) (operands_of s)) s"
proof -
  have stb: "c = GP_SSR \<Longrightarrow> write_stb (ssr_write_port s)"
    by (simp add: ssr_write_port_def ex t3 gp_opcode_of_SomeD [OF assms(1)])
  have sel: "write_selector (ssr_write_port s) = ucast (c_b s)" by (simp add: ssr_write_port_def)
  show ?thesis
    using assms(2) stb
    by (cases c)
      (auto simp: exec_gp_def assms(1) is_alu_def exec_llr_def exec_scr_def exec_lsr_def exec_ssr_def
        exec_syscall_def exec_iret_def exec_stop_def operands_of_def sr_read_access_fault_def
        sr_write_access_fault_def sel simp del: sr_code.simps)
qed

lemma exec_gp_spec:
  assumes "state s = EXECUTE" and "instruction_top2 (current_instruction s) = 3"
    and "instruction_top3 (current_instruction s) = 6"
  shows "exec_gp cfg s =
     apply_effect cfg (isa_execute (decode (current_instruction s)) (operands_of s)) s"
proof (cases "gp_opcode_of (instruction_gp_opcode (current_instruction s))")
  case None
  then show ?thesis using assms by (simp add: decode_def exec_gp_def)
next
  case (Some c)
  then show ?thesis
    using assms exec_gp_alu_spec [OF Some] exec_gp_system_spec [OF Some _ assms(1,3)]
    by (cases "is_alu c") (simp_all add: decode_def flip: c_rd_def c_rs1_def)
qed

lemma exec_ujmp_spec:
  "instruction_top2 (current_instruction s) = 3 \<Longrightarrow> instruction_top3 (current_instruction s) = 7 \<Longrightarrow>
     exec_ujmp s = apply_effect cfg (isa_execute (decode (current_instruction s)) (operands_of s)) s"
  by (simp add: exec_ujmp_def decode_def operands_of_def double_scast)

lemma execute_spec:
  assumes "state s = EXECUTE"
  shows "do_execute cfg s =
     apply_effect cfg (isa_execute (decode (current_instruction s)) (operands_of s)) s"
proof -
  consider "instruction_top2 (current_instruction s) = 2" | "instruction_top2 (current_instruction s) = 0"
    | "instruction_top2 (current_instruction s) = 1"
    | "instruction_top2 (current_instruction s) = 3" "instruction_top3 (current_instruction s) = 6"
    | "instruction_top2 (current_instruction s) = 3" "instruction_top3 (current_instruction s) = 7"
    using top2_cases top3_11x by blast
  then show ?thesis
    by cases (simp_all add: do_execute_def exec_ldi_spec [where cfg = cfg]
      exec_ls_reg_spec [where cfg = cfg] exec_ls_pc_spec [where cfg = cfg]
      exec_gp_spec assms exec_ujmp_spec [where cfg = cfg])
qed

end
