(* ===== verification/Isa_Machine.thy ===== *)
theory Isa_Machine
  imports Isa_Spec Special_Regs Bus
begin

text \<open>
  The architecture of \<open>docs/hardware/privileged-architecture.md\<close> and
  \<open>docs/hardware/memory-translation-and-boot.md\<close> as a machine that runs one instruction
  (or one trap entry) per step over a byte-addressed memory: three-level page-table
  translation, trap and interrupt entry, data accesses and the effects of \<open>Isa_Spec\<close>.  It
  has no cycles, no buses and no pending operations; the cores are related to it.
\<close>

section \<open>State\<close>

datatype run_status = Running | Halted | Locked

record arch =
  a_regs :: regfile
  a_flags :: "3 word"
  a_res :: "u64 option"
  a_sregs :: special_regs
  a_mem :: memory
  a_status :: run_status

definition a_write :: "reg_index \<Rightarrow> u64 \<Rightarrow> arch \<Rightarrow> arch" where
  "a_write r v a = (if r = 0 then a else a\<lparr>a_regs := (a_regs a)(r := v)\<rparr>)"

definition a_jump :: "u64 \<Rightarrow> arch \<Rightarrow> arch" where "a_jump pc a = a\<lparr>a_regs := (a_regs a)(15 := pc)\<rparr>"

definition a_lock :: "arch \<Rightarrow> arch" where "a_lock a = a\<lparr>a_status := Locked\<rparr>"

definition in_paging :: "special_regs \<Rightarrow> bool" where "in_paging r = bit (cpu_control r) 16"
definition in_user :: "special_regs \<Rightarrow> bool" where "in_user r = bit (cpu_control r) 17"
definition int_enabled :: "special_regs \<Rightarrow> bool" where "int_enabled r = bit (cpu_control r) 0"
definition in_interrupt :: "special_regs \<Rightarrow> bool" where "in_interrupt r = bit (cpu_control r) 1"
definition cur_vector :: "special_regs \<Rightarrow> u64" where
  "cur_vector r = ucast (bslice 2 (cpu_control r) :: 7 word)"

section \<open>Translation\<close>

datatype xlate = X_Ok u64 | X_Fault trap_vector u64 | X_Lock

definition pte_allows :: "2 word \<Rightarrow> bool \<Rightarrow> u64 \<Rightarrow> bool" where
  "pte_allows access user pte \<longleftrightarrow>
     (if access = ACCESS_READ then bit pte 1 else if access = ACCESS_WRITE then bit pte 2 else bit pte 3)
     \<and> (user \<longrightarrow> bit pte 4)"

definition vpn_index :: "u64 \<Rightarrow> nat \<Rightarrow> u64" where
  "vpn_index va level = ucast (bslice (12 + 9 * level) va :: 9 word)"

text \<open>
  The walk over the remaining levels.  A leaf above level 0 maps a large page; the bits of
  the virtual address below the page size are added to the leaf's base.
\<close>

fun page_walk :: "memory \<Rightarrow> bool \<Rightarrow> 2 word \<Rightarrow> u64 \<Rightarrow> nat \<Rightarrow> u64 \<Rightarrow> xlate" where
  "page_walk m user access va level table =
     (let pte = load_le 8 m (table + 8 * vpn_index va level);
          leaf = (bit pte 1 \<or> bit pte 2 \<or> bit pte 3);
          base = push_bit 12 (drop_bit 10 pte);
          aux = (\<lambda>sub. encode_aux sub (of_nat level));
          leaf_result = (if pte_allows access user pte
                         then X_Ok (base + take_bit (12 + 9 * level) va)
                         else X_Fault PAGE_FAULT_PERMISSION (aux AUX_SUBTYPE_PERMISSION))
      in if \<not> bit pte 0 then X_Fault PAGE_FAULT_NOT_PRESENT (aux AUX_SUBTYPE_NO_VALID_PTE)
         else if 0 < level \<and> leaf then leaf_result
         else if pte AND PTE_RESERVED_MASK \<noteq> 0 then X_Fault PAGE_FAULT_RESERVED (aux AUX_SUBTYPE_RESERVED_BIT)
         else if level = 0
           then (if leaf then leaf_result
                 else X_Fault PAGE_FAULT_RESERVED (aux AUX_SUBTYPE_INVALID_NONLEAF))
         else page_walk m user access va (level - 1) base)"

declare page_walk.simps [simp del]

definition translate :: "core_config \<Rightarrow> special_regs \<Rightarrow> memory \<Rightarrow> 2 word \<Rightarrow> u64 \<Rightarrow> xlate" where
  "translate cfg r m access va =
     (if \<not> in_paging r then X_Ok va
      else if \<not> enable_mmu cfg then X_Lock
      else if \<not> is_canonical39 va then X_Fault PAGE_FAULT_CANONICAL (encode_aux AUX_SUBTYPE_CANONICAL 2)
      else if take_bit 12 (page_table_root_physical r) \<noteq> 0
        then X_Fault PAGE_FAULT_RESERVED (encode_aux AUX_SUBTYPE_RESERVED_BIT 2)
      else page_walk m (in_user r) access va 2 (page_table_root_physical r))"

section \<open>Trap and interrupt entry\<close>

text \<open>
  Entry saves the control register, leaves user mode and interrupt enable, records the
  vector, and jumps through the vector table; a vector that cannot be fetched, or is 0,
  locks the core up.
\<close>

definition vector_load :: "u64 \<Rightarrow> u64 \<Rightarrow> arch \<Rightarrow> arch" where
  "vector_load phys epc a =
     (let handler = bus_read (a_mem a) phys in
      if handler = 0 then a_lock a
      else a_jump handler (a\<lparr>a_sregs := (a_sregs a)\<lparr>interrupt_epc := epc, interrupt_eflags := ucast (a_flags a)\<rparr>\<rparr>))"

definition vector_entry :: "core_config \<Rightarrow> u64 \<Rightarrow> u64 \<Rightarrow> arch \<Rightarrow> arch" where
  "vector_entry cfg vector epc a =
     (case translate cfg (a_sregs a) (a_mem a) ACCESS_READ (interrupt_table_base (a_sregs a) + 8 * vector) of
        X_Ok p \<Rightarrow> vector_load p epc a
      | _ \<Rightarrow> a_lock a)"

definition entry_control :: "u64 \<Rightarrow> u64 \<Rightarrow> u64" where
  "entry_control cc vector =
     ((cc AND NOT 0x201FF) OR 2 OR push_bit 2 vector) AND CPU_CONTROL_WRITABLE_MASK"

definition enter_interrupt :: "core_config \<Rightarrow> u64 \<Rightarrow> u64 \<Rightarrow> arch \<Rightarrow> arch" where
  "enter_interrupt cfg vector epc a =
     vector_entry cfg vector epc (a\<lparr>a_sregs := (a_sregs a)\<lparr>
       interrupt_cpu_control := cpu_control (a_sregs a) AND CPU_CONTROL_WRITABLE_MASK,
       cpu_control := entry_control (cpu_control (a_sregs a)) vector\<rparr>\<rparr>)"

text \<open>A trap inside a trap handler of the same or a more urgent vector is fatal.\<close>

definition trap_fatal :: "special_regs \<Rightarrow> u64 \<Rightarrow> bool" where
  "trap_fatal r vector \<longleftrightarrow>
     in_interrupt r \<and> cur_vector r \<noteq> 0 \<and> cur_vector r < 65 \<and> cur_vector r \<le> vector"

definition arch_trap ::
  "core_config \<Rightarrow> trap_vector \<Rightarrow> u64 \<Rightarrow> u64 \<Rightarrow> u64 \<Rightarrow> u64 \<Rightarrow> arch \<Rightarrow> arch" where
  "arch_trap cfg tv pc fault_addr access aux a =
     (let r = a_sregs a in
      if trap_fatal r (trap_code tv) then a_lock a
      else enter_interrupt cfg (trap_code tv) pc
        (a\<lparr>a_sregs := r\<lparr>
           trap_cause := (if trap_cause r = 0 then trap_code tv else trap_cause r),
           trap_fault_addr := fault_addr, trap_access := access, trap_pc := pc, trap_aux := aux\<rparr>\<rparr>))"

text \<open>The pending hardware interrupt: the lowest enabled line, 1 to \<open>irq_input_count\<close>.\<close>

definition pending_line :: "core_config \<Rightarrow> special_regs \<Rightarrow> nat option" where
  "pending_line cfg r =
     find (\<lambda>k. bit (interrupt_states_high r) k \<and> bit (interrupt_mask_high r) k)
       [1 ..< nat (irq_input_count cfg) + 1]"

definition irq_to_take :: "core_config \<Rightarrow> special_regs \<Rightarrow> u64 option" where
  "irq_to_take cfg r =
     (case pending_line cfg r of
        Some k \<Rightarrow>
          (if int_enabled r \<and>
              (\<not> in_interrupt r \<or> cur_vector r = 0 \<or> of_nat (64 + k) < cur_vector r)
           then Some (of_nat (64 + k)) else None)
      | None \<Rightarrow> None)"

section \<open>Data accesses\<close>

definition access_fault :: "core_config \<Rightarrow> u64 \<Rightarrow> u64 \<Rightarrow> 2 word \<Rightarrow> xlate \<Rightarrow> arch \<Rightarrow> arch" where
  "access_fault cfg pc va access x a =
     (case x of X_Fault tv aux \<Rightarrow> arch_trap cfg tv pc va (ucast access) aux a | _ \<Rightarrow> a_lock a)"

definition a_load :: "core_config \<Rightarrow> u64 \<Rightarrow> u64 \<Rightarrow> 4 word \<Rightarrow> (u64 \<Rightarrow> arch) \<Rightarrow> arch \<Rightarrow> arch" where
  "a_load cfg pc va w k a =
     (case translate cfg (a_sregs a) (a_mem a) ACCESS_READ va of
        X_Ok p \<Rightarrow> k (load_le (unat w) (a_mem a) p)
      | x \<Rightarrow> access_fault cfg pc va ACCESS_READ x a)"

text \<open>A store of \<open>w\<close> bytes at \<open>va\<close> breaks a reservation whose eight bytes it touches.\<close>

definition breaks_reservation :: "u64 \<Rightarrow> 4 word \<Rightarrow> u64 \<Rightarrow> bool" where
  "breaks_reservation va w ra \<longleftrightarrow> w \<noteq> 0 \<and> va \<le> ra + 7 \<and> ra \<le> va + ucast w - 1"

definition a_put :: "u64 \<Rightarrow> u64 \<Rightarrow> 4 word \<Rightarrow> u64 \<Rightarrow> arch \<Rightarrow> arch" where
  "a_put p va w v a =
     a\<lparr>a_mem := store_le (unat w) (a_mem a) p v,
       a_res := (case a_res a of Some ra \<Rightarrow> if breaks_reservation va w ra then None else Some ra
                 | None \<Rightarrow> None)\<rparr>"

definition a_store :: "core_config \<Rightarrow> u64 \<Rightarrow> u64 \<Rightarrow> 4 word \<Rightarrow> u64 \<Rightarrow> arch \<Rightarrow> arch" where
  "a_store cfg pc va w v a =
     (case translate cfg (a_sregs a) (a_mem a) ACCESS_WRITE va of
        X_Ok p \<Rightarrow> a_jump (pc + 2) (a_put p va w v a)
      | x \<Rightarrow> access_fault cfg pc va ACCESS_WRITE x a)"

text \<open>
  The memory instructions at \<open>pc\<close>.  As in the basic core, the stack register of a push
  and the reservation and Z flag of a store-conditional change before the store is
  translated, so they have changed when the store faults.
\<close>

fun a_mem_op :: "core_config \<Rightarrow> u64 \<Rightarrow> mem_op \<Rightarrow> arch \<Rightarrow> arch" where
  "a_mem_op cfg pc (M_Load va w r) a =
     a_load cfg pc va w (\<lambda>v. a_jump (if r = 15 then v else pc + 2) (a_write r v a)) a"
| "a_mem_op cfg pc (M_Store va w v) a = a_store cfg pc va w v a"
| "a_mem_op cfg pc (M_Push va v sp) a = a_store cfg pc va 8 v (a_write sp va a)"
| "a_mem_op cfg pc (M_Pop va r sp) a =
     a_load cfg pc va 8 (\<lambda>v.
       let top = (if sp = r then v + 8 else va + 8)
       in a_jump (if sp = 15 then top else if r = 15 then v else pc + 2) (a_write sp top (a_write r v a))) a"
| "a_mem_op cfg pc (M_Load_Linked va r) a =
     a_load cfg pc va 8 (\<lambda>v. a_jump (if r = 15 then v else pc + 2) ((a_write r v a)\<lparr>a_res := Some va\<rparr>)) a"
| "a_mem_op cfg pc (M_Store_Cond va v) a =
     a_store cfg pc va 8 v (a\<lparr>a_res := None, a_flags := cat3 True (bit (a_flags a) 1) (bit (a_flags a) 2)\<rparr>)"
| "a_mem_op cfg pc (M_Copy_Push from to sp) a =
     a_load cfg pc from 8 (\<lambda>v. a_store cfg pc to 8 v (a_write sp to a)) a"
| "a_mem_op cfg pc (M_Copy_Pop from to sp) a =
     a_load cfg pc from 8 (\<lambda>v. a_store cfg pc to 8 v (a_write sp (from + 8) a)) a"

section \<open>One step\<close>

definition a_operands :: "u16 \<Rightarrow> arch \<Rightarrow> operands" where
  "a_operands w a =
     (let b = a_regs a (instruction_rs1 w); u = in_user (a_sregs a) in
      \<lparr>op_a = a_regs a (instruction_rd w), op_b = b, op_flags = a_flags a, op_next = a_regs a 15 + 2,
       op_user = u, op_reserved = a_res a,
       op_read_fault = u \<and> ucast b \<noteq> sr_code THREAD_POINTER,
       op_write_fault = u \<and> ucast b \<noteq> sr_code THREAD_POINTER\<rparr>)"

fun a_effect :: "core_config \<Rightarrow> effect \<Rightarrow> operands \<Rightarrow> arch \<Rightarrow> arch" where
  "a_effect cfg (E_Write w f pc) e a =
     a_jump pc ((case w of Some (r, v) \<Rightarrow> a_write r v a | None \<Rightarrow> a)
                \<lparr>a_flags := (case f of Some x \<Rightarrow> x | None \<Rightarrow> a_flags a)\<rparr>)"
| "a_effect cfg (E_Mem m) e a = a_mem_op cfg (a_regs a 15) m a"
| "a_effect cfg E_Sc_Fail e a =
     a_jump (a_regs a 15 + 2)
       (a\<lparr>a_res := None, a_flags := cat3 False (bit (a_flags a) 1) (bit (a_flags a) 2)\<rparr>)"
| "a_effect cfg (E_Trap t) e a = arch_trap cfg t (a_regs a 15) 0 0 0 a"
| "a_effect cfg (E_Read_Special r) e a =
     a_jump (a_regs a 15 + 2) (a_write r (sr_read_data cfg (a_sregs a) (ucast (op_b e))) a)"
| "a_effect cfg E_Write_Special e a =
     a_jump (a_regs a 15 + 2) (a\<lparr>a_sregs := sr_tick cfg (op_user e) no_strobes
       \<lparr>write_stb = True, write_selector = ucast (op_b e), write_data = op_a e\<rparr> 0 (a_sregs a)\<rparr>)"
| "a_effect cfg E_Iret e a =
     a_jump (interrupt_epc (a_sregs a))
       (a\<lparr>a_flags := ucast (interrupt_eflags (a_sregs a)),
          a_sregs := (a_sregs a)\<lparr>cpu_control := interrupt_cpu_control (a_sregs a) AND CPU_CONTROL_WRITABLE_MASK\<rparr>\<rparr>)"
| "a_effect cfg E_Halt e a = a_jump (a_regs a 15 + 2) (a\<lparr>a_status := Halted\<rparr>)"

definition a_exec :: "core_config \<Rightarrow> u16 \<Rightarrow> arch \<Rightarrow> arch" where
  "a_exec cfg w a = (let e = a_operands w a in a_effect cfg (isa_execute (decode w) e) e a)"

definition a_fetched :: "core_config \<Rightarrow> xlate \<Rightarrow> arch \<Rightarrow> arch" where
  "a_fetched cfg x a =
     (case x of
        X_Ok p \<Rightarrow> a_exec cfg (fetch_half (a_mem a) p) a
      | x \<Rightarrow> access_fault cfg (a_regs a 15) (a_regs a 15) ACCESS_EXECUTE x a)"

definition arch_step :: "core_config \<Rightarrow> arch \<Rightarrow> arch" where
  "arch_step cfg a =
     (let pc = a_regs a 15; r = a_sregs a in
      if a_status a \<noteq> Running then a
      else if bit pc 0 then arch_trap cfg EXEC_ALIGN pc pc (ucast ACCESS_EXECUTE) (encode_aux AUX_SUBTYPE_NONE 0) a
      else if in_paging r \<and> \<not> enable_mmu cfg then a_lock a
      else case irq_to_take cfg r of
             Some v \<Rightarrow> enter_interrupt cfg v pc a
           | None \<Rightarrow> a_fetched cfg (translate cfg r (a_mem a) ACCESS_EXECUTE pc) a)"

end
