(* ===== verification/Basic_Refine.thy ===== *)
theory Basic_Refine
  imports Basic_Exec Isa_Machine
begin

text \<open>
  The basic core with a memory on its buses implements the instruction-level machine of
  \<open>Isa_Machine\<close>.  \<open>fut\<close> gives, for every state of the controller, the architectural state
  the instruction in flight will produce; every clock edge preserves it, whatever wait
  states the buses insert, so at the next instruction boundary it is the architectural
  state itself.
\<close>

section \<open>The system: core and memory\<close>

definition status_of :: "core \<Rightarrow> run_status" where
  "status_of s = (if locked_up s then Locked else if halted s then Halted else Running)"

definition abs_core :: "core \<Rightarrow> memory \<Rightarrow> arch" where
  "abs_core s m = \<lparr>a_regs = regs s, a_flags = flags s,
     a_res = (if ll_reservation_valid s then Some (ll_reservation_addr s) else None),
     a_sregs = sregs s, a_mem = m, a_status = status_of s\<rparr>"

definition mem_next :: "core_in \<Rightarrow> core \<Rightarrow> memory \<Rightarrow> memory" where
  "mem_next i s m =
     (let b = d_bus_out s in
      if cyc b \<and> we b \<and> d_ack i then bus_write m (adr b) (sel b) (dat_w b) else m)"

text \<open>
  The buses answer without error, in any cycle they like; read data is the memory's;
  no interrupt line rises while the instruction is in flight.
\<close>

definition bus_ok :: "core_in \<Rightarrow> core \<Rightarrow> memory \<Rightarrow> bool" where
  "bus_ok i s m \<longleftrightarrow> \<not> i_err i \<and> \<not> d_err i \<and> irq_lines i = 0 \<and>
     (i_ack i \<longrightarrow> i_dat_r i = bus_read m (adr (i_bus_out s))) \<and>
     (d_ack i \<longrightarrow> d_dat_r i = bus_read m (adr (d_bus_out s)))"

text \<open>A TLB hit the core is about to use agrees with the page tables in memory.\<close>

definition tlb_ok :: "core_config \<Rightarrow> core \<Rightarrow> memory \<Rightarrow> bool" where
  "tlb_ok cfg s m \<longleftrightarrow>
     (paging_enabled s \<and> is_canonical39 (tlb_lookup_vaddr s) \<and> tlb_hit_ok cfg s \<longrightarrow>
        page_walk m (user_mode s) (translation_access s) (tlb_lookup_vaddr s) 2
          (page_table_root_physical (sregs s)) = X_Ok (tlb_paddr cfg s))"

definition cfg_ok :: "core_config \<Rightarrow> bool" where
  "cfg_ok cfg \<longleftrightarrow> 0 \<le> irq_input_count cfg \<and> irq_input_count cfg \<le> 63"

definition at_boundary :: "core \<Rightarrow> bool" where
  "at_boundary s \<longleftrightarrow> state s = FETCH_TRANSLATE \<or> state s = HALTED"

section \<open>What the instruction in flight will do\<close>

definition fut_loaded :: "core_config \<Rightarrow> pending_op \<Rightarrow> u64 \<Rightarrow> arch \<Rightarrow> arch" where
  "fut_loaded cfg p v a =
     (let top = (if pending_post_mem_use_load_result p then v + pending_post_mem_delta p
                 else pending_post_mem_value p);
          a1 = a_write (pending_rd p) v a;
          a2 = (if pending_post_mem_write p then a_write (pending_post_mem_reg p) top a1 else a1);
          a3 = (if pending_set_reservation p then a2\<lparr>a_res := Some (pending_reservation_addr p)\<rparr> else a2)
      in if pending_chain_store p
         then a_store cfg (pending_fault_pc p) (pending_chain_store_addr p) 8
                (if pending_chain_store_use_load_result p then v else pending_chain_store_value p) a3
         else a_jump (if pending_post_mem_write p \<and> pending_post_mem_reg p = 15 then top
                      else if pending_rd p = 15 then v else pending_next_pc p) a3)"

definition fut_stored :: "pending_op \<Rightarrow> memory \<Rightarrow> arch \<Rightarrow> arch" where
  "fut_stored p m a =
     a_jump (pending_next_pc p)
       (a\<lparr>a_mem := m,
          a_res := (case a_res a of
                      Some ra \<Rightarrow> if breaks_reservation (pending_virtual_addr p) (pending_width_bytes p) ra
                                 then None else Some ra
                    | None \<Rightarrow> None)\<rparr>)"

definition fut_access :: "core_config \<Rightarrow> pending_op \<Rightarrow> xlate \<Rightarrow> arch \<Rightarrow> arch" where
  "fut_access cfg p x a =
     (let w = unat (pending_width_bytes p) in
      case x of
        X_Ok phys \<Rightarrow>
          (if pending_mem_write p
           then fut_stored p (store_le w (a_mem a) phys (pending_store_value p)) a
           else fut_loaded cfg p (load_le w (a_mem a) phys) a)
      | x \<Rightarrow> access_fault cfg (pending_fault_pc p) (pending_virtual_addr p)
               (if pending_mem_write p then ACCESS_WRITE else ACCESS_READ) x a)"

definition fut_vector :: "u64 \<Rightarrow> xlate \<Rightarrow> arch \<Rightarrow> arch" where
  "fut_vector epc x a = (case x of X_Ok p \<Rightarrow> vector_load p epc a | _ \<Rightarrow> a_lock a)"

definition fut_walked :: "core_config \<Rightarrow> core \<Rightarrow> xlate \<Rightarrow> arch \<Rightarrow> arch" where
  "fut_walked cfg s x a =
     (if walk_resume_state (walk s) = FETCH then a_fetched cfg x a
      else if walk_resume_state (walk s) = INTERRUPT_VECTOR_LOAD then fut_vector (interrupt_entry_epc s) x a
      else fut_access cfg (pend s) x a)"

text \<open>The page walk from the point where the entry has been read.\<close>

definition pte_walk :: "memory \<Rightarrow> bool \<Rightarrow> 2 word \<Rightarrow> u64 \<Rightarrow> nat \<Rightarrow> u64 \<Rightarrow> xlate" where
  "pte_walk m user access va level pte =
     (let leaf = (bit pte 1 \<or> bit pte 2 \<or> bit pte 3);
          base = push_bit 12 (drop_bit 10 pte);
          aux = (\<lambda>sub. encode_aux sub (of_nat level));
          leaf_result = (if pte_allows access user pte
                         then X_Ok (base + take_bit (12 + 9 * level) va)
                         else X_Fault PAGE_FAULT_PERMISSION (aux AUX_SUBTYPE_PERMISSION))
      in if \<not> bit pte 0 then X_Fault PAGE_FAULT_NOT_PRESENT (aux AUX_SUBTYPE_NO_VALID_PTE)
         else if 0 < level \<and> leaf then leaf_result
         else if pte AND PTE_RESERVED_MASK \<noteq> 0 then X_Fault PAGE_FAULT_RESERVED (aux AUX_SUBTYPE_RESERVED_BIT)
         else if level = 0
           then (if leaf then leaf_result
                 else X_Fault PAGE_FAULT_RESERVED (aux AUX_SUBTYPE_INVALID_NONLEAF))
         else page_walk m user access va (level - 1) base)"

lemma page_walk_pte:
  "page_walk m user access va level table =
     pte_walk m user access va level (load_le 8 m (table + 8 * vpn_index va level))"
  by (subst page_walk.simps) (simp add: pte_walk_def Let_def)

definition fut :: "core_config \<Rightarrow> core \<Rightarrow> memory \<Rightarrow> arch" where
  "fut cfg s m =
     (let a = abs_core s m; p = pend s; w = walk s in
      case state s of
        FETCH_TRANSLATE \<Rightarrow> arch_step cfg a
      | FETCH \<Rightarrow> a_exec cfg (fetch_half m (fetch_phys_addr s)) a
      | EXECUTE \<Rightarrow> a_exec cfg (current_instruction s) a
      | MEM_TRANSLATE \<Rightarrow>
          fut_access cfg p (translate cfg (sregs s) m (data_access s) (pending_virtual_addr p)) a
      | MEM_LOAD \<Rightarrow> fut_access cfg p (X_Ok (pending_addr p)) a
      | MEM_LOAD_SPLIT \<Rightarrow> fut_access cfg p (X_Ok (pending_addr p)) a
      | MEM_STORE \<Rightarrow> fut_access cfg p (X_Ok (pending_addr p)) a
      | MEM_STORE_SPLIT \<Rightarrow>
          fut_stored p (bus_write m (line_base (pending_addr p) + 8) (second_beat_sel (pend_sel s) (pend_off s))
            (second_beat_dat_w (pending_store_value p) (pend_off s))) a
      | INTERRUPT_VECTOR_TRANSLATE \<Rightarrow> vector_entry cfg (interrupt_entry_vector s) (interrupt_entry_epc s) a
      | INTERRUPT_VECTOR_LOAD \<Rightarrow> vector_load (interrupt_vector_phys s) (interrupt_entry_epc s) a
      | WALK \<Rightarrow>
          fut_walked cfg s (page_walk m (user_mode s) (walk_access w) (walk_virtual_addr w)
            (unat (walk_level w)) (walk_table_addr w)) a
      | WALK_PROCESS \<Rightarrow>
          fut_walked cfg s (pte_walk m (user_mode s) (walk_access w) (walk_virtual_addr w)
            (unat (walk_level w)) (walk_pte_latched w)) a
      | HALTED \<Rightarrow> a
      | RESET \<Rightarrow> a)"

section \<open>Invariant of the instruction in flight\<close>

definition pend_inv :: "pending_op \<Rightarrow> bool" where
  "pend_inv p \<longleftrightarrow> access_width (pending_width_bytes p) \<and>
     pending_next_pc p = pending_fault_pc p + 2 \<and>
     (pending_mem_write p \<longrightarrow> \<not> pending_post_mem_write p)"

definition walk_inv :: "core \<Rightarrow> bool" where
  "walk_inv s \<longleftrightarrow>
     (let w = walk s; p = pend s in
      walk_level w \<le> 2 \<and> take_bit 12 (walk_table_addr w) = 0 \<and>
      (walk_resume_state w = FETCH \<and> walk_access w = ACCESS_EXECUTE \<and>
         walk_virtual_addr w = regs s 15 \<and> pending_fault_pc p = regs s 15
       \<or> walk_resume_state w = INTERRUPT_VECTOR_LOAD
       \<or> walk_resume_state w = mem_state s \<and> walk_access w = data_access s \<and>
         walk_virtual_addr w = pending_virtual_addr p \<and> pend_inv p))"

definition core_inv :: "core \<Rightarrow> memory \<Rightarrow> bool" where
  "core_inv s m \<longleftrightarrow> regs s 0 = 0 \<and> sr_wf (sregs s) \<and>
     (state s = HALTED \<or> \<not> halted s \<and> \<not> locked_up s) \<and>
     (state s = HALTED \<longrightarrow> halted s \<or> locked_up s) \<and>
     (case state s of
        RESET \<Rightarrow> False
      | EXECUTE \<Rightarrow> fetch_pc s = regs s 15
      | MEM_TRANSLATE \<Rightarrow> pend_inv (pend s) \<and> pending_addr (pend s) = pending_virtual_addr (pend s)
      | MEM_LOAD \<Rightarrow> pend_inv (pend s) \<and> \<not> pending_mem_write (pend s)
      | MEM_LOAD_SPLIT \<Rightarrow> pend_inv (pend s) \<and> \<not> pending_mem_write (pend s) \<and> core_split_needed s \<and>
          split_first_data s = bus_read m (line_base (pending_addr (pend s)))
      | MEM_STORE \<Rightarrow> pend_inv (pend s) \<and> pending_mem_write (pend s)
      | MEM_STORE_SPLIT \<Rightarrow> pend_inv (pend s) \<and> pending_mem_write (pend s) \<and> core_split_needed s
      | WALK \<Rightarrow> walk_inv s
      | WALK_PROCESS \<Rightarrow> walk_inv s
      | _ \<Rightarrow> True)"

end
