(* ===== verification/Basic_Sim.thy ===== *)
theory Basic_Sim
  imports Basic_Refine
begin

text \<open>
  The simulation proof: signals of the core read as architectural conditions, then one
  lemma per controller state saying that the clock edge preserves \<open>fut\<close> and the invariant.
\<close>

section \<open>Signals as architectural conditions\<close>

lemma paging_iff: "paging_enabled s = in_paging (sregs s)"
  by (simp add: paging_enabled_def in_paging_def)

lemma user_iff: "user_mode s = in_user (sregs s)"
  by (simp add: user_mode_def in_user_def)

lemma cur_vector_iff: "current_interrupt_vector s = cur_vector (sregs s)"
proof -
  have m: "(0x7F :: u64) = mask 7" by (simp add: mask_eq_exp_minus_1)
  show ?thesis
    unfolding current_interrupt_vector_def cur_vector_def cpu_control_defs m
    by (intro bit_word_eqI) (auto simp: bit_simps)
qed

lemma entry_control_eq:
  "entry_cpu_control cc v AND CPU_CONTROL_WRITABLE_MASK = entry_control cc v"
  unfolding entry_cpu_control_def entry_control_def cpu_control_entry_clear_mask_def cpu_control_defs
  by (simp add: word_not_def)

lemma nested_fatal_iff: "nested_trap_fatal s v = trap_fatal (sregs s) v"
  by (simp add: nested_trap_fatal_def trap_fatal_def in_interrupt_def cur_vector_iff)

lemma vector_addr_eq:
  "interrupt_vector_table_addr s = interrupt_table_base (sregs s) + 8 * interrupt_entry_vector s"
  by (simp add: interrupt_vector_table_addr_def push_bit_eq_mult mult.commute)

subsection \<open>Interrupt selection\<close>

lemma pending_line_eq:
  assumes "cfg_ok cfg" and "irq_lines i = 0"
  shows "pending_irq_bit cfg i s = pending_line cfg (sregs s)"
proof -
  let ?n = "nat (irq_input_count cfg)"
  have n: "?n \<le> 63" using assms by (auto simp: cfg_ok_def nat_le_iff)
  have m: "irq_valid_mask_high cfg = mask (?n + 1) AND NOT 1"
    using n by (simp add: irq_valid_mask_high_def mask_eq_exp_minus_1 push_bit_eq_mult)
  have b: "bit (pending_irq_high cfg i s) k \<longleftrightarrow>
      bit (interrupt_states_high (sregs s)) k \<and> bit (interrupt_mask_high (sregs s)) k"
    if "k \<in> set [1 ..< ?n + 1]" for k
    using that n assms(2)
    by (auto simp: pending_irq_high_def irq_line_pending_mask_def m bit_simps)
  show ?thesis
    unfolding pending_irq_bit_def fold_rev_find pending_line_def
    by (rule find_cong [OF refl]) (rule b)
qed

lemma take_irq_eq:
  assumes "cfg_ok cfg" and "irq_lines i = 0"
  shows "irq_to_take cfg (sregs s) =
     (if take_irq cfg i s then Some (pending_irq_vector cfg i s) else None)"
  by (auto simp: irq_to_take_def take_irq_def pending_irq_available_def can_preempt_pending_irq_def
      pending_line_eq [OF assms] pending_irq_vector_def int_enabled_def in_interrupt_def cur_vector_iff
      split: option.split)

lemma no_irq_set: "irq_lines i = 0 \<Longrightarrow> interrupt_states_high_set cfg i s = 0"
  by (simp add: interrupt_states_high_set_def irq_line_pending_mask_def)

subsection \<open>Page-table entries\<close>

lemma pte_leaf_iff: "pte_is_leaf pte \<longleftrightarrow> bit pte 1 \<or> bit pte 2 \<or> bit pte 3"
  unfolding pte_is_leaf_def pte_defs bit.conj_disj_distrib or_eq_0_iff de_Morgan_conj and_bit by blast

lemma pte_allows_iff:
  "pte_permission_ok access pte \<and> pte_user_ok user pte \<longleftrightarrow> pte_allows access user pte"
  unfolding pte_permission_ok_def pte_user_ok_def pte_defs and_bit pte_allows_def by auto

lemma pte_valid_iff: "pte AND PTE_V = 0 \<longleftrightarrow> \<not> bit pte 0"
  unfolding pte_defs using and_bit [of pte 0] by blast

lemma vpn_index_eq:
  "walk_level w \<le> 2 \<Longrightarrow>
     walk_pte_addr w = walk_table_addr w + 8 * vpn_index (walk_virtual_addr w) (unat (walk_level w))"
proof -
  assume "walk_level w \<le> 2"
  then have "walk_level w = 0 \<or> walk_level w = 1 \<or> walk_level w = 2" by unat_arith
  then show ?thesis
    by (auto simp: walk_pte_addr_def walk_index_def vpn_index_def push_bit_eq_mult mult.commute)
qed

lemma walk_phys_eq:
  "walk_level w \<le> 2 \<Longrightarrow>
     walk_result_phys w = push_bit 12 (drop_bit 10 (walk_pte_latched w)) +
       take_bit (12 + 9 * unat (walk_level w)) (walk_virtual_addr w)"
proof -
  assume "walk_level w \<le> 2"
  then have l: "walk_level w = 0 \<or> walk_level w = 1 \<or> walk_level w = 2" by unat_arith
  have "push_bit (walk_page_shift (walk_level w)) 1 - 1 = (mask (12 + 9 * unat (walk_level w)) :: u64)"
    using l by (auto simp: walk_page_shift_def mask_eq_exp_minus_1)
  then show ?thesis by (simp add: walk_result_phys_def pte_base_def take_bit_eq_mask)
qed

text \<open>Tables are page aligned, so the walker reads whole doublewords.\<close>

lemma aligned_line: "take_bit 3 a = 0 \<Longrightarrow> line_base a = a"
proof -
  assume h: "take_bit 3 a = 0"
  have "line_base a = a AND NOT (mask 3)" by (simp add: line_base_def mask_eq_exp_minus_1)
  then show ?thesis
    using h by (intro bit_word_eqI) (auto simp: bit_simps bit_eq_iff)
qed

lemma take_bit_12_3: "take_bit 12 (x :: u64) = 0 \<Longrightarrow> take_bit 3 x = 0"
proof -
  assume "take_bit 12 x = 0"
  then have "take_bit 3 (take_bit 12 x) = 0" by simp
  then show ?thesis by simp
qed

lemma table_read:
  assumes "take_bit 12 t = 0"
  shows "bus_read m (t + 8 * i) = load_le 8 m (t + 8 * i)"
proof -
  have "t = push_bit 3 (drop_bit 3 t)"
    using take_bit_12_3 [OF assms] by (metis add_0 bits_ident add.right_neutral)
  then have "t + 8 * i = push_bit 3 (drop_bit 3 t + i)"
    by (simp add: push_bit_add push_bit_eq_mult mult.commute)
  then have "take_bit 3 (t + 8 * i) = 0" by (simp add: take_bit_push_bit)
  then show ?thesis by (simp add: bus_read_def aligned_line)
qed

lemma table_aligned: "take_bit 12 (push_bit 12 (x :: u64)) = 0"
  by (simp add: take_bit_push_bit)

subsection \<open>Fetch\<close>

section \<open>The edge around a handler\<close>

definition obs :: "core_config \<Rightarrow> core \<Rightarrow> memory \<Rightarrow> arch" where
  "obs cfg s m = (if at_boundary s then abs_core s m else fut cfg s m)"

definition software_write :: "core \<Rightarrow> bool" where
  "software_write s \<longleftrightarrow> write_stb (ssr_write_port s) \<and> \<not> sr_write_access_fault (user_mode s) (ssr_write_port s)"

text \<open>\<open>edge_ok cfg s m s' m'\<close>: the edge from \<open>s\<close> to \<open>s'\<close> keeps the promise made by \<open>fut\<close>.\<close>

definition edge_ok :: "core_config \<Rightarrow> arch \<Rightarrow> core \<Rightarrow> memory \<Rightarrow> bool" where
  "edge_ok cfg a s' m' \<longleftrightarrow> core_inv s' m' \<and> obs cfg s' m' = a"

lemma sr_tick_none: "\<not> (write_stb p \<and> \<not> sr_write_access_fault u p) \<Longrightarrow> sr_tick cfg u no_strobes p 0 r = r"
  by (auto simp: sr_tick_def no_strobes_def trap_bank_tick_def Let_def)

lemma abs_core_sel [simp]:
  "a_regs (abs_core s m) = regs s" "a_flags (abs_core s m) = flags s" "a_sregs (abs_core s m) = sregs s"
  "a_mem (abs_core s m) = m" "a_status (abs_core s m) = status_of s"
  "a_res (abs_core s m) = (if ll_reservation_valid s then Some (ll_reservation_addr s) else None)"
  by (simp_all add: abs_core_def)

lemma abs_core_frame [simp]:
  "abs_core (s\<lparr>tlb_state := t\<rparr>) m = abs_core s m"
  "abs_core (s\<lparr>state := st\<rparr>) m = abs_core s m"
  "abs_core (s\<lparr>walk := w\<rparr>) m = abs_core s m"
  "abs_core (s\<lparr>pend := p\<rparr>) m = abs_core s m"
  "abs_core (s\<lparr>split_first_cycle := b\<rparr>) m = abs_core s m"
  "abs_core (s\<lparr>split_first_data := x\<rparr>) m = abs_core s m"
  "abs_core (s\<lparr>fetch_phys_addr := x\<rparr>) m = abs_core s m"
  "abs_core (s\<lparr>interrupt_vector_phys := x\<rparr>) m = abs_core s m"
  by (simp_all add: abs_core_def status_of_def)

lemma fut_walked_tlb [simp]: "fut_walked cfg (s\<lparr>tlb_state := t\<rparr>) = fut_walked cfg s"
  by (intro ext) (simp add: fut_walked_def)

lemma fut_tlb [simp]: "fut cfg (s\<lparr>tlb_state := t\<rparr>) m = fut cfg s m"
  by (simp add: fut_def data_access_def pend_sel_def pend_off_def user_mode_def Let_def split: core_state.split)

lemma core_inv_tlb [simp]: "core_inv (s\<lparr>tlb_state := t\<rparr>) m = core_inv s m"
  by (simp add: core_inv_def walk_inv_def mem_state_def data_access_def core_split_needed_def pend_sel_def
      pend_off_def Let_def split: core_state.split)

lemma edge_ok_tlb [simp]: "edge_ok cfg a (s\<lparr>tlb_state := t\<rparr>) m = edge_ok cfg a s m"
  by (simp add: edge_ok_def obs_def at_boundary_def)

lemma core_tick_quiet:
  assumes "core_next cfg i s = (n, out)" and "strobes out = no_strobes" and "\<not> software_write s"
    and "irq_lines i = 0" and "regs n 0 = 0" and "sregs n = sregs s"
  shows "\<exists>t. core_tick cfg i s = n\<lparr>tlb_state := t\<rparr>"
proof -
  have "sr_tick cfg (user_mode s) no_strobes (ssr_write_port s) 0 (sregs s) = sregs n"
    using assms(3,6) by (simp add: sr_tick_none software_write_def)
  moreover have "(regs n)(0 := 0) = regs n" using assms(5) by (metis fun_upd_triv)
  ultimately show ?thesis
    using assms(1,2,4,5) by (auto simp: core_tick_def no_irq_set)
qed

lemma core_tick_strobes:
  assumes "core_next cfg i s = (n, out)" and "core_trap (strobes out) = None" and "\<not> software_write s"
    and "irq_lines i = 0" and "regs n 0 = 0"
  shows "\<exists>t. core_tick cfg i s = n\<lparr>sregs :=
     upd_if (core_interrupt_eflags (strobes out)) (\<lambda>v. interrupt_eflags_update (\<lambda>_. v))
     (upd_if (core_interrupt_epc (strobes out)) (\<lambda>v. interrupt_epc_update (\<lambda>_. v))
     (upd_if (core_interrupt_cpu_control (strobes out))
         (\<lambda>v. interrupt_cpu_control_update (\<lambda>_. v AND CPU_CONTROL_WRITABLE_MASK))
     (upd_if (core_cpu_control (strobes out)) (\<lambda>v. cpu_control_update (\<lambda>_. v AND CPU_CONTROL_WRITABLE_MASK)) (sregs s)))),
     tlb_state := t\<rparr>"
proof -
  have w: "(write_stb (ssr_write_port s) \<and> \<not> sr_write_access_fault (user_mode s) (ssr_write_port s)) = False"
    using assms(3) by (simp add: software_write_def)
  have r: "(regs n)(0 := 0) = regs n" using assms(5) by (metis fun_upd_triv)
  show ?thesis
    unfolding core_tick_def assms(1) Let_def prod.case no_irq_set [OF assms(4)] r sr_tick_def w
    using assms(2) by (auto simp: trap_bank_tick_def)
qed

lemma edge_quiet:
  assumes "core_next cfg i s = (n, out)" and "strobes out = no_strobes" and "\<not> software_write s"
    and "irq_lines i = 0" and "regs n 0 = 0" and "sregs n = sregs s" and "edge_ok cfg a n m"
  shows "edge_ok cfg a (core_tick cfg i s) m"
  using core_tick_quiet [OF assms(1-6)] assms(7) by auto

text \<open>Locking up changes nothing but the status.\<close>

lemma lock_edge:
  "regs s 0 = 0 \<Longrightarrow> sr_wf (sregs s) \<Longrightarrow> edge_ok cfg (a_lock (abs_core s m)) (s\<lparr>locked_up := True, state := HALTED\<rparr>) m"
  by (simp add: edge_ok_def core_inv_def obs_def at_boundary_def abs_core_def a_lock_def status_of_def)

lemma mem_next_idle: "state s \<notin> {MEM_STORE, MEM_STORE_SPLIT} \<Longrightarrow> mem_next i s m = m"
  by (simp add: mem_next_def d_bus_out_def Let_def)

text \<open>Interrupt and trap entry: the edge writes the saved and the new control register.\<close>

lemma entry_edge:
  assumes "core_next cfg i s = begin_interrupt_entry v pc st s0" and st: "st = no_strobes\<lparr>core_trap := t\<rparr>"
    and "\<not> software_write s" and "irq_lines i = 0" and "regs s0 0 = 0" and "sregs s0 = sregs s"
    and "sr_wf (sregs s)" and "\<not> halted s0" and "\<not> locked_up s0"
  shows "edge_ok cfg (enter_interrupt cfg v pc
      ((abs_core s0 m)\<lparr>a_sregs := trap_bank_tick False (ssr_write_port s) t (sregs s)\<rparr>)) (core_tick cfg i s) m"
proof -
  let ?n = "core_tick cfg i s"
  let ?r = "trap_bank_tick False (ssr_write_port s) t (sregs s)"
  let ?r' = "?r\<lparr>interrupt_cpu_control := cpu_control ?r AND CPU_CONTROL_WRITABLE_MASK,
       cpu_control := entry_control (cpu_control ?r) v\<rparr>"
  have nw: "\<not> (write_stb (ssr_write_port s) \<and> \<not> sr_write_access_fault (user_mode s) (ssr_write_port s))"
    using assms(3) by (simp add: software_write_def)
  have tick: "?n = s0\<lparr>interrupt_entry_vector := v, interrupt_entry_epc := pc,
      state := INTERRUPT_VECTOR_TRANSLATE, sregs := sregs ?n, tlb_state := tlb_state ?n\<rparr>"
    using assms(1,5) by (simp add: core_tick_def begin_interrupt_entry_def Let_def fun_upd_idem)
  have sr: "sregs ?n = ?r'"
    using assms(1,4,6) nw
    by (auto simp: core_tick_def begin_interrupt_entry_def Let_def st sr_tick_def no_strobes_def
        no_irq_set entry_control_eq trap_bank_tick_def split: option.split)
  have wf: "sr_wf (sregs ?n)"
    using sr_tick_wf [OF assms(7)] assms(6) by (simp add: core_tick_def Let_def case_prod_beta)
  have "core_inv ?n m" using wf assms(5,8,9) by (subst tick) (simp add: core_inv_def)
  moreover have "obs cfg ?n m = enter_interrupt cfg v pc ((abs_core s0 m)\<lparr>a_sregs := ?r\<rparr>)"
    by (subst tick) (simp add: obs_def at_boundary_def fut_def enter_interrupt_def abs_core_def status_of_def sr)
  ultimately show ?thesis by (simp add: edge_ok_def)
qed

lemma irq_edge:
  assumes "core_next cfg i s = begin_interrupt_entry v pc no_strobes s"
    and "\<not> software_write s" and "irq_lines i = 0" and "regs s 0 = 0"
    and "sr_wf (sregs s)" and "\<not> halted s" and "\<not> locked_up s"
  shows "edge_ok cfg (enter_interrupt cfg v pc (abs_core s m)) (core_tick cfg i s) m"
proof -
  have "(abs_core s m)\<lparr>a_sregs := trap_bank_tick False (ssr_write_port s) None (sregs s)\<rparr> = abs_core s m"
    by (simp add: abs_core_def trap_bank_tick_def)
  moreover have "no_strobes = no_strobes\<lparr>core_trap := None\<rparr>" by (simp add: no_strobes_def)
  ultimately show ?thesis
    using entry_edge [OF assms(1) _ assms(2,3,4) refl assms(5,6,7), of None m] by (simp only:)
qed

lemma trap_edge:
  assumes nx: "core_next cfg i s = raise_sync_trap tv pc fa acc aux s0"
    and sw: "\<not> software_write s" and irq: "irq_lines i = 0" and r0: "regs s0 0 = 0"
    and sr: "sregs s0 = sregs s" and wf: "sr_wf (sregs s)" and run: "\<not> halted s0" "\<not> locked_up s0"
  shows "edge_ok cfg (arch_trap cfg tv pc fa acc aux (abs_core s0 m)) (core_tick cfg i s) m"
proof (cases "trap_fatal (sregs s) (trap_code tv)")
  case True
  then have "core_next cfg i s = (s0\<lparr>locked_up := True, state := HALTED\<rparr>, quiet)"
    using nx sr by (simp add: raise_sync_trap_def nested_fatal_iff enter_lockup_def)
  moreover have "arch_trap cfg tv pc fa acc aux (abs_core s0 m) = a_lock (abs_core s0 m)"
    using True sr by (simp add: arch_trap_def abs_core_def)
  ultimately show ?thesis
    using edge_quiet [OF _ _ sw irq] lock_edge [of s0 cfg m] r0 sr wf by (simp add: quiet_def)
next
  case False
  let ?t = "Some \<lparr>ti_cause = (if trap_cause (sregs s0) = 0 then trap_code tv else trap_cause (sregs s0)),
      ti_fault_addr = fa, ti_access = acc, ti_pc = pc, ti_aux = aux\<rparr>"
  have "core_next cfg i s = begin_interrupt_entry (trap_code tv) pc (no_strobes\<lparr>core_trap := ?t\<rparr>) s0"
    using nx False sr by (simp add: raise_sync_trap_def nested_fatal_iff Let_def)
  moreover have "arch_trap cfg tv pc fa acc aux (abs_core s0 m) = enter_interrupt cfg (trap_code tv) pc
      ((abs_core s0 m)\<lparr>a_sregs := trap_bank_tick False (ssr_write_port s) ?t (sregs s)\<rparr>)"
    using False sr by (simp add: arch_trap_def Let_def abs_core_def trap_bank_tick_def)
  ultimately show ?thesis using entry_edge [OF _ refl sw irq r0 sr wf run, where m = m] by simp
qed

section \<open>Fetch\<close>

lemma sw_only_execute: "state s \<noteq> EXECUTE \<Longrightarrow> \<not> software_write s"
  by (simp add: software_write_def ssr_write_port_def)

lemma core_inv_D:
  assumes "core_inv s m"
  shows "regs s 0 = 0" "sr_wf (sregs s)" "state s \<noteq> HALTED \<Longrightarrow> \<not> halted s \<and> \<not> locked_up s"
  using assms by (auto simp: core_inv_def)

lemma start_walk_edge:
  assumes "core_inv s m" and "state s \<noteq> HALTED" and "take_bit 12 (page_table_root_physical (sregs s)) = 0"
    and "walk_inv s1" and "s1 = (start_walk va access resume s)\<lparr>pend := p\<rparr>"
    and "in_paging (sregs s)"
  shows "edge_ok cfg (fut_walked cfg s1
      (page_walk m (in_user (sregs s)) access va 2 (page_table_root_physical (sregs s))) (abs_core s m)) s1 m"
  using assms core_inv_D [OF assms(1)]
  by (simp add: edge_ok_def obs_def at_boundary_def core_inv_def start_walk_def fut_def user_iff abs_core_def
      status_of_def Let_def)

lemma fetch_ok_edge:
  assumes inv: "core_inv s m" and st: "state s = FETCH_TRANSLATE" and bus: "bus_ok i s m"
    and nx: "core_next cfg i s = (s\<lparr>fetch_phys_addr := p, state := FETCH\<rparr>, quiet)"
  shows "edge_ok cfg (a_fetched cfg (X_Ok p) (abs_core s m)) (core_tick cfg i s) m"
proof (rule edge_quiet [OF nx])
  show "edge_ok cfg (a_fetched cfg (X_Ok p) (abs_core s m)) (s\<lparr>fetch_phys_addr := p, state := FETCH\<rparr>) m"
    using core_inv_D [OF inv] st
    by (simp add: edge_ok_def obs_def at_boundary_def core_inv_def fut_def a_fetched_def abs_core_def status_of_def)
qed (use core_inv_D [OF inv] bus st in \<open>simp_all add: quiet_def bus_ok_def sw_only_execute\<close>)

text \<open>Past the interrupt check: translation of the program counter.\<close>

lemma fetch_path_edge:
  assumes inv: "core_inv s m" and st: "state s = FETCH_TRANSLATE" and bus: "bus_ok i s m"
    and tlb: "tlb_ok cfg s m" and even: "\<not> bit (regs s 15) 0"
    and mmu: "\<not> (in_paging (sregs s) \<and> \<not> enable_mmu cfg)" and no_irq: "\<not> take_irq cfg i s"
  shows "edge_ok cfg (a_fetched cfg (translate cfg (sregs s) m ACCESS_EXECUTE (regs s 15)) (abs_core s m))
           (core_tick cfg i s) m"
proof -
  let ?r = "sregs s" and ?pc = "regs s 15" and ?root = "page_table_root_physical (sregs s)"
  have irq: "irq_lines i = 0" using bus by (simp add: bus_ok_def)
  have sw: "\<not> software_write s" using st by (simp add: sw_only_execute)
  note I = core_inv_D [OF inv]
  have run: "\<not> halted s" "\<not> locked_up s" using I(3) st by auto
  note D = core_next_def st do_fetch_translate_def current_pc_def Let_def even paging_iff and_fff no_irq
  have pc: "a_regs (abs_core s m) 15 = ?pc" by (simp add: abs_core_def)
  note trap = trap_edge [OF _ sw irq I(1) refl I(2) run]
  show ?thesis
  proof (cases "in_paging ?r")
    case False
    then have "core_next cfg i s = (s\<lparr>fetch_phys_addr := ?pc, state := FETCH\<rparr>, quiet)" by (simp add: D)
    from fetch_ok_edge [OF inv st bus this] False show ?thesis by (simp add: translate_def)
  next
    case paging: True
    then have en: "enable_mmu cfg" using mmu by simp
    show ?thesis
    proof (cases "is_canonical39 ?pc \<and> take_bit 12 ?root = 0")
      case False
      then show ?thesis
        using trap paging en by (auto simp: D translate_def a_fetched_def access_fault_def pc)
    next
      case True
      have tr: "translate cfg ?r m ACCESS_EXECUTE ?pc = page_walk m (in_user ?r) ACCESS_EXECUTE ?pc 2 ?root"
        using paging en True by (simp add: translate_def)
      show ?thesis
      proof (cases "enable_tlb cfg \<and> tlb_hit_ok cfg s")
        case hit: True
        then have "core_next cfg i s = (s\<lparr>fetch_phys_addr := tlb_paddr cfg s, state := FETCH\<rparr>, quiet)"
          using paging en True by (simp add: D)
        from fetch_ok_edge [OF inv st bus this] tlb hit paging True st show ?thesis
          by (simp add: tr tlb_ok_def paging_iff user_iff tlb_lookup_vaddr_def current_pc_def translation_access_def)
      next
        case False
        let ?n = "(start_walk ?pc ACCESS_EXECUTE FETCH s)\<lparr>pend := (pend s)\<lparr>pending_fault_pc := ?pc\<rparr>\<rparr>"
        have nx: "core_next cfg i s = (?n, quiet)"
          using paging en True False by (auto simp: D)
        have w: "walk_inv ?n" using True by (simp add: walk_inv_def start_walk_def Let_def)
        have "edge_ok cfg (fut_walked cfg ?n
            (page_walk m (in_user ?r) ACCESS_EXECUTE ?pc 2 ?root) (abs_core s m)) ?n m"
          by (rule start_walk_edge [OF inv _ _ w refl paging]) (use st True in simp_all)
        then have "edge_ok cfg (a_fetched cfg (page_walk m (in_user ?r) ACCESS_EXECUTE ?pc 2 ?root)
            (abs_core s m)) ?n m"
          by (simp add: fut_walked_def start_walk_def)
        then show ?thesis
          unfolding tr by (intro edge_quiet [OF nx _ sw irq]) (use I in \<open>simp_all add: quiet_def start_walk_def\<close>)
      qed
    qed
  qed
qed

lemma fetch_translate_edge:
  assumes inv: "core_inv s m" and st: "state s = FETCH_TRANSLATE" and bus: "bus_ok i s m"
    and cfg: "cfg_ok cfg" and tlb: "tlb_ok cfg s m"
  shows "edge_ok cfg (fut cfg s m) (core_tick cfg i s) m"
proof -
  let ?a = "abs_core s m" and ?r = "sregs s" and ?pc = "regs s 15"
  have irq: "irq_lines i = 0" using bus by (simp add: bus_ok_def)
  have sw: "\<not> software_write s" using st by (simp add: sw_only_execute)
  note I = core_inv_D [OF inv]
  have run: "\<not> halted s" "\<not> locked_up s" using I(3) st by auto
  have nxt: "core_next cfg i s = do_fetch_translate cfg i s" using st by (simp add: core_next_def)
  have fut: "fut cfg s m = arch_step cfg ?a" using st by (simp add: fut_def)
  note Q = edge_quiet [OF _ _ sw irq]
  have A: "status_of s = Running" using run by (simp add: status_of_def)
  show ?thesis
  proof (cases "bit ?pc 0")
    case True
    then show ?thesis
      using trap_edge [OF _ sw irq I(1) refl I(2) run] nxt
      by (simp add: do_fetch_translate_def current_pc_def Let_def fut arch_step_def A)
  next
    case even: False
    note D = do_fetch_translate_def current_pc_def Let_def fut arch_step_def A even paging_iff
    show ?thesis
    proof (cases "in_paging ?r \<and> \<not> enable_mmu cfg")
      case True
      then show ?thesis using Q lock_edge I nxt by (simp add: D enter_lockup_def quiet_def)
    next
      case mmu: False
      show ?thesis
      proof (cases "take_irq cfg i s")
        case True
        then show ?thesis
          using irq_edge [OF _ sw irq I(1,2) run] nxt mmu by (auto simp: D take_irq_eq [OF cfg irq])
      next
        case no_irq: False
        have fut': "fut cfg s m = a_fetched cfg (translate cfg ?r m ACCESS_EXECUTE ?pc) ?a"
          using mmu by (auto simp: D take_irq_eq [OF cfg irq] no_irq)
        show ?thesis
          unfolding fut' by (rule fetch_path_edge [OF inv st bus tlb even mmu no_irq])
      qed
    qed
  qed
qed

text \<open>A state waiting for its bus stays as it is.\<close>

lemma wait_edge:
  assumes "core_inv s m" and "\<not> at_boundary s" and "state s \<noteq> EXECUTE" and "irq_lines i = 0"
    and "core_next cfg i s = (s, quiet)"
  shows "edge_ok cfg (fut cfg s m) (core_tick cfg i s) m"
  by (rule edge_quiet [OF assms(5)])
    (use assms core_inv_D [OF assms(1)] in \<open>simp_all add: quiet_def sw_only_execute edge_ok_def obs_def\<close>)

lemma fetch_edge:
  assumes inv: "core_inv s m" and st: "state s = FETCH" and bus: "bus_ok i s m"
  shows "edge_ok cfg (fut cfg s m) (core_tick cfg i s) m"
proof (cases "i_ack i")
  case True
  let ?n = "s\<lparr>fetch_pc := regs s 15, current_instruction := fetch_half m (fetch_phys_addr s), state := EXECUTE\<rparr>"
  have nx: "core_next cfg i s = (?n, quiet)"
    using True bus st by (simp add: core_next_def do_fetch_def bus_ok_def i_bus_out_def current_pc_def fetch_half_eq [simplified])
  have "edge_ok cfg (fut cfg s m) ?n m"
    using st core_inv_D [OF inv]
    by (simp add: edge_ok_def obs_def at_boundary_def fut_def core_inv_def abs_core_def status_of_def)
  then show ?thesis
    by (intro edge_quiet [OF nx]) (use core_inv_D [OF inv] bus st in \<open>simp_all add: quiet_def bus_ok_def sw_only_execute\<close>)
next
  case False
  then show ?thesis
    using bus st by (intro wait_edge [OF inv]) (simp_all add: at_boundary_def bus_ok_def core_next_def do_fetch_def)
qed

section \<open>Trap entry\<close>

lemma vector_load_ok_edge:
  assumes inv: "core_inv s m" and st: "state s \<in> {INTERRUPT_VECTOR_TRANSLATE, WALK_PROCESS}"
    and irq: "irq_lines i = 0" and nx: "core_next cfg i s = (s\<lparr>interrupt_vector_phys := p, state := INTERRUPT_VECTOR_LOAD\<rparr>, out)"
    and out: "strobes out = no_strobes"
  shows "edge_ok cfg (vector_load p (interrupt_entry_epc s) (abs_core s m)) (core_tick cfg i s) m"
proof (rule edge_quiet [OF nx out])
  show "edge_ok cfg (vector_load p (interrupt_entry_epc s) (abs_core s m))
      (s\<lparr>interrupt_vector_phys := p, state := INTERRUPT_VECTOR_LOAD\<rparr>) m"
    using core_inv_D [OF inv] st
    by (auto simp: edge_ok_def obs_def at_boundary_def core_inv_def fut_def abs_core_def status_of_def)
qed (use core_inv_D [OF inv] irq st in \<open>auto simp: sw_only_execute\<close>)

lemma lock_now_edge:
  assumes "core_inv s m" and "state s \<noteq> EXECUTE" and "irq_lines i = 0" and "core_next cfg i s = enter_lockup s"
  shows "edge_ok cfg (a_lock (abs_core s m)) (core_tick cfg i s) m"
  using edge_quiet [OF _ _ sw_only_execute assms(3)] lock_edge core_inv_D [OF assms(1)] assms
  by (simp add: enter_lockup_def quiet_def)

lemma vector_translate_edge:
  assumes inv: "core_inv s m" and st: "state s = INTERRUPT_VECTOR_TRANSLATE" and bus: "bus_ok i s m"
    and tlb: "tlb_ok cfg s m"
  shows "edge_ok cfg (fut cfg s m) (core_tick cfg i s) m"
proof -
  let ?r = "sregs s" and ?root = "page_table_root_physical (sregs s)"
  let ?va = "interrupt_table_base (sregs s) + 8 * interrupt_entry_vector s"
  have irq: "irq_lines i = 0" using bus by (simp add: bus_ok_def)
  have sw: "\<not> software_write s" using st by (simp add: sw_only_execute)
  note I = core_inv_D [OF inv]
  note D = core_next_def st do_vector_translate_def vector_addr_eq Let_def paging_iff and_fff
  have f: "fut cfg s m = fut_vector (interrupt_entry_epc s) (translate cfg ?r m ACCESS_READ ?va) (abs_core s m)"
    using st by (simp add: fut_def vector_entry_def fut_vector_def Let_def)
  note lock = lock_now_edge [OF inv _ irq, unfolded st, simplified]
  show ?thesis
  proof (cases "in_paging ?r")
    case False
    then have "core_next cfg i s = (s\<lparr>interrupt_vector_phys := ?va, state := INTERRUPT_VECTOR_LOAD\<rparr>, quiet)"
      by (simp add: D)
    from vector_load_ok_edge [OF inv _ irq this] st False show ?thesis
      by (simp add: f translate_def fut_vector_def quiet_def)
  next
    case paging: True
    show ?thesis
    proof (cases "enable_mmu cfg \<and> is_canonical39 ?va \<and> take_bit 12 ?root = 0")
      case False
      then have "core_next cfg i s = enter_lockup s" using paging by (auto simp: D)
      with False paging lock show ?thesis by (auto simp: f translate_def fut_vector_def)
    next
      case True
      have tr: "translate cfg ?r m ACCESS_READ ?va = page_walk m (in_user ?r) ACCESS_READ ?va 2 ?root"
        using paging True by (simp add: translate_def)
      show ?thesis
      proof (cases "enable_tlb cfg \<and> tlb_hit_ok cfg s")
        case hit: True
        then have "core_next cfg i s = (s\<lparr>interrupt_vector_phys := tlb_paddr cfg s, state := INTERRUPT_VECTOR_LOAD\<rparr>, quiet)"
          using paging True by (simp add: D)
        from vector_load_ok_edge [OF inv _ irq this] tlb hit paging True st show ?thesis
          by (simp add: f tr tlb_ok_def paging_iff user_iff tlb_lookup_vaddr_def vector_addr_eq
            translation_access_def fut_vector_def quiet_def)
      next
        case False
        let ?n = "start_walk ?va ACCESS_READ INTERRUPT_VECTOR_LOAD s"
        have nx: "core_next cfg i s = (?n, quiet)" using paging True False by (auto simp: D)
        have w: "walk_inv ?n" using True by (simp add: walk_inv_def start_walk_def Let_def)
        have "edge_ok cfg (fut_walked cfg ?n
            (page_walk m (in_user ?r) ACCESS_READ ?va 2 ?root) (abs_core s m)) ?n m"
          by (rule start_walk_edge [OF inv _ _ w _ paging, where p = "pend s" and resume = INTERRUPT_VECTOR_LOAD])
            (use st True in \<open>simp_all add: start_walk_def\<close>)
        then have "edge_ok cfg (fut cfg s m) ?n m"
          by (simp add: f tr fut_walked_def start_walk_def)
        then show ?thesis
          by (intro edge_quiet [OF nx _ sw irq]) (use I in \<open>simp_all add: quiet_def start_walk_def\<close>)
      qed
    qed
  qed
qed

lemma vector_load_edge:
  assumes inv: "core_inv s m" and st: "state s = INTERRUPT_VECTOR_LOAD" and bus: "bus_ok i s m"
  shows "edge_ok cfg (fut cfg s m) (core_tick cfg i s) m"
proof (cases "d_ack i")
  case ack: True
  let ?h = "bus_read m (interrupt_vector_phys s)"
  have f: "fut cfg s m = vector_load (interrupt_vector_phys s) (interrupt_entry_epc s) (abs_core s m)"
    using st by (simp add: fut_def)
  have irq: "irq_lines i = 0" using bus by (simp add: bus_ok_def)
  have d: "\<not> d_err i" "d_dat_r i = ?h" using bus ack st by (simp_all add: bus_ok_def d_bus_out_def Let_def)
  note I = core_inv_D [OF inv]
  show ?thesis
  proof (cases "?h = 0")
    case True
    then have "core_next cfg i s = enter_lockup s" using st ack d by (simp add: core_next_def do_vector_load_def)
    with lock_now_edge [OF inv _ irq this] st True show ?thesis
      by (simp add: f vector_load_def)
  next
    case False
    let ?n = "goto FETCH_TRANSLATE (set_pc ?h s)"
    have nx: "core_next cfg i s = (?n, quiet\<lparr>strobes := no_strobes\<lparr>
        core_interrupt_epc := Some (interrupt_entry_epc s), core_interrupt_eflags := Some (ucast (flags s))\<rparr>\<rparr>)"
      using st ack d False by (simp add: core_next_def do_vector_load_def)
    obtain t where t: "core_tick cfg i s = ?n\<lparr>
        sregs := (sregs s)\<lparr>interrupt_epc := interrupt_entry_epc s, interrupt_eflags := ucast (flags s)\<rparr>,
        tlb_state := t\<rparr>"
      using core_tick_strobes [OF nx _ _ irq] I(1) st
      by (auto simp: sw_only_execute no_strobes_def goto_def set_pc_def)
    show ?thesis
      unfolding t using I st
      by (simp add: f edge_ok_def obs_def at_boundary_def core_inv_def vector_load_def False
        abs_core_def a_jump_def status_of_def sr_wf_def goto_def set_pc_def)
  qed
next
  case False
  then show ?thesis
    using bus st by (intro wait_edge [OF inv])
      (simp_all add: at_boundary_def bus_ok_def core_next_def do_vector_load_def)
qed

section \<open>The page-table walk\<close>

lemma walk_inv_upd:
  "walk_inv s \<Longrightarrow> l \<le> 2 \<Longrightarrow> take_bit 12 t = 0 \<Longrightarrow>
     walk_inv (s\<lparr>walk := (walk s)\<lparr>walk_table_addr := t, walk_level := l\<rparr>, state := st\<rparr>)"
  "walk_inv s \<Longrightarrow> walk_inv (s\<lparr>walk := (walk s)\<lparr>walk_pte_latched := pte\<rparr>, state := st\<rparr>)"
  by (auto simp: walk_inv_def mem_state_def data_access_def Let_def)

lemma walk_edge:
  assumes inv: "core_inv s m" and st: "state s = WALK" and bus: "bus_ok i s m"
  shows "edge_ok cfg (fut cfg s m) (core_tick cfg i s) m"
proof (cases "d_ack i")
  case True
  have W: "walk_inv s" using inv st by (simp add: core_inv_def)
  then have al: "take_bit 12 (walk_table_addr (walk s)) = 0" and l: "walk_level (walk s) \<le> 2"
    by (simp_all add: walk_inv_def Let_def)
  let ?pte = "load_le 8 m (walk_table_addr (walk s) + 8 * vpn_index (walk_virtual_addr (walk s)) (unat (walk_level (walk s))))"
  let ?n = "s\<lparr>walk := (walk s)\<lparr>walk_pte_latched := ?pte\<rparr>, state := WALK_PROCESS\<rparr>"
  have nx: "core_next cfg i s = (?n, quiet)"
    using True bus st
    by (simp add: core_next_def do_walk_def bus_ok_def d_bus_out_def Let_def vpn_index_eq [OF l] table_read [OF al])
  have "edge_ok cfg (fut cfg s m) ?n m"
    using st core_inv_D [OF inv] walk_inv_upd(2) [OF W]
    by (simp add: edge_ok_def obs_def at_boundary_def fut_def core_inv_def page_walk_pte abs_core_def status_of_def
        Let_def user_mode_def fut_walked_def)
  then show ?thesis
    by (intro edge_quiet [OF nx]) (use core_inv_D [OF inv] bus st in \<open>simp_all add: quiet_def bus_ok_def sw_only_execute\<close>)
next
  case False
  then show ?thesis
    using bus st by (intro wait_edge [OF inv]) (simp_all add: at_boundary_def bus_ok_def core_next_def do_walk_def)
qed

text \<open>What a walk does when it fails and when it succeeds, for each of its clients.\<close>

lemma walk_fail_edge:
  assumes inv: "core_inv s m" and st: "state s = WALK_PROCESS" and irq: "irq_lines i = 0"
    and nx: "core_next cfg i s = walk_fail tv sub level s"
  shows "edge_ok cfg (fut_walked cfg s (X_Fault tv (encode_aux sub level)) (abs_core s m)) (core_tick cfg i s) m"
proof -
  have W: "walk_inv s" using inv st by (simp add: core_inv_def)
  note I = core_inv_D [OF inv]
  have run: "\<not> halted s" "\<not> locked_up s" using I(3) st by auto
  have sw: "\<not> software_write s" using st by (simp add: sw_only_execute)
  show ?thesis
  proof (cases "walk_resume_state (walk s) = INTERRUPT_VECTOR_LOAD")
    case True
    then show ?thesis
      using lock_now_edge [OF inv _ irq] st nx by (simp add: walk_fail_def fut_walked_def fut_vector_def)
  next
    case False
    then have "core_next cfg i s = raise_sync_trap tv (pending_fault_pc (pend s)) (walk_virtual_addr (walk s))
        (ucast (walk_access (walk s))) (encode_aux sub level) s"
      using nx by (simp add: walk_fail_def)
    from trap_edge [OF this sw irq I(1) refl I(2) run, of m] W False show ?thesis
      by (auto simp: fut_walked_def walk_inv_def Let_def a_fetched_def fut_access_def access_fault_def
          mem_state_def data_access_def split: if_splits)
  qed
qed

lemma fut_loaded_addr [simp]: "fut_loaded cfg (p\<lparr>pending_addr := x\<rparr>) v a = fut_loaded cfg p v a"
  by (simp add: fut_loaded_def Let_def cong: if_cong)

lemma fut_stored_addr [simp]: "fut_stored (p\<lparr>pending_addr := x\<rparr>) m a = fut_stored p m a"
  by (simp add: fut_stored_def split: option.split)

lemma pend_inv_addr [simp]: "pend_inv (p\<lparr>pending_addr := x\<rparr>) = pend_inv p"
  by (simp add: pend_inv_def)

lemma fut_access_addr [simp]: "fut_access cfg (p\<lparr>pending_addr := x\<rparr>) y a = fut_access cfg p y a"
  by (simp add: fut_access_def Let_def split: xlate.split)

lemma walk_succeed_edge:
  assumes inv: "core_inv s m" and st: "state s = WALK_PROCESS" and irq: "irq_lines i = 0"
    and nx: "core_next cfg i s = walk_succeed cfg s"
  shows "edge_ok cfg (fut_walked cfg s (X_Ok (walk_result_phys (walk s))) (abs_core s m)) (core_tick cfg i s) m"
proof -
  have W: "walk_inv s" using inv st by (simp add: core_inv_def)
  note I = core_inv_D [OF inv]
  have sw: "\<not> software_write s" using st by (simp add: sw_only_execute)
  let ?n = "fst (walk_succeed cfg s)"
  have nx': "core_next cfg i s = (?n, quiet\<lparr>tlb_fill_valid := enable_tlb cfg\<rparr>)"
    using nx by (simp add: walk_succeed_def Let_def)
  have "edge_ok cfg (fut_walked cfg s (X_Ok (walk_result_phys (walk s))) (abs_core s m)) ?n m"
    using W I st
    by (cases "pending_mem_write (pend s)")
      (auto simp: walk_succeed_def Let_def edge_ok_def obs_def at_boundary_def core_inv_def fut_def fut_walked_def
        a_fetched_def fut_vector_def walk_inv_def mem_state_def data_access_def abs_core_def status_of_def)
  then show ?thesis
    by (intro edge_quiet [OF nx' _ sw irq]) (use I in \<open>simp_all add: quiet_def walk_succeed_def Let_def\<close>)
qed

lemma walk_process_edge:
  assumes inv: "core_inv s m" and st: "state s = WALK_PROCESS" and bus: "bus_ok i s m"
  shows "edge_ok cfg (fut cfg s m) (core_tick cfg i s) m"
proof -
  let ?w = "walk s" and ?pte = "walk_pte_latched (walk s)" and ?u = "in_user (sregs s)"
  have irq: "irq_lines i = 0" using bus by (simp add: bus_ok_def)
  have sw: "\<not> software_write s" using st by (simp add: sw_only_execute)
  have W: "walk_inv s" using inv st by (simp add: core_inv_def)
  then have l: "walk_level ?w \<le> 2" by (simp add: walk_inv_def Let_def)
  note I = core_inv_D [OF inv]
  have f: "fut cfg s m = fut_walked cfg s (pte_walk m ?u (walk_access ?w) (walk_virtual_addr ?w)
      (unat (walk_level ?w)) ?pte) (abs_core s m)"
    using st by (simp add: fut_def user_iff Let_def)
  have lv: "of_nat (unat (walk_level ?w)) = (ucast (walk_level ?w) :: u64)" by (simp add: unsigned_ucast_eq)
  have pos: "0 < walk_level ?w \<longleftrightarrow> 0 < unat (walk_level ?w)" by (simp add: word_less_nat_alt)
  have zero: "walk_level ?w = 0 \<longleftrightarrow> unat (walk_level ?w) = 0" by (simp add: unat_eq_0)
  have den: "(\<not> pte_permission_ok a p \<or> \<not> pte_user_ok u p) = (\<not> pte_allows a u p)" for a u p
    using pte_allows_iff by blast
  define leaf where "leaf \<longleftrightarrow> bit ?pte 1 \<or> bit ?pte 2 \<or> bit ?pte 3"
  define allow where "allow \<longleftrightarrow> pte_allows (walk_access ?w) ?u ?pte"
  define down where
    "down = s\<lparr>walk := ?w\<lparr>walk_table_addr := pte_base ?pte, walk_level := walk_level ?w - 1\<rparr>, state := WALK\<rparr>"
  have nx: "core_next cfg i s =
     (if \<not> bit ?pte 0 then walk_fail PAGE_FAULT_NOT_PRESENT AUX_SUBTYPE_NO_VALID_PTE (ucast (walk_level ?w)) s
      else if 0 < walk_level ?w \<and> leaf
        then (if \<not> allow then walk_fail PAGE_FAULT_PERMISSION AUX_SUBTYPE_PERMISSION (ucast (walk_level ?w)) s
              else walk_succeed cfg s)
      else if ?pte AND PTE_RESERVED_MASK \<noteq> 0
        then walk_fail PAGE_FAULT_RESERVED AUX_SUBTYPE_RESERVED_BIT (ucast (walk_level ?w)) s
      else if walk_level ?w = 0
        then (if \<not> leaf then walk_fail PAGE_FAULT_RESERVED AUX_SUBTYPE_INVALID_NONLEAF 0 s
              else if \<not> allow then walk_fail PAGE_FAULT_PERMISSION AUX_SUBTYPE_PERMISSION 0 s
              else walk_succeed cfg s)
      else (down, quiet))"
    unfolding core_next_def st core_state.case do_walk_process_def Let_def pte_valid_iff pte_leaf_iff
      den user_iff pte_reserved_def leaf_def allow_def down_def by (rule refl)
  note fail = walk_fail_edge [OF inv st irq] and ok = walk_succeed_edge [OF inv st irq]
  have pw: "pte_walk m ?u (walk_access ?w) (walk_virtual_addr ?w) (unat (walk_level ?w)) ?pte =
     (let leaf_result = (if allow then X_Ok (walk_result_phys ?w)
            else X_Fault PAGE_FAULT_PERMISSION (encode_aux AUX_SUBTYPE_PERMISSION (ucast (walk_level ?w))))
      in if \<not> bit ?pte 0 then X_Fault PAGE_FAULT_NOT_PRESENT (encode_aux AUX_SUBTYPE_NO_VALID_PTE (ucast (walk_level ?w)))
         else if 0 < walk_level ?w \<and> leaf then leaf_result
         else if ?pte AND PTE_RESERVED_MASK \<noteq> 0
           then X_Fault PAGE_FAULT_RESERVED (encode_aux AUX_SUBTYPE_RESERVED_BIT (ucast (walk_level ?w)))
         else if walk_level ?w = 0
           then (if leaf then leaf_result
                 else X_Fault PAGE_FAULT_RESERVED (encode_aux AUX_SUBTYPE_INVALID_NONLEAF (ucast (walk_level ?w))))
         else page_walk m ?u (walk_access ?w) (walk_virtual_addr ?w) (unat (walk_level ?w) - 1) (pte_base ?pte))"
    unfolding pte_walk_def walk_phys_eq [OF l] lv zero pos leaf_def allow_def pte_base_def Let_def by (rule refl)
  consider "\<not> bit ?pte 0" | "bit ?pte 0" "0 < walk_level ?w \<and> leaf"
    | "bit ?pte 0" "\<not> (0 < walk_level ?w \<and> leaf)" "?pte AND PTE_RESERVED_MASK \<noteq> 0"
    | "bit ?pte 0" "?pte AND PTE_RESERVED_MASK = 0" "walk_level ?w = 0"
    | "bit ?pte 0" "\<not> leaf" "?pte AND PTE_RESERVED_MASK = 0" "0 < walk_level ?w" "walk_level ?w \<noteq> 0"
    by (auto simp: word_gt_0)
  then show ?thesis
  proof cases
    case 1
    then have "core_next cfg i s = walk_fail PAGE_FAULT_NOT_PRESENT AUX_SUBTYPE_NO_VALID_PTE (ucast (walk_level ?w)) s"
      by (simp add: nx)
    from fail [OF this] 1 show ?thesis unfolding f pw by simp
  next
    case 2
    then have c: "core_next cfg i s = (if \<not> allow
        then walk_fail PAGE_FAULT_PERMISSION AUX_SUBTYPE_PERMISSION (ucast (walk_level ?w)) s else walk_succeed cfg s)"
      by (simp add: nx)
    show ?thesis
    proof (cases allow)
      case True
      with c have "core_next cfg i s = walk_succeed cfg s" by simp
      from ok [OF this] 2 True show ?thesis unfolding f pw by simp
    next
      case False
      with c have "core_next cfg i s = walk_fail PAGE_FAULT_PERMISSION AUX_SUBTYPE_PERMISSION (ucast (walk_level ?w)) s"
        by simp
      from fail [OF this] 2 False show ?thesis unfolding f pw by simp
    qed
  next
    case 3
    then have "core_next cfg i s = walk_fail PAGE_FAULT_RESERVED AUX_SUBTYPE_RESERVED_BIT (ucast (walk_level ?w)) s"
      unfolding nx by auto
    from fail [OF this] 3 show ?thesis unfolding f pw by auto
  next
    case 4
    consider "\<not> leaf" | "leaf" "\<not> allow" | "leaf" "allow" by blast
    then show ?thesis
    proof cases
      case 1
      then have "core_next cfg i s = walk_fail PAGE_FAULT_RESERVED AUX_SUBTYPE_INVALID_NONLEAF 0 s"
        using 4 by (simp add: nx)
      from fail [OF this] 1 4 show ?thesis unfolding f pw by simp
    next
      case 2
      then have "core_next cfg i s = walk_fail PAGE_FAULT_PERMISSION AUX_SUBTYPE_PERMISSION 0 s"
        using 4 by (simp add: nx)
      from fail [OF this] 2 4 show ?thesis unfolding f pw by simp
    next
      case 3
      then have "core_next cfg i s = walk_succeed cfg s" using 4 by (simp add: nx)
      from ok [OF this] 3 4 show ?thesis unfolding f pw by simp
    qed
  next
    case 5
    then have nxd: "core_next cfg i s = (down, quiet)" by (simp add: nx)
    have l1: "walk_level ?w - 1 \<le> 2" "unat (walk_level ?w - 1) = unat (walk_level ?w) - 1"
      using 5(4) l by unat_arith+
    have dw: "walk_inv down"
      unfolding down_def by (rule walk_inv_upd(1) [OF W l1(1)]) (simp add: pte_base_def table_aligned)
    have "core_inv down m" using dw I st by (simp add: core_inv_def) (simp add: down_def)
    moreover have "fut_walked cfg down = fut_walked cfg s" by (intro ext) (simp add: fut_walked_def down_def)
    moreover have "fut cfg down m = fut_walked cfg down (page_walk m ?u (walk_access ?w) (walk_virtual_addr ?w)
        (unat (walk_level ?w) - 1) (pte_base ?pte)) (abs_core s m)"
      using l1(2) by (simp add: fut_def Let_def) (simp add: down_def user_iff)
    moreover have "\<not> at_boundary down" by (simp add: at_boundary_def down_def)
    moreover have "fut cfg s m = fut_walked cfg s (page_walk m ?u (walk_access ?w) (walk_virtual_addr ?w)
        (unat (walk_level ?w) - 1) (pte_base ?pte)) (abs_core s m)"
      unfolding f pw using 5 by simp
    ultimately have "edge_ok cfg (fut cfg s m) down m" by (simp add: edge_ok_def obs_def)
    then show ?thesis
      by (intro edge_quiet [OF nxd _ sw irq]) (use I in \<open>simp_all add: quiet_def down_def\<close>)
  qed
qed

section \<open>Data accesses\<close>

lemma abs_write_reg [simp]: "abs_core (write_reg r v s) m = a_write r v (abs_core s m)"
  by (simp add: write_reg_def a_write_def abs_core_def status_of_def)

lemma abs_set_pc [simp]: "abs_core (set_pc v s) m = a_jump v (abs_core s m)"
  by (simp add: set_pc_def a_jump_def abs_core_def status_of_def)

lemma abs_goto [simp]: "abs_core (goto st s) m = abs_core s m"
  by (simp add: goto_def)

lemma abs_reservation [simp]:
  "abs_core (s\<lparr>ll_reservation_addr := a, ll_reservation_valid := True\<rparr>) m = (abs_core s m)\<lparr>a_res := Some a\<rparr>"
  "abs_core (s\<lparr>ll_reservation_valid := False\<rparr>) m = (abs_core s m)\<lparr>a_res := None\<rparr>"
  by (simp_all add: abs_core_def status_of_def)

lemma abs_flags [simp]: "abs_core (s\<lparr>flags := f\<rparr>) m = (abs_core s m)\<lparr>a_flags := f\<rparr>"
  by (simp add: abs_core_def status_of_def)

lemma write_reg_sel [simp]:
  "sregs (write_reg r v s) = sregs s" "halted (write_reg r v s) = halted s" "locked_up (write_reg r v s) = locked_up s"
  "flags (write_reg r v s) = flags s" "pend (write_reg r v s) = pend s" "state (write_reg r v s) = state s"
  "ll_reservation_valid (write_reg r v s) = ll_reservation_valid s"
  "ll_reservation_addr (write_reg r v s) = ll_reservation_addr s"
  "regs s 0 = 0 \<Longrightarrow> regs (write_reg r v s) 0 = 0"
  by (simp_all add: write_reg_def)

lemma a_write_sel [simp]: "a_sregs (a_write r v a) = a_sregs a" "a_mem (a_write r v a) = a_mem a"
  by (simp_all add: a_write_def)

text \<open>An instruction that finishes is at a boundary with its result.\<close>

lemma finish_edge:
  assumes "core_next cfg i s = finish pc n" and "\<not> software_write s" and "irq_lines i = 0" and "regs n 0 = 0"
    and "sregs n = sregs s" and "sr_wf (sregs s)" and "\<not> halted n" and "\<not> locked_up n"
  shows "edge_ok cfg (a_jump pc (abs_core n m)) (core_tick cfg i s) m"
proof -
  have nx: "core_next cfg i s = (goto FETCH_TRANSLATE (set_pc pc n), committing)"
    using assms(1) by (simp add: finish_def)
  have "edge_ok cfg (a_jump pc (abs_core n m)) (goto FETCH_TRANSLATE (set_pc pc n)) m"
    unfolding edge_ok_def obs_def using assms(4-8) by (simp add: at_boundary_def core_inv_def)
      (simp add: goto_def set_pc_def)
  then show ?thesis
    by (intro edge_quiet [OF nx _ assms(2,3)])
      (use assms(4,5) in \<open>simp_all add: committing_def quiet_def goto_def set_pc_def\<close>)
qed

lemma a_store_fut:
  "pend_inv p \<Longrightarrow> pending_mem_write p \<Longrightarrow>
     fut_access cfg p (translate cfg (a_sregs a) (a_mem a) ACCESS_WRITE (pending_virtual_addr p)) a =
     a_store cfg (pending_fault_pc p) (pending_virtual_addr p) (pending_width_bytes p) (pending_store_value p) a"
  by (simp add: fut_access_def a_store_def fut_stored_def a_put_def pend_inv_def Let_def split: xlate.split)

lemma a_load_fut:
  "\<not> pending_mem_write p \<Longrightarrow>
     fut_access cfg p (translate cfg (a_sregs a) (a_mem a) ACCESS_READ (pending_virtual_addr p)) a =
     a_load cfg (pending_fault_pc p) (pending_virtual_addr p) (pending_width_bytes p) (\<lambda>v. fut_loaded cfg p v a) a"
  by (simp add: fut_access_def a_load_def Let_def split: xlate.split)

text \<open>Entering the translate state with a pending operation.\<close>

lemma mem_translate_obs:
  assumes "regs n 0 = 0" and "sr_wf (sregs n)" and "\<not> halted n" and "\<not> locked_up n" and "state n = MEM_TRANSLATE"
    and "pend_inv (pend n)" and "pending_addr (pend n) = pending_virtual_addr (pend n)"
  shows "edge_ok cfg (fut_access cfg (pend n)
      (translate cfg (sregs n) m (data_access n) (pending_virtual_addr (pend n))) (abs_core n m)) n m"
  using assms by (simp add: edge_ok_def obs_def at_boundary_def fut_def core_inv_def Let_def)

lemma complete_load_edge:
  assumes inv: "core_inv s m" and st: "state s \<noteq> EXECUTE" "state s \<noteq> HALTED" and irq: "irq_lines i = 0"
    and p: "pend_inv (pend s)" and nx: "core_next cfg i s = complete_load v s"
  shows "edge_ok cfg (fut_loaded cfg (pend s) v (abs_core s m)) (core_tick cfg i s) m"
proof -
  let ?p = "pend s"
  note I = core_inv_D [OF inv]
  have run: "\<not> halted s" "\<not> locked_up s" using I(3) st by auto
  have sw: "\<not> software_write s" using st by (simp add: sw_only_execute)
  define top where "top = (if pending_post_mem_use_load_result ?p then v + pending_post_mem_delta ?p
      else pending_post_mem_value ?p)"
  define s1 where "s1 = write_reg (pending_rd ?p) v s"
  define s2 where "s2 = (if pending_post_mem_write ?p then write_reg (pending_post_mem_reg ?p) top s1 else s1)"
  define s3 where "s3 = (if pending_set_reservation ?p
      then s2\<lparr>ll_reservation_addr := pending_reservation_addr ?p, ll_reservation_valid := True\<rparr> else s2)"
  have S: "regs s3 0 = 0" "sregs s3 = sregs s" "\<not> halted s3" "\<not> locked_up s3"
    using I run by (simp_all add: s3_def s2_def s1_def)
  have fl: "fut_loaded cfg ?p v (abs_core s m) =
      (if pending_chain_store ?p
       then a_store cfg (pending_fault_pc ?p) (pending_chain_store_addr ?p) 8
         (if pending_chain_store_use_load_result ?p then v else pending_chain_store_value ?p) (abs_core s3 m)
       else a_jump (if pending_post_mem_write ?p \<and> pending_post_mem_reg ?p = 15 then top
         else if pending_rd ?p = 15 then v else pending_next_pc ?p) (abs_core s3 m))"
    by (simp add: fut_loaded_def Let_def s3_def s2_def s1_def top_def [symmetric])
  show ?thesis
  proof (cases "pending_chain_store ?p")
    case False
    then have "core_next cfg i s = finish (if pending_post_mem_write ?p \<and> pending_post_mem_reg ?p = 15 then top
         else if pending_rd ?p = 15 then v else pending_next_pc ?p) s3"
      unfolding nx complete_load_def Let_def s3_def s2_def s1_def top_def by simp
    from finish_edge [OF this sw irq S(1,2) I(2) S(3,4)] False show ?thesis by (simp add: fl)
  next
    case True
    define p' where "p' = ?p\<lparr>pending_addr := pending_chain_store_addr ?p,
        pending_virtual_addr := pending_chain_store_addr ?p, pending_width_bytes := 8,
        pending_store_value := (if pending_chain_store_use_load_result ?p then v else pending_chain_store_value ?p),
        pending_mem_write := True, pending_set_reservation := False,
        pending_post_mem_write := False, pending_post_mem_use_load_result := False,
        pending_post_mem_delta := 0, pending_chain_store := False,
        pending_chain_store_use_load_result := False, pending_chain_store_value := 0\<rparr>"
    define n where "n = s3\<lparr>pend := p', state := MEM_TRANSLATE\<rparr>"
    have nxn: "core_next cfg i s = (n, quiet)"
      using True unfolding nx complete_load_def Let_def n_def p'_def s3_def s2_def s1_def top_def by simp
    have p': "pend_inv p'" using p by (simp add: pend_inv_def p'_def access_width_def)
    have "edge_ok cfg (fut_access cfg p' (translate cfg (sregs s) m ACCESS_WRITE (pending_virtual_addr p'))
        (abs_core s3 m)) n m"
      using mem_translate_obs [of n cfg m] S I(2) p' by (simp add: n_def data_access_def) (simp add: p'_def)
    moreover have "fut_loaded cfg ?p v (abs_core s m) =
        fut_access cfg p' (translate cfg (sregs s) m ACCESS_WRITE (pending_virtual_addr p')) (abs_core s3 m)"
    proof -
      have sel: "pending_virtual_addr p' = pending_chain_store_addr ?p" "pending_fault_pc p' = pending_fault_pc ?p"
        "pending_width_bytes p' = 8" "pending_mem_write p'" "pending_store_value p' =
          (if pending_chain_store_use_load_result ?p then v else pending_chain_store_value ?p)"
        by (simp_all add: p'_def)
      show ?thesis
        using a_store_fut [OF p' sel(4), of cfg "abs_core s3 m"] True S(2) unfolding fl sel by simp
    qed
    ultimately have "edge_ok cfg (fut_loaded cfg ?p v (abs_core s m)) n m" by simp
    then show ?thesis
      by (intro edge_quiet [OF nxn _ sw irq]) (use S in \<open>simp_all add: quiet_def n_def\<close>)
  qed
qed

lemma overlap_iff: "store_overlaps_reservation s \<longleftrightarrow> ll_reservation_valid s \<and>
    breaks_reservation (pending_virtual_addr (pend s)) (pending_width_bytes (pend s)) (ll_reservation_addr s)"
  by (auto simp: store_overlaps_reservation_def breaks_reservation_def Let_def)

lemma complete_store_edge:
  assumes inv: "core_inv s m" and st: "state s \<noteq> EXECUTE" "state s \<noteq> HALTED" and irq: "irq_lines i = 0"
    and p: "\<not> pending_post_mem_write (pend s)" and nx: "core_next cfg i s = complete_store s"
  shows "edge_ok cfg (fut_stored (pend s) m' (abs_core s m)) (core_tick cfg i s) m'"
proof -
  note I = core_inv_D [OF inv]
  have run: "\<not> halted s" "\<not> locked_up s" using I(3) st by auto
  have sw: "\<not> software_write s" using st by (simp add: sw_only_execute)
  let ?n = "if store_overlaps_reservation s then s\<lparr>ll_reservation_valid := False\<rparr> else s"
  have "core_next cfg i s = finish (pending_next_pc (pend s)) ?n"
    using p by (simp add: nx complete_store_def Let_def)
  then have "edge_ok cfg (a_jump (pending_next_pc (pend s)) (abs_core ?n m')) (core_tick cfg i s) m'"
    by (rule finish_edge [OF _ sw irq]) (use I run in simp_all)
  moreover have "a_jump (pending_next_pc (pend s)) (abs_core ?n m') = fut_stored (pend s) m' (abs_core s m)"
    by (simp add: fut_stored_def overlap_iff) (simp add: abs_core_def status_of_def)
  ultimately show ?thesis by simp
qed

lemma bus_first_beat:
  "state s \<in> {MEM_LOAD, MEM_STORE} \<Longrightarrow>
     d_bus_out s = \<lparr>cyc = True, we = (state s = MEM_STORE), adr = line_base (pending_addr (pend s)),
       sel = first_beat_sel (pend_sel s) (pend_off s),
       dat_w = first_beat_dat_w (pending_store_value (pend s)) (pend_off s)\<rparr>"
  by (auto simp: d_bus_out_def Let_def line_base_def)

lemma bus_second_beat:
  "state s \<in> {MEM_LOAD_SPLIT, MEM_STORE_SPLIT} \<Longrightarrow> \<not> split_first_cycle s \<Longrightarrow>
     cyc (d_bus_out s) \<and> we (d_bus_out s) = (state s = MEM_STORE_SPLIT) \<and>
     adr (d_bus_out s) = line_base (pending_addr (pend s)) + 8 \<and>
     sel (d_bus_out s) = second_beat_sel (pend_sel s) (pend_off s) \<and>
     (state s = MEM_STORE_SPLIT \<longrightarrow>
        dat_w (d_bus_out s) = second_beat_dat_w (pending_store_value (pend s)) (pend_off s))"
  by (auto simp: d_bus_out_def Let_def line_base_def)

lemma bus_read_line: "bus_read m (line_base a) = bus_read m a"
  by (simp add: bus_read_def)

lemma mem_load_edge:
  assumes inv: "core_inv s m" and st: "state s = MEM_LOAD" and bus: "bus_ok i s m"
  shows "edge_ok cfg (fut cfg s m) (core_tick cfg i s) m"
proof (cases "d_ack i")
  case ack: True
  let ?p = "pend s"
  have P: "pend_inv ?p" "\<not> pending_mem_write ?p" using inv st by (simp_all add: core_inv_def)
  then have w: "access_width (pending_width_bytes ?p)" by (simp add: pend_inv_def)
  have irq: "irq_lines i = 0" using bus by (simp add: bus_ok_def)
  have sw: "\<not> software_write s" using st by (simp add: sw_only_execute)
  note I = core_inv_D [OF inv]
  have d: "\<not> d_err i" "d_dat_r i = bus_read m (line_base (pending_addr ?p))"
    using bus ack st by (simp_all add: bus_ok_def bus_first_beat)
  have f: "fut cfg s m = fut_loaded cfg ?p (load_le (unat (pending_width_bytes ?p)) m (pending_addr ?p)) (abs_core s m)"
    using st P by (simp add: fut_def fut_access_def Let_def)
  show ?thesis
  proof (cases "core_split_needed s")
    case True
    let ?n = "s\<lparr>split_first_data := bus_read m (line_base (pending_addr ?p)), split_first_cycle := True, state := MEM_LOAD_SPLIT\<rparr>"
    have nx: "core_next cfg i s = (?n, quiet)" using True ack d st by (simp add: core_next_def do_mem_load_def)
    have "edge_ok cfg (fut cfg s m) ?n m"
      using True I st P
      by (simp add: f edge_ok_def obs_def at_boundary_def core_inv_def fut_def fut_access_def core_split_needed_def
          pend_sel_def pend_off_def Let_def)
    then show ?thesis by (intro edge_quiet [OF nx _ sw irq]) (use I in \<open>simp_all add: quiet_def\<close>)
  next
    case False
    then have "core_next cfg i s = complete_load (load_le (unat (pending_width_bytes ?p)) m (pending_addr ?p)) s"
      using ack d st single_load_correct [OF w, of "pending_addr ?p" m]
      by (simp add: core_next_def do_mem_load_def core_split_needed_def pend_sel_def pend_off_def)
    from complete_load_edge [OF inv _ _ irq P(1) this] st show ?thesis by (simp add: f)
  qed
next
  case False
  then show ?thesis
    using bus st by (intro wait_edge [OF inv]) (simp_all add: at_boundary_def bus_ok_def core_next_def do_mem_load_def)
qed

lemma mem_load_split_edge:
  assumes inv: "core_inv s m" and st: "state s = MEM_LOAD_SPLIT" and bus: "bus_ok i s m"
  shows "edge_ok cfg (fut cfg s m) (core_tick cfg i s) m"
proof -
  let ?p = "pend s"
  have P: "pend_inv ?p" "\<not> pending_mem_write ?p" "core_split_needed s"
    "split_first_data s = bus_read m (line_base (pending_addr ?p))" using inv st by (simp_all add: core_inv_def)
  then have w: "access_width (pending_width_bytes ?p)" by (simp add: pend_inv_def)
  have irq: "irq_lines i = 0" using bus by (simp add: bus_ok_def)
  have sw: "\<not> software_write s" using st by (simp add: sw_only_execute)
  note I = core_inv_D [OF inv]
  have f: "fut cfg s m = fut_loaded cfg ?p (load_le (unat (pending_width_bytes ?p)) m (pending_addr ?p)) (abs_core s m)"
    using st P by (simp add: fut_def fut_access_def Let_def)
  consider "split_first_cycle s" | "\<not> split_first_cycle s" "d_ack i" | "\<not> split_first_cycle s" "\<not> d_ack i" by blast
  then show ?thesis
  proof cases
    case 1
    let ?n = "s\<lparr>split_first_cycle := False\<rparr>"
    have nx: "core_next cfg i s = (?n, quiet)" using 1 st by (simp add: core_next_def do_mem_load_split_def)
    have "edge_ok cfg (fut cfg s m) ?n m"
      using I st P
      by (simp add: f edge_ok_def obs_def at_boundary_def core_inv_def fut_def fut_access_def core_split_needed_def
          pend_sel_def pend_off_def Let_def)
    then show ?thesis by (intro edge_quiet [OF nx _ sw irq]) (use I in \<open>simp_all add: quiet_def\<close>)
  next
    case 2
    have d: "\<not> d_err i" "d_dat_r i = bus_read m (line_base (pending_addr ?p) + 8)"
      using bus 2 st bus_second_beat [of s] by (simp_all add: bus_ok_def)
    have "core_next cfg i s = complete_load (load_le (unat (pending_width_bytes ?p)) m (pending_addr ?p)) s"
      using 2 d st P combined_load_correct [OF w, of "pending_addr ?p" m]
      by (simp add: core_next_def do_mem_load_split_def core_split_needed_def pend_sel_def pend_off_def)
    from complete_load_edge [OF inv _ _ irq P(1) this] st show ?thesis by (simp add: f)
  next
    case 3
    then show ?thesis
      using bus st
      by (intro wait_edge [OF inv]) (simp_all add: at_boundary_def bus_ok_def core_next_def do_mem_load_split_def)
  qed
qed

lemma fut_stored_mem: "fut_stored p m (abs_core s m1) = fut_stored p m (abs_core s m2)"
  by (simp add: fut_stored_def abs_core_def)

lemma mem_store_edge:
  assumes inv: "core_inv s m" and st: "state s = MEM_STORE" and bus: "bus_ok i s m"
  shows "edge_ok cfg (fut cfg s m) (core_tick cfg i s) (mem_next i s m)"
proof (cases "d_ack i")
  case ack: True
  let ?p = "pend s"
  let ?m' = "mem_next i s m"
  have P: "pend_inv ?p" "pending_mem_write ?p" using inv st by (simp_all add: core_inv_def)
  then have w: "access_width (pending_width_bytes ?p)" and np: "\<not> pending_post_mem_write ?p"
    by (simp_all add: pend_inv_def)
  have irq: "irq_lines i = 0" and d: "\<not> d_err i" using bus by (simp_all add: bus_ok_def)
  have sw: "\<not> software_write s" using st by (simp add: sw_only_execute)
  note I = core_inv_D [OF inv]
  have m': "?m' = bus_write m (line_base (pending_addr ?p)) (first_beat_sel (pend_sel s) (pend_off s))
      (first_beat_dat_w (pending_store_value ?p) (pend_off s))"
    using ack st by (simp add: mem_next_def bus_first_beat)
  have f: "fut cfg s m = fut_stored ?p (store_le (unat (pending_width_bytes ?p)) m (pending_addr ?p)
      (pending_store_value ?p)) (abs_core s m)"
    using st P by (simp add: fut_def fut_access_def Let_def)
  show ?thesis
  proof (cases "core_split_needed s")
    case True
    let ?n = "s\<lparr>split_first_cycle := True, state := MEM_STORE_SPLIT\<rparr>"
    have nx: "core_next cfg i s = (?n, quiet)" using True ack d st by (simp add: core_next_def do_mem_store_def)
    have fn: "fut cfg ?n ?m' = fut cfg s m"
      using split_store_correct [OF w, of m "pending_addr ?p" "pending_store_value ?p"]
        fut_stored_mem [of _ _ s ?m' m]
      by (simp add: f) (simp add: fut_def Let_def m' pend_sel_def pend_off_def)
    have "edge_ok cfg (fut cfg s m) ?n ?m'"
      using True I st P fn
      by (simp add: edge_ok_def obs_def at_boundary_def core_inv_def core_split_needed_def pend_sel_def pend_off_def)
    then show ?thesis by (intro edge_quiet [OF nx _ sw irq]) (use I in \<open>simp_all add: quiet_def\<close>)
  next
    case False
    then have "core_next cfg i s = complete_store s"
      using ack d st by (simp add: core_next_def do_mem_store_def)
    moreover have "?m' = store_le (unat (pending_width_bytes ?p)) m (pending_addr ?p) (pending_store_value ?p)"
      using False single_store_correct [OF w, of "pending_addr ?p" m]
      by (simp add: m' core_split_needed_def pend_sel_def pend_off_def)
    ultimately show ?thesis
      using complete_store_edge [OF inv _ _ irq np] st by (simp add: f)
  qed
next
  case False
  then have "mem_next i s m = m" by (simp add: mem_next_def)
  with False show ?thesis
    using bus st wait_edge [OF inv] by (simp add: at_boundary_def bus_ok_def core_next_def do_mem_store_def)
qed

lemma mem_store_split_edge:
  assumes inv: "core_inv s m" and st: "state s = MEM_STORE_SPLIT" and bus: "bus_ok i s m"
  shows "edge_ok cfg (fut cfg s m) (core_tick cfg i s) (mem_next i s m)"
proof -
  let ?p = "pend s"
  let ?m' = "bus_write m (line_base (pending_addr ?p) + 8) (second_beat_sel (pend_sel s) (pend_off s))
      (second_beat_dat_w (pending_store_value ?p) (pend_off s))"
  have P: "pend_inv ?p" "pending_mem_write ?p" "core_split_needed s" using inv st by (simp_all add: core_inv_def)
  then have np: "\<not> pending_post_mem_write ?p" by (simp add: pend_inv_def)
  have irq: "irq_lines i = 0" and d: "\<not> d_err i" using bus by (simp_all add: bus_ok_def)
  have sw: "\<not> software_write s" using st by (simp add: sw_only_execute)
  note I = core_inv_D [OF inv]
  have f: "fut cfg s m = fut_stored ?p ?m' (abs_core s m)" using st by (simp add: fut_def Let_def)
  consider "split_first_cycle s" | "\<not> split_first_cycle s" "d_ack i" | "\<not> split_first_cycle s" "\<not> d_ack i" by blast
  then show ?thesis
  proof cases
    case 1
    let ?n = "s\<lparr>split_first_cycle := False\<rparr>"
    have m: "mem_next i s m = m" using 1 st by (simp add: mem_next_def d_bus_out_def Let_def)
    have nx: "core_next cfg i s = (?n, quiet)" using 1 st by (simp add: core_next_def do_mem_store_split_def)
    have "edge_ok cfg (fut cfg s m) ?n m"
      using I st P
      by (simp add: f edge_ok_def obs_def at_boundary_def core_inv_def fut_def core_split_needed_def
          pend_sel_def pend_off_def Let_def)
    then show ?thesis
      unfolding m by (intro edge_quiet [OF nx _ sw irq]) (use I in \<open>simp_all add: quiet_def\<close>)
  next
    case 2
    have m: "mem_next i s m = ?m'" using 2 st bus_second_beat [of s] by (simp add: mem_next_def)
    have "core_next cfg i s = complete_store s" using 2 d st by (simp add: core_next_def do_mem_store_split_def)
    from complete_store_edge [OF inv _ _ irq np this] st show ?thesis by (simp add: f m)
  next
    case 3
    then have "mem_next i s m = m" by (simp add: mem_next_def)
    with 3 show ?thesis
      using bus st wait_edge [OF inv] by (simp add: at_boundary_def bus_ok_def core_next_def do_mem_store_split_def)
  qed
qed

lemma mem_start_edge:
  assumes inv: "core_inv s m" and st: "state s = MEM_TRANSLATE" and irq: "irq_lines i = 0"
    and nx: "core_next cfg i s = (s\<lparr>pend := (pend s)\<lparr>pending_addr := p\<rparr>, state := mem_state s\<rparr>, quiet)"
  shows "edge_ok cfg (fut_access cfg (pend s) (X_Ok p) (abs_core s m)) (core_tick cfg i s) m"
proof -
  have sw: "\<not> software_write s" using st by (simp add: sw_only_execute)
  note I = core_inv_D [OF inv]
  have "edge_ok cfg (fut_access cfg (pend s) (X_Ok p) (abs_core s m))
      (s\<lparr>pend := (pend s)\<lparr>pending_addr := p\<rparr>, state := mem_state s\<rparr>) m"
    using I st inv
    by (cases "pending_mem_write (pend s)")
      (simp_all add: edge_ok_def obs_def at_boundary_def core_inv_def fut_def mem_state_def Let_def)
  then show ?thesis by (intro edge_quiet [OF nx _ sw irq]) (use I in \<open>simp_all add: quiet_def\<close>)
qed

lemma mem_translate_edge:
  assumes inv: "core_inv s m" and st: "state s = MEM_TRANSLATE" and bus: "bus_ok i s m"
    and tlb: "tlb_ok cfg s m"
  shows "edge_ok cfg (fut cfg s m) (core_tick cfg i s) m"
proof -
  let ?r = "sregs s" and ?root = "page_table_root_physical (sregs s)" and ?p = "pend s"
  let ?va = "pending_virtual_addr (pend s)"
  have irq: "irq_lines i = 0" using bus by (simp add: bus_ok_def)
  have sw: "\<not> software_write s" using st by (simp add: sw_only_execute)
  note I = core_inv_D [OF inv]
  have run: "\<not> halted s" "\<not> locked_up s" using I(3) st by auto
  have P: "pend_inv ?p" "pending_addr ?p = ?va" using inv st by (simp_all add: core_inv_def)
  note D = core_next_def st do_mem_translate_def P(2) Let_def paging_iff and_fff
  have f: "fut cfg s m = fut_access cfg ?p (translate cfg ?r m (data_access s) ?va) (abs_core s m)"
    using st by (simp add: fut_def Let_def)
  have acc: "(if pending_mem_write ?p then ACCESS_WRITE else ACCESS_READ) = data_access s"
    by (simp add: data_access_def)
  have flt: "fut_access cfg ?p (X_Fault tv aux) a =
      arch_trap cfg tv (pending_fault_pc ?p) ?va (ucast (data_access s)) aux a" for tv aux a
    unfolding fut_access_def Let_def xlate.case access_fault_def acc by (rule refl)
  note trap = trap_edge [OF _ sw irq I(1) refl I(2) run]
  show ?thesis
  proof (cases "in_paging ?r")
    case False
    then have "core_next cfg i s = (s\<lparr>pend := ?p\<lparr>pending_addr := ?va\<rparr>, state := mem_state s\<rparr>, quiet)"
      using P(2) by (simp add: D goto_def)
    from mem_start_edge [OF inv st irq this] False show ?thesis by (simp add: f translate_def)
  next
    case paging: True
    show ?thesis
    proof (cases "enable_mmu cfg")
      case False
      then have "core_next cfg i s = enter_lockup s" using paging by (simp add: D)
      from lock_now_edge [OF inv _ irq this] st False paging show ?thesis
        by (simp add: f translate_def fut_access_def access_fault_def Let_def)
    next
      case mmu: True
      show ?thesis
      proof (cases "is_canonical39 ?va \<and> take_bit 12 ?root = 0")
        case False
        then show ?thesis
          using trap paging mmu by (auto simp: D translate_def f flt)
      next
        case True
        have tr: "translate cfg ?r m (data_access s) ?va = page_walk m (in_user ?r) (data_access s) ?va 2 ?root"
          using paging mmu True by (simp add: translate_def)
        show ?thesis
        proof (cases "enable_tlb cfg \<and> tlb_hit_ok cfg s")
          case hit: True
          then have "core_next cfg i s = (s\<lparr>pend := ?p\<lparr>pending_addr := tlb_paddr cfg s\<rparr>, state := mem_state s\<rparr>, quiet)"
            using paging mmu True by (simp add: D)
          from mem_start_edge [OF inv st irq this] tlb hit paging True st P(2) show ?thesis
            by (simp add: f tr tlb_ok_def paging_iff user_iff tlb_lookup_vaddr_def translation_access_def)
        next
          case False
          let ?n = "start_walk ?va (data_access s) (mem_state s) s"
          have nx: "core_next cfg i s = (?n, quiet)" using paging mmu True False by (auto simp: D)
          have w: "walk_inv ?n"
            using True P(1) by (simp add: walk_inv_def start_walk_def Let_def mem_state_def data_access_def)
          have "edge_ok cfg (fut_walked cfg ?n
              (page_walk m (in_user ?r) (data_access s) ?va 2 ?root) (abs_core s m)) ?n m"
            by (rule start_walk_edge [OF inv _ _ w _ paging, where p = ?p and resume = "mem_state s"])
              (use st True in \<open>simp_all add: start_walk_def\<close>)
          then have "edge_ok cfg (fut cfg s m) ?n m"
            by (simp add: f tr fut_walked_def start_walk_def mem_state_def split: if_splits)
          then show ?thesis
            by (intro edge_quiet [OF nx _ sw irq]) (use I in \<open>simp_all add: quiet_def start_walk_def\<close>)
        qed
      qed
    qed
  qed
qed

section \<open>Execute\<close>

lemma operands_eq:
  "fetch_pc s = regs s 15 \<Longrightarrow> operands_of s = a_operands (current_instruction s) (abs_core s m)"
  by (simp add: operands_of_def a_operands_def c_a_def c_b_def c_rd_def c_rs1_def post_increment_pc_def
      user_iff Let_def)

lemma isa_ssr_iff:
  "isa_execute i e = E_Write_Special \<longleftrightarrow> (\<exists>rs1 rd. i = I_GP GP_SSR rs1 rd) \<and> \<not> op_write_fault e"
proof (cases i)
  case (I_GP c rs1 rd)
  then show ?thesis by (cases c) (simp_all add: is_alu_def case_prod_beta Let_def)
qed (simp_all add: Let_def)

lemma decode_ssr_iff:
  "(\<exists>rs1 rd. decode w = I_GP GP_SSR rs1 rd) \<longleftrightarrow>
     instruction_top2 w = 3 \<and> instruction_top3 w = 6 \<and> instruction_gp_opcode w = gp_code GP_SSR"
  using top2_cases [of w] gp_opcode_of_code [of GP_SSR]
  by (auto simp: decode_def Let_def dest: gp_opcode_of_SomeD split: option.split simp del: gp_code.simps gp_opcode_of_code)

lemma write_special_iff:
  assumes "state s = EXECUTE"
  shows "isa_execute (decode (current_instruction s)) (operands_of s) = E_Write_Special \<longleftrightarrow> software_write s"
proof -
  let ?w = "current_instruction s"
  have "software_write s \<longleftrightarrow> instruction_top3 ?w = 6 \<and> instruction_gp_opcode ?w = gp_code GP_SSR \<and>
      \<not> op_write_fault (operands_of s)"
    using assms by (auto simp: software_write_def ssr_write_port_def sr_write_access_fault_def operands_of_def)
  moreover have "instruction_top3 ?w = 6 \<Longrightarrow> instruction_top2 ?w = 3"
    by (simp add: top2_of_top3 bslice_def)
  ultimately show ?thesis unfolding isa_ssr_iff decode_ssr_iff by blast
qed

fun op_width_ok :: "mem_op \<Rightarrow> bool" where
  "op_width_ok (M_Load a w r) = access_width w"
| "op_width_ok (M_Store a w v) = access_width w"
| "op_width_ok _ = True"

lemma access_bytes_width: "access_width (access_bytes c)"
  by (simp add: access_bytes_def access_width_def)

lemma isa_width_ok: "isa_execute i e = E_Mem op \<Longrightarrow> op_width_ok op"
  by (cases i) (auto simp: Let_def case_prod_beta access_bytes_width split: if_splits)

lemma pend_of_inv: "op_width_ok op \<Longrightarrow> fetch_pc s = pc \<Longrightarrow> pend_inv (pend_of op s)"
  by (cases op) (simp_all add: pend_inv_def pend_base_def post_increment_pc_def access_width_def)

lemma a_write_0 [simp]: "a_write 0 v a = a"
  by (simp add: a_write_def)

lemma pend_of_fut:
  assumes "op_width_ok op" and "fetch_pc s = regs s 15"
  shows "fut_access cfg (pend_of op s)
     (translate cfg (sregs s) m (if pending_mem_write (pend_of op s) then ACCESS_WRITE else ACCESS_READ)
        (pending_virtual_addr (pend_of op s))) (abs_core (pre_issue op s) m) =
     a_mem_op cfg (regs s 15) op (abs_core s m)"
proof -
  note inv = pend_of_inv [OF assms(1,2)]
  have sr: "a_sregs (abs_core (pre_issue op s) m) = sregs s" "a_mem (abs_core (pre_issue op s) m) = m"
    by (cases op; simp)+
  show ?thesis
  proof (cases "pending_mem_write (pend_of op s)")
    case True
    show ?thesis
      using a_store_fut [OF inv True, of cfg "abs_core (pre_issue op s) m"] True assms(2) unfolding sr
      by (cases op) (simp_all add: pend_base_def)
  next
    case False
    show ?thesis
      using a_load_fut [OF False, of cfg "abs_core (pre_issue op s) m"] False assms(2) unfolding sr
      by (cases op) (simp_all add: pend_base_def fut_loaded_def post_increment_pc_def Let_def cong: if_cong)
  qed
qed

lemma mem_issue_edge:
  assumes inv: "core_inv s m" and st: "state s = EXECUTE" and irq: "irq_lines i = 0" and sw: "\<not> software_write s"
    and nx: "core_next cfg i s = issue (pend_of op s) (pre_issue op s)" and w: "op_width_ok op"
  shows "edge_ok cfg (a_mem_op cfg (regs s 15) op (abs_core s m)) (core_tick cfg i s) m"
proof -
  note I = core_inv_D [OF inv]
  have run: "\<not> halted s" "\<not> locked_up s" using I(3) st by auto
  have pc: "fetch_pc s = regs s 15" using inv st by (simp add: core_inv_def)
  define n where "n = goto MEM_TRANSLATE ((pre_issue op s)\<lparr>pend := pend_of op s\<rparr>)"
  have nxn: "core_next cfg i s = (n, quiet)" using nx by (simp add: issue_def n_def)
  have N: "regs n 0 = 0" "sregs n = sregs s" "\<not> halted n" "\<not> locked_up n" "pend n = pend_of op s"
      "state n = MEM_TRANSLATE"
    using I run by (cases op; simp add: n_def goto_def)+
  have a: "pending_addr (pend_of op s) = pending_virtual_addr (pend_of op s)" by (cases op) (simp_all add: pend_base_def)
  have "edge_ok cfg (a_mem_op cfg (regs s 15) op (abs_core s m)) n m"
    using mem_translate_obs [of n cfg m] N I(2) pend_of_inv [OF w pc] a pend_of_fut [OF w pc, of cfg m]
    by (simp add: data_access_def) (simp add: n_def)
  then show ?thesis by (intro edge_quiet [OF nxn _ sw irq]) (use N in \<open>simp_all add: quiet_def\<close>)
qed

lemma ssr_edge:
  assumes inv: "core_inv s m" and st: "state s = EXECUTE" and irq: "irq_lines i = 0" and sw: "software_write s"
    and nx: "core_next cfg i s = finish (post_increment_pc s) s"
  shows "edge_ok cfg (a_effect cfg E_Write_Special (operands_of s) (abs_core s m)) (core_tick cfg i s) m"
proof -
  note I = core_inv_D [OF inv]
  have run: "\<not> halted s" "\<not> locked_up s" using I(3) st by auto
  have pc: "fetch_pc s = regs s 15" using inv st by (simp add: core_inv_def)
  let ?r = "sr_tick cfg (user_mode s) no_strobes (ssr_write_port s) 0 (sregs s)"
  have port: "ssr_write_port s = \<lparr>write_stb = True, write_selector = ucast (c_b s), write_data = c_a s\<rparr>"
    using sw by (simp add: software_write_def ssr_write_port_def)
  have "\<exists>t. core_tick cfg i s = (goto FETCH_TRANSLATE (set_pc (post_increment_pc s) s))\<lparr>sregs := ?r, tlb_state := t\<rparr>"
  proof -
    let ?n = "goto FETCH_TRANSLATE (set_pc (post_increment_pc s) s)"
    have r: "(regs ?n)(0 := 0) = regs ?n" using I(1) by (auto simp: goto_def set_pc_def)
    have "core_tick cfg i s = ?n\<lparr>sregs := ?r, tlb_state := tlb_state (core_tick cfg i s)\<rparr>"
      unfolding core_tick_def nx finish_def Let_def prod.case no_irq_set [OF irq] r
      by (simp add: committing_def quiet_def)
    then show ?thesis ..
  qed
  then obtain t where t: "core_tick cfg i s =
      (goto FETCH_TRANSLATE (set_pc (post_increment_pc s) s))\<lparr>sregs := ?r, tlb_state := t\<rparr>" ..
  have "sr_wf ?r" by (rule sr_tick_wf [OF I(2)])
  then show ?thesis
    unfolding t using I run pc
    by (simp add: edge_ok_def core_inv_def obs_def at_boundary_def goto_def set_pc_def abs_core_def status_of_def
        a_jump_def operands_of_def post_increment_pc_def port)
qed

lemma iret_edge:
  assumes inv: "core_inv s m" and st: "state s = EXECUTE" and irq: "irq_lines i = 0" and sw: "\<not> software_write s"
    and nx: "core_next cfg i s = apply_effect cfg E_Iret s"
  shows "edge_ok cfg (a_effect cfg E_Iret e (abs_core s m)) (core_tick cfg i s) m"
proof -
  note I = core_inv_D [OF inv]
  have run: "\<not> halted s" "\<not> locked_up s" using I(3) st by auto
  let ?n = "goto FETCH_TRANSLATE (set_pc (interrupt_epc (sregs s)) (s\<lparr>flags := ucast (interrupt_eflags (sregs s))\<rparr>))"
  from core_tick_strobes [OF nx [unfolded apply_effect.simps] _ sw irq] I(1)
  obtain t where t: "core_tick cfg i s = ?n\<lparr>sregs := (sregs s)\<lparr>cpu_control :=
      interrupt_cpu_control (sregs s) AND CPU_CONTROL_WRITABLE_MASK\<rparr>, tlb_state := t\<rparr>"
    by (auto simp: no_strobes_def goto_def set_pc_def)
  show ?thesis
    unfolding t using I run
    by (simp add: edge_ok_def core_inv_def obs_def at_boundary_def goto_def set_pc_def abs_core_def status_of_def
        a_jump_def sr_wf_def)
qed

lemma halt_edge:
  assumes inv: "core_inv s m" and st: "state s = EXECUTE" and irq: "irq_lines i = 0" and sw: "\<not> software_write s"
    and nx: "core_next cfg i s = apply_effect cfg E_Halt s"
  shows "edge_ok cfg (a_effect cfg E_Halt e (abs_core s m)) (core_tick cfg i s) m"
proof -
  note I = core_inv_D [OF inv]
  have run: "\<not> halted s" "\<not> locked_up s" using I(3) st by auto
  have pc: "fetch_pc s = regs s 15" using inv st by (simp add: core_inv_def)
  have "edge_ok cfg (a_effect cfg E_Halt e (abs_core s m))
      ((set_pc (post_increment_pc s) s)\<lparr>halted := True, state := HALTED\<rparr>) m"
    using I run pc
    by (simp add: edge_ok_def core_inv_def obs_def at_boundary_def set_pc_def abs_core_def status_of_def a_jump_def
        post_increment_pc_def)
  then show ?thesis
    by (intro edge_quiet [OF nx [unfolded apply_effect.simps] _ sw irq])
      (use I in \<open>simp_all add: committing_def quiet_def set_pc_def\<close>)
qed

lemma abs_flags_id [simp]:
  "(abs_core s m)\<lparr>a_flags := flags s\<rparr> = abs_core s m"
  "(a_write r v (abs_core s m))\<lparr>a_flags := flags s\<rparr> = a_write r v (abs_core s m)"
  by (simp_all add: abs_core_def a_write_def)

lemma execute_edge:
  assumes inv: "core_inv s m" and st: "state s = EXECUTE" and bus: "bus_ok i s m"
  shows "edge_ok cfg (fut cfg s m) (core_tick cfg i s) m"
proof -
  note I = core_inv_D [OF inv]
  have run: "\<not> halted s" "\<not> locked_up s" using I(3) st by auto
  have irq: "irq_lines i = 0" using bus by (simp add: bus_ok_def)
  have pc: "fetch_pc s = regs s 15" using inv st by (simp add: core_inv_def)
  define e where "e = isa_execute (decode (current_instruction s)) (operands_of s)"
  have nx: "core_next cfg i s = apply_effect cfg e s"
    using st execute_spec [OF st] by (simp add: core_next_def e_def)
  have f: "fut cfg s m = a_effect cfg e (operands_of s) (abs_core s m)"
    using st by (simp add: fut_def a_exec_def e_def operands_eq [OF pc, symmetric] Let_def)
  have sw: "e \<noteq> E_Write_Special \<Longrightarrow> \<not> software_write s" using write_special_iff [OF st] by (simp add: e_def)
  show ?thesis
  proof (cases e)
    case (E_Write w fl pc')
    then show ?thesis
      using finish_edge [OF nx [unfolded E_Write apply_effect.simps] sw irq, of m] I run
      by (cases w; cases fl) (auto simp: f split: prod.splits)
  next
    case (E_Mem op)
    then show ?thesis
      using mem_issue_edge [OF inv st irq sw nx [unfolded E_Mem apply_effect.simps]] isa_width_ok
      by (simp add: f e_def)
  next
    case E_Sc_Fail
    then show ?thesis
      using finish_edge [OF nx [unfolded E_Sc_Fail apply_effect.simps] sw irq, of m] I run
      by (simp add: f post_increment_pc_def pc abs_core_def status_of_def)
  next
    case (E_Trap tv)
    then show ?thesis
      using trap_edge [OF nx [unfolded E_Trap apply_effect.simps] sw irq I(1) refl I(2) run, of m]
      by (simp add: f pc)
  next
    case (E_Read_Special r)
    then show ?thesis
      using finish_edge [OF nx [unfolded E_Read_Special apply_effect.simps] sw irq, of m] I run
      by (simp add: f post_increment_pc_def pc operands_of_def)
  next
    case E_Write_Special
    then show ?thesis
      using ssr_edge [OF inv st irq, of cfg] write_special_iff [OF st] nx by (simp add: f e_def)
  next
    case E_Iret
    then show ?thesis using iret_edge [OF inv st irq sw] nx by (simp add: f)
  next
    case E_Halt
    then show ?thesis using halt_edge [OF inv st irq sw] nx by (simp add: f)
  qed
qed

end
