(* ===== verification/Basic_Live.thy ===== *)
theory Basic_Live
  imports Basic_Sim
begin

text \<open>
  Runs of the basic core: one relation for runs with arbitrary wait states, refined by
  \<open>arch_step\<close> at every instruction boundary, and a rank that falls with every answered
  edge, so that on buses that answer at once an instruction takes at most 34 edges.
\<close>

section \<open>One edge\<close>

lemma tick_edge:
  assumes "core_inv s m" and "state s \<noteq> HALTED" and "bus_ok i s m" and "tlb_ok cfg s m"
    and "cfg_ok cfg"
  shows "edge_ok cfg (fut cfg s m) (core_tick cfg i s) (mem_next i s m)"
  using assms core_inv_def [of s m] fetch_translate_edge [of s m i cfg] fetch_edge [of s m i cfg] execute_edge [of s m i cfg]
    mem_translate_edge [of s m i cfg] mem_load_edge [of s m i cfg] mem_load_split_edge [of s m i cfg]
    mem_store_edge [of s m i cfg] mem_store_split_edge [of s m i cfg] vector_translate_edge [of s m i cfg]
    vector_load_edge [of s m i cfg] walk_edge [of s m i cfg] walk_process_edge [of s m i cfg]
  by (cases "state s") (simp_all add: mem_next_idle)

text \<open>A halted core stays halted, and its architectural state with it.\<close>

lemma halted_edge:
  assumes "core_inv s m" and "state s = HALTED" and "irq_lines i = 0"
  shows "edge_ok cfg (abs_core s m) (core_tick cfg i s) m"
proof -
  have nx: "core_next cfg i s = (s\<lparr>halted := halted s \<or> \<not> locked_up s\<rparr>, quiet)"
    using assms(2) by (simp add: core_next_def do_halted_def)
  have h: "s\<lparr>halted := halted s \<or> \<not> locked_up s\<rparr> = s"
    using assms(1,2) by (cases "halted s") (auto simp: core_inv_def)
  show ?thesis
    by (rule edge_quiet [OF nx [unfolded h]])
      (use assms core_inv_D [OF assms(1)] in
        \<open>simp_all add: quiet_def sw_only_execute edge_ok_def obs_def at_boundary_def\<close>)
qed

section \<open>Runs with wait states\<close>

text \<open>
  \<open>in_flight cfg s0 m0 s m\<close>: from the boundary \<open>(s0, m0)\<close> the system has taken one or more
  edges, none of them from another boundary, and is now at \<open>(s, m)\<close>.
\<close>

inductive in_flight :: "core_config \<Rightarrow> core \<Rightarrow> memory \<Rightarrow> core \<Rightarrow> memory \<Rightarrow> bool" for cfg where
  start: "state s = FETCH_TRANSLATE \<Longrightarrow> bus_ok i s m \<Longrightarrow> tlb_ok cfg s m \<Longrightarrow>
    in_flight cfg s m (core_tick cfg i s) (mem_next i s m)"
| edge: "in_flight cfg s0 m0 s m \<Longrightarrow> \<not> at_boundary s \<Longrightarrow> bus_ok i s m \<Longrightarrow> tlb_ok cfg s m \<Longrightarrow>
    in_flight cfg s0 m0 (core_tick cfg i s) (mem_next i s m)"

lemma in_flight_promise:
  assumes "in_flight cfg s0 m0 s m" and "core_inv s0 m0" and "cfg_ok cfg"
  shows "edge_ok cfg (arch_step cfg (abs_core s0 m0)) s m"
  using assms
proof induction
  case (start s i m)
  then have "edge_ok cfg (fut cfg s m) (core_tick cfg i s) (mem_next i s m)" by (intro tick_edge) simp_all
  moreover have "fut cfg s m = arch_step cfg (abs_core s m)" using start by (simp add: fut_def Let_def)
  ultimately show ?case by simp
next
  case (edge s0 m0 s m i)
  then have e: "core_inv s m" "fut cfg s m = arch_step cfg (abs_core s0 m0)" "state s \<noteq> HALTED"
    by (auto simp: edge_ok_def obs_def at_boundary_def)
  have "edge_ok cfg (fut cfg s m) (core_tick cfg i s) (mem_next i s m)"
    by (rule tick_edge) (use e edge in simp_all)
  then show ?case using e by simp
qed

text \<open>The refinement: what the core has done at the next boundary is one architectural step.\<close>

lemma boundary_step:
  assumes "in_flight cfg s0 m0 s m" and "core_inv s0 m0" and "cfg_ok cfg" and "at_boundary s"
  shows "abs_core s m = arch_step cfg (abs_core s0 m0) \<and> core_inv s m"
  using in_flight_promise [OF assms(1-3)] assms(4) by (simp add: edge_ok_def obs_def)

section \<open>Progress\<close>

text \<open>
  The rank of a controller state bounds the edges left to the boundary: a walk from
  level \<open>l\<close> takes two edges per level and may end in a trap entry (rank 8); a load may be
  followed by the chained store of a PC-relative push or pop (rank 15).
\<close>

definition walk_base :: "core \<Rightarrow> nat" where
  "walk_base s =
     (if walk_resume_state (walk s) = FETCH then 27
      else if walk_resume_state (walk s) = INTERRUPT_VECTOR_LOAD then 1
      else if pending_mem_write (pend s) then 8 else 18)"

definition rank :: "core \<Rightarrow> nat" where
  "rank s =
     (case state s of
        FETCH_TRANSLATE \<Rightarrow> 34
      | FETCH \<Rightarrow> 27
      | EXECUTE \<Rightarrow> 26
      | MEM_TRANSLATE \<Rightarrow> if pending_mem_write (pend s) then 15 else 25
      | MEM_LOAD \<Rightarrow> 18
      | MEM_LOAD_SPLIT \<Rightarrow> if split_first_cycle s then 17 else 16
      | MEM_STORE \<Rightarrow> 3
      | MEM_STORE_SPLIT \<Rightarrow> if split_first_cycle s then 2 else 1
      | INTERRUPT_VECTOR_TRANSLATE \<Rightarrow> 8
      | INTERRUPT_VECTOR_LOAD \<Rightarrow> 1
      | WALK \<Rightarrow> walk_base s + 2 * unat (walk_level (walk s)) + 2
      | WALK_PROCESS \<Rightarrow> walk_base s + 2 * unat (walk_level (walk s)) + 1
      | HALTED \<Rightarrow> 0
      | RESET \<Rightarrow> 35)"

definition closer :: "nat \<Rightarrow> core \<Rightarrow> bool" where "closer r n \<longleftrightarrow> at_boundary n \<or> rank n < r"

lemma rank_tick: "closer r (core_tick cfg i s) = closer r (fst (core_next cfg i s))"
proof -
  have "closer r (n\<lparr>regs := a, sregs := b, tlb_state := t\<rparr>) = closer r n" for n a b t
    by (cases "state n") (simp_all add: closer_def rank_def walk_base_def at_boundary_def)
  then show ?thesis by (simp add: core_tick_def Let_def case_prod_beta)
qed

lemma closer_simps:
  "closer r (fst (finish pc n))"
  "closer r (fst (enter_lockup n))"
  "8 < r \<Longrightarrow> closer r (fst (raise_sync_trap tv pc fa acc aux n))"
  "8 < r \<Longrightarrow> closer r (fst (begin_interrupt_entry v pc st n))"
  by (simp_all add: closer_def at_boundary_def finish_def goto_def enter_lockup_def raise_sync_trap_def
      begin_interrupt_entry_def rank_def Let_def)

lemma closer_complete_load: "15 < r \<Longrightarrow> closer r (fst (complete_load v s))"
  by (simp add: complete_load_def Let_def closer_simps) (simp add: closer_def rank_def)

lemma closer_effect: "26 = r \<Longrightarrow> closer r (fst (apply_effect cfg e s))"
proof (cases e)
  case (E_Mem op)
  assume "26 = r"
  then show ?thesis by (simp add: E_Mem issue_def closer_def rank_def goto_def)
qed (simp_all add: closer_simps, simp_all add: closer_def at_boundary_def goto_def)

lemma walk_rank:
  assumes "core_inv s m" and "state s = WALK_PROCESS"
  shows "closer (rank s) (fst (do_walk_process cfg s))"
proof -
  have W: "walk_inv s" using assms by (simp add: core_inv_def)
  then have l: "unat (walk_level (walk s) - 1) < unat (walk_level (walk s))" if "walk_level (walk s) \<noteq> 0"
    using that by unat_arith
  have f: "closer (rank s) (fst (walk_fail tv sub lv s))" for tv sub lv
    using W assms(2) by (auto simp: walk_fail_def closer_simps rank_def walk_base_def)
  have k: "closer (rank s) (fst (walk_succeed cfg s))"
    using W assms(2) by (auto simp: walk_succeed_def closer_def rank_def walk_base_def Let_def walk_inv_def mem_state_def)
  show ?thesis
    using l assms(2) by (auto simp: do_walk_process_def Let_def f k) (auto simp: closer_def rank_def walk_base_def)
qed

lemma rank_falls:
  assumes "core_inv s m" and "state s \<noteq> HALTED" and "i_ack i" and "d_ack i" and "bus_ok i s m"
  shows "closer (rank s) (core_tick cfg i s)"
proof -
  have b: "\<not> d_err i" "\<not> i_err i" using assms(5) by (simp_all add: bus_ok_def)
  show ?thesis
    unfolding rank_tick
  proof (cases "state s")
    case WALK_PROCESS
    then show "closer (rank s) (fst (core_next cfg i s))"
      using walk_rank [OF assms(1)] by (simp add: core_next_def)
  next
    case EXECUTE
    then show "closer (rank s) (fst (core_next cfg i s))"
      using closer_effect by (simp add: core_next_def execute_spec rank_def)
  next
    case FETCH_TRANSLATE
    then show "closer (rank s) (fst (core_next cfg i s))"
      by (simp add: core_next_def rank_def do_fetch_translate_def Let_def closer_simps)
        (simp add: closer_def rank_def start_walk_def walk_base_def)
  next
    case MEM_TRANSLATE
    then show "closer (rank s) (fst (core_next cfg i s))"
      by (cases "pending_mem_write (pend s)"; simp add: core_next_def rank_def do_mem_translate_def Let_def closer_simps)
        (simp_all add: closer_def rank_def start_walk_def walk_base_def mem_state_def goto_def)
  next
    case INTERRUPT_VECTOR_TRANSLATE
    then show "closer (rank s) (fst (core_next cfg i s))"
      by (simp add: core_next_def rank_def do_vector_translate_def Let_def closer_simps)
        (simp add: closer_def rank_def start_walk_def walk_base_def)
  next
    case MEM_LOAD
    then show "closer (rank s) (fst (core_next cfg i s))"
      using assms b by (simp add: core_next_def rank_def do_mem_load_def closer_complete_load)
        (simp add: closer_def rank_def)
  next
    case MEM_LOAD_SPLIT
    then show "closer (rank s) (fst (core_next cfg i s))"
      using assms b by (simp add: core_next_def rank_def do_mem_load_split_def closer_complete_load)
        (simp add: closer_def rank_def)
  next
    case MEM_STORE
    then show "closer (rank s) (fst (core_next cfg i s))"
      using assms b by (simp add: core_next_def rank_def do_mem_store_def complete_store_def Let_def closer_simps)
        (simp add: closer_def rank_def)
  next
    case MEM_STORE_SPLIT
    then show "closer (rank s) (fst (core_next cfg i s))"
      using assms b by (simp add: core_next_def rank_def do_mem_store_split_def complete_store_def Let_def closer_simps)
        (simp add: closer_def rank_def)
  next
    case WALK
    then show "closer (rank s) (fst (core_next cfg i s))"
      using assms b by (simp add: core_next_def rank_def do_walk_def) (simp add: closer_def rank_def walk_base_def)
  next
    case FETCH
    then show "closer (rank s) (fst (core_next cfg i s))"
      using assms b by (simp add: core_next_def do_fetch_def) (simp add: closer_def rank_def)
  next
    case INTERRUPT_VECTOR_LOAD
    then show "closer (rank s) (fst (core_next cfg i s))"
      using assms b by (simp add: core_next_def do_vector_load_def closer_simps) (simp add: closer_def at_boundary_def goto_def)
  next
    case RESET
    then show "closer (rank s) (fst (core_next cfg i s))" using assms(1) by (simp add: core_inv_def)
  next
    case HALTED
    then show "closer (rank s) (fst (core_next cfg i s))" using assms(2) by simp
  qed
qed

section \<open>Buses that answer at once\<close>

definition prompt :: "core \<Rightarrow> memory \<Rightarrow> core_in" where
  "prompt s m = \<lparr>i_ack = True, i_err = False, i_dat_r = bus_read m (adr (i_bus_out s)),
     d_ack = True, d_err = False, d_dat_r = bus_read m (adr (d_bus_out s)),
     irq_lines = 0, boot_r1 = 0, boot_r13 = 0\<rparr>"

fun run :: "core_config \<Rightarrow> nat \<Rightarrow> core \<times> memory \<Rightarrow> core \<times> memory" where
  "run cfg 0 x = x"
| "run cfg (Suc n) (s, m) = run cfg n (core_tick cfg (prompt s m) s, mem_next (prompt s m) s m)"

lemma prompt_ok: "bus_ok (prompt s m) s m"
  by (simp add: bus_ok_def prompt_def)

lemma run_reaches:
  assumes "in_flight cfg s0 m0 s m" and "core_inv s0 m0" and "cfg_ok cfg" and "\<not> enable_tlb cfg"
  shows "\<exists>n s' m'. n \<le> rank s \<and> run cfg n (s, m) = (s', m') \<and> at_boundary s' \<and> in_flight cfg s0 m0 s' m'"
  using assms
proof (induction "rank s" arbitrary: s m rule: less_induct)
  case less
  show ?case
  proof (cases "at_boundary s")
    case True
    then show ?thesis using less.prems(1) by (intro exI [of _ 0]) simp
  next
    case False
    let ?i = "prompt s m"
    let ?s = "core_tick cfg ?i s" and ?m = "mem_next ?i s m"
    have inv: "core_inv s m" using in_flight_promise [OF less.prems(1-3)] by (simp add: edge_ok_def)
    have tlb: "tlb_ok cfg s m" using less.prems(4) by (simp add: tlb_ok_def tlb_hit_ok_def)
    have fl: "in_flight cfg s0 m0 ?s ?m"
      by (rule in_flight.edge [OF less.prems(1) False prompt_ok tlb])
    have "closer (rank s) ?s"
      by (rule rank_falls [OF inv _ _ _ prompt_ok]) (use False in \<open>simp_all add: at_boundary_def prompt_def\<close>)
    then consider "at_boundary ?s" | "rank ?s < rank s" by (auto simp: closer_def)
    then show ?thesis
    proof cases
      case 1
      have "0 < rank s" using False inv by (auto simp: rank_def at_boundary_def core_inv_def split: core_state.splits)
      then show ?thesis using 1 fl by (intro exI [of _ 1]) simp
    next
      case 2
      obtain n s' m' where n: "n \<le> rank ?s" "run cfg n (?s, ?m) = (s', m')" "at_boundary s'" "in_flight cfg s0 m0 s' m'"
        using less.hyps [OF 2 fl less.prems(2-4)] by blast
      with 2 show ?thesis by (intro exI [of _ "Suc n"]) auto
    qed
  qed
qed

text \<open>Total correctness of one instruction: at most 34 edges, and the architectural step is done.\<close>

lemma instruction_completes:
  assumes "state s = FETCH_TRANSLATE" and "core_inv s m" and "cfg_ok cfg" and "\<not> enable_tlb cfg"
  shows "\<exists>n s' m'. 0 < n \<and> n \<le> 34 \<and> run cfg n (s, m) = (s', m') \<and> at_boundary s' \<and>
           abs_core s' m' = arch_step cfg (abs_core s m) \<and> core_inv s' m'"
proof -
  let ?i = "prompt s m"
  let ?s = "core_tick cfg ?i s" and ?m = "mem_next ?i s m"
  have tlb: "tlb_ok cfg s m" using assms(4) by (simp add: tlb_ok_def tlb_hit_ok_def)
  have fl: "in_flight cfg s m ?s ?m" by (rule in_flight.start [OF assms(1) prompt_ok tlb])
  have "closer 34 ?s"
    using rank_falls [OF assms(2) _ _ _ prompt_ok] assms(1) by (simp add: rank_def prompt_def)
  obtain n s' m' where n: "n \<le> (if at_boundary ?s then 0 else rank ?s)" "run cfg n (?s, ?m) = (s', m')"
      "at_boundary s'" "in_flight cfg s m s' m'"
    using run_reaches [OF fl assms(2-4)] fl by (cases "at_boundary ?s") (auto intro: exI [of _ 0])
  have "Suc n \<le> 34" using n(1) \<open>closer 34 ?s\<close> by (auto simp: closer_def split: if_splits)
  moreover have "run cfg (Suc n) (s, m) = (s', m')" using n(2) by simp
  ultimately show ?thesis
    using boundary_step [OF n(4) assms(2,3) n(3)] n(3) by blast
qed

end
