(* ===== verification/Basic_Reset.thy ===== *)
theory Basic_Reset
  imports Basic_Live
begin

text \<open>
  The basic core from reset: the register initialisers of \<open>basic/core.py\<close>, the boot edge,
  and whole program runs.  With prompt buses and the TLB disabled, \<open>k\<close> instructions of the
  architecture take at most \<open>34 k + 1\<close> clock edges from reset.
\<close>

section \<open>Reset state\<close>

definition pending_reset :: pending_op where
  "pending_reset = \<lparr>pending_addr = 0, pending_virtual_addr = 0, pending_width_bytes = 0, pending_rd = 0,
     pending_store_value = 0, pending_next_pc = 0, pending_fault_pc = 0, pending_mem_write = False,
     pending_set_reservation = False, pending_reservation_addr = 0, pending_post_mem_reg = 0,
     pending_post_mem_value = 0, pending_post_mem_delta = 0, pending_post_mem_write = False,
     pending_post_mem_use_load_result = False, pending_chain_store = False, pending_chain_store_addr = 0,
     pending_chain_store_use_load_result = False, pending_chain_store_value = 0\<rparr>"

definition walk_reset :: walk_regs where
  "walk_reset = \<lparr>walk_virtual_addr = 0, walk_table_addr = 0, walk_level = 0, walk_access = 0,
     walk_resume_state = RESET, walk_pte_latched = 0\<rparr>"

definition core_init :: "core_config \<Rightarrow> core" where
  "core_init cfg = \<lparr>state = RESET, current_instruction = 0, fetch_pc = 0, fetch_phys_addr = 0,
     regs = (\<lambda>_. 0)(15 := reset_pc cfg), flags = 0, ll_reservation_addr = 0, ll_reservation_valid = False,
     halted = False, locked_up = False, pend = pending_reset, walk = walk_reset,
     interrupt_entry_vector = 0, interrupt_entry_epc = 0, interrupt_vector_phys = 0,
     split_first_data = 0, split_first_cycle = False, sregs = sr_reset, tlb_state = tlb_reset\<rparr>"

text \<open>The architectural state a program starts in.\<close>

definition arch_reset :: "core_config \<Rightarrow> u64 \<Rightarrow> u64 \<Rightarrow> memory \<Rightarrow> arch" where
  "arch_reset cfg r1 r13 m = \<lparr>a_regs = (\<lambda>_. 0)(1 := r1, 13 := r13, 15 := reset_pc cfg), a_flags = 0,
     a_res = None, a_sregs = sr_reset, a_mem = m, a_status = Running\<rparr>"

lemma reset_edge:
  assumes "irq_lines i = 0"
  shows "let s = core_tick cfg i (core_init cfg) in
     state s = FETCH_TRANSLATE \<and> core_inv s m \<and> abs_core s m = arch_reset cfg (boot_r1 i) (boot_r13 i) m"
proof -
  let ?s = "core_tick cfg i (core_init cfg)"
  have idle: "\<not> software_write (core_init cfg)" by (rule sw_only_execute) (simp add: core_init_def)
  then have w: "(write_stb (ssr_write_port (core_init cfg)) \<and>
      \<not> sr_write_access_fault (user_mode (core_init cfg)) (ssr_write_port (core_init cfg))) = False"
    by (simp add: software_write_def)
  have sregs: "sregs ?s = sr_reset"
    unfolding core_tick_def Let_def no_irq_set [OF assms] sr_tick_def w
    by (simp add: core_next_def core_init_def do_reset_def quiet_def no_strobes_def trap_bank_tick_def sr_reset_def)
  have "state ?s = FETCH_TRANSLATE" "regs ?s = (\<lambda>_. 0)(1 := boot_r1 i, 13 := boot_r13 i, 15 := reset_pc cfg)"
    "flags ?s = 0" "\<not> ll_reservation_valid ?s" "\<not> halted ?s" "\<not> locked_up ?s"
    by (auto simp: core_tick_def Let_def core_next_def core_init_def do_reset_def)
  then show ?thesis
    using sr_wf_reset by (simp add: Let_def core_inv_def abs_core_def arch_reset_def status_of_def sregs)
qed

section \<open>Programs\<close>

lemma run_add: "run cfg (a + b) x = run cfg b (run cfg a x)"
  by (induction a arbitrary: x) (auto simp: split_paired_all)

lemma stopped_step: "a_status a \<noteq> Running \<Longrightarrow> arch_step cfg a = a"
  by (simp add: arch_step_def Let_def)

lemma boundary_run:
  assumes "at_boundary s" and "core_inv s m" and "cfg_ok cfg" and "\<not> enable_tlb cfg"
  shows "\<exists>n s' m'. n \<le> 34 * k \<and> run cfg n (s, m) = (s', m') \<and> at_boundary s' \<and>
           abs_core s' m' = (arch_step cfg ^^ k) (abs_core s m) \<and> core_inv s' m'"
proof (induction k)
  case 0
  show ?case using assms by (intro exI [of _ 0]) simp
next
  case (Suc k)
  then obtain n s' m' where n: "n \<le> 34 * k" "run cfg n (s, m) = (s', m')" "at_boundary s'"
    "abs_core s' m' = (arch_step cfg ^^ k) (abs_core s m)" "core_inv s' m'" by blast
  show ?case
  proof (cases "state s' = FETCH_TRANSLATE")
    case True
    from instruction_completes [OF True n(5) assms(3,4)] obtain j s2 m2 where
      "j \<le> 34" "run cfg j (s', m') = (s2, m2)" "at_boundary s2"
      "abs_core s2 m2 = arch_step cfg (abs_core s' m')" "core_inv s2 m2" by blast
    with n show ?thesis by (intro exI [of _ "n + j"] exI [of _ s2] exI [of _ m2]) (simp add: run_add)
  next
    case False
    then have "state s' = HALTED" using n(3) by (simp add: at_boundary_def)
    then have "a_status (abs_core s' m') \<noteq> Running"
      using n(5) by (auto simp: core_inv_def abs_core_def status_of_def)
    then have "arch_step cfg (abs_core s' m') = abs_core s' m'" by (rule stopped_step)
    with n show ?thesis by (intro exI [of _ n] exI [of _ s'] exI [of _ m']) simp
  qed
qed

text \<open>
  Property C1: With prompt buses and the TLB disabled, the basic core started from reset on any
  memory has, for every number k of instructions, reached an instruction boundary after at most 34
  k + 1 clock edges whose registers, flags, reservation, special registers, memory and status are
  those of k steps of the architecture machine.
\<close>

lemma program_runs:
  assumes "cfg_ok cfg" and "\<not> enable_tlb cfg"
  shows "\<exists>n s m'. n \<le> 34 * k + 1 \<and> run cfg n (core_init cfg, m) = (s, m') \<and> at_boundary s \<and>
           abs_core s m' = (arch_step cfg ^^ k) (arch_reset cfg 0 0 m)"
proof -
  let ?i = "prompt (core_init cfg) m"
  let ?s = "core_tick cfg ?i (core_init cfg)"
  have r: "state ?s = FETCH_TRANSLATE" "core_inv ?s m" "abs_core ?s m = arch_reset cfg 0 0 m"
    using reset_edge [of ?i cfg m] by (simp_all add: prompt_def Let_def)
  have one: "run cfg 1 (core_init cfg, m) = (?s, m)"
    by (simp add: mem_next_idle core_init_def)
  have "at_boundary ?s" using r(1) by (simp add: at_boundary_def)
  from boundary_run [OF this r(2) assms, of k] obtain n s' m' where
    "n \<le> 34 * k" "run cfg n (?s, m) = (s', m')" "at_boundary s'" "abs_core s' m' = (arch_step cfg ^^ k) (arch_reset cfg 0 0 m)"
    unfolding r(3) by blast
  moreover from this one have "run cfg (1 + n) (core_init cfg, m) = (s', m')" by (simp only: run_add)
  ultimately show ?thesis by (intro exI [of _ "1 + n"] exI [of _ s'] exI [of _ m']) simp
qed

text \<open>A configuration without a TLB, and the boot edge with all memory zero.\<close>

definition plain_config :: core_config where
  "plain_config = default_config\<lparr>enable_tlb := False, tlb_entries := 0\<rparr>"

lemma plain_config_ok: "cfg_ok plain_config \<and> \<not> enable_tlb plain_config"
  by (simp add: cfg_ok_def plain_config_def default_config_def)

lemma program_runs_witness:
  "\<exists>n s m'. n \<le> 34 * 2 + 1 \<and> run plain_config n (core_init plain_config, \<lambda>_. 0) = (s, m') \<and> at_boundary s \<and>
     abs_core s m' = (arch_step plain_config ^^ 2) (arch_reset plain_config 0 0 (\<lambda>_. 0))"
  using program_runs [of plain_config 2 "\<lambda>_. 0"] plain_config_ok by blast

section \<open>Wait states\<close>

text \<open>
  Property C2: However many wait states the two buses insert, the basic core that left an
  instruction boundary is, at its next boundary, in exactly the state one architecture step
  produces: translation, page walk, split accesses, chained stores, traps and interrupt entry
  included (bus errors, new interrupt pulses and stale TLB hits excluded).
\<close>

lemma core_refines_isa:
  assumes "in_flight cfg s0 m0 s m" and "core_inv s0 m0" and "cfg_ok cfg" and "at_boundary s"
  shows "abs_core s m = arch_step cfg (abs_core s0 m0) \<and> core_inv s m"
  by (rule boundary_step [OF assms])

definition booted :: core where
  "booted = core_tick plain_config (prompt (core_init plain_config) (\<lambda>_. 0)) (core_init plain_config)"

lemma booted_ok: "state booted = FETCH_TRANSLATE \<and> core_inv booted m"
  using reset_edge [of "prompt (core_init plain_config) (\<lambda>_. 0)" plain_config m]
  by (simp add: booted_def prompt_def Let_def)

lemma core_refines_isa_witness:
  "\<exists>s m. in_flight plain_config booted (\<lambda>_. 0) s m \<and> at_boundary s \<and>
     abs_core s m = arch_step plain_config (abs_core booted (\<lambda>_. 0))"
proof -
  let ?z = "\<lambda>_. 0 :: byte"
  have "in_flight plain_config booted ?z (core_tick plain_config (prompt booted ?z) booted)
      (mem_next (prompt booted ?z) booted ?z)"
    by (rule in_flight.start) (use booted_ok plain_config_ok in
      \<open>simp_all add: prompt_ok tlb_ok_def tlb_hit_ok_def\<close>)
  then obtain s m where r: "at_boundary s" "in_flight plain_config booted ?z s m"
    using run_reaches [of plain_config booted ?z] booted_ok plain_config_ok by blast
  have "abs_core s m = arch_step plain_config (abs_core booted ?z)"
    using core_refines_isa [OF r(2) _ _ r(1)] booted_ok plain_config_ok by blast
  with r show ?thesis by blast
qed

end
