(* ===== verification/Isa_Security.thy ===== *)
theory Isa_Security
  imports Isa_Machine
begin

text \<open>
  What one step of the architecture machine guarantees to a kernel: user code reaches supervisor
  mode only through the vector table, memory changes by at most one store at a translated address, a
  translation that succeeds rests on an entry of the page tables with the permission, and returning
  from a trap restores the interrupted context.  \<open>Basic_Security\<close> carries these facts to the core.
\<close>

section \<open>Entry\<close>

text \<open>
  A step from special registers \<open>r\<close> ends locked up, or with \<open>r\<close> except for the thread
  pointer, or in supervisor mode at a handler read from the vector table of \<open>r\<close>, with the page
  tables, the vector table and the interrupt mask of \<open>r\<close> still in force.
\<close>

definition handler_entered :: "core_config \<Rightarrow> special_regs \<Rightarrow> special_regs \<Rightarrow> regfile \<Rightarrow> memory \<Rightarrow> bool" where
  "handler_entered cfg r r' rs m \<longleftrightarrow>
     \<not> in_user r' \<and> in_interrupt r' \<and> \<not> int_enabled r' \<and> in_paging r' = in_paging r \<and>
     page_table_root_physical r' = page_table_root_physical r \<and> interrupt_table_base r' = interrupt_table_base r \<and>
     interrupt_mask_high r' = interrupt_mask_high r \<and> rs 15 \<noteq> 0 \<and>
     (\<exists>v p. v < 128 \<and> translate cfg r' m ACCESS_READ (interrupt_table_base r + 8 * v) = X_Ok p \<and> rs 15 = bus_read m p)"

definition user_confined :: "core_config \<Rightarrow> special_regs \<Rightarrow> arch \<Rightarrow> bool" where
  "user_confined cfg r a \<longleftrightarrow>
     a_status a = Locked \<or>
     a_sregs a = r\<lparr>thread_pointer := thread_pointer (a_sregs a)\<rparr> \<or>
     handler_entered cfg r (a_sregs a) (a_regs a) (a_mem a)"

text \<open>What of \<open>r\<close> a handler relies on.\<close>

definition same_tables :: "special_regs \<Rightarrow> special_regs \<Rightarrow> bool" where
  "same_tables r q \<longleftrightarrow> bit (cpu_control q) 16 = bit (cpu_control r) 16 \<and> page_table_root_physical q = page_table_root_physical r \<and>
     interrupt_table_base q = interrupt_table_base r \<and> interrupt_mask_high q = interrupt_mask_high r"

lemma same_tables_refl [simp]: "same_tables r r"
  by (simp add: same_tables_def)

lemma translate_entry [simp]:
  "translate cfg (r\<lparr>interrupt_cpu_control := d, cpu_control := c\<rparr>) m acc va = translate cfg (r\<lparr>cpu_control := c\<rparr>) m acc va"
  "translate cfg (r\<lparr>interrupt_epc := e\<rparr>) m acc va = translate cfg r m acc va"
  "translate cfg (r\<lparr>interrupt_eflags := f\<rparr>) m acc va = translate cfg r m acc va"
  by (simp_all add: translate_def in_paging_def in_user_def)

text \<open>Vectors are 7 bits wide in the control register, so entry sets mode bits only below bit 9.\<close>

lemma vector_bits: "v < 128 \<Longrightarrow> 7 \<le> n \<Longrightarrow> \<not> bit (v :: u64) n"
proof -
  assume v: "v < 128" and n: "7 \<le> n"
  have "take_bit 7 (unat v) = unat v" using v by (simp add: take_bit_eq_mod word_less_nat_alt)
  then have "\<not> bit (unat v) n" using n by (metis bit_take_bit_iff not_less)
  then show ?thesis by (simp add: bit_unsigned_iff)
qed

lemma entry_control_bits:
  assumes "v < 128"
  shows "bit (entry_control cc v) 17 = False" "bit (entry_control cc v) 1" "bit (entry_control cc v) 0 = False"
    and "bit (entry_control cc v) 16 = bit cc 16"
  using vector_bits [OF assms, of 15] vector_bits [OF assms, of 14]
  by (simp_all add: entry_control_def cpu_control_defs bit_simps del: push_bit_numeral)

lemma enter_interrupt_confined:
  assumes "v < 128" and "same_tables r (a_sregs a)"
  shows "a_status (enter_interrupt cfg v epc a) = Locked \<or>
     (let b = enter_interrupt cfg v epc a in handler_entered cfg r (a_sregs b) (a_regs b) (a_mem b))"
proof -
  let ?r = "a_sregs a\<lparr>cpu_control := entry_control (cpu_control (a_sregs a)) v\<rparr>"
  note defs = enter_interrupt_def vector_entry_def vector_load_def Let_def a_lock_def handler_entered_def
    a_jump_def in_user_def in_interrupt_def int_enabled_def in_paging_def
  show ?thesis
  proof (cases "translate cfg ?r (a_mem a) ACCESS_READ (interrupt_table_base (a_sregs a) + 8 * v)")
    case (X_Ok p)
    then show ?thesis
      using entry_control_bits [OF assms(1), of "cpu_control (a_sregs a)"] assms
      by (auto simp: defs same_tables_def)
  qed (simp_all add: defs)
qed

text \<open>A synchronous trap, from registers that differ from \<open>r\<close> in nothing that matters.\<close>

lemma trap_code_less: "trap_code tv < 128"
  by (cases tv) simp_all

lemma arch_trap_confined:
  assumes "same_tables r (a_sregs a)"
  shows "user_confined cfg r (arch_trap cfg tv pc fa acc aux a)"
proof (cases "trap_fatal (a_sregs a) (trap_code tv)")
  case True
  then show ?thesis by (simp add: arch_trap_def a_lock_def user_confined_def)
next
  case False
  let ?c = "if trap_cause (a_sregs a) = 0 then trap_code tv else trap_cause (a_sregs a)"
  let ?b = "a\<lparr>a_sregs := (a_sregs a)\<lparr>trap_cause := ?c, trap_fault_addr := fa, trap_access := acc,
    trap_pc := pc, trap_aux := aux\<rparr>\<rparr>"
  have e: "arch_trap cfg tv pc fa acc aux a = enter_interrupt cfg (trap_code tv) pc ?b"
    using False by (simp only: arch_trap_def Let_def if_False)
  have "same_tables r (a_sregs ?b)" using assms by (simp add: same_tables_def)
  from enter_interrupt_confined [OF trap_code_less this, of cfg tv pc] show ?thesis
    unfolding e user_confined_def Let_def by blast
qed

lemma access_fault_confined:
  "same_tables r (a_sregs a) \<Longrightarrow> user_confined cfg r (access_fault cfg pc va acc x a)"
  by (cases x) (simp_all add: access_fault_def arch_trap_confined, simp_all add: user_confined_def a_lock_def)

lemma irq_vector_less: "irq_to_take cfg r = Some v \<Longrightarrow> irq_input_count cfg \<le> 63 \<Longrightarrow> v < 128"
proof -
  assume a: "irq_to_take cfg r = Some v" and b: "irq_input_count cfg \<le> 63"
  then obtain k where k: "pending_line cfg r = Some k" and v: "v = of_nat (64 + k)"
    by (auto simp: irq_to_take_def split: option.splits if_splits)
  from k have "k \<in> set [1 ..< nat (irq_input_count cfg) + 1]"
    unfolding pending_line_def find_Some_iff by (metis nth_mem)
  then have "64 + k < 128" using b by auto
  then have "unat (of_nat (64 + k) :: u64) = 64 + k" by (simp add: unat_of_nat del: of_nat_add)
  then show ?thesis unfolding v word_less_nat_alt using \<open>64 + k < 128\<close> by (simp del: of_nat_add)
qed

section \<open>User code is confined\<close>

lemma confined_same: "a_sregs b = r \<Longrightarrow> user_confined cfg r b"
  by (simp add: user_confined_def)

lemma confined_lock [simp]: "user_confined cfg r (a_lock a)"
  by (simp add: user_confined_def a_lock_def)

lemma a_simps [simp]:
  "a_sregs (a_write r v a) = a_sregs a" "a_sregs (a_jump pc a) = a_sregs a" "a_sregs (a_put p va w v a) = a_sregs a"
  "a_mem (a_write r v a) = a_mem a" "a_mem (a_jump pc a) = a_mem a" "a_mem (a_lock a) = a_mem a"
  by (simp_all add: a_write_def a_jump_def a_put_def a_lock_def)

lemma a_load_confined:
  assumes "a_sregs a = r" and "\<And>v. user_confined cfg r (k v)"
  shows "user_confined cfg r (a_load cfg pc va w k a)"
  using assms access_fault_confined [of r a] by (simp add: a_load_def split: xlate.split)

lemma a_store_confined:
  assumes "a_sregs a = r"
  shows "user_confined cfg r (a_store cfg pc va w v a)"
  using assms access_fault_confined [of r a] by (simp add: a_store_def confined_same split: xlate.split)

lemma a_mem_op_confined: "a_sregs a = r \<Longrightarrow> user_confined cfg r (a_mem_op cfg pc op a)"
  by (cases op) (simp_all add: Let_def a_load_confined a_store_confined confined_same)

lemma thread_pointer_write:
  "sr_tick cfg u no_strobes \<lparr>write_stb = True, write_selector = 0x8000, write_data = v\<rparr> 0 r =
     r\<lparr>thread_pointer := v\<rparr>"
  by (simp add: sr_unfold sr_of_def)

text \<open>What an instruction asks for in user mode: no return from a trap, no halt, no protected register.\<close>

lemma user_effects:
  assumes "isa_execute i e = E" and "op_user e" and "op_write_fault e \<longleftrightarrow> ucast (op_b e) \<noteq> sr_code THREAD_POINTER"
  shows "E \<noteq> E_Iret" and "E \<noteq> E_Halt" and "E = E_Write_Special \<Longrightarrow> ucast (op_b e) = sr_code THREAD_POINTER"
  using assms by (cases i; auto simp: Let_def split: if_splits prod.splits)+

lemma a_exec_confined:
  assumes "in_user (a_sregs a)" and "a_sregs a = r"
  shows "user_confined cfg r (a_exec cfg w a)"
proof -
  let ?e = "a_operands w a"
  let ?E = "isa_execute (decode w) ?e"
  have u: "op_user ?e" "op_write_fault ?e \<longleftrightarrow> ucast (op_b ?e) \<noteq> sr_code THREAD_POINTER"
    using assms by (simp_all add: a_operands_def Let_def)
  note E = user_effects [OF refl u, of "decode w"]
  show ?thesis
  proof (cases ?E)
    case (E_Write w f pc)
    then show ?thesis using assms(2) by (simp add: a_exec_def Let_def confined_same split: option.split)
  next
    case (E_Mem op)
    then show ?thesis using assms(2) by (simp add: a_exec_def Let_def a_mem_op_confined)
  next
    case (E_Trap tv)
    then show ?thesis using assms(2) arch_trap_confined [of r a] by (simp add: a_exec_def Let_def)
  next
    case E_Write_Special
    then show ?thesis
      using assms(2) E(3) by (simp add: a_exec_def Let_def thread_pointer_write user_confined_def)
  qed (use assms(2) E in \<open>simp_all add: a_exec_def Let_def confined_same\<close>)
qed

text \<open>Every step of user code: locked up, still the same registers, or in a handler.\<close>

lemma user_step_confined:
  assumes "in_user (a_sregs a)" and "irq_input_count cfg \<le> 63"
  shows "user_confined cfg (a_sregs a) (arch_step cfg a)"
proof -
  have f: "user_confined cfg (a_sregs a) (a_fetched cfg x a)" for x
    using assms a_exec_confined [of a "a_sregs a"] access_fault_confined [of "a_sregs a" a]
    by (cases x) (simp_all add: a_fetched_def)
  have e: "user_confined cfg (a_sregs a) (enter_interrupt cfg v pc a)" if "irq_to_take cfg (a_sregs a) = Some v" for v pc
    using enter_interrupt_confined [OF irq_vector_less [OF that assms(2)] same_tables_refl, of cfg pc]
    unfolding user_confined_def Let_def by blast
  show ?thesis
    using f e arch_trap_confined [of "a_sregs a" a]
    by (auto simp: arch_step_def Let_def confined_same split: option.split)
qed

section \<open>Memory changes by one translated store\<close>

text \<open>
  Memory is unchanged, or changed by one little-endian store of at most eight bytes whose first byte
  is at the physical address of a virtual address translated for writing.  Bytes of the store past
  the end of the page follow it in physical memory, as in the core: only the first is translated.
\<close>

definition one_store :: "core_config \<Rightarrow> special_regs \<Rightarrow> memory \<Rightarrow> memory \<Rightarrow> bool" where
  "one_store cfg r m m' \<longleftrightarrow> m' = m \<or>
     (\<exists>va p n v. translate cfg r m ACCESS_WRITE va = X_Ok p \<and> n \<le> 8 \<and> m' = store_le n m p v)"

abbreviation "mem_confined cfg r m a \<equiv> one_store cfg r m (a_mem a)"

lemma one_store_same [simp]: "one_store cfg r m m"
  by (simp add: one_store_def)

lemma mem_confined_same: "a_mem b = m \<Longrightarrow> mem_confined cfg r m b"
  by (simp add: one_store_def)

lemma entry_mem [simp]:
  "a_mem (vector_load p epc a) = a_mem a"
  "a_mem (enter_interrupt cfg v epc a) = a_mem a"
  "a_mem (arch_trap cfg tv pc fa acc aux a) = a_mem a"
  "a_mem (access_fault cfg pc va ac x a) = a_mem a"
  by (simp_all add: vector_load_def Let_def enter_interrupt_def vector_entry_def arch_trap_def
      access_fault_def split: xlate.split)

lemma store_confined:
  assumes "translate cfg r (a_mem a) ACCESS_WRITE va = X_Ok p" and "unat w \<le> 8"
  shows "mem_confined cfg r (a_mem a) (a_jump pc (a_put p va w v a))"
  using assms by (auto simp: one_store_def a_put_def)

lemma a_store_mem:
  assumes "a_sregs a = r" and "a_mem a = m" and "unat w \<le> 8"
  shows "mem_confined cfg r m (a_store cfg pc va w v a)"
proof (cases "translate cfg r m ACCESS_WRITE va")
  case (X_Ok p)
  then show ?thesis using store_confined [of cfg r a va p w "pc + 2" v] assms by (simp add: a_store_def)
qed (use assms in \<open>simp_all add: a_store_def mem_confined_same\<close>)

lemma a_load_mem:
  "a_mem a = m \<Longrightarrow> (\<And>v. mem_confined cfg r m (k v)) \<Longrightarrow> mem_confined cfg r m (a_load cfg pc va w k a)"
  by (simp add: a_load_def mem_confined_same split: xlate.split)

text \<open>Every access is at most eight bytes wide.\<close>

fun op_width :: "mem_op \<Rightarrow> 4 word" where
  "op_width (M_Load va w r) = w" | "op_width (M_Store va w v) = w" | "op_width op = 8"

lemma isa_width: "isa_execute i e = E_Mem op \<Longrightarrow> unat (op_width op) \<le> 8"
  by (cases i) (auto simp: Let_def access_bytes_def split: if_splits prod.splits)

lemma a_mem_op_mem:
  "a_sregs a = r \<Longrightarrow> a_mem a = m \<Longrightarrow> unat (op_width op) \<le> 8 \<Longrightarrow> mem_confined cfg r m (a_mem_op cfg pc op a)"
  by (cases op) (simp_all add: Let_def a_load_mem a_store_mem mem_confined_same)

lemma a_exec_mem: "a_sregs a = r \<Longrightarrow> a_mem a = m \<Longrightarrow> mem_confined cfg r m (a_exec cfg w a)"
  by (cases "isa_execute (decode w) (a_operands w a)")
    (simp_all add: a_exec_def Let_def a_mem_op_mem isa_width mem_confined_same split: option.split)

lemma step_mem_confined: "mem_confined cfg (a_sregs a) (a_mem a) (arch_step cfg a)"
proof -
  have "mem_confined cfg (a_sregs a) (a_mem a) (a_fetched cfg x a)" for x
    by (cases x) (simp_all add: a_fetched_def a_exec_mem mem_confined_same)
  then show ?thesis by (simp add: arch_step_def Let_def mem_confined_same split: option.split)
qed

section \<open>A translation rests on the page tables of the root register\<close>

text \<open>The tables on the way from the root to \<open>va\<close>, and the entry of each that is consulted; \<open>k\<close> counts from the root.\<close>

primrec walk_table :: "memory \<Rightarrow> u64 \<Rightarrow> u64 \<Rightarrow> nat \<Rightarrow> u64" where
  "walk_table m va root 0 = root"
| "walk_table m va root (Suc k) =
     push_bit 12 (drop_bit 10 (load_le 8 m (walk_table m va root k + 8 * vpn_index va (2 - k))))"

definition walk_entry :: "memory \<Rightarrow> u64 \<Rightarrow> u64 \<Rightarrow> nat \<Rightarrow> u64" where
  "walk_entry m va root k = load_le 8 m (walk_table m va root k + 8 * vpn_index va (2 - k))"

text \<open>The \<open>k\<close>-th entry is a valid leaf that grants the access, all before it are valid pointers, and it maps \<open>va\<close> to \<open>p\<close>.\<close>

definition maps_at :: "memory \<Rightarrow> 2 word \<Rightarrow> bool \<Rightarrow> u64 \<Rightarrow> u64 \<Rightarrow> u64 \<Rightarrow> nat \<Rightarrow> bool" where
  "maps_at m acc user root va p k \<longleftrightarrow> k \<le> 2 \<and>
     (let e = walk_entry m va root k in
      bit e 0 \<and> pte_allows acc user e \<and> p = push_bit 12 (drop_bit 10 e) + take_bit (12 + 9 * (2 - k)) va) \<and>
     (\<forall>j < k. let e = walk_entry m va root j in bit e 0 \<and> \<not> bit e 1 \<and> \<not> bit e 2 \<and> \<not> bit e 3)"

lemma page_walk_from:
  assumes "page_walk m user acc va (2 - k) (walk_table m va root k) = X_Ok p" and "k \<le> 2"
    and "\<forall>j < k. let e = walk_entry m va root j in bit e 0 \<and> \<not> bit e 1 \<and> \<not> bit e 2 \<and> \<not> bit e 3"
  shows "\<exists>k. maps_at m acc user root va p k"
  using assms
proof (induction "2 - k" arbitrary: k rule: less_induct)
  case less
  let ?e = "walk_entry m va root k"
  have e: "load_le 8 m (walk_table m va root k + 8 * vpn_index va (2 - k)) = ?e" by (simp add: walk_entry_def)
  show ?case
  proof (cases "bit ?e 0 \<and> pte_allows acc user ?e \<and> p = push_bit 12 (drop_bit 10 ?e) + take_bit (12 + 9 * (2 - k)) va")
    case True
    then show ?thesis using less.prems by (auto simp: maps_at_def Let_def intro: exI [of _ k])
  next
    case False
    then have k: "k < 2" and v: "bit ?e 0 \<and> \<not> bit ?e 1 \<and> \<not> bit ?e 2 \<and> \<not> bit ?e 3"
      and w: "page_walk m user acc va (2 - k - 1) (push_bit 12 (drop_bit 10 ?e)) = X_Ok p"
      using less.prems(1) by (subst (asm) page_walk.simps, auto simp: e Let_def split: if_splits)+
    have t: "push_bit 12 (drop_bit 10 ?e) = walk_table m va root (Suc k)" by (simp add: walk_entry_def)
    have "page_walk m user acc va (2 - Suc k) (walk_table m va root (Suc k)) = X_Ok p"
      using w unfolding t by simp
    then show ?thesis by (rule less.hyps [rotated]) (use k v less.prems(3) in \<open>auto simp: Let_def less_Suc_eq\<close>)
  qed
qed

lemma page_walk_sound: "page_walk m user acc va 2 root = X_Ok p \<Longrightarrow> \<exists>k. maps_at m acc user root va p k"
  using page_walk_from [of m user acc va 0 root p] by simp

lemma translate_sound:
  assumes "translate cfg r m acc va = X_Ok p" and "in_paging r"
  shows "is_canonical39 va \<and> (\<exists>k. maps_at m acc (in_user r) (page_table_root_physical r) va p k)"
  using assms page_walk_sound by (auto simp: translate_def split: if_splits)

section \<open>Returning from a trap\<close>

lemma double_ucast_flags [simp]: "ucast (ucast (f :: 3 word) :: u64) = f"
  by (rule bit_word_eqI) (simp add: bit_simps)

text \<open>Entering a handler and returning from it at once restores everything but the saved copies.\<close>

definition resumes :: "arch \<Rightarrow> u64 \<Rightarrow> arch \<Rightarrow> bool" where
  "resumes a pc b \<longleftrightarrow> a_regs b = (a_regs a)(15 := pc) \<and> a_flags b = a_flags a \<and> a_mem b = a_mem a \<and>
     a_res b = a_res a \<and> a_status b = a_status a \<and> cpu_control (a_sregs b) = cpu_control (a_sregs a) \<and>
     page_table_root_physical (a_sregs b) = page_table_root_physical (a_sregs a) \<and>
     interrupt_table_base (a_sregs b) = interrupt_table_base (a_sregs a) \<and>
     thread_pointer (a_sregs b) = thread_pointer (a_sregs a)"

lemma entry_return:
  assumes "sr_wf (a_sregs a)" and "a_status (enter_interrupt cfg v epc a) \<noteq> Locked"
  shows "resumes a epc (a_effect cfg E_Iret e (enter_interrupt cfg v epc a))"
  using assms
  by (auto simp: enter_interrupt_def vector_entry_def vector_load_def Let_def a_lock_def a_jump_def resumes_def
      sr_wf_def split: xlate.splits if_splits)

lemma trap_return:
  assumes "sr_wf (a_sregs a)" and "a_status (arch_trap cfg tv pc fa acc aux a) \<noteq> Locked"
  shows "resumes a pc (a_effect cfg E_Iret e (arch_trap cfg tv pc fa acc aux a))"
proof -
  let ?c = "if trap_cause (a_sregs a) = 0 then trap_code tv else trap_cause (a_sregs a)"
  let ?b = "a\<lparr>a_sregs := (a_sregs a)\<lparr>trap_cause := ?c, trap_fault_addr := fa, trap_access := acc,
    trap_pc := pc, trap_aux := aux\<rparr>\<rparr>"
  have nf: "\<not> trap_fatal (a_sregs a) (trap_code tv)"
    using assms(2) by (auto simp: arch_trap_def a_lock_def)
  then have b: "arch_trap cfg tv pc fa acc aux a = enter_interrupt cfg (trap_code tv) pc ?b"
    by (simp only: arch_trap_def Let_def if_False)
  have "sr_wf (a_sregs ?b)" using assms(1) by (simp add: sr_wf_def)
  from entry_return [OF this assms(2) [unfolded b], of e] show ?thesis
    unfolding b by (simp add: resumes_def del: a_effect.simps if_split)
qed

end
