(* ===== verification/Basic_Security.thy ===== *)
theory Basic_Security
  imports Basic_Reset Isa_Security
begin

text \<open>
  What the basic core guarantees to a kernel, from boundary to boundary and whatever the wait states
  of the buses: the facts of \<open>Isa_Security\<close> carried along the refinement of \<open>Basic_Live\<close>.  They are
  stated on the registers of the core and the memory behind its buses.
\<close>

section \<open>User code is confined\<close>

text \<open>The core's next boundary, for a core that fetches.\<close>

lemma in_flight_fetching: "in_flight cfg s0 m0 s m \<Longrightarrow> state s0 = FETCH_TRANSLATE"
  by (induction rule: in_flight.induct) simp_all

lemma fetching_running: "core_inv s m \<Longrightarrow> state s = FETCH_TRANSLATE \<Longrightarrow> \<not> locked_up s \<and> \<not> halted s"
  by (simp add: core_inv_def)

lemma abs_sel [simp]:
  "a_regs (abs_core s m) = regs s" "a_flags (abs_core s m) = flags s" "a_sregs (abs_core s m) = sregs s"
  "a_mem (abs_core s m) = m" "a_status (abs_core s m) = status_of s"
  by (simp_all add: abs_core_def)

text \<open>
  A run of user-mode code from a boundary: the core is at the last of any number of boundaries, and
  was in user mode at all before it.
\<close>

inductive user_run :: "core_config \<Rightarrow> core \<Rightarrow> memory \<Rightarrow> core \<Rightarrow> memory \<Rightarrow> bool" for cfg s0 m0 where
  start: "user_run cfg s0 m0 s0 m0"
| step: "user_run cfg s0 m0 s m \<Longrightarrow> user_mode s \<Longrightarrow> in_flight cfg s m s' m' \<Longrightarrow> at_boundary s' \<Longrightarrow>
    user_run cfg s0 m0 s' m'"

lemma user_run_inv: "user_run cfg s0 m0 s m \<Longrightarrow> core_inv s0 m0 \<Longrightarrow> cfg_ok cfg \<Longrightarrow> core_inv s m"
  by (induction rule: user_run.induct) (use boundary_step in blast)+

definition confined_to :: "core_config \<Rightarrow> special_regs \<Rightarrow> core \<Rightarrow> memory \<Rightarrow> bool" where
  "confined_to cfg r s m \<longleftrightarrow> locked_up s \<or> sregs s = r\<lparr>thread_pointer := thread_pointer (sregs s)\<rparr> \<or>
     handler_entered cfg r (sregs s) (regs s) m"

lemma confined_abs: "user_confined cfg r (abs_core s m) \<Longrightarrow> confined_to cfg r s m"
  by (auto simp: user_confined_def confined_to_def status_of_def split: if_splits)

lemma boundary_confined:
  assumes "in_flight cfg s0 m0 s m" and "core_inv s0 m0" and "cfg_ok cfg" and "at_boundary s" and "user_mode s0"
  shows "confined_to cfg (sregs s0) s m"
  using user_step_confined [of "abs_core s0 m0" cfg] boundary_step [OF assms(1-4)] assms(3,5)
  by (intro confined_abs) (simp add: in_user_def user_mode_def cfg_ok_def)

lemma handler_thread_pointer: "handler_entered cfg (r\<lparr>thread_pointer := t\<rparr>) q rs m = handler_entered cfg r q rs m"
  by (simp add: handler_entered_def in_paging_def)

text \<open>
  Property C31: Whatever instructions the basic core executes in user mode, and however many, at
  the next boundary it has locked up, or no special register but the thread pointer has changed,
  or it is in a supervisor handler with interrupts disabled, at an address read from the vector
  table that was in force, with the page tables, vector table and interrupt mask unchanged (bus
  conditions as for the refinement: any wait states, no bus errors, new pulses or stale TLB hits).
\<close>

lemma user_run_confined:
  assumes "user_run cfg s0 m0 s m" and "core_inv s0 m0" and "cfg_ok cfg"
  shows "locked_up s \<or> sregs s = (sregs s0)\<lparr>thread_pointer := thread_pointer (sregs s)\<rparr> \<or>
     handler_entered cfg (sregs s0) (sregs s) (regs s) m"
  using assms
proof (induction rule: user_run.induct)
  case start
  show ?case by simp
next
  case (step s m s' m')
  have i: "core_inv s m" using step by (blast intro: user_run_inv)
  have "\<not> locked_up s" using fetching_running [OF i in_flight_fetching [OF step.hyps(3)]] by blast
  moreover have "\<not> handler_entered cfg (sregs s0) (sregs s) (regs s) m"
    using step.hyps(2) by (auto simp: handler_entered_def in_user_def user_mode_def)
  ultimately have same: "sregs s = (sregs s0)\<lparr>thread_pointer := thread_pointer (sregs s)\<rparr>" using step by blast
  have "handler_entered cfg (sregs s) q rs m2 = handler_entered cfg (sregs s0) q rs m2" for q rs m2
    by (subst same) (rule handler_thread_pointer)
  moreover have "(sregs s)\<lparr>thread_pointer := t\<rparr> = (sregs s0)\<lparr>thread_pointer := t\<rparr>" for t
    by (subst same) simp
  ultimately show ?case
    using boundary_confined [OF step.hyps(3) i step.prems(2) step.hyps(4,2)] by (simp add: confined_to_def)
qed

section \<open>Memory changes by one translated store\<close>




section \<open>Trap and return\<close>

text \<open>The core is about to execute the word \<open>w\<close>: no alignment trap, no interrupt, and the fetch translates.\<close>

definition executes :: "core_config \<Rightarrow> core \<Rightarrow> memory \<Rightarrow> u16 \<Rightarrow> bool" where
  "executes cfg s m w \<longleftrightarrow> \<not> bit (regs s 15) 0 \<and> irq_to_take cfg (sregs s) = None \<and>
     (\<exists>p. translate cfg (sregs s) m ACCESS_EXECUTE (regs s 15) = X_Ok p \<and> w = fetch_half m p)"

lemma executes_step:
  assumes "executes cfg s m w" and "core_inv s m" and "state s = FETCH_TRANSLATE"
  shows "arch_step cfg (abs_core s m) = a_exec cfg w (abs_core s m)"
proof -
  have "status_of s = Running" using fetching_running [OF assms(2,3)] by (simp add: status_of_def)
  then show ?thesis using assms(1)
    by (auto simp: arch_step_def executes_def a_fetched_def translate_def Let_def split: if_splits)
qed



section \<open>Examples\<close>

text \<open>A booted core in another mode, at another address, with other registers; its next boundary.\<close>

definition core_at :: "u64 \<Rightarrow> regfile \<Rightarrow> core" where
  "core_at control rs = booted\<lparr>regs := rs(0 := 0), sregs := sr_reset\<lparr>cpu_control := control AND CPU_CONTROL_WRITABLE_MASK\<rparr>\<rparr>"

lemma core_at_ok: "state (core_at c rs) = FETCH_TRANSLATE \<and> core_inv (core_at c rs) m"
proof -
  have b: "state booted = FETCH_TRANSLATE" "core_inv booted m" using booted_ok by blast+
  then show ?thesis using fetching_running [OF b(2,1)] by (simp add: core_at_def core_inv_def sr_wf_def sr_reset_def)
qed

lemma next_boundary:
  assumes "state s0 = FETCH_TRANSLATE" and "core_inv s0 m0"
  shows "\<exists>s m. in_flight plain_config s0 m0 s m \<and> at_boundary s"
proof -
  have "in_flight plain_config s0 m0 (core_tick plain_config (prompt s0 m0) s0) (mem_next (prompt s0 m0) s0 m0)"
    by (rule in_flight.start) (use assms plain_config_ok in \<open>simp_all add: prompt_ok tlb_ok_def tlb_hit_ok_def\<close>)
  then show ?thesis using run_reaches [of plain_config s0 m0] assms plain_config_ok by blast
qed



lemma eight: "(8 :: nat) = Suc (Suc (Suc (Suc (Suc (Suc (Suc (Suc 0)))))))" "(2 :: nat) = Suc (Suc 0)"
  by simp_all





text \<open>
  User code that calls the system: \<open>SYSCALL\<close> at address 0, the handler's address \<open>0x200\<close> in the vector
  table at \<open>0x1000\<close>, and \<open>IRET\<close> there.
\<close>

definition calling_memory :: memory where
  "calling_memory = (\<lambda>_. 0)(1 := 0xDB, 0x1019 := 0x02, 0x201 := 0xDE)"

definition calling_core :: core where
  "calling_core = (core_at 0x20000 (\<lambda>_. 0))\<lparr>sregs := sr_reset\<lparr>cpu_control := 0x20000, interrupt_table_base := 0x1000\<rparr>\<rparr>"

lemma calling_ok: "state calling_core = FETCH_TRANSLATE" "core_inv calling_core m" "user_mode calling_core"
proof -
  have c: "state (core_at 0x20000 (\<lambda>_. 0)) = FETCH_TRANSLATE" "core_inv (core_at 0x20000 (\<lambda>_. 0)) m" using core_at_ok by blast+
  show "state calling_core = FETCH_TRANSLATE" using c by (simp add: calling_core_def)
  show "core_inv calling_core m"
    using c by (simp add: calling_core_def core_inv_def sr_wf_def sr_reset_def CPU_CONTROL_WRITABLE_MASK_def cpu_control_defs)
  show "user_mode calling_core" by (simp add: calling_core_def user_mode_def bit_numeral_rec)
qed

lemma calling_words: "fetch_half calling_memory 0 = 0xDB00" "fetch_half calling_memory 0x200 = 0xDE00" "bus_read calling_memory 0x1018 = 0x200"
  by (simp add: fetch_half_def, subst eight(2), simp only: load_le.simps, simp add: calling_memory_def)
    (simp add: fetch_half_def, subst eight(2), simp only: load_le.simps, simp add: calling_memory_def,
     simp add: bus_read_def line_base_def, subst eight(1), simp only: load_le.simps, simp add: calling_memory_def)

lemma calling_decodes: "decode 0xDB00 = I_GP GP_SYSCALL 0 0" "decode 0xDE00 = I_GP GP_IRET 0 0"
  by (simp_all add: decode_def instruction_field_defs bslice_def gp_opcode_of_def Let_def)

lemma calling_executes: "executes plain_config calling_core calling_memory 0xDB00"
  "isa_execute (decode 0xDB00) (a_operands 0xDB00 (abs_core calling_core calling_memory)) = E_Trap SYSCALL"
proof -
  have "irq_to_take plain_config (sregs calling_core) = None"
    by (simp add: irq_to_take_def int_enabled_def calling_core_def split: option.split)
  moreover have "translate plain_config (sregs calling_core) calling_memory ACCESS_EXECUTE 0 = X_Ok 0"
    by (simp add: translate_def in_paging_def calling_core_def bit_numeral_rec)
  moreover have "regs calling_core 15 = 0" by (simp add: calling_core_def core_at_def)
  ultimately show "executes plain_config calling_core calling_memory 0xDB00"
    using calling_words(1) by (simp add: executes_def)
  show "isa_execute (decode 0xDB00) (a_operands 0xDB00 (abs_core calling_core calling_memory)) = E_Trap SYSCALL"
    using calling_ok(3) by (simp add: calling_decodes is_alu_def a_operands_def in_user_def user_mode_def Let_def)
qed

lemma calling_traps:
  assumes "in_flight plain_config calling_core calling_memory s m" and "at_boundary s"
  shows "state s = FETCH_TRANSLATE" "m = calling_memory" "regs s 15 = 0x200" "\<not> user_mode s" "\<not> in_paging (sregs s)" "\<not> int_enabled (sregs s)"
proof -
  let ?a = "abs_core calling_core calling_memory"
  have b: "abs_core s m = arch_step plain_config ?a \<and> core_inv s m"
    using boundary_step [OF assms(1) calling_ok(2) _ assms(2)] plain_config_ok by blast
  have "arch_step plain_config ?a = arch_trap plain_config SYSCALL 0 0 0 0 ?a"
    using executes_step [OF calling_executes(1) calling_ok(2,1)] calling_executes(2)
    by (simp add: a_exec_def Let_def) (simp add: calling_core_def core_at_def)
  then have e: "abs_core s m = arch_trap plain_config SYSCALL 0 0 0 0 ?a" using b by simp
  define t where "t = arch_trap plain_config SYSCALL 0 0 0 0 ?a"
  have t: "t = ?a\<lparr>a_regs := (a_regs ?a)(15 := 0x200), a_sregs := a_sregs t\<rparr> \<and> cpu_control (a_sregs t) = 0xE"
    unfolding t_def using calling_words(3)
    by (simp add: arch_trap_def trap_fatal_def in_interrupt_def enter_interrupt_def vector_entry_def translate_def in_paging_def
        vector_load_def a_jump_def entry_control_def calling_core_def sr_reset_def CPU_CONTROL_WRITABLE_MASK_def cpu_control_defs Let_def)
  have c: "cpu_control (sregs s) = 0xE" using e t by (metis abs_sel(3) t_def)
  show "\<not> user_mode s" "\<not> in_paging (sregs s)" "\<not> int_enabled (sregs s)"
    by (simp_all add: user_mode_def in_paging_def int_enabled_def c bit_numeral_rec)
  have f: "a_regs t = (a_regs ?a)(15 := 0x200)" "a_mem t = calling_memory" "a_status t = status_of calling_core"
    by (subst t [THEN conjunct1], simp)+
  show "m = calling_memory" "regs s 15 = 0x200" using e f by (metis abs_sel(4) t_def, metis abs_sel(1) fun_upd_same t_def)
  have "status_of s = Running"
    using e f fetching_running [OF calling_ok(2,1)] by (metis abs_sel(5) status_of_def t_def)
  then show "state s = FETCH_TRANSLATE" using b assms(2) by (auto simp: at_boundary_def core_inv_def status_of_def split: if_splits)
qed

lemma user_run_confined_witness:
  "\<exists>s m. user_run plain_config calling_core calling_memory s m \<and> regs s 15 = 0x200 \<and>
     handler_entered plain_config (sregs calling_core) (sregs s) (regs s) m"
proof -
  obtain s m where f: "in_flight plain_config calling_core calling_memory s m" "at_boundary s"
    using next_boundary [OF calling_ok(1,2)] by blast
  note t = calling_traps [OF f]
  have r: "user_run plain_config calling_core calling_memory s m" by (rule user_run.step [OF user_run.start calling_ok(3) f])
  have "core_inv s m" by (rule user_run_inv [OF r calling_ok(2)]) (simp add: plain_config_ok)
  then have "\<not> locked_up s" using fetching_running t(1) by blast
  moreover have "bit (cpu_control (sregs calling_core)) 17" using calling_ok(3) by (simp add: user_mode_def)
  then have "sregs s \<noteq> (sregs calling_core)\<lparr>thread_pointer := thread_pointer (sregs s)\<rparr>"
    using t(4) by (intro notI) (drule arg_cong [of _ _ cpu_control], simp add: user_mode_def)
  ultimately show ?thesis using user_run_confined [OF r calling_ok(2)] plain_config_ok r t(3) by blast
qed


end
