(* ===== verification/V3_Execute.thy ===== *)
theory V3_Execute
  imports Isa_Arith
begin

text \<open>
  The combinational execute stage shared by the pipelined v3 and v4 cores
  (\<open>v3/execute_stage.py\<close>) and its output bundle (\<open>v3/bundles.py\<close>).  Every signal of
  \<open>elaborate\<close> is a function of the inputs; the assignments of a branch are record
  updates of the default outputs, later assignments winning as they do in Amaranth.
  The stage is proved to request exactly the effect of \<open>isa_execute\<close>.
\<close>

section \<open>Inputs and outputs\<close>

record exec_in =
  x_valid :: bool
  x_instruction :: u16
  x_post_pc :: u64
  x_a :: u64
  x_b :: u64
  x_flags :: "3 word"
  x_cpu_control :: u64
  x_interrupt_epc :: u64
  x_interrupt_eflags :: u64
  x_interrupt_cpu_control :: u64
  x_ll_valid :: bool
  x_ll_addr :: u64
  x_special_read_data :: u64
  x_special_read_fault :: bool
  x_special_write_fault :: bool

record exec_out =
  o_reg_write :: bool
  o_reg_index :: reg_index
  o_reg_value :: u64
  o_flags_write :: bool
  o_flags_value :: "3 word"
  o_cpu_control_write :: bool
  o_cpu_control_value :: u64
  o_next_pc :: u64
  o_halt :: bool
  o_lockup :: bool
  o_trap :: bool
  o_trap_cause :: u64
  o_clear_reservation :: bool
  o_memory_start :: bool
  o_memory_addr :: u64
  o_memory_width_bytes :: "4 word"
  o_memory_write :: bool
  o_memory_store_value :: u64
  o_memory_reg_write :: bool
  o_memory_reg_index :: reg_index
  o_memory_flags_write :: bool
  o_memory_flags_value :: "3 word"
  o_memory_set_reservation :: bool
  o_memory_reservation_addr :: u64
  o_memory_next_pc :: u64
  o_memory_post_reg_write :: bool
  o_memory_post_reg_index :: reg_index
  o_memory_post_reg_value :: u64
  o_memory_post_reg_delta :: u64
  o_memory_post_reg_use_load_result :: bool
  o_memory_chain_store :: bool
  o_memory_chain_store_addr :: u64
  o_memory_chain_store_use_load_result :: bool
  o_memory_chain_store_value :: u64

definition x_rd :: "exec_in \<Rightarrow> reg_index" where "x_rd i = instruction_rd (x_instruction i)"
definition x_rs1 :: "exec_in \<Rightarrow> reg_index" where "x_rs1 i = instruction_rs1 (x_instruction i)"

section \<open>Shifters\<close>

definition x_shift_index :: "exec_in \<Rightarrow> nat" where
  "x_shift_index i = (if 64 \<le> x_b i then 64 else unat (bslice 0 (x_b i) :: 7 word))"

definition x_sll_results :: "u64 \<Rightarrow> nat \<Rightarrow> u64" where
  "x_sll_results a n = (if n = 0 then a else if n = 64 then 0 else bslice 0 (push_bit n (ucast a :: 128 word)))"
definition x_sll_carries :: "u64 \<Rightarrow> nat \<Rightarrow> bool" where
  "x_sll_carries a n = (if n \<in> {0, 64} then False else drop_bit (64 - n) a \<noteq> 0)"
definition x_srl_results :: "u64 \<Rightarrow> nat \<Rightarrow> u64" where
  "x_srl_results a n = (if n = 0 then a else if n = 64 then 0 else drop_bit n a)"
definition x_srl_carries :: "u64 \<Rightarrow> nat \<Rightarrow> bool" where
  "x_srl_carries a n = (if n \<in> {0, 64} then False else drop_bit (n - 1) a AND 1 \<noteq> 0)"
definition x_sra_results :: "u64 \<Rightarrow> nat \<Rightarrow> u64" where
  "x_sra_results a n =
     (if n = 0 then a
      else if n = 64 then (if bit a 63 then 0xFFFFFFFFFFFFFFFF else 0)
      else signed_drop_bit n a)"
definition x_sra_carries :: "u64 \<Rightarrow> nat \<Rightarrow> bool" where
  "x_sra_carries a n = (if n \<in> {0, 64} then False else drop_bit (n - 1) a AND 1 \<noteq> 0)"

definition x_imm4 :: "exec_in \<Rightarrow> nat" where
  "x_imm4 i = unat (instruction_gp_imm4 (x_instruction i))"

definition x_slli_imm_carries :: "u64 \<Rightarrow> nat \<Rightarrow> bool" where
  "x_slli_imm_carries a n = (if n = 0 then False else drop_bit (64 - n) a \<noteq> 0)"
definition x_srx_imm_carries :: "u64 \<Rightarrow> nat \<Rightarrow> bool" where
  "x_srx_imm_carries a n = (if n = 0 then False else drop_bit (n - 1) a AND 1 \<noteq> 0)"

definition x_slli_result :: "exec_in \<Rightarrow> u64" where
  "x_slli_result i = (if x_imm4 i = 0 then x_a i else bslice 0 (push_bit (x_imm4 i) (ucast (x_a i) :: 79 word)))"
definition x_srli_result :: "exec_in \<Rightarrow> u64" where
  "x_srli_result i = (if x_imm4 i = 0 then x_a i else drop_bit (x_imm4 i) (x_a i))"
definition x_srai_result :: "exec_in \<Rightarrow> u64" where
  "x_srai_result i = (if x_imm4 i = 0 then x_a i else signed_drop_bit (x_imm4 i) (x_a i))"

section \<open>Operand signals\<close>

definition x_ls_rd_value :: "exec_in \<Rightarrow> u64" where
  "x_ls_rd_value i = (if x_rd i = 15 then x_post_pc i else x_a i)"
definition x_ls_rs1_value :: "exec_in \<Rightarrow> u64" where
  "x_ls_rs1_value i = (if x_rs1 i = 15 then x_post_pc i else x_b i)"
definition x_ls_addr :: "exec_in \<Rightarrow> u64" where
  "x_ls_addr i = x_ls_rs1_value i + push_bit 1 (ucast (instruction_ls_offset2 (x_instruction i)))"
definition x_ls_pc_effective :: "exec_in \<Rightarrow> u64" where
  "x_ls_pc_effective i =
     x_post_pc i + push_bit 1 (sign_extend (bslice 4 (x_instruction i) :: 6 word))"
definition x_jump_rel10 :: "exec_in \<Rightarrow> u64" where
  "x_jump_rel10 i = push_bit 1 (sign_extend (bslice 0 (x_instruction i) :: 10 word))"
definition x_jump_rel13 :: "exec_in \<Rightarrow> u64" where
  "x_jump_rel13 i = push_bit 1 (sign_extend (bslice 0 (x_instruction i) :: 13 word))"
definition x_ls_jump_target :: "exec_in \<Rightarrow> u64" where "x_ls_jump_target i = x_post_pc i + x_jump_rel10 i"
definition x_ls_pc_push_addr :: "exec_in \<Rightarrow> u64" where "x_ls_pc_push_addr i = x_a i - 8"
definition x_ls_opcode :: "exec_in \<Rightarrow> ls_opcode" where
  "x_ls_opcode i = ls_opcode_of (instruction_ls_opcode (x_instruction i))"
definition x_ls_jump_taken :: "exec_in \<Rightarrow> bool" where
  "x_ls_jump_taken i = ls_condition (x_flags i) (x_ls_opcode i)"
definition x_sum_value :: "exec_in \<Rightarrow> 65 word" where "x_sum_value i = ucast (x_a i) + ucast (x_b i)"
definition x_sub_value :: "exec_in \<Rightarrow> u64" where "x_sub_value i = x_a i - x_b i"
definition x_load_width :: "exec_in \<Rightarrow> 4 word" where
  "x_load_width i = (if x_ls_opcode i = LS_BYTE_LOAD then 1 else if x_ls_opcode i = LS_SHORT_LOAD then 2
                     else if x_ls_opcode i = LS_WORD_LOAD then 4 else 8)"
definition x_store_width :: "exec_in \<Rightarrow> 4 word" where
  "x_store_width i = (if x_ls_opcode i = LS_BYTE_STORE then 1 else if x_ls_opcode i = LS_SHORT_STORE then 2
                      else if x_ls_opcode i = LS_WORD_STORE then 4 else 8)"

definition x_ldi_value :: "exec_in \<Rightarrow> u64" where
  "x_ldi_value i =
     (let shift = instruction_ldi_shift (x_instruction i);
          imm8 = instruction_ldi_imm8 (x_instruction i);
          sign_extended_ldi = sign_extend (push_bit 24 (ucast imm8) :: 32 word)
      in if shift = 0 then ucast imm8
         else if shift = 1 then x_a i OR push_bit 8 (ucast imm8)
         else if shift = 2 then x_a i OR push_bit 16 (ucast imm8)
         else x_a i OR sign_extended_ldi)"

text \<open>The software port of the special registers.\<close>

definition x_special_write_stb :: "exec_in \<Rightarrow> bool" where
  "x_special_write_stb i \<longleftrightarrow> x_valid i \<and> instruction_top3 (x_instruction i) = 6 \<and>
     instruction_gp_opcode (x_instruction i) = gp_code GP_SSR"
definition x_special_selector :: "exec_in \<Rightarrow> u16" where "x_special_selector i = bslice 0 (x_b i)"

definition x_user :: "exec_in \<Rightarrow> bool" where
  "x_user i \<longleftrightarrow> x_cpu_control i AND CPU_CONTROL_USER_MODE \<noteq> 0"

section \<open>The stage\<close>

definition exec_default :: "exec_in \<Rightarrow> exec_out" where
  "exec_default i = \<lparr>
     o_reg_write = False, o_reg_index = x_rd i, o_reg_value = 0,
     o_flags_write = False, o_flags_value = x_flags i,
     o_cpu_control_write = False, o_cpu_control_value = 0,
     o_next_pc = x_post_pc i, o_halt = False, o_lockup = False,
     o_trap = False, o_trap_cause = 0, o_clear_reservation = False,
     o_memory_start = False, o_memory_addr = 0, o_memory_width_bytes = 0,
     o_memory_write = False, o_memory_store_value = 0,
     o_memory_reg_write = False, o_memory_reg_index = x_rd i,
     o_memory_flags_write = False, o_memory_flags_value = x_flags i,
     o_memory_set_reservation = False, o_memory_reservation_addr = 0,
     o_memory_next_pc = x_post_pc i,
     o_memory_post_reg_write = False, o_memory_post_reg_index = 0,
     o_memory_post_reg_value = 0, o_memory_post_reg_delta = 0,
     o_memory_post_reg_use_load_result = False,
     o_memory_chain_store = False, o_memory_chain_store_addr = 0,
     o_memory_chain_store_use_load_result = False, o_memory_chain_store_value = 0\<rparr>"

definition out_reg :: "u64 \<Rightarrow> exec_out \<Rightarrow> exec_out" where
  "out_reg v o' = o'\<lparr>o_reg_write := True, o_reg_value := v\<rparr>"

definition out_flags :: "3 word \<Rightarrow> exec_out \<Rightarrow> exec_out" where
  "out_flags f o' = o'\<lparr>o_flags_write := True, o_flags_value := f\<rparr>"

definition out_trap :: "trap_vector \<Rightarrow> exec_out \<Rightarrow> exec_out" where
  "out_trap tv o' = o'\<lparr>o_trap := True, o_trap_cause := trap_code tv\<rparr>"

definition out_load :: "u64 \<Rightarrow> 4 word \<Rightarrow> reg_index \<Rightarrow> exec_out \<Rightarrow> exec_out" where
  "out_load addr w r o' = o'\<lparr>o_memory_start := True, o_memory_addr := addr, o_memory_width_bytes := w,
     o_memory_reg_write := True, o_memory_reg_index := r\<rparr>"

definition out_store :: "u64 \<Rightarrow> 4 word \<Rightarrow> u64 \<Rightarrow> exec_out \<Rightarrow> exec_out" where
  "out_store addr w v o' = o'\<lparr>o_memory_start := True, o_memory_addr := addr, o_memory_width_bytes := w,
     o_memory_write := True, o_memory_store_value := v\<rparr>"

definition out_post :: "reg_index \<Rightarrow> u64 \<Rightarrow> exec_out \<Rightarrow> exec_out" where
  "out_post r v o' = o'\<lparr>o_memory_post_reg_write := True, o_memory_post_reg_index := r,
     o_memory_post_reg_value := v\<rparr>"

definition out_chain :: "u64 \<Rightarrow> exec_out \<Rightarrow> exec_out" where
  "out_chain addr o' = o'\<lparr>o_memory_chain_store := True, o_memory_chain_store_addr := addr,
     o_memory_chain_store_use_load_result := True\<rparr>"

definition out_copy :: "u64 \<Rightarrow> exec_out \<Rightarrow> exec_out" where
  "out_copy addr o' = o'\<lparr>o_memory_start := True, o_memory_addr := addr, o_memory_width_bytes := 8\<rparr>"

lemmas out_defs = out_reg_def out_flags_def out_trap_def out_load_def out_store_def out_post_def
  out_chain_def out_copy_def

definition v3_exec_ls_reg :: "exec_in \<Rightarrow> exec_out \<Rightarrow> exec_out" where
  "v3_exec_ls_reg i o' =
     (let c = x_ls_opcode i; taken = x_ls_jump_taken i in
      if c \<in> {LS_LOAD, LS_BYTE_LOAD, LS_SHORT_LOAD, LS_WORD_LOAD}
        then out_load (x_ls_addr i) (x_load_width i) (x_rd i) o'
      else if c \<in> {LS_STORE, LS_BYTE_STORE, LS_SHORT_STORE, LS_WORD_STORE}
        then out_store (x_ls_addr i) (x_store_width i) (x_ls_rd_value i) o'
      else if c = LS_PUSH
        then out_post (x_rd i) (x_ls_rd_value i - 8) (out_store (x_ls_rd_value i - 8) 8 (x_ls_rs1_value i) o')
      else if c = LS_POP
        then (out_post (x_rd i) (x_ls_rd_value i + 8) (out_load (x_ls_rd_value i) 8 (x_rs1 i) o'))
               \<lparr>o_memory_post_reg_delta := 8, o_memory_post_reg_use_load_result := (x_rd i = x_rs1 i)\<rparr>
      else if c = LS_MOVE
        then (out_reg (x_ls_addr i) o')\<lparr>o_next_pc := (if x_rd i = 15 then x_ls_addr i else x_post_pc i)\<rparr>
      else o'\<lparr>o_reg_write := taken, o_reg_value := x_ls_addr i,
             o_next_pc := (if taken \<and> x_rd i = 15 then x_ls_addr i else x_post_pc i)\<rparr>)"

definition v3_exec_ls_pc :: "exec_in \<Rightarrow> exec_out \<Rightarrow> exec_out" where
  "v3_exec_ls_pc i o' =
     (let c = x_ls_opcode i in
      if c \<in> {LS_LOAD, LS_BYTE_LOAD, LS_SHORT_LOAD, LS_WORD_LOAD}
        then out_load (x_ls_pc_effective i) (x_load_width i) (x_rd i) o'
      else if c \<in> {LS_STORE, LS_BYTE_STORE, LS_SHORT_STORE, LS_WORD_STORE}
        then out_store (x_ls_pc_effective i) (x_store_width i) (x_a i) o'
      else if c = LS_PUSH
        then out_chain (x_ls_pc_push_addr i) (out_post (x_rd i) (x_ls_pc_push_addr i)
               (out_copy (x_ls_pc_effective i) o'))
      else if c = LS_POP
        then out_chain (x_ls_pc_effective i) (out_post (x_rd i) (x_a i + 8) (out_copy (x_a i) o'))
      else if c = LS_MOVE
        then (out_reg (x_ls_pc_effective i) o')
               \<lparr>o_next_pc := (if x_rd i = 15 then x_ls_pc_effective i else x_post_pc i)\<rparr>
      else o'\<lparr>o_next_pc := (if x_ls_jump_taken i then x_ls_jump_target i else x_post_pc i)\<rparr>)"

definition out_alu :: "u64 \<Rightarrow> bool \<Rightarrow> exec_out \<Rightarrow> exec_out" where
  "out_alu v carry o' = out_flags (flag_value v carry) (out_reg v o')"

definition v3_exec_alu :: "gp_opcode \<Rightarrow> exec_in \<Rightarrow> exec_out \<Rightarrow> exec_out" where
  "v3_exec_alu c i o' =
     (let a = x_a i; b = x_b i; n = x_shift_index i; sum = bslice 0 (x_sum_value i) in
      case c of
        GP_ADD \<Rightarrow> out_alu sum (bit (x_sum_value i) 64) o'
      | GP_SUB \<Rightarrow> out_alu (x_sub_value i) (a < b) o'
      | GP_TEST \<Rightarrow> out_flags (flag_value (x_sub_value i) (a < b)) o'
      | GP_AND \<Rightarrow> out_alu (a AND b) False o'
      | GP_OR \<Rightarrow> out_alu (a OR b) False o'
      | GP_XOR \<Rightarrow> out_alu (a XOR b) False o'
      | GP_SLL \<Rightarrow> out_alu (x_sll_results a n) (x_sll_carries a n) o'
      | GP_SRL \<Rightarrow> out_alu (x_srl_results a n) (x_srl_carries a n) o'
      | GP_SRA \<Rightarrow> out_alu (x_sra_results a n) (x_sra_carries a n) o'
      | GP_SLLI \<Rightarrow> out_alu (x_slli_result i) (x_slli_imm_carries a (x_imm4 i)) o'
      | GP_SRLI \<Rightarrow> out_alu (x_srli_result i) (x_srx_imm_carries a (x_imm4 i)) o'
      | GP_SRAI \<Rightarrow> out_alu (x_srai_result i) (x_srx_imm_carries a (x_imm4 i)) o'
      | _ \<Rightarrow> o')"

definition v3_exec_system :: "gp_opcode \<Rightarrow> exec_in \<Rightarrow> exec_out \<Rightarrow> exec_out" where
  "v3_exec_system c i o' =
     (case c of
        GP_LSR \<Rightarrow> (if x_special_read_fault i then out_trap PRIVILEGED_INSTRUCTION o'
                   else out_reg (x_special_read_data i) o')
      | GP_LLR \<Rightarrow> (out_load (x_b i) 8 (x_rd i) o')
                    \<lparr>o_memory_set_reservation := True, o_memory_reservation_addr := x_b i\<rparr>
      | GP_SCR \<Rightarrow>
          (if x_ll_valid i \<and> x_ll_addr i = x_b i
           then (out_store (x_b i) 8 (x_a i) o')\<lparr>o_memory_flags_write := True,
                  o_memory_flags_value := cat3 True (bit (x_flags i) 1) (bit (x_flags i) 2)\<rparr>
           else (out_flags (cat3 False (bit (x_flags i) 1) (bit (x_flags i) 2)) o')\<lparr>o_clear_reservation := True\<rparr>)
      | GP_SSR \<Rightarrow> (if x_special_write_fault i then out_trap PRIVILEGED_INSTRUCTION o' else o')
      | GP_SYSCALL \<Rightarrow> out_trap (if x_user i then SYSCALL else SYSCALL_FROM_SUPERVISOR) o'
      | GP_IRET \<Rightarrow>
          (if x_user i then out_trap PRIVILEGED_INSTRUCTION o'
           else (out_flags (bslice 0 (x_interrupt_eflags i)) o')
                  \<lparr>o_cpu_control_write := True, o_cpu_control_value := x_interrupt_cpu_control i,
                   o_next_pc := x_interrupt_epc i\<rparr>)
      | GP_STOP \<Rightarrow> (if x_user i then out_trap PRIVILEGED_INSTRUCTION o' else o'\<lparr>o_halt := True\<rparr>)
      | _ \<Rightarrow> o')"

definition v3_exec_gp :: "exec_in \<Rightarrow> exec_out \<Rightarrow> exec_out" where
  "v3_exec_gp i o' =
     (case gp_opcode_of (instruction_gp_opcode (x_instruction i)) of
        None \<Rightarrow> out_trap INVALID_INSTRUCTION o'
      | Some c \<Rightarrow>
          (if c \<in> {GP_LSR, GP_LLR, GP_SCR, GP_SSR, GP_SYSCALL, GP_IRET, GP_STOP}
           then v3_exec_system c i o' else v3_exec_alu c i o'))"

definition v3_execute :: "exec_in \<Rightarrow> exec_out" where
  "v3_execute i =
     (let o' = exec_default i; top2 = instruction_top2 (x_instruction i);
          top3 = instruction_top3 (x_instruction i)
      in if \<not> x_valid i then o'
         else if top2 = 2 then out_reg (x_ldi_value i) o'
         else if top2 = 0 then v3_exec_ls_reg i o'
         else if top2 = 1 then v3_exec_ls_pc i o'
         else if top3 = 7 then o'\<lparr>o_next_pc := x_post_pc i + x_jump_rel13 i\<rparr>
         else if top3 = 6 then v3_exec_gp i o'
         else out_trap INVALID_INSTRUCTION o')"

section \<open>The request an effect stands for\<close>

definition x_operands :: "exec_in \<Rightarrow> operands" where
  "x_operands i = \<lparr>op_a = x_a i, op_b = x_b i, op_flags = x_flags i, op_next = x_post_pc i,
     op_user = x_user i, op_reserved = (if x_ll_valid i then Some (x_ll_addr i) else None),
     op_read_fault = x_special_read_fault i, op_write_fault = x_special_write_fault i\<rparr>"

text \<open>The memory request of an operation: a push moves the stack register after the store.\<close>

fun mem_request :: "mem_op \<Rightarrow> exec_out \<Rightarrow> exec_out" where
  "mem_request (M_Load a w r) o' = out_load a w r o'"
| "mem_request (M_Store a w v) o' = out_store a w v o'"
| "mem_request (M_Push a v sp) o' = out_post sp a (out_store a 8 v o')"
| "mem_request (M_Pop a r sp) o' = (out_post sp (a + 8) (out_load a 8 r o'))
     \<lparr>o_memory_post_reg_delta := 8, o_memory_post_reg_use_load_result := (sp = r)\<rparr>"
| "mem_request (M_Load_Linked a r) o' = (out_load a 8 r o')
     \<lparr>o_memory_set_reservation := True, o_memory_reservation_addr := a\<rparr>"
| "mem_request (M_Store_Cond a v) o' = (out_store a 8 v o')\<lparr>o_memory_flags_write := True,
     o_memory_flags_value := cat3 True (bit (o_flags_value o') 1) (bit (o_flags_value o') 2)\<rparr>"
| "mem_request (M_Copy_Push a b sp) o' = out_chain b (out_post sp b (out_copy a o'))"
| "mem_request (M_Copy_Pop a b sp) o' = out_chain b (out_post sp (a + 8) (out_copy a o'))"

text \<open>
  What the core observes of the outputs: register and flag values only matter when
  written.
\<close>

definition requests :: "exec_in \<Rightarrow> (reg_index \<times> u64) option \<Rightarrow> 3 word option \<Rightarrow> u64 \<Rightarrow> exec_out \<Rightarrow> bool" where
  "requests i w f pc o' \<longleftrightarrow>
     (if o_reg_write o' then w = Some (o_reg_index o', o_reg_value o') else w = None) \<and>
     (if o_flags_write o' then f = Some (o_flags_value o') else f = None) \<and> o_next_pc o' = pc \<and>
     o' = (exec_default i)\<lparr>o_reg_write := o_reg_write o', o_reg_value := o_reg_value o',
            o_flags_write := o_flags_write o', o_flags_value := o_flags_value o', o_next_pc := pc\<rparr>"

fun stage_effect :: "exec_in \<Rightarrow> effect \<Rightarrow> exec_out \<Rightarrow> bool" where
  "stage_effect i (E_Write w f pc) o' = requests i w f pc o'"
| "stage_effect i (E_Mem op) o' = (o' = mem_request op (exec_default i))"
| "stage_effect i E_Sc_Fail o' =
     (o' = (out_flags (cat3 False (bit (x_flags i) 1) (bit (x_flags i) 2)) (exec_default i))\<lparr>o_clear_reservation := True\<rparr>)"
| "stage_effect i (E_Trap tv) o' = (o' = out_trap tv (exec_default i))"
| "stage_effect i (E_Read_Special r) o' = requests i (Some (r, x_special_read_data i)) None (x_post_pc i) o'"
| "stage_effect i E_Write_Special o' = (o' = exec_default i)"
| "stage_effect i E_Iret o' =
     (o' = (out_flags (bslice 0 (x_interrupt_eflags i)) (exec_default i))
        \<lparr>o_cpu_control_write := True, o_cpu_control_value := x_interrupt_cpu_control i,
         o_next_pc := x_interrupt_epc i\<rparr>)"
| "stage_effect i E_Halt o' = (o' = (exec_default i)\<lparr>o_halt := True\<rparr>)"

end
