(* ===== verification/V3_Exec_Spec.thy ===== *)
theory V3_Exec_Spec
  imports V3_Execute
begin

text \<open>The execute stage of v3 and v4 requests the specified effect of every instruction word.\<close>

lemma x_shift_results:
  assumes "n \<le> 64"
  shows "x_sll_results a n = fst (sll_spec a n)" "x_sll_carries a n = snd (sll_spec a n)"
    and "x_srl_results a n = fst (srl_spec a n)" "x_srl_carries a n = snd (srl_spec a n)"
    and "x_sra_results a n = fst (sra_spec a n)" "x_sra_carries a n = snd (sra_spec a n)"
proof -
  have sll: "bslice 0 (push_bit n (ucast a :: 128 word)) = push_bit n a"
    using assms by (intro bit_word_eqI) (auto simp: bit_simps)
  show "x_sll_results a n = fst (sll_spec a n)"
    using assms by (simp add: x_sll_results_def fst_shift_specs sll)
  show "x_srl_results a n = fst (srl_spec a n)"
    using assms by (simp add: x_srl_results_def fst_shift_specs)
  show "x_sra_results a n = fst (sra_spec a n)"
    by (cases "n = 64"; cases "n = 0")
      (simp_all only: x_sra_results_def fst_shift_specs sra_64 signed_drop_bit_0 if_True if_False refl simp_thms)
  show "x_sll_carries a n = snd (sll_spec a n)" "x_srl_carries a n = snd (srl_spec a n)"
    "x_sra_carries a n = snd (sra_spec a n)"
    using assms
    by (auto simp: x_sll_carries_def x_srl_carries_def x_sra_carries_def sll_spec_def srl_spec_def sra_spec_def
        drop_bit_and_1)
qed

lemma x_imm4_less: "x_imm4 i < 16"
  using unsigned_less [of "instruction_gp_imm4 (x_instruction i)"] by (simp add: x_imm4_def)

lemma x_imm_results:
  "x_slli_result i = fst (sll_spec (x_a i) (x_imm4 i))" "x_slli_imm_carries a (x_imm4 i) = snd (sll_spec a (x_imm4 i))"
  "x_srli_result i = fst (srl_spec (x_a i) (x_imm4 i))" "x_srx_imm_carries a (x_imm4 i) = snd (srl_spec a (x_imm4 i))"
  "x_srai_result i = fst (sra_spec (x_a i) (x_imm4 i))" "x_srx_imm_carries a (x_imm4 i) = snd (sra_spec a (x_imm4 i))"
proof -
  note l = x_imm4_less [of i]
  have "bslice 0 (push_bit (x_imm4 i) (ucast (x_a i) :: 79 word)) = push_bit (x_imm4 i) (x_a i)"
    using l by (intro bit_word_eqI) (auto simp: bit_simps)
  then show "x_slli_result i = fst (sll_spec (x_a i) (x_imm4 i))"
    by (simp add: x_slli_result_def fst_shift_specs)
  show "x_srli_result i = fst (srl_spec (x_a i) (x_imm4 i))" "x_srai_result i = fst (sra_spec (x_a i) (x_imm4 i))"
    by (simp_all add: x_srli_result_def x_srai_result_def fst_shift_specs)
  show "x_slli_imm_carries a (x_imm4 i) = snd (sll_spec a (x_imm4 i))"
    "x_srx_imm_carries a (x_imm4 i) = snd (srl_spec a (x_imm4 i))"
    "x_srx_imm_carries a (x_imm4 i) = snd (sra_spec a (x_imm4 i))"
    using l by (auto simp: x_slli_imm_carries_def x_srx_imm_carries_def sll_spec_def srl_spec_def sra_spec_def
        drop_bit_and_1)
qed

lemma snd_sra_spec: "snd (sra_spec a n) = snd (srl_spec a n)"
  by (simp add: sra_spec_def srl_spec_def)

lemma x_imm4_rs1: "x_imm4 i = unat (x_rs1 i)"
  by (simp add: x_imm4_def x_rs1_def instruction_gp_imm4_def instruction_rs1_def)

lemma x_count: "x_shift_index i = shift_count (x_b i)"
  by (simp add: x_shift_index_def saturated_count)

lemma bslice0_ucast: "bslice 0 w = ucast w"
  by (simp add: bslice_def)

lemma x_sum: "bslice 0 (x_sum_value i) = x_a i + x_b i"
  "bit (x_sum_value i) 64 \<longleftrightarrow> 2 ^ 64 \<le> unat (x_a i) + unat (x_b i)"
  by (simp_all add: x_sum_value_def bslice0_ucast add_carry)

lemma exec_default_sel [simp]:
  "o_reg_write (exec_default i) = False" "o_reg_index (exec_default i) = x_rd i"
  "o_flags_write (exec_default i) = False" "o_flags_value (exec_default i) = x_flags i"
  "o_next_pc (exec_default i) = x_post_pc i"
  by (simp_all add: exec_default_def)

text \<open>The three shapes an instruction without a memory access can have.\<close>

lemma requests_reg:
  "r = x_rd i \<Longrightarrow> requests i (Some (r, v)) None pc ((out_reg v (exec_default i))\<lparr>o_next_pc := pc\<rparr>)"
  "r = x_rd i \<Longrightarrow> pc = x_post_pc i \<Longrightarrow> requests i (Some (r, v)) None pc (out_reg v (exec_default i))"
  by (simp_all add: requests_def out_defs exec_default_def)

lemma requests_none: "requests i None None pc ((exec_default i)\<lparr>o_next_pc := pc\<rparr>)"
  "requests i None None (x_post_pc i) (exec_default i)"
  by (simp_all add: requests_def exec_default_def)

lemma requests_alu:
  "r = x_rd i \<Longrightarrow> requests i (Some (r, v)) (Some (flag_value v c)) (x_post_pc i) (out_alu v c (exec_default i))"
  "requests i None (Some f) (x_post_pc i) (out_flags f (exec_default i))"
  by (simp_all add: requests_def out_alu_def out_defs exec_default_def)

lemma requests_cond:
  "r = x_rd i \<Longrightarrow> requests i (Some (r, v)) None pc
     ((exec_default i)\<lparr>o_reg_write := True, o_reg_value := v, o_next_pc := pc\<rparr>)"
  "requests i None None pc ((exec_default i)\<lparr>o_reg_write := False, o_reg_value := v, o_next_pc := pc\<rparr>)"
  by (simp_all add: requests_def exec_default_def)

lemmas requests_rules = requests_reg requests_none requests_alu requests_cond

lemma x_operands_sel [simp]:
  "op_a (x_operands i) = x_a i" "op_b (x_operands i) = x_b i" "op_flags (x_operands i) = x_flags i"
  "op_next (x_operands i) = x_post_pc i" "op_user (x_operands i) = x_user i"
  "op_reserved (x_operands i) = (if x_ll_valid i then Some (x_ll_addr i) else None)"
  "op_read_fault (x_operands i) = x_special_read_fault i" "op_write_fault (x_operands i) = x_special_write_fault i"
  by (simp_all add: x_operands_def)

lemma x_views:
  "pc_view (x_operands i) (x_rd i) (x_a i) = x_ls_rd_value i"
  "pc_view (x_operands i) (x_rs1 i) (x_b i) = x_ls_rs1_value i"
  "x_ls_rs1_value i + 2 * ucast (instruction_ls_offset2 (x_instruction i)) = x_ls_addr i"
  "x_post_pc i + 2 * scast (bslice 4 (x_instruction i) :: 6 word) = x_ls_pc_effective i"
  "x_post_pc i + 2 * scast (bslice 0 (x_instruction i) :: 10 word) = x_ls_jump_target i"
  "x_post_pc i + 2 * scast (bslice 0 (x_instruction i) :: 13 word) = x_post_pc i + x_jump_rel13 i"
  "x_a i - 8 = x_ls_pc_push_addr i"
  by (simp_all add: pc_view_def x_ls_rd_value_def x_ls_rs1_value_def x_ls_addr_def double_ucast2 double_scast
      x_ls_pc_effective_def x_ls_jump_target_def x_jump_rel10_def x_jump_rel13_def x_ls_pc_push_addr_def)

lemma ldi_effect:
  "instruction_top2 (x_instruction i) = 2 \<Longrightarrow>
     stage_effect i (isa_execute (decode (x_instruction i)) (x_operands i)) (out_reg (x_ldi_value i) (exec_default i))"
proof -
  have "x_ldi_value i = ldi_value (instruction_ldi_shift (x_instruction i)) (instruction_ldi_imm8 (x_instruction i)) (x_a i)"
    by (simp add: x_ldi_value_def ldi_value_def ldi_sign_extend Let_def)
  then show "instruction_top2 (x_instruction i) = 2 \<Longrightarrow> ?thesis"
    by (simp add: decode_def requests_rules x_rd_def)
qed

lemmas x_ls_sets = is_load_def is_store_def access_bytes_def x_load_width_def x_store_width_def

lemma ls_reg_effect:
  "instruction_top2 (x_instruction i) = 0 \<Longrightarrow>
     stage_effect i (isa_execute (decode (x_instruction i)) (x_operands i)) (v3_exec_ls_reg i (exec_default i))"
proof -
  assume t: "instruction_top2 (x_instruction i) = 0"
  let ?c = "ls_opcode_of (instruction_ls_opcode (x_instruction i))"
  have d: "decode (x_instruction i) = I_LS ?c (instruction_ls_offset2 (x_instruction i)) (x_rs1 i) (x_rd i)"
    using t by (simp add: decode_def x_rs1_def x_rd_def)
  show ?thesis
    unfolding d
    by (cases ?c)
      (simp_all add: v3_exec_ls_reg_def x_ls_opcode_def x_ls_sets Let_def x_views requests_rules
        x_ls_jump_taken_def)
qed

lemma ls_pc_effect:
  "instruction_top2 (x_instruction i) = 1 \<Longrightarrow>
     stage_effect i (isa_execute (decode (x_instruction i)) (x_operands i)) (v3_exec_ls_pc i (exec_default i))"
proof -
  assume t: "instruction_top2 (x_instruction i) = 1"
  let ?c = "ls_opcode_of (instruction_ls_opcode (x_instruction i))"
  have d: "decode (x_instruction i) = (if is_jump ?c then I_PCJ ?c (bslice 0 (x_instruction i))
      else I_PC ?c (bslice 4 (x_instruction i)) (x_rd i))"
    using t by (simp add: decode_def x_rd_def Let_def)
  show ?thesis
    unfolding d
    by (cases ?c)
      (simp_all add: v3_exec_ls_pc_def x_ls_opcode_def x_ls_sets Let_def x_views requests_rules is_jump_def
        x_ls_jump_taken_def del: is_jump_code)
qed

lemma alu_effect:
  assumes "gp_opcode_of (instruction_gp_opcode (x_instruction i)) = Some c" and "is_alu c"
  shows "stage_effect i (isa_execute (I_GP c (x_rs1 i) (x_rd i)) (x_operands i)) (v3_exec_gp i (exec_default i))"
  using assms(2)
  by (cases c)
    (simp_all add: v3_exec_gp_def assms(1) is_alu_def v3_exec_alu_def Let_def alu_def case_prod_beta
      requests_rules x_sum x_sub_value_def x_count x_shift_results [OF shift_count_le] x_imm_results snd_sra_spec
      x_imm4_rs1 [symmetric])

lemma x_user_iff: "x_user i \<longleftrightarrow> bit (x_cpu_control i) 17"
  unfolding x_user_def CPU_CONTROL_USER_MODE_def and_bit by (rule refl)

lemma system_effect:
  assumes "gp_opcode_of (instruction_gp_opcode (x_instruction i)) = Some c" and "\<not> is_alu c"
  shows "stage_effect i (isa_execute (I_GP c (x_rs1 i) (x_rd i)) (x_operands i)) (v3_exec_gp i (exec_default i))"
  using assms(2)
  by (cases c) (auto simp: v3_exec_gp_def assms(1) is_alu_def v3_exec_system_def requests_rules)

text \<open>The whole stage: for every instruction word, the requested action is the specified effect.\<close>

lemma v3_execute_spec:
  assumes "x_valid i"
  shows "stage_effect i (isa_execute (decode (x_instruction i)) (x_operands i)) (v3_execute i)"
proof -
  let ?w = "x_instruction i"
  consider "instruction_top2 ?w = 2" | "instruction_top2 ?w = 0" | "instruction_top2 ?w = 1"
    | "instruction_top2 ?w = 3" "instruction_top3 ?w = 6" | "instruction_top2 ?w = 3" "instruction_top3 ?w = 7"
    using top2_cases top3_11x by blast
  then show ?thesis
  proof cases
    case 4
    have e: "v3_execute i = v3_exec_gp i (exec_default i)" using 4 assms by (simp add: v3_execute_def)
    show ?thesis
    proof (cases "gp_opcode_of (instruction_gp_opcode ?w)")
      case None
      then show ?thesis using 4 by (simp add: e v3_exec_gp_def decode_def)
    next
      case (Some c)
      have "decode ?w = I_GP c (x_rs1 i) (x_rd i)" using 4 Some by (simp add: decode_def x_rs1_def x_rd_def)
      then show ?thesis using alu_effect [OF Some] system_effect [OF Some] e by (cases "is_alu c") simp_all
    qed
  next
    case 5
    then show ?thesis using assms by (simp add: v3_execute_def decode_def x_views requests_rules)
  qed (use assms ldi_effect ls_reg_effect ls_pc_effect in \<open>simp_all add: v3_execute_def\<close>)
qed

text \<open>An \<open>ADD R2, R1\<close> in the stage.\<close>

definition exec_sample :: exec_in where
  "exec_sample = \<lparr>x_valid = True, x_instruction = encode (I_GP GP_ADD 1 2), x_post_pc = 2, x_a = 5, x_b = 7, x_flags = 0,
     x_cpu_control = 0, x_interrupt_epc = 0, x_interrupt_eflags = 0, x_interrupt_cpu_control = 0, x_ll_valid = False,
     x_ll_addr = 0, x_special_read_data = 0, x_special_read_fault = False, x_special_write_fault = False\<rparr>"

lemma exec_sample_add: "x_valid exec_sample \<and> decode (x_instruction exec_sample) = I_GP GP_ADD 1 2"
  using decode_encode [of "I_GP GP_ADD 1 2"] by (simp add: exec_sample_def wf_instr_def del: encode.simps)

end
