(* ===== verification/V3_Memory.thy ===== *)
theory V3_Memory
  imports V3_Exec_Spec
begin

text \<open>
  The memory and retire stages of the pipelined cores (\<open>v3/memory_stage.py\<close>,
  \<open>v3/retire_stage.py\<close>, bundles of \<open>v3/bundles.py\<close> and \<open>v4/bundles.py\<close>) and the latch
  updates of \<open>v4/core.py\<close> around them: issue from execute, the chained store, the
  writeback.  Together they carry out the memory operation the execute stage requested.
\<close>

section \<open>State\<close>

record xm_reg =
  m_valid :: bool
  m_request_started :: bool
  m_virtual_addr :: u64
  m_addr :: u64
  m_phys_valid :: bool
  m_width_bytes :: "4 word"
  m_write :: bool
  m_store_value :: u64
  m_reg_write :: bool
  m_reg_index :: reg_index
  m_flags_write :: bool
  m_flags_value :: "3 word"
  m_set_reservation :: bool
  m_reservation_addr :: u64
  m_next_pc :: u64
  m_commit_pc :: u64
  m_fault_pc :: u64
  m_post_reg_write :: bool
  m_post_reg_index :: reg_index
  m_post_reg_value :: u64
  m_post_reg_delta :: u64
  m_post_reg_use_load_result :: bool
  m_chain_store :: bool
  m_chain_store_addr :: u64
  m_chain_store_use_load_result :: bool
  m_chain_store_value :: u64

record retire_reg =
  r_valid :: bool
  r_reg_write :: bool
  r_reg_index :: reg_index
  r_reg_value :: u64
  r_aux_reg_write :: bool
  r_aux_reg_index :: reg_index
  r_aux_reg_value :: u64
  r_flags_write :: bool
  r_flags_value :: "3 word"
  r_cpu_control_write :: bool
  r_cpu_control_value :: u64
  r_next_pc :: u64
  r_commit :: bool
  r_commit_pc :: u64
  r_halt :: bool
  r_lockup :: bool
  r_trap :: bool
  r_trap_cause :: u64

record lsu_response =
  l_request_ready :: bool
  l_response_valid :: bool
  l_response_error :: bool
  l_load_value :: u64

section \<open>The memory stage\<close>

definition ms_request_valid :: "xm_reg \<Rightarrow> bool" where
  "ms_request_valid x \<longleftrightarrow> m_valid x \<and> \<not> m_request_started x"
definition ms_start_request :: "xm_reg \<Rightarrow> lsu_response \<Rightarrow> bool" where
  "ms_start_request x l \<longleftrightarrow> m_valid x \<and> \<not> m_request_started x \<and> l_request_ready l"
definition ms_complete :: "xm_reg \<Rightarrow> lsu_response \<Rightarrow> bool" where
  "ms_complete x l \<longleftrightarrow> m_valid x \<and> l_response_valid l"
definition ms_final_response :: "xm_reg \<Rightarrow> lsu_response \<Rightarrow> bool" where
  "ms_final_response x l \<longleftrightarrow> ms_complete x l \<and> \<not> m_chain_store x"
definition ms_chain_continue :: "xm_reg \<Rightarrow> lsu_response \<Rightarrow> bool" where
  "ms_chain_continue x l \<longleftrightarrow> ms_complete x l \<and> m_chain_store x \<and> \<not> l_response_error l"
definition ms_next_chain_store_value :: "xm_reg \<Rightarrow> lsu_response \<Rightarrow> u64" where
  "ms_next_chain_store_value x l =
     (if m_chain_store_use_load_result x then l_load_value l else m_chain_store_value x)"
definition ms_post_value :: "xm_reg \<Rightarrow> lsu_response \<Rightarrow> u64" where
  "ms_post_value x l =
     (if m_post_reg_use_load_result x then l_load_value l + m_post_reg_delta x else m_post_reg_value x)"
definition ms_next_pc :: "xm_reg \<Rightarrow> lsu_response \<Rightarrow> u64" where
  "ms_next_pc x l =
     (if m_post_reg_write x \<and> m_post_reg_index x = 15 then ms_post_value x l
      else if m_reg_write x \<and> m_reg_index x = 15 then l_load_value l else m_next_pc x)"

text \<open>The register writes of the result: first port, then second port.\<close>

definition ms_result_ports ::
  "xm_reg \<Rightarrow> lsu_response \<Rightarrow> (bool \<times> reg_index \<times> u64) \<times> (bool \<times> reg_index \<times> u64)" where
  "ms_result_ports x l =
     (let v = l_load_value l; top = ms_post_value x l in
      if m_post_reg_write x then
        (if m_reg_write x then
           (if m_post_reg_index x = m_reg_index x then ((True, m_reg_index x, top), (False, 0, 0))
            else ((True, m_reg_index x, v), (True, m_post_reg_index x, top)))
         else ((True, m_post_reg_index x, top), (False, 0, 0)))
      else ((m_reg_write x, m_reg_index x, v), (False, 0, 0)))"

definition ms_result :: "xm_reg \<Rightarrow> lsu_response \<Rightarrow> retire_reg" where
  "ms_result x l =
     (let ((w, r, v), (w2, r2, v2)) = ms_result_ports x l;
          ok = (ms_final_response x l \<and> \<not> l_response_error l)
      in \<lparr>r_valid = ok, r_reg_write = w, r_reg_index = r, r_reg_value = v,
          r_aux_reg_write = w2, r_aux_reg_index = r2, r_aux_reg_value = v2,
          r_flags_write = m_flags_write x, r_flags_value = m_flags_value x,
          r_cpu_control_write = False, r_cpu_control_value = 0,
          r_next_pc = ms_next_pc x l, r_commit = ok, r_commit_pc = m_commit_pc x,
          r_halt = False, r_lockup = False, r_trap = False, r_trap_cause = 0\<rparr>)"

section \<open>The retire stage\<close>

record retire_actions =
  write_reg_port :: "(reg_index \<times> u64) option"
  write_aux_port :: "(reg_index \<times> u64) option"
  write_flags_port :: "3 word option"
  write_cpu_control_port :: "u64 option"
  commit_port :: "u64 option"
  halt_request :: bool
  lockup_request :: bool
  trap_port :: "(u64 \<times> u64) option"

definition port :: "bool \<Rightarrow> 'v \<Rightarrow> 'v option" where "port b v = (if b then Some v else None)"

definition retire_stage :: "retire_reg \<Rightarrow> retire_actions" where
  "retire_stage r = \<lparr>
     write_reg_port = port (r_valid r \<and> r_reg_write r) (r_reg_index r, r_reg_value r),
     write_aux_port = port (r_valid r \<and> r_aux_reg_write r) (r_aux_reg_index r, r_aux_reg_value r),
     write_flags_port = port (r_valid r \<and> r_flags_write r) (r_flags_value r),
     write_cpu_control_port = port (r_valid r \<and> r_cpu_control_write r) (r_cpu_control_value r),
     commit_port = port (r_valid r \<and> r_commit r) (r_commit_pc r),
     halt_request = (r_valid r \<and> r_halt r),
     lockup_request = (r_valid r \<and> r_lockup r),
     trap_port = port (r_valid r \<and> r_trap r) (r_trap_cause r, r_commit_pc r)\<rparr>"

text \<open>Writeback: both register ports, then the program counter of a committed instruction.\<close>

definition write_port :: "(reg_index \<times> u64) option \<Rightarrow> regfile \<Rightarrow> regfile" where
  "write_port p rs = (case p of Some (r, v) \<Rightarrow> if r \<noteq> 0 then rs(r := v) else rs | None \<Rightarrow> rs)"

definition retire_regs :: "retire_reg \<Rightarrow> regfile \<Rightarrow> regfile" where
  "retire_regs r rs =
     (let a = retire_stage r;
          rs1 = write_port (write_aux_port a) (write_port (write_reg_port a) rs);
          rs2 = (if commit_port a \<noteq> None then rs1(15 := r_next_pc r) else rs1)
      in if halt_request a then rs2(15 := r_next_pc r) else rs2)"

definition retire_flags :: "retire_reg \<Rightarrow> 3 word \<Rightarrow> 3 word" where
  "retire_flags r f = (case write_flags_port (retire_stage r) of Some g \<Rightarrow> g | None \<Rightarrow> f)"

section \<open>Latch updates\<close>

text \<open>Issue from the execute stage at \<open>pc\<close>, and execute results that need no memory.\<close>

definition xm_issue :: "bool \<Rightarrow> u64 \<Rightarrow> exec_out \<Rightarrow> xm_reg" where
  "xm_issue paging pc o' = \<lparr>
     m_valid = True, m_request_started = False, m_virtual_addr = o_memory_addr o',
     m_addr = o_memory_addr o', m_phys_valid = (\<not> paging), m_width_bytes = o_memory_width_bytes o',
     m_write = o_memory_write o', m_store_value = o_memory_store_value o',
     m_reg_write = o_memory_reg_write o', m_reg_index = o_memory_reg_index o',
     m_flags_write = o_memory_flags_write o', m_flags_value = o_memory_flags_value o',
     m_set_reservation = o_memory_set_reservation o', m_reservation_addr = o_memory_reservation_addr o',
     m_next_pc = o_memory_next_pc o', m_commit_pc = pc, m_fault_pc = pc,
     m_post_reg_write = o_memory_post_reg_write o', m_post_reg_index = o_memory_post_reg_index o',
     m_post_reg_value = o_memory_post_reg_value o', m_post_reg_delta = o_memory_post_reg_delta o',
     m_post_reg_use_load_result = o_memory_post_reg_use_load_result o',
     m_chain_store = o_memory_chain_store o', m_chain_store_addr = o_memory_chain_store_addr o',
     m_chain_store_use_load_result = o_memory_chain_store_use_load_result o',
     m_chain_store_value = o_memory_chain_store_value o'\<rparr>"

definition xm_chain :: "bool \<Rightarrow> 3 word \<Rightarrow> u64 \<Rightarrow> xm_reg \<Rightarrow> xm_reg" where
  "xm_chain paging flags v x = x\<lparr>
     m_request_started := False, m_virtual_addr := m_chain_store_addr x,
     m_addr := m_chain_store_addr x, m_phys_valid := (\<not> paging), m_width_bytes := 8,
     m_write := True, m_store_value := v, m_reg_write := False, m_reg_index := 0,
     m_chain_store := False, m_chain_store_addr := 0, m_chain_store_use_load_result := False,
     m_chain_store_value := 0, m_flags_write := False, m_flags_value := flags,
     m_set_reservation := False, m_reservation_addr := 0\<rparr>"

definition retire_from_execute :: "u64 \<Rightarrow> exec_out \<Rightarrow> retire_reg" where
  "retire_from_execute pc o' = \<lparr>
     r_valid = True, r_reg_write = o_reg_write o', r_reg_index = o_reg_index o', r_reg_value = o_reg_value o',
     r_aux_reg_write = False, r_aux_reg_index = 0, r_aux_reg_value = 0,
     r_flags_write = o_flags_write o', r_flags_value = o_flags_value o',
     r_cpu_control_write = o_cpu_control_write o', r_cpu_control_value = o_cpu_control_value o',
     r_next_pc = o_next_pc o',
     r_commit = (\<not> o_halt o' \<and> \<not> o_lockup o' \<and> \<not> o_trap o'), r_commit_pc = pc,
     r_halt = o_halt o', r_lockup = o_lockup o', r_trap = o_trap o', r_trap_cause = o_trap_cause o'\<rparr>"

section \<open>What a memory operation commits\<close>

text \<open>Register writes in order, and the next program counter, given the loaded value.\<close>

fun op_writes :: "mem_op \<Rightarrow> u64 \<Rightarrow> (reg_index \<times> u64) list" where
  "op_writes (M_Load a w r) v = [(r, v)]"
| "op_writes (M_Store a w x) v = []"
| "op_writes (M_Push a x sp) v = [(sp, a)]"
| "op_writes (M_Pop a r sp) v = [(r, v), (sp, if sp = r then v + 8 else a + 8)]"
| "op_writes (M_Load_Linked a r) v = [(r, v)]"
| "op_writes (M_Store_Cond a x) v = []"
| "op_writes (M_Copy_Push a b sp) v = [(sp, b)]"
| "op_writes (M_Copy_Pop a b sp) v = [(sp, a + 8)]"

definition write_regs :: "(reg_index \<times> u64) list \<Rightarrow> regfile \<Rightarrow> regfile" where
  "write_regs ws rs = fold (\<lambda>w. write_port (Some w)) ws rs"

definition op_next_pc :: "u64 \<Rightarrow> mem_op \<Rightarrow> u64 \<Rightarrow> u64" where
  "op_next_pc next op v = (case map_of (rev (op_writes op v)) 15 of Some x \<Rightarrow> x | None \<Rightarrow> next)"

text \<open>The accesses of an operation: address, width, and the stored value of a store.\<close>

fun op_first_access :: "mem_op \<Rightarrow> u64 \<times> 4 word \<times> u64 option" where
  "op_first_access (M_Load a w r) = (a, w, None)"
| "op_first_access (M_Store a w x) = (a, w, Some x)"
| "op_first_access (M_Push a x sp) = (a, 8, Some x)"
| "op_first_access (M_Pop a r sp) = (a, 8, None)"
| "op_first_access (M_Load_Linked a r) = (a, 8, None)"
| "op_first_access (M_Store_Cond a x) = (a, 8, Some x)"
| "op_first_access (M_Copy_Push a b sp) = (a, 8, None)"
| "op_first_access (M_Copy_Pop a b sp) = (a, 8, None)"

fun op_second_access :: "mem_op \<Rightarrow> u64 option" where
  "op_second_access (M_Copy_Push a b sp) = Some b"
| "op_second_access (M_Copy_Pop a b sp) = Some b"
| "op_second_access _ = None"

section \<open>The stages carry the operation out\<close>

definition request_of :: "xm_reg \<Rightarrow> u64 \<times> 4 word \<times> u64 option" where
  "request_of x = (m_addr x, m_width_bytes x, port (m_write x) (m_store_value x))"

definition answered :: "u64 \<Rightarrow> lsu_response" where
  "answered v = \<lparr>l_request_ready = False, l_response_valid = True, l_response_error = False, l_load_value = v\<rparr>"

text \<open>The latch after the last response: the issued one, or its chained store.\<close>

definition last_access :: "bool \<Rightarrow> 3 word \<Rightarrow> u64 \<Rightarrow> xm_reg \<Rightarrow> xm_reg" where
  "last_access paging f v x =
     (if ms_chain_continue x (answered v) then xm_chain paging f (ms_next_chain_store_value x (answered v)) x
      else x)"

lemmas xm_simps = xm_issue_def xm_chain_def out_defs exec_default_def

lemma first_access_issued:
  "request_of (xm_issue paging pc (mem_request op (exec_default i))) = op_first_access op"
  by (cases op) (simp_all add: request_of_def xm_simps port_def)

lemma second_access_issued:
  "(if ms_chain_continue (xm_issue paging pc (mem_request op (exec_default i))) (answered v)
    then Some (request_of (last_access paging f v (xm_issue paging pc (mem_request op (exec_default i)))))
    else None) = map_option (\<lambda>b. (b, 8, Some v)) (op_second_access op)"
  by (cases op)
    (simp_all add: request_of_def last_access_def ms_chain_continue_def ms_complete_def answered_def
      ms_next_chain_store_value_def xm_simps port_def)

text \<open>The result of a final response, as the list of its register writes.\<close>

definition stage_writes :: "xm_reg \<Rightarrow> u64 \<Rightarrow> (reg_index \<times> u64) list" where
  "stage_writes x v =
     (if m_reg_write x then [(m_reg_index x, v)] else []) @
     (if m_post_reg_write x then [(m_post_reg_index x, ms_post_value x (answered v))] else [])"

lemma retire_final_result:
  assumes "m_valid x" and "\<not> m_chain_store x"
  shows "retire_regs (ms_result x (answered v)) rs =
     (write_regs (stage_writes x v) rs)(15 := ms_next_pc x (answered v))"
proof -
  have c: "ms_final_response x (answered v) \<and> \<not> l_response_error (answered v)"
    using assms by (simp add: ms_final_response_def ms_complete_def answered_def)
  have l: "l_load_value (answered v) = v" by (simp add: answered_def)
  consider "m_reg_write x" "m_post_reg_write x" "m_post_reg_index x = m_reg_index x"
    | "m_reg_write x" "m_post_reg_write x" "m_post_reg_index x \<noteq> m_reg_index x"
    | "m_reg_write x" "\<not> m_post_reg_write x" | "\<not> m_reg_write x" "m_post_reg_write x"
    | "\<not> m_reg_write x" "\<not> m_post_reg_write x" by blast
  then show ?thesis
    by cases (simp_all add: c l retire_regs_def retire_stage_def ms_result_def ms_result_ports_def port_def
      write_regs_def write_port_def stage_writes_def Let_def)
qed

text \<open>The latch fields at the last access.\<close>

lemma last_access_fields:
  assumes "x = last_access paging f v (xm_issue paging pc (mem_request op (exec_default i)))"
    and "u = (if op_second_access op = None then v else w)"
  shows "m_valid x \<and> \<not> m_chain_store x \<and> stage_writes x u = op_writes op v \<and>
      m_next_pc x = x_post_pc i \<and> m_commit_pc x = pc"
  unfolding assms
  by (cases op)
    (simp_all add: last_access_def ms_chain_continue_def ms_complete_def answered_def stage_writes_def
      ms_post_value_def xm_simps)

lemma next_pc_writes: "ms_next_pc x (answered u) =
    (case map_of (rev (stage_writes x u)) 15 of Some y \<Rightarrow> y | None \<Rightarrow> m_next_pc x)"
  by (auto simp: ms_next_pc_def stage_writes_def answered_def ms_post_value_def)

lemma retire_memory_op:
  assumes "x = last_access paging f v (xm_issue paging pc (mem_request op (exec_default i)))"
    and "u = (if op_second_access op = None then v else w)"
  shows "retire_regs (ms_result x (answered u)) rs =
      (write_regs (op_writes op v) rs)(15 := op_next_pc (x_post_pc i) op v)"
  using last_access_fields [OF assms]
  by (simp add: retire_final_result next_pc_writes op_next_pc_def cong: option.case_cong)

text \<open>Instructions without a memory access retire what the execute stage decided.\<close>

lemma retire_execute:
  assumes "requests i w f pc o'"
  shows "retire_regs (retire_from_execute here o') rs = (write_port w rs)(15 := pc)"
    and "retire_flags (retire_from_execute here o') fl = (case f of Some g \<Rightarrow> g | None \<Rightarrow> fl)"
    and "commit_port (retire_stage (retire_from_execute here o')) = Some here"
proof -
  from assms have o': "o' = (exec_default i)\<lparr>o_reg_write := o_reg_write o', o_reg_value := o_reg_value o',
            o_flags_write := o_flags_write o', o_flags_value := o_flags_value o', o_next_pc := pc\<rparr>"
    and w: "w = (if o_reg_write o' then Some (o_reg_index o', o_reg_value o') else None)"
    and f: "f = (if o_flags_write o' then Some (o_flags_value o') else None)"
    by (auto simp: requests_def split: if_splits)
  have quiet: "\<not> o_halt o'" "\<not> o_lockup o'" "\<not> o_trap o'" "o_next_pc o' = pc"
    by (subst o', simp add: exec_default_def)+
  show "retire_regs (retire_from_execute here o') rs = (write_port w rs)(15 := pc)"
    "retire_flags (retire_from_execute here o') fl = (case f of Some g \<Rightarrow> g | None \<Rightarrow> fl)"
    "commit_port (retire_stage (retire_from_execute here o')) = Some here"
    by (simp_all add: w f quiet retire_regs_def retire_flags_def retire_stage_def retire_from_execute_def
        port_def write_port_def Let_def)
qed

section \<open>One instruction through the pipeline\<close>

text \<open>
  From the execute stage's inputs to the register file: what the execute, memory and retire
  stages commit for each effect of \<open>isa_execute\<close>.  \<open>v\<close> is the loaded value, \<open>w\<close> what the bus
  returns for the chained store.
\<close>

lemma retire_trap:
  "trap_port (retire_stage (retire_from_execute here (out_trap tv (exec_default i)))) = Some (trap_code tv, here)"
  "commit_port (retire_stage (retire_from_execute here (out_trap tv (exec_default i)))) = None"
  "retire_regs (retire_from_execute here (out_trap tv (exec_default i))) rs = rs"
  by (simp_all add: retire_stage_def retire_from_execute_def out_trap_def exec_default_def port_def retire_regs_def
      write_port_def Let_def)

text \<open>
  Everything one latch makes of the architecture when it retires: registers, flags, the writes to
  the control register, the commit, the halt, lockup and trap requests.
\<close>

type_synonym retirement = "regfile \<times> 3 word \<times> u64 option \<times> u64 option \<times> bool \<times> bool \<times> (u64 \<times> u64) option"

definition retired :: "retire_reg \<Rightarrow> regfile \<Rightarrow> 3 word \<Rightarrow> retirement" where
  "retired r rs fl =
     (let a = retire_stage r in (retire_regs r rs, retire_flags r fl, write_cpu_control_port a, commit_port a,
       halt_request a, lockup_request a, trap_port a))"

abbreviation committed :: "u64 \<Rightarrow> regfile \<Rightarrow> 3 word \<Rightarrow> retirement" where
  "committed here rs fl \<equiv> (rs, fl, None, Some here, False, False, None)"

lemmas retired_defs = retired_def retire_regs_def retire_flags_def retire_stage_def retire_from_execute_def port_def write_port_def

fun is_mem :: "effect \<Rightarrow> bool" where "is_mem (E_Mem op) = True" | "is_mem e = False"

text \<open>The reservation a memory operation asks for, and its flags: only a conditional store sets Z.\<close>

definition op_reserves :: "mem_op \<Rightarrow> u64 option" where
  "op_reserves op = (case op of M_Load_Linked a r \<Rightarrow> Some a | _ \<Rightarrow> None)"

definition op_flags_left :: "3 word \<Rightarrow> mem_op \<Rightarrow> 3 word \<Rightarrow> 3 word" where
  "op_flags_left x op fl = (case op of M_Store_Cond a v \<Rightarrow> cat3 True (bit x 1) (bit x 2) | _ \<Rightarrow> fl)"

text \<open>What each effect retires, given the special-register inputs of the stage and the value \<open>v\<close> loaded.\<close>

fun effect_retired :: "exec_in \<Rightarrow> u64 \<Rightarrow> regfile \<Rightarrow> 3 word \<Rightarrow> u64 \<Rightarrow> effect \<Rightarrow> retirement" where
  "effect_retired i here rs fl v (E_Write p f pc) =
     committed here ((write_port p rs)(15 := pc)) (case f of Some g \<Rightarrow> g | None \<Rightarrow> fl)"
| "effect_retired i here rs fl v E_Sc_Fail =
     committed here (rs(15 := x_post_pc i)) (cat3 False (bit (x_flags i) 1) (bit (x_flags i) 2))"
| "effect_retired i here rs fl v (E_Read_Special r) =
     committed here ((write_port (Some (r, x_special_read_data i)) rs)(15 := x_post_pc i)) fl"
| "effect_retired i here rs fl v E_Write_Special = committed here (rs(15 := x_post_pc i)) fl"
| "effect_retired i here rs fl v E_Iret =
     (rs(15 := x_interrupt_epc i), bslice 0 (x_interrupt_eflags i), Some (x_interrupt_cpu_control i), Some here,
      False, False, None)"
| "effect_retired i here rs fl v E_Halt = (rs(15 := x_post_pc i), fl, None, None, True, False, None)"
| "effect_retired i here rs fl v (E_Trap tv) = (rs, fl, None, None, False, False, Some (trap_code tv, here))"
| "effect_retired i here rs fl v (E_Mem op) =
     committed here ((write_regs (op_writes op v) rs)(15 := op_next_pc (x_post_pc i) op v)) (op_flags_left (x_flags i) op fl)"

lemma execute_retired:
  assumes "stage_effect i e o'" and "\<not> is_mem e"
  shows "retired (retire_from_execute here o') rs fl = effect_retired i here rs fl v e \<and> \<not> o_memory_start o' \<and>
     o_clear_reservation o' = (e = E_Sc_Fail)"
proof -
  have quiet: "\<not> o_cpu_control_write o' \<and> \<not> o_halt o' \<and> \<not> o_lockup o' \<and> \<not> o_trap o' \<and> \<not> o_memory_start o' \<and>
      \<not> o_clear_reservation o'" if "requests i w f pc o'" for w f pc
    using that unfolding requests_def by (elim conjE) (erule ssubst, simp add: exec_default_def)
  have reg: "retired (retire_from_execute here o') rs fl =
      committed here ((write_port w rs)(15 := pc)) (case f of Some g \<Rightarrow> g | None \<Rightarrow> fl)" if "requests i w f pc o'" for w f pc
    using retire_execute(1) [OF that, of here rs] retire_execute(2) [OF that, of here fl] quiet [OF that]
    by (simp add: retired_def retire_stage_def retire_from_execute_def port_def Let_def)
  show ?thesis
  proof (cases e)
    case (E_Write p f pc)
    then show ?thesis using assms reg quiet by simp
  next
    case (E_Read_Special r)
    then show ?thesis using assms reg [of "Some (r, x_special_read_data i)" None] quiet by simp
  qed (use assms in \<open>simp_all add: retired_defs out_defs exec_default_def Let_def\<close>)
qed

text \<open>The last latch of a memory operation: what it retires, and the reservation it asks for.\<close>

lemma memory_retired:
  assumes "x = last_access paging f v (xm_issue paging pc (mem_request op (exec_default i)))"
    and "u = (if op_second_access op = None then v else w)"
  shows "retired (ms_result x (answered u)) rs fl = effect_retired i pc rs fl v (E_Mem op)"
    and "port (m_set_reservation x) (m_reservation_addr x) = op_reserves op"
proof -
  note F = last_access_fields [OF assms]
  have fl: "m_flags_write x \<and> m_flags_value x = op_flags_left (x_flags i) op fl \<or>
      \<not> m_flags_write x \<and> op_flags_left (x_flags i) op fl = fl"
    unfolding assms(1) by (cases op) (simp_all add: last_access_def ms_chain_continue_def ms_complete_def answered_def op_flags_left_def xm_simps)
  show "port (m_set_reservation x) (m_reservation_addr x) = op_reserves op"
    unfolding assms(1) by (cases op) (simp_all add: last_access_def ms_chain_continue_def ms_complete_def answered_def op_reserves_def
        port_def xm_simps)
  have ok: "ms_final_response x (answered u) \<and> \<not> l_response_error (answered u)"
    using F by (simp add: ms_final_response_def ms_complete_def answered_def)
  then show "retired (ms_result x (answered u)) rs fl = effect_retired i pc rs fl v (E_Mem op)"
    using retire_memory_op [OF assms, of rs] F fl
    by (auto simp: retired_def retire_flags_def retire_stage_def ms_result_def port_def Let_def split: prod.split)
qed

definition commits_effect ::
  "exec_in \<Rightarrow> exec_out \<Rightarrow> u64 \<Rightarrow> bool \<Rightarrow> regfile \<Rightarrow> 3 word \<Rightarrow> u64 \<Rightarrow> u64 \<Rightarrow> effect \<Rightarrow> bool" where
  "commits_effect i o' here paging rs fl v w e =
     (o_memory_start o' = is_mem e \<and> o_clear_reservation o' = (e = E_Sc_Fail) \<and>
      (case e of
        E_Mem op \<Rightarrow>
          (let x1 = xm_issue paging here o'; x2 = last_access paging fl v x1;
               u = (if op_second_access op = None then v else w)
           in request_of x1 = op_first_access op \<and>
              (case op_second_access op of None \<Rightarrow> \<not> ms_chain_continue x1 (answered v)
               | Some b \<Rightarrow> ms_chain_continue x1 (answered v) \<and> request_of x2 = (b, 8, Some v)) \<and>
              port (m_set_reservation x2) (m_reservation_addr x2) = op_reserves op \<and>
              retired (ms_result x2 (answered u)) rs fl = effect_retired i here rs fl v e)
      | _ \<Rightarrow> retired (retire_from_execute here o') rs fl = effect_retired i here rs fl v e))"

text \<open>
  Property C4: For every instruction word, what the execute, memory and retire stages make of it
  is exactly its specified effect: registers, flags, next program counter, commit, halt and trap
  requests and the control register IRET restores; a memory access is started, a reservation asked
  for or cleared only by the effects that do so, with the address, width and data of the first and
  of the chained access. The value LSR reads and the registers IRET returns from are inputs of the
  execute stage; the write of SSR is a port of the core.
\<close>

lemma pipeline_instruction:
  assumes "x_valid i"
  shows "commits_effect i (v3_execute i) here paging rs fl v w (isa_execute (decode (x_instruction i)) (x_operands i))"
proof -
  let ?e = "isa_execute (decode (x_instruction i)) (x_operands i)"
  have s: "stage_effect i ?e (v3_execute i)" using assms by (rule v3_execute_spec)
  show ?thesis
  proof (cases "is_mem ?e")
    case True
    then obtain op where e: "?e = E_Mem op" by (cases ?e) simp_all
    with s have o': "v3_execute i = mem_request op (exec_default i)" by simp
    have "o_memory_start (mem_request op (exec_default i)) \<and> \<not> o_clear_reservation (mem_request op (exec_default i))"
      by (cases op) (simp_all add: out_defs exec_default_def)
    then show ?thesis
      unfolding commits_effect_def e o' effect.case Let_def
      using first_access_issued [of paging here op i] second_access_issued [of paging here op i v fl]
        memory_retired(1) [OF refl refl, of paging fl v here op i w rs fl] memory_retired(2) [OF refl refl, of paging fl v here op i]
      by (cases "op_second_access op") (auto split: if_splits)
  next
    case False
    then show ?thesis using execute_retired [OF s False, of here rs fl v]
      by (cases ?e) (simp_all add: commits_effect_def)
  qed
qed

lemma pipeline_instruction_witness:
  "commits_effect exec_sample (v3_execute exec_sample) 0 False (\<lambda>_. 0) 0 0 0
     (isa_execute (I_GP GP_ADD 1 2) (x_operands exec_sample))"
  using pipeline_instruction [of exec_sample] exec_sample_add by simp

end
