(* ===== verification/V4_Decode.thy ===== *)
theory V4_Decode
  imports V3_Memory
begin

text \<open>
  The decode stage of the v4 core and its branch predictors (\<open>v4/decode_stage.py\<close>,
  \<open>v4/predictor.py\<close>; the bypass and hazard logic is that of \<open>v3/decode_stage.py\<close>), with
  the wiring of \<open>v4/core.py\<close>.  Operands read at decode are the ones the older
  instructions still in the pipeline will have left, or the stage reports a hazard.
\<close>

section \<open>Predictors\<close>

definition p_cond_branch :: "u16 \<Rightarrow> bool" where
  "p_cond_branch w \<longleftrightarrow> instruction_top2 w = 1 \<and> ls_code LS_JUMP_Z \<le> instruction_ls_opcode w"
definition p_ujmp :: "u16 \<Rightarrow> bool" where "p_ujmp w \<longleftrightarrow> instruction_top3 w = 7"

definition is_branch :: "u16 \<Rightarrow> bool" where "is_branch w \<longleftrightarrow> p_cond_branch w \<or> p_ujmp w"

definition not_taken_next_pc :: "u16 \<Rightarrow> u64 \<Rightarrow> u64" where "not_taken_next_pc w pc = pc + 2"

definition predicted_next_pc :: "u16 \<Rightarrow> u64 \<Rightarrow> u64" where
  "predicted_next_pc w pc =
     (let post = pc + 2;
          target10 = post + push_bit 1 (sign_extend (bslice 0 w :: 10 word));
          target13 = post + push_bit 1 (sign_extend (bslice 0 w :: 13 word))
      in if p_ujmp w then target13
         else if p_cond_branch w \<and> bit w 9 then target10 else post)"

text \<open>Unconditional jumps and backward branches are predicted taken, everything else falls through.\<close>

lemma top3_top2: "instruction_top3 w = 7 \<Longrightarrow> instruction_top2 w = 3"
proof (rule bit_word_eqI)
  fix n assume t: "instruction_top3 w = 7" and n: "n < LENGTH(2)"
  have "bit (instruction_top2 w) n = bit (instruction_top3 w) (Suc n)"
    using n by (auto simp: instruction_top2_def instruction_top3_def bit_bslice)
  also have "\<dots> = bit (3 :: 2 word) n" using n unfolding t by (cases n) (auto simp: less_Suc_eq numeral_2_eq_2)
  finally show "bit (instruction_top2 w) n = bit (3 :: 2 word) n" .
qed

text \<open>
  The v4 predictor predicts the target of every unconditional jump and of every conditional branch
  with a negative offset, and the fall-through address for every other instruction word.
\<close>

lemma prediction_spec:
  "predicted_next_pc w pc =
     (case decode w of
        I_UJ rel \<Rightarrow> pc + 2 + 2 * scast rel
      | I_PCJ c rel \<Rightarrow> (if bit rel 9 then pc + 2 + 2 * scast rel else pc + 2)
      | _ \<Rightarrow> pc + 2)"
proof -
  have d: "push_bit 1 x = 2 * x" for x :: u64 by (simp add: push_bit_eq_mult)
  consider (uj) "instruction_top2 w = 3" "instruction_top3 w = 7" | (gp) "instruction_top2 w = 3" "instruction_top3 w = 6"
    | (lt) "instruction_top2 w \<noteq> 3" "instruction_top3 w \<noteq> 7"
    using top3_11x [of w] top3_top2 [of w] by blast
  then show ?thesis
  proof cases
    case lt
    then show ?thesis
      using top2_cases [of w]
      by (auto simp: predicted_next_pc_def p_ujmp_def p_cond_branch_def decode_def Let_def sign_extend_scast bit_bslice d)
  qed (auto simp: predicted_next_pc_def p_ujmp_def p_cond_branch_def decode_def Let_def sign_extend_scast d
      split: option.split)
qed

section \<open>Ports of the stage\<close>

text \<open>The fetch-decode and decode-execute latches (\<open>v4/bundles.py\<close>).\<close>

record fd_reg =
  fd_valid :: bool
  fd_instruction :: u16
  fd_pc :: u64
  fd_post_increment_pc :: u64

record de_reg =
  de_valid :: bool
  de_instruction :: u16
  de_pc :: u64
  de_post_increment_pc :: u64
  de_operand_a :: u64
  de_operand_b :: u64
  de_flags :: "3 word"
  de_predicted_next_pc :: u64

text \<open>The memory-result buffer of \<open>v4/core.py\<close>, between the memory and the retire stage.\<close>

record mr_reg =
  mr_valid :: bool
  mr_next_pc :: u64
  mr_commit_next_pc :: u64
  mr_reg_write :: bool
  mr_reg_index :: reg_index
  mr_reg_value :: u64
  mr_aux_reg_write :: bool
  mr_aux_reg_index :: reg_index
  mr_aux_reg_value :: u64
  mr_commit_pc :: u64
  mr_flags_write :: bool
  mr_flags_value :: "3 word"

record decode_in =
  d_instruction :: u16
  d_pc :: u64
  d_post_increment_pc :: u64
  d_execute_valid :: bool
  d_execute_reg_write :: bool
  d_execute_reg_index :: reg_index
  d_execute_reg_value :: u64
  d_execute_flags_write :: bool
  d_execute_flags_value :: "3 word"
  d_final :: mr_reg
  d_retire :: retire_reg
  d_pending_load_execute :: "bool \<times> reg_index"
  d_pending_load_memory :: "bool \<times> reg_index"
  d_pending_write_execute :: "bool \<times> reg_index"
  d_pending_write_memory :: "bool \<times> reg_index"

definition d_rd :: "decode_in \<Rightarrow> reg_index" where "d_rd d = instruction_rd (d_instruction d)"
definition d_rs1 :: "decode_in \<Rightarrow> reg_index" where "d_rs1 d = instruction_rs1 (d_instruction d)"

text \<open>The bypass chain of one operand.\<close>

definition bypass :: "decode_in \<Rightarrow> regfile \<Rightarrow> reg_index \<Rightarrow> u64" where
  "bypass d rs r =
     (let f = d_final d; t = d_retire d in
      if r = 0 then 0
      else if d_execute_valid d \<and> d_execute_reg_write d \<and> d_execute_reg_index d = r then d_execute_reg_value d
      else if mr_valid f \<and> mr_reg_write f \<and> mr_reg_index f = r then mr_reg_value f
      else if mr_valid f \<and> mr_aux_reg_write f \<and> mr_aux_reg_index f = r then mr_aux_reg_value f
      else if r_valid t \<and> r_reg_write t \<and> r_reg_index t = r then r_reg_value t
      else if r_valid t \<and> r_aux_reg_write t \<and> r_aux_reg_index t = r then r_aux_reg_value t
      else rs r)"

definition operand_a :: "decode_in \<Rightarrow> regfile \<Rightarrow> u64" where "operand_a d rs = bypass d rs (d_rd d)"
definition operand_b :: "decode_in \<Rightarrow> regfile \<Rightarrow> u64" where "operand_b d rs = bypass d rs (d_rs1 d)"

definition bypass_flags :: "decode_in \<Rightarrow> 3 word \<Rightarrow> 3 word" where
  "bypass_flags d fl =
     (if d_execute_valid d \<and> d_execute_flags_write d then d_execute_flags_value d
      else if mr_valid (d_final d) \<and> mr_flags_write (d_final d) then mr_flags_value (d_final d)
      else if r_valid (d_retire d) \<and> r_flags_write (d_retire d) then r_flags_value (d_retire d) else fl)"

definition hazard :: "decode_in \<Rightarrow> bool \<times> reg_index \<Rightarrow> bool" where
  "hazard d p \<longleftrightarrow> fst p \<and> snd p \<noteq> 0 \<and> (snd p = d_rd d \<or> snd p = d_rs1 d)"

definition load_use_hazard :: "decode_in \<Rightarrow> bool" where
  "load_use_hazard d \<longleftrightarrow> hazard d (d_pending_load_execute d) \<or> hazard d (d_pending_load_memory d) \<or>
     hazard d (d_pending_write_execute d) \<or> hazard d (d_pending_write_memory d)"

definition predict_redirect :: "decode_in \<Rightarrow> bool" where
  "predict_redirect d \<longleftrightarrow> is_branch (d_instruction d) \<and>
     predicted_next_pc (d_instruction d) (d_pc d) \<noteq> d_post_increment_pc d"

section \<open>Wiring in the core\<close>

definition wire_decode ::
  "fd_reg \<Rightarrow> bool \<Rightarrow> exec_out \<Rightarrow> xm_reg \<Rightarrow> mr_reg \<Rightarrow> retire_reg \<Rightarrow> decode_in" where
  "wire_decode fd busy o' x f t = \<lparr>
     d_instruction = fd_instruction fd, d_pc = fd_pc fd, d_post_increment_pc = fd_post_increment_pc fd,
     d_execute_valid = (busy \<and> \<not> o_memory_start o'),
     d_execute_reg_write = o_reg_write o', d_execute_reg_index = o_reg_index o',
     d_execute_reg_value = o_reg_value o', d_execute_flags_write = o_flags_write o',
     d_execute_flags_value = o_flags_value o', d_final = f, d_retire = t,
     d_pending_load_execute =
       (busy \<and> o_memory_start o' \<and> \<not> o_memory_write o' \<and> o_memory_reg_write o', o_memory_reg_index o'),
     d_pending_load_memory = (m_valid x \<and> \<not> m_write x \<and> m_reg_write x, m_reg_index x),
     d_pending_write_execute =
       (busy \<and> o_memory_start o' \<and> o_memory_post_reg_write o', o_memory_post_reg_index o'),
     d_pending_write_memory = (m_valid x \<and> m_post_reg_write x, m_post_reg_index x)\<rparr>"

text \<open>A final memory response fills the buffer, the buffer fills the retire latch.\<close>

definition mr_from_result :: "xm_reg \<Rightarrow> retire_reg \<Rightarrow> mr_reg" where
  "mr_from_result x res = \<lparr>mr_valid = True, mr_next_pc = r_next_pc res, mr_commit_next_pc = m_next_pc x,
     mr_reg_write = r_reg_write res, mr_reg_index = r_reg_index res, mr_reg_value = r_reg_value res,
     mr_aux_reg_write = r_aux_reg_write res, mr_aux_reg_index = r_aux_reg_index res,
     mr_aux_reg_value = r_aux_reg_value res, mr_commit_pc = m_commit_pc x,
     mr_flags_write = m_flags_write x, mr_flags_value = m_flags_value x\<rparr>"

definition retire_from_mr :: "mr_reg \<Rightarrow> retire_reg" where
  "retire_from_mr f = \<lparr>r_valid = True, r_reg_write = mr_reg_write f, r_reg_index = mr_reg_index f,
     r_reg_value = mr_reg_value f, r_aux_reg_write = mr_aux_reg_write f, r_aux_reg_index = mr_aux_reg_index f,
     r_aux_reg_value = mr_aux_reg_value f, r_flags_write = mr_flags_write f, r_flags_value = mr_flags_value f,
     r_cpu_control_write = False, r_cpu_control_value = 0, r_next_pc = mr_next_pc f, r_commit = True,
     r_commit_pc = mr_commit_pc f, r_halt = False, r_lockup = False, r_trap = False, r_trap_cause = 0\<rparr>"

definition memory_redirect :: "mr_reg \<Rightarrow> bool" where
  "memory_redirect f \<longleftrightarrow> mr_valid f \<and> mr_next_pc f \<noteq> mr_commit_next_pc f"

section \<open>Forwarded operands are current\<close>

text \<open>
  The register writes of the older instructions in the pipeline, oldest first: the retire
  latch, the result buffer, the memory operation in the memory stage (which will load \<open>v\<close>)
  and the instruction in the execute stage (which will load \<open>u\<close> if it is a memory operation).
  The next program counter each of them puts into R15 is not in the list: R15 is treated apart.
\<close>

definition retire_list :: "retire_reg \<Rightarrow> (reg_index \<times> u64) list" where
  "retire_list t = (if r_valid t \<and> r_reg_write t then [(r_reg_index t, r_reg_value t)] else []) @
     (if r_valid t \<and> r_aux_reg_write t then [(r_aux_reg_index t, r_aux_reg_value t)] else [])"

definition mr_list :: "mr_reg \<Rightarrow> (reg_index \<times> u64) list" where
  "mr_list f = (if mr_valid f then retire_list (retire_from_mr f) else [])"

definition xm_list :: "xm_reg \<Rightarrow> u64 \<Rightarrow> (reg_index \<times> u64) list" where
  "xm_list x v = (if m_valid x then stage_writes x v else [])"

definition execute_list :: "bool \<Rightarrow> exec_out \<Rightarrow> u64 \<Rightarrow> (reg_index \<times> u64) list" where
  "execute_list busy o' u =
     (if \<not> busy then []
      else if o_memory_start o' then stage_writes (xm_issue False 0 o') u
      else if o_reg_write o' then [(o_reg_index o', o_reg_value o')] else [])"

definition older_writes ::
  "bool \<Rightarrow> exec_out \<Rightarrow> xm_reg \<Rightarrow> mr_reg \<Rightarrow> retire_reg \<Rightarrow> u64 \<Rightarrow> u64 \<Rightarrow> (reg_index \<times> u64) list" where
  "older_writes busy o' x f t v u = retire_list t @ mr_list f @ xm_list x v @ execute_list busy o' u"

text \<open>A latch writes two different registers, and a store never loads a register.\<close>

definition ports_ok :: "exec_out \<Rightarrow> xm_reg \<Rightarrow> mr_reg \<Rightarrow> retire_reg \<Rightarrow> bool" where
  "ports_ok o' x f t \<longleftrightarrow>
     \<not> (o_memory_write o' \<and> o_memory_reg_write o') \<and> \<not> (m_valid x \<and> m_write x \<and> m_reg_write x) \<and>
     (mr_valid f \<and> mr_reg_write f \<and> mr_aux_reg_write f \<longrightarrow> mr_reg_index f \<noteq> mr_aux_reg_index f) \<and>
     (r_valid t \<and> r_reg_write t \<and> r_aux_reg_write t \<longrightarrow> r_reg_index t \<noteq> r_aux_reg_index t)"

lemma write_regs_map:
  "r \<noteq> 0 \<Longrightarrow> write_regs ws rs r = (case map_of (rev ws) r of Some v \<Rightarrow> v | None \<Rightarrow> rs r)"
proof (induction ws rule: rev_induct)
  case (snoc w ws)
  then show ?case by (cases w) (auto simp: write_regs_def write_port_def)
qed (simp add: write_regs_def)

lemma hazard_free: "\<not> hazard d p \<Longrightarrow> r \<noteq> 0 \<Longrightarrow> r = d_rd d \<or> r = d_rs1 d \<Longrightarrow> \<not> (fst p \<and> snd p = r)"
  by (auto simp: hazard_def)

lemma no_hazard_pending:
  assumes "\<not> load_use_hazard (wire_decode fd busy o' x f t)" and "ports_ok o' x f t"
    and "r = instruction_rd (fd_instruction fd) \<or> r = instruction_rs1 (fd_instruction fd)" and "r \<noteq> 0"
  shows "map_of (rev (xm_list x v)) r = None"
    and "busy \<Longrightarrow> o_memory_start o' \<Longrightarrow> map_of (rev (execute_list busy o' u)) r = None"
proof -
  let ?d = "wire_decode fd busy o' x f t"
  have r: "r = d_rd ?d \<or> r = d_rs1 ?d" using assms(3) by (simp add: wire_decode_def d_rd_def d_rs1_def)
  have h: "\<not> hazard ?d (d_pending_load_execute ?d)" "\<not> hazard ?d (d_pending_load_memory ?d)"
    "\<not> hazard ?d (d_pending_write_execute ?d)" "\<not> hazard ?d (d_pending_write_memory ?d)"
    using assms(1) by (simp_all add: load_use_hazard_def)
  note f = hazard_free [OF _ assms(4) r]
  have m: "m_valid x \<Longrightarrow> \<not> (m_reg_write x \<and> m_reg_index x = r)" "m_valid x \<Longrightarrow> \<not> (m_post_reg_write x \<and> m_post_reg_index x = r)"
    using f [OF h(2)] f [OF h(4)] assms(2) by (auto simp: wire_decode_def ports_ok_def)
  then show "map_of (rev (xm_list x v)) r = None"
    by (cases "m_valid x"; cases "m_reg_write x"; cases "m_post_reg_write x") (simp_all add: xm_list_def stage_writes_def)
  assume b: "busy" "o_memory_start o'"
  have e: "\<not> (o_memory_reg_write o' \<and> o_memory_reg_index o' = r)" "\<not> (o_memory_post_reg_write o' \<and> o_memory_post_reg_index o' = r)"
    using f [OF h(1)] f [OF h(3)] assms(2) b by (auto simp: wire_decode_def ports_ok_def)
  then show "map_of (rev (execute_list busy o' u)) r = None"
    using b by (cases "o_memory_reg_write o'"; cases "o_memory_post_reg_write o'")
      (simp_all add: execute_list_def stage_writes_def xm_issue_def)
qed

text \<open>
  Without a hazard, an operand other than R15 is forwarded as the older instructions leave it, in
  terms of their lists of register writes.
\<close>

lemma forwarded_operand:
  assumes "\<not> load_use_hazard (wire_decode fd busy o' x f t)" and "ports_ok o' x f t" and "rs 0 = 0"
    and "r = instruction_rd (fd_instruction fd) \<or> r = instruction_rs1 (fd_instruction fd)"
  shows "bypass (wire_decode fd busy o' x f t) rs r = write_regs (older_writes busy o' x f t v u) rs r"
proof (cases "r = 0")
  case True
  have "write_regs ws rs 0 = rs 0" for ws
    by (induction ws arbitrary: rs) (simp_all add: write_regs_def write_port_def split: prod.split)
  then show ?thesis using True assms(3) by (simp add: bypass_def Let_def)
next
  case False
  have x: "map_of (rev (xm_list x v)) r = None"
    and e: "busy \<Longrightarrow> o_memory_start o' \<Longrightarrow> map_of (rev (execute_list busy o' u)) r = None"
    using no_hazard_pending [OF assms(1,2,4) False] by blast+
  let ?E = "busy \<and> \<not> o_memory_start o' \<and> o_reg_write o' \<and> o_reg_index o' = r"
  let ?M1 = "mr_valid f \<and> mr_reg_write f \<and> mr_reg_index f = r"
  let ?M2 = "mr_valid f \<and> mr_aux_reg_write f \<and> mr_aux_reg_index f = r"
  let ?R1 = "r_valid t \<and> r_reg_write t \<and> r_reg_index t = r"
  let ?R2 = "r_valid t \<and> r_aux_reg_write t \<and> r_aux_reg_index t = r"
  have mr: "map_of (rev (mr_list f)) r =
      (if ?M1 then Some (mr_reg_value f) else if ?M2 then Some (mr_aux_reg_value f) else None)"
    using assms(2) by (auto simp: mr_list_def retire_list_def retire_from_mr_def ports_ok_def)
  have rt: "map_of (rev (retire_list t)) r =
      (if ?R1 then Some (r_reg_value t) else if ?R2 then Some (r_aux_reg_value t) else None)"
    using assms(2) by (auto simp: retire_list_def ports_ok_def)
  have ex: "map_of (rev (execute_list busy o' u)) r = (if ?E then Some (o_reg_value o') else None)"
    using e by (cases "busy \<and> o_memory_start o'") (auto simp: execute_list_def)
  have lhs: "bypass (wire_decode fd busy o' x f t) rs r =
      (if ?E then o_reg_value o' else if ?M1 then mr_reg_value f else if ?M2 then mr_aux_reg_value f
       else if ?R1 then r_reg_value t else if ?R2 then r_aux_reg_value t else rs r)"
    using False by (simp add: bypass_def wire_decode_def Let_def conj_ac)
  have rhs: "map_of (rev (older_writes busy o' x f t v u)) r =
      (if ?E then Some (o_reg_value o') else if ?M1 then Some (mr_reg_value f) else if ?M2 then Some (mr_aux_reg_value f)
       else if ?R1 then Some (r_reg_value t) else if ?R2 then Some (r_aux_reg_value t) else None)"
    unfolding older_writes_def rev_append map_of_append map_add_def ex x mr rt
    by (cases ?E; cases ?M1; cases ?M2; cases ?R1; cases ?R2; simp only: if_True if_False option.case simp_thms)
  show ?thesis
    unfolding write_regs_map [OF False] lhs rhs
    by (cases ?E; cases ?M1; cases ?M2; cases ?R1; cases ?R2; simp only: if_True if_False option.case simp_thms)
qed

section \<open>Forwarded flags\<close>

text \<open>
  The flags of the older instructions.  The stage has no hazard for flags: a successful
  store-conditional sets Z from the memory stage, and the instruction decoded while it is
  in the execute stage reads the flags from before it.
\<close>

definition older_flags :: "bool \<Rightarrow> exec_out \<Rightarrow> xm_reg \<Rightarrow> mr_reg \<Rightarrow> retire_reg \<Rightarrow> 3 word \<Rightarrow> 3 word" where
  "older_flags busy o' x f t fl =
     (let f1 = retire_flags t fl;
          f2 = (if mr_valid f then retire_flags (retire_from_mr f) f1 else f1);
          f3 = (if m_valid x \<and> m_flags_write x then m_flags_value x else f2)
      in if \<not> busy then f3
         else if o_memory_start o' then (if o_memory_flags_write o' then o_memory_flags_value o' else f3)
         else if o_flags_write o' then o_flags_value o' else f3)"

lemma flags_current:
  assumes "\<not> (m_valid x \<and> m_flags_write x)" and "\<not> (busy \<and> o_memory_start o' \<and> o_memory_flags_write o')"
  shows "bypass_flags (wire_decode fd busy o' x f t) fl = older_flags busy o' x f t fl"
  using assms by (auto simp: bypass_flags_def older_flags_def wire_decode_def retire_flags_def retire_stage_def
      retire_from_mr_def port_def Let_def)

text \<open>
  While a store-conditional that succeeded is in the execute stage, the v4 decode
  stage reports no hazard and forwards the old flags to the next instruction, although the store-
  conditional sets Z.
\<close>

lemma scr_flags_stale:
  "let o' = mem_request (M_Store_Cond a v) (exec_default i);
       d = wire_decode fd True o' (x\<lparr>m_valid := False\<rparr>) (f\<lparr>mr_valid := False\<rparr>) (t\<lparr>r_valid := False\<rparr>)
   in \<not> load_use_hazard d \<and> bypass_flags d fl = fl \<and>
      older_flags True o' (x\<lparr>m_valid := False\<rparr>) (f\<lparr>mr_valid := False\<rparr>) (t\<lparr>r_valid := False\<rparr>) fl =
        cat3 True (bit (x_flags i) 1) (bit (x_flags i) 2)"
  by (simp add: load_use_hazard_def hazard_def wire_decode_def bypass_flags_def older_flags_def
      retire_flags_def retire_stage_def port_def xm_simps Let_def)

text \<open>Latches filled by the stages satisfy \<open>ports_ok\<close>.\<close>

lemma ports_issue:
  "\<not> (o_memory_write o' \<and> o_memory_reg_write o') \<Longrightarrow> \<not> (m_write (xm_issue p pc o') \<and> m_reg_write (xm_issue p pc o'))"
  "\<not> (m_write (xm_chain p fl v x) \<and> m_reg_write (xm_chain p fl v x))"
  "\<not> (o_memory_write (mem_request op (exec_default i)) \<and> o_memory_reg_write (mem_request op (exec_default i)))"
  by (simp_all add: xm_issue_def xm_chain_def) (cases op; simp add: out_defs exec_default_def)

lemma ports_result:
  "mr_reg_write (mr_from_result x (ms_result x l)) \<and> mr_aux_reg_write (mr_from_result x (ms_result x l)) \<Longrightarrow>
     mr_reg_index (mr_from_result x (ms_result x l)) \<noteq> mr_aux_reg_index (mr_from_result x (ms_result x l))"
  "r_reg_write (retire_from_mr f) = mr_reg_write f" "r_aux_reg_write (retire_from_mr f) = mr_aux_reg_write f"
  "r_reg_index (retire_from_mr f) = mr_reg_index f" "r_aux_reg_index (retire_from_mr f) = mr_aux_reg_index f"
  by (auto simp: mr_from_result_def ms_result_def ms_result_ports_def retire_from_mr_def Let_def split: if_splits)

text \<open>Empty latches, for the examples.\<close>

definition xm_empty :: xm_reg where "xm_empty = (xm_issue False 0 (exec_default exec_sample))\<lparr>m_valid := False\<rparr>"
definition mr_empty :: mr_reg where
  "mr_empty = (mr_from_result xm_empty (retire_from_execute 0 (exec_default exec_sample)))\<lparr>mr_valid := False\<rparr>"

end
