(* ===== verification/Pipe_Lsu.thy ===== *)
theory Pipe_Lsu
  imports V3_Memory Bus
begin

text \<open>
  The load-store units of the v3 and v4 cores (\<open>v3/lsu.py\<close>, \<open>v4/lsu.py\<close>): an access of
  1, 2, 4 or 8 bytes at any address becomes one bus beat or two, guarded by a watchdog
  that turns a bus that never answers into an error response.  The v3 unit is the v4 unit
  that ignores the bus in the first cycle of a beat.
\<close>

section \<open>State and ports\<close>

datatype lsu_phase = LSU_IDLE | LSU_FIRST | LSU_SECOND

record lsu =
  phase :: lsu_phase
  latched_addr :: u64
  latched_width :: "4 word"
  latched_write :: bool
  latched_store_value :: u64
  first_data :: u64
  watchdog_counter :: nat

record lsu_in =
  request_valid :: bool
  request_addr :: u64
  request_width :: "4 word"
  request_write :: bool
  request_store_value :: u64
  bus_ack :: bool
  bus_err :: bool
  bus_dat_r :: u64

definition lsu_reset :: lsu where
  "lsu_reset = \<lparr>phase = LSU_IDLE, latched_addr = 0, latched_width = 0, latched_write = False,
     latched_store_value = 0, first_data = 0, watchdog_counter = 0\<rparr>"

definition lsu_active :: "('z) lsu_scheme \<Rightarrow> bool" where "lsu_active s \<longleftrightarrow> phase s \<noteq> LSU_IDLE"

definition lsu_base_sel :: "4 word \<Rightarrow> byte" where
  "lsu_base_sel w = (if w = 1 then 0x01 else if w = 2 then 0x03 else if w = 4 then 0x0F else 0xFF)"

definition lsu_off :: "('z) lsu_scheme \<Rightarrow> 3 word" where "lsu_off s = byte_offset (latched_addr s)"
definition lsu_sel :: "('z) lsu_scheme \<Rightarrow> byte" where "lsu_sel s = lsu_base_sel (latched_width s)"
definition lsu_split :: "('z) lsu_scheme \<Rightarrow> bool" where "lsu_split s = split_needed (lsu_sel s) (lsu_off s)"

definition lsu_bus :: "('z) lsu_scheme \<Rightarrow> bus_out" where
  "lsu_bus s =
     (let second = (phase s = LSU_SECOND); v = latched_store_value s in
      \<lparr>cyc = lsu_active s, we = (latched_write s \<and> lsu_active s),
       adr = (if second then line_base (latched_addr s) + 8 else line_base (latched_addr s)),
       sel = (if second then second_beat_sel (lsu_sel s) (lsu_off s) else first_beat_sel (lsu_sel s) (lsu_off s)),
       dat_w = (if second then second_beat_dat_w v (lsu_off s) else first_beat_dat_w v (lsu_off s))\<rparr>)"

text \<open>The watchdog of \<open>N\<close> cycles; \<open>N = 0\<close> leaves it out.\<close>

definition watchdog_fire :: "nat \<Rightarrow> ('z) lsu_scheme \<Rightarrow> bool" where
  "watchdog_fire N s \<longleftrightarrow> 0 < N \<and> lsu_active s \<and> watchdog_counter s = N"

definition effective_err :: "nat \<Rightarrow> lsu_in \<Rightarrow> ('z) lsu_scheme \<Rightarrow> bool" where
  "effective_err N i s \<longleftrightarrow> bus_err i \<or> watchdog_fire N s"

definition watchdog_next :: "nat \<Rightarrow> lsu_in \<Rightarrow> ('z) lsu_scheme \<Rightarrow> nat" where
  "watchdog_next N i s =
     (if 0 < N \<and> lsu_active s \<and> \<not> bus_ack i \<and> \<not> bus_err i \<and> \<not> watchdog_fire N s
      then watchdog_counter s + 1 else 0)"

definition lsu_load_value :: "lsu_in \<Rightarrow> ('z) lsu_scheme \<Rightarrow> u64" where
  "lsu_load_value i s =
     load_result (latched_width s)
       (if phase s = LSU_SECOND then combined_read_data (lsu_off s) (first_data s) (bus_dat_r i)
        else single_read_data (lsu_off s) (bus_dat_r i))"

text \<open>A beat that ends the access: acknowledged, and no second beat is needed.\<close>

definition last_beat :: "('z) lsu_scheme \<Rightarrow> bool" where
  "last_beat s \<longleftrightarrow> phase s = LSU_SECOND \<or> phase s = LSU_FIRST \<and> \<not> lsu_split s"

section \<open>The v4 unit\<close>

definition lsu_response_out :: "nat \<Rightarrow> lsu_in \<Rightarrow> lsu \<Rightarrow> lsu_response" where
  "lsu_response_out N i s =
     (let err = (lsu_active s \<and> effective_err N i s);
          done' = (\<not> err \<and> bus_ack i \<and> last_beat s)
      in \<lparr>l_request_ready = (phase s = LSU_IDLE), l_response_valid = (err \<or> done'), l_response_error = err,
          l_load_value = (if done' then lsu_load_value i s else 0)\<rparr>)"

definition lsu_accept :: "lsu_in \<Rightarrow> ('z) lsu_scheme \<Rightarrow> ('z) lsu_scheme" where
  "lsu_accept i s =
     s\<lparr>latched_addr := request_addr i, latched_width := request_width i, latched_write := request_write i,
       latched_store_value := request_store_value i, phase := LSU_FIRST\<rparr>"

definition lsu_tick :: "nat \<Rightarrow> lsu_in \<Rightarrow> lsu \<Rightarrow> lsu" where
  "lsu_tick N i s =
     (let s1 = (case phase s of
                  LSU_IDLE \<Rightarrow> if request_valid i then lsu_accept i s else s
                | LSU_FIRST \<Rightarrow>
                    (if effective_err N i s then s\<lparr>phase := LSU_IDLE\<rparr>
                     else if bus_ack i then
                       (if lsu_split s then s\<lparr>first_data := bus_dat_r i, phase := LSU_SECOND\<rparr>
                        else s\<lparr>phase := LSU_IDLE\<rparr>)
                     else s)
                | LSU_SECOND \<Rightarrow>
                    (if effective_err N i s then s\<lparr>phase := LSU_IDLE\<rparr>
                     else if bus_ack i then s\<lparr>phase := LSU_IDLE\<rparr>
                     else s))
      in s1\<lparr>watchdog_counter := watchdog_next N i s\<rparr>)"

section \<open>The v3 unit\<close>

record lsu3 = lsu +
  beat_started :: bool

definition lsu3_response_out :: "nat \<Rightarrow> lsu_in \<Rightarrow> lsu3 \<Rightarrow> lsu_response" where
  "lsu3_response_out N i s =
     (let err = (lsu_active s \<and> beat_started s \<and> effective_err N i s);
          done' = (\<not> err \<and> beat_started s \<and> bus_ack i \<and> last_beat s)
      in \<lparr>l_request_ready = (phase s = LSU_IDLE), l_response_valid = (err \<or> done'), l_response_error = err,
          l_load_value = (if done' then lsu_load_value i s else 0)\<rparr>)"

definition lsu3_tick :: "nat \<Rightarrow> lsu_in \<Rightarrow> lsu3 \<Rightarrow> lsu3" where
  "lsu3_tick N i s =
     (let s1 = (case phase s of
                  LSU_IDLE \<Rightarrow> if request_valid i then (lsu_accept i s)\<lparr>beat_started := False\<rparr> else s
                | LSU_FIRST \<Rightarrow>
                    (if \<not> beat_started s then s\<lparr>beat_started := True\<rparr>
                     else if effective_err N i s then s\<lparr>phase := LSU_IDLE\<rparr>
                     else if bus_ack i then
                       (if lsu_split s
                        then s\<lparr>first_data := bus_dat_r i, beat_started := False, phase := LSU_SECOND\<rparr>
                        else s\<lparr>phase := LSU_IDLE\<rparr>)
                     else s)
                | LSU_SECOND \<Rightarrow>
                    (if \<not> beat_started s then s\<lparr>beat_started := True\<rparr>
                     else if effective_err N i s then s\<lparr>phase := LSU_IDLE\<rparr>
                     else if bus_ack i then s\<lparr>phase := LSU_IDLE\<rparr>
                     else s))
      in s1\<lparr>watchdog_counter := watchdog_next N i s\<rparr>)"

text \<open>Without a watchdog the v3 unit is the v4 unit behind a bus masked in the first cycle of a beat.\<close>

definition mask_first_cycle :: "lsu3 \<Rightarrow> lsu_in \<Rightarrow> lsu_in" where
  "mask_first_cycle s i =
     (if lsu_active s \<and> \<not> beat_started s then i\<lparr>bus_ack := False, bus_err := False\<rparr> else i)"

lemmas lsu_defs = lsu_active_def lsu_off_def lsu_sel_def lsu_split_def lsu_bus_def watchdog_fire_def
  effective_err_def watchdog_next_def lsu_load_value_def last_beat_def lsu_accept_def

text \<open>
  Without a watchdog the v3 load-store unit is, state and response, the v4 unit on a
  bus that is masked in the first cycle of every beat.
\<close>

lemma lsu3_refines:
  "lsu.truncate (lsu3_tick 0 i s) = lsu_tick 0 (mask_first_cycle s i) (lsu.truncate s) \<and>
   lsu3_response_out 0 i s = lsu_response_out 0 (mask_first_cycle s i) (lsu.truncate s)"
proof
  show "lsu.truncate (lsu3_tick 0 i s) = lsu_tick 0 (mask_first_cycle s i) (lsu.truncate s)"
    by (cases "phase s"; simp add: lsu3_tick_def lsu_tick_def mask_first_cycle_def lsu_defs lsu.defs Let_def)
  show "lsu3_response_out 0 i s = lsu_response_out 0 (mask_first_cycle s i) (lsu.truncate s)"
    by (cases "phase s"; simp add: lsu3_response_out_def lsu_response_out_def mask_first_cycle_def lsu_defs lsu.defs Let_def)
qed

section \<open>An access and its answer\<close>

text \<open>
  \<open>lsu_serve\<close> runs the unit over the cycles after a request was accepted, with a memory
  behind the port, up to the response; \<open>honest\<close> says that acknowledged reads carry the
  memory's data.
\<close>

fun lsu_serve :: "nat \<Rightarrow> lsu_in list \<Rightarrow> lsu \<Rightarrow> memory \<Rightarrow> (lsu_response \<times> memory) option" where
  "lsu_serve N [] s m = None"
| "lsu_serve N (i # is) s m =
     (let r = lsu_response_out N i s; m' = bus_commit (bus_ack i) (lsu_bus s) m
      in if l_response_valid r then Some (r, m') else lsu_serve N is (lsu_tick N i s) m')"

fun honest :: "nat \<Rightarrow> lsu_in list \<Rightarrow> lsu \<Rightarrow> memory \<Rightarrow> bool" where
  "honest N [] s m = True"
| "honest N (i # is) s m \<longleftrightarrow>
     (bus_ack i \<longrightarrow> bus_dat_r i = bus_read m (adr (lsu_bus s))) \<and>
     honest N is (lsu_tick N i s) (bus_commit (bus_ack i) (lsu_bus s) m)"

text \<open>What the access in flight will have done to the memory, and the value it will return.\<close>

definition lsu_mem :: "lsu \<Rightarrow> memory \<Rightarrow> memory" where
  "lsu_mem s m =
     (if \<not> latched_write s then m
      else if phase s = LSU_SECOND then bus_write m (adr (lsu_bus s)) (sel (lsu_bus s)) (dat_w (lsu_bus s))
      else store_le (unat (latched_width s)) m (latched_addr s) (latched_store_value s))"

definition lsu_val :: "lsu \<Rightarrow> memory \<Rightarrow> u64" where
  "lsu_val s m =
     (if phase s = LSU_SECOND
      then load_result (latched_width s)
             (combined_read_data (lsu_off s) (first_data s) (bus_read m (line_base (latched_addr s) + 8)))
      else load_le (unat (latched_width s)) m (latched_addr s))"

definition lsu_flying :: "lsu \<Rightarrow> bool" where
  "lsu_flying s \<longleftrightarrow> lsu_active s \<and> access_width (latched_width s) \<and> (phase s = LSU_SECOND \<longrightarrow> lsu_split s)"

lemma lsu_base_sel_eq: "access_width w \<Longrightarrow> lsu_base_sel w = base_sel w"
  by (auto simp: access_width_def lsu_base_sel_def base_sel_def)

lemma lsu_beat:
  assumes "lsu_flying s" and "\<not> effective_err N i s"
    and "bus_ack i \<longrightarrow> bus_dat_r i = bus_read m (adr (lsu_bus s))"
  defines "m' \<equiv> bus_commit (bus_ack i) (lsu_bus s) m"
  shows "if l_response_valid (lsu_response_out N i s)
         then \<not> l_response_error (lsu_response_out N i s) \<and> m' = lsu_mem s m \<and>
              (\<not> latched_write s \<longrightarrow> l_load_value (lsu_response_out N i s) = lsu_val s m)
         else lsu_flying (lsu_tick N i s) \<and> lsu_mem (lsu_tick N i s) m' = lsu_mem s m \<and>
              latched_write (lsu_tick N i s) = latched_write s \<and>
              (\<not> latched_write s \<longrightarrow> lsu_val (lsu_tick N i s) m' = lsu_val s m)"
proof -
  have w: "access_width (latched_width s)" using assms(1) by (simp add: lsu_flying_def)
  note e = lsu_base_sel_eq [OF w]
  note fin = lsu_response_out_def lsu_mem_def lsu_val_def m'_def bus_commit_def Let_def
  consider (first) "phase s = LSU_FIRST" | (second) "phase s = LSU_SECOND"
    using assms(1) by (cases "phase s") (simp_all add: lsu_flying_def lsu_active_def)
  then show ?thesis
  proof cases
    case first
    show ?thesis
    proof (cases "bus_ack i \<and> lsu_split s")
      case True
      then show ?thesis
        using first assms(1-3) split_store_correct [OF w, of m "latched_addr s" "latched_store_value s"]
          combined_load_correct [OF w, of "latched_addr s" m]
        by (simp add: fin lsu_tick_def lsu_defs lsu_flying_def e)
    next
      case False
      then show ?thesis
        using first assms(1-3) single_store_correct [OF w, of "latched_addr s" m "latched_store_value s"]
          single_load_correct [OF w, of "latched_addr s" m]
        by (auto simp: fin lsu_tick_def lsu_defs lsu_flying_def e)
    qed
  next
    case second
    then show ?thesis
      using assms(1-3) by (auto simp: fin lsu_tick_def lsu_defs lsu_flying_def)
  qed
qed

lemma lsu_error_read: "\<not> latched_write s \<Longrightarrow> bus_commit a (lsu_bus s) m = m"
  by (simp add: bus_commit_def lsu_bus_def Let_def)

lemma lsu_serve_flying:
  assumes "lsu_serve N is s m = Some (r, m')" and "honest N is s m" and "lsu_flying s" and "\<not> l_response_error r"
  shows "m' = lsu_mem s m \<and> (\<not> latched_write s \<longrightarrow> l_load_value r = lsu_val s m)"
  using assms
proof (induction "is" arbitrary: s m)
  case (Cons i "is")
  show ?case
  proof (cases "effective_err N i s")
    case True
    then have "lsu_active s" "l_response_valid (lsu_response_out N i s)" "l_response_error (lsu_response_out N i s)"
      using Cons.prems(3) by (simp_all add: lsu_flying_def lsu_response_out_def Let_def)
    then show ?thesis using Cons.prems by (simp add: Let_def)
  next
    case False
    have beat: "bus_ack i \<longrightarrow> bus_dat_r i = bus_read m (adr (lsu_bus s))" using Cons.prems(2) by simp
    note b = lsu_beat [OF Cons.prems(3) False beat]
    show ?thesis
    proof (cases "l_response_valid (lsu_response_out N i s)")
      case True
      then show ?thesis using b Cons.prems(1) by (simp add: Let_def)
    next
      case f: False
      then show ?thesis
        using b Cons.prems Cons.IH [of "lsu_tick N i s" "bus_commit (bus_ack i) (lsu_bus s) m"] by (simp add: Let_def)
    qed
  qed
qed simp

text \<open>An accepted request that is answered without error did what the bytes of memory say.\<close>

text \<open>
  Property C35: An access accepted by the v4 load-store unit and answered without error has
  performed exactly the little-endian store, or returned exactly the little-endian load, of its
  width at its address, whether it took one beat or two and however long the bus made it wait.
\<close>

lemma lsu_access_correct:
  assumes "phase s = LSU_IDLE" and "request_valid i" and "access_width (request_width i)"
    and "lsu_serve N is (lsu_tick N i s) m = Some (r, m')" and "honest N is (lsu_tick N i s) m"
    and "\<not> l_response_error r"
  shows "if request_write i
         then m' = store_le (unat (request_width i)) m (request_addr i) (request_store_value i)
         else m' = m \<and> l_load_value r = load_le (unat (request_width i)) m (request_addr i)"
proof -
  let ?s = "lsu_tick N i s"
  have f: "phase ?s = LSU_FIRST" "latched_addr ?s = request_addr i" "latched_width ?s = request_width i"
    "latched_write ?s = request_write i" "latched_store_value ?s = request_store_value i"
    using assms(1,2) by (simp_all add: lsu_tick_def lsu_accept_def Let_def)
  have "lsu_flying ?s" using f assms(3) by (simp add: lsu_flying_def lsu_active_def)
  from lsu_serve_flying [OF assms(4,5) this assms(6)] f show ?thesis by (simp add: lsu_mem_def lsu_val_def)
qed

section \<open>The watchdog bounds every access\<close>

definition lsu_rank :: "nat \<Rightarrow> lsu \<Rightarrow> nat" where
  "lsu_rank N s =
     (case phase s of LSU_IDLE \<Rightarrow> 0
      | LSU_FIRST \<Rightarrow> (N - watchdog_counter s) + N + 2
      | LSU_SECOND \<Rightarrow> (N - watchdog_counter s) + 1)"

lemma lsu_rank_falls:
  assumes "lsu_active s" and "watchdog_counter s \<le> N" and "0 < N"
    and "\<not> l_response_valid (lsu_response_out N i s)"
  shows "lsu_active (lsu_tick N i s) \<and> watchdog_counter (lsu_tick N i s) \<le> N \<and>
    lsu_rank N (lsu_tick N i s) < lsu_rank N s"
  using assms by (cases "phase s")
    (auto simp: lsu_response_out_def lsu_tick_def lsu_defs lsu_rank_def Let_def split: if_splits)

lemma lsu_serve_rank:
  "lsu_active s \<Longrightarrow> watchdog_counter s \<le> N \<Longrightarrow> 0 < N \<Longrightarrow> lsu_rank N s \<le> length is \<Longrightarrow>
     lsu_serve N is s m \<noteq> None"
proof (induction "is" arbitrary: s m)
  case Nil
  then show ?case by (cases "phase s") (auto simp: lsu_rank_def lsu_active_def)
next
  case (Cons i "is")
  then show ?case
    using lsu_rank_falls [OF Cons.prems(1-3), of i] by (auto simp: Let_def intro!: Cons.IH)
qed

text \<open>Whatever the bus does, an accepted request is answered within twice the timeout.\<close>

text \<open>
  Property C36: With a bus timeout of N > 0 cycles the load-store unit answers every accepted
  request within 2 (N + 1) cycles, whatever the bus does.
\<close>

lemma lsu_always_answers:
  assumes "phase s = LSU_IDLE" and "request_valid i" and "0 < N" and "2 * (N + 1) \<le> length is"
  shows "lsu_serve N is (lsu_tick N i s) m \<noteq> None"
  by (rule lsu_serve_rank)
    (use assms in \<open>simp_all add: lsu_tick_def lsu_accept_def lsu_active_def watchdog_next_def lsu_rank_def Let_def\<close>)

section \<open>Examples\<close>

definition lsu_request :: "u64 \<Rightarrow> 4 word \<Rightarrow> lsu_in" where
  "lsu_request a w = \<lparr>request_valid = True, request_addr = a, request_width = w, request_write = False,
     request_store_value = 0, bus_ack = False, bus_err = False, bus_dat_r = 0\<rparr>"

definition lsu_answer :: "bool \<Rightarrow> u64 \<Rightarrow> lsu_in" where
  "lsu_answer ack d = \<lparr>request_valid = False, request_addr = 0, request_width = 0, request_write = False,
     request_store_value = 0, bus_ack = ack, bus_err = False, bus_dat_r = d\<rparr>"

lemma zero_memory: "load_le n (\<lambda>_. 0) a = 0" "bus_read (\<lambda>_. 0) a = 0"
  by (rule bit_word_eqI, simp add: bit_load_le) (rule bit_word_eqI, simp add: bit_bus_read)

lemma lsu_access_correct_witness:
  "\<exists>r m'. lsu_serve 0 [lsu_answer False 0, lsu_answer True 0] (lsu_tick 0 (lsu_request 0x10 8) lsu_reset) (\<lambda>_. 0) = Some (r, m') \<and>
     m' = (\<lambda>_. 0) \<and> l_load_value r = load_le 8 (\<lambda>_. 0) 0x10"
proof -
  let ?m = "\<lambda>_. 0 :: byte" and ?is = "[lsu_answer False 0, lsu_answer True 0]"
  let ?s = "lsu_tick 0 (lsu_request 0x10 8) lsu_reset"
  have sp: "\<not> lsu_split ?s"
    by (simp add: lsu_defs lsu_tick_def lsu_reset_def lsu_request_def Let_def lsu_base_sel_def bslice_def
        byte_offset_def split_needed_def second_beat_sel_def shifted_sel_def)
  let ?r = "\<lparr>l_request_ready = False, l_response_valid = True, l_response_error = False,
    l_load_value = lsu_load_value (lsu_answer True 0) ?s\<rparr>"
  have ph: "phase ?s = LSU_FIRST" "\<not> latched_write ?s"
    by (simp_all add: lsu_tick_def lsu_reset_def lsu_request_def lsu_accept_def Let_def)
  then have wait: "lsu_tick 0 (lsu_answer False 0) ?s = ?s"
    by (simp add: lsu_tick_def lsu_answer_def effective_err_def watchdog_fire_def watchdog_next_def Let_def lsu_reset_def)
  have serve: "lsu_serve 0 ?is ?s ?m = Some (?r, ?m)"
    using ph sp wait
    by (simp add: lsu_response_out_def lsu_answer_def effective_err_def watchdog_fire_def last_beat_def lsu_active_def
        bus_commit_def lsu_bus_def Let_def)
  have "honest 0 ?is ?s ?m" using wait by (simp add: lsu_answer_def zero_memory bus_commit_def)
  from lsu_access_correct [OF _ _ _ serve this] show ?thesis
    using serve by (simp add: lsu_reset_def lsu_request_def access_width_def)
qed

lemma lsu_always_answers_witness:
  "lsu_serve 1 (replicate 4 (lsu_answer False 0)) (lsu_tick 1 (lsu_request 0x10 8) lsu_reset) (\<lambda>_. 0) \<noteq> None"
  by (rule lsu_always_answers) (simp_all add: lsu_reset_def lsu_request_def)

end
