(* ===== verification/V4_Store_Buffer.thy ===== *)
theory V4_Store_Buffer
  imports V4_Decode Pipe_Lsu
begin

text \<open>
  The two-entry store buffer of the v4 core (\<open>v4/core.py\<close>, the \<open>sb0_*\<close>, \<open>sb1_*\<close> and
  \<open>storebuf_*\<close> signals) and the dispatch of the instruction in the execute slot to the
  memory latch, the buffer, a forwarded load or the retire latch.  The buffer is a queue:
  memory with the waiting stores replayed on it is the memory the program sees, a store
  joins it when it is dispatched, draining leaves it alone, and a forwarded load reads it.
\<close>

section \<open>The contract of a write queue\<close>

locale write_queue =
  fixes contents :: "'s \<Rightarrow> 'e list"
    and step :: "'e option \<Rightarrow> bool \<Rightarrow> 's \<Rightarrow> 's"
    and full :: "'s \<Rightarrow> bool"
    and invar :: "'s \<Rightarrow> bool"
    and perform :: "'e \<Rightarrow> 'm \<Rightarrow> 'm"
  assumes contents_step: "invar s \<Longrightarrow> (push \<noteq> None \<longrightarrow> \<not> full s) \<Longrightarrow> (pop \<longrightarrow> contents s \<noteq> []) \<Longrightarrow>
      contents (step push pop s) = (if pop then tl (contents s) else contents s) @ (case push of None \<Rightarrow> [] | Some e \<Rightarrow> [e])"
    and invar_step: "invar s \<Longrightarrow> (push \<noteq> None \<longrightarrow> \<not> full s) \<Longrightarrow> (pop \<longrightarrow> contents s \<noteq> []) \<Longrightarrow> invar (step push pop s)"
begin

definition replay :: "'s \<Rightarrow> 'm \<Rightarrow> 'm" where "replay s m = fold perform (contents s) m"

text \<open>Popping performs the oldest entry on memory; pushing adds the entry to the replayed memory.\<close>

lemma replay_step:
  assumes "invar s" and "push \<noteq> None \<longrightarrow> \<not> full s" and "pop \<longrightarrow> contents s \<noteq> []"
  shows "replay (step push pop s) (if pop then perform (hd (contents s)) m else m) =
     (case push of None \<Rightarrow> replay s m | Some e \<Rightarrow> perform e (replay s m))"
proof -
  have "fold perform (if pop then tl (contents s) else contents s) (if pop then perform (hd (contents s)) m else m)
      = replay s m"
    using assms(3) by (cases "contents s") (auto simp: replay_def)
  then show ?thesis
    unfolding replay_def contents_step [OF assms] by (simp split: option.split)
qed

text \<open>Legal sequences of pushes and pops, and the entries popped along them.\<close>

fun legal :: "('e option \<times> bool) list \<Rightarrow> 's \<Rightarrow> bool" where
  "legal [] s = True"
| "legal ((push, pop) # ops) s =
     ((push \<noteq> None \<longrightarrow> \<not> full s) \<and> (pop \<longrightarrow> contents s \<noteq> []) \<and> legal ops (step push pop s))"

fun popped :: "('e option \<times> bool) list \<Rightarrow> 's \<Rightarrow> 'e list" where
  "popped [] s = []"
| "popped ((push, pop) # ops) s =
     (if pop then [hd (contents s)] else []) @ popped ops (step push pop s)"

fun steps :: "('e option \<times> bool) list \<Rightarrow> 's \<Rightarrow> 's" where
  "steps [] s = s"
| "steps ((push, pop) # ops) s = steps ops (step push pop s)"

fun pushed :: "('e option \<times> bool) list \<Rightarrow> 'e list" where
  "pushed [] = []"
| "pushed ((push, pop) # ops) = (case push of None \<Rightarrow> [] | Some e \<Rightarrow> [e]) @ pushed ops"

lemma fifo_order:
  "invar s \<Longrightarrow> legal ops s \<Longrightarrow> popped ops s @ contents (steps ops s) = contents s @ pushed ops"
proof (induction ops arbitrary: s)
  case (Cons op ops)
  obtain push pop where op: "op = (push, pop)" by (cases op)
  then have l: "push \<noteq> None \<longrightarrow> \<not> full s" "pop \<longrightarrow> contents s \<noteq> []" "legal ops (step push pop s)"
    using Cons.prems(2) by simp_all
  from Cons.IH [OF invar_step [OF Cons.prems(1) l(1,2)] l(3)]
  show ?case using l(2) by (cases "contents s") (auto simp: op contents_step [OF Cons.prems(1) l(1,2)])
qed simp

end

section \<open>State\<close>

record sb_entry =
  e_addr :: u64
  e_width :: "4 word"
  e_value :: u64

record storebuf =
  sb0_valid :: bool
  sb0_started :: bool
  sb0 :: sb_entry
  sb1_valid :: bool
  sb1_started :: bool
  sb1 :: sb_entry

definition storebuf_reset :: storebuf where
  "storebuf_reset = \<lparr>sb0_valid = False, sb0_started = False, sb0 = \<lparr>e_addr = 0, e_width = 0, e_value = 0\<rparr>,
     sb1_valid = False, sb1_started = False, sb1 = \<lparr>e_addr = 0, e_width = 0, e_value = 0\<rparr>\<rparr>"

section \<open>Draining\<close>

definition storebuf_any_valid :: "storebuf \<Rightarrow> bool" where
  "storebuf_any_valid s \<longleftrightarrow> sb0_valid s \<or> sb1_valid s"

definition storebuf_drain_sb1 :: "storebuf \<Rightarrow> bool" where
  "storebuf_drain_sb1 s \<longleftrightarrow> \<not> sb0_valid s \<and> sb1_valid s"

definition storebuf_active_started :: "storebuf \<Rightarrow> bool" where
  "storebuf_active_started s = (if storebuf_drain_sb1 s then sb1_started s else sb0_started s)"

definition storebuf_active :: "storebuf \<Rightarrow> sb_entry" where
  "storebuf_active s = (if storebuf_drain_sb1 s then sb1 s else sb0 s)"

text \<open>
  \<open>bus_taken\<close> stands for \<open>walk_active\<close> or \<open>vector_load_active\<close>, \<open>sb_failed\<close> for the bus errors
  that lock the core up (\<open>fetch_error\<close>, \<open>paging_without_mmu\<close>, \<open>memory_error\<close>,
  \<open>storebuf_response_error\<close>).
\<close>

record sb_in =
  sb_push :: "sb_entry option"
  bus_taken :: bool
  sb_failed :: bool
  lsu_request_ready :: bool
  lsu_response_valid :: bool

definition storebuf_request_valid :: "sb_in \<Rightarrow> storebuf \<Rightarrow> bool" where
  "storebuf_request_valid i s \<longleftrightarrow> storebuf_any_valid s \<and> \<not> storebuf_active_started s \<and> \<not> bus_taken i"

definition storebuf_request_start :: "sb_in \<Rightarrow> storebuf \<Rightarrow> bool" where
  "storebuf_request_start i s \<longleftrightarrow> storebuf_request_valid i s \<and> lsu_request_ready i"

definition storebuf_response_valid :: "sb_in \<Rightarrow> storebuf \<Rightarrow> bool" where
  "storebuf_response_valid i s \<longleftrightarrow> storebuf_any_valid s \<and> storebuf_active_started s \<and> lsu_response_valid i"

text \<open>
  One edge: dispatch of a store, start of a request, removal of the answered entry; a
  failure drops both entries.
\<close>

definition storebuf_push :: "sb_entry \<Rightarrow> storebuf \<Rightarrow> storebuf" where
  "storebuf_push e s =
     (if \<not> sb0_valid s then s\<lparr>sb0_valid := True, sb0_started := False, sb0 := e\<rparr>
      else s\<lparr>sb1_valid := True, sb1_started := False, sb1 := e\<rparr>)"

definition storebuf_start :: "storebuf \<Rightarrow> storebuf \<Rightarrow> storebuf" where
  "storebuf_start s t = (if storebuf_drain_sb1 s then t\<lparr>sb1_started := True\<rparr> else t\<lparr>sb0_started := True\<rparr>)"

definition storebuf_pop :: "storebuf \<Rightarrow> storebuf \<Rightarrow> storebuf" where
  "storebuf_pop s t =
     (if storebuf_drain_sb1 s then t\<lparr>sb1_valid := False, sb1_started := False\<rparr>
      else if sb1_valid s
      then t\<lparr>sb0_valid := True, sb0_started := sb1_started s, sb0 := sb1 s, sb1_valid := False, sb1_started := False\<rparr>
      else t\<lparr>sb0_valid := False, sb0_started := False\<rparr>)"

definition storebuf_tick :: "sb_in \<Rightarrow> storebuf \<Rightarrow> storebuf" where
  "storebuf_tick i s =
     (let t = (case sb_push i of None \<Rightarrow> s | Some e \<Rightarrow> storebuf_push e s);
          t = (if storebuf_request_start i s then storebuf_start s t else t);
          t = (if storebuf_response_valid i s then storebuf_pop s t else t)
      in if sb_failed i then t\<lparr>sb0_valid := False, sb0_started := False, sb1_valid := False, sb1_started := False\<rparr>
         else t)"

section \<open>The buffer is a write queue\<close>

definition storebuf_queue :: "storebuf \<Rightarrow> sb_entry list" where
  "storebuf_queue s = (if sb0_valid s then [sb0 s] else []) @ (if sb1_valid s then [sb1 s] else [])"

text \<open>Only the entry being drained is started; registers of invalid entries are not.\<close>

definition storebuf_inv :: "storebuf \<Rightarrow> bool" where
  "storebuf_inv s \<longleftrightarrow> (sb1_started s \<longrightarrow> storebuf_drain_sb1 s) \<and> (sb0_started s \<longrightarrow> sb0_valid s)"

definition perform_store :: "sb_entry \<Rightarrow> memory \<Rightarrow> memory" where
  "perform_store e m = store_le (unat (e_width e)) m (e_addr e) (e_value e)"

text \<open>The inputs of a cycle that pushes and pops as told; every other cycle is one of these.\<close>

definition sb_step :: "sb_entry option \<Rightarrow> bool \<Rightarrow> storebuf \<Rightarrow> storebuf" where
  "sb_step push pop s =
     (let t = (case push of None \<Rightarrow> s | Some e \<Rightarrow> storebuf_push e s) in if pop then storebuf_pop s t else t)"

lemma storebuf_start_queue: "storebuf_queue (storebuf_start s t) = storebuf_queue t"
  by (simp add: storebuf_start_def storebuf_queue_def)

lemma tick_sb_step:
  "\<not> sb_failed i \<Longrightarrow> storebuf_queue (storebuf_tick i s) = storebuf_queue (sb_step (sb_push i) (storebuf_response_valid i s) s)"
proof (cases "storebuf_response_valid i s")
  case True
  moreover from this have "\<not> storebuf_request_start i s"
    by (simp add: storebuf_request_start_def storebuf_request_valid_def storebuf_response_valid_def)
  moreover assume "\<not> sb_failed i"
  ultimately show ?thesis by (simp add: storebuf_tick_def sb_step_def Let_def)
next
  case False
  moreover assume "\<not> sb_failed i"
  ultimately show ?thesis by (simp add: storebuf_tick_def sb_step_def Let_def storebuf_start_queue)
qed

interpretation sq: write_queue storebuf_queue sb_step sb1_valid storebuf_inv perform_store
proof
  fix s :: storebuf and push :: "sb_entry option" and pop :: bool
  assume a: "storebuf_inv s" "push \<noteq> None \<longrightarrow> \<not> sb1_valid s" "pop \<longrightarrow> storebuf_queue s \<noteq> []"
  show "storebuf_queue (sb_step push pop s) =
      (if pop then tl (storebuf_queue s) else storebuf_queue s) @ (case push of None \<Rightarrow> [] | Some e \<Rightarrow> [e])"
    using a by (cases "sb0_valid s"; cases "sb1_valid s"; cases push; cases pop)
      (simp_all add: sb_step_def storebuf_push_def storebuf_pop_def storebuf_queue_def storebuf_drain_sb1_def)
  show "storebuf_inv (sb_step push pop s)"
    using a by (cases "sb0_valid s"; cases "sb1_valid s"; cases push; cases pop)
      (simp_all add: sb_step_def storebuf_push_def storebuf_pop_def storebuf_queue_def storebuf_drain_sb1_def storebuf_inv_def)
qed

lemma storebuf_inv_tick:
  assumes "storebuf_inv s" and "sb_push i \<noteq> None \<longrightarrow> \<not> sb1_valid s"
  shows "storebuf_inv (storebuf_tick i s)"
  using assms
  by (cases "sb0_valid s"; cases "sb1_valid s"; cases "sb_push i")
    (auto simp: storebuf_tick_def storebuf_push_def storebuf_pop_def storebuf_start_def storebuf_drain_sb1_def
      storebuf_inv_def storebuf_request_start_def storebuf_request_valid_def storebuf_response_valid_def
      storebuf_active_started_def storebuf_any_valid_def Let_def)

section \<open>Dispatch of the execute slot\<close>

text \<open>
  What the dispatch conditions read besides the buffer: the decode-execute latch, the
  execute outputs, paging, the walker and vector units, the memory latch and the
  memory-result buffer.
\<close>

record dispatch_in =
  di_de_valid :: bool
  di_out :: exec_out
  di_paging :: bool
  di_walk :: bool
  di_vector :: bool
  di_xm_valid :: bool
  di_mr :: mr_reg

definition storebuf_load_from :: "exec_out \<Rightarrow> bool \<Rightarrow> sb_entry \<Rightarrow> bool" where
  "storebuf_load_from e v b \<longleftrightarrow> v \<and>
     (bslice 3 (o_memory_addr e) :: 61 word) = bslice 3 (e_addr b) \<and>
     (bslice 0 (o_memory_addr e) :: 3 word) = bslice 0 (e_addr b) \<and>
     o_memory_width_bytes e \<le> e_width b"

definition storebuf_load_from_sb0 :: "exec_out \<Rightarrow> storebuf \<Rightarrow> bool" where
  "storebuf_load_from_sb0 e s = storebuf_load_from e (sb0_valid s) (sb0 s)"
definition storebuf_load_from_sb1 :: "exec_out \<Rightarrow> storebuf \<Rightarrow> bool" where
  "storebuf_load_from_sb1 e s = storebuf_load_from e (sb1_valid s) (sb1 s)"

definition storebuf_load_match :: "exec_out \<Rightarrow> storebuf \<Rightarrow> bool" where
  "storebuf_load_match e s \<longleftrightarrow>
     storebuf_load_from_sb1 e s \<or> (\<not> storebuf_load_from_sb1 e s \<and> storebuf_load_from_sb0 e s)"

definition storebuf_load_source_value :: "exec_out \<Rightarrow> storebuf \<Rightarrow> u64" where
  "storebuf_load_source_value e s = (if storebuf_load_from_sb1 e s then e_value (sb1 s) else e_value (sb0 s))"

definition storebuf_load_value :: "exec_out \<Rightarrow> storebuf \<Rightarrow> u64" where
  "storebuf_load_value e s =
     (let v = storebuf_load_source_value e s; w = o_memory_width_bytes e in
      if w = 1 then v AND 0xFF else if w = 2 then v AND 0xFFFF else if w = 4 then v AND 0xFFFFFFFF else v)"

definition execute_to_storebuf :: "dispatch_in \<Rightarrow> storebuf \<Rightarrow> bool" where
  "execute_to_storebuf d s \<longleftrightarrow>
     di_de_valid d \<and> o_memory_start (di_out d) \<and> o_memory_write (di_out d) \<and> \<not> o_memory_flags_write (di_out d) \<and>
     \<not> o_memory_reg_write (di_out d) \<and> \<not> o_memory_post_reg_write (di_out d) \<and> \<not> o_memory_chain_store (di_out d) \<and>
     \<not> o_memory_set_reservation (di_out d) \<and> \<not> di_paging d \<and> \<not> di_walk d \<and> \<not> di_vector d \<and>
     \<not> sb1_valid s \<and> \<not> di_xm_valid d \<and> \<not> mr_valid (di_mr d) \<and> \<not> memory_redirect (di_mr d)"

definition execute_to_storebuf_load :: "dispatch_in \<Rightarrow> storebuf \<Rightarrow> bool" where
  "execute_to_storebuf_load d s \<longleftrightarrow>
     di_de_valid d \<and> o_memory_start (di_out d) \<and> \<not> o_memory_write (di_out d) \<and> o_memory_reg_write (di_out d) \<and>
     \<not> o_memory_post_reg_write (di_out d) \<and> \<not> o_memory_chain_store (di_out d) \<and> \<not> di_paging d \<and>
     storebuf_any_valid s \<and> storebuf_load_match (di_out d) s \<and>
     \<not> di_xm_valid d \<and> \<not> mr_valid (di_mr d) \<and> \<not> memory_redirect (di_mr d)"

definition execute_to_memory :: "dispatch_in \<Rightarrow> storebuf \<Rightarrow> bool" where
  "execute_to_memory d s \<longleftrightarrow>
     di_de_valid d \<and> o_memory_start (di_out d) \<and> \<not> execute_to_storebuf d s \<and> \<not> execute_to_storebuf_load d s \<and>
     \<not> storebuf_any_valid s \<and> \<not> di_xm_valid d \<and> \<not> memory_redirect (di_mr d)"

definition execute_to_retire :: "dispatch_in \<Rightarrow> bool" where
  "execute_to_retire d \<longleftrightarrow>
     di_de_valid d \<and> \<not> o_memory_start (di_out d) \<and> \<not> di_xm_valid d \<and> \<not> mr_valid (di_mr d) \<and> \<not> memory_redirect (di_mr d)"

definition execute_slot_available :: "dispatch_in \<Rightarrow> storebuf \<Rightarrow> bool" where
  "execute_slot_available d s \<longleftrightarrow>
     \<not> di_de_valid d \<or> execute_to_memory d s \<or> execute_to_storebuf d s \<or> execute_to_storebuf_load d s \<or> execute_to_retire d"

definition execute_entry :: "exec_out \<Rightarrow> sb_entry" where
  "execute_entry e = \<lparr>e_addr = o_memory_addr e, e_width = o_memory_width_bytes e, e_value = o_memory_store_value e\<rparr>"

text \<open>The retire latch after a forwarded load and after a store that joined the buffer.\<close>

definition retire_from_storebuf_load :: "u64 \<Rightarrow> exec_out \<Rightarrow> storebuf \<Rightarrow> retire_reg" where
  "retire_from_storebuf_load pc e s =
     \<lparr>r_valid = True, r_reg_write = o_memory_reg_write e, r_reg_index = o_memory_reg_index e,
      r_reg_value = storebuf_load_value e s, r_aux_reg_write = False, r_aux_reg_index = 0, r_aux_reg_value = 0,
      r_flags_write = o_memory_flags_write e, r_flags_value = o_memory_flags_value e,
      r_cpu_control_write = False, r_cpu_control_value = 0, r_next_pc = o_memory_next_pc e,
      r_commit = True, r_commit_pc = pc, r_halt = False, r_lockup = False, r_trap = False, r_trap_cause = 0\<rparr>"

definition retire_from_storebuf :: "u64 \<Rightarrow> exec_out \<Rightarrow> retire_reg" where
  "retire_from_storebuf pc e =
     \<lparr>r_valid = True, r_reg_write = False, r_reg_index = 0, r_reg_value = 0,
      r_aux_reg_write = False, r_aux_reg_index = 0, r_aux_reg_value = 0,
      r_flags_write = o_memory_flags_write e, r_flags_value = o_memory_flags_value e,
      r_cpu_control_write = False, r_cpu_control_value = 0, r_next_pc = o_memory_next_pc e,
      r_commit = True, r_commit_pc = pc, r_halt = False, r_lockup = False, r_trap = False, r_trap_cause = 0\<rparr>"

lemmas dispatch_defs = execute_to_storebuf_def execute_to_storebuf_load_def execute_to_memory_def
  execute_to_retire_def execute_slot_available_def

text \<open>An instruction is dispatched to at most one place.\<close>

text \<open>
  The v4 core dispatches the instruction in its execute slot to at most one of the
  memory latch, the store buffer, a forwarded load and the retire latch.
\<close>

lemma dispatch_exclusive:
  "\<not> (execute_to_storebuf d s \<and> execute_to_storebuf_load d s) \<and>
   \<not> (execute_to_storebuf d s \<and> execute_to_memory d s) \<and>
   \<not> (execute_to_storebuf_load d s \<and> execute_to_memory d s) \<and>
   \<not> (execute_to_retire d \<and> (execute_to_storebuf d s \<or> execute_to_storebuf_load d s \<or> execute_to_memory d s))"
  by (auto simp: dispatch_defs)

text \<open>With the memory side idle and the buffer drained, every instruction leaves the slot.\<close>

lemma dispatch_progress:
  assumes "\<not> di_xm_valid d" and "\<not> mr_valid (di_mr d)" and "\<not> storebuf_any_valid s"
  shows "execute_slot_available d s"
  using assms by (auto simp: dispatch_defs memory_redirect_def)

text \<open>Accesses that reach the memory latch find the buffer empty: memory is the replayed memory.\<close>

lemma execute_to_memory_drained: "execute_to_memory d s \<Longrightarrow> sq.replay s m = m"
  by (simp add: execute_to_memory_def storebuf_any_valid_def sq.replay_def storebuf_queue_def)

section \<open>Stores\<close>

text \<open>
  One edge of the buffer, with the memory change of the load-store unit: the answered entry
  is performed.  The replayed memory gains the dispatched store and is otherwise unchanged.
\<close>

definition sb_dispatch :: "dispatch_in \<Rightarrow> sb_in \<Rightarrow> storebuf \<Rightarrow> sb_in" where
  "sb_dispatch d i s = i\<lparr>sb_push := (if execute_to_storebuf d s then Some (execute_entry (di_out d)) else None)\<rparr>"

definition drained_memory :: "sb_in \<Rightarrow> storebuf \<Rightarrow> memory \<Rightarrow> memory" where
  "drained_memory i s m = (if storebuf_response_valid i s then perform_store (storebuf_active s) m else m)"

lemma storebuf_active_hd: "storebuf_any_valid s \<Longrightarrow> storebuf_active s = hd (storebuf_queue s) \<and> storebuf_queue s \<noteq> []"
  by (auto simp: storebuf_any_valid_def storebuf_active_def storebuf_drain_sb1_def storebuf_queue_def)

lemma storebuf_replay_tick:
  assumes "storebuf_inv s" and "\<not> sb_failed i"
  shows "sq.replay (storebuf_tick (sb_dispatch d i s) s) (drained_memory i s m) =
     (if execute_to_storebuf d s then perform_store (execute_entry (di_out d)) (sq.replay s m) else sq.replay s m)"
proof -
  let ?i = "sb_dispatch d i s"
  have nf: "\<not> sb_failed ?i" using assms(2) by (simp add: sb_dispatch_def)
  have resp: "storebuf_response_valid ?i s = storebuf_response_valid i s"
    by (simp add: sb_dispatch_def storebuf_response_valid_def)
  have ne: "storebuf_response_valid i s \<longrightarrow> storebuf_queue s \<noteq> []"
    using storebuf_active_hd [of s] by (simp add: storebuf_response_valid_def)
  have room: "sb_push ?i \<noteq> None \<longrightarrow> \<not> sb1_valid s"
    by (simp add: sb_dispatch_def execute_to_storebuf_def)
  have m: "drained_memory i s m =
      (if storebuf_response_valid i s then perform_store (hd (storebuf_queue s)) m else m)"
    using storebuf_active_hd [of s] by (simp add: drained_memory_def storebuf_response_valid_def)
  have "sq.replay (storebuf_tick ?i s) (drained_memory i s m) =
      sq.replay (sb_step (sb_push ?i) (storebuf_response_valid i s) s) (drained_memory i s m)"
    using tick_sb_step [of ?i s] nf by (simp add: sq.replay_def resp)
  also have "\<dots> = (case sb_push ?i of None \<Rightarrow> sq.replay s m | Some e \<Rightarrow> perform_store e (sq.replay s m))"
    unfolding m by (rule sq.replay_step [OF assms(1) room ne])
  finally show ?thesis by (simp add: sb_dispatch_def)
qed

lemma storebuf_dispatch_inv: "storebuf_inv s \<Longrightarrow> storebuf_inv (storebuf_tick (sb_dispatch d i s) s)"
  by (rule storebuf_inv_tick) (simp_all add: sb_dispatch_def execute_to_storebuf_def)

section \<open>Forwarded loads\<close>

lemma storebuf_load_from_addr:
  assumes "storebuf_load_from e v b"
  shows "o_memory_addr e = e_addr b"
proof (rule bit_word_eqI)
  fix n assume "n < LENGTH(64)"
  then have n: "n < 64" by simp
  have lo: "bit (bslice 0 (o_memory_addr e) :: 3 word) n = bit (bslice 0 (e_addr b) :: 3 word) n"
    and hi: "bit (bslice 3 (o_memory_addr e) :: 61 word) (n - 3) = bit (bslice 3 (e_addr b) :: 61 word) (n - 3)"
    using assms by (simp_all add: storebuf_load_from_def)
  have "\<not> n < 3 \<Longrightarrow> n - 3 < 61" using n by simp
  with lo hi show "bit (o_memory_addr e) n = bit (e_addr b) n"
    by (cases "n < 3") (simp_all add: bit_bslice)
qed

lemma load_after_wider_store:
  assumes "n \<le> k" and "k \<le> 8"
  shows "load_le n (store_le k m a v) a = take_bit (8 * n) v"
proof (rule bit_word_eqI)
  fix j assume "j < LENGTH(64)"
  then have j: "j < 64" by simp
  then have u: "unat (of_nat (j div 8) :: u64) = j div 8" by (simp add: unat_of_nat)
  have "j < 8 * n \<Longrightarrow> j div 8 < k" using assms by simp
  then show "bit (load_le n (store_le k m a v) a) j = bit (take_bit (8 * n) v) j"
    using j u by (auto simp: bit_load_le bit_take_bit_iff store_le_def Let_def bit_bslice)
qed

text \<open>No byte of an \<open>n\<close>-byte access at \<open>a\<close> is written by the entry.\<close>

definition sb_disjoint :: "sb_entry \<Rightarrow> u64 \<Rightarrow> nat \<Rightarrow> bool" where
  "sb_disjoint b a n \<longleftrightarrow> (\<forall>j < n. unat (e_width b) \<le> unat (a + of_nat j - e_addr b))"

lemma load_disjoint_store:
  assumes "sb_disjoint b a n"
  shows "load_le n (perform_store b m) a = load_le n m a"
proof (rule bit_word_eqI)
  fix j assume "j < LENGTH(64)"
  have "j < 8 * n \<Longrightarrow> j div 8 < n" by simp
  then have "j < 8 * n \<Longrightarrow> perform_store b m (a + of_nat (j div 8)) = m (a + of_nat (j div 8))"
    using assms by (simp add: sb_disjoint_def perform_store_def store_le_outside)
  then show "bit (load_le n (perform_store b m) a) j = bit (load_le n m a) j"
    by (auto simp: bit_load_le)
qed

lemma storebuf_load_value_take:
  assumes "access_width (o_memory_width_bytes e)"
  shows "storebuf_load_value e s = take_bit (8 * unat (o_memory_width_bytes e)) (storebuf_load_source_value e s)"
proof -
  have "take_bit 64 v = v" for v :: u64 by (rule bit_word_eqI) (simp add: bit_take_bit_iff)
  then show ?thesis using assms
    by (auto simp: storebuf_load_value_def access_width_def Let_def take_bit_eq_mask mask_eq_exp_minus_1)
qed

text \<open>
  A forwarded load returns what the replayed memory holds, provided the newer entry, when
  the older one is the source, does not write any byte of the access.
\<close>

text \<open>
  Property C30: A load forwarded from the store buffer returns what the memory with all waiting
  stores performed holds, provided that, when the older entry is the source, the newer one writes
  none of the bytes read.
\<close>

lemma storebuf_forwarding:
  assumes match: "storebuf_load_match e s"
    and width: "access_width (o_memory_width_bytes e)"
    and bound: "\<forall>b\<in>set (storebuf_queue s). unat (e_width b) \<le> 8"
    and newer: "sb1_valid s \<Longrightarrow> \<not> storebuf_load_from_sb1 e s \<Longrightarrow>
        sb_disjoint (sb1 s) (o_memory_addr e) (unat (o_memory_width_bytes e))"
  shows "storebuf_load_value e s = load_le (unat (o_memory_width_bytes e)) (sq.replay s m) (o_memory_addr e)"
proof (cases "storebuf_load_from_sb1 e s")
  case True
  then have from_entry: "storebuf_load_from e (sb1_valid s) (sb1 s)" by (simp only: storebuf_load_from_sb1_def)
  have a: "o_memory_addr e = e_addr (sb1 s)" using from_entry by (rule storebuf_load_from_addr)
  have v: "sb1_valid s" and w: "o_memory_width_bytes e \<le> e_width (sb1 s)"
    using from_entry by (simp_all add: storebuf_load_from_def)
  have "unat (o_memory_width_bytes e) \<le> unat (e_width (sb1 s))" "unat (e_width (sb1 s)) \<le> 8"
    using w bound v by (simp_all add: word_le_nat_alt storebuf_queue_def)
  then have "load_le (unat (o_memory_width_bytes e)) (perform_store (sb1 s) m') (o_memory_addr e) =
      take_bit (8 * unat (o_memory_width_bytes e)) (e_value (sb1 s))" for m'
    unfolding a perform_store_def by (rule load_after_wider_store)
  then show ?thesis using True v
    by (simp add: storebuf_load_value_take [OF width] storebuf_load_source_value_def sq.replay_def storebuf_queue_def)
next
  case False
  then have f: "storebuf_load_from_sb0 e s" using match by (simp add: storebuf_load_match_def)
  then have from_entry: "storebuf_load_from e (sb0_valid s) (sb0 s)" by (simp only: storebuf_load_from_sb0_def)
  have a: "o_memory_addr e = e_addr (sb0 s)" using from_entry by (rule storebuf_load_from_addr)
  have v: "sb0_valid s" and w: "o_memory_width_bytes e \<le> e_width (sb0 s)"
    using from_entry by (simp_all add: storebuf_load_from_def)
  have "unat (o_memory_width_bytes e) \<le> unat (e_width (sb0 s))" "unat (e_width (sb0 s)) \<le> 8"
    using w bound v by (simp_all add: word_le_nat_alt storebuf_queue_def)
  then have "load_le (unat (o_memory_width_bytes e)) (perform_store (sb0 s) m) (o_memory_addr e) =
      take_bit (8 * unat (o_memory_width_bytes e)) (e_value (sb0 s))"
    unfolding a perform_store_def by (rule load_after_wider_store)
  then show ?thesis using False v newer load_disjoint_store
    by (simp add: storebuf_load_value_take [OF width] storebuf_load_source_value_def sq.replay_def storebuf_queue_def)
qed

text \<open>
  Without that proviso forwarding is wrong: the older entry is the source although the newer
  one has overwritten part of it.
\<close>

definition push_cycle :: "sb_entry \<Rightarrow> sb_in" where
  "push_cycle b = \<lparr>sb_push = Some b, bus_taken = True, sb_failed = False, lsu_request_ready = False, lsu_response_valid = False\<rparr>"

text \<open>
  Without that proviso forwarding is wrong: after an 8-byte store at 0x100 and a
  4-byte store at 0x104 an 8-byte load at 0x100 is answered with the first store alone, although
  memory will hold bytes of the second.
\<close>

lemma forwarding_misses_newer_store:
  "let s = storebuf_tick (push_cycle \<lparr>e_addr = 0x104, e_width = 4, e_value = v2\<rparr>)
             (storebuf_tick (push_cycle \<lparr>e_addr = 0x100, e_width = 8, e_value = v1\<rparr>) storebuf_reset);
       e = o'\<lparr>o_memory_addr := 0x100, o_memory_width_bytes := 8\<rparr>
   in storebuf_load_match e s \<and> storebuf_load_value e s = v1 \<and>
      bit (load_le 8 (sq.replay s m) 0x100) 32 = bit v2 0"
proof -
  let ?s = "storebuf_tick (push_cycle \<lparr>e_addr = 0x104, e_width = 4, e_value = v2\<rparr>)
              (storebuf_tick (push_cycle \<lparr>e_addr = 0x100, e_width = 8, e_value = v1\<rparr>) storebuf_reset)"
  let ?ld = "o'\<lparr>o_memory_addr := 0x100, o_memory_width_bytes := 8\<rparr>"
  let ?e0 = "\<lparr>e_addr = 0x100, e_width = 8, e_value = v1\<rparr>" and ?e1 = "\<lparr>e_addr = 0x104, e_width = 4, e_value = v2\<rparr>"
  have st: "sb0_valid ?s" "sb0 ?s = ?e0" "sb1_valid ?s" "sb1 ?s = ?e1"
    by (simp_all add: push_cycle_def storebuf_tick_def storebuf_push_def storebuf_reset_def Let_def
        storebuf_request_start_def storebuf_request_valid_def storebuf_response_valid_def)
  have lo: "(bslice 0 (0x104 :: u64) :: 3 word) = 4" "(bslice 0 (0x100 :: u64) :: 3 word) = 0"
    "(bslice 3 (0x100 :: u64) :: 61 word) = 32" by (simp_all add: bslice_def)
  have "\<not> storebuf_load_from_sb1 ?ld ?s" "storebuf_load_from_sb0 ?ld ?s"
    by (simp_all add: storebuf_load_from_sb1_def storebuf_load_from_sb0_def storebuf_load_from_def st lo)
  moreover have "bit (load_le 8 (sq.replay ?s m) 0x100) 32 = bit v2 0"
    by (simp add: bit_load_le sq.replay_def storebuf_queue_def st perform_store_def store_le_def Let_def bit_bslice)
  ultimately show ?thesis
    by (simp add: Let_def storebuf_load_match_def storebuf_load_value_def storebuf_load_source_value_def st)
qed

section \<open>Draining ends\<close>

text \<open>
  A waiting store is handed to the load-store unit as soon as that is ready and the bus is
  not taken, and its answer removes it; each answer shortens the queue by one.
\<close>

lemma storebuf_drains:
  assumes inv: "storebuf_inv s" and ne: "storebuf_any_valid s" and np: "sb_push i = None" "\<not> sb_failed i"
  shows "(storebuf_active_started s \<longrightarrow> lsu_response_valid i \<longrightarrow>
            storebuf_queue (storebuf_tick i s) = tl (storebuf_queue s)) \<and>
         (\<not> storebuf_active_started s \<longrightarrow> lsu_request_ready i \<longrightarrow> \<not> bus_taken i \<longrightarrow>
            storebuf_active_started (storebuf_tick i s) \<and> storebuf_queue (storebuf_tick i s) = storebuf_queue s)"
  using assms
  by (cases "sb0_valid s"; cases "sb1_valid s"; cases "sb0_started s"; cases "sb1_started s")
    (simp_all add: storebuf_tick_def storebuf_pop_def storebuf_start_def storebuf_drain_sb1_def
      storebuf_inv_def storebuf_request_start_def storebuf_request_valid_def storebuf_response_valid_def
      storebuf_active_started_def storebuf_any_valid_def storebuf_queue_def Let_def)

section \<open>Program order\<close>

text \<open>Edges of the buffer with the memory behind the load-store unit, and the stores dispatched along them.\<close>

fun sb_run :: "(dispatch_in \<times> sb_in) list \<Rightarrow> storebuf \<times> memory \<Rightarrow> storebuf \<times> memory" where
  "sb_run [] sm = sm"
| "sb_run ((d, i) # xs) (s, m) = sb_run xs (storebuf_tick (sb_dispatch d i s) s, drained_memory i s m)"

fun sb_dispatched :: "(dispatch_in \<times> sb_in) list \<Rightarrow> storebuf \<Rightarrow> sb_entry list" where
  "sb_dispatched [] s = []"
| "sb_dispatched ((d, i) # xs) s =
     (if execute_to_storebuf d s then [execute_entry (di_out d)] else []) @
     sb_dispatched xs (storebuf_tick (sb_dispatch d i s) s)"

lemma sb_run_replay:
  "storebuf_inv s \<Longrightarrow> (\<forall>(d, i)\<in>set xs. \<not> sb_failed i) \<Longrightarrow> sb_run xs (s, m) = (s', m') \<Longrightarrow>
     sq.replay s' m' = fold perform_store (sb_dispatched xs s) (sq.replay s m)"
proof (induction xs arbitrary: s m)
  case (Cons x xs)
  obtain d i where x: "x = (d, i)" by (cases x)
  have nf: "\<not> sb_failed i" using Cons.prems(2) by (simp add: x)
  have "sq.replay s' m' = fold perform_store (sb_dispatched xs (storebuf_tick (sb_dispatch d i s) s))
      (sq.replay (storebuf_tick (sb_dispatch d i s) s) (drained_memory i s m))"
    using Cons.prems by (intro Cons.IH) (simp_all add: x storebuf_dispatch_inv)
  then show ?case by (simp add: x storebuf_replay_tick [OF Cons.prems(1) nf])
qed simp

text \<open>
  Property C29: After any cycles from reset without a bus failure, memory with the waiting store-
  buffer entries replayed is the initial memory with all dispatched stores performed in program
  order; once the buffer is empty, memory itself is.
\<close>

lemma storebuf_program_order:
  assumes "\<forall>(d, i)\<in>set xs. \<not> sb_failed i" and "sb_run xs (storebuf_reset, m) = (s, m')"
  shows "sq.replay s m' = fold perform_store (sb_dispatched xs storebuf_reset) m \<and>
     (\<not> storebuf_any_valid s \<longrightarrow> m' = fold perform_store (sb_dispatched xs storebuf_reset) m)"
proof -
  have "storebuf_inv storebuf_reset" by (simp add: storebuf_inv_def storebuf_reset_def)
  from sb_run_replay [OF this assms] have r: "sq.replay s m' = fold perform_store (sb_dispatched xs storebuf_reset) m"
    by (simp add: sq.replay_def storebuf_queue_def storebuf_reset_def)
  moreover have "\<not> storebuf_any_valid s \<Longrightarrow> sq.replay s m' = m'"
    by (simp add: sq.replay_def storebuf_queue_def storebuf_any_valid_def)
  ultimately show ?thesis by auto
qed

text \<open>Examples: two stores dispatched and the first one drained, and a load that reads the second.\<close>

definition dispatch_sample :: "u64 \<Rightarrow> 4 word \<Rightarrow> u64 \<Rightarrow> dispatch_in" where
  "dispatch_sample a w v = \<lparr>di_de_valid = True, di_out = out_store a w v (exec_default exec_sample), di_paging = False,
     di_walk = False, di_vector = False, di_xm_valid = False, di_mr = mr_empty\<rparr>"

definition sb_idle :: sb_in where
  "sb_idle = \<lparr>sb_push = None, bus_taken = False, sb_failed = False, lsu_request_ready = True, lsu_response_valid = False\<rparr>"

lemma storebuf_program_order_witness:
  "\<exists>s m'. sb_run [(dispatch_sample 0x10 8 1, sb_idle), (dispatch_sample 0x18 4 2, sb_idle)] (storebuf_reset, \<lambda>_. 0) = (s, m') \<and>
     sq.replay s m' = fold perform_store
       (sb_dispatched [(dispatch_sample 0x10 8 1, sb_idle), (dispatch_sample 0x18 4 2, sb_idle)] storebuf_reset) (\<lambda>_. 0)"
proof -
  let ?xs = "[(dispatch_sample 0x10 8 1, sb_idle), (dispatch_sample 0x18 4 2, sb_idle)]"
  obtain s m' where r: "sb_run ?xs (storebuf_reset, \<lambda>_. 0) = (s, m')" by force
  have "\<forall>(d, i)\<in>set ?xs. \<not> sb_failed i" by (simp add: sb_idle_def)
  from storebuf_program_order [OF this r] r show ?thesis by blast
qed

lemma storebuf_forwarding_witness:
  "let s = storebuf_push \<lparr>e_addr = 0x10, e_width = 8, e_value = 7\<rparr> storebuf_reset;
       e = out_load 0x10 4 1 (exec_default exec_sample)
   in storebuf_load_value e s = load_le (unat (4 :: 4 word)) (sq.replay s (\<lambda>_. 0)) 0x10"
proof -
  let ?s = "storebuf_push \<lparr>e_addr = 0x10, e_width = 8, e_value = 7\<rparr> storebuf_reset"
  let ?e = "out_load 0x10 4 1 (exec_default exec_sample)"
  have st: "sb0_valid ?s" "\<not> sb1_valid ?s" "sb0 ?s = \<lparr>e_addr = 0x10, e_width = 8, e_value = 7\<rparr>"
    by (simp_all add: storebuf_push_def storebuf_reset_def)
  have le: "(4 :: 4 word) \<le> 8" by simp
  have "storebuf_load_match ?e ?s"
    using st le by (simp add: storebuf_load_match_def storebuf_load_from_sb0_def storebuf_load_from_def out_load_def)
  moreover have "access_width (o_memory_width_bytes ?e)" by (simp add: out_load_def access_width_def)
  moreover have "\<forall>b\<in>set (storebuf_queue ?s). unat (e_width b) \<le> 8"
    by (simp add: storebuf_queue_def st)
  ultimately have "storebuf_load_value ?e ?s =
      load_le (unat (o_memory_width_bytes ?e)) (sq.replay ?s (\<lambda>_. 0)) (o_memory_addr ?e)"
    by (rule storebuf_forwarding) (simp add: st)
  then show ?thesis by (simp add: out_load_def Let_def)
qed

end
