(* ===== verification/V3_Cache.thy ===== *)
theory V3_Cache
  imports Tlb Byte_Lanes
begin

text \<open>
  The line cache of the v3 and v4 cores (\<open>v3/cache.py\<close>): a direct-mapped array of 64-bit
  lines with the full line number as tag, written through by store updates.  A second
  contract extends \<open>translation_cache\<close> with invalidation and in-place update; the cache
  meets it, and so it stays coherent with a memory that receives the same stores.
\<close>

section \<open>The contract of a write-through cache\<close>

locale write_through_cache = translation_cache lookup flush fill invar
  for lookup :: "'t \<Rightarrow> 'v \<Rightarrow> 'e option" and flush :: "'t \<Rightarrow> 't" and fill :: "'v \<Rightarrow> 'e \<Rightarrow> 't \<Rightarrow> 't"
    and invar :: "'t \<Rightarrow> bool" +
  fixes invalidate :: "'v \<Rightarrow> 't \<Rightarrow> 't"
    and update :: "'v \<Rightarrow> ('e \<Rightarrow> 'e) \<Rightarrow> 't \<Rightarrow> 't"
  assumes lookup_invalidate: "invar t \<Longrightarrow> lookup (invalidate v t) v = None"
    and lookup_invalidate_other: "invar t \<Longrightarrow> v \<noteq> w \<Longrightarrow> lookup (invalidate v t) w = lookup t w"
    and lookup_update: "invar t \<Longrightarrow> lookup (update v f t) v = map_option f (lookup t v)"
    and lookup_update_other: "invar t \<Longrightarrow> v \<noteq> w \<Longrightarrow> lookup (update v f t) w = lookup t w"
    and invar_invalidate: "invar t \<Longrightarrow> invar (invalidate v t)"
    and invar_update: "invar t \<Longrightarrow> invar (update v f t)"
begin

text \<open>A store to \<open>v\<close> changes the backing store from \<open>R\<close> to \<open>R'\<close>, at \<open>v\<close> only.\<close>

lemma coherent_update:
  assumes "coherent R t" and "\<And>e. R v e \<Longrightarrow> R' v (f e)" and "\<And>w e. w \<noteq> v \<Longrightarrow> R w e \<Longrightarrow> R' w e"
  shows "coherent R' (update v f t)"
  unfolding coherent_def
proof (intro conjI allI impI)
  from assms(1) have inv: "invar t" and R: "\<And>w e. lookup t w = Some e \<Longrightarrow> R w e" by (auto simp: coherent_def)
  show "invar (update v f t)" using inv by (rule invar_update)
  fix w e assume "lookup (update v f t) w = Some e"
  then show "R' w e"
    using assms(2,3) R by (cases "w = v") (auto simp: lookup_update [OF inv] lookup_update_other [OF inv])
qed

lemma coherent_invalidate:
  assumes "coherent R t" and "\<And>w e. w \<noteq> v \<Longrightarrow> R w e \<Longrightarrow> R' w e"
  shows "coherent R' (invalidate v t)"
  unfolding coherent_def
proof (intro conjI allI impI)
  from assms(1) have inv: "invar t" and R: "\<And>w e. lookup t w = Some e \<Longrightarrow> R w e" by (auto simp: coherent_def)
  show "invar (invalidate v t)" using inv by (rule invar_invalidate)
  fix w e assume "lookup (invalidate v t) w = Some e"
  then show "R' w e"
    using assms(2) R by (cases "w = v") (auto simp: lookup_invalidate [OF inv] lookup_invalidate_other [OF inv])
qed

end

section \<open>State and operations\<close>

type_synonym line_number = "61 word"

record line_cache =
  cache_valid :: "nat \<Rightarrow> bool"
  cache_tag :: "nat \<Rightarrow> line_number"
  cache_line :: "nat \<Rightarrow> u64"

definition cache_reset :: line_cache where
  "cache_reset = \<lparr>cache_valid = (\<lambda>_. False), cache_tag = (\<lambda>_. 0), cache_line = (\<lambda>_. 0)\<rparr>"

definition line_of :: "u64 \<Rightarrow> line_number" where "line_of addr = bslice 3 addr"

definition cache_index :: "nat \<Rightarrow> line_number \<Rightarrow> nat" where
  "cache_index index_bits line = unat (take_bit index_bits line)"

definition cache_lookup_hit :: "nat \<Rightarrow> line_cache \<Rightarrow> u64 \<Rightarrow> bool" where
  "cache_lookup_hit ib c addr =
     (let i = cache_index ib (line_of addr) in cache_valid c i \<and> cache_tag c i = line_of addr)"

definition cache_lookup_data :: "nat \<Rightarrow> line_cache \<Rightarrow> u64 \<Rightarrow> u64" where
  "cache_lookup_data ib c addr = cache_line c (cache_index ib (line_of addr))"

definition cache_flush_all :: "line_cache \<Rightarrow> line_cache" where
  "cache_flush_all c = c\<lparr>cache_valid := (\<lambda>_. False)\<rparr>"

definition cache_invalidate :: "nat \<Rightarrow> line_number \<Rightarrow> line_cache \<Rightarrow> line_cache" where
  "cache_invalidate ib line c =
     (let i = cache_index ib line in
      if cache_valid c i \<and> cache_tag c i = line then c\<lparr>cache_valid := (cache_valid c)(i := False)\<rparr> else c)"

text \<open>The bytes selected by \<open>sel\<close> come from the store, the others from the line.\<close>

definition merge_bytes :: "byte \<Rightarrow> u64 \<Rightarrow> u64 \<Rightarrow> u64" where
  "merge_bytes sel new old =
     fold (\<lambda>i v. v OR push_bit (8 * i) (ucast (bslice (8 * i) (if bit sel i then new else old) :: byte)))
       [0 ..< 8] 0"

definition cache_update :: "nat \<Rightarrow> line_number \<Rightarrow> (u64 \<Rightarrow> u64) \<Rightarrow> line_cache \<Rightarrow> line_cache" where
  "cache_update ib line f c =
     (let i = cache_index ib line in
      if cache_valid c i \<and> cache_tag c i = line
      then c\<lparr>cache_line := (cache_line c)(i := f (cache_line c i))\<rparr> else c)"

definition cache_fill :: "nat \<Rightarrow> line_number \<Rightarrow> u64 \<Rightarrow> line_cache \<Rightarrow> line_cache" where
  "cache_fill ib line d c =
     (let i = cache_index ib line in
      \<lparr>cache_valid = (cache_valid c)(i := True), cache_tag = (cache_tag c)(i := line),
       cache_line = (cache_line c)(i := d)\<rparr>)"

text \<open>The command ports in one cycle, and the edge: flush, invalidate, update, fill, in this priority.\<close>

record cache_cmd =
  cmd_flush_all :: bool
  cmd_invalidate :: "u64 option"
  cmd_store_update :: "(u64 \<times> byte \<times> u64) option"
  cmd_fill :: "(u64 \<times> u64) option"

definition cache_tick :: "nat \<Rightarrow> cache_cmd \<Rightarrow> line_cache \<Rightarrow> line_cache" where
  "cache_tick ib k c =
     (if cmd_flush_all k then cache_flush_all c
      else case cmd_invalidate k of Some a \<Rightarrow> cache_invalidate ib (line_of a) c
      | None \<Rightarrow>
        (case cmd_store_update k of Some (a, sel, dat) \<Rightarrow> cache_update ib (line_of a) (merge_bytes sel dat) c
         | None \<Rightarrow>
           (case cmd_fill k of Some (a, d) \<Rightarrow> cache_fill ib (line_of a) d c | None \<Rightarrow> c)))"

section \<open>The line cache meets the contract\<close>

definition cache_lookup :: "nat \<Rightarrow> line_cache \<Rightarrow> line_number \<Rightarrow> u64 option" where
  "cache_lookup ib c line =
     (let i = cache_index ib line in
      if cache_valid c i \<and> cache_tag c i = line then Some (cache_line c i) else None)"

lemma cache_lookup_ports:
  "cache_lookup ib c (line_of addr) =
     (if cache_lookup_hit ib c addr then Some (cache_lookup_data ib c addr) else None)"
  by (simp add: cache_lookup_def cache_lookup_hit_def cache_lookup_data_def Let_def)

interpretation lc: write_through_cache "cache_lookup ib" cache_flush_all "cache_fill ib" "\<lambda>_. True"
  "cache_invalidate ib" "cache_update ib" for ib
  by unfold_locales
    (auto simp: cache_lookup_def cache_flush_all_def cache_fill_def cache_invalidate_def cache_update_def Let_def
      split: if_splits)

section \<open>Coherence with memory\<close>

definition backs :: "memory \<Rightarrow> line_number \<Rightarrow> u64 \<Rightarrow> bool" where
  "backs m line d \<longleftrightarrow> d = bus_read m (push_bit 3 (ucast line))"

definition cache_coherent :: "nat \<Rightarrow> line_cache \<Rightarrow> memory \<Rightarrow> bool" where
  "cache_coherent ib c m \<longleftrightarrow>
     (\<forall>line d. cache_lookup ib c line = Some d \<longrightarrow> d = bus_read m (push_bit 3 (ucast line)))"

lemma cache_coherent_iff: "cache_coherent ib c m \<longleftrightarrow> lc.coherent ib (backs m) c"
  by (simp add: cache_coherent_def lc.coherent_def backs_def)

lemma bit_merge_upto:
  "n \<le> 8 \<Longrightarrow>
   bit (fold (\<lambda>i v. v OR push_bit (8 * i) (ucast (bslice (8 * i) (if bit sel i then new else (old :: u64)) :: byte)))
       [0 ..< n] (0 :: u64)) k \<longleftrightarrow> k < 8 * n \<and> bit (if bit sel (k div 8) then new else old) k"
proof (induction n)
  case 0
  show ?case by simp
next
  case (Suc n)
  let ?w = "if bit sel n then new else old :: u64"
  have new: "bit (push_bit (8 * n) (ucast (bslice (8 * n) ?w :: byte)) :: u64) k \<longleftrightarrow>
      k < 64 \<and> 8 * n \<le> k \<and> k < 8 * n + 8 \<and> bit (?w :: u64) k"
    by (auto simp: bit_push_bit_iff bit_unsigned_iff bit_bslice simp del: if_split)
  have d: "8 * n \<le> k \<Longrightarrow> k < 8 * n + 8 \<Longrightarrow> k div 8 = n" by (simp add: div_nat_eqI)
  have bound: "bit (?w :: u64) k \<Longrightarrow> k < 64" by (rule bit_imp_le_length [where 'a = 64, simplified])
  have "bit (fold (\<lambda>i v. v OR push_bit (8 * i) (ucast (bslice (8 * i) (if bit sel i then new else old) :: byte)))
       [0 ..< Suc n] (0 :: u64)) k \<longleftrightarrow>
      (k < 8 * n \<and> bit (if bit sel (k div 8) then new else old) k) \<or>
      (k < 64 \<and> 8 * n \<le> k \<and> k < 8 * n + 8 \<and> bit ?w k)"
    using Suc by (simp only: upt_Suc_append le0 fold_append fold.simps comp_def id_def bit_or_iff new)
  also have "\<dots> \<longleftrightarrow> k < 8 * Suc n \<and> bit (if bit sel (k div 8) then new else old) k"
    using d bound by (cases "k < 8 * n") auto
  finally show ?case .
qed

lemma bit_merge_bytes:
  "bit (merge_bytes sel new old) k \<longleftrightarrow> k < 64 \<and> bit (if bit sel (k div 8) then new else old) k"
  unfolding merge_bytes_def using bit_merge_upto [of 8 sel new old k] by simp

lemma bit_line_base: "bit (line_base a) n \<longleftrightarrow> 3 \<le> n \<and> bit a n"
  unfolding line_base_push by (auto simp: bit_simps dest: bit_imp_le_length)

lemma line_base_add: "j < 8 \<Longrightarrow> line_base (line_base a + of_nat j) = line_base a"
proof -
  assume j: "j < 8"
  have bj: "bit (of_nat j :: u64) n \<Longrightarrow> n < 3" for n
  proof -
    assume "bit (of_nat j :: u64) n"
    then have "bit j n" by (simp add: bit_of_nat_iff)
    moreover have "take_bit 3 j = j" using j by (simp add: take_bit_eq_mod)
    ultimately show "n < 3" by (metis bit_take_bit_iff)
  qed
  have bl: "bit (line_base a) n \<Longrightarrow> 3 \<le> n" for n
    by (simp add: bit_line_base)
  have "line_base a + of_nat j = line_base a OR of_nat j"
    by (rule disjunctive_add) (meson bj bl not_le)
  moreover have "line_base (line_base a OR of_nat j) = line_base a"
  proof (rule bit_word_eqI)
    fix n
    show "bit (line_base (line_base a OR of_nat j)) n = bit (line_base a) n"
      unfolding bit_line_base bit_or_iff using bj [of n] by auto
  qed
  ultimately show ?thesis by simp
qed

lemma bus_read_write:
  "bus_read (bus_write m adr sel dat) adr' =
     (if line_base adr' = line_base adr then merge_bytes sel dat (bus_read m adr') else bus_read m adr')"
proof (rule bit_word_eqI)
  fix k assume "k < LENGTH(64)"
  then have k: "k < 64" and j: "k div 8 < 8" by simp_all
  let ?x = "line_base adr' + of_nat (k div 8)"
  have u: "unat (of_nat (k div 8) :: u64) = k div 8" using j by (simp add: unat_of_nat)
  show "bit (bus_read (bus_write m adr sel dat) adr') k =
      bit (if line_base adr' = line_base adr then merge_bytes sel dat (bus_read m adr') else bus_read m adr') k"
  proof (cases "line_base adr' = line_base adr")
    case True
    have "8 * (k div 8) + k mod 8 = k" by simp
    then show ?thesis
      using True k j u by (auto simp: bit_bus_read bit_merge_bytes bus_write_def Let_def bit_bslice)
  next
    case False
    have "\<not> unat (?x - line_base adr) < 8"
    proof
      assume l: "unat (?x - line_base adr) < 8"
      have "?x = line_base adr + of_nat (unat (?x - line_base adr))" by simp
      then have "line_base ?x = line_base adr" using line_base_add [OF l, of adr] by metis
      then show False using line_base_add [OF j, of adr'] False by simp
    qed
    then show ?thesis using False k by (simp add: bit_bus_read bus_write_def Let_def)
  qed
qed

lemma line_addr: "push_bit 3 (ucast (line_of a)) = line_base a"
  unfolding line_base_push by (rule bit_word_eqI) (auto simp: line_of_def bit_simps)

lemma line_addr_inject: "push_bit 3 (ucast l :: u64) = push_bit 3 (ucast l') \<longleftrightarrow> (l :: line_number) = l'"
proof
  assume "push_bit 3 (ucast l :: u64) = push_bit 3 (ucast l')"
  then have "drop_bit 3 (push_bit 3 (ucast l :: u64)) = drop_bit 3 (push_bit 3 (ucast l'))" by simp
  moreover have "drop_bit 3 (push_bit 3 (ucast x :: u64)) = ucast x" for x :: line_number
    by (rule bit_word_eqI) (auto simp: bit_simps dest: bit_imp_le_length)
  ultimately have "(ucast l :: u64) = ucast l'" by simp
  then have "bit (ucast l :: u64) n = bit (ucast l' :: u64) n" for n by simp
  then have "n < 64 \<and> bit l n \<longleftrightarrow> n < 64 \<and> bit l' n" for n by (simp add: bit_unsigned_iff)
  note b = this
  show "l = l'"
  proof (rule bit_word_eqI)
    fix n assume "n < LENGTH(61)"
    then have "n < 64" by simp
    then show "bit l n = bit l' n" using b [of n] by blast
  qed
qed simp

lemma backs_iff: "backs m (line_of a) d \<longleftrightarrow> d = bus_read m a"
  by (simp add: backs_def line_addr bus_read_def)

text \<open>The store a line sees, and every other line keeps.\<close>

lemma backs_store:
  "backs m (line_of a) d \<Longrightarrow> backs (bus_write m a sel dat) (line_of a) (merge_bytes sel dat d)"
  "l \<noteq> line_of a \<Longrightarrow> backs m l d \<Longrightarrow> backs (bus_write m a sel dat) l d"
proof -
  show "backs m (line_of a) d \<Longrightarrow> backs (bus_write m a sel dat) (line_of a) (merge_bytes sel dat d)"
    by (simp add: backs_iff bus_read_write)
  assume "l \<noteq> line_of a"
  then have "line_base (push_bit 3 (ucast l)) \<noteq> line_base a"
    using line_addr_inject [of l "line_of a"] by (simp add: line_addr)
  then show "backs m l d \<Longrightarrow> backs (bus_write m a sel dat) l d"
    by (simp add: backs_def bus_read_write)
qed

text \<open>Fills from memory, stores of one line and flushes keep the cache coherent.\<close>

lemma cache_fill_coherent:
  "cache_coherent ib c m \<Longrightarrow> cache_coherent ib (cache_fill ib (line_of a) (bus_read m a) c) m"
  unfolding cache_coherent_iff by (rule lc.coherent_fill) (simp_all add: backs_iff)

lemma cache_store_coherent:
  "cache_coherent ib c m \<Longrightarrow>
     cache_coherent ib (cache_update ib (line_of a) (merge_bytes sel dat) c) (bus_write m a sel dat)"
  unfolding cache_coherent_iff by (rule lc.coherent_update [where R = "backs m"]) (auto intro: backs_store)

lemma cache_flush_coherent: "cache_coherent ib (cache_flush_all c) m"
  unfolding cache_coherent_iff by (rule lc.coherent_flush) simp

lemma cache_invalidate_coherent:
  "cache_coherent ib c m \<Longrightarrow> cache_coherent ib (cache_invalidate ib (line_of a) c) (bus_write m a sel dat)"
  unfolding cache_coherent_iff by (rule lc.coherent_invalidate [where R = "backs m"]) (auto intro: backs_store)

lemma cache_hit_coherent:
  "cache_coherent ib c m \<Longrightarrow> cache_lookup_hit ib c a \<Longrightarrow> cache_lookup_data ib c a = bus_read m a"
  unfolding cache_coherent_iff
  unfolding lc.coherent_def cache_lookup_ports backs_iff [symmetric] by (simp add: cache_lookup_ports)

section \<open>Stores, fills and flushes from reset\<close>

text \<open>
  The commands the core gives the cache, with the memory beside it: a store inside a line
  updates the line, a store across lines flushes, an aligned load fills, and a change of
  mapping flushes.
\<close>

datatype cache_event = Line_Store u64 byte u64 | Wide_Store "(u64 \<times> byte \<times> u64) list" | Line_Fill u64 | Flush

definition no_cmd :: cache_cmd where
  "no_cmd = \<lparr>cmd_flush_all = False, cmd_invalidate = None, cmd_store_update = None, cmd_fill = None\<rparr>"

fun cache_serve :: "nat \<Rightarrow> cache_event \<Rightarrow> line_cache \<times> memory \<Rightarrow> line_cache \<times> memory" where
  "cache_serve ib (Line_Store a sel d) (c, m) =
     (cache_tick ib (no_cmd\<lparr>cmd_store_update := Some (a, sel, d)\<rparr>) c, bus_write m a sel d)"
| "cache_serve ib (Wide_Store beats) (c, m) =
     (cache_tick ib (no_cmd\<lparr>cmd_flush_all := True\<rparr>) c, fold (\<lambda>(a, sel, d) m. bus_write m a sel d) beats m)"
| "cache_serve ib (Line_Fill a) (c, m) =
     (cache_tick ib (no_cmd\<lparr>cmd_fill := Some (a, bus_read m a)\<rparr>) c, m)"
| "cache_serve ib Flush (c, m) = (cache_tick ib (no_cmd\<lparr>cmd_flush_all := True\<rparr>) c, m)"

lemma cache_serve_coherent:
  "cache_coherent ib c m \<Longrightarrow> cache_serve ib e (c, m) = (c', m') \<Longrightarrow> cache_coherent ib c' m'"
  by (cases e) (auto simp: cache_tick_def no_cmd_def cache_store_coherent cache_fill_coherent cache_flush_coherent)

text \<open>
  Property C38: After any sequence of stores inside a line, flushing stores across lines, fills
  and flushes from reset, a hit in the line cache returns the line memory holds.
\<close>

lemma cache_reads_memory:
  assumes "fold (cache_serve ib) es (cache_reset, m) = (c, m')" and "cache_lookup_hit ib c a"
  shows "cache_lookup_data ib c a = bus_read m' a"
proof -
  have "cache_coherent ib (fst (fold (cache_serve ib) es (cache_reset, m))) (snd (fold (cache_serve ib) es (cache_reset, m)))"
  proof (induction es rule: rev_induct)
    case Nil
    show ?case by (simp add: cache_coherent_def cache_reset_def cache_lookup_def Let_def)
  next
    case (snoc e es)
    obtain c m1 where f: "fold (cache_serve ib) es (cache_reset, m) = (c, m1)" by force
    obtain c' m2 where "cache_serve ib e (c, m1) = (c', m2)" by force
    then show ?case using snoc cache_serve_coherent by (simp add: f)
  qed
  then show ?thesis using assms by (simp add: cache_hit_coherent)
qed

lemma cache_reads_memory_witness:
  "\<exists>c m. fold (cache_serve 2) [Line_Fill 0x10, Line_Store 0x10 0xFF 5] (cache_reset, \<lambda>_. 0) = (c, m) \<and>
     cache_lookup_data 2 c 0x10 = bus_read m 0x10"
proof -
  obtain c m where f: "fold (cache_serve 2) [Line_Fill 0x10, Line_Store 0x10 0xFF 5] (cache_reset, \<lambda>_. 0) = (c, m)"
    by force
  then have "cache_lookup_hit 2 c 0x10"
    by (auto simp: cache_tick_def no_cmd_def cache_fill_def cache_update_def cache_lookup_hit_def Let_def)
  with cache_reads_memory [OF f] f show ?thesis by blast
qed

end
