(* ===== verification/Pipe_Frontend.thy ===== *)
theory Pipe_Frontend
  imports V3_Cache Bus
begin

text \<open>
  The fetch front ends of the pipelined cores: the single line buffer of v3
  (\<open>v3/frontend.py\<close>) and the direct-mapped instruction cache with a one-line prefetch
  buffer of v4 (\<open>v4/frontend.py\<close>).  Both deliver the half-word that memory holds at the
  fetch address as long as memory does not change under a line they hold, and forget
  everything on \<open>invalidate\<close>, in-flight requests included.
\<close>

section \<open>Inputs\<close>

record fe_in =
  fe_pc :: u64
  fe_invalidate :: bool
  fe_update :: "u64 option"
  fe_ack :: bool
  fe_err :: bool
  fe_dat_r :: u64

text \<open>\<open>fe_update\<close> is \<open>update_line_valid\<close> with \<open>update_line_data\<close>.\<close>

section \<open>The v4 front end\<close>

record frontend =
  fe_valid :: "nat \<Rightarrow> bool"
  fe_tag :: "nat \<Rightarrow> line_number"
  fe_data :: "nat \<Rightarrow> u64"
  req_valid :: bool
  req_cancelled :: bool
  req_base :: u64
  req_prefetch :: bool
  pf_valid :: bool
  pf_base :: u64
  pf_data :: u64
  fe_watchdog :: nat
  fe_line_valid :: bool
  fe_line_base :: u64
  fe_line_data :: u64

definition frontend_reset :: frontend where
  "frontend_reset = \<lparr>fe_valid = (\<lambda>_. False), fe_tag = (\<lambda>_. 0), fe_data = (\<lambda>_. 0),
     req_valid = False, req_cancelled = False, req_base = 0, req_prefetch = False,
     pf_valid = False, pf_base = 0, pf_data = 0, fe_watchdog = 0,
     fe_line_valid = False, fe_line_base = 0, fe_line_data = 0\<rparr>"

text \<open>The tag memory keeps the line number above the index bits.\<close>

definition tag_of :: "nat \<Rightarrow> line_number \<Rightarrow> line_number" where "tag_of ib line = drop_bit ib line"

definition line_cached :: "nat \<Rightarrow> frontend \<Rightarrow> line_number \<Rightarrow> bool" where
  "line_cached ib s line \<longleftrightarrow> fe_valid s (cache_index ib line) \<and> fe_tag s (cache_index ib line) = tag_of ib line"

definition line_hit :: "nat \<Rightarrow> fe_in \<Rightarrow> frontend \<Rightarrow> bool" where
  "line_hit ib i s = line_cached ib s (line_of (line_base (fe_pc i)))"

definition next_line_hit :: "nat \<Rightarrow> fe_in \<Rightarrow> frontend \<Rightarrow> bool" where
  "next_line_hit ib i s = line_cached ib s (line_of (line_base (fe_pc i) + 8))"

definition prefetch_hit :: "fe_in \<Rightarrow> frontend \<Rightarrow> bool" where
  "prefetch_hit i s \<longleftrightarrow> pf_valid s \<and> pf_base s = line_base (fe_pc i)"

definition selected_line :: "nat \<Rightarrow> fe_in \<Rightarrow> frontend \<Rightarrow> u64" where
  "selected_line ib i s =
     (if prefetch_hit i s then pf_data s else fe_data s (cache_index ib (line_of (line_base (fe_pc i)))))"

definition prefetch_needed :: "nat \<Rightarrow> fe_in \<Rightarrow> frontend \<Rightarrow> bool" where
  "prefetch_needed ib i s \<longleftrightarrow> (bslice 1 (fe_pc i) :: 2 word) \<noteq> 0 \<and> \<not> req_valid s \<and> \<not> next_line_hit ib i s \<and>
     \<not> (pf_valid s \<and> pf_base s = line_base (fe_pc i) + 8)"

definition fe_watchdog_fire :: "nat \<Rightarrow> frontend \<Rightarrow> bool" where
  "fe_watchdog_fire N s \<longleftrightarrow> 0 < N \<and> req_valid s \<and> fe_watchdog s = N"

definition fe_effective_err :: "nat \<Rightarrow> fe_in \<Rightarrow> frontend \<Rightarrow> bool" where
  "fe_effective_err N i s \<longleftrightarrow> fe_err i \<or> fe_watchdog_fire N s"

definition instruction_valid :: "nat \<Rightarrow> fe_in \<Rightarrow> frontend \<Rightarrow> bool" where
  "instruction_valid ib i s \<longleftrightarrow> line_hit ib i s \<or> prefetch_hit i s"

definition fetched_word :: "nat \<Rightarrow> fe_in \<Rightarrow> frontend \<Rightarrow> u16" where
  "fetched_word ib i s = instruction_word (fe_pc i) (selected_line ib i s)"

definition fe_fetch_error :: "nat \<Rightarrow> fe_in \<Rightarrow> frontend \<Rightarrow> bool" where
  "fe_fetch_error N i s \<longleftrightarrow> req_valid s \<and> \<not> req_cancelled s \<and> \<not> req_prefetch s \<and> fe_effective_err N i s"

definition frontend_bus :: "frontend \<Rightarrow> bus_out" where
  "frontend_bus s = \<lparr>cyc = req_valid s, we = False, adr = req_base s, sel = 0xFF, dat_w = 0\<rparr>"

text \<open>
  The single write port of the cache memories: the promotion of a prefetched line, a line
  arriving for a demand request, an update of the line being fetched; the later of two in
  one cycle wins.
\<close>

definition answered_request :: "nat \<Rightarrow> fe_in \<Rightarrow> frontend \<Rightarrow> bool" where
  "answered_request N i s \<longleftrightarrow>
     req_valid s \<and> fe_ack i \<and> \<not> fe_effective_err N i s \<and> \<not> req_cancelled s \<and> \<not> fe_invalidate i"

definition promote :: "nat \<Rightarrow> fe_in \<Rightarrow> frontend \<Rightarrow> bool" where
  "promote ib i s \<longleftrightarrow> \<not> fe_invalidate i \<and> prefetch_hit i s \<and> \<not> line_hit ib i s"

definition cache_write :: "nat \<Rightarrow> nat \<Rightarrow> fe_in \<Rightarrow> frontend \<Rightarrow> (line_number \<times> u64) option" where
  "cache_write N ib i s =
     (if \<not> fe_invalidate i \<and> fe_update i \<noteq> None \<and> line_hit ib i s
      then Some (line_of (line_base (fe_pc i)), the (fe_update i))
      else if answered_request N i s \<and> \<not> req_prefetch s then Some (line_of (req_base s), fe_dat_r i)
      else if promote ib i s then Some (line_of (line_base (fe_pc i)), pf_data s)
      else None)"

definition write_line :: "nat \<Rightarrow> (line_number \<times> u64) option \<Rightarrow> frontend \<Rightarrow> frontend" where
  "write_line ib w s = (case w of None \<Rightarrow> s
     | Some (line, d) \<Rightarrow> s\<lparr>fe_tag := (fe_tag s)(cache_index ib line := tag_of ib line),
                         fe_data := (fe_data s)(cache_index ib line := d)\<rparr>)"

definition next_valid :: "nat \<Rightarrow> nat \<Rightarrow> fe_in \<Rightarrow> frontend \<Rightarrow> nat \<Rightarrow> bool" where
  "next_valid N ib i s =
     (if answered_request N i s \<and> \<not> req_prefetch s
      then (fe_valid s)(cache_index ib (line_of (req_base s)) := True)
      else if promote ib i s then (fe_valid s)(cache_index ib (line_of (line_base (fe_pc i))) := True)
      else if fe_invalidate i then (\<lambda>_. False)
      else fe_valid s)"

definition next_fe_watchdog :: "nat \<Rightarrow> fe_in \<Rightarrow> frontend \<Rightarrow> nat" where
  "next_fe_watchdog N i s =
     (if 0 < N \<and> req_valid s \<and> \<not> fe_ack i \<and> \<not> fe_err i \<and> \<not> fe_watchdog_fire N s
      then fe_watchdog s + 1 else 0)"

text \<open>The request registers: cancelled by an invalidation, released by an answer, loaded by a miss.\<close>

definition cancel_request :: "fe_in \<Rightarrow> frontend \<Rightarrow> frontend" where
  "cancel_request i s = (if fe_invalidate i then s\<lparr>req_cancelled := req_valid s, pf_valid := False\<rparr> else s)"

definition release_request :: "nat \<Rightarrow> fe_in \<Rightarrow> frontend \<Rightarrow> frontend \<Rightarrow> frontend" where
  "release_request N i s t =
     (if req_valid s \<and> (fe_ack i \<or> fe_effective_err N i s) then
        (let t = t\<lparr>req_valid := False, req_cancelled := False, req_prefetch := False\<rparr> in
         if answered_request N i s \<and> req_prefetch s
         then t\<lparr>pf_valid := True, pf_base := req_base s, pf_data := fe_dat_r i\<rparr> else t)
      else t)"

definition start_request :: "nat \<Rightarrow> fe_in \<Rightarrow> frontend \<Rightarrow> frontend \<Rightarrow> frontend" where
  "start_request ib i s t =
     (if \<not> fe_invalidate i \<and> \<not> instruction_valid ib i s \<and> \<not> req_valid s
      then t\<lparr>req_valid := True, req_cancelled := False, req_base := line_base (fe_pc i), req_prefetch := False\<rparr>
      else if \<not> fe_invalidate i \<and> line_hit ib i s \<and> prefetch_needed ib i s
      then t\<lparr>req_valid := True, req_cancelled := False, req_base := line_base (fe_pc i) + 8, req_prefetch := True\<rparr>
      else t)"

definition observe_line :: "nat \<Rightarrow> fe_in \<Rightarrow> frontend \<Rightarrow> frontend \<Rightarrow> frontend" where
  "observe_line ib i s t =
     (if fe_invalidate i then t\<lparr>fe_line_valid := False\<rparr>
      else t\<lparr>fe_line_valid := instruction_valid ib i s, fe_line_base := line_base (fe_pc i),
             fe_line_data := selected_line ib i s\<rparr>)"

definition frontend_tick :: "nat \<Rightarrow> nat \<Rightarrow> fe_in \<Rightarrow> frontend \<Rightarrow> frontend" where
  "frontend_tick N ib i s =
     observe_line ib i s (start_request ib i s (release_request N i s (cancel_request i
       (write_line ib (cache_write N ib i s) s\<lparr>fe_valid := next_valid N ib i s, fe_watchdog := next_fe_watchdog N i s\<rparr>))))"

section \<open>The lines as a translation cache\<close>

definition fe_lookup :: "nat \<Rightarrow> frontend \<Rightarrow> line_number \<Rightarrow> u64 option" where
  "fe_lookup ib s line = (if line_cached ib s line then Some (fe_data s (cache_index ib line)) else None)"

definition fe_flush :: "frontend \<Rightarrow> frontend" where
  "fe_flush s = s\<lparr>fe_valid := (\<lambda>_. False)\<rparr>"

definition fe_fill :: "nat \<Rightarrow> line_number \<Rightarrow> u64 \<Rightarrow> frontend \<Rightarrow> frontend" where
  "fe_fill ib line d s = write_line ib (Some (line, d)) s\<lparr>fe_valid := (fe_valid s)(cache_index ib line := True)\<rparr>"

lemma index_tag_eq:
  assumes "cache_index ib a = cache_index ib b" and "tag_of ib a = tag_of ib b"
  shows "a = b"
proof -
  have "take_bit ib a = take_bit ib b" using assms(1) by (simp add: cache_index_def word_unat_eq_iff)
  moreover have "drop_bit ib a = drop_bit ib b" using assms(2) by (simp only: tag_of_def)
  ultimately have "push_bit ib (drop_bit ib a) + take_bit ib a = push_bit ib (drop_bit ib b) + take_bit ib b"
    by (simp only:)
  then show ?thesis by (simp only: bits_ident)
qed

lemma fe_lookup_fill:
  "fe_lookup ib (fe_fill ib v d s) w =
     (if v = w then Some d else if cache_index ib v = cache_index ib w then None else fe_lookup ib s w)"
proof (cases "cache_index ib v = cache_index ib w")
  case True
  then have "tag_of ib v = tag_of ib w \<longleftrightarrow> v = w" using index_tag_eq by blast
  then show ?thesis using True
    by (simp add: fe_lookup_def line_cached_def fe_fill_def write_line_def)
next
  case False
  then have "v \<noteq> w" "cache_index ib w \<noteq> cache_index ib v" by auto
  then show ?thesis using False
    by (simp add: fe_lookup_def line_cached_def fe_fill_def write_line_def)
qed

lemma fe_lookup_flush: "fe_lookup ib (fe_flush s) w = None"
  by (simp add: fe_lookup_def line_cached_def fe_flush_def)

interpretation fe: translation_cache "fe_lookup ib" fe_flush "fe_fill ib" "\<lambda>_. True" for ib
  by unfold_locales (simp_all add: fe_lookup_fill fe_lookup_flush split: if_splits)

section \<open>Coherence with memory\<close>

definition fe_coherent :: "nat \<Rightarrow> memory \<Rightarrow> frontend \<Rightarrow> bool" where
  "fe_coherent ib m s \<longleftrightarrow>
     (\<forall>line d. fe_lookup ib s line = Some d \<longrightarrow> d = bus_read m (push_bit 3 (ucast line))) \<and>
     (pf_valid s \<longrightarrow> pf_data s = bus_read m (pf_base s))"

lemma fe_coherent_iff:
  "fe_coherent ib m s \<longleftrightarrow> fe.coherent ib (backs m) s \<and> (pf_valid s \<longrightarrow> pf_data s = bus_read m (pf_base s))"
  by (simp add: fe_coherent_def fe.coherent_def backs_def)

text \<open>The write port and the valid bits together fill a line, flush, or keep the cache.\<close>

definition cache_part :: "frontend \<Rightarrow> (nat \<Rightarrow> bool) \<times> (nat \<Rightarrow> line_number) \<times> (nat \<Rightarrow> u64)" where
  "cache_part s = (fe_valid s, fe_tag s, fe_data s)"

lemma fe_lookup_part: "cache_part s = cache_part t \<Longrightarrow> fe_lookup ib s = fe_lookup ib t"
  by (auto simp: cache_part_def fe_lookup_def line_cached_def fun_eq_iff)

lemma cache_part_tick:
  assumes "fe_update i = None"
  shows "cache_part (frontend_tick N ib i s) = cache_part
     (if fe_invalidate i then fe_flush s
      else if answered_request N i s \<and> \<not> req_prefetch s then fe_fill ib (line_of (req_base s)) (fe_dat_r i) s
      else if promote ib i s then fe_fill ib (line_of (line_base (fe_pc i))) (pf_data s) s
      else s)"
proof -
  have "cache_part (frontend_tick N ib i s) = cache_part
      (write_line ib (cache_write N ib i s) s\<lparr>fe_valid := next_valid N ib i s\<rparr>)"
    by (simp add: frontend_tick_def observe_line_def start_request_def release_request_def cancel_request_def
        cache_part_def Let_def)
  then show ?thesis using assms
    by (cases "fe_invalidate i")
      (simp_all add: cache_write_def next_valid_def answered_request_def promote_def fe_fill_def fe_flush_def
        write_line_def cache_part_def)
qed

text \<open>
  A cycle in which the bus answers with the line memory holds.  Memory may change in any
  way in a cycle in which the core invalidates, and in no other.
\<close>

definition honest_cycle :: "memory \<Rightarrow> memory \<Rightarrow> fe_in \<Rightarrow> frontend \<Rightarrow> bool" where
  "honest_cycle m m' i s \<longleftrightarrow>
     fe_update i = None \<and> (req_valid s \<and> fe_ack i \<longrightarrow> fe_dat_r i = bus_read m (req_base s)) \<and>
     (\<not> fe_invalidate i \<longrightarrow> m' = m)"

lemma prefetch_tick:
  "pf_valid (frontend_tick N ib i s) \<longleftrightarrow>
     (answered_request N i s \<and> req_prefetch s) \<or> (\<not> fe_invalidate i \<and> pf_valid s)"
  "pf_valid (frontend_tick N ib i s) \<Longrightarrow> (pf_base (frontend_tick N ib i s), pf_data (frontend_tick N ib i s)) =
     (if answered_request N i s \<and> req_prefetch s then (req_base s, fe_dat_r i) else (pf_base s, pf_data s))"
  by (auto simp: frontend_tick_def observe_line_def start_request_def release_request_def cancel_request_def
      answered_request_def Let_def write_line_def split: option.split)

lemma fe_coherent_tick:
  assumes c: "fe_coherent ib m s" and h: "honest_cycle m m' i s"
  shows "fe_coherent ib m' (frontend_tick N ib i s)"
proof -
  let ?t = "frontend_tick N ib i s"
  have R: "fe.coherent ib (backs m) s" and pf: "pf_valid s \<Longrightarrow> pf_data s = bus_read m (pf_base s)"
    using c by (simp_all add: fe_coherent_iff)
  have upd: "fe_update i = None" and ack: "req_valid s \<Longrightarrow> fe_ack i \<Longrightarrow> fe_dat_r i = bus_read m (req_base s)"
    and mem: "\<not> fe_invalidate i \<Longrightarrow> m' = m"
    using h by (simp_all add: honest_cycle_def)
  have ans: "answered_request N i s \<Longrightarrow> fe_dat_r i = bus_read m' (req_base s)"
    using ack mem by (simp add: answered_request_def)
  have pro: "promote ib i s \<Longrightarrow> pf_data s = bus_read m' (line_base (fe_pc i))"
    using pf mem by (simp add: promote_def prefetch_hit_def)
  have "fe.coherent ib (backs m') (if fe_invalidate i then fe_flush s
      else if answered_request N i s \<and> \<not> req_prefetch s then fe_fill ib (line_of (req_base s)) (fe_dat_r i) s
      else if promote ib i s then fe_fill ib (line_of (line_base (fe_pc i))) (pf_data s) s else s)"
  proof (cases "fe_invalidate i")
    case True
    then show ?thesis by (simp add: fe.coherent_flush)
  next
    case False
    then show ?thesis using R mem ans pro by (simp add: fe.coherent_fill backs_iff)
  qed
  then have "fe.coherent ib (backs m') ?t"
    using fe_lookup_part [OF cache_part_tick [OF upd, of N ib s]] by (simp add: fe.coherent_def)
  moreover have "pf_valid ?t \<Longrightarrow> pf_data ?t = bus_read m' (pf_base ?t)"
    using prefetch_tick [of N ib i s] ans pf mem by (auto split: if_splits)
  ultimately show ?thesis by (simp add: fe_coherent_iff)
qed

lemma fe_coherent_reset: "fe_coherent ib m frontend_reset"
  by (simp add: fe_coherent_def frontend_reset_def fe_lookup_def line_cached_def)

lemma coherent_fetch:
  assumes "fe_coherent ib m s" and "instruction_valid ib i s"
  shows "fetched_word ib i s = fetch_half m (fe_pc i)"
proof -
  let ?line = "line_of (line_base (fe_pc i))"
  have "fe_data s (cache_index ib ?line) = bus_read m (line_base (fe_pc i))" if "line_hit ib i s"
    using assms(1) that line_addr [of "line_base (fe_pc i)"]
    unfolding fe_coherent_def line_hit_def fe_lookup_def by (metis line_base_idem)
  moreover have "pf_data s = bus_read m (line_base (fe_pc i))" if "prefetch_hit i s"
    using assms(1) that by (simp add: fe_coherent_def prefetch_hit_def)
  ultimately have "selected_line ib i s = bus_read m (line_base (fe_pc i))"
    using assms(2) by (auto simp: instruction_valid_def selected_line_def)
  then show ?thesis
    by (simp add: fetched_word_def line_base_def [symmetric] fetch_half_eq [unfolded line_base_def [symmetric]])
qed

section \<open>Runs\<close>

text \<open>A run takes the memory after each cycle with the inputs of that cycle.\<close>

fun fe_run :: "nat \<Rightarrow> nat \<Rightarrow> (memory \<times> fe_in) list \<Rightarrow> memory \<times> frontend \<Rightarrow> memory \<times> frontend" where
  "fe_run N ib [] ms = ms"
| "fe_run N ib ((m', i) # is) (m, s) = fe_run N ib is (m', frontend_tick N ib i s)"

fun fe_honest :: "nat \<Rightarrow> nat \<Rightarrow> (memory \<times> fe_in) list \<Rightarrow> memory \<times> frontend \<Rightarrow> bool" where
  "fe_honest N ib [] ms = True"
| "fe_honest N ib ((m', i) # is) (m, s) =
     (honest_cycle m m' i s \<and> fe_honest N ib is (m', frontend_tick N ib i s))"

lemma fe_run_coherent:
  "fe_honest N ib is (m, s) \<Longrightarrow> fe_coherent ib m s \<Longrightarrow> fe_run N ib is (m, s) = (m', s') \<Longrightarrow> fe_coherent ib m' s'"
  by (induction N ib "is" "(m, s)" arbitrary: m s rule: fe_run.induct) (auto intro: fe_coherent_tick)

text \<open>
  Whatever the sequence of program counters, invalidations and bus answers since reset, a
  half-word the front end presents as valid is the one memory holds at the program counter.
\<close>

text \<open>
  Property C37: Whatever the sequence of program counters, invalidations, bus answers and errors
  since reset, a half-word the v4 fetch front end presents as valid, from cache or prefetch
  buffer, is the one memory holds at the program counter, if memory changed only in cycles with an
  invalidation.
\<close>

lemma frontend_delivers_memory:
  assumes "fe_honest N ib is (m, frontend_reset)"
    and "fe_run N ib is (m, frontend_reset) = (m', s)"
    and "instruction_valid ib i s"
  shows "fetched_word ib i s = fetch_half m' (fe_pc i)"
  using coherent_fetch [OF fe_run_coherent [OF assms(1) fe_coherent_reset assms(2)] assms(3)] .

section \<open>A miss is served\<close>

text \<open>
  With the program counter held and no redirection: the miss starts a request in its first
  cycle, the request waits while the bus is silent and the watchdog has not run out, and
  the answer makes the instruction valid.
\<close>

definition pc_held :: "u64 \<Rightarrow> fe_in \<Rightarrow> bool" where
  "pc_held pc i \<longleftrightarrow> fe_pc i = pc \<and> \<not> fe_invalidate i \<and> fe_update i = None \<and> \<not> fe_err i"

lemma miss_requests:
  assumes "pc_held pc i" and "\<not> instruction_valid ib i s" and "\<not> req_valid s"
  shows "req_valid (frontend_tick N ib i s) \<and> \<not> req_cancelled (frontend_tick N ib i s) \<and>
     \<not> req_prefetch (frontend_tick N ib i s) \<and> req_base (frontend_tick N ib i s) = line_base pc \<and>
     fe_watchdog (frontend_tick N ib i s) = 0"
  using assms
  by (simp add: frontend_tick_def observe_line_def start_request_def release_request_def cancel_request_def
      pc_held_def next_fe_watchdog_def write_line_def split: option.split)

definition demand_pending :: "u64 \<Rightarrow> nat \<Rightarrow> frontend \<Rightarrow> bool" where
  "demand_pending pc k s \<longleftrightarrow> req_valid s \<and> \<not> req_cancelled s \<and> \<not> req_prefetch s \<and>
     req_base s = line_base pc \<and> fe_watchdog s = k"

lemma request_waits:
  assumes "pc_held pc i" and "\<not> fe_ack i" and "demand_pending pc k s" and "0 < N \<Longrightarrow> k < N"
  shows "demand_pending pc (if 0 < N then k + 1 else 0) (frontend_tick N ib i s)"
  using assms
  by (auto simp: frontend_tick_def observe_line_def start_request_def release_request_def cancel_request_def
      pc_held_def next_fe_watchdog_def write_line_def demand_pending_def fe_effective_err_def fe_watchdog_fire_def
      prefetch_needed_def split: option.split)

lemma answer_valid:
  assumes q: "pc_held pc i" and a: "fe_ack i" and p: "demand_pending pc k s" and k: "0 < N \<Longrightarrow> k < N" and j: "fe_pc j = pc"
  shows "instruction_valid ib j (frontend_tick N ib i s)"
proof -
  have ans: "answered_request N i s \<and> \<not> req_prefetch s" and base: "req_base s = line_base pc"
      and upd: "fe_update i = None" and inv: "\<not> fe_invalidate i"
    using q a p k by (auto simp: answered_request_def pc_held_def demand_pending_def fe_effective_err_def fe_watchdog_fire_def)
  have "fe_lookup ib (frontend_tick N ib i s) (line_of (line_base pc)) = Some (fe_dat_r i)"
    using fe_lookup_part [OF cache_part_tick [OF upd, of N ib s]] ans inv base by (simp add: fe.lookup_fill)
  then show ?thesis using j
    by (simp add: instruction_valid_def line_hit_def fe_lookup_def split: if_splits)
qed

fun fe_ticks :: "nat \<Rightarrow> nat \<Rightarrow> fe_in list \<Rightarrow> frontend \<Rightarrow> frontend" where
  "fe_ticks N ib [] s = s"
| "fe_ticks N ib (i # is) s = fe_ticks N ib is (frontend_tick N ib i s)"

lemma fe_ticks_append: "fe_ticks N ib (is @ js) s = fe_ticks N ib js (fe_ticks N ib is s)"
  by (induction "is" arbitrary: s) simp_all

lemma request_waits_run:
  assumes "\<forall>i\<in>set is. pc_held pc i \<and> \<not> fe_ack i" and "demand_pending pc k s" and "0 < N \<Longrightarrow> k + length is \<le> N"
  shows "\<exists>k'. demand_pending pc k' (fe_ticks N ib is s) \<and> (0 < N \<longrightarrow> k' = k + length is)"
  using assms
proof (induction "is" arbitrary: k s)
  case (Cons i "is")
  have "demand_pending pc (if 0 < N then k + 1 else 0) (frontend_tick N ib i s)"
    using Cons.prems by (intro request_waits) auto
  then have "\<exists>k'. demand_pending pc k' (fe_ticks N ib is (frontend_tick N ib i s)) \<and>
      (0 < N \<longrightarrow> k' = (if 0 < N then k + 1 else 0) + length is)"
    using Cons.prems by (intro Cons.IH) auto
  then show ?case by auto
qed auto

text \<open>
  Property C40: With the program counter held, no request outstanding and neither errors nor
  invalidations, a miss in the v4 fetch front end has a request for the line on the bus from the
  next cycle on, and the instruction is valid right after the bus answers, after any number of
  cycles below the timeout.
\<close>

lemma fetch_served:
  assumes "pc_held pc i" and "\<not> instruction_valid ib i s" and "\<not> req_valid s"
    and "\<forall>j\<in>set is. pc_held pc j \<and> \<not> fe_ack j" and "0 < N \<Longrightarrow> length is < N"
    and "pc_held pc a" and "fe_ack a" and "fe_pc j = pc"
  shows "(let t = frontend_tick N ib i s in req_valid t \<and> \<not> req_prefetch t \<and> req_base t = line_base pc) \<and>
     instruction_valid ib j (fe_ticks N ib (i # is @ [a]) s)"
proof -
  have "demand_pending pc 0 (frontend_tick N ib i s)"
    using miss_requests [OF assms(1-3), of N] by (simp add: demand_pending_def)
  then have "\<exists>k'. demand_pending pc k' (fe_ticks N ib is (frontend_tick N ib i s)) \<and> (0 < N \<longrightarrow> k' = 0 + length is)"
    by (rule request_waits_run [OF assms(4)]) (use assms(5) in force)
  with assms(5) obtain k where
    "demand_pending pc k (fe_ticks N ib is (frontend_tick N ib i s))" "0 < N \<Longrightarrow> k < N" by auto
  from answer_valid [OF assms(6,7) this assms(8)] show ?thesis
    using miss_requests [OF assms(1-3), of N] by (simp add: fe_ticks_append Let_def)
qed

section \<open>Line updates and the prefetch buffer\<close>

text \<open>
  After a prefetched line has been promoted both copies are held, and the prefetch buffer
  is the one presented.  A store forwarded with \<open>update_line\<close> changes only the other copy:
  the half-words presented afterwards are the old ones.
\<close>

text \<open>
  When the line being fetched is held by both the cache and the prefetch buffer of
  the v4 front end, a line update changes only the cached copy and the half-word presented
  afterwards still comes from the old prefetched line.
\<close>

lemma update_shadowed:
  assumes "line_hit ib i s" and "prefetch_hit i s" and "\<not> fe_invalidate i" and "fe_update i = Some d"
    and "\<not> (req_valid s \<and> fe_ack i)" and "fe_pc j = fe_pc i"
  shows "instruction_valid ib j (frontend_tick N ib i s) \<and>
     fetched_word ib j (frontend_tick N ib i s) = instruction_word (fe_pc i) (pf_data s)"
proof -
  have "prefetch_hit j (frontend_tick N ib i s) \<and> pf_data (frontend_tick N ib i s) = pf_data s"
    using assms
    by (auto simp: frontend_tick_def observe_line_def start_request_def release_request_def cancel_request_def
        write_line_def prefetch_hit_def answered_request_def Let_def split: option.split)
  then show ?thesis using assms(6) by (simp add: instruction_valid_def fetched_word_def selected_line_def)
qed

section \<open>The v3 front end\<close>

record frontend3 =
  f3_req_valid :: bool
  f3_req_cancelled :: bool
  f3_req_base :: u64
  f3_watchdog :: nat
  f3_line_valid :: bool
  f3_line_base :: u64
  f3_line_data :: u64

definition frontend3_reset :: frontend3 where
  "frontend3_reset = \<lparr>f3_req_valid = False, f3_req_cancelled = False, f3_req_base = 0, f3_watchdog = 0,
     f3_line_valid = False, f3_line_base = 0, f3_line_data = 0\<rparr>"

definition line_hit3 :: "fe_in \<Rightarrow> frontend3 \<Rightarrow> bool" where
  "line_hit3 i s \<longleftrightarrow> f3_line_valid s \<and> f3_line_base s = line_base (fe_pc i)"

definition fetched_word3 :: "fe_in \<Rightarrow> frontend3 \<Rightarrow> u16" where
  "fetched_word3 i s = instruction_word (fe_pc i) (f3_line_data s)"

definition watchdog_fire3 :: "nat \<Rightarrow> frontend3 \<Rightarrow> bool" where
  "watchdog_fire3 N s \<longleftrightarrow> 0 < N \<and> f3_req_valid s \<and> f3_watchdog s = N"

definition fetch_error3 :: "nat \<Rightarrow> fe_in \<Rightarrow> frontend3 \<Rightarrow> bool" where
  "fetch_error3 N i s \<longleftrightarrow> f3_req_valid s \<and> \<not> f3_req_cancelled s \<and> (fe_err i \<or> watchdog_fire3 N s)"

definition frontend3_bus :: "frontend3 \<Rightarrow> bus_out" where
  "frontend3_bus s = \<lparr>cyc = f3_req_valid s, we = False, adr = f3_req_base s, sel = 0xFF, dat_w = 0\<rparr>"

definition frontend3_tick :: "nat \<Rightarrow> fe_in \<Rightarrow> frontend3 \<Rightarrow> frontend3" where
  "frontend3_tick N i s =
     (let wd = (if 0 < N \<and> f3_req_valid s \<and> \<not> fe_ack i \<and> \<not> fe_err i \<and> \<not> watchdog_fire3 N s
                then f3_watchdog s + 1 else 0);
          err = fe_err i \<or> watchdog_fire3 N s;
          t = s\<lparr>f3_watchdog := wd\<rparr>;
          t = (if fe_invalidate i then t\<lparr>f3_line_valid := False, f3_req_cancelled := f3_req_valid s\<rparr> else t)
      in if f3_req_valid s \<and> (fe_ack i \<or> err) then
           (let t = t\<lparr>f3_req_valid := False, f3_req_cancelled := False, f3_line_valid := False\<rparr>
            in if fe_ack i \<and> \<not> err \<and> \<not> f3_req_cancelled s \<and> \<not> fe_invalidate i
               then t\<lparr>f3_line_valid := True, f3_line_base := f3_req_base s, f3_line_data := fe_dat_r i\<rparr> else t)
         else if \<not> fe_invalidate i \<and> fe_update i \<noteq> None then t\<lparr>f3_line_data := the (fe_update i)\<rparr>
         else if \<not> fe_invalidate i \<and> \<not> line_hit3 i s \<and> \<not> f3_req_valid s
         then t\<lparr>f3_req_valid := True, f3_req_cancelled := False, f3_req_base := line_base (fe_pc i)\<rparr>
         else t)"

text \<open>
  The buffered line is the one memory holds.  Here a store to that line may come with the
  line's new contents (\<open>update_line\<close>), provided no request is answered in the same cycle.
\<close>

definition fe3_coherent :: "memory \<Rightarrow> frontend3 \<Rightarrow> bool" where
  "fe3_coherent m s \<longleftrightarrow> (f3_line_valid s \<longrightarrow> f3_line_data s = bus_read m (f3_line_base s))"

definition honest_cycle3 :: "memory \<Rightarrow> memory \<Rightarrow> fe_in \<Rightarrow> frontend3 \<Rightarrow> bool" where
  "honest_cycle3 m m' i s \<longleftrightarrow>
     (f3_req_valid s \<and> fe_ack i \<longrightarrow> fe_dat_r i = bus_read m (f3_req_base s)) \<and>
     (case fe_update i of
        None \<Rightarrow> \<not> fe_invalidate i \<longrightarrow> m' = m
      | Some d \<Rightarrow> \<not> fe_invalidate i \<longrightarrow> \<not> f3_req_valid s \<and> d = bus_read m' (f3_line_base s))"

lemma fe3_coherent_tick:
  assumes "fe3_coherent m s" and "honest_cycle3 m m' i s"
  shows "fe3_coherent m' (frontend3_tick N i s)"
  using assms
  by (cases "fe_invalidate i"; cases "fe_update i"; cases "f3_req_valid s")
    (auto simp: fe3_coherent_def honest_cycle3_def frontend3_tick_def Let_def)

lemma fe3_fetch:
  assumes "fe3_coherent m s" and "line_hit3 i s"
  shows "fetched_word3 i s = fetch_half m (fe_pc i)"
proof -
  have "f3_line_data s = bus_read m (line_base (fe_pc i))"
    using assms by (simp add: fe3_coherent_def line_hit3_def)
  then show ?thesis
    by (simp add: fetched_word3_def line_base_def [symmetric] fetch_half_eq [unfolded line_base_def [symmetric]])
qed

fun fe3_run :: "nat \<Rightarrow> (memory \<times> fe_in) list \<Rightarrow> memory \<times> frontend3 \<Rightarrow> memory \<times> frontend3" where
  "fe3_run N [] ms = ms"
| "fe3_run N ((m', i) # is) (m, s) = fe3_run N is (m', frontend3_tick N i s)"

fun fe3_honest :: "nat \<Rightarrow> (memory \<times> fe_in) list \<Rightarrow> memory \<times> frontend3 \<Rightarrow> bool" where
  "fe3_honest N [] ms = True"
| "fe3_honest N ((m', i) # is) (m, s) =
     (honest_cycle3 m m' i s \<and> fe3_honest N is (m', frontend3_tick N i s))"

lemma fe3_run_coherent:
  "fe3_honest N is (m, s) \<Longrightarrow> fe3_coherent m s \<Longrightarrow> fe3_run N is (m, s) = (m', s') \<Longrightarrow> fe3_coherent m' s'"
  by (induction N "is" "(m, s)" arbitrary: m s rule: fe3_run.induct) (auto intro: fe3_coherent_tick)

text \<open>
  The v3 fetch front end presents only half-words memory holds at the program
  counter; memory may change with an invalidation, or with an update of the buffered line while no
  request is pending.
\<close>

lemma frontend3_delivers_memory:
  assumes "fe3_honest N is (m, frontend3_reset)"
    and "fe3_run N is (m, frontend3_reset) = (m', s)"
    and "line_hit3 i s"
  shows "fetched_word3 i s = fetch_half m' (fe_pc i)"
proof (rule fe3_fetch [OF _ assms(3)])
  have "fe3_coherent m frontend3_reset" by (simp add: fe3_coherent_def frontend3_reset_def)
  from fe3_run_coherent [OF assms(1) this assms(2)] show "fe3_coherent m' s" .
qed

section \<open>Examples\<close>

definition fe_cycle :: "u64 \<Rightarrow> bool \<Rightarrow> u64 \<Rightarrow> fe_in" where
  "fe_cycle pc ack d = \<lparr>fe_pc = pc, fe_invalidate = False, fe_update = None, fe_ack = ack, fe_err = False, fe_dat_r = d\<rparr>"

lemma fe_cycle_sel [simp]:
  "fe_pc (fe_cycle pc ack d) = pc" "\<not> fe_invalidate (fe_cycle pc ack d)" "fe_update (fe_cycle pc ack d) = None"
  "fe_ack (fe_cycle pc ack d) = ack" "\<not> fe_err (fe_cycle pc ack d)" "fe_dat_r (fe_cycle pc ack d) = d"
  "pc_held pc (fe_cycle pc ack d)"
  by (simp_all add: fe_cycle_def pc_held_def)

lemma reset_misses: "\<not> instruction_valid ib i frontend_reset \<and> \<not> req_valid frontend_reset"
  by (simp add: instruction_valid_def line_hit_def line_cached_def prefetch_hit_def frontend_reset_def)

lemma fetch_served_witness:
  "instruction_valid 4 (fe_cycle 0x12 False 0)
     (fe_ticks 8 4 [fe_cycle 0x12 False 0, fe_cycle 0x12 False 0, fe_cycle 0x12 True 5] frontend_reset)"
  using fetch_served [of "0x12" "fe_cycle 0x12 False 0" 4 frontend_reset "[fe_cycle 0x12 False 0]" 8
      "fe_cycle 0x12 True 5" "fe_cycle 0x12 False 0"] reset_misses by simp

lemma zero_lines: "bus_read (\<lambda>_. 0) a = 0"
  by (rule bit_word_eqI) (simp add: bit_bus_read)

lemma frontend_delivers_memory_witness:
  "\<exists>m' s. fe_run 8 4 [(\<lambda>_. 0, fe_cycle 0x12 False 0), (\<lambda>_. 0, fe_cycle 0x12 True 0)] (\<lambda>_. 0, frontend_reset) = (m', s) \<and>
     fetched_word 4 (fe_cycle 0x12 False 0) s = fetch_half m' 0x12"
proof -
  let ?z = "\<lambda>_. 0 :: byte" and ?i = "fe_cycle 0x12 False 0" and ?a = "fe_cycle 0x12 True 0"
  let ?s = "fe_ticks 8 4 [?i, ?a] frontend_reset"
  have r: "fe_run 8 4 [(?z, ?i), (?z, ?a)] (?z, frontend_reset) = (?z, ?s)" by simp
  have h: "fe_honest 8 4 [(?z, ?i), (?z, ?a)] (?z, frontend_reset)"
    using reset_misses by (simp add: honest_cycle_def zero_lines)
  have "instruction_valid 4 ?i ?s"
    using answer_valid [of "0x12" ?a 0 "frontend_tick 8 4 ?i frontend_reset" 8 ?i 4]
      miss_requests [of "0x12" ?i 4 frontend_reset 8] reset_misses
    by (simp add: demand_pending_def)
  from frontend_delivers_memory [OF h r this] r show ?thesis by simp
qed

definition frontend_promoted :: frontend where
  "frontend_promoted = frontend_reset\<lparr>fe_valid := (\<lambda>_. True), pf_valid := True, pf_data := 9\<rparr>"

lemma update_shadowed_witness:
  "fetched_word 4 (fe_cycle 0 False 0)
      (frontend_tick 8 4 ((fe_cycle 0 False 0)\<lparr>fe_update := Some 7\<rparr>) frontend_promoted) = instruction_word 0 9"
  using update_shadowed [of 4 "(fe_cycle 0 False 0)\<lparr>fe_update := Some 7\<rparr>" frontend_promoted 7 "fe_cycle 0 False 0" 8]
  by (simp add: frontend_promoted_def frontend_reset_def line_hit_def line_cached_def prefetch_hit_def tag_of_def
      line_of_def line_base_def bslice_def fe_cycle_def)

lemma frontend3_delivers_memory_witness:
  "\<exists>m' s. fe3_run 8 [(\<lambda>_. 0, fe_cycle 0x12 False 0), (\<lambda>_. 0, fe_cycle 0x12 True 0)] (\<lambda>_. 0, frontend3_reset) = (m', s) \<and>
     fetched_word3 (fe_cycle 0x12 False 0) s = fetch_half m' 0x12"
proof -
  let ?z = "\<lambda>_. 0 :: byte" and ?i = "fe_cycle 0x12 False 0" and ?a = "fe_cycle 0x12 True 0"
  obtain m' s where r: "fe3_run 8 [(?z, ?i), (?z, ?a)] (?z, frontend3_reset) = (m', s)" by force
  have h: "fe3_honest 8 [(?z, ?i), (?z, ?a)] (?z, frontend3_reset)"
    by (simp add: honest_cycle3_def zero_lines)
  have "line_hit3 ?i s"
    using r by (auto simp: frontend3_tick_def frontend3_reset_def line_hit3_def watchdog_fire3_def Let_def)
  from frontend3_delivers_memory [OF h r this] r show ?thesis by simp
qed

end
