(* ===== verification/V3_Tlb.thy ===== *)
theory V3_Tlb
  imports Tlb
begin

text \<open>
  The TLB of the v3 and v4 cores (\<open>v3/tlb.py\<close>): separate arrays instead of a packed
  memory, with the page-number width \<open>'p\<close> (\<open>virtual_address_bits\<close> - 12) and the generation
  width \<open>'g\<close> as parameters.  The v3 core uses 52 and 8, the v4 core 27 and 1.  It meets the
  contract of \<open>translation_cache\<close> for every width; with 27-bit page numbers it also
  truncates physical pages, which is stated here as what the code does.
\<close>

section \<open>State and operations\<close>

record ('page, 'gen) tlb3 =
  current_generation :: 'gen
  valid_bits :: "nat \<Rightarrow> bool"
  generations :: "nat \<Rightarrow> 'gen"
  virtual_tags :: "nat \<Rightarrow> 'page"
  physical_pages :: "nat \<Rightarrow> 'page"
  perms :: "nat \<Rightarrow> tlb_perms"

type_synonym ('p, 'g) word_tlb = "('p word, 'g word) tlb3"

definition tlb3_reset :: "('p::len, 'g::len) word_tlb" where
  "tlb3_reset = \<lparr>current_generation = 0, valid_bits = (\<lambda>_. False), generations = (\<lambda>_. 0),
     virtual_tags = (\<lambda>_. 0), physical_pages = (\<lambda>_. 0),
     perms = (\<lambda>_. \<lparr>perm_read = False, perm_write = False, perm_execute = False, perm_user = False\<rparr>)\<rparr>"

definition tlb3_lookup_index :: "nat \<Rightarrow> u64 \<Rightarrow> nat" where
  "tlb3_lookup_index ib vaddr = unat (take_bit ib (page_of vaddr))"

definition tlb3_hit :: "nat \<Rightarrow> ('p::len, 'g::len) word_tlb \<Rightarrow> u64 \<Rightarrow> bool" where
  "tlb3_hit ib t vaddr =
     (let i = tlb3_lookup_index ib vaddr in
      valid_bits t i \<and> generations t i = current_generation t \<and> ucast (virtual_tags t i) = page_of vaddr)"

definition tlb3_paddr :: "nat \<Rightarrow> ('p::len, 'g::len) word_tlb \<Rightarrow> u64 \<Rightarrow> u64" where
  "tlb3_paddr ib t vaddr =
     push_bit 12 (ucast (physical_pages t (tlb3_lookup_index ib vaddr))) OR ucast (page_offset vaddr)"

definition tlb3_perms :: "nat \<Rightarrow> ('p::len, 'g::len) word_tlb \<Rightarrow> u64 \<Rightarrow> tlb_perms" where
  "tlb3_perms ib t vaddr = perms t (tlb3_lookup_index ib vaddr)"

definition tlb3_flush_all :: "('p::len, 'g::len) word_tlb \<Rightarrow> ('p, 'g) word_tlb" where
  "tlb3_flush_all t =
     (if current_generation t = - 1 then t\<lparr>current_generation := 0, valid_bits := (\<lambda>_. False)\<rparr>
      else t\<lparr>current_generation := current_generation t + 1\<rparr>)"

text \<open>The fill ports are \<open>'p\<close> bits wide: the core's page numbers are truncated on the way in.\<close>

definition tlb3_fill :: "nat \<Rightarrow> 'p word \<Rightarrow> 'p word \<Rightarrow> tlb_perms \<Rightarrow> ('p::len, 'g::len) word_tlb \<Rightarrow> ('p, 'g) word_tlb" where
  "tlb3_fill ib vpage ppage q t =
     (let i = unat (take_bit ib vpage) in
      t\<lparr>valid_bits := (valid_bits t)(i := True),
        generations := (generations t)(i := current_generation t),
        virtual_tags := (virtual_tags t)(i := vpage),
        physical_pages := (physical_pages t)(i := ppage),
        perms := (perms t)(i := q)\<rparr>)"

definition tlb3_tick ::
  "nat \<Rightarrow> bool \<Rightarrow> ('p word \<times> 'p word \<times> tlb_perms) option \<Rightarrow> ('p::len, 'g::len) word_tlb \<Rightarrow> ('p, 'g) word_tlb" where
  "tlb3_tick ib flush f t =
     (if flush then tlb3_flush_all t
      else case f of Some (v, p, q) \<Rightarrow> tlb3_fill ib v p q t | None \<Rightarrow> t)"

section \<open>The contract, for every width\<close>

definition tlb3_inv :: "('p::len, 'g::len) word_tlb \<Rightarrow> bool" where
  "tlb3_inv t \<longleftrightarrow> (\<forall>i. valid_bits t i \<longrightarrow> generations t i \<le> current_generation t)"

definition tlb3_lookup :: "nat \<Rightarrow> ('p::len, 'g::len) word_tlb \<Rightarrow> 'p word \<Rightarrow> ('p word \<times> tlb_perms) option" where
  "tlb3_lookup ib t v =
     (let i = unat (take_bit ib v)
      in if valid_bits t i \<and> generations t i = current_generation t \<and> virtual_tags t i = v
         then Some (physical_pages t i, perms t i) else None)"

lemma word_less_succ: "(g :: 'g::len word) \<noteq> - 1 \<Longrightarrow> g < g + 1"
proof -
  assume "g \<noteq> - 1"
  then have "g + 1 \<noteq> 0" by (metis add_eq_0_iff2)
  then have "unat (g + 1) = Suc (unat g)" using unatSuc [of g] by (simp add: add.commute)
  then show ?thesis by (simp add: word_less_nat_alt)
qed

lemma tlb3_inv_flush: "tlb3_inv t \<Longrightarrow> tlb3_inv (tlb3_flush_all t)"
  by (auto simp: tlb3_inv_def tlb3_flush_all_def intro: order_trans less_imp_le [OF word_less_succ])

lemma tlb3_inv_fill: "tlb3_inv t \<Longrightarrow> tlb3_inv (tlb3_fill ib v p q t)"
  by (auto simp: tlb3_inv_def tlb3_fill_def Let_def)

lemma tlb3_lookup_flush: "tlb3_inv t \<Longrightarrow> tlb3_lookup ib (tlb3_flush_all t) v = None"
proof -
  assume inv: "tlb3_inv t"
  have "generations t i \<noteq> current_generation t + 1" if "valid_bits t i" "current_generation t \<noteq> - 1" for i
    using inv that word_less_succ [OF that(2)] by (auto simp: tlb3_inv_def dest!: spec [of _ i])
  then show ?thesis by (auto simp: tlb3_flush_all_def tlb3_lookup_def Let_def)
qed

interpretation v3_tlb: translation_cache
  "tlb3_lookup ib" tlb3_flush_all "\<lambda>v e. tlb3_fill ib v (fst e) (snd e)" tlb3_inv for ib
  by unfold_locales
    (auto simp: tlb3_lookup_flush tlb3_inv_flush tlb3_inv_fill, auto simp: tlb3_lookup_def tlb3_fill_def Let_def split: if_splits)

section \<open>Ports and contract\<close>

text \<open>A page number the tags can hold; the ports and the contract agree on such pages.\<close>

definition narrow_page :: "'p itself \<Rightarrow> u64 \<Rightarrow> 'p::len word" where
  "narrow_page _ addr = ucast (page_of addr)"

definition page_fits :: "'p::len itself \<Rightarrow> u64 \<Rightarrow> bool" where
  "page_fits p addr \<longleftrightarrow> ucast (narrow_page p addr) = page_of addr"

lemma index_narrow:
  "ib \<le> LENGTH('p) \<Longrightarrow> unat (take_bit ib (narrow_page TYPE('p::len) vaddr)) = tlb3_lookup_index ib vaddr"
  unfolding tlb3_lookup_index_def narrow_page_def
  by (rule bit_eqI) (auto simp: bit_unsigned_iff bit_take_bit_iff dest: bit_imp_le_length)

lemma ucast_page_inject:
  assumes "LENGTH('p::len) \<le> 52"
  shows "(ucast (x :: 'p word) :: 52 word) = ucast y \<longleftrightarrow> x = y"
proof
  assume e: "(ucast x :: 52 word) = ucast y"
  show "x = y"
  proof (rule bit_word_eqI)
    fix n assume "n < LENGTH('p)"
    then have "n < 52" using assms by simp
    then show "bit x n = bit y n" using arg_cong [OF e, of "\<lambda>w. bit w n"] by (simp add: bit_unsigned_iff)
  qed
qed simp

text \<open>A hit means that the address's page number fits the tags.\<close>

lemma tlb3_hit_fits: "tlb3_hit ib (t :: ('p::len, 'g::len) word_tlb) vaddr \<Longrightarrow> LENGTH('p) \<le> 52 \<Longrightarrow> page_fits TYPE('p) vaddr"
proof -
  assume "tlb3_hit ib t vaddr" and l: "LENGTH('p) \<le> 52"
  then obtain x :: "'p word" where x: "ucast x = page_of vaddr" by (auto simp: tlb3_hit_def Let_def)
  have "(ucast (ucast x :: 52 word) :: 'p word) = x" by (rule bit_word_eqI) (use l in \<open>simp add: bit_unsigned_iff\<close>)
  then show ?thesis by (simp add: page_fits_def narrow_page_def x [symmetric])
qed

lemma tlb3_ports:
  assumes "ib \<le> LENGTH('p::len)" and "LENGTH('p) \<le> 52" and "page_fits TYPE('p) vaddr"
  shows "tlb3_lookup ib (t :: ('p, 'g::len) word_tlb) (narrow_page TYPE('p) vaddr) =
     (if tlb3_hit ib t vaddr then Some (physical_pages t (tlb3_lookup_index ib vaddr), tlb3_perms ib t vaddr) else None)"
  using ucast_page_inject [OF assms(2), of _ "narrow_page TYPE('p) vaddr"] assms(3)
  by (simp add: tlb3_lookup_def tlb3_hit_def tlb3_perms_def Let_def index_narrow [OF assms(1)] page_fits_def)

text \<open>
  A translation that fits is found again with its permissions; the core fills with the
  truncated pages of the walked address and of its translation.
\<close>

definition tlb3_fill_walk :: "nat \<Rightarrow> u64 \<Rightarrow> u64 \<Rightarrow> tlb_perms \<Rightarrow> ('p::len, 'g::len) word_tlb \<Rightarrow> ('p, 'g) word_tlb" where
  "tlb3_fill_walk ib va pa q t = tlb3_fill ib (narrow_page TYPE('p) va) (narrow_page TYPE('p) pa) q t"

lemma page_split: "push_bit 12 (ucast (page_of pa)) OR ucast (page_offset pa) = (pa :: u64)"
  by (rule bit_word_eqI) (auto simp: page_of_def page_offset_def bit_simps)

text \<open>
  A translation whose virtual and physical page numbers fit the width of the v3 TLB's tags is hit
  right after the fill, with the physical address and permissions of the walk.
\<close>

lemma tlb3_fill_hit:
  assumes "ib \<le> LENGTH('p::len)" and "LENGTH('p) \<le> 52" and "page_fits TYPE('p) va" and "page_fits TYPE('p) pa"
    and "page_of vaddr = page_of va" and "page_offset vaddr = page_offset pa"
  shows "let t' = tlb3_fill_walk ib va pa q (t :: ('p, 'g::len) word_tlb) in
    tlb3_hit ib t' vaddr \<and> tlb3_paddr ib t' vaddr = pa \<and> tlb3_perms ib t' vaddr = q"
proof -
  have "tlb3_lookup_index ib vaddr = unat (take_bit ib (narrow_page TYPE('p) va))"
    using index_narrow [OF assms(1), of va] assms(5) by (simp add: tlb3_lookup_index_def)
  moreover have "(ucast (narrow_page TYPE('p) pa) :: u64) = ucast (page_of pa)"
  proof -
    have "(ucast (ucast (narrow_page TYPE('p) pa) :: 52 word) :: u64) = ucast (narrow_page TYPE('p) pa)"
      by (rule bit_word_eqI) (use assms(2) in \<open>auto simp: bit_unsigned_iff dest: bit_imp_le_length\<close>)
    then show ?thesis using assms(4) by (simp add: page_fits_def)
  qed
  ultimately show ?thesis
    using assms(3,5,6) page_split [of pa]
    by (simp add: tlb3_fill_walk_def tlb3_fill_def tlb3_hit_def tlb3_paddr_def tlb3_perms_def Let_def page_fits_def)
qed

section \<open>The instance of the v4 core\<close>

type_synonym v4_tlb = "(27, 1) word_tlb"
type_synonym v3_core_tlb = "(52, 8) word_tlb"

text \<open>
  With 27-bit page numbers a physical address above 2 \<open>^\<close> 39 loses its upper bits in the
  TLB, and an address in the upper half of the canonical space is never found.
\<close>

text \<open>
  In the 27-bit instance the v4 core uses, a fill with a physical page at 2^39 is
  hit and reports physical address 0: the TLB drops the physical address bits from 39 up.
\<close>

lemma v4_tlb_truncates:
  "tlb3_hit 6 (tlb3_fill_walk 6 0 0x8000000000 q (tlb3_reset :: v4_tlb)) 0 \<and>
   tlb3_paddr 6 (tlb3_fill_walk 6 0 0x8000000000 q (tlb3_reset :: v4_tlb)) 0 = 0"
  by (simp add: tlb3_hit_def tlb3_paddr_def tlb3_fill_walk_def tlb3_fill_def narrow_page_def page_of_def page_offset_def
      bslice_def tlb3_reset_def tlb3_lookup_index_def Let_def)

text \<open>
  In the 27-bit instance the v4 core uses, no address of the upper half of the canonical space
  ever hits the TLB.
\<close>

lemma v4_tlb_misses_upper_half: "bit vaddr 63 \<Longrightarrow> \<not> tlb3_hit ib (t :: v4_tlb) vaddr"
proof
  assume b: "bit vaddr 63" and "tlb3_hit ib t vaddr"
  then have "page_fits TYPE(27) vaddr" by (intro tlb3_hit_fits) simp_all
  then have "bit (ucast (narrow_page TYPE(27) vaddr) :: 52 word) 51 = bit (page_of vaddr) 51" by (simp add: page_fits_def)
  moreover have "\<not> bit (narrow_page TYPE(27) vaddr) 51" by (auto dest: bit_imp_le_length)
  ultimately show False using b by (simp add: bit_unsigned_iff page_of_def bit_bslice)
qed

text \<open>In the lower half of the space, with a physical page that fits, the cache is transparent.\<close>

lemma tlb3_fill_hit_witness:
  "\<forall>q. tlb3_hit 6 (tlb3_fill_walk 6 0x1000 0x2008 q (tlb3_reset :: v4_tlb)) 0x1008 \<and>
       tlb3_paddr 6 (tlb3_fill_walk 6 0x1000 0x2008 q (tlb3_reset :: v4_tlb)) 0x1008 = 0x2008"
proof
  fix q show "tlb3_hit 6 (tlb3_fill_walk 6 0x1000 0x2008 q (tlb3_reset :: v4_tlb)) 0x1008 \<and>
      tlb3_paddr 6 (tlb3_fill_walk 6 0x1000 0x2008 q (tlb3_reset :: v4_tlb)) 0x1008 = 0x2008"
  using tlb3_fill_hit [where t = "tlb3_reset :: v4_tlb", of 6 "0x1000" "0x2008" "0x1008" q]
  by (simp add: page_fits_def narrow_page_def page_of_def page_offset_def bslice_def Let_def)
qed

lemma v4_tlb_misses_upper_half_witness: "\<not> tlb3_hit 6 (tlb3_reset :: v4_tlb) 0xFFFFFFC000000000"
  by (rule v4_tlb_misses_upper_half) (simp add: bit_numeral_rec)

end
