(* ===== verification/V4_Walk.thy ===== *)
theory V4_Walk
  imports Isa_Machine V3_Tlb
begin

text \<open>
  The page-table walker of the v4 core (the \<open>walk_*\<close> signals and registers of
  \<open>v4/core.py\<close>): the registers, the decision it takes on a latched page-table entry, and
  its share of the clock edge.  Whatever the wait states of the bus, a walk ends with the
  translation the architecture prescribes, after at most three entries; the order of the
  checks differs from the one of the basic core in one place, which is stated.
\<close>

section \<open>State\<close>

definition WALK_RESUME_FETCH :: "2 word" where "WALK_RESUME_FETCH = 0"
definition WALK_RESUME_MEMORY :: "2 word" where "WALK_RESUME_MEMORY = 1"
definition WALK_RESUME_VECTOR :: "2 word" where "WALK_RESUME_VECTOR = 2"

lemmas resume_defs = WALK_RESUME_FETCH_def WALK_RESUME_MEMORY_def WALK_RESUME_VECTOR_def

record v4_walk =
  w_active :: bool
  w_processing :: bool
  w_started :: bool
  w_virtual_addr :: u64
  w_table_addr :: u64
  w_level :: "2 word"
  w_access :: "2 word"
  w_resume_kind :: "2 word"
  w_pte_latched :: u64

definition walk_idle :: v4_walk where
  "walk_idle = \<lparr>w_active = False, w_processing = False, w_started = False, w_virtual_addr = 0,
     w_table_addr = 0, w_level = 0, w_access = 0, w_resume_kind = 0, w_pte_latched = 0\<rparr>"

section \<open>The decision on an entry\<close>

definition w_index :: "v4_walk \<Rightarrow> 9 word" where
  "w_index w =
     (if w_level w = 2 then bslice 30 (w_virtual_addr w)
      else if w_level w = 1 then bslice 21 (w_virtual_addr w)
      else bslice 12 (w_virtual_addr w))"

definition w_pte_addr :: "v4_walk \<Rightarrow> u64" where
  "w_pte_addr w = w_table_addr w + push_bit 3 (ucast (w_index w))"

definition w_is_leaf :: "v4_walk \<Rightarrow> bool" where
  "w_is_leaf w \<longleftrightarrow> w_pte_latched w AND (PTE_R OR PTE_W OR PTE_X) \<noteq> 0"

definition w_permission_ok :: "v4_walk \<Rightarrow> bool" where
  "w_permission_ok w \<longleftrightarrow>
     (if w_access w = ACCESS_EXECUTE then w_pte_latched w AND PTE_X \<noteq> 0
      else if w_access w = ACCESS_WRITE then w_pte_latched w AND PTE_W \<noteq> 0
      else w_pte_latched w AND PTE_R \<noteq> 0)"

definition w_user_ok :: "bool \<Rightarrow> v4_walk \<Rightarrow> bool" where
  "w_user_ok user w \<longleftrightarrow> \<not> user \<or> w_pte_latched w AND PTE_U \<noteq> 0"

definition w_reserved :: "v4_walk \<Rightarrow> bool" where
  "w_reserved w \<longleftrightarrow> w_pte_latched w AND PTE_RESERVED_MASK \<noteq> 0"

definition w_table_next :: "v4_walk \<Rightarrow> u64" where
  "w_table_next w = push_bit 12 (drop_bit 10 (w_pte_latched w))"

definition w_page_shift :: "v4_walk \<Rightarrow> nat" where
  "w_page_shift w = (if w_level w = 2 then 30 else if w_level w = 1 then 21 else 12)"

definition w_page_mask :: "v4_walk \<Rightarrow> u64" where "w_page_mask w = push_bit (w_page_shift w) 1 - 1"

definition w_result_phys :: "v4_walk \<Rightarrow> u64" where
  "w_result_phys w = push_bit 12 (drop_bit 10 (w_pte_latched w)) + (w_virtual_addr w AND w_page_mask w)"

definition w_present :: "v4_walk \<Rightarrow> bool" where "w_present w \<longleftrightarrow> w_pte_latched w AND PTE_V \<noteq> 0"

definition walk_fault :: "bool \<Rightarrow> v4_walk \<Rightarrow> bool" where
  "walk_fault user w \<longleftrightarrow> w_processing w \<and>
     (\<not> w_present w \<or> w_reserved w \<or>
      (0 < w_level w \<and> w_is_leaf w \<and> (\<not> w_permission_ok w \<or> \<not> w_user_ok user w)) \<or>
      (w_level w = 0 \<and> (\<not> w_is_leaf w \<or> \<not> w_permission_ok w \<or> \<not> w_user_ok user w)))"

definition walk_fault_cause :: "v4_walk \<Rightarrow> trap_vector" where
  "walk_fault_cause w =
     (if \<not> w_present w then PAGE_FAULT_NOT_PRESENT
      else if w_reserved w \<or> w_level w = 0 \<and> \<not> w_is_leaf w then PAGE_FAULT_RESERVED
      else PAGE_FAULT_PERMISSION)"

definition walk_fault_aux :: "v4_walk \<Rightarrow> u64" where
  "walk_fault_aux w =
     (if \<not> w_present w then encode_aux AUX_SUBTYPE_NO_VALID_PTE (ucast (w_level w))
      else if w_reserved w then encode_aux AUX_SUBTYPE_RESERVED_BIT (ucast (w_level w))
      else if w_level w = 0 \<and> \<not> w_is_leaf w then encode_aux AUX_SUBTYPE_INVALID_NONLEAF 0
      else encode_aux AUX_SUBTYPE_PERMISSION (ucast (w_level w)))"

definition walk_leaf_success :: "bool \<Rightarrow> v4_walk \<Rightarrow> bool" where
  "walk_leaf_success user w \<longleftrightarrow> w_processing w \<and> \<not> walk_fault user w \<and>
     (0 < w_level w \<and> w_is_leaf w \<or>
      w_level w = 0 \<and> w_is_leaf w \<and> w_permission_ok w \<and> w_user_ok user w)"

definition walk_perms :: "v4_walk \<Rightarrow> tlb_perms" where
  "walk_perms w = \<lparr>perm_read = w_pte_latched w AND PTE_R \<noteq> 0, perm_write = w_pte_latched w AND PTE_W \<noteq> 0,
     perm_execute = w_pte_latched w AND PTE_X \<noteq> 0, perm_user = w_pte_latched w AND PTE_U \<noteq> 0\<rparr>"

section \<open>The walker's share of the edge\<close>

definition walk_request_valid :: "v4_walk \<Rightarrow> bool" where
  "walk_request_valid w \<longleftrightarrow> w_active w \<and> \<not> w_processing w \<and> \<not> w_started w"

definition walk_response_valid :: "bool \<Rightarrow> v4_walk \<Rightarrow> bool" where
  "walk_response_valid response w \<longleftrightarrow> w_active w \<and> \<not> w_processing w \<and> response"

definition walk_start :: "u64 \<Rightarrow> u64 \<Rightarrow> 2 word \<Rightarrow> 2 word \<Rightarrow> v4_walk" where
  "walk_start root va access resume = \<lparr>w_active = True, w_processing = False, w_started = False,
     w_virtual_addr = va, w_table_addr = root, w_level = 2, w_access = access,
     w_resume_kind = resume, w_pte_latched = 0\<rparr>"

definition walk_stop :: "v4_walk \<Rightarrow> v4_walk" where
  "walk_stop w = w\<lparr>w_active := False, w_processing := False, w_started := False\<rparr>"

definition walk_latch :: "u64 \<Rightarrow> v4_walk \<Rightarrow> v4_walk" where
  "walk_latch pte w = w\<lparr>w_processing := True, w_pte_latched := pte\<rparr>"

text \<open>\<open>w\<close> is the state before the edge, \<open>t\<close> the one being built.\<close>

definition walk_descend :: "bool \<Rightarrow> v4_walk \<Rightarrow> v4_walk \<Rightarrow> v4_walk" where
  "walk_descend user w t =
     (if w_processing w \<and> \<not> walk_fault user w \<and> \<not> walk_leaf_success user w
      then t\<lparr>w_processing := False, w_started := False, w_table_addr := w_table_next w, w_level := w_level w - 1\<rparr>
      else t)"

text \<open>One edge of a walk nobody interrupts; \<open>response\<close> is a good answer of the bus.\<close>

definition walk_tick :: "bool \<Rightarrow> bool \<Rightarrow> u64 option \<Rightarrow> v4_walk \<Rightarrow> v4_walk" where
  "walk_tick user ready response w =
     (let t = (if walk_request_valid w \<and> ready then w\<lparr>w_started := True\<rparr> else w);
          t = (case response of Some v \<Rightarrow> if walk_response_valid True w then walk_latch v t else t | None \<Rightarrow> t);
          t = (if walk_leaf_success user w then walk_stop t else t)
      in walk_descend user w t)"

section \<open>The architecture's translation\<close>

text \<open>The walk of the documentation, with the reserved bits of every entry checked first.\<close>

fun strict_walk :: "memory \<Rightarrow> bool \<Rightarrow> 2 word \<Rightarrow> u64 \<Rightarrow> nat \<Rightarrow> u64 \<Rightarrow> xlate" where
  "strict_walk m user access va level table =
     (let pte = load_le 8 m (table + 8 * vpn_index va level);
          leaf = (bit pte 1 \<or> bit pte 2 \<or> bit pte 3);
          base = push_bit 12 (drop_bit 10 pte);
          aux = (\<lambda>sub. encode_aux sub (of_nat level))
      in if \<not> bit pte 0 then X_Fault PAGE_FAULT_NOT_PRESENT (aux AUX_SUBTYPE_NO_VALID_PTE)
         else if pte AND PTE_RESERVED_MASK \<noteq> 0 then X_Fault PAGE_FAULT_RESERVED (aux AUX_SUBTYPE_RESERVED_BIT)
         else if leaf then
           (if pte_allows access user pte then X_Ok (base + take_bit (12 + 9 * level) va)
            else X_Fault PAGE_FAULT_PERMISSION (aux AUX_SUBTYPE_PERMISSION))
         else if level = 0 then X_Fault PAGE_FAULT_RESERVED (aux AUX_SUBTYPE_INVALID_NONLEAF)
         else strict_walk m user access va (level - 1) base)"

declare strict_walk.simps [simp del]

text \<open>It agrees with \<open>page_walk\<close> unless it meets an entry with reserved bits set.\<close>

definition reserved_fault :: "memory \<Rightarrow> u64 \<Rightarrow> nat \<Rightarrow> xlate \<Rightarrow> bool" where
  "reserved_fault m va level x \<longleftrightarrow>
     (\<exists>l table. l \<le> level \<and> x = X_Fault PAGE_FAULT_RESERVED (encode_aux AUX_SUBTYPE_RESERVED_BIT (of_nat l)) \<and>
        load_le 8 m (table + 8 * vpn_index va l) AND PTE_RESERVED_MASK \<noteq> 0)"

lemma strict_walk_page_walk:
  "strict_walk m user access va level table = page_walk m user access va level table \<or>
   reserved_fault m va level (strict_walk m user access va level table)"
proof (induction level arbitrary: table)
  case 0
  show ?case
    unfolding strict_walk.simps [of m user access va 0] page_walk.simps [of m user access va 0]
    by (auto simp: Let_def reserved_fault_def)
next
  case (Suc level)
  let ?pte = "load_le 8 m (table + 8 * vpn_index va (Suc level))"
  note unfold = strict_walk.simps [of m user access va "Suc level" table] page_walk.simps [of m user access va "Suc level" table]
  consider (absent) "\<not> bit ?pte 0" | (reserved) "bit ?pte 0" "?pte AND PTE_RESERVED_MASK \<noteq> 0"
    | (leaf) "bit ?pte 0" "?pte AND PTE_RESERVED_MASK = 0" "bit ?pte 1 \<or> bit ?pte 2 \<or> bit ?pte 3"
    | (table) "bit ?pte 0" "?pte AND PTE_RESERVED_MASK = 0" "\<not> (bit ?pte 1 \<or> bit ?pte 2 \<or> bit ?pte 3)"
    by blast
  then show ?case
  proof cases
    case reserved
    then have "strict_walk m user access va (Suc level) table =
        X_Fault PAGE_FAULT_RESERVED (encode_aux AUX_SUBTYPE_RESERVED_BIT (of_nat (Suc level)))"
      unfolding unfold by (simp add: Let_def)
    then show ?thesis using reserved(2) unfolding reserved_fault_def by blast
  next
    case table
    let ?t = "push_bit 12 (drop_bit 10 ?pte)"
    have "strict_walk m user access va (Suc level) table = strict_walk m user access va level ?t"
      "page_walk m user access va (Suc level) table = page_walk m user access va level ?t"
      unfolding unfold using table by (simp_all add: Let_def)
    with Suc [of ?t] show ?thesis unfolding reserved_fault_def by (metis le_SucI)
  qed (simp_all add: unfold Let_def)
qed

section \<open>A walk ends with the translation\<close>

text \<open>The entry the walker is about to read, or has latched, together with the levels below.\<close>

definition walk_promise :: "memory \<Rightarrow> bool \<Rightarrow> v4_walk \<Rightarrow> xlate" where
  "walk_promise m user w = strict_walk m user (w_access w) (w_virtual_addr w) (unat (w_level w)) (w_table_addr w)"

definition walk_honest :: "memory \<Rightarrow> v4_walk \<Rightarrow> bool" where
  "walk_honest m w \<longleftrightarrow> w_active w \<and> w_level w \<le> 2 \<and>
     (w_processing w \<longrightarrow> w_started w \<and> w_pte_latched w = load_le 8 m (w_pte_addr w))"

text \<open>Answers come to a started request and carry the entry memory holds.\<close>

definition walk_served :: "memory \<Rightarrow> u64 option \<Rightarrow> v4_walk \<Rightarrow> bool" where
  "walk_served m response w \<longleftrightarrow>
     (\<forall>v. response = Some v \<longrightarrow> w_started w \<and> v = load_le 8 m (w_pte_addr w))"

definition w_fault_result :: "v4_walk \<Rightarrow> xlate" where
  "w_fault_result w = X_Fault (walk_fault_cause w) (walk_fault_aux w)"

lemma level_cases: "(l :: 2 word) \<le> 2 \<Longrightarrow> (l = 0 \<Longrightarrow> P) \<Longrightarrow> (l = 1 \<Longrightarrow> P) \<Longrightarrow> (l = 2 \<Longrightarrow> P) \<Longrightarrow> P"
  by unat_arith

lemma w_present_bit: "w_present w = bit (w_pte_latched w) 0"
  unfolding w_present_def PTE_V_def and_bit by (rule refl)

lemma w_leaf_bits:
  "w_is_leaf w = (bit (w_pte_latched w) 1 \<or> bit (w_pte_latched w) 2 \<or> bit (w_pte_latched w) 3)"
  unfolding w_is_leaf_def PTE_R_def PTE_W_def PTE_X_def bit.conj_disj_distrib or_eq_0_iff de_Morgan_conj and_bit
  by blast

lemma w_allowed:
  "w_access w \<le> 2 \<Longrightarrow> w_permission_ok w \<and> w_user_ok user w \<longleftrightarrow> pte_allows (w_access w) user (w_pte_latched w)"
  unfolding w_permission_ok_def w_user_ok_def PTE_R_def PTE_W_def PTE_X_def PTE_U_def and_bit pte_allows_def
    ACCESS_READ_def ACCESS_WRITE_def ACCESS_EXECUTE_def
  by (erule level_cases) auto

lemma w_pte_addr_vpn:
  "w_level w \<le> 2 \<Longrightarrow> w_pte_addr w = w_table_addr w + 8 * vpn_index (w_virtual_addr w) (unat (w_level w))"
  by (erule level_cases) (simp_all add: w_pte_addr_def w_index_def vpn_index_def push_bit_eq_mult mult.commute)

lemma w_result_phys_take_bit:
  "w_level w \<le> 2 \<Longrightarrow> w_result_phys w = w_table_next w + take_bit (12 + 9 * unat (w_level w)) (w_virtual_addr w)"
  by (erule level_cases)
    (simp_all add: w_result_phys_def w_page_mask_def w_page_shift_def w_table_next_def take_bit_eq_mask mask_eq_exp_minus_1)

text \<open>The three outcomes of a latched entry are those of one level of \<open>strict_walk\<close>.\<close>

lemma entry_outcome:
  assumes "walk_honest m w" and "w_processing w" and "w_access w \<le> 2"
  shows "walk_fault user w \<Longrightarrow> walk_promise m user w = w_fault_result w"
    and "walk_leaf_success user w \<Longrightarrow> walk_promise m user w = X_Ok (w_result_phys w)"
    and "\<not> walk_fault user w \<Longrightarrow> \<not> walk_leaf_success user w \<Longrightarrow>
       0 < w_level w \<and> walk_promise m user w =
         strict_walk m user (w_access w) (w_virtual_addr w) (unat (w_level w) - 1) (w_table_next w)"
proof -
  from assms have l: "w_level w \<le> 2" and pte: "load_le 8 m (w_pte_addr w) = w_pte_latched w"
    by (simp_all add: walk_honest_def)
  have lv: "(of_nat (unat (w_level w)) :: u64) = ucast (w_level w)" by (simp add: unsigned_ucast_eq)
  have pos: "0 < w_level w \<longleftrightarrow> w_level w \<noteq> 0" "unat (w_level w) = 0 \<longleftrightarrow> w_level w = 0"
    by (simp_all add: word_gt_0 unat_eq_0)
  have promise: "walk_promise m user w =
     (if \<not> w_present w then X_Fault PAGE_FAULT_NOT_PRESENT (encode_aux AUX_SUBTYPE_NO_VALID_PTE (ucast (w_level w)))
      else if w_reserved w then X_Fault PAGE_FAULT_RESERVED (encode_aux AUX_SUBTYPE_RESERVED_BIT (ucast (w_level w)))
      else if w_is_leaf w then
        (if w_permission_ok w \<and> w_user_ok user w then X_Ok (w_result_phys w)
         else X_Fault PAGE_FAULT_PERMISSION (encode_aux AUX_SUBTYPE_PERMISSION (ucast (w_level w))))
      else if w_level w = 0 then X_Fault PAGE_FAULT_RESERVED (encode_aux AUX_SUBTYPE_INVALID_NONLEAF (ucast (w_level w)))
      else strict_walk m user (w_access w) (w_virtual_addr w) (unat (w_level w) - 1) (w_table_next w))"
    unfolding walk_promise_def
    by (subst strict_walk.simps)
      (simp only: pte w_pte_addr_vpn [OF l, symmetric] w_present_bit w_leaf_bits w_allowed [OF assms(3)]
        w_result_phys_take_bit [OF l] lv pos w_reserved_def w_table_next_def Let_def)
  note D = walk_fault_def walk_leaf_success_def pos
  show "walk_fault user w \<Longrightarrow> walk_promise m user w = w_fault_result w"
    unfolding promise w_fault_result_def walk_fault_cause_def walk_fault_aux_def D using assms(2) by auto
  show "walk_leaf_success user w \<Longrightarrow> walk_promise m user w = X_Ok (w_result_phys w)"
    unfolding promise D using assms(2) by auto
  show "\<not> walk_fault user w \<Longrightarrow> \<not> walk_leaf_success user w \<Longrightarrow>
       0 < w_level w \<and> walk_promise m user w =
         strict_walk m user (w_access w) (w_virtual_addr w) (unat (w_level w) - 1) (w_table_next w)"
    unfolding promise D using assms(2) by auto
qed

definition walk_resolved :: "bool \<Rightarrow> v4_walk \<Rightarrow> bool" where
  "walk_resolved user w \<longleftrightarrow> walk_fault user w \<or> walk_leaf_success user w"

text \<open>Entries read so far.\<close>

definition walk_reads :: "v4_walk \<Rightarrow> nat" where
  "walk_reads w = 2 - unat (w_level w) + (if w_processing w then 1 else 0)"

definition answers :: "(bool \<times> u64 option) list \<Rightarrow> nat" where
  "answers ops = length (filter (\<lambda>op. snd op \<noteq> None) ops)"

text \<open>Legal cycles of a walk in progress: answers are served, none comes while an entry is being processed.\<close>

fun walk_cycles :: "memory \<Rightarrow> bool \<Rightarrow> (bool \<times> u64 option) list \<Rightarrow> v4_walk \<Rightarrow> bool" where
  "walk_cycles m user [] w = True"
| "walk_cycles m user ((ready, response) # ops) w =
     (\<not> walk_resolved user w \<and> walk_served m response w \<and> (w_processing w \<longrightarrow> response = None) \<and>
      walk_cycles m user ops (walk_tick user ready response w))"

fun walk_run :: "bool \<Rightarrow> (bool \<times> u64 option) list \<Rightarrow> v4_walk \<Rightarrow> v4_walk" where
  "walk_run user [] w = w"
| "walk_run user ((ready, response) # ops) w = walk_run user ops (walk_tick user ready response w)"

lemma walk_tick_step:
  assumes h: "walk_honest m w" and a: "w_access w \<le> 2" and n: "\<not> walk_resolved user w"
    and served: "walk_served m response w" and quiet: "w_processing w \<longrightarrow> response = None"
  shows "walk_honest m (walk_tick user ready response w) \<and>
     walk_promise m user (walk_tick user ready response w) = walk_promise m user w \<and>
     w_access (walk_tick user ready response w) = w_access w \<and>
     walk_reads (walk_tick user ready response w) = walk_reads w + (if response = None then 0 else 1)"
proof (cases "w_processing w")
  case True
  have nf: "\<not> walk_fault user w" "\<not> walk_leaf_success user w" using n by (simp_all add: walk_resolved_def)
  note down = entry_outcome(3) [OF h True a nf]
  have l: "w_level w \<le> 2" using h by (simp add: walk_honest_def)
  have u: "unat (w_level w - 1) = unat (w_level w) - 1" "w_level w - 1 \<le> 2" "0 < unat (w_level w)" "unat (w_level w) \<le> 2"
    using down l by (unat_arith, unat_arith, unat_arith, unat_arith)
  have t: "walk_tick user ready response w =
      w\<lparr>w_processing := False, w_started := False, w_table_addr := w_table_next w, w_level := w_level w - 1\<rparr>"
    using True quiet nf by (simp add: walk_tick_def Let_def walk_request_valid_def walk_descend_def)
  show ?thesis
    unfolding t using True quiet down h u by (simp add: walk_honest_def walk_promise_def walk_reads_def)
next
  case False
  then have nl: "\<not> walk_leaf_success user w" by (simp add: walk_leaf_success_def)
  show ?thesis
  proof (cases response)
    case None
    then have "walk_tick user ready response w = w\<lparr>w_started := (w_started w \<or> walk_request_valid w \<and> ready)\<rparr>"
      using False nl by (cases w) (auto simp: walk_tick_def Let_def walk_descend_def)
    then show ?thesis using None False h by (simp add: walk_honest_def walk_promise_def walk_reads_def)
  next
    case (Some v)
    then have "w_started w" "v = load_le 8 m (w_pte_addr w)" using served by (simp_all add: walk_served_def)
    then have "walk_tick user ready response w = walk_latch (load_le 8 m (w_pte_addr w)) w"
      using Some False nl h
      by (simp add: walk_tick_def Let_def walk_descend_def walk_request_valid_def walk_response_valid_def walk_honest_def)
    then show ?thesis using Some False h \<open>w_started w\<close>
      by (simp add: walk_honest_def walk_promise_def walk_reads_def walk_latch_def w_pte_addr_def w_index_def)
  qed
qed

lemma walk_run_step:
  "walk_honest m w \<Longrightarrow> w_access w \<le> 2 \<Longrightarrow> walk_cycles m user ops w \<Longrightarrow>
     walk_honest m (walk_run user ops w) \<and> walk_promise m user (walk_run user ops w) = walk_promise m user w \<and>
     w_access (walk_run user ops w) = w_access w \<and>
     walk_reads (walk_run user ops w) = walk_reads w + answers ops"
proof (induction ops arbitrary: w)
  case (Cons op ops)
  obtain ready response where op: "op = (ready, response)" by (cases op)
  from Cons.prems(3) have c: "\<not> walk_resolved user w" "walk_served m response w" "w_processing w \<longrightarrow> response = None"
    "walk_cycles m user ops (walk_tick user ready response w)" by (simp_all add: op)
  note S = walk_tick_step [OF Cons.prems(1,2) c(1-3), of ready]
  have "walk_honest m (walk_tick user ready response w)" "w_access (walk_tick user ready response w) \<le> 2"
    using S Cons.prems(2) by simp_all
  from Cons.IH [OF this c(4)] show ?case using S by (simp add: op answers_def split: if_splits)
qed (simp add: answers_def)

lemma walk_start_honest: "walk_honest m (walk_start root va access resume)"
  by (simp add: walk_honest_def walk_start_def)

text \<open>A walk that has read its third entry is resolved.\<close>

lemma third_entry: "walk_honest m w \<Longrightarrow> w_access w \<le> 2 \<Longrightarrow> walk_reads w \<le> 3 \<and> (walk_reads w = 3 \<longrightarrow> walk_resolved user w)"
proof -
  assume h: "walk_honest m w" and a: "w_access w \<le> 2"
  have "unat (w_level w) \<le> 2" using h by (simp add: walk_honest_def word_le_nat_alt)
  moreover have "walk_resolved user w" if "w_processing w" "unat (w_level w) = 0"
    using entry_outcome(3) [OF h that(1) a] that(2) by (auto simp: walk_resolved_def word_less_nat_alt)
  ultimately show ?thesis by (auto simp: walk_reads_def)
qed

text \<open>
  Property C25: Whatever the wait states, a walk of the v4 core reads at most three entries, is
  decided by the third, and ends with the physical address, or the cause and auxiliary code, of
  the architecture's page walk that checks reserved bits first.
\<close>

lemma page_walk_completed:
  assumes "walk_cycles m user ops (walk_start root va access resume)" and "access \<le> 2"
  shows "let w = walk_run user ops (walk_start root va access resume) in
     answers ops \<le> 3 \<and> (answers ops = 3 \<longrightarrow> walk_resolved user w) \<and>
     (walk_leaf_success user w \<longrightarrow> strict_walk m user access va 2 root = X_Ok (w_result_phys w)) \<and>
     (walk_fault user w \<longrightarrow>
        strict_walk m user access va 2 root = X_Fault (walk_fault_cause w) (walk_fault_aux w))"
proof -
  let ?s = "walk_start root va access resume"
  let ?w = "walk_run user ops ?s"
  have s: "w_access ?s = access" "walk_promise m user ?s = strict_walk m user access va 2 root" "walk_reads ?s = 0"
    by (simp_all add: walk_start_def walk_promise_def walk_reads_def)
  then have "w_access ?s \<le> 2" using assms(2) by simp
  from walk_run_step [OF walk_start_honest this assms(1)] s
  have R: "walk_honest m ?w" "walk_promise m user ?w = strict_walk m user access va 2 root"
    "w_access ?w = access" "walk_reads ?w = answers ops" by simp_all
  have a: "w_access ?w \<le> 2" using R(3) assms(2) by simp
  have P: "walk_fault user ?w \<or> walk_leaf_success user ?w \<Longrightarrow> w_processing ?w"
    by (auto simp: walk_fault_def walk_leaf_success_def)
  show ?thesis
    unfolding Let_def
    using third_entry [OF R(1) a] entry_outcome(1,2) [OF R(1) _ a, of user] P R(2,4)
    by (auto simp: w_fault_result_def)
qed

text \<open>Memory without page tables: the first entry read ends the walk.\<close>

lemma page_walk_completed_witness:
  "let w = walk_run False [(True, None), (False, Some 0)] (walk_start 0x1000 0x12345678 ACCESS_READ WALK_RESUME_MEMORY) in
     walk_fault False w \<and> strict_walk (\<lambda>_. 0) False ACCESS_READ 0x12345678 2 0x1000 = X_Fault (walk_fault_cause w) (walk_fault_aux w)"
proof -
  let ?ops = "[(True, None), (False, Some 0)]" and ?w = "walk_start 0x1000 0x12345678 ACCESS_READ WALK_RESUME_MEMORY"
  have zero: "load_le 8 (\<lambda>_. 0) a = 0" for a by (rule bit_word_eqI) (simp add: bit_load_le)
  have u: "\<not> walk_resolved False ?w" "\<not> walk_resolved False (?w\<lparr>w_started := True\<rparr>)" "\<not> walk_leaf_success False ?w"
    "\<not> walk_leaf_success False (?w\<lparr>w_started := True\<rparr>)"
    by (simp_all add: walk_resolved_def walk_fault_def walk_leaf_success_def walk_start_def)
  have one: "walk_tick False True None ?w = ?w\<lparr>w_started := True\<rparr>"
    using u by (simp add: walk_tick_def walk_request_valid_def walk_descend_def walk_start_def Let_def)
  have two: "walk_tick False False (Some 0) (?w\<lparr>w_started := True\<rparr>) = ?w\<lparr>w_started := True, w_processing := True, w_pte_latched := 0\<rparr>"
    using u by (simp add: walk_tick_def walk_request_valid_def walk_response_valid_def walk_latch_def walk_descend_def walk_start_def Let_def)
  have c: "walk_cycles (\<lambda>_. 0) False ?ops ?w"
    using u by (simp add: one walk_served_def zero) (simp add: walk_start_def)
  have f: "walk_fault False (walk_run False ?ops ?w)"
    by (simp add: one two walk_fault_def w_present_def)
  have a: "ACCESS_READ \<le> (2 :: 2 word)" by (simp add: ACCESS_READ_def)
  show ?thesis using page_walk_completed [OF c a] f by (simp only: Let_def)
qed

end
