(* ===== verification/V4_Core.thy ===== *)
theory V4_Core
  imports V4_Store_Buffer Pipe_Frontend V4_Walk
begin

text \<open>
  The pipelined v4 core (\<open>v4/core.py\<close>): the registers as the record \<open>v4_core\<close>, the
  combinational signals of \<open>elaborate\<close> as functions of the state and the inputs of a cycle,
  and the clock edge as the composition of the synchronous blocks in the order of the
  source.  A block takes the state before the edge and the state built so far, so that a
  later assignment wins, as in Amaranth.  The stages and units the core instantiates are
  the ones of the other theories.  Buses are 64 bits wide, as the constructor requires.
\<close>

section \<open>State and inputs\<close>

text \<open>The registers of the trap and interrupt entry: the load of the handler's address.\<close>

record v4_vector =
  vector_active :: bool
  vector_started :: bool
  vector_virtual_addr :: u64
  vector_load_addr :: u64
  vector_phys_valid :: bool
  vector_epc :: u64
  vector_flags :: "3 word"

text \<open>\<open>V4FaultBundle\<close>: the fault registered for the next cycle.\<close>

record v4_fault =
  fault_pending :: bool
  fault_cause :: u64
  fault_pc :: u64
  fault_addr :: u64
  fault_access :: u64
  fault_aux :: u64

record v4_core =
  v4_reset_pending :: bool
  v4_regs :: regfile
  v4_flags :: "3 word"
  v4_halted :: bool
  v4_locked_up :: bool
  v4_lockup_reason :: byte
  v4_commit_valid :: bool
  v4_commit_pc :: u64
  v4_fetch_pc :: u64
  v4_fetch_phys_addr :: u64
  v4_fetch_phys_valid :: bool
  v4_translate_va :: u64
  v4_translate_access :: "2 word"
  v4_fd :: fd_reg
  v4_de :: de_reg
  v4_xm :: xm_reg
  v4_mr :: mr_reg
  v4_retire :: retire_reg
  v4_sb :: storebuf
  v4_walker :: v4_walk
  v4_vec :: v4_vector
  v4_flt :: v4_fault
  v4_ll_valid :: bool
  v4_ll_addr :: u64
  v4_frontend :: frontend
  v4_lsu :: lsu
  v4_dcache :: line_cache
  v4_tlb :: v4_tlb
  v4_sregs :: special_regs

record v4_in =
  vi_i_ack :: bool
  vi_i_err :: bool
  vi_i_dat_r :: u64
  vi_d_ack :: bool
  vi_d_err :: bool
  vi_d_dat_r :: u64
  vi_irq_lines :: u64
  vi_boot_r1 :: u64
  vi_boot_r13 :: u64

section \<open>Registers cleared by helpers of the source\<close>

definition xm_cleared :: "3 word \<Rightarrow> xm_reg" where
  "xm_cleared flags = \<lparr>
     m_valid = False, m_request_started = False, m_virtual_addr = 0, m_addr = 0, m_phys_valid = False,
     m_width_bytes = 0, m_write = False, m_store_value = 0, m_reg_write = False, m_reg_index = 0,
     m_flags_write = False, m_flags_value = flags, m_set_reservation = False, m_reservation_addr = 0,
     m_next_pc = 0, m_commit_pc = 0, m_fault_pc = 0, m_post_reg_write = False, m_post_reg_index = 0,
     m_post_reg_value = 0, m_post_reg_delta = 0, m_post_reg_use_load_result = False,
     m_chain_store = False, m_chain_store_addr = 0, m_chain_store_use_load_result = False, m_chain_store_value = 0\<rparr>"

definition retire_cleared :: "3 word \<Rightarrow> u64 \<Rightarrow> retire_reg" where
  "retire_cleared flags pc = \<lparr>
     r_valid = False, r_reg_write = False, r_reg_index = 0, r_reg_value = 0, r_aux_reg_write = False,
     r_aux_reg_index = 0, r_aux_reg_value = 0, r_flags_write = False, r_flags_value = flags,
     r_cpu_control_write = False, r_cpu_control_value = 0, r_next_pc = pc, r_commit = False, r_commit_pc = 0,
     r_halt = False, r_lockup = False, r_trap = False, r_trap_cause = 0\<rparr>"

definition vector_cleared :: "v4_vector \<Rightarrow> v4_vector" where
  "vector_cleared v = v\<lparr>vector_active := False, vector_started := False, vector_virtual_addr := 0,
     vector_load_addr := 0, vector_phys_valid := False\<rparr>"

definition clear_pipeline :: "v4_core \<Rightarrow> v4_core" where
  "clear_pipeline t = t\<lparr>v4_fd := (v4_fd t)\<lparr>fd_valid := False\<rparr>, v4_de := (v4_de t)\<lparr>de_valid := False\<rparr>,
     v4_xm := (v4_xm t)\<lparr>m_valid := False, m_request_started := False\<rparr>,
     v4_mr := (v4_mr t)\<lparr>mr_valid := False\<rparr>, v4_retire := (v4_retire t)\<lparr>r_valid := False\<rparr>\<rparr>"

section \<open>Modes, interrupts\<close>

definition v4_paging :: "v4_core \<Rightarrow> bool" where
  "v4_paging s \<longleftrightarrow> cpu_control (v4_sregs s) AND CPU_CONTROL_PAGING_ENABLE \<noteq> 0"
definition v4_user :: "v4_core \<Rightarrow> bool" where "v4_user s = bit (cpu_control (v4_sregs s)) 17"
definition v4_root :: "v4_core \<Rightarrow> u64" where "v4_root s = page_table_root_physical (v4_sregs s)"
definition v4_root_bad :: "v4_core \<Rightarrow> bool" where "v4_root_bad s \<longleftrightarrow> v4_root s AND 0xFFF \<noteq> 0"

definition v4_irq_line_pending :: "core_config \<Rightarrow> v4_in \<Rightarrow> u64" where
  "v4_irq_line_pending cfg i = push_bit 1 (take_bit (nat (irq_input_count cfg)) (vi_irq_lines i))"

definition v4_pending_irq_high :: "core_config \<Rightarrow> v4_in \<Rightarrow> v4_core \<Rightarrow> u64" where
  "v4_pending_irq_high cfg i s = interrupt_states_high (v4_sregs s) OR v4_irq_line_pending cfg i"

text \<open>The loop over the lines runs downwards and the last assignment wins: the lowest line is taken.\<close>

definition v4_pending_irq :: "core_config \<Rightarrow> v4_in \<Rightarrow> v4_core \<Rightarrow> u64 option" where
  "v4_pending_irq cfg i s =
     fold (\<lambda>k v. if bit (v4_pending_irq_high cfg i s AND interrupt_mask_high (v4_sregs s)) k
                 then Some (of_nat (64 + k)) else v)
       (rev [1 ..< nat (irq_input_count cfg) + 1]) None"

definition v4_pending_irq_vector :: "core_config \<Rightarrow> v4_in \<Rightarrow> v4_core \<Rightarrow> u64" where
  "v4_pending_irq_vector cfg i s = (case v4_pending_irq cfg i s of Some v \<Rightarrow> v | None \<Rightarrow> 0)"

definition v4_current_vector :: "v4_core \<Rightarrow> u64" where
  "v4_current_vector s =
     drop_bit CPU_CONTROL_CUR_INT_SHIFT (cpu_control (v4_sregs s) AND CPU_CONTROL_CUR_INT_MASK)"

definition v4_in_interrupt :: "v4_core \<Rightarrow> bool" where "v4_in_interrupt s = bit (cpu_control (v4_sregs s)) 1"

definition v4_can_preempt :: "core_config \<Rightarrow> v4_in \<Rightarrow> v4_core \<Rightarrow> bool" where
  "v4_can_preempt cfg i s \<longleftrightarrow> \<not> v4_in_interrupt s \<or> v4_current_vector s = 0 \<or>
     v4_pending_irq_vector cfg i s < v4_current_vector s"

section \<open>Execute slot\<close>

definition v4_execute_in :: "core_config \<Rightarrow> bool \<Rightarrow> v4_core \<Rightarrow> exec_in" where
  "v4_execute_in cfg write_fault s =
     (let d = v4_de s; r = v4_sregs s in \<lparr>
     x_valid = de_valid d, x_instruction = de_instruction d, x_post_pc = de_post_increment_pc d,
     x_a = de_operand_a d, x_b = de_operand_b d, x_flags = de_flags d,
     x_cpu_control = cpu_control r, x_interrupt_epc = interrupt_epc r,
     x_interrupt_eflags = interrupt_eflags r, x_interrupt_cpu_control = interrupt_cpu_control r,
     x_ll_valid = v4_ll_valid s, x_ll_addr = v4_ll_addr s,
     x_special_read_data = sr_read_data cfg r (bslice 0 (de_operand_b d)),
     x_special_read_fault = sr_read_access_fault (v4_user s) (bslice 0 (de_operand_b d)),
     x_special_write_fault = write_fault\<rparr>)"

definition v4_dispatch :: "exec_out \<Rightarrow> v4_core \<Rightarrow> dispatch_in" where
  "v4_dispatch e s = \<lparr>di_de_valid = de_valid (v4_de s), di_out = e, di_paging = v4_paging s,
     di_walk = w_active (v4_walker s), di_vector = vector_active (v4_vec s),
     di_xm_valid = m_valid (v4_xm s), di_mr = v4_mr s\<rparr>"

text \<open>
  The write fault of the special registers depends on the strobe, which depends on the
  dispatch, which only depends on \<open>memory_start\<close>; no output that decides \<open>memory_start\<close>
  reads the fault.
\<close>

definition v4_special_port :: "core_config \<Rightarrow> v4_core \<Rightarrow> sr_port" where
  "v4_special_port cfg s =
     (let x = v4_execute_in cfg False s in
      \<lparr>write_stb = (x_special_write_stb x \<and> execute_to_retire (v4_dispatch (v3_execute x) s)),
       write_selector = x_special_selector x, write_data = x_a x\<rparr>)"

definition v4_out :: "core_config \<Rightarrow> v4_core \<Rightarrow> exec_out" where
  "v4_out cfg s = v3_execute (v4_execute_in cfg (sr_write_access_fault (v4_user s) (v4_special_port cfg s)) s)"

definition v4_to_memory :: "core_config \<Rightarrow> v4_core \<Rightarrow> bool" where
  "v4_to_memory cfg s = execute_to_memory (v4_dispatch (v4_out cfg s) s) (v4_sb s)"
definition v4_to_storebuf :: "core_config \<Rightarrow> v4_core \<Rightarrow> bool" where
  "v4_to_storebuf cfg s = execute_to_storebuf (v4_dispatch (v4_out cfg s) s) (v4_sb s)"
definition v4_to_storebuf_load :: "core_config \<Rightarrow> v4_core \<Rightarrow> bool" where
  "v4_to_storebuf_load cfg s = execute_to_storebuf_load (v4_dispatch (v4_out cfg s) s) (v4_sb s)"
definition v4_to_retire :: "core_config \<Rightarrow> v4_core \<Rightarrow> bool" where
  "v4_to_retire cfg s = execute_to_retire (v4_dispatch (v4_out cfg s) s)"

definition v4_redirect :: "v4_core \<Rightarrow> bool" where "v4_redirect s = memory_redirect (v4_mr s)"

definition v4_mispredict :: "core_config \<Rightarrow> v4_core \<Rightarrow> bool" where
  "v4_mispredict cfg s \<longleftrightarrow> (let e = v4_out cfg s in
     de_valid (v4_de s) \<and> \<not> o_halt e \<and> \<not> o_lockup e \<and> \<not> o_trap e \<and> \<not> v4_redirect s \<and>
     o_next_pc e \<noteq> de_predicted_next_pc (v4_de s))"

definition v4_flush_younger :: "core_config \<Rightarrow> v4_core \<Rightarrow> bool" where
  "v4_flush_younger cfg s \<longleftrightarrow> (let e = v4_out cfg s in
     de_valid (v4_de s) \<and> (v4_mispredict cfg s \<or> o_halt e \<or> o_trap e \<or> o_lockup e))"

section \<open>Decode and fetch\<close>

definition v4_decode :: "core_config \<Rightarrow> v4_core \<Rightarrow> decode_in" where
  "v4_decode cfg s = wire_decode (v4_fd s) (de_valid (v4_de s)) (v4_out cfg s) (v4_xm s) (v4_mr s) (v4_retire s)"

definition v4_decode_advance :: "core_config \<Rightarrow> v4_core \<Rightarrow> bool" where
  "v4_decode_advance cfg s \<longleftrightarrow> fd_valid (v4_fd s) \<and>
     execute_slot_available (v4_dispatch (v4_out cfg s) s) (v4_sb s) \<and>
     \<not> load_use_hazard (v4_decode cfg s) \<and> \<not> v4_flush_younger cfg s \<and> \<not> v4_redirect s"

definition v4_predict_redirect :: "core_config \<Rightarrow> v4_core \<Rightarrow> bool" where
  "v4_predict_redirect cfg s \<longleftrightarrow>
     fd_valid (v4_fd s) \<and> predict_redirect (v4_decode cfg s) \<and> v4_decode_advance cfg s"

definition v4_predicted_next_pc :: "core_config \<Rightarrow> v4_core \<Rightarrow> u64" where
  "v4_predicted_next_pc cfg s = predicted_next_pc (fd_instruction (v4_fd s)) (fd_pc (v4_fd s))"

definition v4_index_bits :: nat where "v4_index_bits = 4"
definition v4_timeout :: "core_config \<Rightarrow> nat" where "v4_timeout cfg = nat (bus_timeout_cycles cfg)"

text \<open>The inputs of the front end other than its invalidation and update.\<close>

definition v4_fetch_bus :: "v4_in \<Rightarrow> v4_core \<Rightarrow> fe_in" where
  "v4_fetch_bus i s = \<lparr>fe_pc = v4_fetch_phys_addr s, fe_invalidate = False, fe_update = None,
     fe_ack = vi_i_ack i, fe_err = vi_i_err i, fe_dat_r = vi_i_dat_r i\<rparr>"

definition v4_fetch_error :: "core_config \<Rightarrow> v4_in \<Rightarrow> v4_core \<Rightarrow> bool" where
  "v4_fetch_error cfg i s \<longleftrightarrow>
     fe_fetch_error (v4_timeout cfg) (v4_fetch_bus i s) (v4_frontend s) \<and> \<not> v4_flush_younger cfg s"

section \<open>Traps and entries\<close>

definition trap_preempt_lockup :: "v4_core \<Rightarrow> bool" where
  "trap_preempt_lockup s \<longleftrightarrow> fault_pending (v4_flt s) \<and> v4_in_interrupt s \<and> v4_current_vector s \<noteq> 0 \<and>
     v4_current_vector s < trap_code FIRST_HW_IRQ \<and> v4_current_vector s \<le> fault_cause (v4_flt s)"

definition trap_start :: "v4_core \<Rightarrow> bool" where
  "trap_start s \<longleftrightarrow> fault_pending (v4_flt s) \<and> \<not> trap_preempt_lockup s \<and> \<not> vector_active (v4_vec s)"

definition fetch_accept :: "core_config \<Rightarrow> v4_in \<Rightarrow> v4_core \<Rightarrow> bool" where
  "fetch_accept cfg i s \<longleftrightarrow> v4_fetch_phys_valid s \<and>
     instruction_valid v4_index_bits (v4_fetch_bus i s) (v4_frontend s) \<and>
     \<not> v4_flush_younger cfg s \<and> \<not> v4_redirect s \<and> \<not> vector_active (v4_vec s) \<and> \<not> trap_start s \<and>
     \<not> v4_predict_redirect cfg s \<and> (\<not> fd_valid (v4_fd s) \<or> v4_decode_advance cfg s)"

section \<open>Data cache\<close>

definition v4_has_dcache :: "core_config \<Rightarrow> bool" where "v4_has_dcache cfg \<longleftrightarrow> cache_topology_of cfg \<noteq> C_none"
definition v4_dcache_bits :: nat where "v4_dcache_bits = 2"

definition mem_byte_offset :: "v4_core \<Rightarrow> 3 word" where "mem_byte_offset s = bslice 0 (m_addr (v4_xm s))"
definition mem_shifted_sel :: "v4_core \<Rightarrow> byte" where
  "mem_shifted_sel s = push_bit (unat (mem_byte_offset s)) (base_sel (m_width_bytes (v4_xm s)))"
definition mem_shifted_store_data :: "v4_core \<Rightarrow> u64" where
  "mem_shifted_store_data s = push_bit (unat (mem_byte_offset s) * 8) (m_store_value (v4_xm s))"
definition mem_single_line_access :: "v4_core \<Rightarrow> bool" where
  "mem_single_line_access s \<longleftrightarrow> unat (mem_byte_offset s) + unat (m_width_bytes (v4_xm s)) \<le> 8"

definition dcache_cacheable_load :: "core_config \<Rightarrow> v4_core \<Rightarrow> bool" where
  "dcache_cacheable_load cfg s \<longleftrightarrow> (let x = v4_xm s in
     v4_has_dcache cfg \<and> m_valid x \<and> m_phys_valid x \<and> \<not> m_write x \<and> \<not> m_request_started x \<and> mem_single_line_access s)"

definition dcache_cacheable_fill :: "core_config \<Rightarrow> v4_core \<Rightarrow> bool" where
  "dcache_cacheable_fill cfg s \<longleftrightarrow> (let x = v4_xm s in
     v4_has_dcache cfg \<and> m_valid x \<and> m_phys_valid x \<and> \<not> m_write x \<and> m_width_bytes x = 8 \<and> mem_byte_offset s = 0)"

definition cached_memory_response :: "core_config \<Rightarrow> v4_core \<Rightarrow> bool" where
  "cached_memory_response cfg s \<longleftrightarrow>
     dcache_cacheable_load cfg s \<and> cache_lookup_hit v4_dcache_bits (v4_dcache s) (m_addr (v4_xm s))"

definition dcache_load_result :: "v4_core \<Rightarrow> u64" where
  "dcache_load_result s =
     (let d = cache_lookup_data v4_dcache_bits (v4_dcache s) (m_addr (v4_xm s))
      in load_result (m_width_bytes (v4_xm s)) (drop_bit (unat (mem_byte_offset s) * 8) d))"

section \<open>Memory stage\<close>

text \<open>The bus side of the load-store unit; its response does not depend on the request ports.\<close>

definition v4_data_bus :: "v4_in \<Rightarrow> lsu_in" where
  "v4_data_bus i = \<lparr>request_valid = False, request_addr = 0, request_width = 0, request_write = False,
     request_store_value = 0, bus_ack = vi_d_ack i, bus_err = vi_d_err i, bus_dat_r = vi_d_dat_r i\<rparr>"

definition v4_response :: "core_config \<Rightarrow> v4_in \<Rightarrow> v4_core \<Rightarrow> lsu_response" where
  "v4_response cfg i s = lsu_response_out (v4_timeout cfg) (v4_data_bus i) (v4_lsu s)"

text \<open>The memory stage sees a valid operation when it is translated and not answered by the cache.\<close>

definition v4_stage_xm :: "core_config \<Rightarrow> v4_core \<Rightarrow> xm_reg" where
  "v4_stage_xm cfg s = (v4_xm s)\<lparr>m_valid := m_valid (v4_xm s) \<and> m_phys_valid (v4_xm s) \<and> \<not> cached_memory_response cfg s\<rparr>"

definition v4_bus_free :: "v4_core \<Rightarrow> bool" where
  "v4_bus_free s \<longleftrightarrow> \<not> vector_active (v4_vec s) \<and> \<not> w_active (v4_walker s) \<and> \<not> storebuf_any_valid (v4_sb s)"

definition v4_stage_lsu :: "core_config \<Rightarrow> v4_in \<Rightarrow> v4_core \<Rightarrow> lsu_response" where
  "v4_stage_lsu cfg i s = (let l = v4_response cfg i s in
     l\<lparr>l_request_ready := l_request_ready l \<and> v4_bus_free s, l_response_valid := l_response_valid l \<and> v4_bus_free s\<rparr>)"

definition v4_response_error :: "core_config \<Rightarrow> v4_in \<Rightarrow> v4_core \<Rightarrow> bool" where
  "v4_response_error cfg i s = l_response_error (v4_response cfg i s)"

definition memory_error :: "core_config \<Rightarrow> v4_in \<Rightarrow> v4_core \<Rightarrow> bool" where
  "memory_error cfg i s \<longleftrightarrow> m_valid (v4_xm s) \<and> \<not> cached_memory_response cfg s \<and>
     ms_complete (v4_stage_xm cfg s) (v4_stage_lsu cfg i s) \<and> v4_response_error cfg i s"

definition memory_to_retire :: "core_config \<Rightarrow> v4_in \<Rightarrow> v4_core \<Rightarrow> bool" where
  "memory_to_retire cfg i s \<longleftrightarrow> m_valid (v4_xm s) \<and>
     (cached_memory_response cfg s \<and> \<not> m_chain_store (v4_xm s) \<or>
      ms_final_response (v4_stage_xm cfg s) (v4_stage_lsu cfg i s) \<and> \<not> v4_response_error cfg i s)"

definition memory_chain_continue :: "core_config \<Rightarrow> v4_in \<Rightarrow> v4_core \<Rightarrow> bool" where
  "memory_chain_continue cfg i s \<longleftrightarrow> m_valid (v4_xm s) \<and>
     (cached_memory_response cfg s \<and> m_chain_store (v4_xm s) \<or>
      \<not> cached_memory_response cfg s \<and> ms_chain_continue (v4_stage_xm cfg s) (v4_stage_lsu cfg i s))"

definition chain_continue_store_value :: "core_config \<Rightarrow> v4_in \<Rightarrow> v4_core \<Rightarrow> u64" where
  "chain_continue_store_value cfg i s =
     (let x = v4_xm s in
      if cached_memory_response cfg s
      then (if m_chain_store_use_load_result x then dcache_load_result s else m_chain_store_value x)
      else ms_next_chain_store_value (v4_stage_xm cfg s) (v4_stage_lsu cfg i s))"

text \<open>
  The result of a load answered by the cache: the \<open>cached_memory_*\<close> signals repeat the
  equations of the memory stage with the cache's word in place of the response.
\<close>

definition v4_memory_result :: "core_config \<Rightarrow> v4_in \<Rightarrow> v4_core \<Rightarrow> retire_reg" where
  "v4_memory_result cfg i s =
     (let l = v4_stage_lsu cfg i s in
      if cached_memory_response cfg s then ms_result (v4_xm s) (l\<lparr>l_load_value := dcache_load_result s\<rparr>)
      else ms_result (v4_stage_xm cfg s) l)"

definition v4_store_overlaps_reservation :: "core_config \<Rightarrow> v4_in \<Rightarrow> v4_core \<Rightarrow> bool" where
  "v4_store_overlaps_reservation cfg i s \<longleftrightarrow>
     (let x = v4_xm s; reservation_end = v4_ll_addr s + 7; write_end = m_virtual_addr x + ucast (m_width_bytes x) - 1 in
      v4_ll_valid s \<and> memory_to_retire cfg i s \<and> m_write x \<and> m_width_bytes x \<noteq> 0 \<and>
      m_virtual_addr x \<le> reservation_end \<and> v4_ll_addr s \<le> write_end)"

text \<open>What a completed store does to the caches, and the line the front end holds.\<close>

definition v4_store_done :: "core_config \<Rightarrow> v4_in \<Rightarrow> v4_core \<Rightarrow> bool" where
  "v4_store_done cfg i s \<longleftrightarrow> \<not> v4_reset_pending s \<and> memory_to_retire cfg i s \<and> \<not> cached_memory_response cfg s \<and> m_write (v4_xm s)"

definition v4_dcache_cmd :: "core_config \<Rightarrow> v4_in \<Rightarrow> v4_core \<Rightarrow> cache_cmd" where
  "v4_dcache_cmd cfg i s =
     (let a = m_addr (v4_xm s); crossing = v4_store_done cfg i s \<and> \<not> mem_single_line_access s \<and> v4_has_dcache cfg in
      \<lparr>cmd_flush_all = crossing, cmd_invalidate = port crossing a,
       cmd_store_update = port (v4_store_done cfg i s \<and> mem_single_line_access s \<and> v4_has_dcache cfg)
         (a, mem_shifted_sel s, mem_shifted_store_data s),
       cmd_fill = port (\<not> v4_reset_pending s \<and> memory_to_retire cfg i s \<and> \<not> cached_memory_response cfg s \<and> dcache_cacheable_fill cfg s)
         (a, l_load_value (v4_response cfg i s))\<rparr>)"

definition v4_line_match :: "v4_core \<Rightarrow> bool" where
  "v4_line_match s \<longleftrightarrow> fe_line_valid (v4_frontend s) \<and>
     m_addr (v4_xm s) AND 0xFFFFFFFFFFFFFFF8 = fe_line_base (v4_frontend s)"

definition unified_line_update_value :: "v4_core \<Rightarrow> u64" where
  "unified_line_update_value s =
     merge_bytes (mem_shifted_sel s) (mem_shifted_store_data s) (fe_line_data (v4_frontend s))"

definition frontend_line_update_valid :: "core_config \<Rightarrow> v4_in \<Rightarrow> v4_core \<Rightarrow> bool" where
  "frontend_line_update_valid cfg i s \<longleftrightarrow> v4_store_done cfg i s \<and> v4_line_match s \<and>
     cache_topology_of cfg = C_unified \<and> mem_single_line_access s"

definition frontend_store_invalidate :: "core_config \<Rightarrow> v4_in \<Rightarrow> v4_core \<Rightarrow> bool" where
  "frontend_store_invalidate cfg i s \<longleftrightarrow> v4_store_done cfg i s \<and> v4_line_match s \<and>
     \<not> (cache_topology_of cfg = C_unified \<and> mem_single_line_access s)"

section \<open>Translation\<close>

definition v4_tlb_bits :: "core_config \<Rightarrow> nat" where "v4_tlb_bits cfg = int_log2 (nat (tlb_entries cfg))"

definition v4_tlb_hit_ok :: "core_config \<Rightarrow> v4_core \<Rightarrow> bool" where
  "v4_tlb_hit_ok cfg s \<longleftrightarrow>
     (let va = v4_translate_va s; p = tlb3_perms (v4_tlb_bits cfg) (v4_tlb s) va in
      enable_tlb cfg \<and> tlb3_hit (v4_tlb_bits cfg) (v4_tlb s) va \<and>
      (if v4_translate_access s = ACCESS_EXECUTE then perm_execute p
       else if v4_translate_access s = ACCESS_WRITE then perm_write p else perm_read p) \<and>
      (\<not> v4_user s \<or> perm_user p))"

definition v4_tlb_paddr :: "core_config \<Rightarrow> v4_core \<Rightarrow> u64" where
  "v4_tlb_paddr cfg s = (if enable_tlb cfg then tlb3_paddr (v4_tlb_bits cfg) (v4_tlb s) (v4_translate_va s) else 0)"

text \<open>The conditions the three translations share: done at once, not allowed, or to be walked.\<close>

definition v4_translate_now :: "core_config \<Rightarrow> v4_core \<Rightarrow> u64 \<Rightarrow> bool" where
  "v4_translate_now cfg s va \<longleftrightarrow> \<not> v4_paging s \<or> is_canonical39 va \<and> \<not> v4_root_bad s \<and> v4_tlb_hit_ok cfg s"
definition v4_translate_bad :: "v4_core \<Rightarrow> u64 \<Rightarrow> bool" where
  "v4_translate_bad s va \<longleftrightarrow> v4_paging s \<and> (\<not> is_canonical39 va \<or> v4_root_bad s)"
definition v4_translate_phys :: "core_config \<Rightarrow> v4_core \<Rightarrow> u64 \<Rightarrow> u64" where
  "v4_translate_phys cfg s va = (if v4_paging s then v4_tlb_paddr cfg s else va)"

definition bad_address_cause :: "u64 \<Rightarrow> u64" where
  "bad_address_cause va = trap_code (if \<not> is_canonical39 va then PAGE_FAULT_CANONICAL else PAGE_FAULT_RESERVED)"
definition bad_address_aux :: "u64 \<Rightarrow> u64" where
  "bad_address_aux va = encode_aux (if \<not> is_canonical39 va then AUX_SUBTYPE_CANONICAL else AUX_SUBTYPE_RESERVED_BIT) 2"

definition fetch_translate_ready :: "v4_core \<Rightarrow> bool" where
  "fetch_translate_ready s \<longleftrightarrow> \<not> v4_fetch_phys_valid s \<and> v4_bus_free s \<and> \<not> fd_valid (v4_fd s) \<and> \<not> de_valid (v4_de s) \<and>
     \<not> m_valid (v4_xm s) \<and> \<not> r_valid (v4_retire s) \<and> \<not> fault_pending (v4_flt s)"
definition fetch_translate_complete :: "core_config \<Rightarrow> v4_core \<Rightarrow> bool" where
  "fetch_translate_complete cfg s \<longleftrightarrow> fetch_translate_ready s \<and> \<not> bit (v4_translate_va s) 0 \<and>
     v4_translate_now cfg s (v4_translate_va s)"
definition fetch_fault :: "v4_core \<Rightarrow> bool" where
  "fetch_fault s \<longleftrightarrow> fetch_translate_ready s \<and> (bit (v4_translate_va s) 0 \<or> v4_translate_bad s (v4_translate_va s))"

definition memory_translate_ready :: "v4_core \<Rightarrow> bool" where
  "memory_translate_ready s \<longleftrightarrow> m_valid (v4_xm s) \<and> \<not> m_phys_valid (v4_xm s) \<and> v4_bus_free s \<and> \<not> fault_pending (v4_flt s)"
definition memory_translate_complete :: "core_config \<Rightarrow> v4_core \<Rightarrow> bool" where
  "memory_translate_complete cfg s \<longleftrightarrow> memory_translate_ready s \<and> v4_translate_now cfg s (m_virtual_addr (v4_xm s))"
definition memory_fault :: "v4_core \<Rightarrow> bool" where
  "memory_fault s \<longleftrightarrow> memory_translate_ready s \<and> v4_translate_bad s (m_virtual_addr (v4_xm s))"
definition memory_access :: "v4_core \<Rightarrow> 2 word" where
  "memory_access s = (if m_write (v4_xm s) then ACCESS_WRITE else ACCESS_READ)"

definition vector_translate_ready :: "v4_core \<Rightarrow> bool" where
  "vector_translate_ready s \<longleftrightarrow> vector_active (v4_vec s) \<and> \<not> vector_phys_valid (v4_vec s) \<and>
     \<not> w_active (v4_walker s) \<and> \<not> storebuf_any_valid (v4_sb s) \<and> \<not> fault_pending (v4_flt s)"
definition vector_translate_complete :: "core_config \<Rightarrow> v4_core \<Rightarrow> bool" where
  "vector_translate_complete cfg s \<longleftrightarrow> vector_translate_ready s \<and> v4_translate_now cfg s (vector_virtual_addr (v4_vec s))"
definition vector_translate_lockup :: "v4_core \<Rightarrow> bool" where
  "vector_translate_lockup s \<longleftrightarrow> vector_translate_ready s \<and> v4_translate_bad s (vector_virtual_addr (v4_vec s))"

definition v4_walk_fault :: "v4_core \<Rightarrow> bool" where "v4_walk_fault s = walk_fault (v4_user s) (v4_walker s)"
definition v4_walk_success :: "v4_core \<Rightarrow> bool" where "v4_walk_success s = walk_leaf_success (v4_user s) (v4_walker s)"
definition walk_fault_trap :: "v4_core \<Rightarrow> bool" where
  "walk_fault_trap s \<longleftrightarrow> v4_walk_fault s \<and> w_resume_kind (v4_walker s) \<noteq> WALK_RESUME_VECTOR"
definition walk_fault_lockup :: "v4_core \<Rightarrow> bool" where
  "walk_fault_lockup s \<longleftrightarrow> v4_walk_fault s \<and> w_resume_kind (v4_walker s) = WALK_RESUME_VECTOR"

section \<open>Trap arbitration\<close>

definition v4_walk_fault_pc :: "v4_core \<Rightarrow> u64" where
  "v4_walk_fault_pc s = (if w_resume_kind (v4_walker s) = WALK_RESUME_MEMORY then m_fault_pc (v4_xm s)
     else w_virtual_addr (v4_walker s))"

definition trap_request_next :: "v4_core \<Rightarrow> bool" where
  "trap_request_next s \<longleftrightarrow> trap_port (retire_stage (v4_retire s)) \<noteq> None \<or> fetch_fault s \<or> memory_fault s \<or> walk_fault_trap s"

text \<open>The fault registered at the edge: the retire stage first, then fetch, memory and walk faults.\<close>

definition v4_fault_next :: "v4_core \<Rightarrow> v4_fault" where
  "v4_fault_next s =
     (let fva = v4_translate_va s; mva = m_virtual_addr (v4_xm s); w = v4_walker s;
          (cause, pc) =
            (case trap_port (retire_stage (v4_retire s)) of
               Some (c, p) \<Rightarrow> (c, p)
             | None \<Rightarrow>
                (if fetch_fault s
                 then (if bit fva 0 then trap_code EXEC_ALIGN else bad_address_cause fva, fva)
                 else if memory_fault s then (bad_address_cause mva, m_fault_pc (v4_xm s))
                 else (trap_code (walk_fault_cause w), v4_walk_fault_pc s)));
          (addr, access, aux) =
            (if fetch_fault s
             then (fva, ucast ACCESS_EXECUTE, if bit fva 0 then encode_aux AUX_SUBTYPE_NONE 0 else bad_address_aux fva)
             else if memory_fault s then (mva, ucast (memory_access s), bad_address_aux mva)
             else if walk_fault_trap s then (w_virtual_addr w, ucast (w_access w), walk_fault_aux w)
             else (0, 0, 0))
      in \<lparr>fault_pending = trap_request_next s, fault_cause = cause, fault_pc = pc,
          fault_addr = addr, fault_access = access, fault_aux = aux\<rparr>)"

definition irq_start :: "core_config \<Rightarrow> v4_in \<Rightarrow> v4_core \<Rightarrow> bool" where
  "irq_start cfg i s \<longleftrightarrow> \<not> fault_pending (v4_flt s) \<and> \<not> trap_request_next s \<and> v4_bus_free s \<and>
     \<not> fd_valid (v4_fd s) \<and> \<not> de_valid (v4_de s) \<and> \<not> m_valid (v4_xm s) \<and> \<not> mr_valid (v4_mr s) \<and>
     \<not> r_valid (v4_retire s) \<and> v4_pending_irq cfg i s \<noteq> None \<and> bit (cpu_control (v4_sregs s)) 0 \<and>
     v4_can_preempt cfg i s"

definition entry_start :: "core_config \<Rightarrow> v4_in \<Rightarrow> v4_core \<Rightarrow> bool" where
  "entry_start cfg i s \<longleftrightarrow> trap_start s \<or> irq_start cfg i s"
definition entry_vector :: "core_config \<Rightarrow> v4_in \<Rightarrow> v4_core \<Rightarrow> u64" where
  "entry_vector cfg i s = (if trap_start s then fault_cause (v4_flt s) else v4_pending_irq_vector cfg i s)"
definition entry_epc :: "v4_core \<Rightarrow> u64" where
  "entry_epc s = (if trap_start s then fault_pc (v4_flt s) else v4_fetch_pc s)"

definition trap_cpu_control_value :: "core_config \<Rightarrow> v4_in \<Rightarrow> v4_core \<Rightarrow> u64" where
  "trap_cpu_control_value cfg i s =
     (cpu_control (v4_sregs s) AND NOT (CPU_CONTROL_INT_ENABLE OR CPU_CONTROL_IN_INTERRUPT OR
        CPU_CONTROL_CUR_INT_MASK OR CPU_CONTROL_USER_MODE)) OR CPU_CONTROL_IN_INTERRUPT OR
     push_bit CPU_CONTROL_CUR_INT_SHIFT (entry_vector cfg i s)"

section \<open>The handler's address\<close>

definition vector_request_valid :: "v4_core \<Rightarrow> bool" where
  "vector_request_valid s \<longleftrightarrow> vector_active (v4_vec s) \<and> vector_phys_valid (v4_vec s) \<and> \<not> vector_started (v4_vec s)"
definition vector_response_valid :: "core_config \<Rightarrow> v4_in \<Rightarrow> v4_core \<Rightarrow> bool" where
  "vector_response_valid cfg i s \<longleftrightarrow> vector_active (v4_vec s) \<and> vector_phys_valid (v4_vec s) \<and>
     l_response_valid (v4_response cfg i s)"
definition vector_handler_pc :: "core_config \<Rightarrow> v4_in \<Rightarrow> v4_core \<Rightarrow> u64" where
  "vector_handler_pc cfg i s = l_load_value (v4_response cfg i s)"
definition vector_done :: "core_config \<Rightarrow> v4_in \<Rightarrow> v4_core \<Rightarrow> bool" where
  "vector_done cfg i s \<longleftrightarrow> vector_response_valid cfg i s \<and> \<not> v4_response_error cfg i s \<and> vector_handler_pc cfg i s \<noteq> 0"
definition vector_failed :: "core_config \<Rightarrow> v4_in \<Rightarrow> v4_core \<Rightarrow> bool" where
  "vector_failed cfg i s \<longleftrightarrow> vector_response_valid cfg i s \<and> (v4_response_error cfg i s \<or> vector_handler_pc cfg i s = 0)"

section \<open>Special-register ports, requests to the load-store unit\<close>

definition v4_strobes :: "core_config \<Rightarrow> v4_in \<Rightarrow> v4_core \<Rightarrow> core_strobes" where
  "v4_strobes cfg i s =
     (let entry = entry_start cfg i s; r = v4_sregs s; f = v4_flt s; boot = v4_reset_pending s in
      \<lparr>core_cpu_control =
         (if entry then Some (trap_cpu_control_value cfg i s)
          else write_cpu_control_port (retire_stage (v4_retire s))),
       core_interrupt_cpu_control = port entry (cpu_control r),
       core_interrupt_epc = port (vector_done cfg i s) (vector_epc (v4_vec s)),
       core_interrupt_eflags = port (vector_done cfg i s) (ucast (vector_flags (v4_vec s))),
       core_trap = port (boot \<or> fault_pending f)
         \<lparr>ti_cause = (if boot then 0 else if trap_cause r = 0 then fault_cause f else trap_cause r),
          ti_fault_addr = fault_addr f, ti_access = fault_access f,
          ti_pc = (if boot then 0 else fault_pc f), ti_aux = fault_aux f\<rparr>\<rparr>)"

definition v4_irq_set :: "core_config \<Rightarrow> v4_in \<Rightarrow> v4_core \<Rightarrow> u64" where
  "v4_irq_set cfg i s =
     (let p = v4_special_port cfg s; lines = v4_irq_line_pending cfg i in
      if lines \<noteq> 0 \<and> \<not> (write_stb p \<and> write_selector p = sr_code INTERRUPT_STATES_HIGH) then lines else 0)"

definition v4_storebuf_in :: "core_config \<Rightarrow> v4_in \<Rightarrow> bool \<Rightarrow> v4_core \<Rightarrow> sb_in" where
  "v4_storebuf_in cfg i failed s =
     \<lparr>sb_push = (if v4_to_storebuf cfg s then Some (execute_entry (v4_out cfg s)) else None),
      bus_taken = (w_active (v4_walker s) \<or> vector_active (v4_vec s)), sb_failed = failed,
      lsu_request_ready = l_request_ready (v4_response cfg i s),
      lsu_response_valid = l_response_valid (v4_response cfg i s)\<rparr>"

definition v4_storebuf_error :: "core_config \<Rightarrow> v4_in \<Rightarrow> v4_core \<Rightarrow> bool" where
  "v4_storebuf_error cfg i s \<longleftrightarrow>
     storebuf_response_valid (v4_storebuf_in cfg i False s) (v4_sb s) \<and> v4_response_error cfg i s"

definition paging_without_mmu :: "core_config \<Rightarrow> v4_core \<Rightarrow> bool" where
  "paging_without_mmu cfg s \<longleftrightarrow> \<not> enable_mmu cfg \<and> v4_paging s"

definition v4_bus_failed :: "core_config \<Rightarrow> v4_in \<Rightarrow> v4_core \<Rightarrow> bool" where
  "v4_bus_failed cfg i s \<longleftrightarrow> v4_fetch_error cfg i s \<or> paging_without_mmu cfg s \<or> memory_error cfg i s \<or> v4_storebuf_error cfg i s"

definition v4_lsu_in :: "core_config \<Rightarrow> v4_in \<Rightarrow> v4_core \<Rightarrow> lsu_in" where
  "v4_lsu_in cfg i s =
     (let w = v4_walker s; v = v4_vec s; b = v4_sb s; e = storebuf_active b; x = v4_stage_xm cfg s;
          vec = vector_active v \<and> vector_phys_valid v; sb = storebuf_any_valid b in
      (v4_data_bus i)\<lparr>
        request_valid :=
          (if w_active w then walk_request_valid w else if vec then vector_request_valid s
           else if sb then storebuf_request_valid (v4_storebuf_in cfg i False s) b else ms_request_valid x),
        request_addr :=
          (if w_active w then w_pte_addr w else if vec then vector_load_addr v
           else if sb then e_addr e else m_addr x),
        request_width := (if w_active w \<or> vec then 8 else if sb then e_width e else m_width_bytes x),
        request_write := (if w_active w \<or> vec then False else if sb then True else m_write x),
        request_store_value := (if w_active w \<or> vec then 0 else if sb then e_value e else m_store_value x)\<rparr>)"

definition v4_fetch_in :: "core_config \<Rightarrow> v4_in \<Rightarrow> v4_core \<Rightarrow> fe_in" where
  "v4_fetch_in cfg i s =
     (v4_fetch_bus i s)\<lparr>
       fe_invalidate := v4_flush_younger cfg s \<or> v4_redirect s \<or> trap_start s \<or> irq_start cfg i s \<or>
         \<not> v4_fetch_phys_valid s \<or> w_active (v4_walker s) \<and> w_resume_kind (v4_walker s) = WALK_RESUME_FETCH \<or>
         frontend_store_invalidate cfg i s,
       fe_update := port (frontend_line_update_valid cfg i s) (unified_line_update_value s)\<rparr>"

section \<open>The edge, block by block\<close>

text \<open>In every block \<open>s\<close> is the state before the edge and \<open>t\<close> the state assigned so far.\<close>

definition redirect_fetch :: "v4_core \<Rightarrow> u64 \<Rightarrow> v4_core \<Rightarrow> v4_core" where
  "redirect_fetch s target t = t\<lparr>v4_fetch_pc := target,
     v4_fetch_phys_addr := (if v4_paging s then v4_fetch_phys_addr s else target),
     v4_fetch_phys_valid := \<not> v4_paging s, v4_translate_va := target, v4_translate_access := ACCESS_EXECUTE\<rparr>"

definition lock_up :: "byte \<Rightarrow> v4_core \<Rightarrow> v4_core" where
  "lock_up reason t = t\<lparr>v4_locked_up := True, v4_lockup_reason := reason\<rparr>"

definition stop_walk :: "v4_core \<Rightarrow> v4_core" where "stop_walk t = t\<lparr>v4_walker := walk_stop (v4_walker t)\<rparr>"

definition blk_writeback :: "core_config \<Rightarrow> v4_core \<Rightarrow> v4_core \<Rightarrow> v4_core" where
  "blk_writeback cfg s t =
     (let a = retire_stage (v4_retire s);
          t = t\<lparr>v4_commit_valid := False, v4_regs := retire_regs (v4_retire s) (v4_regs t),
                 v4_flags := retire_flags (v4_retire s) (v4_flags t)\<rparr>;
          t = (if v4_to_retire cfg s \<and> o_clear_reservation (v4_out cfg s) then t\<lparr>v4_ll_valid := False\<rparr> else t);
          t = (case commit_port a of Some pc \<Rightarrow> t\<lparr>v4_commit_valid := True, v4_commit_pc := pc\<rparr> | None \<Rightarrow> t);
          t = (if halt_request a then t\<lparr>v4_halted := True\<rparr> else t)
      in if lockup_request a then lock_up 1 t else t)"

definition blk_clear_retire :: "v4_core \<Rightarrow> v4_core \<Rightarrow> v4_core" where
  "blk_clear_retire s t = t\<lparr>v4_retire := retire_cleared (v4_flags s) (v4_regs s 15)\<rparr>"

definition blk_memory_result :: "core_config \<Rightarrow> v4_in \<Rightarrow> v4_core \<Rightarrow> v4_core \<Rightarrow> v4_core" where
  "blk_memory_result cfg i s t =
     (if \<not> memory_to_retire cfg i s then t
      else let x = v4_xm s;
               t = (if m_set_reservation x then t\<lparr>v4_ll_addr := m_reservation_addr x, v4_ll_valid := True\<rparr> else t);
               t = (if v4_store_overlaps_reservation cfg i s then t\<lparr>v4_ll_valid := False\<rparr> else t)
           in t\<lparr>v4_mr := mr_from_result x (v4_memory_result cfg i s)\<rparr>)"

definition blk_result_retire :: "core_config \<Rightarrow> v4_in \<Rightarrow> v4_core \<Rightarrow> v4_core \<Rightarrow> v4_core" where
  "blk_result_retire cfg i s t =
     (if \<not> mr_valid (v4_mr s) then t
      else let t = t\<lparr>v4_retire := retire_from_mr (v4_mr s)\<rparr>;
               t = (if memory_to_retire cfg i s then t else t\<lparr>v4_mr := (v4_mr t)\<lparr>mr_valid := False\<rparr>\<rparr>)
           in if v4_redirect s
              then redirect_fetch s (mr_next_pc (v4_mr s)) (t\<lparr>v4_fd := (v4_fd t)\<lparr>fd_valid := False\<rparr>,
                     v4_de := (v4_de t)\<lparr>de_valid := False\<rparr>, v4_xm := xm_cleared (v4_flags s)\<rparr>)
              else t)"

definition blk_execute_retire :: "core_config \<Rightarrow> v4_core \<Rightarrow> v4_core \<Rightarrow> v4_core" where
  "blk_execute_retire cfg s t =
     (let e = v4_out cfg s; pc = de_pc (v4_de s);
          t = (if v4_to_retire cfg s then t\<lparr>v4_retire := retire_from_execute pc e\<rparr> else t);
          t = (if v4_to_storebuf_load cfg s then t\<lparr>v4_retire := retire_from_storebuf_load pc e (v4_sb s)\<rparr> else t)
      in if v4_to_storebuf cfg s then t\<lparr>v4_retire := retire_from_storebuf pc e\<rparr> else t)"

text \<open>The store-buffer assignments of the whole edge, the failure that drops both entries included.\<close>

definition blk_storebuf :: "core_config \<Rightarrow> v4_in \<Rightarrow> v4_core \<Rightarrow> v4_core \<Rightarrow> v4_core" where
  "blk_storebuf cfg i s t =
     t\<lparr>v4_sb := storebuf_tick (v4_storebuf_in cfg i (v4_bus_failed cfg i s) s) (v4_sb s)\<rparr>"

definition blk_memory_latch :: "core_config \<Rightarrow> v4_in \<Rightarrow> v4_core \<Rightarrow> v4_core \<Rightarrow> v4_core" where
  "blk_memory_latch cfg i s t =
     (if memory_chain_continue cfg i s then
        t\<lparr>v4_xm := xm_chain (v4_paging s) (v4_flags s) (chain_continue_store_value cfg i s)
                     ((v4_xm t)\<lparr>m_chain_store_addr := m_chain_store_addr (v4_xm s)\<rparr>),
          v4_translate_va := m_chain_store_addr (v4_xm s), v4_translate_access := ACCESS_WRITE\<rparr>
      else if memory_to_retire cfg i s \<or> memory_error cfg i s then
        t\<lparr>v4_xm := xm_cleared (v4_flags s), v4_translate_va := v4_fetch_pc s, v4_translate_access := ACCESS_EXECUTE\<rparr>
      else if v4_to_memory cfg s then
        (let e = v4_out cfg s in
         t\<lparr>v4_xm := xm_issue (v4_paging s) (de_pc (v4_de s)) e, v4_translate_va := o_memory_addr e,
           v4_translate_access := (if o_memory_write e then ACCESS_WRITE else ACCESS_READ)\<rparr>)
      else if m_valid (v4_xm s) \<and> ms_start_request (v4_stage_xm cfg s) (v4_stage_lsu cfg i s) then
        t\<lparr>v4_xm := (v4_xm t)\<lparr>m_request_started := True\<rparr>\<rparr>
      else t)"

definition blk_requests :: "core_config \<Rightarrow> v4_in \<Rightarrow> v4_core \<Rightarrow> v4_core \<Rightarrow> v4_core" where
  "blk_requests cfg i s t =
     (let ready = l_request_ready (v4_response cfg i s);
          t = (if walk_request_valid (v4_walker s) \<and> ready
               then t\<lparr>v4_walker := (v4_walker t)\<lparr>w_started := True\<rparr>\<rparr> else t)
      in if vector_request_valid s \<and> ready then t\<lparr>v4_vec := (v4_vec t)\<lparr>vector_started := True\<rparr>\<rparr> else t)"

definition de_from_fd :: "core_config \<Rightarrow> v4_core \<Rightarrow> de_reg" where
  "de_from_fd cfg s =
     (let f = v4_fd s; d = v4_decode cfg s in \<lparr>de_valid = True, de_instruction = fd_instruction f, de_pc = fd_pc f,
        de_post_increment_pc = fd_post_increment_pc f, de_operand_a = operand_a d (v4_regs s),
        de_operand_b = operand_b d (v4_regs s), de_flags = bypass_flags d (v4_flags s),
        de_predicted_next_pc = v4_predicted_next_pc cfg s\<rparr>)"

definition blk_execute_latch :: "core_config \<Rightarrow> v4_core \<Rightarrow> v4_core \<Rightarrow> v4_core" where
  "blk_execute_latch cfg s t =
     (if v4_decode_advance cfg s then t\<lparr>v4_de := de_from_fd cfg s\<rparr>
      else if de_valid (v4_de s) \<and> (v4_to_memory cfg s \<or> v4_to_storebuf cfg s \<or> v4_to_storebuf_load cfg s \<or> v4_to_retire cfg s)
      then t\<lparr>v4_de := (v4_de t)\<lparr>de_valid := False\<rparr>\<rparr> else t)"

definition fd_fetched :: "v4_in \<Rightarrow> v4_core \<Rightarrow> fd_reg" where
  "fd_fetched i s = \<lparr>fd_valid = True,
     fd_instruction = fetched_word v4_index_bits (v4_fetch_bus i s) (v4_frontend s),
     fd_pc = v4_fetch_pc s, fd_post_increment_pc = v4_fetch_pc s + 2\<rparr>"

definition blk_fetch_latch :: "core_config \<Rightarrow> v4_in \<Rightarrow> v4_core \<Rightarrow> v4_core \<Rightarrow> v4_core" where
  "blk_fetch_latch cfg i s t =
     (if v4_flush_younger cfg s then t\<lparr>v4_fd := (v4_fd t)\<lparr>fd_valid := False\<rparr>\<rparr>
      else if fetch_accept cfg i s then t\<lparr>v4_fd := fd_fetched i s\<rparr>
      else if v4_decode_advance cfg s then t\<lparr>v4_fd := (v4_fd t)\<lparr>fd_valid := False\<rparr>\<rparr>
      else t)"

definition blk_steer :: "core_config \<Rightarrow> v4_in \<Rightarrow> v4_core \<Rightarrow> v4_core \<Rightarrow> v4_core" where
  "blk_steer cfg i s t =
     (if v4_mispredict cfg s \<or> trap_start s \<or> irq_start cfg i s then redirect_fetch s (o_next_pc (v4_out cfg s)) t
      else if v4_redirect s then redirect_fetch s (mr_next_pc (v4_mr s)) t
      else if v4_predict_redirect cfg s then redirect_fetch s (v4_predicted_next_pc cfg s) t
      else if fetch_accept cfg i s then redirect_fetch s (v4_fetch_pc s + 2) t
      else t)"

definition blk_translated :: "core_config \<Rightarrow> v4_core \<Rightarrow> v4_core \<Rightarrow> v4_core" where
  "blk_translated cfg s t =
     (let t = (if fetch_translate_complete cfg s
               then t\<lparr>v4_fetch_phys_addr := v4_translate_phys cfg s (v4_translate_va s), v4_fetch_phys_valid := True\<rparr> else t);
          t = (if memory_translate_complete cfg s
               then t\<lparr>v4_xm := (v4_xm t)\<lparr>m_addr := v4_translate_phys cfg s (m_virtual_addr (v4_xm s)), m_phys_valid := True\<rparr>\<rparr>
               else t)
      in if vector_translate_complete cfg s
         then t\<lparr>v4_vec := (v4_vec t)\<lparr>vector_load_addr := v4_translate_phys cfg s (vector_virtual_addr (v4_vec s)),
                  vector_phys_valid := True\<rparr>\<rparr>
         else t)"

definition blk_walk_start :: "core_config \<Rightarrow> v4_core \<Rightarrow> v4_core \<Rightarrow> v4_core" where
  "blk_walk_start cfg s t =
     (let va = vector_virtual_addr (v4_vec s);
          t = (if vector_translate_ready s \<and> v4_paging s \<and> \<not> vector_translate_lockup s \<and> \<not> vector_translate_complete cfg s
               then t\<lparr>v4_walker := walk_start (v4_root s) va ACCESS_READ WALK_RESUME_VECTOR\<rparr> else t);
          t = (if memory_translate_ready s \<and> v4_paging s \<and> \<not> memory_fault s \<and> \<not> memory_translate_complete cfg s
               then t\<lparr>v4_walker := walk_start (v4_root s) (m_virtual_addr (v4_xm s)) (memory_access s) WALK_RESUME_MEMORY\<rparr> else t)
      in if fetch_translate_ready s \<and> v4_paging s \<and> \<not> fetch_fault s \<and> \<not> fetch_translate_complete cfg s
         then t\<lparr>v4_walker := walk_start (v4_root s) (v4_translate_va s) ACCESS_EXECUTE WALK_RESUME_FETCH\<rparr> else t)"

definition blk_walk :: "core_config \<Rightarrow> v4_in \<Rightarrow> v4_core \<Rightarrow> v4_core \<Rightarrow> v4_core" where
  "blk_walk cfg i s t =
     (let w = v4_walker s; l = v4_response cfg i s; phys = w_result_phys w;
          t = (if walk_response_valid (l_response_valid l) w \<and> \<not> l_response_error l
               then t\<lparr>v4_walker := walk_latch (l_load_value l) (v4_walker t)\<rparr> else t);
          t = (if \<not> v4_walk_success s then t
               else let t = stop_walk t in
                 if w_resume_kind w = WALK_RESUME_FETCH then t\<lparr>v4_fetch_phys_addr := phys, v4_fetch_phys_valid := True\<rparr>
                 else if w_resume_kind w = WALK_RESUME_VECTOR
                 then t\<lparr>v4_vec := (v4_vec t)\<lparr>vector_load_addr := phys, vector_phys_valid := True\<rparr>\<rparr>
                 else t\<lparr>v4_xm := (v4_xm t)\<lparr>m_addr := phys, m_phys_valid := True\<rparr>\<rparr>)
      in t\<lparr>v4_walker := walk_descend (v4_user s) w (v4_walker t)\<rparr>)"

definition blk_vector_done :: "core_config \<Rightarrow> v4_in \<Rightarrow> v4_core \<Rightarrow> v4_core \<Rightarrow> v4_core" where
  "blk_vector_done cfg i s t =
     (if \<not> vector_done cfg i s then t
      else let pc = vector_handler_pc cfg i s in
        redirect_fetch s pc (t\<lparr>v4_retire := retire_cleared (v4_flags s) (v4_regs s 15),
          v4_vec := vector_cleared (v4_vec t), v4_regs := (v4_regs t)(15 := pc)\<rparr>))"

definition blk_entry :: "core_config \<Rightarrow> v4_in \<Rightarrow> v4_core \<Rightarrow> v4_core \<Rightarrow> v4_core" where
  "blk_entry cfg i s t =
     (if \<not> entry_start cfg i s then t
      else let a = interrupt_table_base (v4_sregs s) + push_bit 3 (entry_vector cfg i s); t = stop_walk (clear_pipeline t) in
        t\<lparr>v4_vec := \<lparr>vector_active = True, vector_started = False, vector_virtual_addr = a, vector_load_addr = a,
            vector_phys_valid = (\<not> v4_paging s), vector_epc = entry_epc s, vector_flags = v4_flags s\<rparr>,
          v4_translate_va := a, v4_translate_access := ACCESS_READ\<rparr>)"

definition drop_vector :: "v4_core \<Rightarrow> v4_core" where
  "drop_vector t = t\<lparr>v4_vec := (vector_cleared (v4_vec t))\<lparr>vector_epc := 0, vector_flags := 0\<rparr>\<rparr>"

definition blk_lockups :: "core_config \<Rightarrow> v4_in \<Rightarrow> v4_core \<Rightarrow> v4_core \<Rightarrow> v4_core" where
  "blk_lockups cfg i s t =
     (let l = v4_response cfg i s;
          t = (if vector_failed cfg i s then lock_up 2 (drop_vector (clear_pipeline t)) else t);
          t = (if walk_response_valid (l_response_valid l) (v4_walker s) \<and> l_response_error l
               then lock_up 3 (stop_walk (clear_pipeline t)) else t);
          t = (if vector_translate_lockup s \<or> walk_fault_lockup s
               then lock_up 4 (drop_vector (stop_walk (clear_pipeline t))) else t);
          t = (if trap_preempt_lockup s then lock_up 5 (stop_walk (clear_pipeline t)) else t)
      in if v4_bus_failed cfg i s then lock_up 6 (stop_walk (clear_pipeline t)) else t)"

definition blk_stopped :: "v4_core \<Rightarrow> v4_core \<Rightarrow> v4_core" where
  "blk_stopped s t =
     (let a = retire_stage (v4_retire s);
          t = (if halt_request a \<or> lockup_request a then clear_pipeline t else t);
          t = (if v4_halted s \<or> v4_locked_up s then clear_pipeline t else t)
      in if v4_regs s 0 \<noteq> 0 then t\<lparr>v4_regs := (v4_regs t)(0 := 0)\<rparr> else t)"

text \<open>The blocks in the order of the source, for every cycle but the first.\<close>

definition v4_step :: "core_config \<Rightarrow> v4_in \<Rightarrow> v4_core \<Rightarrow> v4_core" where
  "v4_step cfg i s =
     (let t = blk_clear_retire s (blk_writeback cfg s s);
          t = blk_storebuf cfg i s (blk_execute_retire cfg s (blk_result_retire cfg i s (blk_memory_result cfg i s t)));
          t = blk_execute_latch cfg s (blk_requests cfg i s (blk_memory_latch cfg i s t));
          t = blk_steer cfg i s (blk_fetch_latch cfg i s t);
          t = blk_walk cfg i s (blk_walk_start cfg s (blk_translated cfg s t))
      in blk_stopped s (blk_lockups cfg i s (blk_entry cfg i s (blk_vector_done cfg i s t))))"

definition v4_boot :: "v4_in \<Rightarrow> v4_core \<Rightarrow> v4_core" where
  "v4_boot i s = s\<lparr>v4_regs := (v4_regs s)(1 := vi_boot_r1 i, 13 := vi_boot_r13 i), v4_lockup_reason := 0,
     v4_reset_pending := False\<rparr>"

text \<open>The units advance in every cycle, and the fault register with them.\<close>

definition v4_units :: "core_config \<Rightarrow> v4_in \<Rightarrow> v4_core \<Rightarrow> v4_core \<Rightarrow> v4_core" where
  "v4_units cfg i s t =
     (let u = v4_user s; st = v4_strobes cfg i s; p = v4_special_port cfg s; w = v4_walker s in
      t\<lparr>v4_flt := (if entry_start cfg i s then (v4_flt s)\<lparr>fault_pending := False\<rparr> else v4_fault_next s),
        v4_frontend := frontend_tick (v4_timeout cfg) v4_index_bits (v4_fetch_in cfg i s) (v4_frontend s),
        v4_lsu := lsu_tick (v4_timeout cfg) (v4_lsu_in cfg i s) (v4_lsu s),
        v4_dcache := cache_tick v4_dcache_bits (v4_dcache_cmd cfg i s) (v4_dcache s),
        v4_tlb := (if sr_tlb_flush cfg u st p then tlb3_flush_all (v4_tlb s)
                   else if v4_walk_success s
                   then tlb3_fill_walk (v4_tlb_bits cfg) (w_virtual_addr w) (w_result_phys w) (walk_perms w) (v4_tlb s)
                   else v4_tlb s),
        v4_sregs := sr_tick cfg u st p (v4_irq_set cfg i s) (v4_sregs s)\<rparr>)"

definition v4_tick :: "core_config \<Rightarrow> v4_in \<Rightarrow> v4_core \<Rightarrow> v4_core" where
  "v4_tick cfg i s = v4_units cfg i s (if v4_reset_pending s then v4_boot i s else v4_step cfg i s)"

section \<open>Reset and runs\<close>

definition v4_reset_vector :: "core_config \<Rightarrow> u64" where "v4_reset_vector cfg = word_of_int (reset_vector cfg)"

definition v4_reset :: "core_config \<Rightarrow> v4_core" where
  "v4_reset cfg =
     (let pc = v4_reset_vector cfg in
      \<lparr>v4_reset_pending = True, v4_regs = (\<lambda>_. 0)(15 := pc), v4_flags = 0, v4_halted = False, v4_locked_up = False,
       v4_lockup_reason = 0, v4_commit_valid = False, v4_commit_pc = 0, v4_fetch_pc = pc, v4_fetch_phys_addr = pc,
       v4_fetch_phys_valid = False, v4_translate_va = pc, v4_translate_access = ACCESS_EXECUTE,
       v4_fd = \<lparr>fd_valid = False, fd_instruction = 0, fd_pc = 0, fd_post_increment_pc = 0\<rparr>,
       v4_de = \<lparr>de_valid = False, de_instruction = 0, de_pc = 0, de_post_increment_pc = 0, de_operand_a = 0,
         de_operand_b = 0, de_flags = 0, de_predicted_next_pc = 0\<rparr>,
       v4_xm = xm_cleared 0,
       v4_mr = \<lparr>mr_valid = False, mr_next_pc = 0, mr_commit_next_pc = 0, mr_reg_write = False, mr_reg_index = 0,
         mr_reg_value = 0, mr_aux_reg_write = False, mr_aux_reg_index = 0, mr_aux_reg_value = 0, mr_commit_pc = 0,
         mr_flags_write = False, mr_flags_value = 0\<rparr>,
       v4_retire = retire_cleared 0 0, v4_sb = storebuf_reset, v4_walker = walk_idle,
       v4_vec = \<lparr>vector_active = False, vector_started = False, vector_virtual_addr = 0, vector_load_addr = 0,
         vector_phys_valid = False, vector_epc = 0, vector_flags = 0\<rparr>,
       v4_flt = \<lparr>fault_pending = False, fault_cause = 0, fault_pc = 0, fault_addr = 0, fault_access = 0, fault_aux = 0\<rparr>,
       v4_ll_valid = False, v4_ll_addr = 0, v4_frontend = frontend_reset, v4_lsu = lsu_reset, v4_dcache = cache_reset,
       v4_tlb = tlb3_reset, v4_sregs = sr_reset\<rparr>)"

inductive v4_reachable :: "core_config \<Rightarrow> v4_core \<Rightarrow> bool" for cfg where
  reset: "v4_reachable cfg (v4_reset cfg)"
| tick: "v4_reachable cfg s \<Longrightarrow> v4_reachable cfg (v4_tick cfg i s)"

end
