(* ===== verification/V4_Steps.thy ===== *)
theory V4_Steps
  imports V4_Core
begin

text \<open>
  What each block of the v4 core's clock edge assigns and what it leaves alone, and from
  that the value of each register of the pipeline after an edge.  The proofs about the
  core use these equations and not the blocks.
\<close>

section \<open>What the blocks leave alone\<close>

lemmas step_helper_defs = lock_up_def redirect_fetch_def stop_walk_def clear_pipeline_def drop_vector_def

lemma blk_writeback_frame [simp]:
  "v4_fetch_pc (blk_writeback cfg s t) = v4_fetch_pc t"
  "v4_fetch_phys_addr (blk_writeback cfg s t) = v4_fetch_phys_addr t"
  "v4_fetch_phys_valid (blk_writeback cfg s t) = v4_fetch_phys_valid t"
  "v4_translate_va (blk_writeback cfg s t) = v4_translate_va t"
  "v4_translate_access (blk_writeback cfg s t) = v4_translate_access t" "v4_fd (blk_writeback cfg s t) = v4_fd t"
  "v4_de (blk_writeback cfg s t) = v4_de t" "v4_xm (blk_writeback cfg s t) = v4_xm t"
  "v4_mr (blk_writeback cfg s t) = v4_mr t" "v4_retire (blk_writeback cfg s t) = v4_retire t"
  "v4_sb (blk_writeback cfg s t) = v4_sb t" "v4_walker (blk_writeback cfg s t) = v4_walker t"
  "v4_vec (blk_writeback cfg s t) = v4_vec t" "v4_ll_addr (blk_writeback cfg s t) = v4_ll_addr t"
  by (simp_all add: blk_writeback_def step_helper_defs Let_def split: option.split)

lemma blk_clear_retire_frame [simp]:
  "v4_commit_valid (blk_clear_retire s t) = v4_commit_valid t" "v4_regs (blk_clear_retire s t) = v4_regs t"
  "v4_flags (blk_clear_retire s t) = v4_flags t" "v4_ll_valid (blk_clear_retire s t) = v4_ll_valid t"
  "v4_commit_pc (blk_clear_retire s t) = v4_commit_pc t" "v4_halted (blk_clear_retire s t) = v4_halted t"
  "v4_locked_up (blk_clear_retire s t) = v4_locked_up t"
  "v4_lockup_reason (blk_clear_retire s t) = v4_lockup_reason t"
  "v4_fetch_pc (blk_clear_retire s t) = v4_fetch_pc t"
  "v4_fetch_phys_addr (blk_clear_retire s t) = v4_fetch_phys_addr t"
  "v4_fetch_phys_valid (blk_clear_retire s t) = v4_fetch_phys_valid t"
  "v4_translate_va (blk_clear_retire s t) = v4_translate_va t"
  "v4_translate_access (blk_clear_retire s t) = v4_translate_access t" "v4_fd (blk_clear_retire s t) = v4_fd t"
  "v4_de (blk_clear_retire s t) = v4_de t" "v4_xm (blk_clear_retire s t) = v4_xm t"
  "v4_mr (blk_clear_retire s t) = v4_mr t" "v4_sb (blk_clear_retire s t) = v4_sb t"
  "v4_walker (blk_clear_retire s t) = v4_walker t" "v4_vec (blk_clear_retire s t) = v4_vec t"
  "v4_ll_addr (blk_clear_retire s t) = v4_ll_addr t"
  by (simp_all add: blk_clear_retire_def step_helper_defs Let_def split: option.split)

lemma blk_memory_result_frame [simp]:
  "v4_commit_valid (blk_memory_result cfg i s t) = v4_commit_valid t"
  "v4_regs (blk_memory_result cfg i s t) = v4_regs t" "v4_flags (blk_memory_result cfg i s t) = v4_flags t"
  "v4_commit_pc (blk_memory_result cfg i s t) = v4_commit_pc t"
  "v4_halted (blk_memory_result cfg i s t) = v4_halted t"
  "v4_locked_up (blk_memory_result cfg i s t) = v4_locked_up t"
  "v4_lockup_reason (blk_memory_result cfg i s t) = v4_lockup_reason t"
  "v4_fetch_pc (blk_memory_result cfg i s t) = v4_fetch_pc t"
  "v4_fetch_phys_addr (blk_memory_result cfg i s t) = v4_fetch_phys_addr t"
  "v4_fetch_phys_valid (blk_memory_result cfg i s t) = v4_fetch_phys_valid t"
  "v4_translate_va (blk_memory_result cfg i s t) = v4_translate_va t"
  "v4_translate_access (blk_memory_result cfg i s t) = v4_translate_access t"
  "v4_fd (blk_memory_result cfg i s t) = v4_fd t" "v4_de (blk_memory_result cfg i s t) = v4_de t"
  "v4_xm (blk_memory_result cfg i s t) = v4_xm t" "v4_retire (blk_memory_result cfg i s t) = v4_retire t"
  "v4_sb (blk_memory_result cfg i s t) = v4_sb t" "v4_walker (blk_memory_result cfg i s t) = v4_walker t"
  "v4_vec (blk_memory_result cfg i s t) = v4_vec t"
  by (simp_all add: blk_memory_result_def step_helper_defs Let_def split: option.split)

lemma blk_result_retire_frame [simp]:
  "v4_commit_valid (blk_result_retire cfg i s t) = v4_commit_valid t"
  "v4_regs (blk_result_retire cfg i s t) = v4_regs t" "v4_flags (blk_result_retire cfg i s t) = v4_flags t"
  "v4_ll_valid (blk_result_retire cfg i s t) = v4_ll_valid t"
  "v4_commit_pc (blk_result_retire cfg i s t) = v4_commit_pc t"
  "v4_halted (blk_result_retire cfg i s t) = v4_halted t"
  "v4_locked_up (blk_result_retire cfg i s t) = v4_locked_up t"
  "v4_lockup_reason (blk_result_retire cfg i s t) = v4_lockup_reason t"
  "v4_sb (blk_result_retire cfg i s t) = v4_sb t" "v4_walker (blk_result_retire cfg i s t) = v4_walker t"
  "v4_vec (blk_result_retire cfg i s t) = v4_vec t" "v4_ll_addr (blk_result_retire cfg i s t) = v4_ll_addr t"
  by (simp_all add: blk_result_retire_def step_helper_defs Let_def split: option.split)

lemma blk_execute_retire_frame [simp]:
  "v4_commit_valid (blk_execute_retire cfg s t) = v4_commit_valid t"
  "v4_regs (blk_execute_retire cfg s t) = v4_regs t" "v4_flags (blk_execute_retire cfg s t) = v4_flags t"
  "v4_ll_valid (blk_execute_retire cfg s t) = v4_ll_valid t"
  "v4_commit_pc (blk_execute_retire cfg s t) = v4_commit_pc t"
  "v4_halted (blk_execute_retire cfg s t) = v4_halted t"
  "v4_locked_up (blk_execute_retire cfg s t) = v4_locked_up t"
  "v4_lockup_reason (blk_execute_retire cfg s t) = v4_lockup_reason t"
  "v4_fetch_pc (blk_execute_retire cfg s t) = v4_fetch_pc t"
  "v4_fetch_phys_addr (blk_execute_retire cfg s t) = v4_fetch_phys_addr t"
  "v4_fetch_phys_valid (blk_execute_retire cfg s t) = v4_fetch_phys_valid t"
  "v4_translate_va (blk_execute_retire cfg s t) = v4_translate_va t"
  "v4_translate_access (blk_execute_retire cfg s t) = v4_translate_access t"
  "v4_fd (blk_execute_retire cfg s t) = v4_fd t" "v4_de (blk_execute_retire cfg s t) = v4_de t"
  "v4_xm (blk_execute_retire cfg s t) = v4_xm t" "v4_mr (blk_execute_retire cfg s t) = v4_mr t"
  "v4_sb (blk_execute_retire cfg s t) = v4_sb t" "v4_walker (blk_execute_retire cfg s t) = v4_walker t"
  "v4_vec (blk_execute_retire cfg s t) = v4_vec t" "v4_ll_addr (blk_execute_retire cfg s t) = v4_ll_addr t"
  by (simp_all add: blk_execute_retire_def step_helper_defs Let_def split: option.split)

lemma blk_storebuf_frame [simp]:
  "v4_commit_valid (blk_storebuf cfg i s t) = v4_commit_valid t" "v4_regs (blk_storebuf cfg i s t) = v4_regs t"
  "v4_flags (blk_storebuf cfg i s t) = v4_flags t" "v4_ll_valid (blk_storebuf cfg i s t) = v4_ll_valid t"
  "v4_commit_pc (blk_storebuf cfg i s t) = v4_commit_pc t" "v4_halted (blk_storebuf cfg i s t) = v4_halted t"
  "v4_locked_up (blk_storebuf cfg i s t) = v4_locked_up t"
  "v4_lockup_reason (blk_storebuf cfg i s t) = v4_lockup_reason t"
  "v4_fetch_pc (blk_storebuf cfg i s t) = v4_fetch_pc t"
  "v4_fetch_phys_addr (blk_storebuf cfg i s t) = v4_fetch_phys_addr t"
  "v4_fetch_phys_valid (blk_storebuf cfg i s t) = v4_fetch_phys_valid t"
  "v4_translate_va (blk_storebuf cfg i s t) = v4_translate_va t"
  "v4_translate_access (blk_storebuf cfg i s t) = v4_translate_access t" "v4_fd (blk_storebuf cfg i s t) = v4_fd t"
  "v4_de (blk_storebuf cfg i s t) = v4_de t" "v4_xm (blk_storebuf cfg i s t) = v4_xm t"
  "v4_mr (blk_storebuf cfg i s t) = v4_mr t" "v4_retire (blk_storebuf cfg i s t) = v4_retire t"
  "v4_walker (blk_storebuf cfg i s t) = v4_walker t" "v4_vec (blk_storebuf cfg i s t) = v4_vec t"
  "v4_ll_addr (blk_storebuf cfg i s t) = v4_ll_addr t"
  by (simp_all add: blk_storebuf_def step_helper_defs Let_def split: option.split)

lemma blk_memory_latch_frame [simp]:
  "v4_commit_valid (blk_memory_latch cfg i s t) = v4_commit_valid t"
  "v4_regs (blk_memory_latch cfg i s t) = v4_regs t" "v4_flags (blk_memory_latch cfg i s t) = v4_flags t"
  "v4_ll_valid (blk_memory_latch cfg i s t) = v4_ll_valid t"
  "v4_commit_pc (blk_memory_latch cfg i s t) = v4_commit_pc t"
  "v4_halted (blk_memory_latch cfg i s t) = v4_halted t"
  "v4_locked_up (blk_memory_latch cfg i s t) = v4_locked_up t"
  "v4_lockup_reason (blk_memory_latch cfg i s t) = v4_lockup_reason t"
  "v4_fetch_pc (blk_memory_latch cfg i s t) = v4_fetch_pc t"
  "v4_fetch_phys_addr (blk_memory_latch cfg i s t) = v4_fetch_phys_addr t"
  "v4_fetch_phys_valid (blk_memory_latch cfg i s t) = v4_fetch_phys_valid t"
  "v4_fd (blk_memory_latch cfg i s t) = v4_fd t" "v4_de (blk_memory_latch cfg i s t) = v4_de t"
  "v4_mr (blk_memory_latch cfg i s t) = v4_mr t" "v4_retire (blk_memory_latch cfg i s t) = v4_retire t"
  "v4_sb (blk_memory_latch cfg i s t) = v4_sb t" "v4_walker (blk_memory_latch cfg i s t) = v4_walker t"
  "v4_vec (blk_memory_latch cfg i s t) = v4_vec t" "v4_ll_addr (blk_memory_latch cfg i s t) = v4_ll_addr t"
  by (simp_all add: blk_memory_latch_def step_helper_defs Let_def split: option.split)

lemma blk_requests_frame [simp]:
  "v4_commit_valid (blk_requests cfg i s t) = v4_commit_valid t" "v4_regs (blk_requests cfg i s t) = v4_regs t"
  "v4_flags (blk_requests cfg i s t) = v4_flags t" "v4_ll_valid (blk_requests cfg i s t) = v4_ll_valid t"
  "v4_commit_pc (blk_requests cfg i s t) = v4_commit_pc t" "v4_halted (blk_requests cfg i s t) = v4_halted t"
  "v4_locked_up (blk_requests cfg i s t) = v4_locked_up t"
  "v4_lockup_reason (blk_requests cfg i s t) = v4_lockup_reason t"
  "v4_fetch_pc (blk_requests cfg i s t) = v4_fetch_pc t"
  "v4_fetch_phys_addr (blk_requests cfg i s t) = v4_fetch_phys_addr t"
  "v4_fetch_phys_valid (blk_requests cfg i s t) = v4_fetch_phys_valid t"
  "v4_translate_va (blk_requests cfg i s t) = v4_translate_va t"
  "v4_translate_access (blk_requests cfg i s t) = v4_translate_access t" "v4_fd (blk_requests cfg i s t) = v4_fd t"
  "v4_de (blk_requests cfg i s t) = v4_de t" "v4_xm (blk_requests cfg i s t) = v4_xm t"
  "v4_mr (blk_requests cfg i s t) = v4_mr t" "v4_retire (blk_requests cfg i s t) = v4_retire t"
  "v4_sb (blk_requests cfg i s t) = v4_sb t" "v4_ll_addr (blk_requests cfg i s t) = v4_ll_addr t"
  by (simp_all add: blk_requests_def step_helper_defs Let_def split: option.split)

lemma blk_execute_latch_frame [simp]:
  "v4_commit_valid (blk_execute_latch cfg s t) = v4_commit_valid t"
  "v4_regs (blk_execute_latch cfg s t) = v4_regs t" "v4_flags (blk_execute_latch cfg s t) = v4_flags t"
  "v4_ll_valid (blk_execute_latch cfg s t) = v4_ll_valid t"
  "v4_commit_pc (blk_execute_latch cfg s t) = v4_commit_pc t" "v4_halted (blk_execute_latch cfg s t) = v4_halted t"
  "v4_locked_up (blk_execute_latch cfg s t) = v4_locked_up t"
  "v4_lockup_reason (blk_execute_latch cfg s t) = v4_lockup_reason t"
  "v4_fetch_pc (blk_execute_latch cfg s t) = v4_fetch_pc t"
  "v4_fetch_phys_addr (blk_execute_latch cfg s t) = v4_fetch_phys_addr t"
  "v4_fetch_phys_valid (blk_execute_latch cfg s t) = v4_fetch_phys_valid t"
  "v4_translate_va (blk_execute_latch cfg s t) = v4_translate_va t"
  "v4_translate_access (blk_execute_latch cfg s t) = v4_translate_access t"
  "v4_fd (blk_execute_latch cfg s t) = v4_fd t" "v4_xm (blk_execute_latch cfg s t) = v4_xm t"
  "v4_mr (blk_execute_latch cfg s t) = v4_mr t" "v4_retire (blk_execute_latch cfg s t) = v4_retire t"
  "v4_sb (blk_execute_latch cfg s t) = v4_sb t" "v4_walker (blk_execute_latch cfg s t) = v4_walker t"
  "v4_vec (blk_execute_latch cfg s t) = v4_vec t" "v4_ll_addr (blk_execute_latch cfg s t) = v4_ll_addr t"
  by (simp_all add: blk_execute_latch_def step_helper_defs Let_def split: option.split)

lemma blk_fetch_latch_frame [simp]:
  "v4_commit_valid (blk_fetch_latch cfg i s t) = v4_commit_valid t"
  "v4_regs (blk_fetch_latch cfg i s t) = v4_regs t" "v4_flags (blk_fetch_latch cfg i s t) = v4_flags t"
  "v4_ll_valid (blk_fetch_latch cfg i s t) = v4_ll_valid t"
  "v4_commit_pc (blk_fetch_latch cfg i s t) = v4_commit_pc t" "v4_halted (blk_fetch_latch cfg i s t) = v4_halted t"
  "v4_locked_up (blk_fetch_latch cfg i s t) = v4_locked_up t"
  "v4_lockup_reason (blk_fetch_latch cfg i s t) = v4_lockup_reason t"
  "v4_fetch_pc (blk_fetch_latch cfg i s t) = v4_fetch_pc t"
  "v4_fetch_phys_addr (blk_fetch_latch cfg i s t) = v4_fetch_phys_addr t"
  "v4_fetch_phys_valid (blk_fetch_latch cfg i s t) = v4_fetch_phys_valid t"
  "v4_translate_va (blk_fetch_latch cfg i s t) = v4_translate_va t"
  "v4_translate_access (blk_fetch_latch cfg i s t) = v4_translate_access t"
  "v4_de (blk_fetch_latch cfg i s t) = v4_de t" "v4_xm (blk_fetch_latch cfg i s t) = v4_xm t"
  "v4_mr (blk_fetch_latch cfg i s t) = v4_mr t" "v4_retire (blk_fetch_latch cfg i s t) = v4_retire t"
  "v4_sb (blk_fetch_latch cfg i s t) = v4_sb t" "v4_walker (blk_fetch_latch cfg i s t) = v4_walker t"
  "v4_vec (blk_fetch_latch cfg i s t) = v4_vec t" "v4_ll_addr (blk_fetch_latch cfg i s t) = v4_ll_addr t"
  by (simp_all add: blk_fetch_latch_def step_helper_defs Let_def split: option.split)

lemma blk_steer_frame [simp]:
  "v4_commit_valid (blk_steer cfg i s t) = v4_commit_valid t" "v4_regs (blk_steer cfg i s t) = v4_regs t"
  "v4_flags (blk_steer cfg i s t) = v4_flags t" "v4_ll_valid (blk_steer cfg i s t) = v4_ll_valid t"
  "v4_commit_pc (blk_steer cfg i s t) = v4_commit_pc t" "v4_halted (blk_steer cfg i s t) = v4_halted t"
  "v4_locked_up (blk_steer cfg i s t) = v4_locked_up t"
  "v4_lockup_reason (blk_steer cfg i s t) = v4_lockup_reason t" "v4_fd (blk_steer cfg i s t) = v4_fd t"
  "v4_de (blk_steer cfg i s t) = v4_de t" "v4_xm (blk_steer cfg i s t) = v4_xm t"
  "v4_mr (blk_steer cfg i s t) = v4_mr t" "v4_retire (blk_steer cfg i s t) = v4_retire t"
  "v4_sb (blk_steer cfg i s t) = v4_sb t" "v4_walker (blk_steer cfg i s t) = v4_walker t"
  "v4_vec (blk_steer cfg i s t) = v4_vec t" "v4_ll_addr (blk_steer cfg i s t) = v4_ll_addr t"
  by (simp_all add: blk_steer_def step_helper_defs Let_def split: option.split)

lemma blk_translated_frame [simp]:
  "v4_commit_valid (blk_translated cfg s t) = v4_commit_valid t" "v4_regs (blk_translated cfg s t) = v4_regs t"
  "v4_flags (blk_translated cfg s t) = v4_flags t" "v4_ll_valid (blk_translated cfg s t) = v4_ll_valid t"
  "v4_commit_pc (blk_translated cfg s t) = v4_commit_pc t" "v4_halted (blk_translated cfg s t) = v4_halted t"
  "v4_locked_up (blk_translated cfg s t) = v4_locked_up t"
  "v4_lockup_reason (blk_translated cfg s t) = v4_lockup_reason t"
  "v4_fetch_pc (blk_translated cfg s t) = v4_fetch_pc t"
  "v4_translate_va (blk_translated cfg s t) = v4_translate_va t"
  "v4_translate_access (blk_translated cfg s t) = v4_translate_access t" "v4_fd (blk_translated cfg s t) = v4_fd t"
  "v4_de (blk_translated cfg s t) = v4_de t" "v4_mr (blk_translated cfg s t) = v4_mr t"
  "v4_retire (blk_translated cfg s t) = v4_retire t" "v4_sb (blk_translated cfg s t) = v4_sb t"
  "v4_walker (blk_translated cfg s t) = v4_walker t" "v4_ll_addr (blk_translated cfg s t) = v4_ll_addr t"
  by (simp_all add: blk_translated_def step_helper_defs Let_def split: option.split)

lemma blk_walk_start_frame [simp]:
  "v4_commit_valid (blk_walk_start cfg s t) = v4_commit_valid t" "v4_regs (blk_walk_start cfg s t) = v4_regs t"
  "v4_flags (blk_walk_start cfg s t) = v4_flags t" "v4_ll_valid (blk_walk_start cfg s t) = v4_ll_valid t"
  "v4_commit_pc (blk_walk_start cfg s t) = v4_commit_pc t" "v4_halted (blk_walk_start cfg s t) = v4_halted t"
  "v4_locked_up (blk_walk_start cfg s t) = v4_locked_up t"
  "v4_lockup_reason (blk_walk_start cfg s t) = v4_lockup_reason t"
  "v4_fetch_pc (blk_walk_start cfg s t) = v4_fetch_pc t"
  "v4_fetch_phys_addr (blk_walk_start cfg s t) = v4_fetch_phys_addr t"
  "v4_fetch_phys_valid (blk_walk_start cfg s t) = v4_fetch_phys_valid t"
  "v4_translate_va (blk_walk_start cfg s t) = v4_translate_va t"
  "v4_translate_access (blk_walk_start cfg s t) = v4_translate_access t" "v4_fd (blk_walk_start cfg s t) = v4_fd t"
  "v4_de (blk_walk_start cfg s t) = v4_de t" "v4_xm (blk_walk_start cfg s t) = v4_xm t"
  "v4_mr (blk_walk_start cfg s t) = v4_mr t" "v4_retire (blk_walk_start cfg s t) = v4_retire t"
  "v4_sb (blk_walk_start cfg s t) = v4_sb t" "v4_vec (blk_walk_start cfg s t) = v4_vec t"
  "v4_ll_addr (blk_walk_start cfg s t) = v4_ll_addr t"
  by (simp_all add: blk_walk_start_def step_helper_defs Let_def split: option.split)

lemma blk_walk_frame [simp]:
  "v4_commit_valid (blk_walk cfg i s t) = v4_commit_valid t" "v4_regs (blk_walk cfg i s t) = v4_regs t"
  "v4_flags (blk_walk cfg i s t) = v4_flags t" "v4_ll_valid (blk_walk cfg i s t) = v4_ll_valid t"
  "v4_commit_pc (blk_walk cfg i s t) = v4_commit_pc t" "v4_halted (blk_walk cfg i s t) = v4_halted t"
  "v4_locked_up (blk_walk cfg i s t) = v4_locked_up t" "v4_lockup_reason (blk_walk cfg i s t) = v4_lockup_reason t"
  "v4_fetch_pc (blk_walk cfg i s t) = v4_fetch_pc t" "v4_translate_va (blk_walk cfg i s t) = v4_translate_va t"
  "v4_translate_access (blk_walk cfg i s t) = v4_translate_access t" "v4_fd (blk_walk cfg i s t) = v4_fd t"
  "v4_de (blk_walk cfg i s t) = v4_de t" "v4_mr (blk_walk cfg i s t) = v4_mr t"
  "v4_retire (blk_walk cfg i s t) = v4_retire t" "v4_sb (blk_walk cfg i s t) = v4_sb t"
  "v4_ll_addr (blk_walk cfg i s t) = v4_ll_addr t"
  by (simp_all add: blk_walk_def step_helper_defs Let_def split: option.split)

lemma blk_vector_done_frame [simp]:
  "v4_commit_valid (blk_vector_done cfg i s t) = v4_commit_valid t"
  "v4_flags (blk_vector_done cfg i s t) = v4_flags t" "v4_ll_valid (blk_vector_done cfg i s t) = v4_ll_valid t"
  "v4_commit_pc (blk_vector_done cfg i s t) = v4_commit_pc t" "v4_halted (blk_vector_done cfg i s t) = v4_halted t"
  "v4_locked_up (blk_vector_done cfg i s t) = v4_locked_up t"
  "v4_lockup_reason (blk_vector_done cfg i s t) = v4_lockup_reason t" "v4_fd (blk_vector_done cfg i s t) = v4_fd t"
  "v4_de (blk_vector_done cfg i s t) = v4_de t" "v4_xm (blk_vector_done cfg i s t) = v4_xm t"
  "v4_mr (blk_vector_done cfg i s t) = v4_mr t" "v4_sb (blk_vector_done cfg i s t) = v4_sb t"
  "v4_walker (blk_vector_done cfg i s t) = v4_walker t" "v4_ll_addr (blk_vector_done cfg i s t) = v4_ll_addr t"
  by (simp_all add: blk_vector_done_def step_helper_defs Let_def split: option.split)

lemma blk_entry_frame [simp]:
  "v4_commit_valid (blk_entry cfg i s t) = v4_commit_valid t" "v4_regs (blk_entry cfg i s t) = v4_regs t"
  "v4_flags (blk_entry cfg i s t) = v4_flags t" "v4_ll_valid (blk_entry cfg i s t) = v4_ll_valid t"
  "v4_commit_pc (blk_entry cfg i s t) = v4_commit_pc t" "v4_halted (blk_entry cfg i s t) = v4_halted t"
  "v4_locked_up (blk_entry cfg i s t) = v4_locked_up t"
  "v4_lockup_reason (blk_entry cfg i s t) = v4_lockup_reason t" "v4_fetch_pc (blk_entry cfg i s t) = v4_fetch_pc t"
  "v4_fetch_phys_addr (blk_entry cfg i s t) = v4_fetch_phys_addr t"
  "v4_fetch_phys_valid (blk_entry cfg i s t) = v4_fetch_phys_valid t" "v4_sb (blk_entry cfg i s t) = v4_sb t"
  "v4_ll_addr (blk_entry cfg i s t) = v4_ll_addr t"
  by (simp_all add: blk_entry_def step_helper_defs Let_def split: option.split)

lemma blk_lockups_frame [simp]:
  "v4_commit_valid (blk_lockups cfg i s t) = v4_commit_valid t" "v4_regs (blk_lockups cfg i s t) = v4_regs t"
  "v4_flags (blk_lockups cfg i s t) = v4_flags t" "v4_ll_valid (blk_lockups cfg i s t) = v4_ll_valid t"
  "v4_commit_pc (blk_lockups cfg i s t) = v4_commit_pc t" "v4_halted (blk_lockups cfg i s t) = v4_halted t"
  "v4_fetch_pc (blk_lockups cfg i s t) = v4_fetch_pc t"
  "v4_fetch_phys_addr (blk_lockups cfg i s t) = v4_fetch_phys_addr t"
  "v4_fetch_phys_valid (blk_lockups cfg i s t) = v4_fetch_phys_valid t"
  "v4_translate_va (blk_lockups cfg i s t) = v4_translate_va t"
  "v4_translate_access (blk_lockups cfg i s t) = v4_translate_access t" "v4_sb (blk_lockups cfg i s t) = v4_sb t"
  "v4_ll_addr (blk_lockups cfg i s t) = v4_ll_addr t"
  by (simp_all add: blk_lockups_def step_helper_defs Let_def split: option.split)

lemma blk_stopped_frame [simp]:
  "v4_commit_valid (blk_stopped s t) = v4_commit_valid t" "v4_flags (blk_stopped s t) = v4_flags t"
  "v4_ll_valid (blk_stopped s t) = v4_ll_valid t" "v4_commit_pc (blk_stopped s t) = v4_commit_pc t"
  "v4_halted (blk_stopped s t) = v4_halted t" "v4_locked_up (blk_stopped s t) = v4_locked_up t"
  "v4_lockup_reason (blk_stopped s t) = v4_lockup_reason t" "v4_fetch_pc (blk_stopped s t) = v4_fetch_pc t"
  "v4_fetch_phys_addr (blk_stopped s t) = v4_fetch_phys_addr t"
  "v4_fetch_phys_valid (blk_stopped s t) = v4_fetch_phys_valid t"
  "v4_translate_va (blk_stopped s t) = v4_translate_va t"
  "v4_translate_access (blk_stopped s t) = v4_translate_access t" "v4_sb (blk_stopped s t) = v4_sb t"
  "v4_walker (blk_stopped s t) = v4_walker t" "v4_vec (blk_stopped s t) = v4_vec t"
  "v4_ll_addr (blk_stopped s t) = v4_ll_addr t"
  by (simp_all add: blk_stopped_def step_helper_defs Let_def split: option.split)

lemma blk_reset_pending [simp]:
  "v4_reset_pending (blk_writeback cfg s t) = v4_reset_pending t"
  "v4_reset_pending (blk_clear_retire s t) = v4_reset_pending t"
  "v4_reset_pending (blk_memory_result cfg i s t) = v4_reset_pending t"
  "v4_reset_pending (blk_result_retire cfg i s t) = v4_reset_pending t"
  "v4_reset_pending (blk_execute_retire cfg s t) = v4_reset_pending t"
  "v4_reset_pending (blk_storebuf cfg i s t) = v4_reset_pending t"
  "v4_reset_pending (blk_memory_latch cfg i s t) = v4_reset_pending t"
  "v4_reset_pending (blk_requests cfg i s t) = v4_reset_pending t"
  "v4_reset_pending (blk_execute_latch cfg s t) = v4_reset_pending t"
  "v4_reset_pending (blk_fetch_latch cfg i s t) = v4_reset_pending t"
  "v4_reset_pending (blk_steer cfg i s t) = v4_reset_pending t"
  "v4_reset_pending (blk_translated cfg s t) = v4_reset_pending t"
  "v4_reset_pending (blk_walk_start cfg s t) = v4_reset_pending t"
  "v4_reset_pending (blk_walk cfg i s t) = v4_reset_pending t"
  "v4_reset_pending (blk_vector_done cfg i s t) = v4_reset_pending t"
  "v4_reset_pending (blk_entry cfg i s t) = v4_reset_pending t"
  "v4_reset_pending (blk_lockups cfg i s t) = v4_reset_pending t"
  "v4_reset_pending (blk_stopped s t) = v4_reset_pending t"
  by (simp_all add: blk_writeback_def blk_clear_retire_def blk_memory_result_def blk_result_retire_def blk_execute_retire_def blk_storebuf_def blk_memory_latch_def blk_requests_def blk_execute_latch_def
      blk_fetch_latch_def blk_steer_def blk_translated_def blk_walk_start_def blk_walk_def blk_vector_done_def blk_entry_def blk_lockups_def blk_stopped_def
      step_helper_defs Let_def split: option.split)

section \<open>Cycles that stop or restart the pipeline\<close>

definition v4_stopped :: "v4_core \<Rightarrow> bool" where "v4_stopped s \<longleftrightarrow> v4_halted s \<or> v4_locked_up s"

definition pipeline_empty :: "v4_core \<Rightarrow> bool" where
  "pipeline_empty s \<longleftrightarrow> \<not> fd_valid (v4_fd s) \<and> \<not> de_valid (v4_de s) \<and> \<not> m_valid (v4_xm s) \<and>
     \<not> mr_valid (v4_mr s) \<and> \<not> r_valid (v4_retire s)"

text \<open>The conditions of the lockup blocks, and of the stop requests of the retire stage.\<close>

definition v4_walk_error :: "core_config \<Rightarrow> v4_in \<Rightarrow> v4_core \<Rightarrow> bool" where
  "v4_walk_error cfg i s \<longleftrightarrow> walk_response_valid (l_response_valid (v4_response cfg i s)) (v4_walker s) \<and> v4_response_error cfg i s"

definition v4_failing :: "core_config \<Rightarrow> v4_in \<Rightarrow> v4_core \<Rightarrow> bool" where
  "v4_failing cfg i s \<longleftrightarrow> vector_failed cfg i s \<or> v4_walk_error cfg i s \<or> vector_translate_lockup s \<or>
     walk_fault_lockup s \<or> trap_preempt_lockup s \<or> v4_bus_failed cfg i s"

definition v4_stop_request :: "v4_core \<Rightarrow> bool" where
  "v4_stop_request s \<longleftrightarrow> halt_request (retire_stage (v4_retire s)) \<or> lockup_request (retire_stage (v4_retire s))"

definition v4_calm :: "core_config \<Rightarrow> v4_in \<Rightarrow> v4_core \<Rightarrow> bool" where
  "v4_calm cfg i s \<longleftrightarrow> \<not> v4_reset_pending s \<and> \<not> entry_start cfg i s \<and> \<not> v4_failing cfg i s \<and>
     \<not> v4_stop_request s \<and> \<not> v4_stopped s"

lemmas calm_defs = v4_calm_def v4_failing_def v4_stop_request_def v4_stopped_def v4_walk_error_def v4_response_error_def

lemma clear_pipeline_empty [simp]: "pipeline_empty (clear_pipeline t)"
  by (simp add: pipeline_empty_def clear_pipeline_def)

lemma empty_helpers [simp]:
  "pipeline_empty (lock_up r t) = pipeline_empty t" "pipeline_empty (stop_walk t) = pipeline_empty t"
  "pipeline_empty (drop_vector t) = pipeline_empty t"
  by (simp_all add: pipeline_empty_def lock_up_def stop_walk_def drop_vector_def)

lemma clear_keeps: "pipeline_empty t \<Longrightarrow> pipeline_empty (clear_pipeline t)" by simp

lemma entry_empties: "entry_start cfg i s \<Longrightarrow> pipeline_empty (blk_entry cfg i s t)"
  by (simp add: blk_entry_def Let_def pipeline_empty_def stop_walk_def clear_pipeline_def)

lemma lockups_empty:
  "v4_failing cfg i s \<or> pipeline_empty t \<Longrightarrow> pipeline_empty (blk_lockups cfg i s t)"
  by (auto simp: blk_lockups_def Let_def v4_failing_def v4_walk_error_def v4_response_error_def)

lemma stopped_empty:
  "v4_stop_request s \<or> v4_stopped s \<or> pipeline_empty t \<Longrightarrow> pipeline_empty (blk_stopped s t)"
  by (auto simp: blk_stopped_def Let_def v4_stop_request_def v4_stopped_def pipeline_empty_def clear_pipeline_def)

lemma units_frame [simp]:
  "v4_fd (v4_units cfg i s t) = v4_fd t" "v4_de (v4_units cfg i s t) = v4_de t" "v4_xm (v4_units cfg i s t) = v4_xm t"
  "v4_mr (v4_units cfg i s t) = v4_mr t" "v4_retire (v4_units cfg i s t) = v4_retire t" "v4_regs (v4_units cfg i s t) = v4_regs t"
  "v4_flags (v4_units cfg i s t) = v4_flags t" "v4_halted (v4_units cfg i s t) = v4_halted t"
  "v4_locked_up (v4_units cfg i s t) = v4_locked_up t" "v4_reset_pending (v4_units cfg i s t) = v4_reset_pending t"
  "v4_fetch_pc (v4_units cfg i s t) = v4_fetch_pc t" "v4_fetch_phys_addr (v4_units cfg i s t) = v4_fetch_phys_addr t"
  "v4_fetch_phys_valid (v4_units cfg i s t) = v4_fetch_phys_valid t" "v4_translate_va (v4_units cfg i s t) = v4_translate_va t"
  "v4_walker (v4_units cfg i s t) = v4_walker t" "v4_vec (v4_units cfg i s t) = v4_vec t" "v4_sb (v4_units cfg i s t) = v4_sb t"
  "v4_commit_valid (v4_units cfg i s t) = v4_commit_valid t" "v4_commit_pc (v4_units cfg i s t) = v4_commit_pc t"
  "v4_ll_valid (v4_units cfg i s t) = v4_ll_valid t" "v4_ll_addr (v4_units cfg i s t) = v4_ll_addr t"
  by (simp_all add: v4_units_def Let_def)

lemma pipeline_empty_units [simp]: "pipeline_empty (v4_units cfg i s t) = pipeline_empty t"
  by (simp add: pipeline_empty_def)

lemma not_calm_empty: "\<not> v4_reset_pending s \<Longrightarrow> \<not> v4_calm cfg i s \<Longrightarrow> pipeline_empty (v4_tick cfg i s)"
  unfolding v4_tick_def v4_step_def Let_def v4_calm_def
  by (simp, metis stopped_empty lockups_empty entry_empties)

section \<open>The calm blocks at the end\<close>

lemma calm_entry: "v4_calm cfg i s \<Longrightarrow> blk_entry cfg i s t = t"
  by (simp add: calm_defs blk_entry_def)
lemma no_lockups: "\<not> v4_failing cfg i s \<Longrightarrow> blk_lockups cfg i s t = t"
  by (auto simp: v4_failing_def v4_walk_error_def v4_response_error_def blk_lockups_def Let_def)
lemma calm_lockups: "v4_calm cfg i s \<Longrightarrow> blk_lockups cfg i s t = t"
  by (simp add: v4_calm_def no_lockups)
lemma calm_stopped: "v4_calm cfg i s \<Longrightarrow> blk_stopped s t = (if v4_regs s 0 \<noteq> 0 then t\<lparr>v4_regs := (v4_regs t)(0 := 0)\<rparr> else t)"
  by (simp add: calm_defs blk_stopped_def Let_def)

lemma idle_vector: "\<not> vector_active (v4_vec s) \<Longrightarrow> blk_vector_done cfg i s t = t"
  by (simp add: blk_vector_done_def vector_done_def vector_response_valid_def)

text \<open>A calm cycle without an entry in progress ends with the walk block.\<close>

definition v4_moves :: "core_config \<Rightarrow> v4_in \<Rightarrow> v4_core \<Rightarrow> v4_core" where
  "v4_moves cfg i s =
     (let t = blk_clear_retire s (blk_writeback cfg s s);
          t = blk_storebuf cfg i s (blk_execute_retire cfg s (blk_result_retire cfg i s (blk_memory_result cfg i s t)));
          t = blk_execute_latch cfg s (blk_requests cfg i s (blk_memory_latch cfg i s t));
          t = blk_steer cfg i s (blk_fetch_latch cfg i s t)
      in blk_walk cfg i s (blk_walk_start cfg s (blk_translated cfg s t)))"

lemma v4_tick_moves:
  "\<not> v4_reset_pending s \<Longrightarrow>
     v4_tick cfg i s = v4_units cfg i s (blk_stopped s (blk_lockups cfg i s (blk_entry cfg i s
       (blk_vector_done cfg i s (v4_moves cfg i s)))))"
  by (simp add: v4_tick_def v4_step_def v4_moves_def Let_def)

lemma calm_tick:
  assumes "v4_calm cfg i s"
  shows "v4_tick cfg i s = v4_units cfg i s (blk_stopped s (blk_vector_done cfg i s (v4_moves cfg i s)))"
proof -
  have "\<not> v4_reset_pending s" using assms by (simp add: v4_calm_def)
  then show ?thesis by (simp add: v4_tick_moves calm_entry [OF assms] calm_lockups [OF assms])
qed

section \<open>The registers after a calm cycle outside an entry\<close>

definition v4_leaves :: "core_config \<Rightarrow> v4_core \<Rightarrow> bool" where
  "v4_leaves cfg s \<longleftrightarrow> v4_to_memory cfg s \<or> v4_to_storebuf cfg s \<or> v4_to_storebuf_load cfg s \<or> v4_to_retire cfg s"

definition v4_plain :: "core_config \<Rightarrow> v4_in \<Rightarrow> v4_core \<Rightarrow> bool" where
  "v4_plain cfg i s \<longleftrightarrow> v4_calm cfg i s \<and> \<not> vector_active (v4_vec s)"

lemma plain_tick: "v4_plain cfg i s \<Longrightarrow> v4_tick cfg i s = v4_units cfg i s (blk_stopped s (v4_moves cfg i s))"
  by (simp add: v4_plain_def calm_tick idle_vector)

lemma stopped_calm_frame:
  assumes "v4_calm cfg i s"
  shows "v4_fd (blk_stopped s t) = v4_fd t" "v4_de (blk_stopped s t) = v4_de t" "v4_xm (blk_stopped s t) = v4_xm t"
    "v4_mr (blk_stopped s t) = v4_mr t" "v4_retire (blk_stopped s t) = v4_retire t"
    "r \<noteq> 0 \<Longrightarrow> v4_regs (blk_stopped s t) r = v4_regs t r"
  by (simp_all add: calm_stopped [OF assms])

lemmas tick_unfold = plain_tick stopped_calm_frame v4_moves_def Let_def

lemma plain_calm: "v4_plain cfg i s \<Longrightarrow> v4_calm cfg i s" by (simp add: v4_plain_def)

lemma fd_redirect: "v4_fd (blk_result_retire cfg i s t) = (if v4_redirect s then (v4_fd t)\<lparr>fd_valid := False\<rparr> else v4_fd t)"
  by (simp add: blk_result_retire_def v4_redirect_def memory_redirect_def Let_def redirect_fetch_def)
lemma de_redirect: "v4_de (blk_result_retire cfg i s t) = (if v4_redirect s then (v4_de t)\<lparr>de_valid := False\<rparr> else v4_de t)"
  by (simp add: blk_result_retire_def v4_redirect_def memory_redirect_def Let_def redirect_fetch_def)
lemma xm_redirect: "v4_xm (blk_result_retire cfg i s t) = (if v4_redirect s then xm_cleared (v4_flags s) else v4_xm t)"
  by (simp add: blk_result_retire_def v4_redirect_def memory_redirect_def Let_def redirect_fetch_def)

lemma fd_tick:
  assumes "v4_plain cfg i s"
  shows "v4_fd (v4_tick cfg i s) =
     (if \<not> v4_flush_younger cfg s \<and> fetch_accept cfg i s then fd_fetched i s
      else if v4_flush_younger cfg s \<or> v4_decode_advance cfg s \<or> v4_redirect s then (v4_fd s)\<lparr>fd_valid := False\<rparr>
      else v4_fd s)"
  by (simp add: plain_tick [OF assms] stopped_calm_frame [OF plain_calm [OF assms]] v4_moves_def Let_def
      blk_fetch_latch_def fd_redirect)

lemma de_tick:
  assumes "v4_plain cfg i s"
  shows "v4_de (v4_tick cfg i s) =
     (if v4_decode_advance cfg s then de_from_fd cfg s
      else if v4_redirect s \<or> de_valid (v4_de s) \<and> v4_leaves cfg s then (v4_de s)\<lparr>de_valid := False\<rparr>
      else v4_de s)"
  by (simp add: plain_tick [OF assms] stopped_calm_frame [OF plain_calm [OF assms]] v4_moves_def Let_def
      blk_execute_latch_def de_redirect v4_leaves_def)

lemma mr_tick:
  assumes "v4_plain cfg i s"
  shows "v4_mr (v4_tick cfg i s) =
     (if memory_to_retire cfg i s then mr_from_result (v4_xm s) (v4_memory_result cfg i s)
      else (v4_mr s)\<lparr>mr_valid := False\<rparr>)"
  using assms
  by (cases "mr_valid (v4_mr s)"; cases "v4_mr s")
    (simp_all add: plain_tick stopped_calm_frame [OF plain_calm [OF assms]] v4_moves_def Let_def
      blk_result_retire_def blk_memory_result_def redirect_fetch_def)

lemma retire_tick:
  assumes "v4_plain cfg i s"
  shows "v4_retire (v4_tick cfg i s) =
     (let e = v4_out cfg s; pc = de_pc (v4_de s) in
      if v4_to_storebuf cfg s then retire_from_storebuf pc e
      else if v4_to_storebuf_load cfg s then retire_from_storebuf_load pc e (v4_sb s)
      else if v4_to_retire cfg s then retire_from_execute pc e
      else if mr_valid (v4_mr s) then retire_from_mr (v4_mr s)
      else retire_cleared (v4_flags s) (v4_regs s 15))"
  by (simp add: plain_tick [OF assms] stopped_calm_frame [OF plain_calm [OF assms]] v4_moves_def Let_def
      blk_execute_retire_def blk_result_retire_def blk_clear_retire_def redirect_fetch_def)

lemma regs_tick:
  assumes "v4_plain cfg i s" and "r \<noteq> 0"
  shows "v4_regs (v4_tick cfg i s) r = retire_regs (v4_retire s) (v4_regs s) r"
  by (simp add: plain_tick [OF assms(1)] stopped_calm_frame(6) [OF plain_calm [OF assms(1)] assms(2)] v4_moves_def Let_def
      blk_writeback_def lock_up_def split: option.split)

lemma plain_no_entry: "v4_plain cfg i s \<Longrightarrow> \<not> trap_start s \<and> \<not> irq_start cfg i s"
  by (simp add: v4_plain_def v4_calm_def entry_start_def)

lemma steer_redirect_pc:
  "\<not> v4_redirect s \<Longrightarrow> v4_fetch_pc (blk_result_retire cfg i s t) = v4_fetch_pc t"
  "\<not> v4_redirect s \<Longrightarrow> v4_translate_va (blk_result_retire cfg i s t) = v4_translate_va t"
  "\<not> v4_redirect s \<Longrightarrow> v4_fetch_phys_valid (blk_result_retire cfg i s t) = v4_fetch_phys_valid t"
  "\<not> v4_redirect s \<Longrightarrow> v4_fetch_phys_addr (blk_result_retire cfg i s t) = v4_fetch_phys_addr t"
  by (simp_all add: blk_result_retire_def Let_def)

definition v4_steers :: "core_config \<Rightarrow> v4_in \<Rightarrow> v4_core \<Rightarrow> u64 option" where
  "v4_steers cfg i s =
     (if v4_mispredict cfg s then Some (o_next_pc (v4_out cfg s))
      else if v4_redirect s then Some (mr_next_pc (v4_mr s))
      else if v4_predict_redirect cfg s then Some (v4_predicted_next_pc cfg s)
      else if fetch_accept cfg i s then Some (v4_fetch_pc s + 2)
      else None)"

lemma steer_plain:
  "v4_plain cfg i s \<Longrightarrow> blk_steer cfg i s t = (case v4_steers cfg i s of Some pc \<Rightarrow> redirect_fetch s pc t | None \<Rightarrow> t)"
  by (simp add: blk_steer_def v4_steers_def plain_no_entry)

lemma steers_None: "v4_steers cfg i s = None \<Longrightarrow> \<not> v4_redirect s"
  by (simp add: v4_steers_def split: if_splits)

lemma redirect_fetch_fields [simp]:
  "v4_fetch_pc (redirect_fetch s pc t) = pc" "v4_translate_va (redirect_fetch s pc t) = pc"
  "v4_fetch_phys_valid (redirect_fetch s pc t) = (\<not> v4_paging s)"
  "v4_translate_access (redirect_fetch s pc t) = ACCESS_EXECUTE"
  by (simp_all add: redirect_fetch_def)

lemma fetch_pc_tick:
  assumes "v4_plain cfg i s"
  shows "v4_fetch_pc (v4_tick cfg i s) = (case v4_steers cfg i s of Some pc \<Rightarrow> pc | None \<Rightarrow> v4_fetch_pc s)"
  by (simp add: plain_tick [OF assms] v4_moves_def Let_def steer_plain [OF assms] steer_redirect_pc [OF steers_None]
      split: option.split)

lemma translate_va_tick:
  assumes "v4_plain cfg i s"
  shows "v4_translate_va (v4_tick cfg i s) =
     (case v4_steers cfg i s of Some pc \<Rightarrow> pc
      | None \<Rightarrow> if memory_chain_continue cfg i s then m_chain_store_addr (v4_xm s)
               else if memory_to_retire cfg i s \<or> memory_error cfg i s then v4_fetch_pc s
               else if v4_to_memory cfg s then o_memory_addr (v4_out cfg s) else v4_translate_va s)"
  by (simp add: plain_tick [OF assms] v4_moves_def Let_def steer_plain [OF assms] steer_redirect_pc [OF steers_None]
      blk_memory_latch_def split: option.split)

lemma phys_valid_translated:
  "v4_fetch_phys_valid (blk_translated cfg s t) = (fetch_translate_complete cfg s \<or> v4_fetch_phys_valid t)"
  by (simp add: blk_translated_def Let_def)

lemma phys_valid_walk:
  "v4_fetch_phys_valid (blk_walk cfg i s t) =
     (v4_walk_success s \<and> w_resume_kind (v4_walker s) = WALK_RESUME_FETCH \<or> v4_fetch_phys_valid t)"
  by (simp add: blk_walk_def Let_def stop_walk_def)

lemma phys_valid_tick:
  assumes "v4_plain cfg i s"
  shows "v4_fetch_phys_valid (v4_tick cfg i s) =
     (v4_walk_success s \<and> w_resume_kind (v4_walker s) = WALK_RESUME_FETCH \<or> fetch_translate_complete cfg s \<or>
      (if v4_steers cfg i s = None then v4_fetch_phys_valid s else \<not> v4_paging s))"
  by (simp add: plain_tick [OF assms] v4_moves_def Let_def steer_plain [OF assms] steer_redirect_pc [OF steers_None]
      phys_valid_walk phys_valid_translated split: option.split)

text \<open>The memory latch, without the fields translation sets.\<close>

definition xm_moved :: "core_config \<Rightarrow> v4_in \<Rightarrow> v4_core \<Rightarrow> xm_reg" where
  "xm_moved cfg i s =
     (let x = (if v4_redirect s then xm_cleared (v4_flags s) else v4_xm s) in
      if memory_chain_continue cfg i s then
        xm_chain (v4_paging s) (v4_flags s) (chain_continue_store_value cfg i s)
          (x\<lparr>m_chain_store_addr := m_chain_store_addr (v4_xm s)\<rparr>)
      else if memory_to_retire cfg i s \<or> memory_error cfg i s then xm_cleared (v4_flags s)
      else if v4_to_memory cfg s then xm_issue (v4_paging s) (de_pc (v4_de s)) (v4_out cfg s)
      else if m_valid (v4_xm s) \<and> ms_start_request (v4_stage_xm cfg s) (v4_stage_lsu cfg i s)
      then x\<lparr>m_request_started := True\<rparr> else x)"

lemma xm_memory_latch:
  "v4_xm (blk_memory_latch cfg i s (blk_storebuf cfg i s (blk_execute_retire cfg s (blk_result_retire cfg i s
     (blk_memory_result cfg i s (blk_clear_retire s (blk_writeback cfg s s))))))) = xm_moved cfg i s"
  by (simp add: blk_memory_latch_def xm_moved_def xm_redirect Let_def)

definition xm_same :: "xm_reg \<Rightarrow> xm_reg \<Rightarrow> bool" where
  "xm_same x y \<longleftrightarrow> x\<lparr>m_addr := 0, m_phys_valid := False\<rparr> = y\<lparr>m_addr := 0, m_phys_valid := False\<rparr>"

lemma xm_same_trans [trans]: "xm_same x y \<Longrightarrow> xm_same y z \<Longrightarrow> xm_same x z"
  by (simp add: xm_same_def)

lemma xm_same_update [simp]:
  "xm_same x x" "xm_same (x\<lparr>m_addr := a, m_phys_valid := b\<rparr>) x"
  by (simp_all add: xm_same_def)

lemma xm_blk_translated: "xm_same (v4_xm (blk_translated cfg s t)) (v4_xm t)"
  by (simp add: blk_translated_def Let_def)

lemma xm_blk_walk: "xm_same (v4_xm (blk_walk cfg i s t)) (v4_xm t)"
  by (simp add: blk_walk_def Let_def stop_walk_def)

lemma xm_translated: "xm_same (v4_xm (blk_walk cfg i s (blk_walk_start cfg s (blk_translated cfg s t)))) (v4_xm t)"
  by (rule xm_same_trans [OF xm_blk_walk]) (simp add: xm_blk_translated)

lemma xm_same_fields:
  "xm_same x y \<Longrightarrow> m_valid x = m_valid y \<and> m_next_pc x = m_next_pc y \<and> m_commit_pc x = m_commit_pc y \<and>
     m_fault_pc x = m_fault_pc y \<and> m_virtual_addr x = m_virtual_addr y \<and> m_write x = m_write y"
  by (cases x; cases y) (simp add: xm_same_def)

lemma xm_tick:
  assumes "v4_plain cfg i s"
  shows "xm_same (v4_xm (v4_tick cfg i s)) (xm_moved cfg i s)"
  using xm_translated [of cfg i s "blk_steer cfg i s (blk_fetch_latch cfg i s (blk_execute_latch cfg s
     (blk_requests cfg i s (blk_memory_latch cfg i s (blk_storebuf cfg i s (blk_execute_retire cfg s
     (blk_result_retire cfg i s (blk_memory_result cfg i s (blk_clear_retire s (blk_writeback cfg s s))))))))))"]
  by (simp add: plain_tick [OF assms] stopped_calm_frame [OF plain_calm [OF assms]] v4_moves_def Let_def xm_memory_latch)

end
