(* ===== verification/V4_Order.thy ===== *)
theory V4_Order
  imports V4_Steps
begin

text \<open>
  Program order in the v4 pipeline.  The program counters in the latches form a chain: the
  next program counter of each instruction in flight is the address of the one behind it,
  or the younger ones are about to be flushed.  The invariant \<open>v4_ordered\<close> states the chain
  for every latch and holds in every reachable state, whatever the buses, the interrupt
  lines and the memory do; so instructions commit in program order, never from a wrong path.
\<close>

section \<open>Outputs of the execute stage that steer fetching\<close>

text \<open>Read off the specified effect: the next program counter, and whether there is one.\<close>

fun effect_pc :: "exec_in \<Rightarrow> effect \<Rightarrow> u64" where
  "effect_pc i (E_Write w f pc) = pc"
| "effect_pc i E_Iret = x_interrupt_epc i"
| "effect_pc i e = x_post_pc i"

fun is_trap :: "effect \<Rightarrow> bool" where "is_trap (E_Trap tv) = True" | "is_trap e = False"

lemma requests_fields:
  "requests i w f pc e \<Longrightarrow> o_next_pc e = pc \<and> \<not> o_trap e \<and> \<not> o_halt e \<and> \<not> o_lockup e \<and> \<not> o_memory_start e"
proof -
  assume "requests i w f pc e"
  then have eq: "e = (exec_default i)\<lparr>o_reg_write := o_reg_write e, o_reg_value := o_reg_value e,
            o_flags_write := o_flags_write e, o_flags_value := o_flags_value e, o_next_pc := pc\<rparr>"
    by (simp add: requests_def)
  have "o_next_pc e = pc" by (subst eq) simp
  moreover have "\<not> o_trap e" by (subst eq) (simp add: exec_default_def)
  moreover have "\<not> o_halt e" by (subst eq) (simp add: exec_default_def)
  moreover have "\<not> o_lockup e" by (subst eq) (simp add: exec_default_def)
  moreover have "\<not> o_memory_start e" by (subst eq) (simp add: exec_default_def)
  ultimately show ?thesis by blast
qed

lemma mem_request_fields:
  "o_next_pc (mem_request op (exec_default i)) = x_post_pc i \<and> \<not> o_trap (mem_request op (exec_default i)) \<and>
   \<not> o_halt (mem_request op (exec_default i)) \<and> \<not> o_lockup (mem_request op (exec_default i)) \<and>
   o_memory_start (mem_request op (exec_default i)) \<and> o_memory_next_pc (mem_request op (exec_default i)) = x_post_pc i"
  by (cases op) (simp_all add: out_defs exec_default_def)

lemma stage_fields:
  "stage_effect i r e \<Longrightarrow> o_next_pc e = effect_pc i r \<and> o_trap e = is_trap r \<and> o_halt e = (r = E_Halt) \<and>
     \<not> o_lockup e \<and> o_memory_start e = is_mem r \<and> (is_mem r \<longrightarrow> o_memory_next_pc e = x_post_pc i)"
  using mem_request_fields [of _ i]
  by (cases r) (auto dest!: requests_fields simp: out_defs exec_default_def)

definition x_effect :: "exec_in \<Rightarrow> effect" where
  "x_effect i = isa_execute (decode (x_instruction i)) (x_operands i)"

lemma v3_execute_fields:
  "x_valid i \<Longrightarrow> o_next_pc (v3_execute i) = effect_pc i (x_effect i) \<and> o_trap (v3_execute i) = is_trap (x_effect i) \<and>
     o_halt (v3_execute i) = (x_effect i = E_Halt) \<and> \<not> o_lockup (v3_execute i) \<and>
     o_memory_start (v3_execute i) = is_mem (x_effect i) \<and>
     (is_mem (x_effect i) \<longrightarrow> o_memory_next_pc (v3_execute i) = x_post_pc i)"
  unfolding x_effect_def by (rule stage_fields [OF v3_execute_spec])

text \<open>
  The same instruction in a later cycle: the reservation and the write fault may have
  changed, and for a memory operation the mode too.
\<close>

definition same_instruction :: "exec_in \<Rightarrow> exec_in \<Rightarrow> bool" where
  "same_instruction x y \<longleftrightarrow> x_valid x = x_valid y \<and> x_instruction x = x_instruction y \<and> x_post_pc x = x_post_pc y \<and>
     x_a x = x_a y \<and> x_b x = x_b y \<and> x_flags x = x_flags y"

definition same_mode :: "exec_in \<Rightarrow> exec_in \<Rightarrow> bool" where
  "same_mode x y \<longleftrightarrow> x_user x = x_user y \<and> x_interrupt_epc x = x_interrupt_epc y \<and>
     x_special_read_fault x = x_special_read_fault y"

lemma effect_later:
  assumes "same_instruction x y" and "\<not> x_special_write_fault x" and "is_mem (x_effect x) \<or> same_mode x y"
  shows "(is_trap (x_effect x) \<longrightarrow> is_trap (x_effect y)) \<and> (x_effect x = E_Halt \<longrightarrow> x_effect y = E_Halt) \<and>
     (is_trap (x_effect y) \<or> effect_pc y (x_effect y) = effect_pc x (x_effect x))"
proof -
  define e f where "e = x_operands x" and "f = x_operands y"
  have o: "op_a f = op_a e" "op_b f = op_b e" "op_flags f = op_flags e" "op_next f = op_next e"
    "x_post_pc y = op_next e" "x_post_pc x = op_next e" "\<not> op_write_fault e"
    using assms(1,2) by (simp_all add: same_instruction_def x_operands_def e_def f_def)
  have m: "is_mem (x_effect x) \<or> op_user f = op_user e \<and>
      op_read_fault f = op_read_fault e \<and> x_interrupt_epc y = x_interrupt_epc x"
    using assms(3) by (auto simp: same_mode_def x_operands_def e_def f_def)
  have v: "pc_view f r v = pc_view e r v" for r v by (simp add: pc_view_def o)
  have x: "x_effect x = isa_execute (decode (x_instruction x)) e" "x_effect y = isa_execute (decode (x_instruction x)) f"
    using assms(1) by (simp_all add: x_effect_def e_def f_def same_instruction_def)
  show ?thesis
    using m unfolding x
    by (cases "decode (x_instruction x)") (auto simp: o v Let_def split: prod.splits if_splits)
qed

section \<open>Signals of the execute slot\<close>

abbreviation "v4_x cfg s \<equiv> v4_execute_in cfg (sr_write_access_fault (v4_user s) (v4_special_port cfg s)) s"
abbreviation "v4_effect cfg s \<equiv> x_effect (v4_x cfg s)"

lemma v4_x_fields [simp]:
  "x_valid (v4_execute_in cfg f s) = de_valid (v4_de s)" "x_instruction (v4_execute_in cfg f s) = de_instruction (v4_de s)"
  "x_post_pc (v4_execute_in cfg f s) = de_post_increment_pc (v4_de s)" "x_a (v4_execute_in cfg f s) = de_operand_a (v4_de s)"
  "x_b (v4_execute_in cfg f s) = de_operand_b (v4_de s)" "x_flags (v4_execute_in cfg f s) = de_flags (v4_de s)"
  "x_interrupt_epc (v4_execute_in cfg f s) = interrupt_epc (v4_sregs s)"
  "x_special_write_fault (v4_execute_in cfg f s) = f" "x_cpu_control (v4_execute_in cfg f s) = cpu_control (v4_sregs s)"
  "x_special_read_fault (v4_execute_in cfg f s) = sr_read_access_fault (v4_user s) (bslice 0 (de_operand_b (v4_de s)))"
  by (simp_all add: v4_execute_in_def Let_def)

lemma v4_out_fields:
  assumes "de_valid (v4_de s)"
  shows "o_next_pc (v4_out cfg s) = effect_pc (v4_x cfg s) (v4_effect cfg s)"
    "o_trap (v4_out cfg s) = is_trap (v4_effect cfg s)" "o_halt (v4_out cfg s) = (v4_effect cfg s = E_Halt)"
    "\<not> o_lockup (v4_out cfg s)" "o_memory_start (v4_out cfg s) = is_mem (v4_effect cfg s)"
    "is_mem (v4_effect cfg s) \<Longrightarrow> o_memory_next_pc (v4_out cfg s) = de_post_increment_pc (v4_de s)"
    "is_mem (v4_effect cfg s) \<Longrightarrow> o_next_pc (v4_out cfg s) = de_post_increment_pc (v4_de s)"
  using v3_execute_fields [of "v4_x cfg s"] assms
  by (simp_all add: v4_out_def) (cases "v4_effect cfg s"; simp)

text \<open>Whether an instruction is a memory operation does not depend on the write fault.\<close>

lemma mem_write_fault: "is_mem (isa_execute ins (e\<lparr>op_write_fault := f\<rparr>)) = is_mem (isa_execute ins e)"
  by (cases ins) (auto simp: pc_view_def Let_def split: prod.split)

lemma memory_start_fault:
  "de_valid (v4_de s) \<Longrightarrow> o_memory_start (v3_execute (v4_execute_in cfg f s)) = o_memory_start (v4_out cfg s)"
proof -
  assume v: "de_valid (v4_de s)"
  have eq: "x_operands (v4_execute_in cfg f s) = (x_operands (v4_execute_in cfg g s))\<lparr>op_write_fault := f\<rparr>" for g
    by (simp add: x_operands_def v4_execute_in_def x_user_def Let_def)
  have "is_mem (x_effect (v4_execute_in cfg f s)) = is_mem (x_effect (v4_execute_in cfg g s))" for g
    unfolding x_effect_def v4_x_fields eq [of g] by (rule mem_write_fault)
  then show ?thesis using v3_execute_fields v by (simp add: v4_out_def)
qed

lemma special_port_to_retire:
  "write_stb (v4_special_port cfg s) = (x_special_write_stb (v4_execute_in cfg False s) \<and> v4_to_retire cfg s)"
  by (cases "de_valid (v4_de s)")
    (simp_all add: v4_special_port_def v4_to_retire_def execute_to_retire_def v4_dispatch_def memory_start_fault Let_def)

lemma stalled_no_write_fault: "\<not> v4_to_retire cfg s \<Longrightarrow> \<not> sr_write_access_fault (v4_user s) (v4_special_port cfg s)"
  by (simp add: sr_write_access_fault_def special_port_to_retire)

lemma leaves_facts:
  assumes "v4_leaves cfg s"
  shows "de_valid (v4_de s)" "\<not> m_valid (v4_xm s)" "\<not> v4_redirect s"
    "\<not> v4_to_memory cfg s \<Longrightarrow> \<not> mr_valid (v4_mr s)"
  using assms
  by (auto simp: v4_leaves_def v4_to_memory_def v4_to_storebuf_def v4_to_storebuf_load_def v4_to_retire_def v4_redirect_def
      execute_to_memory_def execute_to_storebuf_def execute_to_storebuf_load_def execute_to_retire_def v4_dispatch_def)

lemma leaves_kind:
  "v4_to_retire cfg s \<Longrightarrow> \<not> o_memory_start (v4_out cfg s)"
  "v4_to_memory cfg s \<or> v4_to_storebuf cfg s \<or> v4_to_storebuf_load cfg s \<Longrightarrow> o_memory_start (v4_out cfg s) \<and> \<not> v4_to_retire cfg s"
  "v4_to_memory cfg s \<Longrightarrow> \<not> v4_to_storebuf cfg s \<and> \<not> v4_to_storebuf_load cfg s"
  "v4_to_storebuf cfg s \<Longrightarrow> \<not> v4_to_storebuf_load cfg s"
  by (auto simp: v4_to_memory_def v4_to_storebuf_def v4_to_storebuf_load_def v4_to_retire_def
      execute_to_memory_def execute_to_storebuf_def execute_to_storebuf_load_def execute_to_retire_def v4_dispatch_def)

lemma advance_facts:
  assumes "v4_decode_advance cfg s"
  shows "fd_valid (v4_fd s)" "\<not> v4_flush_younger cfg s" "\<not> v4_redirect s" "\<not> de_valid (v4_de s) \<or> v4_leaves cfg s"
  using assms
  by (auto simp: v4_decode_advance_def execute_slot_available_def v4_leaves_def v4_to_memory_def v4_to_storebuf_def
      v4_to_storebuf_load_def v4_to_retire_def v4_dispatch_def)

lemma accept_facts:
  assumes "fetch_accept cfg i s"
  shows "\<not> v4_flush_younger cfg s" "\<not> v4_redirect s" "\<not> v4_predict_redirect cfg s" "\<not> fd_valid (v4_fd s) \<or> v4_decode_advance cfg s"
    "v4_fetch_phys_valid s" "\<not> vector_active (v4_vec s)"
  using assms by (auto simp: fetch_accept_def)

lemma flush_facts:
  "v4_mispredict cfg s \<Longrightarrow> v4_flush_younger cfg s \<and> \<not> v4_redirect s"
  "v4_flush_younger cfg s \<Longrightarrow> de_valid (v4_de s)"
  "v4_predict_redirect cfg s \<Longrightarrow> v4_decode_advance cfg s"
  by (auto simp: v4_mispredict_def v4_flush_younger_def v4_predict_redirect_def Let_def)

section \<open>The chain of program counters\<close>

text \<open>The address of the oldest instruction at or behind each latch.\<close>

definition front_pc :: "v4_core \<Rightarrow> u64" where
  "front_pc s = (if fd_valid (v4_fd s) then fd_pc (v4_fd s) else v4_fetch_pc s)"
definition execute_pc :: "v4_core \<Rightarrow> u64" where
  "execute_pc s = (if de_valid (v4_de s) then de_pc (v4_de s) else front_pc s)"
definition memory_pc :: "v4_core \<Rightarrow> u64" where
  "memory_pc s = (if m_valid (v4_xm s) then m_commit_pc (v4_xm s) else execute_pc s)"
definition result_pc :: "v4_core \<Rightarrow> u64" where
  "result_pc s = (if mr_valid (v4_mr s) then mr_commit_pc (v4_mr s) else memory_pc s)"

text \<open>
  Behind an instruction in the execute slot comes the one predicted, unless the slot has
  already flushed the younger ones.
\<close>

definition slot_ok :: "core_config \<Rightarrow> v4_core \<Rightarrow> bool" where
  "slot_ok cfg s \<longleftrightarrow> (let e = v4_out cfg s in de_valid (v4_de s) \<longrightarrow>
     front_pc s = de_predicted_next_pc (v4_de s) \<or> o_trap e \<or> o_halt e \<or>
     o_next_pc e \<noteq> de_predicted_next_pc (v4_de s) \<and> front_pc s = o_next_pc e)"

definition fd_ok :: "v4_core \<Rightarrow> bool" where
  "fd_ok s \<longleftrightarrow> (fd_valid (v4_fd s) \<longrightarrow> fd_post_increment_pc (v4_fd s) = v4_fetch_pc s \<and>
     fd_post_increment_pc (v4_fd s) = fd_pc (v4_fd s) + 2)"

definition chain_ok :: "core_config \<Rightarrow> v4_core \<Rightarrow> bool" where
  "chain_ok cfg s \<longleftrightarrow> (let r = v4_retire s in
     (\<not> r_valid r \<longrightarrow> result_pc s = v4_regs s 15) \<and>
     (r_valid r \<and> r_commit r \<longrightarrow> r_next_pc r = result_pc s) \<and>
     (mr_valid (v4_mr s) \<longrightarrow> mr_commit_next_pc (v4_mr s) = memory_pc s) \<and>
     (m_valid (v4_xm s) \<longrightarrow> m_next_pc (v4_xm s) = execute_pc s) \<and> slot_ok cfg s \<and> fd_ok s)"

definition latches_ok :: "v4_core \<Rightarrow> bool" where
  "latches_ok s \<longleftrightarrow> (let r = v4_retire s in
     (mr_valid (v4_mr s) \<longrightarrow> \<not> m_valid (v4_xm s)) \<and>
     (m_valid (v4_xm s) \<or> mr_valid (v4_mr s) \<longrightarrow> \<not> (r_valid r \<and> r_cpu_control_write r)) \<and>
     (r_valid r \<longrightarrow> r_commit_pc r = v4_regs s 15 \<and> r_commit r = (\<not> r_trap r \<and> \<not> r_halt r \<and> \<not> r_lockup r)) \<and>
     (r_valid r \<and> \<not> r_commit r \<longrightarrow> \<not> de_valid (v4_de s) \<and> \<not> m_valid (v4_xm s) \<and> \<not> mr_valid (v4_mr s)) \<and>
     (m_valid (v4_xm s) \<longrightarrow> m_fault_pc (v4_xm s) = m_commit_pc (v4_xm s)))"

definition v4_ordered :: "core_config \<Rightarrow> v4_core \<Rightarrow> bool" where
  "v4_ordered cfg s \<longleftrightarrow> latches_ok s \<and>
     (v4_reset_pending s \<or> v4_stopped s \<or> vector_active (v4_vec s) \<longrightarrow> pipeline_empty s) \<and>
     (v4_reset_pending s \<longrightarrow> v4_fetch_pc s = v4_regs s 15) \<and>
     (\<not> v4_stopped s \<and> \<not> vector_active (v4_vec s) \<and> \<not> fault_pending (v4_flt s) \<longrightarrow> chain_ok cfg s)"

section \<open>One cycle\<close>

lemma front_tick:
  assumes "v4_plain cfg i s"
  shows "front_pc (v4_tick cfg i s) =
     (if v4_mispredict cfg s then o_next_pc (v4_out cfg s)
      else if v4_redirect s then mr_next_pc (v4_mr s)
      else if v4_flush_younger cfg s then v4_fetch_pc s
      else if v4_decode_advance cfg s
      then (if v4_predict_redirect cfg s then v4_predicted_next_pc cfg s else v4_fetch_pc s)
      else front_pc s)"
proof -
  note fd = fd_tick [OF assms] and pc = fetch_pc_tick [OF assms]
  have mp: "v4_mispredict cfg s \<Longrightarrow> v4_flush_younger cfg s" "v4_mispredict cfg s \<Longrightarrow> \<not> v4_redirect s"
    using flush_facts(1) by blast+
  note acc = accept_facts [of cfg i s] and adv = advance_facts [of cfg s]
  consider (mp) "v4_mispredict cfg s" | (rd) "\<not> v4_mispredict cfg s" "v4_redirect s"
    | (fl) "\<not> v4_mispredict cfg s" "\<not> v4_redirect s" "v4_flush_younger cfg s"
    | (pr) "\<not> v4_flush_younger cfg s" "\<not> v4_redirect s" "v4_predict_redirect cfg s" "v4_decode_advance cfg s"
    | (da) "\<not> v4_flush_younger cfg s" "\<not> v4_redirect s" "\<not> v4_predict_redirect cfg s" "v4_decode_advance cfg s"
    | (st) "\<not> v4_flush_younger cfg s" "\<not> v4_redirect s" "\<not> v4_predict_redirect cfg s" "\<not> v4_decode_advance cfg s"
    using flush_facts(3) by blast
  then show ?thesis
  proof cases
    case mp
    then show ?thesis using flush_facts(1) [OF mp] by (simp add: front_pc_def fd pc v4_steers_def)
  next
    case rd
    then show ?thesis using acc(2) by (simp add: front_pc_def fd pc v4_steers_def) blast
  next
    case fl
    then have "\<not> fetch_accept cfg i s" "\<not> v4_predict_redirect cfg s" using acc(1) flush_facts(3) adv(2) by blast+
    then show ?thesis using fl by (simp add: front_pc_def fd pc v4_steers_def)
  next
    case pr
    then have "\<not> fetch_accept cfg i s" "\<not> v4_mispredict cfg s" using acc(3) mp(1) by blast+
    then show ?thesis using pr by (simp add: front_pc_def fd pc v4_steers_def)
  next
    case da
    then have "\<not> v4_mispredict cfg s" using mp(1) by blast
    then show ?thesis using da by (simp add: front_pc_def fd pc v4_steers_def fd_fetched_def)
  next
    case st
    then have "\<not> v4_mispredict cfg s" using mp(1) by blast
    then show ?thesis using st acc(4) by (auto simp: front_pc_def fd pc v4_steers_def fd_fetched_def)
  qed
qed

lemma sregs_tick:
  "v4_sregs (v4_tick cfg i s) = sr_tick cfg (v4_user s) (v4_strobes cfg i s) (v4_special_port cfg s) (v4_irq_set cfg i s) (v4_sregs s)"
  by (simp add: v4_tick_def v4_units_def Let_def)

lemma sr_tick_quiet:
  assumes "\<not> write_stb p" and "core_cpu_control c = None" and "core_interrupt_epc c = None"
  shows "cpu_control (sr_tick cfg u c p q r) = cpu_control r" "interrupt_epc (sr_tick cfg u c p q r) = interrupt_epc r"
  using assms by (simp_all add: sr_tick_def Let_def upd_if_def split: option.split)

lemma plain_strobes:
  assumes "v4_plain cfg i s" and "\<not> (r_valid (v4_retire s) \<and> r_cpu_control_write (v4_retire s))"
  shows "core_cpu_control (v4_strobes cfg i s) = None" "core_interrupt_epc (v4_strobes cfg i s) = None"
  using assms
  by (auto simp: v4_strobes_def v4_plain_def v4_calm_def retire_stage_def port_def vector_done_def vector_response_valid_def Let_def)

lemma front_valid: "fd_valid (v4_fd s) \<Longrightarrow> front_pc s = fd_pc (v4_fd s)"
  by (simp add: front_pc_def)

text \<open>Execution slot: it waits, or its instruction leaves.\<close>

lemma execute_stays:
  assumes "v4_plain cfg i s" and "\<not> v4_leaves cfg s" and "\<not> v4_redirect s"
  shows "execute_pc (v4_tick cfg i s) = execute_pc s"
proof (cases "de_valid (v4_de s)")
  case True
  then have "\<not> v4_decode_advance cfg s" using advance_facts(4) assms(2) by blast
  then show ?thesis using True assms(2,3) by (simp add: execute_pc_def de_tick [OF assms(1)])
next
  case False
  then have "\<not> v4_mispredict cfg s" "\<not> v4_flush_younger cfg s" using flush_facts(1,2) by blast+
  then show ?thesis using False assms(3) advance_facts(1) [of cfg s]
    by (simp add: execute_pc_def de_tick [OF assms(1)] front_tick [OF assms(1)] de_from_fd_def front_valid Let_def)
qed

lemma predict_facts:
  assumes "fd_ok s" and "fd_valid (v4_fd s)" and "v4_decode_advance cfg s" and "\<not> v4_predict_redirect cfg s"
  shows "v4_predicted_next_pc cfg s = v4_fetch_pc s"
proof -
  have "\<not> predict_redirect (v4_decode cfg s)" using assms(2-4) by (simp add: v4_predict_redirect_def)
  moreover have "predicted_next_pc w pc = pc + 2" if "\<not> is_branch w" for w pc
    using that by (simp add: predicted_next_pc_def is_branch_def Let_def)
  moreover have "fd_post_increment_pc (v4_fd s) = v4_fetch_pc s" "fd_pc (v4_fd s) + 2 = v4_fetch_pc s"
    using assms(1,2) unfolding fd_ok_def by (blast, metis)
  ultimately show ?thesis
    by (auto simp: predict_redirect_def v4_decode_def wire_decode_def v4_predicted_next_pc_def)
qed

text \<open>Behind a new instruction in the slot comes the predicted one.\<close>

lemma advance_front:
  assumes "v4_plain cfg i s" and "fd_ok s" and "v4_decode_advance cfg s"
  shows "front_pc (v4_tick cfg i s) = v4_predicted_next_pc cfg s"
  using advance_facts [OF assms(3)] flush_facts(1) [of cfg s] predict_facts [OF assms(2) _ assms(3)]
  by (auto simp: front_tick [OF assms(1)] assms(3))

lemma execute_leaves:
  assumes "v4_plain cfg i s" and "v4_leaves cfg s" and "slot_ok cfg s"
    and "\<not> o_trap (v4_out cfg s)" and "\<not> o_halt (v4_out cfg s)"
  shows "execute_pc (v4_tick cfg i s) = o_next_pc (v4_out cfg s)"
proof -
  note L = leaves_facts(1,3) [OF assms(2)]
  have nl: "\<not> o_lockup (v4_out cfg s)" using v4_out_fields(4) [OF L(1)] .
  have fl: "v4_flush_younger cfg s = v4_mispredict cfg s"
    using assms(4,5) nl L(1) by (simp add: v4_flush_younger_def Let_def)
  have mp: "v4_mispredict cfg s = (o_next_pc (v4_out cfg s) \<noteq> de_predicted_next_pc (v4_de s))"
    using assms(4,5) nl L by (simp add: v4_mispredict_def Let_def)
  show ?thesis
  proof (cases "v4_mispredict cfg s")
    case True
    then have "\<not> v4_decode_advance cfg s" using advance_facts(2) fl by blast
    then show ?thesis using True assms(2) L(1)
      by (simp add: execute_pc_def de_tick [OF assms(1)] front_tick [OF assms(1)])
  next
    case False
    then have "front_pc s = o_next_pc (v4_out cfg s)" using assms(3-5) mp L(1) by (auto simp: slot_ok_def Let_def)
    then show ?thesis using False fl L assms(2) advance_facts(1) [of cfg s] front_valid [of s]
      by (auto simp: execute_pc_def de_tick [OF assms(1)] front_tick [OF assms(1)] de_from_fd_def Let_def)
  qed
qed

lemma fd_ok_tick:
  assumes "v4_plain cfg i s" and "fd_ok s"
  shows "fd_ok (v4_tick cfg i s)"
proof (cases "fetch_accept cfg i s")
  case True
  note A = accept_facts [OF True]
  have "\<not> v4_mispredict cfg s" using A(1) flush_facts(1) by blast
  then show ?thesis using A True
    by (simp add: fd_ok_def fd_tick [OF assms(1)] fetch_pc_tick [OF assms(1)] v4_steers_def fd_fetched_def)
next
  case False
  show ?thesis
  proof (cases "v4_flush_younger cfg s \<or> v4_decode_advance cfg s \<or> v4_redirect s")
    case True
    then show ?thesis using False by (auto simp: fd_ok_def fd_tick [OF assms(1)])
  next
    case no: False
    then have "v4_steers cfg i s = None" using False flush_facts [of cfg s] by (auto simp: v4_steers_def)
    then have "v4_fetch_pc (v4_tick cfg i s) = v4_fetch_pc s" "v4_fd (v4_tick cfg i s) = v4_fd s"
      using no False by (simp_all add: fd_tick [OF assms(1)] fetch_pc_tick [OF assms(1)])
    with assms(2) show ?thesis by (simp only: fd_ok_def)
  qed
qed

text \<open>An instruction that waits steers fetching as before, unless it now traps.\<close>

lemma waits_for_memory:
  "de_valid (v4_de s) \<Longrightarrow> \<not> v4_leaves cfg s \<Longrightarrow> \<not> v4_redirect s \<Longrightarrow> \<not> o_memory_start (v4_out cfg s) \<Longrightarrow>
     m_valid (v4_xm s) \<or> mr_valid (v4_mr s)"
  by (auto simp: v4_leaves_def v4_to_retire_def v4_redirect_def execute_to_retire_def v4_dispatch_def)

lemma waiting_effect:
  assumes "v4_plain cfg i s" and "latches_ok s" and "de_valid (v4_de s)" and "\<not> v4_leaves cfg s" and "\<not> v4_redirect s"
    and de: "v4_de (v4_tick cfg i s) = v4_de s"
  shows "(o_trap (v4_out cfg s) \<longrightarrow> o_trap (v4_out cfg (v4_tick cfg i s))) \<and>
     (o_halt (v4_out cfg s) \<longrightarrow> o_halt (v4_out cfg (v4_tick cfg i s))) \<and>
     (o_trap (v4_out cfg (v4_tick cfg i s)) \<or> o_next_pc (v4_out cfg (v4_tick cfg i s)) = o_next_pc (v4_out cfg s))"
proof -
  let ?s = "v4_tick cfg i s"
  have nr: "\<not> v4_to_retire cfg s" using assms(4) by (simp add: v4_leaves_def)
  have nw: "\<not> sr_write_access_fault (v4_user s) (v4_special_port cfg s)" "\<not> write_stb (v4_special_port cfg s)"
    using stalled_no_write_fault [OF nr] nr by (simp_all add: special_port_to_retire)
  have si: "same_instruction (v4_x cfg s) (v4_x cfg ?s)" by (simp add: same_instruction_def de)
  have "is_mem (v4_effect cfg s) \<or> same_mode (v4_x cfg s) (v4_x cfg ?s)"
  proof (cases "is_mem (v4_effect cfg s)")
    case False
    then have "m_valid (v4_xm s) \<or> mr_valid (v4_mr s)"
      using waits_for_memory [OF assms(3-5)] v4_out_fields(5) [OF assms(3)] by simp
    then have "\<not> (r_valid (v4_retire s) \<and> r_cpu_control_write (v4_retire s))"
      using assms(2) by (auto simp: latches_ok_def Let_def)
    note q = sr_tick_quiet [OF nw(2) plain_strobes [OF assms(1) this]]
    show ?thesis by (simp add: same_mode_def x_user_def v4_user_def sregs_tick q de)
  qed simp
  from effect_later [OF si _ this] nw(1)
  show ?thesis using v4_out_fields [OF assms(3)] v4_out_fields [of ?s] assms(3) by (simp add: de)
qed

lemma slot_tick:
  assumes "v4_plain cfg i s" and "latches_ok s" and "slot_ok cfg s" and "fd_ok s"
  shows "slot_ok cfg (v4_tick cfg i s)"
proof -
  let ?s = "v4_tick cfg i s"
  consider (adv) "v4_decode_advance cfg s" | (gone) "\<not> v4_decode_advance cfg s" "\<not> de_valid (v4_de ?s)"
    | (wait) "\<not> v4_decode_advance cfg s" "de_valid (v4_de s)" "\<not> v4_leaves cfg s" "\<not> v4_redirect s" "v4_de ?s = v4_de s"
    using de_tick [OF assms(1)] by (auto split: if_splits)
  then show ?thesis
  proof cases
    case adv
    then show ?thesis using advance_front [OF assms(1,4) adv]
      by (simp add: slot_ok_def de_tick [OF assms(1)] de_from_fd_def Let_def)
  next
    case gone
    then show ?thesis by (simp add: slot_ok_def Let_def)
  next
    case wait
    note W = waiting_effect [OF assms(1,2) wait(2-5)]
    have nl: "\<not> o_lockup (v4_out cfg s)" using v4_out_fields(4) [OF wait(2)] .
    show ?thesis
    proof (cases "o_trap (v4_out cfg s) \<or> o_halt (v4_out cfg s)")
      case True
      then show ?thesis using W by (auto simp: slot_ok_def Let_def)
    next
      case False
      then have mp: "v4_mispredict cfg s = (o_next_pc (v4_out cfg s) \<noteq> de_predicted_next_pc (v4_de s))"
        "v4_flush_younger cfg s = v4_mispredict cfg s"
        using nl wait(2,4) by (simp_all add: v4_mispredict_def v4_flush_younger_def Let_def)
      then have "front_pc ?s = o_next_pc (v4_out cfg s)" 
        using assms(3) False wait by (auto simp: front_tick [OF assms(1)] slot_ok_def Let_def)
      then show ?thesis using W wait(2,5) by (auto simp: slot_ok_def Let_def)
    qed
  qed
qed

section \<open>Memory, result and retire latches\<close>

lemma memory_exclusive:
  "memory_to_retire cfg i s \<Longrightarrow> m_valid (v4_xm s) \<and> \<not> m_chain_store (v4_xm s)"
  "memory_chain_continue cfg i s \<Longrightarrow> m_valid (v4_xm s) \<and> m_chain_store (v4_xm s)"
  by (auto simp: memory_to_retire_def memory_chain_continue_def ms_final_response_def ms_chain_continue_def v4_stage_xm_def)

lemma plain_no_error: "v4_plain cfg i s \<Longrightarrow> \<not> memory_error cfg i s"
  by (simp add: v4_plain_def v4_calm_def v4_failing_def v4_bus_failed_def)

lemma xm_next:
  assumes "v4_plain cfg i s" and "latches_ok s"
  shows "m_valid (v4_xm (v4_tick cfg i s)) = (v4_to_memory cfg s \<or> m_valid (v4_xm s) \<and> \<not> memory_to_retire cfg i s)"
    and "v4_to_memory cfg s \<Longrightarrow> m_next_pc (v4_xm (v4_tick cfg i s)) = o_memory_next_pc (v4_out cfg s) \<and>
       m_commit_pc (v4_xm (v4_tick cfg i s)) = de_pc (v4_de s) \<and> m_fault_pc (v4_xm (v4_tick cfg i s)) = de_pc (v4_de s)"
    and "m_valid (v4_xm s) \<Longrightarrow> \<not> memory_to_retire cfg i s \<Longrightarrow> m_next_pc (v4_xm (v4_tick cfg i s)) = m_next_pc (v4_xm s) \<and>
       m_commit_pc (v4_xm (v4_tick cfg i s)) = m_commit_pc (v4_xm s) \<and> m_fault_pc (v4_xm (v4_tick cfg i s)) = m_fault_pc (v4_xm s)"
proof -
  note S = xm_same_fields [OF xm_tick [OF assms(1)]]
  have e: "\<not> memory_error cfg i s" using plain_no_error [OF assms(1)] .
  have x: "v4_redirect s \<Longrightarrow> \<not> m_valid (v4_xm s)"
    using assms(2) by (auto simp: v4_redirect_def memory_redirect_def latches_ok_def Let_def)
  have tm: "v4_to_memory cfg s \<Longrightarrow> \<not> m_valid (v4_xm s) \<and> \<not> v4_redirect s"
    using leaves_facts(2,3) [of cfg s] by (auto simp: v4_leaves_def)
  note M = memory_exclusive [of cfg i s]
  have "m_valid (xm_moved cfg i s) = (v4_to_memory cfg s \<or> m_valid (v4_xm s) \<and> \<not> memory_to_retire cfg i s)"
    using e x tm M by (auto simp: xm_moved_def xm_chain_def xm_issue_def xm_cleared_def Let_def)
  then show "m_valid (v4_xm (v4_tick cfg i s)) = (v4_to_memory cfg s \<or> m_valid (v4_xm s) \<and> \<not> memory_to_retire cfg i s)"
    using S by simp
  show "v4_to_memory cfg s \<Longrightarrow> m_next_pc (v4_xm (v4_tick cfg i s)) = o_memory_next_pc (v4_out cfg s) \<and>
       m_commit_pc (v4_xm (v4_tick cfg i s)) = de_pc (v4_de s) \<and> m_fault_pc (v4_xm (v4_tick cfg i s)) = de_pc (v4_de s)"
    using S e tm M by (auto simp: xm_moved_def xm_issue_def Let_def)
  show "m_valid (v4_xm s) \<Longrightarrow> \<not> memory_to_retire cfg i s \<Longrightarrow> m_next_pc (v4_xm (v4_tick cfg i s)) = m_next_pc (v4_xm s) \<and>
       m_commit_pc (v4_xm (v4_tick cfg i s)) = m_commit_pc (v4_xm s) \<and> m_fault_pc (v4_xm (v4_tick cfg i s)) = m_fault_pc (v4_xm s)"
    using S e x tm by (auto simp: xm_moved_def xm_chain_def Let_def)
qed

lemma mr_next:
  assumes "v4_plain cfg i s"
  shows "mr_valid (v4_mr (v4_tick cfg i s)) = memory_to_retire cfg i s"
    and "memory_to_retire cfg i s \<Longrightarrow> mr_commit_pc (v4_mr (v4_tick cfg i s)) = m_commit_pc (v4_xm s) \<and>
       mr_commit_next_pc (v4_mr (v4_tick cfg i s)) = m_next_pc (v4_xm s)"
  by (simp_all add: mr_tick [OF assms] mr_from_result_def)

lemma retire_next:
  assumes "v4_plain cfg i s"
  shows "r_valid (v4_retire (v4_tick cfg i s)) =
       (v4_to_storebuf cfg s \<or> v4_to_storebuf_load cfg s \<or> v4_to_retire cfg s \<or> mr_valid (v4_mr s))"
    and "v4_to_storebuf cfg s \<or> v4_to_storebuf_load cfg s \<Longrightarrow>
       (let r = v4_retire (v4_tick cfg i s) in r_commit_pc r = de_pc (v4_de s) \<and> r_next_pc r = o_memory_next_pc (v4_out cfg s) \<and>
          r_commit r \<and> \<not> r_trap r \<and> \<not> r_halt r \<and> \<not> r_lockup r \<and> \<not> r_cpu_control_write r)"
    and "v4_to_retire cfg s \<Longrightarrow>
       (let r = v4_retire (v4_tick cfg i s); e = v4_out cfg s in
          r_commit_pc r = de_pc (v4_de s) \<and> r_next_pc r = o_next_pc e \<and>
          r_trap r = o_trap e \<and> r_halt r = o_halt e \<and> r_lockup r = o_lockup e \<and>
          r_commit r = (\<not> o_halt e \<and> \<not> o_lockup e \<and> \<not> o_trap e))"
    and "mr_valid (v4_mr s) \<Longrightarrow>
       (let r = v4_retire (v4_tick cfg i s) in r_commit_pc r = mr_commit_pc (v4_mr s) \<and> r_next_pc r = mr_next_pc (v4_mr s) \<and>
          r_commit r \<and> \<not> r_trap r \<and> \<not> r_halt r \<and> \<not> r_lockup r \<and> \<not> r_cpu_control_write r)"
  using leaves_kind(2) [of cfg s] leaves_facts(4) [of cfg s] leaves_kind(3) [of cfg s]
  by (auto simp: retire_tick [OF assms] Let_def retire_from_storebuf_def retire_from_storebuf_load_def retire_from_execute_def
      retire_from_mr_def retire_cleared_def v4_leaves_def)

section \<open>The invariant\<close>

lemma plain_not_pending: "v4_plain cfg i s \<Longrightarrow> \<not> fault_pending (v4_flt s)"
  by (auto simp: v4_plain_def v4_calm_def v4_failing_def entry_start_def trap_start_def)

lemma fault_tick:
  "\<not> entry_start cfg i s \<Longrightarrow> fault_pending (v4_flt (v4_tick cfg i s)) = trap_request_next s"
  by (simp add: v4_tick_def v4_units_def Let_def v4_fault_next_def split: prod.split)

lemma retire_regs_15:
  "\<not> r_valid r \<Longrightarrow> retire_regs r rs 15 = rs 15"
  "r_valid r \<Longrightarrow> r_commit r \<Longrightarrow> retire_regs r rs 15 = r_next_pc r"
  by (simp_all add: retire_regs_def retire_stage_def port_def write_port_def Let_def)

text \<open>After a cycle without a trap, R15 holds the address of the oldest instruction not yet in the retire latch.\<close>

lemma regs_15_tick:
  assumes "v4_plain cfg i s" and "latches_ok s" and "chain_ok cfg s" and "\<not> trap_request_next s"
  shows "v4_regs (v4_tick cfg i s) 15 = result_pc s"
proof -
  let ?r = "v4_retire s"
  have "r_valid ?r \<Longrightarrow> r_commit ?r"
    using assms(1,2,4)
    by (auto simp: latches_ok_def trap_request_next_def retire_stage_def port_def v4_plain_def v4_calm_def v4_stop_request_def Let_def)
  then show ?thesis using assms(3)
    by (cases "r_valid ?r") (simp_all add: regs_tick [OF assms(1)] retire_regs_15 chain_ok_def Let_def)
qed

lemma result_stays:
  assumes "v4_plain cfg i s" and "latches_ok s" and "\<not> r_valid (v4_retire (v4_tick cfg i s))"
  shows "result_pc (v4_tick cfg i s) = result_pc s"
proof -
  note R = retire_next(1) [OF assms(1)] and X = xm_next [OF assms(1,2)] and F = mr_next [OF assms(1)]
  have n: "\<not> mr_valid (v4_mr s)" "v4_leaves cfg s = v4_to_memory cfg s"
    using assms(3) R by (auto simp: v4_leaves_def)
  then have rd: "\<not> v4_redirect s" by (simp add: v4_redirect_def memory_redirect_def)
  have r: "result_pc s = memory_pc s" using n by (simp add: result_pc_def)
  show ?thesis
  proof (cases "memory_to_retire cfg i s")
    case True
    then show ?thesis using F memory_exclusive(1) [OF True] unfolding r by (simp add: result_pc_def memory_pc_def)
  next
    case False
    have r': "result_pc (v4_tick cfg i s) = memory_pc (v4_tick cfg i s)" using F False by (simp add: result_pc_def)
    consider "v4_to_memory cfg s" | "\<not> v4_to_memory cfg s" "m_valid (v4_xm s)" | "\<not> v4_to_memory cfg s" "\<not> m_valid (v4_xm s)" by blast
    then show ?thesis
    proof cases
      case 1
      then show ?thesis using X(1,2) leaves_facts(1,2) [of cfg s] n(2) unfolding r r' by (simp add: memory_pc_def execute_pc_def)
    next
      case 2
      then show ?thesis using X(1,3) False unfolding r r' by (simp add: memory_pc_def)
    next
      case 3
      then show ?thesis using X(1) execute_stays [OF assms(1) _ rd] n(2) unfolding r r' by (simp add: memory_pc_def)
    qed
  qed
qed

text \<open>What a committing instruction leaves behind it.\<close>

lemma result_leaves:
  assumes "v4_plain cfg i s" and "latches_ok s" and "chain_ok cfg s"
    and "r_valid (v4_retire (v4_tick cfg i s))" and "r_commit (v4_retire (v4_tick cfg i s))"
  shows "r_next_pc (v4_retire (v4_tick cfg i s)) = result_pc (v4_tick cfg i s)"
proof -
  note R = retire_next [OF assms(1)] and X = xm_next [OF assms(1,2)] and F = mr_next [OF assms(1)]
  have slot: "slot_ok cfg s" using assms(3) by (simp add: chain_ok_def Let_def)
  have gone: "r_next_pc (v4_retire (v4_tick cfg i s)) = result_pc (v4_tick cfg i s)"
    if l: "v4_leaves cfg s" "\<not> v4_to_memory cfg s" and t: "\<not> o_trap (v4_out cfg s)" "\<not> o_halt (v4_out cfg s)"
      and n: "r_next_pc (v4_retire (v4_tick cfg i s)) = o_next_pc (v4_out cfg s)"
  proof -
    have "\<not> memory_to_retire cfg i s" using memory_exclusive(1) leaves_facts(2) [OF l(1)] by blast
    then show ?thesis using execute_leaves [OF assms(1) l(1) slot t] n l(2) X(1) F(1) leaves_facts(2) [OF l(1)]
      by (simp add: result_pc_def memory_pc_def)
  qed
  from assms(4) R(1) consider (sb) "v4_to_storebuf cfg s \<or> v4_to_storebuf_load cfg s" | (ex) "v4_to_retire cfg s"
    | (mr) "mr_valid (v4_mr s)" by blast
  then show ?thesis
  proof cases
    case sb
    have l: "v4_leaves cfg s" "\<not> v4_to_memory cfg s" using sb leaves_kind(3) [of cfg s] by (auto simp: v4_leaves_def)
    have m: "is_mem (v4_effect cfg s)"
      using leaves_kind(2) [of cfg s] sb v4_out_fields(5) [OF leaves_facts(1) [OF l(1)]] by auto
    note O = v4_out_fields [OF leaves_facts(1) [OF l(1)], of cfg]
    have "\<not> o_trap (v4_out cfg s)" "\<not> o_halt (v4_out cfg s)" using m O(2,3) by (cases "v4_effect cfg s"; simp)+
    then show ?thesis using gone [OF l] R(2) [OF sb] O(6,7) [OF m] by (simp add: Let_def)
  next
    case ex
    have l: "v4_leaves cfg s" "\<not> v4_to_memory cfg s" using ex leaves_kind(2) [of cfg s] by (auto simp: v4_leaves_def)
    show ?thesis using gone [OF l] R(3) [OF ex] assms(5) by (simp add: Let_def)
  next
    case mr
    have nm: "\<not> m_valid (v4_xm s)" using mr assms(2) by (simp add: latches_ok_def Let_def)
    then have n: "\<not> memory_to_retire cfg i s" using memory_exclusive(1) by blast
    have r: "result_pc (v4_tick cfg i s) = memory_pc (v4_tick cfg i s)" using F n by (simp add: result_pc_def)
    show ?thesis
    proof (cases "v4_redirect s")
      case True
      then have "\<not> v4_to_memory cfg s" "\<not> v4_decode_advance cfg s" "\<not> v4_mispredict cfg s"
        using leaves_facts(3) [of cfg s] advance_facts(3) [of cfg s] flush_facts(1) [of cfg s] by (auto simp: v4_leaves_def)
      then show ?thesis using True nm X(1) R(4) [OF mr] unfolding r
        by (simp add: memory_pc_def execute_pc_def de_tick [OF assms(1)] front_tick [OF assms(1)] Let_def)
    next
      case False
      then have next': "r_next_pc (v4_retire (v4_tick cfg i s)) = execute_pc s"
        using R(4) [OF mr] assms(3) mr nm
        by (simp add: v4_redirect_def memory_redirect_def chain_ok_def memory_pc_def Let_def)
      have l: "v4_leaves cfg s = v4_to_memory cfg s" using leaves_facts(4) [of cfg s] mr by (auto simp: v4_leaves_def)
      show ?thesis
      proof (cases "v4_to_memory cfg s")
        case True
        then show ?thesis using X(1,2) next' leaves_facts(1) [of cfg s] l unfolding r by (simp add: memory_pc_def execute_pc_def)
      next
        case no: False
        then show ?thesis using X(1) nm next' execute_stays [OF assms(1) _ False] l unfolding r by (simp add: memory_pc_def)
      qed
    qed
  qed
qed

lemma chain_tick:
  assumes "v4_plain cfg i s" and "latches_ok s" and "chain_ok cfg s" and "\<not> trap_request_next s"
  shows "chain_ok cfg (v4_tick cfg i s)"
proof -
  let ?s = "v4_tick cfg i s"
  note X = xm_next [OF assms(1,2)] and F = mr_next [OF assms(1)]
  have c: "slot_ok cfg s" "fd_ok s" "m_valid (v4_xm s) \<Longrightarrow> m_next_pc (v4_xm s) = execute_pc s"
    using assms(3) by (simp_all add: chain_ok_def Let_def)
  have busy: "\<not> v4_leaves cfg s \<and> \<not> v4_redirect s" if "m_valid (v4_xm s)"
    using that leaves_facts(2) assms(2) by (auto simp: latches_ok_def v4_redirect_def memory_redirect_def Let_def)
  have "mr_commit_next_pc (v4_mr ?s) = memory_pc ?s" if "mr_valid (v4_mr ?s)"
  proof -
    have m: "memory_to_retire cfg i s" using that F(1) by simp
    note v = memory_exclusive(1) [OF m]
    have "\<not> v4_to_memory cfg s" using busy v by (auto simp: v4_leaves_def)
    then show ?thesis using F(2) [OF m] v c(3) X(1) m execute_stays [OF assms(1)] busy by (simp add: memory_pc_def)
  qed
  moreover have "m_next_pc (v4_xm ?s) = execute_pc ?s" if "m_valid (v4_xm ?s)"
  proof (cases "v4_to_memory cfg s")
    case True
    then have l: "v4_leaves cfg s" by (simp add: v4_leaves_def)
    note O = v4_out_fields [OF leaves_facts(1) [OF l], of cfg]
    have m: "is_mem (v4_effect cfg s)" using leaves_kind(2) [of cfg s] True O(5) by simp
    have "\<not> o_trap (v4_out cfg s)" "\<not> o_halt (v4_out cfg s)" using m O(2,3) by (cases "v4_effect cfg s"; simp)+
    from execute_leaves [OF assms(1) l c(1) this] show ?thesis using X(2) [OF True] O(6,7) [OF m] by simp
  next
    case False
    then have "m_valid (v4_xm s)" "\<not> memory_to_retire cfg i s" using that X(1) by simp_all
    then show ?thesis using X(3) c(3) execute_stays [OF assms(1)] busy by simp
  qed
  ultimately show ?thesis
    using result_stays [OF assms(1,2)] regs_15_tick [OF assms] result_leaves [OF assms(1-3)]
      slot_tick [OF assms(1,2) c(1,2)] fd_ok_tick [OF assms(1) c(2)]
    by (simp add: chain_ok_def Let_def)
qed

lemma latches_tick:
  assumes "v4_plain cfg i s" and "latches_ok s" and "chain_ok cfg s"
  shows "latches_ok (v4_tick cfg i s)"
proof -
  let ?s = "v4_tick cfg i s" and ?r = "v4_retire (v4_tick cfg i s)"
  note X = xm_next [OF assms(1,2)] and F = mr_next [OF assms(1)] and R = retire_next [OF assms(1)]
  have TM: "v4_to_memory cfg s \<Longrightarrow> \<not> m_valid (v4_xm s) \<and> \<not> v4_to_retire cfg s \<and> de_valid (v4_de s)"
    using leaves_facts(1,2) [of cfg s] leaves_kind(2) [of cfg s] by (auto simp: v4_leaves_def)
  have TR: "v4_to_retire cfg s \<or> v4_to_storebuf cfg s \<or> v4_to_storebuf_load cfg s \<Longrightarrow>
      \<not> m_valid (v4_xm s) \<and> \<not> mr_valid (v4_mr s) \<and> \<not> v4_to_memory cfg s \<and> de_valid (v4_de s)"
    using leaves_facts [of cfg s] leaves_kind(2,3) [of cfg s] by (auto simp: v4_leaves_def)
  have busy: "\<not> r_cpu_control_write ?r" if "m_valid (v4_xm ?s) \<or> mr_valid (v4_mr ?s)" "r_valid ?r"
  proof -
    have "\<not> v4_to_retire cfg s" using that(1) X(1) F(1) TM TR memory_exclusive(1) [of cfg i s] by auto
    then show ?thesis using that(2) R(1,2,4) by (auto simp: Let_def)
  qed
  have commit: "r_commit_pc ?r = v4_regs ?s 15 \<and> r_commit ?r = (\<not> r_trap ?r \<and> \<not> r_halt ?r \<and> \<not> r_lockup ?r)"
    if "r_valid ?r"
  proof -
    have nt: "\<not> (r_valid (v4_retire s) \<and> \<not> r_commit (v4_retire s))"
      using that R(1) TR assms(2) by (auto simp: latches_ok_def Let_def)
    then have "v4_regs ?s 15 = result_pc s"
      using assms(3) by (cases "r_valid (v4_retire s)") (simp_all add: regs_tick [OF assms(1)] retire_regs_15 chain_ok_def Let_def)
    moreover from that R(1) consider "v4_to_storebuf cfg s \<or> v4_to_storebuf_load cfg s" | "v4_to_retire cfg s"
      | "mr_valid (v4_mr s)" by blast
    then have "r_commit_pc ?r = result_pc s \<and> r_commit ?r = (\<not> r_trap ?r \<and> \<not> r_halt ?r \<and> \<not> r_lockup ?r)"
    proof cases
      case 1
      then show ?thesis using R(2) [OF 1] TR by (simp add: result_pc_def memory_pc_def execute_pc_def Let_def)
    next
      case 2
      then show ?thesis using R(3) [OF 2] TR by (auto simp: result_pc_def memory_pc_def execute_pc_def Let_def)
    next
      case 3
      then show ?thesis using R(4) [OF 3] by (simp add: result_pc_def Let_def)
    qed
    ultimately show ?thesis by simp
  qed
  have drained: "\<not> de_valid (v4_de ?s) \<and> \<not> m_valid (v4_xm ?s) \<and> \<not> mr_valid (v4_mr ?s)" if "r_valid ?r" "\<not> r_commit ?r"
  proof -
    have t: "v4_to_retire cfg s" using that R(1,2,4) by (auto simp: Let_def)
    then have "o_trap (v4_out cfg s) \<or> o_halt (v4_out cfg s) \<or> o_lockup (v4_out cfg s)"
      using that(2) R(3) by (auto simp: Let_def)
    then have "v4_flush_younger cfg s" using TR t by (auto simp: v4_flush_younger_def Let_def)
    then have "\<not> v4_decode_advance cfg s" using advance_facts(2) by blast
    then show ?thesis using t TR X(1) F(1) memory_exclusive(1) [of cfg i s]
      by (auto simp: de_tick [OF assms(1)] v4_leaves_def)
  qed
  have "\<not> m_valid (v4_xm ?s)" if "mr_valid (v4_mr ?s)"
    using that F(1) X(1) TM memory_exclusive(1) [of cfg i s] by auto
  moreover have "m_fault_pc (v4_xm ?s) = m_commit_pc (v4_xm ?s)" if "m_valid (v4_xm ?s)"
  proof (cases "v4_to_memory cfg s")
    case False
    then have "m_valid (v4_xm s)" "\<not> memory_to_retire cfg i s" using that X(1) by simp_all
    then show ?thesis using X(3) assms(2) by (simp add: latches_ok_def Let_def)
  qed (use X(2) in simp)
  ultimately show ?thesis using busy commit drained unfolding latches_ok_def Let_def by blast
qed

section \<open>Cycles of an entry, and the end of the pipeline\<close>

lemma empty_latches: "pipeline_empty s \<Longrightarrow> latches_ok s"
  by (simp add: pipeline_empty_def latches_ok_def Let_def)

lemma empty_chain: "pipeline_empty s \<Longrightarrow> v4_fetch_pc s = v4_regs s 15 \<Longrightarrow> chain_ok cfg s"
  by (simp add: pipeline_empty_def chain_ok_def result_pc_def memory_pc_def execute_pc_def front_pc_def slot_ok_def fd_ok_def Let_def)

lemma empty_signals:
  assumes "pipeline_empty s"
  shows "\<not> v4_leaves cfg s" "\<not> v4_redirect s" "\<not> v4_decode_advance cfg s" "\<not> v4_flush_younger cfg s" "\<not> v4_mispredict cfg s"
    "\<not> memory_to_retire cfg i s" "\<not> memory_chain_continue cfg i s" "\<not> v4_predict_redirect cfg s"
  using assms leaves_facts(1) [of cfg s] advance_facts(1) [of cfg s] flush_facts [of cfg s]
    memory_exclusive [of cfg i s]
  by (auto simp: pipeline_empty_def v4_redirect_def memory_redirect_def)

lemma entry_moves_empty:
  assumes "pipeline_empty s" and "vector_active (v4_vec s)"
  shows "pipeline_empty (v4_moves cfg i s)"
proof -
  note E = empty_signals [OF assms(1)]
  have na: "\<not> fetch_accept cfg i s" using assms(2) by (simp add: fetch_accept_def)
  have x: "m_valid (xm_moved cfg i s) = False"
    using E assms(1) by (simp add: xm_moved_def v4_leaves_def pipeline_empty_def xm_cleared_def Let_def)
  have "m_valid (v4_xm (v4_moves cfg i s)) = False"
    using xm_same_fields [OF xm_translated] x unfolding v4_moves_def Let_def by (simp add: xm_memory_latch)
  then show ?thesis using assms(1) E na
    by (simp add: pipeline_empty_def v4_moves_def Let_def blk_fetch_latch_def blk_execute_latch_def v4_leaves_def
        blk_execute_retire_def blk_result_retire_def blk_memory_result_def blk_clear_retire_def retire_cleared_def)
qed

lemma vec_active_blocks:
  "vector_active (v4_vec (blk_requests cfg i s t)) = vector_active (v4_vec t)"
  "vector_active (v4_vec (blk_translated cfg s t)) = vector_active (v4_vec t)"
  "vector_active (v4_vec (blk_walk cfg i s t)) = vector_active (v4_vec t)"
  by (simp_all add: blk_requests_def blk_translated_def blk_walk_def stop_walk_def Let_def)

lemma vec_active_moves: "vector_active (v4_vec (v4_moves cfg i s)) = vector_active (v4_vec s)"
  by (simp add: v4_moves_def vec_active_blocks Let_def)

lemma empty_stopped: "pipeline_empty t \<Longrightarrow> pipeline_empty (blk_stopped s t)"
  by (rule stopped_empty) simp

lemma entry_cycle:
  assumes "v4_calm cfg i s" and "vector_active (v4_vec s)" and "pipeline_empty s"
  shows "pipeline_empty (v4_tick cfg i s)" and
    "vector_active (v4_vec (v4_tick cfg i s)) \<or>
     vector_done cfg i s \<and> v4_fetch_pc (v4_tick cfg i s) = vector_handler_pc cfg i s \<and>
       v4_regs (v4_tick cfg i s) 15 = vector_handler_pc cfg i s"
proof -
  note E = entry_moves_empty [OF assms(3,2), of cfg i]
  have "pipeline_empty (blk_vector_done cfg i s (v4_moves cfg i s))"
    using E by (simp add: blk_vector_done_def redirect_fetch_def pipeline_empty_def retire_cleared_def Let_def)
  then show "pipeline_empty (v4_tick cfg i s)" by (simp add: calm_tick [OF assms(1)] empty_stopped)
  show "vector_active (v4_vec (v4_tick cfg i s)) \<or>
     vector_done cfg i s \<and> v4_fetch_pc (v4_tick cfg i s) = vector_handler_pc cfg i s \<and>
       v4_regs (v4_tick cfg i s) 15 = vector_handler_pc cfg i s"
    using assms(2)
    by (simp add: calm_tick [OF assms(1)] stopped_calm_frame [OF assms(1)] blk_vector_done_def vec_active_moves
        redirect_fetch_def Let_def)
qed

lemma locked_lockups: "v4_locked_up (blk_lockups cfg i s t) = (v4_locked_up t \<or> v4_failing cfg i s)"
  by (auto simp: blk_lockups_def v4_failing_def v4_walk_error_def v4_response_error_def lock_up_def stop_walk_def drop_vector_def
      clear_pipeline_def Let_def)

lemma stopped_writeback:
  "v4_halted (blk_writeback cfg s t) = (v4_halted t \<or> halt_request (retire_stage (v4_retire s)))"
  "v4_locked_up (blk_writeback cfg s t) = (v4_locked_up t \<or> lockup_request (retire_stage (v4_retire s)))"
  by (simp_all add: blk_writeback_def lock_up_def Let_def split: option.split)

lemma stopped_tick:
  "\<not> v4_reset_pending s \<Longrightarrow> v4_stopped (v4_tick cfg i s) = (v4_stopped s \<or> v4_stop_request s \<or> v4_failing cfg i s)"
  by (auto simp: v4_stopped_def v4_tick_moves locked_lockups v4_moves_def stopped_writeback v4_stop_request_def Let_def)

lemma vec_entry: "entry_start cfg i s \<Longrightarrow> \<not> v4_failing cfg i s \<Longrightarrow> \<not> v4_reset_pending s \<Longrightarrow> vector_active (v4_vec (v4_tick cfg i s))"
  by (simp add: v4_tick_moves no_lockups blk_entry_def Let_def)

lemma not_calm_status:
  "\<not> v4_reset_pending s \<Longrightarrow> \<not> v4_calm cfg i s \<Longrightarrow> v4_stopped (v4_tick cfg i s) \<or> vector_active (v4_vec (v4_tick cfg i s))"
  using stopped_tick [of s cfg i] vec_entry [of cfg i s] by (auto simp: v4_calm_def)

lemma reset_tick:
  assumes "v4_reset_pending s"
  shows "pipeline_empty (v4_tick cfg i s) = pipeline_empty s" "v4_fetch_pc (v4_tick cfg i s) = v4_fetch_pc s"
    "v4_regs (v4_tick cfg i s) 15 = v4_regs s 15" "\<not> v4_reset_pending (v4_tick cfg i s)"
  using assms by (simp_all add: v4_tick_def v4_boot_def pipeline_empty_def)

lemma reset_pending_tick: "\<not> v4_reset_pending (v4_tick cfg i s)"
  by (simp add: v4_tick_def v4_boot_def v4_step_def Let_def)

theorem v4_ordered_tick:
  assumes "v4_ordered cfg s"
  shows "v4_ordered cfg (v4_tick cfg i s)"
proof -
  let ?s = "v4_tick cfg i s"
  have inv: "latches_ok s" "v4_reset_pending s \<or> v4_stopped s \<or> vector_active (v4_vec s) \<Longrightarrow> pipeline_empty s"
    "v4_reset_pending s \<Longrightarrow> v4_fetch_pc s = v4_regs s 15"
    "\<not> v4_stopped s \<Longrightarrow> \<not> vector_active (v4_vec s) \<Longrightarrow> \<not> fault_pending (v4_flt s) \<Longrightarrow> chain_ok cfg s"
    using assms by (simp_all add: v4_ordered_def)
  note pend = reset_pending_tick [of cfg i s]
  consider (reset) "v4_reset_pending s" | (busy) "\<not> v4_reset_pending s" "\<not> v4_calm cfg i s"
    | (entry) "v4_calm cfg i s" "vector_active (v4_vec s)" | (plain) "v4_plain cfg i s"
    by (auto simp: v4_plain_def)
  then show ?thesis
  proof cases
    case reset
    then have "pipeline_empty ?s" "v4_fetch_pc ?s = v4_regs ?s 15"
      using reset_tick [OF reset, of cfg i] inv(2,3) by simp_all
    then show ?thesis using empty_latches empty_chain by (simp add: v4_ordered_def pend)
  next
    case busy
    then show ?thesis using not_calm_empty [OF busy] not_calm_status [OF busy] empty_latches
      by (auto simp: v4_ordered_def pend)
  next
    case entry
    note e = entry_cycle [OF entry inv(2)]
    then show ?thesis using entry(2) empty_latches empty_chain by (auto simp: v4_ordered_def pend)
  next
    case plain
    have s: "\<not> v4_stopped s" "\<not> vector_active (v4_vec s)" using plain by (simp_all add: v4_plain_def v4_calm_def)
    note chain = inv(4) [OF s plain_not_pending [OF plain]]
    have "\<not> v4_stopped ?s"
      using plain by (simp add: stopped_tick v4_plain_def v4_calm_def)
    moreover have "\<not> vector_active (v4_vec ?s)"
      using plain s by (simp add: plain_tick calm_stopped [OF plain_calm [OF plain]] vec_active_moves)
    moreover have "chain_ok cfg ?s" if "\<not> fault_pending (v4_flt ?s)"
      using chain_tick [OF plain inv(1) chain] that fault_tick [of cfg i s] plain by (simp add: v4_plain_def v4_calm_def)
    ultimately show ?thesis using latches_tick [OF plain inv(1) chain] by (simp add: v4_ordered_def pend)
  qed
qed

lemma v4_ordered_reset: "v4_ordered cfg (v4_reset cfg)"
proof -
  have "pipeline_empty (v4_reset cfg)" by (simp add: v4_reset_def pipeline_empty_def xm_cleared_def retire_cleared_def Let_def)
  moreover have "v4_fetch_pc (v4_reset cfg) = v4_regs (v4_reset cfg) 15" by (simp add: v4_reset_def Let_def)
  ultimately show ?thesis by (simp add: v4_ordered_def empty_latches empty_chain)
qed

lemma v4_reachable_ordered: "v4_reachable cfg s \<Longrightarrow> v4_ordered cfg s"
  by (induction rule: v4_reachable.induct) (simp_all add: v4_ordered_reset v4_ordered_tick)

section \<open>Commit order\<close>

lemma commit_tick:
  "\<not> v4_reset_pending s \<Longrightarrow> v4_commit_valid (v4_tick cfg i s) = (r_valid (v4_retire s) \<and> r_commit (v4_retire s)) \<and>
     (v4_commit_valid (v4_tick cfg i s) \<longrightarrow> v4_commit_pc (v4_tick cfg i s) = r_commit_pc (v4_retire s))"
  by (simp add: v4_tick_moves v4_moves_def blk_writeback_def retire_stage_def port_def lock_up_def Let_def)

lemma regs_15_any:
  assumes "\<not> v4_reset_pending s"
  shows "v4_regs (v4_tick cfg i s) 15 =
     (if vector_done cfg i s then vector_handler_pc cfg i s else retire_regs (v4_retire s) (v4_regs s) 15)"
  by (simp add: v4_tick_moves [OF assms] blk_stopped_def clear_pipeline_def blk_vector_done_def v4_moves_def redirect_fetch_def
      blk_writeback_def lock_up_def Let_def split: option.split)

text \<open>
  Property C6: In every reachable state of the v4 core, whatever the buses, the interrupt lines
  and memory have done, an instruction commits only at the address R15 holds, and R15 then becomes
  the next program counter of that instruction: commits follow program order, none comes from a
  mispredicted path, during a trap entry or after a stop.
\<close>

lemma v4_commit_order:
  assumes "v4_reachable cfg s" and "v4_commit_valid (v4_tick cfg i s)" and "\<not> v4_reset_pending s"
  shows "v4_commit_pc (v4_tick cfg i s) = v4_regs s 15 \<and> v4_regs (v4_tick cfg i s) 15 = r_next_pc (v4_retire s) \<and>
     \<not> vector_active (v4_vec s) \<and> \<not> v4_stopped s"
proof -
  have O: "v4_ordered cfg s" by (rule v4_reachable_ordered [OF assms(1)])
  have r: "r_valid (v4_retire s)" "r_commit (v4_retire s)" "v4_commit_pc (v4_tick cfg i s) = r_commit_pc (v4_retire s)"
    using commit_tick [OF assms(3), of cfg i] assms(2) by simp_all
  then have n: "\<not> vector_active (v4_vec s)" "\<not> v4_stopped s" "r_commit_pc (v4_retire s) = v4_regs s 15"
    using O by (auto simp: v4_ordered_def pipeline_empty_def latches_ok_def Let_def)
  then have "\<not> vector_done cfg i s" by (simp add: vector_done_def vector_response_valid_def)
  then show ?thesis using r n by (simp add: regs_15_any [OF assms(3)] retire_regs_15)
qed

section \<open>A stopped core\<close>

lemma retire_idle: "\<not> r_valid (v4_retire s) \<Longrightarrow> retire_regs (v4_retire s) rs = rs" "\<not> r_valid (v4_retire s) \<Longrightarrow> retire_flags (v4_retire s) f = f"
  by (simp_all add: retire_regs_def retire_flags_def retire_stage_def port_def write_port_def Let_def)

text \<open>
  A reachable v4 core that has halted or locked up stays so with an empty pipeline:
  from then on nothing commits and neither the flags nor the general registers change, R15
  excepted when an interrupt entry completes.
\<close>

lemma v4_stopped_idle:
  assumes "v4_reachable cfg s" and "v4_stopped s"
  shows "v4_stopped (v4_tick cfg i s) \<and> pipeline_empty (v4_tick cfg i s) \<and>
     (\<not> v4_reset_pending s \<longrightarrow> \<not> v4_commit_valid (v4_tick cfg i s) \<and> v4_flags (v4_tick cfg i s) = v4_flags s \<and>
       (\<forall>r. r \<noteq> 0 \<and> r \<noteq> 15 \<longrightarrow> v4_regs (v4_tick cfg i s) r = v4_regs s r) \<and>
       (vector_done cfg i s \<or> v4_regs (v4_tick cfg i s) 15 = v4_regs s 15))"
proof (cases "v4_reset_pending s")
  case True
  then show ?thesis using assms(2) v4_reachable_ordered [OF assms(1)]
    by (simp add: v4_ordered_def reset_tick(1)) (simp add: v4_stopped_def v4_tick_def v4_boot_def)
next
  case False
  have e: "pipeline_empty s" using v4_reachable_ordered [OF assms(1)] assms(2) by (simp add: v4_ordered_def)
  have nc: "\<not> v4_calm cfg i s" using assms(2) by (simp add: v4_calm_def)
  have nr: "\<not> r_valid (v4_retire s)" using e by (simp add: pipeline_empty_def)
  have "v4_flags (v4_tick cfg i s) = v4_flags s"
    by (simp add: v4_tick_moves [OF False] v4_moves_def blk_writeback_def retire_idle(2) [OF nr] lock_up_def Let_def split: option.split)
  moreover have "v4_regs (v4_tick cfg i s) r = v4_regs s r" if "r \<noteq> 0" "r \<noteq> 15" for r
    using that by (simp add: v4_tick_moves [OF False] blk_stopped_def clear_pipeline_def blk_vector_done_def v4_moves_def redirect_fetch_def
      blk_writeback_def retire_idle(1) [OF nr] lock_up_def Let_def split: option.split)
  ultimately show ?thesis
    using commit_tick [OF False, of cfg i] stopped_tick [OF False, of cfg i] assms(2) not_calm_empty [OF False nc] nr
      regs_15_any [OF False, of cfg i] by (simp add: retire_idle(1) [OF nr])
qed

end
