(* ===== verification/V4_Entry.thy ===== *)
theory V4_Entry
  imports V4_Order
begin

text \<open>
  Precise traps and interrupts of the v4 core.  A second invariant relates the walker, the
  translation port and the registered fault to the pipeline: when a trap or an interrupt is
  entered, every older instruction has committed, no younger one will, and the saved
  program counter is the one to return to.  It needs one assumption, which is a defect of
  the core: no load into R15 completes while the next fetch is being translated.
\<close>

section \<open>The walker and the translation port after an edge\<close>

definition walk_started_by :: "core_config \<Rightarrow> v4_core \<Rightarrow> v4_walk option" where
  "walk_started_by cfg s =
     (if fetch_translate_ready s \<and> v4_paging s \<and> \<not> fetch_fault s \<and> \<not> fetch_translate_complete cfg s
      then Some (walk_start (v4_root s) (v4_translate_va s) ACCESS_EXECUTE WALK_RESUME_FETCH)
      else if memory_translate_ready s \<and> v4_paging s \<and> \<not> memory_fault s \<and> \<not> memory_translate_complete cfg s
      then Some (walk_start (v4_root s) (m_virtual_addr (v4_xm s)) (memory_access s) WALK_RESUME_MEMORY)
      else if vector_translate_ready s \<and> v4_paging s \<and> \<not> vector_translate_lockup s \<and> \<not> vector_translate_complete cfg s
      then Some (walk_start (v4_root s) (vector_virtual_addr (v4_vec s)) ACCESS_READ WALK_RESUME_VECTOR)
      else None)"

definition walk_answer :: "core_config \<Rightarrow> v4_in \<Rightarrow> v4_core \<Rightarrow> u64 option" where
  "walk_answer cfg i s = (let l = v4_response cfg i s in
     if l_response_valid l \<and> \<not> l_response_error l then Some (l_load_value l) else None)"

lemma walk_started_inactive: "walk_started_by cfg s = Some w \<Longrightarrow> \<not> w_active (v4_walker s)"
  by (auto simp: walk_started_by_def fetch_translate_ready_def memory_translate_ready_def vector_translate_ready_def
      v4_bus_free_def split: if_splits)

lemma walker_requests:
  "v4_walker (blk_requests cfg i s t) =
     (if walk_request_valid (v4_walker s) \<and> l_request_ready (v4_response cfg i s)
      then (v4_walker t)\<lparr>w_started := True\<rparr> else v4_walker t)"
  by (simp add: blk_requests_def Let_def)

lemma walker_start:
  "v4_walker (blk_walk_start cfg s t) = (case walk_started_by cfg s of Some w \<Rightarrow> w | None \<Rightarrow> v4_walker t)"
  by (auto simp: blk_walk_start_def walk_started_by_def Let_def)

lemma walker_walk:
  "v4_walker (blk_walk cfg i s t) =
     (let w = v4_walker s; l = v4_response cfg i s;
          x = (if walk_response_valid (l_response_valid l) w \<and> \<not> l_response_error l then walk_latch (l_load_value l) (v4_walker t) else v4_walker t)
      in walk_descend (v4_user s) w (if v4_walk_success s then walk_stop x else x))"
  by (simp add: blk_walk_def stop_walk_def Let_def)

lemma walker_vector_done [simp]: "v4_walker (blk_vector_done cfg i s t) = v4_walker t"
  by simp

text \<open>A walk in progress advances by \<open>walk_tick\<close>; an idle walker stays or starts.\<close>

lemma walker_tick:
  assumes "v4_calm cfg i s" and "w_processing (v4_walker s) \<longrightarrow> w_active (v4_walker s)"
  shows "v4_walker (v4_tick cfg i s) =
     (if w_active (v4_walker s)
      then walk_tick (v4_user s) (l_request_ready (v4_response cfg i s)) (walk_answer cfg i s) (v4_walker s)
      else case walk_started_by cfg s of Some w \<Rightarrow> w | None \<Rightarrow> v4_walker s)"
proof (cases "w_active (v4_walker s)")
  case True
  then have "walk_started_by cfg s = None" using walk_started_inactive by (cases "walk_started_by cfg s") blast+
  then show ?thesis using True
    by (simp add: calm_tick [OF assms(1)] v4_moves_def walker_walk walker_start walker_requests walk_tick_def
        walk_answer_def walk_response_valid_def v4_walk_success_def Let_def)
next
  case False
  then have "\<not> w_processing (v4_walker s)" using assms(2) by blast
  then show ?thesis using False
    by (simp add: calm_tick [OF assms(1)] v4_moves_def walker_walk walker_start walker_requests
        walk_request_valid_def walk_response_valid_def v4_walk_success_def walk_leaf_success_def walk_descend_def Let_def
        split: option.split)
qed

lemma walk_tick_fields:
  "w_active (walk_tick u ready v w) = (w_active w \<and> \<not> walk_leaf_success u w)"
  "w_virtual_addr (walk_tick u ready v w) = w_virtual_addr w"
  "w_resume_kind (walk_tick u ready v w) = w_resume_kind w"
  by (simp_all add: walk_tick_def walk_descend_def walk_stop_def walk_latch_def Let_def split: option.split)

lemma walk_tick_processing: "walk_leaf_success u w \<Longrightarrow> \<not> w_processing (walk_tick u ready v w)"
  by (simp add: walk_tick_def walk_descend_def walk_stop_def Let_def)

lemma m_phys_blocks:
  "m_phys_valid (v4_xm (blk_translated cfg s t)) = (memory_translate_complete cfg s \<or> m_phys_valid (v4_xm t))"
  "m_phys_valid (v4_xm (blk_walk cfg i s t)) =
     (v4_walk_success s \<and> w_resume_kind (v4_walker s) \<notin> {WALK_RESUME_FETCH, WALK_RESUME_VECTOR} \<or> m_phys_valid (v4_xm t))"
  by (simp_all add: blk_translated_def blk_walk_def stop_walk_def Let_def)

lemma m_phys_tick:
  assumes "v4_plain cfg i s"
  shows "m_phys_valid (v4_xm (v4_tick cfg i s)) =
     (v4_walk_success s \<and> w_resume_kind (v4_walker s) \<notin> {WALK_RESUME_FETCH, WALK_RESUME_VECTOR} \<or>
      memory_translate_complete cfg s \<or> m_phys_valid (xm_moved cfg i s))"
  by (simp add: plain_tick [OF assms] stopped_calm_frame [OF plain_calm [OF assms]] v4_moves_def Let_def m_phys_blocks xm_memory_latch)

lemma vec_phys_blocks:
  "vector_phys_valid (v4_vec (blk_requests cfg i s t)) = vector_phys_valid (v4_vec t)"
  "vector_phys_valid (v4_vec (blk_translated cfg s t)) = (vector_translate_complete cfg s \<or> vector_phys_valid (v4_vec t))"
  "vector_phys_valid (v4_vec (blk_walk cfg i s t)) =
     (v4_walk_success s \<and> w_resume_kind (v4_walker s) = WALK_RESUME_VECTOR \<or> vector_phys_valid (v4_vec t))"
  by (simp_all add: blk_requests_def blk_translated_def blk_walk_def stop_walk_def resume_defs Let_def)

lemma vec_phys_moves:
  "vector_phys_valid (v4_vec (v4_moves cfg i s)) =
     (v4_walk_success s \<and> w_resume_kind (v4_walker s) = WALK_RESUME_VECTOR \<or> vector_translate_complete cfg s \<or>
      vector_phys_valid (v4_vec s))"
  by (auto simp: v4_moves_def vec_phys_blocks Let_def)

section \<open>The invariant\<close>

definition walker_ok :: "v4_core \<Rightarrow> bool" where
  "walker_ok s \<longleftrightarrow> (let w = v4_walker s; k = w_resume_kind w; x = v4_xm s in
     (w_processing w \<longrightarrow> w_active w) \<and>
     (w_active w \<longrightarrow> k = WALK_RESUME_FETCH \<or> k = WALK_RESUME_MEMORY \<or> k = WALK_RESUME_VECTOR) \<and>
     (w_active w \<and> k = WALK_RESUME_FETCH \<longrightarrow> \<not> vector_active (v4_vec s) \<and> \<not> fd_valid (v4_fd s) \<and> \<not> de_valid (v4_de s) \<and>
        \<not> m_valid x \<and> \<not> mr_valid (v4_mr s) \<and> \<not> v4_fetch_phys_valid s \<and> w_virtual_addr w = v4_fetch_pc s \<and>
        (w_processing w \<longrightarrow> \<not> r_valid (v4_retire s))) \<and>
     (w_active w \<and> k = WALK_RESUME_MEMORY \<longrightarrow> \<not> vector_active (v4_vec s) \<and> m_valid x \<and> \<not> m_phys_valid x \<and>
        \<not> r_valid (v4_retire s)) \<and>
     (w_active w \<and> k = WALK_RESUME_VECTOR \<longrightarrow> vector_active (v4_vec s) \<and> \<not> vector_phys_valid (v4_vec s)))"

definition port_ok :: "v4_core \<Rightarrow> bool" where
  "port_ok s \<longleftrightarrow> (\<not> m_valid (v4_xm s) \<longrightarrow> v4_translate_va s = v4_fetch_pc s)"

text \<open>The trap in the retire latch stands alone, and the registered fault names the next instruction.\<close>

definition trap_ok :: "v4_core \<Rightarrow> bool" where
  "trap_ok s \<longleftrightarrow> (let r = v4_retire s in
     r_valid r \<and> \<not> r_commit r \<longrightarrow> \<not> fd_valid (v4_fd s) \<and> \<not> r_reg_write r \<and> \<not> r_aux_reg_write r)"

definition fault_ok :: "v4_core \<Rightarrow> bool" where
  "fault_ok s \<longleftrightarrow> (let r = v4_retire s; f = v4_flt s in fault_pending f \<longrightarrow>
     (de_valid (v4_de s) \<longrightarrow> m_valid (v4_xm s)) \<and>
     (if r_valid r then r_commit r \<and> r_next_pc r = fault_pc f else v4_regs s 15 = fault_pc f))"

definition v4_precise :: "v4_core \<Rightarrow> bool" where
  "v4_precise s \<longleftrightarrow>
     (v4_reset_pending s \<longrightarrow> \<not> w_active (v4_walker s)) \<and>
     (\<not> v4_stopped s \<longrightarrow> walker_ok s \<and>
       (\<not> vector_active (v4_vec s) \<longrightarrow> port_ok s \<and> trap_ok s \<and> fault_ok s))"

text \<open>No load into R15 completes while the next fetch is being translated.\<close>

definition fetch_steady :: "v4_core \<Rightarrow> bool" where
  "fetch_steady s \<longleftrightarrow> \<not> (fetch_translate_ready s \<and> v4_redirect s)"

section \<open>Plain cycles\<close>

lemma port_tick:
  assumes "v4_plain cfg i s" and "latches_ok s" and "port_ok s"
  shows "port_ok (v4_tick cfg i s)"
  using assms(3) xm_next(1) [OF assms(1,2)] plain_no_error [OF assms(1)] memory_exclusive [of cfg i s]
  by (auto simp: port_ok_def translate_va_tick [OF assms(1)] fetch_pc_tick [OF assms(1)] split: option.split)

lemma no_steer:
  assumes "\<not> de_valid (v4_de s)" and "\<not> fd_valid (v4_fd s)" and "\<not> v4_redirect s" and "\<not> v4_fetch_phys_valid s"
  shows "v4_steers cfg i s = None" "\<not> fetch_accept cfg i s" "\<not> v4_decode_advance cfg s" "\<not> v4_leaves cfg s"
    "\<not> v4_flush_younger cfg s"
  using assms flush_facts [of cfg s] advance_facts(1) [of cfg s] accept_facts(5) [of cfg i s] leaves_facts(1) [of cfg s]
  by (auto simp: v4_steers_def)

lemma untranslated_waits: "\<not> m_phys_valid (v4_xm s) \<Longrightarrow> \<not> memory_to_retire cfg i s \<and> \<not> memory_chain_continue cfg i s \<and>
    \<not> ms_start_request (v4_stage_xm cfg s) (v4_stage_lsu cfg i s)"
  by (auto simp: memory_to_retire_def memory_chain_continue_def cached_memory_response_def dcache_cacheable_load_def
      ms_final_response_def ms_complete_def ms_chain_continue_def ms_start_request_def v4_stage_xm_def Let_def)

text \<open>A memory operation that waits for its translation keeps the pipeline behind it in place.\<close>

lemma untranslated_tick:
  assumes "v4_plain cfg i s" and "latches_ok s" and "m_valid (v4_xm s)" and "\<not> m_phys_valid (v4_xm s)"
  shows "m_valid (v4_xm (v4_tick cfg i s))" "\<not> r_valid (v4_retire (v4_tick cfg i s))"
    "\<not> m_phys_valid (xm_moved cfg i s)"
proof -
  have n: "\<not> v4_leaves cfg s" "\<not> mr_valid (v4_mr s)" "\<not> v4_redirect s"
    using leaves_facts(2) [of cfg s] assms(2,3) by (auto simp: latches_ok_def v4_redirect_def memory_redirect_def Let_def)
  note u = untranslated_waits [OF assms(4), of cfg i]
  show "m_valid (v4_xm (v4_tick cfg i s))" using xm_next(1) [OF assms(1,2)] assms(3) u by simp
  show "\<not> r_valid (v4_retire (v4_tick cfg i s))" using retire_next(1) [OF assms(1)] n by (simp add: v4_leaves_def)
  show "\<not> m_phys_valid (xm_moved cfg i s)"
    using u n plain_no_error [OF assms(1)] assms(4) by (simp add: xm_moved_def v4_leaves_def Let_def)
qed

lemma plain_vec: "v4_plain cfg i s \<Longrightarrow> \<not> vector_active (v4_vec (v4_tick cfg i s))"
  by (simp add: plain_tick calm_stopped [OF plain_calm] vec_active_moves) (simp add: v4_plain_def)

lemma fetch_walk_waits:
  assumes "v4_plain cfg i s" and "latches_ok s"
    and "\<not> fd_valid (v4_fd s)" "\<not> de_valid (v4_de s)" "\<not> m_valid (v4_xm s)" "\<not> v4_redirect s" "\<not> v4_fetch_phys_valid s"
    and "\<not> fetch_translate_complete cfg s" and "\<not> v4_walk_success s"
  shows "let t = v4_tick cfg i s in \<not> fd_valid (v4_fd t) \<and> \<not> de_valid (v4_de t) \<and> \<not> m_valid (v4_xm t) \<and> \<not> mr_valid (v4_mr t) \<and>
     \<not> v4_fetch_phys_valid t \<and> v4_fetch_pc t = v4_fetch_pc s \<and> (\<not> mr_valid (v4_mr s) \<longrightarrow> \<not> r_valid (v4_retire t))"
proof -
  note n = no_steer [OF assms(4,3,6,7)]
  have m: "\<not> memory_to_retire cfg i s" using memory_exclusive(1) assms(5) by blast
  show ?thesis
    using n m assms(3-9) xm_next(1) [OF assms(1,2)]
    by (simp add: fd_tick [OF assms(1)] de_tick [OF assms(1)] mr_next(1) [OF assms(1)] phys_valid_tick [OF assms(1)]
        fetch_pc_tick [OF assms(1)] retire_next(1) [OF assms(1)] v4_leaves_def Let_def)
qed

lemma walk_kinds: "WALK_RESUME_FETCH \<noteq> WALK_RESUME_MEMORY" "WALK_RESUME_FETCH \<noteq> WALK_RESUME_VECTOR" "WALK_RESUME_MEMORY \<noteq> WALK_RESUME_VECTOR"
  by (simp_all add: resume_defs)

lemma walker_plain:
  assumes "v4_plain cfg i s" and "latches_ok s" and "walker_ok s" and "port_ok s" and "fetch_steady s"
  shows "walker_ok (v4_tick cfg i s)"
proof -
  let ?t = "v4_tick cfg i s" and ?w = "v4_walker s"
  have nv: "\<not> vector_active (v4_vec s)" using assms(1) by (simp add: v4_plain_def)
  have p: "w_processing ?w \<longrightarrow> w_active ?w" using assms(3) by (simp add: walker_ok_def Let_def)
  note W = walker_tick [OF plain_calm [OF assms(1)] p]
  note K = walk_kinds walk_kinds [symmetric]
  show ?thesis
  proof (cases "w_active ?w")
    case True
    let ?t' = "walk_tick (v4_user s) (l_request_ready (v4_response cfg i s)) (walk_answer cfg i s) ?w"
    have w: "v4_walker ?t = ?t'" using W True by simp
    note F = walk_tick_fields [of "v4_user s" "l_request_ready (v4_response cfg i s)" "walk_answer cfg i s" ?w]
    have pa: "w_processing ?t' \<Longrightarrow> w_active ?t'" using F(1) True walk_tick_processing by blast
    have k: "w_resume_kind ?w = WALK_RESUME_FETCH \<or> w_resume_kind ?w = WALK_RESUME_MEMORY"
      using assms(3) True nv by (auto simp: walker_ok_def Let_def)
    then show ?thesis
    proof
      assume k: "w_resume_kind ?w = WALK_RESUME_FETCH"
      note A = assms(3) [unfolded walker_ok_def Let_def]
      have s: "\<not> fd_valid (v4_fd s)" "\<not> de_valid (v4_de s)" "\<not> m_valid (v4_xm s)" "\<not> mr_valid (v4_mr s)"
        "\<not> v4_fetch_phys_valid s" "w_virtual_addr ?w = v4_fetch_pc s" using A True k by simp_all
      have rd: "\<not> v4_redirect s" using s(4) by (simp add: v4_redirect_def memory_redirect_def)
      have ft: "\<not> fetch_translate_complete cfg s"
        using True by (simp add: fetch_translate_complete_def fetch_translate_ready_def v4_bus_free_def)
      show ?thesis
        using fetch_walk_waits [OF assms(1,2) s(1-3) rd s(5) ft] s(4,6) F pa k plain_vec [OF assms(1)]
        by (auto simp: walker_ok_def w v4_walk_success_def K Let_def)
    next
      assume k: "w_resume_kind ?w = WALK_RESUME_MEMORY"
      note A = assms(3) [unfolded walker_ok_def Let_def]
      have s: "m_valid (v4_xm s)" "\<not> m_phys_valid (v4_xm s)" using A True k by simp_all
      have mt: "\<not> memory_translate_complete cfg s"
        using True by (simp add: memory_translate_complete_def memory_translate_ready_def v4_bus_free_def)
      show ?thesis
        using untranslated_tick [OF assms(1,2) s] F pa k plain_vec [OF assms(1)] mt
        by (auto simp: walker_ok_def w v4_walk_success_def m_phys_tick [OF assms(1)] K Let_def)
    qed
  next
    case False
    have ns: "\<not> v4_walk_success s" using False p by (auto simp: v4_walk_success_def walk_leaf_success_def)
    show ?thesis
    proof (cases "walk_started_by cfg s")
      case None
      then have "v4_walker ?t = ?w" using W False by simp
      then show ?thesis using False p by (simp add: walker_ok_def Let_def)
    next
      case (Some w)
      then have w: "v4_walker ?t = w" using W False by simp
      from Some nv consider
        (fetch) "fetch_translate_ready s" "\<not> fetch_translate_complete cfg s" "w = walk_start (v4_root s) (v4_translate_va s) ACCESS_EXECUTE WALK_RESUME_FETCH"
      | (mem) "memory_translate_ready s" "\<not> memory_translate_complete cfg s"
          "w = walk_start (v4_root s) (m_virtual_addr (v4_xm s)) (memory_access s) WALK_RESUME_MEMORY"
        by (auto simp: walk_started_by_def vector_translate_ready_def split: if_splits)
      then show ?thesis
      proof cases
        case fetch
        have s: "\<not> fd_valid (v4_fd s)" "\<not> de_valid (v4_de s)" "\<not> m_valid (v4_xm s)" "\<not> v4_redirect s" "\<not> v4_fetch_phys_valid s"
          using fetch(1) assms(5) by (auto simp: fetch_translate_ready_def fetch_steady_def)
        have "v4_translate_va s = v4_fetch_pc s" using assms(4) s(3) by (simp add: port_ok_def)
        then show ?thesis
          using fetch_walk_waits [OF assms(1,2) s fetch(2) ns] plain_vec [OF assms(1)]
          by (auto simp: walker_ok_def w fetch(3) walk_start_def K Let_def)
      next
        case mem
        have s: "m_valid (v4_xm s)" "\<not> m_phys_valid (v4_xm s)" using mem(1) by (auto simp: memory_translate_ready_def)
        show ?thesis
          using untranslated_tick [OF assms(1,2) s] plain_vec [OF assms(1)] mem(2) ns
          by (auto simp: walker_ok_def w mem(3) walk_start_def m_phys_tick [OF assms(1)] K Let_def)
      qed
    qed
  qed
qed

lemma stage_trap_no_write: "stage_effect i r e \<Longrightarrow> is_trap r \<or> r = E_Halt \<Longrightarrow> \<not> o_reg_write e"
  by (cases r) (auto simp: out_defs exec_default_def)

lemma trap_no_write:
  "de_valid (v4_de s) \<Longrightarrow> o_trap (v4_out cfg s) \<or> o_halt (v4_out cfg s) \<Longrightarrow> \<not> o_reg_write (v4_out cfg s)"
  using stage_trap_no_write [OF v3_execute_spec [of "v4_x cfg s"]] v4_out_fields(2,3) [of s cfg]
  by (simp add: v4_out_def x_effect_def)

lemma trap_tick:
  assumes "v4_plain cfg i s"
  shows "trap_ok (v4_tick cfg i s)"
proof -
  let ?r = "v4_retire (v4_tick cfg i s)"
  have "\<not> fd_valid (v4_fd (v4_tick cfg i s)) \<and> \<not> r_reg_write ?r \<and> \<not> r_aux_reg_write ?r" if "r_valid ?r" "\<not> r_commit ?r"
  proof -
    note R = retire_next [OF assms]
    have t: "v4_to_retire cfg s" using that R(1,2,4) by (auto simp: Let_def)
    have d: "de_valid (v4_de s)" using leaves_facts(1) [of cfg s] t by (simp add: v4_leaves_def)
    have o: "o_trap (v4_out cfg s) \<or> o_halt (v4_out cfg s)"
      using that(2) R(3) [OF t] v4_out_fields(4) [OF d, of cfg] by (auto simp: Let_def)
    then have "v4_flush_younger cfg s" using d by (auto simp: v4_flush_younger_def Let_def)
    moreover have "\<not> v4_to_storebuf cfg s \<and> \<not> v4_to_storebuf_load cfg s" using t leaves_kind(2) [of cfg s] by blast
    ultimately show ?thesis using t trap_no_write [OF d o]
      by (simp add: fd_tick [OF assms] retire_tick [OF assms] retire_from_execute_def Let_def)
  qed
  then show ?thesis by (simp add: trap_ok_def Let_def)
qed

lemma retire_regs_15_quiet:
  "\<not> r_commit r \<Longrightarrow> \<not> r_halt r \<Longrightarrow> \<not> r_reg_write r \<Longrightarrow> \<not> r_aux_reg_write r \<Longrightarrow> retire_regs r rs 15 = rs 15"
  by (simp add: retire_regs_def retire_stage_def port_def write_port_def Let_def)

text \<open>R15 after a plain cycle, a trap in the retire latch included.\<close>

lemma regs_15_plain:
  assumes "v4_plain cfg i s" and "latches_ok s" and "chain_ok cfg s" and "trap_port (retire_stage (v4_retire s)) = None"
  shows "v4_regs (v4_tick cfg i s) 15 = result_pc s"
proof -
  let ?r = "v4_retire s"
  have "r_valid ?r \<Longrightarrow> r_commit ?r"
    using assms(1,2,4) by (auto simp: latches_ok_def retire_stage_def port_def v4_plain_def v4_calm_def v4_stop_request_def Let_def)
  then show ?thesis using assms(3)
    by (cases "r_valid ?r") (simp_all add: regs_tick [OF assms(1)] retire_regs_15 chain_ok_def Let_def)
qed

lemma trap_port_valid: "trap_port (retire_stage r) = Some p \<Longrightarrow> r_valid r \<and> r_trap r \<and> p = (r_trap_cause r, r_commit_pc r)"
  by (auto simp: retire_stage_def port_def split: if_splits)

lemma flt_plain: "v4_plain cfg i s \<Longrightarrow> v4_flt (v4_tick cfg i s) = v4_fault_next s"
  by (simp add: v4_tick_def v4_units_def v4_plain_def v4_calm_def Let_def)

lemma fault_next_pc:
  "fault_pc (v4_fault_next s) =
     (case trap_port (retire_stage (v4_retire s)) of Some (c, p) \<Rightarrow> p
      | None \<Rightarrow> if fetch_fault s then v4_translate_va s else if memory_fault s then m_fault_pc (v4_xm s) else v4_walk_fault_pc s)"
  "fault_pending (v4_fault_next s) = trap_request_next s"
  by (auto simp: v4_fault_next_def Let_def split: prod.split option.split)

lemma walk_fault_trap_active: "walk_fault_trap s \<Longrightarrow> walker_ok s \<Longrightarrow> w_processing (v4_walker s) \<and> w_active (v4_walker s) \<and>
    (w_resume_kind (v4_walker s) = WALK_RESUME_FETCH \<or> w_resume_kind (v4_walker s) = WALK_RESUME_MEMORY)"
  by (auto simp: walk_fault_trap_def v4_walk_fault_def walk_fault_def walker_ok_def Let_def)

lemma fault_plain:
  assumes "v4_plain cfg i s" and "latches_ok s" and "chain_ok cfg s" and "walker_ok s" and "port_ok s" and "trap_ok s"
    and "fetch_steady s"
  shows "fault_ok (v4_tick cfg i s)"
proof (cases "trap_request_next s")
  case False
  then show ?thesis by (simp add: fault_ok_def flt_plain [OF assms(1)] fault_next_pc Let_def)
next
  case True
  let ?t = "v4_tick cfg i s"
  note flt = flt_plain [OF assms(1)] fault_next_pc
  have stop: "\<not> v4_stop_request s" using assms(1) by (simp add: v4_plain_def v4_calm_def)
  have idle: "\<not> de_valid (v4_de ?t)" if "\<not> fd_valid (v4_fd s)" "\<not> de_valid (v4_de s)"
    using that advance_facts(1) [of cfg s] by (auto simp: de_tick [OF assms(1)])
  show ?thesis
  proof (cases "trap_port (retire_stage (v4_retire s))")
    case (Some p)
    note T = trap_port_valid [OF Some]
    have nc: "\<not> r_commit (v4_retire s)" using T assms(2) by (simp add: latches_ok_def Let_def)
    then have e: "\<not> fd_valid (v4_fd s)" "\<not> de_valid (v4_de s)" "\<not> mr_valid (v4_mr s)"
      "\<not> r_reg_write (v4_retire s)" "\<not> r_aux_reg_write (v4_retire s)" "v4_regs s 15 = r_commit_pc (v4_retire s)"
      using T assms(2,6) by (simp_all add: latches_ok_def trap_ok_def Let_def)
    have h: "\<not> r_halt (v4_retire s)" using stop T by (simp add: v4_stop_request_def retire_stage_def)
    have "\<not> r_valid (v4_retire ?t)" using retire_next(1) [OF assms(1)] leaves_facts(1) [of cfg s] e(2,3) by (auto simp: v4_leaves_def)
    then show ?thesis using idle e T Some
      by (simp add: fault_ok_def flt regs_tick [OF assms(1)] retire_regs_15_quiet [OF nc h] Let_def)
  next
    case None
    note R = regs_15_plain [OF assms(1-3) None]
    have fetch: "fault_ok ?t" if f: "\<not> fd_valid (v4_fd s)" "\<not> de_valid (v4_de s)" "\<not> m_valid (v4_xm s)" "\<not> v4_redirect s"
      and pc: "fault_pc (v4_fault_next s) = v4_fetch_pc s"
    proof (cases "mr_valid (v4_mr s)")
      case True
      have "mr_next_pc (v4_mr s) = v4_fetch_pc s"
        using assms(3) True f by (simp add: chain_ok_def memory_pc_def execute_pc_def front_pc_def v4_redirect_def memory_redirect_def Let_def)
      then show ?thesis using retire_next(1,4) [OF assms(1)] True idle f pc by (simp add: fault_ok_def flt(1) Let_def)
    next
      case False
      then have "\<not> r_valid (v4_retire ?t)" using retire_next(1) [OF assms(1)] leaves_facts(1) [of cfg s] f(2) by (auto simp: v4_leaves_def)
      moreover have "result_pc s = v4_fetch_pc s" using False f by (simp add: result_pc_def memory_pc_def execute_pc_def front_pc_def)
      ultimately show ?thesis using R idle f pc by (simp add: fault_ok_def flt(1) Let_def)
    qed
    have mem: "fault_ok ?t" if f: "m_valid (v4_xm s)" "\<not> m_phys_valid (v4_xm s)" and pc: "fault_pc (v4_fault_next s) = m_fault_pc (v4_xm s)"
    proof -
      have "result_pc s = m_fault_pc (v4_xm s)" using f assms(2) by (simp add: result_pc_def memory_pc_def latches_ok_def Let_def)
      then show ?thesis using untranslated_tick [OF assms(1,2) f] R pc by (simp add: fault_ok_def flt(1) Let_def)
    qed
    show ?thesis
    proof (cases "fetch_fault s")
      case True
      then show ?thesis using assms(5,7) None
        by (intro fetch) (auto simp: fetch_fault_def fetch_translate_ready_def fetch_steady_def port_ok_def fault_next_pc)
    next
      case nf: False
      show ?thesis
      proof (cases "memory_fault s")
        case True
        then show ?thesis using nf None by (intro mem) (auto simp: memory_fault_def memory_translate_ready_def fault_next_pc)
      next
        case False
        then have "walk_fault_trap s" using True nf None by (simp add: trap_request_next_def)
        note K = walk_fault_trap_active [OF this assms(4)]
        note W = assms(4) [unfolded walker_ok_def Let_def]
        have pc: "fault_pc (v4_fault_next s) = v4_walk_fault_pc s" using nf False None by (simp add: fault_next_pc)
        from K show ?thesis
        proof (elim conjE disjE)
          assume "w_resume_kind (v4_walker s) = WALK_RESUME_FETCH"
          then show ?thesis using W K walk_kinds pc
            by (intro fetch) (simp_all add: v4_walk_fault_pc_def v4_redirect_def memory_redirect_def)
        next
          assume "w_resume_kind (v4_walker s) = WALK_RESUME_MEMORY"
          then show ?thesis using W K pc by (intro mem) (simp_all add: v4_walk_fault_pc_def)
        qed
      qed
    qed
  qed
qed

section \<open>The other cycles\<close>

lemma entry_walker:
  "entry_start cfg i s \<Longrightarrow> \<not> v4_failing cfg i s \<Longrightarrow> \<not> v4_reset_pending s \<Longrightarrow>
     \<not> w_active (v4_walker (v4_tick cfg i s)) \<and> \<not> w_processing (v4_walker (v4_tick cfg i s))"
  by (simp add: v4_tick_moves no_lockups blk_entry_def stop_walk_def walk_stop_def clear_pipeline_def Let_def)

lemma idle_walker_ok: "\<not> w_active (v4_walker s) \<Longrightarrow> \<not> w_processing (v4_walker s) \<Longrightarrow> walker_ok s"
  by (simp add: walker_ok_def Let_def)

lemma entry_no_request:
  "vector_active (v4_vec s) \<Longrightarrow> pipeline_empty s \<Longrightarrow> walker_ok s \<Longrightarrow> \<not> trap_request_next s"
  using walk_fault_trap_active [of s]
  by (auto simp: trap_request_next_def retire_stage_def port_def pipeline_empty_def fetch_fault_def fetch_translate_ready_def
      v4_bus_free_def memory_fault_def memory_translate_ready_def walker_ok_def Let_def)

lemma entry_walker_ok:
  assumes "v4_calm cfg i s" and "vector_active (v4_vec s)" and "walker_ok s"
  shows "walker_ok (v4_tick cfg i s)"
proof -
  let ?w = "v4_walker s" and ?t = "v4_tick cfg i s"
  have p: "w_processing ?w \<longrightarrow> w_active ?w" using assms(3) by (simp add: walker_ok_def Let_def)
  note W = walker_tick [OF assms(1) p]
  have vec: "v4_vec ?t = v4_vec (v4_moves cfg i s)" if "\<not> vector_phys_valid (v4_vec s)"
    using that by (simp add: calm_tick [OF assms(1)] blk_vector_done_def vector_done_def vector_response_valid_def)
  have act: "vector_active (v4_vec (v4_moves cfg i s))" using assms(2) by (simp add: vec_active_moves)
  show ?thesis
  proof (cases "w_active ?w")
    case True
    let ?t' = "walk_tick (v4_user s) (l_request_ready (v4_response cfg i s)) (walk_answer cfg i s) ?w"
    have w: "v4_walker ?t = ?t'" using W True by simp
    have k: "w_resume_kind ?w = WALK_RESUME_VECTOR" "\<not> vector_phys_valid (v4_vec s)"
      using assms(2,3) True by (auto simp: walker_ok_def Let_def)
    have pa: "w_processing ?t' \<Longrightarrow> w_active ?t'" using walk_tick_fields(1) True walk_tick_processing by blast
    have "\<not> vector_translate_complete cfg s" using True by (simp add: vector_translate_complete_def vector_translate_ready_def)
    then show ?thesis
      using pa k vec act walk_kinds walk_tick_fields [of "v4_user s" "l_request_ready (v4_response cfg i s)" "walk_answer cfg i s" ?w]
      by (auto simp: walker_ok_def w vec_phys_moves v4_walk_success_def Let_def)
  next
    case False
    show ?thesis
    proof (cases "walk_started_by cfg s")
      case None
      then have "v4_walker ?t = ?w" using W False by simp
      then show ?thesis using False p by (simp add: walker_ok_def Let_def)
    next
      case (Some w)
      then have w: "v4_walker ?t = w" using W False by simp
      from Some assms(2) have v: "vector_translate_ready s" "\<not> vector_translate_complete cfg s"
        "w = walk_start (v4_root s) (vector_virtual_addr (v4_vec s)) ACCESS_READ WALK_RESUME_VECTOR"
        by (auto simp: walk_started_by_def fetch_translate_ready_def memory_translate_ready_def v4_bus_free_def split: if_splits)
      have n: "\<not> vector_phys_valid (v4_vec s)" using v(1) by (simp add: vector_translate_ready_def)
      have ns: "\<not> v4_walk_success s" using False p by (auto simp: v4_walk_success_def walk_leaf_success_def)
      show ?thesis using v(2) n ns vec act walk_kinds by (simp add: walker_ok_def w v(3) walk_start_def vec_phys_moves Let_def)
    qed
  qed
qed

lemma entry_translate:
  assumes "v4_calm cfg i s" and "vector_active (v4_vec s)" and "\<not> vector_active (v4_vec (v4_tick cfg i s))"
  shows "v4_translate_va (v4_tick cfg i s) = v4_fetch_pc (v4_tick cfg i s)"
  using assms(2,3)
  by (auto simp: calm_tick [OF assms(1)] blk_vector_done_def vec_active_moves Let_def split: if_splits)

lemma reset_fault:
  "v4_reset_pending s \<Longrightarrow> v4_flt (v4_tick cfg i s) = (if entry_start cfg i s then (v4_flt s)\<lparr>fault_pending := False\<rparr> else v4_fault_next s)"
  "v4_reset_pending s \<Longrightarrow> v4_walker (v4_tick cfg i s) = v4_walker s \<and> v4_vec (v4_tick cfg i s) = v4_vec s \<and>
     v4_translate_va (v4_tick cfg i s) = v4_translate_va s \<and> v4_stopped (v4_tick cfg i s) = v4_stopped s"
  by (simp_all add: v4_tick_def v4_units_def v4_boot_def v4_stopped_def Let_def)

lemma v4_precise_tick:
  assumes "v4_ordered cfg s" and "v4_precise s" and "fetch_steady s"
  shows "v4_precise (v4_tick cfg i s)"
proof -
  let ?t = "v4_tick cfg i s"
  have inv: "latches_ok s" "v4_reset_pending s \<or> v4_stopped s \<or> vector_active (v4_vec s) \<Longrightarrow> pipeline_empty s"
    "v4_reset_pending s \<Longrightarrow> v4_fetch_pc s = v4_regs s 15"
    "\<not> v4_stopped s \<Longrightarrow> \<not> vector_active (v4_vec s) \<Longrightarrow> \<not> fault_pending (v4_flt s) \<Longrightarrow> chain_ok cfg s"
    using assms(1) by (simp_all add: v4_ordered_def)
  have pre: "\<not> v4_stopped s \<Longrightarrow> walker_ok s" "\<not> v4_stopped s \<Longrightarrow> \<not> vector_active (v4_vec s) \<Longrightarrow> port_ok s \<and> trap_ok s \<and> fault_ok s"
    "v4_reset_pending s \<Longrightarrow> \<not> w_active (v4_walker s)"
    using assms(2) by (simp_all add: v4_precise_def)
  note pend = reset_pending_tick [of cfg i s]
  consider (reset) "v4_reset_pending s" | (busy) "\<not> v4_reset_pending s" "\<not> v4_calm cfg i s"
    | (entry) "v4_calm cfg i s" "vector_active (v4_vec s)" | (plain) "v4_plain cfg i s"
    by (auto simp: v4_plain_def)
  then show ?thesis
  proof cases
    case reset
    note r = reset_tick [OF reset, of cfg i] reset_fault [OF reset, of cfg i]
    have e: "pipeline_empty s" "pipeline_empty ?t" using inv(2) reset r(1) by simp_all
    show ?thesis
    proof (cases "v4_stopped s")
      case False
      note w = pre(1) [OF False] pre(3) [OF reset]
      have wp: "\<not> w_processing (v4_walker s)" using w by (auto simp: walker_ok_def Let_def)
      have "port_ok ?t \<and> trap_ok ?t \<and> fault_ok ?t" if "\<not> vector_active (v4_vec s)"
      proof -
        have p: "v4_translate_va s = v4_fetch_pc s" using pre(2) [OF False that] e(1) by (simp add: port_ok_def pipeline_empty_def)
        have "fault_pc (v4_fault_next s) = v4_fetch_pc s" if "trap_request_next s"
          using that e(1) wp p
          by (auto simp: fault_next_pc trap_request_next_def retire_stage_def port_def pipeline_empty_def memory_fault_def
              memory_translate_ready_def walk_fault_trap_def v4_walk_fault_def walk_fault_def)
        then show ?thesis using e(2) p r inv(3) [OF reset]
          by (simp add: port_ok_def trap_ok_def fault_ok_def pipeline_empty_def fault_next_pc Let_def)
      qed
      then show ?thesis using w wp r by (simp add: v4_precise_def pend idle_walker_ok)
    qed (simp add: v4_precise_def r pend)
  next
    case busy
    show ?thesis
    proof (cases "v4_stopped ?t")
      case False
      then have "entry_start cfg i s" "\<not> v4_failing cfg i s" using busy by (auto simp: stopped_tick v4_calm_def)
      then show ?thesis using entry_walker vec_entry busy(1) idle_walker_ok by (auto simp: v4_precise_def pend)
    qed (simp add: v4_precise_def pend)
  next
    case entry
    have ns: "\<not> v4_stopped s" using entry(1) by (simp add: v4_calm_def)
    have e: "pipeline_empty s" "pipeline_empty ?t" using inv(2) entry entry_cycle(1) [OF entry] by simp_all
    have "\<not> fault_pending (v4_flt ?t)"
      using fault_tick [of cfg i s] entry_no_request [OF entry(2) e(1) pre(1) [OF ns]] entry(1) by (simp add: v4_calm_def)
    then show ?thesis
      using entry_walker_ok [OF entry pre(1) [OF ns]] entry_translate [OF entry] e(2)
      by (simp add: v4_precise_def pend port_ok_def trap_ok_def fault_ok_def pipeline_empty_def Let_def)
  next
    case plain
    have s: "\<not> v4_stopped s" "\<not> vector_active (v4_vec s)" using plain by (simp_all add: v4_plain_def v4_calm_def)
    note chain = inv(4) [OF s plain_not_pending [OF plain]]
    show ?thesis
      using walker_plain [OF plain inv(1) pre(1) [OF s(1)] _ assms(3)] port_tick [OF plain inv(1)] trap_tick [OF plain]
        fault_plain [OF plain inv(1) chain pre(1) [OF s(1)] _ _ assms(3)] pre(2) [OF s]
      by (simp add: v4_precise_def pend)
  qed
qed

lemma v4_precise_reset: "v4_precise (v4_reset cfg)"
  by (simp add: v4_precise_def v4_reset_def walker_ok_def walk_idle_def port_ok_def trap_ok_def fault_ok_def retire_cleared_def
      Let_def)

text \<open>Runs from reset in which a condition holds in every cycle.\<close>

inductive v4_run :: "(v4_core \<Rightarrow> v4_in \<Rightarrow> bool) \<Rightarrow> core_config \<Rightarrow> v4_core \<Rightarrow> bool" for P cfg where
  reset: "v4_run P cfg (v4_reset cfg)"
| tick: "v4_run P cfg s \<Longrightarrow> P s i \<Longrightarrow> v4_run P cfg (v4_tick cfg i s)"

lemma run_reachable: "v4_run P cfg s \<Longrightarrow> v4_reachable cfg s"
  by (induction rule: v4_run.induct) (auto intro: v4_reachable.intros)

text \<open>Runs in which no load into R15 completes during a fetch translation.\<close>

abbreviation "v4_steady \<equiv> v4_run (\<lambda>s i. fetch_steady s)"

lemma steady_invariants: "v4_steady cfg s \<Longrightarrow> v4_ordered cfg s \<and> v4_precise s"
  by (induction rule: v4_run.induct) (simp_all add: v4_ordered_reset v4_precise_reset v4_ordered_tick v4_precise_tick)

end
