(* ===== verification/V4_Run.thy ===== *)
theory V4_Run
  imports V4_Entry Basic_Reset
begin

text \<open>
  Straight-line execution of the v4 core: while no memory operation, trap, translation or
  interrupt is in progress, a cycle moves the fetched half-word to the decode latch, the
  decoded instruction to the execute slot and its result to the retire latch.  The lemmas
  give these registers after a cycle, and run the core on small programs.
\<close>

section \<open>Flowing states\<close>

definition v4_flow :: "v4_core \<Rightarrow> bool" where
  "v4_flow s \<longleftrightarrow> \<not> v4_reset_pending s \<and> \<not> v4_stopped s \<and> \<not> vector_active (v4_vec s) \<and> \<not> fault_pending (v4_flt s) \<and>
     \<not> w_active (v4_walker s) \<and> \<not> w_processing (v4_walker s) \<and> \<not> storebuf_any_valid (v4_sb s) \<and>
     \<not> m_valid (v4_xm s) \<and> \<not> mr_valid (v4_mr s) \<and> \<not> v4_paging s \<and>
     (v4_fetch_phys_valid s \<or> \<not> bit (v4_translate_va s) 0)"

text \<open>The execute slot holds an instruction that writes registers and flags only, the retire latch a committing one.\<close>

definition plain_slot :: "core_config \<Rightarrow> v4_core \<Rightarrow> bool" where
  "plain_slot cfg s \<longleftrightarrow> (de_valid (v4_de s) \<longrightarrow> (\<exists>p f pc. v4_effect cfg s = E_Write p f pc))"

definition plain_retire :: "v4_core \<Rightarrow> bool" where
  "plain_retire s \<longleftrightarrow> (let r = v4_retire s in r_valid r \<longrightarrow>
     r_commit r \<and> \<not> r_trap r \<and> \<not> r_halt r \<and> \<not> r_lockup r \<and> \<not> r_cpu_control_write r)"

lemma plain_slot_out:
  assumes "plain_slot cfg s" and "de_valid (v4_de s)"
  shows "\<not> o_memory_start (v4_out cfg s)" "\<not> o_trap (v4_out cfg s)" "\<not> o_halt (v4_out cfg s)" "\<not> o_lockup (v4_out cfg s)"
    "\<not> o_cpu_control_write (v4_out cfg s)"
proof -
  from assms obtain p f pc where e: "v4_effect cfg s = E_Write p f pc" by (auto simp: plain_slot_def)
  then show "\<not> o_memory_start (v4_out cfg s)" "\<not> o_trap (v4_out cfg s)" "\<not> o_halt (v4_out cfg s)" "\<not> o_lockup (v4_out cfg s)"
    using v4_out_fields [OF assms(2), of cfg] by simp_all
  have "stage_effect (v4_x cfg s) (E_Write p f pc) (v4_out cfg s)"
    using v3_execute_spec [of "v4_x cfg s"] assms(2) e by (simp add: v4_out_def x_effect_def)
  then have "v4_out cfg s = (exec_default (v4_x cfg s))\<lparr>o_reg_write := o_reg_write (v4_out cfg s),
      o_reg_value := o_reg_value (v4_out cfg s), o_flags_write := o_flags_write (v4_out cfg s),
      o_flags_value := o_flags_value (v4_out cfg s), o_next_pc := pc\<rparr>"
    by (simp add: requests_def)
  from arg_cong [OF this, of o_cpu_control_write] show "\<not> o_cpu_control_write (v4_out cfg s)"
    by (simp add: exec_default_def)
qed

lemma flow_signals:
  assumes "v4_flow s" and "plain_slot cfg s"
  shows "\<not> v4_redirect s" "\<not> v4_to_memory cfg s" "\<not> v4_to_storebuf cfg s" "\<not> v4_to_storebuf_load cfg s"
    "v4_to_retire cfg s = de_valid (v4_de s)" "v4_leaves cfg s = de_valid (v4_de s)"
    "\<not> memory_to_retire cfg i s" "\<not> memory_chain_continue cfg i s" "\<not> memory_error cfg i s"
    "execute_slot_available (v4_dispatch (v4_out cfg s) s) (v4_sb s)"
    "v4_flush_younger cfg s = v4_mispredict cfg s"
    "v4_mispredict cfg s = (de_valid (v4_de s) \<and> o_next_pc (v4_out cfg s) \<noteq> de_predicted_next_pc (v4_de s))"
    "v4_translate_now cfg s va" "\<not> v4_translate_bad s va"
proof -
  have m: "\<not> m_valid (v4_xm s)" "\<not> mr_valid (v4_mr s)" using assms(1) by (simp_all add: v4_flow_def)
  show r: "\<not> v4_redirect s" using m(2) by (simp add: v4_redirect_def memory_redirect_def)
  have out: "de_valid (v4_de s) \<Longrightarrow> \<not> o_memory_start (v4_out cfg s)" by (rule plain_slot_out(1) [OF assms(2)])
  show t: "\<not> v4_to_memory cfg s" "\<not> v4_to_storebuf cfg s" "\<not> v4_to_storebuf_load cfg s"
    using leaves_kind(2) [of cfg s] leaves_facts(1) [of cfg s] out by (auto simp: v4_leaves_def)
  show tr: "v4_to_retire cfg s = de_valid (v4_de s)"
    using out m r by (auto simp: v4_to_retire_def execute_to_retire_def v4_dispatch_def v4_redirect_def)
  then show "v4_leaves cfg s = de_valid (v4_de s)" using t by (simp add: v4_leaves_def)
  show "execute_slot_available (v4_dispatch (v4_out cfg s) s) (v4_sb s)"
    using tr by (simp add: execute_slot_available_def v4_to_retire_def v4_dispatch_def) 
  show "\<not> memory_to_retire cfg i s" "\<not> memory_chain_continue cfg i s" "\<not> memory_error cfg i s"
    using m by (simp_all add: memory_to_retire_def memory_chain_continue_def memory_error_def)
  show mp: "v4_mispredict cfg s = (de_valid (v4_de s) \<and> o_next_pc (v4_out cfg s) \<noteq> de_predicted_next_pc (v4_de s))"
    using plain_slot_out [OF assms(2)] r by (auto simp: v4_mispredict_def Let_def)
  then show "v4_flush_younger cfg s = v4_mispredict cfg s"
    using plain_slot_out [OF assms(2)] by (auto simp: v4_flush_younger_def Let_def)
  show "v4_translate_now cfg s va" "\<not> v4_translate_bad s va"
    using assms(1) by (simp_all add: v4_flow_def v4_translate_now_def v4_translate_bad_def)
qed

lemma flow_no_fault:
  assumes "v4_flow s" and "plain_retire s"
  shows "\<not> trap_request_next s"
  using assms
  by (auto simp: v4_flow_def plain_retire_def trap_request_next_def retire_stage_def port_def fetch_fault_def fetch_translate_ready_def
      memory_fault_def memory_translate_ready_def walk_fault_trap_def v4_walk_fault_def walk_fault_def v4_translate_bad_def Let_def)

lemma flow_plain:
  assumes "v4_flow s" and "plain_retire s" and "\<not> irq_start cfg i s" and "\<not> v4_fetch_error cfg i s"
  shows "v4_plain cfg i s"
proof -
  note f = assms(1) [unfolded v4_flow_def]
  have "\<not> v4_bus_failed cfg i s"
    using f assms(4) by (simp add: v4_bus_failed_def paging_without_mmu_def memory_error_def v4_storebuf_error_def
        storebuf_response_valid_def)
  moreover have "\<not> trap_start s" "\<not> trap_preempt_lockup s" using f by (simp_all add: trap_start_def trap_preempt_lockup_def)
  moreover have "\<not> v4_stop_request s"
    using assms(2) by (auto simp: v4_stop_request_def retire_stage_def plain_retire_def Let_def)
  ultimately show ?thesis using f assms(3)
    by (simp add: v4_plain_def v4_calm_def v4_failing_def entry_start_def vector_failed_def vector_response_valid_def
        v4_walk_error_def walk_response_valid_def vector_translate_lockup_def vector_translate_ready_def
        walk_fault_lockup_def v4_walk_fault_def walk_fault_def)
qed

section \<open>A flowing cycle\<close>

lemma write_no_special: "v4_effect cfg s = E_Write p f pc \<Longrightarrow> \<not> x_special_write_stb (v4_execute_in cfg b s)"
  using gp_opcode_of_code [of GP_SSR]
  by (auto simp: x_effect_def x_special_write_stb_def decode_def top2_of_top3 bslice_def is_alu_def split: if_splits)

lemma flow_sregs:
  assumes "v4_plain cfg i s" and "plain_slot cfg s" and "plain_retire s"
  shows "cpu_control (v4_sregs (v4_tick cfg i s)) = cpu_control (v4_sregs s)"
proof -
  have "\<not> write_stb (v4_special_port cfg s)"
    using assms(2) write_no_special leaves_facts(1) [of cfg s] by (auto simp: special_port_to_retire plain_slot_def v4_leaves_def)
  moreover have "\<not> (r_valid (v4_retire s) \<and> r_cpu_control_write (v4_retire s))"
    using assms(3) by (auto simp: plain_retire_def Let_def)
  ultimately show ?thesis using plain_strobes [OF assms(1)] by (simp add: sregs_tick sr_tick_quiet(1))
qed

lemma sb_idle:
  assumes "\<not> storebuf_any_valid (v4_sb s)" and "\<not> v4_to_storebuf cfg s"
  shows "\<not> storebuf_any_valid (v4_sb (blk_storebuf cfg i s t))"
  using assms
  by (simp add: blk_storebuf_def storebuf_tick_def v4_storebuf_in_def storebuf_any_valid_def storebuf_request_start_def
      storebuf_request_valid_def storebuf_response_valid_def Let_def)

lemma phys_addr_tick:
  assumes "v4_plain cfg i s" and "\<not> v4_paging s" and "\<not> v4_walk_success s"
  shows "v4_fetch_phys_addr (v4_tick cfg i s) =
     (if fetch_translate_complete cfg s then v4_translate_va s
      else case v4_steers cfg i s of Some pc \<Rightarrow> pc | None \<Rightarrow> v4_fetch_phys_addr s)"
  using assms(2,3)
  by (simp add: plain_tick [OF assms(1)] v4_moves_def Let_def steer_plain [OF assms(1)] steer_redirect_pc [OF steers_None]
      blk_walk_def blk_translated_def redirect_fetch_def v4_translate_phys_def split: option.split)

lemma flow_tick:
  assumes "v4_flow s" and "plain_slot cfg s" and "plain_retire s" and "v4_plain cfg i s"
  shows "v4_flow (v4_tick cfg i s)" and "plain_retire (v4_tick cfg i s)"
    and "v4_de (v4_tick cfg i s) =
      (if v4_decode_advance cfg s then de_from_fd cfg s else (v4_de s)\<lparr>de_valid := False\<rparr>)"
    and "v4_retire (v4_tick cfg i s) =
      (if de_valid (v4_de s) then retire_from_execute (de_pc (v4_de s)) (v4_out cfg s)
       else retire_cleared (v4_flags s) (v4_regs s 15))"
    and "v4_fetch_phys_valid (v4_tick cfg i s) =
      (fetch_translate_complete cfg s \<or> v4_steers cfg i s \<noteq> None \<or> v4_fetch_phys_valid s)"
    and "v4_translate_va (v4_tick cfg i s) =
      (case v4_steers cfg i s of Some pc \<Rightarrow> pc | None \<Rightarrow> v4_translate_va s)"
proof -
  note f = assms(1) [unfolded v4_flow_def]
  note S = flow_signals [OF assms(1,2)]
  note P = assms(4)
  have nf: "\<not> trap_request_next s" by (rule flow_no_fault [OF assms(1,3)])
  have ns: "\<not> v4_walk_success s" using f by (simp add: v4_walk_success_def walk_leaf_success_def)
  have mr: "\<not> mr_valid (v4_mr s)" using f by blast
  show de: "v4_de (v4_tick cfg i s) =
      (if v4_decode_advance cfg s then de_from_fd cfg s else (v4_de s)\<lparr>de_valid := False\<rparr>)"
    using S by (cases "v4_de s") (simp add: de_tick [OF P])
  show ret: "v4_retire (v4_tick cfg i s) =
      (if de_valid (v4_de s) then retire_from_execute (de_pc (v4_de s)) (v4_out cfg s)
       else retire_cleared (v4_flags s) (v4_regs s 15))"
    using S mr by (simp add: retire_tick [OF P])
  show va: "v4_translate_va (v4_tick cfg i s) = (case v4_steers cfg i s of Some pc \<Rightarrow> pc | None \<Rightarrow> v4_translate_va s)"
    using S by (simp add: translate_va_tick [OF P])
  show pv: "v4_fetch_phys_valid (v4_tick cfg i s) =
      (fetch_translate_complete cfg s \<or> v4_steers cfg i s \<noteq> None \<or> v4_fetch_phys_valid s)"
    using f ns by (auto simp: phys_valid_tick [OF P])
  show "plain_retire (v4_tick cfg i s)"
    using plain_slot_out [OF assms(2)] by (auto simp: ret plain_retire_def retire_from_execute_def retire_cleared_def Let_def)
  have "xm_same (v4_xm (v4_tick cfg i s)) (xm_moved cfg i s)" by (rule xm_tick [OF P])
  then have x: "\<not> m_valid (v4_xm (v4_tick cfg i s))"
    using xm_same_fields [of "v4_xm (v4_tick cfg i s)" "xm_moved cfg i s"] S f by (simp add: xm_moved_def Let_def)
  have m: "\<not> mr_valid (v4_mr (v4_tick cfg i s))" using S by (simp add: mr_next(1) [OF P])
  have w: "v4_walker (v4_tick cfg i s) = v4_walker s"
    using f S by (simp add: walker_tick [OF plain_calm [OF P]] walk_started_by_def)
  have b: "\<not> storebuf_any_valid (v4_sb (v4_tick cfg i s))"
    using f S sb_idle by (simp add: plain_tick [OF P] calm_stopped [OF plain_calm [OF P]] v4_moves_def Let_def)
  have c: "\<not> v4_paging (v4_tick cfg i s)" using f flow_sregs [OF P assms(2,3)] by (simp add: v4_paging_def)
  have st: "\<not> v4_stopped (v4_tick cfg i s)" using stopped_tick [of s cfg i] P by (simp add: v4_plain_def v4_calm_def)
  show "v4_flow (v4_tick cfg i s)"
    using f nf x m w b c st fault_tick [of cfg i s] P reset_pending_tick [of cfg i s] plain_vec [OF P]
    by (auto simp: v4_flow_def v4_plain_def v4_calm_def pv va split: option.splits)
qed

section \<open>A small program\<close>

text \<open>\<open>LDI R1, 5\<close> and \<open>STOP\<close> (with R1 in its unused operand field), read from the line at address 0; the bus answers in the fourth cycle.\<close>

definition no_input :: v4_in where
  "no_input = \<lparr>vi_i_ack = False, vi_i_err = False, vi_i_dat_r = 0, vi_d_ack = False, vi_d_err = False,
     vi_d_dat_r = 0, vi_irq_lines = 0, vi_boot_r1 = 0, vi_boot_r13 = 0\<rparr>"

definition line_input :: v4_in where "line_input = no_input\<lparr>vi_i_ack := True, vi_i_dat_r := 0xDF018051\<rparr>"
definition error_input :: v4_in where "error_input = no_input\<lparr>vi_i_err := True\<rparr>"

definition demo :: "v4_in list \<Rightarrow> v4_core" where
  "demo is = fold (v4_tick plain_config) is (v4_reset plain_config)"

lemma demo_reachable: "v4_reachable plain_config (demo is)"
proof (induction "is" rule: rev_induct)
  case Nil
  show ?case by (simp add: demo_def v4_reachable.reset)
next
  case (snoc i "is")
  then show ?case by (simp add: demo_def v4_reachable.tick)
qed

lemma demo_snoc: "demo (is @ [i]) = v4_tick plain_config i (demo is)"
  by (simp add: demo_def)

text \<open>The registers a fetching state of the program is described by.\<close>

definition fetching :: "v4_core \<Rightarrow> u64 \<Rightarrow> bool \<Rightarrow> frontend \<Rightarrow> bool" where
  "fetching s pc pv f \<longleftrightarrow> v4_flow s \<and> cpu_control (v4_sregs s) = 0 \<and> v4_fetch_pc s = pc \<and> v4_fetch_phys_addr s = pc \<and>
     v4_translate_va s = pc \<and> v4_fetch_phys_valid s = pv \<and> v4_frontend s = f"

lemma front_unit: "v4_frontend (v4_tick cfg i s) = frontend_tick (v4_timeout cfg) v4_index_bits (v4_fetch_in cfg i s) (v4_frontend s)"
  by (simp add: v4_tick_def v4_units_def Let_def)

lemma no_irq: "cpu_control (v4_sregs s) = 0 \<Longrightarrow> \<not> irq_start cfg i s"
  by (simp add: irq_start_def)

lemma fetching_tick:
  assumes "fetching s pc pv f" and "plain_slot cfg s" and "plain_retire s" and "\<not> v4_fetch_error cfg i s"
    and "bit pc 0 = False"
  shows "v4_plain cfg i s"
    and "fetching (v4_tick cfg i s) (case v4_steers cfg i s of Some pc' \<Rightarrow> pc' | None \<Rightarrow> pc)
      (pv \<or> fetch_translate_complete cfg s \<or> v4_steers cfg i s \<noteq> None)
      (frontend_tick (v4_timeout cfg) v4_index_bits (v4_fetch_in cfg i s) f)"
    and "plain_retire (v4_tick cfg i s)"
proof -
  note f = assms(1) [unfolded fetching_def]
  show p: "v4_plain cfg i s" using flow_plain [OF _ assms(3) no_irq assms(4)] f by blast
  note T = flow_tick [OF _ assms(2,3) p]
  have np: "\<not> v4_paging s" "\<not> v4_walk_success s"
    using f by (simp_all add: v4_flow_def v4_walk_success_def walk_leaf_success_def)
  have c: "\<not> pv" if "fetch_translate_complete cfg s"
    using that f by (simp add: fetch_translate_complete_def fetch_translate_ready_def)
  have st: "v4_steers cfg i s = None" if "fetch_translate_complete cfg s"
    using that flow_signals [OF _ assms(2)] f advance_facts(1) [of cfg s] accept_facts(5) [of cfg i s] flush_facts(3) [of cfg s]
    by (auto simp: v4_steers_def fetch_translate_complete_def fetch_translate_ready_def)
  show "fetching (v4_tick cfg i s) (case v4_steers cfg i s of Some pc' \<Rightarrow> pc' | None \<Rightarrow> pc)
      (pv \<or> fetch_translate_complete cfg s \<or> v4_steers cfg i s \<noteq> None)
      (frontend_tick (v4_timeout cfg) v4_index_bits (v4_fetch_in cfg i s) f)"
    using T(1,5,6) f st flow_sregs [OF p assms(2,3)]
    by (auto simp: fetching_def front_unit fetch_pc_tick [OF p] phys_addr_tick [OF p np] split: option.split)
  show "plain_retire (v4_tick cfg i s)" using T(2) f by blast
qed

lemma plain_timeout: "v4_timeout plain_config = 1024"
  by (simp add: v4_timeout_def plain_config_def default_config_def DEFAULT_BUS_TIMEOUT_CYCLES_def)

lemma empty_slot: "\<not> de_valid (v4_de s) \<Longrightarrow> plain_slot cfg s" by (simp add: plain_slot_def)
lemma empty_retire: "\<not> r_valid (v4_retire s) \<Longrightarrow> plain_retire s" by (simp add: plain_retire_def Let_def)

definition fetch_cycle :: "u64 \<Rightarrow> bool \<Rightarrow> v4_in \<Rightarrow> fe_in" where
  "fetch_cycle pc drop_all i = \<lparr>fe_pc = pc, fe_invalidate = drop_all, fe_update = None, fe_ack = vi_i_ack i, fe_err = vi_i_err i,
     fe_dat_r = vi_i_dat_r i\<rparr>"

lemma fetch_in_empty:
  assumes "\<not> m_valid (v4_xm s)"
  shows "fe_update (v4_fetch_in cfg i s) = None" "\<not> frontend_store_invalidate cfg i s"
  using assms by (simp_all add: v4_fetch_in_def frontend_line_update_valid_def frontend_store_invalidate_def v4_store_done_def
      memory_to_retire_def port_def)

lemma fetch_in_flow:
  assumes "fetching s pc pv f" and "plain_slot cfg s"
  shows "v4_fetch_in cfg i s = fetch_cycle pc (v4_mispredict cfg s \<or> \<not> pv) i"
    "v4_fetch_bus i s = fetch_cycle pc False i"
proof -
  have f: "v4_flow s" "cpu_control (v4_sregs s) = 0" "v4_fetch_phys_addr s = pc" "v4_fetch_phys_valid s = pv"
    using assms(1) by (simp_all add: fetching_def)
  have m: "\<not> m_valid (v4_xm s)" "\<not> w_active (v4_walker s)" "\<not> trap_start s"
    using f(1) by (simp_all add: v4_flow_def trap_start_def)
  show "v4_fetch_bus i s = fetch_cycle pc False i" using f by (simp add: v4_fetch_bus_def fetch_cycle_def)
  show "v4_fetch_in cfg i s = fetch_cycle pc (v4_mispredict cfg s \<or> \<not> pv) i"
    using flow_signals [OF f(1) assms(2)] m f no_irq [OF f(2)] fetch_in_empty(1) [OF m(1)] fetch_in_empty(2) [OF m(1), of cfg i]
    by (simp add: v4_fetch_in_def v4_fetch_bus_def fetch_cycle_def)
qed

lemmas front_defs = frontend_tick_def observe_line_def start_request_def release_request_def cancel_request_def cache_write_def
  write_line_def next_valid_def next_fe_watchdog_def fe_watchdog_fire_def fe_effective_err_def answered_request_def promote_def
  instruction_valid_def line_hit_def line_cached_def prefetch_hit_def selected_line_def prefetch_needed_def next_line_hit_def
  fetch_cycle_def

lemma front_flush: "frontend_tick N ib (fetch_cycle pc True i) frontend_reset = frontend_reset"
  by (simp add: front_defs frontend_reset_def Let_def)

definition front_asked :: frontend where
  "front_asked = frontend_reset\<lparr>req_valid := True\<rparr>"
definition front_line :: "(u64 \<times> bool) option \<Rightarrow> bool \<Rightarrow> frontend" where
  "front_line r lv = frontend_reset\<lparr>fe_valid := (\<lambda>_. False)(0 := True), fe_data := (\<lambda>_. 0)(0 := 0xDF018051),
     req_valid := (r \<noteq> None), req_base := (case r of Some (b, p) \<Rightarrow> b | None \<Rightarrow> 0), req_prefetch := (case r of Some (b, p) \<Rightarrow> p | None \<Rightarrow> False),
     fe_line_valid := lv, fe_line_data := (if lv then 0xDF018051 else 0)\<rparr>"

lemma zero_line: "line_base 0 = 0" "line_of 0 = 0" "cache_index ib 0 = 0" "tag_of ib 0 = 0"
  by (simp_all add: line_base_def line_of_def cache_index_def tag_of_def bslice_def)

lemma front_ask: "frontend_tick 1024 4 (fetch_cycle 0 False no_input) frontend_reset = front_asked"
  by (simp add: front_defs frontend_reset_def front_asked_def Let_def zero_line no_input_def)
lemma front_answer: "frontend_tick 1024 4 (fetch_cycle 0 False line_input) front_asked = front_line None False"
  by (simp add: front_defs frontend_reset_def front_asked_def front_line_def Let_def zero_line no_input_def line_input_def fun_eq_iff)
lemma front_first: "frontend_tick 1024 4 (fetch_cycle 0 False no_input) (front_line None False) = front_line None True"
  by (simp add: front_defs frontend_reset_def front_asked_def front_line_def Let_def zero_line no_input_def bslice_def)

lemma demo_1: "fetching (demo [no_input]) 0 False frontend_reset \<and> pipeline_empty (demo [no_input])"
proof -
  let ?s = "v4_reset plain_config"
  have e: "\<not> de_valid (v4_de ?s)" "\<not> r_valid (v4_retire ?s)" "cpu_control (v4_sregs ?s) = 0" "v4_reset_pending ?s"
    "\<not> vector_active (v4_vec ?s)" "\<not> fault_pending (v4_flt ?s)" "\<not> v4_fetch_phys_valid ?s" "v4_frontend ?s = frontend_reset"
    "\<not> m_valid (v4_xm ?s)" "\<not> w_processing (v4_walker ?s)" "v4_translate_va ?s = 0"
    by (simp_all add: v4_reset_def retire_cleared_def xm_cleared_def walk_idle_def sr_reset_def v4_reset_vector_def plain_config_def default_config_def Let_def)
  have w: "\<not> write_stb (v4_special_port plain_config ?s)"
    using e(1) leaves_facts(1) [of plain_config ?s] by (auto simp: special_port_to_retire v4_leaves_def)
  have en: "\<not> entry_start plain_config no_input ?s"
    using e by (simp add: entry_start_def trap_start_def no_irq)
  have c: "cpu_control (v4_sregs (v4_tick plain_config no_input ?s)) = 0"
    using e w en by (simp add: sregs_tick sr_tick_quiet(1) v4_strobes_def retire_stage_def port_def vector_done_def
        vector_response_valid_def Let_def)
  have i: "v4_fetch_in plain_config no_input ?s = fetch_cycle (v4_fetch_phys_addr ?s) True no_input"
    using fetch_in_empty(1) [OF e(9), of plain_config no_input] e(7) by (simp add: v4_fetch_in_def v4_fetch_bus_def fetch_cycle_def)
  have f: "v4_frontend (v4_tick plain_config no_input ?s) = frontend_reset"
    using e(8) by (simp add: front_unit i front_flush)
  have p: "\<not> v4_paging ?s" using e(3) by (simp add: v4_paging_def)
  have "\<not> trap_request_next ?s"
    using e p by (simp add: trap_request_next_def retire_stage_def port_def fetch_fault_def v4_translate_bad_def memory_fault_def
        memory_translate_ready_def walk_fault_trap_def v4_walk_fault_def walk_fault_def)
  then have nf: "\<not> fault_pending (v4_flt (v4_tick plain_config no_input ?s))" using fault_tick [OF en] by blast
  show ?thesis
    using c f nf e(4)
    by (simp add: demo_def fetching_def v4_flow_def v4_paging_def v4_stopped_def pipeline_empty_def)
      (simp add: v4_tick_def v4_boot_def v4_reset_def walk_idle_def xm_cleared_def retire_cleared_def storebuf_reset_def
        storebuf_any_valid_def v4_reset_vector_def plain_config_def default_config_def Let_def)
qed

lemma empty_flow:
  assumes "fetching s pc pv f" and "pipeline_empty s"
  shows "plain_slot cfg s" "plain_retire s" "\<not> v4_decode_advance cfg s" "\<not> v4_mispredict cfg s"
    "fetch_accept cfg i s = (pv \<and> instruction_valid v4_index_bits (fetch_cycle pc False i) f)"
    "v4_steers cfg i s = (if fetch_accept cfg i s then Some (pc + 2) else None)"
    "fetch_translate_complete cfg s = (\<not> pv \<and> \<not> bit pc 0)"
proof -
  note e = assms(2) [unfolded pipeline_empty_def]
  show p: "plain_slot cfg s" and "plain_retire s" using e by (simp_all add: empty_slot empty_retire)
  note f = assms(1) [unfolded fetching_def] and b = fetch_in_flow(2) [OF assms(1) p]
  have fl: "v4_flow s" using f by blast
  note S = flow_signals [OF fl p]
  show a: "\<not> v4_decode_advance cfg s" and "\<not> v4_mispredict cfg s" using e by (simp_all add: v4_decode_advance_def v4_mispredict_def Let_def)
  have pr: "\<not> v4_predict_redirect cfg s" using e by (simp add: v4_predict_redirect_def)
  show "fetch_accept cfg i s = (pv \<and> instruction_valid v4_index_bits (fetch_cycle pc False i) f)"
    using S e f fl pr by (simp add: fetch_accept_def b trap_start_def v4_flow_def)
  show "v4_steers cfg i s = (if fetch_accept cfg i s then Some (pc + 2) else None)"
    using S e f pr by (simp add: v4_steers_def)
  show "fetch_translate_complete cfg s = (\<not> pv \<and> \<not> bit pc 0)"
    using S e f fl by (auto simp: fetch_translate_complete_def fetch_translate_ready_def v4_flow_def v4_bus_free_def)
qed

lemma fetch_error_flow:
  assumes "fetching s pc pv f" and "plain_slot cfg s"
  shows "v4_fetch_error cfg i s = (fe_fetch_error (v4_timeout cfg) (fetch_cycle pc False i) f \<and> \<not> v4_mispredict cfg s)"
  using assms(1) fetch_in_flow(2) [OF assms] flow_signals(11) [OF _ assms(2)] by (simp add: v4_fetch_error_def fetching_def)

text \<open>A cycle with nothing in the pipeline.\<close>

lemma empty_tick:
  assumes "fetching s pc pv f" and "pipeline_empty s" and "\<not> bit pc 0" and "\<not> fe_fetch_error (v4_timeout cfg) (fetch_cycle pc False i) f"
  shows "fetching (v4_tick cfg i s) (if fetch_accept cfg i s then pc + 2 else pc) True
      (frontend_tick (v4_timeout cfg) v4_index_bits (fetch_cycle pc (\<not> pv) i) f)"
    and "v4_fd (v4_tick cfg i s) = (if fetch_accept cfg i s then
        \<lparr>fd_valid = True, fd_instruction = fetched_word v4_index_bits (fetch_cycle pc False i) f, fd_pc = pc, fd_post_increment_pc = pc + 2\<rparr>
       else v4_fd s)"
    and "\<not> de_valid (v4_de (v4_tick cfg i s))" and "\<not> r_valid (v4_retire (v4_tick cfg i s))"
    and "\<not> m_valid (v4_xm (v4_tick cfg i s))" and "\<not> mr_valid (v4_mr (v4_tick cfg i s))"
proof -
  note E = empty_flow [OF assms(1,2)] and e = assms(2) [unfolded pipeline_empty_def]
  have fe: "\<not> v4_fetch_error cfg i s" using fetch_error_flow [OF assms(1) E(1)] assms(4) by blast
  note F = fetching_tick [OF assms(1) E(1,2) fe] 
  have b: "bit pc 0 = False" using assms(3) by simp
  note P = F(1) [OF b]
  have fl: "v4_flow s" "v4_fetch_pc s = pc" using assms(1) by (simp_all add: fetching_def)
  note S = flow_signals [OF fl(1) E(1)] and T = flow_tick [OF fl(1) E(1,2) P]
  show "fetching (v4_tick cfg i s) (if fetch_accept cfg i s then pc + 2 else pc) True
      (frontend_tick (v4_timeout cfg) v4_index_bits (fetch_cycle pc (\<not> pv) i) f)"
    using F(2) [OF b] E(3-7) fetch_in_flow(1) [OF assms(1) E(1)] assms(3) by (auto split: if_splits)
  show "v4_fd (v4_tick cfg i s) = (if fetch_accept cfg i s then
        \<lparr>fd_valid = True, fd_instruction = fetched_word v4_index_bits (fetch_cycle pc False i) f, fd_pc = pc, fd_post_increment_pc = pc + 2\<rparr>
       else v4_fd s)"
    using S E e assms(1) fetch_in_flow(2) [OF assms(1) E(1)] by (simp add: fd_tick [OF P] fd_fetched_def fetching_def)
  show "\<not> de_valid (v4_de (v4_tick cfg i s))" "\<not> r_valid (v4_retire (v4_tick cfg i s))"
    using T(3,4) E(3) e by (simp_all add: retire_cleared_def)
  show "\<not> m_valid (v4_xm (v4_tick cfg i s))" "\<not> mr_valid (v4_mr (v4_tick cfg i s))"
    using T(1) by (simp_all add: v4_flow_def)
qed

lemma empty_stays:
  assumes "fetching s pc pv f" and "pipeline_empty s" and "\<not> bit pc 0" and "\<not> fe_fetch_error (v4_timeout cfg) (fetch_cycle pc False i) f"
    and "\<not> (pv \<and> instruction_valid v4_index_bits (fetch_cycle pc False i) f)"
  shows "fetching (v4_tick cfg i s) pc True (frontend_tick (v4_timeout cfg) v4_index_bits (fetch_cycle pc (\<not> pv) i) f)"
    and "pipeline_empty (v4_tick cfg i s)"
proof -
  note T = empty_tick [OF assms(1-4)] and A = empty_flow(5) [OF assms(1,2), of cfg i]
  show "fetching (v4_tick cfg i s) pc True (frontend_tick (v4_timeout cfg) v4_index_bits (fetch_cycle pc (\<not> pv) i) f)"
    using T(1) A assms(5) by simp
  show "pipeline_empty (v4_tick cfg i s)" using T(2-6) A assms(2,5) by (simp add: pipeline_empty_def)
qed

lemma no_fetch_error: "\<not> vi_i_err i \<Longrightarrow> fe_watchdog f \<noteq> N \<Longrightarrow> \<not> fe_fetch_error N (fetch_cycle pc b i) f"
  by (simp add: fe_fetch_error_def fe_effective_err_def fe_watchdog_fire_def fetch_cycle_def)

lemmas demo_front_defs = no_fetch_error plain_timeout v4_index_bits_def no_input_def line_input_def
  frontend_reset_def front_asked_def front_line_def

lemma reset_no_instruction:
  "\<not> instruction_valid ib (fetch_cycle pc b i) frontend_reset" "\<not> instruction_valid ib (fetch_cycle pc b i) front_asked"
  by (simp_all add: instruction_valid_def line_hit_def line_cached_def prefetch_hit_def frontend_reset_def front_asked_def)

lemma demo_2: "fetching (demo [no_input, no_input]) 0 True frontend_reset \<and> pipeline_empty (demo [no_input, no_input])"
  using empty_stays [OF conjunct1 [OF demo_1] conjunct2 [OF demo_1], of plain_config no_input] demo_snoc [of "[no_input]" no_input]
  by (simp add: demo_front_defs(1) front_flush) (simp add: demo_front_defs)


lemma demo_step:
  assumes "fetching (demo is) pc pv f \<and> pipeline_empty (demo is)" and "\<not> bit pc 0" and "\<not> vi_i_err i" and "fe_watchdog f \<noteq> 1024"
    and "\<not> (pv \<and> instruction_valid 4 (fetch_cycle pc False i) f)"
  shows "fetching (demo (is @ [i])) pc True (frontend_tick 1024 4 (fetch_cycle pc (\<not> pv) i) f) \<and> pipeline_empty (demo (is @ [i]))"
proof -
  have "\<not> fe_fetch_error (v4_timeout plain_config) (fetch_cycle pc False i) f"
    using no_fetch_error [OF assms(3)] assms(4) by (simp add: plain_timeout)
  then show ?thesis
    using empty_stays [of "demo is" pc pv f plain_config i] assms by (simp add: demo_snoc plain_timeout v4_index_bits_def)
qed

lemma input_fields: "\<not> vi_i_err no_input" "\<not> vi_i_err line_input" "fe_watchdog frontend_reset = 0" "fe_watchdog front_asked = 0"
  "fe_watchdog (front_line r lv) = 0"
  by (simp_all add: no_input_def line_input_def frontend_reset_def front_asked_def front_line_def)

abbreviation "wait n \<equiv> replicate n no_input"

lemma demo_3: "fetching (demo (wait 3)) 0 True front_asked \<and> pipeline_empty (demo (wait 3))"
proof -
  have "fetching (demo [no_input, no_input]) 0 True frontend_reset \<and> pipeline_empty (demo [no_input, no_input])"
    using demo_step [OF demo_1, of no_input] by (simp add: input_fields front_flush)
  from demo_step [OF this, of no_input] show ?thesis
    by (simp add: input_fields reset_no_instruction front_ask numeral_3_eq_3)
qed

text \<open>An answer with an error stops the core.\<close>

lemma demo_error: "v4_stopped (demo (wait 3 @ [error_input]))"
proof -
  let ?s = "demo (wait 3)"
  have f: "fetching ?s 0 True front_asked" and e: "pipeline_empty ?s" using demo_3 by blast+
  have "v4_fetch_error plain_config error_input ?s"
    using fetch_error_flow [OF f empty_flow(1) [OF f e]] empty_flow(4) [OF f e]
    by (simp add: fe_fetch_error_def fe_effective_err_def fetch_cycle_def front_asked_def frontend_reset_def error_input_def)
  then have "v4_failing plain_config error_input ?s" by (simp add: v4_failing_def v4_bus_failed_def)
  moreover have "\<not> v4_reset_pending ?s" using f by (simp add: fetching_def v4_flow_def)
  ultimately show ?thesis unfolding demo_snoc by (metis stopped_tick)
qed

definition program_run :: "v4_in list" where "program_run = wait 3 @ [line_input]"

lemma demo_4: "fetching (demo program_run) 0 True (front_line None False) \<and> pipeline_empty (demo program_run)"
  using demo_step [OF demo_3, of line_input] by (simp add: program_run_def input_fields reset_no_instruction front_answer)

lemma line_valid: "instruction_valid 4 (fetch_cycle 0 b i) (front_line r lv)" "instruction_valid 4 (fetch_cycle 2 b i) (front_line r lv)"
  "fetched_word 4 (fetch_cycle 0 b i) (front_line r lv) = 0x8051" "fetched_word 4 (fetch_cycle 2 b i) (front_line r lv) = 0xDF01"
  by (simp_all add: instruction_valid_def line_hit_def line_cached_def fetched_word_def selected_line_def prefetch_hit_def
      fetch_cycle_def front_line_def frontend_reset_def instruction_word_def line_base_def line_of_def cache_index_def tag_of_def bslice_def)

lemma demo_5:
  "let s = demo (program_run @ wait 1) in fetching s 2 True (front_line None True) \<and> \<not> de_valid (v4_de s) \<and> \<not> r_valid (v4_retire s) \<and>
     v4_fd s = \<lparr>fd_valid = True, fd_instruction = 0x8051, fd_pc = 0, fd_post_increment_pc = 2\<rparr>"
proof -
  have f: "fetching (demo program_run) 0 True (front_line None False)" and e: "pipeline_empty (demo program_run)" using demo_4 by blast+
  have "\<not> fe_fetch_error (v4_timeout plain_config) (fetch_cycle 0 False no_input) (front_line None False)"
    by (simp add: no_fetch_error input_fields plain_timeout)
  note T = empty_tick [OF f e _ this] and A = empty_flow(5) [OF f e, of plain_config no_input]
  show ?thesis using T A by (simp add: demo_snoc Let_def line_valid v4_index_bits_def front_first plain_timeout)
qed

text \<open>With nothing in the memory stages and a plain instruction, or none, in the execute slot, decode advances.\<close>

lemma flow_advance:
  assumes "v4_flow s" and "plain_slot cfg s"
  shows "v4_decode_advance cfg s = (fd_valid (v4_fd s) \<and> \<not> v4_mispredict cfg s)"
proof -
  have "\<not> load_use_hazard (v4_decode cfg s)"
    using plain_slot_out(1) [OF assms(2)] assms(1)
    by (auto simp: load_use_hazard_def hazard_def v4_decode_def wire_decode_def v4_flow_def)
  then show ?thesis using flow_signals [OF assms] by (simp add: v4_decode_advance_def)
qed

lemma decode_ldi: "decode 0x8051 = I_LDI 0 5 1"
  by (simp add: decode_def instruction_field_defs bslice_def)

lemma fd_de: "de_instruction (de_from_fd cfg s) = fd_instruction (v4_fd s)" "de_pc (de_from_fd cfg s) = fd_pc (v4_fd s)"
  "de_valid (de_from_fd cfg s)" "de_post_increment_pc (de_from_fd cfg s) = fd_post_increment_pc (v4_fd s)"
  "de_predicted_next_pc (de_from_fd cfg s) = predicted_next_pc (fd_instruction (v4_fd s)) (fd_pc (v4_fd s))"
  by (simp_all add: de_from_fd_def v4_predicted_next_pc_def Let_def)

lemma ldi_predicted: "predicted_next_pc 0x8051 0 = 2" "\<not> is_branch 0x8051"
  by (simp_all add: predicted_next_pc_def is_branch_def p_ujmp_def p_cond_branch_def instruction_field_defs bslice_def)

lemma demo_6:
  "let s = demo (program_run @ wait 2) in v4_flow s \<and> cpu_control (v4_sregs s) = 0 \<and> \<not> r_valid (v4_retire s) \<and>
     de_valid (v4_de s) \<and> de_instruction (v4_de s) = 0x8051 \<and> de_pc (v4_de s) = 0 \<and> de_post_increment_pc (v4_de s) = 2 \<and>
     fe_watchdog (v4_frontend s) = 0"
proof -
  let ?s = "demo (program_run @ wait 1)"
  have d: "demo (program_run @ wait 2) = v4_tick plain_config no_input ?s"
    by (simp add: demo_def numeral_2_eq_2)
  have f: "fetching ?s 2 True (front_line None True)" and e: "\<not> de_valid (v4_de ?s)" "\<not> r_valid (v4_retire ?s)"
    "v4_fd ?s = \<lparr>fd_valid = True, fd_instruction = 0x8051, fd_pc = 0, fd_post_increment_pc = 2\<rparr>"
    using demo_5 by (simp_all add: Let_def)
  have fl: "v4_flow ?s" using f by (simp add: fetching_def)
  have m: "\<not> v4_mispredict plain_config ?s" using e(1) by (simp add: v4_mispredict_def Let_def)
  note adv = flow_advance [OF fl empty_slot [OF e(1)], of plain_config]
  have "\<not> v4_fetch_error plain_config no_input ?s"
    using fetch_error_flow [OF f empty_slot [OF e(1)], of plain_config no_input]
    by (simp add: no_fetch_error input_fields plain_timeout)
  note F = fetching_tick [OF f empty_slot [OF e(1)] empty_retire [OF e(2)] this]
  have P: "v4_plain plain_config no_input ?s" using F(1) by simp
  note T = flow_tick [OF fl empty_slot [OF e(1)] empty_retire [OF e(2)] P]
  have w: "fe_watchdog (frontend_tick 1024 4 (fetch_cycle 2 False no_input) (front_line None True)) = 0"
    by (simp add: frontend_tick_def observe_line_def start_request_def release_request_def cancel_request_def write_line_def
        next_fe_watchdog_def front_line_def frontend_reset_def Let_def split: option.split)
  show ?thesis
    using T(1,3,4) F(2) adv m e fetch_in_flow(1) [OF f empty_slot [OF e(1)], of plain_config no_input] w
    by (simp add: d Let_def fd_de retire_cleared_def fetching_def plain_timeout v4_index_bits_def)
qed

text \<open>Behind it, \<open>STOP\<close> has been fetched.\<close>

lemma accepted_fetched:
  "v4_plain cfg i s \<Longrightarrow> fetch_accept cfg i s \<Longrightarrow> v4_fd (v4_tick cfg i s) = fd_fetched i s"
  using accept_facts(1) [of cfg i s] by (simp add: fd_tick)

lemma demo_6_fetched: "let s = demo (program_run @ wait 2) in fd_valid (v4_fd s) \<and> fd_instruction (v4_fd s) = 0xDF01"
proof -
  let ?s = "demo (program_run @ wait 1)"
  have d: "demo (program_run @ wait 2) = v4_tick plain_config no_input ?s"
    by (simp add: demo_def numeral_2_eq_2)
  have f: "fetching ?s 2 True (front_line None True)" and e: "\<not> de_valid (v4_de ?s)" "\<not> r_valid (v4_retire ?s)"
    "v4_fd ?s = \<lparr>fd_valid = True, fd_instruction = 0x8051, fd_pc = 0, fd_post_increment_pc = 2\<rparr>"
    using demo_5 by (simp_all add: Let_def)
  have fl: "v4_flow ?s" using f by (simp add: fetching_def)
  have m: "\<not> v4_mispredict plain_config ?s" using e(1) by (simp add: v4_mispredict_def Let_def)
  note adv = flow_advance [OF fl empty_slot [OF e(1)], of plain_config]
  have "\<not> v4_fetch_error plain_config no_input ?s"
    using fetch_error_flow [OF f empty_slot [OF e(1)], of plain_config no_input]
    by (simp add: no_fetch_error input_fields plain_timeout)
  note F = fetching_tick(1) [OF f empty_slot [OF e(1)] empty_retire [OF e(2)] this]
  have P: "v4_plain plain_config no_input ?s" using F by simp
  note S = flow_signals [OF fl empty_slot [OF e(1)]] and b = fetch_in_flow(2) [OF f empty_slot [OF e(1)], of no_input]
  have "\<not> v4_predict_redirect plain_config t" if "fd_instruction (v4_fd t) = 0x8051" for t
    using that by (simp add: v4_predict_redirect_def predict_redirect_def v4_decode_def wire_decode_def is_branch_def p_ujmp_def
        p_cond_branch_def instruction_field_defs bslice_def)
  then have "\<not> v4_predict_redirect plain_config ?s" using e(3) by simp
  moreover have "v4_fetch_phys_valid ?s" "\<not> vector_active (v4_vec ?s)" "\<not> trap_start ?s" "v4_frontend ?s = front_line None True"
    using f fl by (simp_all add: fetching_def v4_flow_def trap_start_def)
  ultimately have "fetch_accept plain_config no_input ?s"
    using adv m e(3) S(1,11) unfolding fetch_accept_def b v4_index_bits_def by (metis fd_reg.select_convs(1) line_valid(2))
  then have "v4_fd (v4_tick plain_config no_input ?s) = fd_fetched no_input ?s" by (rule accepted_fetched [OF P])
  moreover have "v4_frontend ?s = front_line None True" using f unfolding fetching_def by blast
  ultimately show ?thesis unfolding d Let_def fd_fetched_def b v4_index_bits_def by (simp add: line_valid)
qed

lemma demo_7:
  "let s = demo (program_run @ wait 3) in \<not> v4_reset_pending s \<and> r_valid (v4_retire s) \<and> r_commit (v4_retire s) \<and>
     v4_to_retire plain_config (demo (program_run @ wait 2)) \<and> v4_plain plain_config no_input (demo (program_run @ wait 2))"
proof -
  let ?s = "demo (program_run @ wait 2)"
  have d: "demo (program_run @ wait 3) = v4_tick plain_config no_input ?s"
    by (simp add: demo_def numeral_2_eq_2 numeral_3_eq_3)
  note f = demo_6 [unfolded Let_def]
  have slot: "plain_slot plain_config ?s" using f by (simp add: plain_slot_def x_effect_def decode_ldi)
  have ret: "plain_retire ?s" using f empty_retire by blast
  have "\<not> v4_fetch_error plain_config no_input ?s"
    using f by (simp add: v4_fetch_error_def fe_fetch_error_def fe_effective_err_def fe_watchdog_fire_def v4_fetch_bus_def
        input_fields plain_timeout)
  then have P: "v4_plain plain_config no_input ?s" using flow_plain [OF _ ret no_irq] f by blast
  have fl: "v4_flow ?s" using f by blast
  note T = flow_tick [OF fl slot ret P]
  have out: "\<not> o_trap (v4_out plain_config ?s)" "\<not> o_halt (v4_out plain_config ?s)" "\<not> o_lockup (v4_out plain_config ?s)"
    using plain_slot_out [OF slot] f by blast+
  show ?thesis using T(4) f out P flow_signals(5) [OF fl slot] reset_pending_tick [of plain_config no_input ?s]
    by (simp add: d Let_def retire_from_execute_def)
qed
section \<open>Examples\<close>

lemma v4_commit_order_witness:
  "let s = demo (program_run @ wait 3); t = v4_tick plain_config no_input s in
     v4_commit_pc t = v4_regs s 15 \<and> v4_regs t 15 = r_next_pc (v4_retire s) \<and> \<not> vector_active (v4_vec s) \<and> \<not> v4_stopped s"
proof -
  note d = demo_7 [unfolded Let_def]
  have "v4_commit_valid (v4_tick plain_config no_input (demo (program_run @ wait 3)))" using commit_tick d by blast
  from v4_commit_order [OF demo_reachable this] show ?thesis using d by (simp only: Let_def) blast
qed

lemma v4_stopped_idle_witness:
  "let s = demo (wait 3 @ [error_input]); t = v4_tick plain_config no_input s in v4_stopped t \<and> pipeline_empty t"
  using v4_stopped_idle [OF demo_reachable demo_error, of no_input] by (simp only: Let_def)

end
