(* ===== verification/V4_Operands.thy ===== *)
theory V4_Operands
  imports V4_Run
begin

text \<open>
  Data hazards of the whole v4 pipeline.  The operands an instruction carries into the
  execute slot, and keeps while it waits there, are the values its registers have once all
  older instructions in flight have been written; the flags too, unless an older
  store-conditional was still on its way when it was decoded.  So what an instruction
  retires is the specified effect on the architectural registers.
\<close>

section \<open>The registers after the older instructions\<close>

text \<open>The register file once the retire latch and the result buffer have been written.\<close>

definition older_regs :: "v4_core \<Rightarrow> regfile" where
  "older_regs s = write_regs (retire_list (v4_retire s) @ mr_list (v4_mr s)) (v4_regs s)"

text \<open>The memory operation in flight will write this register.\<close>

definition xm_pending :: "xm_reg \<Rightarrow> reg_index \<Rightarrow> bool" where
  "xm_pending x r \<longleftrightarrow> m_valid x \<and> (m_reg_write x \<and> m_reg_index x = r \<or> m_post_reg_write x \<and> m_post_reg_index x = r)"

text \<open>What the instruction leaving the execute slot puts into the retire latch.\<close>

definition slot_writes :: "core_config \<Rightarrow> v4_core \<Rightarrow> (reg_index \<times> u64) list" where
  "slot_writes cfg s = (let e = v4_out cfg s in
     if v4_to_storebuf_load cfg s then [(o_memory_reg_index e, storebuf_load_value e (v4_sb s))]
     else if v4_to_retire cfg s \<and> o_reg_write e then [(o_reg_index e, o_reg_value e)] else [])"

lemma write_regs_append: "write_regs (a @ b) rs = write_regs b (write_regs a rs)"
  by (simp add: write_regs_def)

lemma write_regs_zero [simp]: "write_regs ws rs 0 = rs 0"
  by (induction ws arbitrary: rs) (simp_all add: write_regs_def write_port_def split: prod.split)

lemma write_regs_other: "map_of (rev ws) r = None \<Longrightarrow> write_regs ws rs r = rs r"
  by (cases "r = 0") (simp_all add: write_regs_map)

lemma write_regs_cong: "rs r = rs' r \<Longrightarrow> write_regs ws rs r = write_regs ws rs' r"
  by (cases "r = 0") (simp_all add: write_regs_map split: option.split)

lemma retire_regs_list: "r \<noteq> 15 \<Longrightarrow> retire_regs t rs r = write_regs (retire_list t) rs r"
  by (auto simp: retire_regs_def retire_stage_def retire_list_def write_regs_def write_port_def port_def Let_def)

lemma result_untouched:
  assumes "\<not> xm_pending x r" and "m_valid x" and "m_reg_write y = m_reg_write x" and "m_reg_index y = m_reg_index x"
    and "m_post_reg_write y = m_post_reg_write x" and "m_post_reg_index y = m_post_reg_index x"
  shows "r \<noteq> 0 \<Longrightarrow> map_of (rev (mr_list (mr_from_result x (ms_result y l)))) r = None"
  using assms
  by (auto simp: xm_pending_def mr_list_def retire_list_def retire_from_mr_def mr_from_result_def ms_result_def
      ms_result_ports_def Let_def split: if_splits)

section \<open>A cycle moves the writes, not their sum\<close>

lemma retire_list_tick:
  assumes "v4_plain cfg i s"
  shows "retire_list (v4_retire (v4_tick cfg i s)) = (if v4_leaves cfg s \<and> \<not> v4_to_memory cfg s then slot_writes cfg s else mr_list (v4_mr s))"
proof -
  note K = leaves_kind [of cfg s]
  consider (load) "v4_to_storebuf_load cfg s" | (store) "v4_to_storebuf cfg s" | (retire) "v4_to_retire cfg s"
    | (mem) "v4_to_memory cfg s" | (none) "\<not> v4_leaves cfg s" by (auto simp: v4_leaves_def)
  then show ?thesis
  proof cases
    case load
    then have "o_memory_reg_write (v4_out cfg s)" by (simp add: v4_to_storebuf_load_def execute_to_storebuf_load_def v4_dispatch_def)
    then show ?thesis using load K
      by (auto simp: retire_tick [OF assms] v4_leaves_def slot_writes_def retire_list_def retire_from_storebuf_load_def Let_def)
  next
    case store
    then show ?thesis using K
      by (auto simp: retire_tick [OF assms] v4_leaves_def slot_writes_def retire_list_def retire_from_storebuf_def Let_def)
  next
    case retire
    then show ?thesis using K
      by (auto simp: retire_tick [OF assms] v4_leaves_def slot_writes_def retire_list_def retire_from_execute_def Let_def)
  next
    case mem
    then show ?thesis using K
      by (auto simp: retire_tick [OF assms] mr_list_def retire_list_def retire_cleared_def Let_def)
  next
    case none
    then show ?thesis
      by (simp add: retire_tick [OF assms] v4_leaves_def mr_list_def retire_list_def retire_cleared_def Let_def)
  qed
qed

lemma older_regs_tick:
  assumes "v4_plain cfg i s" and "r \<noteq> 0" and "r \<noteq> 15" and "\<not> xm_pending (v4_xm s) r"
  shows "older_regs (v4_tick cfg i s) r = write_regs (slot_writes cfg s) (older_regs s) r"
proof -
  let ?t = "v4_tick cfg i s"
  have regs: "v4_regs ?t r = write_regs (retire_list (v4_retire s)) (v4_regs s) r"
    by (simp add: regs_tick [OF assms(1,2)] retire_regs_list [OF assms(3)])
  have mr: "map_of (rev (mr_list (v4_mr ?t))) r = None"
  proof (cases "memory_to_retire cfg i s")
    case True
    then have "m_valid (v4_xm s)" using memory_exclusive(1) by blast
    then show ?thesis using True result_untouched [OF assms(4) _ _ _ _ _ assms(2)]
      by (simp add: mr_tick [OF assms(1)] v4_memory_result_def v4_stage_xm_def Let_def)
  qed (simp add: mr_tick [OF assms(1)] mr_list_def)
  have "older_regs ?t r = write_regs (retire_list (v4_retire ?t)) (v4_regs ?t) r"
    by (simp add: older_regs_def write_regs_append write_regs_other [OF mr])
  also have "\<dots> = write_regs (slot_writes cfg s) (older_regs s) r"
  proof (cases "v4_leaves cfg s \<and> \<not> v4_to_memory cfg s")
    case True
    then have "mr_list (v4_mr s) = []" using leaves_facts(4) [of cfg s] by (auto simp: mr_list_def)
    then show ?thesis using True regs
      by (simp add: retire_list_tick [OF assms(1)] older_regs_def write_regs_append) (rule write_regs_cong, simp)
  next
    case False
    then have "slot_writes cfg s = []" using leaves_kind [of cfg s] by (auto simp: slot_writes_def v4_leaves_def Let_def)
    then show ?thesis using False regs
      by (simp add: retire_list_tick [OF assms(1)] older_regs_def write_regs_append) (simp add: write_regs_def, metis write_regs_cong write_regs_def)
  qed
  finally show ?thesis .
qed

section \<open>The invariant\<close>

definition slot_current :: "v4_core \<Rightarrow> bool" where
  "slot_current s \<longleftrightarrow> (let d = v4_de s; w = de_instruction d in de_valid d \<longrightarrow>
     (\<forall>r. r \<noteq> 15 \<and> (r = instruction_rd w \<or> r = instruction_rs1 w) \<longrightarrow> (r \<noteq> 0 \<longrightarrow> \<not> xm_pending (v4_xm s) r) \<and>
        (r = instruction_rd w \<longrightarrow> de_operand_a d = older_regs s r) \<and>
        (r = instruction_rs1 w \<longrightarrow> de_operand_b d = older_regs s r)))"

definition v4_current :: "core_config \<Rightarrow> v4_core \<Rightarrow> bool" where
  "v4_current cfg s \<longleftrightarrow> v4_regs s 0 = 0 \<and> ports_ok (v4_out cfg s) (v4_xm s) (v4_mr s) (v4_retire s) \<and> slot_current s"

lemma stage_ports: "stage_effect i r e \<Longrightarrow> \<not> (o_memory_write e \<and> o_memory_reg_write e)"
proof -
  assume e: "stage_effect i r e"
  have "requests i p f pc e \<Longrightarrow> \<not> o_memory_write e" for p f pc
  proof -
    assume "requests i p f pc e"
    then have "e = (exec_default i)\<lparr>o_reg_write := o_reg_write e, o_reg_value := o_reg_value e,
      o_flags_write := o_flags_write e, o_flags_value := o_flags_value e, o_next_pc := pc\<rparr>" by (simp add: requests_def)
    from arg_cong [OF this, of o_memory_write] show ?thesis by (simp add: exec_default_def)
  qed
  then show ?thesis using e ports_issue(3) by (cases r) (auto simp: out_defs exec_default_def)
qed

lemma out_ports: "\<not> (o_memory_write (v4_out cfg s) \<and> o_memory_reg_write (v4_out cfg s))"
proof (cases "de_valid (v4_de s)")
  case True
  then show ?thesis using stage_ports [OF v3_execute_spec [of "v4_x cfg s"]] by (simp add: v4_out_def)
qed (simp add: v4_out_def v3_execute_def exec_default_def)

lemma empty_current: "pipeline_empty s \<Longrightarrow> v4_regs s 0 = 0 \<Longrightarrow> v4_current cfg s"
  by (simp add: v4_current_def ports_ok_def out_ports slot_current_def pipeline_empty_def)

lemma regs_0_tick: "v4_regs s 0 = 0 \<Longrightarrow> v4_regs (v4_tick cfg i s) 0 = 0"
proof (cases "v4_reset_pending s")
  case True
  then show "v4_regs s 0 = 0 \<Longrightarrow> ?thesis" by (simp add: v4_tick_def v4_boot_def)
next
  case False
  have "retire_regs (v4_retire s) rs 0 = rs 0" for rs
    by (simp add: retire_regs_list)
  then show "v4_regs s 0 = 0 \<Longrightarrow> ?thesis"
    by (simp add: v4_tick_moves [OF False] blk_stopped_def clear_pipeline_def blk_vector_done_def v4_moves_def redirect_fetch_def
        blk_writeback_def lock_up_def Let_def split: option.split)
qed

lemma xm_fields_moved:
  assumes "xm_same x y"
  shows "m_reg_write x = m_reg_write y" "m_reg_index x = m_reg_index y" "m_post_reg_write x = m_post_reg_write y"
    "m_post_reg_index x = m_post_reg_index y" "m_write x = m_write y" "m_valid x = m_valid y"
    "m_flags_write x = m_flags_write y"
  using assms by (cases x; cases y; simp add: xm_same_def)+

lemma xm_pending_tick:
  assumes "v4_plain cfg i s" and "latches_ok s" and "xm_pending (v4_xm (v4_tick cfg i s)) r"
  shows "if v4_to_memory cfg s then xm_pending (xm_issue False 0 (v4_out cfg s)) r else r = 0 \<or> xm_pending (v4_xm s) r"
proof -
  note M = xm_fields_moved [OF xm_tick [OF assms(1)]] and E = plain_no_error [OF assms(1)]
  have p: "xm_pending (xm_moved cfg i s) r" using assms(3) by (simp add: xm_pending_def M)
  have rd: "v4_redirect s \<Longrightarrow> \<not> m_valid (v4_xm s)"
    using assms(2) by (auto simp: v4_redirect_def memory_redirect_def latches_ok_def Let_def)
  have ex: "v4_to_memory cfg s \<Longrightarrow> \<not> m_valid (v4_xm s)" using leaves_facts(2) [of cfg s] by (auto simp: v4_leaves_def)
  show ?thesis
    using p rd ex E memory_exclusive [of cfg i s]
    by (auto simp: xm_moved_def xm_pending_def xm_chain_def xm_issue_def xm_cleared_def Let_def split: if_splits)
qed

lemma ports_tick:
  assumes "v4_plain cfg i s" and "latches_ok s" and "ports_ok (v4_out cfg s) (v4_xm s) (v4_mr s) (v4_retire s)"
  shows "ports_ok (v4_out cfg t) (v4_xm (v4_tick cfg i s)) (v4_mr (v4_tick cfg i s)) (v4_retire (v4_tick cfg i s))"
proof -
  let ?t = "v4_tick cfg i s"
  note M = xm_fields_moved [OF xm_tick [OF assms(1)]]
  have rd: "v4_redirect s \<Longrightarrow> \<not> m_valid (v4_xm s)"
    using assms(2) by (auto simp: v4_redirect_def memory_redirect_def latches_ok_def Let_def)
  have "\<not> (m_valid (v4_xm ?t) \<and> m_write (v4_xm ?t) \<and> m_reg_write (v4_xm ?t))"
    unfolding M using assms(3) rd out_ports [of cfg s]
    by (auto simp: xm_moved_def xm_chain_def xm_issue_def xm_cleared_def ports_ok_def Let_def)
  moreover have "mr_valid (v4_mr ?t) \<and> mr_reg_write (v4_mr ?t) \<and> mr_aux_reg_write (v4_mr ?t) \<Longrightarrow>
      mr_reg_index (v4_mr ?t) \<noteq> mr_aux_reg_index (v4_mr ?t)"
    by (auto simp: mr_tick [OF assms(1)] v4_memory_result_def mr_from_result_def ms_result_def ms_result_ports_def Let_def split: if_splits)
  moreover have "r_valid (v4_retire ?t) \<and> r_reg_write (v4_retire ?t) \<and> r_aux_reg_write (v4_retire ?t) \<Longrightarrow>
      r_reg_index (v4_retire ?t) \<noteq> r_aux_reg_index (v4_retire ?t)"
    using assms(3)
    by (auto simp: retire_tick [OF assms(1)] ports_ok_def retire_from_mr_def retire_from_storebuf_def retire_from_storebuf_load_def
        retire_from_execute_def retire_cleared_def Let_def split: if_splits)
  ultimately show ?thesis using out_ports by (simp add: ports_ok_def)
qed

section \<open>The operands stay current\<close>

text \<open>An instruction that waits in the execute slot.\<close>

lemma slot_stays:
  assumes "v4_plain cfg i s" and "latches_ok s" and "slot_current s" and "\<not> v4_decode_advance cfg s" and regs_0_same: "v4_regs (v4_tick cfg i s) 0 = v4_regs s 0"
  shows "slot_current (v4_tick cfg i s)"
proof -
  let ?t = "v4_tick cfg i s"
  have de: "v4_de ?t = v4_de s \<and> \<not> v4_leaves cfg s" if "de_valid (v4_de ?t)"
    using that assms(4) by (auto simp: de_tick [OF assms(1)] split: if_splits)
  have same: "older_regs ?t r = older_regs s r" "r \<noteq> 0 \<longrightarrow> \<not> xm_pending (v4_xm ?t) r"
    if "\<not> v4_leaves cfg s" and "r \<noteq> 0 \<longrightarrow> \<not> xm_pending (v4_xm s) r" and "r \<noteq> 15" for r
  proof -
    have n: "\<not> v4_to_memory cfg s" "slot_writes cfg s = []" using that(1) by (simp_all add: v4_leaves_def slot_writes_def Let_def)
    show "r \<noteq> 0 \<longrightarrow> \<not> xm_pending (v4_xm ?t) r" using xm_pending_tick [OF assms(1,2)] n that(2) by metis
    show "older_regs ?t r = older_regs s r"
      using older_regs_tick [OF assms(1) _ that(3)] that(2) n(2) regs_0_same by (cases "r = 0") (simp add: older_regs_def, simp add: write_regs_def)
  qed
  show ?thesis using assms(3) de same unfolding slot_current_def Let_def by metis
qed

text \<open>Without a hazard, no memory operation in the memory stage or the execute slot will write the operand.\<close>

lemma pending_free:
  assumes "\<not> load_use_hazard (v4_decode cfg s)" and "ports_ok (v4_out cfg s) (v4_xm s) (v4_mr s) (v4_retire s)"
    and "r = instruction_rd (fd_instruction (v4_fd s)) \<or> r = instruction_rs1 (fd_instruction (v4_fd s))" and "r \<noteq> 0"
  shows "\<not> xm_pending (v4_xm s) r"
    and "de_valid (v4_de s) \<Longrightarrow> o_memory_start (v4_out cfg s) \<Longrightarrow> \<not> xm_pending (xm_issue False 0 (v4_out cfg s)) r"
proof -
  let ?o = "v4_out cfg s" and ?b = "de_valid (v4_de s)"
  have rr: "r = d_rd (v4_decode cfg s) \<or> r = d_rs1 (v4_decode cfg s)"
    using assms(3) by (simp add: v4_decode_def wire_decode_def d_rd_def d_rs1_def)
  have hz: "\<not> hazard (v4_decode cfg s) (d_pending_load_execute (v4_decode cfg s))"
    "\<not> hazard (v4_decode cfg s) (d_pending_load_memory (v4_decode cfg s))"
    "\<not> hazard (v4_decode cfg s) (d_pending_write_execute (v4_decode cfg s))"
    "\<not> hazard (v4_decode cfg s) (d_pending_write_memory (v4_decode cfg s))"
    using assms(1) by (simp_all add: load_use_hazard_def)
  have h: "?b \<and> o_memory_start ?o \<and> \<not> o_memory_write ?o \<and> o_memory_reg_write ?o \<Longrightarrow> o_memory_reg_index ?o \<noteq> r"
    "m_valid (v4_xm s) \<and> \<not> m_write (v4_xm s) \<and> m_reg_write (v4_xm s) \<Longrightarrow> m_reg_index (v4_xm s) \<noteq> r"
    "?b \<and> o_memory_start ?o \<and> o_memory_post_reg_write ?o \<Longrightarrow> o_memory_post_reg_index ?o \<noteq> r"
    "m_valid (v4_xm s) \<and> m_post_reg_write (v4_xm s) \<Longrightarrow> m_post_reg_index (v4_xm s) \<noteq> r"
    using hazard_free [OF hz(1) assms(4) rr] hazard_free [OF hz(2) assms(4) rr] hazard_free [OF hz(3) assms(4) rr]
      hazard_free [OF hz(4) assms(4) rr]
    by (simp_all add: v4_decode_def wire_decode_def)
  show "\<not> xm_pending (v4_xm s) r" using h(2,4) assms(2) unfolding xm_pending_def ports_ok_def by blast
  show "\<not> xm_pending (xm_issue False 0 ?o) r" if "?b" "o_memory_start ?o"
    using h(1,3) that out_ports [of cfg s] by (simp add: xm_pending_def xm_issue_def) blast
qed

text \<open>The operands decoded in this cycle.\<close>

lemma decoded_operand:
  assumes "\<not> load_use_hazard (v4_decode cfg s)" and "ports_ok (v4_out cfg s) (v4_xm s) (v4_mr s) (v4_retire s)"
    and "v4_regs s 0 = 0" and "r = instruction_rd (fd_instruction (v4_fd s)) \<or> r = instruction_rs1 (fd_instruction (v4_fd s))"
    and "de_valid (v4_de s) \<longrightarrow> v4_leaves cfg s"
  shows "bypass (v4_decode cfg s) (v4_regs s) r = write_regs (slot_writes cfg s) (older_regs s) r"
    and "r \<noteq> 0 \<Longrightarrow> \<not> xm_pending (v4_xm s) r"
    and "r \<noteq> 0 \<Longrightarrow> v4_to_memory cfg s \<Longrightarrow> \<not> xm_pending (xm_issue False 0 (v4_out cfg s)) r"
proof -
  let ?o = "v4_out cfg s" and ?b = "de_valid (v4_de s)"
  note H = no_hazard_pending [OF assms(1) [unfolded v4_decode_def] assms(2,4)] and P = pending_free [OF assms(1,2,4)]
  show "\<not> xm_pending (v4_xm s) r" if "r \<noteq> 0" by (rule P(1) [OF that])
  show "\<not> xm_pending (xm_issue False 0 ?o) r" if "r \<noteq> 0" and m: "v4_to_memory cfg s"
    using P(2) [OF that(1)] m leaves_kind(2) [of cfg s] leaves_facts(1) [of cfg s] by (simp add: v4_leaves_def)
  have "map_of (rev (execute_list ?b ?o 0)) r = map_of (rev (slot_writes cfg s)) r" if "r \<noteq> 0"
  proof (cases "?b \<and> o_memory_start ?o")
    case True
    have "\<not> (v4_to_storebuf_load cfg s \<and> o_memory_reg_index ?o = r)"
      using P(2) [OF that] True by (auto simp: v4_to_storebuf_load_def execute_to_storebuf_load_def v4_dispatch_def xm_pending_def xm_issue_def)
    then show ?thesis using H(2) [OF that] True leaves_kind(1) [of cfg s]
      by (auto simp: slot_writes_def Let_def)
  next
    case False
    then have "\<not> v4_to_storebuf_load cfg s" "\<not> v4_to_storebuf cfg s" "\<not> v4_to_memory cfg s"
      using leaves_kind(2) [of cfg s] leaves_facts(1) [of cfg s] by (auto simp: v4_leaves_def)
    moreover have "v4_to_retire cfg s = ?b" using calculation assms(5) leaves_facts(1) [of cfg s] by (auto simp: v4_leaves_def)
    ultimately show ?thesis using False by (auto simp: slot_writes_def execute_list_def Let_def)
  qed
  then have "write_regs (execute_list ?b ?o 0) rs r = write_regs (slot_writes cfg s) rs r" for rs
    by (cases "r = 0") (simp_all add: write_regs_map)
  moreover have "write_regs (xm_list (v4_xm s) 0) rs r = rs r" for rs
    using H(1) by (cases "r = 0") (simp_all add: write_regs_other)
  ultimately show "bypass (v4_decode cfg s) (v4_regs s) r = write_regs (slot_writes cfg s) (older_regs s) r"
    using forwarded_operand [of "v4_fd s" ?b ?o "v4_xm s" "v4_mr s" "v4_retire s" "v4_regs s" r 0 0] assms(1-4)
    by (simp add: v4_decode_def older_writes_def write_regs_append older_regs_def) (metis write_regs_cong)
qed

lemma slot_advances:
  assumes "v4_plain cfg i s" and "latches_ok s" and "v4_current cfg s" and "v4_decode_advance cfg s"
  shows "slot_current (v4_tick cfg i s)"
proof -
  let ?t = "v4_tick cfg i s"
  have adv: "\<not> load_use_hazard (v4_decode cfg s)" "de_valid (v4_de s) \<longrightarrow> v4_leaves cfg s"
    using assms(4) advance_facts(4) [OF assms(4)] by (auto simp: v4_decode_advance_def)
  have c: "v4_regs s 0 = 0" "ports_ok (v4_out cfg s) (v4_xm s) (v4_mr s) (v4_retire s)"
    using assms(3) by (simp_all add: v4_current_def)
  have de: "v4_de ?t = de_from_fd cfg s" using assms(4) by (simp add: de_tick [OF assms(1)])
  note D = decoded_operand [OF adv(1) c(2,1) _ adv(2)]
  have pend: "\<not> xm_pending (v4_xm ?t) r"
    if "r \<noteq> 0" and "r = instruction_rd (fd_instruction (v4_fd s)) \<or> r = instruction_rs1 (fd_instruction (v4_fd s))" for r
    using xm_pending_tick [OF assms(1,2), of r] D(2,3) [OF that(2,1)] that(1) by metis
  have val: "bypass (v4_decode cfg s) (v4_regs s) r = older_regs ?t r"
    if "r = instruction_rd (fd_instruction (v4_fd s)) \<or> r = instruction_rs1 (fd_instruction (v4_fd s))" and "r \<noteq> 15" for r
  proof (cases "r = 0")
    case True
    then show ?thesis using c(1) regs_0_tick [OF c(1)] by (simp add: older_regs_def bypass_def Let_def)
  next
    case False
    show ?thesis using D(1) [OF that(1)] older_regs_tick [OF assms(1) False that(2) D(2) [OF that(1) False]] by simp
  qed
  have "de_instruction (v4_de ?t) = fd_instruction (v4_fd s)" "de_operand_a (v4_de ?t) = bypass (v4_decode cfg s) (v4_regs s) (instruction_rd (fd_instruction (v4_fd s)))"
    "de_operand_b (v4_de ?t) = bypass (v4_decode cfg s) (v4_regs s) (instruction_rs1 (fd_instruction (v4_fd s)))"
    by (simp_all add: de de_from_fd_def operand_a_def operand_b_def d_rd_def d_rs1_def v4_decode_def wire_decode_def Let_def)
  then show ?thesis using pend val unfolding slot_current_def Let_def by metis
qed

theorem v4_current_tick:
  assumes "v4_ordered cfg s" and "v4_current cfg s"
  shows "v4_current cfg (v4_tick cfg i s)"
proof -
  let ?t = "v4_tick cfg i s"
  have inv: "latches_ok s" "v4_reset_pending s \<or> v4_stopped s \<or> vector_active (v4_vec s) \<Longrightarrow> pipeline_empty s"
    using assms(1) by (simp_all add: v4_ordered_def)
  have r0: "v4_regs s 0 = 0" "v4_regs ?t 0 = 0" using assms(2) regs_0_tick by (simp_all add: v4_current_def)
  consider (empty) "pipeline_empty ?t" | (plain) "v4_plain cfg i s"
    using reset_tick(1) [of s cfg i] not_calm_empty [of s cfg i] entry_cycle(1) [of cfg i s] inv(2) by (auto simp: v4_plain_def)
  then show ?thesis
  proof cases
    case empty
    then show ?thesis using empty_current r0(2) by blast
  next
    case plain
    have "slot_current ?t"
      using slot_advances [OF plain inv(1) assms(2)] slot_stays [OF plain inv(1)] assms(2) r0 by (auto simp: v4_current_def)
    then show ?thesis using ports_tick [OF plain inv(1)] assms(2) r0(2) by (simp add: v4_current_def)
  qed
qed

lemma v4_reachable_current: "v4_reachable cfg s \<Longrightarrow> v4_current cfg s"
proof (induction rule: v4_reachable.induct)
  case reset
  have "pipeline_empty (v4_reset cfg)" by (simp add: v4_reset_def pipeline_empty_def xm_cleared_def retire_cleared_def Let_def)
  then show ?case by (rule empty_current) (simp add: v4_reset_def Let_def)
next
  case (tick s i)
  then show ?case using v4_current_tick v4_reachable_ordered by blast
qed

section \<open>Decoded operands\<close>

text \<open>
  What the memory stage makes of the registers when a memory instruction in it is answered: \<open>v\<close> is
  what its first access returns, \<open>w\<close> the answer of a chained store.
\<close>

definition memory_finished :: "bool \<Rightarrow> 3 word \<Rightarrow> u64 \<Rightarrow> u64 \<Rightarrow> xm_reg \<Rightarrow> regfile \<Rightarrow> regfile" where
  "memory_finished paging fl v w x rs =
     retire_regs (ms_result (last_access paging fl v x) (answered (if m_chain_store x then w else v))) rs"

text \<open>
  The register file once everything older than the decoded instruction has retired: the retire
  latch, the result buffer, the memory operation and the instruction in the execute slot.
\<close>

definition older_retired :: "core_config \<Rightarrow> v4_core \<Rightarrow> u64 \<times> u64 \<Rightarrow> u64 \<times> u64 \<Rightarrow> regfile" where
  "older_retired cfg s vm ve =
     (let e = v4_out cfg s; pc = de_pc (v4_de s); p = v4_paging s; fl = v4_flags s;
          a = retire_regs (v4_retire s) (v4_regs s);
          b = (if mr_valid (v4_mr s) then retire_regs (retire_from_mr (v4_mr s)) a else a);
          c = (if m_valid (v4_xm s) then memory_finished p fl (fst vm) (snd vm) (v4_xm s) b else b)
      in if \<not> de_valid (v4_de s) then c
         else if o_memory_start e then memory_finished p fl (fst ve) (snd ve) (xm_issue p pc e) c
         else retire_regs (retire_from_execute pc e) c)"

lemma memory_finished_other:
  assumes "m_valid x" and "\<not> xm_pending x r" and "r \<noteq> 15"
  shows "memory_finished p fl v w x rs r = rs r"
proof -
  let ?y = "last_access p fl v x"
  have y: "m_valid ?y \<and> \<not> m_chain_store ?y"
    using assms(1) by (simp add: last_access_def ms_chain_continue_def ms_complete_def answered_def xm_chain_def)
  have "map_of (rev (stage_writes ?y u)) r = None" for u
    using assms(1,2) by (auto simp: stage_writes_def last_access_def xm_chain_def xm_pending_def)
  then show ?thesis using y assms(3) unfolding memory_finished_def by (simp add: retire_final_result write_regs_other del: fun_upd_apply) (simp add: write_regs_other)
qed

lemma older_regs_retire: "r \<noteq> 15 \<Longrightarrow> older_regs s r =
    (if mr_valid (v4_mr s) then retire_regs (retire_from_mr (v4_mr s)) (retire_regs (v4_retire s) (v4_regs s))
     else retire_regs (v4_retire s) (v4_regs s)) r"
  by (auto simp: older_regs_def mr_list_def write_regs_append retire_regs_list write_regs_def [of "[]"] intro!: write_regs_cong)

lemma forwarded_retired:
  assumes "v4_current cfg s" and "\<not> load_use_hazard (v4_decode cfg s)" and "r \<noteq> 15" and "r \<noteq> 0"
    and "r = instruction_rd (fd_instruction (v4_fd s)) \<or> r = instruction_rs1 (fd_instruction (v4_fd s))"
  shows "bypass (v4_decode cfg s) (v4_regs s) r = older_retired cfg s vm ve r"
proof -
  let ?o = "v4_out cfg s" and ?b = "de_valid (v4_de s)" and ?pc = "de_pc (v4_de s)"
  have c: "v4_regs s 0 = 0" "ports_ok ?o (v4_xm s) (v4_mr s) (v4_retire s)" using assms(1) by (simp_all add: v4_current_def)
  note h = assms(2) [unfolded v4_decode_def] and F = memory_finished_other [OF _ _ assms(3)]
  note P = pending_free [OF assms(2) c(2) assms(5,4)]
  have x: "map_of (rev (xm_list (v4_xm s) 0)) r = None" by (rule no_hazard_pending(1) [OF h c(2) assms(5,4)])
  have f: "bypass (v4_decode cfg s) (v4_regs s) r = write_regs (execute_list ?b ?o 0) (older_regs s) r"
    using forwarded_operand [OF h c(2) _ assms(5), of "v4_regs s" 0 0] c(1) write_regs_other [OF x]
    by (simp add: v4_decode_def older_writes_def write_regs_append older_regs_def) (metis write_regs_cong)
  have m: "(if m_valid (v4_xm s) then memory_finished p fl v w (v4_xm s) rs else rs) r = rs r" for p fl v w rs
    using F [OF _ P(1)] by simp
  have e: "memory_finished p fl v w (xm_issue p ?pc ?o) rs r = rs r" if "?b" "o_memory_start ?o" for p fl v w rs
    using F [of "xm_issue p ?pc ?o"] P(2) [OF that] by (simp add: xm_pending_def xm_issue_def)
  have l: "write_regs (execute_list ?b ?o 0) rs r = rs r" if "?b \<longrightarrow> o_memory_start ?o" for rs
    using that no_hazard_pending(2) [OF h c(2) assms(5,4)] write_regs_other
    by (cases ?b) (simp_all add: execute_list_def write_regs_def)
  define b where "b = (if mr_valid (v4_mr s) then retire_regs (retire_from_mr (v4_mr s)) (retire_regs (v4_retire s) (v4_regs s))
     else retire_regs (v4_retire s) (v4_regs s))"
  define d where "d = (if m_valid (v4_xm s) then memory_finished (v4_paging s) (v4_flags s) (fst vm) (snd vm) (v4_xm s) b else b)"
  have o': "older_regs s r = d r" using m [of _ _ _ _ b] older_regs_retire [OF assms(3), of s] by (simp add: b_def d_def)
  have R: "older_retired cfg s vm ve = (if \<not> ?b then d
      else if o_memory_start ?o then memory_finished (v4_paging s) (v4_flags s) (fst ve) (snd ve) (xm_issue (v4_paging s) ?pc ?o) d
      else retire_regs (retire_from_execute ?pc ?o) d)"
    by (simp add: older_retired_def b_def d_def Let_def)
  show ?thesis
  proof (cases "?b \<and> \<not> o_memory_start ?o")
    case True
    then show ?thesis using assms(3) write_regs_cong [of "older_regs s" r d, OF o']
      by (simp add: R f retire_regs_list execute_list_def retire_list_def retire_from_execute_def)
  next
    case False
    then show ?thesis using e l [of "older_regs s"] o' by (simp add: R f)
  qed
qed

text \<open>
  Property C28: In every reachable state of the v4 core in which the decode stage reports no
  hazard, each operand it forwards of a register other than R15 is what the register file will
  hold once the retire latch, the result buffer, the memory operation in flight and the
  instruction in the execute slot have retired, whatever memory answers.
\<close>

lemma operand_current:
  assumes "v4_reachable cfg s" and "\<not> load_use_hazard (v4_decode cfg s)"
  shows "let w = fd_instruction (v4_fd s); d = v4_decode cfg s in
     (instruction_rd w \<noteq> 15 \<longrightarrow> operand_a d (v4_regs s) = older_retired cfg s vm ve (instruction_rd w)) \<and>
     (instruction_rs1 w \<noteq> 15 \<longrightarrow> operand_b d (v4_regs s) = older_retired cfg s vm ve (instruction_rs1 w))"
proof -
  have c: "v4_current cfg s" by (rule v4_reachable_current [OF assms(1)])
  have z: "bypass (v4_decode cfg s) (v4_regs s) 0 = older_retired cfg s vm ve 0"
    using c by (simp add: v4_current_def bypass_def older_retired_def memory_finished_def retire_regs_list Let_def)
  have "bypass (v4_decode cfg s) (v4_regs s) r = older_retired cfg s vm ve r"
    if "r \<noteq> 15" and "r = instruction_rd (fd_instruction (v4_fd s)) \<or> r = instruction_rs1 (fd_instruction (v4_fd s))" for r
    using forwarded_retired [OF c assms(2) that(1) _ that(2)] z by (cases "r = 0") simp_all
  then show ?thesis
    by (simp add: operand_a_def operand_b_def d_rd_def d_rs1_def v4_decode_def wire_decode_def Let_def)
qed

text \<open>The \<open>STOP\<close> behind \<open>LDI R1, 5\<close> of the example run names R1: its value is forwarded from the execute slot.\<close>

lemma operand_current_witness:
  "let s = demo (program_run @ wait 2) in de_valid (v4_de s) \<and> instruction_rd (fd_instruction (v4_fd s)) = 1 \<and>
     operand_a (v4_decode plain_config s) (v4_regs s) = older_retired plain_config s (0, 0) (0, 0) 1"
proof -
  let ?s = "demo (program_run @ wait 2)"
  note d = demo_6 [unfolded Let_def] and f = demo_6_fetched [unfolded Let_def]
  have slot: "plain_slot plain_config ?s" using d by (simp add: plain_slot_def x_effect_def decode_ldi)
  have h: "\<not> load_use_hazard (v4_decode plain_config ?s)"
    using plain_slot_out(1) [OF slot] d by (auto simp: load_use_hazard_def hazard_def v4_decode_def wire_decode_def v4_flow_def)
  have r: "instruction_rd (fd_instruction (v4_fd ?s)) = 1" using f by (simp add: instruction_rd_def bslice_def)
  show ?thesis using operand_current [OF demo_reachable h, of "(0, 0)" "(0, 0)"] r d by (simp add: Let_def)
qed

section \<open>Flags\<close>

text \<open>The flags once the retire latch and the result buffer have been written.\<close>

definition settled_flags :: "v4_core \<Rightarrow> 3 word" where
  "settled_flags s = (let f = retire_flags (v4_retire s) (v4_flags s) in
     if mr_valid (v4_mr s) then retire_flags (retire_from_mr (v4_mr s)) f else f)"

definition xm_flags :: "v4_core \<Rightarrow> bool" where "xm_flags s \<longleftrightarrow> m_valid (v4_xm s) \<and> m_flags_write (v4_xm s)"

text \<open>Nothing is decoded while a store-conditional that will set Z is in the execute or memory stage.\<close>

definition scr_settled :: "core_config \<Rightarrow> v4_core \<Rightarrow> bool" where
  "scr_settled cfg s \<longleftrightarrow> (let e = v4_out cfg s in v4_decode_advance cfg s \<longrightarrow>
     \<not> xm_flags s \<and> \<not> (de_valid (v4_de s) \<and> o_memory_start e \<and> o_memory_flags_write e))"

definition flags_current :: "v4_core \<Rightarrow> bool" where
  "flags_current s \<longleftrightarrow> (de_valid (v4_de s) \<longrightarrow> \<not> xm_flags s \<and> de_flags (v4_de s) = settled_flags s)"

lemma flags_tick: "v4_plain cfg i s \<Longrightarrow> v4_flags (v4_tick cfg i s) = retire_flags (v4_retire s) (v4_flags s)"
  by (simp add: plain_tick v4_moves_def calm_stopped [OF plain_calm] blk_writeback_def lock_up_def Let_def split: option.split)

lemma retire_flags_fields: "retire_flags r f = (if r_valid r \<and> r_flags_write r then r_flags_value r else f)"
  by (simp add: retire_flags_def retire_stage_def port_def)

lemma settled_flags_tick:
  assumes "v4_plain cfg i s" and "\<not> xm_flags s"
    and "\<not> (de_valid (v4_de s) \<and> o_memory_start (v4_out cfg s) \<and> o_memory_flags_write (v4_out cfg s)) \<or> \<not> v4_leaves cfg s"
  shows "settled_flags (v4_tick cfg i s) =
     (if v4_to_retire cfg s \<and> o_flags_write (v4_out cfg s) then o_flags_value (v4_out cfg s) else settled_flags s)"
proof -
  note K = leaves_kind [of cfg s] and R = retire_tick [OF assms(1)] and fl = flags_tick [OF assms(1)]
  have mr: "mr_valid (v4_mr (v4_tick cfg i s)) \<Longrightarrow> \<not> mr_flags_write (v4_mr (v4_tick cfg i s))"
    using assms(2) memory_exclusive(1) [of cfg i s] by (auto simp: mr_tick [OF assms(1)] mr_from_result_def xm_flags_def split: if_splits)
  then have "settled_flags (v4_tick cfg i s) = retire_flags (v4_retire (v4_tick cfg i s)) (retire_flags (v4_retire s) (v4_flags s))"
    by (simp add: settled_flags_def fl retire_flags_fields retire_from_mr_def Let_def)
  also have "\<dots> = (if v4_to_retire cfg s \<and> o_flags_write (v4_out cfg s) then o_flags_value (v4_out cfg s) else settled_flags s)"
  proof (cases "v4_leaves cfg s \<and> \<not> v4_to_memory cfg s")
    case True
    then have d: "\<not> mr_valid (v4_mr s)" "de_valid (v4_de s)" using leaves_facts(1,4) [of cfg s] by auto
    from True consider (load) "v4_to_storebuf_load cfg s" | (store) "v4_to_storebuf cfg s" | (retire) "v4_to_retire cfg s"
      by (auto simp: v4_leaves_def)
    then show ?thesis
    proof cases
      case load
      then show ?thesis using K assms(3) True d
        by (auto simp: R retire_flags_fields retire_from_storebuf_load_def settled_flags_def Let_def)
    next
      case store
      then show ?thesis using K assms(3) True d
        by (auto simp: R retire_flags_fields retire_from_storebuf_def settled_flags_def Let_def)
    next
      case retire
      then show ?thesis using K d by (auto simp: R retire_flags_fields retire_from_execute_def settled_flags_def Let_def)
    qed
  next
    case False
    then have "\<not> v4_to_retire cfg s" "\<not> v4_to_storebuf cfg s" "\<not> v4_to_storebuf_load cfg s" using K by (auto simp: v4_leaves_def)
    then show ?thesis by (simp add: R retire_flags_fields retire_cleared_def settled_flags_def Let_def)
  qed
  finally show ?thesis .
qed

lemma xm_flags_tick:
  assumes "v4_plain cfg i s" and "latches_ok s" and "xm_flags (v4_tick cfg i s)"
  shows "xm_flags s \<or> v4_to_memory cfg s \<and> o_memory_flags_write (v4_out cfg s)"
proof -
  note M = xm_fields_moved [OF xm_tick [OF assms(1)]]
  have rd: "v4_redirect s \<Longrightarrow> \<not> m_valid (v4_xm s)"
    using assms(2) by (auto simp: v4_redirect_def memory_redirect_def latches_ok_def Let_def)
  show ?thesis using assms(3) rd memory_exclusive(2) [of cfg i s]
    by (auto simp: xm_flags_def M xm_moved_def xm_chain_def xm_issue_def xm_cleared_def Let_def split: if_splits)
qed

lemma flags_current_tick:
  assumes "v4_ordered cfg s" and "flags_current s" and "scr_settled cfg s"
  shows "flags_current (v4_tick cfg i s)"
proof -
  let ?t = "v4_tick cfg i s"
  have inv: "latches_ok s" "v4_reset_pending s \<or> v4_stopped s \<or> vector_active (v4_vec s) \<Longrightarrow> pipeline_empty s"
    using assms(1) by (simp_all add: v4_ordered_def)
  consider (empty) "pipeline_empty ?t" | (plain) "v4_plain cfg i s"
    using reset_tick(1) [of s cfg i] not_calm_empty [of s cfg i] entry_cycle(1) [of cfg i s] inv(2) by (auto simp: v4_plain_def)
  then show ?thesis
  proof cases
    case empty
    then show ?thesis by (simp add: flags_current_def pipeline_empty_def)
  next
    case plain
    show ?thesis
    proof (cases "v4_decode_advance cfg s")
      case True
      then have c: "\<not> xm_flags s" "\<not> (de_valid (v4_de s) \<and> o_memory_start (v4_out cfg s) \<and> o_memory_flags_write (v4_out cfg s))"
        using assms(3) by (auto simp: scr_settled_def Let_def)
      have l: "de_valid (v4_de s) \<longrightarrow> v4_leaves cfg s" using advance_facts(4) [OF True] by blast
      have x: "\<not> xm_flags ?t"
        using xm_flags_tick [OF plain inv(1)] c leaves_kind(2) [of cfg s] leaves_facts(1) [of cfg s] by (auto simp: v4_leaves_def)
      have r: "v4_to_retire cfg s = (de_valid (v4_de s) \<and> \<not> o_memory_start (v4_out cfg s))"
        using l leaves_kind [of cfg s] leaves_facts(1) [of cfg s] by (auto simp: v4_leaves_def)
      have "de_flags (v4_de ?t) = bypass_flags (v4_decode cfg s) (v4_flags s)"
        using True by (simp add: de_tick [OF plain] de_from_fd_def Let_def)
      also have "\<dots> = settled_flags ?t"
        using settled_flags_tick [OF plain c(1)] c(2) r
        by (simp add: bypass_flags_def v4_decode_def wire_decode_def settled_flags_def retire_flags_fields retire_from_mr_def Let_def)
      finally show ?thesis using x by (simp add: flags_current_def)
    next
      case False
      have "de_valid (v4_de ?t) \<Longrightarrow> v4_de ?t = v4_de s \<and> \<not> v4_leaves cfg s"
        using False by (auto simp: de_tick [OF plain] split: if_splits)
      then show ?thesis
        using assms(2) settled_flags_tick [OF plain] xm_flags_tick [OF plain inv(1)]
        by (auto simp: flags_current_def v4_leaves_def)
    qed
  qed
qed

end
