(* ===== verification/V4_Program.thy ===== *)
theory V4_Program
  imports V4_Operands
begin

text \<open>
  The v4 core runs the program in memory.  While paging is off and the instruction bus
  serves a memory whose code does not change, every instruction in the pipeline is the
  half-word memory holds at its address; with program order and current operands, an
  instruction that needs no memory access commits the effect the instruction set specifies
  for the architectural state it finds.
\<close>

section \<open>Instructions in the pipeline are the ones in memory\<close>

text \<open>A cycle of a program without translation; \<open>m\<close> is the memory behind the instruction bus.\<close>

definition code_cycle :: "core_config \<Rightarrow> memory \<Rightarrow> v4_core \<Rightarrow> v4_in \<Rightarrow> bool" where
  "code_cycle cfg m s i \<longleftrightarrow> \<not> v4_paging s \<and> \<not> frontend_line_update_valid cfg i s \<and>
     (req_valid (v4_frontend s) \<and> vi_i_ack i \<longrightarrow> vi_i_dat_r i = bus_read m (req_base (v4_frontend s)))"

definition fetch_aligned :: "v4_core \<Rightarrow> bool" where
  "fetch_aligned s \<longleftrightarrow> (if v4_fetch_phys_valid s then v4_fetch_phys_addr s = v4_fetch_pc s
     else pipeline_empty s \<and> v4_translate_va s = v4_fetch_pc s)"

definition code_ok :: "memory \<Rightarrow> v4_core \<Rightarrow> bool" where
  "code_ok m s \<longleftrightarrow> (let f = v4_fd s; d = v4_de s in
     fe_coherent v4_index_bits m (v4_frontend s) \<and> \<not> w_active (v4_walker s) \<and> \<not> w_processing (v4_walker s) \<and>
     (\<not> v4_stopped s \<and> \<not> vector_active (v4_vec s) \<longrightarrow> fetch_aligned s) \<and>
     (fd_valid f \<longrightarrow> fd_instruction f = fetch_half m (fd_pc f) \<and> fd_post_increment_pc f = fd_pc f + 2) \<and>
     (de_valid d \<longrightarrow> de_instruction d = fetch_half m (de_pc d) \<and> de_post_increment_pc d = de_pc d + 2))"

lemma code_frontend:
  assumes "fe_coherent v4_index_bits m (v4_frontend s)" and "code_cycle cfg m s i"
  shows "fe_coherent v4_index_bits m (v4_frontend (v4_tick cfg i s))"
proof -
  have "honest_cycle m m (v4_fetch_in cfg i s) (v4_frontend s)"
    using assms(2) by (simp add: honest_cycle_def code_cycle_def v4_fetch_in_def v4_fetch_bus_def port_def)
  then show ?thesis using fe_coherent_tick [OF assms(1)] by (simp add: front_unit)
qed

text \<open>No walk starts without paging.\<close>

lemma walker_idle_tick:
  assumes "\<not> v4_paging s" and "\<not> w_active (v4_walker s)" and "\<not> w_processing (v4_walker s)"
  shows "\<not> w_active (v4_walker (v4_tick cfg i s)) \<and> \<not> w_processing (v4_walker (v4_tick cfg i s))"
proof (cases "v4_reset_pending s")
  case True
  then show ?thesis using assms by (simp add: v4_tick_def v4_boot_def)
next
  case False
  have n: "walk_started_by cfg s = None" using assms(1) by (simp add: walk_started_by_def)
  have m: "v4_walker (v4_moves cfg i s) = v4_walker s"
    using assms n
    by (simp add: v4_moves_def Let_def walker_walk walker_start walker_requests walk_request_valid_def walk_response_valid_def
        v4_walk_success_def walk_leaf_success_def walk_descend_def)
  have stop: "w_active (v4_walker (stop_walk t)) = False" "w_processing (v4_walker (stop_walk t)) = False" for t
    by (simp_all add: stop_walk_def walk_stop_def)
  have same: "v4_walker (clear_pipeline t) = v4_walker t" "v4_walker (lock_up r t) = v4_walker t" "v4_walker (drop_vector t) = v4_walker t" for r t
    by (simp_all add: clear_pipeline_def lock_up_def drop_vector_def)
  define u where "u = blk_entry cfg i s (blk_vector_done cfg i s (v4_moves cfg i s))"
  have "\<not> w_active (v4_walker u) \<and> \<not> w_processing (v4_walker u)"
    using assms m by (simp add: u_def blk_entry_def stop walk_stop_def stop_walk_def clear_pipeline_def Let_def)
  then have "\<not> w_active (v4_walker (blk_lockups cfg i s u)) \<and> \<not> w_processing (v4_walker (blk_lockups cfg i s u))"
    by (simp add: blk_lockups_def same stop Let_def)
  then show ?thesis by (simp add: v4_tick_moves [OF False] u_def)
qed

lemma aligned_plain:
  assumes "v4_plain cfg i s" and "\<not> v4_paging s" and "\<not> v4_walk_success s" and "fetch_aligned s"
  shows "fetch_aligned (v4_tick cfg i s)"
proof (cases "v4_fetch_phys_valid s")
  case True
  then have "\<not> fetch_translate_complete cfg s" by (simp add: fetch_translate_complete_def fetch_translate_ready_def)
  then show ?thesis using assms(2-4) True
    by (simp add: fetch_aligned_def phys_valid_tick [OF assms(1)] phys_addr_tick [OF assms(1-3)] fetch_pc_tick [OF assms(1)] split: option.split)
next
  case False
  then have e: "pipeline_empty s" and va: "v4_translate_va s = v4_fetch_pc s" using assms(4) by (simp_all add: fetch_aligned_def)
  have n: "\<not> v4_redirect s" "\<not> v4_decode_advance cfg s" "v4_steers cfg i s = None" "\<not> v4_leaves cfg s"
    using no_steer(1) [of s cfg i] no_steer(3,4) [of s cfg] e False by (simp_all add: pipeline_empty_def v4_redirect_def memory_redirect_def)
  have m: "\<not> memory_chain_continue cfg i s" "\<not> memory_to_retire cfg i s" "\<not> memory_error cfg i s"
    using e memory_exclusive [of cfg i s] by (auto simp: pipeline_empty_def memory_error_def)
  have "pipeline_empty (v4_tick cfg i s)"
    using e n m False no_steer(2) [of s cfg i] xm_next(1) [OF assms(1) empty_latches [OF e]]
    by (auto simp: pipeline_empty_def fd_tick [OF assms(1)] de_tick [OF assms(1)] mr_next(1) [OF assms(1)]
        retire_next(1) [OF assms(1)] v4_leaves_def)
  then show ?thesis using assms(2,3) False n m va
    by (simp add: fetch_aligned_def phys_valid_tick [OF assms(1)] phys_addr_tick [OF assms(1-3)] fetch_pc_tick [OF assms(1)]
        translate_va_tick [OF assms(1)] v4_leaves_def)
qed

lemma code_tick:
  assumes "v4_ordered cfg s" and "code_ok m s" and "code_cycle cfg m s i"
  shows "code_ok m (v4_tick cfg i s)"
proof -
  let ?t = "v4_tick cfg i s"
  have c: "fe_coherent v4_index_bits m (v4_frontend s)" "\<not> w_active (v4_walker s)" "\<not> w_processing (v4_walker s)"
    and al: "\<not> v4_stopped s \<Longrightarrow> \<not> vector_active (v4_vec s) \<Longrightarrow> fetch_aligned s"
    and fd: "fd_valid (v4_fd s) \<Longrightarrow> fd_instruction (v4_fd s) = fetch_half m (fd_pc (v4_fd s)) \<and>
        fd_post_increment_pc (v4_fd s) = fd_pc (v4_fd s) + 2"
    and de: "de_valid (v4_de s) \<Longrightarrow> de_instruction (v4_de s) = fetch_half m (de_pc (v4_de s)) \<and>
        de_post_increment_pc (v4_de s) = de_pc (v4_de s) + 2"
    using assms(2) by (simp_all add: code_ok_def Let_def)
  have inv: "v4_reset_pending s \<or> v4_stopped s \<or> vector_active (v4_vec s) \<Longrightarrow> pipeline_empty s"
    using assms(1) by (simp add: v4_ordered_def)
  have np: "\<not> v4_paging s" using assms(3) by (simp add: code_cycle_def)
  have ns: "\<not> v4_walk_success s" using c(3) by (simp add: v4_walk_success_def walk_leaf_success_def)
  have base: "fe_coherent v4_index_bits m (v4_frontend ?t)" "\<not> w_active (v4_walker ?t)" "\<not> w_processing (v4_walker ?t)"
    using code_frontend [OF c(1) assms(3)] walker_idle_tick [OF np c(2,3)] by blast+
  have fin: "code_ok m ?t" if "pipeline_empty ?t" and "\<not> v4_stopped ?t \<Longrightarrow> \<not> vector_active (v4_vec ?t) \<Longrightarrow> fetch_aligned ?t"
    using that base by (simp add: code_ok_def pipeline_empty_def Let_def)
  consider (reset) "v4_reset_pending s" | (busy) "\<not> v4_reset_pending s" "\<not> v4_calm cfg i s"
    | (entry) "v4_calm cfg i s" "vector_active (v4_vec s)" | (plain) "v4_plain cfg i s"
    by (auto simp: v4_plain_def)
  then show ?thesis
  proof cases
    case reset
    show ?thesis using inv al reset
      by (intro fin)
        (simp_all add: reset_tick(1) fetch_aligned_def, simp_all add: v4_tick_def v4_boot_def v4_stopped_def)
  next
    case busy
    show ?thesis by (rule fin [OF not_calm_empty [OF busy]]) (use not_calm_status [OF busy] in blast)
  next
    case entry
    have e: "pipeline_empty ?t" using entry_cycle(1) [OF entry inv] entry(2) by blast
    have "fetch_aligned ?t" if "\<not> vector_active (v4_vec ?t)"
      using that entry(2) np
      by (auto simp: fetch_aligned_def calm_tick [OF entry(1)] blk_vector_done_def vec_active_moves redirect_fetch_def Let_def
          split: if_splits)
    then show ?thesis using fin [OF e] by blast
  next
    case plain
    have s: "\<not> v4_stopped s" "\<not> vector_active (v4_vec s)" using plain by (simp_all add: v4_plain_def v4_calm_def)
    note a = al [OF s]
    have "fd_valid (v4_fd ?t) \<Longrightarrow> fd_instruction (v4_fd ?t) = fetch_half m (fd_pc (v4_fd ?t)) \<and>
        fd_post_increment_pc (v4_fd ?t) = fd_pc (v4_fd ?t) + 2"
    proof (cases "fetch_accept cfg i s")
      case True
      then have iv: "instruction_valid v4_index_bits (v4_fetch_bus i s) (v4_frontend s)" "v4_fetch_phys_addr s = v4_fetch_pc s"
        using a by (auto simp: fetch_accept_def fetch_aligned_def)
      have "fd_instruction (fd_fetched i s) = fetch_half m (v4_fetch_pc s)"
        using coherent_fetch [OF c(1) iv(1)] iv(2) by (simp add: fd_fetched_def v4_fetch_bus_def)
      then show ?thesis using True accept_facts(1) [OF True] by (simp add: fd_tick [OF plain] fd_fetched_def)
    qed (use fd in \<open>auto simp: fd_tick [OF plain] split: if_splits\<close>)
    moreover have "de_valid (v4_de ?t) \<Longrightarrow> de_instruction (v4_de ?t) = fetch_half m (de_pc (v4_de ?t)) \<and>
        de_post_increment_pc (v4_de ?t) = de_pc (v4_de ?t) + 2"
      using fd de advance_facts(1) [of cfg s] by (auto simp: de_tick [OF plain] fd_de split: if_splits)
    ultimately show ?thesis using base aligned_plain [OF plain np ns a] by (simp add: code_ok_def Let_def)
  qed
qed

lemma code_reset: "code_ok m (v4_reset cfg)"
  by (simp add: code_ok_def v4_reset_def fe_coherent_reset walk_idle_def fetch_aligned_def pipeline_empty_def xm_cleared_def
      retire_cleared_def Let_def)

section \<open>Runs of a program\<close>

definition program_cycle :: "core_config \<Rightarrow> memory \<Rightarrow> v4_core \<Rightarrow> v4_in \<Rightarrow> bool" where
  "program_cycle cfg m s i \<longleftrightarrow> code_cycle cfg m s i \<and> scr_settled cfg s"

abbreviation "program_runs_v4 cfg m \<equiv> v4_run (program_cycle cfg m) cfg"

text \<open>Without paging, a fetch waits for its translation only while the pipeline is empty.\<close>

lemma code_steady: "v4_ordered cfg s \<Longrightarrow> code_ok m s \<Longrightarrow> fetch_steady s"
  by (auto simp: fetch_steady_def fetch_translate_ready_def v4_bus_free_def code_ok_def fetch_aligned_def v4_ordered_def pipeline_empty_def
      v4_redirect_def memory_redirect_def Let_def)

lemma program_invariants:
  "program_runs_v4 cfg m s \<Longrightarrow> code_ok m s \<and> flags_current s \<and> v4_ordered cfg s \<and> v4_current cfg s \<and> v4_precise s"
proof (induction rule: v4_run.induct)
  case reset
  show ?case using code_reset v4_ordered_reset v4_reachable_current v4_reachable.reset v4_precise_reset
    by (auto simp: flags_current_def) (simp_all add: v4_reset_def Let_def)
next
  case (tick s i)
  then show ?case using code_tick flags_current_tick v4_ordered_tick v4_current_tick v4_precise_tick code_steady
    by (auto simp: program_cycle_def)
qed

section \<open>What the execute slot holds\<close>

text \<open>The operands of the instruction at \<open>pc\<close> on given registers and flags; mode and reservation are those of the cycle.\<close>

definition arch_operands :: "exec_in \<Rightarrow> regfile \<Rightarrow> 3 word \<Rightarrow> u16 \<Rightarrow> u64 \<Rightarrow> operands" where
  "arch_operands x rs fl w pc = (x_operands x)\<lparr>op_a := rs (instruction_rd w), op_b := rs (instruction_rs1 w), op_flags := fl,
     op_next := pc + 2\<rparr>"

definition no_pc_operand :: "u16 \<Rightarrow> bool" where
  "no_pc_operand w \<longleftrightarrow> instruction_rd w \<noteq> 15 \<and> instruction_rs1 w \<noteq> 15"

lemma slot_operands:
  assumes "program_runs_v4 cfg m s" and "de_valid (v4_de s)" and "no_pc_operand (de_instruction (v4_de s))"
  shows "x_operands (v4_x cfg s) =
    arch_operands (v4_x cfg s) (older_regs s) (settled_flags s) (fetch_half m (de_pc (v4_de s))) (de_pc (v4_de s))"
    "de_instruction (v4_de s) = fetch_half m (de_pc (v4_de s))"
proof -
  note I = program_invariants [OF assms(1)]
  show w: "de_instruction (v4_de s) = fetch_half m (de_pc (v4_de s))" using I assms(2) by (simp add: code_ok_def Let_def)
  have c: "slot_current s" "flags_current s" "code_ok m s" using I by (simp_all add: v4_current_def)
  have "de_post_increment_pc (v4_de s) = de_pc (v4_de s) + 2" "de_flags (v4_de s) = settled_flags s"
    "de_operand_a (v4_de s) = older_regs s (instruction_rd (de_instruction (v4_de s)))"
    "de_operand_b (v4_de s) = older_regs s (instruction_rs1 (de_instruction (v4_de s)))"
    using c(3) c(2) c(1) assms(2,3) unfolding code_ok_def flags_current_def slot_current_def no_pc_operand_def Let_def by blast+
  then show "x_operands (v4_x cfg s) =
    arch_operands (v4_x cfg s) (older_regs s) (settled_flags s) (fetch_half m (de_pc (v4_de s))) (de_pc (v4_de s))"
    by (simp add: arch_operands_def x_operands_def w)
qed

section \<open>Commits are architecture steps\<close>

lemma regs_any:
  assumes "\<not> v4_reset_pending s" and "\<not> vector_done cfg i s" and "v4_regs s 0 = 0"
  shows "v4_regs (v4_tick cfg i s) = retire_regs (v4_retire s) (v4_regs s)"
  using assms
  by (simp add: v4_tick_moves blk_stopped_def clear_pipeline_def blk_vector_done_def v4_moves_def blk_writeback_def lock_up_def Let_def
      split: option.split)

lemma flags_any:
  assumes "\<not> v4_reset_pending s"
  shows "v4_flags (v4_tick cfg i s) = retire_flags (v4_retire s) (v4_flags s)"
  by (simp add: v4_tick_moves [OF assms] v4_moves_def blk_writeback_def lock_up_def Let_def split: option.split)

lemma retire_slot:
  assumes "program_runs_v4 cfg m s" and "v4_to_retire cfg s" and "\<not> v4_stopped (v4_tick cfg i s)"
  shows "v4_plain cfg i s" and "r \<noteq> 0 \<Longrightarrow> r \<noteq> 15 \<Longrightarrow> older_regs s r = v4_regs (v4_tick cfg i s) r"
    and "settled_flags s = v4_flags (v4_tick cfg i s)" and "v4_regs (v4_tick cfg i s) 15 = de_pc (v4_de s)"
    and "\<not> fault_pending (v4_flt (v4_tick cfg i s))"
proof -
  note I = program_invariants [OF assms(1)]
  have d: "de_valid (v4_de s)" "\<not> m_valid (v4_xm s)" "\<not> mr_valid (v4_mr s)"
    using assms(2) by (simp_all add: v4_to_retire_def execute_to_retire_def v4_dispatch_def)
  have n: "\<not> pipeline_empty s" using d by (simp add: pipeline_empty_def)
  have o: "\<not> v4_reset_pending s" "\<not> v4_stopped s" "\<not> vector_active (v4_vec s)" "latches_ok s"
    using I n by (auto simp: v4_ordered_def)
  have p: "port_ok s \<and> trap_ok s \<and> fault_ok s" "walker_ok s" using I o by (simp_all add: v4_precise_def)
  have f: "\<not> fault_pending (v4_flt s)" using p d by (auto simp: fault_ok_def Let_def)
  have "\<not> entry_start cfg i s" using f d by (simp add: entry_start_def trap_start_def irq_start_def)
  moreover have "\<not> v4_stop_request s" "\<not> v4_failing cfg i s" using stopped_tick [OF o(1)] assms(3) by blast+
  ultimately show plain: "v4_plain cfg i s" using o by (simp add: v4_plain_def v4_calm_def)
  show "settled_flags s = v4_flags (v4_tick cfg i s)" using d by (simp add: settled_flags_def flags_tick [OF plain] Let_def)
  show "r \<noteq> 0 \<Longrightarrow> r \<noteq> 15 \<Longrightarrow> older_regs s r = v4_regs (v4_tick cfg i s) r"
    using d by (simp add: older_regs_def mr_list_def regs_tick [OF plain] retire_regs_list)
  have chain: "chain_ok cfg s" using I o f by (simp add: v4_ordered_def)
  have "r_valid (v4_retire s) \<longrightarrow> r_commit (v4_retire s)" using o(4) d by (auto simp: latches_ok_def Let_def)
  moreover have "\<not> w_processing (v4_walker s)" using I by (simp add: code_ok_def Let_def)
  ultimately have nt: "\<not> trap_request_next s"
    using d o(4) by (auto simp: trap_request_next_def retire_stage_def port_def latches_ok_def fetch_fault_def fetch_translate_ready_def
        memory_fault_def memory_translate_ready_def walk_fault_trap_def v4_walk_fault_def walk_fault_def Let_def)
  then show "\<not> fault_pending (v4_flt (v4_tick cfg i s))"
    using fault_tick [of cfg i s] plain by (simp add: v4_plain_def v4_calm_def)
  from regs_15_tick [OF plain o(4) chain nt] show "v4_regs (v4_tick cfg i s) 15 = de_pc (v4_de s)"
    using d by (simp add: result_pc_def memory_pc_def execute_pc_def)
qed

text \<open>Registers and flags an instruction at \<open>pc\<close> that needs no memory access leaves.\<close>

fun isa_result :: "exec_in \<Rightarrow> effect \<Rightarrow> u64 \<Rightarrow> regfile \<Rightarrow> 3 word \<Rightarrow> regfile \<times> 3 word" where
  "isa_result x (E_Write p f nxt) pc rs fl = ((write_port p rs)(15 := nxt), case f of Some g \<Rightarrow> g | None \<Rightarrow> fl)"
| "isa_result x E_Sc_Fail pc rs fl = (rs(15 := pc + 2), cat3 False (bit fl 1) (bit fl 2))"
| "isa_result x (E_Read_Special r) pc rs fl = ((write_port (Some (r, x_special_read_data x)) rs)(15 := pc + 2), fl)"
| "isa_result x E_Write_Special pc rs fl = (rs(15 := pc + 2), fl)"
| "isa_result x E_Iret pc rs fl = (rs(15 := x_interrupt_epc x), bslice 0 (x_interrupt_eflags x))"
| "isa_result x E_Halt pc rs fl = (rs(15 := pc + 2), fl)"
| "isa_result x (E_Trap tv) pc rs fl = (rs, fl)"
| "isa_result x (E_Mem op) pc rs fl = (rs, fl)"

lemmas retire_port_defs = retire_regs_def retire_flags_def retire_stage_def retire_from_execute_def port_def write_port_def

lemma retire_result:
  assumes "stage_effect x e o'" and "\<not> is_mem e" and "x_post_pc x = pc + 2" and "x_flags x = fl"
  shows "(retire_regs (retire_from_execute pc o') rs, retire_flags (retire_from_execute pc o') fl) = isa_result x e pc rs fl"
proof (cases e)
  case (E_Write p f nxt)
  then show ?thesis using retire_execute(1,2) [of x p f nxt o'] assms(1) by simp
next
  case (E_Read_Special r)
  then show ?thesis using retire_execute(1,2) [of x _ None "x_post_pc x" o'] assms by simp
qed (use assms in \<open>simp_all add: retire_port_defs out_defs exec_default_def Let_def\<close>)

text \<open>The effect of the instruction sent to the retire latch, on the state the cycle leaves.\<close>

lemma retired_isa:
  assumes "program_runs_v4 cfg m s" and "v4_to_retire cfg s" and "\<not> v4_stopped (v4_tick cfg i s)"
    and "no_pc_operand (de_instruction (v4_de s))"
  shows "let t = v4_tick cfg i s; u = v4_tick cfg j t; pc = v4_regs t 15; w = fetch_half m pc; x = v4_x cfg s;
       e = isa_execute (decode w) (arch_operands x (v4_regs t) (v4_flags t) w pc) in
     (v4_regs u, v4_flags u) = isa_result x e pc (v4_regs t) (v4_flags t) \<and> \<not> is_mem e \<and>
     v4_commit_valid u = (\<not> is_trap e \<and> e \<noteq> E_Halt) \<and> (v4_commit_valid u \<longrightarrow> v4_commit_pc u = pc) \<and>
     v4_halted u = (e = E_Halt) \<and>
     (\<forall>tv. e = E_Trap tv \<longrightarrow> fault_pending (v4_flt u) \<and> fault_cause (v4_flt u) = trap_code tv \<and> fault_pc (v4_flt u) = pc)"
proof -
  let ?t = "v4_tick cfg i s" and ?w = "de_instruction (v4_de s)" and ?pc = "de_pc (v4_de s)"
  let ?u = "v4_tick cfg j ?t" and ?o = "v4_out cfg s" and ?x = "v4_x cfg s" and ?e = "v4_effect cfg s"
  note R = retire_slot [OF assms(1-3)]
  have d: "de_valid (v4_de s)" using assms(2) by (simp add: v4_to_retire_def execute_to_retire_def v4_dispatch_def)
  note I = program_invariants [OF assms(1)]
  note S = slot_operands [OF assms(1) d assms(4)]
  have r0: "older_regs s 0 = 0" "v4_regs ?t 0 = 0" using I regs_0_tick by (simp_all add: older_regs_def v4_current_def)
  have "older_regs s r = v4_regs ?t r" if "r \<noteq> 15" for r using R(2) [of r] that r0 by (cases "r = 0") simp_all
  then have ops: "arch_operands ?x (v4_regs ?t) (v4_flags ?t) (fetch_half m ?pc) ?pc = x_operands ?x"
    using S R(3) assms(4) by (simp add: arch_operands_def no_pc_operand_def)
  have eff: "isa_execute (decode (fetch_half m ?pc)) (x_operands ?x) = ?e"
    using S(2) by (simp add: x_effect_def)
  have st: "stage_effect ?x ?e ?o"
    using v3_execute_spec [of ?x] d by (simp add: v4_out_def x_effect_def)
  have nm: "\<not> is_mem ?e" using leaves_kind(1) [OF assms(2)] v4_out_fields(5) [OF d, of cfg] by simp
  have ret: "v4_retire ?t = retire_from_execute ?pc ?o"
    using assms(2) leaves_kind [of cfg s] by (auto simp: retire_tick [OF R(1)] Let_def)
  have nv: "\<not> v4_reset_pending ?t" "\<not> vector_done cfg j ?t"
    using plain_vec [OF R(1)] reset_pending_tick by (simp_all add: vector_done_def vector_response_valid_def)
  have x: "x_post_pc ?x = ?pc + 2" "x_flags ?x = v4_flags ?t"
    using arg_cong [OF ops, of op_next] arg_cong [OF ops, of op_flags] by (simp_all add: arch_operands_def)
  have res: "(v4_regs ?u, v4_flags ?u) = isa_result ?x ?e ?pc (v4_regs ?t) (v4_flags ?t)"
    using retire_result [OF st nm x] by (simp add: regs_any [OF nv r0(2)] flags_any [OF nv(1)] ret)
  have com: "v4_commit_valid ?u = (\<not> is_trap ?e \<and> ?e \<noteq> E_Halt)" "v4_commit_valid ?u \<longrightarrow> v4_commit_pc ?u = ?pc"
    using commit_tick [OF nv(1), of cfg j] v4_out_fields(2-4) [OF d, of cfg] by (auto simp: ret retire_from_execute_def)
  have hal: "v4_halted ?u = (?e = E_Halt)"
    using assms(3) v4_out_fields(3) [OF d, of cfg]
    by (simp add: v4_tick_moves [OF nv(1)] v4_moves_def stopped_writeback v4_stopped_def Let_def)
      (simp add: ret retire_stage_def retire_from_execute_def)
  have "fault_pending (v4_flt ?u) \<and> fault_cause (v4_flt ?u) = trap_code tv \<and> fault_pc (v4_flt ?u) = ?pc" if "?e = E_Trap tv" for tv
  proof -
    have p: "trap_port (retire_stage (v4_retire ?t)) = Some (trap_code tv, ?pc)"
      using retire_trap(1) [of ?pc tv ?x] st that by (simp add: ret)
    have "r_valid (v4_retire ?t)" by (simp add: ret retire_from_execute_def)
    moreover have "\<not> fault_pending (v4_flt ?t)" by (rule R(5))
    ultimately have "\<not> entry_start cfg j ?t" by (simp add: entry_start_def trap_start_def irq_start_def)
    then have "v4_flt ?u = v4_fault_next ?t" by (simp add: v4_tick_def v4_units_def Let_def)
    then show ?thesis using p by (simp add: v4_fault_next_def trap_request_next_def Let_def split: prod.split)
  qed
  then show ?thesis unfolding Let_def R(4) ops eff using res nm com hal by blast
qed

text \<open>
  Property C5: While a v4 core runs a fixed program from reset without paging (any bus timing,
  traps, interrupts, loads and stores; no line update, no decode while a store-conditional has Z
  outstanding), in a cycle that does not stop the core the instruction sent to the retire latch is
  the one memory holds at R15; if that word does not name R15 as an operand, the next cycle makes
  registers, flags, commit, halt and pending trap those isa_execute gives on the architected
  registers and flags.
\<close>

theorem v4_commits_isa:
  assumes "program_runs_v4 cfg m s" and "v4_to_retire cfg s" and "\<not> v4_stopped (v4_tick cfg i s)"
  shows "let t = v4_tick cfg i s; u = v4_tick cfg j t; pc = v4_regs t 15; w = fetch_half m pc; x = v4_x cfg s;
       e = isa_execute (decode w) (arch_operands x (v4_regs t) (v4_flags t) w pc) in
     de_pc (v4_de s) = pc \<and> de_instruction (v4_de s) = w \<and>
     (no_pc_operand w \<longrightarrow>
       (v4_regs u, v4_flags u) = isa_result x e pc (v4_regs t) (v4_flags t) \<and> \<not> is_mem e \<and>
       v4_commit_valid u = (\<not> is_trap e \<and> e \<noteq> E_Halt) \<and> (v4_commit_valid u \<longrightarrow> v4_commit_pc u = pc) \<and>
       v4_halted u = (e = E_Halt) \<and>
       (\<forall>tv. e = E_Trap tv \<longrightarrow> fault_pending (v4_flt u) \<and> fault_cause (v4_flt u) = trap_code tv \<and> fault_pc (v4_flt u) = pc))"
proof -
  have "de_valid (v4_de s)" using assms(2) by (simp add: v4_to_retire_def execute_to_retire_def v4_dispatch_def)
  then have w: "de_instruction (v4_de s) = fetch_half m (v4_regs (v4_tick cfg i s) 15)"
    using program_invariants [OF assms(1)] retire_slot(4) [OF assms] by (simp add: code_ok_def Let_def)
  show ?thesis using retired_isa [OF assms] retire_slot(4) [OF assms] w unfolding Let_def by (metis (no_types, lifting))
qed



section \<open>Example\<close>

text \<open>The code of the example run: \<open>LDI R1, 5\<close> and \<open>STOP\<close>.\<close>

definition program_memory :: memory where
  "program_memory = (\<lambda>_. 0)(0 := 0x51, 1 := 0x80, 2 := 1, 3 := 0xDF)"

lemma program_line: "bus_read program_memory 0 = 0xDF018051"
proof -
  have "(8 :: nat) = Suc (Suc (Suc (Suc (Suc (Suc (Suc (Suc 0)))))))" by simp
  then have "load_le 8 program_memory 0 = 0xDF018051" by (simp only: load_le.simps) (simp add: program_memory_def)
  then show ?thesis by (simp add: bus_read_def line_base_def)
qed

lemma flow_cycle:
  assumes "\<not> m_valid (v4_xm s)" and "\<not> mr_valid (v4_mr s)" and "\<not> v4_paging s" and "plain_slot cfg s"
    and "\<not> vi_i_ack i \<or> vi_i_dat_r i = bus_read m (req_base (v4_frontend s))"
  shows "program_cycle cfg m s i"
  using assms plain_slot_out(1) [OF assms(4)] memory_exclusive [of cfg i s]
  by (auto simp: program_cycle_def code_cycle_def scr_settled_def xm_flags_def frontend_line_update_valid_def v4_store_done_def Let_def)

lemma fetching_cycle:
  assumes "fetching s pc pv f" and "\<not> de_valid (v4_de s)" and "\<not> vi_i_ack i \<or> vi_i_dat_r i = bus_read m (req_base f)"
  shows "program_cycle cfg m s i"
  by (rule flow_cycle) (use assms empty_slot in \<open>simp_all add: fetching_def v4_flow_def\<close>)

lemma demo_program: "program_runs_v4 plain_config program_memory (demo (program_run @ wait 2))"
proof -
  let ?R = "\<lambda>is. program_runs_v4 plain_config program_memory (demo is)"
  have go: "?R (is @ [i])" if "?R is" "program_cycle plain_config program_memory (demo is) i" for "is" i
    unfolding demo_snoc by (rule v4_run.tick [OF that])
  have q: "\<not> vi_i_ack no_input" by (simp add: no_input_def)
  have s: "?R (is @ [no_input])" if "?R is" "fetching (demo is) pc pv f \<and> \<not> de_valid (v4_de (demo is))" for "is" pc pv f
    using go [OF that(1)] fetching_cycle [OF conjunct1 [OF that(2)] conjunct2 [OF that(2)]] q by blast
  have e: "\<not> de_valid (v4_de t)" if "pipeline_empty t" for t using that by (simp add: pipeline_empty_def)
  have "?R []" by (simp add: demo_def v4_run.reset)
  then have "?R ([] @ [no_input])" by (rule go)
    (rule flow_cycle, simp_all add: demo_def v4_reset_def xm_cleared_def v4_paging_def sr_reset_def plain_slot_def q Let_def)
  then have "?R ([no_input] @ [no_input])" using s demo_1 e by fastforce
  then have "?R ([no_input, no_input] @ [no_input])" using s [of "[no_input, no_input]"] demo_2 e by fastforce
  then have "?R (wait 3)" by (simp add: numeral_eq_Suc)
  moreover have "program_cycle plain_config program_memory (demo (wait 3)) line_input"
    by (rule fetching_cycle [OF conjunct1 [OF demo_3] e [OF conjunct2 [OF demo_3]]]) (simp add: front_asked_def frontend_reset_def line_input_def program_line)
  ultimately have "?R program_run" using go by (simp add: program_run_def)
  then have "?R (program_run @ [no_input])" using s demo_4 e by blast
  then have "?R ((program_run @ wait 1) @ [no_input])" using s demo_5 by (fastforce simp: Let_def)
  then show ?thesis by (simp add: numeral_eq_Suc)
qed

lemma v4_commits_isa_witness:
  "let s = demo (program_run @ wait 2); t = v4_tick plain_config no_input s; u = v4_tick plain_config no_input t; pc = v4_regs t 15;
      w = fetch_half program_memory pc; x = v4_x plain_config s;
      e = isa_execute (decode w) (arch_operands x (v4_regs t) (v4_flags t) w pc) in
    de_instruction (v4_de s) = w \<and> no_pc_operand w \<and>
    (v4_regs u, v4_flags u) = isa_result x e pc (v4_regs t) (v4_flags t) \<and> v4_halted u = (e = E_Halt)"
proof -
  note d = demo_6 [unfolded Let_def] and r = demo_7 [unfolded Let_def]
  have n: "\<not> v4_stopped (v4_tick plain_config no_input (demo (program_run @ wait 2)))"
    using stopped_tick [of "demo (program_run @ wait 2)" plain_config no_input] r by (simp add: v4_plain_def v4_calm_def)
  have p: "no_pc_operand (de_instruction (v4_de (demo (program_run @ wait 2))))"
    using d by (simp add: no_pc_operand_def instruction_field_defs bslice_def)
  have to: "v4_to_retire plain_config (demo (program_run @ wait 2))" using r by blast
  show ?thesis using v4_commits_isa [OF demo_program to n, of no_input] p unfolding Let_def by (metis (no_types, lifting))
qed

end
