(* ===== verification/V4_Bus.thy ===== *)
theory V4_Bus
  imports V4_Run
begin

text \<open>
  The v4 core on a bus that misbehaves: with a bus timeout the load-store unit answers every
  access, so a page-table walk comes to a decision within a number of cycles that depends on
  the timeout only; and every bus error stops the core for good.
\<close>

section \<open>Walker and load-store unit\<close>

lemma lsu_unit: "v4_lsu (v4_tick cfg i s) = lsu_tick (v4_timeout cfg) (v4_lsu_in cfg i s) (v4_lsu s)"
  by (simp add: v4_tick_def v4_units_def Let_def)

lemma response_unit:
  "l_request_ready (v4_response cfg i s) = (phase (v4_lsu s) = LSU_IDLE)"
  "l_response_valid (v4_response cfg i s) = l_response_valid (lsu_response_out (v4_timeout cfg) (v4_lsu_in cfg i s) (v4_lsu s))"
  "l_response_error (v4_response cfg i s) \<Longrightarrow> l_response_valid (v4_response cfg i s)"
  by (simp_all add: v4_response_def lsu_response_out_def v4_lsu_in_def Let_def effective_err_def last_beat_def lsu_load_value_def)

text \<open>A walk waits for the unit only while the unit is busy.\<close>

definition walk_bus_ok :: "core_config \<Rightarrow> v4_core \<Rightarrow> bool" where
  "walk_bus_ok cfg s \<longleftrightarrow> (let w = v4_walker s; l = v4_lsu s in
     watchdog_counter l \<le> v4_timeout cfg \<and> (w_processing w \<longrightarrow> w_active w) \<and> (w_active w \<longrightarrow> w_level w \<le> 2) \<and>
     (w_active w \<and> \<not> w_processing w \<and> w_started w \<longrightarrow> lsu_active l))"

definition walk_rank :: "nat \<Rightarrow> v4_walk \<Rightarrow> lsu \<Rightarrow> nat" where
  "walk_rank N w l = unat (w_level w) * (2 * N + 4) +
     (if w_processing w then 0 else if lsu_active l then lsu_rank N l else 2 * N + 3)"

lemma watchdog_tick: "watchdog_counter s \<le> N \<Longrightarrow> watchdog_counter (lsu_tick N i s) \<le> N"
  by (auto simp: lsu_tick_def watchdog_next_def watchdog_fire_def Let_def)

lemma lsu_rank_bounds: "lsu_active s \<Longrightarrow> 0 < lsu_rank N s" "lsu_rank N s \<le> 2 * N + 2"
  by (cases "phase s"; simp add: lsu_rank_def lsu_active_def)+

lemma lsu_tick_active:
  "lsu_active s \<Longrightarrow> \<not> l_response_valid (lsu_response_out N i s) \<Longrightarrow> lsu_active (lsu_tick N i s)"
  "phase s = LSU_IDLE \<Longrightarrow> request_valid i \<Longrightarrow> lsu_active (lsu_tick N i s) \<and> lsu_rank N (lsu_tick N i s) = 2 * N + 2"
  by (cases "phase s"; auto simp: lsu_response_out_def lsu_tick_def lsu_defs lsu_rank_def lsu_accept_def Let_def)+

lemma level_zero_resolved: "w_processing w \<Longrightarrow> w_level w = 0 \<Longrightarrow> walk_resolved user w"
  by (auto simp: walk_resolved_def walk_fault_def walk_leaf_success_def)

lemma resolved_processing: "walk_resolved user w \<Longrightarrow> w_processing w"
  by (auto simp: walk_resolved_def walk_fault_def walk_leaf_success_def)

lemma level_down:
  assumes "(l :: 2 word) \<noteq> 0"
  shows "unat (l - 1) = unat l - 1" "0 < unat l" "l \<le> 2 \<Longrightarrow> l - 1 \<le> 2"
  using assms by unat_arith+

text \<open>One cycle of a walk that is not decided and not stopped.\<close>

lemma walk_bus_cycle:
  assumes "v4_calm cfg i s" and "walk_bus_ok cfg s" and "w_active (v4_walker s)"
  shows "walk_bus_ok cfg (v4_tick cfg i s)"
    and "\<not> walk_resolved (v4_user s) (v4_walker s) \<Longrightarrow> 0 < v4_timeout cfg \<Longrightarrow>
      walk_rank (v4_timeout cfg) (v4_walker (v4_tick cfg i s)) (v4_lsu (v4_tick cfg i s)) <
      walk_rank (v4_timeout cfg) (v4_walker s) (v4_lsu s)"
proof -
  let ?w = "v4_walker s" and ?l = "v4_lsu s" and ?N = "v4_timeout cfg" and ?u = "v4_user s" and ?i = "v4_lsu_in cfg i s"
  let ?t = "v4_tick cfg i s"
  have ok: "watchdog_counter ?l \<le> ?N" "w_level ?w \<le> 2" "\<not> w_processing ?w \<Longrightarrow> w_started ?w \<Longrightarrow> lsu_active ?l"
    "w_processing ?w \<longrightarrow> w_active ?w"
    using assms(2,3) by (simp_all add: walk_bus_ok_def Let_def)
  have w: "v4_walker ?t = walk_tick ?u (phase ?l = LSU_IDLE) (walk_answer cfg i s) ?w"
    using walker_tick [OF assms(1) ok(4)] assms(3) by (simp add: response_unit(1))
  have l: "v4_lsu ?t = lsu_tick ?N ?i ?l" by (rule lsu_unit)
  have idle: "lsu_active ?l = (phase ?l \<noteq> LSU_IDLE)" by (simp add: lsu_active_def)
  have req: "request_valid ?i = walk_request_valid ?w" using assms(3) by (simp add: v4_lsu_in_def Let_def)
  have err: "\<not> l_response_error (v4_response cfg i s)" if "\<not> w_processing ?w"
    using assms(1,3) that response_unit(3) [of cfg i s]
    by (auto simp: v4_calm_def v4_failing_def v4_walk_error_def walk_response_valid_def v4_response_error_def)
  have rv: "l_response_valid (lsu_response_out ?N ?i ?l) = l_response_valid (v4_response cfg i s)" by (simp add: response_unit(2))
  have wd: "watchdog_counter (v4_lsu ?t) \<le> ?N" using watchdog_tick [OF ok(1)] l by simp
  consider (decided) "walk_resolved ?u ?w"
    | (down) "w_processing ?w" "\<not> walk_resolved ?u ?w"
    | (answer) "\<not> w_processing ?w" "l_response_valid (v4_response cfg i s)"
    | (wait) "\<not> w_processing ?w" "\<not> l_response_valid (v4_response cfg i s)" by blast
  then have "walk_bus_ok cfg ?t \<and> (\<not> walk_resolved ?u ?w \<longrightarrow> 0 < ?N \<longrightarrow> walk_rank ?N (v4_walker ?t) (v4_lsu ?t) < walk_rank ?N ?w ?l)"
  proof cases
    case decided
    then have "w_processing ?w" by (rule resolved_processing)
    then have "v4_walker ?t = ?w \<or> v4_walker ?t = walk_stop ?w"
      using decided w
      by (auto simp: walk_tick_def walk_request_valid_def walk_response_valid_def walk_descend_def walk_resolved_def Let_def split: option.splits)
    then show ?thesis using decided wd ok \<open>w_processing ?w\<close> assms(3) by (auto simp: walk_bus_ok_def walk_stop_def Let_def)
  next
    case down
    then have nz: "w_level ?w \<noteq> 0" using level_zero_resolved by blast
    have t: "w_processing (v4_walker ?t) = False" "w_started (v4_walker ?t) = False" "w_level (v4_walker ?t) = w_level ?w - 1"
      using down w
      by (auto simp: walk_tick_def walk_request_valid_def walk_response_valid_def walk_descend_def walk_resolved_def Let_def split: option.splits)
    have "unat (w_level ?w) * (2 * ?N + 4) = (unat (w_level ?w) - 1) * (2 * ?N + 4) + (2 * ?N + 4)"
      using level_down(2) [OF nz] by (cases "unat (w_level ?w)") simp_all
    moreover have "lsu_rank ?N (v4_lsu ?t) \<le> 2 * ?N + 2" by (rule lsu_rank_bounds(2))
    ultimately show ?thesis
      using down(1) t wd level_down [OF nz] ok(2) by (simp add: walk_bus_ok_def walk_rank_def Let_def)
  next
    case answer
    then have act: "lsu_active ?l" by (auto simp: response_unit(2) lsu_response_out_def idle last_beat_def Let_def)
    have t: "w_processing (v4_walker ?t)" "w_active (v4_walker ?t)" "w_level (v4_walker ?t) = w_level ?w"
      using answer err assms(3) w
      by (auto simp: walk_tick_def walk_answer_def walk_latch_def walk_response_valid_def walk_leaf_success_def walk_descend_def Let_def)
    then show ?thesis
      using wd ok(2) answer(1) act lsu_rank_bounds(1) [OF act, of ?N] by (simp add: walk_bus_ok_def walk_rank_def Let_def)
  next
    case wait
    have t: "w_processing (v4_walker ?t) = False" "w_active (v4_walker ?t)" "w_level (v4_walker ?t) = w_level ?w"
      "w_started (v4_walker ?t) = (w_started ?w \<or> phase ?l = LSU_IDLE)"
      using wait err assms(3) w
      by (auto simp: walk_tick_def walk_answer_def walk_request_valid_def walk_leaf_success_def walk_descend_def Let_def)
    show ?thesis
    proof (cases "lsu_active ?l")
      case True
      then have a: "lsu_active (v4_lsu ?t)" using lsu_tick_active(1) wait(2) rv l by simp
      have "lsu_rank ?N (v4_lsu ?t) < lsu_rank ?N ?l" if "0 < ?N"
        using lsu_rank_falls [OF True ok(1) that, of ?i] wait(2) rv l by simp
      then show ?thesis using a t wd ok(2) wait(1) True by (simp add: walk_bus_ok_def walk_rank_def Let_def)
    next
      case False
      then have "phase ?l = LSU_IDLE" "\<not> w_started ?w" using idle ok(3) wait(1) by blast+
      then have "lsu_active (v4_lsu ?t) \<and> lsu_rank ?N (v4_lsu ?t) = 2 * ?N + 2"
        using lsu_tick_active(2) req wait(1) assms(3) l by (simp add: walk_request_valid_def)
      then show ?thesis using t wd ok(2) wait(1) False by (simp add: walk_bus_ok_def walk_rank_def Let_def)
    qed
  qed
  then show "walk_bus_ok cfg ?t" and "\<not> walk_resolved ?u ?w \<Longrightarrow> 0 < ?N \<Longrightarrow>
      walk_rank ?N (v4_walker ?t) (v4_lsu ?t) < walk_rank ?N ?w ?l" by blast+
qed

section \<open>Every walk is decided\<close>

lemma walk_started_fresh:
  "walk_started_by cfg s = Some w \<Longrightarrow> w_active w \<and> \<not> w_processing w \<and> \<not> w_started w \<and> w_level w = 2"
  by (auto simp: walk_started_by_def walk_start_def split: if_splits)

lemma walk_bus_tick:
  assumes "walk_bus_ok cfg s" and "\<not> v4_reset_pending s" and "\<not> v4_stopped (v4_tick cfg i s)"
  shows "walk_bus_ok cfg (v4_tick cfg i s)"
proof (cases "v4_calm cfg i s")
  case True
  show ?thesis
  proof (cases "w_active (v4_walker s)")
    case False
    have p: "w_processing (v4_walker s) \<longrightarrow> w_active (v4_walker s)" "watchdog_counter (v4_lsu s) \<le> v4_timeout cfg"
      using assms(1) by (simp_all add: walk_bus_ok_def Let_def)
    have "(\<exists>w. walk_started_by cfg s = Some w \<and> v4_walker (v4_tick cfg i s) = w) \<or> v4_walker (v4_tick cfg i s) = v4_walker s"
      using walker_tick [OF True p(1)] False by (simp split: option.split)
    moreover have "watchdog_counter (v4_lsu (v4_tick cfg i s)) \<le> v4_timeout cfg" using watchdog_tick [OF p(2)] by (simp add: lsu_unit)
    ultimately show ?thesis using p False walk_started_fresh by (auto simp: walk_bus_ok_def Let_def)
  qed (rule walk_bus_cycle(1) [OF True assms(1)])
next
  case False
  then have e: "entry_start cfg i s" "\<not> v4_failing cfg i s" using assms(2,3) stopped_tick [OF assms(2), of cfg i] by (auto simp: v4_calm_def)
  have "watchdog_counter (v4_lsu s) \<le> v4_timeout cfg" using assms(1) by (simp add: walk_bus_ok_def Let_def)
  then show ?thesis
    using entry_walker [OF e assms(2)] watchdog_tick by (simp add: walk_bus_ok_def lsu_unit Let_def)
qed

text \<open>The invariant holds from reset until the core stops.\<close>

lemma walk_bus_reachable:
  "v4_reachable cfg s \<Longrightarrow> \<not> v4_stopped s \<Longrightarrow> walk_bus_ok cfg s"
proof (induction rule: v4_reachable.induct)
  case reset
  show ?case by (simp add: walk_bus_ok_def v4_reset_def walk_idle_def lsu_reset_def Let_def)
next
  case (tick s i)
  show ?case
  proof (cases "v4_reset_pending s")
    case False
    then have "\<not> v4_stopped s" using tick.prems stopped_tick [OF False] by blast
    then show ?thesis using walk_bus_tick [OF tick.IH False tick.prems] by blast
  next
    case True
    have "s = v4_reset cfg" using tick.hyps(1) True reset_pending_tick by (cases rule: v4_reachable.cases) auto
    then show ?thesis
      by (simp add: walk_bus_ok_def lsu_unit watchdog_tick v4_reset_def lsu_reset_def Let_def)
        (simp add: v4_tick_def v4_units_def v4_boot_def walk_idle_def Let_def)
  qed
qed

definition walk_settled :: "v4_core \<Rightarrow> bool" where
  "walk_settled s \<longleftrightarrow> v4_stopped s \<or> \<not> w_active (v4_walker s) \<or> walk_resolved (v4_user s) (v4_walker s)"

lemma walk_settles:
  assumes "walk_bus_ok cfg s" and "\<not> v4_reset_pending s" and "0 < v4_timeout cfg"
    and "walk_rank (v4_timeout cfg) (v4_walker s) (v4_lsu s) \<le> length is"
  shows "\<exists>k \<le> length is. walk_settled (fold (v4_tick cfg) (take k is) s)"
  using assms
proof (induction "is" arbitrary: s)
  case Nil
  then have "unat (w_level (v4_walker s)) = 0" "w_processing (v4_walker s)"
    using lsu_rank_bounds(1) [of "v4_lsu s" "v4_timeout cfg"] by (auto simp: walk_rank_def split: if_splits)
  then show ?case using level_zero_resolved [of "v4_walker s"] by (simp add: walk_settled_def unat_eq_0)
next
  case (Cons i "is")
  let ?t = "v4_tick cfg i s"
  show ?case
  proof (cases "walk_settled s \<or> walk_settled ?t")
    case True
    then show ?thesis
      by (metis (no_types, lifting) fold_simps(1,2) le0 length_Cons not_less_eq_eq take0 take_Suc_Cons Suc_le_mono)
  next
    case False
    then have n: "\<not> v4_stopped ?t" "w_active (v4_walker s)" "w_active (v4_walker ?t)" "\<not> walk_resolved (v4_user s) (v4_walker s)"
      by (simp_all add: walk_settled_def)
    have calm: "v4_calm cfg i s"
      using stopped_tick [OF Cons.prems(2), of cfg i] n(1,3) entry_walker [of cfg i s] Cons.prems(2) by (auto simp: v4_calm_def)
    have "walk_rank (v4_timeout cfg) (v4_walker ?t) (v4_lsu ?t) \<le> length is"
      using walk_bus_cycle(2) [OF calm Cons.prems(1) n(2,4) Cons.prems(3)] Cons.prems(4) by simp
    from Cons.IH [OF walk_bus_tick [OF Cons.prems(1,2) n(1)] _ Cons.prems(3) this] obtain k
      where "k \<le> length is" "walk_settled (fold (v4_tick cfg) (take k is) ?t)" using reset_pending_tick by blast
    then show ?thesis by (intro exI [of _ "Suc k"]) simp
  qed
qed

text \<open>
  Property C26: With a bus timeout of N > 0 cycles every page-table walk of the v4 core is
  decided, given up or stopped by an error within 6 (N + 2) cycles, whatever the buses answer or
  fail to answer: the walker and the load-store unit never wait for each other.
\<close>

lemma v4_walk_terminates:
  assumes "walk_bus_ok cfg s" and "\<not> v4_reset_pending s" and "0 < v4_timeout cfg" and "6 * (v4_timeout cfg + 2) \<le> length is"
  shows "\<exists>k \<le> length is. walk_settled (fold (v4_tick cfg) (take k is) s)"
proof (cases "w_active (v4_walker s)")
  case True
  then have "w_level (v4_walker s) \<le> 2" using assms(1) by (simp add: walk_bus_ok_def Let_def)
  then have "unat (w_level (v4_walker s)) \<le> 2" by unat_arith
  then have "unat (w_level (v4_walker s)) * (2 * v4_timeout cfg + 4) \<le> 2 * (2 * v4_timeout cfg + 4)" by (rule mult_le_mono1)
  then have "walk_rank (v4_timeout cfg) (v4_walker s) (v4_lsu s) \<le> length is"
    using assms(4) lsu_rank_bounds(2) [of "v4_timeout cfg" "v4_lsu s"] by (simp add: walk_rank_def)
  then show ?thesis by (rule walk_settles [OF assms(1-3)])
qed (auto simp: walk_settled_def intro: exI [of _ 0])

section \<open>Bus errors\<close>

text \<open>An error answer, or a timeout, of a fetch, a load, a store, a walk or a vector load.\<close>

definition v4_bus_error :: "core_config \<Rightarrow> v4_in \<Rightarrow> v4_core \<Rightarrow> bool" where
  "v4_bus_error cfg i s \<longleftrightarrow> v4_fetch_error cfg i s \<or> memory_error cfg i s \<or> v4_storebuf_error cfg i s \<or>
     v4_walk_error cfg i s \<or> vector_response_valid cfg i s \<and> v4_response_error cfg i s"

lemma stopped_empty_runs:
  assumes "\<not> v4_reset_pending s" and "v4_stopped s" and "pipeline_empty s"
  shows "let t = fold (v4_tick cfg) is s in \<not> v4_reset_pending t \<and> v4_stopped t \<and> pipeline_empty t"
  using assms
proof (induction "is" arbitrary: s)
  case (Cons i "is")
  have "\<not> v4_calm cfg i s" using Cons.prems(2) by (simp add: v4_calm_def)
  then have "pipeline_empty (v4_tick cfg i s)" "v4_stopped (v4_tick cfg i s)"
    using not_calm_empty [OF Cons.prems(1)] stopped_tick [OF Cons.prems(1), of cfg i] Cons.prems(2) by simp_all
  from Cons.IH [OF reset_pending_tick this(2,1)] show ?case by simp
qed simp

text \<open>
  Property C27: A bus error or timeout of a fetch, a load, a store, a buffered store, a walk or a
  vector load stops the v4 core in that very cycle with an empty pipeline; whatever comes later it
  stays stopped and empty, and nothing commits or changes the flags.
\<close>

lemma v4_bus_error_stops:
  assumes "\<not> v4_reset_pending s" and "v4_bus_error cfg i s"
  shows "let t = fold (v4_tick cfg) is (v4_tick cfg i s); u = v4_tick cfg j t in
     v4_stopped t \<and> pipeline_empty t \<and> \<not> v4_commit_valid u \<and> v4_flags u = v4_flags t"
proof -
  let ?t = "fold (v4_tick cfg) is (v4_tick cfg i s)"
  have f: "v4_failing cfg i s"
    using assms(2) by (auto simp: v4_bus_error_def v4_failing_def v4_bus_failed_def vector_failed_def)
  then have "\<not> v4_calm cfg i s" by (simp add: v4_calm_def)
  then have "pipeline_empty (v4_tick cfg i s)" "v4_stopped (v4_tick cfg i s)"
    using f not_calm_empty [OF assms(1)] stopped_tick [OF assms(1), of cfg i] by simp_all
  from stopped_empty_runs [OF reset_pending_tick this(2,1), of cfg "is"]
  have t: "\<not> v4_reset_pending ?t" "v4_stopped ?t" "pipeline_empty ?t" by (simp_all add: Let_def)
  then have nr: "\<not> r_valid (v4_retire ?t)" by (simp add: pipeline_empty_def)
  have "v4_flags (v4_tick cfg j ?t) = v4_flags ?t"
    by (simp add: v4_tick_moves [OF t(1)] v4_moves_def blk_writeback_def retire_idle(2) [OF nr] lock_up_def Let_def split: option.split)
  then show ?thesis using t commit_tick [OF t(1), of cfg j] nr by (simp add: Let_def)
qed

section \<open>Examples\<close>

definition walking :: v4_core where
  "walking = (v4_reset plain_config)\<lparr>v4_reset_pending := False,
     v4_walker := walk_start 0x1000 0 ACCESS_EXECUTE WALK_RESUME_FETCH\<rparr>"

lemma v4_walk_terminates_witness:
  "\<exists>k \<le> 6156. walk_settled (fold (v4_tick plain_config) (take k (wait 6156)) walking)"
proof -
  have "walk_bus_ok plain_config walking"
    by (simp add: walk_bus_ok_def walking_def walk_start_def v4_reset_def lsu_reset_def Let_def)
  moreover have "\<not> v4_reset_pending walking" by (simp add: walking_def)
  ultimately have "\<exists>k \<le> length (wait 6156). walk_settled (fold (v4_tick plain_config) (take k (wait 6156)) walking)"
    by (rule v4_walk_terminates) (simp_all add: plain_timeout)
  then show ?thesis by (simp only: length_replicate)
qed

lemma v4_bus_error_stops_witness:
  "let t = fold (v4_tick plain_config) (wait 5) (v4_tick plain_config error_input (demo (wait 3))) in v4_stopped t \<and> pipeline_empty t"
proof -
  let ?s = "demo (wait 3)"
  have f: "fetching ?s 0 True front_asked" and e: "pipeline_empty ?s" using demo_3 by blast+
  have "v4_fetch_error plain_config error_input ?s"
    using fetch_error_flow [OF f empty_flow(1) [OF f e]] empty_flow(4) [OF f e]
    by (simp add: fe_fetch_error_def fe_effective_err_def fetch_cycle_def front_asked_def frontend_reset_def error_input_def)
  then have "v4_bus_error plain_config error_input ?s" by (simp add: v4_bus_error_def)
  moreover have "\<not> v4_reset_pending ?s" using f by (simp add: fetching_def v4_flow_def)
  ultimately show ?thesis using v4_bus_error_stops [of ?s plain_config error_input "wait 5" no_input] unfolding Let_def by blast
qed

end
