(* ===== verification/V3_Core.thy ===== *)
theory V3_Core
  imports V4_Core
begin

text \<open>
  The pipelined v3 core (\<open>v3/core.py\<close>): the registers as the record \<open>v3_core\<close>, the
  combinational signals of \<open>elaborate\<close> as functions of the state and the inputs of a cycle,
  and the clock edge.  Unlike the v4 core, the edge is one chain of alternatives
  (\<open>v3_branch\<close>): a cycle that finishes a translation, starts a walk or enters a handler does
  nothing else, and the pipeline only moves in the last alternative.  Stages and units are
  the ones the v4 core shares; the walker, vector and fault registers have the same shape.
\<close>

section \<open>State and inputs\<close>

text \<open>\<open>V3PipelineState\<close>: only \<open>RESET\<close> is read by the core, the others can be observed.\<close>

datatype pipeline_state =
  PS_RESET | PS_FETCH | PS_FETCH_TRANSLATE | PS_DECODE | PS_EXECUTE | PS_MEM_TRANSLATE | PS_MEMORY | PS_RETIRE
| PS_INTERRUPT_VECTOR_TRANSLATE | PS_VECTOR_LOAD | PS_WALK | PS_WALK_PROCESS | PS_STALLED | PS_HALTED | PS_LOCKED_UP

text \<open>The registers of the execute slot.\<close>

record ex_reg =
  ex_valid :: bool
  ex_instruction :: u16
  ex_pc :: u64
  ex_post_increment_pc :: u64
  ex_operand_a :: u64
  ex_operand_b :: u64
  ex_flags :: "3 word"

record v3_core =
  v3_state :: pipeline_state
  v3_regs :: regfile
  v3_flags :: "3 word"
  v3_halted :: bool
  v3_locked_up :: bool
  v3_commit_valid :: bool
  v3_commit_pc :: u64
  v3_fetch_pc :: u64
  v3_fetch_phys_addr :: u64
  v3_fetch_phys_valid :: bool
  v3_translate_va :: u64
  v3_translate_access :: "2 word"
  v3_fd :: fd_reg
  v3_ex :: ex_reg
  v3_xm :: xm_reg
  v3_mr :: mr_reg
  v3_retire :: retire_reg
  v3_walker :: v4_walk
  v3_vec :: v4_vector
  v3_flt :: v4_fault
  v3_ll_valid :: bool
  v3_ll_addr :: u64
  v3_frontend :: frontend3
  v3_lsu :: lsu3
  v3_dcache :: line_cache
  v3_tlb :: v3_core_tlb
  v3_sregs :: special_regs

section \<open>Modes, interrupts\<close>

definition v3_booting :: "v3_core \<Rightarrow> bool" where "v3_booting s \<longleftrightarrow> v3_state s = PS_RESET"
definition v3_paging :: "v3_core \<Rightarrow> bool" where
  "v3_paging s \<longleftrightarrow> cpu_control (v3_sregs s) AND CPU_CONTROL_PAGING_ENABLE \<noteq> 0"
definition v3_user :: "v3_core \<Rightarrow> bool" where "v3_user s = bit (cpu_control (v3_sregs s)) 17"
definition v3_root :: "v3_core \<Rightarrow> u64" where "v3_root s = page_table_root_physical (v3_sregs s)"
definition v3_root_bad :: "v3_core \<Rightarrow> bool" where "v3_root_bad s \<longleftrightarrow> v3_root s AND 0xFFF \<noteq> 0"

definition v3_irq_line_pending :: "core_config \<Rightarrow> v4_in \<Rightarrow> u64" where
  "v3_irq_line_pending cfg i = push_bit 1 (take_bit (nat (irq_input_count cfg)) (vi_irq_lines i))"

definition v3_pending_irq_high :: "core_config \<Rightarrow> v4_in \<Rightarrow> v3_core \<Rightarrow> u64" where
  "v3_pending_irq_high cfg i s = interrupt_states_high (v3_sregs s) OR v3_irq_line_pending cfg i"

definition v3_pending_irq :: "core_config \<Rightarrow> v4_in \<Rightarrow> v3_core \<Rightarrow> u64 option" where
  "v3_pending_irq cfg i s =
     fold (\<lambda>k v. if bit (v3_pending_irq_high cfg i s AND interrupt_mask_high (v3_sregs s)) k
                 then Some (of_nat (64 + k)) else v)
       (rev [1 ..< nat (irq_input_count cfg) + 1]) None"

definition v3_pending_irq_vector :: "core_config \<Rightarrow> v4_in \<Rightarrow> v3_core \<Rightarrow> u64" where
  "v3_pending_irq_vector cfg i s = (case v3_pending_irq cfg i s of Some v \<Rightarrow> v | None \<Rightarrow> 0)"

definition v3_current_vector :: "v3_core \<Rightarrow> u64" where
  "v3_current_vector s =
     drop_bit CPU_CONTROL_CUR_INT_SHIFT (cpu_control (v3_sregs s) AND CPU_CONTROL_CUR_INT_MASK)"

definition v3_in_interrupt :: "v3_core \<Rightarrow> bool" where "v3_in_interrupt s = bit (cpu_control (v3_sregs s)) 1"

definition v3_can_preempt :: "core_config \<Rightarrow> v4_in \<Rightarrow> v3_core \<Rightarrow> bool" where
  "v3_can_preempt cfg i s \<longleftrightarrow> \<not> v3_in_interrupt s \<or> v3_current_vector s = 0 \<or>
     v3_pending_irq_vector cfg i s < v3_current_vector s"

section \<open>Execute slot\<close>

definition v3_execute_in :: "core_config \<Rightarrow> bool \<Rightarrow> v3_core \<Rightarrow> exec_in" where
  "v3_execute_in cfg write_fault s =
     (let d = v3_ex s; r = v3_sregs s in \<lparr>
     x_valid = ex_valid d, x_instruction = ex_instruction d, x_post_pc = ex_post_increment_pc d,
     x_a = ex_operand_a d, x_b = ex_operand_b d, x_flags = ex_flags d,
     x_cpu_control = cpu_control r, x_interrupt_epc = interrupt_epc r,
     x_interrupt_eflags = interrupt_eflags r, x_interrupt_cpu_control = interrupt_cpu_control r,
     x_ll_valid = v3_ll_valid s, x_ll_addr = v3_ll_addr s,
     x_special_read_data = sr_read_data cfg r (bslice 0 (ex_operand_b d)),
     x_special_read_fault = sr_read_access_fault (v3_user s) (bslice 0 (ex_operand_b d)),
     x_special_write_fault = write_fault\<rparr>)"

definition v3_redirect :: "v3_core \<Rightarrow> bool" where "v3_redirect s = memory_redirect (v3_mr s)"

definition to_retire3 :: "exec_out \<Rightarrow> v3_core \<Rightarrow> bool" where
  "to_retire3 e s \<longleftrightarrow> ex_valid (v3_ex s) \<and> \<not> o_memory_start e \<and> \<not> m_valid (v3_xm s) \<and> \<not> mr_valid (v3_mr s) \<and> \<not> v3_redirect s"

text \<open>As in the v4 core, \<open>memory_start\<close> does not depend on the write fault.\<close>

definition v3_special_port :: "core_config \<Rightarrow> v3_core \<Rightarrow> sr_port" where
  "v3_special_port cfg s =
     (let x = v3_execute_in cfg False s in
      \<lparr>write_stb = (x_special_write_stb x \<and> to_retire3 (v3_execute x) s),
       write_selector = x_special_selector x, write_data = x_a x\<rparr>)"

definition v3_out :: "core_config \<Rightarrow> v3_core \<Rightarrow> exec_out" where
  "v3_out cfg s = v3_execute (v3_execute_in cfg (sr_write_access_fault (v3_user s) (v3_special_port cfg s)) s)"

definition v3_to_memory :: "core_config \<Rightarrow> v3_core \<Rightarrow> bool" where
  "v3_to_memory cfg s \<longleftrightarrow> ex_valid (v3_ex s) \<and> o_memory_start (v3_out cfg s) \<and> \<not> m_valid (v3_xm s) \<and> \<not> v3_redirect s"
definition v3_to_retire :: "core_config \<Rightarrow> v3_core \<Rightarrow> bool" where "v3_to_retire cfg s = to_retire3 (v3_out cfg s) s"
definition v3_slot_available :: "core_config \<Rightarrow> v3_core \<Rightarrow> bool" where
  "v3_slot_available cfg s \<longleftrightarrow> \<not> ex_valid (v3_ex s) \<or> v3_to_memory cfg s \<or> v3_to_retire cfg s"

definition v3_execute_redirect :: "core_config \<Rightarrow> v3_core \<Rightarrow> bool" where
  "v3_execute_redirect cfg s \<longleftrightarrow> (let e = v3_out cfg s in
     ex_valid (v3_ex s) \<and> \<not> o_halt e \<and> \<not> o_lockup e \<and> \<not> o_trap e \<and> \<not> v3_redirect s \<and>
     o_next_pc e \<noteq> ex_post_increment_pc (v3_ex s))"

definition v3_flush_younger :: "core_config \<Rightarrow> v3_core \<Rightarrow> bool" where
  "v3_flush_younger cfg s \<longleftrightarrow> (let e = v3_out cfg s in
     ex_valid (v3_ex s) \<and> (v3_execute_redirect cfg s \<or> o_halt e \<or> o_trap e \<or> o_lockup e))"

section \<open>Decode and fetch\<close>

definition v3_decode :: "core_config \<Rightarrow> v3_core \<Rightarrow> decode_in" where
  "v3_decode cfg s = wire_decode (v3_fd s) (ex_valid (v3_ex s)) (v3_out cfg s) (v3_xm s) (v3_mr s) (v3_retire s)"

definition v3_decode_advance :: "core_config \<Rightarrow> v3_core \<Rightarrow> bool" where
  "v3_decode_advance cfg s \<longleftrightarrow> fd_valid (v3_fd s) \<and> v3_slot_available cfg s \<and>
     \<not> load_use_hazard (v3_decode cfg s) \<and> \<not> v3_flush_younger cfg s \<and> \<not> v3_redirect s"

definition v3_timeout :: "core_config \<Rightarrow> nat" where "v3_timeout cfg = nat (bus_timeout_cycles cfg)"

definition v3_fetch_bus :: "v4_in \<Rightarrow> v3_core \<Rightarrow> fe_in" where
  "v3_fetch_bus i s = \<lparr>fe_pc = v3_fetch_phys_addr s, fe_invalidate = False, fe_update = None,
     fe_ack = vi_i_ack i, fe_err = vi_i_err i, fe_dat_r = vi_i_dat_r i\<rparr>"

definition v3_fetch_error :: "core_config \<Rightarrow> v4_in \<Rightarrow> v3_core \<Rightarrow> bool" where
  "v3_fetch_error cfg i s \<longleftrightarrow>
     fetch_error3 (v3_timeout cfg) (v3_fetch_bus i s) (v3_frontend s) \<and> \<not> v3_flush_younger cfg s"

section \<open>Traps and entries\<close>

definition v3_trap_preempt_lockup :: "v3_core \<Rightarrow> bool" where
  "v3_trap_preempt_lockup s \<longleftrightarrow> fault_pending (v3_flt s) \<and> v3_in_interrupt s \<and> v3_current_vector s \<noteq> 0 \<and>
     v3_current_vector s < trap_code FIRST_HW_IRQ \<and> v3_current_vector s \<le> fault_cause (v3_flt s)"

definition v3_trap_start :: "v3_core \<Rightarrow> bool" where
  "v3_trap_start s \<longleftrightarrow> fault_pending (v3_flt s) \<and> \<not> v3_trap_preempt_lockup s \<and> \<not> vector_active (v3_vec s)"

definition v3_fetch_accept :: "core_config \<Rightarrow> v4_in \<Rightarrow> v3_core \<Rightarrow> bool" where
  "v3_fetch_accept cfg i s \<longleftrightarrow> v3_fetch_phys_valid s \<and> line_hit3 (v3_fetch_bus i s) (v3_frontend s) \<and>
     \<not> v3_flush_younger cfg s \<and> \<not> v3_redirect s \<and> \<not> vector_active (v3_vec s) \<and> \<not> v3_trap_start s \<and>
     (\<not> fd_valid (v3_fd s) \<or> v3_decode_advance cfg s)"

section \<open>Data cache and memory stage\<close>

definition v3_has_dcache :: "core_config \<Rightarrow> bool" where "v3_has_dcache cfg \<longleftrightarrow> cache_topology_of cfg \<noteq> C_none"
definition v3_dcache_bits :: nat where "v3_dcache_bits = 2"

definition v3_byte_offset :: "v3_core \<Rightarrow> 3 word" where "v3_byte_offset s = bslice 0 (m_addr (v3_xm s))"
definition v3_shifted_sel :: "v3_core \<Rightarrow> byte" where
  "v3_shifted_sel s = push_bit (unat (v3_byte_offset s)) (base_sel (m_width_bytes (v3_xm s)))"
definition v3_shifted_store_data :: "v3_core \<Rightarrow> u64" where
  "v3_shifted_store_data s = push_bit (unat (v3_byte_offset s) * 8) (m_store_value (v3_xm s))"
definition v3_single_line_access :: "v3_core \<Rightarrow> bool" where
  "v3_single_line_access s \<longleftrightarrow> unat (v3_byte_offset s) + unat (m_width_bytes (v3_xm s)) \<le> 8"

definition v3_cacheable_load :: "core_config \<Rightarrow> v3_core \<Rightarrow> bool" where
  "v3_cacheable_load cfg s \<longleftrightarrow> (let x = v3_xm s in
     v3_has_dcache cfg \<and> m_valid x \<and> m_phys_valid x \<and> \<not> m_write x \<and> \<not> m_request_started x \<and> v3_single_line_access s)"
definition v3_cacheable_fill :: "core_config \<Rightarrow> v3_core \<Rightarrow> bool" where
  "v3_cacheable_fill cfg s \<longleftrightarrow> (let x = v3_xm s in
     v3_has_dcache cfg \<and> m_valid x \<and> m_phys_valid x \<and> \<not> m_write x \<and> m_width_bytes x = 8 \<and> v3_byte_offset s = 0)"

definition v3_cached_response :: "core_config \<Rightarrow> v3_core \<Rightarrow> bool" where
  "v3_cached_response cfg s \<longleftrightarrow>
     v3_cacheable_load cfg s \<and> cache_lookup_hit v3_dcache_bits (v3_dcache s) (m_addr (v3_xm s))"

definition v3_dcache_load_result :: "v3_core \<Rightarrow> u64" where
  "v3_dcache_load_result s =
     (let d = cache_lookup_data v3_dcache_bits (v3_dcache s) (m_addr (v3_xm s))
      in load_result (m_width_bytes (v3_xm s)) (drop_bit (unat (v3_byte_offset s) * 8) d))"

definition v3_response :: "core_config \<Rightarrow> v4_in \<Rightarrow> v3_core \<Rightarrow> lsu_response" where
  "v3_response cfg i s = lsu3_response_out (v3_timeout cfg) (v4_data_bus i) (v3_lsu s)"

definition v3_response_error :: "core_config \<Rightarrow> v4_in \<Rightarrow> v3_core \<Rightarrow> bool" where
  "v3_response_error cfg i s = l_response_error (v3_response cfg i s)"

definition v3_stage_xm :: "core_config \<Rightarrow> v3_core \<Rightarrow> xm_reg" where
  "v3_stage_xm cfg s = (v3_xm s)\<lparr>m_valid := m_valid (v3_xm s) \<and> m_phys_valid (v3_xm s) \<and> \<not> v3_cached_response cfg s\<rparr>"

definition v3_stage_lsu :: "core_config \<Rightarrow> v4_in \<Rightarrow> v3_core \<Rightarrow> lsu_response" where
  "v3_stage_lsu cfg i s = (let l = v3_response cfg i s; free = (\<not> vector_active (v3_vec s) \<and> \<not> w_active (v3_walker s)) in
     l\<lparr>l_request_ready := l_request_ready l \<and> free, l_response_valid := l_response_valid l \<and> free\<rparr>)"

definition v3_memory_error :: "core_config \<Rightarrow> v4_in \<Rightarrow> v3_core \<Rightarrow> bool" where
  "v3_memory_error cfg i s \<longleftrightarrow> m_valid (v3_xm s) \<and> \<not> v3_cached_response cfg s \<and>
     ms_complete (v3_stage_xm cfg s) (v3_stage_lsu cfg i s) \<and> v3_response_error cfg i s"

definition v3_memory_to_retire :: "core_config \<Rightarrow> v4_in \<Rightarrow> v3_core \<Rightarrow> bool" where
  "v3_memory_to_retire cfg i s \<longleftrightarrow> m_valid (v3_xm s) \<and>
     (v3_cached_response cfg s \<and> \<not> m_chain_store (v3_xm s) \<or>
      ms_final_response (v3_stage_xm cfg s) (v3_stage_lsu cfg i s) \<and> \<not> v3_response_error cfg i s)"

definition v3_chain_continue :: "core_config \<Rightarrow> v4_in \<Rightarrow> v3_core \<Rightarrow> bool" where
  "v3_chain_continue cfg i s \<longleftrightarrow> m_valid (v3_xm s) \<and>
     (v3_cached_response cfg s \<and> m_chain_store (v3_xm s) \<or>
      \<not> v3_cached_response cfg s \<and> ms_chain_continue (v3_stage_xm cfg s) (v3_stage_lsu cfg i s))"

definition v3_chain_store_value :: "core_config \<Rightarrow> v4_in \<Rightarrow> v3_core \<Rightarrow> u64" where
  "v3_chain_store_value cfg i s =
     (let x = v3_xm s in
      if v3_cached_response cfg s
      then (if m_chain_store_use_load_result x then v3_dcache_load_result s else m_chain_store_value x)
      else ms_next_chain_store_value (v3_stage_xm cfg s) (v3_stage_lsu cfg i s))"

definition v3_memory_result :: "core_config \<Rightarrow> v4_in \<Rightarrow> v3_core \<Rightarrow> retire_reg" where
  "v3_memory_result cfg i s =
     (let l = v3_stage_lsu cfg i s in
      if v3_cached_response cfg s then ms_result (v3_xm s) (l\<lparr>l_load_value := v3_dcache_load_result s\<rparr>)
      else ms_result (v3_stage_xm cfg s) l)"

definition v3_store_overlaps_reservation :: "core_config \<Rightarrow> v4_in \<Rightarrow> v3_core \<Rightarrow> bool" where
  "v3_store_overlaps_reservation cfg i s \<longleftrightarrow>
     (let x = v3_xm s; reservation_end = v3_ll_addr s + 7; write_end = m_virtual_addr x + ucast (m_width_bytes x) - 1 in
      v3_ll_valid s \<and> v3_memory_to_retire cfg i s \<and> m_write x \<and> m_width_bytes x \<noteq> 0 \<and>
      m_virtual_addr x \<le> reservation_end \<and> v3_ll_addr s \<le> write_end)"

definition v3_line_match :: "v3_core \<Rightarrow> bool" where
  "v3_line_match s \<longleftrightarrow> f3_line_valid (v3_frontend s) \<and>
     m_addr (v3_xm s) AND 0xFFFFFFFFFFFFFFF8 = f3_line_base (v3_frontend s)"

definition v3_unified_line_update_value :: "v3_core \<Rightarrow> u64" where
  "v3_unified_line_update_value s =
     merge_bytes (v3_shifted_sel s) (v3_shifted_store_data s) (f3_line_data (v3_frontend s))"

section \<open>Translation\<close>

definition v3_tlb_bits :: "core_config \<Rightarrow> nat" where "v3_tlb_bits cfg = int_log2 (nat (tlb_entries cfg))"

definition v3_tlb_hit_ok :: "core_config \<Rightarrow> v3_core \<Rightarrow> bool" where
  "v3_tlb_hit_ok cfg s \<longleftrightarrow>
     (let va = v3_translate_va s; p = tlb3_perms (v3_tlb_bits cfg) (v3_tlb s) va in
      enable_tlb cfg \<and> tlb3_hit (v3_tlb_bits cfg) (v3_tlb s) va \<and>
      (if v3_translate_access s = ACCESS_EXECUTE then perm_execute p
       else if v3_translate_access s = ACCESS_WRITE then perm_write p else perm_read p) \<and>
      (\<not> v3_user s \<or> perm_user p))"

definition v3_tlb_paddr :: "core_config \<Rightarrow> v3_core \<Rightarrow> u64" where
  "v3_tlb_paddr cfg s = (if enable_tlb cfg then tlb3_paddr (v3_tlb_bits cfg) (v3_tlb s) (v3_translate_va s) else 0)"

definition v3_translate_now :: "core_config \<Rightarrow> v3_core \<Rightarrow> u64 \<Rightarrow> bool" where
  "v3_translate_now cfg s va \<longleftrightarrow> \<not> v3_paging s \<or> is_canonical39 va \<and> \<not> v3_root_bad s \<and> v3_tlb_hit_ok cfg s"
definition v3_translate_bad :: "v3_core \<Rightarrow> u64 \<Rightarrow> bool" where
  "v3_translate_bad s va \<longleftrightarrow> v3_paging s \<and> (\<not> is_canonical39 va \<or> v3_root_bad s)"
definition v3_translate_phys :: "core_config \<Rightarrow> v3_core \<Rightarrow> u64 \<Rightarrow> u64" where
  "v3_translate_phys cfg s va = (if v3_paging s then v3_tlb_paddr cfg s else va)"

definition v3_fetch_translate_ready :: "v3_core \<Rightarrow> bool" where
  "v3_fetch_translate_ready s \<longleftrightarrow> \<not> v3_fetch_phys_valid s \<and> \<not> w_active (v3_walker s) \<and> \<not> fd_valid (v3_fd s) \<and>
     \<not> ex_valid (v3_ex s) \<and> \<not> m_valid (v3_xm s) \<and> \<not> r_valid (v3_retire s) \<and> \<not> vector_active (v3_vec s) \<and>
     \<not> fault_pending (v3_flt s)"
definition v3_fetch_translate_complete :: "core_config \<Rightarrow> v3_core \<Rightarrow> bool" where
  "v3_fetch_translate_complete cfg s \<longleftrightarrow> v3_fetch_translate_ready s \<and> \<not> bit (v3_translate_va s) 0 \<and>
     v3_translate_now cfg s (v3_translate_va s)"
definition v3_fetch_fault :: "v3_core \<Rightarrow> bool" where
  "v3_fetch_fault s \<longleftrightarrow> v3_fetch_translate_ready s \<and> (bit (v3_translate_va s) 0 \<or> v3_translate_bad s (v3_translate_va s))"

definition v3_memory_translate_ready :: "v3_core \<Rightarrow> bool" where
  "v3_memory_translate_ready s \<longleftrightarrow> m_valid (v3_xm s) \<and> \<not> m_phys_valid (v3_xm s) \<and> \<not> w_active (v3_walker s) \<and>
     \<not> vector_active (v3_vec s) \<and> \<not> fault_pending (v3_flt s)"
definition v3_memory_translate_complete :: "core_config \<Rightarrow> v3_core \<Rightarrow> bool" where
  "v3_memory_translate_complete cfg s \<longleftrightarrow> v3_memory_translate_ready s \<and> v3_translate_now cfg s (m_virtual_addr (v3_xm s))"
definition v3_memory_fault :: "v3_core \<Rightarrow> bool" where
  "v3_memory_fault s \<longleftrightarrow> v3_memory_translate_ready s \<and> v3_translate_bad s (m_virtual_addr (v3_xm s))"
definition v3_memory_access :: "v3_core \<Rightarrow> 2 word" where
  "v3_memory_access s = (if m_write (v3_xm s) then ACCESS_WRITE else ACCESS_READ)"

definition v3_vector_translate_ready :: "v3_core \<Rightarrow> bool" where
  "v3_vector_translate_ready s \<longleftrightarrow> vector_active (v3_vec s) \<and> \<not> vector_phys_valid (v3_vec s) \<and>
     \<not> w_active (v3_walker s) \<and> \<not> fault_pending (v3_flt s)"
definition v3_vector_translate_complete :: "core_config \<Rightarrow> v3_core \<Rightarrow> bool" where
  "v3_vector_translate_complete cfg s \<longleftrightarrow>
     v3_vector_translate_ready s \<and> v3_translate_now cfg s (vector_virtual_addr (v3_vec s))"
definition v3_vector_translate_lockup :: "v3_core \<Rightarrow> bool" where
  "v3_vector_translate_lockup s \<longleftrightarrow> v3_vector_translate_ready s \<and> v3_translate_bad s (vector_virtual_addr (v3_vec s))"

definition v3_walk_fault :: "v3_core \<Rightarrow> bool" where "v3_walk_fault s = walk_fault (v3_user s) (v3_walker s)"
definition v3_walk_success :: "v3_core \<Rightarrow> bool" where "v3_walk_success s = walk_leaf_success (v3_user s) (v3_walker s)"
definition v3_walk_fault_trap :: "v3_core \<Rightarrow> bool" where
  "v3_walk_fault_trap s \<longleftrightarrow> v3_walk_fault s \<and> w_resume_kind (v3_walker s) \<noteq> WALK_RESUME_VECTOR"
definition v3_walk_fault_lockup :: "v3_core \<Rightarrow> bool" where
  "v3_walk_fault_lockup s \<longleftrightarrow> v3_walk_fault s \<and> w_resume_kind (v3_walker s) = WALK_RESUME_VECTOR"

section \<open>Trap arbitration\<close>

definition v3_walk_fault_pc :: "v3_core \<Rightarrow> u64" where
  "v3_walk_fault_pc s = (if w_resume_kind (v3_walker s) = WALK_RESUME_MEMORY then m_fault_pc (v3_xm s)
     else w_virtual_addr (v3_walker s))"

definition v3_trap_request_next :: "v3_core \<Rightarrow> bool" where
  "v3_trap_request_next s \<longleftrightarrow> trap_port (retire_stage (v3_retire s)) \<noteq> None \<or> v3_fetch_fault s \<or> v3_memory_fault s \<or>
     v3_walk_fault_trap s"

definition v3_fault_next :: "v3_core \<Rightarrow> v4_fault" where
  "v3_fault_next s =
     (let fva = v3_translate_va s; mva = m_virtual_addr (v3_xm s); w = v3_walker s;
          (cause, pc) =
            (case trap_port (retire_stage (v3_retire s)) of
               Some (c, p) \<Rightarrow> (c, p)
             | None \<Rightarrow>
                (if v3_fetch_fault s
                 then (if bit fva 0 then trap_code EXEC_ALIGN else bad_address_cause fva, fva)
                 else if v3_memory_fault s then (bad_address_cause mva, m_fault_pc (v3_xm s))
                 else (trap_code (walk_fault_cause w), v3_walk_fault_pc s)));
          (addr, access, aux) =
            (if v3_fetch_fault s
             then (fva, ucast ACCESS_EXECUTE, if bit fva 0 then encode_aux AUX_SUBTYPE_NONE 0 else bad_address_aux fva)
             else if v3_memory_fault s then (mva, ucast (v3_memory_access s), bad_address_aux mva)
             else if v3_walk_fault_trap s then (w_virtual_addr w, ucast (w_access w), walk_fault_aux w)
             else (0, 0, 0))
      in \<lparr>fault_pending = v3_trap_request_next s, fault_cause = cause, fault_pc = pc,
          fault_addr = addr, fault_access = access, fault_aux = aux\<rparr>)"

definition v3_irq_start :: "core_config \<Rightarrow> v4_in \<Rightarrow> v3_core \<Rightarrow> bool" where
  "v3_irq_start cfg i s \<longleftrightarrow> \<not> fault_pending (v3_flt s) \<and> \<not> v3_trap_request_next s \<and> \<not> vector_active (v3_vec s) \<and>
     \<not> w_active (v3_walker s) \<and> \<not> fd_valid (v3_fd s) \<and> \<not> ex_valid (v3_ex s) \<and> \<not> m_valid (v3_xm s) \<and>
     \<not> r_valid (v3_retire s) \<and> v3_pending_irq cfg i s \<noteq> None \<and> bit (cpu_control (v3_sregs s)) 0 \<and>
     v3_can_preempt cfg i s"

definition v3_entry_start :: "core_config \<Rightarrow> v4_in \<Rightarrow> v3_core \<Rightarrow> bool" where
  "v3_entry_start cfg i s \<longleftrightarrow> v3_trap_start s \<or> v3_irq_start cfg i s"
definition v3_entry_vector :: "core_config \<Rightarrow> v4_in \<Rightarrow> v3_core \<Rightarrow> u64" where
  "v3_entry_vector cfg i s = (if v3_trap_start s then fault_cause (v3_flt s) else v3_pending_irq_vector cfg i s)"
definition v3_entry_epc :: "v3_core \<Rightarrow> u64" where
  "v3_entry_epc s = (if v3_trap_start s then fault_pc (v3_flt s) else v3_fetch_pc s)"

definition v3_trap_cpu_control_value :: "core_config \<Rightarrow> v4_in \<Rightarrow> v3_core \<Rightarrow> u64" where
  "v3_trap_cpu_control_value cfg i s =
     (cpu_control (v3_sregs s) AND NOT (CPU_CONTROL_INT_ENABLE OR CPU_CONTROL_IN_INTERRUPT OR
        CPU_CONTROL_CUR_INT_MASK OR CPU_CONTROL_USER_MODE)) OR CPU_CONTROL_IN_INTERRUPT OR
     push_bit CPU_CONTROL_CUR_INT_SHIFT (v3_entry_vector cfg i s)"

section \<open>The handler's address\<close>

definition v3_vector_request_valid :: "v3_core \<Rightarrow> bool" where
  "v3_vector_request_valid s \<longleftrightarrow> vector_active (v3_vec s) \<and> vector_phys_valid (v3_vec s) \<and> \<not> vector_started (v3_vec s)"
definition v3_vector_response_valid :: "core_config \<Rightarrow> v4_in \<Rightarrow> v3_core \<Rightarrow> bool" where
  "v3_vector_response_valid cfg i s \<longleftrightarrow> vector_active (v3_vec s) \<and> vector_phys_valid (v3_vec s) \<and>
     l_response_valid (v3_response cfg i s)"
definition v3_handler_pc :: "core_config \<Rightarrow> v4_in \<Rightarrow> v3_core \<Rightarrow> u64" where
  "v3_handler_pc cfg i s = l_load_value (v3_response cfg i s)"
definition v3_vector_done :: "core_config \<Rightarrow> v4_in \<Rightarrow> v3_core \<Rightarrow> bool" where
  "v3_vector_done cfg i s \<longleftrightarrow> v3_vector_response_valid cfg i s \<and> \<not> v3_response_error cfg i s \<and> v3_handler_pc cfg i s \<noteq> 0"

section \<open>The alternatives of the edge\<close>

definition v3_paging_without_mmu :: "core_config \<Rightarrow> v3_core \<Rightarrow> bool" where
  "v3_paging_without_mmu cfg s \<longleftrightarrow> \<not> enable_mmu cfg \<and> v3_paging s"

definition v3_bus_failed :: "core_config \<Rightarrow> v4_in \<Rightarrow> v3_core \<Rightarrow> bool" where
  "v3_bus_failed cfg i s \<longleftrightarrow> v3_fetch_error cfg i s \<or> v3_paging_without_mmu cfg s \<or> v3_memory_error cfg i s"

datatype v3_branch =
  B_Stopped | B_Failed | B_Vector_Lockup | B_Vector_Translated | B_Memory_Translated | B_Fetch_Translated
| B_Walk_Vector | B_Walk_Memory | B_Walk_Fetch | B_Preempt_Lockup | B_Entry | B_Walk_Response | B_Walk_Success
| B_Walk_Descend | B_Vector_Response | B_Stop_Request | B_Advance

definition v3_branch :: "core_config \<Rightarrow> v4_in \<Rightarrow> v3_core \<Rightarrow> v3_branch" where
  "v3_branch cfg i s =
     (let a = retire_stage (v3_retire s) in
      if v3_halted s \<or> v3_locked_up s then B_Stopped
      else if v3_bus_failed cfg i s then B_Failed
      else if v3_vector_translate_lockup s \<or> v3_walk_fault_lockup s then B_Vector_Lockup
      else if v3_vector_translate_complete cfg s then B_Vector_Translated
      else if v3_memory_translate_complete cfg s then B_Memory_Translated
      else if v3_fetch_translate_complete cfg s then B_Fetch_Translated
      else if v3_vector_translate_ready s \<and> v3_paging s \<and> \<not> v3_vector_translate_lockup s \<and>
        \<not> v3_vector_translate_complete cfg s then B_Walk_Vector
      else if v3_memory_translate_ready s \<and> v3_paging s \<and> \<not> v3_memory_fault s \<and>
        \<not> v3_memory_translate_complete cfg s then B_Walk_Memory
      else if v3_fetch_translate_ready s \<and> v3_paging s \<and> \<not> v3_fetch_fault s \<and>
        \<not> v3_fetch_translate_complete cfg s then B_Walk_Fetch
      else if v3_trap_preempt_lockup s then B_Preempt_Lockup
      else if v3_entry_start cfg i s then B_Entry
      else if walk_response_valid (l_response_valid (v3_response cfg i s)) (v3_walker s) then B_Walk_Response
      else if v3_walk_success s then B_Walk_Success
      else if w_processing (v3_walker s) \<and> \<not> v3_walk_fault s then B_Walk_Descend
      else if v3_vector_response_valid cfg i s then B_Vector_Response
      else if halt_request a \<or> lockup_request a then B_Stop_Request
      else B_Advance)"

text \<open>The cache and line updates of a completed operation are driven inside the last alternative.\<close>

definition v3_memory_done :: "core_config \<Rightarrow> v4_in \<Rightarrow> v3_core \<Rightarrow> bool" where
  "v3_memory_done cfg i s \<longleftrightarrow> \<not> v3_booting s \<and> v3_branch cfg i s = B_Advance \<and> v3_memory_to_retire cfg i s \<and>
     \<not> v3_cached_response cfg s"
definition v3_store_done :: "core_config \<Rightarrow> v4_in \<Rightarrow> v3_core \<Rightarrow> bool" where
  "v3_store_done cfg i s \<longleftrightarrow> v3_memory_done cfg i s \<and> m_write (v3_xm s)"

definition v3_dcache_cmd :: "core_config \<Rightarrow> v4_in \<Rightarrow> v3_core \<Rightarrow> cache_cmd" where
  "v3_dcache_cmd cfg i s =
     (let a = m_addr (v3_xm s); crossing = v3_store_done cfg i s \<and> \<not> v3_single_line_access s \<and> v3_has_dcache cfg in
      \<lparr>cmd_flush_all = crossing, cmd_invalidate = port crossing a,
       cmd_store_update = port (v3_store_done cfg i s \<and> v3_single_line_access s \<and> v3_has_dcache cfg)
         (a, v3_shifted_sel s, v3_shifted_store_data s),
       cmd_fill = port (v3_memory_done cfg i s \<and> v3_cacheable_fill cfg s) (a, l_load_value (v3_response cfg i s))\<rparr>)"

definition v3_line_update_valid :: "core_config \<Rightarrow> v4_in \<Rightarrow> v3_core \<Rightarrow> bool" where
  "v3_line_update_valid cfg i s \<longleftrightarrow> v3_store_done cfg i s \<and> v3_line_match s \<and>
     cache_topology_of cfg = C_unified \<and> v3_single_line_access s"
definition v3_store_invalidate :: "core_config \<Rightarrow> v4_in \<Rightarrow> v3_core \<Rightarrow> bool" where
  "v3_store_invalidate cfg i s \<longleftrightarrow> v3_store_done cfg i s \<and> v3_line_match s \<and>
     \<not> (cache_topology_of cfg = C_unified \<and> v3_single_line_access s)"

section \<open>Ports of the units\<close>

definition v3_strobes :: "core_config \<Rightarrow> v4_in \<Rightarrow> v3_core \<Rightarrow> core_strobes" where
  "v3_strobes cfg i s =
     (let entry = v3_entry_start cfg i s; r = v3_sregs s; f = v3_flt s; boot = v3_booting s in
      \<lparr>core_cpu_control =
         (if entry then Some (v3_trap_cpu_control_value cfg i s)
          else write_cpu_control_port (retire_stage (v3_retire s))),
       core_interrupt_cpu_control = port entry (cpu_control r),
       core_interrupt_epc = port (v3_vector_done cfg i s) (vector_epc (v3_vec s)),
       core_interrupt_eflags = port (v3_vector_done cfg i s) (ucast (vector_flags (v3_vec s))),
       core_trap = port (boot \<or> fault_pending f)
         \<lparr>ti_cause = (if boot then 0 else if trap_cause r = 0 then fault_cause f else trap_cause r),
          ti_fault_addr = fault_addr f, ti_access = fault_access f,
          ti_pc = (if boot then 0 else fault_pc f), ti_aux = fault_aux f\<rparr>\<rparr>)"

definition v3_irq_set :: "core_config \<Rightarrow> v4_in \<Rightarrow> v3_core \<Rightarrow> u64" where
  "v3_irq_set cfg i s =
     (let p = v3_special_port cfg s; lines = v3_irq_line_pending cfg i in
      if lines \<noteq> 0 \<and> \<not> (write_stb p \<and> write_selector p = sr_code INTERRUPT_STATES_HIGH) then lines else 0)"

definition v3_lsu_in :: "core_config \<Rightarrow> v4_in \<Rightarrow> v3_core \<Rightarrow> lsu_in" where
  "v3_lsu_in cfg i s =
     (let w = v3_walker s; v = v3_vec s; x = v3_stage_xm cfg s; vec = vector_active v \<and> vector_phys_valid v in
      (v4_data_bus i)\<lparr>
        request_valid := (if w_active w then walk_request_valid w else if vec then v3_vector_request_valid s else ms_request_valid x),
        request_addr := (if w_active w then w_pte_addr w else if vec then vector_load_addr v else m_addr x),
        request_width := (if w_active w \<or> vec then 8 else m_width_bytes x),
        request_write := (if w_active w \<or> vec then False else m_write x),
        request_store_value := (if w_active w \<or> vec then 0 else m_store_value x)\<rparr>)"

definition v3_fetch_in :: "core_config \<Rightarrow> v4_in \<Rightarrow> v3_core \<Rightarrow> fe_in" where
  "v3_fetch_in cfg i s =
     (v3_fetch_bus i s)\<lparr>
       fe_invalidate := v3_flush_younger cfg s \<or> v3_redirect s \<or> v3_trap_start s \<or> v3_irq_start cfg i s \<or>
         \<not> v3_fetch_phys_valid s \<or> w_active (v3_walker s) \<and> w_resume_kind (v3_walker s) = WALK_RESUME_FETCH \<or>
         v3_store_invalidate cfg i s,
       fe_update := port (v3_line_update_valid cfg i s) (v3_unified_line_update_value s)\<rparr>"

section \<open>The edge\<close>

text \<open>As in the v4 model, \<open>s\<close> is the state before the edge and \<open>t\<close> the state assigned so far.\<close>

definition v3_clear_inflight :: "v3_core \<Rightarrow> v3_core" where
  "v3_clear_inflight t = t\<lparr>v3_fd := (v3_fd t)\<lparr>fd_valid := False\<rparr>, v3_ex := (v3_ex t)\<lparr>ex_valid := False\<rparr>,
     v3_xm := (v3_xm t)\<lparr>m_valid := False, m_request_started := False\<rparr>,
     v3_mr := (v3_mr t)\<lparr>mr_valid := False\<rparr>, v3_retire := (v3_retire t)\<lparr>r_valid := False\<rparr>\<rparr>"

definition v3_clear_latches :: "v3_core \<Rightarrow> v3_core" where
  "v3_clear_latches t = t\<lparr>v3_fd := (v3_fd t)\<lparr>fd_instruction := 0\<rparr>, v3_ex := (v3_ex t)\<lparr>ex_instruction := 0\<rparr>\<rparr>"

definition v3_flush :: "v3_core \<Rightarrow> v3_core" where "v3_flush t = v3_clear_latches (v3_clear_inflight t)"

definition v3_redirect_fetch :: "v3_core \<Rightarrow> u64 \<Rightarrow> v3_core \<Rightarrow> v3_core" where
  "v3_redirect_fetch s target t = t\<lparr>v3_fetch_pc := target,
     v3_fetch_phys_addr := (if v3_paging s then v3_fetch_phys_addr s else target),
     v3_fetch_phys_valid := \<not> v3_paging s, v3_translate_va := target, v3_translate_access := ACCESS_EXECUTE\<rparr>"

definition v3_stop_walk :: "v3_core \<Rightarrow> v3_core" where "v3_stop_walk t = t\<lparr>v3_walker := walk_stop (v3_walker t)\<rparr>"
definition v3_lock_up :: "v3_core \<Rightarrow> v3_core" where "v3_lock_up t = t\<lparr>v3_locked_up := True\<rparr>"
definition v3_drop_vector :: "v3_core \<Rightarrow> v3_core" where
  "v3_drop_vector t = t\<lparr>v3_vec := (vector_cleared (v3_vec t))\<lparr>vector_epc := 0, vector_flags := 0\<rparr>\<rparr>"
definition v3_clear_retire :: "v3_core \<Rightarrow> v3_core \<Rightarrow> v3_core" where
  "v3_clear_retire s t = t\<lparr>v3_retire := retire_cleared (v3_flags s) (v3_regs s 15)\<rparr>"

text \<open>\<open>next_state\<close> of the observable state register.\<close>

definition v3_next_state :: "core_config \<Rightarrow> v4_in \<Rightarrow> v3_core \<Rightarrow> pipeline_state" where
  "v3_next_state cfg i s =
     (let x = v3_xm s; v = v3_vec s in
      if v3_halted s then PS_HALTED
      else if v3_locked_up s \<or> v3_bus_failed cfg i s then PS_LOCKED_UP
      else if w_active (v3_walker s) then (if w_processing (v3_walker s) then PS_WALK_PROCESS else PS_WALK)
      else if m_valid x \<and> \<not> m_phys_valid x then PS_MEM_TRANSLATE
      else if \<not> v3_fetch_phys_valid s then PS_FETCH_TRANSLATE
      else if vector_active v \<and> \<not> vector_phys_valid v then PS_INTERRUPT_VECTOR_TRANSLATE
      else if vector_active v then PS_VECTOR_LOAD
      else if r_valid (v3_retire s) then PS_RETIRE
      else if m_valid x then PS_MEMORY
      else if ex_valid (v3_ex s) then PS_EXECUTE
      else if fd_valid (v3_fd s) then PS_DECODE
      else if f3_req_valid (v3_frontend s) then PS_STALLED
      else PS_FETCH)"

definition v3_writeback :: "core_config \<Rightarrow> v3_core \<Rightarrow> v3_core \<Rightarrow> v3_core" where
  "v3_writeback cfg s t =
     (let a = retire_stage (v3_retire s);
          t = t\<lparr>v3_commit_valid := False, v3_regs := retire_regs (v3_retire s) (v3_regs t),
                 v3_flags := retire_flags (v3_retire s) (v3_flags t)\<rparr>;
          t = (if v3_to_retire cfg s \<and> o_clear_reservation (v3_out cfg s) then t\<lparr>v3_ll_valid := False\<rparr> else t);
          t = (case commit_port a of Some pc \<Rightarrow> t\<lparr>v3_commit_valid := True, v3_commit_pc := pc\<rparr> | None \<Rightarrow> t);
          t = (if halt_request a then t\<lparr>v3_halted := True\<rparr> else t)
      in if lockup_request a then v3_lock_up t else t)"

definition v3_blk_memory_result :: "core_config \<Rightarrow> v4_in \<Rightarrow> v3_core \<Rightarrow> v3_core \<Rightarrow> v3_core" where
  "v3_blk_memory_result cfg i s t =
     (if \<not> v3_memory_to_retire cfg i s then t
      else let x = v3_xm s;
               t = (if m_set_reservation x then t\<lparr>v3_ll_addr := m_reservation_addr x, v3_ll_valid := True\<rparr> else t);
               t = (if v3_store_overlaps_reservation cfg i s then t\<lparr>v3_ll_valid := False\<rparr> else t)
           in t\<lparr>v3_mr := mr_from_result x (v3_memory_result cfg i s)\<rparr>)"

definition v3_blk_retire :: "core_config \<Rightarrow> v4_in \<Rightarrow> v3_core \<Rightarrow> v3_core \<Rightarrow> v3_core" where
  "v3_blk_retire cfg i s t =
     (if mr_valid (v3_mr s) then
        (let t = t\<lparr>v3_retire := retire_from_mr (v3_mr s)\<rparr>;
             t = (if v3_memory_to_retire cfg i s then t else t\<lparr>v3_mr := (v3_mr t)\<lparr>mr_valid := False\<rparr>\<rparr>)
         in if v3_redirect s
            then v3_redirect_fetch s (mr_next_pc (v3_mr s))
                   (v3_clear_latches (t\<lparr>v3_fd := (v3_fd t)\<lparr>fd_valid := False\<rparr>, v3_ex := (v3_ex t)\<lparr>ex_valid := False\<rparr>,
                      v3_xm := xm_cleared (v3_flags s)\<rparr>))
            else t)
      else if v3_to_retire cfg s then t\<lparr>v3_retire := retire_from_execute (ex_pc (v3_ex s)) (v3_out cfg s)\<rparr>
      else t)"

definition v3_blk_memory_latch :: "core_config \<Rightarrow> v4_in \<Rightarrow> v3_core \<Rightarrow> v3_core \<Rightarrow> v3_core" where
  "v3_blk_memory_latch cfg i s t =
     (if v3_chain_continue cfg i s then
        t\<lparr>v3_xm := xm_chain (v3_paging s) (v3_flags s) (v3_chain_store_value cfg i s)
                     ((v3_xm t)\<lparr>m_chain_store_addr := m_chain_store_addr (v3_xm s)\<rparr>),
          v3_translate_va := m_chain_store_addr (v3_xm s), v3_translate_access := ACCESS_WRITE\<rparr>
      else if v3_memory_to_retire cfg i s \<or> v3_memory_error cfg i s then
        t\<lparr>v3_xm := xm_cleared (v3_flags s), v3_translate_va := v3_fetch_pc s, v3_translate_access := ACCESS_EXECUTE\<rparr>
      else if v3_to_memory cfg s then
        (let e = v3_out cfg s in
         t\<lparr>v3_xm := xm_issue (v3_paging s) (ex_pc (v3_ex s)) e, v3_translate_va := o_memory_addr e,
           v3_translate_access := (if o_memory_write e then ACCESS_WRITE else ACCESS_READ)\<rparr>)
      else if m_valid (v3_xm s) \<and> ms_start_request (v3_stage_xm cfg s) (v3_stage_lsu cfg i s) then
        t\<lparr>v3_xm := (v3_xm t)\<lparr>m_request_started := True\<rparr>\<rparr>
      else t)"

definition v3_blk_requests :: "core_config \<Rightarrow> v4_in \<Rightarrow> v3_core \<Rightarrow> v3_core \<Rightarrow> v3_core" where
  "v3_blk_requests cfg i s t =
     (let ready = l_request_ready (v3_response cfg i s);
          t = (if v3_vector_request_valid s \<and> ready then t\<lparr>v3_vec := (v3_vec t)\<lparr>vector_started := True\<rparr>\<rparr> else t)
      in if walk_request_valid (v3_walker s) \<and> ready then t\<lparr>v3_walker := (v3_walker t)\<lparr>w_started := True\<rparr>\<rparr> else t)"

definition ex_from_fd :: "core_config \<Rightarrow> v3_core \<Rightarrow> ex_reg" where
  "ex_from_fd cfg s =
     (let f = v3_fd s; d = v3_decode cfg s in \<lparr>ex_valid = True, ex_instruction = fd_instruction f, ex_pc = fd_pc f,
        ex_post_increment_pc = fd_post_increment_pc f, ex_operand_a = operand_a d (v3_regs s),
        ex_operand_b = operand_b d (v3_regs s), ex_flags = bypass_flags d (v3_flags s)\<rparr>)"

definition v3_blk_execute_latch :: "core_config \<Rightarrow> v3_core \<Rightarrow> v3_core \<Rightarrow> v3_core" where
  "v3_blk_execute_latch cfg s t =
     (if v3_decode_advance cfg s then t\<lparr>v3_ex := ex_from_fd cfg s\<rparr>
      else if ex_valid (v3_ex s) \<and> (v3_to_memory cfg s \<or> v3_to_retire cfg s)
      then t\<lparr>v3_ex := (v3_ex t)\<lparr>ex_valid := False, ex_instruction := 0\<rparr>\<rparr> else t)"

definition v3_fd_fetched :: "v4_in \<Rightarrow> v3_core \<Rightarrow> fd_reg" where
  "v3_fd_fetched i s = \<lparr>fd_valid = True, fd_instruction = fetched_word3 (v3_fetch_bus i s) (v3_frontend s),
     fd_pc = v3_fetch_pc s, fd_post_increment_pc = v3_fetch_pc s + 2\<rparr>"

definition v3_blk_fetch_latch :: "core_config \<Rightarrow> v4_in \<Rightarrow> v3_core \<Rightarrow> v3_core \<Rightarrow> v3_core" where
  "v3_blk_fetch_latch cfg i s t =
     (if v3_flush_younger cfg s then t\<lparr>v3_fd := (v3_fd t)\<lparr>fd_valid := False, fd_instruction := 0\<rparr>\<rparr>
      else if v3_fetch_accept cfg i s then t\<lparr>v3_fd := v3_fd_fetched i s\<rparr>
      else if v3_decode_advance cfg s then t\<lparr>v3_fd := (v3_fd t)\<lparr>fd_valid := False, fd_instruction := 0\<rparr>\<rparr>
      else t)"

definition v3_blk_steer :: "core_config \<Rightarrow> v4_in \<Rightarrow> v3_core \<Rightarrow> v3_core \<Rightarrow> v3_core" where
  "v3_blk_steer cfg i s t =
     (if v3_execute_redirect cfg s then v3_redirect_fetch s (o_next_pc (v3_out cfg s)) t
      else if v3_fetch_accept cfg i s then v3_redirect_fetch s (v3_fetch_pc s + 2) t
      else t)"

text \<open>The last alternative: the pipeline moves.\<close>

definition v3_advance :: "core_config \<Rightarrow> v4_in \<Rightarrow> v3_core \<Rightarrow> v3_core \<Rightarrow> v3_core" where
  "v3_advance cfg i s t =
     (let t = v3_blk_retire cfg i s (v3_blk_memory_result cfg i s (v3_clear_retire s t));
          t = v3_blk_execute_latch cfg s (v3_blk_requests cfg i s (v3_blk_memory_latch cfg i s t))
      in v3_blk_steer cfg i s (v3_blk_fetch_latch cfg i s t))"

definition v3_enter :: "core_config \<Rightarrow> v4_in \<Rightarrow> v3_core \<Rightarrow> v3_core \<Rightarrow> v3_core" where
  "v3_enter cfg i s t =
     (let a = interrupt_table_base (v3_sregs s) + push_bit 3 (v3_entry_vector cfg i s); t = v3_stop_walk (v3_flush t) in
      t\<lparr>v3_vec := \<lparr>vector_active = True, vector_started = False, vector_virtual_addr = a, vector_load_addr = a,
          vector_phys_valid = (\<not> v3_paging s), vector_epc = v3_entry_epc s, vector_flags = v3_flags s\<rparr>,
        v3_translate_va := a, v3_translate_access := ACCESS_READ\<rparr>)"

definition v3_walk_done :: "v3_core \<Rightarrow> v3_core \<Rightarrow> v3_core" where
  "v3_walk_done s t =
     (let phys = w_result_phys (v3_walker s); k = w_resume_kind (v3_walker s); t = v3_stop_walk t in
      if k = WALK_RESUME_FETCH then t\<lparr>v3_fetch_phys_addr := phys, v3_fetch_phys_valid := True\<rparr>
      else if k = WALK_RESUME_VECTOR
      then t\<lparr>v3_vec := (v3_vec t)\<lparr>vector_load_addr := phys, vector_phys_valid := True\<rparr>\<rparr>
      else t\<lparr>v3_xm := (v3_xm t)\<lparr>m_addr := phys, m_phys_valid := True\<rparr>\<rparr>)"

definition v3_vector_loaded :: "core_config \<Rightarrow> v4_in \<Rightarrow> v3_core \<Rightarrow> v3_core \<Rightarrow> v3_core" where
  "v3_vector_loaded cfg i s t =
     (let pc = v3_handler_pc cfg i s in
      if v3_response_error cfg i s \<or> pc = 0 then v3_lock_up (v3_drop_vector (v3_flush t))
      else v3_redirect_fetch s pc ((v3_clear_retire s t)\<lparr>v3_vec := vector_cleared (v3_vec t), v3_regs := (v3_regs t)(15 := pc)\<rparr>))"

definition v3_take :: "core_config \<Rightarrow> v4_in \<Rightarrow> v3_core \<Rightarrow> v3_branch \<Rightarrow> v3_core \<Rightarrow> v3_core" where
  "v3_take cfg i s b t =
     (let w = v3_walker s; l = v3_response cfg i s; mva = m_virtual_addr (v3_xm s); vva = vector_virtual_addr (v3_vec s) in
      case b of
        B_Stopped \<Rightarrow> v3_stop_walk (v3_clear_inflight t)
      | B_Failed \<Rightarrow> v3_lock_up (v3_stop_walk (v3_flush t))
      | B_Vector_Lockup \<Rightarrow> v3_lock_up (v3_drop_vector (v3_stop_walk (v3_flush t)))
      | B_Vector_Translated \<Rightarrow>
          t\<lparr>v3_vec := (v3_vec t)\<lparr>vector_load_addr := v3_translate_phys cfg s vva, vector_phys_valid := True\<rparr>\<rparr>
      | B_Memory_Translated \<Rightarrow> t\<lparr>v3_xm := (v3_xm t)\<lparr>m_addr := v3_translate_phys cfg s mva, m_phys_valid := True\<rparr>\<rparr>
      | B_Fetch_Translated \<Rightarrow>
          t\<lparr>v3_fetch_phys_addr := v3_translate_phys cfg s (v3_translate_va s), v3_fetch_phys_valid := True\<rparr>
      | B_Walk_Vector \<Rightarrow> t\<lparr>v3_walker := walk_start (v3_root s) vva ACCESS_READ WALK_RESUME_VECTOR\<rparr>
      | B_Walk_Memory \<Rightarrow> t\<lparr>v3_walker := walk_start (v3_root s) mva (v3_memory_access s) WALK_RESUME_MEMORY\<rparr>
      | B_Walk_Fetch \<Rightarrow> t\<lparr>v3_walker := walk_start (v3_root s) (v3_translate_va s) ACCESS_EXECUTE WALK_RESUME_FETCH\<rparr>
      | B_Preempt_Lockup \<Rightarrow> v3_lock_up (v3_stop_walk (v3_flush t))
      | B_Entry \<Rightarrow> v3_enter cfg i s t
      | B_Walk_Response \<Rightarrow>
          (if l_response_error l then v3_lock_up (v3_stop_walk (v3_flush t))
           else t\<lparr>v3_walker := walk_latch (l_load_value l) (v3_walker t)\<rparr>)
      | B_Walk_Success \<Rightarrow> v3_walk_done s t
      | B_Walk_Descend \<Rightarrow>
          t\<lparr>v3_walker := (v3_walker t)\<lparr>w_processing := False, w_started := False, w_table_addr := w_table_next w,
             w_level := w_level w - 1\<rparr>\<rparr>
      | B_Vector_Response \<Rightarrow> v3_vector_loaded cfg i s t
      | B_Stop_Request \<Rightarrow> v3_flush t
      | B_Advance \<Rightarrow> v3_advance cfg i s t)"

definition v3_zero :: "v3_core \<Rightarrow> v3_core \<Rightarrow> v3_core" where
  "v3_zero s t = (if v3_regs s 0 \<noteq> 0 then t\<lparr>v3_regs := (v3_regs t)(0 := 0)\<rparr> else t)"

definition v3_step :: "core_config \<Rightarrow> v4_in \<Rightarrow> v3_core \<Rightarrow> v3_core" where
  "v3_step cfg i s =
     v3_zero s (v3_take cfg i s (v3_branch cfg i s) (v3_writeback cfg s (s\<lparr>v3_state := v3_next_state cfg i s\<rparr>)))"

definition v3_boot :: "v4_in \<Rightarrow> v3_core \<Rightarrow> v3_core" where
  "v3_boot i s = s\<lparr>v3_regs := (v3_regs s)(1 := vi_boot_r1 i, 13 := vi_boot_r13 i), v3_state := PS_FETCH\<rparr>"

text \<open>The units advance in every cycle, and the fault register with them.\<close>

definition v3_units :: "core_config \<Rightarrow> v4_in \<Rightarrow> v3_core \<Rightarrow> v3_core \<Rightarrow> v3_core" where
  "v3_units cfg i s t =
     (let u = v3_user s; st = v3_strobes cfg i s; p = v3_special_port cfg s; w = v3_walker s in
      t\<lparr>v3_flt := (if v3_entry_start cfg i s then (v3_flt s)\<lparr>fault_pending := False\<rparr> else v3_fault_next s),
        v3_frontend := frontend3_tick (v3_timeout cfg) (v3_fetch_in cfg i s) (v3_frontend s),
        v3_lsu := lsu3_tick (v3_timeout cfg) (v3_lsu_in cfg i s) (v3_lsu s),
        v3_dcache := cache_tick v3_dcache_bits (v3_dcache_cmd cfg i s) (v3_dcache s),
        v3_tlb := (if sr_tlb_flush cfg u st p then tlb3_flush_all (v3_tlb s)
                   else if v3_walk_success s
                   then tlb3_fill_walk (v3_tlb_bits cfg) (w_virtual_addr w) (w_result_phys w) (walk_perms w) (v3_tlb s)
                   else v3_tlb s),
        v3_sregs := sr_tick cfg u st p (v3_irq_set cfg i s) (v3_sregs s)\<rparr>)"

definition v3_tick :: "core_config \<Rightarrow> v4_in \<Rightarrow> v3_core \<Rightarrow> v3_core" where
  "v3_tick cfg i s = v3_units cfg i s (if v3_booting s then v3_boot i s else v3_step cfg i s)"

section \<open>Reset and runs\<close>

definition lsu3_reset :: lsu3 where
  "lsu3_reset = \<lparr>phase = LSU_IDLE, latched_addr = 0, latched_width = 0, latched_write = False,
     latched_store_value = 0, first_data = 0, watchdog_counter = 0, beat_started = False\<rparr>"

definition v3_reset :: "core_config \<Rightarrow> v3_core" where
  "v3_reset cfg =
     (let pc = word_of_int (reset_vector cfg) in
      \<lparr>v3_state = PS_RESET, v3_regs = (\<lambda>_. 0)(15 := pc), v3_flags = 0, v3_halted = False, v3_locked_up = False,
       v3_commit_valid = False, v3_commit_pc = 0, v3_fetch_pc = pc, v3_fetch_phys_addr = pc,
       v3_fetch_phys_valid = False, v3_translate_va = pc, v3_translate_access = ACCESS_EXECUTE,
       v3_fd = \<lparr>fd_valid = False, fd_instruction = 0, fd_pc = 0, fd_post_increment_pc = 0\<rparr>,
       v3_ex = \<lparr>ex_valid = False, ex_instruction = 0, ex_pc = 0, ex_post_increment_pc = 0, ex_operand_a = 0,
         ex_operand_b = 0, ex_flags = 0\<rparr>,
       v3_xm = xm_cleared 0,
       v3_mr = \<lparr>mr_valid = False, mr_next_pc = 0, mr_commit_next_pc = 0, mr_reg_write = False, mr_reg_index = 0,
         mr_reg_value = 0, mr_aux_reg_write = False, mr_aux_reg_index = 0, mr_aux_reg_value = 0, mr_commit_pc = 0,
         mr_flags_write = False, mr_flags_value = 0\<rparr>,
       v3_retire = retire_cleared 0 0, v3_walker = walk_idle,
       v3_vec = \<lparr>vector_active = False, vector_started = False, vector_virtual_addr = 0, vector_load_addr = 0,
         vector_phys_valid = False, vector_epc = 0, vector_flags = 0\<rparr>,
       v3_flt = \<lparr>fault_pending = False, fault_cause = 0, fault_pc = 0, fault_addr = 0, fault_access = 0, fault_aux = 0\<rparr>,
       v3_ll_valid = False, v3_ll_addr = 0, v3_frontend = frontend3_reset,
       v3_lsu = lsu3_reset, v3_dcache = cache_reset,
       v3_tlb = tlb3_reset, v3_sregs = sr_reset\<rparr>)"

inductive v3_reachable :: "core_config \<Rightarrow> v3_core \<Rightarrow> bool" for cfg where
  reset: "v3_reachable cfg (v3_reset cfg)"
| tick: "v3_reachable cfg s \<Longrightarrow> v3_reachable cfg (v3_tick cfg i s)"

end
