(* ===== verification/V3_Steps.thy ===== *)
theory V3_Steps
  imports V3_Core V4_Order
begin

text \<open>
  The value of each register of the v3 pipeline after an edge: what the writeback that opens
  every edge does, what the alternatives that do not move the pipeline keep, and what the
  last alternative assigns.  The proofs about the core use these equations.
\<close>

section \<open>Writeback, units, the zero register\<close>

lemma v3_writeback_frame [simp]:
  "v3_state (v3_writeback cfg s t) = v3_state t" "v3_fetch_pc (v3_writeback cfg s t) = v3_fetch_pc t"
  "v3_fetch_phys_addr (v3_writeback cfg s t) = v3_fetch_phys_addr t"
  "v3_fetch_phys_valid (v3_writeback cfg s t) = v3_fetch_phys_valid t"
  "v3_translate_va (v3_writeback cfg s t) = v3_translate_va t"
  "v3_translate_access (v3_writeback cfg s t) = v3_translate_access t" "v3_fd (v3_writeback cfg s t) = v3_fd t"
  "v3_ex (v3_writeback cfg s t) = v3_ex t" "v3_xm (v3_writeback cfg s t) = v3_xm t" "v3_mr (v3_writeback cfg s t) = v3_mr t"
  "v3_retire (v3_writeback cfg s t) = v3_retire t" "v3_walker (v3_writeback cfg s t) = v3_walker t"
  "v3_vec (v3_writeback cfg s t) = v3_vec t" "v3_ll_addr (v3_writeback cfg s t) = v3_ll_addr t"
  by (simp_all add: v3_writeback_def v3_lock_up_def Let_def split: option.split)

lemma v3_writeback_sets [simp]:
  "v3_regs (v3_writeback cfg s t) = retire_regs (v3_retire s) (v3_regs t)"
  "v3_flags (v3_writeback cfg s t) = retire_flags (v3_retire s) (v3_flags t)"
  "v3_commit_valid (v3_writeback cfg s t) = (r_valid (v3_retire s) \<and> r_commit (v3_retire s))"
  "v3_commit_pc (v3_writeback cfg s t) =
     (if r_valid (v3_retire s) \<and> r_commit (v3_retire s) then r_commit_pc (v3_retire s) else v3_commit_pc t)"
  "v3_halted (v3_writeback cfg s t) = (v3_halted t \<or> halt_request (retire_stage (v3_retire s)))"
  "v3_locked_up (v3_writeback cfg s t) = (v3_locked_up t \<or> lockup_request (retire_stage (v3_retire s)))"
  by (auto simp: v3_writeback_def v3_lock_up_def retire_stage_def port_def Let_def split: option.split)

lemma v3_units_frame [simp]:
  "v3_state (v3_units cfg i s t) = v3_state t" "v3_regs (v3_units cfg i s t) = v3_regs t" "v3_flags (v3_units cfg i s t) = v3_flags t"
  "v3_halted (v3_units cfg i s t) = v3_halted t" "v3_locked_up (v3_units cfg i s t) = v3_locked_up t"
  "v3_commit_valid (v3_units cfg i s t) = v3_commit_valid t" "v3_commit_pc (v3_units cfg i s t) = v3_commit_pc t"
  "v3_fetch_pc (v3_units cfg i s t) = v3_fetch_pc t" "v3_fetch_phys_addr (v3_units cfg i s t) = v3_fetch_phys_addr t"
  "v3_fetch_phys_valid (v3_units cfg i s t) = v3_fetch_phys_valid t" "v3_translate_va (v3_units cfg i s t) = v3_translate_va t"
  "v3_translate_access (v3_units cfg i s t) = v3_translate_access t" "v3_fd (v3_units cfg i s t) = v3_fd t"
  "v3_ex (v3_units cfg i s t) = v3_ex t" "v3_xm (v3_units cfg i s t) = v3_xm t" "v3_mr (v3_units cfg i s t) = v3_mr t"
  "v3_retire (v3_units cfg i s t) = v3_retire t" "v3_walker (v3_units cfg i s t) = v3_walker t" "v3_vec (v3_units cfg i s t) = v3_vec t"
  "v3_ll_valid (v3_units cfg i s t) = v3_ll_valid t" "v3_ll_addr (v3_units cfg i s t) = v3_ll_addr t"
  by (simp_all add: v3_units_def Let_def)

lemma v3_zero_frame [simp]:
  "v3_state (v3_zero s t) = v3_state t" "v3_flags (v3_zero s t) = v3_flags t" "v3_halted (v3_zero s t) = v3_halted t"
  "v3_locked_up (v3_zero s t) = v3_locked_up t" "v3_commit_valid (v3_zero s t) = v3_commit_valid t"
  "v3_commit_pc (v3_zero s t) = v3_commit_pc t" "v3_fetch_pc (v3_zero s t) = v3_fetch_pc t"
  "v3_fetch_phys_addr (v3_zero s t) = v3_fetch_phys_addr t" "v3_fetch_phys_valid (v3_zero s t) = v3_fetch_phys_valid t"
  "v3_translate_va (v3_zero s t) = v3_translate_va t" "v3_translate_access (v3_zero s t) = v3_translate_access t"
  "v3_fd (v3_zero s t) = v3_fd t" "v3_ex (v3_zero s t) = v3_ex t" "v3_xm (v3_zero s t) = v3_xm t" "v3_mr (v3_zero s t) = v3_mr t"
  "v3_retire (v3_zero s t) = v3_retire t" "v3_walker (v3_zero s t) = v3_walker t" "v3_vec (v3_zero s t) = v3_vec t"
  "r \<noteq> 0 \<Longrightarrow> v3_regs (v3_zero s t) r = v3_regs t r" "v3_regs s 0 = 0 \<Longrightarrow> v3_regs (v3_zero s t) = v3_regs t"
  by (simp_all add: v3_zero_def)

text \<open>The state the chosen alternative starts from.\<close>

definition v3_written :: "core_config \<Rightarrow> v4_in \<Rightarrow> v3_core \<Rightarrow> v3_core" where
  "v3_written cfg i s = v3_writeback cfg s (s\<lparr>v3_state := v3_next_state cfg i s\<rparr>)"

lemma v3_tick_take:
  "\<not> v3_booting s \<Longrightarrow>
     v3_tick cfg i s = v3_units cfg i s (v3_zero s (v3_take cfg i s (v3_branch cfg i s) (v3_written cfg i s)))"
  by (simp add: v3_tick_def v3_step_def v3_written_def)

lemma v3_written_frame [simp]:
  "v3_state (v3_written cfg i s) = v3_next_state cfg i s" "v3_fetch_pc (v3_written cfg i s) = v3_fetch_pc s"
  "v3_fetch_phys_addr (v3_written cfg i s) = v3_fetch_phys_addr s" "v3_fetch_phys_valid (v3_written cfg i s) = v3_fetch_phys_valid s"
  "v3_translate_va (v3_written cfg i s) = v3_translate_va s" "v3_fd (v3_written cfg i s) = v3_fd s"
  "v3_ex (v3_written cfg i s) = v3_ex s" "v3_xm (v3_written cfg i s) = v3_xm s" "v3_mr (v3_written cfg i s) = v3_mr s"
  "v3_retire (v3_written cfg i s) = v3_retire s" "v3_walker (v3_written cfg i s) = v3_walker s" "v3_vec (v3_written cfg i s) = v3_vec s"
  "v3_regs (v3_written cfg i s) = retire_regs (v3_retire s) (v3_regs s)"
  "v3_flags (v3_written cfg i s) = retire_flags (v3_retire s) (v3_flags s)"
  "v3_commit_valid (v3_written cfg i s) = (r_valid (v3_retire s) \<and> r_commit (v3_retire s))"
  "v3_commit_pc (v3_written cfg i s) =
     (if r_valid (v3_retire s) \<and> r_commit (v3_retire s) then r_commit_pc (v3_retire s) else v3_commit_pc s)"
  "v3_halted (v3_written cfg i s) = (v3_halted s \<or> halt_request (retire_stage (v3_retire s)))"
  "v3_locked_up (v3_written cfg i s) = (v3_locked_up s \<or> lockup_request (retire_stage (v3_retire s)))"
  by (simp_all add: v3_written_def)

section \<open>Alternatives that empty or keep the pipeline\<close>

definition v3_stopped :: "v3_core \<Rightarrow> bool" where "v3_stopped s \<longleftrightarrow> v3_halted s \<or> v3_locked_up s"

definition v3_empty :: "v3_core \<Rightarrow> bool" where
  "v3_empty s \<longleftrightarrow> \<not> fd_valid (v3_fd s) \<and> \<not> ex_valid (v3_ex s) \<and> \<not> m_valid (v3_xm s) \<and> \<not> mr_valid (v3_mr s) \<and>
     \<not> r_valid (v3_retire s)"

lemmas v3_flush_defs = v3_flush_def v3_clear_latches_def v3_clear_inflight_def v3_stop_walk_def v3_lock_up_def v3_drop_vector_def
  walk_stop_def vector_cleared_def

definition flushing :: "core_config \<Rightarrow> v4_in \<Rightarrow> v3_core \<Rightarrow> bool" where
  "flushing cfg i s \<longleftrightarrow> v3_branch cfg i s \<in> {B_Stopped, B_Failed, B_Vector_Lockup, B_Preempt_Lockup, B_Entry, B_Stop_Request} \<or>
     v3_branch cfg i s = B_Walk_Response \<and> v3_response_error cfg i s \<or>
     v3_branch cfg i s = B_Vector_Response \<and> \<not> v3_vector_done cfg i s"

text \<open>Alternatives that touch neither the latches nor where fetching goes.\<close>

definition keeping :: "core_config \<Rightarrow> v4_in \<Rightarrow> v3_core \<Rightarrow> bool" where
  "keeping cfg i s \<longleftrightarrow> v3_branch cfg i s \<in> {B_Vector_Translated, B_Memory_Translated, B_Fetch_Translated, B_Walk_Vector,
       B_Walk_Memory, B_Walk_Fetch, B_Walk_Success, B_Walk_Descend} \<or>
     v3_branch cfg i s = B_Walk_Response \<and> \<not> v3_response_error cfg i s"

lemma branch_kinds:
  "flushing cfg i s \<or> keeping cfg i s \<or> v3_branch cfg i s = B_Advance \<or>
     v3_branch cfg i s = B_Vector_Response \<and> v3_vector_done cfg i s"
  by (cases "v3_branch cfg i s") (auto simp: flushing_def keeping_def)

lemma branch_vector_response: "v3_branch cfg i s = B_Vector_Response \<Longrightarrow> v3_vector_response_valid cfg i s"
  by (simp add: v3_branch_def Let_def split: if_splits)

lemma vector_loaded_done:
  assumes "v3_branch cfg i s = B_Vector_Response"
  shows "v3_vector_loaded cfg i s t =
     (if v3_vector_done cfg i s
      then v3_redirect_fetch s (v3_handler_pc cfg i s) ((v3_clear_retire s t)\<lparr>v3_vec := vector_cleared (v3_vec t),
             v3_regs := (v3_regs t)(15 := v3_handler_pc cfg i s)\<rparr>)
      else v3_lock_up (v3_drop_vector (v3_flush t)))"
  using branch_vector_response [OF assms] by (auto simp: v3_vector_loaded_def v3_vector_done_def Let_def)

lemma flushing_empty:
  assumes "\<not> v3_booting s" and "flushing cfg i s"
  shows "v3_empty (v3_tick cfg i s)"
    and "\<not> w_active (v3_walker (v3_tick cfg i s)) \<or> v3_branch cfg i s \<in> {B_Stop_Request, B_Vector_Response}"
  using assms(2) vector_loaded_done [of cfg i s]
  by (auto simp: flushing_def v3_tick_take [OF assms(1)] v3_take_def v3_enter_def v3_flush_defs v3_empty_def v3_response_error_def Let_def)

lemma v3_walk_done_frame [simp]:
  "v3_fd (v3_walk_done s t) = v3_fd t" "v3_ex (v3_walk_done s t) = v3_ex t" "v3_mr (v3_walk_done s t) = v3_mr t"
  "v3_retire (v3_walk_done s t) = v3_retire t" "xm_same (v3_xm (v3_walk_done s t)) (v3_xm t)"
  "v3_fetch_pc (v3_walk_done s t) = v3_fetch_pc t" "vector_active (v3_vec (v3_walk_done s t)) = vector_active (v3_vec t)"
  "v3_translate_va (v3_walk_done s t) = v3_translate_va t" "v3_regs (v3_walk_done s t) = v3_regs t"
  "v3_flags (v3_walk_done s t) = v3_flags t" "v3_halted (v3_walk_done s t) = v3_halted t"
  "v3_locked_up (v3_walk_done s t) = v3_locked_up t" "v3_state (v3_walk_done s t) = v3_state t"
  "v3_commit_valid (v3_walk_done s t) = v3_commit_valid t" "v3_commit_pc (v3_walk_done s t) = v3_commit_pc t"
  "w_active (v3_walker (v3_walk_done s t)) = False"
  by (simp_all add: v3_walk_done_def v3_stop_walk_def walk_stop_def Let_def)

lemma keeping_frame:
  assumes "\<not> v3_booting s" and "keeping cfg i s"
  shows "v3_fd (v3_tick cfg i s) = v3_fd s" "v3_ex (v3_tick cfg i s) = v3_ex s" "v3_mr (v3_tick cfg i s) = v3_mr s"
    "v3_retire (v3_tick cfg i s) = v3_retire s" "xm_same (v3_xm (v3_tick cfg i s)) (v3_xm s)"
    "v3_fetch_pc (v3_tick cfg i s) = v3_fetch_pc s" "vector_active (v3_vec (v3_tick cfg i s)) = vector_active (v3_vec s)"
    "v3_translate_va (v3_tick cfg i s) = v3_translate_va s"
    "v3_stopped (v3_tick cfg i s) = (v3_stopped s \<or> halt_request (retire_stage (v3_retire s)) \<or> lockup_request (retire_stage (v3_retire s)))"
    "v3_regs s 0 = 0 \<Longrightarrow> v3_regs (v3_tick cfg i s) = retire_regs (v3_retire s) (v3_regs s)"
    "v3_flags (v3_tick cfg i s) = retire_flags (v3_retire s) (v3_flags s)"
  using assms(2) v3_walk_done_frame(5) [of s "v3_written cfg i s"]
  unfolding keeping_def v3_tick_take [OF assms(1)] v3_take_def Let_def v3_response_error_def v3_stopped_def
  by auto

section \<open>The last alternative\<close>

lemma v3_redirect_mr: "v3_redirect s \<Longrightarrow> mr_valid (v3_mr s)"
  by (simp add: v3_redirect_def memory_redirect_def)

lemma v3_clear_retire_frame [simp]:
  "v3_state (v3_clear_retire s t) = v3_state t" "v3_regs (v3_clear_retire s t) = v3_regs t"
  "v3_flags (v3_clear_retire s t) = v3_flags t" "v3_halted (v3_clear_retire s t) = v3_halted t"
  "v3_locked_up (v3_clear_retire s t) = v3_locked_up t" "v3_commit_valid (v3_clear_retire s t) = v3_commit_valid t"
  "v3_commit_pc (v3_clear_retire s t) = v3_commit_pc t" "v3_fetch_pc (v3_clear_retire s t) = v3_fetch_pc t"
  "v3_fetch_phys_addr (v3_clear_retire s t) = v3_fetch_phys_addr t"
  "v3_fetch_phys_valid (v3_clear_retire s t) = v3_fetch_phys_valid t"
  "v3_translate_va (v3_clear_retire s t) = v3_translate_va t"
  "v3_translate_access (v3_clear_retire s t) = v3_translate_access t" "v3_fd (v3_clear_retire s t) = v3_fd t"
  "v3_ex (v3_clear_retire s t) = v3_ex t" "v3_xm (v3_clear_retire s t) = v3_xm t" "v3_mr (v3_clear_retire s t) = v3_mr t"
  "v3_walker (v3_clear_retire s t) = v3_walker t" "v3_vec (v3_clear_retire s t) = v3_vec t"
  "v3_ll_valid (v3_clear_retire s t) = v3_ll_valid t" "v3_ll_addr (v3_clear_retire s t) = v3_ll_addr t"
  by (simp_all add: v3_clear_retire_def v3_redirect_fetch_def v3_clear_latches_def Let_def)

lemma v3_blk_memory_result_frame [simp]:
  "v3_state (v3_blk_memory_result cfg i s t) = v3_state t" "v3_regs (v3_blk_memory_result cfg i s t) = v3_regs t"
  "v3_flags (v3_blk_memory_result cfg i s t) = v3_flags t" "v3_halted (v3_blk_memory_result cfg i s t) = v3_halted t"
  "v3_locked_up (v3_blk_memory_result cfg i s t) = v3_locked_up t"
  "v3_commit_valid (v3_blk_memory_result cfg i s t) = v3_commit_valid t"
  "v3_commit_pc (v3_blk_memory_result cfg i s t) = v3_commit_pc t"
  "v3_fetch_pc (v3_blk_memory_result cfg i s t) = v3_fetch_pc t"
  "v3_fetch_phys_addr (v3_blk_memory_result cfg i s t) = v3_fetch_phys_addr t"
  "v3_fetch_phys_valid (v3_blk_memory_result cfg i s t) = v3_fetch_phys_valid t"
  "v3_translate_va (v3_blk_memory_result cfg i s t) = v3_translate_va t"
  "v3_translate_access (v3_blk_memory_result cfg i s t) = v3_translate_access t"
  "v3_fd (v3_blk_memory_result cfg i s t) = v3_fd t" "v3_ex (v3_blk_memory_result cfg i s t) = v3_ex t"
  "v3_xm (v3_blk_memory_result cfg i s t) = v3_xm t" "v3_retire (v3_blk_memory_result cfg i s t) = v3_retire t"
  "v3_walker (v3_blk_memory_result cfg i s t) = v3_walker t" "v3_vec (v3_blk_memory_result cfg i s t) = v3_vec t"
  by (simp_all add: v3_blk_memory_result_def v3_redirect_fetch_def v3_clear_latches_def Let_def)

lemma v3_blk_retire_frame [simp]:
  "v3_state (v3_blk_retire cfg i s t) = v3_state t" "v3_regs (v3_blk_retire cfg i s t) = v3_regs t"
  "v3_flags (v3_blk_retire cfg i s t) = v3_flags t" "v3_halted (v3_blk_retire cfg i s t) = v3_halted t"
  "v3_locked_up (v3_blk_retire cfg i s t) = v3_locked_up t" "v3_commit_valid (v3_blk_retire cfg i s t) = v3_commit_valid t"
  "v3_commit_pc (v3_blk_retire cfg i s t) = v3_commit_pc t" "v3_walker (v3_blk_retire cfg i s t) = v3_walker t"
  "v3_vec (v3_blk_retire cfg i s t) = v3_vec t" "v3_ll_valid (v3_blk_retire cfg i s t) = v3_ll_valid t"
  "v3_ll_addr (v3_blk_retire cfg i s t) = v3_ll_addr t"
  by (simp_all add: v3_blk_retire_def v3_redirect_fetch_def v3_clear_latches_def Let_def)

lemma v3_blk_memory_latch_frame [simp]:
  "v3_state (v3_blk_memory_latch cfg i s t) = v3_state t" "v3_regs (v3_blk_memory_latch cfg i s t) = v3_regs t"
  "v3_flags (v3_blk_memory_latch cfg i s t) = v3_flags t" "v3_halted (v3_blk_memory_latch cfg i s t) = v3_halted t"
  "v3_locked_up (v3_blk_memory_latch cfg i s t) = v3_locked_up t"
  "v3_commit_valid (v3_blk_memory_latch cfg i s t) = v3_commit_valid t"
  "v3_commit_pc (v3_blk_memory_latch cfg i s t) = v3_commit_pc t"
  "v3_fetch_pc (v3_blk_memory_latch cfg i s t) = v3_fetch_pc t"
  "v3_fetch_phys_addr (v3_blk_memory_latch cfg i s t) = v3_fetch_phys_addr t"
  "v3_fetch_phys_valid (v3_blk_memory_latch cfg i s t) = v3_fetch_phys_valid t"
  "v3_fd (v3_blk_memory_latch cfg i s t) = v3_fd t" "v3_ex (v3_blk_memory_latch cfg i s t) = v3_ex t"
  "v3_mr (v3_blk_memory_latch cfg i s t) = v3_mr t" "v3_retire (v3_blk_memory_latch cfg i s t) = v3_retire t"
  "v3_walker (v3_blk_memory_latch cfg i s t) = v3_walker t" "v3_vec (v3_blk_memory_latch cfg i s t) = v3_vec t"
  "v3_ll_valid (v3_blk_memory_latch cfg i s t) = v3_ll_valid t" "v3_ll_addr (v3_blk_memory_latch cfg i s t) = v3_ll_addr t"
  by (simp_all add: v3_blk_memory_latch_def v3_redirect_fetch_def v3_clear_latches_def Let_def)

lemma v3_blk_requests_frame [simp]:
  "v3_state (v3_blk_requests cfg i s t) = v3_state t" "v3_regs (v3_blk_requests cfg i s t) = v3_regs t"
  "v3_flags (v3_blk_requests cfg i s t) = v3_flags t" "v3_halted (v3_blk_requests cfg i s t) = v3_halted t"
  "v3_locked_up (v3_blk_requests cfg i s t) = v3_locked_up t"
  "v3_commit_valid (v3_blk_requests cfg i s t) = v3_commit_valid t"
  "v3_commit_pc (v3_blk_requests cfg i s t) = v3_commit_pc t" "v3_fetch_pc (v3_blk_requests cfg i s t) = v3_fetch_pc t"
  "v3_fetch_phys_addr (v3_blk_requests cfg i s t) = v3_fetch_phys_addr t"
  "v3_fetch_phys_valid (v3_blk_requests cfg i s t) = v3_fetch_phys_valid t"
  "v3_translate_va (v3_blk_requests cfg i s t) = v3_translate_va t"
  "v3_translate_access (v3_blk_requests cfg i s t) = v3_translate_access t" "v3_fd (v3_blk_requests cfg i s t) = v3_fd t"
  "v3_ex (v3_blk_requests cfg i s t) = v3_ex t" "v3_xm (v3_blk_requests cfg i s t) = v3_xm t"
  "v3_mr (v3_blk_requests cfg i s t) = v3_mr t" "v3_retire (v3_blk_requests cfg i s t) = v3_retire t"
  "v3_ll_valid (v3_blk_requests cfg i s t) = v3_ll_valid t" "v3_ll_addr (v3_blk_requests cfg i s t) = v3_ll_addr t"
  by (simp_all add: v3_blk_requests_def v3_redirect_fetch_def v3_clear_latches_def Let_def)

lemma v3_blk_execute_latch_frame [simp]:
  "v3_state (v3_blk_execute_latch cfg s t) = v3_state t" "v3_regs (v3_blk_execute_latch cfg s t) = v3_regs t"
  "v3_flags (v3_blk_execute_latch cfg s t) = v3_flags t" "v3_halted (v3_blk_execute_latch cfg s t) = v3_halted t"
  "v3_locked_up (v3_blk_execute_latch cfg s t) = v3_locked_up t"
  "v3_commit_valid (v3_blk_execute_latch cfg s t) = v3_commit_valid t"
  "v3_commit_pc (v3_blk_execute_latch cfg s t) = v3_commit_pc t" "v3_fetch_pc (v3_blk_execute_latch cfg s t) = v3_fetch_pc t"
  "v3_fetch_phys_addr (v3_blk_execute_latch cfg s t) = v3_fetch_phys_addr t"
  "v3_fetch_phys_valid (v3_blk_execute_latch cfg s t) = v3_fetch_phys_valid t"
  "v3_translate_va (v3_blk_execute_latch cfg s t) = v3_translate_va t"
  "v3_translate_access (v3_blk_execute_latch cfg s t) = v3_translate_access t"
  "v3_fd (v3_blk_execute_latch cfg s t) = v3_fd t" "v3_xm (v3_blk_execute_latch cfg s t) = v3_xm t"
  "v3_mr (v3_blk_execute_latch cfg s t) = v3_mr t" "v3_retire (v3_blk_execute_latch cfg s t) = v3_retire t"
  "v3_walker (v3_blk_execute_latch cfg s t) = v3_walker t" "v3_vec (v3_blk_execute_latch cfg s t) = v3_vec t"
  "v3_ll_valid (v3_blk_execute_latch cfg s t) = v3_ll_valid t" "v3_ll_addr (v3_blk_execute_latch cfg s t) = v3_ll_addr t"
  by (simp_all add: v3_blk_execute_latch_def v3_redirect_fetch_def v3_clear_latches_def Let_def)

lemma v3_blk_fetch_latch_frame [simp]:
  "v3_state (v3_blk_fetch_latch cfg i s t) = v3_state t" "v3_regs (v3_blk_fetch_latch cfg i s t) = v3_regs t"
  "v3_flags (v3_blk_fetch_latch cfg i s t) = v3_flags t" "v3_halted (v3_blk_fetch_latch cfg i s t) = v3_halted t"
  "v3_locked_up (v3_blk_fetch_latch cfg i s t) = v3_locked_up t"
  "v3_commit_valid (v3_blk_fetch_latch cfg i s t) = v3_commit_valid t"
  "v3_commit_pc (v3_blk_fetch_latch cfg i s t) = v3_commit_pc t" "v3_fetch_pc (v3_blk_fetch_latch cfg i s t) = v3_fetch_pc t"
  "v3_fetch_phys_addr (v3_blk_fetch_latch cfg i s t) = v3_fetch_phys_addr t"
  "v3_fetch_phys_valid (v3_blk_fetch_latch cfg i s t) = v3_fetch_phys_valid t"
  "v3_translate_va (v3_blk_fetch_latch cfg i s t) = v3_translate_va t"
  "v3_translate_access (v3_blk_fetch_latch cfg i s t) = v3_translate_access t"
  "v3_ex (v3_blk_fetch_latch cfg i s t) = v3_ex t" "v3_xm (v3_blk_fetch_latch cfg i s t) = v3_xm t"
  "v3_mr (v3_blk_fetch_latch cfg i s t) = v3_mr t" "v3_retire (v3_blk_fetch_latch cfg i s t) = v3_retire t"
  "v3_walker (v3_blk_fetch_latch cfg i s t) = v3_walker t" "v3_vec (v3_blk_fetch_latch cfg i s t) = v3_vec t"
  "v3_ll_valid (v3_blk_fetch_latch cfg i s t) = v3_ll_valid t" "v3_ll_addr (v3_blk_fetch_latch cfg i s t) = v3_ll_addr t"
  by (simp_all add: v3_blk_fetch_latch_def v3_redirect_fetch_def v3_clear_latches_def Let_def)

lemma v3_blk_steer_frame [simp]:
  "v3_state (v3_blk_steer cfg i s t) = v3_state t" "v3_regs (v3_blk_steer cfg i s t) = v3_regs t"
  "v3_flags (v3_blk_steer cfg i s t) = v3_flags t" "v3_halted (v3_blk_steer cfg i s t) = v3_halted t"
  "v3_locked_up (v3_blk_steer cfg i s t) = v3_locked_up t" "v3_commit_valid (v3_blk_steer cfg i s t) = v3_commit_valid t"
  "v3_commit_pc (v3_blk_steer cfg i s t) = v3_commit_pc t" "v3_fd (v3_blk_steer cfg i s t) = v3_fd t"
  "v3_ex (v3_blk_steer cfg i s t) = v3_ex t" "v3_xm (v3_blk_steer cfg i s t) = v3_xm t"
  "v3_mr (v3_blk_steer cfg i s t) = v3_mr t" "v3_retire (v3_blk_steer cfg i s t) = v3_retire t"
  "v3_walker (v3_blk_steer cfg i s t) = v3_walker t" "v3_vec (v3_blk_steer cfg i s t) = v3_vec t"
  "v3_ll_valid (v3_blk_steer cfg i s t) = v3_ll_valid t" "v3_ll_addr (v3_blk_steer cfg i s t) = v3_ll_addr t"
  by (simp_all add: v3_blk_steer_def v3_redirect_fetch_def v3_clear_latches_def Let_def)

lemma v3_redirect_fetch_frame [simp]:
  "v3_fetch_pc (v3_redirect_fetch s pc t) = pc" "v3_translate_va (v3_redirect_fetch s pc t) = pc"
  "v3_fetch_phys_valid (v3_redirect_fetch s pc t) = (\<not> v3_paging s)" "v3_fd (v3_redirect_fetch s pc t) = v3_fd t"
  "v3_ex (v3_redirect_fetch s pc t) = v3_ex t" "v3_xm (v3_redirect_fetch s pc t) = v3_xm t"
  "v3_mr (v3_redirect_fetch s pc t) = v3_mr t" "v3_retire (v3_redirect_fetch s pc t) = v3_retire t"
  by (simp_all add: v3_redirect_fetch_def)

lemma v3_blk_retire_redirect:
  "v3_fd (v3_blk_retire cfg i s t) = (if v3_redirect s then (v3_fd t)\<lparr>fd_valid := False, fd_instruction := 0\<rparr> else v3_fd t)"
  "v3_ex (v3_blk_retire cfg i s t) = (if v3_redirect s then (v3_ex t)\<lparr>ex_valid := False, ex_instruction := 0\<rparr> else v3_ex t)"
  "v3_xm (v3_blk_retire cfg i s t) = (if v3_redirect s then xm_cleared (v3_flags s) else v3_xm t)"
  "v3_fetch_pc (v3_blk_retire cfg i s t) = (if v3_redirect s then mr_next_pc (v3_mr s) else v3_fetch_pc t)"
  "v3_fetch_phys_valid (v3_blk_retire cfg i s t) = (if v3_redirect s then \<not> v3_paging s else v3_fetch_phys_valid t)"
  using v3_redirect_mr [of s] by (auto simp: v3_blk_retire_def v3_clear_latches_def Let_def)

lemma advance_tick:
  assumes "\<not> v3_booting s" and "v3_branch cfg i s = B_Advance"
  shows "v3_tick cfg i s = v3_units cfg i s (v3_zero s (v3_advance cfg i s (v3_written cfg i s)))"
  by (simp add: v3_tick_take [OF assms(1)] assms(2) v3_take_def Let_def)

lemma fd3_tick:
  assumes "\<not> v3_booting s" and "v3_branch cfg i s = B_Advance"
  shows "v3_fd (v3_tick cfg i s) =
     (if \<not> v3_flush_younger cfg s \<and> v3_fetch_accept cfg i s then v3_fd_fetched i s
      else if v3_flush_younger cfg s \<or> v3_decode_advance cfg s \<or> v3_redirect s
      then (v3_fd s)\<lparr>fd_valid := False, fd_instruction := 0\<rparr>
      else v3_fd s)"
  by (simp add: advance_tick [OF assms] v3_advance_def v3_blk_fetch_latch_def v3_blk_retire_redirect Let_def)

lemma ex_tick:
  assumes "\<not> v3_booting s" and "v3_branch cfg i s = B_Advance"
  shows "v3_ex (v3_tick cfg i s) =
     (if v3_decode_advance cfg s then ex_from_fd cfg s
      else if v3_redirect s \<or> ex_valid (v3_ex s) \<and> (v3_to_memory cfg s \<or> v3_to_retire cfg s)
      then (v3_ex s)\<lparr>ex_valid := False, ex_instruction := 0\<rparr>
      else v3_ex s)"
  by (auto simp: advance_tick [OF assms] v3_advance_def v3_blk_execute_latch_def v3_blk_retire_redirect Let_def)

lemma mr3_tick:
  assumes "\<not> v3_booting s" and "v3_branch cfg i s = B_Advance"
  shows "v3_mr (v3_tick cfg i s) =
     (if v3_memory_to_retire cfg i s then mr_from_result (v3_xm s) (v3_memory_result cfg i s)
      else (v3_mr s)\<lparr>mr_valid := False\<rparr>)"
  by (cases "mr_valid (v3_mr s)"; cases "v3_mr s")
    (simp_all add: advance_tick [OF assms] v3_advance_def v3_blk_retire_def v3_blk_memory_result_def v3_clear_latches_def Let_def)

lemma retire3_tick:
  assumes "\<not> v3_booting s" and "v3_branch cfg i s = B_Advance"
  shows "v3_retire (v3_tick cfg i s) =
     (if mr_valid (v3_mr s) then retire_from_mr (v3_mr s)
      else if v3_to_retire cfg s then retire_from_execute (ex_pc (v3_ex s)) (v3_out cfg s)
      else retire_cleared (v3_flags s) (v3_regs s 15))"
  by (simp add: advance_tick [OF assms] v3_advance_def v3_blk_retire_def v3_clear_retire_def v3_clear_latches_def Let_def)

definition v3_steers :: "core_config \<Rightarrow> v4_in \<Rightarrow> v3_core \<Rightarrow> u64 option" where
  "v3_steers cfg i s =
     (if v3_execute_redirect cfg s then Some (o_next_pc (v3_out cfg s))
      else if v3_fetch_accept cfg i s then Some (v3_fetch_pc s + 2)
      else if v3_redirect s then Some (mr_next_pc (v3_mr s)) else None)"

lemma fetch_pc3_tick:
  assumes "\<not> v3_booting s" and "v3_branch cfg i s = B_Advance"
  shows "v3_fetch_pc (v3_tick cfg i s) = (case v3_steers cfg i s of Some pc \<Rightarrow> pc | None \<Rightarrow> v3_fetch_pc s)"
    and "v3_fetch_phys_valid (v3_tick cfg i s) = (if v3_steers cfg i s = None then v3_fetch_phys_valid s else \<not> v3_paging s)"
  by (simp_all add: advance_tick [OF assms] v3_advance_def v3_blk_steer_def v3_blk_retire_redirect v3_steers_def Let_def)

definition xm3_moved :: "core_config \<Rightarrow> v4_in \<Rightarrow> v3_core \<Rightarrow> xm_reg" where
  "xm3_moved cfg i s =
     (let x = (if v3_redirect s then xm_cleared (v3_flags s) else v3_xm s) in
      if v3_chain_continue cfg i s then
        xm_chain (v3_paging s) (v3_flags s) (v3_chain_store_value cfg i s) (x\<lparr>m_chain_store_addr := m_chain_store_addr (v3_xm s)\<rparr>)
      else if v3_memory_to_retire cfg i s \<or> v3_memory_error cfg i s then xm_cleared (v3_flags s)
      else if v3_to_memory cfg s then xm_issue (v3_paging s) (ex_pc (v3_ex s)) (v3_out cfg s)
      else if m_valid (v3_xm s) \<and> ms_start_request (v3_stage_xm cfg s) (v3_stage_lsu cfg i s)
      then x\<lparr>m_request_started := True\<rparr> else x)"

lemma xm3_tick:
  assumes "\<not> v3_booting s" and "v3_branch cfg i s = B_Advance"
  shows "v3_xm (v3_tick cfg i s) = xm3_moved cfg i s"
  by (simp add: advance_tick [OF assms] v3_advance_def v3_blk_memory_latch_def v3_blk_retire_redirect xm3_moved_def Let_def)

lemma advance_rest:
  assumes "\<not> v3_booting s" and "v3_branch cfg i s = B_Advance"
  shows "vector_active (v3_vec (v3_tick cfg i s)) = vector_active (v3_vec s)"
    and "w_active (v3_walker (v3_tick cfg i s)) = w_active (v3_walker s)"
    and "w_resume_kind (v3_walker (v3_tick cfg i s)) = w_resume_kind (v3_walker s)"
    and "v3_regs s 0 = 0 \<Longrightarrow> v3_regs (v3_tick cfg i s) = retire_regs (v3_retire s) (v3_regs s)"
    and "v3_flags (v3_tick cfg i s) = retire_flags (v3_retire s) (v3_flags s)"
    and "v3_stopped (v3_tick cfg i s) = (v3_stopped s \<or> halt_request (retire_stage (v3_retire s)) \<or> lockup_request (retire_stage (v3_retire s)))"
  by (auto simp: advance_tick [OF assms] v3_advance_def v3_blk_requests_def v3_stopped_def Let_def)

end
