(* ===== verification/V3_Order.thy ===== *)
theory V3_Order
  imports V3_Steps
begin

text \<open>
  Program order in the v3 pipeline, which predicts nothing: behind an instruction comes the
  one after it, unless the execute slot or the result buffer redirects.  The invariant holds
  in every reachable state; it shows that commits follow program order up to one flaw, a
  commit that is repeated without effect while a memory access is being translated.
\<close>

section \<open>Signals of the execute slot\<close>

abbreviation "v3_x cfg s \<equiv> v3_execute_in cfg (sr_write_access_fault (v3_user s) (v3_special_port cfg s)) s"
abbreviation "v3_effect cfg s \<equiv> x_effect (v3_x cfg s)"

lemma v3_x_fields [simp]:
  "x_valid (v3_execute_in cfg f s) = ex_valid (v3_ex s)" "x_instruction (v3_execute_in cfg f s) = ex_instruction (v3_ex s)"
  "x_post_pc (v3_execute_in cfg f s) = ex_post_increment_pc (v3_ex s)" "x_a (v3_execute_in cfg f s) = ex_operand_a (v3_ex s)"
  "x_b (v3_execute_in cfg f s) = ex_operand_b (v3_ex s)" "x_flags (v3_execute_in cfg f s) = ex_flags (v3_ex s)"
  "x_interrupt_epc (v3_execute_in cfg f s) = interrupt_epc (v3_sregs s)"
  "x_special_write_fault (v3_execute_in cfg f s) = f" "x_cpu_control (v3_execute_in cfg f s) = cpu_control (v3_sregs s)"
  "x_special_read_fault (v3_execute_in cfg f s) = sr_read_access_fault (v3_user s) (bslice 0 (ex_operand_b (v3_ex s)))"
  by (simp_all add: v3_execute_in_def Let_def)

lemma v3_out_fields:
  assumes "ex_valid (v3_ex s)"
  shows "o_next_pc (v3_out cfg s) = effect_pc (v3_x cfg s) (v3_effect cfg s)"
    "o_trap (v3_out cfg s) = is_trap (v3_effect cfg s)" "o_halt (v3_out cfg s) = (v3_effect cfg s = E_Halt)"
    "\<not> o_lockup (v3_out cfg s)" "o_memory_start (v3_out cfg s) = is_mem (v3_effect cfg s)"
    "is_mem (v3_effect cfg s) \<Longrightarrow> o_memory_next_pc (v3_out cfg s) = ex_post_increment_pc (v3_ex s)"
    "is_mem (v3_effect cfg s) \<Longrightarrow> o_next_pc (v3_out cfg s) = ex_post_increment_pc (v3_ex s)"
  using v3_execute_fields [of "v3_x cfg s"] assms
  by (simp_all add: v3_out_def) (cases "v3_effect cfg s"; simp)

lemma mem_no_stop: "ex_valid (v3_ex s) \<Longrightarrow> o_memory_start (v3_out cfg s) \<Longrightarrow> \<not> o_trap (v3_out cfg s) \<and> \<not> o_halt (v3_out cfg s)"
  using v3_out_fields [of s cfg] by (cases "v3_effect cfg s") simp_all

lemma memory_start_fault3:
  "ex_valid (v3_ex s) \<Longrightarrow> o_memory_start (v3_execute (v3_execute_in cfg f s)) = o_memory_start (v3_out cfg s)"
proof -
  assume v: "ex_valid (v3_ex s)"
  have eq: "x_operands (v3_execute_in cfg f s) = (x_operands (v3_execute_in cfg g s))\<lparr>op_write_fault := f\<rparr>" for g
    by (simp add: x_operands_def v3_execute_in_def x_user_def Let_def)
  have "is_mem (x_effect (v3_execute_in cfg f s)) = is_mem (x_effect (v3_execute_in cfg g s))" for g
    unfolding x_effect_def v3_x_fields eq [of g] by (rule mem_write_fault)
  then show ?thesis using v3_execute_fields v by (simp add: v3_out_def)
qed

lemma special_port3_retire:
  "write_stb (v3_special_port cfg s) = (x_special_write_stb (v3_execute_in cfg False s) \<and> v3_to_retire cfg s)"
  by (cases "ex_valid (v3_ex s)")
    (simp_all add: v3_special_port_def v3_to_retire_def to_retire3_def memory_start_fault3 Let_def)

definition v3_leaves :: "core_config \<Rightarrow> v3_core \<Rightarrow> bool" where
  "v3_leaves cfg s \<longleftrightarrow> v3_to_memory cfg s \<or> v3_to_retire cfg s"

lemma leaves3_facts:
  "v3_leaves cfg s \<Longrightarrow> ex_valid (v3_ex s) \<and> \<not> m_valid (v3_xm s) \<and> \<not> v3_redirect s"
  "v3_to_retire cfg s \<Longrightarrow> \<not> mr_valid (v3_mr s) \<and> \<not> o_memory_start (v3_out cfg s) \<and> \<not> v3_to_memory cfg s"
  "v3_to_memory cfg s \<Longrightarrow> o_memory_start (v3_out cfg s)"
  by (auto simp: v3_leaves_def v3_to_memory_def v3_to_retire_def to_retire3_def)

lemma advance3_facts:
  assumes "v3_decode_advance cfg s"
  shows "fd_valid (v3_fd s)" "\<not> v3_flush_younger cfg s" "\<not> v3_redirect s" "\<not> ex_valid (v3_ex s) \<or> v3_leaves cfg s"
  using assms by (auto simp: v3_decode_advance_def v3_slot_available_def v3_leaves_def)

lemma accept3_facts:
  assumes "v3_fetch_accept cfg i s"
  shows "\<not> v3_flush_younger cfg s" "\<not> v3_redirect s" "\<not> fd_valid (v3_fd s) \<or> v3_decode_advance cfg s"
    "v3_fetch_phys_valid s" "\<not> vector_active (v3_vec s)"
  using assms by (auto simp: v3_fetch_accept_def)

lemma flush3_facts:
  "v3_execute_redirect cfg s \<Longrightarrow> v3_flush_younger cfg s \<and> \<not> v3_redirect s"
  "v3_flush_younger cfg s \<Longrightarrow> ex_valid (v3_ex s)"
  by (auto simp: v3_execute_redirect_def v3_flush_younger_def Let_def)

lemma memory3_exclusive:
  "v3_memory_to_retire cfg i s \<Longrightarrow> m_valid (v3_xm s) \<and> m_phys_valid (v3_xm s) \<and> \<not> m_chain_store (v3_xm s)"
  "v3_chain_continue cfg i s \<Longrightarrow> m_valid (v3_xm s) \<and> m_phys_valid (v3_xm s) \<and> m_chain_store (v3_xm s)"
  by (auto simp: v3_memory_to_retire_def v3_chain_continue_def ms_final_response_def ms_chain_continue_def v3_stage_xm_def
      ms_complete_def v3_cached_response_def v3_cacheable_load_def Let_def)

section \<open>The chain of program counters\<close>

definition front3_pc :: "v3_core \<Rightarrow> u64" where
  "front3_pc s = (if fd_valid (v3_fd s) then fd_pc (v3_fd s) else v3_fetch_pc s)"
definition execute3_pc :: "v3_core \<Rightarrow> u64" where
  "execute3_pc s = (if ex_valid (v3_ex s) then ex_pc (v3_ex s) else front3_pc s)"
definition memory3_pc :: "v3_core \<Rightarrow> u64" where
  "memory3_pc s = (if m_valid (v3_xm s) then m_commit_pc (v3_xm s) else execute3_pc s)"
definition result3_pc :: "v3_core \<Rightarrow> u64" where
  "result3_pc s = (if mr_valid (v3_mr s) then mr_commit_pc (v3_mr s) else memory3_pc s)"

definition slot3_ok :: "core_config \<Rightarrow> v3_core \<Rightarrow> bool" where
  "slot3_ok cfg s \<longleftrightarrow> (let e = v3_out cfg s in ex_valid (v3_ex s) \<longrightarrow>
     front3_pc s = ex_post_increment_pc (v3_ex s) \<or> o_trap e \<or> o_halt e \<or>
     o_next_pc e \<noteq> ex_post_increment_pc (v3_ex s) \<and> front3_pc s = o_next_pc e)"

definition fd3_ok :: "v3_core \<Rightarrow> bool" where
  "fd3_ok s \<longleftrightarrow> (fd_valid (v3_fd s) \<longrightarrow> fd_post_increment_pc (v3_fd s) = v3_fetch_pc s \<and>
     fd_post_increment_pc (v3_fd s) = fd_pc (v3_fd s) + 2)"

definition chain3_ok :: "core_config \<Rightarrow> v3_core \<Rightarrow> bool" where
  "chain3_ok cfg s \<longleftrightarrow> (let r = v3_retire s in
     (\<not> r_valid r \<longrightarrow> result3_pc s = v3_regs s 15) \<and>
     (r_valid r \<and> r_commit r \<longrightarrow> r_next_pc r = result3_pc s) \<and>
     (mr_valid (v3_mr s) \<longrightarrow> mr_commit_next_pc (v3_mr s) = memory3_pc s) \<and>
     (m_valid (v3_xm s) \<longrightarrow> m_next_pc (v3_xm s) = execute3_pc s) \<and> slot3_ok cfg s \<and> fd3_ok s)"

text \<open>The commit of the retire latch has been made already, and made again changes nothing.\<close>

definition repeats :: "v3_core \<Rightarrow> bool" where
  "repeats s \<longleftrightarrow> (let r = v3_retire s in v3_commit_valid s \<and> v3_commit_pc s = r_commit_pc r \<and> v3_regs s 15 = r_next_pc r \<and>
     retire_regs r (v3_regs s) = v3_regs s \<and> retire_flags r (v3_flags s) = v3_flags s)"

definition latches3_ok :: "v3_core \<Rightarrow> bool" where
  "latches3_ok s \<longleftrightarrow> (let r = v3_retire s; x = v3_xm s in
     v3_regs s 0 = 0 \<and> (mr_valid (v3_mr s) \<longrightarrow> \<not> m_valid x) \<and>
     (m_valid x \<or> mr_valid (v3_mr s) \<or> w_active (v3_walker s) \<longrightarrow> \<not> (r_valid r \<and> r_cpu_control_write r)) \<and>
     (r_valid r \<longrightarrow> r_commit r = (\<not> r_trap r \<and> \<not> r_halt r \<and> \<not> r_lockup r)) \<and>
     (r_valid r \<and> \<not> r_commit r \<longrightarrow>
        r_commit_pc r = v3_regs s 15 \<and> \<not> ex_valid (v3_ex s) \<and> \<not> m_valid x \<and> \<not> mr_valid (v3_mr s) \<and> \<not> w_active (v3_walker s)) \<and>
     (r_valid r \<and> r_commit r \<longrightarrow> r_commit_pc r = v3_regs s 15 \<or> repeats s) \<and>
     (m_valid x \<longrightarrow> m_fault_pc x = m_commit_pc x))"

text \<open>While a walk runs, either it is for the memory stage or nothing young is in the pipeline.\<close>

definition walk3_ok :: "v3_core \<Rightarrow> bool" where
  "walk3_ok s \<longleftrightarrow> (let w = v3_walker s; x = v3_xm s in (w_processing w \<longrightarrow> w_active w) \<and>
     (w_active w \<longrightarrow> v3_paging s \<and> (vector_active (v3_vec s) \<longrightarrow> \<not> vector_phys_valid (v3_vec s)) \<and>
        (m_valid x \<longrightarrow> \<not> m_phys_valid x) \<and>
        (\<not> m_valid x \<and> \<not> vector_active (v3_vec s) \<longrightarrow>
           \<not> fd_valid (v3_fd s) \<and> \<not> ex_valid (v3_ex s) \<and> \<not> v3_fetch_phys_valid s)))"

definition v3_ordered :: "core_config \<Rightarrow> v3_core \<Rightarrow> bool" where
  "v3_ordered cfg s \<longleftrightarrow> latches3_ok s \<and> walk3_ok s \<and>
     (v3_booting s \<or> v3_stopped s \<or> vector_active (v3_vec s) \<longrightarrow> v3_empty s) \<and>
     (v3_booting s \<longrightarrow> v3_fetch_pc s = v3_regs s 15 \<and> \<not> v3_stopped s \<and> \<not> vector_active (v3_vec s) \<and> \<not> w_active (v3_walker s)) \<and>
     (\<not> v3_stopped s \<and> \<not> vector_active (v3_vec s) \<and> \<not> fault_pending (v3_flt s) \<longrightarrow> chain3_ok cfg s)"

section \<open>The front of the pipeline when it moves\<close>

lemma front3_tick:
  assumes "\<not> v3_booting s" and "v3_branch cfg i s = B_Advance"
  shows "front3_pc (v3_tick cfg i s) =
     (if v3_execute_redirect cfg s then o_next_pc (v3_out cfg s)
      else if v3_redirect s then mr_next_pc (v3_mr s)
      else if v3_flush_younger cfg s \<or> v3_decode_advance cfg s then v3_fetch_pc s
      else front3_pc s)"
proof -
  note fd = fd3_tick [OF assms] and pc = fetch_pc3_tick(1) [OF assms]
  note acc = accept3_facts [of cfg i s] and adv = advance3_facts [of cfg s] and fl = flush3_facts [of cfg s]
  consider (rd) "v3_execute_redirect cfg s" | (mr) "\<not> v3_execute_redirect cfg s" "v3_redirect s"
    | (fl) "\<not> v3_execute_redirect cfg s" "\<not> v3_redirect s" "v3_flush_younger cfg s"
    | (da) "\<not> v3_flush_younger cfg s" "\<not> v3_redirect s" "v3_decode_advance cfg s"
    | (st) "\<not> v3_flush_younger cfg s" "\<not> v3_redirect s" "\<not> v3_decode_advance cfg s"
    by blast
  then show ?thesis
  proof cases
    case rd
    then show ?thesis using fl(1) by (simp add: front3_pc_def fd pc v3_steers_def)
  next
    case mr
    then have "\<not> v3_fetch_accept cfg i s" using acc(2) by blast
    then show ?thesis using mr by (simp add: front3_pc_def fd pc v3_steers_def)
  next
    case fl
    then have "\<not> v3_fetch_accept cfg i s" using acc(1) by blast
    then show ?thesis using fl by (simp add: front3_pc_def fd pc v3_steers_def)
  next
    case da
    then have "\<not> v3_execute_redirect cfg s" using fl(1) by blast
    then show ?thesis using da by (simp add: front3_pc_def fd pc v3_steers_def v3_fd_fetched_def)
  next
    case st
    then have "\<not> v3_execute_redirect cfg s" using fl(1) by blast
    then show ?thesis using st acc(3) by (auto simp: front3_pc_def fd pc v3_steers_def v3_fd_fetched_def)
  qed
qed

lemma front3_valid: "fd_valid (v3_fd s) \<Longrightarrow> front3_pc s = fd_pc (v3_fd s)"
  by (simp add: front3_pc_def)

lemma execute3_stays:
  assumes "\<not> v3_booting s" and "v3_branch cfg i s = B_Advance" and "\<not> v3_leaves cfg s" and "\<not> v3_redirect s" and "fd3_ok s"
  shows "execute3_pc (v3_tick cfg i s) = execute3_pc s"
  using assms(3-5) advance3_facts [of cfg s] flush3_facts [of cfg s] front3_valid [of s]
  by (auto simp: execute3_pc_def ex_tick [OF assms(1,2)] front3_tick [OF assms(1,2)] ex_from_fd_def v3_leaves_def Let_def)

lemma advance3_front:
  assumes "\<not> v3_booting s" and "v3_branch cfg i s = B_Advance" and "fd3_ok s" and "v3_decode_advance cfg s"
  shows "front3_pc (v3_tick cfg i s) = fd_post_increment_pc (v3_fd s)"
  using advance3_facts [OF assms(4)] flush3_facts(1) [of cfg s] assms(3)
  by (auto simp: front3_tick [OF assms(1,2)] assms(4) fd3_ok_def)

lemma execute3_leaves:
  assumes "\<not> v3_booting s" and "v3_branch cfg i s = B_Advance" and "v3_leaves cfg s" and "slot3_ok cfg s"
    and "\<not> o_trap (v3_out cfg s)" and "\<not> o_halt (v3_out cfg s)"
  shows "execute3_pc (v3_tick cfg i s) = o_next_pc (v3_out cfg s)"
proof -
  note L = leaves3_facts(1) [OF assms(3)]
  have nl: "\<not> o_lockup (v3_out cfg s)" using v3_out_fields(4) L by blast
  have fl: "v3_flush_younger cfg s = v3_execute_redirect cfg s"
    and mp: "v3_execute_redirect cfg s = (o_next_pc (v3_out cfg s) \<noteq> ex_post_increment_pc (v3_ex s))"
    using assms(5,6) nl L by (simp_all add: v3_flush_younger_def v3_execute_redirect_def Let_def)
  show ?thesis
  proof (cases "v3_execute_redirect cfg s")
    case True
    then have "\<not> v3_decode_advance cfg s" using advance3_facts(2) fl by blast
    then show ?thesis using True assms(3) L
      by (simp add: execute3_pc_def ex_tick [OF assms(1,2)] front3_tick [OF assms(1,2)] v3_leaves_def)
  next
    case False
    then have "front3_pc s = o_next_pc (v3_out cfg s)" using assms(4-6) mp L by (auto simp: slot3_ok_def Let_def)
    then show ?thesis using False fl L assms(3) advance3_facts(1) [of cfg s] front3_valid [of s]
      by (auto simp: execute3_pc_def ex_tick [OF assms(1,2)] front3_tick [OF assms(1,2)] ex_from_fd_def v3_leaves_def Let_def)
  qed
qed

lemma fd3_ok_tick:
  assumes "\<not> v3_booting s" and "v3_branch cfg i s = B_Advance" and "fd3_ok s"
  shows "fd3_ok (v3_tick cfg i s)"
  using assms(3) accept3_facts [of cfg i s] advance3_facts [of cfg s] flush3_facts [of cfg s]
  by (auto simp: fd3_ok_def fd3_tick [OF assms(1,2)] fetch_pc3_tick(1) [OF assms(1,2)] v3_steers_def v3_fd_fetched_def)


text \<open>A waiting instruction steers fetching as before, unless it now traps.\<close>

lemma waits3:
  "ex_valid (v3_ex s) \<Longrightarrow> \<not> v3_leaves cfg s \<Longrightarrow> \<not> v3_redirect s \<Longrightarrow> \<not> o_memory_start (v3_out cfg s) \<Longrightarrow>
     m_valid (v3_xm s) \<or> mr_valid (v3_mr s)"
  by (auto simp: v3_leaves_def v3_to_retire_def to_retire3_def)

lemma sregs3_tick:
  "v3_sregs (v3_tick cfg i s) = sr_tick cfg (v3_user s) (v3_strobes cfg i s) (v3_special_port cfg s) (v3_irq_set cfg i s) (v3_sregs s)"
  by (simp add: v3_tick_def v3_units_def Let_def)

lemma advance3_no_entry:
  assumes "v3_branch cfg i s = B_Advance"
  shows "\<not> v3_entry_start cfg i s" "\<not> v3_vector_done cfg i s" "\<not> v3_stopped s" "\<not> v3_memory_error cfg i s"
    "\<not> halt_request (retire_stage (v3_retire s))" "\<not> lockup_request (retire_stage (v3_retire s))"
    "\<not> v3_trap_preempt_lockup s" "\<not> v3_walk_fault_lockup s" "\<not> v3_vector_translate_lockup s" "\<not> v3_walk_success s"
    "\<not> v3_bus_failed cfg i s"
  using assms by (auto simp: v3_branch_def v3_stopped_def v3_vector_done_def v3_bus_failed_def Let_def split: if_splits)

lemma quiet3_strobes:
  assumes "v3_branch cfg i s = B_Advance" and "\<not> (r_valid (v3_retire s) \<and> r_cpu_control_write (v3_retire s))"
  shows "core_cpu_control (v3_strobes cfg i s) = None" "core_interrupt_epc (v3_strobes cfg i s) = None"
  using assms(2) advance3_no_entry(1,2) [OF assms(1)] by (auto simp: v3_strobes_def retire_stage_def port_def Let_def)

lemma waiting3_effect:
  assumes "v3_branch cfg i s = B_Advance" and "latches3_ok s" and "ex_valid (v3_ex s)" and "\<not> v3_leaves cfg s"
    and "\<not> v3_redirect s" and ex: "v3_ex (v3_tick cfg i s) = v3_ex s"
  shows "(o_trap (v3_out cfg s) \<longrightarrow> o_trap (v3_out cfg (v3_tick cfg i s))) \<and>
     (o_halt (v3_out cfg s) \<longrightarrow> o_halt (v3_out cfg (v3_tick cfg i s))) \<and>
     (o_trap (v3_out cfg (v3_tick cfg i s)) \<or> o_next_pc (v3_out cfg (v3_tick cfg i s)) = o_next_pc (v3_out cfg s))"
proof -
  let ?s = "v3_tick cfg i s"
  have nw: "\<not> write_stb (v3_special_port cfg s)" using assms(4) by (simp add: special_port3_retire v3_leaves_def)
  then have nf: "\<not> sr_write_access_fault (v3_user s) (v3_special_port cfg s)" by (simp add: sr_write_access_fault_def)
  have si: "same_instruction (v3_x cfg s) (v3_x cfg ?s)" by (simp add: same_instruction_def ex)
  have "is_mem (v3_effect cfg s) \<or> same_mode (v3_x cfg s) (v3_x cfg ?s)"
  proof (cases "is_mem (v3_effect cfg s)")
    case False
    then have "m_valid (v3_xm s) \<or> mr_valid (v3_mr s)"
      using waits3 [OF assms(3-5)] v3_out_fields(5) [OF assms(3)] by simp
    then have "\<not> (r_valid (v3_retire s) \<and> r_cpu_control_write (v3_retire s))"
      using assms(2) by (auto simp: latches3_ok_def Let_def)
    note q = sr_tick_quiet [OF nw quiet3_strobes [OF assms(1) this]]
    show ?thesis by (simp add: same_mode_def x_user_def v3_user_def sregs3_tick q ex)
  qed simp
  from effect_later [OF si _ this] nf
  show ?thesis using v3_out_fields [OF assms(3)] v3_out_fields [of ?s] assms(3) by (simp add: ex)
qed

lemma slot3_tick:
  assumes "\<not> v3_booting s" and "v3_branch cfg i s = B_Advance" and "latches3_ok s" and "slot3_ok cfg s" and "fd3_ok s"
  shows "slot3_ok cfg (v3_tick cfg i s)"
proof -
  let ?s = "v3_tick cfg i s"
  consider (adv) "v3_decode_advance cfg s" | (gone) "\<not> v3_decode_advance cfg s" "\<not> ex_valid (v3_ex ?s)"
    | (wait) "\<not> v3_decode_advance cfg s" "ex_valid (v3_ex s)" "\<not> v3_leaves cfg s" "\<not> v3_redirect s" "v3_ex ?s = v3_ex s"
    using ex_tick [OF assms(1,2)] by (auto simp: v3_leaves_def split: if_splits)
  then show ?thesis
  proof cases
    case adv
    then show ?thesis using advance3_front [OF assms(1,2,5) adv]
      by (simp add: slot3_ok_def ex_tick [OF assms(1,2)] ex_from_fd_def Let_def)
  next
    case gone
    then show ?thesis by (simp add: slot3_ok_def Let_def)
  next
    case wait
    note W = waiting3_effect [OF assms(2,3) wait(2-5)]
    have nl: "\<not> o_lockup (v3_out cfg s)" using v3_out_fields(4) [OF wait(2)] .
    show ?thesis
    proof (cases "o_trap (v3_out cfg s) \<or> o_halt (v3_out cfg s)")
      case True
      then show ?thesis using W by (auto simp: slot3_ok_def Let_def)
    next
      case False
      then have mp: "v3_execute_redirect cfg s = (o_next_pc (v3_out cfg s) \<noteq> ex_post_increment_pc (v3_ex s))"
        "v3_flush_younger cfg s = v3_execute_redirect cfg s"
        using nl wait(2,4) by (simp_all add: v3_execute_redirect_def v3_flush_younger_def Let_def)
      then have "front3_pc ?s = o_next_pc (v3_out cfg s)"
        using assms(4) False wait by (auto simp: front3_tick [OF assms(1,2)] slot3_ok_def Let_def)
      then show ?thesis using W wait(2,5) by (auto simp: slot3_ok_def Let_def)
    qed
  qed
qed

section \<open>Memory, result and retire latches when the pipeline moves\<close>

lemma redirect3_no_memory: "latches3_ok s \<Longrightarrow> v3_redirect s \<Longrightarrow> \<not> m_valid (v3_xm s)"
  using v3_redirect_mr [of s] by (auto simp: latches3_ok_def Let_def)

lemma latches3_facts:
  assumes "latches3_ok s"
  shows "v3_regs s 0 = 0" and "mr_valid (v3_mr s) \<Longrightarrow> \<not> m_valid (v3_xm s)"
    and "m_valid (v3_xm s) \<or> mr_valid (v3_mr s) \<or> w_active (v3_walker s) \<Longrightarrow> r_valid (v3_retire s) \<Longrightarrow>
       \<not> r_cpu_control_write (v3_retire s) \<and> r_commit (v3_retire s)"
    and "r_valid (v3_retire s) \<Longrightarrow> \<not> r_commit (v3_retire s) \<Longrightarrow> r_commit_pc (v3_retire s) = v3_regs s 15 \<and> \<not> ex_valid (v3_ex s) \<and>
       \<not> m_valid (v3_xm s) \<and> \<not> mr_valid (v3_mr s) \<and> \<not> w_active (v3_walker s)"
    and "r_valid (v3_retire s) \<Longrightarrow> r_commit (v3_retire s) = (\<not> r_trap (v3_retire s) \<and> \<not> r_halt (v3_retire s) \<and> \<not> r_lockup (v3_retire s))"
    and "m_valid (v3_xm s) \<Longrightarrow> m_fault_pc (v3_xm s) = m_commit_pc (v3_xm s)"
  using assms unfolding latches3_ok_def Let_def by blast+

lemma xm3_next:
  assumes "\<not> v3_booting s" and "v3_branch cfg i s = B_Advance" and "latches3_ok s"
  shows "m_valid (v3_xm (v3_tick cfg i s)) = (v3_to_memory cfg s \<or> m_valid (v3_xm s) \<and> \<not> v3_memory_to_retire cfg i s)"
    and "v3_to_memory cfg s \<Longrightarrow> m_next_pc (v3_xm (v3_tick cfg i s)) = o_memory_next_pc (v3_out cfg s) \<and>
       m_commit_pc (v3_xm (v3_tick cfg i s)) = ex_pc (v3_ex s) \<and> m_fault_pc (v3_xm (v3_tick cfg i s)) = ex_pc (v3_ex s)"
    and "m_valid (v3_xm s) \<Longrightarrow> \<not> v3_memory_to_retire cfg i s \<Longrightarrow> m_next_pc (v3_xm (v3_tick cfg i s)) = m_next_pc (v3_xm s) \<and>
       m_commit_pc (v3_xm (v3_tick cfg i s)) = m_commit_pc (v3_xm s) \<and> m_fault_pc (v3_xm (v3_tick cfg i s)) = m_fault_pc (v3_xm s)"
    and "m_valid (v3_xm s) \<Longrightarrow> \<not> m_phys_valid (v3_xm s) \<Longrightarrow> \<not> m_phys_valid (v3_xm (v3_tick cfg i s))"
proof -
  note x = redirect3_no_memory [OF assms(3)] and e = advance3_no_entry(4) [OF assms(2)]
  have tm: "v3_to_memory cfg s \<Longrightarrow> \<not> m_valid (v3_xm s) \<and> \<not> v3_redirect s" using leaves3_facts(1) by (auto simp: v3_leaves_def)
  note M = memory3_exclusive [of cfg i s] and T = xm3_tick [OF assms(1,2)]
  show "m_valid (v3_xm (v3_tick cfg i s)) = (v3_to_memory cfg s \<or> m_valid (v3_xm s) \<and> \<not> v3_memory_to_retire cfg i s)"
    using e x tm M unfolding T by (auto simp: xm3_moved_def xm_chain_def xm_issue_def xm_cleared_def Let_def)
  show "v3_to_memory cfg s \<Longrightarrow> m_next_pc (v3_xm (v3_tick cfg i s)) = o_memory_next_pc (v3_out cfg s) \<and>
       m_commit_pc (v3_xm (v3_tick cfg i s)) = ex_pc (v3_ex s) \<and> m_fault_pc (v3_xm (v3_tick cfg i s)) = ex_pc (v3_ex s)"
    using e tm M unfolding T by (auto simp: xm3_moved_def xm_issue_def Let_def)
  show "m_valid (v3_xm s) \<Longrightarrow> \<not> v3_memory_to_retire cfg i s \<Longrightarrow> m_next_pc (v3_xm (v3_tick cfg i s)) = m_next_pc (v3_xm s) \<and>
       m_commit_pc (v3_xm (v3_tick cfg i s)) = m_commit_pc (v3_xm s) \<and> m_fault_pc (v3_xm (v3_tick cfg i s)) = m_fault_pc (v3_xm s)"
    using e x tm unfolding T by (auto simp: xm3_moved_def xm_chain_def Let_def)
  show "m_valid (v3_xm s) \<Longrightarrow> \<not> m_phys_valid (v3_xm s) \<Longrightarrow> \<not> m_phys_valid (v3_xm (v3_tick cfg i s))"
    using e x tm M unfolding T by (auto simp: xm3_moved_def Let_def)
qed

lemma mr3_next:
  assumes "\<not> v3_booting s" and "v3_branch cfg i s = B_Advance"
  shows "mr_valid (v3_mr (v3_tick cfg i s)) = v3_memory_to_retire cfg i s"
    and "v3_memory_to_retire cfg i s \<Longrightarrow> mr_commit_pc (v3_mr (v3_tick cfg i s)) = m_commit_pc (v3_xm s) \<and>
       mr_commit_next_pc (v3_mr (v3_tick cfg i s)) = m_next_pc (v3_xm s)"
  by (simp_all add: mr3_tick [OF assms] mr_from_result_def)

lemma retire3_next:
  assumes "\<not> v3_booting s" and "v3_branch cfg i s = B_Advance"
  shows "r_valid (v3_retire (v3_tick cfg i s)) = (v3_to_retire cfg s \<or> mr_valid (v3_mr s))"
    and "v3_to_retire cfg s \<Longrightarrow>
       (let r = v3_retire (v3_tick cfg i s); e = v3_out cfg s in
          r_commit_pc r = ex_pc (v3_ex s) \<and> r_next_pc r = o_next_pc e \<and>
          r_trap r = o_trap e \<and> r_halt r = o_halt e \<and> r_lockup r = o_lockup e \<and>
          r_commit r = (\<not> o_halt e \<and> \<not> o_lockup e \<and> \<not> o_trap e))"
    and "mr_valid (v3_mr s) \<Longrightarrow>
       (let r = v3_retire (v3_tick cfg i s) in r_commit_pc r = mr_commit_pc (v3_mr s) \<and> r_next_pc r = mr_next_pc (v3_mr s) \<and>
          r_commit r \<and> \<not> r_trap r \<and> \<not> r_halt r \<and> \<not> r_lockup r \<and> \<not> r_cpu_control_write r)"
  using leaves3_facts(1) [of cfg s] leaves3_facts(2) [of cfg s]
  by (auto simp: retire3_tick [OF assms] Let_def retire_from_execute_def retire_from_mr_def retire_cleared_def v3_leaves_def)

lemma regs3_15_advance:
  assumes "\<not> v3_booting s" and "v3_branch cfg i s = B_Advance" and "latches3_ok s" and "chain3_ok cfg s"
    and "\<not> r_valid (v3_retire s) \<or> r_commit (v3_retire s)"
  shows "v3_regs (v3_tick cfg i s) 15 = result3_pc s"
  using assms(3-5) retire_regs_15 [of "v3_retire s" "v3_regs s"]
  by (cases "r_valid (v3_retire s)") (simp_all add: advance_rest(4) [OF assms(1,2)] latches3_ok_def chain3_ok_def Let_def)

lemma result3_stays:
  assumes "\<not> v3_booting s" and "v3_branch cfg i s = B_Advance" and "latches3_ok s" and "fd3_ok s"
    and "\<not> r_valid (v3_retire (v3_tick cfg i s))"
  shows "result3_pc (v3_tick cfg i s) = result3_pc s"
proof -
  note R = retire3_next(1) [OF assms(1,2)] and X = xm3_next [OF assms(1-3)] and F = mr3_next [OF assms(1,2)]
  have n: "\<not> mr_valid (v3_mr s)" "v3_leaves cfg s = v3_to_memory cfg s" using assms(5) R by (auto simp: v3_leaves_def)
  then have rd: "\<not> v3_redirect s" using v3_redirect_mr by blast
  have r: "result3_pc s = memory3_pc s" using n by (simp add: result3_pc_def)
  show ?thesis
  proof (cases "v3_memory_to_retire cfg i s")
    case True
    then show ?thesis using F memory3_exclusive(1) [OF True] unfolding r by (simp add: result3_pc_def memory3_pc_def)
  next
    case False
    have r': "result3_pc (v3_tick cfg i s) = memory3_pc (v3_tick cfg i s)" using F False by (simp add: result3_pc_def)
    consider "v3_to_memory cfg s" | "\<not> v3_to_memory cfg s" "m_valid (v3_xm s)" | "\<not> v3_to_memory cfg s" "\<not> m_valid (v3_xm s)" by blast
    then show ?thesis
    proof cases
      case 1
      then show ?thesis using X(1,2) leaves3_facts(1) [of cfg s] n(2) unfolding r r' by (simp add: memory3_pc_def execute3_pc_def)
    next
      case 2
      then show ?thesis using X(1,3) False unfolding r r' by (simp add: memory3_pc_def)
    next
      case 3
      then show ?thesis using X(1) execute3_stays [OF assms(1,2) _ rd assms(4)] n(2) unfolding r r' by (simp add: memory3_pc_def)
    qed
  qed
qed

lemma result3_leaves:
  assumes "\<not> v3_booting s" and "v3_branch cfg i s = B_Advance" and "latches3_ok s" and "chain3_ok cfg s"
    and "r_valid (v3_retire (v3_tick cfg i s))" and "r_commit (v3_retire (v3_tick cfg i s))"
  shows "r_next_pc (v3_retire (v3_tick cfg i s)) = result3_pc (v3_tick cfg i s)"
proof -
  note R = retire3_next [OF assms(1,2)] and X = xm3_next [OF assms(1-3)] and F = mr3_next [OF assms(1,2)]
  have ok: "slot3_ok cfg s" "fd3_ok s" using assms(4) by (simp_all add: chain3_ok_def Let_def)
  from assms(5) R(1) consider (ex) "v3_to_retire cfg s" | (mr) "mr_valid (v3_mr s)" by blast
  then show ?thesis
  proof cases
    case ex
    have l: "v3_leaves cfg s" "\<not> v3_to_memory cfg s" using ex leaves3_facts(2) [of cfg s] by (auto simp: v3_leaves_def)
    note m = leaves3_facts(1) [OF l(1)]
    have t: "\<not> o_trap (v3_out cfg s)" "\<not> o_halt (v3_out cfg s)" using R(2) [OF ex] assms(6) by (simp_all add: Let_def)
    have "\<not> v3_memory_to_retire cfg i s" using memory3_exclusive(1) m by blast
    then show ?thesis using execute3_leaves [OF assms(1,2) l(1) ok(1) t] R(2) [OF ex] l(2) X(1) F(1) m
      by (simp add: result3_pc_def memory3_pc_def Let_def)
  next
    case mr
    have nm: "\<not> m_valid (v3_xm s)" using mr assms(3) by (simp add: latches3_ok_def Let_def)
    then have n: "\<not> v3_memory_to_retire cfg i s" using memory3_exclusive(1) by blast
    have r: "result3_pc (v3_tick cfg i s) = memory3_pc (v3_tick cfg i s)" using F n by (simp add: result3_pc_def)
    show ?thesis
    proof (cases "v3_redirect s")
      case True
      then have "\<not> v3_leaves cfg s" "\<not> v3_decode_advance cfg s" "\<not> v3_execute_redirect cfg s"
        using leaves3_facts(1) [of cfg s] advance3_facts(3) [of cfg s] flush3_facts(1) [of cfg s] by blast+
      then show ?thesis using True nm X(1) R(3) [OF mr] unfolding r
        by (simp add: memory3_pc_def execute3_pc_def ex_tick [OF assms(1,2)] front3_tick [OF assms(1,2)] v3_leaves_def Let_def)
    next
      case False
      then have next': "r_next_pc (v3_retire (v3_tick cfg i s)) = execute3_pc s"
        using R(3) [OF mr] assms(4) mr nm
        by (simp add: v3_redirect_def memory_redirect_def chain3_ok_def memory3_pc_def Let_def)
      have l: "v3_leaves cfg s = v3_to_memory cfg s" using leaves3_facts(2) [of cfg s] mr by (auto simp: v3_leaves_def)
      show ?thesis
      proof (cases "v3_to_memory cfg s")
        case True
        then show ?thesis using X(1,2) next' leaves3_facts(1) [of cfg s] l unfolding r by (simp add: memory3_pc_def execute3_pc_def)
      next
        case no: False
        then show ?thesis using X(1) nm next' execute3_stays [OF assms(1,2) _ False ok(2)] l unfolding r by (simp add: memory3_pc_def)
      qed
    qed
  qed
qed

lemma chain3_tick:
  assumes "\<not> v3_booting s" and "v3_branch cfg i s = B_Advance" and "latches3_ok s" and "chain3_ok cfg s"
    and "\<not> r_valid (v3_retire s) \<or> r_commit (v3_retire s)"
  shows "chain3_ok cfg (v3_tick cfg i s)"
proof -
  let ?s = "v3_tick cfg i s"
  note X = xm3_next [OF assms(1-3)] and F = mr3_next [OF assms(1,2)]
  have c: "slot3_ok cfg s" "fd3_ok s" "m_valid (v3_xm s) \<Longrightarrow> m_next_pc (v3_xm s) = execute3_pc s"
    using assms(4) by (simp_all add: chain3_ok_def Let_def)
  note stays = execute3_stays [OF assms(1,2) _ _ c(2)]
  have busy: "\<not> v3_leaves cfg s \<and> \<not> v3_redirect s" if "m_valid (v3_xm s)"
    using that leaves3_facts(1) redirect3_no_memory [OF assms(3)] by blast
  have "mr_commit_next_pc (v3_mr ?s) = memory3_pc ?s" if "mr_valid (v3_mr ?s)"
  proof -
    have m: "v3_memory_to_retire cfg i s" using that F(1) by simp
    note v = memory3_exclusive(1) [OF m]
    have "\<not> v3_to_memory cfg s" using busy v by (auto simp: v3_leaves_def)
    then show ?thesis using F(2) [OF m] v c(3) X(1) m stays busy by (simp add: memory3_pc_def)
  qed
  moreover have "m_next_pc (v3_xm ?s) = execute3_pc ?s" if "m_valid (v3_xm ?s)"
  proof (cases "v3_to_memory cfg s")
    case True
    then have l: "v3_leaves cfg s" by (simp add: v3_leaves_def)
    note O = v3_out_fields [of s cfg]
    have v: "ex_valid (v3_ex s)" "o_memory_start (v3_out cfg s)" using leaves3_facts(1) [OF l] leaves3_facts(3) [OF True] by blast+
    have m: "is_mem (v3_effect cfg s)" using v O(5) by simp
    from execute3_leaves [OF assms(1,2) l c(1)] mem_no_stop [OF v] show ?thesis using X(2) [OF True] O(6,7) [OF v(1) m] by simp
  next
    case False
    then have "m_valid (v3_xm s)" "\<not> v3_memory_to_retire cfg i s" using that X(1) by simp_all
    then show ?thesis using X(3) c(3) stays busy by simp
  qed
  ultimately show ?thesis
    using result3_stays [OF assms(1-3) c(2)] regs3_15_advance [OF assms] result3_leaves [OF assms(1-4)]
      slot3_tick [OF assms(1-3) c(1,2)] fd3_ok_tick [OF assms(1,2) c(2)]
    by (simp add: chain3_ok_def Let_def)
qed

lemma latches3_tick:
  assumes "\<not> v3_booting s" and "v3_branch cfg i s = B_Advance" and "latches3_ok s" and "chain3_ok cfg s" and "walk3_ok s"
    and "\<not> vector_active (v3_vec s)"
  shows "latches3_ok (v3_tick cfg i s)"
proof -
  let ?s = "v3_tick cfg i s" and ?r = "v3_retire (v3_tick cfg i s)"
  note X = xm3_next [OF assms(1-3)] and F = mr3_next [OF assms(1,2)] and R = retire3_next [OF assms(1,2)]
  have r0: "v3_regs s 0 = 0" using assms(3) by (simp add: latches3_ok_def Let_def)
  have z: "v3_regs ?s 0 = 0"
    using r0 by (simp add: advance_rest(4) [OF assms(1,2)] retire_regs_def write_port_def Let_def split: option.split)
  have W: "w_active (v3_walker ?s) = w_active (v3_walker s)" by (rule advance_rest(2) [OF assms(1,2)])
  have TM: "v3_to_memory cfg s \<Longrightarrow> \<not> m_valid (v3_xm s) \<and> \<not> v3_to_retire cfg s \<and> ex_valid (v3_ex s)"
    using leaves3_facts [of cfg s] by (auto simp: v3_leaves_def)
  have TR: "v3_to_retire cfg s \<Longrightarrow>
      \<not> m_valid (v3_xm s) \<and> \<not> mr_valid (v3_mr s) \<and> \<not> v3_to_memory cfg s \<and> ex_valid (v3_ex s) \<and> \<not> w_active (v3_walker s)"
    using leaves3_facts [of cfg s] assms(5,6) by (auto simp: v3_leaves_def walk3_ok_def Let_def)
  have busy: "\<not> r_cpu_control_write ?r" if "m_valid (v3_xm ?s) \<or> mr_valid (v3_mr ?s) \<or> w_active (v3_walker ?s)" "r_valid ?r"
  proof -
    have "\<not> v3_to_retire cfg s" using that(1) X(1) F(1) W TM TR memory3_exclusive(1) [of cfg i s] by auto
    then show ?thesis using that(2) R(1,3) by (auto simp: Let_def)
  qed
  have commit: "r_commit_pc ?r = v3_regs ?s 15 \<and> r_commit ?r = (\<not> r_trap ?r \<and> \<not> r_halt ?r \<and> \<not> r_lockup ?r)"
    if "r_valid ?r"
  proof -
    have "\<not> r_valid (v3_retire s) \<or> r_commit (v3_retire s)"
      using that R(1) TR latches3_facts(4) [OF assms(3)] by blast
    note r15 = regs3_15_advance [OF assms(1-4) this]
    from that R(1) consider "v3_to_retire cfg s" | "mr_valid (v3_mr s)" by blast
    then show ?thesis unfolding r15
    proof cases
      case 1
      then show "r_commit_pc ?r = result3_pc s \<and> r_commit ?r = (\<not> r_trap ?r \<and> \<not> r_halt ?r \<and> \<not> r_lockup ?r)"
        using R(2) [OF 1] TR by (auto simp: result3_pc_def memory3_pc_def execute3_pc_def Let_def)
    next
      case 2
      then show "r_commit_pc ?r = result3_pc s \<and> r_commit ?r = (\<not> r_trap ?r \<and> \<not> r_halt ?r \<and> \<not> r_lockup ?r)"
        using R(3) [OF 2] by (simp add: result3_pc_def Let_def)
    qed
  qed
  have drained: "\<not> ex_valid (v3_ex ?s) \<and> \<not> m_valid (v3_xm ?s) \<and> \<not> mr_valid (v3_mr ?s) \<and> \<not> w_active (v3_walker ?s)"
    if "r_valid ?r" "\<not> r_commit ?r"
  proof -
    have t: "v3_to_retire cfg s" using that R(1,3) by (auto simp: Let_def)
    then have "o_trap (v3_out cfg s) \<or> o_halt (v3_out cfg s) \<or> o_lockup (v3_out cfg s)"
      using that(2) R(2) by (auto simp: Let_def)
    then have "v3_flush_younger cfg s" using TR t by (auto simp: v3_flush_younger_def Let_def)
    then have "\<not> v3_decode_advance cfg s" using advance3_facts(2) by blast
    then show ?thesis using t TR X(1) F(1) W memory3_exclusive(1) [of cfg i s] by (auto simp: ex_tick [OF assms(1,2)])
  qed
  have "\<not> m_valid (v3_xm ?s)" if "mr_valid (v3_mr ?s)"
    using that F(1) X(1) TM memory3_exclusive(1) [of cfg i s] by auto
  moreover have "m_fault_pc (v3_xm ?s) = m_commit_pc (v3_xm ?s)" if "m_valid (v3_xm ?s)"
  proof (cases "v3_to_memory cfg s")
    case False
    then have "m_valid (v3_xm s)" "\<not> v3_memory_to_retire cfg i s" using that X(1) by simp_all
    then show ?thesis using X(3) latches3_facts(6) [OF assms(3)] by simp
  qed (use X(2) in simp)
  ultimately show ?thesis using z busy commit drained unfolding latches3_ok_def Let_def by blast
qed


section \<open>Alternatives that keep the latches\<close>

lemma empty3_facts:
  assumes "v3_empty s"
  shows "\<not> v3_leaves cfg s" "\<not> v3_redirect s" "\<not> v3_decode_advance cfg s" "\<not> v3_flush_younger cfg s"
    "\<not> v3_memory_to_retire cfg i s" "\<not> v3_chain_continue cfg i s" "\<not> r_valid (v3_retire s)"
    "write_stb (v3_special_port cfg s) = False"
  using assms leaves3_facts(1) [of cfg s] advance3_facts(1) [of cfg s] flush3_facts [of cfg s] memory3_exclusive [of cfg i s]
    v3_redirect_mr [of s]
  by (auto simp: v3_empty_def special_port3_retire v3_leaves_def)

lemma empty3_latches: "v3_empty s \<Longrightarrow> v3_regs s 0 = 0 \<Longrightarrow> latches3_ok s"
  by (simp add: v3_empty_def latches3_ok_def Let_def)

lemma empty3_chain: "v3_empty s \<Longrightarrow> v3_fetch_pc s = v3_regs s 15 \<Longrightarrow> chain3_ok cfg s"
  by (simp add: v3_empty_def chain3_ok_def result3_pc_def memory3_pc_def execute3_pc_def front3_pc_def slot3_ok_def fd3_ok_def Let_def)

text \<open>What the guard of each of these alternatives says.\<close>

lemma keeping_guards:
  assumes "keeping cfg i s" and "walk3_ok s" and "vector_active (v3_vec s) \<longrightarrow> v3_empty s"
  shows "\<not> v3_stopped s" and "\<not> v3_trap_start s" and "\<not> vector_active (v3_vec s) \<Longrightarrow> \<not> fault_pending (v3_flt s)"
    and "m_valid (v3_xm s) \<or> \<not> r_valid (v3_retire s) \<and> \<not> ex_valid (v3_ex s) \<and> \<not> fd_valid (v3_fd s) \<or>
         w_active (v3_walker s) \<and> \<not> ex_valid (v3_ex s) \<and> \<not> fd_valid (v3_fd s)"
    and "m_valid (v3_xm s) \<Longrightarrow> \<not> v3_entry_start cfg i s"
    and "\<not> v3_vector_done cfg i s \<or> v3_empty s"
proof -
  have "(\<not> v3_stopped s \<and> \<not> v3_trap_start s \<and> (\<not> vector_active (v3_vec s) \<longrightarrow> \<not> fault_pending (v3_flt s))) \<and>
      (m_valid (v3_xm s) \<or> \<not> r_valid (v3_retire s) \<and> \<not> ex_valid (v3_ex s) \<and> \<not> fd_valid (v3_fd s) \<or>
         w_active (v3_walker s) \<and> \<not> ex_valid (v3_ex s) \<and> \<not> fd_valid (v3_fd s))"
  proof (cases "v3_branch cfg i s \<in> {B_Vector_Translated, B_Memory_Translated, B_Fetch_Translated, B_Walk_Vector, B_Walk_Memory, B_Walk_Fetch}")
    case True
    then have "\<not> v3_stopped s" and
      r: "v3_vector_translate_ready s \<or> v3_memory_translate_ready s \<or> v3_fetch_translate_ready s"
      by (auto simp: v3_branch_def v3_vector_translate_complete_def v3_memory_translate_complete_def v3_fetch_translate_complete_def
          v3_stopped_def Let_def split: if_splits)
    moreover have "v3_empty s" if "v3_vector_translate_ready s"
      using that assms(3) by (simp add: v3_vector_translate_ready_def)
    ultimately show ?thesis
      by (auto simp: v3_vector_translate_ready_def v3_memory_translate_ready_def v3_fetch_translate_ready_def v3_trap_start_def v3_empty_def)
  next
    case False
    then have b: "v3_branch cfg i s \<in> {B_Walk_Response, B_Walk_Success, B_Walk_Descend}"
      using assms(1) by (auto simp: keeping_def)
    then have g: "\<not> v3_stopped s" "\<not> v3_entry_start cfg i s" "\<not> v3_trap_preempt_lockup s" "w_active (v3_walker s) \<or> w_processing (v3_walker s)"
      by (auto simp: v3_branch_def v3_stopped_def walk_response_valid_def v3_walk_success_def walk_leaf_success_def Let_def split: if_splits)
    then have w: "w_active (v3_walker s)" using assms(2) by (auto simp: walk3_ok_def Let_def)
    then show ?thesis using g assms(2,3)
      by (auto simp: v3_entry_start_def v3_trap_start_def walk3_ok_def v3_empty_def Let_def)
  qed
  then show "\<not> v3_stopped s" and t: "\<not> v3_trap_start s" and "\<not> vector_active (v3_vec s) \<Longrightarrow> \<not> fault_pending (v3_flt s)"
    and "m_valid (v3_xm s) \<or> \<not> r_valid (v3_retire s) \<and> \<not> ex_valid (v3_ex s) \<and> \<not> fd_valid (v3_fd s) \<or>
         w_active (v3_walker s) \<and> \<not> ex_valid (v3_ex s) \<and> \<not> fd_valid (v3_fd s)"
    by blast+
  show "m_valid (v3_xm s) \<Longrightarrow> \<not> v3_entry_start cfg i s" using t by (simp add: v3_entry_start_def v3_irq_start_def)
  show "\<not> v3_vector_done cfg i s \<or> v3_empty s" using assms(3) by (auto simp: v3_vector_done_def v3_vector_response_valid_def)
qed

lemma keeping_retire:
  assumes "keeping cfg i s" and "walk3_ok s" and "vector_active (v3_vec s) \<longrightarrow> v3_empty s" and "latches3_ok s"
    and "r_valid (v3_retire s)"
  shows "r_commit (v3_retire s)" and "\<not> r_cpu_control_write (v3_retire s)"
    and "halt_request (retire_stage (v3_retire s)) = False" "lockup_request (retire_stage (v3_retire s)) = False"
proof -
  have "m_valid (v3_xm s) \<or> w_active (v3_walker s)" using keeping_guards(4) [OF assms(1,2)] assms(3,5) by blast
  then show c: "r_commit (v3_retire s)" and "\<not> r_cpu_control_write (v3_retire s)"
    using latches3_facts(3) [OF assms(4)] assms(5) by blast+
  show "halt_request (retire_stage (v3_retire s)) = False" "lockup_request (retire_stage (v3_retire s)) = False"
    using c latches3_facts(5) [OF assms(4,5)] by (simp_all add: retire_stage_def)
qed

lemma retire_regs_apply:
  "retire_regs r rs k =
     (if r_valid r \<and> (r_commit r \<or> r_halt r) \<and> k = 15 then r_next_pc r
      else if r_valid r \<and> r_aux_reg_write r \<and> r_aux_reg_index r = k \<and> k \<noteq> 0 then r_aux_reg_value r
      else if r_valid r \<and> r_reg_write r \<and> r_reg_index r = k \<and> k \<noteq> 0 then r_reg_value r
      else rs k)"
  by (auto simp: retire_regs_def retire_stage_def port_def write_port_def Let_def)

lemma retire_again: "retire_regs r (retire_regs r rs) = retire_regs r rs" "retire_flags r (retire_flags r f) = retire_flags r f"
proof -
  have "retire_regs r (retire_regs r rs) k = retire_regs r rs k" for k
    unfolding retire_regs_apply [of r "retire_regs r rs" k] retire_regs_apply [of r rs k] by auto
  then show "retire_regs r (retire_regs r rs) = retire_regs r rs" by blast
  show "retire_flags r (retire_flags r f) = retire_flags r f" by (simp add: retire_flags_def split: option.split)
qed

lemma v3_take_commit: "v3_commit_valid (v3_take cfg i s b t) = v3_commit_valid t" "v3_commit_pc (v3_take cfg i s b t) = v3_commit_pc t"
  by (cases b; simp add: v3_take_def v3_enter_def v3_vector_loaded_def v3_advance_def v3_flush_defs v3_redirect_fetch_def Let_def)+

lemma commit3_tick:
  "\<not> v3_booting s \<Longrightarrow>
     v3_commit_valid (v3_tick cfg i s) = (r_valid (v3_retire s) \<and> r_commit (v3_retire s)) \<and>
     (v3_commit_valid (v3_tick cfg i s) \<longrightarrow> v3_commit_pc (v3_tick cfg i s) = r_commit_pc (v3_retire s))"
  by (simp add: v3_tick_take v3_take_commit)

text \<open>No special register changes while a memory access is translated or a walk answered.\<close>

lemma sregs3_quiet:
  assumes "\<not> write_stb (v3_special_port cfg s)" and "\<not> v3_entry_start cfg i s" and "\<not> v3_vector_done cfg i s"
    and "r_valid (v3_retire s) \<Longrightarrow> \<not> r_cpu_control_write (v3_retire s)"
  shows "cpu_control (v3_sregs (v3_tick cfg i s)) = cpu_control (v3_sregs s)"
    "interrupt_epc (v3_sregs (v3_tick cfg i s)) = interrupt_epc (v3_sregs s)"
proof -
  have "core_cpu_control (v3_strobes cfg i s) = None" "core_interrupt_epc (v3_strobes cfg i s) = None"
    using assms(2-4) by (auto simp: v3_strobes_def retire_stage_def port_def Let_def)
  from sr_tick_quiet [OF assms(1) this]
  show "cpu_control (v3_sregs (v3_tick cfg i s)) = cpu_control (v3_sregs s)"
    "interrupt_epc (v3_sregs (v3_tick cfg i s)) = interrupt_epc (v3_sregs s)" by (simp_all add: sregs3_tick)
qed

lemma memory_keeps_sregs:
  assumes "m_valid (v3_xm s)" and "keeping cfg i s" and "walk3_ok s" and "vector_active (v3_vec s) \<longrightarrow> v3_empty s" and "latches3_ok s"
  shows "cpu_control (v3_sregs (v3_tick cfg i s)) = cpu_control (v3_sregs s)"
    "interrupt_epc (v3_sregs (v3_tick cfg i s)) = interrupt_epc (v3_sregs s)"
proof -
  note K = keeping_guards [OF assms(2-4)]
  have "\<not> write_stb (v3_special_port cfg s)" using assms(1) leaves3_facts(1) by (auto simp: special_port3_retire v3_leaves_def)
  moreover have "\<not> v3_entry_start cfg i s" "\<not> v3_vector_done cfg i s" using K(5,6) assms(1) by (auto simp: v3_empty_def)
  moreover have "r_valid (v3_retire s) \<Longrightarrow> \<not> r_cpu_control_write (v3_retire s)" using keeping_retire(2) [OF assms(2-5)] .
  ultimately show "cpu_control (v3_sregs (v3_tick cfg i s)) = cpu_control (v3_sregs s)"
    "interrupt_epc (v3_sregs (v3_tick cfg i s)) = interrupt_epc (v3_sregs s)" using sregs3_quiet by blast+
qed

lemma keeping_latches:
  assumes "\<not> v3_booting s" and "keeping cfg i s" and "walk3_ok s" and "vector_active (v3_vec s) \<longrightarrow> v3_empty s" and "latches3_ok s"
  shows "latches3_ok (v3_tick cfg i s)"
proof -
  let ?s = "v3_tick cfg i s" and ?r = "v3_retire s"
  note L = latches3_facts [OF assms(5)] and F = keeping_frame [OF assms(1,2)] and K = keeping_retire [OF assms(2-5)]
  note X = xm_same_fields [OF F(5)] and C = commit3_tick [OF assms(1), of cfg i]
  have regs: "v3_regs ?s = retire_regs ?r (v3_regs s)" by (rule F(10) [OF L(1)])
  have z: "v3_regs ?s 0 = 0" using L(1) by (simp add: regs retire_regs_apply)
  have rep: "repeats ?s" if "r_valid ?r"
    using that C K(1) [OF that] by (simp add: repeats_def F(4,11) regs retire_again retire_regs_15 Let_def)
  show ?thesis
    unfolding latches3_ok_def Let_def F(3,4) using z rep L(2,5,6) K(1,2) by (auto simp: X)
qed

lemma keeping_chain:
  assumes "\<not> v3_booting s" and "keeping cfg i s" and "walk3_ok s" and "vector_active (v3_vec s) \<longrightarrow> v3_empty s" and "latches3_ok s"
    and "chain3_ok cfg s"
  shows "chain3_ok cfg (v3_tick cfg i s)"
proof -
  let ?s = "v3_tick cfg i s" and ?r = "v3_retire s"
  note L = latches3_facts [OF assms(5)] and F = keeping_frame [OF assms(1,2)] and K = keeping_guards [OF assms(2-4)]
  note X = xm_same_fields [OF F(5)]
  have regs: "\<not> r_valid ?r \<Longrightarrow> v3_regs ?s = v3_regs s" using F(10) [OF L(1)] by (simp add: fun_eq_iff retire_regs_apply)
  have pcs: "front3_pc ?s = front3_pc s" "execute3_pc ?s = execute3_pc s" "memory3_pc ?s = memory3_pc s" "result3_pc ?s = result3_pc s"
    using X by (simp_all add: front3_pc_def execute3_pc_def memory3_pc_def result3_pc_def F)
  have "slot3_ok cfg ?s"
  proof (cases "ex_valid (v3_ex s)")
    case True
    then have m: "m_valid (v3_xm s)" using K(4) by blast
    note q = memory_keeps_sregs [OF m assms(2-5)]
    have nl: "\<not> v3_leaves cfg s" using leaves3_facts(1) m by blast
    then have "\<not> sr_write_access_fault (v3_user s) (v3_special_port cfg s)"
      by (simp add: sr_write_access_fault_def special_port3_retire v3_leaves_def)
    moreover have "same_instruction (v3_x cfg s) (v3_x cfg ?s)" by (simp add: same_instruction_def F)
    moreover have "same_mode (v3_x cfg s) (v3_x cfg ?s)" by (simp add: same_mode_def x_user_def v3_user_def q F)
    ultimately have "(o_trap (v3_out cfg s) \<longrightarrow> o_trap (v3_out cfg ?s)) \<and> (o_halt (v3_out cfg s) \<longrightarrow> o_halt (v3_out cfg ?s)) \<and>
        (o_trap (v3_out cfg ?s) \<or> o_next_pc (v3_out cfg ?s) = o_next_pc (v3_out cfg s))"
      using effect_later [of "v3_x cfg s" "v3_x cfg ?s"] v3_out_fields [OF True] v3_out_fields [of ?s] True by (simp add: F)
    moreover have "slot3_ok cfg s" using assms(6) by (simp add: chain3_ok_def Let_def)
    ultimately show ?thesis unfolding slot3_ok_def Let_def pcs F by auto
  qed (simp add: slot3_ok_def F Let_def)
  moreover have "fd3_ok ?s" using assms(6) unfolding chain3_ok_def fd3_ok_def F Let_def by blast
  ultimately show ?thesis using assms(6) regs X unfolding chain3_ok_def Let_def pcs F(3,4) by simp
qed


section \<open>The paging mode\<close>

text \<open>An interrupt entry keeps it: vectors have seven bits.\<close>

lemma fold_pending:
  "fold (\<lambda>k v. if P k then Some (f k) else v) ks a = Some x \<Longrightarrow> a = Some x \<or> (\<exists>k \<in> set ks. x = f k)"
  by (induction ks arbitrary: a) (fastforce split: if_splits)+

lemma pending_vector_bound:
  assumes "irq_input_count cfg \<le> 63"
  shows "v3_pending_irq_vector cfg i s < 128"
proof (cases "v3_pending_irq cfg i s")
  case (Some x)
  then obtain k where "k \<in> set (rev [1 ..< nat (irq_input_count cfg) + 1])" "x = of_nat (64 + k)"
    unfolding v3_pending_irq_def using fold_pending by fastforce
  then have k: "64 + k < 128" and x: "x = of_nat (64 + k)" using assms by auto
  have "unat x = 64 + k" using k by (intro of_nat_inverse [OF x [symmetric]]) simp
  with k have "unat x < 128" by simp
  then have "x < 128" by (simp add: word_less_nat_alt)
  then show ?thesis using Some by (simp add: v3_pending_irq_vector_def)
qed (simp add: v3_pending_irq_vector_def)

lemma bit_small: "(v :: u64) < 128 \<Longrightarrow> 7 \<le> n \<Longrightarrow> \<not> bit v n"
proof -
  assume "v < 128" and "7 \<le> n"
  then have "unat v < 2 ^ 7" and "(2 :: nat) ^ 7 \<le> 2 ^ n" by (simp add: word_less_nat_alt, intro power_increasing) simp_all
  then have "unat v div 2 ^ n = 0" by simp
  then have "\<not> bit (unat v) n" by (simp add: bit_iff_odd)
  then show "\<not> bit v n" by (auto simp: bit_unsigned_iff dest: bit_imp_le_length)
qed

lemma entry_paging_bit:
  assumes "irq_input_count cfg \<le> 63" and "\<not> v3_trap_start s"
  shows "bit (v3_trap_cpu_control_value cfg i s) 16 = bit (cpu_control (v3_sregs s)) 16"
proof -
  have "\<not> bit (v3_pending_irq_vector cfg i s) 14" by (rule bit_small [OF pending_vector_bound [OF assms(1)]]) simp
  then show ?thesis using assms(2)
    by (simp add: v3_trap_cpu_control_value_def v3_entry_vector_def bit_simps CPU_CONTROL_INT_ENABLE_def CPU_CONTROL_IN_INTERRUPT_def
        CPU_CONTROL_CUR_INT_MASK_def CPU_CONTROL_CUR_INT_SHIFT_def CPU_CONTROL_USER_MODE_def)
qed

lemma paging_bit: "v3_paging s = bit (cpu_control (v3_sregs s)) 16"
  unfolding v3_paging_def CPU_CONTROL_PAGING_ENABLE_def and_bit by (rule refl)

lemma writable_paging: "bit (v AND CPU_CONTROL_WRITABLE_MASK) 16 = bit v 16"
  by (simp add: bit_simps CPU_CONTROL_WRITABLE_MASK_def CPU_CONTROL_PAGING_ENABLE_def)

lemma paging_quiet:
  assumes "irq_input_count cfg \<le> 63" and "\<not> write_stb (v3_special_port cfg s)" and "\<not> v3_trap_start s"
    and "\<not> v3_vector_done cfg i s" and "r_valid (v3_retire s) \<Longrightarrow> \<not> r_cpu_control_write (v3_retire s)"
  shows "v3_paging (v3_tick cfg i s) = v3_paging s"
proof (cases "v3_entry_start cfg i s")
  case True
  have "cpu_control (v3_sregs (v3_tick cfg i s)) = v3_trap_cpu_control_value cfg i s AND CPU_CONTROL_WRITABLE_MASK"
    using assms(2) True by (simp add: sregs3_tick sr_tick_def v3_strobes_def upd_if_def Let_def split: option.split)
  then show ?thesis using entry_paging_bit [OF assms(1,3)] by (simp add: paging_bit writable_paging)
next
  case False
  from sregs3_quiet(1) [OF assms(2) this assms(4,5)] show ?thesis by (simp add: v3_paging_def)
qed


section \<open>The walker\<close>

lemma vector_loaded_walker [simp]: "v3_walker (v3_vector_loaded cfg i s t) = v3_walker t"
  by (simp add: v3_vector_loaded_def v3_flush_defs v3_redirect_fetch_def v3_clear_retire_def Let_def)

lemma walk3_flush:
  assumes "\<not> v3_booting s" and "flushing cfg i s" and "walk3_ok s" and "latches3_ok s"
  shows "\<not> w_active (v3_walker (v3_tick cfg i s)) \<and> \<not> w_processing (v3_walker (v3_tick cfg i s))"
proof -
  have w: "\<not> w_active (v3_walker s) \<Longrightarrow> \<not> w_processing (v3_walker s)" using assms(3) by (auto simp: walk3_ok_def Let_def)
  have n: "\<not> w_active (v3_walker s)" if "v3_branch cfg i s = B_Stop_Request \<or> v3_branch cfg i s = B_Vector_Response"
    using that
  proof
    assume "v3_branch cfg i s = B_Stop_Request"
    then have "halt_request (retire_stage (v3_retire s)) \<or> lockup_request (retire_stage (v3_retire s))"
      by (simp add: v3_branch_def Let_def split: if_splits)
    then have "r_valid (v3_retire s)" "\<not> r_commit (v3_retire s)"
      using latches3_facts(5) [OF assms(4)] by (auto simp: retire_stage_def)
    then show ?thesis using latches3_facts(4) [OF assms(4)] by blast
  next
    assume "v3_branch cfg i s = B_Vector_Response"
    then show ?thesis using branch_vector_response [of cfg i s] assms(3)
      by (auto simp: v3_vector_response_valid_def walk3_ok_def Let_def)
  qed
  have "v3_branch cfg i s \<in> {B_Stopped, B_Failed, B_Vector_Lockup, B_Preempt_Lockup, B_Entry} \<or>
      v3_branch cfg i s = B_Walk_Response \<and> v3_response_error cfg i s \<or> v3_branch cfg i s = B_Stop_Request \<or>
      v3_branch cfg i s = B_Vector_Response"
    using assms(2) by (auto simp: flushing_def)
  then show ?thesis
    using n w by (auto simp: v3_tick_take [OF assms(1)] v3_take_def v3_enter_def v3_flush_defs v3_response_error_def Let_def)
qed

text \<open>Alternatives that keep the latches: either no walk runs afterwards, or one that ran goes on, or one starts.\<close>

lemma keeping_walk:
  assumes "\<not> v3_booting s" and "keeping cfg i s" and "walk3_ok s" and "w_active (v3_walker (v3_tick cfg i s))"
  shows "w_active (v3_walker s) \<and> \<not> v3_entry_start cfg i s \<or>
     v3_paging s \<and> (v3_vector_translate_ready s \<or> v3_memory_translate_ready s \<or> v3_fetch_translate_ready s)"
    and "v3_xm (v3_tick cfg i s) = v3_xm s" "vector_phys_valid (v3_vec (v3_tick cfg i s)) = vector_phys_valid (v3_vec s)"
    and "v3_fetch_phys_valid (v3_tick cfg i s) = v3_fetch_phys_valid s"
proof -
  have wp: "w_processing (v3_walker s) \<Longrightarrow> w_active (v3_walker s)" using assms(3) by (auto simp: walk3_ok_def Let_def)
  have tr: "\<not> w_active (v3_walker s)"
    if "v3_branch cfg i s \<in> {B_Vector_Translated, B_Memory_Translated, B_Fetch_Translated}"
    using that by (auto simp: v3_branch_def v3_vector_translate_complete_def v3_memory_translate_complete_def
        v3_fetch_translate_complete_def v3_vector_translate_ready_def v3_memory_translate_ready_def v3_fetch_translate_ready_def
        Let_def split: if_splits)
  have b: "v3_branch cfg i s \<in> {B_Walk_Vector, B_Walk_Memory, B_Walk_Fetch, B_Walk_Descend} \<or>
      v3_branch cfg i s = B_Walk_Response \<and> \<not> v3_response_error cfg i s"
    using assms(2,4) tr by (auto simp: keeping_def v3_tick_take [OF assms(1)] v3_take_def Let_def)
  then show "w_active (v3_walker s) \<and> \<not> v3_entry_start cfg i s \<or>
     v3_paging s \<and> (v3_vector_translate_ready s \<or> v3_memory_translate_ready s \<or> v3_fetch_translate_ready s)"
    using wp by (auto simp: v3_branch_def walk_response_valid_def Let_def split: if_splits)
  from b show "v3_xm (v3_tick cfg i s) = v3_xm s" "vector_phys_valid (v3_vec (v3_tick cfg i s)) = vector_phys_valid (v3_vec s)"
    "v3_fetch_phys_valid (v3_tick cfg i s) = v3_fetch_phys_valid s"
    by (auto simp: v3_tick_take [OF assms(1)] v3_take_def v3_response_error_def Let_def)
qed


lemma keeping_walk_ok:
  assumes "irq_input_count cfg \<le> 63" and "\<not> v3_booting s" and "keeping cfg i s" and "walk3_ok s"
    and "vector_active (v3_vec s) \<longrightarrow> v3_empty s" and "latches3_ok s"
  shows "walk3_ok (v3_tick cfg i s)"
proof -
  let ?s = "v3_tick cfg i s"
  note F = keeping_frame [OF assms(2,3)] and K = keeping_guards [OF assms(3-5)]
  have wp: "w_processing (v3_walker ?s) \<Longrightarrow> w_active (v3_walker ?s)"
  proof -
    assume p: "w_processing (v3_walker ?s)"
    have pa: "w_processing (v3_walker s) \<longrightarrow> w_active (v3_walker s)" using assms(4) by (auto simp: walk3_ok_def Let_def)
    have resp: "v3_branch cfg i s = B_Walk_Response \<Longrightarrow> w_active (v3_walker s)"
      by (simp add: v3_branch_def walk_response_valid_def Let_def split: if_splits)
    have done': "w_processing (v3_walker (v3_walk_done s t)) = False" for t
      by (simp add: v3_walk_done_def v3_stop_walk_def walk_stop_def Let_def)
    show "w_active (v3_walker ?s)"
      using p assms(3) resp pa
      by (auto simp: keeping_def v3_tick_take [OF assms(2)] v3_take_def walk_start_def walk_latch_def v3_response_error_def done' Let_def)
  qed
  have "v3_paging ?s \<and> (vector_active (v3_vec ?s) \<longrightarrow> \<not> vector_phys_valid (v3_vec ?s)) \<and>
      (m_valid (v3_xm ?s) \<longrightarrow> \<not> m_phys_valid (v3_xm ?s)) \<and>
      (\<not> m_valid (v3_xm ?s) \<and> \<not> vector_active (v3_vec ?s) \<longrightarrow> \<not> fd_valid (v3_fd ?s) \<and> \<not> ex_valid (v3_ex ?s) \<and> \<not> v3_fetch_phys_valid ?s)"
    if w: "w_active (v3_walker ?s)"
  proof -
    note W = keeping_walk [OF assms(2-4) w]
    have e: "vector_active (v3_vec s) \<Longrightarrow> v3_empty s" using assms(5) by blast
    have s: "v3_paging s \<and> (vector_active (v3_vec s) \<longrightarrow> \<not> vector_phys_valid (v3_vec s)) \<and>
      (m_valid (v3_xm s) \<longrightarrow> \<not> m_phys_valid (v3_xm s)) \<and>
      (\<not> m_valid (v3_xm s) \<and> \<not> vector_active (v3_vec s) \<longrightarrow> \<not> fd_valid (v3_fd s) \<and> \<not> ex_valid (v3_ex s) \<and> \<not> v3_fetch_phys_valid s)"
      using W(1) assms(4) e by (auto simp: walk3_ok_def v3_vector_translate_ready_def v3_memory_translate_ready_def
          v3_fetch_translate_ready_def v3_empty_def Let_def)
    have "\<not> v3_to_retire cfg s"
      using s e leaves3_facts(1) [of cfg s] by (auto simp: v3_leaves_def v3_empty_def)
    then have nw: "\<not> write_stb (v3_special_port cfg s)" by (simp add: special_port3_retire)
    have "\<not> v3_vector_done cfg i s" using s by (auto simp: v3_vector_done_def v3_vector_response_valid_def)
    from paging_quiet [OF assms(1) nw K(2) this] keeping_retire(2) [OF assms(3-6)] have "v3_paging ?s = v3_paging s" .
    then show ?thesis using s by (simp add: W(2-4) F)
  qed
  then show ?thesis using wp by (simp add: walk3_ok_def Let_def)
qed

lemma advance_walk_ok:
  assumes "\<not> v3_booting s" and "v3_branch cfg i s = B_Advance" and "walk3_ok s"
    and "vector_active (v3_vec s) \<longrightarrow> v3_empty s" and "latches3_ok s"
  shows "walk3_ok (v3_tick cfg i s)"
proof -
  let ?s = "v3_tick cfg i s"
  note A = advance3_no_entry [OF assms(2)] and X = xm3_next [OF assms(1,2,5)] and R = advance_rest [OF assms(1,2)]
  have same: "w_processing (v3_walker ?s) = w_processing (v3_walker s)"
    "vector_phys_valid (v3_vec ?s) = vector_phys_valid (v3_vec s)"
    by (auto simp: advance_tick [OF assms(1,2)] v3_advance_def v3_blk_requests_def Let_def)
  have "v3_paging ?s \<and> (vector_active (v3_vec ?s) \<longrightarrow> \<not> vector_phys_valid (v3_vec ?s)) \<and>
      (m_valid (v3_xm ?s) \<longrightarrow> \<not> m_phys_valid (v3_xm ?s)) \<and>
      (\<not> m_valid (v3_xm ?s) \<and> \<not> vector_active (v3_vec ?s) \<longrightarrow> \<not> fd_valid (v3_fd ?s) \<and> \<not> ex_valid (v3_ex ?s) \<and> \<not> v3_fetch_phys_valid ?s)"
    if "w_active (v3_walker ?s)"
  proof -
    have w: "w_active (v3_walker s)" using that R(2) by simp
    have s: "v3_paging s" "vector_active (v3_vec s) \<Longrightarrow> \<not> vector_phys_valid (v3_vec s)" "m_valid (v3_xm s) \<Longrightarrow> \<not> m_phys_valid (v3_xm s)"
      "\<not> m_valid (v3_xm s) \<Longrightarrow> \<not> vector_active (v3_vec s) \<Longrightarrow> \<not> fd_valid (v3_fd s) \<and> \<not> ex_valid (v3_ex s) \<and> \<not> v3_fetch_phys_valid s"
      using assms(3) w by (auto simp: walk3_ok_def Let_def)
    have nl: "\<not> v3_leaves cfg s" using s(4) assms(4) leaves3_facts(1) [of cfg s] by (auto simp: v3_empty_def)
    have nw: "\<not> write_stb (v3_special_port cfg s)" using nl by (simp add: special_port3_retire v3_leaves_def)
    have "r_valid (v3_retire s) \<Longrightarrow> \<not> r_cpu_control_write (v3_retire s)" using latches3_facts(3) [OF assms(5)] w by blast
    from sregs3_quiet(1) [OF nw A(1,2) this] have p: "v3_paging ?s" using s(1) by (simp add: v3_paging_def)
    have m: "m_valid (v3_xm ?s) = m_valid (v3_xm s)" "m_valid (v3_xm ?s) \<Longrightarrow> \<not> m_phys_valid (v3_xm ?s)"
      using X(1,4) s(3) nl memory3_exclusive(1) [of cfg i s] by (auto simp: v3_leaves_def)
    have "\<not> fd_valid (v3_fd ?s) \<and> \<not> ex_valid (v3_ex ?s) \<and> \<not> v3_fetch_phys_valid ?s"
      if "\<not> m_valid (v3_xm s)" "\<not> vector_active (v3_vec s)"
      using s(4) [OF that] s(1) accept3_facts(4) [of cfg i s] advance3_facts(1) [of cfg s] flush3_facts(1,2) [of cfg s]
      by (auto simp: fd3_tick [OF assms(1,2)] ex_tick [OF assms(1,2)] fetch_pc3_tick(2) [OF assms(1,2)])
    then show ?thesis using p m s(2) by (simp add: R(1) same)
  qed
  then show ?thesis using assms(3) R(2) same by (simp add: walk3_ok_def Let_def)
qed

section \<open>The invariant\<close>

lemma flushing_status:
  assumes "\<not> v3_booting s" and "flushing cfg i s"
  shows "v3_stopped (v3_tick cfg i s) \<or> vector_active (v3_vec (v3_tick cfg i s))"
proof -
  have "v3_branch cfg i s = B_Stopped \<Longrightarrow> v3_stopped s"
    "v3_branch cfg i s = B_Stop_Request \<Longrightarrow> halt_request (retire_stage (v3_retire s)) \<or> lockup_request (retire_stage (v3_retire s))"
    by (simp_all add: v3_branch_def v3_stopped_def Let_def split: if_splits)
  then show ?thesis
    using assms(2) vector_loaded_done [of cfg i s "v3_written cfg i s"]
    by (auto simp: flushing_def v3_tick_take [OF assms(1)] v3_take_def v3_enter_def v3_flush_defs v3_stopped_def v3_response_error_def Let_def)
qed

lemma regs3_0:
  assumes "v3_regs s 0 = 0"
  shows "v3_regs (v3_tick cfg i s) 0 = 0"
proof (cases "v3_booting s")
  case False
  have "v3_regs (v3_take cfg i s b (v3_written cfg i s)) 0 = 0" for b
    using assms by (cases b) (auto simp: v3_take_def v3_enter_def v3_vector_loaded_def v3_advance_def v3_flush_defs v3_redirect_fetch_def
        retire_regs_apply Let_def)
  then show ?thesis using assms by (simp add: v3_tick_take [OF False])
qed (use assms in \<open>simp add: v3_tick_def v3_boot_def\<close>)


lemma boot3_tick:
  assumes "v3_booting s"
  shows "v3_empty (v3_tick cfg i s) = v3_empty s" "v3_fetch_pc (v3_tick cfg i s) = v3_fetch_pc s"
    "v3_regs (v3_tick cfg i s) 15 = v3_regs s 15" "v3_stopped (v3_tick cfg i s) = v3_stopped s"
    "v3_vec (v3_tick cfg i s) = v3_vec s" "v3_walker (v3_tick cfg i s) = v3_walker s"
  using assms by (simp_all add: v3_tick_def v3_boot_def v3_empty_def v3_stopped_def)

lemma booting3_tick: "\<not> v3_booting (v3_tick cfg i s)"
proof (cases "v3_booting s")
  case False
  have "v3_state (v3_take cfg i s b t) = v3_state t" for b t
    by (cases b) (simp_all add: v3_take_def v3_enter_def v3_vector_loaded_def v3_advance_def v3_flush_defs v3_redirect_fetch_def Let_def)
  then show ?thesis by (simp add: v3_booting_def v3_tick_take [OF False] v3_next_state_def Let_def)
qed (simp add: v3_tick_def v3_boot_def v3_booting_def)

text \<open>While a handler's address is loaded the empty pipeline stays empty.\<close>

lemma vector_stays_empty:
  assumes "\<not> v3_booting s" and "v3_branch cfg i s = B_Advance" and "v3_empty s" and "vector_active (v3_vec s)" and "latches3_ok s"
  shows "v3_empty (v3_tick cfg i s)"
proof -
  note E = empty3_facts [OF assms(3)]
  have "\<not> v3_fetch_accept cfg i s" using assms(4) by (simp add: v3_fetch_accept_def)
  then show ?thesis
    using E assms(3) xm3_next(1) [OF assms(1,2,5)]
    by (simp add: v3_empty_def fd3_tick [OF assms(1,2)] ex_tick [OF assms(1,2)] mr3_next(1) [OF assms(1,2)]
        retire3_next(1) [OF assms(1,2)] v3_leaves_def)
qed

lemma vector_done_tick:
  assumes "\<not> v3_booting s" and "v3_branch cfg i s = B_Vector_Response" and "v3_vector_done cfg i s" and "v3_empty s"
  shows "v3_empty (v3_tick cfg i s)" "v3_fetch_pc (v3_tick cfg i s) = v3_handler_pc cfg i s"
    "v3_regs (v3_tick cfg i s) 15 = v3_handler_pc cfg i s" "\<not> vector_active (v3_vec (v3_tick cfg i s))"
    "v3_walker (v3_tick cfg i s) = v3_walker s" "\<not> v3_stopped (v3_tick cfg i s)"
proof -
  have ns: "\<not> v3_stopped s" using assms(2) by (simp add: v3_branch_def v3_stopped_def Let_def split: if_splits)
  have nr: "\<not> r_valid (v3_retire s)" using assms(4) by (simp add: v3_empty_def)
  note U = v3_tick_take [OF assms(1), of cfg i] vector_loaded_done [OF assms(2)]
  show "v3_empty (v3_tick cfg i s)" "v3_fetch_pc (v3_tick cfg i s) = v3_handler_pc cfg i s"
    "v3_regs (v3_tick cfg i s) 15 = v3_handler_pc cfg i s" "\<not> vector_active (v3_vec (v3_tick cfg i s))"
    "v3_walker (v3_tick cfg i s) = v3_walker s" "\<not> v3_stopped (v3_tick cfg i s)"
    using assms(3,4) ns nr
    by (simp_all add: U assms(2) v3_take_def v3_empty_def v3_clear_retire_def retire_cleared_def vector_cleared_def v3_stopped_def
        v3_redirect_fetch_def retire_stage_def Let_def)
qed

lemma fault3_tick:
  "\<not> v3_entry_start cfg i s \<Longrightarrow> fault_pending (v3_flt (v3_tick cfg i s)) = v3_trap_request_next s"
  by (simp add: v3_tick_def v3_units_def Let_def v3_fault_next_def split: prod.split)

theorem v3_ordered_tick:
  assumes "irq_input_count cfg \<le> 63" and "v3_ordered cfg s"
  shows "v3_ordered cfg (v3_tick cfg i s)"
proof -
  let ?s = "v3_tick cfg i s"
  have inv: "latches3_ok s" "walk3_ok s" "v3_booting s \<or> v3_stopped s \<or> vector_active (v3_vec s) \<Longrightarrow> v3_empty s"
    and boot: "v3_booting s \<Longrightarrow> v3_fetch_pc s = v3_regs s 15 \<and> \<not> v3_stopped s \<and> \<not> vector_active (v3_vec s) \<and> \<not> w_active (v3_walker s)"
    and chain: "\<not> v3_stopped s \<Longrightarrow> \<not> vector_active (v3_vec s) \<Longrightarrow> \<not> fault_pending (v3_flt s) \<Longrightarrow> chain3_ok cfg s"
    using assms(2) by (simp_all add: v3_ordered_def)
  have ve: "vector_active (v3_vec s) \<longrightarrow> v3_empty s" using inv(3) by blast
  have z: "v3_regs ?s 0 = 0" using regs3_0 latches3_facts(1) [OF inv(1)] by blast
  have nb: "\<not> v3_booting ?s" by (rule booting3_tick)
  have fin: "v3_ordered cfg ?s"
    if "v3_empty ?s" and "\<not> w_active (v3_walker ?s) \<and> \<not> w_processing (v3_walker ?s)"
      and "v3_stopped ?s \<or> vector_active (v3_vec ?s) \<or> v3_fetch_pc ?s = v3_regs ?s 15"
    using that nb z empty3_latches empty3_chain by (auto simp: v3_ordered_def walk3_ok_def Let_def)
  consider (boot) "v3_booting s" | (flush) "\<not> v3_booting s" "flushing cfg i s" | (keep) "\<not> v3_booting s" "keeping cfg i s"
    | (vector) "\<not> v3_booting s" "v3_branch cfg i s = B_Vector_Response" "v3_vector_done cfg i s"
    | (adv) "\<not> v3_booting s" "v3_branch cfg i s = B_Advance"
    using branch_kinds by blast
  then show ?thesis
  proof cases
    case boot
    then show ?thesis using boot3_tick [OF boot, of cfg i] inv(2,3) boot \<open>v3_booting s \<Longrightarrow> _\<close>
      by (intro fin) (auto simp: walk3_ok_def Let_def)
  next
    case flush
    show ?thesis by (rule fin [OF flushing_empty(1) [OF flush] walk3_flush [OF flush inv(2,1)]]) (use flushing_status [OF flush] in blast)
  next
    case keep
    note F = keeping_frame [OF keep] and K = keeping_guards [OF keep(2) inv(2) ve]
    have ns: "v3_stopped ?s = v3_stopped s"
      using F(9) keeping_retire(3,4) [OF keep(2) inv(2) ve inv(1)] by (auto simp: retire_stage_def)
    have "v3_empty ?s = v3_empty s" using xm_same_fields [OF F(5)] by (simp add: v3_empty_def F)
    moreover have "chain3_ok cfg ?s" if "\<not> vector_active (v3_vec s)"
      using keeping_chain [OF keep inv(2) ve inv(1)] chain K(1,3) that by blast
    ultimately show ?thesis
      using keeping_latches [OF keep inv(2) ve inv(1)] keeping_walk_ok [OF assms(1) keep inv(2) ve inv(1)] nb ve K(1) ns F(7)
      by (simp add: v3_ordered_def)
  next
    case vector
    have v: "vector_active (v3_vec s)" "\<not> w_active (v3_walker s)"
      using vector(3) inv(2) by (auto simp: v3_vector_done_def v3_vector_response_valid_def walk3_ok_def Let_def)
    note T = vector_done_tick [OF vector mp [OF ve v(1)]]
    show ?thesis using T v(2) inv(2) by (intro fin) (auto simp: walk3_ok_def Let_def)
  next
    case adv
    note A = advance3_no_entry [OF adv(2)] and R = advance_rest [OF adv]
    have w: "walk3_ok ?s" by (rule advance_walk_ok [OF adv inv(2) ve inv(1)])
    have ns: "\<not> v3_stopped ?s" using R(6) A(3,5,6) by blast
    show ?thesis
    proof (cases "vector_active (v3_vec s)")
      case True
      then have e: "v3_empty ?s" using vector_stays_empty [OF adv _ True inv(1)] ve by blast
      then show ?thesis using w nb ns True R(1) z empty3_latches by (simp add: v3_ordered_def)
    next
      case False
      have "\<not> fault_pending (v3_flt s)" using A(1,7) False by (auto simp: v3_entry_start_def v3_trap_start_def)
      note c = chain [OF A(3) False this]
      have "chain3_ok cfg ?s" if "\<not> fault_pending (v3_flt ?s)"
      proof (rule chain3_tick [OF adv inv(1) c])
        have "\<not> v3_trap_request_next s" using that fault3_tick [OF A(1)] by simp
        then show "\<not> r_valid (v3_retire s) \<or> r_commit (v3_retire s)"
          using A(5,6) latches3_facts(5) [OF inv(1)] by (auto simp: v3_trap_request_next_def retire_stage_def port_def)
      qed
      then show ?thesis using latches3_tick [OF adv inv(1) c inv(2) False] w nb ns False R(1) by (simp add: v3_ordered_def)
    qed
  qed
qed

lemma v3_ordered_reset: "v3_ordered cfg (v3_reset cfg)"
proof -
  have "v3_empty (v3_reset cfg)" by (simp add: v3_reset_def v3_empty_def xm_cleared_def retire_cleared_def Let_def)
  moreover have "v3_fetch_pc (v3_reset cfg) = v3_regs (v3_reset cfg) 15" "v3_regs (v3_reset cfg) 0 = 0"
    "\<not> w_active (v3_walker (v3_reset cfg))" "\<not> w_processing (v3_walker (v3_reset cfg))"
    "\<not> v3_stopped (v3_reset cfg)" "\<not> vector_active (v3_vec (v3_reset cfg))"
    by (simp_all add: v3_reset_def walk_idle_def v3_stopped_def Let_def)
  ultimately show ?thesis by (simp add: v3_ordered_def empty3_latches empty3_chain walk3_ok_def Let_def)
qed

lemma v3_reachable_ordered: "v3_reachable cfg s \<Longrightarrow> irq_input_count cfg \<le> 63 \<Longrightarrow> v3_ordered cfg s"
  by (induction rule: v3_reachable.induct) (simp_all add: v3_ordered_reset v3_ordered_tick)

section \<open>Commit order\<close>

lemma retire3_empty: "\<not> r_valid (v3_retire s) \<Longrightarrow> retire_regs (v3_retire s) rs = rs"
  by (simp add: fun_eq_iff retire_regs_apply)

text \<open>In a cycle that commits, the registers are those the retire latch writes.\<close>

lemma commit3_regs:
  assumes "v3_ordered cfg s" and "\<not> v3_booting s" and "r_valid (v3_retire s)"
  shows "v3_regs (v3_tick cfg i s) = retire_regs (v3_retire s) (v3_regs s)"
    "v3_flags (v3_tick cfg i s) = retire_flags (v3_retire s) (v3_flags s)"
proof -
  have "\<not> vector_active (v3_vec s)" and z: "v3_regs s 0 = 0"
    using assms(1,3) by (auto simp: v3_ordered_def v3_empty_def latches3_ok_def Let_def)
  then have nv: "\<not> v3_vector_response_valid cfg i s" by (simp add: v3_vector_response_valid_def)
  then have b: "v3_branch cfg i s \<noteq> B_Vector_Response" using branch_vector_response by blast
  have "v3_regs (v3_take cfg i s (v3_branch cfg i s) (v3_written cfg i s)) = retire_regs (v3_retire s) (v3_regs s)"
    "v3_flags (v3_take cfg i s (v3_branch cfg i s) (v3_written cfg i s)) = retire_flags (v3_retire s) (v3_flags s)"
    using b by (cases "v3_branch cfg i s"; simp add: v3_take_def v3_enter_def v3_advance_def v3_flush_defs Let_def)+
  then show "v3_regs (v3_tick cfg i s) = retire_regs (v3_retire s) (v3_regs s)"
    "v3_flags (v3_tick cfg i s) = retire_flags (v3_retire s) (v3_flags s)"
    using z by (simp_all add: v3_tick_take [OF assms(2)])
qed

text \<open>
  Property C7: In every reachable state of the v3 core, whatever the buses, interrupt lines and
  memory have done, a commit is either of the instruction at the address R15 holds, after which
  R15 is that instruction's next program counter, or a repetition of the commit of the preceding
  cycle that changes no register and no flag.
\<close>

lemma v3_commit_order:
  assumes "v3_reachable cfg s" and "irq_input_count cfg \<le> 63" and "v3_commit_valid (v3_tick cfg i s)" and "\<not> v3_booting s"
  shows "let t = v3_tick cfg i s in
     v3_commit_pc t = v3_regs s 15 \<and> v3_regs t 15 = r_next_pc (v3_retire s) \<or>
     v3_commit_valid s \<and> v3_commit_pc s = v3_commit_pc t \<and> v3_regs t = v3_regs s \<and> v3_flags t = v3_flags s"
proof -
  have O: "v3_ordered cfg s" by (rule v3_reachable_ordered [OF assms(1,2)])
  have r: "r_valid (v3_retire s)" "r_commit (v3_retire s)" "v3_commit_pc (v3_tick cfg i s) = r_commit_pc (v3_retire s)"
    using commit3_tick [OF assms(4), of cfg i] assms(3) by simp_all
  then have "r_commit_pc (v3_retire s) = v3_regs s 15 \<or> repeats s" using O by (simp add: v3_ordered_def latches3_ok_def Let_def)
  then show ?thesis
    using commit3_regs [OF O assms(4) r(1), of i] r retire_regs_15(2) [OF r(1,2)] by (auto simp: repeats_def Let_def)
qed

text \<open>A stopped core drains and stays stopped.\<close>

text \<open>
  A reachable v3 core that has halted or locked up stays so with an empty pipeline:
  no later cycle commits, changes a register or a flag, or starts or ends an interrupt entry.
\<close>

lemma v3_stopped_idle:
  assumes "v3_reachable cfg s" and "irq_input_count cfg \<le> 63" and "v3_stopped s"
  shows "let t = v3_tick cfg i s in v3_stopped t \<and> v3_empty t \<and> \<not> v3_commit_valid t \<and> v3_regs t = v3_regs s \<and>
     v3_flags t = v3_flags s \<and> vector_active (v3_vec t) = vector_active (v3_vec s)"
proof -
  have O: "v3_ordered cfg s" by (rule v3_reachable_ordered [OF assms(1,2)])
  then have e: "v3_empty s" and nb: "\<not> v3_booting s" and z: "v3_regs s 0 = 0"
    using assms(3) by (auto simp: v3_ordered_def latches3_ok_def Let_def)
  have b: "v3_branch cfg i s = B_Stopped" using assms(3) by (simp add: v3_branch_def v3_stopped_def Let_def)
  then have "v3_empty (v3_tick cfg i s)" using flushing_empty(1) [OF nb] by (simp add: flushing_def)
  moreover have nr: "\<not> r_valid (v3_retire s)" using e by (simp add: v3_empty_def)
  moreover have "retire_flags (v3_retire s) f = f" for f using nr by (simp add: retire_flags_def retire_stage_def port_def)
  ultimately show ?thesis using assms(3) z commit3_tick [OF nb, of cfg i]
    by (auto simp: v3_tick_take [OF nb] b v3_take_def v3_flush_defs v3_stopped_def retire3_empty Let_def)
qed

end
