(* ===== verification/V3_Flaws.thy ===== *)
theory V3_Flaws
  imports V3_Order
begin

text \<open>
  Behaviours of the v3 core that its chain of alternatives brings about and that the v4 core
  does not have, as theorems of the model: an interrupt accepted in the cycle in which an
  instruction address is translated only changes the control register, an interrupt that
  meets a finished memory instruction loses its result, and the second of two memory
  instructions makes the first commit twice under paging.
\<close>

section \<open>An interrupt accepted during the translation of a fetch\<close>

lemma lost_entry_branch:
  assumes "v3_irq_start cfg i s" and "v3_fetch_translate_ready s" and "v3_paging s" and "\<not> v3_stopped s"
    and "\<not> v3_bus_failed cfg i s" and "walk3_ok s"
  shows "v3_branch cfg i s = B_Fetch_Translated \<or> v3_branch cfg i s = B_Walk_Fetch"
proof -
  have f: "\<not> v3_fetch_fault s" using assms(1) by (auto simp: v3_irq_start_def v3_trap_request_next_def)
  have n: "\<not> vector_active (v3_vec s)" "\<not> m_valid (v3_xm s)" "\<not> w_active (v3_walker s)" "\<not> w_processing (v3_walker s)"
    using assms(2,6) by (auto simp: v3_fetch_translate_ready_def walk3_ok_def Let_def)
  show ?thesis
    using assms(2-5) f n
    by (simp add: v3_branch_def v3_stopped_def v3_vector_translate_lockup_def v3_vector_translate_complete_def v3_vector_translate_ready_def
        v3_memory_translate_complete_def v3_memory_translate_ready_def v3_walk_fault_lockup_def v3_walk_fault_def walk_fault_def Let_def)
qed

text \<open>The control register an interrupt entry leaves: supervisor, in interrupt, interrupts off.\<close>

lemma irq_control:
  assumes "v3_irq_start cfg i s" and "irq_input_count cfg \<le> 63"
  shows "cpu_control (v3_sregs (v3_tick cfg i s)) = v3_trap_cpu_control_value cfg i s AND CPU_CONTROL_WRITABLE_MASK"
    and "\<not> v3_user (v3_tick cfg i s)" and "\<not> bit (cpu_control (v3_sregs (v3_tick cfg i s))) 0" and "v3_in_interrupt (v3_tick cfg i s)"
proof -
  have "\<not> v3_to_retire cfg s" using assms(1) leaves3_facts(1) [of cfg s] by (auto simp: v3_irq_start_def v3_leaves_def)
  then have nw: "\<not> write_stb (v3_special_port cfg s)" by (simp add: special_port3_retire)
  have t: "\<not> v3_trap_start s" "v3_entry_start cfg i s" using assms(1) by (auto simp: v3_irq_start_def v3_trap_start_def v3_entry_start_def)
  show c: "cpu_control (v3_sregs (v3_tick cfg i s)) = v3_trap_cpu_control_value cfg i s AND CPU_CONTROL_WRITABLE_MASK"
    using nw t(2) by (simp add: sregs3_tick sr_tick_def v3_strobes_def upd_if_def Let_def split: option.split)
  have v: "\<not> bit (v3_pending_irq_vector cfg i s) 15" by (rule bit_small [OF pending_vector_bound [OF assms(2)]]) simp
  note bits = v3_trap_cpu_control_value_def v3_entry_vector_def bit_simps CPU_CONTROL_INT_ENABLE_def CPU_CONTROL_IN_INTERRUPT_def
    CPU_CONTROL_CUR_INT_MASK_def CPU_CONTROL_CUR_INT_SHIFT_def CPU_CONTROL_USER_MODE_def CPU_CONTROL_WRITABLE_MASK_def
  show "\<not> v3_user (v3_tick cfg i s)" using t(1) v by (simp add: v3_user_def c bits)
  show "\<not> bit (cpu_control (v3_sregs (v3_tick cfg i s))) 0" using t(1) by (simp add: c bits)
  show "v3_in_interrupt (v3_tick cfg i s)" using t(1) by (simp add: v3_in_interrupt_def c bits)
qed

text \<open>
  Property C8: An interrupt the v3 core accepts under paging while the next instruction address
  awaits its translation raises the privilege and turns interrupts off, but no handler is entered:
  the interrupted program continues at its own address in supervisor mode.
\<close>

lemma v3_irq_lost:
  assumes "v3_ordered cfg s" and "irq_input_count cfg \<le> 63" and "v3_irq_start cfg i s" and "v3_fetch_translate_ready s"
    and "v3_paging s" and "\<not> v3_stopped s" and "\<not> v3_bus_failed cfg i s" and "\<not> v3_booting s"
  shows "let t = v3_tick cfg i s in
     \<not> v3_user t \<and> v3_in_interrupt t \<and> \<not> bit (cpu_control (v3_sregs t)) 0 \<and> \<not> vector_active (v3_vec t) \<and>
     v3_fetch_pc t = v3_fetch_pc s \<and>
     (v3_fetch_phys_valid t \<or> w_active (v3_walker t) \<and> w_resume_kind (v3_walker t) = WALK_RESUME_FETCH)"
proof -
  have "walk3_ok s" using assms(1) by (simp add: v3_ordered_def)
  note b = lost_entry_branch [OF assms(3-7) this] and nb = assms(8)
  have "\<not> vector_active (v3_vec s)" using assms(3) by (simp add: v3_irq_start_def)
  then show ?thesis using b irq_control(2-4) [OF assms(3,2)]
    by (auto simp: v3_tick_take [OF nb] v3_take_def walk_start_def Let_def)
qed

section \<open>An interrupt that meets a finished memory instruction\<close>

text \<open>The entry drops the result buffer; the interrupted program resumes behind the instruction.\<close>

text \<open>
  When the v3 core accepts an interrupt while the result of a memory instruction is
  in the result buffer, the result is dropped without a commit although the saved program counter
  lies behind the instruction.
\<close>

lemma v3_irq_drops_result:
  assumes "v3_ordered cfg s" and "v3_irq_start cfg i s" and "mr_valid (v3_mr s)"
    and "v3_fetch_phys_valid s" and "\<not> v3_stopped s" and "\<not> v3_bus_failed cfg i s"
  shows "let t = v3_tick cfg i s in v3_empty t \<and> v3_regs t = v3_regs s \<and> \<not> v3_commit_valid t \<and> vector_active (v3_vec t) \<and>
     vector_epc (v3_vec t) = mr_commit_next_pc (v3_mr s) \<and> v3_regs s 15 = mr_commit_pc (v3_mr s)"
proof -
  let ?t = "v3_tick cfg i s"
  note O = assms(1)
  have e: "\<not> fault_pending (v3_flt s)" "\<not> vector_active (v3_vec s)" "\<not> w_active (v3_walker s)" "\<not> fd_valid (v3_fd s)"
    "\<not> ex_valid (v3_ex s)" "\<not> m_valid (v3_xm s)" "\<not> r_valid (v3_retire s)"
    using assms(2) by (simp_all add: v3_irq_start_def)
  have nb: "\<not> v3_booting s" and w: "\<not> w_processing (v3_walker s)" and z: "v3_regs s 0 = 0"
    using O assms(3) e(3) by (auto simp: v3_ordered_def v3_empty_def walk3_ok_def latches3_ok_def Let_def)
  have b: "v3_branch cfg i s = B_Entry"
    using assms(2,4-6) e w
    by (simp add: v3_branch_def v3_stopped_def v3_vector_translate_lockup_def v3_vector_translate_complete_def v3_vector_translate_ready_def
        v3_memory_translate_complete_def v3_memory_translate_ready_def v3_fetch_translate_complete_def v3_fetch_translate_ready_def
        v3_walk_fault_lockup_def v3_walk_fault_def walk_fault_def v3_trap_preempt_lockup_def v3_entry_start_def Let_def)
  have t: "\<not> v3_trap_start s" using e(1) by (simp add: v3_trap_start_def)
  have c: "chain3_ok cfg s" using O e assms(5) by (simp add: v3_ordered_def)
  then have "mr_commit_next_pc (v3_mr s) = v3_fetch_pc s" "v3_regs s 15 = mr_commit_pc (v3_mr s)"
    using assms(3) e by (simp_all add: chain3_ok_def memory3_pc_def execute3_pc_def front3_pc_def result3_pc_def Let_def)
  moreover have "v3_empty ?t" using flushing_empty(1) [OF nb, of cfg i] b by (simp add: flushing_def)
  moreover have "vector_active (v3_vec ?t) \<and> vector_epc (v3_vec ?t) = v3_fetch_pc s \<and> v3_regs ?t = v3_regs s"
    using t z e(7)
    by (simp add: v3_tick_take [OF nb] b v3_take_def v3_enter_def v3_flush_defs v3_entry_epc_def retire3_empty Let_def)
  ultimately show ?thesis using commit3_tick [OF nb, of cfg i] e(7) by (simp add: Let_def)
qed

section \<open>A commit made twice\<close>

text \<open>
  Under paging a memory instruction issued while the result of the previous one is in the
  buffer finds that one in the retire latch; while it is translated the latch is not cleared.
\<close>

lemma issue_behind_result:
  assumes "v3_ordered cfg s" and "\<not> v3_booting s" and "v3_branch cfg i s = B_Advance" and "mr_valid (v3_mr s)"
    and "v3_to_memory cfg s" and "v3_paging s"
  shows "let t = v3_tick cfg i s; r = v3_retire t in r_valid r \<and> r_commit r \<and> r_commit_pc r = mr_commit_pc (v3_mr s) \<and>
     m_valid (v3_xm t) \<and> \<not> m_phys_valid (v3_xm t)"
proof -
  have L: "latches3_ok s" using assms(1) by (simp add: v3_ordered_def)
  have n: "\<not> m_valid (v3_xm s)" using latches3_facts(2) [OF L assms(4)] .
  then have "\<not> v3_memory_to_retire cfg i s" "\<not> v3_chain_continue cfg i s" using memory3_exclusive [of cfg i s] by blast+
  then have "v3_xm (v3_tick cfg i s) = xm_issue True (ex_pc (v3_ex s)) (v3_out cfg s)"
    using assms(5,6) advance3_no_entry(4) [OF assms(3)] by (simp add: xm3_tick [OF assms(2,3)] xm3_moved_def Let_def)
  then show ?thesis
    using retire3_next(1,3) [OF assms(2,3)] assms(4) by (simp add: xm_issue_def Let_def)
qed

text \<open>
  Property C9: When a memory address is translated or its walk starts while an instruction is in
  the retire latch of the v3 core, that instruction commits in this cycle and again in the next.
\<close>

lemma v3_commits_twice:
  assumes "\<not> v3_booting s" and "v3_branch cfg i s \<in> {B_Memory_Translated, B_Walk_Memory}" and "r_valid (v3_retire s)"
    and "r_commit (v3_retire s)"
  shows "let t = v3_tick cfg i s; u = v3_tick cfg j t in
     v3_commit_valid t \<and> v3_commit_pc t = r_commit_pc (v3_retire s) \<and> v3_commit_valid u \<and> v3_commit_pc u = r_commit_pc (v3_retire s)"
proof -
  have "v3_retire (v3_tick cfg i s) = v3_retire s"
    using assms(2) keeping_frame(4) [OF assms(1), of cfg i] by (auto simp: keeping_def)
  then show ?thesis
    using commit3_tick [OF assms(1), of cfg i] commit3_tick [OF booting3_tick, of cfg j cfg i s] assms(3,4) by (simp add: Let_def)
qed

section \<open>Examples\<close>

text \<open>A v3 core with one interrupt line, between two instructions of a user program under paging.\<close>

definition one_line_config :: core_config where
  "one_line_config = default_config\<lparr>irq_input_count := 1\<rparr>"

definition irq_input :: v4_in where
  "irq_input = \<lparr>vi_i_ack = False, vi_i_err = False, vi_i_dat_r = 0, vi_d_ack = False, vi_d_err = False, vi_d_dat_r = 0,
     vi_irq_lines = 1, vi_boot_r1 = 0, vi_boot_r13 = 0\<rparr>"

definition user_between :: v3_core where
  "user_between = (v3_reset one_line_config)\<lparr>v3_state := PS_FETCH,
     v3_sregs := sr_reset\<lparr>cpu_control := CPU_CONTROL_INT_ENABLE OR CPU_CONTROL_PAGING_ENABLE OR CPU_CONTROL_USER_MODE,
       interrupt_mask_high := 2\<rparr>\<rparr>"

lemma user_between_fields:
  "v3_empty user_between" "v3_regs user_between = (\<lambda>_. 0)" "v3_fetch_pc user_between = 0" "\<not> v3_booting user_between"
  "\<not> v3_stopped user_between" "\<not> vector_active (v3_vec user_between)" "v3_walker user_between = walk_idle"
  "\<not> fault_pending (v3_flt user_between)" "\<not> v3_fetch_phys_valid user_between" "v3_translate_va user_between = 0"
  "v3_paging user_between" "v3_user user_between" "bit (cpu_control (v3_sregs user_between)) 0" "\<not> v3_in_interrupt user_between"
  "v3_frontend user_between = frontend3_reset" "v3_root user_between = 0"
  by (simp_all add: user_between_def v3_reset_def v3_empty_def xm_cleared_def retire_cleared_def v3_booting_def v3_stopped_def
      paging_bit v3_user_def v3_in_interrupt_def v3_root_def sr_reset_def one_line_config_def default_config_def cpu_control_defs
      bit_simps fun_eq_iff Let_def)


lemma empty3_ordered:
  assumes "v3_empty s" and "v3_regs s 0 = 0" and "v3_fetch_pc s = v3_regs s 15" and "\<not> w_active (v3_walker s)"
    and "\<not> w_processing (v3_walker s)" and "\<not> v3_booting s"
  shows "v3_ordered cfg s"
  using assms by (simp add: v3_ordered_def empty3_latches empty3_chain walk3_ok_def Let_def)

lemma no_retire_trap: "\<not> r_valid (v3_retire s) \<Longrightarrow> trap_port (retire_stage (v3_retire s)) = None"
  by (simp add: retire_stage_def port_def)

lemma user_between_irq: "v3_irq_start one_line_config irq_input user_between"
proof -
  note U = user_between_fields
  have e: "\<not> m_valid (v3_xm user_between)" "\<not> r_valid (v3_retire user_between)" "\<not> fd_valid (v3_fd user_between)"
    "\<not> ex_valid (v3_ex user_between)" using U(1) by (simp_all add: v3_empty_def)
  have p: "v3_pending_irq one_line_config irq_input user_between = Some 65"
    by (simp add: v3_pending_irq_def v3_pending_irq_high_def v3_irq_line_pending_def one_line_config_def irq_input_def default_config_def
        user_between_def sr_reset_def upt_rec numeral_2_eq_2 bit_simps)
  have "\<not> v3_fetch_fault user_between"
    by (simp add: v3_fetch_fault_def v3_translate_bad_def U v3_root_bad_def is_canonical39_def bslice_def)
  moreover have "\<not> v3_memory_fault user_between" by (simp add: v3_memory_fault_def v3_memory_translate_ready_def e)
  moreover have "\<not> v3_walk_fault_trap user_between" by (simp add: v3_walk_fault_trap_def v3_walk_fault_def walk_fault_def U walk_idle_def)
  ultimately show ?thesis
    using e p no_retire_trap [of user_between] by (simp add: v3_irq_start_def U walk_idle_def v3_trap_request_next_def v3_can_preempt_def)
qed

lemma v3_irq_lost_witness:
  "let s = user_between; t = v3_tick one_line_config irq_input s in
     v3_user s \<and> \<not> v3_user t \<and> v3_in_interrupt t \<and> \<not> vector_active (v3_vec t) \<and> v3_fetch_pc t = v3_fetch_pc s"
proof -
  note U = user_between_fields
  have e: "\<not> m_valid (v3_xm user_between)" "\<not> r_valid (v3_retire user_between)" "\<not> fd_valid (v3_fd user_between)"
    "\<not> ex_valid (v3_ex user_between)" using U(1) by (simp_all add: v3_empty_def)
  have "v3_ordered one_line_config user_between" by (rule empty3_ordered) (simp_all add: U walk_idle_def)
  moreover have "irq_input_count one_line_config \<le> 63" by (simp add: one_line_config_def)
  moreover have "v3_fetch_translate_ready user_between" by (simp add: v3_fetch_translate_ready_def U e walk_idle_def)
  moreover have "\<not> v3_bus_failed one_line_config irq_input user_between"
    by (simp add: v3_bus_failed_def v3_fetch_error_def fetch_error3_def U frontend3_reset_def v3_paging_without_mmu_def v3_memory_error_def e
        one_line_config_def default_config_def)
  ultimately show ?thesis
    using v3_irq_lost [OF _ _ user_between_irq, of] U(4,5,11,12) by (simp add: Let_def)
qed

text \<open>The same machine without paging, a load just finished.\<close>

definition load_finished :: v3_core where
  "load_finished = user_between\<lparr>v3_sregs := (v3_sregs user_between)\<lparr>cpu_control := CPU_CONTROL_INT_ENABLE\<rparr>,
     v3_fetch_pc := 2, v3_fetch_phys_addr := 2, v3_fetch_phys_valid := True,
     v3_mr := (v3_mr user_between)\<lparr>mr_valid := True, mr_next_pc := 2, mr_commit_next_pc := 2, mr_reg_write := True,
       mr_reg_index := 1, mr_reg_value := 42\<rparr>\<rparr>"

lemma load_finished_fields:
  "\<not> v3_booting load_finished" "\<not> v3_stopped load_finished" "\<not> vector_active (v3_vec load_finished)"
  "v3_walker load_finished = walk_idle" "\<not> fault_pending (v3_flt load_finished)" "v3_fetch_phys_valid load_finished"
  "v3_fetch_pc load_finished = 2" "v3_regs load_finished = (\<lambda>_. 0)" "mr_valid (v3_mr load_finished)"
  "mr_commit_next_pc (v3_mr load_finished) = 2" "mr_commit_pc (v3_mr load_finished) = 0" "mr_next_pc (v3_mr load_finished) = 2"
  "\<not> v3_in_interrupt load_finished" "bit (cpu_control (v3_sregs load_finished)) 0" "v3_frontend load_finished = frontend3_reset"
  "\<not> v3_paging load_finished" "\<not> fd_valid (v3_fd load_finished)" "\<not> ex_valid (v3_ex load_finished)" "\<not> m_valid (v3_xm load_finished)"
  "\<not> r_valid (v3_retire load_finished)"
  using user_between_fields
  by (simp_all add: load_finished_def v3_booting_def v3_stopped_def v3_in_interrupt_def paging_bit cpu_control_defs bit_simps v3_empty_def)
    (simp add: user_between_def v3_reset_def Let_def)

lemma load_finished_irq: "v3_irq_start one_line_config irq_input load_finished"
proof -
  note U = load_finished_fields
  have p: "v3_pending_irq one_line_config irq_input load_finished = Some 65"
    by (simp add: v3_pending_irq_def v3_pending_irq_high_def v3_irq_line_pending_def one_line_config_def irq_input_def default_config_def
        load_finished_def user_between_def sr_reset_def upt_rec numeral_2_eq_2 bit_simps)
  have "\<not> v3_fetch_fault load_finished" "\<not> v3_memory_fault load_finished" "\<not> v3_walk_fault_trap load_finished"
    by (simp_all add: v3_fetch_fault_def v3_fetch_translate_ready_def v3_memory_fault_def v3_memory_translate_ready_def
        v3_walk_fault_trap_def v3_walk_fault_def walk_fault_def U walk_idle_def)
  then show ?thesis
    using U p no_retire_trap [of load_finished] by (simp add: v3_irq_start_def walk_idle_def v3_trap_request_next_def v3_can_preempt_def)
qed

lemma v3_irq_drops_result_witness:
  "let s = load_finished; t = v3_tick one_line_config irq_input s in
     mr_reg_write (v3_mr s) \<and> mr_reg_value (v3_mr s) = 42 \<and> v3_regs t = (\<lambda>_. 0) \<and> v3_empty t \<and> vector_epc (v3_vec t) = 2"
proof -
  note U = load_finished_fields
  have "v3_ordered one_line_config load_finished"
    using U by (simp add: v3_ordered_def latches3_ok_def walk3_ok_def walk_idle_def chain3_ok_def result3_pc_def memory3_pc_def
        execute3_pc_def front3_pc_def slot3_ok_def fd3_ok_def Let_def)
  moreover have "\<not> v3_bus_failed one_line_config irq_input load_finished"
    by (simp add: v3_bus_failed_def v3_fetch_error_def fetch_error3_def U frontend3_reset_def v3_paging_without_mmu_def v3_memory_error_def)
  moreover have "mr_reg_write (v3_mr load_finished)" "mr_reg_value (v3_mr load_finished) = 42" by (simp_all add: load_finished_def)
  ultimately show ?thesis
    using v3_irq_drops_result [OF _ load_finished_irq] U by (simp add: Let_def)
qed


text \<open>The load has moved to the retire latch, and a second one waits for its translation.\<close>

definition second_load :: v3_core where
  "second_load = user_between\<lparr>v3_retire := retire_from_mr (v3_mr load_finished),
     v3_xm := (v3_xm user_between)\<lparr>m_valid := True, m_width_bytes := 8, m_reg_write := True, m_reg_index := 2\<rparr>\<rparr>"

lemma v3_commits_twice_witness:
  "let t = v3_tick one_line_config irq_input second_load; u = v3_tick one_line_config irq_input t in
     v3_commit_valid t \<and> v3_commit_pc t = 0 \<and> v3_commit_valid u \<and> v3_commit_pc u = 0"
proof -
  note U = user_between_fields
  have f: "\<not> v3_booting second_load" "\<not> v3_stopped second_load" "\<not> vector_active (v3_vec second_load)" "v3_walker second_load = walk_idle"
    "\<not> fault_pending (v3_flt second_load)" "m_valid (v3_xm second_load)" "\<not> m_phys_valid (v3_xm second_load)"
    "m_virtual_addr (v3_xm second_load) = 0" "v3_paging second_load" "v3_root second_load = 0" "v3_frontend second_load = frontend3_reset"
    using U by (simp_all add: second_load_def v3_booting_def v3_stopped_def v3_paging_def v3_root_def)
      (simp_all add: user_between_def v3_reset_def xm_cleared_def Let_def)
  have r: "r_valid (v3_retire second_load)" "r_commit (v3_retire second_load)" "r_commit_pc (v3_retire second_load) = 0"
    using load_finished_fields(11) by (simp_all add: second_load_def retire_from_mr_def)
  have "\<not> v3_bus_failed one_line_config irq_input second_load"
    by (simp add: v3_bus_failed_def v3_fetch_error_def fetch_error3_def f frontend3_reset_def v3_paging_without_mmu_def v3_memory_error_def
        ms_complete_def v3_stage_xm_def one_line_config_def default_config_def)
  then have "v3_branch one_line_config irq_input second_load \<in> {B_Memory_Translated, B_Walk_Memory}"
    using f by (simp add: v3_branch_def v3_stopped_def v3_vector_translate_lockup_def v3_vector_translate_complete_def
        v3_vector_translate_ready_def v3_walk_fault_lockup_def v3_walk_fault_def walk_fault_def walk_idle_def v3_memory_fault_def
        v3_memory_translate_ready_def v3_fetch_translate_complete_def v3_fetch_translate_ready_def v3_translate_bad_def v3_root_bad_def
        is_canonical39_def bslice_def Let_def)
  from v3_commits_twice [OF f(1) this r(1,2), of irq_input] show ?thesis by (simp add: r(3) Let_def)
qed

end
