(* ===== verification/V3_Run.thy ===== *)
theory V3_Run
  imports V3_Flaws V4_Run
begin

text \<open>
  The v3 core running: a cycle without paging and memory accesses moves the pipeline, and a
  first program is followed from reset to its first commit, on the inputs of the run of the
  v4 core.
\<close>

section \<open>Quiet cycles\<close>

definition quiet3 :: "v3_core \<Rightarrow> bool" where
  "quiet3 s \<longleftrightarrow> \<not> v3_booting s \<and> \<not> v3_stopped s \<and> \<not> vector_active (v3_vec s) \<and> \<not> fault_pending (v3_flt s) \<and>
     \<not> w_active (v3_walker s) \<and> \<not> w_processing (v3_walker s) \<and> \<not> m_valid (v3_xm s) \<and> \<not> mr_valid (v3_mr s) \<and>
     cpu_control (v3_sregs s) = 0 \<and> v3_regs s 0 = 0"

text \<open>The execute slot and the retire latch hold nothing, or an instruction that only writes registers and flags.\<close>

definition plain3 :: "core_config \<Rightarrow> v3_core \<Rightarrow> bool" where
  "plain3 cfg s \<longleftrightarrow> (ex_valid (v3_ex s) \<longrightarrow> (\<exists>p f pc. v3_effect cfg s = E_Write p f pc)) \<and>
     (let r = v3_retire s in r_valid r \<longrightarrow>
        r_commit r \<and> \<not> r_trap r \<and> \<not> r_halt r \<and> \<not> r_lockup r \<and> \<not> r_cpu_control_write r)"

lemma quiet3_slot:
  assumes "quiet3 s" and "plain3 cfg s"
  shows "\<not> v3_redirect s" "v3_to_retire cfg s = ex_valid (v3_ex s)" "\<not> v3_to_memory cfg s"
    "\<not> v3_memory_to_retire cfg i s" "\<not> v3_chain_continue cfg i s" "\<not> v3_memory_error cfg i s" "\<not> v3_paging s"
    "v3_flush_younger cfg s = v3_execute_redirect cfg s" "\<not> v3_trap_start s" "\<not> v3_irq_start cfg i s"
    "ex_valid (v3_ex s) \<Longrightarrow> \<not> o_trap (v3_out cfg s) \<and> \<not> o_halt (v3_out cfg s) \<and> \<not> o_lockup (v3_out cfg s) \<and>
       \<not> o_memory_start (v3_out cfg s) \<and> \<not> o_cpu_control_write (v3_out cfg s)"
    "\<not> write_stb (v3_special_port cfg s)"
proof -
  note q = assms(1) [unfolded quiet3_def]
  show r: "\<not> v3_redirect s" using q v3_redirect_mr by blast
  show out: "\<not> o_trap (v3_out cfg s) \<and> \<not> o_halt (v3_out cfg s) \<and> \<not> o_lockup (v3_out cfg s) \<and>
       \<not> o_memory_start (v3_out cfg s) \<and> \<not> o_cpu_control_write (v3_out cfg s)" if v: "ex_valid (v3_ex s)"
  proof -
    from v assms(2) obtain p f pc where e: "v3_effect cfg s = E_Write p f pc" by (auto simp: plain3_def)
    have "stage_effect (v3_x cfg s) (E_Write p f pc) (v3_out cfg s)"
      using v3_execute_spec [of "v3_x cfg s"] v e by (simp add: v3_out_def x_effect_def)
    then have "v3_out cfg s = (exec_default (v3_x cfg s))\<lparr>o_reg_write := o_reg_write (v3_out cfg s),
        o_reg_value := o_reg_value (v3_out cfg s), o_flags_write := o_flags_write (v3_out cfg s),
        o_flags_value := o_flags_value (v3_out cfg s), o_next_pc := pc\<rparr>" by (simp add: requests_def)
    from arg_cong [OF this, of o_cpu_control_write] show ?thesis
      using v3_out_fields [OF v, of cfg] e by (simp add: exec_default_def)
  qed
  show t: "v3_to_retire cfg s = ex_valid (v3_ex s)" "\<not> v3_to_memory cfg s"
    using q r out by (auto simp: v3_to_retire_def to_retire3_def v3_to_memory_def)
  show "\<not> v3_memory_to_retire cfg i s" "\<not> v3_chain_continue cfg i s" "\<not> v3_memory_error cfg i s"
    using q by (simp_all add: v3_memory_to_retire_def v3_chain_continue_def v3_memory_error_def)
  show "\<not> v3_paging s" "\<not> v3_trap_start s" "\<not> v3_irq_start cfg i s"
    using q by (simp_all add: v3_paging_def v3_trap_start_def v3_irq_start_def)
  show "v3_flush_younger cfg s = v3_execute_redirect cfg s" using out by (auto simp: v3_flush_younger_def v3_execute_redirect_def Let_def)
  show "\<not> write_stb (v3_special_port cfg s)"
  proof -
    have "\<not> x_special_write_stb (v3_execute_in cfg False s)" if "ex_valid (v3_ex s)"
      using that assms(2) gp_opcode_of_code [of GP_SSR]
      by (auto simp: plain3_def x_effect_def x_special_write_stb_def decode_def top2_of_top3 bslice_def is_alu_def split: if_splits)
    then show ?thesis using t by (auto simp: special_port3_retire)
  qed
qed

lemma quiet3_next:
  assumes "quiet3 s" and "plain3 cfg s" and "\<not> v3_fetch_error cfg i s" and "\<not> bit (v3_translate_va s) 0"
  shows "v3_branch cfg i s = (if v3_fetch_translate_ready s then B_Fetch_Translated else B_Advance)"
    and "\<not> v3_trap_request_next s"
proof -
  note q = assms(1) [unfolded quiet3_def] and S = quiet3_slot [OF assms(1,2)]
  have r: "trap_port (retire_stage (v3_retire s)) = None" "halt_request (retire_stage (v3_retire s)) = False"
    "lockup_request (retire_stage (v3_retire s)) = False"
    using assms(2) by (auto simp: plain3_def retire_stage_def port_def Let_def)
  have "\<not> v3_bus_failed cfg i s" using assms(3) S by (simp add: v3_bus_failed_def v3_paging_without_mmu_def)
  then show "v3_branch cfg i s = (if v3_fetch_translate_ready s then B_Fetch_Translated else B_Advance)"
    using q r S assms(4)
    by (simp add: v3_branch_def v3_stopped_def v3_vector_translate_lockup_def v3_vector_translate_complete_def v3_vector_translate_ready_def
        v3_walk_fault_lockup_def v3_walk_fault_def walk_fault_def v3_memory_translate_complete_def v3_memory_translate_ready_def
        v3_fetch_translate_complete_def v3_translate_now_def v3_trap_preempt_lockup_def v3_entry_start_def walk_response_valid_def
        v3_walk_success_def walk_leaf_success_def v3_vector_response_valid_def Let_def)
  show "\<not> v3_trap_request_next s"
    using q r S assms(4) by (auto simp: v3_trap_request_next_def v3_fetch_fault_def v3_translate_bad_def v3_memory_fault_def
        v3_memory_translate_ready_def v3_walk_fault_trap_def v3_walk_fault_def walk_fault_def)
qed

lemma quiet3_sregs:
  assumes "quiet3 s" and "plain3 cfg s"
  shows "cpu_control (v3_sregs (v3_tick cfg i s)) = 0"
proof -
  have "\<not> v3_vector_done cfg i s" "r_valid (v3_retire s) \<Longrightarrow> \<not> r_cpu_control_write (v3_retire s)" "cpu_control (v3_sregs s) = 0"
    using assms by (auto simp: quiet3_def plain3_def v3_vector_done_def v3_vector_response_valid_def Let_def)
  then show ?thesis using sregs3_quiet(1) [of cfg s i] quiet3_slot [OF assms] by (simp add: v3_entry_start_def)
qed

lemma quiet3_tick:
  assumes "quiet3 s" and "plain3 cfg s" and "\<not> v3_fetch_error cfg i s" and "\<not> bit (v3_translate_va s) 0"
  shows "quiet3 (v3_tick cfg i s)"
proof -
  note q = assms(1) [unfolded quiet3_def] and S = quiet3_slot [OF assms(1,2)] and N = quiet3_next [OF assms]
  have nb: "\<not> v3_booting s" and nh: "\<not> halt_request (retire_stage (v3_retire s))" "\<not> lockup_request (retire_stage (v3_retire s))"
    using q assms(2) by (auto simp: plain3_def retire_stage_def Let_def)
  have f: "\<not> fault_pending (v3_flt (v3_tick cfg i s))" using fault3_tick [of cfg i s] S N(2) by (simp add: v3_entry_start_def)
  note rest = f quiet3_sregs [OF assms(1,2)] booting3_tick regs3_0
  show ?thesis
  proof (cases "v3_fetch_translate_ready s")
    case True
    then have "v3_branch cfg i s = B_Fetch_Translated" using N(1) by simp
    then have t: "v3_tick cfg i s = v3_units cfg i s (v3_zero s ((v3_written cfg i s)\<lparr>v3_fetch_phys_addr :=
        v3_translate_phys cfg s (v3_translate_va s), v3_fetch_phys_valid := True\<rparr>))"
      by (simp add: v3_tick_take [OF nb] v3_take_def Let_def)
    have "\<not> v3_stopped (v3_tick cfg i s) \<and> \<not> vector_active (v3_vec (v3_tick cfg i s)) \<and> \<not> w_active (v3_walker (v3_tick cfg i s)) \<and>
        \<not> w_processing (v3_walker (v3_tick cfg i s)) \<and> \<not> m_valid (v3_xm (v3_tick cfg i s)) \<and> \<not> mr_valid (v3_mr (v3_tick cfg i s))"
      using q nh unfolding t by (simp add: v3_stopped_def)
    then show ?thesis using q rest by (simp add: quiet3_def)
  next
    case False
    then have b: "v3_branch cfg i s = B_Advance" using N(1) by simp
    note A = advance_rest [OF nb b]
    have "w_processing (v3_walker (v3_tick cfg i s)) = w_processing (v3_walker s)"
      by (simp add: advance_tick [OF nb b] v3_advance_def v3_blk_requests_def Let_def)
    moreover have "\<not> m_valid (v3_xm (v3_tick cfg i s))"
      using q S by (simp add: xm3_tick [OF nb b] xm3_moved_def Let_def)
    ultimately show ?thesis using q nh S rest A(1,2,6) mr3_next(1) [OF nb b] by (simp add: quiet3_def)
  qed
qed


section \<open>A first program\<close>

definition demo3 :: "v4_in list \<Rightarrow> v3_core" where
  "demo3 is = fold (v3_tick plain_config) is (v3_reset plain_config)"

lemma demo3_snoc: "demo3 (is @ [i]) = v3_tick plain_config i (demo3 is)" by (simp add: demo3_def)

lemma demo3_reachable: "v3_reachable plain_config (demo3 is)"
proof (induction "is" rule: rev_induct)
  case Nil
  show ?case by (simp add: demo3_def v3_reachable.reset)
qed (simp add: demo3_snoc v3_reachable.tick)

text \<open>A quiet core that fetches at \<open>pc\<close>, with its front end.\<close>

definition fetching3 :: "v3_core \<Rightarrow> u64 \<Rightarrow> bool \<Rightarrow> frontend3 \<Rightarrow> bool" where
  "fetching3 s pc pv f \<longleftrightarrow> quiet3 s \<and> v3_fetch_pc s = pc \<and> v3_fetch_phys_addr s = pc \<and> v3_translate_va s = pc \<and>
     v3_fetch_phys_valid s = pv \<and> v3_frontend s = f"

lemma front3_unit: "v3_frontend (v3_tick cfg i s) = frontend3_tick (v3_timeout cfg) (v3_fetch_in cfg i s) (v3_frontend s)"
  by (simp add: v3_tick_def v3_units_def Let_def)

lemma plain_timeout3: "v3_timeout plain_config = 1024"
  by (simp add: v3_timeout_def plain_config_def default_config_def DEFAULT_BUS_TIMEOUT_CYCLES_def)

lemma fetch3_in:
  assumes "fetching3 s pc pv f" and "plain3 cfg s"
  shows "v3_fetch_in cfg i s = fetch_cycle pc (v3_execute_redirect cfg s \<or> \<not> pv) i" "v3_fetch_bus i s = fetch_cycle pc False i"
proof -
  have q: "quiet3 s" "v3_fetch_phys_addr s = pc" "v3_fetch_phys_valid s = pv" using assms(1) by (simp_all add: fetching3_def)
  note S = quiet3_slot [OF q(1) assms(2)]
  show "v3_fetch_bus i s = fetch_cycle pc False i" using q by (simp add: v3_fetch_bus_def fetch_cycle_def)
  moreover have "\<not> v3_line_update_valid cfg i s" "\<not> v3_store_invalidate cfg i s"
    using S(4) by (simp_all add: v3_line_update_valid_def v3_store_invalidate_def v3_store_done_def v3_memory_done_def)
  moreover have "\<not> w_active (v3_walker s)" using q(1) by (simp add: quiet3_def)
  ultimately show "v3_fetch_in cfg i s = fetch_cycle pc (v3_execute_redirect cfg s \<or> \<not> pv) i"
    using S q by (simp add: v3_fetch_in_def fetch_cycle_def port_def)
qed

lemma fetching3_tick:
  assumes "fetching3 s pc pv f" and "plain3 cfg s" and "\<not> fetch_error3 (v3_timeout cfg) (fetch_cycle pc False i) f"
    and "\<not> bit pc 0" and "\<not> v3_execute_redirect cfg s"
  shows "fetching3 (v3_tick cfg i s) (if v3_fetch_accept cfg i s then pc + 2 else pc) (pv \<or> v3_fetch_translate_ready s \<or> v3_fetch_accept cfg i s)
       (frontend3_tick (v3_timeout cfg) (fetch_cycle pc (\<not> pv) i) f)"
    and "v3_fetch_accept cfg i s = (pv \<and> line_hit3 (fetch_cycle pc False i) f \<and> (\<not> fd_valid (v3_fd s) \<or> v3_decode_advance cfg s))"
    and "v3_branch cfg i s = (if v3_fetch_translate_ready s then B_Fetch_Translated else B_Advance)"
proof -
  have q: "quiet3 s" "v3_fetch_pc s = pc" "v3_fetch_phys_addr s = pc" "v3_translate_va s = pc" "v3_fetch_phys_valid s = pv" "v3_frontend s = f"
    using assms(1) by (simp_all add: fetching3_def)
  note S = quiet3_slot [OF q(1) assms(2)] and I = fetch3_in [OF assms(1,2)]
  have e: "\<not> v3_fetch_error cfg i s" using assms(3) I(2) q by (simp add: v3_fetch_error_def)
  have o: "\<not> bit (v3_translate_va s) 0" using assms(4) q by simp
  note N = quiet3_next [OF q(1) assms(2) e o] and Q = quiet3_tick [OF q(1) assms(2) e o]
  show "v3_branch cfg i s = (if v3_fetch_translate_ready s then B_Fetch_Translated else B_Advance)" by (rule N(1))
  have v: "\<not> vector_active (v3_vec s)" "\<not> v3_booting s" using q(1) by (simp_all add: quiet3_def)
  show acc: "v3_fetch_accept cfg i s = (pv \<and> line_hit3 (fetch_cycle pc False i) f \<and> (\<not> fd_valid (v3_fd s) \<or> v3_decode_advance cfg s))"
    using S assms(5) v I(2) q by (simp add: v3_fetch_accept_def)
  have fr: "v3_frontend (v3_tick cfg i s) = frontend3_tick (v3_timeout cfg) (fetch_cycle pc (\<not> pv) i) f"
    using I(1) assms(5) q by (simp add: front3_unit)
  show "fetching3 (v3_tick cfg i s) (if v3_fetch_accept cfg i s then pc + 2 else pc) (pv \<or> v3_fetch_translate_ready s \<or> v3_fetch_accept cfg i s)
       (frontend3_tick (v3_timeout cfg) (fetch_cycle pc (\<not> pv) i) f)"
  proof (cases "v3_fetch_translate_ready s")
    case True
    then have t: "v3_tick cfg i s = v3_units cfg i s (v3_zero s ((v3_written cfg i s)\<lparr>v3_fetch_phys_addr :=
        v3_translate_phys cfg s (v3_translate_va s), v3_fetch_phys_valid := True\<rparr>))"
      using N(1) by (simp add: v3_tick_take [OF v(2)] v3_take_def Let_def)
    have "\<not> pv" using True q(5) by (simp add: v3_fetch_translate_ready_def)
    moreover have "v3_fetch_pc (v3_tick cfg i s) = pc \<and> v3_fetch_phys_addr (v3_tick cfg i s) = pc \<and> v3_translate_va (v3_tick cfg i s) = pc \<and>
        v3_fetch_phys_valid (v3_tick cfg i s)"
      using q S(7) unfolding t by (simp add: v3_translate_phys_def)
    ultimately show ?thesis using Q fr acc True by (simp add: fetching3_def)
  next
    case False
    then have b: "v3_branch cfg i s = B_Advance" using N(1) by simp
    have "v3_fetch_phys_addr (v3_tick cfg i s) = (if v3_fetch_accept cfg i s then pc + 2 else pc)"
      "v3_translate_va (v3_tick cfg i s) = (if v3_fetch_accept cfg i s then pc + 2 else pc)"
      using S assms(5) q v3_redirect_mr [of s]
      by (auto simp: advance_tick [OF v(2) b] v3_advance_def v3_blk_steer_def v3_blk_retire_def v3_blk_memory_latch_def
          v3_redirect_fetch_def Let_def)
    then show ?thesis
      using Q fr False S assms(5) q by (simp add: fetching3_def fetch_pc3_tick [OF v(2) b] v3_steers_def)
  qed
qed

text \<open>With nothing in the pipeline a cycle at most fills the fetch latch.\<close>

lemma empty3_slots: "v3_empty s \<Longrightarrow> plain3 cfg s \<and> \<not> v3_execute_redirect cfg s \<and> \<not> v3_flush_younger cfg s \<and> \<not> v3_decode_advance cfg s"
  by (simp add: v3_empty_def plain3_def v3_execute_redirect_def v3_flush_younger_def v3_decode_advance_def Let_def)

lemma empty3_tick:
  assumes "fetching3 s pc pv f" and "v3_empty s" and "\<not> fetch_error3 (v3_timeout cfg) (fetch_cycle pc False i) f" and "\<not> bit pc 0"
  defines "accept \<equiv> pv \<and> line_hit3 (fetch_cycle pc False i) f"
  shows "fetching3 (v3_tick cfg i s) (if accept then pc + 2 else pc) True (frontend3_tick (v3_timeout cfg) (fetch_cycle pc (\<not> pv) i) f)"
    and "v3_fd (v3_tick cfg i s) = (if accept then
        \<lparr>fd_valid = True, fd_instruction = fetched_word3 (fetch_cycle pc False i) f, fd_pc = pc, fd_post_increment_pc = pc + 2\<rparr>
       else v3_fd s)"
    and "\<not> ex_valid (v3_ex (v3_tick cfg i s))" and "\<not> r_valid (v3_retire (v3_tick cfg i s))"
    and "\<not> accept \<Longrightarrow> v3_empty (v3_tick cfg i s)"
proof -
  note e = assms(2) [unfolded v3_empty_def] and E = conjunct1 [OF empty3_slots [OF assms(2), of cfg]]
    and E' = empty3_slots [OF assms(2), of cfg]
  have q: "quiet3 s" "v3_fetch_pc s = pc" "v3_fetch_phys_valid s = pv" "v3_frontend s = f" using assms(1) by (simp_all add: fetching3_def)
  note S = quiet3_slot [OF q(1) E]
  have x: "\<not> v3_execute_redirect cfg s" using E' by blast
  note F = fetching3_tick [OF assms(1) E assms(3,4) x]
  have acc: "v3_fetch_accept cfg i s = accept" using F(2) e by (simp add: accept_def)
  have rdy: "v3_fetch_translate_ready s = (\<not> pv)" using q e by (simp add: v3_fetch_translate_ready_def quiet3_def)
  show fetch: "fetching3 (v3_tick cfg i s) (if accept then pc + 2 else pc) True (frontend3_tick (v3_timeout cfg) (fetch_cycle pc (\<not> pv) i) f)"
    using F(1) acc rdy by (auto simp: accept_def)
  have nb: "\<not> v3_booting s" using q(1) by (simp add: quiet3_def)
  have stages: "v3_fd (v3_tick cfg i s) = (if accept then
        \<lparr>fd_valid = True, fd_instruction = fetched_word3 (fetch_cycle pc False i) f, fd_pc = pc, fd_post_increment_pc = pc + 2\<rparr>
       else v3_fd s) \<and> \<not> ex_valid (v3_ex (v3_tick cfg i s)) \<and> \<not> r_valid (v3_retire (v3_tick cfg i s))"
  proof (cases pv)
    case False
    then have k: "keeping cfg i s" using F(3) rdy by (simp add: keeping_def)
    show ?thesis using keeping_frame [OF nb k] e False by (simp add: accept_def)
  next
    case True
    then have b: "v3_branch cfg i s = B_Advance" using F(3) rdy by simp
    show ?thesis
      using E' S(1,2) e acc q fetch3_in(2) [OF assms(1) E, of i]
      by (simp add: fd3_tick [OF nb b] ex_tick [OF nb b] retire3_tick [OF nb b] v3_fd_fetched_def retire_cleared_def)
  qed
  then show "v3_fd (v3_tick cfg i s) = (if accept then
        \<lparr>fd_valid = True, fd_instruction = fetched_word3 (fetch_cycle pc False i) f, fd_pc = pc, fd_post_increment_pc = pc + 2\<rparr>
       else v3_fd s)" "\<not> ex_valid (v3_ex (v3_tick cfg i s))" "\<not> r_valid (v3_retire (v3_tick cfg i s))" by blast+
  show "v3_empty (v3_tick cfg i s)" if "\<not> accept"
    using stages fetch that e by (simp add: v3_empty_def fetching3_def quiet3_def)
qed

lemma no_fetch_error3: "\<not> vi_i_err i \<Longrightarrow> f3_watchdog f \<noteq> N \<Longrightarrow> \<not> fetch_error3 N (fetch_cycle pc b i) f"
  by (simp add: fetch_error3_def watchdog_fire3_def fetch_cycle_def)

definition front3_asked :: frontend3 where "front3_asked = frontend3_reset\<lparr>f3_req_valid := True\<rparr>"
definition front3_line :: frontend3 where
  "front3_line = frontend3_reset\<lparr>f3_line_valid := True, f3_line_data := 0xDF018051\<rparr>"

lemma front3_moves:
  "frontend3_tick 1024 (fetch_cycle 0 True no_input) frontend3_reset = frontend3_reset"
  "frontend3_tick 1024 (fetch_cycle 0 False no_input) frontend3_reset = front3_asked"
  "frontend3_tick 1024 (fetch_cycle 0 False line_input) front3_asked = front3_line"
  "frontend3_tick 1024 (fetch_cycle 0 False no_input) front3_line = front3_line"
  "frontend3_tick 1024 (fetch_cycle 2 False no_input) front3_line = front3_line"
  by (simp_all add: frontend3_tick_def fetch_cycle_def frontend3_reset_def front3_asked_def front3_line_def no_input_def
      line_input_def line_hit3_def line_base_def watchdog_fire3_def Let_def)

lemma front3_fields:
  "f3_watchdog frontend3_reset = 0" "f3_watchdog front3_asked = 0" "f3_watchdog front3_line = 0"
  "\<not> line_hit3 c frontend3_reset" "\<not> line_hit3 c front3_asked" "line_hit3 (fetch_cycle 0 b i) front3_line"
  "fetched_word3 (fetch_cycle 0 b i) front3_line = 0x8051"
  by (simp_all add: frontend3_reset_def front3_asked_def front3_line_def line_hit3_def fetch_cycle_def line_base_def
      fetched_word3_def instruction_word_def bslice_def)

lemma demo3_1: "fetching3 (demo3 [no_input]) 0 False frontend3_reset \<and> v3_empty (demo3 [no_input])"
proof -
  let ?s = "v3_reset plain_config"
  have e: "\<not> ex_valid (v3_ex ?s)" "\<not> r_valid (v3_retire ?s)" "cpu_control (v3_sregs ?s) = 0" "v3_booting ?s"
    "\<not> vector_active (v3_vec ?s)" "\<not> fault_pending (v3_flt ?s)" "\<not> v3_fetch_phys_valid ?s" "v3_frontend ?s = frontend3_reset"
    "\<not> m_valid (v3_xm ?s)" "\<not> w_processing (v3_walker ?s)" "\<not> w_active (v3_walker ?s)" "v3_translate_va ?s = 0" "v3_fetch_phys_addr ?s = 0"
    "\<not> mr_valid (v3_mr ?s)"
    by (simp_all add: v3_reset_def v3_booting_def retire_cleared_def xm_cleared_def walk_idle_def sr_reset_def plain_config_def default_config_def Let_def)
  have p: "\<not> v3_paging ?s" using e(3) by (simp add: v3_paging_def)
  have w: "\<not> write_stb (v3_special_port plain_config ?s)"
    using e(1) by (auto simp: special_port3_retire v3_to_retire_def to_retire3_def)
  have en: "\<not> v3_entry_start plain_config no_input ?s"
    using e by (simp add: v3_entry_start_def v3_trap_start_def v3_irq_start_def)
  have c: "cpu_control (v3_sregs (v3_tick plain_config no_input ?s)) = 0"
    using sregs3_quiet(1) [of plain_config ?s no_input] e w en by (simp add: v3_vector_done_def v3_vector_response_valid_def)
  have i: "v3_fetch_in plain_config no_input ?s = fetch_cycle 0 True no_input"
    using e by (simp add: v3_fetch_in_def v3_fetch_bus_def fetch_cycle_def v3_line_update_valid_def v3_store_done_def v3_memory_done_def port_def)
  have "\<not> v3_trap_request_next ?s"
    using e p by (simp add: v3_trap_request_next_def retire_stage_def port_def v3_fetch_fault_def v3_translate_bad_def v3_memory_fault_def
        v3_memory_translate_ready_def v3_walk_fault_trap_def v3_walk_fault_def walk_fault_def)
  then have nf: "\<not> fault_pending (v3_flt (v3_tick plain_config no_input ?s))" using fault3_tick [OF en] by blast
  have front: "v3_frontend (v3_tick plain_config no_input ?s) = frontend3_reset"
    using e(8) by (simp add: front3_unit i front3_moves plain_timeout3)
  have nb: "\<not> v3_booting (v3_tick plain_config no_input ?s)" by (rule booting3_tick)
  note B = boot3_tick [OF e(4), of plain_config no_input]
  have r: "v3_fetch_pc ?s = 0" "\<not> v3_stopped ?s" "v3_empty ?s" "v3_regs ?s 0 = 0"
    by (simp_all add: v3_reset_def v3_stopped_def v3_empty_def retire_cleared_def xm_cleared_def plain_config_def default_config_def Let_def)
  have keep: "v3_fetch_phys_addr (v3_tick plain_config no_input ?s) = 0" "\<not> v3_fetch_phys_valid (v3_tick plain_config no_input ?s)"
    "v3_translate_va (v3_tick plain_config no_input ?s) = 0" "v3_regs (v3_tick plain_config no_input ?s) 0 = 0"
    using e r by (simp_all add: v3_tick_def v3_boot_def v3_units_def Let_def)
  show ?thesis
    using c nf front nb B r e keep by (simp add: demo3_def fetching3_def quiet3_def v3_empty_def)
qed

lemma demo3_step:
  assumes "fetching3 (demo3 is) 0 pv f \<and> v3_empty (demo3 is)" and "\<not> vi_i_err i" and "f3_watchdog f = 0" and "\<not> line_hit3 (fetch_cycle 0 False i) f"
  shows "fetching3 (demo3 (is @ [i])) 0 True (frontend3_tick 1024 (fetch_cycle 0 (\<not> pv) i) f) \<and> v3_empty (demo3 (is @ [i]))"
proof -
  have "\<not> fetch_error3 (v3_timeout plain_config) (fetch_cycle 0 False i) f"
    using no_fetch_error3 [OF assms(2)] assms(3) by (simp add: plain_timeout3)
  from empty3_tick [OF conjunct1 [OF assms(1)] conjunct2 [OF assms(1)] this] show ?thesis
    using assms(4) by (simp add: demo3_snoc plain_timeout3)
qed

lemma demo3_3: "fetching3 (demo3 (wait 3)) 0 True front3_asked \<and> v3_empty (demo3 (wait 3))"
proof -
  have "fetching3 (demo3 [no_input, no_input]) 0 True frontend3_reset \<and> v3_empty (demo3 [no_input, no_input])"
    using demo3_step [OF demo3_1, of no_input] by (simp add: input_fields front3_fields front3_moves)
  from demo3_step [OF this, of no_input] show ?thesis
    by (simp add: input_fields front3_fields front3_moves numeral_3_eq_3)
qed

text \<open>An answer with an error stops the core.\<close>

lemma demo3_error: "v3_stopped (demo3 (wait 3 @ [error_input]))"
proof -
  let ?s = "demo3 (wait 3)"
  have f: "fetching3 ?s 0 True front3_asked" and e: "v3_empty ?s" using demo3_3 by blast+
  note E = empty3_slots [OF e, of plain_config]
  have q: "quiet3 ?s" "v3_frontend ?s = front3_asked" using f by (simp_all add: fetching3_def)
  have "v3_fetch_error plain_config error_input ?s"
    using E q fetch3_in(2) [OF f conjunct1 [OF E], of error_input]
    by (simp add: v3_fetch_error_def fetch_error3_def fetch_cycle_def front3_asked_def frontend3_reset_def error_input_def)
  then have "v3_branch plain_config error_input ?s = B_Failed"
    using q(1) by (simp add: v3_branch_def v3_bus_failed_def quiet3_def v3_stopped_def Let_def)
  moreover have "\<not> v3_booting ?s" using q(1) by (simp add: quiet3_def)
  ultimately show ?thesis
    by (simp add: demo3_snoc v3_tick_take v3_take_def v3_lock_up_def v3_stopped_def)
qed

text \<open>The first instruction of the program passes the pipeline.\<close>

lemma demo3_4: "fetching3 (demo3 program_run) 0 True front3_line \<and> v3_empty (demo3 program_run)"
  using demo3_step [OF demo3_3, of line_input] by (simp add: program_run_def input_fields front3_fields front3_moves)

lemma demo3_5:
  "let s = demo3 (program_run @ wait 1) in fetching3 s 2 True front3_line \<and> \<not> ex_valid (v3_ex s) \<and> \<not> r_valid (v3_retire s) \<and>
     v3_fd s = \<lparr>fd_valid = True, fd_instruction = 0x8051, fd_pc = 0, fd_post_increment_pc = 2\<rparr>"
proof -
  have "\<not> fetch_error3 (v3_timeout plain_config) (fetch_cycle 0 False no_input) front3_line"
    by (simp add: no_fetch_error3 input_fields front3_fields plain_timeout3)
  note T = empty3_tick [OF conjunct1 [OF demo3_4] conjunct2 [OF demo3_4] this]
  show ?thesis using T(1-4) by (simp add: demo3_snoc Let_def front3_fields front3_moves plain_timeout3)
qed

lemma demo3_6:
  "let s = demo3 (program_run @ wait 2) in fetching3 s 4 True front3_line \<and> \<not> r_valid (v3_retire s) \<and> ex_valid (v3_ex s) \<and>
     ex_instruction (v3_ex s) = 0x8051 \<and> ex_pc (v3_ex s) = 0 \<and> ex_post_increment_pc (v3_ex s) = 2"
proof -
  let ?s = "demo3 (program_run @ wait 1)" and ?e = "\<not> fetch_error3 (v3_timeout plain_config) (fetch_cycle 2 False no_input) front3_line"
  have d: "demo3 (program_run @ wait 2) = v3_tick plain_config no_input ?s" by (simp add: demo3_def numeral_2_eq_2)
  have f: "fetching3 ?s 2 True front3_line" and e: "\<not> ex_valid (v3_ex ?s)" "\<not> r_valid (v3_retire ?s)"
    "v3_fd ?s = \<lparr>fd_valid = True, fd_instruction = 0x8051, fd_pc = 0, fd_post_increment_pc = 2\<rparr>"
    using demo3_5 by (simp_all add: Let_def)
  have p: "plain3 plain_config ?s" using e by (simp add: plain3_def Let_def)
  have x: "\<not> v3_execute_redirect plain_config ?s" "\<not> v3_flush_younger plain_config ?s"
    using e(1) by (simp_all add: v3_execute_redirect_def v3_flush_younger_def Let_def)
  have err: ?e by (simp add: no_fetch_error3 input_fields front3_fields plain_timeout3)
  note F = fetching3_tick [OF f p err _ x(1)]
  have q: "quiet3 ?s" "v3_fetch_phys_valid ?s" using f by (simp_all add: fetching3_def)
  note S = quiet3_slot [OF q(1) p]
  have m: "\<not> m_valid (v3_xm ?s)" "\<not> mr_valid (v3_mr ?s)" "\<not> v3_booting ?s" using q(1) by (simp_all add: quiet3_def)
  have "\<not> load_use_hazard (v3_decode plain_config ?s)"
    using m e(1) by (auto simp: load_use_hazard_def hazard_def v3_decode_def wire_decode_def)
  then have adv: "v3_decode_advance plain_config ?s"
    using e x S(1) by (simp add: v3_decode_advance_def v3_slot_available_def)
  have b: "v3_branch plain_config no_input ?s = B_Advance" using F(3) q(2) by (simp add: v3_fetch_translate_ready_def)
  have l: "line_hit3 (fetch_cycle 2 False no_input) front3_line"
    by (simp add: line_hit3_def front3_line_def frontend3_reset_def fetch_cycle_def line_base_def)
  have X: "v3_ex (v3_tick plain_config no_input ?s) = ex_from_fd plain_config ?s" using adv by (simp only: ex_tick [OF m(3) b] if_True)
  have R: "\<not> r_valid (v3_retire (v3_tick plain_config no_input ?s))"
    using m(2) S(2) e(1) by (simp only: retire3_tick [OF m(3) b] if_False) (simp add: retire_cleared_def)
  show ?thesis
    using F(1,2) adv e(3) l X R by (simp add: d Let_def ex_from_fd_def front3_moves plain_timeout3)
qed

lemma demo3_7:
  "let s = demo3 (program_run @ wait 3) in \<not> v3_booting s \<and> r_valid (v3_retire s) \<and> r_commit (v3_retire s) \<and>
     r_commit_pc (v3_retire s) = 0 \<and> \<not> v3_commit_valid s"
proof -
  let ?s = "demo3 (program_run @ wait 2)"
  have d: "demo3 (program_run @ wait 3) = v3_tick plain_config no_input ?s"
    by (simp add: demo3_def numeral_2_eq_2 numeral_3_eq_3)
  note e = demo3_6 [unfolded Let_def]
  have f: "fetching3 ?s 4 True front3_line" and v: "ex_valid (v3_ex ?s)" using e by blast+
  have p: "plain3 plain_config ?s" using e by (simp add: plain3_def Let_def x_effect_def decode_ldi)
  have q: "quiet3 ?s" "v3_fetch_phys_valid ?s" "v3_fetch_phys_addr ?s = 4" "v3_translate_va ?s = 4" "v3_frontend ?s = front3_line"
    using f by (simp_all add: fetching3_def)
  note S = quiet3_slot [OF q(1) p]
  have err: "\<not> v3_fetch_error plain_config no_input ?s"
    using q(5) by (simp add: v3_fetch_error_def fetch_error3_def front3_line_def frontend3_reset_def)
  have b: "v3_branch plain_config no_input ?s = B_Advance"
    using quiet3_next(1) [OF q(1) p err] q(2,4) by (simp add: v3_fetch_translate_ready_def)
  have m: "\<not> v3_booting ?s" "\<not> mr_valid (v3_mr ?s)" using q(1) by (simp_all add: quiet3_def)
  have "\<not> v3_commit_valid (v3_tick plain_config no_input ?s)" using commit3_tick [OF m(1), of plain_config no_input] e by blast
  then show ?thesis
    using S(2,11) v e booting3_tick
    by (simp add: d Let_def retire3_tick [OF m(1) b] m retire_from_execute_def)
qed

section \<open>Examples\<close>

lemma v3_commit_order_witness:
  "let s = demo3 (program_run @ wait 3); t = v3_tick plain_config no_input s in
     v3_commit_pc t = v3_regs s 15 \<and> v3_regs t 15 = r_next_pc (v3_retire s)"
proof -
  note d = demo3_7 [unfolded Let_def]
  have nb: "\<not> v3_booting (demo3 (program_run @ wait 3))" using d by blast
  have c: "v3_commit_valid (v3_tick plain_config no_input (demo3 (program_run @ wait 3)))"
    using commit3_tick [OF nb, of plain_config no_input] d by blast
  have "irq_input_count plain_config \<le> 63" by (simp add: plain_config_def default_config_def)
  from v3_commit_order [OF demo3_reachable this c nb] show ?thesis using d by (simp only: Let_def) blast
qed

lemma v3_stopped_idle_witness:
  "let s = demo3 (wait 3 @ [error_input]); t = v3_tick plain_config no_input s in v3_stopped t \<and> v3_empty t"
proof -
  have "irq_input_count plain_config \<le> 63" by (simp add: plain_config_def default_config_def)
  from v3_stopped_idle [OF demo3_reachable this demo3_error, of no_input] show ?thesis by (simp only: Let_def)
qed

end
