(* ===== verification/V2_Core.thy ===== *)
theory V2_Core
  imports Basic_Core V3_Core
begin

text \<open>
  The v2 core (\<open>v2/core.py\<close>): a multi-cycle controller in the manner of the basic core, with
  registered decode, execute and writeback stages, a fetch front end that runs beside it, a
  load-store unit, a line cache and a TLB.  The units are copies of the v3 ones and use their
  models.  The registers are the record \<open>v2_core\<close>; each \<open>m.Case\<close> of the controller is one
  function to the next state and the strobes it raises; \<open>v2_tick\<close> is the clock edge.
\<close>

section \<open>State\<close>

datatype v2_state =
  S2_RESET | S2_FETCH_TRANSLATE | S2_FETCH_REQUEST | S2_DECODE | S2_EXECUTE | S2_MEM_TRANSLATE | S2_MEMORY
| S2_WRITEBACK | S2_WALK | S2_WALK_PROCESS | S2_VECTOR_TRANSLATE | S2_VECTOR_LOAD | S2_STALLED | S2_HALTED
| S2_EXECUTE_COMPLETE

datatype resume_kind = RK_FETCH | RK_MEMORY | RK_VECTOR

text \<open>The \<open>execute_complete_*\<close> and \<open>writeback_*\<close> registers.\<close>

record v2_complete =
  ec_reg_write :: bool
  ec_reg_index :: reg_index
  ec_reg_value :: u64
  ec_flags_write :: bool
  ec_flag_result :: u64
  ec_flag_carry :: bool
  ec_next_pc :: u64
  ec_lockup :: bool
  ec_commit_pc :: u64

record v2_writeback =
  wb_reg_write :: bool
  wb_reg_index :: reg_index
  wb_reg_value :: u64
  wb_aux_reg_write :: bool
  wb_aux_reg_index :: reg_index
  wb_aux_reg_value :: u64
  wb_flags_write :: bool
  wb_flags_value :: "3 word"
  wb_next_pc :: u64
  wb_halt :: bool
  wb_lockup :: bool
  wb_commit_pc :: u64

text \<open>The \<open>mem_*\<close> registers: the memory operation in flight.\<close>

record v2_mem =
  q_addr :: u64
  q_virtual_addr :: u64
  q_width_bytes :: "4 word"
  q_write :: bool
  q_store_value :: u64
  q_rd :: reg_index
  q_next_pc :: u64
  q_fault_pc :: u64
  q_flags_write :: bool
  q_flags_value :: "3 word"
  q_set_reservation :: bool
  q_reservation_addr :: u64
  q_post_reg_write :: bool
  q_post_reg_index :: reg_index
  q_post_reg_value :: u64
  q_post_reg_delta :: u64
  q_post_reg_use_load_result :: bool
  q_chain_store :: bool
  q_chain_store_addr :: u64
  q_chain_store_use_load_result :: bool
  q_chain_store_value :: u64
  q_result_value :: u64

text \<open>The \<open>walk_*\<close> registers.\<close>

record v2_walk =
  k_virtual_addr :: u64
  k_table_addr :: u64
  k_level :: "2 word"
  k_access :: "2 word"
  k_resume :: resume_kind
  k_pte :: u64

record v2_core =
  v2_state :: v2_state
  v2_regs :: regfile
  v2_flags :: "3 word"
  v2_locked_up :: bool
  v2_instruction :: u16
  v2_fetch_pc :: u64
  v2_fetch_phys :: u64
  v2_decode_pc :: u64
  v2_execute_pc :: u64
  v2_execute_instruction :: u16
  v2_a :: u64
  v2_b :: u64
  v2_ll_addr :: u64
  v2_ll_valid :: bool
  v2_ec :: v2_complete
  v2_wb :: v2_writeback
  v2_mem :: v2_mem
  v2_lsu_started :: bool
  v2_translate_va :: u64
  v2_translate_access :: "2 word"
  v2_walk :: v2_walk
  v2_entry_vector :: u64
  v2_entry_epc :: u64
  v2_vector_phys :: u64
  v2_frontend :: frontend3
  v2_lsu :: lsu3
  v2_dcache :: line_cache
  v2_tlb :: v3_core_tlb
  v2_sregs :: special_regs

definition v2_halted :: "v2_core \<Rightarrow> bool" where "v2_halted s \<longleftrightarrow> v2_state s = S2_HALTED"

section \<open>Operands\<close>

text \<open>
  The operand signals are those of the v3 execute stage, read from the execute registers;
  the instruction is always valid in the execute state.
\<close>

definition v2_user :: "v2_core \<Rightarrow> bool" where "v2_user s = bit (cpu_control (v2_sregs s)) 17"
definition v2_paging :: "v2_core \<Rightarrow> bool" where "v2_paging s = bit (cpu_control (v2_sregs s)) 16"

definition v2_special_port :: "v2_core \<Rightarrow> sr_port" where
  "v2_special_port s = \<lparr>write_stb = (v2_state s = S2_EXECUTE \<and> instruction_top3 (v2_execute_instruction s) = 6 \<and>
       instruction_gp_opcode (v2_execute_instruction s) = gp_code GP_SSR),
     write_selector = bslice 0 (v2_b s), write_data = v2_a s\<rparr>"

definition v2_x :: "core_config \<Rightarrow> v2_core \<Rightarrow> exec_in" where
  "v2_x cfg s =
     (let r = v2_sregs s in \<lparr>x_valid = True, x_instruction = v2_execute_instruction s, x_post_pc = v2_execute_pc s + 2,
        x_a = v2_a s, x_b = v2_b s, x_flags = v2_flags s, x_cpu_control = cpu_control r,
        x_interrupt_epc = interrupt_epc r, x_interrupt_eflags = interrupt_eflags r,
        x_interrupt_cpu_control = interrupt_cpu_control r, x_ll_valid = v2_ll_valid s, x_ll_addr = v2_ll_addr s,
        x_special_read_data = sr_read_data cfg r (bslice 0 (v2_b s)),
        x_special_read_fault = sr_read_access_fault (v2_user s) (bslice 0 (v2_b s)),
        x_special_write_fault = sr_write_access_fault (v2_user s) (v2_special_port s)\<rparr>)"

text \<open>The \<open>gp_alu_*\<close> signals, when \<open>gp_alu_valid\<close>; the flags are always written then.\<close>

record v2_alu =
  alu_reg_write :: bool
  alu_result_value :: u64
  alu_flag_result :: u64
  alu_flag_carry :: bool

definition alu_both :: "u64 \<Rightarrow> bool \<Rightarrow> v2_alu option" where
  "alu_both v c = Some \<lparr>alu_reg_write = True, alu_result_value = v, alu_flag_result = v, alu_flag_carry = c\<rparr>"

definition v2_gp_alu :: "exec_in \<Rightarrow> v2_alu option" where
  "v2_gp_alu x =
     (let a = x_a x; b = x_b x; n = x_shift_index x; sum = bslice 0 (x_sum_value x); sub_value = x_sub_value x in
      if instruction_top3 (x_instruction x) \<noteq> 6 then None
      else case gp_opcode_of (instruction_gp_opcode (x_instruction x)) of
        Some GP_ADD \<Rightarrow> alu_both sum (bit (x_sum_value x) 64)
      | Some GP_SUB \<Rightarrow> alu_both sub_value (a < b)
      | Some GP_TEST \<Rightarrow>
          Some \<lparr>alu_reg_write = False, alu_result_value = 0, alu_flag_result = sub_value, alu_flag_carry = (a < b)\<rparr>
      | Some GP_AND \<Rightarrow> alu_both (a AND b) False
      | Some GP_OR \<Rightarrow> alu_both (a OR b) False
      | Some GP_XOR \<Rightarrow> alu_both (a XOR b) False
      | Some GP_SLL \<Rightarrow> alu_both (x_sll_results a n) (x_sll_carries a n)
      | Some GP_SRL \<Rightarrow> alu_both (x_srl_results a n) (x_srl_carries a n)
      | Some GP_SRA \<Rightarrow> alu_both (x_sra_results a n) (x_sra_carries a n)
      | Some GP_SLLI \<Rightarrow> alu_both (x_slli_result x) (x_slli_imm_carries a (x_imm4 x))
      | Some GP_SRLI \<Rightarrow> alu_both (x_srli_result x) (x_srx_imm_carries a (x_imm4 x))
      | Some GP_SRAI \<Rightarrow> alu_both (x_srai_result x) (x_srx_imm_carries a (x_imm4 x))
      | _ \<Rightarrow> None)"

section \<open>What the execute state requests\<close>

text \<open>The \<open>next_*\<close> signals.\<close>

record v2_next =
  n_reg_write :: bool
  n_reg_index :: reg_index
  n_reg_value :: u64
  n_flags_write :: bool
  n_flags_value :: "3 word"
  n_pc :: u64
  n_lockup :: bool
  n_starts_memory :: bool
  n_mem :: v2_mem

definition mem_default :: "u64 \<Rightarrow> u64 \<Rightarrow> 3 word \<Rightarrow> v2_mem" where
  "mem_default next pc fl = \<lparr>q_addr = 0, q_virtual_addr = 0, q_width_bytes = 0, q_write = False, q_store_value = 0,
     q_rd = 0, q_next_pc = next, q_fault_pc = pc, q_flags_write = False, q_flags_value = fl,
     q_set_reservation = False, q_reservation_addr = 0, q_post_reg_write = False, q_post_reg_index = 0,
     q_post_reg_value = 0, q_post_reg_delta = 0, q_post_reg_use_load_result = False, q_chain_store = False,
     q_chain_store_addr = 0, q_chain_store_use_load_result = False, q_chain_store_value = 0, q_result_value = 0\<rparr>"

definition next_default :: "exec_in \<Rightarrow> u64 \<Rightarrow> v2_next" where
  "next_default x pc = \<lparr>n_reg_write = False, n_reg_index = x_rd x, n_reg_value = 0, n_flags_write = False,
     n_flags_value = x_flags x, n_pc = x_post_pc x, n_lockup = False, n_starts_memory = False,
     n_mem = mem_default (x_post_pc x) pc (x_flags x)\<rparr>"

definition n_access :: "u64 \<Rightarrow> 4 word \<Rightarrow> v2_next \<Rightarrow> v2_next" where
  "n_access a w n = n\<lparr>n_starts_memory := True,
     n_mem := (n_mem n)\<lparr>q_addr := a, q_virtual_addr := a, q_width_bytes := w\<rparr>\<rparr>"
definition n_load :: "u64 \<Rightarrow> 4 word \<Rightarrow> reg_index \<Rightarrow> v2_next \<Rightarrow> v2_next" where
  "n_load a w r n = (let n = n_access a w n in n\<lparr>n_mem := (n_mem n)\<lparr>q_rd := r\<rparr>\<rparr>)"
definition n_store :: "u64 \<Rightarrow> 4 word \<Rightarrow> u64 \<Rightarrow> v2_next \<Rightarrow> v2_next" where
  "n_store a w v n = (let n = n_access a w n in n\<lparr>n_mem := (n_mem n)\<lparr>q_write := True, q_store_value := v\<rparr>\<rparr>)"
definition n_post :: "reg_index \<Rightarrow> u64 \<Rightarrow> v2_next \<Rightarrow> v2_next" where
  "n_post r v n = n\<lparr>n_mem := (n_mem n)\<lparr>q_post_reg_write := True, q_post_reg_index := r, q_post_reg_value := v\<rparr>\<rparr>"
definition n_chain :: "u64 \<Rightarrow> v2_next \<Rightarrow> v2_next" where
  "n_chain a n = n\<lparr>n_mem := (n_mem n)\<lparr>q_chain_store := True, q_chain_store_addr := a, q_chain_store_use_load_result := True\<rparr>\<rparr>"

lemmas next_defs = n_access_def n_load_def n_store_def n_post_def n_chain_def Let_def

definition next_ls_reg :: "exec_in \<Rightarrow> v2_next \<Rightarrow> v2_next" where
  "next_ls_reg x n =
     (let c = x_ls_opcode x; taken = x_ls_jump_taken x; d = x_ls_rd_value x in
      if c \<in> {LS_LOAD, LS_BYTE_LOAD, LS_SHORT_LOAD, LS_WORD_LOAD} then n_load (x_ls_addr x) (x_load_width x) (x_rd x) n
      else if c \<in> {LS_STORE, LS_BYTE_STORE, LS_SHORT_STORE, LS_WORD_STORE} then n_store (x_ls_addr x) (x_store_width x) d n
      else if c = LS_PUSH then n_post (x_rd x) (d - 8) (n_store (d - 8) 8 (x_ls_rs1_value x) n)
      else if c = LS_POP
      then (let n = n_post (x_rd x) (d + 8) (n_load d 8 (x_rs1 x) n) in
            n\<lparr>n_mem := (n_mem n)\<lparr>q_post_reg_delta := 8, q_post_reg_use_load_result := (x_rd x = x_rs1 x)\<rparr>\<rparr>)
      else if c = LS_MOVE
      then n\<lparr>n_reg_write := True, n_reg_index := x_rd x, n_reg_value := x_ls_addr x,
             n_pc := (if x_rd x = 15 then x_ls_addr x else x_post_pc x)\<rparr>
      else if c \<in> {LS_JUMP_Z, LS_JUMP_C, LS_JUMP_S, LS_JUMP_GT, LS_JUMP_LT}
      then n\<lparr>n_reg_write := taken, n_reg_index := x_rd x, n_reg_value := x_ls_addr x,
             n_pc := (if taken \<and> x_rd x = 15 then x_ls_addr x else x_post_pc x)\<rparr>
      else n\<lparr>n_lockup := True\<rparr>)"

definition next_ls_pc :: "exec_in \<Rightarrow> v2_next \<Rightarrow> v2_next" where
  "next_ls_pc x n =
     (let c = x_ls_opcode x; ea = x_ls_pc_effective x; push_addr = x_ls_pc_push_addr x in
      if c \<in> {LS_LOAD, LS_BYTE_LOAD, LS_SHORT_LOAD, LS_WORD_LOAD} then n_load ea (x_load_width x) (x_rd x) n
      else if c \<in> {LS_STORE, LS_BYTE_STORE, LS_SHORT_STORE, LS_WORD_STORE} then n_store ea (x_store_width x) (x_a x) n
      else if c = LS_PUSH then n_chain push_addr (n_post (x_rd x) push_addr (n_access ea 8 n))
      else if c = LS_POP then n_chain ea (n_post (x_rd x) (x_a x + 8) (n_access (x_a x) 8 n))
      else if c = LS_MOVE
      then n\<lparr>n_reg_write := True, n_reg_index := x_rd x, n_reg_value := ea,
             n_pc := (if x_rd x = 15 then ea else x_post_pc x)\<rparr>
      else if c \<in> {LS_JUMP_Z, LS_JUMP_C, LS_JUMP_S, LS_JUMP_GT, LS_JUMP_LT}
      then n\<lparr>n_pc := (if x_ls_jump_taken x then x_ls_jump_target x else x_post_pc x)\<rparr>
      else n\<lparr>n_lockup := True\<rparr>)"

definition set_z :: "bool \<Rightarrow> 3 word \<Rightarrow> 3 word" where "set_z z f = cat3 z (bit f 1) (bit f 2)"

definition next_gp :: "exec_in \<Rightarrow> v2_next \<Rightarrow> v2_next" where
  "next_gp x n =
     (let op = instruction_gp_opcode (x_instruction x) in
      case v2_gp_alu x of
        Some u \<Rightarrow> n\<lparr>n_reg_write := alu_reg_write u, n_reg_value := alu_result_value u, n_flags_write := True,
                    n_flags_value := flag_value (alu_flag_result u) (alu_flag_carry u)\<rparr>
      | None \<Rightarrow>
          if op = gp_code GP_LLR
          then (let n = n_load (x_b x) 8 (x_rd x) n in
                n\<lparr>n_mem := (n_mem n)\<lparr>q_set_reservation := True, q_reservation_addr := x_b x\<rparr>\<rparr>)
          else if op = gp_code GP_SCR
          then (if x_ll_valid x \<and> x_ll_addr x = x_b x
                then (let n = n_store (x_b x) 8 (x_a x) n in
                      n\<lparr>n_mem := (n_mem n)\<lparr>q_flags_write := True, q_flags_value := set_z True (x_flags x)\<rparr>\<rparr>)
                else n\<lparr>n_flags_write := True, n_flags_value := set_z False (x_flags x)\<rparr>)
          else n\<lparr>n_lockup := True\<rparr>)"

definition v2_requests :: "exec_in \<Rightarrow> u64 \<Rightarrow> v2_next" where
  "v2_requests x pc =
     (let n = next_default x pc; w = x_instruction x in
      if instruction_top2 w = 0 then next_ls_reg x n
      else if instruction_top2 w = 1 then next_ls_pc x n
      else if instruction_top3 w = 7 then n\<lparr>n_pc := x_post_pc x + x_jump_rel13 x\<rparr>
      else if instruction_top3 w = 6 then next_gp x n
      else n\<lparr>n_lockup := True\<rparr>)"

section \<open>Translation and walk signals\<close>

definition v2_has_dcache :: "core_config \<Rightarrow> bool" where "v2_has_dcache cfg \<longleftrightarrow> cache_topology_of cfg \<noteq> C_none"
definition v2_dcache_bits :: nat where "v2_dcache_bits = 2"
definition v2_timeout :: "core_config \<Rightarrow> nat" where "v2_timeout cfg = nat (bus_timeout_cycles cfg)"
definition v2_tlb_bits :: "core_config \<Rightarrow> nat" where "v2_tlb_bits cfg = int_log2 (nat (tlb_entries cfg))"

definition v2_tlb_hit_ok :: "core_config \<Rightarrow> v2_core \<Rightarrow> bool" where
  "v2_tlb_hit_ok cfg s \<longleftrightarrow>
     (let va = v2_translate_va s; p = tlb3_perms (v2_tlb_bits cfg) (v2_tlb s) va in
      enable_tlb cfg \<and> tlb3_hit (v2_tlb_bits cfg) (v2_tlb s) va \<and>
      (if v2_translate_access s = ACCESS_EXECUTE then perm_execute p
       else if v2_translate_access s = ACCESS_WRITE then perm_write p else perm_read p) \<and>
      (\<not> v2_user s \<or> perm_user p))"

definition v2_tlb_paddr :: "core_config \<Rightarrow> v2_core \<Rightarrow> u64" where
  "v2_tlb_paddr cfg s = (if enable_tlb cfg then tlb3_paddr (v2_tlb_bits cfg) (v2_tlb s) (v2_translate_va s) else 0)"

definition k_index :: "v2_walk \<Rightarrow> 9 word" where
  "k_index w = (if k_level w = 2 then bslice 30 (k_virtual_addr w) else if k_level w = 1 then bslice 21 (k_virtual_addr w)
     else bslice 12 (k_virtual_addr w))"
definition k_pte_addr :: "v2_walk \<Rightarrow> u64" where "k_pte_addr w = k_table_addr w + push_bit 3 (ucast (k_index w))"
definition k_page_shift :: "v2_walk \<Rightarrow> nat" where
  "k_page_shift w = (if k_level w = 2 then 30 else if k_level w = 1 then 21 else 12)"
definition k_result_phys :: "v2_walk \<Rightarrow> u64" where
  "k_result_phys w = push_bit 12 (drop_bit 10 (k_pte w)) + (k_virtual_addr w AND (push_bit (k_page_shift w) 1 - 1))"
definition k_is_leaf :: "v2_walk \<Rightarrow> bool" where "k_is_leaf w \<longleftrightarrow> k_pte w AND (PTE_R OR PTE_W OR PTE_X) \<noteq> 0"
definition k_permission_ok :: "v2_walk \<Rightarrow> bool" where
  "k_permission_ok w = (if k_access w = ACCESS_READ then k_pte w AND PTE_R \<noteq> 0
     else if k_access w = ACCESS_WRITE then k_pte w AND PTE_W \<noteq> 0 else k_pte w AND PTE_X \<noteq> 0)"
definition k_user_ok :: "bool \<Rightarrow> v2_walk \<Rightarrow> bool" where "k_user_ok user w \<longleftrightarrow> \<not> user \<or> k_pte w AND PTE_U \<noteq> 0"
definition k_reserved :: "v2_walk \<Rightarrow> bool" where "k_reserved w \<longleftrightarrow> k_pte w AND PTE_RESERVED_MASK \<noteq> 0"
definition k_table_next :: "v2_walk \<Rightarrow> u64" where "k_table_next w = push_bit 12 (drop_bit 10 (k_pte w))"
definition k_perms :: "v2_walk \<Rightarrow> tlb_perms" where
  "k_perms w = \<lparr>perm_read = k_pte w AND PTE_R \<noteq> 0, perm_write = k_pte w AND PTE_W \<noteq> 0,
     perm_execute = k_pte w AND PTE_X \<noteq> 0, perm_user = k_pte w AND PTE_U \<noteq> 0\<rparr>"

section \<open>Interrupts, traps\<close>

definition v2_current_vector :: "v2_core \<Rightarrow> u64" where
  "v2_current_vector s = drop_bit CPU_CONTROL_CUR_INT_SHIFT (cpu_control (v2_sregs s) AND CPU_CONTROL_CUR_INT_MASK)"
definition v2_irq_line_pending :: "core_config \<Rightarrow> v4_in \<Rightarrow> u64" where
  "v2_irq_line_pending cfg i = push_bit 1 (take_bit (nat (irq_input_count cfg)) (vi_irq_lines i))"
definition v2_pending_irq_high :: "core_config \<Rightarrow> v4_in \<Rightarrow> v2_core \<Rightarrow> u64" where
  "v2_pending_irq_high cfg i s = interrupt_states_high (v2_sregs s) OR v2_irq_line_pending cfg i"

definition v2_pending_irq :: "core_config \<Rightarrow> v4_in \<Rightarrow> v2_core \<Rightarrow> u64 option" where
  "v2_pending_irq cfg i s =
     fold (\<lambda>k v. if bit (v2_pending_irq_high cfg i s AND interrupt_mask_high (v2_sregs s)) k
                 then Some (of_nat (64 + k)) else v)
       (rev [1 ..< nat (irq_input_count cfg) + 1]) None"

definition v2_take_irq :: "core_config \<Rightarrow> v4_in \<Rightarrow> v2_core \<Rightarrow> u64 option" where
  "v2_take_irq cfg i s =
     (let c = cpu_control (v2_sregs s) in
      case v2_pending_irq cfg i s of
        Some v \<Rightarrow> if bit c 0 \<and> (\<not> bit c 1 \<or> v2_current_vector s = 0 \<or> v < v2_current_vector s) then Some v else None
      | None \<Rightarrow> None)"

definition v2_enter_lockup :: "v2_core \<Rightarrow> v2_core \<times> core_out" where
  "v2_enter_lockup s = (s\<lparr>v2_locked_up := True, v2_state := S2_STALLED\<rparr>, quiet)"

definition v2_begin_entry :: "u64 \<Rightarrow> u64 \<Rightarrow> core_strobes \<Rightarrow> v2_core \<Rightarrow> v2_core \<times> core_out" where
  "v2_begin_entry vector epc st s =
     (s\<lparr>v2_entry_vector := vector, v2_entry_epc := epc,
        v2_translate_va := interrupt_table_base (v2_sregs s) + push_bit 3 vector, v2_translate_access := ACCESS_READ,
        v2_lsu_started := False, v2_state := S2_VECTOR_TRANSLATE\<rparr>,
      quiet\<lparr>strobes := st\<lparr>
        core_interrupt_cpu_control := Some (cpu_control (v2_sregs s)),
        core_cpu_control := Some (entry_cpu_control (cpu_control (v2_sregs s)) vector)\<rparr>\<rparr>)"

definition v2_nested_fatal :: "v2_core \<Rightarrow> u64 \<Rightarrow> bool" where
  "v2_nested_fatal s vector \<longleftrightarrow> bit (cpu_control (v2_sregs s)) 1 \<and> v2_current_vector s \<noteq> 0 \<and>
     v2_current_vector s < trap_code FIRST_HW_IRQ \<and> v2_current_vector s \<le> vector"

definition v2_trap :: "trap_vector \<Rightarrow> u64 \<Rightarrow> u64 \<Rightarrow> u64 \<Rightarrow> u64 \<Rightarrow> v2_core \<Rightarrow> v2_core \<times> core_out" where
  "v2_trap tv pc addr access aux s =
     (let vector = trap_code tv in
      if v2_nested_fatal s vector then v2_enter_lockup s
      else v2_begin_entry vector pc
        (no_strobes\<lparr>core_trap := Some \<lparr>
           ti_cause = (if trap_cause (v2_sregs s) = 0 then vector else trap_cause (v2_sregs s)),
           ti_fault_addr = addr, ti_access = access, ti_pc = pc, ti_aux = aux\<rparr>\<rparr>) s)"

definition v2_start_walk :: "u64 \<Rightarrow> 2 word \<Rightarrow> resume_kind \<Rightarrow> v2_core \<Rightarrow> v2_core" where
  "v2_start_walk va access resume s =
     s\<lparr>v2_walk := (v2_walk s)\<lparr>k_virtual_addr := va, k_table_addr := page_table_root_physical (v2_sregs s), k_level := 2,
          k_access := access, k_resume := resume\<rparr>,
       v2_lsu_started := False, v2_state := S2_WALK\<rparr>"

definition v2_no_mmu :: "core_config \<Rightarrow> v2_core \<Rightarrow> bool" where "v2_no_mmu cfg s \<longleftrightarrow> v2_paging s \<and> \<not> enable_mmu cfg"
definition v2_root_bad :: "v2_core \<Rightarrow> bool" where "v2_root_bad s \<longleftrightarrow> page_table_root_physical (v2_sregs s) AND 0xFFF \<noteq> 0"

text \<open>The response of the load-store unit.\<close>

definition v2_response :: "core_config \<Rightarrow> v4_in \<Rightarrow> v2_core \<Rightarrow> lsu_response" where
  "v2_response cfg i s = lsu3_response_out (v2_timeout cfg) (v4_data_bus i) (v2_lsu s)"

section \<open>Reset, fetch, decode\<close>

definition v2_reset_pc :: "core_config \<Rightarrow> u64" where "v2_reset_pc cfg = word_of_int (reset_vector cfg)"

definition ec_cleared :: v2_complete where
  "ec_cleared = \<lparr>ec_reg_write = False, ec_reg_index = 0, ec_reg_value = 0, ec_flags_write = False, ec_flag_result = 0,
     ec_flag_carry = False, ec_next_pc = 0, ec_lockup = False, ec_commit_pc = 0\<rparr>"

definition wb_cleared :: "u64 \<Rightarrow> v2_writeback" where
  "wb_cleared pc = \<lparr>wb_reg_write = False, wb_reg_index = 0, wb_reg_value = 0, wb_aux_reg_write = False, wb_aux_reg_index = 0,
     wb_aux_reg_value = 0, wb_flags_write = False, wb_flags_value = 0, wb_next_pc = pc, wb_halt = False, wb_lockup = False,
     wb_commit_pc = 0\<rparr>"

definition v2_do_reset :: "core_config \<Rightarrow> v4_in \<Rightarrow> v2_core \<Rightarrow> v2_core \<times> core_out" where
  "v2_do_reset cfg i s =
     (let pc = v2_reset_pc cfg in
      (s\<lparr>v2_regs := (v2_regs s)(1 := vi_boot_r1 i, 13 := vi_boot_r13 i, 15 := pc), v2_flags := 0,
         v2_ll_addr := 0, v2_ll_valid := False, v2_fetch_pc := pc, v2_fetch_phys := pc, v2_instruction := 0,
         v2_execute_instruction := 0, v2_a := 0, v2_b := 0, v2_decode_pc := 0, v2_ec := ec_cleared,
         v2_execute_pc := 0, v2_wb := wb_cleared pc, v2_lsu_started := False, v2_mem := mem_default pc 0 0,
         v2_translate_va := pc, v2_translate_access := ACCESS_EXECUTE,
         v2_walk := \<lparr>k_virtual_addr = 0, k_table_addr = 0, k_level = 0, k_access = 0, k_resume = RK_FETCH, k_pte = 0\<rparr>,
         v2_entry_vector := 0, v2_entry_epc := 0, v2_vector_phys := 0, v2_locked_up := False,
         v2_state := S2_FETCH_TRANSLATE\<rparr>,
       quiet\<lparr>strobes := no_strobes\<lparr>core_trap :=
         Some \<lparr>ti_cause = 0, ti_fault_addr = 0, ti_access = 0, ti_pc = 0, ti_aux = 0\<rparr>\<rparr>\<rparr>))"

definition v2_do_fetch_translate :: "core_config \<Rightarrow> v4_in \<Rightarrow> v2_core \<Rightarrow> v2_core \<times> core_out" where
  "v2_do_fetch_translate cfg i s =
     (let va = v2_translate_va s in
      if bit va 0 then v2_trap EXEC_ALIGN va va (ucast ACCESS_EXECUTE) (encode_aux AUX_SUBTYPE_NONE 0) s
      else if v2_no_mmu cfg s then v2_enter_lockup s
      else case v2_take_irq cfg i s of
        Some v \<Rightarrow> v2_begin_entry v va no_strobes s
      | None \<Rightarrow>
          if \<not> v2_paging s then (s\<lparr>v2_fetch_phys := va, v2_state := S2_FETCH_REQUEST\<rparr>, quiet)
          else if \<not> is_canonical39 va
          then v2_trap PAGE_FAULT_CANONICAL va va (ucast ACCESS_EXECUTE) (encode_aux AUX_SUBTYPE_CANONICAL 2) s
          else if v2_root_bad s
          then v2_trap PAGE_FAULT_RESERVED va va (ucast ACCESS_EXECUTE) (encode_aux AUX_SUBTYPE_RESERVED_BIT 2) s
          else if v2_tlb_hit_ok cfg s
          then (s\<lparr>v2_fetch_phys := v2_tlb_paddr cfg s, v2_state := S2_FETCH_REQUEST\<rparr>, quiet)
          else (v2_start_walk va ACCESS_EXECUTE RK_FETCH (s\<lparr>v2_mem := (v2_mem s)\<lparr>q_fault_pc := va\<rparr>\<rparr>), quiet))"

definition v2_fetch_bus :: "v4_in \<Rightarrow> v2_core \<Rightarrow> fe_in" where
  "v2_fetch_bus i s = \<lparr>fe_pc = v2_fetch_phys s, fe_invalidate = False, fe_update = None,
     fe_ack = vi_i_ack i, fe_err = vi_i_err i, fe_dat_r = vi_i_dat_r i\<rparr>"

definition v2_do_fetch_request :: "core_config \<Rightarrow> v4_in \<Rightarrow> v2_core \<Rightarrow> v2_core \<times> core_out" where
  "v2_do_fetch_request cfg i s =
     (let b = v2_fetch_bus i s; f = v2_frontend s; pc = v2_regs s 15 in
      if fetch_error3 (v2_timeout cfg) b f then v2_enter_lockup s
      else if line_hit3 b f
      then (s\<lparr>v2_fetch_pc := pc, v2_instruction := fetched_word3 b f, v2_decode_pc := pc, v2_state := S2_DECODE\<rparr>, quiet)
      else (s, quiet))"

definition v2_do_decode :: "v2_core \<Rightarrow> v2_core \<times> core_out" where
  "v2_do_decode s =
     (let w = v2_instruction s in
      (s\<lparr>v2_execute_instruction := w, v2_a := v2_regs s (instruction_rd w), v2_b := v2_regs s (instruction_rs1 w),
         v2_execute_pc := v2_decode_pc s, v2_state := S2_EXECUTE\<rparr>, quiet))"

section \<open>Execute\<close>

text \<open>Writing the result registers directly: \<open>LDI\<close>, \<open>LSR\<close>, \<open>SSR\<close>.\<close>

definition wb_register :: "bool \<Rightarrow> reg_index \<Rightarrow> u64 \<Rightarrow> u64 \<Rightarrow> u64 \<Rightarrow> v2_writeback" where
  "wb_register w r v pc commit = \<lparr>wb_reg_write = w, wb_reg_index = r, wb_reg_value = v, wb_aux_reg_write = False,
     wb_aux_reg_index = 0, wb_aux_reg_value = 0, wb_flags_write = False, wb_flags_value = 0, wb_next_pc = pc,
     wb_halt = False, wb_lockup = False, wb_commit_pc = commit\<rparr>"

definition v2_write_back :: "v2_writeback \<Rightarrow> v2_core \<Rightarrow> v2_core \<times> core_out" where
  "v2_write_back b s = (s\<lparr>v2_wb := b, v2_state := S2_WRITEBACK\<rparr>, quiet)"

text \<open>The memory registers an instruction leaves, also when it makes no access.\<close>

definition v2_set_mem :: "v2_next \<Rightarrow> v2_core \<Rightarrow> v2_core" where
  "v2_set_mem n s = s\<lparr>v2_lsu_started := False, v2_mem := n_mem n, v2_translate_va := q_virtual_addr (n_mem n),
     v2_translate_access := (if q_write (n_mem n) then ACCESS_WRITE else ACCESS_READ)\<rparr>"

definition v2_exec_other :: "core_config \<Rightarrow> v2_core \<Rightarrow> v2_core \<times> core_out" where
  "v2_exec_other cfg s =
     (let x = v2_x cfg s; pc = v2_execute_pc s; n = v2_requests x pc; t = v2_set_mem n s in
      case v2_gp_alu x of
        Some u \<Rightarrow>
          (t\<lparr>v2_ec := \<lparr>ec_reg_write = n_reg_write n, ec_reg_index = n_reg_index n, ec_reg_value = n_reg_value n,
               ec_flags_write = n_flags_write n, ec_flag_result = alu_flag_result u, ec_flag_carry = alu_flag_carry u,
               ec_next_pc = n_pc n, ec_lockup = n_lockup n, ec_commit_pc = pc\<rparr>,
             v2_state := S2_EXECUTE_COMPLETE\<rparr>, quiet)
      | None \<Rightarrow>
          (t\<lparr>v2_wb := \<lparr>wb_reg_write = n_reg_write n, wb_reg_index = n_reg_index n, wb_reg_value = n_reg_value n,
               wb_aux_reg_write = False, wb_aux_reg_index = 0, wb_aux_reg_value = 0, wb_flags_write = n_flags_write n,
               wb_flags_value = n_flags_value n, wb_next_pc = n_pc n, wb_halt = False, wb_lockup = n_lockup n,
               wb_commit_pc = pc\<rparr>,
             v2_state := (if n_starts_memory n then S2_MEM_TRANSLATE else S2_WRITEBACK)\<rparr>, quiet))"

definition v2_do_execute :: "core_config \<Rightarrow> v2_core \<Rightarrow> v2_core \<times> core_out" where
  "v2_do_execute cfg s =
     (let x = v2_x cfg s; w = v2_execute_instruction s; r = v2_sregs s; pc = v2_execute_pc s;
          gp = (instruction_top3 w = 6); op = instruction_gp_opcode w; post = x_post_pc x in
      if instruction_top2 w = 2 then v2_write_back (wb_register True (x_rd x) (x_ldi_value x) post pc) s
      else if gp \<and> op = gp_code GP_LSR
      then (if x_special_read_fault x then v2_trap PRIVILEGED_INSTRUCTION pc 0 0 0 s
            else v2_write_back (wb_register True (x_rd x) (x_special_read_data x) post pc) s)
      else if gp \<and> op = gp_code GP_SSR
      then (if x_special_write_fault x then v2_trap PRIVILEGED_INSTRUCTION pc 0 0 0 s
            else v2_write_back (wb_register False 0 0 post pc) s)
      else if gp \<and> op = gp_code GP_SYSCALL
      then v2_trap (if v2_user s then SYSCALL else SYSCALL_FROM_SUPERVISOR) pc 0 0 0 s
      else if gp \<and> op = gp_code GP_IRET
      then (if v2_user s then v2_trap PRIVILEGED_INSTRUCTION pc 0 0 0 s
            else (s\<lparr>v2_regs := (v2_regs s)(15 := interrupt_epc r), v2_fetch_pc := interrupt_epc r,
                    v2_flags := bslice 0 (interrupt_eflags r), v2_translate_va := interrupt_epc r,
                    v2_translate_access := ACCESS_EXECUTE, v2_state := S2_FETCH_TRANSLATE\<rparr>,
                  quiet\<lparr>strobes := no_strobes\<lparr>core_cpu_control := Some (interrupt_cpu_control r)\<rparr>\<rparr>))
      else if gp \<and> op = gp_code GP_STOP
      then (if v2_user s then v2_trap PRIVILEGED_INSTRUCTION pc 0 0 0 s
            else (s\<lparr>v2_regs := (v2_regs s)(15 := post), v2_fetch_pc := pc, v2_state := S2_HALTED\<rparr>, quiet))
      else if gp \<and> op \<notin> gp_code ` {GP_ADD, GP_SUB, GP_TEST, GP_LLR, GP_SCR, GP_AND, GP_OR, GP_XOR, GP_SLL, GP_SRL, GP_SRA,
          GP_SLLI, GP_SRLI, GP_SRAI}
      then v2_trap INVALID_INSTRUCTION pc 0 0 0 s
      else v2_exec_other cfg s)"

text \<open>The flags of an arithmetic instruction are made from its result one cycle later.\<close>

definition v2_do_execute_complete :: "v2_core \<Rightarrow> v2_core \<times> core_out" where
  "v2_do_execute_complete s =
     (let c = v2_ec s in
      v2_write_back \<lparr>wb_reg_write = ec_reg_write c, wb_reg_index = ec_reg_index c, wb_reg_value = ec_reg_value c,
        wb_aux_reg_write = False, wb_aux_reg_index = 0, wb_aux_reg_value = 0, wb_flags_write = ec_flags_write c,
        wb_flags_value = flag_value (ec_flag_result c) (ec_flag_carry c), wb_next_pc = ec_next_pc c, wb_halt = False,
        wb_lockup = ec_lockup c, wb_commit_pc = ec_commit_pc c\<rparr> s)"

definition v2_write_reg :: "bool \<Rightarrow> reg_index \<Rightarrow> u64 \<Rightarrow> regfile \<Rightarrow> regfile" where
  "v2_write_reg w r v rs = (if w \<and> r \<noteq> 0 then rs(r := v) else rs)"

definition v2_do_writeback :: "v2_core \<Rightarrow> v2_core \<times> core_out" where
  "v2_do_writeback s =
     (let b = v2_wb s; pc = wb_next_pc b;
          rs = v2_write_reg (wb_aux_reg_write b) (wb_aux_reg_index b) (wb_aux_reg_value b)
                 (v2_write_reg (wb_reg_write b) (wb_reg_index b) (wb_reg_value b) (v2_regs s)) in
      (s\<lparr>v2_regs := rs(15 := pc), v2_flags := (if wb_flags_write b then wb_flags_value b else v2_flags s),
         v2_fetch_pc := pc, v2_translate_va := pc, v2_translate_access := ACCESS_EXECUTE,
         v2_locked_up := v2_locked_up s \<or> wb_lockup b,
         v2_state := (if wb_lockup b then S2_STALLED else S2_FETCH_TRANSLATE)\<rparr>, committing))"

section \<open>Memory operations\<close>

definition v2_access :: "v2_core \<Rightarrow> 2 word" where
  "v2_access s = (if q_write (v2_mem s) then ACCESS_WRITE else ACCESS_READ)"

definition v2_do_mem_translate :: "core_config \<Rightarrow> v2_core \<Rightarrow> v2_core \<times> core_out" where
  "v2_do_mem_translate cfg s =
     (let q = v2_mem s; va = q_virtual_addr q; access = v2_access s;
          go = (\<lambda>a. (s\<lparr>v2_mem := q\<lparr>q_addr := a\<rparr>, v2_lsu_started := False, v2_state := S2_MEMORY\<rparr>, quiet)) in
      if v2_no_mmu cfg s then v2_enter_lockup s
      else if \<not> v2_paging s then go va
      else if \<not> is_canonical39 va
      then v2_trap PAGE_FAULT_CANONICAL (q_fault_pc q) va (ucast access) (encode_aux AUX_SUBTYPE_CANONICAL 2) s
      else if v2_root_bad s
      then v2_trap PAGE_FAULT_RESERVED (q_fault_pc q) va (ucast access) (encode_aux AUX_SUBTYPE_RESERVED_BIT 2) s
      else if v2_tlb_hit_ok cfg s then go (v2_tlb_paddr cfg s)
      else (v2_start_walk (v2_translate_va s) access RK_MEMORY s, quiet))"

definition v2_byte_offset :: "v2_core \<Rightarrow> 3 word" where "v2_byte_offset s = bslice 0 (q_addr (v2_mem s))"
definition v2_shifted_sel :: "v2_core \<Rightarrow> byte" where
  "v2_shifted_sel s = push_bit (unat (v2_byte_offset s)) (base_sel (q_width_bytes (v2_mem s)))"
definition v2_shifted_store_data :: "v2_core \<Rightarrow> u64" where
  "v2_shifted_store_data s = push_bit (unat (v2_byte_offset s) * 8) (q_store_value (v2_mem s))"
definition v2_single_line_access :: "v2_core \<Rightarrow> bool" where
  "v2_single_line_access s \<longleftrightarrow> unat (v2_byte_offset s) + unat (q_width_bytes (v2_mem s)) \<le> 8"

definition v2_cached :: "core_config \<Rightarrow> v2_core \<Rightarrow> bool" where
  "v2_cached cfg s \<longleftrightarrow> v2_has_dcache cfg \<and> \<not> q_write (v2_mem s) \<and> v2_single_line_access s \<and>
     cache_lookup_hit v2_dcache_bits (v2_dcache s) (q_addr (v2_mem s)) \<and> \<not> v2_lsu_started s"
definition v2_cacheable_fill :: "core_config \<Rightarrow> v2_core \<Rightarrow> bool" where
  "v2_cacheable_fill cfg s \<longleftrightarrow> v2_has_dcache cfg \<and> \<not> q_write (v2_mem s) \<and> q_width_bytes (v2_mem s) = 8 \<and> v2_byte_offset s = 0"
definition v2_dcache_load_result :: "v2_core \<Rightarrow> u64" where
  "v2_dcache_load_result s =
     load_result (q_width_bytes (v2_mem s))
       (drop_bit (unat (v2_byte_offset s) * 8) (cache_lookup_data v2_dcache_bits (v2_dcache s) (q_addr (v2_mem s))))"

definition v2_memory_result :: "core_config \<Rightarrow> v4_in \<Rightarrow> v2_core \<Rightarrow> u64" where
  "v2_memory_result cfg i s = (if v2_cached cfg s then v2_dcache_load_result s
     else if q_write (v2_mem s) then q_result_value (v2_mem s) else l_load_value (v2_response cfg i s))"

definition v2_post_value :: "u64 \<Rightarrow> v2_mem \<Rightarrow> u64" where
  "v2_post_value v q = (if q_post_reg_use_load_result q then v + q_post_reg_delta q else q_post_reg_value q)"
definition v2_memory_next_pc :: "u64 \<Rightarrow> v2_mem \<Rightarrow> u64" where
  "v2_memory_next_pc v q = (if q_post_reg_write q \<and> q_post_reg_index q = 15 then v2_post_value v q
     else if q_rd q = 15 then v else q_next_pc q)"

definition wb_memory :: "bool \<Rightarrow> u64 \<Rightarrow> u64 \<Rightarrow> v2_mem \<Rightarrow> v2_writeback" where
  "wb_memory write v commit q = \<lparr>wb_reg_write = write, wb_reg_index = q_rd q, wb_reg_value = v,
     wb_aux_reg_write = (q_post_reg_write q \<and> q_post_reg_index q \<noteq> 0), wb_aux_reg_index = q_post_reg_index q,
     wb_aux_reg_value = v2_post_value v q, wb_flags_write = q_flags_write q, wb_flags_value = q_flags_value q,
     wb_next_pc = v2_memory_next_pc v q, wb_halt = False, wb_lockup = False, wb_commit_pc = commit\<rparr>"

definition v2_store_overlaps_reservation :: "v2_core \<Rightarrow> bool" where
  "v2_store_overlaps_reservation s \<longleftrightarrow>
     (let q = v2_mem s; reservation_end = v2_ll_addr s + 7; write_end = q_virtual_addr q + ucast (q_width_bytes q) - 1 in
      v2_ll_valid s \<and> q_write q \<and> q_width_bytes q \<noteq> 0 \<and> q_virtual_addr q \<le> reservation_end \<and> v2_ll_addr s \<le> write_end)"

definition v2_reserve :: "v2_core \<Rightarrow> v2_core \<Rightarrow> v2_core" where
  "v2_reserve s t = (if q_set_reservation (v2_mem s)
     then t\<lparr>v2_ll_addr := q_reservation_addr (v2_mem s), v2_ll_valid := True\<rparr> else t)"

text \<open>The two conditionals of the memory state: what is asked, and what is answered.  \<open>t\<close> is built from \<open>s\<close>.\<close>

definition v2_memory_ask :: "core_config \<Rightarrow> v2_core \<Rightarrow> v2_core" where
  "v2_memory_ask cfg s =
     (if v2_cached cfg s
      then (v2_reserve s s)\<lparr>v2_wb := wb_memory (q_rd (v2_mem s) \<noteq> 0) (v2_dcache_load_result s) (v2_execute_pc s) (v2_mem s),
              v2_state := S2_WRITEBACK\<rparr>
      else if \<not> v2_lsu_started s then s\<lparr>v2_lsu_started := True\<rparr> else s)"

definition v2_memory_answer :: "core_config \<Rightarrow> v4_in \<Rightarrow> v2_core \<Rightarrow> v2_core \<Rightarrow> v2_core" where
  "v2_memory_answer cfg i s t =
     (let q = v2_mem s; v = l_load_value (v2_response cfg i s); r = v2_memory_result cfg i s;
          t = v2_reserve s t; t = (if v2_store_overlaps_reservation s then t\<lparr>v2_ll_valid := False\<rparr> else t) in
      if q_chain_store q
      then t\<lparr>v2_lsu_started := False, v2_translate_va := q_chain_store_addr q, v2_translate_access := ACCESS_WRITE,
             v2_mem := (v2_mem t)\<lparr>q_addr := q_chain_store_addr q, q_virtual_addr := q_chain_store_addr q, q_width_bytes := 8,
               q_write := True, q_store_value := (if q_chain_store_use_load_result q then v else q_chain_store_value q),
               q_rd := 0, q_set_reservation := False, q_chain_store := False, q_chain_store_use_load_result := False,
               q_chain_store_value := 0, q_result_value := v\<rparr>,
             v2_state := S2_MEM_TRANSLATE\<rparr>
      else t\<lparr>v2_wb := wb_memory (q_rd q \<noteq> 0 \<and> \<not> q_write q) r (v2_execute_pc s) q, v2_state := S2_WRITEBACK\<rparr>)"

definition v2_do_memory :: "core_config \<Rightarrow> v4_in \<Rightarrow> v2_core \<Rightarrow> v2_core \<times> core_out" where
  "v2_do_memory cfg i s =
     (let l = v2_response cfg i s; t = v2_memory_ask cfg s in
      if \<not> l_response_valid l then (t, quiet)
      else if l_response_error l then v2_enter_lockup t
      else (v2_memory_answer cfg i s t, quiet))"

section \<open>Page walks\<close>

definition v2_do_walk :: "core_config \<Rightarrow> v4_in \<Rightarrow> v2_core \<Rightarrow> v2_core \<times> core_out" where
  "v2_do_walk cfg i s =
     (let l = v2_response cfg i s; t = (if v2_lsu_started s then s else s\<lparr>v2_lsu_started := True\<rparr>) in
      if \<not> l_response_valid l then (t, quiet)
      else if l_response_error l then v2_enter_lockup t
      else (t\<lparr>v2_walk := (v2_walk s)\<lparr>k_pte := l_load_value l\<rparr>, v2_state := S2_WALK_PROCESS\<rparr>, quiet))"

definition v2_walk_fail :: "trap_vector \<Rightarrow> u64 \<Rightarrow> u64 \<Rightarrow> v2_core \<Rightarrow> v2_core \<times> core_out" where
  "v2_walk_fail tv subtype level s =
     (let w = v2_walk s in
      if k_resume w = RK_VECTOR then v2_enter_lockup s
      else v2_trap tv (q_fault_pc (v2_mem s)) (k_virtual_addr w) (ucast (k_access w)) (encode_aux subtype level) s)"

definition v2_walk_succeed :: "core_config \<Rightarrow> v2_core \<Rightarrow> v2_core \<times> core_out" where
  "v2_walk_succeed cfg s =
     (let phys = k_result_phys (v2_walk s) in
      (case k_resume (v2_walk s) of
         RK_FETCH \<Rightarrow> s\<lparr>v2_fetch_phys := phys, v2_state := S2_FETCH_REQUEST\<rparr>
       | RK_VECTOR \<Rightarrow> s\<lparr>v2_vector_phys := phys, v2_lsu_started := False, v2_state := S2_VECTOR_LOAD\<rparr>
       | RK_MEMORY \<Rightarrow> s\<lparr>v2_mem := (v2_mem s)\<lparr>q_addr := phys\<rparr>, v2_lsu_started := False, v2_state := S2_MEMORY\<rparr>,
       quiet\<lparr>tlb_fill_valid := enable_tlb cfg\<rparr>))"

definition v2_do_walk_process :: "core_config \<Rightarrow> v2_core \<Rightarrow> v2_core \<times> core_out" where
  "v2_do_walk_process cfg s =
     (let w = v2_walk s; level = ucast (k_level w); ok = k_permission_ok w \<and> k_user_ok (v2_user s) w in
      if k_pte w AND PTE_V = 0 then v2_walk_fail PAGE_FAULT_NOT_PRESENT AUX_SUBTYPE_NO_VALID_PTE level s
      else if k_reserved w then v2_walk_fail PAGE_FAULT_RESERVED AUX_SUBTYPE_RESERVED_BIT level s
      else if k_level w > 0 \<and> k_is_leaf w
      then (if \<not> ok then v2_walk_fail PAGE_FAULT_PERMISSION AUX_SUBTYPE_PERMISSION level s else v2_walk_succeed cfg s)
      else if k_level w = 0
      then (if \<not> k_is_leaf w then v2_walk_fail PAGE_FAULT_RESERVED AUX_SUBTYPE_INVALID_NONLEAF 0 s
            else if \<not> ok then v2_walk_fail PAGE_FAULT_PERMISSION AUX_SUBTYPE_PERMISSION 0 s
            else v2_walk_succeed cfg s)
      else (s\<lparr>v2_walk := w\<lparr>k_table_addr := k_table_next w, k_level := k_level w - 1\<rparr>, v2_lsu_started := False,
              v2_state := S2_WALK\<rparr>, quiet))"

section \<open>Interrupt entry\<close>

definition v2_do_vector_translate :: "core_config \<Rightarrow> v2_core \<Rightarrow> v2_core \<times> core_out" where
  "v2_do_vector_translate cfg s =
     (let va = v2_translate_va s;
          go = (\<lambda>a. (s\<lparr>v2_vector_phys := a, v2_lsu_started := False, v2_state := S2_VECTOR_LOAD\<rparr>, quiet)) in
      if v2_no_mmu cfg s then v2_enter_lockup s
      else if \<not> v2_paging s then go va
      else if \<not> is_canonical39 va then v2_enter_lockup s
      else if v2_root_bad s then v2_enter_lockup s
      else if v2_tlb_hit_ok cfg s then go (v2_tlb_paddr cfg s)
      else (v2_start_walk va ACCESS_READ RK_VECTOR s, quiet))"

definition v2_do_vector_load :: "core_config \<Rightarrow> v4_in \<Rightarrow> v2_core \<Rightarrow> v2_core \<times> core_out" where
  "v2_do_vector_load cfg i s =
     (let l = v2_response cfg i s; pc = l_load_value l;
          t = (if v2_lsu_started s then s else s\<lparr>v2_lsu_started := True\<rparr>) in
      if \<not> l_response_valid l then (t, quiet)
      else if l_response_error l \<or> pc = 0 then v2_enter_lockup t
      else (t\<lparr>v2_regs := (v2_regs s)(15 := pc), v2_fetch_pc := pc, v2_translate_va := pc,
              v2_translate_access := ACCESS_EXECUTE, v2_state := S2_FETCH_TRANSLATE\<rparr>,
            quiet\<lparr>strobes := no_strobes\<lparr>core_interrupt_epc := Some (v2_entry_epc s),
              core_interrupt_eflags := Some (ucast (v2_flags s))\<rparr>\<rparr>))"

section \<open>The clock edge\<close>

definition v2_next_state :: "core_config \<Rightarrow> v4_in \<Rightarrow> v2_core \<Rightarrow> v2_core \<times> core_out" where
  "v2_next_state cfg i s =
     (case v2_state s of
        S2_RESET \<Rightarrow> v2_do_reset cfg i s
      | S2_FETCH_TRANSLATE \<Rightarrow> v2_do_fetch_translate cfg i s
      | S2_FETCH_REQUEST \<Rightarrow> v2_do_fetch_request cfg i s
      | S2_DECODE \<Rightarrow> v2_do_decode s
      | S2_EXECUTE \<Rightarrow> v2_do_execute cfg s
      | S2_EXECUTE_COMPLETE \<Rightarrow> v2_do_execute_complete s
      | S2_MEM_TRANSLATE \<Rightarrow> v2_do_mem_translate cfg s
      | S2_MEMORY \<Rightarrow> v2_do_memory cfg i s
      | S2_WRITEBACK \<Rightarrow> v2_do_writeback s
      | S2_WALK \<Rightarrow> v2_do_walk cfg i s
      | S2_WALK_PROCESS \<Rightarrow> v2_do_walk_process cfg s
      | S2_VECTOR_TRANSLATE \<Rightarrow> v2_do_vector_translate cfg s
      | S2_VECTOR_LOAD \<Rightarrow> v2_do_vector_load cfg i s
      | S2_STALLED \<Rightarrow> (s\<lparr>v2_state := S2_STALLED\<rparr>, quiet)
      | S2_HALTED \<Rightarrow> (s\<lparr>v2_state := S2_HALTED\<rparr>, quiet))"

text \<open>
  The ports of the units.  A store that has been answered updates or drops the line of the fetch
  front end and the data cache; the cache's invalidate port is never raised.
\<close>

definition v2_lsu_in :: "v4_in \<Rightarrow> v2_core \<Rightarrow> lsu_in" where
  "v2_lsu_in i s =
     (let st = v2_state s; q = v2_mem s in
      (v4_data_bus i)\<lparr>
        request_valid := st \<in> {S2_MEMORY, S2_WALK, S2_VECTOR_LOAD} \<and> \<not> v2_lsu_started s,
        request_addr := (if st = S2_WALK then k_pte_addr (v2_walk s) else if st = S2_VECTOR_LOAD then v2_vector_phys s
                         else q_addr q),
        request_width := (if st = S2_WALK \<or> st = S2_VECTOR_LOAD then 8 else q_width_bytes q),
        request_write := (st = S2_MEMORY \<and> q_write q),
        request_store_value := q_store_value q\<rparr>)"

definition v2_answered :: "core_config \<Rightarrow> v4_in \<Rightarrow> v2_core \<Rightarrow> bool" where
  "v2_answered cfg i s \<longleftrightarrow>
     v2_state s = S2_MEMORY \<and> l_response_valid (v2_response cfg i s) \<and> \<not> l_response_error (v2_response cfg i s)"

definition v2_dcache_cmd :: "core_config \<Rightarrow> v4_in \<Rightarrow> v2_core \<Rightarrow> cache_cmd" where
  "v2_dcache_cmd cfg i s =
     (let a = q_addr (v2_mem s); stored = v2_answered cfg i s \<and> q_write (v2_mem s) in
      \<lparr>cmd_flush_all = (stored \<and> \<not> v2_single_line_access s \<and> v2_has_dcache cfg), cmd_invalidate = None,
       cmd_store_update = port (stored \<and> v2_single_line_access s \<and> v2_has_dcache cfg)
         (a, v2_shifted_sel s, v2_shifted_store_data s),
       cmd_fill = port (v2_answered cfg i s \<and> v2_cacheable_fill cfg s) (a, l_load_value (v2_response cfg i s))\<rparr>)"

definition v2_line_match :: "v2_core \<Rightarrow> bool" where
  "v2_line_match s \<longleftrightarrow> f3_line_valid (v2_frontend s) \<and>
     q_addr (v2_mem s) AND 0xFFFFFFFFFFFFFFF8 = f3_line_base (v2_frontend s)"

definition v2_unified_line_update_value :: "v2_core \<Rightarrow> u64" where
  "v2_unified_line_update_value s =
     merge_bytes (v2_shifted_sel s) (v2_shifted_store_data s) (f3_line_data (v2_frontend s))"

definition v2_fetch_in :: "core_config \<Rightarrow> v4_in \<Rightarrow> v2_core \<Rightarrow> fe_in" where
  "v2_fetch_in cfg i s =
     (let hit = v2_answered cfg i s \<and> q_write (v2_mem s) \<and> v2_line_match s;
          update = cache_topology_of cfg = C_unified \<and> v2_single_line_access s in
      (v2_fetch_bus i s)\<lparr>fe_invalidate := hit \<and> \<not> update,
        fe_update := port (hit \<and> update) (v2_unified_line_update_value s)\<rparr>)"

definition v2_irq_set :: "core_config \<Rightarrow> v4_in \<Rightarrow> v2_core \<Rightarrow> u64" where
  "v2_irq_set cfg i s =
     (let p = v2_special_port s; lines = v2_irq_line_pending cfg i in
      if lines \<noteq> 0 \<and> \<not> (write_stb p \<and> write_selector p = sr_code INTERRUPT_STATES_HIGH) then lines else 0)"

definition v2_units :: "core_config \<Rightarrow> v4_in \<Rightarrow> core_out \<Rightarrow> v2_core \<Rightarrow> v2_core \<Rightarrow> v2_core" where
  "v2_units cfg i out s t =
     (let u = v2_user s; st = strobes out; p = v2_special_port s; w = v2_walk s in
      t\<lparr>v2_frontend := frontend3_tick (v2_timeout cfg) (v2_fetch_in cfg i s) (v2_frontend s),
        v2_lsu := lsu3_tick (v2_timeout cfg) (v2_lsu_in i s) (v2_lsu s),
        v2_dcache := cache_tick v2_dcache_bits (v2_dcache_cmd cfg i s) (v2_dcache s),
        v2_tlb := (if sr_tlb_flush cfg u st p then tlb3_flush_all (v2_tlb s)
                   else if tlb_fill_valid out
                   then tlb3_fill_walk (v2_tlb_bits cfg) (k_virtual_addr w) (k_result_phys w) (k_perms w) (v2_tlb s)
                   else v2_tlb s),
        v2_sregs := sr_tick cfg u st p (v2_irq_set cfg i s) (v2_sregs s)\<rparr>)"

text \<open>Register 0 is cleared at every edge; no state writes it.\<close>

definition v2_tick :: "core_config \<Rightarrow> v4_in \<Rightarrow> v2_core \<Rightarrow> v2_core \<times> core_out" where
  "v2_tick cfg i s =
     (case v2_next_state cfg i s of
        (t, out) \<Rightarrow> (v2_units cfg i out s (t\<lparr>v2_regs := (v2_regs t)(0 := 0)\<rparr>), out))"

definition v2_next_core :: "core_config \<Rightarrow> v4_in \<Rightarrow> v2_core \<Rightarrow> v2_core" where
  "v2_next_core cfg i s = fst (v2_tick cfg i s)"

text \<open>The commit port: valid in the writeback state, with the address kept for it.\<close>

definition v2_commit :: "core_config \<Rightarrow> v4_in \<Rightarrow> v2_core \<Rightarrow> u64 option" where
  "v2_commit cfg i s = port (commit_valid (snd (v2_tick cfg i s))) (wb_commit_pc (v2_wb s))"

section \<open>Reset and runs\<close>

definition v2_reset :: "core_config \<Rightarrow> v2_core" where
  "v2_reset cfg =
     \<lparr>v2_state = S2_RESET, v2_regs = (\<lambda>_. 0)(15 := v2_reset_pc cfg), v2_flags = 0, v2_locked_up = False,
      v2_instruction = 0, v2_fetch_pc = 0, v2_fetch_phys = 0, v2_decode_pc = 0, v2_execute_pc = 0,
      v2_execute_instruction = 0, v2_a = 0, v2_b = 0, v2_ll_addr = 0, v2_ll_valid = False, v2_ec = ec_cleared,
      v2_wb = wb_cleared 0, v2_mem = mem_default 0 0 0, v2_lsu_started = False, v2_translate_va = 0,
      v2_translate_access = 0,
      v2_walk = \<lparr>k_virtual_addr = 0, k_table_addr = 0, k_level = 0, k_access = 0, k_resume = RK_FETCH, k_pte = 0\<rparr>,
      v2_entry_vector = 0, v2_entry_epc = 0, v2_vector_phys = 0, v2_frontend = frontend3_reset, v2_lsu = lsu3_reset,
      v2_dcache = cache_reset, v2_tlb = tlb3_reset, v2_sregs = sr_reset\<rparr>"

inductive v2_reachable :: "core_config \<Rightarrow> v2_core \<Rightarrow> bool" for cfg where
  reset: "v2_reachable cfg (v2_reset cfg)"
| tick: "v2_reachable cfg s \<Longrightarrow> v2_reachable cfg (v2_next_core cfg i s)"

lemmas v2_steps = v2_do_reset_def v2_do_fetch_translate_def v2_do_fetch_request_def v2_do_decode_def v2_do_execute_def
  v2_exec_other_def v2_do_execute_complete_def v2_do_mem_translate_def v2_do_memory_def v2_do_writeback_def v2_do_walk_def
  v2_do_walk_process_def v2_do_vector_translate_def v2_do_vector_load_def

lemmas v2_helpers = v2_enter_lockup_def v2_begin_entry_def v2_trap_def v2_start_walk_def v2_walk_fail_def
  v2_walk_succeed_def v2_write_back_def v2_set_mem_def v2_memory_ask_def v2_memory_answer_def v2_reserve_def

end
