(* ===== verification/V2_Exec.thy ===== *)
theory V2_Exec
  imports V2_Core V3_Exec_Spec V3_Memory
begin

text \<open>
  The execute state of the v2 core requests the specified effect of every instruction word:
  a register and flag write handed to the writeback state, the memory registers of a memory
  operation, a trap, or the changes of \<open>IRET\<close> and \<open>STOP\<close>.
\<close>

section \<open>Effects on the core\<close>

definition v2_effect :: "core_config \<Rightarrow> v2_core \<Rightarrow> effect" where
  "v2_effect cfg s = isa_execute (decode (v2_execute_instruction s)) (x_operands (v2_x cfg s))"

text \<open>The memory registers that stand for a memory operation.\<close>

definition q_load :: "u64 \<Rightarrow> 4 word \<Rightarrow> reg_index \<Rightarrow> v2_mem \<Rightarrow> v2_mem" where
  "q_load a w r q = q\<lparr>q_addr := a, q_virtual_addr := a, q_width_bytes := w, q_rd := r\<rparr>"
definition q_store :: "u64 \<Rightarrow> 4 word \<Rightarrow> u64 \<Rightarrow> v2_mem \<Rightarrow> v2_mem" where
  "q_store a w v q = q\<lparr>q_addr := a, q_virtual_addr := a, q_width_bytes := w, q_write := True, q_store_value := v\<rparr>"

fun mem_of :: "mem_op \<Rightarrow> v2_mem \<Rightarrow> v2_mem" where
  "mem_of (M_Load a w r) q = q_load a w r q"
| "mem_of (M_Store a w v) q = q_store a w v q"
| "mem_of (M_Push a v sp) q = (q_store a 8 v q)\<lparr>q_post_reg_write := True, q_post_reg_index := sp, q_post_reg_value := a\<rparr>"
| "mem_of (M_Pop a r sp) q = (q_load a 8 r q)\<lparr>q_post_reg_write := True, q_post_reg_index := sp,
     q_post_reg_value := a + 8, q_post_reg_delta := 8, q_post_reg_use_load_result := (sp = r)\<rparr>"
| "mem_of (M_Load_Linked a r) q = (q_load a 8 r q)\<lparr>q_set_reservation := True, q_reservation_addr := a\<rparr>"
| "mem_of (M_Store_Cond a v) q = (q_store a 8 v q)\<lparr>q_flags_write := True, q_flags_value := set_z True (q_flags_value q)\<rparr>"
| "mem_of (M_Copy_Push a b sp) q = q\<lparr>q_addr := a, q_virtual_addr := a, q_width_bytes := 8, q_post_reg_write := True,
     q_post_reg_index := sp, q_post_reg_value := b, q_chain_store := True, q_chain_store_addr := b,
     q_chain_store_use_load_result := True\<rparr>"
| "mem_of (M_Copy_Pop a b sp) q = q\<lparr>q_addr := a, q_virtual_addr := a, q_width_bytes := 8, q_post_reg_write := True,
     q_post_reg_index := sp, q_post_reg_value := a + 8, q_chain_store := True, q_chain_store_addr := b,
     q_chain_store_use_load_result := True\<rparr>"

text \<open>What the writeback registers stand for.\<close>

definition wb_stands ::
  "v2_writeback \<Rightarrow> (reg_index \<times> u64) option \<Rightarrow> 3 word option \<Rightarrow> u64 \<Rightarrow> u64 \<Rightarrow> bool" where
  "wb_stands b p f pc commit \<longleftrightarrow>
     (if wb_reg_write b then p = Some (wb_reg_index b, wb_reg_value b) else p = None) \<and>
     (if wb_flags_write b then f = Some (wb_flags_value b) else f = None) \<and>
     wb_next_pc b = pc \<and> \<not> wb_aux_reg_write b \<and> \<not> wb_lockup b \<and> wb_commit_pc b = commit"

text \<open>The writeback registers as they will be in the writeback state.\<close>

definition wb_coming :: "v2_core \<Rightarrow> v2_writeback" where
  "wb_coming t = (if v2_state t = S2_EXECUTE_COMPLETE then v2_wb (fst (v2_do_execute_complete t)) else v2_wb t)"

definition keeps_regs :: "v2_core \<Rightarrow> v2_core \<Rightarrow> bool" where
  "keeps_regs s t \<longleftrightarrow> v2_regs t = v2_regs s \<and> v2_flags t = v2_flags s \<and> v2_ll_valid t = v2_ll_valid s \<and>
     v2_ll_addr t = v2_ll_addr s \<and> v2_locked_up t = v2_locked_up s"

definition v2_writes ::
  "v2_core \<Rightarrow> (reg_index \<times> u64) option \<Rightarrow> 3 word option \<Rightarrow> u64 \<Rightarrow> v2_core \<times> core_out \<Rightarrow> bool" where
  "v2_writes s p f pc r \<longleftrightarrow>
     (v2_state (fst r) = S2_EXECUTE_COMPLETE \<or> v2_state (fst r) = S2_WRITEBACK) \<and> snd r = quiet \<and>
     keeps_regs s (fst r) \<and> wb_stands (wb_coming (fst r)) p f pc (v2_execute_pc s)"

text \<open>
  What the execute state makes of each effect.  One clause is the code's where the instruction set
  says otherwise: a failing store-conditional clears Z and keeps the reservation (\<open>keeps_regs\<close>),
  which \<open>docs/hardware/instruction-set.md\<close> and the other cores clear.
\<close>

fun v2_carries :: "core_config \<Rightarrow> v2_core \<Rightarrow> effect \<Rightarrow> v2_core \<times> core_out \<Rightarrow> bool" where
  "v2_carries cfg s (E_Write p f pc) r = v2_writes s p f pc r"
| "v2_carries cfg s (E_Mem op) r \<longleftrightarrow> v2_state (fst r) = S2_MEM_TRANSLATE \<and> snd r = quiet \<and> keeps_regs s (fst r) \<and>
     v2_mem (fst r) = mem_of op (mem_default (v2_execute_pc s + 2) (v2_execute_pc s) (v2_flags s)) \<and>
     v2_translate_va (fst r) = q_virtual_addr (v2_mem (fst r)) \<and> v2_execute_pc (fst r) = v2_execute_pc s"
| "v2_carries cfg s E_Sc_Fail r = v2_writes s None (Some (set_z False (v2_flags s))) (v2_execute_pc s + 2) r"
| "v2_carries cfg s (E_Trap tv) r \<longleftrightarrow> r = v2_trap tv (v2_execute_pc s) 0 0 0 s"
| "v2_carries cfg s (E_Read_Special d) r =
     v2_writes s (Some (d, sr_read_data cfg (v2_sregs s) (bslice 0 (v2_b s)))) None (v2_execute_pc s + 2) r"
| "v2_carries cfg s E_Write_Special r \<longleftrightarrow> v2_writes s None None (v2_execute_pc s + 2) r \<and>
     write_stb (v2_special_port s) \<and> \<not> sr_write_access_fault (v2_user s) (v2_special_port s) \<and> write_selector (v2_special_port s) = bslice 0 (v2_b s) \<and>
     write_data (v2_special_port s) = v2_a s"
| "v2_carries cfg s E_Iret r \<longleftrightarrow>
     (let a = v2_sregs s; t = fst r in
      v2_state t = S2_FETCH_TRANSLATE \<and> v2_regs t = (v2_regs s)(15 := interrupt_epc a) \<and> v2_translate_va t = interrupt_epc a \<and>
      v2_flags t = bslice 0 (interrupt_eflags a) \<and>
      snd r = quiet\<lparr>strobes := no_strobes\<lparr>core_cpu_control := Some (interrupt_cpu_control a)\<rparr>\<rparr>)"
| "v2_carries cfg s E_Halt r \<longleftrightarrow>
     v2_state (fst r) = S2_HALTED \<and> v2_regs (fst r) = (v2_regs s)(15 := v2_execute_pc s + 2) \<and>
     v2_flags (fst r) = v2_flags s \<and> snd r = quiet"

section \<open>The requests\<close>

lemma v2_x_sel [simp]:
  "x_valid (v2_x cfg s)" "x_instruction (v2_x cfg s) = v2_execute_instruction s" "x_post_pc (v2_x cfg s) = v2_execute_pc s + 2"
  "x_a (v2_x cfg s) = v2_a s" "x_b (v2_x cfg s) = v2_b s" "x_flags (v2_x cfg s) = v2_flags s"
  "x_user (v2_x cfg s) = v2_user s"
  "x_special_read_data (v2_x cfg s) = sr_read_data cfg (v2_sregs s) (bslice 0 (v2_b s))"
  by (simp_all add: v2_x_def x_user_iff v2_user_def Let_def)

text \<open>What the requests of an instruction that leaves through the memory registers must be.\<close>

fun next_stands :: "exec_in \<Rightarrow> u64 \<Rightarrow> effect \<Rightarrow> v2_next \<Rightarrow> bool" where
  "next_stands x pc (E_Write p f c) n \<longleftrightarrow>
     (if n_reg_write n then p = Some (n_reg_index n, n_reg_value n) else p = None) \<and>
     (if n_flags_write n then f = Some (n_flags_value n) else f = None) \<and> n_pc n = c \<and> \<not> n_lockup n \<and> \<not> n_starts_memory n"
| "next_stands x pc (E_Mem op) n \<longleftrightarrow> n_starts_memory n \<and> n_mem n = mem_of op (mem_default (x_post_pc x) pc (x_flags x))"
| "next_stands x pc E_Sc_Fail n \<longleftrightarrow> \<not> n_reg_write n \<and> n_flags_write n \<and> n_flags_value n = set_z False (x_flags x) \<and>
     n_pc n = x_post_pc x \<and> \<not> n_lockup n \<and> \<not> n_starts_memory n"
| "next_stands x pc _ n \<longleftrightarrow> False"

lemma next_default_sel [simp]:
  "n_reg_write (next_default x pc) = False" "n_reg_index (next_default x pc) = x_rd x" "n_flags_write (next_default x pc) = False"
  "n_pc (next_default x pc) = x_post_pc x" "n_lockup (next_default x pc) = False" "n_starts_memory (next_default x pc) = False"
  "n_mem (next_default x pc) = mem_default (x_post_pc x) pc (x_flags x)" "n_flags_value (next_default x pc) = x_flags x"
  by (simp_all add: next_default_def)

lemma next_ls_reg_stands:
  assumes "instruction_top2 (x_instruction x) = 0"
  shows "next_stands x pc (isa_execute (decode (x_instruction x)) (x_operands x)) (next_ls_reg x (next_default x pc))"
proof -
  let ?c = "ls_opcode_of (instruction_ls_opcode (x_instruction x))"
  have d: "decode (x_instruction x) = I_LS ?c (instruction_ls_offset2 (x_instruction x)) (x_rs1 x) (x_rd x)"
    using assms by (simp add: decode_def x_rs1_def x_rd_def)
  show ?thesis
    unfolding d
    by (cases ?c)
      (simp_all add: next_ls_reg_def x_ls_opcode_def x_ls_sets x_views x_ls_jump_taken_def next_defs q_load_def q_store_def mem_default_def)
qed

lemma next_ls_pc_stands:
  assumes "instruction_top2 (x_instruction x) = 1"
  shows "next_stands x pc (isa_execute (decode (x_instruction x)) (x_operands x)) (next_ls_pc x (next_default x pc))"
proof -
  let ?c = "ls_opcode_of (instruction_ls_opcode (x_instruction x))"
  have d: "decode (x_instruction x) = (if is_jump ?c then I_PCJ ?c (bslice 0 (x_instruction x))
      else I_PC ?c (bslice 4 (x_instruction x)) (x_rd x))"
    using assms by (simp add: decode_def x_rd_def Let_def)
  show ?thesis
    unfolding d
    by (cases ?c)
      (simp_all add: next_ls_pc_def x_ls_opcode_def x_ls_sets x_views is_jump_def x_ls_jump_taken_def next_defs q_load_def q_store_def mem_default_def
        del: is_jump_code)
qed

text \<open>The arithmetic group and the two synchronization instructions.\<close>

definition gp_listed :: "gp_opcode \<Rightarrow> bool" where
  "gp_listed c \<longleftrightarrow> is_alu c \<or> c = GP_LLR \<or> c = GP_SCR"

lemma v2_gp_alu_alu:
  assumes "instruction_top3 (x_instruction x) = 6" and "gp_opcode_of (instruction_gp_opcode (x_instruction x)) = Some c"
  shows "v2_gp_alu x = (if is_alu c then (case alu c (x_a x) (x_b x) (x_rs1 x) of (v, k) \<Rightarrow>
      Some \<lparr>alu_reg_write = (c \<noteq> GP_TEST), alu_result_value = (if c = GP_TEST then 0 else v), alu_flag_result = v, alu_flag_carry = k\<rparr>)
     else None)"
  by (cases c)
    (simp_all add: v2_gp_alu_def assms is_alu_def alu_both_def alu_def x_sum x_sub_value_def x_count
      x_shift_results [OF shift_count_le] x_imm_results snd_sra_spec x_imm4_rs1 [symmetric] Let_def case_prod_beta)

lemma next_gp_stands:
  assumes "instruction_top3 (x_instruction x) = 6" and "gp_opcode_of (instruction_gp_opcode (x_instruction x)) = Some c"
    and "gp_listed c"
  shows "next_stands x pc (isa_execute (I_GP c (x_rs1 x) (x_rd x)) (x_operands x)) (next_gp x (next_default x pc))"
proof -
  have op: "instruction_gp_opcode (x_instruction x) = gp_code c" using assms(2) by (rule gp_opcode_of_SomeD)
  show ?thesis
    using assms(3) v2_gp_alu_alu [OF assms(1,2)]
    by (cases "is_alu c")
      (auto simp: next_gp_def gp_listed_def op is_alu_def next_defs q_load_def q_store_def mem_default_def split: prod.splits)
qed


section \<open>Every instruction word\<close>

lemma v2_set_mem_keeps: "keeps_regs s (v2_set_mem n s)" "v2_execute_pc (v2_set_mem n s) = v2_execute_pc s"
  by (simp_all add: v2_set_mem_def keeps_regs_def)

lemma keeps_regs_upd:
  "keeps_regs s (t\<lparr>v2_ec := c, v2_state := st\<rparr>) = keeps_regs s t"
  "keeps_regs s (t\<lparr>v2_wb := b, v2_state := st\<rparr>) = keeps_regs s t"
  by (simp_all add: keeps_regs_def)

text \<open>An instruction without special treatment in the state machine carries out what it requests.\<close>

lemma exec_other_carries:
  assumes n: "next_stands (v2_x cfg s) (v2_execute_pc s) e (v2_requests (v2_x cfg s) (v2_execute_pc s))"
    and alu: "\<And>u. v2_gp_alu (v2_x cfg s) = Some u \<Longrightarrow> (\<exists>p f pc. e = E_Write p f pc) \<and>
      n_flags_value (v2_requests (v2_x cfg s) (v2_execute_pc s)) = flag_value (alu_flag_result u) (alu_flag_carry u)"
  shows "v2_carries cfg s e (v2_exec_other cfg s)"
proof (cases "v2_gp_alu (v2_x cfg s)")
  case None
  then show ?thesis
    using n v2_set_mem_keeps [where s = s and n = "v2_requests (v2_x cfg s) (v2_execute_pc s)"]
    by (cases e) (auto simp: v2_exec_other_def v2_writes_def wb_stands_def wb_coming_def keeps_regs_upd v2_set_mem_def Let_def)
next
  case (Some u)
  then obtain p f pc where e: "e = E_Write p f pc"
    "n_flags_value (v2_requests (v2_x cfg s) (v2_execute_pc s)) = flag_value (alu_flag_result u) (alu_flag_carry u)" using alu by blast
  then show ?thesis
    using n v2_set_mem_keeps [where s = s and n = "v2_requests (v2_x cfg s) (v2_execute_pc s)"]
    by (auto simp: v2_exec_other_def Some v2_writes_def wb_stands_def wb_coming_def keeps_regs_upd
        v2_do_execute_complete_def v2_write_back_def Let_def)
qed

lemma ldi_carries:
  assumes "instruction_top2 (v2_execute_instruction s) = 2"
  shows "v2_carries cfg s (v2_effect cfg s) (v2_do_execute cfg s)"
proof -
  have "x_ldi_value (v2_x cfg s) = ldi_value (instruction_ldi_shift (v2_execute_instruction s))
      (instruction_ldi_imm8 (v2_execute_instruction s)) (v2_a s)"
    by (simp add: x_ldi_value_def ldi_value_def ldi_sign_extend Let_def)
  then show ?thesis
    using assms by (simp add: v2_effect_def decode_def v2_do_execute_def v2_writes_def v2_write_back_def wb_stands_def wb_coming_def
        wb_register_def keeps_regs_def x_rd_def Let_def)
qed

lemma gp_system_carries:
  assumes "instruction_top2 (v2_execute_instruction s) = 3" and "instruction_top3 (v2_execute_instruction s) = 6"
    and "gp_opcode_of (instruction_gp_opcode (v2_execute_instruction s)) = Some c" and "\<not> gp_listed c" and "v2_state s = S2_EXECUTE"
  shows "v2_carries cfg s (isa_execute (I_GP c (x_rs1 (v2_x cfg s)) (x_rd (v2_x cfg s))) (x_operands (v2_x cfg s))) (v2_do_execute cfg s)"
proof -
  have op: "instruction_gp_opcode (v2_execute_instruction s) = gp_code c" using assms(3) by (rule gp_opcode_of_SomeD)
  have f: "x_special_read_fault (v2_x cfg s) = sr_read_access_fault (v2_user s) (bslice 0 (v2_b s))"
    "x_special_write_fault (v2_x cfg s) = sr_write_access_fault (v2_user s) (v2_special_port s)" by (simp_all add: v2_x_def Let_def)
  have p: "write_stb (v2_special_port s) = (c = GP_SSR)" "write_selector (v2_special_port s) = bslice 0 (v2_b s)"
    "write_data (v2_special_port s) = v2_a s"
    using assms(2,5) by (cases c; simp add: v2_special_port_def op)+
  show ?thesis
    using assms(4)
    by (cases c)
      (auto simp: gp_listed_def is_alu_def v2_do_execute_def assms(1,2) op f p v2_writes_def v2_write_back_def wb_stands_def
        wb_coming_def wb_register_def keeps_regs_def Let_def)
qed

lemma v2_execute_carries:
  assumes "v2_state s = S2_EXECUTE"
  shows "v2_carries cfg s (v2_effect cfg s) (v2_do_execute cfg s)"
proof -
  let ?w = "v2_execute_instruction s" and ?x = "v2_x cfg s" and ?n = "v2_requests (v2_x cfg s) (v2_execute_pc s)"
  consider "instruction_top2 ?w = 2" | "instruction_top2 ?w = 0" | "instruction_top2 ?w = 1"
    | "instruction_top2 ?w = 3" "instruction_top3 ?w = 6" | "instruction_top2 ?w = 3" "instruction_top3 ?w = 7"
    using top2_cases top3_11x by blast
  then show ?thesis
  proof cases
    case 1
    then show ?thesis by (rule ldi_carries)
  next
    case 2
    then have t: "instruction_top3 ?w \<noteq> 6" by (auto simp: top2_of_top3 bslice_def)
    then have "v2_do_execute cfg s = v2_exec_other cfg s" "v2_gp_alu ?x = None"
      using 2 by (simp_all add: v2_do_execute_def v2_gp_alu_def Let_def)
    moreover have "next_stands ?x (v2_execute_pc s) (v2_effect cfg s) ?n"
      using 2 next_ls_reg_stands [of ?x] by (simp add: v2_effect_def v2_requests_def Let_def)
    ultimately show ?thesis using exec_other_carries [of cfg s "v2_effect cfg s"] by simp
  next
    case 3
    then have t: "instruction_top3 ?w \<noteq> 6" by (auto simp: top2_of_top3 bslice_def)
    then have "v2_do_execute cfg s = v2_exec_other cfg s" "v2_gp_alu ?x = None"
      using 3 by (simp_all add: v2_do_execute_def v2_gp_alu_def Let_def)
    moreover have "next_stands ?x (v2_execute_pc s) (v2_effect cfg s) ?n"
      using 3 next_ls_pc_stands [of ?x] by (simp add: v2_effect_def v2_requests_def Let_def)
    ultimately show ?thesis using exec_other_carries [of cfg s "v2_effect cfg s"] by simp
  next
    case 4
    show ?thesis
    proof (cases "gp_opcode_of (instruction_gp_opcode ?w)")
      case None
      then have "instruction_gp_opcode ?w \<noteq> gp_code c" for c by (metis gp_opcode_of_code option.distinct(1))
      then show ?thesis using 4 None by (simp add: v2_effect_def decode_def v2_do_execute_def Let_def image_iff del: gp_code.simps)
    next
      case (Some c)
      have op: "instruction_gp_opcode ?w = gp_code c" using Some by (rule gp_opcode_of_SomeD)
      have d: "v2_effect cfg s = isa_execute (I_GP c (x_rs1 ?x) (x_rd ?x)) (x_operands ?x)"
        using 4 Some by (simp add: v2_effect_def decode_def x_rs1_def x_rd_def)
      show ?thesis
      proof (cases "gp_listed c")
        case True
        have g: "next_stands ?x (v2_execute_pc s) (v2_effect cfg s) ?n"
          using next_gp_stands [of ?x c "v2_execute_pc s"] 4 Some True by (simp add: d v2_requests_def Let_def)
        have "v2_do_execute cfg s = v2_exec_other cfg s"
          using 4 True by (cases c) (auto simp: v2_do_execute_def op gp_listed_def is_alu_def Let_def)
        moreover have "(\<exists>p f pc. v2_effect cfg s = E_Write p f pc) \<and> n_flags_value ?n = flag_value (alu_flag_result u) (alu_flag_carry u)"
          if "v2_gp_alu ?x = Some u" for u
        proof -
          have "is_alu c" using that v2_gp_alu_alu [of ?x c] 4 Some by (auto split: if_splits)
          moreover have "n_flags_value ?n = flag_value (alu_flag_result u) (alu_flag_carry u)"
            using that 4 by (simp add: v2_requests_def next_gp_def Let_def)
          ultimately show ?thesis by (simp add: d split: prod.split)
        qed
        ultimately show ?thesis using exec_other_carries [OF g] by simp
      next
        case False
        then show ?thesis using gp_system_carries [OF 4 Some _ assms] d by simp
      qed
    qed
  next
    case 5
    then have "v2_do_execute cfg s = v2_exec_other cfg s" "v2_gp_alu ?x = None"
      by (simp_all add: v2_do_execute_def v2_gp_alu_def Let_def)
    moreover have "next_stands ?x (v2_execute_pc s) (v2_effect cfg s) ?n"
      using 5 by (simp add: v2_effect_def decode_def v2_requests_def x_jump_rel13_def double_scast Let_def)
    ultimately show ?thesis using exec_other_carries [of cfg s "v2_effect cfg s"] by simp
  qed
qed

end
