(* ===== verification/V2_Order.thy ===== *)
theory V2_Order
  imports V2_Exec V4_Program
begin

text \<open>
  What holds in every reachable state of the v2 core: where the address of the instruction in
  flight is kept, that the operands latched for it are those of the register file, that a commit
  is of the instruction at R15, and that a stopped core stays stopped.
\<close>

section \<open>The registers after an edge\<close>

lemma v2_next_sel:
  "v2_state (v2_next_core cfg i s) = v2_state (fst (v2_next_state cfg i s))"
  "v2_flags (v2_next_core cfg i s) = v2_flags (fst (v2_next_state cfg i s))"
  "v2_locked_up (v2_next_core cfg i s) = v2_locked_up (fst (v2_next_state cfg i s))"
  "v2_instruction (v2_next_core cfg i s) = v2_instruction (fst (v2_next_state cfg i s))"
  "v2_decode_pc (v2_next_core cfg i s) = v2_decode_pc (fst (v2_next_state cfg i s))"
  "v2_execute_pc (v2_next_core cfg i s) = v2_execute_pc (fst (v2_next_state cfg i s))"
  "v2_execute_instruction (v2_next_core cfg i s) = v2_execute_instruction (fst (v2_next_state cfg i s))"
  "v2_a (v2_next_core cfg i s) = v2_a (fst (v2_next_state cfg i s))"
  "v2_b (v2_next_core cfg i s) = v2_b (fst (v2_next_state cfg i s))"
  "v2_ll_valid (v2_next_core cfg i s) = v2_ll_valid (fst (v2_next_state cfg i s))"
  "v2_ll_addr (v2_next_core cfg i s) = v2_ll_addr (fst (v2_next_state cfg i s))"
  "v2_ec (v2_next_core cfg i s) = v2_ec (fst (v2_next_state cfg i s))"
  "v2_wb (v2_next_core cfg i s) = v2_wb (fst (v2_next_state cfg i s))"
  "v2_mem (v2_next_core cfg i s) = v2_mem (fst (v2_next_state cfg i s))"
  "v2_lsu_started (v2_next_core cfg i s) = v2_lsu_started (fst (v2_next_state cfg i s))"
  "v2_translate_va (v2_next_core cfg i s) = v2_translate_va (fst (v2_next_state cfg i s))"
  "v2_translate_access (v2_next_core cfg i s) = v2_translate_access (fst (v2_next_state cfg i s))"
  "v2_walk (v2_next_core cfg i s) = v2_walk (fst (v2_next_state cfg i s))"
  "v2_regs (v2_next_core cfg i s) = (v2_regs (fst (v2_next_state cfg i s)))(0 := 0)"
  by (simp_all add: v2_next_core_def v2_tick_def v2_units_def Let_def split: prod.split)

section \<open>The place of the instruction\<close>

definition v2_pc :: "v2_core \<Rightarrow> u64" where "v2_pc s = v2_regs s 15"

definition mem_place :: "v2_core \<Rightarrow> bool" where
  "mem_place s \<longleftrightarrow> v2_execute_pc s = v2_pc s \<and> q_fault_pc (v2_mem s) = v2_pc s \<and>
     v2_a s = v2_regs s (instruction_rd (v2_execute_instruction s)) \<and> v2_b s = v2_regs s (instruction_rs1 (v2_execute_instruction s))"

fun v2_place :: "v2_state \<Rightarrow> v2_core \<Rightarrow> bool" where
  "v2_place S2_FETCH_TRANSLATE s \<longleftrightarrow> v2_translate_va s = v2_pc s \<and> v2_translate_access s = ACCESS_EXECUTE"
| "v2_place S2_DECODE s \<longleftrightarrow> v2_decode_pc s = v2_pc s"
| "v2_place S2_EXECUTE s \<longleftrightarrow> v2_execute_pc s = v2_pc s \<and>
     v2_a s = v2_regs s (instruction_rd (v2_execute_instruction s)) \<and> v2_b s = v2_regs s (instruction_rs1 (v2_execute_instruction s))"
| "v2_place S2_EXECUTE_COMPLETE s \<longleftrightarrow> ec_commit_pc (v2_ec s) = v2_pc s \<and> \<not> ec_lockup (v2_ec s)"
| "v2_place S2_WRITEBACK s \<longleftrightarrow> wb_commit_pc (v2_wb s) = v2_pc s \<and> \<not> wb_lockup (v2_wb s)"
| "v2_place S2_MEM_TRANSLATE s \<longleftrightarrow> mem_place s \<and> v2_translate_va s = q_virtual_addr (v2_mem s)"
| "v2_place S2_MEMORY s \<longleftrightarrow> mem_place s"
| "v2_place S2_WALK s \<longleftrightarrow> (k_resume (v2_walk s) = RK_MEMORY \<longrightarrow> mem_place s) \<and>
     (k_resume (v2_walk s) = RK_FETCH \<longrightarrow> k_virtual_addr (v2_walk s) = v2_pc s \<and> q_fault_pc (v2_mem s) = v2_pc s)"
| "v2_place S2_WALK_PROCESS s \<longleftrightarrow> (k_resume (v2_walk s) = RK_MEMORY \<longrightarrow> mem_place s) \<and>
     (k_resume (v2_walk s) = RK_FETCH \<longrightarrow> k_virtual_addr (v2_walk s) = v2_pc s \<and> q_fault_pc (v2_mem s) = v2_pc s)"
| "v2_place _ s \<longleftrightarrow> True"

definition v2_inv :: "v2_core \<Rightarrow> bool" where
  "v2_inv s \<longleftrightarrow> v2_regs s 0 = 0 \<and> (v2_locked_up s \<longleftrightarrow> v2_state s = S2_STALLED) \<and> v2_place (v2_state s) s"

text \<open>Each state of the controller keeps it; \<open>r0\<close> aside, which the edge clears.\<close>

definition v2_keeps :: "v2_core \<Rightarrow> bool" where
  "v2_keeps t \<longleftrightarrow> (v2_locked_up t \<longleftrightarrow> v2_state t = S2_STALLED) \<and> v2_place (v2_state t) t"

lemma trap_keeps:
  "\<not> v2_locked_up s \<Longrightarrow> v2_keeps (fst (v2_trap tv pc a x y s))"
  "v2_regs (fst (v2_trap tv pc a x y s)) = v2_regs s"
  by (simp_all add: v2_trap_def v2_enter_lockup_def v2_begin_entry_def v2_keeps_def Let_def)

lemma entry_keeps: "\<not> v2_locked_up s \<Longrightarrow> v2_keeps (fst (v2_begin_entry v epc st s))"
  by (simp add: v2_begin_entry_def v2_keeps_def)

lemma lockup_keeps: "v2_keeps (fst (v2_enter_lockup s))"
  by (simp add: v2_enter_lockup_def v2_keeps_def)

lemma walk_fail_keeps: "\<not> v2_locked_up s \<Longrightarrow> v2_keeps (fst (v2_walk_fail tv sub l s))"
  by (simp add: v2_walk_fail_def trap_keeps lockup_keeps Let_def)

lemma v2_keepsI: "\<not> v2_locked_up t \<Longrightarrow> v2_state t \<noteq> S2_STALLED \<Longrightarrow> v2_place (v2_state t) t \<Longrightarrow> v2_keeps t"
  by (simp add: v2_keeps_def)

lemmas v2_keeps_rules = trap_keeps(1) entry_keeps lockup_keeps walk_fail_keeps

lemma v2_inv_D:
  assumes "v2_inv s" and "v2_state s = st" and "st \<noteq> S2_STALLED"
  shows "\<not> v2_locked_up s" "v2_place st s" "v2_regs s 0 = 0"
  using assms by (simp_all add: v2_inv_def)

lemma fetch_translate_keeps:
  "v2_inv s \<Longrightarrow> v2_state s = S2_FETCH_TRANSLATE \<Longrightarrow> v2_keeps (fst (v2_do_fetch_translate cfg i s))"
  using v2_inv_D(1,2) [of s S2_FETCH_TRANSLATE]
  by (auto simp: v2_do_fetch_translate_def v2_keeps_rules Let_def v2_start_walk_def v2_pc_def intro!: v2_keepsI split: option.split)

lemma fetch_request_keeps:
  "v2_inv s \<Longrightarrow> v2_state s = S2_FETCH_REQUEST \<Longrightarrow> v2_keeps (fst (v2_do_fetch_request cfg i s))"
  using v2_inv_D(1,2) [of s S2_FETCH_REQUEST]
  by (auto simp: v2_do_fetch_request_def v2_keeps_rules Let_def v2_pc_def intro!: v2_keepsI)

lemma decode_keeps: "v2_inv s \<Longrightarrow> v2_state s = S2_DECODE \<Longrightarrow> v2_keeps (fst (v2_do_decode s))"
  using v2_inv_D(1,2) [of s S2_DECODE] by (simp add: v2_do_decode_def v2_keeps_def v2_pc_def Let_def)

lemma mem_of_fault_pc: "q_fault_pc (mem_of op q) = q_fault_pc q"
  by (cases op) (simp_all add: q_load_def q_store_def)

lemma writes_keeps:
  assumes "v2_writes s p f pc r" and "\<not> v2_locked_up s" and "v2_execute_pc s = v2_pc s"
  shows "v2_keeps (fst r)"
  using assms
  by (auto simp: v2_writes_def v2_keeps_def wb_stands_def wb_coming_def keeps_regs_def v2_pc_def v2_do_execute_complete_def
      v2_write_back_def Let_def)

text \<open>The ways out of the execute state.\<close>

lemma branchI: "P x \<Longrightarrow> P y \<Longrightarrow> P (if b then x else y)"
  by simp

definition v2_iret :: "v2_core \<Rightarrow> v2_core" where
  "v2_iret s = s\<lparr>v2_regs := (v2_regs s)(15 := interrupt_epc (v2_sregs s)), v2_fetch_pc := interrupt_epc (v2_sregs s),
     v2_flags := bslice 0 (interrupt_eflags (v2_sregs s)), v2_translate_va := interrupt_epc (v2_sregs s),
     v2_translate_access := ACCESS_EXECUTE, v2_state := S2_FETCH_TRANSLATE\<rparr>"

definition v2_halt :: "v2_core \<Rightarrow> v2_core" where
  "v2_halt s = s\<lparr>v2_regs := (v2_regs s)(15 := v2_execute_pc s + 2), v2_fetch_pc := v2_execute_pc s, v2_state := S2_HALTED\<rparr>"

lemma do_execute_cases:
  assumes wb: "\<And>b. P (v2_write_back b s)" and tr: "\<And>tv. P (v2_trap tv (v2_execute_pc s) 0 0 0 s)"
    and ir: "P (v2_iret s, quiet\<lparr>strobes := no_strobes\<lparr>core_cpu_control := Some (interrupt_cpu_control (v2_sregs s))\<rparr>\<rparr>)"
    and st: "P (v2_halt s, quiet)" and ot: "P (v2_exec_other cfg s)"
  shows "P (v2_do_execute cfg s)"
  unfolding v2_do_execute_def Let_def v2_x_sel v2_iret_def [symmetric] v2_halt_def [symmetric]
  by (rule assms | rule branchI [where P = P])+

lemma exec_other_frame:
  "v2_a (fst (v2_exec_other cfg s)) = v2_a s" "v2_b (fst (v2_exec_other cfg s)) = v2_b s"
  "v2_execute_instruction (fst (v2_exec_other cfg s)) = v2_execute_instruction s"
  by (simp_all add: v2_exec_other_def v2_set_mem_def Let_def split: option.split)

lemma v2_execute_frame:
  "v2_a (fst (v2_do_execute cfg s)) = v2_a s" "v2_b (fst (v2_do_execute cfg s)) = v2_b s"
  "v2_execute_instruction (fst (v2_do_execute cfg s)) = v2_execute_instruction s"
  by (rule do_execute_cases;
      simp add: v2_write_back_def v2_trap_def v2_enter_lockup_def v2_begin_entry_def v2_iret_def v2_halt_def exec_other_frame Let_def)+

lemma execute2_leaves:
  assumes "\<not> v2_locked_up s"
  shows "v2_state (fst (v2_do_execute cfg s)) = S2_FETCH_TRANSLATE \<or> v2_state (fst (v2_do_execute cfg s)) = S2_HALTED \<Longrightarrow>
    fst (v2_do_execute cfg s) = v2_iret s \<or> fst (v2_do_execute cfg s) = v2_halt s"
  by (rule do_execute_cases [where P = "\<lambda>r. v2_state (fst r) = S2_FETCH_TRANSLATE \<or> v2_state (fst r) = S2_HALTED \<longrightarrow>
        fst r = v2_iret s \<or> fst r = v2_halt s", THEN mp])
    (simp_all add: v2_write_back_def v2_trap_def v2_enter_lockup_def v2_begin_entry_def v2_exec_other_def Let_def split: option.split)

lemma execute_keeps:
  assumes "v2_inv s" and "v2_state s = S2_EXECUTE"
  shows "v2_keeps (fst (v2_do_execute cfg s))"
proof -
  note I = v2_inv_D [OF assms, simplified]
  note c = v2_execute_carries [OF assms(2), of cfg]
  have out: "v2_keeps (v2_iret s)" "v2_keeps (v2_halt s)"
    using I by (simp_all add: v2_keeps_def v2_iret_def v2_halt_def v2_pc_def)
  show ?thesis
  proof (cases "v2_effect cfg s")
    case (E_Write p f pc)
    then show ?thesis using c I writes_keeps by auto
  next
    case (E_Mem op)
    then show ?thesis
      using c I v2_execute_frame [of cfg s]
      by (simp add: v2_keeps_def mem_place_def keeps_regs_def v2_pc_def mem_of_fault_pc mem_default_def)
  next
    case (E_Trap tv)
    then show ?thesis using c I by (simp add: v2_keeps_rules)
  next
    case E_Iret
    then show ?thesis using c out execute2_leaves [OF I(1), of cfg] by (auto simp: Let_def)
  next
    case E_Halt
    then show ?thesis using c out execute2_leaves [OF I(1), of cfg] by auto
  qed (use c I in \<open>auto intro: writes_keeps\<close>)
qed

lemma execute_complete_keeps: "v2_inv s \<Longrightarrow> v2_state s = S2_EXECUTE_COMPLETE \<Longrightarrow> v2_keeps (fst (v2_do_execute_complete s))"
  using v2_inv_D(1,2) [of s S2_EXECUTE_COMPLETE]
  by (simp add: v2_do_execute_complete_def v2_write_back_def v2_keeps_def v2_pc_def Let_def)

lemma writeback_keeps: "v2_inv s \<Longrightarrow> v2_state s = S2_WRITEBACK \<Longrightarrow> v2_keeps (fst (v2_do_writeback s))"
  using v2_inv_D(1,2) [of s S2_WRITEBACK] by (simp add: v2_do_writeback_def v2_keeps_def v2_pc_def Let_def)

lemma mem_translate_keeps: "v2_inv s \<Longrightarrow> v2_state s = S2_MEM_TRANSLATE \<Longrightarrow> v2_keeps (fst (v2_do_mem_translate cfg s))"
  using v2_inv_D(1,2) [of s S2_MEM_TRANSLATE]
  by (auto simp: v2_do_mem_translate_def v2_keeps_rules v2_start_walk_def Let_def v2_pc_def mem_place_def intro!: v2_keepsI)

lemma memory_keeps: "v2_inv s \<Longrightarrow> v2_state s = S2_MEMORY \<Longrightarrow> v2_keeps (fst (v2_do_memory cfg i s))"
  using v2_inv_D(1,2) [of s S2_MEMORY]
  by (auto simp: v2_do_memory_def v2_keeps_rules v2_memory_ask_def v2_memory_answer_def v2_reserve_def wb_memory_def Let_def
      v2_pc_def mem_place_def intro!: v2_keepsI)

lemma walk_keeps: "v2_inv s \<Longrightarrow> v2_state s = S2_WALK \<Longrightarrow> v2_keeps (fst (v2_do_walk cfg i s))"
  using v2_inv_D(1,2) [of s S2_WALK]
  by (auto simp: v2_do_walk_def v2_keeps_rules Let_def v2_pc_def mem_place_def intro!: v2_keepsI)

lemma walk_succeed_keeps: "v2_inv s \<Longrightarrow> v2_state s = S2_WALK_PROCESS \<Longrightarrow> v2_keeps (fst (v2_walk_succeed cfg s))"
  using v2_inv_D(1,2) [of s S2_WALK_PROCESS]
  by (auto simp: v2_walk_succeed_def Let_def v2_pc_def mem_place_def intro!: v2_keepsI split: resume_kind.split)

lemma walk_process_keeps:
  assumes "v2_inv s" and "v2_state s = S2_WALK_PROCESS"
  shows "v2_keeps (fst (v2_do_walk_process cfg s))"
  using v2_inv_D(1,2) [OF assms] walk_succeed_keeps [OF assms, of cfg]
  by (simp add: v2_do_walk_process_def v2_keeps_rules Let_def) (simp add: v2_keeps_def v2_pc_def mem_place_def)

lemma vector_translate_keeps: "v2_inv s \<Longrightarrow> v2_state s = S2_VECTOR_TRANSLATE \<Longrightarrow> v2_keeps (fst (v2_do_vector_translate cfg s))"
  using v2_inv_D(1,2) [of s S2_VECTOR_TRANSLATE]
  by (auto simp: v2_do_vector_translate_def v2_keeps_rules v2_start_walk_def Let_def intro!: v2_keepsI)

lemma vector_load_keeps: "v2_inv s \<Longrightarrow> v2_state s = S2_VECTOR_LOAD \<Longrightarrow> v2_keeps (fst (v2_do_vector_load cfg i s))"
  using v2_inv_D(1,2) [of s S2_VECTOR_LOAD]
  by (auto simp: v2_do_vector_load_def v2_keeps_rules Let_def v2_pc_def intro!: v2_keepsI)

lemma reset_keeps: "v2_keeps (fst (v2_do_reset cfg i s))"
  by (simp add: v2_do_reset_def v2_keeps_def v2_pc_def Let_def)

lemmas state_keeps = fetch_translate_keeps fetch_request_keeps decode_keeps execute_keeps execute_complete_keeps writeback_keeps
  mem_translate_keeps memory_keeps walk_keeps walk_process_keeps vector_translate_keeps vector_load_keeps reset_keeps

lemma next_state_keeps: "v2_inv s \<Longrightarrow> v2_keeps (fst (v2_next_state cfg i s))"
  by (cases "v2_state s") (simp_all add: v2_next_state_def state_keeps, simp_all add: v2_inv_def v2_keeps_def)

lemma place_units:
  assumes "v2_keeps t" and "v2_regs t 0 = 0" and "t = fst (v2_next_state cfg i s)"
  shows "v2_keeps (v2_next_core cfg i s)"
proof -
  have r: "v2_regs (v2_next_core cfg i s) = v2_regs t" using assms(2) by (auto simp: v2_next_sel assms(3))
  have "v2_place st (v2_next_core cfg i s) = v2_place st t" for st
    by (cases st) (simp_all add: v2_next_sel(1-18) r assms(3) [symmetric] mem_place_def v2_pc_def)
  then show ?thesis using assms(1) by (simp add: v2_keeps_def v2_next_sel(1-18) assms(3))
qed

lemma execute_regs: "v2_regs (fst (v2_do_execute cfg s)) 0 = v2_regs s 0"
  by (rule do_execute_cases)
    (simp_all add: v2_write_back_def v2_trap_def v2_enter_lockup_def v2_begin_entry_def v2_iret_def v2_halt_def v2_exec_other_def
      v2_set_mem_def Let_def split: option.split)

lemma next_state_r0: "v2_regs (fst (v2_next_state cfg i s)) 0 = v2_regs s 0"
proof (cases "v2_state s = S2_EXECUTE")
  case True
  then show ?thesis by (simp add: v2_next_state_def execute_regs)
next
  case False
  have tr: "v2_regs (fst (v2_trap tv pc a x y s)) = v2_regs s" for tv pc a x y by (rule trap_keeps(2))
  have lk: "v2_regs (fst (v2_enter_lockup t)) = v2_regs t" for t by (simp add: v2_enter_lockup_def)
  have wf: "v2_regs (fst (v2_walk_fail tv sub l s)) = v2_regs s" for tv sub l by (simp add: v2_walk_fail_def tr lk Let_def)
  have be: "v2_regs (fst (v2_begin_entry v e st s)) = v2_regs s" for v e st by (simp add: v2_begin_entry_def)
  note h = tr lk wf be v2_start_walk_def v2_walk_succeed_def v2_write_back_def v2_memory_ask_def v2_memory_answer_def v2_reserve_def
    v2_write_reg_def Let_def
  show ?thesis
  proof (cases "v2_state s")
    case S2_FETCH_TRANSLATE
    then show ?thesis by (simp add: v2_next_state_def v2_do_fetch_translate_def h split: option.split)
  next
    case S2_WALK_PROCESS
    then show ?thesis by (simp add: v2_next_state_def v2_do_walk_process_def h split: resume_kind.split)
  next
    case S2_MEMORY
    then show ?thesis by (simp add: v2_next_state_def v2_do_memory_def h)
  qed (use False in \<open>simp_all add: v2_next_state_def v2_steps h\<close>)
qed

lemma v2_inv_tick: "v2_inv s \<Longrightarrow> v2_inv (v2_next_core cfg i s)"
proof -
  assume I: "v2_inv s"
  have z: "v2_regs (fst (v2_next_state cfg i s)) 0 = 0" using I by (simp add: next_state_r0 v2_inv_def)
  have "v2_keeps (v2_next_core cfg i s)" using place_units [OF next_state_keeps [OF I] z refl] .
  then show ?thesis by (simp add: v2_inv_def v2_keeps_def v2_next_sel(19))
qed

lemma v2_reachable_inv: "v2_reachable cfg s \<Longrightarrow> v2_inv s"
proof (induction rule: v2_reachable.induct)
  case reset
  show ?case by (simp add: v2_inv_def v2_reset_def)
next
  case (tick s i)
  then show ?case using v2_inv_tick by blast
qed

section \<open>What changes the architected registers\<close>

lemma commit_out: "snd (v2_tick cfg i s) = snd (v2_next_state cfg i s)"
  by (simp add: v2_tick_def split: prod.split)

lemma trap_no_commit:
  "\<not> commit_valid (snd (v2_trap tv pc a x y s))" "\<not> commit_valid (snd (v2_enter_lockup s))"
  "\<not> commit_valid (snd (v2_begin_entry v e st s))" "\<not> commit_valid (snd (v2_walk_fail tv sub l s))"
  "\<not> commit_valid (snd (v2_walk_succeed cfg s))"
  by (simp_all add: v2_trap_def v2_enter_lockup_def v2_begin_entry_def v2_walk_fail_def v2_walk_succeed_def quiet_def Let_def)

lemma quiet_no_commit [simp]: "\<not> commit_valid quiet"
  by (simp add: quiet_def)

lemma execute_no_commit: "\<not> commit_valid (snd (v2_do_execute cfg s))"
  by (rule do_execute_cases)
    (simp_all add: v2_write_back_def trap_no_commit v2_exec_other_def Let_def quiet_def split: option.split)

lemma commit_writeback: "commit_valid (snd (v2_next_state cfg i s)) \<longleftrightarrow> v2_state s = S2_WRITEBACK"
proof (cases "v2_state s = S2_EXECUTE")
  case True
  then show ?thesis by (simp add: v2_next_state_def execute_no_commit)
next
  case False
  note h = trap_no_commit v2_write_back_def Let_def
  show ?thesis
  proof (cases "v2_state s")
    case S2_FETCH_TRANSLATE
    then show ?thesis by (simp add: v2_next_state_def v2_do_fetch_translate_def h split: option.split)
  next
    case S2_WRITEBACK
    then show ?thesis by (simp add: v2_next_state_def v2_do_writeback_def committing_def Let_def)
  qed (use False in \<open>simp_all add: v2_next_state_def v2_steps h\<close>)
qed

lemma v2_commit_iff: "v2_commit cfg i s = port (v2_state s = S2_WRITEBACK) (wb_commit_pc (v2_wb s))"
  by (simp add: v2_commit_def commit_out commit_writeback)

text \<open>Architected registers and flags.\<close>

definition same_arch :: "v2_core \<Rightarrow> v2_core \<Rightarrow> bool" where
  "same_arch s t \<longleftrightarrow> v2_regs t = v2_regs s \<and> v2_flags t = v2_flags s"

lemma same_arch_helpers:
  "same_arch s (fst (v2_trap tv pc a x y s))" "same_arch s (fst (v2_enter_lockup s))"
  "same_arch s (fst (v2_enter_lockup (s\<lparr>v2_lsu_started := b\<rparr>)))"
  "same_arch s (fst (v2_begin_entry v e st s))" "same_arch s (fst (v2_walk_fail tv sub l s))"
  "same_arch s (v2_start_walk va ac rk s)" "same_arch s (v2_memory_ask cfg s)"
  "same_arch s (fst (v2_enter_lockup (v2_memory_ask cfg s)))"
  "same_arch s (v2_memory_answer cfg i s (v2_memory_ask cfg s))"
  by (simp_all add: same_arch_def v2_trap_def v2_enter_lockup_def v2_begin_entry_def v2_walk_fail_def v2_start_walk_def
      v2_memory_ask_def v2_memory_answer_def v2_reserve_def Let_def)

lemma walk_succeed_arch: "same_arch s (fst (v2_walk_succeed cfg s))"
  by (simp add: same_arch_def v2_walk_succeed_def Let_def split: resume_kind.split)

lemma execute_arch:
  assumes "\<not> v2_locked_up s" and "v2_state s = S2_EXECUTE" and "v2_effect cfg s \<noteq> E_Iret" and "v2_effect cfg s \<noteq> E_Halt"
  shows "same_arch s (fst (v2_do_execute cfg s))"
  using v2_execute_carries [OF assms(2), of cfg] assms(3,4) same_arch_helpers(1) [of s]
  by (cases "v2_effect cfg s") (auto simp: v2_writes_def keeps_regs_def same_arch_def)

lemma next_state_arch:
  assumes "v2_state s \<notin> {S2_RESET, S2_WRITEBACK, S2_VECTOR_LOAD}" and "\<not> v2_locked_up s \<or> v2_state s \<noteq> S2_EXECUTE"
    and "v2_state s = S2_EXECUTE \<Longrightarrow> v2_effect cfg s \<noteq> E_Iret \<and> v2_effect cfg s \<noteq> E_Halt"
  shows "same_arch s (fst (v2_next_state cfg i s))"
proof (cases "v2_state s")
  case S2_EXECUTE
  then show ?thesis using assms execute_arch [of s cfg] by (simp add: v2_next_state_def)
next
  case S2_FETCH_TRANSLATE
  have "same_arch s (v2_start_walk va ac rk (s\<lparr>v2_mem := q\<rparr>))" for va ac rk q by (simp add: same_arch_def v2_start_walk_def)
  then show ?thesis using S2_FETCH_TRANSLATE
    by (simp add: v2_next_state_def v2_do_fetch_translate_def same_arch_helpers Let_def split: option.split) (simp add: same_arch_def)
next
  case S2_WALK_PROCESS
  then show ?thesis
    by (simp add: v2_next_state_def v2_do_walk_process_def same_arch_helpers walk_succeed_arch Let_def) (simp add: same_arch_def)
next
  case S2_WALK
  then show ?thesis
    by (simp add: v2_next_state_def v2_do_walk_def same_arch_helpers Let_def) (simp add: same_arch_def)
next
  case S2_MEMORY
  then show ?thesis by (simp add: v2_next_state_def v2_do_memory_def same_arch_helpers Let_def)
next
  case S2_MEM_TRANSLATE
  then show ?thesis
    by (simp add: v2_next_state_def v2_do_mem_translate_def same_arch_helpers Let_def) (simp add: same_arch_def)
next
  case S2_VECTOR_TRANSLATE
  then show ?thesis
    by (simp add: v2_next_state_def v2_do_vector_translate_def same_arch_helpers Let_def) (simp add: same_arch_def)
next
  case S2_FETCH_REQUEST
  then show ?thesis
    by (simp add: v2_next_state_def v2_do_fetch_request_def same_arch_helpers Let_def) (simp add: same_arch_def)
qed (use assms in \<open>simp_all add: v2_next_state_def v2_do_decode_def v2_do_execute_complete_def v2_write_back_def same_arch_def Let_def\<close>)

section \<open>Runs\<close>

definition v2_run :: "core_config \<Rightarrow> v4_in list \<Rightarrow> v2_core \<Rightarrow> v2_core" where
  "v2_run cfg is s = fold (v2_next_core cfg) is s"

primrec v2_commits :: "core_config \<Rightarrow> v4_in list \<Rightarrow> v2_core \<Rightarrow> u64 list" where
  "v2_commits cfg [] s = []"
| "v2_commits cfg (i # is) s =
     (case v2_commit cfg i s of Some pc \<Rightarrow> [pc] | None \<Rightarrow> []) @ v2_commits cfg is (v2_next_core cfg i s)"

lemma v2_run_sel [simp]: "v2_run cfg [] s = s" "v2_run cfg (i # is) s = v2_run cfg is (v2_next_core cfg i s)"
  by (simp_all add: v2_run_def)

lemma v2_run_reachable: "v2_reachable cfg s \<Longrightarrow> v2_reachable cfg (v2_run cfg is s)"
  by (induction "is" arbitrary: s) (auto intro: v2_reachable.tick)

lemma next_regs: "v2_regs s 0 = 0 \<Longrightarrow> v2_regs (v2_next_core cfg i s) = v2_regs (fst (v2_next_state cfg i s))"
  using next_state_r0 [of cfg i s] by (auto simp: v2_next_sel)

text \<open>
  A core that stands still: every register of the controller, the register file, the flags, the
  reservation, the data cache, the TLB and the special registers are the same; only the fetch front
  end, the load-store unit and the latched interrupt pulses may differ.
\<close>

definition v2_frozen :: "v2_core \<Rightarrow> v2_core \<Rightarrow> bool" where
  "v2_frozen s t \<longleftrightarrow> t = s\<lparr>v2_frontend := v2_frontend t, v2_lsu := v2_lsu t,
     v2_sregs := (v2_sregs s)\<lparr>interrupt_states_high := interrupt_states_high (v2_sregs t)\<rparr>\<rparr>"

lemma frozen_refl: "v2_frozen s s"
  by (simp add: v2_frozen_def)

lemma frozenI: "t = s\<lparr>v2_frontend := f, v2_lsu := l, v2_sregs := (v2_sregs s)\<lparr>interrupt_states_high := h\<rparr>\<rparr> \<Longrightarrow> v2_frozen s t"
  by (simp add: v2_frozen_def)

lemma frozenE:
  assumes "v2_frozen s t"
  obtains f l h where "t = s\<lparr>v2_frontend := f, v2_lsu := l, v2_sregs := (v2_sregs s)\<lparr>interrupt_states_high := h\<rparr>\<rparr>"
  using assms unfolding v2_frozen_def by blast

lemma frozen_trans: "v2_frozen s t \<Longrightarrow> v2_frozen t u \<Longrightarrow> v2_frozen s u"
  by (elim frozenE, rule frozenI) simp

lemma frozen_state: "v2_frozen s t \<Longrightarrow> v2_state t = v2_state s"
  unfolding v2_frozen_def by (drule arg_cong [of _ _ v2_state]) simp

text \<open>Without a write, a strobe and a trap, the special registers only latch interrupt pulses.\<close>

lemma sr_tick_still:
  "\<not> write_stb p \<Longrightarrow> sr_tick cfg u no_strobes p q r = r\<lparr>interrupt_states_high := interrupt_states_high (sr_tick cfg u no_strobes p q r)\<rparr>"
  by (simp add: sr_tick_def no_strobes_def upd_if_def trap_bank_tick_def Let_def)

lemma stopped2_tick:
  assumes "v2_inv s" and "v2_state s = S2_STALLED \<or> v2_state s = S2_HALTED"
  shows "v2_frozen s (v2_next_core cfg i s) \<and> v2_commit cfg i s = None \<and> \<not> request_valid (v2_lsu_in i s)"
proof -
  have n: "v2_next_state cfg i s = (s, quiet)" using assms(2) by (auto simp: v2_next_state_def)
  have r0: "(v2_regs s)(0 := 0) = v2_regs s" using assms(1) by (auto simp: v2_inv_def)
  have w: "\<not> write_stb (v2_special_port s)" "\<not> v2_answered cfg i s" using assms(2) by (auto simp: v2_special_port_def v2_answered_def)
  have c: "cache_tick v2_dcache_bits (v2_dcache_cmd cfg i s) (v2_dcache s) = v2_dcache s"
    using w(2) by (simp add: cache_tick_def v2_dcache_cmd_def port_def v2_cacheable_fill_def Let_def)
  have "v2_next_core cfg i s = s\<lparr>v2_frontend := frontend3_tick (v2_timeout cfg) (v2_fetch_in cfg i s) (v2_frontend s),
      v2_lsu := lsu3_tick (v2_timeout cfg) (v2_lsu_in i s) (v2_lsu s),
      v2_sregs := sr_tick cfg (v2_user s) no_strobes (v2_special_port s) (v2_irq_set cfg i s) (v2_sregs s)\<rparr>"
    using w(1) c by (simp add: v2_next_core_def v2_tick_def n v2_units_def r0 quiet_def sr_tlb_flush_def no_strobes_def Let_def)
  then have "v2_frozen s (v2_next_core cfg i s)"
    using sr_tick_still [OF w(1)] by (simp add: v2_frozen_def)
  then show ?thesis using assms(2) n by (auto simp: v2_commit_iff port_def v2_lsu_in_def Let_def)
qed

lemma stopped_run:
  "v2_inv s \<Longrightarrow> v2_state s = S2_STALLED \<or> v2_state s = S2_HALTED \<Longrightarrow>
     v2_frozen s (v2_run cfg is s) \<and> v2_commits cfg is s = []"
proof (induction "is" arbitrary: s)
  case Nil
  then show ?case by (simp add: frozen_refl)
next
  case (Cons i "is")
  note T = stopped2_tick [OF Cons.prems, where cfg = cfg and i = i]
  then have st: "v2_state (v2_next_core cfg i s) = v2_state s" using frozen_state by blast
  show ?case using T Cons.IH [OF v2_inv_tick [OF Cons.prems(1)]] Cons.prems(2) st frozen_trans by auto
qed

section \<open>Commits and the stopped core\<close>

text \<open>
  Property C12: In every reachable state of the v2 core a commit is of the instruction at R15 and
  happens exactly in the writeback state; outside a commit, the reset state, the end of a vector
  load and the execution of IRET or STOP no edge changes a register or a flag; and a core that has
  locked up or halted commits nothing and requests no memory access from then on, and nothing of
  it changes but its fetch front end, its load-store unit and the latched interrupt pulses.
\<close>

lemma v2_commit_order:
  assumes "v2_reachable cfg s"
  shows "v2_commit cfg i s = port (v2_state s = S2_WRITEBACK) (v2_regs s 15) \<and>
     (same_arch s (v2_next_core cfg i s) \<or> v2_commit cfg i s \<noteq> None \<or> v2_state s = S2_RESET \<or> v2_state s = S2_VECTOR_LOAD \<or>
        v2_state s = S2_EXECUTE \<and> (v2_effect cfg s = E_Iret \<or> v2_effect cfg s = E_Halt)) \<and>
     (v2_locked_up s \<or> v2_halted s \<longrightarrow> v2_commits cfg is s = [] \<and> v2_frozen s (v2_run cfg is s) \<and>
        \<not> request_valid (v2_lsu_in i (v2_run cfg is s)))"
proof -
  have I: "v2_inv s" using assms by (rule v2_reachable_inv)
  then have pc: "v2_state s = S2_WRITEBACK \<Longrightarrow> wb_commit_pc (v2_wb s) = v2_regs s 15" by (simp add: v2_inv_def v2_pc_def)
  have l: "v2_state s = S2_EXECUTE \<Longrightarrow> \<not> v2_locked_up s" "v2_regs s 0 = 0" using I by (simp_all add: v2_inv_def)
  have "same_arch s (fst (v2_next_state cfg i s)) \<Longrightarrow> same_arch s (v2_next_core cfg i s)"
    using l by (simp add: same_arch_def v2_next_sel(2) next_regs)
  moreover have "v2_locked_up s \<or> v2_halted s \<Longrightarrow> v2_state s = S2_STALLED \<or> v2_state s = S2_HALTED"
    using I by (auto simp: v2_inv_def v2_halted_def)
  moreover have "v2_frozen s (v2_run cfg is s) \<Longrightarrow> v2_state s = S2_STALLED \<or> v2_state s = S2_HALTED \<Longrightarrow>
      \<not> request_valid (v2_lsu_in i (v2_run cfg is s))"
    using frozen_state [of s "v2_run cfg is s"] by (auto simp: v2_lsu_in_def Let_def)
  ultimately show ?thesis
    using pc l next_state_arch [of s cfg i] stopped_run [OF I, of cfg "is"] by (auto simp: v2_commit_iff port_def)
qed

end
