(* ===== verification/V2_Demo.thy ===== *)
theory V2_Demo
  imports V2_Order V3_Run
begin

text \<open>
  A run of the v2 core from reset on concrete inputs, with a data cache: \<open>LOAD R2, [R1]\<close> fills a
  cache line, and the PC-relative push behind it reads the same line.
\<close>

definition v2_config :: core_config where
  "v2_config = plain_config\<lparr>core_variant_of := V_v2, cache_topology_of := C_unified\<rparr>"

definition demo2 :: "v4_in list \<Rightarrow> v2_core" where "demo2 is = v2_run v2_config is (v2_reset v2_config)"

lemma demo2_reachable: "v2_reachable v2_config (demo2 is)"
  unfolding demo2_def by (rule v2_run_reachable) (rule v2_reachable.reset)

lemma demo2_snoc: "demo2 (is @ [i]) = v2_next_core v2_config i (demo2 is)"
  by (simp add: demo2_def v2_run_def)

lemma v2_config_sel: "v2_timeout v2_config = 1024" "v2_has_dcache v2_config" "v2_reset_pc v2_config = 0"
  by (simp_all add: v2_timeout_def v2_has_dcache_def v2_reset_pc_def v2_config_def plain_config_def default_config_def
      DEFAULT_BUS_TIMEOUT_CYCLES_def)

section \<open>Steps\<close>

lemma units2:
  "v2_fetch_phys (v2_next_core cfg i s) = v2_fetch_phys (fst (v2_next_state cfg i s))"
  "v2_frontend (v2_next_core cfg i s) = frontend3_tick (v2_timeout cfg) (v2_fetch_in cfg i s) (v2_frontend s)"
  "v2_lsu (v2_next_core cfg i s) = lsu3_tick (v2_timeout cfg) (v2_lsu_in i s) (v2_lsu s)"
  "v2_dcache (v2_next_core cfg i s) = cache_tick v2_dcache_bits (v2_dcache_cmd cfg i s) (v2_dcache s)"
  "v2_sregs (v2_next_core cfg i s) =
     sr_tick cfg (v2_user s) (strobes (snd (v2_next_state cfg i s))) (v2_special_port s) (v2_irq_set cfg i s) (v2_sregs s)"
  by (simp_all add: v2_next_core_def v2_tick_def v2_units_def Let_def split: prod.split)

text \<open>A core without paging and interrupts, its fetch address, front end, registers, load-store unit and cache.\<close>

definition at2 :: "v2_state \<Rightarrow> u64 \<Rightarrow> frontend3 \<Rightarrow> regfile \<Rightarrow> lsu3 \<Rightarrow> line_cache \<Rightarrow> v2_core \<Rightarrow> bool" where
  "at2 st pc f rs l c s \<longleftrightarrow> v2_state s = st \<and> v2_fetch_phys s = pc \<and> v2_frontend s = f \<and> v2_regs s = rs \<and> v2_lsu s = l \<and>
     v2_dcache s = c \<and> v2_flags s = 0 \<and> cpu_control (v2_sregs s) = 0 \<and> \<not> v2_ll_valid s"

definition idle2 :: "lsu3 \<Rightarrow> bool" where "idle2 l \<longleftrightarrow> phase l = LSU_IDLE \<and> watchdog_counter l = 0"

lemma idle2_tick: "idle2 l \<Longrightarrow> \<not> request_valid x \<Longrightarrow> lsu3_tick N x l = l"
  by (simp add: idle2_def lsu3_tick_def watchdog_next_def lsu_active_def Let_def)

lemma plain2: "cpu_control (v2_sregs s) = 0 \<Longrightarrow> \<not> v2_no_mmu cfg s \<and> \<not> v2_paging s \<and> v2_take_irq cfg i s = None"
  by (simp add: v2_no_mmu_def v2_paging_def v2_take_irq_def Let_def split: option.split)

definition still2 :: "core_out \<Rightarrow> bool" where
  "still2 out \<longleftrightarrow> core_cpu_control (strobes out) = None \<and> core_interrupt_epc (strobes out) = None"

lemma quiet_still: "still2 quiet" "still2 committing"
  by (simp_all add: still2_def quiet_def committing_def no_strobes_def)

lemma fetch_in2:
  "\<not> v2_answered cfg i s \<or> \<not> q_write (v2_mem s) \<Longrightarrow> v2_fetch_in cfg i s = fetch_cycle (v2_fetch_phys s) False i"
  "v2_fetch_bus i s = fetch_cycle (v2_fetch_phys s) False i"
  by (auto simp: v2_fetch_in_def v2_fetch_bus_def fetch_cycle_def port_def Let_def)

lemma cache_idle2: "\<not> v2_answered cfg i s \<Longrightarrow> cache_tick b (v2_dcache_cmd cfg i s) c = c"
  by (simp add: cache_tick_def v2_dcache_cmd_def port_def Let_def)

text \<open>Outside the memory state only the front end moves; inside it the load-store unit does too.\<close>

lemma calm_step:
  assumes at: "at2 st pc f rs l c s" and n: "v2_next_state cfg i s = (t, out)" and q: "still2 out" "\<not> write_stb (v2_special_port s)"
    and keep: "v2_flags t = v2_flags s" "v2_ll_valid t = v2_ll_valid s" "v2_regs t 0 = 0"
    and l': "lsu3_tick (v2_timeout cfg) (v2_lsu_in i s) l = l'" and c': "cache_tick v2_dcache_bits (v2_dcache_cmd cfg i s) c = c'"
    and f': "frontend3_tick (v2_timeout cfg) (v2_fetch_in cfg i s) f = f'"
  shows "at2 (v2_state t) (v2_fetch_phys t) f' (v2_regs t) l' c' (v2_next_core cfg i s)"
  using at keep sr_tick_quiet(1) [OF q(2), of "strobes out"] q(1) l' c' f'
  by (auto simp: at2_def v2_next_sel units2 n still2_def)

lemma outside_step:
  assumes at: "at2 st pc f rs l c s" and n: "v2_next_state cfg i s = (t, out)" and q: "still2 out" "\<not> write_stb (v2_special_port s)"
    and keep: "v2_flags t = v2_flags s" "v2_ll_valid t = v2_ll_valid s" "v2_regs t 0 = 0"
    and st: "st \<notin> {S2_MEMORY, S2_WALK, S2_VECTOR_LOAD}" and l: "idle2 l"
  shows "at2 (v2_state t) (v2_fetch_phys t) (frontend3_tick (v2_timeout cfg) (fetch_cycle pc False i) f) (v2_regs t) l c
    (v2_next_core cfg i s)"
proof -
  have s: "v2_state s = st" "v2_fetch_phys s = pc" using at by (simp_all add: at2_def)
  have na: "\<not> v2_answered cfg i s" using st s by (auto simp: v2_answered_def)
  have nr: "\<not> request_valid (v2_lsu_in i s)" using st s by (auto simp: v2_lsu_in_def Let_def)
  show ?thesis
    by (rule calm_step [OF at n q keep idle2_tick [OF l nr] cache_idle2 [OF na]]) (simp add: fetch_in2 na s)
qed

lemma no_special: "v2_state s \<noteq> S2_EXECUTE \<Longrightarrow> \<not> write_stb (v2_special_port s)"
  by (simp add: v2_special_port_def)

lemma translate_step:
  assumes "at2 S2_FETCH_TRANSLATE pc f rs l c s" and "\<not> bit (v2_translate_va s) 0" and "idle2 l" and "rs 0 = 0"
  shows "at2 S2_FETCH_REQUEST (v2_translate_va s) (frontend3_tick (v2_timeout cfg) (fetch_cycle pc False i) f) rs l c
      (v2_next_core cfg i s)"
proof -
  have s: "v2_state s = S2_FETCH_TRANSLATE" "cpu_control (v2_sregs s) = 0" "v2_regs s = rs" using assms(1) by (simp_all add: at2_def)
  have n: "v2_next_state cfg i s = (s\<lparr>v2_fetch_phys := v2_translate_va s, v2_state := S2_FETCH_REQUEST\<rparr>, quiet)"
    using s plain2 [of s cfg i] assms(2) by (simp add: v2_next_state_def v2_do_fetch_translate_def Let_def)
  show ?thesis
    using outside_step [OF assms(1) n quiet_still(1) no_special] s assms(3,4) by simp
qed

lemma request_step:
  assumes "at2 S2_FETCH_REQUEST pc f rs l c s" and "idle2 l" and "rs 0 = 0"
    and "\<not> fetch_error3 (v2_timeout cfg) (fetch_cycle pc False i) f" and "line_hit3 (fetch_cycle pc False i) f"
  shows "at2 S2_DECODE pc (frontend3_tick (v2_timeout cfg) (fetch_cycle pc False i) f) rs l c (v2_next_core cfg i s)"
    and "v2_instruction (v2_next_core cfg i s) = fetched_word3 (fetch_cycle pc False i) f"
proof -
  have s: "v2_state s = S2_FETCH_REQUEST" "v2_fetch_phys s = pc" "v2_regs s = rs" "v2_frontend s = f" using assms(1) by (simp_all add: at2_def)
  have n: "v2_next_state cfg i s = (s\<lparr>v2_fetch_pc := rs 15, v2_instruction := fetched_word3 (fetch_cycle pc False i) f,
      v2_decode_pc := rs 15, v2_state := S2_DECODE\<rparr>, quiet)"
    using s assms(4,5) by (simp add: v2_next_state_def v2_do_fetch_request_def fetch_in2 Let_def)
  show "at2 S2_DECODE pc (frontend3_tick (v2_timeout cfg) (fetch_cycle pc False i) f) rs l c (v2_next_core cfg i s)"
    using outside_step [OF assms(1) n quiet_still(1) no_special] s assms(2,3) by simp
  show "v2_instruction (v2_next_core cfg i s) = fetched_word3 (fetch_cycle pc False i) f" by (simp add: v2_next_sel n)
qed

lemma decode_step:
  assumes "at2 S2_DECODE pc f rs l c s" and "idle2 l" and "rs 0 = 0"
  shows "at2 S2_EXECUTE pc (frontend3_tick (v2_timeout cfg) (fetch_cycle pc False i) f) rs l c (v2_next_core cfg i s)"
    and "v2_execute_instruction (v2_next_core cfg i s) = v2_instruction s"
proof -
  have s: "v2_state s = S2_DECODE" "v2_regs s = rs" using assms(1) by (simp_all add: at2_def)
  have n: "v2_next_state cfg i s = (fst (v2_do_decode s), quiet)" using s by (simp add: v2_next_state_def v2_do_decode_def Let_def)
  have d: "v2_state (fst (v2_do_decode s)) = S2_EXECUTE" "v2_fetch_phys (fst (v2_do_decode s)) = v2_fetch_phys s"
    "v2_regs (fst (v2_do_decode s)) = rs" "v2_flags (fst (v2_do_decode s)) = v2_flags s" "v2_ll_valid (fst (v2_do_decode s)) = v2_ll_valid s"
    "v2_execute_instruction (fst (v2_do_decode s)) = v2_instruction s"
    using s by (simp_all add: v2_do_decode_def Let_def)
  show "at2 S2_EXECUTE pc (frontend3_tick (v2_timeout cfg) (fetch_cycle pc False i) f) rs l c (v2_next_core cfg i s)"
    using outside_step [OF assms(1) n quiet_still(1) no_special] s d assms(2,3) assms(1) by (simp add: at2_def)
  show "v2_execute_instruction (v2_next_core cfg i s) = v2_instruction s" by (simp add: v2_next_sel n d)
qed

lemma execute_fetch_phys: "v2_fetch_phys (fst (v2_do_execute cfg s)) = v2_fetch_phys s"
  by (rule do_execute_cases)
    (simp_all add: v2_write_back_def v2_trap_def v2_enter_lockup_def v2_begin_entry_def v2_iret_def v2_halt_def
      v2_exec_other_def v2_set_mem_def Let_def split: option.split)

lemma issue_step:
  assumes "at2 S2_EXECUTE pc f rs l c s" and "idle2 l" and "rs 0 = 0" and e: "v2_effect cfg s = E_Mem op"
    and w: "instruction_top3 (v2_execute_instruction s) \<noteq> 6"
  shows "at2 S2_MEM_TRANSLATE pc (frontend3_tick (v2_timeout cfg) (fetch_cycle pc False i) f) rs l c (v2_next_core cfg i s)"
    and "v2_mem (v2_next_core cfg i s) = mem_of op (mem_default (v2_execute_pc s + 2) (v2_execute_pc s) 0)"
proof -
  have s: "v2_state s = S2_EXECUTE" "v2_regs s = rs" "v2_fetch_phys s = pc" "v2_flags s = 0" using assms(1) by (simp_all add: at2_def)
  have c: "v2_carries cfg s (E_Mem op) (v2_do_execute cfg s)" using v2_execute_carries [OF s(1), of cfg] e by simp
  then have n: "v2_next_state cfg i s = (fst (v2_do_execute cfg s), quiet)"
    using s by (cases "v2_do_execute cfg s") (simp add: v2_next_state_def)
  have p: "\<not> write_stb (v2_special_port s)" using w by (simp add: v2_special_port_def)
  show "at2 S2_MEM_TRANSLATE pc (frontend3_tick (v2_timeout cfg) (fetch_cycle pc False i) f) rs l c (v2_next_core cfg i s)"
    using outside_step [OF assms(1) n quiet_still(1) p] s c assms(2,3) by (simp add: keeps_regs_def execute_fetch_phys)
  show "v2_mem (v2_next_core cfg i s) = mem_of op (mem_default (v2_execute_pc s + 2) (v2_execute_pc s) 0)"
    using c s by (simp add: v2_next_sel n)
qed

lemma mem_translate_step:
  assumes "at2 S2_MEM_TRANSLATE pc f rs l c s" and "idle2 l" and "rs 0 = 0"
  shows "at2 S2_MEMORY pc (frontend3_tick (v2_timeout cfg) (fetch_cycle pc False i) f) rs l c (v2_next_core cfg i s)"
    and "v2_mem (v2_next_core cfg i s) = (v2_mem s)\<lparr>q_addr := q_virtual_addr (v2_mem s)\<rparr>"
    and "\<not> v2_lsu_started (v2_next_core cfg i s)"
proof -
  have s: "v2_state s = S2_MEM_TRANSLATE" "cpu_control (v2_sregs s) = 0" "v2_regs s = rs" "v2_fetch_phys s = pc"
    using assms(1) by (simp_all add: at2_def)
  have n: "v2_next_state cfg i s =
      (s\<lparr>v2_mem := (v2_mem s)\<lparr>q_addr := q_virtual_addr (v2_mem s)\<rparr>, v2_lsu_started := False, v2_state := S2_MEMORY\<rparr>, quiet)"
    using s plain2 [of s cfg] by (simp add: v2_next_state_def v2_do_mem_translate_def Let_def)
  show "at2 S2_MEMORY pc (frontend3_tick (v2_timeout cfg) (fetch_cycle pc False i) f) rs l c (v2_next_core cfg i s)"
    using outside_step [OF assms(1) n quiet_still(1) no_special] s assms(2,3) by simp
  show "v2_mem (v2_next_core cfg i s) = (v2_mem s)\<lparr>q_addr := q_virtual_addr (v2_mem s)\<rparr>" "\<not> v2_lsu_started (v2_next_core cfg i s)"
    by (simp_all add: v2_next_sel n)
qed

section \<open>The run\<close>

definition load_input :: v4_in where "load_input = no_input\<lparr>vi_i_ack := True, vi_i_dat_r := 0x4BE30012\<rparr>"
definition data_input :: v4_in where "data_input = no_input\<lparr>vi_d_ack := True, vi_d_dat_r := 0x77\<rparr>"

definition front3_load :: frontend3 where
  "front3_load = frontend3_reset\<lparr>f3_line_valid := True, f3_line_data := 0x4BE30012\<rparr>"

lemma front3_load_moves:
  "frontend3_tick 1024 (fetch_cycle 0 False load_input) front3_asked = front3_load"
  "frontend3_tick 1024 (fetch_cycle 0 False no_input) front3_load = front3_load"
  "frontend3_tick 1024 (fetch_cycle 0 False data_input) front3_load = front3_load"
  "frontend3_tick 1024 (fetch_cycle 2 False no_input) front3_load = front3_load"
  by (simp_all add: frontend3_tick_def fetch_cycle_def frontend3_reset_def front3_asked_def front3_load_def no_input_def
      load_input_def data_input_def line_hit3_def line_base_def watchdog_fire3_def Let_def)

lemma front3_load_out:
  "\<not> fetch_error3 1024 (fetch_cycle pc False no_input) front3_load"
  "line_hit3 (fetch_cycle 0 False no_input) front3_load" "line_hit3 (fetch_cycle 2 False no_input) front3_load"
  "fetched_word3 (fetch_cycle 0 False no_input) front3_load = 0x12" "fetched_word3 (fetch_cycle 2 False no_input) front3_load = 0x4BE3"
  by (simp_all add: fetch_cycle_def frontend3_reset_def front3_load_def no_input_def line_hit3_def line_base_def
      watchdog_fire3_def fetch_error3_def fetched_word3_def instruction_word_def bslice_def)

lemma demo_words: "decode 0x12 = I_LS LS_LOAD 0 1 2" "decode 0x4BE3 = I_PC LS_PUSH 0x3E 3"
  "instruction_top3 0x12 \<noteq> 6" "instruction_top3 0x4BE3 \<noteq> 6"
  by (simp_all add: decode_def instruction_field_defs bslice_def ls_opcode_of_def is_jump_def)

abbreviation regs2 :: "u64 \<Rightarrow> u64 \<Rightarrow> regfile" where "regs2 x pc \<equiv> (\<lambda>_. 0)(2 := x, 15 := pc)"

lemma lsu_reset_idle: "idle2 lsu3_reset"
  by (simp add: idle2_def lsu3_reset_def)

lemma demo2_0: "at2 S2_RESET 0 frontend3_reset (regs2 0 0) lsu3_reset cache_reset (demo2 [])"
  by (simp add: demo2_def v2_reset_def at2_def v2_config_sel sr_reset_def fun_eq_iff)

lemma demo2_1: "at2 S2_FETCH_TRANSLATE 0 front3_asked (regs2 0 0) lsu3_reset cache_reset (demo2 [no_input]) \<and> v2_translate_va (demo2 [no_input]) = 0"
proof -
  let ?s = "demo2 []"
  have s: "v2_state ?s = S2_RESET" "v2_regs ?s = regs2 0 0" "v2_flags ?s = 0" "\<not> v2_ll_valid ?s" using demo2_0 by (simp_all add: at2_def)
  obtain t out where n: "v2_next_state v2_config no_input ?s = (t, out)" by fastforce
  then have d: "v2_do_reset v2_config no_input ?s = (t, out)" using s by (simp add: v2_next_state_def)
  have b: "vi_boot_r1 no_input = 0" "vi_boot_r13 no_input = 0" by (simp_all add: no_input_def)
  have t: "v2_state t = S2_FETCH_TRANSLATE" "v2_fetch_phys t = 0" "v2_regs t = regs2 0 0" "v2_flags t = 0" "\<not> v2_ll_valid t"
    "v2_translate_va t = 0" "still2 out"
    using d s(2) b by (auto simp: v2_do_reset_def v2_config_sel still2_def quiet_def no_strobes_def fun_eq_iff Let_def)
  show ?thesis
    using outside_step [OF demo2_0 n t(7) no_special] s t lsu_reset_idle front3_moves(2) demo2_snoc [of "[]"]
    by (simp add: v2_config_sel v2_next_sel n)
qed

lemma demo2_2: "at2 S2_FETCH_REQUEST 0 front3_load (regs2 0 0) lsu3_reset cache_reset (demo2 [no_input, load_input])"
  using translate_step [OF demo2_1 [THEN conjunct1] _ lsu_reset_idle, of v2_config load_input] demo2_1 demo2_snoc [of "[no_input]"]
  by (simp add: v2_config_sel front3_load_moves)

lemma demo2_3: "at2 S2_DECODE 0 front3_load (regs2 0 0) lsu3_reset cache_reset (demo2 [no_input, load_input, no_input]) \<and>
    v2_instruction (demo2 [no_input, load_input, no_input]) = 0x12"
  using request_step [OF demo2_2 lsu_reset_idle, of v2_config no_input] demo2_snoc [of "[no_input, load_input]"]
  by (simp add: v2_config_sel front3_load_moves front3_load_out)

definition demo2_execute :: "v4_in list" where "demo2_execute = [no_input, load_input, no_input, no_input]"

lemma demo2_4: "at2 S2_EXECUTE 0 front3_load (regs2 0 0) lsu3_reset cache_reset (demo2 demo2_execute)"
  "v2_execute_instruction (demo2 demo2_execute) = 0x12"
  using decode_step [OF demo2_3 [THEN conjunct1] lsu_reset_idle, of v2_config no_input] demo2_3 demo2_snoc [of "[no_input, load_input, no_input]"]
  by (simp_all add: v2_config_sel front3_load_moves demo2_execute_def)

text \<open>The operands of an instruction in the execute state are those of the register file.\<close>

lemma demo2_operands:
  assumes "at2 S2_EXECUTE pc f rs l c (demo2 is)"
  shows "v2_execute_pc (demo2 is) = rs 15" "v2_a (demo2 is) = rs (instruction_rd (v2_execute_instruction (demo2 is)))"
    "v2_b (demo2 is) = rs (instruction_rs1 (v2_execute_instruction (demo2 is)))"
  using v2_reachable_inv [OF demo2_reachable, of "is"] assms by (simp_all add: v2_inv_def v2_pc_def at2_def)

lemma demo2_effect: "v2_effect v2_config (demo2 demo2_execute) = E_Mem (M_Load 0 8 2)"
  using demo2_operands [OF demo2_4(1)] demo2_4(2)
  by (simp add: v2_effect_def demo_words x_operands_def is_load_def access_bytes_def pc_view_def instruction_field_defs bslice_def Let_def)

lemma demo2_5: "at2 S2_MEM_TRANSLATE 0 front3_load (regs2 0 0) lsu3_reset cache_reset (demo2 (demo2_execute @ [no_input]))"
  "v2_mem (demo2 (demo2_execute @ [no_input])) = q_load 0 8 2 (mem_default 2 0 0)"
  using issue_step [OF demo2_4(1) lsu_reset_idle _ demo2_effect, of no_input] demo2_4(2) demo2_operands [OF demo2_4(1)]
  by (simp_all add: demo2_snoc v2_config_sel front3_load_moves demo_words)

definition demo2_memory :: "v4_in list" where "demo2_memory = demo2_execute @ [no_input, no_input]"

lemma demo2_6: "at2 S2_MEMORY 0 front3_load (regs2 0 0) lsu3_reset cache_reset (demo2 demo2_memory)"
  "v2_mem (demo2 demo2_memory) = q_load 0 8 2 (mem_default 2 0 0)" "\<not> v2_lsu_started (demo2 demo2_memory)"
  using mem_translate_step [OF demo2_5(1) lsu_reset_idle, of v2_config no_input] demo2_5(2) demo2_snoc [of "demo2_execute @ [no_input]"]
  by (simp_all add: demo2_memory_def v2_config_sel front3_load_moves q_load_def mem_default_def)

text \<open>The load-store unit takes the load, starts its beat, and is answered.\<close>

definition lsu_load :: "bool \<Rightarrow> lsu3" where
  "lsu_load b = lsu3_reset\<lparr>phase := LSU_FIRST, latched_width := 8, beat_started := b\<rparr>"
definition lsu_loaded :: lsu3 where "lsu_loaded = (lsu_load True)\<lparr>phase := LSU_IDLE\<rparr>"
definition cache_loaded :: line_cache where "cache_loaded = cache_fill 2 0 0x77 cache_reset"

definition loading2 :: "bool \<Rightarrow> lsu3 \<Rightarrow> v2_core \<Rightarrow> bool" where
  "loading2 b l s \<longleftrightarrow> at2 S2_MEMORY 0 front3_load (regs2 0 0) l cache_reset s \<and> v2_lsu_started s = b \<and>
     v2_mem s = q_load 0 8 2 (mem_default 2 0 0)"

lemma bus_fields:
  "bus_ack (v4_data_bus no_input) = False" "bus_err (v4_data_bus no_input) = False" "bus_ack (v4_data_bus data_input) = True"
  "bus_err (v4_data_bus data_input) = False" "bus_dat_r (v4_data_bus data_input) = 0x77"
  by (simp_all add: v4_data_bus_def no_input_def data_input_def)

lemma lsu_load_moves:
  "x = (v4_data_bus no_input)\<lparr>request_valid := True, request_addr := 0, request_width := 8, request_write := False, request_store_value := v\<rparr> \<Longrightarrow>
     lsu3_tick 1024 x lsu3_reset = (lsu_load False)\<lparr>latched_store_value := v\<rparr>"
  "bus_ack x = False \<Longrightarrow> bus_err x = False \<Longrightarrow> lsu3_tick 1024 x (lsu_load False) = (lsu_load True)\<lparr>watchdog_counter := 1\<rparr>"
  by (simp_all add: lsu3_tick_def lsu_load_def lsu3_reset_def lsu_accept_def watchdog_next_def lsu_active_def effective_err_def
      watchdog_fire_def Let_def)

lemma not_cached_reset: "v2_dcache s = cache_reset \<Longrightarrow> \<not> v2_cached cfg s"
  by (simp add: v2_cached_def cache_lookup_hit_def cache_reset_def Let_def)

lemma memory_wait:
  assumes "at2 S2_MEMORY 0 front3_load (regs2 0 0) l cache_reset s" and "\<not> l_response_valid (v2_response v2_config no_input s)"
    and "lsu3_tick 1024 (v2_lsu_in no_input s) l = l'"
  shows "at2 S2_MEMORY 0 front3_load (regs2 0 0) l' cache_reset (v2_next_core v2_config no_input s)"
    and "v2_mem (v2_next_core v2_config no_input s) = v2_mem s" and "v2_lsu_started (v2_next_core v2_config no_input s)"
proof -
  have s: "v2_state s = S2_MEMORY" "v2_dcache s = cache_reset" "v2_fetch_phys s = 0" "v2_regs s = regs2 0 0"
    using assms(1) by (simp_all add: at2_def)
  have n: "v2_next_state v2_config no_input s = (s\<lparr>v2_lsu_started := True\<rparr>, quiet)"
    using s assms(2) not_cached_reset [of s v2_config] by (simp add: v2_next_state_def v2_do_memory_def v2_memory_ask_def Let_def)
  have a: "\<not> v2_answered v2_config no_input s" using assms(2) by (simp add: v2_answered_def)
  have p: "\<not> write_stb (v2_special_port s)" using s by (simp add: no_special)
  have f: "frontend3_tick (v2_timeout v2_config) (v2_fetch_in v2_config no_input s) front3_load = front3_load"
    using a s by (simp add: fetch_in2 v2_config_sel front3_load_moves)
  have l: "lsu3_tick (v2_timeout v2_config) (v2_lsu_in no_input s) l = l'" using assms(3) by (simp add: v2_config_sel)
  show "at2 S2_MEMORY 0 front3_load (regs2 0 0) l' cache_reset (v2_next_core v2_config no_input s)"
    using calm_step [OF assms(1) n quiet_still(1) p _ _ _ l cache_idle2 [OF a] f] s by simp
  show "v2_mem (v2_next_core v2_config no_input s) = v2_mem s" "v2_lsu_started (v2_next_core v2_config no_input s)"
    by (simp_all add: v2_next_sel n)
qed

lemma demo2_7: "at2 S2_MEMORY 0 front3_load (regs2 0 0) (lsu_load False) cache_reset (demo2 (demo2_memory @ [no_input])) \<and>
    v2_mem (demo2 (demo2_memory @ [no_input])) = q_load 0 8 2 (mem_default 2 0 0) \<and> v2_lsu_started (demo2 (demo2_memory @ [no_input]))"
proof -
  let ?s = "demo2 demo2_memory"
  have s: "v2_state ?s = S2_MEMORY" "v2_lsu ?s = lsu3_reset" using demo2_6(1) by (simp_all add: at2_def)
  have x: "v2_lsu_in no_input ?s = (v4_data_bus no_input)\<lparr>request_valid := True, request_addr := 0, request_width := 8,
      request_write := False, request_store_value := 0\<rparr>"
    using s demo2_6(2,3) by (simp add: v2_lsu_in_def q_load_def mem_default_def Let_def)
  have r: "\<not> l_response_valid (v2_response v2_config no_input ?s)"
    by (simp add: v2_response_def s lsu3_response_out_def lsu3_reset_def lsu_active_def last_beat_def Let_def)
  have l: "lsu3_tick 1024 (v2_lsu_in no_input ?s) lsu3_reset = lsu_load False"
    using lsu_load_moves(1) [OF x] by (simp add: lsu_load_def lsu3_reset_def)
  show ?thesis using memory_wait [OF demo2_6(1) r l] demo2_6(2) by (simp add: demo2_snoc)
qed

lemma demo2_8:
  defines "s \<equiv> demo2 (demo2_memory @ [no_input, no_input])"
  shows "at2 S2_MEMORY 0 front3_load (regs2 0 0) ((lsu_load True)\<lparr>watchdog_counter := 1\<rparr>) cache_reset s \<and>
    v2_mem s = q_load 0 8 2 (mem_default 2 0 0) \<and> v2_lsu_started s"
proof -
  let ?s = "demo2 (demo2_memory @ [no_input])"
  note at = demo2_7 [THEN conjunct1]
  have r: "\<not> l_response_valid (v2_response v2_config no_input ?s)"
    using at by (simp add: at2_def v2_response_def lsu3_response_out_def lsu_load_def Let_def)
  have l: "lsu3_tick 1024 (v2_lsu_in no_input ?s) (lsu_load False) = (lsu_load True)\<lparr>watchdog_counter := 1\<rparr>"
    by (rule lsu_load_moves(2)) (simp_all add: v2_lsu_in_def bus_fields Let_def)
  show ?thesis
    using memory_wait [OF at r l] demo2_7 demo2_snoc [of "demo2_memory @ [no_input]" no_input] by (simp add: s_def)
qed

definition demo2_answer :: "v4_in list" where "demo2_answer = demo2_memory @ [no_input, no_input]"

lemma demo2_response:
  "v2_response v2_config data_input (demo2 demo2_answer) =
     \<lparr>l_request_ready = False, l_response_valid = True, l_response_error = False, l_load_value = 0x77\<rparr>"
  using demo2_8 bus_fields
  by (simp add: demo2_answer_def at2_def v2_response_def lsu3_response_out_def v2_config_sel lsu_load_def lsu3_reset_def lsu_active_def
      last_beat_def lsu_split_def lsu_sel_def lsu_base_sel_def lsu_off_def byte_offset_def split_needed_def second_beat_sel_def shifted_sel_def effective_err_def
      watchdog_fire_def lsu_load_value_def single_read_data_def load_result_def bslice_def Let_def)

lemma demo2_9:
  defines "s \<equiv> demo2 (demo2_answer @ [data_input])"
  shows "at2 S2_WRITEBACK 0 front3_load (regs2 0 0) lsu_loaded cache_loaded s \<and>
    v2_wb s = wb_memory True 0x77 0 (q_load 0 8 2 (mem_default 2 0 0))"
proof -
  let ?s = "demo2 demo2_answer"
  have at: "at2 S2_MEMORY 0 front3_load (regs2 0 0) ((lsu_load True)\<lparr>watchdog_counter := 1\<rparr>) cache_reset ?s"
    and q: "v2_mem ?s = q_load 0 8 2 (mem_default 2 0 0)" "v2_lsu_started ?s" using demo2_8 by (simp_all add: demo2_answer_def)
  have s: "v2_state ?s = S2_MEMORY" "v2_dcache ?s = cache_reset" "v2_fetch_phys ?s = 0" "v2_regs ?s = regs2 0 0"
    "v2_lsu ?s = (lsu_load True)\<lparr>watchdog_counter := 1\<rparr>"
    using at by (simp_all add: at2_def)
  have pc: "v2_execute_pc ?s = 0" using v2_reachable_inv [OF demo2_reachable, of demo2_answer] s by (simp add: v2_inv_def mem_place_def v2_pc_def)
  have qf: "q_chain_store (v2_mem ?s) = False" "q_write (v2_mem ?s) = False" "q_set_reservation (v2_mem ?s) = False" "q_rd (v2_mem ?s) = 2"
    "q_addr (v2_mem ?s) = 0" "q_width_bytes (v2_mem ?s) = 8"
    by (simp_all add: q q_load_def mem_default_def)
  have n: "v2_next_state v2_config data_input ?s =
      (?s\<lparr>v2_wb := wb_memory True 0x77 0 (q_load 0 8 2 (mem_default 2 0 0)), v2_state := S2_WRITEBACK\<rparr>, quiet)"
    using s qf pc not_cached_reset [of ?s v2_config] q
    by (simp add: v2_next_state_def v2_do_memory_def v2_memory_ask_def v2_memory_answer_def v2_reserve_def v2_memory_result_def
        v2_store_overlaps_reservation_def demo2_response Let_def)
  have p: "\<not> write_stb (v2_special_port ?s)" using s by (simp add: no_special)
  have f: "frontend3_tick (v2_timeout v2_config) (v2_fetch_in v2_config data_input ?s) front3_load = front3_load"
    using s qf by (simp add: fetch_in2 v2_config_sel front3_load_moves)
  have l: "lsu3_tick (v2_timeout v2_config) (v2_lsu_in data_input ?s) ((lsu_load True)\<lparr>watchdog_counter := 1\<rparr>) = lsu_loaded"
    by (simp add: v2_lsu_in_def bus_fields v2_config_sel lsu3_tick_def lsu_loaded_def lsu_load_def lsu3_reset_def lsu_split_def lsu_sel_def lsu_base_sel_def
        lsu_off_def byte_offset_def split_needed_def second_beat_sel_def shifted_sel_def effective_err_def watchdog_fire_def watchdog_next_def lsu_active_def bslice_def Let_def)
  have c: "cache_tick v2_dcache_bits (v2_dcache_cmd v2_config data_input ?s) cache_reset = cache_loaded"
    using s qf
    by (simp add: cache_tick_def v2_dcache_cmd_def v2_answered_def demo2_response port_def v2_cacheable_fill_def v2_config_sel v2_byte_offset_def
        v2_dcache_bits_def cache_loaded_def line_of_def bslice_def Let_def)
  show ?thesis
    using calm_step [OF at n quiet_still(1) p _ _ _ l c f] s demo2_snoc [of demo2_answer data_input] by (simp add: s_def v2_next_sel n)
qed

lemma loaded_idle: "idle2 lsu_loaded"
  by (simp add: idle2_def lsu_loaded_def lsu_load_def lsu3_reset_def)

definition demo2_loaded :: "v4_in list" where "demo2_loaded = demo2_answer @ [data_input, no_input]"

text \<open>The load that answered commits in the next cycle, at R15.\<close>

lemma demo2_reaches_writeback: "v2_state (demo2 (demo2_answer @ [data_input])) = S2_WRITEBACK" "v2_regs (demo2 (demo2_answer @ [data_input])) 15 = 0"
  using demo2_9 by (simp_all add: at2_def)

text \<open>A core whose first fetch is answered with an error has locked up.\<close>

lemma demo2_locked_up: "v2_locked_up (demo2 [no_input, no_input, error_input])"
proof -
  have "at2 S2_FETCH_REQUEST 0 (frontend3_tick 1024 (fetch_cycle 0 False no_input) front3_asked) (regs2 0 0) lsu3_reset cache_reset
      (demo2 [no_input, no_input])"
    using translate_step [OF demo2_1 [THEN conjunct1] _ lsu_reset_idle, of v2_config no_input] demo2_1 demo2_snoc [of "[no_input]"]
    by (simp add: v2_config_sel)
  then have s: "v2_state (demo2 [no_input, no_input]) = S2_FETCH_REQUEST" "v2_fetch_phys (demo2 [no_input, no_input]) = 0"
    "f3_req_valid (v2_frontend (demo2 [no_input, no_input]))" "\<not> f3_req_cancelled (v2_frontend (demo2 [no_input, no_input]))"
    by (simp_all add: at2_def frontend3_tick_def fetch_cycle_def no_input_def front3_asked_def frontend3_reset_def watchdog_fire3_def Let_def)
  then have "fetch_error3 (v2_timeout v2_config) (v2_fetch_bus error_input (demo2 [no_input, no_input])) (v2_frontend (demo2 [no_input, no_input]))"
    by (simp add: fetch_error3_def v2_fetch_bus_def error_input_def)
  then show ?thesis
    using s demo2_snoc [of "[no_input, no_input]" error_input]
    by (simp add: v2_next_sel v2_next_state_def v2_do_fetch_request_def v2_enter_lockup_def Let_def)
qed

lemma v2_commit_order_witness:
  "v2_commit v2_config no_input (demo2 (demo2_answer @ [data_input])) = Some 0 \<and>
   (let s = demo2 [no_input, no_input, error_input] in
      v2_commits v2_config [no_input] s = [] \<and> v2_frozen s (v2_run v2_config [no_input] s))"
  using v2_commit_order [OF demo2_reachable, of no_input "demo2_answer @ [data_input]" "[]"] demo2_reaches_writeback
    v2_commit_order [OF demo2_reachable, of no_input "[no_input, no_input, error_input]" "[no_input]"] demo2_locked_up
  unfolding Let_def port_def by presburger

lemma demo2_10: "at2 S2_FETCH_TRANSLATE 0 front3_load (regs2 0x77 2) lsu_loaded cache_loaded (demo2 demo2_loaded) \<and>
    v2_translate_va (demo2 demo2_loaded) = 2"
proof -
  let ?s = "demo2 (demo2_answer @ [data_input])"
  note at = demo2_9 [THEN conjunct1]
  have s: "v2_state ?s = S2_WRITEBACK" "v2_regs ?s = regs2 0 0" "v2_flags ?s = 0" using at by (simp_all add: at2_def)
  obtain t where n: "v2_next_state v2_config no_input ?s = (t, committing)" and t: "t = fst (v2_do_writeback ?s)"
    using s by (simp add: v2_next_state_def v2_do_writeback_def Let_def)
  have d: "v2_state t = S2_FETCH_TRANSLATE" "v2_fetch_phys t = v2_fetch_phys ?s" "v2_regs t = regs2 0x77 2" "v2_flags t = 0"
    "v2_ll_valid t = v2_ll_valid ?s" "v2_translate_va t = 2"
    using s demo2_9 unfolding t
    by (simp_all add: v2_do_writeback_def wb_memory_def v2_write_reg_def v2_memory_next_pc_def q_load_def mem_default_def fun_eq_iff Let_def)
  show ?thesis
    using outside_step [OF at n quiet_still(2) no_special _ _ _ _ loaded_idle] s d at demo2_snoc [of "demo2_answer @ [data_input]" no_input]
    by (simp add: v2_config_sel v2_next_sel n front3_load_moves demo2_loaded_def at2_def)
qed

lemma demo2_11: "at2 S2_FETCH_REQUEST 2 front3_load (regs2 0x77 2) lsu_loaded cache_loaded (demo2 (demo2_loaded @ [no_input]))"
  using translate_step [OF demo2_10 [THEN conjunct1] _ loaded_idle, of v2_config no_input] demo2_10
  by (simp add: demo2_snoc v2_config_sel front3_load_moves)

lemma demo2_12: "at2 S2_DECODE 2 front3_load (regs2 0x77 2) lsu_loaded cache_loaded (demo2 (demo2_loaded @ [no_input, no_input])) \<and>
    v2_instruction (demo2 (demo2_loaded @ [no_input, no_input])) = 0x4BE3"
  using request_step [OF demo2_11 loaded_idle, of v2_config no_input] demo2_snoc [of "demo2_loaded @ [no_input]" no_input]
  by (simp add: v2_config_sel front3_load_moves front3_load_out)

definition demo2_push :: "v4_in list" where "demo2_push = demo2_loaded @ [no_input, no_input, no_input]"

lemma demo2_13: "at2 S2_EXECUTE 2 front3_load (regs2 0x77 2) lsu_loaded cache_loaded (demo2 demo2_push)"
  "v2_execute_instruction (demo2 demo2_push) = 0x4BE3"
  using decode_step [OF demo2_12 [THEN conjunct1] loaded_idle, of v2_config no_input] demo2_12 demo2_snoc [of "demo2_loaded @ [no_input, no_input]" no_input]
  by (simp_all add: v2_config_sel front3_load_moves demo2_push_def)

lemma push_effect: "v2_effect v2_config (demo2 demo2_push) = E_Mem (M_Copy_Push 0 0xFFFFFFFFFFFFFFF8 3)"
  using demo2_operands [OF demo2_13(1)] demo2_13(2)
  by (simp add: v2_effect_def demo_words x_operands_def is_load_def is_store_def instruction_field_defs bslice_def Let_def)

definition demo2_hit :: "v4_in list" where "demo2_hit = demo2_push @ [no_input, no_input]"

lemma demo2_14: "at2 S2_MEM_TRANSLATE 2 front3_load (regs2 0x77 2) lsu_loaded cache_loaded (demo2 (demo2_push @ [no_input]))"
  "v2_mem (demo2 (demo2_push @ [no_input])) = mem_of (M_Copy_Push 0 0xFFFFFFFFFFFFFFF8 3) (mem_default 4 2 0)"
  using issue_step [OF demo2_13(1) loaded_idle _ push_effect, of no_input] demo2_13(2) demo2_operands [OF demo2_13(1)]
  by (simp_all add: demo2_snoc v2_config_sel front3_load_moves demo_words)

lemma demo2_15: "at2 S2_MEMORY 2 front3_load (regs2 0x77 2) lsu_loaded cache_loaded (demo2 demo2_hit)"
  "v2_mem (demo2 demo2_hit) = mem_of (M_Copy_Push 0 0xFFFFFFFFFFFFFFF8 3) (mem_default 4 2 0)" "\<not> v2_lsu_started (demo2 demo2_hit)"
  using mem_translate_step [OF demo2_14(1) loaded_idle, of v2_config no_input] demo2_14(2) demo2_snoc [of "demo2_push @ [no_input]" no_input]
  by (simp_all add: demo2_hit_def v2_config_sel front3_load_moves mem_default_def)

text \<open>The push finds its operand in the data cache.\<close>

lemma demo2_cached: "v2_cached v2_config (demo2 demo2_hit) \<and> \<not> l_response_valid (v2_response v2_config i (demo2 demo2_hit))"
  using demo2_15
  by (simp add: at2_def v2_cached_def v2_config_sel v2_single_line_access_def v2_byte_offset_def cache_lookup_hit_def cache_loaded_def cache_fill_def
      cache_index_def line_of_def v2_dcache_bits_def mem_default_def bslice_def v2_response_def lsu3_response_out_def lsu_loaded_def
      lsu_load_def lsu3_reset_def lsu_active_def last_beat_def Let_def)

end
