(* ===== verification/V2_Run.thy ===== *)
theory V2_Run
  imports V2_Demo
begin

text \<open>
  One instruction of the v2 core from its execute state to the next fetch: instructions without a
  memory access take two or three cycles whatever happens outside; a memory operation is carried
  through translation and its one or two accesses.
\<close>

section \<open>Instructions without a memory access\<close>

text \<open>What such an instruction writes: a register, the flags, the program counter.\<close>

fun v2_result :: "core_config \<Rightarrow> v2_core \<Rightarrow> effect \<Rightarrow> ((reg_index \<times> u64) option \<times> 3 word option \<times> u64) option" where
  "v2_result cfg s (E_Write p f pc) = Some (p, f, pc)"
| "v2_result cfg s E_Sc_Fail = Some (None, Some (set_z False (v2_flags s)), v2_regs s 15 + 2)"
| "v2_result cfg s (E_Read_Special r) =
     Some (Some (r, sr_read_data cfg (v2_sregs s) (bslice 0 (v2_regs s (instruction_rs1 (v2_execute_instruction s))))), None, v2_regs s 15 + 2)"
| "v2_result cfg s E_Write_Special = Some (None, None, v2_regs s 15 + 2)"
| "v2_result cfg s _ = None"

text \<open>The core is ready for the instruction at \<open>pc\<close>, with these registers and flags.\<close>

definition v2_ready :: "v2_core \<Rightarrow> u64 \<Rightarrow> regfile \<Rightarrow> 3 word \<Rightarrow> bool" where
  "v2_ready t pc rs fl \<longleftrightarrow> v2_state t = S2_FETCH_TRANSLATE \<and> v2_translate_va t = pc \<and> v2_regs t = rs(15 := pc) \<and> v2_flags t = fl"

definition flags_or :: "3 word option \<Rightarrow> 3 word \<Rightarrow> 3 word" where
  "flags_or f fl = (case f of Some g \<Rightarrow> g | None \<Rightarrow> fl)"

lemma writeback_step:
  assumes "v2_inv s" and "v2_state s = S2_WRITEBACK" and "wb_stands (v2_wb s) p f pc (v2_regs s 15)"
  shows "v2_ready (v2_next_core cfg i s) pc (write_port p (v2_regs s)) (flags_or f (v2_flags s)) \<and>
     v2_commit cfg i s = Some (v2_regs s 15)"
proof -
  have r: "v2_regs (v2_next_core cfg i s) = v2_regs (fst (v2_next_state cfg i s))" using assms(1) by (simp add: next_regs v2_inv_def)
  show ?thesis
    using assms(2,3)
    by (cases "wb_reg_write (v2_wb s)"; cases "wb_flags_write (v2_wb s)")
      (simp_all add: v2_ready_def r v2_next_sel(1,2,16) v2_next_state_def v2_do_writeback_def wb_stands_def v2_write_reg_def
        write_port_def flags_or_def v2_commit_iff port_def Let_def)
qed

lemma complete_step:
  assumes "v2_inv s" and "v2_state s = S2_EXECUTE_COMPLETE"
  shows "v2_state (v2_next_core cfg i s) = S2_WRITEBACK" "v2_wb (v2_next_core cfg i s) = wb_coming s"
    "same_arch s (v2_next_core cfg i s)" "v2_commit cfg i s = None"
  using assms
  by (simp_all add: v2_next_sel(1,2,13) next_regs v2_inv_def v2_next_state_def wb_coming_def v2_do_execute_complete_def
      v2_write_back_def same_arch_def v2_commit_iff port_def Let_def)

lemma writes_run:
  assumes I: "v2_inv s" and st: "v2_state s = S2_EXECUTE" and w: "v2_writes s p f pc (v2_do_execute cfg s)"
  shows "\<exists>n \<le> 3. \<forall>is. length is = n \<longrightarrow>
     v2_ready (v2_run cfg is s) pc (write_port p (v2_regs s)) (flags_or f (v2_flags s)) \<and> v2_commits cfg is s = [v2_regs s 15]"
proof -
  have pc: "v2_execute_pc s = v2_regs s 15" using I st by (simp add: v2_inv_def v2_pc_def)
  have nx: "v2_next_state cfg i s = v2_do_execute cfg s" for i using st by (simp add: v2_next_state_def)
  have a: "same_arch s (v2_next_core cfg i s)" for i
    using w I by (simp add: same_arch_def next_regs v2_next_sel(2) nx v2_writes_def keeps_regs_def v2_inv_def)
  have c: "v2_commit cfg i s = None" for i using st by (simp add: v2_commit_iff port_def)
  have J: "v2_inv (v2_next_core cfg i s)" for i using I by (rule v2_inv_tick)
  consider "v2_state (fst (v2_do_execute cfg s)) = S2_WRITEBACK" | "v2_state (fst (v2_do_execute cfg s)) = S2_EXECUTE_COMPLETE"
    using w by (auto simp: v2_writes_def)
  then show ?thesis
  proof cases
    case 1
    have b: "v2_state (v2_next_core cfg i s) = S2_WRITEBACK" "wb_stands (v2_wb (v2_next_core cfg i s)) p f pc (v2_regs s 15)" for i
      using 1 w pc by (simp_all add: v2_next_sel(1,13) nx v2_writes_def wb_coming_def)
    have "v2_ready (v2_run cfg [i, j] s) pc (write_port p (v2_regs s)) (flags_or f (v2_flags s)) \<and> v2_commits cfg [i, j] s = [v2_regs s 15]" for i j
    proof -
      have e: "v2_regs (v2_next_core cfg i s) = v2_regs s" "v2_flags (v2_next_core cfg i s) = v2_flags s"
        using a [of i] by (simp_all add: same_arch_def)
      have "wb_stands (v2_wb (v2_next_core cfg i s)) p f pc (v2_regs (v2_next_core cfg i s) 15)" using b(2) e by simp
      from writeback_step [OF J b(1) this, of cfg j] show ?thesis by (simp add: e c)
    qed
    then show ?thesis by (intro exI [of _ 2]) (auto simp: numeral_2_eq_2 length_Suc_conv)
  next
    case 2
    have b: "v2_state (v2_next_core cfg i s) = S2_EXECUTE_COMPLETE" "wb_stands (wb_coming (v2_next_core cfg i s)) p f pc (v2_regs s 15)" for i
      using 2 w pc by (simp_all add: v2_next_sel nx v2_writes_def wb_coming_def v2_do_execute_complete_def v2_write_back_def Let_def)
    have "v2_ready (v2_run cfg [i, j, k] s) pc (write_port p (v2_regs s)) (flags_or f (v2_flags s)) \<and> v2_commits cfg [i, j, k] s = [v2_regs s 15]"
      for i j k
    proof -
      let ?t = "v2_next_core cfg i s" and ?u = "v2_next_core cfg j (v2_next_core cfg i s)"
      note C = complete_step [OF J b(1), where cfg = cfg and i = j]
      have e: "v2_regs ?t = v2_regs s" "v2_flags ?t = v2_flags s" using a [of i] by (simp_all add: same_arch_def)
      have e': "v2_regs ?u = v2_regs s" "v2_flags ?u = v2_flags s" using C(3) [of i] e by (simp_all add: same_arch_def)
      have "wb_stands (v2_wb ?u) p f pc (v2_regs ?u 15)" using b(2) [of i] e' C(2) by simp
      from writeback_step [OF v2_inv_tick [OF J] C(1) this, of cfg k] show ?thesis by (simp add: e' c C(4))
    qed
    then show ?thesis by (intro exI [of _ 3]) (auto simp: numeral_3_eq_3 length_Suc_conv)
  qed
qed

lemma execute_operands:
  assumes "v2_inv s" and "v2_state s = S2_EXECUTE"
  shows "v2_effect cfg s = isa_execute (decode (v2_execute_instruction s))
      (arch_operands (v2_x cfg s) (v2_regs s) (v2_flags s) (v2_execute_instruction s) (v2_regs s 15))"
proof -
  have "v2_execute_pc s = v2_regs s 15" "v2_a s = v2_regs s (instruction_rd (v2_execute_instruction s))"
    "v2_b s = v2_regs s (instruction_rs1 (v2_execute_instruction s))" using assms by (simp_all add: v2_inv_def v2_pc_def)
  then show ?thesis by (simp add: v2_effect_def arch_operands_def x_operands_def)
qed

text \<open>
  Property C10: For every instruction word the execute state of a reachable v2 core carries out
  the effect of the specification on the architected registers, flags and R15, with one departure:
  a failing store-conditional clears Z but keeps the reservation, which the instruction set
  clears. An instruction without a memory access, trap, return or halt has, two or three cycles
  later and whatever the inputs, committed once, at R15, with the register file, flags and program
  counter of that effect.
\<close>

lemma v2_instruction_isa:
  assumes "v2_reachable cfg s" and "v2_state s = S2_EXECUTE"
  shows "let w = v2_execute_instruction s;
       e = isa_execute (decode w) (arch_operands (v2_x cfg s) (v2_regs s) (v2_flags s) w (v2_regs s 15)) in
     v2_carries cfg s e (v2_next_state cfg i s) \<and>
     (e = E_Sc_Fail \<longrightarrow> (let t = v2_next_core cfg i s in v2_ll_valid t = v2_ll_valid s \<and> v2_ll_addr t = v2_ll_addr s)) \<and>
     (case v2_result cfg s e of
        Some (p, f, pc) \<Rightarrow> \<exists>n \<le> 3. \<forall>is. length is = n \<longrightarrow>
          v2_ready (v2_run cfg is s) pc (write_port p (v2_regs s)) (flags_or f (v2_flags s)) \<and> v2_commits cfg is s = [v2_regs s 15]
      | None \<Rightarrow> True)"
proof -
  have I: "v2_inv s" using assms(1) by (rule v2_reachable_inv)
  then have r: "v2_execute_pc s = v2_regs s 15" "v2_b s = v2_regs s (instruction_rs1 (v2_execute_instruction s))"
    using assms(2) by (simp_all add: v2_inv_def v2_pc_def)
  note c = v2_execute_carries [OF assms(2), of cfg] and run = writes_run [OF I assms(2)]
  show ?thesis
    unfolding Let_def execute_operands [OF I assms(2), of cfg, symmetric]
    using c run r assms(2)
    by (cases "v2_effect cfg s") (simp_all add: v2_next_state_def v2_writes_def keeps_regs_def v2_next_sel)
qed

lemma v2_instruction_isa_witness:
  "v2_carries v2_config (demo2 demo2_execute) (E_Mem (M_Load 0 8 2)) (v2_next_state v2_config no_input (demo2 demo2_execute))"
proof -
  have st: "v2_state (demo2 demo2_execute) = S2_EXECUTE" using demo2_4(1) by (simp add: at2_def)
  show ?thesis
    using v2_instruction_isa [OF demo2_reachable st, of no_input]
      execute_operands [OF v2_reachable_inv [OF demo2_reachable] st, of v2_config] demo2_effect
    by (simp only: Let_def)
qed

section \<open>Memory operations\<close>

text \<open>The second access of the PC-relative push and pop stores the loaded value.\<close>

definition mem_second :: "u64 \<Rightarrow> v2_mem \<Rightarrow> v2_mem" where
  "mem_second v q = q\<lparr>q_addr := q_chain_store_addr q, q_virtual_addr := q_chain_store_addr q, q_width_bytes := 8, q_write := True,
     q_store_value := v, q_rd := 0, q_set_reservation := False, q_chain_store := False, q_chain_store_use_load_result := False,
     q_chain_store_value := 0, q_result_value := v\<rparr>"

definition mem_base :: "v2_core \<Rightarrow> v2_mem" where "mem_base s = mem_default (v2_regs s 15 + 2) (v2_regs s 15) (v2_flags s)"

text \<open>The memory registers at the first or second access of \<open>op\<close>; \<open>q_addr\<close> is translated on the way.\<close>

definition first_of :: "mem_op \<Rightarrow> v2_core \<Rightarrow> bool" where
  "first_of op s \<longleftrightarrow> (\<exists>a. v2_mem s = (mem_of op (mem_base s))\<lparr>q_addr := a\<rparr>)"
definition second_of :: "mem_op \<Rightarrow> u64 \<Rightarrow> v2_core \<Rightarrow> bool" where
  "second_of op v s \<longleftrightarrow> op_second_access op \<noteq> None \<and> (\<exists>a. v2_mem s = (mem_second v (mem_of op (mem_base s)))\<lparr>q_addr := a\<rparr>)"

definition v2_in_memory :: "v2_core \<Rightarrow> bool" where
  "v2_in_memory s \<longleftrightarrow> v2_state s = S2_MEM_TRANSLATE \<or> v2_state s = S2_MEMORY \<or>
     (v2_state s = S2_WALK \<or> v2_state s = S2_WALK_PROCESS) \<and> k_resume (v2_walk s) = RK_MEMORY"

definition mem_phase :: "core_config \<Rightarrow> v2_core \<Rightarrow> bool" where
  "mem_phase cfg s \<longleftrightarrow> (\<exists>op. v2_effect cfg s = E_Mem op \<and> (first_of op s \<or> (\<exists>v. second_of op v s)))"

text \<open>Neither the mode nor the special registers matter to a memory operation.\<close>

lemma isa_mem_frame:
  assumes "isa_execute i e = E_Mem op" and "op_a d = op_a e" and "op_b d = op_b e" and "op_flags d = op_flags e"
    and "op_next d = op_next e" and "op_reserved d = op_reserved e"
  shows "isa_execute i d = E_Mem op"
  using assms
  by (cases i) (auto simp: pc_view_def Let_def split: if_splits prod.splits)

definition mem_frame :: "v2_core \<Rightarrow> v2_core \<Rightarrow> bool" where
  "mem_frame s t \<longleftrightarrow> v2_execute_instruction t = v2_execute_instruction s \<and> v2_a t = v2_a s \<and> v2_b t = v2_b s \<and>
     v2_flags t = v2_flags s \<and> v2_ll_valid t = v2_ll_valid s \<and> v2_ll_addr t = v2_ll_addr s \<and>
     v2_execute_pc t = v2_execute_pc s \<and> v2_regs t = v2_regs s"

lemma effect_frame:
  assumes "mem_frame s t" and "v2_effect cfg s = E_Mem op"
  shows "v2_effect cfg t = E_Mem op"
proof -
  have w: "v2_execute_instruction t = v2_execute_instruction s" using assms(1) by (simp add: mem_frame_def)
  have "x_ll_valid (v2_x cfg u) = v2_ll_valid u" "x_ll_addr (v2_x cfg u) = v2_ll_addr u" for u by (simp_all add: v2_x_def Let_def)
  then have "op_reserved (x_operands (v2_x cfg t)) = op_reserved (x_operands (v2_x cfg s))" using assms(1) by (simp add: mem_frame_def)
  then show ?thesis
    using assms(2) unfolding v2_effect_def w
    by (rule isa_mem_frame [rotated 5]) (use assms(1) in \<open>simp_all add: mem_frame_def\<close>)
qed

lemma base_frame: "mem_frame s t \<Longrightarrow> mem_base t = mem_base s"
  by (simp add: mem_frame_def mem_base_def)

lemma first_frame: "mem_frame s t \<Longrightarrow> first_of op s \<Longrightarrow> v2_mem t = (v2_mem s)\<lparr>q_addr := a\<rparr> \<Longrightarrow> first_of op t"
  using base_frame [of s t] by (auto simp: first_of_def intro: exI [of _ a])

lemma second_frame: "mem_frame s t \<Longrightarrow> second_of op v s \<Longrightarrow> v2_mem t = (v2_mem s)\<lparr>q_addr := a\<rparr> \<Longrightarrow> second_of op v t"
  using base_frame [of s t] by (auto simp: second_of_def intro: exI [of _ a])

lemma phase_frame:
  assumes "mem_phase cfg s" and "mem_frame s t" and "v2_mem t = (v2_mem s)\<lparr>q_addr := a\<rparr>"
  shows "mem_phase cfg t"
  using assms(1) effect_frame [OF assms(2), of cfg] first_frame [OF assms(2) _ assms(3)] second_frame [OF assms(2) _ assms(3)]
  unfolding mem_phase_def by blast

lemma not_memory:
  "\<not> v2_in_memory (fst (v2_trap tv pc a x y s))" "\<not> v2_in_memory (fst (v2_enter_lockup t))"
  "\<not> v2_in_memory (fst (v2_begin_entry v e st s))" "\<not> v2_in_memory (fst (v2_walk_fail tv sub l s))"
  by (simp_all add: v2_trap_def v2_enter_lockup_def v2_begin_entry_def v2_walk_fail_def v2_in_memory_def Let_def)

lemma same_addr: "\<exists>a. q = q\<lparr>q_addr := a\<rparr>"
  by (intro exI [of _ "q_addr q"]) simp

text \<open>The states between the execute and writeback states keep the frame.\<close>

definition memory_moves :: "v2_core \<Rightarrow> v2_core \<Rightarrow> bool" where
  "memory_moves s t \<longleftrightarrow> (v2_in_memory t \<longrightarrow> mem_frame s t \<and> (\<exists>a. v2_mem t = (v2_mem s)\<lparr>q_addr := a\<rparr>))"

lemma not_memory_moves: "\<not> v2_in_memory t \<Longrightarrow> memory_moves s t"
  by (simp add: memory_moves_def)

lemmas not_memory_moves_rules = not_memory [THEN not_memory_moves]

lemma mem_translate_moves: "memory_moves s (fst (v2_do_mem_translate cfg s))"
  by (simp add: v2_do_mem_translate_def not_memory_moves_rules Let_def)
    (auto simp: memory_moves_def mem_frame_def v2_start_walk_def same_addr)

lemma walk_moves: "memory_moves s (fst (v2_do_walk cfg i s))"
  by (simp add: v2_do_walk_def not_memory_moves_rules Let_def) (auto simp: memory_moves_def mem_frame_def same_addr)

lemma walk_process_moves: "memory_moves s (fst (v2_do_walk_process cfg s))"
proof -
  have "memory_moves s (fst (v2_walk_succeed cfg s))"
    by (auto simp: v2_walk_succeed_def memory_moves_def mem_frame_def same_addr v2_in_memory_def Let_def split: resume_kind.splits)
  then show ?thesis
    by (simp add: v2_do_walk_process_def not_memory_moves_rules Let_def) (auto simp: memory_moves_def mem_frame_def same_addr)
qed

lemma chain_first:
  assumes "first_of op s"
  shows "q_chain_store (v2_mem s) \<longleftrightarrow> op_second_access op \<noteq> None"
    and "q_chain_store (v2_mem s) \<Longrightarrow> \<not> q_write (v2_mem s) \<and> \<not> q_set_reservation (v2_mem s) \<and> q_chain_store_use_load_result (v2_mem s)"
  using assms by (cases op; auto simp: first_of_def q_load_def q_store_def mem_base_def mem_default_def)+

lemma no_chain_second: "second_of op v s \<Longrightarrow> \<not> q_chain_store (v2_mem s)"
  by (auto simp: second_of_def mem_second_def)

lemma memory_asked:
  assumes "v2_state s = S2_MEMORY" and "\<not> l_response_valid (v2_response cfg i s)"
  shows "memory_moves s (fst (v2_do_memory cfg i s))"
  using assms
  by (auto simp: v2_do_memory_def v2_memory_ask_def v2_reserve_def memory_moves_def mem_frame_def v2_in_memory_def same_addr Let_def)

lemma memory_chained:
  assumes "first_of op s" and "q_chain_store (v2_mem s)" and "l_response_valid (v2_response cfg i s)"
    and "\<not> l_response_error (v2_response cfg i s)"
  shows "mem_frame s (fst (v2_do_memory cfg i s))" "second_of op (l_load_value (v2_response cfg i s)) (fst (v2_do_memory cfg i s))"
    "v2_state (fst (v2_do_memory cfg i s)) = S2_MEM_TRANSLATE"
proof -
  note C = chain_first [OF assms(1)]
  let ?t = "fst (v2_do_memory cfg i s)" and ?v = "l_load_value (v2_response cfg i s)"
  have n: "\<not> v2_store_overlaps_reservation s" using C(2) assms(2) by (simp add: v2_store_overlaps_reservation_def Let_def)
  have r: "v2_reserve s t = t" for t using C(2) assms(2) by (simp add: v2_reserve_def)
  show f: "mem_frame s ?t"
    using assms n r by (simp add: v2_do_memory_def v2_memory_answer_def v2_memory_ask_def mem_frame_def Let_def)
  have "v2_mem ?t = (mem_second ?v (v2_mem s))"
    using assms C(2) n r by (simp add: v2_do_memory_def v2_memory_answer_def v2_memory_ask_def mem_second_def Let_def)
  then show "second_of op ?v ?t"
    using C(1) assms(1,2) base_frame [OF f]
    by (auto simp: second_of_def first_of_def mem_second_def intro!: exI [of _ "q_chain_store_addr (v2_mem s)"])
  show "v2_state ?t = S2_MEM_TRANSLATE"
    using assms n r by (simp add: v2_do_memory_def v2_memory_answer_def Let_def)
qed

lemma memory_done_leaves:
  assumes "\<not> q_chain_store (v2_mem s)" and "l_response_valid (v2_response cfg i s)"
  shows "\<not> v2_in_memory (fst (v2_do_memory cfg i s))"
  using assms by (simp add: v2_do_memory_def not_memory v2_memory_answer_def Let_def) (simp add: v2_in_memory_def)

lemma in_memory_from:
  assumes "v2_in_memory (fst (v2_next_state cfg i s))"
  shows "v2_state s = S2_EXECUTE \<or> v2_in_memory s"
proof (cases "v2_state s")
  case S2_FETCH_TRANSLATE
  then show ?thesis using assms
    by (simp add: v2_next_state_def v2_do_fetch_translate_def not_memory Let_def split: option.splits if_splits)
      (simp_all add: v2_in_memory_def v2_start_walk_def)
next
  case S2_WALK
  then show ?thesis using assms
    by (simp add: v2_next_state_def v2_do_walk_def not_memory Let_def split: if_splits) (simp_all add: v2_in_memory_def)
next
  case S2_WALK_PROCESS
  have "v2_in_memory (fst (v2_walk_succeed cfg s)) \<Longrightarrow> k_resume (v2_walk s) = RK_MEMORY"
    by (simp add: v2_walk_succeed_def v2_in_memory_def Let_def split: resume_kind.splits)
  then show ?thesis using assms S2_WALK_PROCESS
    by (simp add: v2_next_state_def v2_do_walk_process_def not_memory Let_def split: if_splits) (simp_all add: v2_in_memory_def)
next
  case S2_VECTOR_TRANSLATE
  then show ?thesis using assms
    by (simp add: v2_next_state_def v2_do_vector_translate_def not_memory Let_def split: if_splits)
      (simp_all add: v2_in_memory_def v2_start_walk_def)
next
  case S2_VECTOR_LOAD
  then show ?thesis using assms
    by (simp add: v2_next_state_def v2_do_vector_load_def not_memory Let_def split: if_splits) (simp_all add: v2_in_memory_def)
next
  case S2_FETCH_REQUEST
  then show ?thesis using assms
    by (simp add: v2_next_state_def v2_do_fetch_request_def not_memory Let_def split: if_splits) (simp_all add: v2_in_memory_def)
qed (use assms in \<open>simp_all add: v2_in_memory_def v2_next_state_def v2_do_reset_def v2_do_decode_def v2_do_execute_complete_def
    v2_write_back_def v2_do_writeback_def Let_def split: if_splits\<close>)

lemma execute_issues:
  assumes "v2_inv s" and "v2_state s = S2_EXECUTE" and "v2_in_memory (fst (v2_do_execute cfg s))"
  shows "\<exists>op. v2_effect cfg s = E_Mem op \<and> mem_frame s (fst (v2_do_execute cfg s)) \<and> first_of op (fst (v2_do_execute cfg s))"
proof -
  let ?t = "fst (v2_do_execute cfg s)"
  have pc: "v2_execute_pc s = v2_regs s 15" using assms(1,2) by (simp add: v2_inv_def v2_pc_def)
  note c = v2_execute_carries [OF assms(2), of cfg]
  show ?thesis
  proof (cases "v2_effect cfg s")
    case (E_Mem op)
    with c have m: "keeps_regs s ?t" "v2_mem ?t = mem_of op (mem_base s)" "v2_execute_pc ?t = v2_execute_pc s"
      by (simp_all add: mem_base_def pc)
    have f: "mem_frame s ?t" using m v2_execute_frame [of cfg s] by (simp add: mem_frame_def keeps_regs_def)
    have "first_of op ?t" unfolding first_of_def base_frame [OF f] m(2) by (rule same_addr)
    then show ?thesis using E_Mem f by blast
  next
    case (E_Trap tv)
    then show ?thesis using c assms(3) not_memory(1) by simp
  qed (use c assms(3) not_memory in \<open>auto simp: v2_writes_def v2_in_memory_def Let_def\<close>)
qed

lemma frame_units: "v2_regs s 0 = 0 \<Longrightarrow> mem_frame s (fst (v2_next_state cfg i s)) \<Longrightarrow> mem_frame s (v2_next_core cfg i s)"
  by (simp add: mem_frame_def v2_next_sel(1-18) next_regs)

lemma in_memory_units: "v2_in_memory (v2_next_core cfg i s) = v2_in_memory (fst (v2_next_state cfg i s))"
  by (simp add: v2_in_memory_def v2_next_sel)

lemma phase_units:
  assumes "v2_regs s 0 = 0" and "mem_phase cfg (fst (v2_next_state cfg i s))"
  shows "mem_phase cfg (v2_next_core cfg i s)"
proof -
  have "mem_frame (fst (v2_next_state cfg i s)) (v2_next_core cfg i s)"
    using assms(1) by (simp add: mem_frame_def v2_next_sel(1-18) next_regs)
  from phase_frame [OF assms(2) this, of "q_addr (v2_mem (v2_next_core cfg i s))"] show ?thesis by (simp add: v2_next_sel)
qed

lemma mem_phase_step:
  assumes I: "v2_inv s" and old: "v2_in_memory s \<Longrightarrow> mem_phase cfg s" and new: "v2_in_memory (fst (v2_next_state cfg i s))"
  shows "mem_phase cfg (fst (v2_next_state cfg i s))"
proof (cases "v2_state s = S2_EXECUTE")
  case True
  then have n: "v2_next_state cfg i s = v2_do_execute cfg s" by (simp add: v2_next_state_def)
  from execute_issues [OF I True, of cfg] new effect_frame show ?thesis unfolding n mem_phase_def by blast
next
  case False
  then have m: "v2_in_memory s" using in_memory_from [OF new] by blast
  then have p: "mem_phase cfg s" by (rule old)
  have *: "mem_phase cfg t" if "memory_moves s t" "v2_in_memory t" for t
    using that phase_frame [OF p] by (auto simp: memory_moves_def)
  show ?thesis
  proof (cases "v2_state s = S2_MEMORY")
    case False
    then have "v2_state s = S2_MEM_TRANSLATE \<or> v2_state s = S2_WALK \<or> v2_state s = S2_WALK_PROCESS"
      using m by (auto simp: v2_in_memory_def)
    then show ?thesis
      using * [OF _ new] mem_translate_moves [of s cfg] walk_moves [of s cfg i] walk_process_moves [of s cfg]
      by (auto simp: v2_next_state_def)
  next
    case True
    then have n: "v2_next_state cfg i s = v2_do_memory cfg i s" by (simp add: v2_next_state_def)
    show ?thesis
    proof (cases "l_response_valid (v2_response cfg i s)")
      case False
      then show ?thesis using * [OF _ new] memory_asked [OF True False] by (simp add: n)
    next
      case valid: True
      have ch: "q_chain_store (v2_mem s)" using new memory_done_leaves [OF _ valid] by (auto simp: n)
      have ok: "\<not> l_response_error (v2_response cfg i s)"
        using new valid not_memory(2) by (auto simp: n v2_do_memory_def Let_def split: if_splits)
      from p obtain op where op: "v2_effect cfg s = E_Mem op" "first_of op s"
        using ch no_chain_second unfolding mem_phase_def by blast
      note c = memory_chained [OF op(2) ch valid ok]
      show ?thesis using effect_frame [OF c(1) op(1)] c(2) unfolding n mem_phase_def by blast
    qed
  qed
qed

lemma mem_phase_inv: "v2_reachable cfg s \<Longrightarrow> v2_in_memory s \<Longrightarrow> mem_phase cfg s"
proof (induction rule: v2_reachable.induct)
  case reset
  then show ?case by (simp add: v2_in_memory_def v2_reset_def)
next
  case (tick s i)
  have I: "v2_inv s" using tick.hyps by (rule v2_reachable_inv)
  then have "v2_regs s 0 = 0" by (simp add: v2_inv_def)
  from phase_units [OF this mem_phase_step [OF I tick.IH]] tick.prems show ?case by (simp add: in_memory_units)
qed

section \<open>A memory operation is carried out\<close>

definition v2_access_of :: "v2_mem \<Rightarrow> u64 \<times> 4 word \<times> u64 option" where
  "v2_access_of q = (q_virtual_addr q, q_width_bytes q, port (q_write q) (q_store_value q))"

text \<open>The memory state obtains \<open>v\<close>: from the data cache, or from the load-store unit.\<close>

definition v2_gets :: "core_config \<Rightarrow> v4_in \<Rightarrow> v2_core \<Rightarrow> u64 \<Rightarrow> bool" where
  "v2_gets cfg i s v \<longleftrightarrow>
     (let l = v2_response cfg i s in
      if v2_cached cfg s then \<not> l_response_valid l \<and> v = v2_dcache_load_result s
      else l_response_valid l \<and> \<not> l_response_error l \<and> v = l_load_value l)"

fun op_new_flags :: "mem_op \<Rightarrow> 3 word \<Rightarrow> 3 word" where
  "op_new_flags (M_Store_Cond a v) fl = set_z True fl"
| "op_new_flags _ fl = fl"

definition v2_retires :: "core_config \<Rightarrow> v4_in list \<Rightarrow> mem_op \<Rightarrow> u64 \<Rightarrow> v2_core \<Rightarrow> bool" where
  "v2_retires cfg is op v s \<longleftrightarrow>
     v2_ready (v2_run cfg is s) (op_next_pc (v2_regs s 15 + 2) op v) (write_regs (op_writes op v) (v2_regs s))
       (op_new_flags op (v2_flags s)) \<and> v2_commits cfg is s = [v2_regs s 15]"

lemma memory_writeback:
  assumes I: "v2_inv s" and st: "v2_state s = S2_WRITEBACK" and wb: "v2_wb s = wb_memory w v (v2_regs s 15) q"
  shows "v2_ready (v2_next_core cfg i s) (v2_memory_next_pc v q)
      (v2_write_reg (q_post_reg_write q) (q_post_reg_index q) (v2_post_value v q) (v2_write_reg w (q_rd q) v (v2_regs s)))
      (if q_flags_write q then q_flags_value q else v2_flags s)"
    and "v2_commit cfg i s = Some (v2_regs s 15)"
proof -
  have r: "v2_regs (v2_next_core cfg i s) = v2_regs (fst (v2_next_state cfg i s))" using I by (simp add: next_regs v2_inv_def)
  show "v2_ready (v2_next_core cfg i s) (v2_memory_next_pc v q)
      (v2_write_reg (q_post_reg_write q) (q_post_reg_index q) (v2_post_value v q) (v2_write_reg w (q_rd q) v (v2_regs s)))
      (if q_flags_write q then q_flags_value q else v2_flags s)"
    using st
    by (simp add: v2_ready_def r v2_next_sel(1,2,16) v2_next_state_def v2_do_writeback_def wb wb_memory_def v2_write_reg_def Let_def)
  show "v2_commit cfg i s = Some (v2_regs s 15)" using st by (simp add: v2_commit_iff port_def wb wb_memory_def)
qed

text \<open>The register writes and next program counter of an operation, from its memory registers.\<close>

lemma op_retires:
  assumes "q = (mem_of op (mem_base s))\<lparr>q_addr := a\<rparr>" and "op_second_access op = None"
  shows "v2_write_reg (q_post_reg_write q) (q_post_reg_index q) (v2_post_value v q)
      (v2_write_reg (q_rd q \<noteq> 0 \<and> \<not> q_write q) (q_rd q) v rs) = write_regs (op_writes op v) rs"
    and "v2_memory_next_pc v q = op_next_pc (v2_regs s 15 + 2) op v"
    and "(if q_flags_write q then q_flags_value q else v2_flags s) = op_new_flags op (v2_flags s)"
  using assms(2) unfolding assms(1)
  by (cases op;
      auto simp: q_load_def q_store_def mem_base_def mem_default_def v2_write_reg_def write_regs_def write_port_def v2_post_value_def
        v2_memory_next_pc_def op_next_pc_def)+

lemma second_retires:
  assumes "q = (mem_second v (mem_of op (mem_base s)))\<lparr>q_addr := a\<rparr>" and "op_second_access op \<noteq> None"
  shows "v2_write_reg (q_post_reg_write q) (q_post_reg_index q) (v2_post_value u q)
      (v2_write_reg (q_rd q \<noteq> 0 \<and> \<not> q_write q) (q_rd q) u rs) = write_regs (op_writes op v) rs"
    and "v2_memory_next_pc u q = op_next_pc (v2_regs s 15 + 2) op v"
    and "(if q_flags_write q then q_flags_value q else v2_flags s) = op_new_flags op (v2_flags s)"
  using assms(2) unfolding assms(1)
  by (cases op;
      auto simp: mem_second_def mem_base_def mem_default_def v2_write_reg_def write_regs_def write_port_def v2_post_value_def
        v2_memory_next_pc_def op_next_pc_def)+

text \<open>An access that is not chained hands its result to the writeback state.\<close>

lemma memory_to_writeback:
  assumes I: "v2_inv s" and st: "v2_state s = S2_MEMORY" and g: "v2_gets cfg i s v" and nc: "v2_cached cfg s \<or> \<not> q_chain_store (v2_mem s)"
  defines "t \<equiv> v2_next_core cfg i s"
  shows "v2_state t = S2_WRITEBACK" and "same_arch s t"
    and "\<exists>u. v2_wb t = wb_memory (q_rd (v2_mem s) \<noteq> 0 \<and> \<not> q_write (v2_mem s)) u (v2_regs s 15) (v2_mem s) \<and> (\<not> q_write (v2_mem s) \<longrightarrow> u = v)"
    and "v2_commit cfg i s = None"
proof -
  have pc: "v2_execute_pc s = v2_regs s 15" "v2_regs s 0 = 0" using I st by (simp_all add: v2_inv_def mem_place_def v2_pc_def)
  have n: "v2_next_state cfg i s = v2_do_memory cfg i s" using st by (simp add: v2_next_state_def)
  have w: "v2_cached cfg s \<Longrightarrow> \<not> q_write (v2_mem s)" by (simp add: v2_cached_def)
  show "v2_commit cfg i s = None" using st by (simp add: v2_commit_iff port_def)
  have "v2_state (fst (v2_do_memory cfg i s)) = S2_WRITEBACK \<and> same_arch s (fst (v2_do_memory cfg i s)) \<and>
      (\<exists>u. v2_wb (fst (v2_do_memory cfg i s)) =
           wb_memory (q_rd (v2_mem s) \<noteq> 0 \<and> \<not> q_write (v2_mem s)) u (v2_regs s 15) (v2_mem s) \<and> (\<not> q_write (v2_mem s) \<longrightarrow> u = v))"
  proof (cases "v2_cached cfg s")
    case True
    then show ?thesis
      using g w pc by (auto simp: v2_gets_def v2_do_memory_def v2_memory_ask_def v2_reserve_def same_arch_def Let_def)
  next
    case False
    then have c: "\<not> q_chain_store (v2_mem s)" using nc by simp
    show ?thesis
      using g False pc same_arch_helpers(9) [of s cfg i] c
      by (auto simp: v2_gets_def v2_do_memory_def v2_memory_answer_def v2_memory_result_def same_arch_def Let_def)
  qed
  then show "v2_state t = S2_WRITEBACK" "same_arch s t"
    "\<exists>u. v2_wb t = wb_memory (q_rd (v2_mem s) \<noteq> 0 \<and> \<not> q_write (v2_mem s)) u (v2_regs s 15) (v2_mem s) \<and> (\<not> q_write (v2_mem s) \<longrightarrow> u = v)"
    using pc(2) unfolding t_def by (simp_all add: v2_next_sel(1,2,13) next_regs n same_arch_def)
qed

lemma memory_run:
  assumes I: "v2_inv s" and st: "v2_state s = S2_MEMORY" and g: "v2_gets cfg i s v" and nc: "v2_cached cfg s \<or> \<not> q_chain_store (v2_mem s)"
    and ret: "\<And>u rs. (\<not> q_write (v2_mem s) \<longrightarrow> u = v) \<Longrightarrow>
      v2_write_reg (q_post_reg_write (v2_mem s)) (q_post_reg_index (v2_mem s)) (v2_post_value u (v2_mem s))
        (v2_write_reg (q_rd (v2_mem s) \<noteq> 0 \<and> \<not> q_write (v2_mem s)) (q_rd (v2_mem s)) u rs) = write_regs ws rs \<and>
      v2_memory_next_pc u (v2_mem s) = pc \<and> (if q_flags_write (v2_mem s) then q_flags_value (v2_mem s) else v2_flags s) = fl"
  shows "v2_ready (v2_run cfg [i, j] s) pc (write_regs ws (v2_regs s)) fl \<and> v2_commits cfg [i, j] s = [v2_regs s 15]"
proof -
  let ?t = "v2_next_core cfg i s"
  note M = memory_to_writeback [OF I st g nc]
  obtain u where u: "v2_wb ?t = wb_memory (q_rd (v2_mem s) \<noteq> 0 \<and> \<not> q_write (v2_mem s)) u (v2_regs s 15) (v2_mem s)"
    "\<not> q_write (v2_mem s) \<longrightarrow> u = v" using M(3) by blast
  have e: "v2_regs ?t = v2_regs s" "v2_flags ?t = v2_flags s" using M(2) by (simp_all add: same_arch_def)
  have b: "v2_wb ?t = wb_memory (q_rd (v2_mem s) \<noteq> 0 \<and> \<not> q_write (v2_mem s)) u (v2_regs ?t 15) (v2_mem s)" using u(1) e by simp
  note W = memory_writeback [OF v2_inv_tick [OF I] M(1) b, of cfg j]
  show ?thesis using W [unfolded e] ret [OF u(2), of "v2_regs s"] M(4) by auto
qed

lemma store_writes:
  "q_write ((mem_of op (mem_base s))\<lparr>q_addr := a\<rparr>) \<Longrightarrow> op_writes op u = op_writes op v \<and> op_next_pc n op u = op_next_pc n op v"
  by (cases op) (simp_all add: q_load_def q_store_def mem_base_def mem_default_def op_next_pc_def)

lemma first_access: "first_of op s \<Longrightarrow> v2_access_of (v2_mem s) = op_first_access op"
  by (cases op) (auto simp: first_of_def v2_access_of_def q_load_def q_store_def mem_base_def mem_default_def port_def)

lemma second_access:
  "second_of op v s \<Longrightarrow> \<exists>b. op_second_access op = Some b \<and> v2_access_of (v2_mem s) = (b, 8, Some v)"
  by (cases op) (auto simp: second_of_def v2_access_of_def mem_second_def mem_base_def mem_default_def port_def)

lemma memory_operands:
  assumes "v2_inv s" and "v2_state s = S2_MEMORY"
  shows "v2_effect cfg s = isa_execute (decode (v2_execute_instruction s))
      (arch_operands (v2_x cfg s) (v2_regs s) (v2_flags s) (v2_execute_instruction s) (v2_regs s 15))"
proof -
  have "mem_place s" using assms by (simp add: v2_inv_def)
  then show ?thesis by (simp add: v2_effect_def arch_operands_def x_operands_def mem_place_def v2_pc_def)
qed

text \<open>
  Property C11: Whenever a reachable v2 core is in its memory state, the instruction at R15 is a
  memory operation of the specification and the memory registers hold its first or its chained
  access; when that is answered, a first access with a chained store goes on with storing the
  loaded value, unless it was answered by the data cache, and any other access leads in two cycles
  to one commit, at R15, with the registers, flags and program counter of the operation.
\<close>

lemma v2_memory_isa:
  assumes "v2_reachable cfg s" and "v2_state s = S2_MEMORY"
  shows "\<exists>op. isa_execute (decode (v2_execute_instruction s))
         (arch_operands (v2_x cfg s) (v2_regs s) (v2_flags s) (v2_execute_instruction s) (v2_regs s 15)) = E_Mem op \<and>
     (v2_access_of (v2_mem s) = op_first_access op \<and>
        (v2_gets cfg i s v \<longrightarrow>
          (case op_second_access op of
             Some b \<Rightarrow> v2_cached cfg s \<or> v2_state (v2_next_core cfg i s) = S2_MEM_TRANSLATE \<and>
               v2_access_of (v2_mem (v2_next_core cfg i s)) = (b, 8, Some v)
           | None \<Rightarrow> v2_retires cfg [i, j] op v s)) \<or>
      (\<exists>b u. op_second_access op = Some b \<and> v2_access_of (v2_mem s) = (b, 8, Some u) \<and>
         (v2_gets cfg i s v \<longrightarrow> v2_retires cfg [i, j] op u s)))"
proof -
  have I: "v2_inv s" using assms(1) by (rule v2_reachable_inv)
  have "mem_phase cfg s" using mem_phase_inv [OF assms(1)] assms(2) by (simp add: v2_in_memory_def)
  then obtain op where op: "v2_effect cfg s = E_Mem op" "first_of op s \<or> (\<exists>u. second_of op u s)" by (auto simp: mem_phase_def)
  note e = op(1) [unfolded memory_operands [OF I assms(2)]]
  consider (first) "first_of op s" | (second) u where "second_of op u s" using op(2) by blast
  then show ?thesis
  proof cases
    case first
    note C = chain_first [OF first]
    have ret: "v2_retires cfg [i, j] op v s" if "v2_gets cfg i s v" "op_second_access op = None"
    proof -
      from first obtain a where a: "v2_mem s = (mem_of op (mem_base s))\<lparr>q_addr := a\<rparr>" by (auto simp: first_of_def)
      note R = op_retires [OF a that(2)]
      have K: "write_regs (op_writes op u) rs = write_regs (op_writes op v) rs \<and> op_next_pc n op u = op_next_pc n op v"
        if "\<not> q_write (v2_mem s) \<longrightarrow> u = v" for u rs n
        using that store_writes [where op = op and s = s and a = a and u = u and v = v, folded a] by (cases "q_write (v2_mem s)") simp_all
      show ?thesis
        unfolding v2_retires_def
        apply (rule memory_run [OF I assms(2) that(1)])
        subgoal using C(1) that(2) by simp
        subgoal premises p for u rs unfolding R using K [OF p] by blast
        done
    qed
    have "v2_state (v2_next_core cfg i s) = S2_MEM_TRANSLATE \<and> v2_access_of (v2_mem (v2_next_core cfg i s)) = (b, 8, Some v)"
      if "v2_gets cfg i s v" "op_second_access op = Some b" "\<not> v2_cached cfg s" for b
    proof -
      have n: "v2_next_state cfg i s = v2_do_memory cfg i s" using assms(2) by (simp add: v2_next_state_def)
      have "q_chain_store (v2_mem s)" "l_response_valid (v2_response cfg i s)" "\<not> l_response_error (v2_response cfg i s)"
        "v = l_load_value (v2_response cfg i s)"
        using that C by (simp_all add: v2_gets_def Let_def)
      note M = memory_chained [OF first this(1-3)]
      show ?thesis
        using second_access [OF M(2)] M(3) that(2) \<open>v = _\<close> by (auto simp: v2_next_sel(1,14) n)
    qed
    then show ?thesis using e first_access [OF first] ret
      by (intro exI [of _ op] conjI disjI1) (auto split: option.split)
  next
    case second
    from second obtain a where a: "v2_mem s = (mem_second u (mem_of op (mem_base s)))\<lparr>q_addr := a\<rparr>" "op_second_access op \<noteq> None"
      by (auto simp: second_of_def)
    have "v2_retires cfg [i, j] op u s" if "v2_gets cfg i s v"
      unfolding v2_retires_def
      by (rule memory_run [OF I assms(2) that]) (use no_chain_second [OF second] second_retires [OF a] in auto)
    then show ?thesis using e second_access [OF second] by (intro exI [of _ op] conjI disjI2) auto
  qed
qed

text \<open>The load of the demonstration run, answered with 0x77.\<close>

lemma v2_memory_isa_witness:
  "\<exists>op. v2_effect v2_config (demo2 demo2_answer) = E_Mem op \<and>
     (v2_access_of (v2_mem (demo2 demo2_answer)) = op_first_access op \<and>
        (case op_second_access op of
           Some b \<Rightarrow> v2_cached v2_config (demo2 demo2_answer) \<or>
             v2_state (v2_next_core v2_config data_input (demo2 demo2_answer)) = S2_MEM_TRANSLATE
         | None \<Rightarrow> v2_retires v2_config [data_input, no_input] op 0x77 (demo2 demo2_answer)) \<or>
      (\<exists>b u. op_second_access op = Some b \<and> v2_retires v2_config [data_input, no_input] op u (demo2 demo2_answer)))"
proof -
  have st: "v2_state (demo2 demo2_answer) = S2_MEMORY" "v2_dcache (demo2 demo2_answer) = cache_reset"
    using demo2_8 by (simp_all add: demo2_answer_def at2_def)
  have g: "v2_gets v2_config data_input (demo2 demo2_answer) 0x77"
    using not_cached_reset [OF st(2)] by (simp add: v2_gets_def demo2_response Let_def)
  show ?thesis
    using v2_memory_isa [OF demo2_reachable st(1), of data_input "0x77" no_input] g
    unfolding memory_operands [OF v2_reachable_inv [OF demo2_reachable] st(1), of v2_config]
    by (auto split: option.splits)
qed

section \<open>A chained store that is dropped\<close>

text \<open>
  Property C13: When the first access of a PC-relative push or pop hits the data cache, the v2
  core commits the instruction two cycles later, with the stack register moved, and never requests
  the store; and the load-store unit, when free, has begun a load of the same address whose answer
  no instruction waits for.
\<close>

lemma v2_chain_dropped:
  assumes "v2_reachable cfg s" and "v2_state s = S2_MEMORY" and "q_chain_store (v2_mem s)" and "v2_cached cfg s"
    and "\<not> l_response_valid (v2_response cfg i s)"
  shows "(\<exists>op b. v2_effect cfg s = E_Mem op \<and> op_second_access op = Some b \<and> v2_retires cfg [i, j] op v s) \<and>
     \<not> request_write (v2_lsu_in i s) \<and> \<not> request_valid (v2_lsu_in j (v2_next_core cfg i s)) \<and>
     (phase (v2_lsu s) = LSU_IDLE \<longrightarrow> phase (v2_lsu (v2_next_core cfg i s)) = LSU_FIRST \<and>
        latched_addr (v2_lsu (v2_next_core cfg i s)) = q_addr (v2_mem s) \<and> \<not> latched_write (v2_lsu (v2_next_core cfg i s)))"
proof -
  have I: "v2_inv s" using assms(1) by (rule v2_reachable_inv)
  have "mem_phase cfg s" using mem_phase_inv [OF assms(1)] assms(2) by (simp add: v2_in_memory_def)
  then obtain op where op: "v2_effect cfg s = E_Mem op" "first_of op s" using no_chain_second assms(3) by (auto simp: mem_phase_def)
  from chain_first [OF op(2)] assms(3) obtain b where b: "op_second_access op = Some b" by auto
  from op(2) obtain a where a: "v2_mem s = (mem_of op (mem_base s))\<lparr>q_addr := a\<rparr>" by (auto simp: first_of_def)
  define c where "c = v2_dcache_load_result s"
  have g: "v2_gets cfg i s c" using assms(4,5) by (simp add: v2_gets_def c_def Let_def)
  have R: "v2_write_reg (q_post_reg_write (v2_mem s)) (q_post_reg_index (v2_mem s)) (v2_post_value u (v2_mem s))
        (v2_write_reg (q_rd (v2_mem s) \<noteq> 0 \<and> \<not> q_write (v2_mem s)) (q_rd (v2_mem s)) u rs) = write_regs (op_writes op v) rs \<and>
      v2_memory_next_pc u (v2_mem s) = op_next_pc (v2_regs s 15 + 2) op v \<and>
      (if q_flags_write (v2_mem s) then q_flags_value (v2_mem s) else v2_flags s) = op_new_flags op (v2_flags s)" for u rs
    using b unfolding a
    by (cases op) (auto simp: mem_base_def mem_default_def v2_write_reg_def write_regs_def write_port_def v2_post_value_def
        v2_memory_next_pc_def op_next_pc_def)
  have "v2_retires cfg [i, j] op v s"
    unfolding v2_retires_def by (rule memory_run [OF I assms(2) g]) (use assms(4) R in auto)
  moreover have "v2_state (v2_next_core cfg i s) = S2_WRITEBACK"
    using memory_to_writeback(1) [OF I assms(2) g] assms(4) by simp
  moreover have "\<not> v2_lsu_started s" "\<not> q_write (v2_mem s)" using assms(4) by (simp_all add: v2_cached_def)
  ultimately show ?thesis
    using op(1) b assms(2)
    by (auto simp: v2_lsu_in_def units2(3) lsu3_tick_def lsu_accept_def Let_def)
qed

lemma v2_chain_dropped_witness:
  "\<exists>op b. v2_effect v2_config (demo2 demo2_hit) = E_Mem op \<and> op_second_access op = Some b \<and>
     v2_retires v2_config [no_input, no_input] op 0 (demo2 demo2_hit)"
proof -
  have "v2_state (demo2 demo2_hit) = S2_MEMORY" "q_chain_store (v2_mem (demo2 demo2_hit))"
    using demo2_15 by (simp_all add: at2_def mem_default_def)
  from v2_chain_dropped [OF demo2_reachable this, of no_input no_input 0] demo2_cached show ?thesis by blast
qed

end
