(* ===== verification/Boot_Bytes.thy ===== *)
theory Boot_Bytes
  imports Prelude
begin

text \<open>
  Byte strings of the boot-image tools (\<open>litex_linux_boot.py\<close>, \<open>update.py\<close>) and of the
  stage-0 loaders that read their output: Python slices and slice assignment, the
  little-endian codec of \<open>struct\<close> and \<open>int.from_bytes\<close>, exceptions as values, and the
  CRC-32 of \<open>zlib\<close> beside the table-driven routine of \<open>litex_sd_boot.c\<close>.
\<close>

type_synonym bytes = "byte list"

section \<open>Exceptions\<close>

text \<open>
  A raised \<open>ValueError\<close> carries the fixed part of its message; \<open>struct.error\<close>,
  \<open>IndexError\<close> and the \<open>ValueError\<close>s of the library itself have no message here.
\<close>

datatype boot_error =
    Value_error string | Struct_error | Index_error | Library_value_error

type_synonym 'a result = "boot_error + 'a"

definition then_r :: "'a result \<Rightarrow> ('a \<Rightarrow> 'b result) \<Rightarrow> 'b result" where
  "then_r m f = (case m of Inl e \<Rightarrow> Inl e | Inr x \<Rightarrow> f x)"

lemma then_r_simps [simp]: "then_r (Inl e) f = Inl e" "then_r (Inr x) f = f x"
  by (simp_all add: then_r_def)

lemma then_r_Inr: "then_r m f = Inr y \<longleftrightarrow> (\<exists>x. m = Inr x \<and> f x = Inr y)"
  by (cases m) auto

lemma if_error [simp]:
  "(if c then Inl e else m) = Inr y \<longleftrightarrow> \<not> c \<and> m = Inr y"
  "(if c then m else Inl e) = Inr y \<longleftrightarrow> c \<and> m = Inr y"
  by auto

section \<open>Slices\<close>

text \<open>\<open>buf[off:off + n]\<close>, and the assignment \<open>buf[off:off + len(d)] = d\<close> of a
  \<open>bytearray\<close>, which grows the buffer when the slice runs past its end.\<close>

definition chunk :: "'a list \<Rightarrow> nat \<Rightarrow> nat \<Rightarrow> 'a list" where
  "chunk xs off n = take n (drop off xs)"

definition patch :: "'a list \<Rightarrow> nat \<Rightarrow> 'a list \<Rightarrow> 'a list" where
  "patch xs off d = take off xs @ d @ drop (off + length d) xs"

named_theorems chunk_simps "slices of patched buffers"

lemma length_chunk [simp]: "length (chunk xs off n) = min n (length xs - off)"
  by (simp add: chunk_def min.commute)

lemma nth_chunk [simp]: "i < n \<Longrightarrow> off + i < length xs \<Longrightarrow> chunk xs off n ! i = xs ! (off + i)"
  by (simp add: chunk_def)

lemma length_patch_grow: "off \<le> length xs \<Longrightarrow> length (patch xs off d) = max (length xs) (off + length d)"
  by (simp add: patch_def)

lemma length_patch [simp]: "off + length d \<le> length xs \<Longrightarrow> length (patch xs off d) = length xs"
  by (simp add: patch_def)

lemma nth_patch:
  "off \<le> length xs \<Longrightarrow> i < length xs \<or> i < off + length d \<Longrightarrow>
     patch xs off d ! i = (if off \<le> i \<and> i < off + length d then d ! (i - off) else xs ! i)"
  by (auto simp: patch_def nth_append min_def)

lemma chunk_eqI:
  assumes "off + n \<le> length xs" "length ys = n" "\<And>i. i < n \<Longrightarrow> xs ! (off + i) = ys ! i"
  shows "chunk xs off n = ys"
  using assms by (intro nth_equalityI) auto

lemma chunk_append_left: "a + n \<le> length ys \<Longrightarrow> chunk (ys @ zs) a n = chunk ys a n"
  by (simp add: chunk_def)

lemma chunk_append_right: "length ys \<le> a \<Longrightarrow> chunk (ys @ zs) a n = chunk zs (a - length ys) n"
  by (simp add: chunk_def)

lemma chunk_patch_same [chunk_simps]: "off \<le> length xs \<Longrightarrow> n = length d \<Longrightarrow> chunk (patch xs off d) off n = d"
  by (simp add: chunk_def patch_def)

lemma chunk_patch_inside [chunk_simps]:
  assumes "off \<le> a" "a + n \<le> off + length d" "off \<le> length xs"
  shows "chunk (patch xs off d) a n = chunk d (a - off) n"
  using assms by (intro chunk_eqI) (auto simp: length_patch_grow nth_patch)

lemma chunk_patch_other [chunk_simps]:
  assumes "a + n \<le> off \<or> off + length d \<le> a" "off \<le> length xs"
  shows "chunk (patch xs off d) a n = chunk xs a n"
proof (cases "a + n \<le> off")
  case True
  then have "chunk (take off xs) a n = chunk xs a n" by (simp add: chunk_def drop_take min_def)
  then show ?thesis using True assms(2) by (simp add: patch_def chunk_append_left)
next
  case False
  then show ?thesis using assms by (simp add: chunk_def patch_def min_def)
qed

lemma chunk_chunk [chunk_simps]: "chunk (chunk xs a n) b m = chunk xs (a + b) (min m (n - b))"
  by (simp add: chunk_def drop_take take_take add.commute)

lemma chunk_all [simp]: "length xs \<le> n \<Longrightarrow> chunk xs 0 n = xs"
  by (simp add: chunk_def)

lemma chunk_0 [simp]: "chunk xs off 0 = []"
  by (simp add: chunk_def)

lemma chunk_replicate [chunk_simps]: "off + n \<le> k \<Longrightarrow> chunk (replicate k x) off n = replicate n x"
  by (simp add: chunk_def)

lemma chunk_append_split: "chunk xs off (m + n) = chunk xs off m @ chunk xs (off + m) n"
  by (simp add: chunk_def take_add add.commute)

lemma chunk_one: "off < length xs \<Longrightarrow> chunk xs off 1 = [xs ! off]"
  by (simp add: chunk_def take_Suc_conv_app_nth [where i = 0, simplified])

lemma chunk_Suc: "off < length xs \<Longrightarrow> chunk xs off (Suc n) = xs ! off # chunk xs (Suc off) n"
  by (simp add: chunk_def flip: Cons_nth_drop_Suc)

lemma nth_of_chunk: "chunk xs a n = ys \<Longrightarrow> i < n \<Longrightarrow> a + i < length xs \<Longrightarrow> xs ! (a + i) = ys ! i"
  by auto

section \<open>Little-endian integers\<close>

primrec le_bytes :: "nat \<Rightarrow> int \<Rightarrow> bytes" where
  "le_bytes 0 v = []"
| "le_bytes (Suc n) v = word_of_int v # le_bytes n (v div 256)"

primrec le_int :: "bytes \<Rightarrow> int" where
  "le_int [] = 0"
| "le_int (b # bs) = uint b + 256 * le_int bs"

lemma length_le_bytes [simp]: "length (le_bytes n v) = n"
  by (induction n arbitrary: v) auto

lemma le_int_le_bytes_mod: "le_int (le_bytes n v) = v mod 256 ^ n"
proof (induction n arbitrary: v)
  case (Suc n)
  have "v mod 256 ^ Suc n = v mod 256 + 256 * (v div 256 mod 256 ^ n)"
    by (simp add: zmod_zmult2_eq)
  then show ?case using Suc by (simp add: uint_word_of_int)
qed simp

lemma le_int_le_bytes [simp]: "0 \<le> v \<Longrightarrow> v < 256 ^ n \<Longrightarrow> le_int (le_bytes n v) = v"
  by (simp add: le_int_le_bytes_mod)

lemma le_int_nonneg [simp]: "0 \<le> le_int bs"
  by (induction bs) auto

lemma le_int_less: "le_int bs < 256 ^ length bs"
proof (induction bs)
  case (Cons b bs)
  have "uint b < 256" using uint_lt2p [of b] by simp
  then show ?case using Cons by simp
qed simp

lemma le_int_bound: "length bs \<le> n \<Longrightarrow> le_int bs < 256 ^ n"
  using le_int_less [of bs] power_increasing [of "length bs" n "256 :: int"] by linarith

lemma le_bytes_le_int [simp]: "le_bytes (length bs) (le_int bs) = bs"
proof (induction bs)
  case (Cons b bs)
  have "uint b < 256" using uint_lt2p [of b] by simp
  then have "(uint b + 256 * le_int bs) div 256 = le_int bs" by simp
  moreover have "word_of_int (256 * k) = (0 :: byte)" for k :: int
  proof -
    have "uint (word_of_int (256 * k) :: byte) = 0"
      by (simp add: uint_word_of_int del: of_int_mult)
    then show ?thesis by (simp only: uint_0_iff)
  qed
  ultimately show ?case using Cons by simp
qed simp

text \<open>\<open>struct.pack\<close> of one unsigned field of \<open>n\<close> bytes; the fields of a buffer.\<close>

definition pack :: "nat \<Rightarrow> int \<Rightarrow> bytes result" where
  "pack n v = (if 0 \<le> v \<and> v < 256 ^ n then Inr (le_bytes n v) else Inl Struct_error)"

definition field_at :: "nat \<Rightarrow> bytes \<Rightarrow> nat \<Rightarrow> int" where
  "field_at n buf off = le_int (chunk buf off n)"

lemma field_at_nonneg [simp]: "0 \<le> field_at n buf off"
  by (simp add: field_at_def)

lemma field_at_less: "field_at n buf off < 256 ^ n"
  by (simp add: field_at_def le_int_bound)

text \<open>\<open>Struct.pack\<close> of several fields of one width.\<close>

primrec pack_all :: "nat \<Rightarrow> int list \<Rightarrow> bytes result" where
  "pack_all n [] = Inr []"
| "pack_all n (v # vs) = then_r (pack n v) (\<lambda>d. then_r (pack_all n vs) (\<lambda>r. Inr (d @ r)))"

lemma pack_all_Inr:
  "pack_all n vs = Inr d \<longleftrightarrow>
     (\<forall>v \<in> set vs. 0 \<le> v \<and> v < 256 ^ n) \<and> d = concat (map (le_bytes n) vs)"
  by (induction vs arbitrary: d) (auto simp: then_r_Inr pack_def)

lemma chunk_packed:
  assumes "i < length vs"
  shows "chunk (concat (map (le_bytes n) vs)) (n * i) n = le_bytes n (vs ! i)"
  using assms
proof (induction vs arbitrary: i)
  case (Cons v vs)
  show ?case
  proof (cases i)
    case 0
    then show ?thesis by (simp add: chunk_append_left)
  next
    case (Suc j)
    then show ?thesis using Cons by (simp add: chunk_append_right)
  qed
qed simp

lemma length_packed [simp]: "length (concat (map (le_bytes n) vs)) = n * length vs"
  by (induction vs) auto

section \<open>Sequences of buffer writes\<close>

text \<open>
  A constructor that fills a buffer field by field is the list of its writes, in
  source order; the first that raises ends it.
\<close>

type_synonym writer = "bytes \<Rightarrow> bytes result"

definition put_bytes :: "nat \<Rightarrow> bytes \<Rightarrow> writer" where
  "put_bytes off d buf = Inr (patch buf off d)"

definition put_byte :: "nat \<Rightarrow> int \<Rightarrow> writer" where
  "put_byte off v buf =
     (if length buf \<le> off then Inl Index_error
      else if v < 0 \<or> 256 \<le> v then Inl Library_value_error
      else Inr (buf[off := word_of_int v]))"

definition write_u16_le :: "nat \<Rightarrow> int \<Rightarrow> writer" where
  "write_u16_le off v buf = then_r (pack 2 v) (\<lambda>d. Inr (patch buf off d))"

definition write_u32_le :: "nat \<Rightarrow> int \<Rightarrow> writer" where
  "write_u32_le off v buf = then_r (pack 4 v) (\<lambda>d. Inr (patch buf off d))"

primrec run_writes :: "writer list \<Rightarrow> writer" where
  "run_writes [] buf = Inr buf"
| "run_writes (w # ws) buf = then_r (w buf) (run_writes ws)"

lemma run_writes_append: "run_writes (ws @ vs) buf = then_r (run_writes ws buf) (run_writes vs)"
  by (induction ws arbitrary: buf) (auto simp: then_r_def split: sum.splits)

lemma list_update_patch: "off < length buf \<Longrightarrow> buf[off := x] = patch buf off [x]"
  by (simp add: patch_def upd_conv_take_nth_drop)

lemma put_byte_Inr:
  "put_byte off v buf = Inr b \<longleftrightarrow>
     off < length buf \<and> 0 \<le> v \<and> v < 256 \<and> b = patch buf off [word_of_int v]"
  by (auto simp: put_byte_def list_update_patch)

lemma pack_Inr: "pack n v = Inr d \<longleftrightarrow> 0 \<le> v \<and> v < 256 ^ n \<and> d = le_bytes n v"
  by (auto simp: pack_def)

lemma write_u16_Inr:
  "write_u16_le off v buf = Inr b \<longleftrightarrow> 0 \<le> v \<and> v < 65536 \<and> b = patch buf off (le_bytes 2 v)"
  by (auto simp: write_u16_le_def then_r_Inr pack_Inr)

lemma write_u32_Inr:
  "write_u32_le off v buf = Inr b \<longleftrightarrow> 0 \<le> v \<and> v < 4294967296 \<and> b = patch buf off (le_bytes 4 v)"
  by (auto simp: write_u32_le_def then_r_Inr pack_Inr)

lemmas write_Inr = put_byte_Inr write_u16_Inr write_u32_Inr put_bytes_def

text \<open>What a write leaves of a slice of a buffer of \<open>N\<close> bytes, and what it puts there; a
  field of the result of a sequence is what its last writer put.\<close>

definition leaves :: "nat \<Rightarrow> nat \<Rightarrow> nat \<Rightarrow> writer \<Rightarrow> bool" where
  "leaves N a n w \<longleftrightarrow>
     (\<forall>buf b. length buf = N \<and> w buf = Inr b \<longrightarrow> length b = N \<and> chunk b a n = chunk buf a n)"

definition puts :: "nat \<Rightarrow> nat \<Rightarrow> bytes \<Rightarrow> writer \<Rightarrow> bool" where
  "puts N a d w \<longleftrightarrow> (\<forall>buf b. length buf = N \<and> w buf = Inr b \<longrightarrow> length b = N \<and> chunk b a (length d) = d)"

lemma leaves_write [simp]:
  "n = 0 \<or> a + n \<le> off \<or> off < a \<Longrightarrow> leaves N a n (put_byte off v)"
  "off + length d \<le> N \<Longrightarrow> n = 0 \<or> a + n \<le> off \<or> off + length d \<le> a \<Longrightarrow> leaves N a n (put_bytes off d)"
  "off + 2 \<le> N \<Longrightarrow> n = 0 \<or> a + n \<le> off \<or> off + 2 \<le> a \<Longrightarrow> leaves N a n (write_u16_le off v)"
  "off + 4 \<le> N \<Longrightarrow> n = 0 \<or> a + n \<le> off \<or> off + 4 \<le> a \<Longrightarrow> leaves N a n (write_u32_le off v)"
  by (auto simp: leaves_def write_Inr chunk_simps)

lemma puts_write [simp]:
  "puts N off [word_of_int v] (put_byte off v)"
  "off + length d \<le> N \<Longrightarrow> puts N off d (put_bytes off d)"
  "off + 2 \<le> N \<Longrightarrow> puts N off (le_bytes 2 v) (write_u16_le off v)"
  "off + 4 \<le> N \<Longrightarrow> puts N off (le_bytes 4 v) (write_u32_le off v)"
  using chunk_patch_same [where d = "[word_of_int v]" and n = 1]
  by (auto simp: puts_def write_Inr chunk_simps)

lemma run_writes_leaves:
  "run_writes ws buf = Inr b \<Longrightarrow> length buf = N \<Longrightarrow> list_all (leaves N a n) ws \<Longrightarrow>
     length b = N \<and> chunk b a n = chunk buf a n"
proof (induction ws arbitrary: buf)
  case (Cons w ws)
  then obtain c where c: "w buf = Inr c" "run_writes ws c = Inr b" by (auto simp: then_r_Inr)
  then have "length c = N" "chunk c a n = chunk buf a n" using Cons.prems by (auto simp: leaves_def)
  then show ?case using Cons.IH [OF c(2)] Cons.prems by simp
qed simp

lemma run_writes_field:
  assumes "run_writes ws buf = Inr b" "length buf = N" "i < length ws"
    and "list_all (leaves N 0 0) (take i ws)" "puts N a d (ws ! i)"
    and "list_all (leaves N a (length d)) (drop (Suc i) ws)"
  shows "chunk b a (length d) = d"
proof -
  have "run_writes (take i ws @ ws ! i # drop (Suc i) ws) buf = Inr b"
    using assms(1,3) by (simp flip: id_take_nth_drop)
  then obtain x y where x: "run_writes (take i ws) buf = Inr x" "(ws ! i) x = Inr y"
    "run_writes (drop (Suc i) ws) y = Inr b"
    by (auto simp: run_writes_append then_r_Inr)
  have "length x = N" using run_writes_leaves [OF x(1) assms(2,4)] by simp
  then have y: "length y = N" "chunk y a (length d) = d" using assms(5) x(2) by (auto simp: puts_def)
  then show ?thesis using run_writes_leaves [OF x(3) y(1) assms(6)] by simp
qed

lemma run_writes_step:
  assumes "run_writes ws buf = Inr b" "i < length ws"
  shows "\<exists>x y. (ws ! i) x = Inr y"
proof -
  have "run_writes (take i ws @ ws ! i # drop (Suc i) ws) buf = Inr b"
    using assms by (simp flip: id_take_nth_drop)
  then show ?thesis by (auto simp: run_writes_append then_r_Inr)
qed

lemma run_writes_u32_range:
  "run_writes ws buf = Inr b \<Longrightarrow> i < length ws \<Longrightarrow> ws ! i = write_u32_le off v \<Longrightarrow> 0 \<le> v \<and> v < 4294967296"
  by (drule run_writes_step) (auto simp: write_u32_Inr)

lemma run_writes_byte_range:
  "run_writes ws buf = Inr b \<Longrightarrow> i < length ws \<Longrightarrow> ws ! i = put_byte off v \<Longrightarrow> 0 \<le> v \<and> v < 256"
  by (drule run_writes_step) (auto simp: put_byte_Inr)

section \<open>CRC-32\<close>

text \<open>
  \<open>zlib.crc32(data, crc)\<close>: the reflected CRC with polynomial \<open>0xEDB88320\<close>, a bit at a
  time, complemented before and after.
\<close>

definition crc_bit :: "32 word \<Rightarrow> 32 word" where
  "crc_bit c = (if bit c 0 then drop_bit 1 c XOR 0xEDB88320 else drop_bit 1 c)"

definition crc_byte :: "byte \<Rightarrow> 32 word \<Rightarrow> 32 word" where
  "crc_byte b c = (crc_bit ^^ 8) (c XOR ucast b)"

definition zlib_crc32 :: "bytes \<Rightarrow> 32 word \<Rightarrow> 32 word" where
  "zlib_crc32 data crc = NOT (fold crc_byte data (NOT crc))"

lemma zlib_crc32_append: "zlib_crc32 (xs @ ys) c = zlib_crc32 ys (zlib_crc32 xs c)"
  by (simp add: zlib_crc32_def)

text \<open>\<open>_crc32_zeros\<close>: the CRC of \<open>size\<close> (\<open>count\<close> here) zero bytes, a chunk at a time.  The loop does
  not end for a chunk size below one.\<close>

partial_function (option) crc32_zeros_loop :: "int \<Rightarrow> int \<Rightarrow> 32 word \<Rightarrow> 32 word option" where
  "crc32_zeros_loop chunk_size remaining crc =
     (if remaining > 0
      then (let current = (if remaining > chunk_size then chunk_size else remaining)
            in crc32_zeros_loop chunk_size (remaining - current)
                 (zlib_crc32 (take (nat current) (replicate (nat chunk_size) 0)) crc))
      else Some crc)"

definition crc32_zeros :: "32 word \<Rightarrow> int \<Rightarrow> int \<Rightarrow> 32 word option" where
  "crc32_zeros initial_crc count chunk_size = crc32_zeros_loop chunk_size count initial_crc"

lemma crc32_zeros_loop_total:
  assumes "1 \<le> k"
  shows "crc32_zeros_loop k n c = Some (zlib_crc32 (replicate (nat n) 0) c)"
proof (induction "nat n" arbitrary: n c rule: less_induct)
  case less
  show ?case
  proof (cases "n > 0")
    case True
    define m where "m = (if n > k then k else n)"
    have m: "1 \<le> m" "m \<le> n" "m \<le> k" using True assms by (auto simp: m_def)
    have "crc32_zeros_loop k n c = crc32_zeros_loop k (n - m) (zlib_crc32 (replicate (nat m) 0) c)"
      using True m by (subst crc32_zeros_loop.simps) (simp add: m_def [symmetric] min_def)
    also have "\<dots> = Some (zlib_crc32 (replicate (nat (n - m)) 0) (zlib_crc32 (replicate (nat m) 0) c))"
      using m by (intro less) simp
    also have "replicate (nat n) (0 :: byte) = replicate (nat m) 0 @ replicate (nat (n - m)) 0"
      using m by (simp add: nat_add_distrib flip: replicate_add)
    ultimately show ?thesis by (simp add: zlib_crc32_append)
  next
    case False
    then show ?thesis by (subst crc32_zeros_loop.simps) (simp add: zlib_crc32_def)
  qed
qed

end
