(* ===== verification/Stage0_Crc.thy ===== *)
theory Stage0_Crc
  imports Boot_Bytes
begin

text \<open>
  The running CRC-32 of the stage-0 loader, \<open>crc32_update_bytes\<close> and
  \<open>crc32_update_zeros\<close> of \<open>litex_sd_boot.c\<close>: a nibble at a time through a table of
  sixteen words.  It is the CRC the image builder computes with \<open>zlib\<close>.
\<close>

section \<open>The routines of the loader\<close>

definition crc32_nibble_table :: "32 word list" where
  "crc32_nibble_table =
     [0x00000000, 0x1DB71064, 0x3B6E20C8, 0x26D930AC,
      0x76DC4190, 0x6B6B51F4, 0x4DB26158, 0x5005713C,
      0xEDB88320, 0xF00F9344, 0xD6D6A3E8, 0xCB61B38C,
      0x9B64C2B0, 0x86D3D2D4, 0xA00AE278, 0xBDBDF21C]"

definition crc_nibble :: "32 word \<Rightarrow> 32 word" where
  "crc_nibble crc = crc32_nibble_table ! unat (crc AND 0x0F) XOR drop_bit 4 crc"

definition crc32_initialize :: "32 word" where "crc32_initialize = 0xFFFFFFFF"

definition crc32_finalize :: "32 word \<Rightarrow> 32 word" where
  "crc32_finalize crc = crc XOR 0xFFFFFFFF"

primrec crc32_update_bytes :: "32 word \<Rightarrow> bytes \<Rightarrow> 32 word" where
  "crc32_update_bytes crc [] = crc"
| "crc32_update_bytes crc (b # data) =
     crc32_update_bytes (crc_nibble (crc_nibble (crc XOR ucast b))) data"

primrec crc32_update_zeros :: "32 word \<Rightarrow> nat \<Rightarrow> 32 word" where
  "crc32_update_zeros crc 0 = crc"
| "crc32_update_zeros crc (Suc n) = crc32_update_zeros (crc_nibble (crc_nibble crc)) n"

section \<open>The table is four steps of the polynomial division\<close>

lemma crc_bit_xor: "crc_bit (a XOR b) = crc_bit a XOR crc_bit b"
  by (auto simp: crc_bit_def bit_eq_iff bit_simps)

lemma crc_bits_xor: "(crc_bit ^^ n) (a XOR b) = (crc_bit ^^ n) a XOR (crc_bit ^^ n) b"
  by (induction n) (simp_all add: crc_bit_xor)

lemma crc_bits_high: "(\<And>k. k < n \<Longrightarrow> \<not> bit c k) \<Longrightarrow> (crc_bit ^^ n) c = drop_bit n c"
proof (induction n)
  case (Suc n)
  have "\<not> bit (drop_bit n c) 0" using Suc.prems [of n] by (simp add: bit_drop_bit_eq)
  then show ?case using Suc by (simp add: crc_bit_def drop_bit_drop_bit add.commute)
qed simp

lemma nibble_table_entries:
  "\<forall>n \<in> set [0..<16]. crc32_nibble_table ! n = crc_bit (crc_bit (crc_bit (crc_bit (word_of_nat n))))"
  by code_simp

lemma nibble_table: "crc32_nibble_table ! unat (c AND 0x0F) = (crc_bit ^^ 4) (c AND 0x0F)"
proof -
  have "unat (c AND 0x0F) < 16" using word_and_le1 [of c "0x0F"] by (simp add: word_le_nat_alt)
  then have "unat (c AND 0x0F) \<in> set [0..<16]" by (simp only: set_upt atLeastLessThan_iff) simp
  from bspec [OF nibble_table_entries this] show ?thesis
    by (simp add: numeral_eq_Suc)
qed

lemma crc_nibble_bits: "crc_nibble c = (crc_bit ^^ 4) c"
proof -
  have "(c AND 0x0F) XOR (c AND NOT 0x0F) = c"
    by (rule bit_word_eqI) (auto simp: bit_simps)
  then have "(crc_bit ^^ 4) c = (crc_bit ^^ 4) (c AND 0x0F) XOR (crc_bit ^^ 4) (c AND NOT 0x0F)"
    by (metis crc_bits_xor)
  also have "(crc_bit ^^ 4) (c AND NOT 0x0F) = drop_bit 4 (c AND NOT 0x0F)"
  proof (rule crc_bits_high)
    fix k :: nat assume "k < 4"
    then have "k \<in> {0, 1, 2, 3}" by auto
    then show "\<not> bit (c AND NOT 0x0F) k" by (auto simp: bit_simps)
  qed
  also have "drop_bit 4 (c AND NOT 0x0F) = drop_bit 4 c"
  proof (rule bit_word_eqI)
    fix n
    have "\<not> bit (0x0F :: 32 word) (4 + n)"
    proof -
      have "(0x0F :: 32 word) = mask 4" by (simp add: mask_eq_exp_minus_1)
      then show ?thesis by (simp only: bit_mask_iff) simp
    qed
    then show "bit (drop_bit 4 (c AND NOT 0x0F)) n = bit (drop_bit 4 c) n"
      by (auto simp only: bit_drop_bit_eq bit_and_iff bit_not_iff o_def intro: impossible_bit dest: bit_imp_possible_bit)
  qed
  finally show ?thesis by (simp add: crc_nibble_def nibble_table)
qed

lemma crc_byte_nibbles: "crc_nibble (crc_nibble (c XOR ucast b)) = crc_byte b c"
  by (simp add: crc_nibble_bits crc_byte_def flip: funpow_add [unfolded o_def, THEN fun_cong])

lemma crc32_update_bytes_fold: "crc32_update_bytes c data = fold crc_byte data c"
  by (induction data arbitrary: c) (auto simp: crc_byte_nibbles)

lemma crc32_update_append:
  "crc32_update_bytes c (xs @ ys) = crc32_update_bytes (crc32_update_bytes c xs) ys"
  by (simp add: crc32_update_bytes_fold)

lemma crc32_update_zeros_bytes: "crc32_update_zeros c n = crc32_update_bytes c (replicate n 0)"
  by (induction n arbitrary: c) auto

lemma crc32_finalize_not: "crc32_finalize c = NOT c"
proof -
  have "(0xFFFFFFFF :: 32 word) = - 1" by simp
  then show ?thesis by (simp only: crc32_finalize_def) simp
qed

text \<open>
  Property C23: The table-driven CRC of the stage-0 loader, four bits at a time, is the CRC-32 the
  image builder takes from zlib, for every byte string.
\<close>

lemma crc32_loader_zlib: "crc32_finalize (crc32_update_bytes crc32_initialize data) = zlib_crc32 data 0"
proof -
  have "crc32_initialize = NOT 0" by (simp add: crc32_initialize_def)
  then show ?thesis by (simp add: crc32_finalize_not crc32_update_bytes_fold zlib_crc32_def)
qed

end
