(* ===== verification/Stage0_Fat.thy ===== *)
theory Stage0_Fat
  imports Stage0_Crc
begin

text \<open>
  The FAT32 reader of the stage-0 loader, \<open>litex_sd_boot.c\<close>: mounting the boot
  partition, the allocation table with its one-sector cache, the search of the root
  directory and the reading of a range of a file.  The card is the sequence of its
  bytes, and \<open>sdcard_read_block\<close> the 512 of a block; \<open>fail_hard\<close> stops the core, so its
  message is the error.  Sector and cluster numbers are the 32-bit words of the code;
  byte counts only decrease and are natural numbers.
\<close>

type_synonym u32 = "32 word"

definition SD_BLOCK_SIZE :: nat where "SD_BLOCK_SIZE = 512"
definition FAT32_EOC_MIN :: u32 where "FAT32_EOC_MIN = 0x0FFFFFF8"

section \<open>Blocks and fields\<close>

definition sdcard_read_blocks_contiguous :: "bytes \<Rightarrow> u32 \<Rightarrow> nat \<Rightarrow> bytes" where
  "sdcard_read_blocks_contiguous disk lba n = chunk disk (unat lba * SD_BLOCK_SIZE) (n * SD_BLOCK_SIZE)"

definition sdcard_read_block :: "bytes \<Rightarrow> u32 \<Rightarrow> bytes" where
  "sdcard_read_block disk lba = sdcard_read_blocks_contiguous disk lba 1"

definition read_le16 :: "bytes \<Rightarrow> nat \<Rightarrow> u16" where
  "read_le16 buf off = ucast (buf ! off) OR push_bit 8 (ucast (buf ! (off + 1)))"

definition read_le32 :: "bytes \<Rightarrow> nat \<Rightarrow> u32" where
  "read_le32 buf off =
     ucast (buf ! off) OR push_bit 8 (ucast (buf ! (off + 1))) OR
     push_bit 16 (ucast (buf ! (off + 2))) OR push_bit 24 (ucast (buf ! (off + 3)))"

definition read_le64 :: "bytes \<Rightarrow> nat \<Rightarrow> u64" where
  "read_le64 buf off = ucast (read_le32 buf off) OR push_bit 32 (ucast (read_le32 buf (off + 4)))"

section \<open>The volume\<close>

record fat32_volume =
  v_partition_lba :: u32
  v_sectors_per_cluster :: u32
  v_first_fat_lba :: u32
  v_fat_sector_count :: u32
  v_first_data_lba :: u32
  v_root_cluster :: u32

definition load_fat32_volume_or_fail :: "bytes \<Rightarrow> string + fat32_volume" where
  "load_fat32_volume_or_fail disk =
     (let mbr = sdcard_read_block disk 0;
          partition_type = mbr ! (446 + 4);
          partition_lba = read_le32 mbr (446 + 8);
          sector = sdcard_read_block disk partition_lba;
          bytes_per_sector = read_le16 sector 11;
          sectors_per_cluster = (ucast (sector ! 13) :: u32);
          reserved_sectors = read_le16 sector 14;
          fat_count = sector ! 16;
          fat_size = read_le32 sector 36;
          root_cluster = read_le32 sector 44
      in if mbr ! 510 \<noteq> 0x55 \<or> mbr ! 511 \<noteq> 0xAA then Inl ''sdcard MBR signature missing''
         else if partition_lba = 0 then Inl ''sdcard boot partition missing''
         else if partition_type \<noteq> 0x0B \<and> partition_type \<noteq> 0x0C
           then Inl ''sdcard boot partition type unsupported''
         else if sector ! 510 \<noteq> 0x55 \<or> sector ! 511 \<noteq> 0xAA
           then Inl ''FAT32 boot sector signature missing''
         else if bytes_per_sector \<noteq> 512 then Inl ''FAT32 bytes-per-sector unsupported''
         else if sectors_per_cluster = 0 \<or> fat_count = 0 \<or> fat_size = 0 \<or> root_cluster < 2
           then Inl ''FAT32 parameters invalid''
         else if fat_count \<noteq> 2 then Inl ''FAT32 FAT count unsupported''
         else if sectors_per_cluster \<noteq> 1 then Inl ''FAT32 sectors-per-cluster unsupported''
         else Inr \<lparr> v_partition_lba = partition_lba, v_sectors_per_cluster = sectors_per_cluster,
                    v_first_fat_lba = partition_lba + ucast reserved_sectors,
                    v_fat_sector_count = fat_size,
                    v_first_data_lba = partition_lba + ucast reserved_sectors + fat_size + fat_size,
                    v_root_cluster = root_cluster \<rparr>)"

definition cluster_to_lba :: "fat32_volume \<Rightarrow> u32 \<Rightarrow> u32" where
  "cluster_to_lba v cluster = v_first_data_lba v + (cluster - 2)"

section \<open>The allocation table\<close>

text \<open>\<open>fat32_next_cluster\<close> keeps the last table sector it read, under its block number.\<close>

record fat_cache =
  cached_lba :: u32
  cached_sector :: bytes

definition FAT32_INVALID_CACHE_LBA :: u32 where "FAT32_INVALID_CACHE_LBA = 0xFFFFFFFF"

definition fat_cache_fill :: "bytes \<Rightarrow> u32 \<Rightarrow> fat_cache \<Rightarrow> fat_cache" where
  "fat_cache_fill disk fat_sector cache =
     (if cached_lba cache \<noteq> fat_sector
      then \<lparr> cached_lba = fat_sector, cached_sector = sdcard_read_block disk fat_sector \<rparr> else cache)"

definition fat32_next_cluster_cached :: "bytes \<Rightarrow> fat32_volume \<Rightarrow> u32 \<Rightarrow> fat_cache \<Rightarrow> u32 \<times> fat_cache" where
  "fat32_next_cluster_cached disk v cluster cache =
     (let fat_offset = cluster * 4;
          fat_sector = v_first_fat_lba v + drop_bit 9 fat_offset;
          sector_offset = fat_offset AND 511;
          cache = fat_cache_fill disk fat_sector cache
      in (read_le32 (cached_sector cache) (unat sector_offset) AND 0x0FFFFFFF, cache))"

text \<open>The card does not change under the loader, so the cache only ever holds the sector
  it names, and the rest of the model reads the table without it.\<close>

definition fat32_next_cluster :: "bytes \<Rightarrow> fat32_volume \<Rightarrow> u32 \<Rightarrow> u32" where
  "fat32_next_cluster disk v cluster =
     (let fat_offset = cluster * 4;
          sector = sdcard_read_block disk (v_first_fat_lba v + drop_bit 9 fat_offset)
      in read_le32 sector (unat (fat_offset AND 511)) AND 0x0FFFFFFF)"

definition cache_honest :: "bytes \<Rightarrow> fat_cache \<Rightarrow> bool" where
  "cache_honest disk cache \<longleftrightarrow>
     (cached_lba cache \<noteq> FAT32_INVALID_CACHE_LBA \<longrightarrow> cached_sector cache = sdcard_read_block disk (cached_lba cache))"

text \<open>The number marking an empty cache is a block number too: a table sector there would
  be answered with the buffer of an empty cache.\<close>

lemma fat32_next_cluster_cached:
  assumes "cache_honest disk cache" "v_first_fat_lba v + drop_bit 9 (cluster * 4) \<noteq> FAT32_INVALID_CACHE_LBA"
  shows "fst (fat32_next_cluster_cached disk v cluster cache) = fat32_next_cluster disk v cluster"
    and "cache_honest disk (snd (fat32_next_cluster_cached disk v cluster cache))"
  using assms
  by (auto simp: fat32_next_cluster_cached_def fat32_next_cluster_def fat_cache_fill_def cache_honest_def Let_def)

section \<open>The root directory\<close>

record file_info =
  f_first_cluster :: u32
  f_size :: u32

datatype scan = Found file_info | Failed string | Exhausted

definition directory_name_matches :: "bytes \<Rightarrow> bytes \<Rightarrow> bool" where
  "directory_name_matches entry name \<longleftrightarrow> (\<forall>index \<in> set [0 ..< 11]. entry ! index = name ! index)"

text \<open>The entries of one sector, from an offset on.\<close>

fun scan_sector :: "bytes \<Rightarrow> bytes \<Rightarrow> nat list \<Rightarrow> scan" where
  "scan_sector sector name [] = Exhausted"
| "scan_sector sector name (off # offs) =
     (let entry = chunk sector off 32; attributes = entry ! 11 in
      if entry ! 0 = 0 then Failed ''required FAT32 file not found''
      else if entry ! 0 \<noteq> 0xE5 \<and> attributes \<noteq> 0x0F \<and> attributes AND (0x10 OR 0x08) = 0 \<and>
              directory_name_matches entry name
        then (let first = push_bit 16 (ucast (read_le16 entry 20)) OR ucast (read_le16 entry 26)
              in if first < 2 then Failed ''FAT32 file has invalid first cluster''
                 else Found \<lparr> f_first_cluster = first, f_size = read_le32 entry 28 \<rparr>)
      else scan_sector sector name offs)"

definition sector_entries :: "nat list" where
  "sector_entries = map (\<lambda>i. 32 * i) [0 ..< 16]"

fun scan_cluster :: "bytes \<Rightarrow> bytes \<Rightarrow> u32 \<Rightarrow> nat list \<Rightarrow> scan" where
  "scan_cluster disk name lba [] = Exhausted"
| "scan_cluster disk name lba (i # rest) =
     (case scan_sector (sdcard_read_block disk (lba + word_of_nat i)) name sector_entries of
        Exhausted \<Rightarrow> scan_cluster disk name lba rest
      | r \<Rightarrow> r)"

text \<open>The chain of the root directory is followed as the card has it; a circular chain
  keeps the loader reading, which is the value \<open>None\<close>.\<close>

partial_function (option) locate_from :: "bytes \<Rightarrow> fat32_volume \<Rightarrow> bytes \<Rightarrow> u32 \<Rightarrow> (string + file_info) option" where
  "locate_from disk v name cluster =
     (if cluster < FAT32_EOC_MIN
      then (case scan_cluster disk name (cluster_to_lba v cluster) [0 ..< unat (v_sectors_per_cluster v)] of
              Found f \<Rightarrow> Some (Inr f)
            | Failed e \<Rightarrow> Some (Inl e)
            | Exhausted \<Rightarrow> locate_from disk v name (fat32_next_cluster disk v cluster))
      else Some (Inl ''FAT32 root directory chain terminated unexpectedly''))"

definition locate_root_file_or_fail :: "bytes \<Rightarrow> fat32_volume \<Rightarrow> bytes \<Rightarrow> (string + file_info) option" where
  "locate_root_file_or_fail disk v name = locate_from disk v name (v_root_cluster v)"

section \<open>Reading a range of a file\<close>

text \<open>\<open>fat32_count_contiguous_sectors\<close>: how many clusters in a row follow, at most the
  given number, and the cluster after them.\<close>

function count_contiguous :: "bytes \<Rightarrow> fat32_volume \<Rightarrow> u32 \<Rightarrow> nat \<Rightarrow> nat \<Rightarrow> nat \<times> u32" where
  "count_contiguous disk v cluster run_sectors max_sectors =
     (let next_cluster = fat32_next_cluster disk v cluster in
      if run_sectors < max_sectors
      then (if next_cluster \<ge> FAT32_EOC_MIN \<or> next_cluster \<noteq> cluster + 1 then (run_sectors, next_cluster)
            else count_contiguous disk v next_cluster (run_sectors + 1) max_sectors)
      else (run_sectors, next_cluster))"
  by pat_completeness auto
termination
  by (relation "measure (\<lambda>(_, _, _, run, most). most - run)") auto

declare count_contiguous.simps [simp del]

lemma count_contiguous_ge: "run \<le> fst (count_contiguous disk v cluster run most)"
proof (induction disk v cluster run most rule: count_contiguous.induct)
  case (1 disk v cluster run most)
  then show ?case by (subst count_contiguous.simps) (auto simp: Let_def)
qed

text \<open>The loop of \<open>read_file_range_to_buffer\<close>: whole sectors in runs of consecutive
  clusters, and parts of a sector on their own.  When bytes remain after a part, it ran to
  the end of its sector, so the next cluster is read from its start.\<close>

function read_range :: "bytes \<Rightarrow> fat32_volume \<Rightarrow> u32 \<Rightarrow> nat \<Rightarrow> nat \<Rightarrow> string + bytes" where
  "read_range disk v cluster cluster_offset n =
     (if n = 0 then Inr []
      else if cluster_offset = 0 \<and> SD_BLOCK_SIZE \<le> n
      then
        (let (run_sectors, next_cluster) = count_contiguous disk v cluster 1 (n div SD_BLOCK_SIZE);
             data = sdcard_read_blocks_contiguous disk (cluster_to_lba v cluster) run_sectors;
             rest = n - run_sectors * SD_BLOCK_SIZE
         in if rest = 0 then Inr data
            else if next_cluster \<ge> FAT32_EOC_MIN then Inl ''FAT32 file range terminated early''
            else (case read_range disk v next_cluster 0 rest of Inl e \<Rightarrow> Inl e | Inr later \<Rightarrow> Inr (data @ later)))
      else
        (let chunk_size = min (SD_BLOCK_SIZE - cluster_offset) n;
             data = chunk (sdcard_read_block disk (cluster_to_lba v cluster)) cluster_offset chunk_size;
             rest = n - chunk_size;
             next_cluster = fat32_next_cluster disk v cluster
         in if rest = 0 then Inr data
            else if next_cluster \<ge> FAT32_EOC_MIN then Inl ''FAT32 file range terminated early''
            else (case read_range disk v next_cluster 0 rest of Inl e \<Rightarrow> Inl e | Inr later \<Rightarrow> Inr (data @ later))))"
  by pat_completeness auto
termination
proof (relation "measure (\<lambda>(_, _, _, off, n). 2 * n + (if SD_BLOCK_SIZE \<le> off then 1 else 0))")
  fix disk v cluster x xa y xc and off n :: nat
  assume "n \<noteq> 0" "off = 0 \<and> SD_BLOCK_SIZE \<le> n" "x = count_contiguous disk v cluster 1 (n div SD_BLOCK_SIZE)"
    "(xa, y) = x" "xc = n - xa * SD_BLOCK_SIZE" "xc \<noteq> 0"
  moreover have "1 \<le> xa" using calculation count_contiguous_ge [of 1 disk v cluster "n div SD_BLOCK_SIZE"]
    by (metis fst_conv)
  ultimately show "((disk, v, y, 0, xc), disk, v, cluster, off, n)
      \<in> measure (\<lambda>(_, _, _, off, n). 2 * n + (if SD_BLOCK_SIZE \<le> off then 1 else 0))"
    by (auto simp: SD_BLOCK_SIZE_def)
qed (auto simp: SD_BLOCK_SIZE_def)

declare read_range.simps [simp del]

primrec skip_clusters :: "bytes \<Rightarrow> fat32_volume \<Rightarrow> nat \<Rightarrow> u32 \<Rightarrow> string + u32" where
  "skip_clusters disk v 0 cluster = Inr cluster"
| "skip_clusters disk v (Suc k) cluster =
     (let next_cluster = fat32_next_cluster disk v cluster in
      if next_cluster \<ge> FAT32_EOC_MIN then Inl ''FAT32 file range exceeds cluster chain''
      else skip_clusters disk v k next_cluster)"

definition read_file_range_to_buffer :: "bytes \<Rightarrow> fat32_volume \<Rightarrow> file_info \<Rightarrow> nat \<Rightarrow> nat \<Rightarrow> string + bytes" where
  "read_file_range_to_buffer disk v f file_offset n =
     (case skip_clusters disk v (file_offset div SD_BLOCK_SIZE) (f_first_cluster f) of
        Inl e \<Rightarrow> Inl e
      | Inr cluster \<Rightarrow> read_range disk v cluster (file_offset mod SD_BLOCK_SIZE) n)"

section \<open>Fields as integers\<close>

lemma or_shifted:
  fixes a :: "'a::len word"
  assumes "a < 2 ^ k" "k < LENGTH('a)"
  shows "a OR push_bit k b = a + push_bit k b"
proof (rule disjunctive_add [symmetric])
  fix n
  show "\<not> bit a n \<or> \<not> bit (push_bit k b) n"
  proof (cases "k \<le> n")
    case True
    have "a = take_bit k a" using assms(1) less_mask_eq [of a k] by (simp add: take_bit_eq_mask)
    then have "\<not> bit a n" using True by (metis bit_take_bit_iff not_le)
    then show ?thesis by simp
  qed (simp add: bit_simps)
qed

lemma ucast_byte_less: "(ucast (b :: byte) :: 'a::len word) < 2 ^ 8" if "8 < LENGTH('a)"
proof -
  have "uint (ucast b :: 'a word) = uint b"
  proof -
    have "uint b < 2 ^ 8" using unsigned_less [of b, where 'a = int] by simp
    also have "(2 :: int) ^ 8 \<le> 2 ^ LENGTH('a)" using that by (intro power_increasing) auto
    finally show ?thesis by (simp add: unsigned_ucast_eq take_bit_int_eq_self)
  qed
  moreover have "uint (2 ^ 8 :: 'a word) = 2 ^ 8"
  proof -
    have "(2 :: int) ^ 8 < 2 ^ LENGTH('a)" using that by (intro power_strict_increasing) auto
    then have "uint (word_of_int (2 ^ 8) :: 'a word) = 2 ^ 8"
      by (simp only: uint_word_of_int) simp
    then show ?thesis by simp
  qed
  ultimately show ?thesis using unsigned_less [of b, where 'a = int] by (simp add: word_less_def)
qed

lemma byte_or_shifted: "(ucast (b :: byte) :: 'a::len word) OR push_bit 8 x = ucast b + 256 * x"
  if "8 < LENGTH('a)"
  using or_shifted [OF ucast_byte_less [OF that], of b x] that by (simp add: push_bit_eq_mult mult.commute)

lemma read_le16_int:
  assumes "off + 2 \<le> length buf"
  shows "read_le16 buf off = word_of_int (field_at 2 buf off)"
proof -
  have "chunk buf off 2 = [buf ! off, buf ! (off + 1)]"
    using assms by (simp add: numeral_2_eq_2 chunk_Suc)
  then show ?thesis
    by (simp add: read_le16_def byte_or_shifted field_at_def)
qed

lemma read_le32_int:
  assumes "off + 4 \<le> length buf"
  shows "read_le32 buf off = word_of_int (field_at 4 buf off)"
proof -
  have c: "chunk buf off 4 = [buf ! off, buf ! (off + 1), buf ! (off + 2), buf ! (off + 3)]"
    using assms by (simp add: eval_nat_numeral chunk_Suc)
  have "read_le32 buf off = ucast (buf ! off) OR push_bit 8 (ucast (buf ! (off + 1)) OR
      push_bit 8 (ucast (buf ! (off + 2)) OR push_bit 8 (ucast (buf ! (off + 3)))))"
    by (simp add: read_le32_def push_bit_or push_bit_push_bit)
  then show ?thesis
    by (simp add: byte_or_shifted field_at_def c)
qed

lemma field_at_add: "off + m + n \<le> length buf \<Longrightarrow> field_at (m + n) buf off = field_at m buf off + 256 ^ m * field_at n buf (off + m)"
proof -
  have le: "le_int (xs @ ys) = le_int xs + 256 ^ length xs * le_int ys" for xs ys
    by (induction xs) (auto simp: algebra_simps)
  assume "off + m + n \<le> length buf"
  then show ?thesis by (simp add: field_at_def chunk_append_split le)
qed

lemma read_le64_int:
  assumes "off + 8 \<le> length buf"
  shows "read_le64 buf off = word_of_int (field_at 8 buf off)"
proof -
  have u: "(ucast (word_of_int (field_at 4 buf o') :: u32) :: u64) = word_of_int (field_at 4 buf o')" for o'
    using field_at_less [of 4 buf o'] by (simp add: ucast_eq uint_word_of_int)
  have "(word_of_int (field_at 4 buf off) :: u64) < 2 ^ 32"
    using field_at_less [of 4 buf off] by (simp add: word_less_def uint_word_of_int)
  then have "read_le64 buf off =
      word_of_int (field_at 4 buf off) + push_bit 32 (word_of_int (field_at 4 buf (off + 4)))"
    unfolding read_le64_def using assms by (simp only: or_shifted read_le32_int u) (simp add: read_le32_int u or_shifted)
  also have "\<dots> = word_of_int (field_at 4 buf off + 2 ^ 32 * field_at 4 buf (off + 4))"
    by (simp add: push_bit_eq_mult mult.commute)
  finally show ?thesis using assms field_at_add [of off 4 4 buf] by simp
qed

end
