(* ===== verification/Elf_Image.thy ===== *)
theory Elf_Image
  imports Boot_Bytes
begin

text \<open>
  The kernel ELF file in \<open>litex_linux_boot.py\<close>: its program headers
  (\<open>_parse_little64_elf_load_segments\<close>), the physical base it asks for
  (\<open>infer_little64_linux_kernel_physical_base\<close>) and the flat image the boot loaders
  copy (\<open>flatten_little64_linux_elf_image\<close>), related to the memory a loader of ELF
  segments would produce.
\<close>

section \<open>Constants and arithmetic\<close>

definition EM_LITTLE64 :: int where "EM_LITTLE64 = 0x4C36"
definition PT_LOAD :: int where "PT_LOAD = 1"
definition PAGE_SIZE :: int where "PAGE_SIZE = 4096"
definition EARLY_PT_SCRATCH_PAGES :: int where "EARLY_PT_SCRATCH_PAGES = 30"
definition LITTLE64_LINUX_RAM_BASE :: int where "LITTLE64_LINUX_RAM_BASE = 0x40000000"

definition align_up :: "int \<Rightarrow> int \<Rightarrow> int" where
  "align_up v alignment = (v + alignment - 1) AND (- alignment)"

definition ceil_div :: "int \<Rightarrow> int \<Rightarrow> int" where
  "ceil_div v divisor = (v + divisor - 1) div divisor"

section \<open>Program headers\<close>

text \<open>A tuple \<open>(p_offset, p_vaddr, p_filesz, p_memsz)\<close> of \<open>load_segments\<close>.\<close>

record load_segment =
  p_offset :: int
  p_vaddr :: int
  p_filesz :: int
  p_memsz :: int

record elf_loads =
  elf_entry :: int
  load_segments :: "load_segment list"
  min_vaddr :: int
  max_vaddr :: int

text \<open>The loop over the headers, with \<open>load_segments\<close>, \<open>min_vaddr\<close> and \<open>max_vaddr\<close> as
  its state; \<open>struct.unpack_from\<close> wants the 56 bytes of a header inside the file.\<close>

fun load_loop ::
  "bytes \<Rightarrow> int \<Rightarrow> int \<Rightarrow> nat list \<Rightarrow> load_segment list \<times> int option \<times> int
     \<Rightarrow> (load_segment list \<times> int option \<times> int) result" where
  "load_loop elf phoff phentsize [] acc = Inr acc"
| "load_loop elf phoff phentsize (index # rest) (segs, lo, hi) =
     (let at = nat (phoff + int index * phentsize) in
      if length elf < at + 56 then Inl Struct_error
      else if field_at 4 elf at \<noteq> PT_LOAD then load_loop elf phoff phentsize rest (segs, lo, hi)
      else
        (let off = field_at 8 elf (at + 8); vaddr = field_at 8 elf (at + 16);
             filesz = field_at 8 elf (at + 32); memsz = field_at 8 elf (at + 40)
         in if off + filesz > int (length elf)
            then Inl (Value_error ''ELF PT_LOAD segment extends beyond the file'')
            else load_loop elf phoff phentsize rest
              (segs @ [\<lparr> p_offset = off, p_vaddr = vaddr, p_filesz = filesz, p_memsz = memsz \<rparr>],
               Some (case lo of None \<Rightarrow> vaddr | Some v \<Rightarrow> min v vaddr),
               max hi (vaddr + memsz))))"

definition parse_load_segments :: "bytes \<Rightarrow> elf_loads result" where
  "parse_load_segments elf =
     (if length elf < 64 then Inl (Value_error ''ELF image is too small'')
      else if chunk elf 0 4 \<noteq> [0x7F, 0x45, 0x4C, 0x46]
        then Inl (Value_error ''ELF image is missing the ELF magic'')
      else if elf ! 4 \<noteq> 2 \<or> elf ! 5 \<noteq> 1
        then Inl (Value_error ''ELF image must be ELF64 little-endian'')
      else
        (let machine = field_at 2 elf 18; entry = field_at 8 elf 24; phoff = field_at 8 elf 32;
             phentsize = field_at 2 elf 54; phnum = field_at 2 elf 56
         in if machine \<noteq> EM_LITTLE64
              then Inl (Value_error ''ELF machine does not match Little64'')
            else if phoff + phnum * phentsize > int (length elf)
              then Inl (Value_error ''ELF program headers extend beyond the file'')
            else then_r (load_loop elf phoff phentsize [0 ..< nat phnum] ([], None, 0))
              (\<lambda>(segs, lo, hi). case lo of
                  None \<Rightarrow> Inl (Value_error ''ELF image does not contain any PT_LOAD segments'')
                | Some lo \<Rightarrow>
                    if segs = []
                    then Inl (Value_error ''ELF image does not contain any PT_LOAD segments'')
                    else Inr \<lparr> elf_entry = entry, load_segments = segs, min_vaddr = lo,
                               max_vaddr = hi \<rparr>)))"

section \<open>Base address and flat image\<close>

definition virtual_base_of :: "elf_loads \<Rightarrow> int" where
  "virtual_base_of ld = (min_vaddr ld div PAGE_SIZE) * PAGE_SIZE"

definition image_span_of :: "elf_loads \<Rightarrow> int" where
  "image_span_of ld = align_up (max_vaddr ld - virtual_base_of ld) PAGE_SIZE"

definition infer_kernel_physical_base :: "bytes \<Rightarrow> int \<Rightarrow> int \<Rightarrow> int \<Rightarrow> (int \<times> bool) result" where
  "infer_kernel_physical_base elf ram_base ram_size default_base =
     then_r (parse_load_segments elf) (\<lambda>ld.
       let virtual_base = virtual_base_of ld; image_span = image_span_of ld;
           ram_end = ram_base + ram_size
       in if ram_base \<le> virtual_base \<and> virtual_base + image_span \<le> ram_end
          then Inr (virtual_base, True) else Inr (default_base, False))"

record elf_image =
  image :: bytes
  image_span :: int
  virtual_base :: int
  entry_physical :: int

definition place_segment :: "bytes \<Rightarrow> int \<Rightarrow> load_segment \<Rightarrow> bytes \<Rightarrow> bytes" where
  "place_segment elf vbase s img =
     patch img (nat (p_vaddr s - vbase)) (chunk elf (nat (p_offset s)) (nat (p_filesz s)))"

definition flatten_elf_image :: "bytes \<Rightarrow> int \<Rightarrow> elf_image result" where
  "flatten_elf_image elf kernel_physical_base =
     then_r (parse_load_segments elf) (\<lambda>ld.
       let vbase = virtual_base_of ld; span = image_span_of ld; entry = elf_entry ld;
           img = fold (place_segment elf vbase) (load_segments ld) (replicate (nat span) 0);
           virtual_end = vbase + span
       in if vbase \<le> entry \<and> entry < virtual_end
          then Inr \<lparr> image = img, image_span = span, virtual_base = vbase,
                     entry_physical = kernel_physical_base + (entry - vbase) \<rparr>
          else if kernel_physical_base \<le> entry \<and> entry < kernel_physical_base + span
          then Inr \<lparr> image = img, image_span = span, virtual_base = vbase,
                     entry_physical = entry \<rparr>
          else Inl (Value_error ''ELF entry point is outside the loadable image window''))"

section \<open>Alignment\<close>

lemma and_minus_4096: "(v :: int) AND (- 4096) = (v div 4096) * 4096"
proof -
  have "v AND (- 4096) = v AND push_bit 12 (- 1)" by (simp add: push_bit_eq_mult)
  also have "\<dots> = push_bit 12 (drop_bit 12 v)"
    by (rule bit_eqI) (auto simp: bit_simps)
  finally show ?thesis by (simp add: push_bit_eq_mult drop_bit_eq_div)
qed

lemma align_up_page: "align_up v PAGE_SIZE = ((v + 4095) div 4096) * 4096"
  by (simp add: align_up_def PAGE_SIZE_def and_minus_4096)

lemma align_up_bounds: "v \<le> align_up v PAGE_SIZE" "align_up v PAGE_SIZE < v + 4096"
  unfolding align_up_page by linarith+

lemma align_up_mod: "align_up v PAGE_SIZE mod 4096 = 0"
  by (simp add: align_up_page)

section \<open>What the parser accepts\<close>

text \<open>The segments of an accepted file, all within the file and the window.\<close>

definition segment_ok :: "bytes \<Rightarrow> int option \<Rightarrow> int \<Rightarrow> load_segment \<Rightarrow> bool" where
  "segment_ok elf lo hi s \<longleftrightarrow>
     0 \<le> p_offset s \<and> 0 \<le> p_filesz s \<and> 0 \<le> p_memsz s \<and> 0 \<le> p_vaddr s \<and>
     p_offset s + p_filesz s \<le> int (length elf) \<and>
     (\<exists>l. lo = Some l \<and> l \<le> p_vaddr s) \<and> p_vaddr s + p_memsz s \<le> hi"

lemma load_loop_ok:
  assumes "load_loop elf phoff phentsize is (segs, lo, hi) = Inr (segs', lo', hi')"
    and "\<And>s. s \<in> set segs \<Longrightarrow> segment_ok elf lo hi s" "\<And>l. lo = Some l \<Longrightarrow> 0 \<le> l"
    and "lo = None \<longleftrightarrow> segs = []" "0 \<le> hi"
  shows "(\<forall>s \<in> set segs'. segment_ok elf lo' hi' s) \<and> (\<forall>l. lo' = Some l \<longrightarrow> 0 \<le> l) \<and>
    (lo' = None \<longleftrightarrow> segs' = []) \<and> 0 \<le> hi'"
  using assms
proof (induction elf phoff phentsize "is" "(segs, lo, hi)" arbitrary: segs lo hi rule: load_loop.induct)
  case (2 elf phoff phentsize i rest segs lo hi)
  define at where "at = nat (phoff + int i * phentsize)"
  show ?case
  proof (cases "field_at 4 elf at = PT_LOAD")
    case False
    then show ?thesis using 2(1) [OF at_def] 2(3-7)
      by (simp add: Let_def at_def [symmetric] split: if_splits)
  next
    case True
    define off vaddr filesz memsz where "off = field_at 8 elf (at + 8)" "vaddr = field_at 8 elf (at + 16)"
      "filesz = field_at 8 elf (at + 32)" "memsz = field_at 8 elf (at + 40)"
    note f = this
    define s where "s = \<lparr> p_offset = off, p_vaddr = vaddr, p_filesz = filesz, p_memsz = memsz \<rparr>"
    define lo1 where "lo1 = (case lo of None \<Rightarrow> vaddr | Some v \<Rightarrow> min v vaddr)"
    from 2(3) True have ok: "off + filesz \<le> int (length elf)" "\<not> length elf < at + 56"
      and run: "load_loop elf phoff phentsize rest (segs @ [s], Some lo1, max hi (vaddr + memsz)) =
        Inr (segs', lo', hi')"
      by (auto simp: Let_def at_def [symmetric] f [symmetric] s_def [symmetric] lo1_def [symmetric]
          split: if_splits)
    have nonneg: "0 \<le> off" "0 \<le> vaddr" "0 \<le> filesz" "0 \<le> memsz" by (simp_all add: f)
    have old: "segment_ok elf (Some lo1) (max hi (vaddr + memsz)) t" if "t \<in> set segs" for t
      using 2(4) [OF that] by (auto simp: segment_ok_def lo1_def split: option.splits)
    have new: "segment_ok elf (Some lo1) (max hi (vaddr + memsz)) s"
      using ok nonneg by (auto simp: segment_ok_def s_def lo1_def split: option.splits)
    have "(\<And>t. t \<in> set (segs @ [s]) \<Longrightarrow> segment_ok elf (Some lo1) (max hi (vaddr + memsz)) t)"
      using old new by auto
    moreover have "0 \<le> lo1" using 2(5) nonneg by (auto simp: lo1_def split: option.splits)
    ultimately show ?thesis
      using 2(2) [OF at_def ok(2) _ f(1) f(2) f(3) f(4)] True ok run 2(7)
      by (auto simp: s_def lo1_def)
  qed
qed auto

lemma parse_ok:
  assumes "parse_load_segments elf = Inr ld"
  shows "\<forall>s \<in> set (load_segments ld). segment_ok elf (Some (min_vaddr ld)) (max_vaddr ld) s"
    and "load_segments ld \<noteq> []" "0 \<le> min_vaddr ld" "min_vaddr ld \<le> max_vaddr ld" "0 \<le> elf_entry ld"
proof -
  obtain segs lo hi where l: "load_loop elf (field_at 8 elf 32) (field_at 2 elf 54)
      [0 ..< nat (field_at 2 elf 56)] ([], None, 0) = Inr (segs, Some lo, hi)" "segs \<noteq> []"
    and ld: "ld = \<lparr> elf_entry = field_at 8 elf 24, load_segments = segs, min_vaddr = lo, max_vaddr = hi \<rparr>"
    using assms unfolding parse_load_segments_def Let_def if_error then_r_Inr
    by (auto split: option.splits if_splits)
  from load_loop_ok [OF l(1)] l(2)
  have r: "\<forall>s \<in> set segs. segment_ok elf (Some lo) hi s" "0 \<le> lo" by auto
  show "\<forall>s \<in> set (load_segments ld). segment_ok elf (Some (min_vaddr ld)) (max_vaddr ld) s"
    "load_segments ld \<noteq> []" "0 \<le> min_vaddr ld" "0 \<le> elf_entry ld"
    using r l(2) by (simp_all add: ld)
  have "segment_ok elf (Some lo) hi (hd segs)" using r l(2) by simp
  then show "min_vaddr ld \<le> max_vaddr ld" by (auto simp: ld segment_ok_def)
qed

section \<open>The image is the memory an ELF loader would produce\<close>

text \<open>The abstract loader: memory is zero, and every segment in turn puts its file bytes
  at its virtual addresses.\<close>

definition load_one :: "bytes \<Rightarrow> load_segment \<Rightarrow> (int \<Rightarrow> byte) \<Rightarrow> (int \<Rightarrow> byte)" where
  "load_one elf s m =
     (\<lambda>a. if p_vaddr s \<le> a \<and> a < p_vaddr s + p_filesz s
          then elf ! nat (p_offset s + (a - p_vaddr s)) else m a)"

definition loaded_memory :: "bytes \<Rightarrow> load_segment list \<Rightarrow> int \<Rightarrow> byte" where
  "loaded_memory elf segs = fold (load_one elf) segs (\<lambda>_. 0)"

lemma place_segment_loads:
  assumes s: "segment_ok elf (Some lo) hi s" "p_filesz s \<le> p_memsz s"
    and b: "b \<le> lo" "hi - b \<le> int (length img)"
    and img: "\<And>k. k < length img \<Longrightarrow> img ! k = m (b + int k)"
  shows "length (place_segment elf b s img) = length img"
    and "k < length img \<Longrightarrow> place_segment elf b s img ! k = load_one elf s m (b + int k)"
proof -
  let ?d = "chunk elf (nat (p_offset s)) (nat (p_filesz s))"
  have len: "length ?d = nat (p_filesz s)" using s by (auto simp: segment_ok_def)
  have fit: "nat (p_vaddr s - b) + nat (p_filesz s) \<le> length img"
    using s b by (auto simp: segment_ok_def)
  then show "length (place_segment elf b s img) = length img"
    by (simp only: place_segment_def length_patch len)
  assume k: "k < length img"
  have at: "nat (p_vaddr s - b) \<le> length img" using fit by simp
  show "place_segment elf b s img ! k = load_one elf s m (b + int k)"
  proof (cases "nat (p_vaddr s - b) \<le> k \<and> k < nat (p_vaddr s - b) + nat (p_filesz s)")
    case True
    have "nat (p_offset s) + (k - nat (p_vaddr s - b)) = nat (p_offset s + (b + int k - p_vaddr s))"
      using True s b by (auto simp: segment_ok_def)
    moreover have "nat (p_offset s) + (k - nat (p_vaddr s - b)) < length elf"
      using True s b by (auto simp: segment_ok_def)
    moreover have "p_vaddr s \<le> b + int k" "b + int k < p_vaddr s + p_filesz s"
      using True s b by (auto simp: segment_ok_def)
    ultimately show ?thesis using True at k
      by (simp add: place_segment_def nth_patch len load_one_def del: length_chunk)
  next
    case False
    then have "\<not> (p_vaddr s \<le> b + int k \<and> b + int k < p_vaddr s + p_filesz s)"
      using s b by (auto simp: segment_ok_def)
    then show ?thesis using False img [OF k] nth_patch [OF at disjI1 [OF k], of ?d]
      by (simp only: place_segment_def len load_one_def if_False)
  qed
qed

lemma place_segments_load:
  assumes "\<forall>s \<in> set segs. segment_ok elf (Some lo) hi s \<and> p_filesz s \<le> p_memsz s"
    and "b \<le> lo" "hi - b \<le> int (length img)"
    and "\<And>k. k < length img \<Longrightarrow> img ! k = m (b + int k)"
  shows "length (fold (place_segment elf b) segs img) = length img \<and>
    (\<forall>k < length img. fold (place_segment elf b) segs img ! k = fold (load_one elf) segs m (b + int k))"
  using assms
proof (induction segs arbitrary: img m)
  case (Cons s segs)
  have s: "segment_ok elf (Some lo) hi s" "p_filesz s \<le> p_memsz s" using Cons.prems(1) by auto
  note place = place_segment_loads [OF s Cons.prems(2-4)]
  show ?case using Cons.IH [of "place_segment elf b s img" "load_one elf s m"] Cons.prems place by simp
qed simp

lemma virtual_base_bounds:
  "virtual_base_of ld \<le> min_vaddr ld" "min_vaddr ld < virtual_base_of ld + 4096"
  "virtual_base_of ld mod 4096 = 0" "0 \<le> min_vaddr ld \<Longrightarrow> 0 \<le> virtual_base_of ld"
  unfolding virtual_base_of_def PAGE_SIZE_def
  by (linarith, linarith, simp, simp add: pos_imp_zdiv_nonneg_iff)

lemma image_span_bounds:
  "max_vaddr ld \<le> virtual_base_of ld + image_span_of ld"
  "image_span_of ld mod 4096 = 0"
  "min_vaddr ld \<le> max_vaddr ld \<Longrightarrow> 0 \<le> image_span_of ld"
  using align_up_bounds [of "max_vaddr ld - virtual_base_of ld"] virtual_base_bounds [of ld]
  by (auto simp: image_span_of_def align_up_mod)

lemma flatten_InrE:
  assumes "flatten_elf_image elf base = Inr im"
  obtains ld where "parse_load_segments elf = Inr ld"
    "image im = fold (place_segment elf (virtual_base_of ld)) (load_segments ld)
       (replicate (nat (image_span_of ld)) 0)"
    "image_span im = image_span_of ld" "virtual_base im = virtual_base_of ld"
    "(virtual_base_of ld \<le> elf_entry ld \<and> elf_entry ld < virtual_base_of ld + image_span_of ld \<and>
        entry_physical im = base + (elf_entry ld - virtual_base_of ld)) \<or>
     (\<not> (virtual_base_of ld \<le> elf_entry ld \<and> elf_entry ld < virtual_base_of ld + image_span_of ld) \<and>
        base \<le> elf_entry ld \<and> elf_entry ld < base + image_span_of ld \<and>
        entry_physical im = elf_entry ld)"
proof -
  obtain ld where "parse_load_segments elf = Inr ld" using assms
    by (auto simp: flatten_elf_image_def then_r_Inr)
  then show ?thesis using assms that [of ld]
    by (simp add: flatten_elf_image_def Let_def split: if_splits) auto
qed

text \<open>The facts about an accepted kernel image the boot images rest on.\<close>

lemma flatten_window:
  assumes "flatten_elf_image elf base = Inr im"
  shows "base \<le> entry_physical im" "entry_physical im < base + image_span im"
    "0 < image_span im" "image_span im mod 4096 = 0" "0 \<le> virtual_base im" "virtual_base im mod 4096 = 0"
proof -
  obtain ld where ld: "parse_load_segments elf = Inr ld" "image_span im = image_span_of ld"
      "virtual_base im = virtual_base_of ld"
    and entry: "(virtual_base_of ld \<le> elf_entry ld \<and> elf_entry ld < virtual_base_of ld + image_span_of ld \<and>
          entry_physical im = base + (elf_entry ld - virtual_base_of ld)) \<or>
         (base \<le> elf_entry ld \<and> elf_entry ld < base + image_span_of ld \<and> entry_physical im = elf_entry ld)"
    using assms by (blast elim: flatten_InrE)
  show "base \<le> entry_physical im" "entry_physical im < base + image_span im"
    using entry ld(2) by auto
  then show "0 < image_span im" by simp
  show "image_span im mod 4096 = 0" "0 \<le> virtual_base im" "virtual_base im mod 4096 = 0"
    using ld image_span_bounds [of ld] virtual_base_bounds [of ld] parse_ok [OF ld(1)] by auto
qed

text \<open>A segment whose file size exceeds its memory size may make the image longer than its span, never shorter.\<close>

lemma length_patch_le: "length xs \<le> length (patch xs off d)"
  by (simp add: patch_def)

lemma length_place_segments: "length img \<le> length (fold (place_segment elf b) segs img)"
proof (induction segs arbitrary: img)
  case (Cons s segs)
  have "length img \<le> length (place_segment elf b s img)" by (simp add: place_segment_def length_patch_le)
  then show ?case using Cons.IH [of "place_segment elf b s img"] by simp
qed simp

lemma flatten_length:
  assumes "flatten_elf_image elf base = Inr im"
  shows "image_span im \<le> int (length (image im))"
proof -
  obtain ld where "image im = fold (place_segment elf (virtual_base_of ld)) (load_segments ld) (replicate (nat (image_span_of ld)) 0)"
    "image_span im = image_span_of ld" using flatten_InrE [OF assms] by metis
  then show ?thesis
    using length_place_segments [of "replicate (nat (image_span_of ld)) 0" elf "virtual_base_of ld" "load_segments ld"] by simp
qed

text \<open>
  Property C16: The flat image of a kernel file whose segments are no larger in the file than in
  memory is the memory an ELF loader would produce from its segments, zero between them, every
  segment lies inside the image window and so does the entry point.
\<close>

lemma flatten_loads_segments:
  assumes "flatten_elf_image elf base = Inr im" "parse_load_segments elf = Inr ld"
    and "\<forall>s \<in> set (load_segments ld). p_filesz s \<le> p_memsz s"
  shows "length (image im) = nat (image_span im) \<and>
    (\<forall>k < length (image im).
       image im ! k = loaded_memory elf (load_segments ld) (virtual_base im + int k)) \<and>
    (\<forall>s \<in> set (load_segments ld). virtual_base im \<le> p_vaddr s \<and>
       p_vaddr s + p_memsz s \<le> virtual_base im + image_span im) \<and>
    base \<le> entry_physical im \<and> entry_physical im < base + image_span im"
proof -
  have im: "image im = fold (place_segment elf (virtual_base_of ld)) (load_segments ld)
       (replicate (nat (image_span_of ld)) 0)"
    "image_span im = image_span_of ld" "virtual_base im = virtual_base_of ld"
    using assms(2) by (auto intro: flatten_InrE [OF assms(1)])
  note ok = parse_ok [OF assms(2)]
  have "length (image im) = nat (image_span im) \<and>
    (\<forall>k < nat (image_span im). image im ! k = loaded_memory elf (load_segments ld) (virtual_base im + int k))"
    using place_segments_load [of "load_segments ld" elf "min_vaddr ld" "max_vaddr ld" "virtual_base_of ld"
        "replicate (nat (image_span_of ld)) 0" "\<lambda>_. 0"]
      im ok assms(3) virtual_base_bounds [of ld] image_span_bounds [of ld]
    by (auto simp: loaded_memory_def)
  moreover have "\<forall>s \<in> set (load_segments ld). virtual_base im \<le> p_vaddr s \<and>
       p_vaddr s + p_memsz s \<le> virtual_base im + image_span im"
    using ok(1) im virtual_base_bounds [of ld] image_span_bounds [of ld]
    by (fastforce simp: segment_ok_def)
  ultimately show ?thesis using flatten_window [OF assms(1)] by simp
qed

end
