(* ===== verification/Fat32.thy ===== *)
theory Fat32
  imports Elf_Image
begin

text \<open>
  The FAT32 boot partition of \<open>litex_linux_boot.py\<close>: short and long file names,
  directory entries, the size of the allocation table, the boot files of both formats
  and \<open>_build_fat32_boot_partition\<close>, which lays them out in the bytes of the partition.
\<close>

definition SECTOR_SIZE :: nat where "SECTOR_SIZE = 512"

section \<open>File names\<close>

text \<open>Names are ASCII strings; \<open>encode('ascii')\<close> refuses any other character.\<close>

definition upper_char :: "char \<Rightarrow> char" where
  "upper_char c =
     (let n = of_char c :: nat in if 97 \<le> n \<and> n \<le> 122 then char_of (n - 32) else c)"

definition encode_ascii :: "string \<Rightarrow> bytes result" where
  "encode_ascii s =
     (if \<forall>c \<in> set s. of_char c < (128 :: nat) then Inr (map of_char s) else Inl Library_value_error)"

definition ljust :: "nat \<Rightarrow> string \<Rightarrow> string" where
  "ljust n s = s @ replicate (n - length s) CHR 0x20"

definition fat32_short_name :: "string \<Rightarrow> bytes result" where
  "fat32_short_name name =
     (let (stem, extension) =
            (if CHR ''.'' \<in> set name
             then (takeWhile (\<lambda>c. c \<noteq> CHR ''.'') name, tl (dropWhile (\<lambda>c. c \<noteq> CHR ''.'') name))
             else (name, ''''));
          stem = map upper_char stem; extension = map upper_char extension
      in if length stem > 8 \<or> length extension > 3 then Inl (Value_error ''FAT32 short name is too long'')
         else if stem = '''' then Inl (Value_error ''FAT32 short name stem cannot be empty'')
         else then_r (encode_ascii (ljust 8 stem)) (\<lambda>a.
              then_r (encode_ascii (ljust 3 extension)) (\<lambda>b. Inr (a @ b))))"

definition fat32_lfn_checksum :: "bytes \<Rightarrow> int" where
  "fat32_lfn_checksum short_name =
     fold (\<lambda>v checksum. (push_bit 7 (checksum AND 1) + drop_bit 1 checksum + uint v) AND 0xFF) short_name 0"

text \<open>The units of a long name, ended by a zero and padded to whole entries.\<close>

function pad_units :: "int list \<Rightarrow> int list" where
  "pad_units units = (if length units mod 13 \<noteq> 0 then pad_units (units @ [0xFFFF]) else units)"
  by pat_completeness auto
termination
proof (relation "measure (\<lambda>units. (13 - length units mod 13) mod 13)")
  fix units :: "int list"
  assume "length units mod 13 \<noteq> 0"
  then have "(13 - Suc (length units) mod 13) mod 13 < (13 - length units mod 13) mod 13"
    by (auto simp: mod_Suc)
  then show "(units @ [0xFFFF], units) \<in> measure (\<lambda>units. (13 - length units mod 13) mod 13)" by simp
qed simp

declare pad_units.simps [simp del]

definition lfn_positions :: "nat list" where
  "lfn_positions = [1, 3, 5, 7, 9, 14, 16, 18, 20, 22, 24, 28, 30]"

definition lfn_entry :: "int \<Rightarrow> int \<Rightarrow> int list \<Rightarrow> bytes result" where
  "lfn_entry sequence checksum units =
     run_writes
       ([put_byte 0 sequence, put_byte 11 0x0F, put_byte 12 0, put_byte 13 checksum] @
        map (\<lambda>(off, unit). write_u16_le off unit) (zip lfn_positions units))
       (replicate 32 0)"

primrec collect :: "'a result list \<Rightarrow> 'a list result" where
  "collect [] = Inr []"
| "collect (r # rs) = then_r r (\<lambda>x. then_r (collect rs) (\<lambda>xs. Inr (x # xs)))"

definition build_fat32_lfn_entries :: "int list \<Rightarrow> bytes \<Rightarrow> bytes list result" where
  "build_fat32_lfn_entries long_name short_name =
     (if long_name = [] then Inl (Value_error ''long_name must not be empty'')
      else if \<exists>unit \<in> set long_name. unit > 0xFFFF
        then Inl (Value_error ''FAT32 LFN builder only supports BMP characters'')
      else
        (let units = pad_units (long_name @ [0]);
             count = length units div 13;
             checksum = fat32_lfn_checksum short_name
         in collect (map (\<lambda>reverse_index.
              let sequence = int (count - reverse_index)
              in lfn_entry (if reverse_index = 0 then sequence OR 0x40 else sequence) checksum
                   (chunk units (13 * (count - 1 - reverse_index)) 13)) [0 ..< count])))"

section \<open>Files\<close>

record sd_file_layout =
  short_name :: bytes
  first_cluster :: int
  file_size :: int

record sd_boot_checksums =
  kernel_image_crc32 :: int
  kernel_image_size :: int
  dtb_crc32 :: int
  dtb_size :: int

definition build_fat32_file_dir_entry :: "sd_file_layout \<Rightarrow> bytes result" where
  "build_fat32_file_dir_entry f =
     run_writes
       [put_bytes 0 (short_name f), put_byte 11 0x20,
        write_u16_le 20 (drop_bit 16 (first_cluster f) AND 0xFFFF),
        write_u16_le 26 (first_cluster f AND 0xFFFF),
        write_u32_le 28 (file_size f)]
       (replicate 32 0)"

definition BOOT_CHECKSUM_MAGIC :: int where "BOOT_CHECKSUM_MAGIC = 0x4C36434B"
definition BOOT_CHECKSUM_VERSION :: int where "BOOT_CHECKSUM_VERSION = 1"

definition build_sd_boot_checksums :: "bytes \<Rightarrow> bytes \<Rightarrow> sd_boot_checksums result" where
  "build_sd_boot_checksums elf dtb =
     then_r (flatten_elf_image elf LITTLE64_LINUX_RAM_BASE) (\<lambda>kernel. Inr \<lparr>
       kernel_image_crc32 = uint (zlib_crc32 (image kernel) 0),
       kernel_image_size = int (length (image kernel)),
       dtb_crc32 = uint (zlib_crc32 dtb 0),
       dtb_size = int (length dtb) \<rparr>)"

definition serialize_sd_boot_checksums :: "sd_boot_checksums \<Rightarrow> bytes result" where
  "serialize_sd_boot_checksums c =
     pack_all 4 [BOOT_CHECKSUM_MAGIC, BOOT_CHECKSUM_VERSION, kernel_image_crc32 c, kernel_image_size c,
       dtb_crc32 c, dtb_size c, 0, 0]"

text \<open>The \<open>boot.json\<close> of the LiteX BIOS: the format \<open>{value:x}\<close>, then the text.\<close>

definition hex_char :: "nat \<Rightarrow> char" where
  "hex_char d = (if d < 10 then char_of (48 + d) else char_of (87 + d))"

fun hex_nat :: "nat \<Rightarrow> string" where
  "hex_nat n = (if n < 16 then [hex_char n] else hex_nat (n div 16) @ [hex_char (n mod 16)])"

declare hex_nat.simps [simp del]

definition format_x :: "int \<Rightarrow> string" where
  "format_x v = (if v < 0 then CHR ''-'' # hex_nat (nat (- v)) else hex_nat (nat v))"

definition json_line :: "string \<Rightarrow> int \<Rightarrow> string" where
  "json_line name v =
     ''  '' @ [CHR 0x22] @ name @ [CHR 0x22] @ '': '' @ [CHR 0x22] @ ''0x'' @ format_x v @ [CHR 0x22]"

definition build_litex_bios_boot_json :: "string \<Rightarrow> string \<Rightarrow> int \<Rightarrow> int \<Rightarrow> int \<Rightarrow> int \<Rightarrow> bytes result" where
  "build_litex_bios_boot_json kernel_name dtb_name kernel_physical_base dtb_physical_address
       kernel_entry_physical kernel_boot_stack_top =
     encode_ascii
       ([CHR ''{'', CHR 0x0A] @
        json_line kernel_name kernel_physical_base @ [CHR '','', CHR 0x0A] @
        json_line dtb_name dtb_physical_address @ [CHR '','', CHR 0x0A] @
        json_line ''r1'' dtb_physical_address @ [CHR '','', CHR 0x0A] @
        json_line ''r2'' kernel_boot_stack_top @ [CHR '','', CHR 0x0A] @
        json_line ''addr'' kernel_entry_physical @ [CHR 0x0A] @
        [CHR ''}'', CHR 0x0A])"

section \<open>The size of the allocation table\<close>

text \<open>The loop of \<open>_fat_size_sectors\<close>.  Its callers give at least one sector per cluster;
  the number of table sectors only grows.\<close>

definition clusters_for :: "int \<Rightarrow> int \<Rightarrow> nat \<Rightarrow> nat \<Rightarrow> nat \<Rightarrow> int" where
  "clusters_for total_sectors reserved_sectors num_fats sectors_per_cluster fat_sectors =
     (total_sectors - reserved_sectors - int (num_fats * fat_sectors)) div int sectors_per_cluster"

definition required_fat_sectors :: "int \<Rightarrow> int" where
  "required_fat_sectors cluster_count = ceil_div ((cluster_count + 2) * 4) (int SECTOR_SIZE)"

lemma clusters_for_mono: "f \<le> g \<Longrightarrow> clusters_for t r n s g \<le> clusters_for t r n s f"
proof -
  assume "f \<le> g"
  then have "int (n * f) \<le> int (n * g)" by (intro zle_int [THEN iffD2] mult_left_mono) auto
  then show ?thesis unfolding clusters_for_def by (cases "s = 0") (auto intro: zdiv_mono1)
qed

lemma required_fat_sectors_mono: "c \<le> d \<Longrightarrow> required_fat_sectors c \<le> required_fat_sectors d"
  unfolding required_fat_sectors_def ceil_div_def SECTOR_SIZE_def by (intro zdiv_mono1) auto

function fat_size_loop :: "int \<Rightarrow> int \<Rightarrow> nat \<Rightarrow> nat \<Rightarrow> nat \<Rightarrow> nat \<times> int" where
  "fat_size_loop total_sectors reserved_sectors num_fats sectors_per_cluster fat_sectors =
     (let cluster_count = clusters_for total_sectors reserved_sectors num_fats sectors_per_cluster fat_sectors;
          required = required_fat_sectors cluster_count
      in if required \<le> int fat_sectors then (fat_sectors, cluster_count)
         else fat_size_loop total_sectors reserved_sectors num_fats sectors_per_cluster (nat required))"
  by pat_completeness auto
termination
proof (relation "measure (\<lambda>(t, r, n, s, f). nat (required_fat_sectors (clusters_for t r n s 0) - int f))")
  fix t r n s f x y
  assume x: "x = clusters_for t r n s f" "y = required_fat_sectors x" and more: "\<not> y \<le> int f"
  have "y \<le> required_fat_sectors (clusters_for t r n s 0)"
    unfolding x by (intro required_fat_sectors_mono clusters_for_mono) simp
  then show "((t, r, n, s, nat y), t, r, n, s, f) \<in>
      measure (\<lambda>(t, r, n, s, f). nat (required_fat_sectors (clusters_for t r n s 0) - int f))"
    using more by auto
qed simp

declare fat_size_loop.simps [simp del]

definition fat_size_sectors :: "int \<Rightarrow> int \<Rightarrow> nat \<Rightarrow> nat \<Rightarrow> nat \<times> int" where
  "fat_size_sectors total_sectors reserved_sectors num_fats sectors_per_cluster =
     fat_size_loop total_sectors reserved_sectors num_fats sectors_per_cluster 1"

section \<open>The boot files\<close>

text \<open>\<open>STAGE0\<close> and \<open>LITEX_BIOS\<close> name the two boot formats; a payload is its short name,
  its bytes and the long name, as code points, if it has one.\<close>

definition LITTLE64_SD_BOOT_FORMAT_STAGE0 :: string where
  "LITTLE64_SD_BOOT_FORMAT_STAGE0 = ''stage0''"
definition LITTLE64_SD_BOOT_FORMAT_LITEX_BIOS :: string where
  "LITTLE64_SD_BOOT_FORMAT_LITEX_BIOS = ''litex-bios''"

type_synonym payload = "bytes \<times> bytes \<times> int list option"

record boot_files =
  payloads :: "payload list"
  boot_checksums :: "sd_boot_checksums option"
  boot_entry_physical :: "int option"
  boot_dtb_physical :: "int option"

definition code_points :: "string \<Rightarrow> int list" where
  "code_points s = map of_char s"

definition stage0_files :: "bytes \<Rightarrow> bytes \<Rightarrow> boot_files result" where
  "stage0_files elf dtb =
     then_r (fat32_short_name ''VMLINUX'') (\<lambda>kernel_name.
     then_r (fat32_short_name ''BOOT.DTB'') (\<lambda>dtb_name.
     then_r (fat32_short_name ''BOOT.CRC'') (\<lambda>checksums_name.
     then_r (build_sd_boot_checksums elf dtb) (\<lambda>checksums.
     then_r (serialize_sd_boot_checksums checksums) (\<lambda>checksums_bytes.
       Inr \<lparr> payloads = [(kernel_name, elf, None), (dtb_name, dtb, None),
                          (checksums_name, checksums_bytes, None)],
             boot_checksums = Some checksums, boot_entry_physical = None,
             boot_dtb_physical = None \<rparr>)))))"

definition litex_bios_files :: "bytes \<Rightarrow> bytes \<Rightarrow> int \<Rightarrow> int \<Rightarrow> int \<Rightarrow> boot_files result" where
  "litex_bios_files elf dtb ram_base ram_size kernel_physical_base =
     then_r (infer_kernel_physical_base elf ram_base ram_size kernel_physical_base) (\<lambda>(base, _).
     then_r (flatten_elf_image elf base) (\<lambda>kernel.
       let ram_end = ram_base + ram_size;
           boot_stack_top = ram_end - 8;
           dtb_physical = base + align_up (image_span kernel + EARLY_PT_SCRATCH_PAGES * PAGE_SIZE) PAGE_SIZE;
           kernel_end = base + image_span kernel;
           dtb_end = dtb_physical + int (length dtb)
       in if base < ram_base \<or> kernel_end > ram_end \<or> dtb_end > ram_end
            then Inl (Value_error ''kernel image or DTB does not fit inside the configured RAM window'')
          else if boot_stack_top \<le> dtb_end
            then Inl (Value_error ''kernel boot stack overlaps the BIOS DTB placement window'')
          else
            then_r (fat32_short_name ''BOOT.BIN'') (\<lambda>kernel_name.
            then_r (fat32_short_name ''BOOT.DTB'') (\<lambda>dtb_name.
            then_r (fat32_short_name ''BOOTJSN.JSN'') (\<lambda>json_name.
            then_r (build_litex_bios_boot_json ''boot.bin'' ''boot.dtb'' base dtb_physical
                      (entry_physical kernel) boot_stack_top) (\<lambda>json.
              Inr \<lparr> payloads = [(kernel_name, image kernel, Some (code_points ''boot.bin'')),
                                 (dtb_name, dtb, Some (code_points ''boot.dtb'')),
                                 (json_name, json, Some (code_points ''boot.json''))],
                    boot_checksums = None, boot_entry_physical = Some (entry_physical kernel),
                    boot_dtb_physical = Some dtb_physical \<rparr>))))))"

section \<open>The boot partition\<close>

text \<open>A file to write: its layout, payload, long name and number of clusters.\<close>

type_synonym file_spec = "sd_file_layout \<times> bytes \<times> int list option \<times> nat"

fun place_files :: "nat \<Rightarrow> nat \<Rightarrow> payload list \<Rightarrow> file_spec list \<times> nat" where
  "place_files cluster_size next_cluster [] = ([], next_cluster)"
| "place_files cluster_size next_cluster ((name, payload, long_name) # rest) =
     (let clusters = max 1 (nat (ceil_div (int (length payload)) (int cluster_size)));
          layout = \<lparr> short_name = name, first_cluster = int next_cluster, file_size = int (length payload) \<rparr>;
          (specs, last) = place_files cluster_size (next_cluster + clusters) rest
      in ((layout, payload, long_name, clusters) # specs, last))"

definition spec_clusters :: "file_spec \<Rightarrow> nat" where
  "spec_clusters = (\<lambda>(_, _, _, clusters). clusters)"

definition FAT_END :: int where "FAT_END = 0x0FFFFFFF"

text \<open>The allocation table: the three reserved entries, then a chain per file.  The
  check on \<open>used_cluster_count\<close> has kept every index below the length of the table.\<close>

definition chain_file :: "nat \<Rightarrow> nat \<Rightarrow> int list \<Rightarrow> int list" where
  "chain_file first clusters entries =
     fold (\<lambda>index entries. entries[first + index :=
         (if index = clusters - 1 then FAT_END else int (first + index) + 1)]) [0 ..< clusters] entries"

definition fat_entries :: "nat \<Rightarrow> file_spec list \<Rightarrow> int list" where
  "fat_entries cluster_count specs =
     fold (\<lambda>(layout, _, _, clusters). chain_file (nat (first_cluster layout)) clusters) specs
       ((replicate (cluster_count + 2) 0)[0 := 0x0FFFFFF8, 1 := 0xFFFFFFFF, 2 := FAT_END])"

definition fat_table :: "nat \<Rightarrow> int list \<Rightarrow> bytes result" where
  "fat_table fat_sectors entries =
     run_writes (map (\<lambda>(index, v). write_u32_le (4 * index) v) (enumerate 0 entries))
       (replicate (fat_sectors * SECTOR_SIZE) 0)"

definition boot_sector :: "int \<Rightarrow> int \<Rightarrow> int \<Rightarrow> nat \<Rightarrow> bytes \<Rightarrow> bytes result" where
  "boot_sector sectors_per_cluster boot_partition_lba sector_count fat_sectors volume_label =
     run_writes
       [put_bytes 0 [0xEB, 0x58, 0x90],
        put_bytes 3 [0x4C, 0x36, 0x34, 0x46, 0x41, 0x54, 0x33, 0x32],
        write_u16_le 11 (int SECTOR_SIZE),
        put_byte 13 sectors_per_cluster,
        write_u16_le 14 32,
        put_byte 16 2,
        write_u16_le 17 0,
        write_u16_le 19 0,
        put_byte 21 0xF8,
        write_u16_le 22 0,
        write_u16_le 24 63,
        write_u16_le 26 255,
        write_u32_le 28 boot_partition_lba,
        write_u32_le 32 sector_count,
        write_u32_le 36 (int fat_sectors),
        write_u16_le 40 0,
        write_u16_le 42 0,
        write_u32_le 44 2,
        write_u16_le 48 1,
        write_u16_le 50 6,
        put_byte 64 0x80,
        put_byte 66 0x29,
        write_u32_le 67 0x4C363444,
        put_bytes 71 volume_label,
        put_bytes 82 [0x46, 0x41, 0x54, 0x33, 0x32, 0x20, 0x20, 0x20],
        put_bytes 510 [0x55, 0xAA]]
       (replicate SECTOR_SIZE 0)"

definition fsinfo_sector :: "int \<Rightarrow> int \<Rightarrow> bytes result" where
  "fsinfo_sector free_clusters next_cluster =
     run_writes
       [put_bytes 0 [0x52, 0x52, 0x61, 0x41],
        put_bytes 484 [0x72, 0x72, 0x41, 0x61],
        write_u32_le 488 free_clusters,
        write_u32_le 492 next_cluster,
        put_bytes 510 [0x55, 0xAA]]
       (replicate SECTOR_SIZE 0)"

text \<open>The root directory is a \<open>memoryview\<close> of one cluster: an entry that does not fit in
  it is an assignment of unequal lengths.\<close>

definition view_put :: "nat \<Rightarrow> bytes \<Rightarrow> writer" where
  "view_put off d buf =
     (if off + length d \<le> length buf then Inr (patch buf off d) else Inl Library_value_error)"

definition spec_entries :: "file_spec \<Rightarrow> bytes list result" where
  "spec_entries = (\<lambda>(layout, _, long_name, _).
     then_r (case long_name of None \<Rightarrow> Inr []
             | Some name \<Rightarrow> build_fat32_lfn_entries name (short_name layout)) (\<lambda>lfn.
     then_r (build_fat32_file_dir_entry layout) (\<lambda>entry. Inr (lfn @ [entry]))))"

primrec put_entries :: "nat \<Rightarrow> bytes list \<Rightarrow> bytes \<Rightarrow> (nat \<times> bytes) result" where
  "put_entries off [] dir = Inr (off, dir)"
| "put_entries off (e # es) dir = then_r (view_put off e dir) (put_entries (off + 32) es)"

primrec put_specs :: "nat \<Rightarrow> file_spec list \<Rightarrow> bytes \<Rightarrow> (nat \<times> bytes) result" where
  "put_specs off [] dir = Inr (off, dir)"
| "put_specs off (spec # specs) dir =
     then_r (spec_entries spec) (\<lambda>es.
     then_r (put_entries off es dir) (\<lambda>(off, dir). put_specs off specs dir))"

definition root_directory :: "nat \<Rightarrow> file_spec list \<Rightarrow> bytes result" where
  "root_directory cluster_size specs =
     then_r (put_specs 0 specs (replicate cluster_size 0)) (\<lambda>(off, dir). put_byte off 0 dir)"

text \<open>\<open>write_file\<close> follows the chain it has just laid; the caller has rejected a cluster
  size of zero, for which its loop would not end.\<close>

function write_file :: "nat \<Rightarrow> nat \<Rightarrow> int list \<Rightarrow> nat \<Rightarrow> bytes \<Rightarrow> bytes \<Rightarrow> bytes result" where
  "write_file first_data_sector sectors_per_cluster entries cluster payload part =
     (if payload = [] \<or> sectors_per_cluster = 0 then Inr part
      else
        (let off = (first_data_sector + (cluster - 2) * sectors_per_cluster) * SECTOR_SIZE;
             chunk_size = min (sectors_per_cluster * SECTOR_SIZE) (length payload);
             part = patch part off (take chunk_size payload);
             rest = drop chunk_size payload
         in if rest = [] then Inr part
            else if length entries \<le> cluster then Inl Index_error
            else if entries ! cluster \<ge> 0x0FFFFFF8
              then Inl (Value_error ''unexpected end of FAT cluster chain while writing file'')
            else write_file first_data_sector sectors_per_cluster entries (nat (entries ! cluster))
                   rest part))"
  by pat_completeness auto
termination
  by (relation "measure (\<lambda>(_, _, _, _, payload, _). length payload)") (auto simp: SECTOR_SIZE_def)

declare write_file.simps [simp del]

primrec write_files :: "nat \<Rightarrow> nat \<Rightarrow> int list \<Rightarrow> file_spec list \<Rightarrow> bytes \<Rightarrow> bytes result" where
  "write_files first_data spc entries [] part = Inr part"
| "write_files first_data spc entries (spec # specs) part =
     (case spec of (layout, payload, _, _) \<Rightarrow>
        then_r (write_file first_data spc entries (nat (first_cluster layout)) payload part)
          (write_files first_data spc entries specs))"

record boot_partition =
  boot_bytes :: bytes
  kernel_file :: sd_file_layout
  dtb_file :: sd_file_layout
  checksums_file :: "sd_file_layout option"
  boot_json_file :: "sd_file_layout option"
  checksums :: "sd_boot_checksums option"
  partition_entry_physical :: "int option"
  partition_dtb_physical :: "int option"

text \<open>The bytes of the partition, once the files are placed.\<close>

definition fill_partition ::
  "int \<Rightarrow> nat \<Rightarrow> nat \<Rightarrow> nat \<Rightarrow> nat \<Rightarrow> bytes \<Rightarrow> file_spec list \<Rightarrow> nat \<Rightarrow> nat \<Rightarrow> bytes result" where
  "fill_partition boot_partition_lba sector_count spc fat_sectors cluster_count volume_label specs
       used_clusters next_cluster =
     (let entries = fat_entries cluster_count specs;
          first_data_sector = 32 + 2 * fat_sectors;
          blank = replicate (sector_count * SECTOR_SIZE) 0
      in then_r (fat_table fat_sectors entries) (\<lambda>fat.
         then_r (boot_sector (int spc) boot_partition_lba (int sector_count) fat_sectors volume_label) (\<lambda>boot.
         then_r (fsinfo_sector (int cluster_count - int used_clusters) (int next_cluster)) (\<lambda>info.
         let part = patch (patch blank 0 boot) SECTOR_SIZE info;
             part = patch (patch part (6 * SECTOR_SIZE) boot) (7 * SECTOR_SIZE) info;
             part = patch part (32 * SECTOR_SIZE) fat;
             part = patch part ((32 + fat_sectors) * SECTOR_SIZE) fat
         in then_r (root_directory (spc * SECTOR_SIZE) specs) (\<lambda>dir.
            write_files first_data_sector spc entries specs
              (patch part (first_data_sector * SECTOR_SIZE) dir))))))"

definition boot_payloads :: "bytes \<Rightarrow> bytes \<Rightarrow> string \<Rightarrow> int \<Rightarrow> int \<Rightarrow> int \<Rightarrow> boot_files result" where
  "boot_payloads elf dtb boot_format ram_base ram_size kernel_physical_base =
     (if boot_format = LITTLE64_SD_BOOT_FORMAT_STAGE0 then stage0_files elf dtb
      else if boot_format = LITTLE64_SD_BOOT_FORMAT_LITEX_BIOS
        then litex_bios_files elf dtb ram_base ram_size kernel_physical_base
      else Inl (Value_error ''Unsupported SD boot format''))"

definition build_fat32_boot_partition ::
  "bytes \<Rightarrow> bytes \<Rightarrow> int \<Rightarrow> int \<Rightarrow> int \<Rightarrow> bytes \<Rightarrow> string \<Rightarrow> int \<Rightarrow> int \<Rightarrow> int \<Rightarrow> boot_partition result" where
  "build_fat32_boot_partition elf dtb boot_partition_lba boot_partition_sector_count sectors_per_cluster
       volume_label boot_format ram_base ram_size kernel_physical_base =
     (if sectors_per_cluster < 1 then Inl (Value_error ''sectors_per_cluster must be positive'')
      else if length volume_label \<noteq> 11
        then Inl (Value_error ''volume_label must be exactly 11 bytes'')
      else
        (let spc = nat sectors_per_cluster;
             (fat_sectors, cluster_count) = fat_size_sectors boot_partition_sector_count 32 2 spc
         in if cluster_count < 65525
            then Inl (Value_error ''boot partition is too small for a FAT32 volume'')
            else then_r (boot_payloads elf dtb boot_format ram_base ram_size kernel_physical_base) (\<lambda>files.
              let (specs, next_cluster) = place_files (spc * SECTOR_SIZE) 3 (payloads files);
                  layouts = map fst specs;
                  used_clusters = 1 + sum_list (map spec_clusters specs)
              in if int (used_clusters + 2) > cluster_count
                 then Inl (Value_error ''boot files do not fit in the FAT32 boot partition'')
                 else then_r (fill_partition boot_partition_lba (nat boot_partition_sector_count) spc
                        fat_sectors (nat cluster_count) volume_label specs used_clusters next_cluster) (\<lambda>part.
                   let stage0 = (boot_format = LITTLE64_SD_BOOT_FORMAT_STAGE0);
                       third = layouts ! 2
                   in Inr \<lparr> boot_bytes = part, kernel_file = layouts ! 0, dtb_file = layouts ! 1,
                        checksums_file = (if stage0 then Some third else None),
                        boot_json_file = (if stage0 then None else Some third),
                        checksums = boot_checksums files,
                        partition_entry_physical = boot_entry_physical files,
                        partition_dtb_physical = boot_dtb_physical files \<rparr>))))"

end
