(* ===== verification/Fat32_Layout.thy ===== *)
theory Fat32_Layout
  imports Fat32
begin

text \<open>
  What the builder of the boot partition produces: the allocation table is large enough
  for its clusters, the files have chains of consecutive clusters that do not meet, and
  the partition is a sequence of regions written once each.
\<close>

section \<open>The size of the allocation table\<close>

lemma fat_size_rounds:
  assumes "1 \<le> f"
  shows "fat_size_loop t r n s f =
    (let g = max f (nat (required_fat_sectors (clusters_for t r n s f))) in (g, clusters_for t r n s g))"
proof -
  let ?c = "clusters_for t r n s" and ?q = "\<lambda>c. required_fat_sectors c"
  show ?thesis
  proof (cases "?q (?c f) \<le> int f")
    case True
    then have "max f (nat (?q (?c f))) = f" by simp
    then show ?thesis using True by (simp add: fat_size_loop.simps [of t r n s f] Let_def)
  next
    case False
    define g where "g = nat (?q (?c f))"
    have g: "int g = ?q (?c f)" "f \<le> g" using False assms by (auto simp: g_def)
    have "?q (?c g) \<le> int g"
      using required_fat_sectors_mono [OF clusters_for_mono [OF g(2)]] g(1) by simp
    then have "fat_size_loop t r n s g = (g, ?c g)" by (simp add: fat_size_loop.simps [of t r n s g])
    moreover have "fat_size_loop t r n s f = fat_size_loop t r n s g"
      using False by (simp add: fat_size_loop.simps [of t r n s f] g_def)
    ultimately show ?thesis using g(2) by (simp add: Let_def g_def [symmetric] max_def)
  qed
qed

lemma fat_size_covers:
  assumes "fat_size_sectors t r n s = (f, c)"
  shows "1 \<le> f" "c = clusters_for t r n s f" "(c + 2) * 4 \<le> int f * 512"
proof -
  let ?g = "max 1 (nat (required_fat_sectors (clusters_for t r n s 1)))"
  have e: "f = ?g" "c = clusters_for t r n s ?g"
    using assms by (auto simp: fat_size_sectors_def fat_size_rounds Let_def)
  show f: "1 \<le> f" "c = clusters_for t r n s f" unfolding e by simp_all
  have "required_fat_sectors c \<le> required_fat_sectors (clusters_for t r n s 1)"
    unfolding f(2) using f(1) by (intro required_fat_sectors_mono clusters_for_mono)
  then have "required_fat_sectors c \<le> int f" using e(1) by simp
  then show "(c + 2) * 4 \<le> int f * 512"
    unfolding required_fat_sectors_def ceil_div_def SECTOR_SIZE_def by simp
qed

lemma clusters_fit:
  assumes "c = clusters_for t r n s f" "1 \<le> s"
  shows "r + int (n * f) + c * int s \<le> t" "t < r + int (n * f) + (c + 1) * int s"
proof -
  define d where "d = t - r - int (n * f)"
  have "c = d div int s" using assms(1) by (simp add: clusters_for_def d_def)
  moreover have "d div int s * int s \<le> d" "d < (d div int s + 1) * int s"
    using assms(2) div_mult_mod_eq [of d "int s"] pos_mod_bound [of "int s" d] pos_mod_sign [of "int s" d]
    unfolding distrib_right by linarith+
  ultimately have "c * int s \<le> d" "d < (c + 1) * int s" by simp_all
  then show "r + int (n * f) + c * int s \<le> t" "t < r + int (n * f) + (c + 1) * int s"
    by (simp_all add: d_def)
qed

text \<open>
  Property C24: The loop that sizes the allocation table ends with a table that has an entry for
  every cluster and the two reserved ones, and with as many clusters as the sectors left hold.
\<close>

theorem fat_table_covers:
  assumes "fat_size_sectors t r n s = (f, c)" "1 \<le> s"
  shows "1 \<le> f \<and> (c + 2) * 4 \<le> int f * 512 \<and>
    r + int (n * f) + c * int s \<le> t \<and> t < r + int (n * f) + (c + 1) * int s"
  using fat_size_covers [OF assms(1)] clusters_fit [OF _ assms(2)] by blast

section \<open>Regions of a buffer\<close>

primrec patch_all :: "(nat \<times> bytes) list \<Rightarrow> bytes \<Rightarrow> bytes" where
  "patch_all [] buf = buf"
| "patch_all (r # rs) buf = patch_all rs (patch buf (fst r) (snd r))"

text \<open>Regions in increasing order that end by \<open>hi\<close>.\<close>

fun in_order :: "nat \<Rightarrow> (nat \<times> bytes) list \<Rightarrow> nat \<Rightarrow> bool" where
  "in_order lo [] hi \<longleftrightarrow> lo \<le> hi"
| "in_order lo ((off, d) # rs) hi \<longleftrightarrow> lo \<le> off \<and> in_order (off + length d) rs hi"

lemma in_order_le: "in_order lo rs hi \<Longrightarrow> lo \<le> hi"
  by (induction lo rs hi rule: in_order.induct) auto

lemma in_order_append:
  "in_order lo (rs @ qs) hi \<longleftrightarrow> (\<exists>mid. in_order lo rs mid \<and> in_order mid qs hi)"
proof (induction rs arbitrary: lo)
  case Nil
  have "in_order mid qs hi \<Longrightarrow> lo \<le> mid \<Longrightarrow> in_order lo qs hi" for mid
    by (cases qs) auto
  then show ?case by auto
qed auto

lemma patch_all_append: "patch_all (rs @ qs) buf = patch_all qs (patch_all rs buf)"
  by (induction rs arbitrary: buf) auto

lemma length_patch_all: "in_order lo rs (length buf) \<Longrightarrow> length (patch_all rs buf) = length buf"
proof (induction rs arbitrary: lo buf)
  case (Cons r rs)
  obtain off d where r: "r = (off, d)" by (cases r)
  have "length (patch buf off d) = length buf"
    using Cons.prems in_order_le [of "off + length d" rs "length buf"] by (simp add: r)
  then show ?case using Cons.IH [of "off + length d" "patch buf off d"] Cons.prems by (simp add: r)
qed simp

lemma chunk_patch_all_below:
  "in_order lo rs (length buf) \<Longrightarrow> a + n \<le> lo \<Longrightarrow> chunk (patch_all rs buf) a n = chunk buf a n"
proof (induction rs arbitrary: lo buf)
  case (Cons r rs)
  obtain off d where r: "r = (off, d)" by (cases r)
  have fit: "off + length d \<le> length buf"
    using Cons.prems in_order_le [of "off + length d" rs "length buf"] by (simp add: r)
  have "chunk (patch_all rs (patch buf off d)) a n = chunk (patch buf off d) a n"
    using Cons.IH [of "off + length d" "patch buf off d"] Cons.prems fit by (simp add: r)
  then show ?case using Cons.prems fit by (simp add: r chunk_simps)
qed simp

lemma chunk_patch_all:
  "in_order lo rs (length buf) \<Longrightarrow> (off, d) \<in> set rs \<Longrightarrow> chunk (patch_all rs buf) off (length d) = d"
proof (induction rs arbitrary: lo buf)
  case (Cons r rs)
  obtain o1 d1 where r: "r = (o1, d1)" by (cases r)
  have fit: "o1 + length d1 \<le> length buf"
    using Cons.prems in_order_le [of "o1 + length d1" rs "length buf"] by (simp add: r)
  show ?case
  proof (cases "(off, d) \<in> set rs")
    case True
    then show ?thesis using Cons.IH [of "o1 + length d1" "patch buf o1 d1"] Cons.prems fit by (simp add: r)
  next
    case False
    then have "off = o1" "d = d1" using Cons.prems(2) by (auto simp: r)
    then show ?thesis
      using chunk_patch_all_below [of "o1 + length d1" rs "patch buf o1 d1" o1 "length d1"] Cons.prems(1) fit
      by (simp add: r chunk_simps)
  qed
qed simp

lemma nth_patch_all:
  "in_order lo rs (length buf) \<Longrightarrow> i < length buf \<Longrightarrow>
     (\<And>off d. (off, d) \<in> set rs \<Longrightarrow> \<not> (off \<le> i \<and> i < off + length d)) \<Longrightarrow>
     patch_all rs buf ! i = buf ! i"
proof (induction rs arbitrary: lo buf)
  case (Cons r rs)
  obtain off d where r: "r = (off, d)" by (cases r)
  have fit: "off + length d \<le> length buf"
    using Cons.prems in_order_le [of "off + length d" rs "length buf"] by (simp add: r)
  have "\<not> (off \<le> i \<and> i < off + length d)" using Cons.prems(3) [of off d] by (simp add: r)
  then have "patch buf off d ! i = buf ! i" using fit Cons.prems(2) by (auto simp: nth_patch)
  moreover have "patch_all rs (patch buf off d) ! i = patch buf off d ! i"
    using Cons.IH [of "off + length d" "patch buf off d"] Cons.prems fit by (auto simp: r)
  ultimately show ?case by (simp add: r)
qed simp

section \<open>Placing the files\<close>

text \<open>Files in a row: each has enough clusters and starts where the one before ends.\<close>

fun placed :: "nat \<Rightarrow> nat \<Rightarrow> file_spec list \<Rightarrow> nat \<Rightarrow> bool" where
  "placed cluster_size first [] stop \<longleftrightarrow> first = stop"
| "placed cluster_size first ((layout, payload, _, clusters) # specs) stop \<longleftrightarrow>
     first_cluster layout = int first \<and> file_size layout = int (length payload) \<and>
     1 \<le> clusters \<and> length payload \<le> clusters * cluster_size \<and>
     (clusters = 1 \<or> (clusters - 1) * cluster_size < length payload) \<and>
     placed cluster_size (first + clusters) specs stop"

lemma ceil_div_covers: "1 \<le> k \<Longrightarrow> n \<le> nat (ceil_div (int n) (int k)) * k"
proof -
  assume k: "1 \<le> k"
  have "int n \<le> ceil_div (int n) (int k) * int k"
    using k div_mult_mod_eq [of "int n + int k - 1" "int k"] pos_mod_bound [of "int k" "int n + int k - 1"]
    unfolding ceil_div_def by linarith
  moreover have "0 \<le> ceil_div (int n) (int k)" using k by (simp add: ceil_div_def pos_imp_zdiv_nonneg_iff)
  ultimately have "int n \<le> int (nat (ceil_div (int n) (int k)) * k)" by simp
  then show ?thesis by (simp only: zle_int)
qed

lemma ceil_div_tight:
  assumes "1 \<le> k" "nat (ceil_div (int n) (int k)) = Suc m"
  shows "m * k < n"
proof -
  have c: "ceil_div (int n) (int k) = int m + 1" using assms(2) by simp
  have "ceil_div (int n) (int k) * int k \<le> int n + int k - 1"
    using assms(1) div_mult_mod_eq [of "int n + int k - 1" "int k"] pos_mod_sign [of "int k" "int n + int k - 1"]
    unfolding ceil_div_def by linarith
  then have "int m * int k < int n" unfolding c distrib_right by linarith
  then show ?thesis by (simp only: of_nat_mult [symmetric] of_nat_less_iff)
qed

lemma place_files_placed:
  assumes "1 \<le> cluster_size" "place_files cluster_size first files = (specs, stop)"
  shows "placed cluster_size first specs stop \<and>
    map (\<lambda>(layout, payload, long_name, _). (short_name layout, payload, long_name)) specs = files"
  using assms(2)
proof (induction files arbitrary: first specs)
  case (Cons f rest)
  obtain name payload long_name where f: "f = (name, payload, long_name)" by (cases f)
  define n where "n = max 1 (nat (ceil_div (int (length payload)) (int cluster_size)))"
  obtain specs' where rest: "place_files cluster_size (first + n) rest = (specs', stop)"
    and specs: "specs = (\<lparr> short_name = name, first_cluster = int first,
      file_size = int (length payload) \<rparr>, payload, long_name, n) # specs'"
    using Cons.prems by (auto simp: f Let_def n_def split: prod.splits)
  have "length payload \<le> nat (ceil_div (int (length payload)) (int cluster_size)) * cluster_size"
    using assms(1) by (rule ceil_div_covers)
  also have "\<dots> \<le> n * cluster_size" by (simp add: n_def)
  finally have "length payload \<le> n * cluster_size" .
  moreover have "1 \<le> n" by (simp add: n_def)
  moreover have "n = 1 \<or> (n - 1) * cluster_size < length payload"
  proof (cases "n = 1")
    case False
    then have "n = nat (ceil_div (int (length payload)) (int cluster_size))" by (simp add: n_def max_def split: if_splits)
    then have "nat (ceil_div (int (length payload)) (int cluster_size)) = Suc (n - 1)" using \<open>1 \<le> n\<close> by simp
    then show ?thesis using ceil_div_tight [OF assms(1)] by blast
  qed simp
  ultimately show ?case using Cons.IH [OF rest] by (simp add: f specs)
qed simp

lemma placed_sum: "placed k first specs stop \<Longrightarrow> stop = first + sum_list (map spec_clusters specs)"
  by (induction k first specs stop rule: placed.induct) (auto simp: spec_clusters_def)

lemma placed_le: "placed k first specs stop \<Longrightarrow> first \<le> stop"
  by (drule placed_sum) simp

lemma placed_member_all:
  assumes "placed k first specs stop" "(layout, payload, long_name, n) \<in> set specs"
  shows "int first \<le> first_cluster layout \<and> first_cluster layout + int n \<le> int stop \<and> 1 \<le> n \<and>
    length payload \<le> n * k \<and> file_size layout = int (length payload) \<and> (n = 1 \<or> (n - 1) * k < length payload)"
  using assms
proof (induction k first specs stop rule: placed.induct)
  case (2 k first layout1 payload1 name1 n1 specs stop)
  have "first + n1 \<le> stop" using 2(2) placed_le [of k "first + n1" specs stop] by simp
  then show ?case using 2 by auto
qed auto

lemma placed_member:
  assumes "placed k first specs stop" "(layout, payload, long_name, n) \<in> set specs"
  shows "int first \<le> first_cluster layout" "first_cluster layout + int n \<le> int stop" "1 \<le> n"
    "length payload \<le> n * k" "file_size layout = int (length payload)" "n = 1 \<or> (n - 1) * k < length payload"
  using placed_member_all [OF assms] by simp_all

section \<open>The allocation table\<close>

lemma length_chain_file [simp]: "length (chain_file first n entries) = length entries"
proof -
  have "length (fold (\<lambda>index entries. entries[first + index := g index]) xs entries) = length entries"
    for g :: "nat \<Rightarrow> int" and xs by (induction xs arbitrary: entries) auto
  then show ?thesis by (simp add: chain_file_def)
qed

lemma nth_chain_file:
  assumes "first + n \<le> length entries"
  shows "chain_file first n entries ! c =
    (if first \<le> c \<and> c < first + n then if c = first + n - 1 then FAT_END else int c + 1 else entries ! c)"
proof -
  define g where "g = (\<lambda>index. if index = n - 1 then FAT_END else int (first + index) + 1)"
  have "length (fold (\<lambda>index entries. entries[first + index := g index]) [0 ..< k] entries) = length entries \<and>
      fold (\<lambda>index entries. entries[first + index := g index]) [0 ..< k] entries ! c =
      (if first \<le> c \<and> c < first + k then g (c - first) else entries ! c)" if "k \<le> n" for k
    using that assms
  proof (induction k)
    case (Suc k)
    then show ?case by (auto simp: nth_list_update less_Suc_eq)
  qed auto
  from this [of n] show ?thesis by (auto simp: chain_file_def g_def [symmetric]) (auto simp: g_def)
qed

definition chain_specs :: "file_spec list \<Rightarrow> int list \<Rightarrow> int list" where
  "chain_specs specs = fold (\<lambda>(layout, _, _, clusters). chain_file (nat (first_cluster layout)) clusters) specs"

lemma chain_specs_simps [simp]:
  "chain_specs [] entries = entries"
  "chain_specs ((layout, payload, name, n) # specs) entries =
     chain_specs specs (chain_file (nat (first_cluster layout)) n entries)"
  by (simp_all add: chain_specs_def)

lemma length_chain_specs [simp]: "length (chain_specs specs entries) = length entries"
  by (induction specs arbitrary: entries) auto

lemma chain_specs_outside:
  "placed k first specs stop \<Longrightarrow> stop \<le> length entries \<Longrightarrow> c < first \<or> stop \<le> c \<Longrightarrow>
     chain_specs specs entries ! c = entries ! c"
proof (induction k first specs stop arbitrary: entries rule: placed.induct)
  case (2 k first layout payload name n specs stop)
  then show ?case using placed_le [of k "first + n" specs stop]
    by (auto simp: nth_chain_file)
qed auto

lemma chain_specs_inside:
  assumes "placed k first specs stop" "stop \<le> length entries" "(layout, payload, name, n) \<in> set specs"
    and "first_cluster layout \<le> int c" "int c < first_cluster layout + int n"
  shows "chain_specs specs entries ! c = (if int c = first_cluster layout + int n - 1 then FAT_END else int c + 1)"
  using assms
proof (induction k first specs stop arbitrary: entries rule: placed.induct)
  case (2 k first layout1 payload1 name1 n1 specs stop)
  have stop: "first + n1 \<le> stop" "placed k (first + n1) specs stop"
    using 2(2) placed_le [of k "first + n1" specs stop] by auto
  show ?case
  proof (cases "(layout, payload, name, n) \<in> set specs")
    case True
    then show ?thesis using 2 by auto
  next
    case False
    then have l: "layout1 = layout" "n1 = n" using 2(4) by auto
    then have c: "first \<le> c" "c < first + n" using 2(2,5,6) by auto
    then have "chain_specs specs (chain_file first n entries) ! c = chain_file first n entries ! c"
      using chain_specs_outside [OF stop(2)] 2(3) l by simp
    then show ?thesis using 2(2,3) l c stop by (auto simp: nth_chain_file)
  qed
qed auto

lemma fat_entries_chain: "fat_entries cc specs =
    chain_specs specs ((replicate (cc + 2) 0)[0 := 0x0FFFFFF8, 1 := 0xFFFFFFFF, 2 := FAT_END])"
  by (simp add: fat_entries_def chain_specs_def)

lemma length_fat_entries [simp]: "length (fat_entries cc specs) = cc + 2"
  by (simp add: fat_entries_chain)

text \<open>The table in bytes: four per entry, zero to its end.\<close>

lemma write_entries:
  assumes "4 * (length done + length es) \<le> length buf"
  shows "run_writes (map (\<lambda>(index, v). write_u32_le (4 * index) v) (enumerate (length done) es))
      (concat (map (le_bytes 4) done) @ drop (4 * length done) buf) = Inr b \<longleftrightarrow>
    (\<forall>v \<in> set es. 0 \<le> v \<and> v < 4294967296) \<and>
    b = concat (map (le_bytes 4) (done @ es)) @ drop (4 * (length done + length es)) buf"
  using assms
proof (induction es arbitrary: "done" b)
  case (Cons v es)
  have "patch (concat (map (le_bytes 4) done) @ drop (4 * length done) buf) (4 * length done) (le_bytes 4 v) =
      concat (map (le_bytes 4) (done @ [v])) @ drop (4 * length (done @ [v])) buf"
    by (simp add: patch_def add.commute)
  then show ?case using Cons.IH [of "done @ [v]" b] Cons.prems
    by (auto simp: then_r_Inr write_u32_Inr)
qed auto

lemma fat_table_Inr:
  assumes "4 * length entries \<le> f * 512"
  shows "fat_table f entries = Inr b \<longleftrightarrow>
    (\<forall>v \<in> set entries. 0 \<le> v \<and> v < 4294967296) \<and>
    b = concat (map (le_bytes 4) entries) @ replicate (f * 512 - 4 * length entries) 0"
  using write_entries [of "[]" entries "replicate (f * 512) 0" b] assms
  by (simp add: fat_table_def SECTOR_SIZE_def)

lemma fat_table_entry:
  assumes "fat_table f entries = Inr b" "4 * length entries \<le> f * 512" "c < length entries"
  shows "length b = f * 512" "chunk b (4 * c) 4 = le_bytes 4 (entries ! c)"
    "0 \<le> entries ! c" "entries ! c < 4294967296"
  using assms chunk_packed [OF assms(3), of 4]
  by (auto simp: fat_table_Inr [OF assms(2)] chunk_append_left)

section \<open>Writing the files\<close>

lemma write_file_chain:
  assumes "1 \<le> spc" "2 \<le> c" "1 \<le> n" "length payload \<le> n * (spc * 512)" "c + n \<le> length entries"
    and "\<And>i. i < n - 1 \<Longrightarrow> entries ! (c + i) = int (c + i) + 1"
    and "int (c + n) \<le> 0x0FFFFFF8" "(fds + (c - 2) * spc) * 512 \<le> length part"
  shows "write_file fds spc entries c payload part = Inr (patch part ((fds + (c - 2) * spc) * 512) payload)"
  using assms
proof (induction n arbitrary: c payload part)
  case (Suc n)
  define off where "off = (fds + (c - 2) * spc) * 512"
  define m where "m = min (spc * 512) (length payload)"
  show ?case
  proof (cases "drop m payload = []")
    case True
    then have "take m payload = payload" by simp
    then show ?thesis
      by (simp add: write_file.simps [of fds spc entries c payload part] Let_def SECTOR_SIZE_def
          m_def [symmetric] off_def [symmetric] True) (use Suc.prems(1) in \<open>auto simp: patch_def\<close>)
  next
    case False
    then have m: "m = spc * 512" "m < length payload" by (auto simp: m_def min_def split: if_splits)
    then have n: "1 \<le> n" using Suc.prems(4) by (cases n) auto
    have e: "entries ! c = int c + 1" using Suc.prems(6) [of 0] n by simp
    have off: "(fds + (c + 1 - 2) * spc) * 512 = off + m"
    proof -
      obtain d where "c = d + 2" using Suc.prems(2) by (metis add.commute le_Suc_ex)
      then show ?thesis by (simp add: off_def m algebra_simps)
    qed
    have fit: "off \<le> length part" using Suc.prems(8) by (simp add: off_def)
    have "write_file fds spc entries (c + 1) (drop m payload) (patch part off (take m payload)) =
        Inr (patch (patch part off (take m payload)) (off + m) (drop m payload))"
      unfolding off [symmetric]
    proof (rule Suc.IH)
      show "entries ! (c + 1 + i) = int (c + 1 + i) + 1" if "i < n - 1" for i
        using Suc.prems(6) [of "Suc i"] that by simp
      show "(fds + (c + 1 - 2) * spc) * 512 \<le> length (patch part off (take m payload))"
        unfolding off using fit m by (simp add: length_patch_grow)
    qed (use Suc.prems n m in auto)
    moreover have "patch (patch part off (take m payload)) (off + m) (drop m payload) = patch part off payload"
    proof -
      have "take m payload @ drop m payload @ rest = payload @ rest" for rest
        by (metis append.assoc append_take_drop_id)
      then show ?thesis using fit m by (simp add: patch_def add.commute)
    qed
    moreover have "payload \<noteq> [] \<and> spc \<noteq> 0" "nat (entries ! c) = c + 1" "\<not> entries ! c \<ge> 0x0FFFFFF8"
      "\<not> length entries \<le> c" using False Suc.prems e n by auto
    ultimately show ?thesis
      unfolding write_file.simps [of fds spc entries c payload part] Let_def SECTOR_SIZE_def
        m_def [symmetric] off_def [symmetric] using False by simp
  qed
qed simp

text \<open>Where the first byte of a cluster is in the partition; the region of a file.\<close>

definition cluster_offset :: "nat \<Rightarrow> nat \<Rightarrow> nat \<Rightarrow> nat" where
  "cluster_offset fds spc c = (fds + (c - 2) * spc) * 512"

definition file_regions :: "nat \<Rightarrow> nat \<Rightarrow> file_spec list \<Rightarrow> (nat \<times> bytes) list" where
  "file_regions fds spc specs =
     map (\<lambda>(layout, payload, _, _). (cluster_offset fds spc (nat (first_cluster layout)), payload)) specs"

lemma cluster_offset_add: "2 \<le> c \<Longrightarrow> cluster_offset fds spc (c + n) = cluster_offset fds spc c + n * (spc * 512)"
proof -
  assume "2 \<le> c"
  then obtain d where "c = d + 2" by (metis add.commute le_Suc_ex)
  then show ?thesis by (simp add: cluster_offset_def algebra_simps)
qed

lemma file_regions_in_order:
  "placed (spc * 512) c specs stop \<Longrightarrow> 2 \<le> c \<Longrightarrow>
     in_order (cluster_offset fds spc c) (file_regions fds spc specs) (cluster_offset fds spc stop)"
proof (induction "spc * 512" c specs stop rule: placed.induct)
  case (2 c layout payload name n specs stop)
  have "in_order (cluster_offset fds spc (c + n)) (file_regions fds spc specs) (cluster_offset fds spc stop)"
    using 2 by simp
  moreover have "cluster_offset fds spc c + length payload \<le> cluster_offset fds spc (c + n)"
    using 2 by (simp add: cluster_offset_add)
  ultimately have "in_order (cluster_offset fds spc c + length payload) (file_regions fds spc specs)
      (cluster_offset fds spc stop)"
    by (cases "file_regions fds spc specs") auto
  then show ?case using 2(2) by (simp add: file_regions_def)
qed (simp add: file_regions_def)

lemma write_files_regions:
  assumes "placed (spc * 512) c specs stop" "1 \<le> spc" "2 \<le> c"
    and "\<And>layout payload name n i. (layout, payload, name, n) \<in> set specs \<Longrightarrow> i < n - 1 \<Longrightarrow>
      entries ! (nat (first_cluster layout) + i) = first_cluster layout + int i + 1"
    and "stop \<le> length entries" "stop \<le> 0x0FFFFFF8" "cluster_offset fds spc stop \<le> length part"
  shows "write_files fds spc entries specs part = Inr (patch_all (file_regions fds spc specs) part)"
  using assms
proof (induction "spc * 512" c specs stop arbitrary: part rule: placed.induct)
  case (2 c layout payload name n specs stop)
  have stop: "c + n \<le> stop" "placed (spc * 512) (c + n) specs stop"
    using 2(2) placed_le [of "spc * 512" "c + n" specs stop] by auto
  then have off: "cluster_offset fds spc (c + n) \<le> cluster_offset fds spc stop"
    unfolding cluster_offset_def by (intro mult_right_mono add_left_mono) auto
  have l: "length payload \<le> n * (spc * 512)" "first_cluster layout = int c" "1 \<le> n" using 2(2) by simp_all
  have fit: "cluster_offset fds spc c + length payload \<le> length part"
    using l off 2(4,8) by (simp add: cluster_offset_add)
  have "write_file fds spc entries c payload part = Inr (patch part (cluster_offset fds spc c) payload)"
    unfolding cluster_offset_def
  proof (rule write_file_chain [OF 2(3,4) l(3,1)])
    show "(fds + (c - 2) * spc) * 512 \<le> length part" using fit by (simp add: cluster_offset_def)
  next
    fix i assume "i < n - 1"
    then show "entries ! (c + i) = int (c + i) + 1" using 2(5) [of layout payload name n i] l by simp
  qed (use 2(6,7) stop in auto)
  moreover have "write_files fds spc entries specs (patch part (cluster_offset fds spc c) payload) =
      Inr (patch_all (file_regions fds spc specs) (patch part (cluster_offset fds spc c) payload))"
  proof (rule 2(1))
    show "\<And>layout payload name n i. (layout, payload, name, n) \<in> set specs \<Longrightarrow> i < n - 1 \<Longrightarrow>
      entries ! (nat (first_cluster layout) + i) = first_cluster layout + int i + 1"
      by (rule 2(5)) auto
  qed (use 2(3,4,6-8) fit stop in auto)
  ultimately show ?case using l by (simp add: file_regions_def)
qed (simp add: file_regions_def)

section \<open>The regions of the partition\<close>

definition partition_regions ::
  "nat \<Rightarrow> nat \<Rightarrow> bytes \<Rightarrow> bytes \<Rightarrow> bytes \<Rightarrow> bytes \<Rightarrow> file_spec list \<Rightarrow> (nat \<times> bytes) list" where
  "partition_regions f spc boot info fat dir specs =
     [(0, boot), (512, info), (3072, boot), (3584, info), (32 * 512, fat), ((32 + f) * 512, fat),
      ((32 + 2 * f) * 512, dir)] @ file_regions (32 + 2 * f) spc specs"

lemma length_boot_sector:
  "boot_sector spc lba count f label = Inr b \<Longrightarrow> length label = 11 \<Longrightarrow> length b = 512"
  unfolding boot_sector_def
  by (drule run_writes_leaves [where N = 512 and a = 0 and n = 0]) (simp_all add: SECTOR_SIZE_def)

lemma length_fsinfo: "fsinfo_sector free next_cluster = Inr b \<Longrightarrow> length b = 512"
  unfolding fsinfo_sector_def
  by (drule run_writes_leaves [where N = 512 and a = 0 and n = 0]) (simp_all add: SECTOR_SIZE_def)

lemma put_entries_length: "put_entries off es dir = Inr (off', dir') \<Longrightarrow> length dir' = length dir"
  by (induction es arbitrary: off dir) (auto simp: then_r_Inr view_put_def)

lemma put_specs_length: "put_specs off specs dir = Inr (off', dir') \<Longrightarrow> length dir' = length dir"
  by (induction specs arbitrary: off dir) (auto simp: then_r_Inr dest!: put_entries_length)

lemma root_directory_length: "root_directory k specs = Inr dir \<Longrightarrow> length dir = k"
  by (auto simp: root_directory_def then_r_Inr put_byte_Inr dest!: put_specs_length)

lemma partition_writes:
  assumes r: "fat_table f (fat_entries cc specs) = Inr fat"
    "boot_sector (int spc) lba (int count) f label = Inr boot"
    "fsinfo_sector (int cc - int used) (int next_cluster) = Inr info"
    "root_directory (spc * 512) specs = Inr dir"
    and label: "length label = 11" and spc: "1 \<le> spc"
    and placed: "placed (spc * 512) 3 specs stop" "stop \<le> cc" "stop \<le> 0x0FFFFFF8"
    and fat: "(cc + 2) * 4 \<le> f * 512" "1 \<le> f" "32 + 2 * f + cc * spc \<le> count"
  shows "fill_partition lba count spc f cc label specs used next_cluster =
      Inr (patch_all (partition_regions f spc boot info fat dir specs) (replicate (count * 512) 0))"
    "in_order 0 (partition_regions f spc boot info fat dir specs) (count * 512)"
proof -
  have len: "length boot = 512" "length info = 512" "length fat = f * 512" "length dir = spc * 512"
    using length_boot_sector [OF r(2) label] length_fsinfo [OF r(3)] root_directory_length [OF r(4)]
      fat_table_entry(1) [OF r(1), of 0] fat(1) by simp_all
  have stop: "3 \<le> stop" using placed_le [OF placed(1)] .
  have fits: "cluster_offset (32 + 2 * f) spc stop \<le> count * 512"
  proof -
    have "(stop - 2) * spc \<le> cc * spc" using placed(2) by (intro mult_right_mono) auto
    then have "32 + 2 * f + (stop - 2) * spc \<le> count" using fat(3) by linarith
    then show ?thesis unfolding cluster_offset_def by (intro mult_right_mono) auto
  qed
  have low: "in_order 0 [(0, boot), (512, info), (3072, boot), (3584, info), (32 * 512, fat), ((32 + f) * 512, fat),
      ((32 + 2 * f) * 512, dir)] (cluster_offset (32 + 2 * f) spc 3)"
    using fat(2) by (simp add: len cluster_offset_def)
  have files: "in_order (cluster_offset (32 + 2 * f) spc 3) (file_regions (32 + 2 * f) spc specs)
      (cluster_offset (32 + 2 * f) spc stop)"
    using file_regions_in_order [OF placed(1)] by simp
  have grow: "in_order lo rs hi \<Longrightarrow> hi \<le> hi' \<Longrightarrow> in_order lo rs hi'" for lo rs hi hi'
    by (induction lo rs hi rule: in_order.induct) auto
  show all: "in_order 0 (partition_regions f spc boot info fat dir specs) (count * 512)"
    unfolding partition_regions_def in_order_append using low grow [OF files fits] by blast
  have lenlow: "length (patch_all [(0, boot), (512, info), (3072, boot), (3584, info), (32 * 512, fat),
      ((32 + f) * 512, fat), ((32 + 2 * f) * 512, dir)] (replicate (count * 512) 0)) = count * 512"
  proof -
    have "cluster_offset (32 + 2 * f) spc 3 \<le> count * 512"
      using in_order_le [OF files] fits by simp
    then show ?thesis using length_patch_all [OF grow [OF low], of "replicate (count * 512) 0"] by simp
  qed
  have "write_files (32 + 2 * f) spc (fat_entries cc specs) specs
      (patch_all [(0, boot), (512, info), (3072, boot), (3584, info), (32 * 512, fat), ((32 + f) * 512, fat),
        ((32 + 2 * f) * 512, dir)] (replicate (count * 512) 0)) =
    Inr (patch_all (file_regions (32 + 2 * f) spc specs)
      (patch_all [(0, boot), (512, info), (3072, boot), (3584, info), (32 * 512, fat), ((32 + f) * 512, fat),
        ((32 + 2 * f) * 512, dir)] (replicate (count * 512) 0)))"
  proof (rule write_files_regions [OF placed(1) spc])
    fix layout payload name n i
    assume m: "(layout, payload, name, n) \<in> set specs" "i < n - 1"
    note pm = placed_member [OF placed(1) m(1)]
    have "int i \<noteq> int n - 1" using m(2) by linarith
    then show "fat_entries cc specs ! (nat (first_cluster layout) + i) = first_cluster layout + int i + 1"
      using chain_specs_inside [OF placed(1) _ m(1), of _ "nat (first_cluster layout) + i"] pm m(2) placed(2)
      by (simp add: fat_entries_chain)
  qed (use placed fits lenlow in auto)
  then show "fill_partition lba count spc f cc label specs used next_cluster =
      Inr (patch_all (partition_regions f spc boot info fat dir specs) (replicate (count * 512) 0))"
    unfolding fill_partition_def Let_def SECTOR_SIZE_def r then_r_simps partition_regions_def patch_all_append
    by (simp add: r)
qed

lemma fill_partition_regions:
  assumes fill: "fill_partition lba count spc f cc label specs used next_cluster = Inr part"
    and label: "length label = 11" and spc: "1 \<le> spc"
    and placed: "placed (spc * 512) 3 specs stop" "stop \<le> cc" "stop \<le> 0x0FFFFFF8"
    and fat: "(cc + 2) * 4 \<le> f * 512" "1 \<le> f" "32 + 2 * f + cc * spc \<le> count"
  obtains fat boot info dir where
    "fat_table f (fat_entries cc specs) = Inr fat"
    "boot_sector (int spc) lba (int count) f label = Inr boot"
    "fsinfo_sector (int cc - int used) (int next_cluster) = Inr info"
    "root_directory (spc * 512) specs = Inr dir"
    "part = patch_all (partition_regions f spc boot info fat dir specs) (replicate (count * 512) 0)"
    "in_order 0 (partition_regions f spc boot info fat dir specs) (count * 512)"
proof -
  obtain fat boot info dir where r: "fat_table f (fat_entries cc specs) = Inr fat"
    "boot_sector (int spc) lba (int count) f label = Inr boot"
    "fsinfo_sector (int cc - int used) (int next_cluster) = Inr info"
    "root_directory (spc * 512) specs = Inr dir"
    using fill unfolding fill_partition_def Let_def then_r_Inr by (auto simp: SECTOR_SIZE_def)
  note w = partition_writes [OF r label spc placed fat]
  show ?thesis using that [OF r _ w(2)] w(1) fill by simp
qed

end
