(* ===== verification/Sd_Card.thy ===== *)
theory Sd_Card
  imports Fat32_Layout
begin

text \<open>
  Whole SD cards: the partition table, the image builders of \<open>litex_linux_boot.py\<close> in
  memory and on disk, and \<open>update.py\<close>, which rewrites the boot partition and the root
  file system of a card in place.
\<close>

section \<open>Composing an image\<close>

record sd_card_layout =
  disk_image :: "bytes option"
  disk_size_bytes :: int
  boot_partition_lba :: int
  boot_partition_sector_count :: int
  root_partition_lba :: int
  root_partition_sector_count :: int
  sd_boot_format :: string
  sd_files :: boot_partition

definition partition_entry :: "int \<Rightarrow> int \<Rightarrow> int \<Rightarrow> bytes result" where
  "partition_entry start_lba sector_count partition_type =
     run_writes
       [put_byte 0 0, put_bytes 1 [0xFF, 0xFF, 0xFF], put_byte 4 partition_type,
        put_bytes 5 [0xFF, 0xFF, 0xFF], write_u32_le 8 start_lba, write_u32_le 12 sector_count]
       (replicate 16 0)"

definition master_boot_record :: "int \<Rightarrow> int \<Rightarrow> int \<Rightarrow> int \<Rightarrow> bytes result" where
  "master_boot_record boot_lba boot_count root_lba root_count =
     then_r (partition_entry boot_lba boot_count 0x0C) (\<lambda>e1.
     then_r (partition_entry root_lba root_count 0x83) (\<lambda>e2.
     run_writes [put_bytes 446 e1, put_bytes 462 e2, put_bytes 510 [0x55, 0xAA]] (replicate SECTOR_SIZE 0)))"

text \<open>\<open>_compose_sd_card_image\<close>: the layout, the boot record and the offset of the root
  partition.\<close>

definition compose_sd_card_image ::
  "boot_partition \<Rightarrow> bytes \<Rightarrow> int \<Rightarrow> int \<Rightarrow> int \<Rightarrow> string \<Rightarrow> bool \<Rightarrow> (sd_card_layout \<times> bytes \<times> int) result" where
  "compose_sd_card_image files rootfs boot_lba boot_count root_count boot_format include_disk_image =
     (let root_lba = boot_lba + boot_count;
          disk_size = (root_lba + root_count) * int SECTOR_SIZE
      in then_r (master_boot_record boot_lba boot_count root_lba root_count) (\<lambda>mbr.
         let boot_offset = nat boot_lba * SECTOR_SIZE;
             root_offset = nat root_lba * SECTOR_SIZE;
             with_boot = patch (patch (replicate (nat disk_size) 0) 0 mbr) boot_offset (boot_bytes files);
             disk = (if rootfs = [] then with_boot else patch with_boot root_offset rootfs)
         in Inr (\<lparr> disk_image = (if include_disk_image then Some disk else None),
                   disk_size_bytes = disk_size,
                   boot_partition_lba = boot_lba, boot_partition_sector_count = boot_count,
                   root_partition_lba = root_lba, root_partition_sector_count = root_count,
                   sd_boot_format = boot_format, sd_files = files \<rparr>,
                 mbr, root_lba * int SECTOR_SIZE)))"

definition boot_sectors_for :: "int \<Rightarrow> int" where
  "boot_sectors_for size_mb = max (size_mb * 1024 * 1024 div int SECTOR_SIZE) 65536"

definition build_litex_sd_card_image ::
  "bytes \<Rightarrow> bytes \<Rightarrow> bytes \<Rightarrow> int \<Rightarrow> int \<Rightarrow> int \<Rightarrow> int \<Rightarrow> bytes \<Rightarrow> string \<Rightarrow> int \<Rightarrow> int \<Rightarrow> int \<Rightarrow>
     sd_card_layout result" where
  "build_litex_sd_card_image elf dtb rootfs boot_lba boot_size_mb root_size_mb sectors_per_cluster
       volume_label boot_format ram_base ram_size kernel_physical_base =
     (let boot_count = boot_sectors_for boot_size_mb;
          rootfs_sectors = ceil_div (int (length rootfs)) (int SECTOR_SIZE);
          root_count = max rootfs_sectors (root_size_mb * 1024 * 1024 div int SECTOR_SIZE)
      in if rootfs_sectors > root_count
         then Inl (Value_error ''rootfs payload does not fit in the configured root partition'')
         else then_r (build_fat32_boot_partition elf dtb boot_lba boot_count sectors_per_cluster
                volume_label boot_format ram_base ram_size kernel_physical_base) (\<lambda>files.
              then_r (compose_sd_card_image files rootfs boot_lba boot_count root_count boot_format True)
                (\<lambda>(layout, _, _). Inr layout)))"

section \<open>Writing a card image file\<close>

text \<open>A regular file is its bytes; a write past its end leaves zeros in between.\<close>

definition file_write :: "nat \<Rightarrow> bytes \<Rightarrow> bytes \<Rightarrow> bytes" where
  "file_write pos d contents = patch (contents @ replicate (pos - length contents) 0) pos d"

definition root_partition_sectors_for_disk :: "int \<Rightarrow> int \<Rightarrow> int \<Rightarrow> int result" where
  "root_partition_sectors_for_disk total_bytes boot_lba boot_count =
     (if total_bytes mod int SECTOR_SIZE \<noteq> 0
      then Inl (Value_error ''total_disk_size_bytes must be sector-aligned'')
      else
        (let root_count = total_bytes div int SECTOR_SIZE - (boot_lba + boot_count)
         in if root_count \<le> 0
            then Inl (Value_error ''disk image is too small for the requested partition layout'')
            else Inr root_count))"

definition write_litex_sd_card_image ::
  "bytes \<Rightarrow> bytes \<Rightarrow> bytes \<Rightarrow> int \<Rightarrow> int \<Rightarrow> int \<Rightarrow> int \<Rightarrow> bytes \<Rightarrow> string \<Rightarrow> int \<Rightarrow> int \<Rightarrow> int \<Rightarrow>
     (sd_card_layout \<times> bytes) result" where
  "write_litex_sd_card_image elf dtb rootfs total_bytes boot_lba boot_size_mb sectors_per_cluster
       volume_label boot_format ram_base ram_size kernel_physical_base =
     (let boot_count = boot_sectors_for boot_size_mb
      in then_r (root_partition_sectors_for_disk total_bytes boot_lba boot_count) (\<lambda>root_count.
         if ceil_div (int (length rootfs)) (int SECTOR_SIZE) > root_count
         then Inl (Value_error ''rootfs payload does not fit in the configured root partition'')
         else then_r (build_fat32_boot_partition elf dtb boot_lba boot_count sectors_per_cluster
                volume_label boot_format ram_base ram_size kernel_physical_base) (\<lambda>files.
              then_r (compose_sd_card_image files rootfs boot_lba boot_count root_count boot_format False)
                (\<lambda>(layout, mbr, root_offset).
                   let written = file_write (nat boot_lba * SECTOR_SIZE) (boot_bytes files)
                                   (file_write 0 mbr (replicate (nat total_bytes) 0))
                   in Inr (layout, if rootfs = [] then written
                                   else file_write (nat root_offset) rootfs written)))))"

section \<open>Updating a card\<close>

record partition_entry_info =
  part_type :: int
  start_lba :: int
  sector_count :: int

definition parse_partition_entry :: "bytes \<Rightarrow> nat \<Rightarrow> partition_entry_info" where
  "parse_partition_entry mbr index =
     (let off = 446 + (index - 1) * 16 in
      \<lparr> part_type = uint (mbr ! (off + 4)), start_lba = field_at 4 mbr (off + 8),
        sector_count = field_at 4 mbr (off + 12) \<rparr>)"

definition read_partition_entries :: "bytes \<Rightarrow> (partition_entry_info \<times> partition_entry_info) result" where
  "read_partition_entries contents =
     (let mbr = take SECTOR_SIZE contents in
      if length mbr \<noteq> SECTOR_SIZE then Inl (Value_error ''is too small to contain an MBR'')
      else if chunk mbr 510 2 \<noteq> [0x55, 0xAA]
        then Inl (Value_error ''does not contain a valid MBR signature'')
      else
        (let boot = parse_partition_entry mbr 1; root = parse_partition_entry mbr 2
         in if sector_count boot = 0 then Inl (Value_error ''is missing partition 1'')
            else if sector_count root = 0 then Inl (Value_error ''is missing partition 2'')
            else Inr (boot, root)))"

definition start_offset :: "partition_entry_info \<Rightarrow> int" where
  "start_offset p = start_lba p * int SECTOR_SIZE"

definition size_bytes :: "partition_entry_info \<Rightarrow> int" where
  "size_bytes p = sector_count p * int SECTOR_SIZE"

definition read_exact_range :: "bytes \<Rightarrow> nat \<Rightarrow> nat \<Rightarrow> bytes result" where
  "read_exact_range contents off n =
     (let data = chunk contents off n in
      if length data \<noteq> n then Inl (Value_error ''ended unexpectedly while reading'') else Inr data)"

definition validate_target_layout ::
  "partition_entry_info \<Rightarrow> partition_entry_info \<Rightarrow> partition_entry_info \<Rightarrow> partition_entry_info
     \<Rightarrow> bytes option \<Rightarrow> unit result" where
  "validate_target_layout source_boot source_root target_boot target_root rootfs =
     (if part_type source_boot \<notin> {0x0B, 0x0C} then Inl (Value_error ''source image partition 1 is not FAT32'')
      else if part_type target_boot \<notin> {0x0B, 0x0C} then Inl (Value_error ''target partition 1 is not FAT32'')
      else if part_type source_root \<noteq> 0x83
        then Inl (Value_error ''source image partition 2 is not Linux type 0x83'')
      else if part_type target_root \<noteq> 0x83 then Inl (Value_error ''target partition 2 is not Linux type 0x83'')
      else if start_lba target_boot \<noteq> start_lba source_boot
        then Inl (Value_error ''target boot partition starts at LBA'')
      else if sector_count target_boot < sector_count source_boot
        then Inl (Value_error ''target boot partition is too small'')
      else if start_lba target_root \<noteq> start_lba source_root
        then Inl (Value_error ''target root partition starts at LBA'')
      else (case rootfs of
          None \<Rightarrow> Inr ()
        | Some payload \<Rightarrow>
            if int (length payload) > size_bytes target_root
            then Inl (Value_error ''rootfs payload does not fit in target partition 2'') else Inr ()))"

record update_summary =
  boot_partition_offset :: int
  boot_partition_bytes :: int
  root_partition_offset :: int
  rootfs_bytes :: int

text \<open>The handle is unbuffered, so a \<open>write\<close> is one system call and transfers as much of
  its data as the system takes: \<open>taken\<close> says how many of \<open>n\<close> bytes that is.  The code
  does not look at the count.\<close>

definition raw_write :: "(nat \<Rightarrow> nat) \<Rightarrow> nat \<Rightarrow> bytes \<Rightarrow> bytes \<Rightarrow> bytes" where
  "raw_write taken pos d contents = file_write pos (take (taken (length d)) d) contents"

definition update_partitioned_sd_device ::
  "(nat \<Rightarrow> nat) \<Rightarrow> bytes \<Rightarrow> bytes \<Rightarrow> bytes option \<Rightarrow> bool \<Rightarrow> (update_summary \<times> bytes) result" where
  "update_partitioned_sd_device taken source_image target_device rootfs dry_run =
     then_r (read_partition_entries source_image) (\<lambda>(source_boot, source_root).
     then_r (read_partition_entries target_device) (\<lambda>(target_boot, target_root).
     then_r (validate_target_layout source_boot source_root target_boot target_root rootfs) (\<lambda>_.
       let summary = \<lparr> boot_partition_offset = start_offset target_boot,
                       boot_partition_bytes = size_bytes source_boot,
                       root_partition_offset = start_offset target_root,
                       rootfs_bytes = (case rootfs of None \<Rightarrow> 0 | Some d \<Rightarrow> int (length d)) \<rparr>
       in if dry_run then Inr (summary, target_device)
          else then_r (read_exact_range source_image (nat (start_offset source_boot))
                  (nat (size_bytes source_boot))) (\<lambda>boot.
            let t1 = raw_write taken (nat (start_offset target_boot)) boot target_device;
                t2 = (case rootfs of None \<Rightarrow> t1
                      | Some d \<Rightarrow> raw_write taken (nat (start_offset target_root)) d t1)
            in Inr (summary, t2)))))"

end
