(* ===== verification/Fat32_Spec.thy ===== *)
theory Fat32_Spec
  imports Fat32_Layout
begin

text \<open>
  A boot partition the builder returns, taken apart: its files, its allocation table and
  the regions of its bytes; and the long-name entries read back.
\<close>

section \<open>The parts of a built partition\<close>

lemma build_partition_parts:
  assumes "build_fat32_boot_partition elf dtb lba count spc label fmt rb rs kb = Inr bp"
  obtains f cc files specs stop where
    "1 \<le> spc" "length label = 11" "fat_size_sectors count 32 2 (nat spc) = (f, cc)" "65525 \<le> cc"
    "boot_payloads elf dtb fmt rb rs kb = Inr files"
    "place_files (nat spc * 512) 3 (payloads files) = (specs, stop)"
    "placed (nat spc * 512) 3 specs stop" "int stop \<le> cc"
    "fill_partition lba (nat count) (nat spc) f (nat cc) label specs
       (1 + sum_list (map spec_clusters specs)) stop = Inr (boot_bytes bp)"
    "kernel_file bp = map fst specs ! 0" "dtb_file bp = map fst specs ! 1"
    "checksums_file bp = (if fmt = LITTLE64_SD_BOOT_FORMAT_STAGE0 then Some (map fst specs ! 2) else None)"
    "boot_json_file bp = (if fmt = LITTLE64_SD_BOOT_FORMAT_STAGE0 then None else Some (map fst specs ! 2))"
    "checksums bp = boot_checksums files"
proof -
  obtain f cc where fc: "fat_size_sectors count 32 2 (nat spc) = (f, cc)" by fastforce
  have a: "1 \<le> spc" "length label = 11" "65525 \<le> cc"
    using assms by (auto simp: build_fat32_boot_partition_def Let_def fc split: if_splits)
  obtain files where files: "boot_payloads elf dtb fmt rb rs kb = Inr files"
    using assms a by (auto simp: build_fat32_boot_partition_def Let_def fc then_r_Inr)
  obtain specs stop where ps: "place_files (nat spc * 512) 3 (payloads files) = (specs, stop)" by fastforce
  have p: "placed (nat spc * 512) 3 specs stop"
    using place_files_placed [OF _ ps] a(1) by simp
  note b = assms [unfolded build_fat32_boot_partition_def Let_def fc prod.case files then_r_simps SECTOR_SIZE_def ps]
  have "int stop \<le> cc" using b a placed_sum [OF p] by (auto split: if_splits)
  then show ?thesis
    using b a by (intro that [OF a(1,2) fc a(3) files ps p]) (auto simp: then_r_Inr)
qed

text \<open>Sizes below 4 GiB keep the clusters of three files far below the end marks.\<close>

lemma dir_entry_size:
  "build_fat32_file_dir_entry f = Inr e \<Longrightarrow> 0 \<le> file_size f \<and> file_size f < 4294967296"
  unfolding build_fat32_file_dir_entry_def
  by (drule run_writes_u32_range [where i = 4 and off = 28 and v = "file_size f"]) simp_all

lemma put_specs_sizes:
  "put_specs off specs dir = Inr r \<Longrightarrow> (layout, payload, name, n) \<in> set specs \<Longrightarrow> file_size layout < 4294967296"
  by (induction specs arbitrary: off dir)
     (auto simp: then_r_Inr spec_entries_def split: option.splits dest!: dir_entry_size)

lemma placed_bound:
  assumes "placed k first specs stop" "512 \<le> k"
    and "\<And>layout payload name n. (layout, payload, name, n) \<in> set specs \<Longrightarrow> file_size layout < 4294967296"
  shows "stop \<le> first + length specs * 8388608"
  using assms
proof (induction k first specs stop rule: placed.induct)
  case (2 k first layout payload name n specs stop)
  have "length payload < 4294967296" using 2(2) 2(4) [of layout payload name n] by simp
  moreover have "n = 1 \<or> (n - 1) * 512 < length payload"
  proof (cases "n = 1")
    case False
    then have k: "(n - 1) * k < length payload" using 2(2) by simp
    have "(n - 1) * 512 \<le> (n - 1) * k" using 2(3) by (rule mult_le_mono2)
    then have "(n - 1) * 512 < length payload" using k by (rule le_less_trans)
    then show ?thesis by blast
  qed simp
  ultimately have "n \<le> 8388608" by auto
  moreover have "stop \<le> first + n + length specs * 8388608" using 2 by auto
  ultimately show ?case by simp
qed simp

lemma boot_payloads_three: "boot_payloads elf dtb fmt rb rs kb = Inr files \<Longrightarrow> length (payloads files) = 3"
  by (auto simp: boot_payloads_def stage0_files_def litex_bios_files_def then_r_Inr Let_def split: if_splits)

lemma fill_root_directory:
  "fill_partition lba count spc f cc label specs used stop = Inr part \<Longrightarrow>
     \<exists>dir. root_directory (spc * SECTOR_SIZE) specs = Inr dir"
  by (auto simp: fill_partition_def Let_def then_r_Inr)

text \<open>Everything a reader of a built partition needs.\<close>

lemma build_partition_regions:
  assumes "build_fat32_boot_partition elf dtb lba count spc label fmt rb rs kb = Inr bp"
  obtains f cc files specs stop fat boot info dir where
    "1 \<le> spc" "length label = 11" "1 \<le> f" "65525 \<le> cc" "(cc + 2) * 4 \<le> f * 512"
    "32 + 2 * f + cc * nat spc \<le> nat count"
    "boot_payloads elf dtb fmt rb rs kb = Inr files"
    "map (\<lambda>(layout, payload, long_name, _). (short_name layout, payload, long_name)) specs = payloads files"
    "placed (nat spc * 512) 3 specs stop" "stop \<le> cc" "stop \<le> 3 + 3 * 8388608"
    "fat_table f (fat_entries cc specs) = Inr fat"
    "boot_sector spc lba (int (nat count)) f label = Inr boot"
    "fsinfo_sector (int cc - int (1 + sum_list (map spec_clusters specs))) (int stop) = Inr info"
    "root_directory (nat spc * 512) specs = Inr dir"
    "boot_bytes bp = patch_all (partition_regions f (nat spc) boot info fat dir specs) (replicate (nat count * 512) 0)"
    "in_order 0 (partition_regions f (nat spc) boot info fat dir specs) (nat count * 512)"
    "kernel_file bp = map fst specs ! 0" "dtb_file bp = map fst specs ! 1"
    "checksums_file bp = (if fmt = LITTLE64_SD_BOOT_FORMAT_STAGE0 then Some (map fst specs ! 2) else None)"
    "boot_json_file bp = (if fmt = LITTLE64_SD_BOOT_FORMAT_STAGE0 then None else Some (map fst specs ! 2))"
    "checksums bp = boot_checksums files"
  using assms
proof (rule build_partition_parts)
  fix f cc files specs stop
  assume a: "1 \<le> spc" "length label = 11" "fat_size_sectors count 32 2 (nat spc) = (f, cc)" "65525 \<le> cc"
    and files: "boot_payloads elf dtb fmt rb rs kb = Inr files"
      "place_files (nat spc * 512) 3 (payloads files) = (specs, stop)"
    and p: "placed (nat spc * 512) 3 specs stop" "int stop \<le> cc"
    and fill: "fill_partition lba (nat count) (nat spc) f (nat cc) label specs
       (1 + sum_list (map spec_clusters specs)) stop = Inr (boot_bytes bp)"
    and rest: "kernel_file bp = map fst specs ! 0" "dtb_file bp = map fst specs ! 1"
    "checksums_file bp = (if fmt = LITTLE64_SD_BOOT_FORMAT_STAGE0 then Some (map fst specs ! 2) else None)"
    "boot_json_file bp = (if fmt = LITTLE64_SD_BOOT_FORMAT_STAGE0 then None else Some (map fst specs ! 2))"
    "checksums bp = boot_checksums files"
  note size = fat_size_covers [OF a(3)]
  have cc: "65525 \<le> nat cc" "(nat cc + 2) * 4 \<le> f * 512"
  proof -
    have "int ((nat cc + 2) * 4) \<le> int (f * 512)" using a(4) size(3) by simp
    then show "(nat cc + 2) * 4 \<le> f * 512" by (simp only: of_nat_le_iff)
  qed (use a(4) in simp)
  have fits: "32 + 2 * f + nat cc * nat spc \<le> nat count"
  proof -
    have "int (32 + 2 * f + nat cc * nat spc) \<le> count"
      using clusters_fit(1) [OF size(2)] a(1,4) by simp
    then show ?thesis by linarith
  qed
  have m: "map (\<lambda>(layout, payload, long_name, _). (short_name layout, payload, long_name)) specs = payloads files"
    using place_files_placed [OF _ files(2)] a(1) by simp
  have three: "length specs = 3" using arg_cong [OF m, of length] boot_payloads_three [OF files(1)] by simp
  obtain d where "root_directory (nat spc * 512) specs = Inr d"
    using fill_root_directory [OF fill] by (auto simp: SECTOR_SIZE_def)
  then have "(layout, payload, name, n) \<in> set specs \<Longrightarrow> file_size layout < 4294967296" for layout payload name n
    by (auto simp: root_directory_def then_r_Inr dest: put_specs_sizes)
  then have stop: "stop \<le> 3 + 3 * 8388608" using placed_bound [OF p(1)] a(1) three by simp
  have "nat spc \<ge> 1" "stop \<le> nat cc" "stop \<le> 0x0FFFFFF8" using a(1) p(2) stop by auto
  from fill_partition_regions [OF fill a(2) this(1) p(1) this(2,3) cc(2) size(1) fits]
  show thesis
    using that [OF a(1,2) size(1) cc fits files(1) m p(1)] rest stop a(1) \<open>stop \<le> nat cc\<close> by auto
qed

lemma build_partition_length:
  assumes "build_fat32_boot_partition elf dtb lba count spc label fmt rb rs kb = Inr bp"
  shows "length (boot_bytes bp) = nat count * 512"
  using assms by (rule build_partition_regions) (simp add: length_patch_all)

section \<open>Fields of the sectors\<close>

lemma le_bytes_field: "chunk b off (length (le_bytes n v)) = le_bytes n v \<Longrightarrow> field_at n b off = v mod 256 ^ n"
  by (simp add: field_at_def le_int_le_bytes_mod)

lemma boot_sector_fields:
  assumes "boot_sector spc lba count f label = Inr b" "length label = 11"
  shows "length b = 512" "field_at 2 b 11 = 512" "b ! 13 = word_of_int spc" "field_at 2 b 14 = 32" "b ! 16 = 2"
    "field_at 4 b 36 = int f" "field_at 4 b 44 = 2" "chunk b 510 2 = [0x55, 0xAA]" "0 \<le> spc" "spc < 256"
    "int f < 2 ^ 32" "0 \<le> lba" "lba < 2 ^ 32" "count < 2 ^ 32"
proof -
  note b = assms(1) [unfolded boot_sector_def]
  have N: "length (replicate SECTOR_SIZE (0 :: byte)) = 512" by (simp add: SECTOR_SIZE_def)
  note field = run_writes_field [OF b N]
  show len: "length b = 512" using length_boot_sector [OF assms] .
  have "chunk b 11 (length (le_bytes 2 (int SECTOR_SIZE))) = le_bytes 2 (int SECTOR_SIZE)"
    by (rule field [where i = 2]) (simp_all add: assms(2))
  from le_bytes_field [OF this] show "field_at 2 b 11 = 512" by (simp add: SECTOR_SIZE_def)
  have "chunk b 13 (length [word_of_int spc :: byte]) = [word_of_int spc]"
    by (rule field [where i = 3]) (simp_all add: assms(2))
  then show "b ! 13 = word_of_int spc" using len by (simp add: chunk_Suc)
  have "chunk b 14 (length (le_bytes 2 32)) = le_bytes 2 32"
    by (rule field [where i = 4]) (simp_all add: assms(2))
  from le_bytes_field [OF this] show "field_at 2 b 14 = 32" by simp
  have "chunk b 16 (length [2 :: byte]) = [2]"
    by (rule field [where i = 5]) (simp_all add: assms(2) puts_write(1) [of 512 16 2, simplified])
  then show "b ! 16 = 2" using len by (simp add: chunk_Suc)
  have "chunk b 36 (length (le_bytes 4 (int f))) = le_bytes 4 (int f)"
    by (rule field [where i = 14]) (simp_all add: assms(2))
  moreover show f: "int f < 2 ^ 32" using run_writes_u32_range [OF b, of 14 36 "int f"] by simp
  ultimately show "field_at 4 b 36 = int f" using le_bytes_field [of b 36 4 "int f"] by simp
  have "chunk b 44 (length (le_bytes 4 2)) = le_bytes 4 2"
    by (rule field [where i = 17]) (simp_all add: assms(2))
  from le_bytes_field [OF this] show "field_at 4 b 44 = 2" by simp
  have "chunk b 510 (length [0x55, 0xAA :: byte]) = [0x55, 0xAA]"
    by (rule field [where i = 25]) (simp_all add: assms(2))
  then show "chunk b 510 2 = [0x55, 0xAA]" by (simp add: numeral_2_eq_2)
  show "0 \<le> spc" "spc < 256" using run_writes_byte_range [OF b, of 3 13 spc] by simp_all
  show "0 \<le> lba" "lba < 2 ^ 32" "count < 2 ^ 32"
    using run_writes_u32_range [OF b, of 12 28 lba] run_writes_u32_range [OF b, of 13 32 count] by simp_all
qed

lemma dir_entry_fields:
  assumes "build_fat32_file_dir_entry f = Inr e" "length (short_name f) = 11"
  shows "length e = 32" "chunk e 0 11 = short_name f" "e ! 11 = 0x20"
    "field_at 2 e 20 = drop_bit 16 (first_cluster f) AND 0xFFFF" "field_at 2 e 26 = first_cluster f AND 0xFFFF"
    "field_at 4 e 28 = file_size f" "0 \<le> file_size f" "file_size f < 2 ^ 32"
proof -
  note e = assms(1) [unfolded build_fat32_file_dir_entry_def]
  have N: "length (replicate 32 (0 :: byte)) = 32" by simp
  note field = run_writes_field [OF e N]
  show len: "length e = 32" using run_writes_leaves [OF e N, of 0 0] assms(2) by simp
  have "chunk e 0 (length (short_name f)) = short_name f"
    by (rule field [where i = 0]) (simp_all add: assms(2))
  then show "chunk e 0 11 = short_name f" by (simp add: assms(2))
  have "chunk e 11 (length [0x20 :: byte]) = [0x20]"
    by (rule field [where i = 1]) (simp_all add: assms(2) puts_write(1) [of 32 11 32, simplified])
  then show "e ! 11 = 0x20" using len by (simp add: chunk_Suc)
  have m: "(x AND 0xFFFF) mod 65536 = x AND 0xFFFF" for x :: int
    using take_bit_eq_mask [of 16 x] by (simp add: take_bit_eq_mod)
  have "chunk e 20 (length (le_bytes 2 (drop_bit 16 (first_cluster f) AND 0xFFFF))) =
      le_bytes 2 (drop_bit 16 (first_cluster f) AND 0xFFFF)"
    by (rule field [where i = 2]) (simp_all add: assms(2))
  from le_bytes_field [OF this] show "field_at 2 e 20 = drop_bit 16 (first_cluster f) AND 0xFFFF" by (simp add: m)
  have "chunk e 26 (length (le_bytes 2 (first_cluster f AND 0xFFFF))) = le_bytes 2 (first_cluster f AND 0xFFFF)"
    by (rule field [where i = 3]) (simp_all add: assms(2))
  from le_bytes_field [OF this] show "field_at 2 e 26 = first_cluster f AND 0xFFFF" by (simp add: m)
  have "chunk e 28 (length (le_bytes 4 (file_size f))) = le_bytes 4 (file_size f)"
    by (rule field [where i = 4]) (simp_all add: assms(2))
  moreover show "0 \<le> file_size f" "file_size f < 2 ^ 32" using dir_entry_size [OF assms(1)] by simp_all
  ultimately show "field_at 4 e 28 = file_size f" using le_bytes_field [of e 28 4 "file_size f"] by simp
qed

lemma short_name_length: "fat32_short_name name = Inr n \<Longrightarrow> length n = 11"
  by (auto simp: fat32_short_name_def Let_def then_r_Inr encode_ascii_def ljust_def split: if_splits)

section \<open>The root directory of files without long names\<close>

lemma put_specs_chunk_below:
  "put_specs off specs dir = Inr (off', dir') \<Longrightarrow> a + n \<le> off \<Longrightarrow>
     (\<forall>(layout, _, name, _) \<in> set specs. name = None \<and> length (short_name layout) = 11) \<Longrightarrow>
     off' = off + 32 * length specs \<and> off' \<le> max off (length dir) \<and> chunk dir' a n = chunk dir a n"
proof (induction specs arbitrary: off dir)
  case (Cons spec specs)
  obtain layout payload k where spec: "spec = (layout, payload, None, k)"
    using Cons.prems(3) by (cases spec) auto
  obtain e where e: "build_fat32_file_dir_entry layout = Inr e" "off + length e \<le> length dir"
    and run: "put_specs (off + 32) specs (patch dir off e) = Inr (off', dir')"
    using Cons.prems(1) by (auto simp: spec spec_entries_def then_r_Inr view_put_def)
  have l: "length e = 32" using dir_entry_fields(1) [OF e(1)] Cons.prems(3) by (simp add: spec)
  show ?case
    using Cons.IH [OF run] Cons.prems e(2) l by (auto simp: spec chunk_simps)
qed auto

lemma put_specs_entries:
  assumes "put_specs off specs dir = Inr (off', dir')"
    and "\<forall>(layout, _, name, _) \<in> set specs. name = None \<and> length (short_name layout) = 11"
    and "i < length specs"
  shows "build_fat32_file_dir_entry (fst (specs ! i)) = Inr (chunk dir' (off + 32 * i) 32) \<and>
    off + 32 * i + 32 \<le> length dir"
  using assms
proof (induction specs arbitrary: off dir i)
  case (Cons spec specs)
  obtain layout payload k where spec: "spec = (layout, payload, None, k)"
    using Cons.prems(2) by (cases spec) auto
  obtain e where e: "build_fat32_file_dir_entry layout = Inr e" "off + length e \<le> length dir"
    and run: "put_specs (off + 32) specs (patch dir off e) = Inr (off', dir')"
    using Cons.prems(1) by (auto simp: spec spec_entries_def then_r_Inr view_put_def)
  have l: "length e = 32" using dir_entry_fields(1) [OF e(1)] Cons.prems(2) by (simp add: spec)
  have rest: "\<forall>(layout, _, name, _) \<in> set specs. name = None \<and> length (short_name layout) = 11"
    using Cons.prems(2) by auto
  show ?case
  proof (cases i)
    case 0
    have "chunk dir' off 32 = chunk (patch dir off e) off 32"
      using put_specs_chunk_below [OF run, of off 32] rest by simp
    then show ?thesis using 0 e l by (simp add: spec chunk_simps)
  next
    case (Suc j)
    then show ?thesis using Cons.IH [OF run rest, of j] Cons.prems(3) e(2) l by (simp add: add.assoc)
  qed
qed simp

lemma root_directory_entries:
  assumes "root_directory k specs = Inr dir"
    and "\<forall>(layout, _, name, _) \<in> set specs. name = None \<and> length (short_name layout) = 11"
    and "i < length specs"
  shows "build_fat32_file_dir_entry (fst (specs ! i)) = Inr (chunk dir (32 * i) 32)" "32 * i + 32 \<le> k"
proof -
  obtain off dir' where p: "put_specs 0 specs (replicate k 0) = Inr (off, dir')" "put_byte off 0 dir' = Inr dir"
    using assms(1) by (auto simp: root_directory_def then_r_Inr)
  have "off = 32 * length specs" using put_specs_chunk_below [OF p(1), of 0 0] assms(2) by simp
  moreover have "32 * i + 32 \<le> 32 * length specs" using assms(3) by simp
  ultimately have "chunk dir (32 * i) 32 = chunk dir' (32 * i) 32"
    using p(2) by (auto simp: put_byte_Inr chunk_simps)
  then show "build_fat32_file_dir_entry (fst (specs ! i)) = Inr (chunk dir (32 * i) 32)" "32 * i + 32 \<le> k"
    using put_specs_entries [OF p(1) assms(2,3)] by simp_all
qed

end
