(* ===== verification/Sd_Card_Spec.thy ===== *)
theory Sd_Card_Spec
  imports Sd_Card Fat32_Spec
begin

text \<open>
  What holds of the cards: the partition table read back is the one composed, the image
  built in memory and the file written are the same bytes, an update touches only the
  two partitions it validated, and reports success whatever the system took of a write.
\<close>

section \<open>The partition table\<close>

lemma partition_entry_fields:
  assumes "partition_entry start count kind = Inr e"
  shows "length e = 16" "e ! 4 = word_of_int kind" "field_at 4 e 8 = start" "field_at 4 e 12 = count"
    "0 \<le> start" "start < 2 ^ 32" "0 \<le> count" "count < 2 ^ 32" "0 \<le> kind" "kind < 256"
proof -
  note e = assms [unfolded partition_entry_def]
  show len: "length e = 16" using run_writes_leaves [OF e, of 16 0 0] by simp
  have "chunk e 4 (length [word_of_int kind :: byte]) = [word_of_int kind]"
    by (rule run_writes_field [OF e, where N = 16 and i = 2]) simp_all
  then show "e ! 4 = word_of_int kind" using len by (simp add: chunk_Suc)
  have "chunk e 8 (length (le_bytes 4 start)) = le_bytes 4 start"
    by (rule run_writes_field [OF e, where N = 16 and i = 4]) simp_all
  moreover have "chunk e 12 (length (le_bytes 4 count)) = le_bytes 4 count"
    by (rule run_writes_field [OF e, where N = 16 and i = 5]) simp_all
  moreover show "0 \<le> start" "start < 2 ^ 32" "0 \<le> count" "count < 2 ^ 32"
    using run_writes_u32_range [OF e, of 4 8 start] run_writes_u32_range [OF e, of 5 12 count] by simp_all
  ultimately show "field_at 4 e 8 = start" "field_at 4 e 12 = count" by (simp_all add: field_at_def)
  show "0 \<le> kind" "kind < 256" using run_writes_byte_range [OF e, of 2 4 kind] by simp_all
qed

text \<open>The boot record as a reader of the card finds it.\<close>

definition is_boot_record :: "bytes \<Rightarrow> int \<Rightarrow> int \<Rightarrow> int \<Rightarrow> int \<Rightarrow> bool" where
  "is_boot_record mbr boot_lba boot_count root_lba root_count \<longleftrightarrow>
     length mbr = SECTOR_SIZE \<and> chunk mbr 510 2 = [0x55, 0xAA] \<and>
     parse_partition_entry mbr 1 = \<lparr> part_type = 0x0C, start_lba = boot_lba, sector_count = boot_count \<rparr> \<and>
     parse_partition_entry mbr 2 = \<lparr> part_type = 0x83, start_lba = root_lba, sector_count = root_count \<rparr>"

lemma master_boot_record_reads:
  assumes "master_boot_record bl bc rl rc = Inr mbr"
  shows "is_boot_record mbr bl bc rl rc" "0 \<le> bl" "bl < 2 ^ 32" "0 \<le> bc" "bc < 2 ^ 32"
    "0 \<le> rl" "rl < 2 ^ 32" "0 \<le> rc" "rc < 2 ^ 32"
proof -
  obtain e1 e2 where e: "partition_entry bl bc 0x0C = Inr e1" "partition_entry rl rc 0x83 = Inr e2"
    and m: "run_writes [put_bytes 446 e1, put_bytes 462 e2, put_bytes 510 [0x55, 0xAA]] (replicate SECTOR_SIZE 0) = Inr mbr"
    using assms by (auto simp: master_boot_record_def then_r_Inr)
  note f1 = partition_entry_fields [OF e(1)] and f2 = partition_entry_fields [OF e(2)]
  have len: "length mbr = 512" using run_writes_leaves [OF m, of 512 0 0] f1(1) f2(1) by (simp add: SECTOR_SIZE_def)
  have c1: "chunk mbr 446 (length e1) = e1"
    by (rule run_writes_field [OF m, where N = 512 and i = 0]) (simp_all add: f1(1) f2(1) SECTOR_SIZE_def)
  have c2: "chunk mbr 462 (length e2) = e2"
    by (rule run_writes_field [OF m, where N = 512 and i = 1]) (simp_all add: f1(1) f2(1) SECTOR_SIZE_def)
  have c3: "chunk mbr 510 (length [0x55, 0xAA :: byte]) = [0x55, 0xAA]"
    by (rule run_writes_field [OF m, where N = 512 and i = 2]) (simp_all add: f1(1) f2(1) SECTOR_SIZE_def)
  then have c3: "chunk mbr 510 2 = [0x55, 0xAA]" by (simp add: numeral_2_eq_2)
  have s: "chunk mbr (446 + a) n = chunk e1 a n" "chunk mbr (462 + a) n = chunk e2 a n" if "a + n \<le> 16" for a n
  proof -
    have "min n (16 - a) = n" using that by simp
    then show "chunk mbr (446 + a) n = chunk e1 a n" "chunk mbr (462 + a) n = chunk e2 a n"
      using chunk_chunk [of mbr 446 16 a n] chunk_chunk [of mbr 462 16 a n] c1 c2 f1(1) f2(1) by simp_all
  qed
  have t: "mbr ! 450 = 0x0C" "mbr ! 466 = 0x83"
    using s [of 4 1] len f1(1,2) f2(1,2) by (simp_all add: chunk_Suc)
  show "is_boot_record mbr bl bc rl rc"
    using len c3 t s [of 8 4] s [of 12 4] f1(3,4) f2(3,4)
    by (simp add: is_boot_record_def parse_partition_entry_def field_at_def SECTOR_SIZE_def)
  show "0 \<le> bl" "bl < 2 ^ 32" "0 \<le> bc" "bc < 2 ^ 32" "0 \<le> rl" "rl < 2 ^ 32" "0 \<le> rc" "rc < 2 ^ 32"
    using f1(5-8) f2(5-8) by simp_all
qed

lemma read_entries_of_record:
  assumes "is_boot_record (chunk contents 0 SECTOR_SIZE) bl bc rl rc"
  shows "read_partition_entries contents =
    (if bc = 0 then Inl (Value_error ''is missing partition 1'')
     else if rc = 0 then Inl (Value_error ''is missing partition 2'')
     else Inr (\<lparr> part_type = 0x0C, start_lba = bl, sector_count = bc \<rparr>,
               \<lparr> part_type = 0x83, start_lba = rl, sector_count = rc \<rparr>))"
  using assms by (simp add: read_partition_entries_def is_boot_record_def Let_def chunk_def)

section \<open>The composed disk\<close>

text \<open>The bytes of a card with a boot record, a boot partition and a root file system.\<close>

definition card_bytes :: "bytes \<Rightarrow> bytes \<Rightarrow> bytes \<Rightarrow> nat \<Rightarrow> nat \<Rightarrow> nat \<Rightarrow> bytes" where
  "card_bytes mbr boot rootfs boot_off root_off n =
     patch (patch (patch (replicate n 0) 0 mbr) boot_off boot) root_off rootfs"

lemma card_bytes_regions:
  assumes "length mbr = 512" "512 \<le> boot_off" "boot_off + length boot \<le> root_off" "root_off + length rootfs \<le> n"
  shows "length (card_bytes mbr boot rootfs boot_off root_off n) = n"
    "chunk (card_bytes mbr boot rootfs boot_off root_off n) 0 512 = mbr"
    "chunk (card_bytes mbr boot rootfs boot_off root_off n) boot_off (length boot) = boot"
    "chunk (card_bytes mbr boot rootfs boot_off root_off n) root_off (length rootfs) = rootfs"
  using assms by (simp_all add: card_bytes_def chunk_simps)

lemma patch_empty: "off \<le> length xs \<Longrightarrow> patch xs off [] = xs"
  by (simp add: patch_def)

text \<open>Partitions of a builder: the boot partition has its sectors, the root one follows.\<close>

lemma compose_disk:
  assumes "compose_sd_card_image files rootfs bl bc rc fmt inc = Inr (lay, mbr, off)"
    and "length (boot_bytes files) = nat bc * 512" "int (length rootfs) \<le> rc * 512" "1 \<le> bl" "0 \<le> rc"
  shows "is_boot_record mbr bl bc (bl + bc) rc" "off = (bl + bc) * 512" "0 \<le> bc"
    "disk_size_bytes lay = (bl + bc + rc) * 512" "sd_files lay = files"
    "disk_image lay = (if inc then Some (card_bytes mbr (boot_bytes files) rootfs (nat bl * 512)
        (nat (bl + bc) * 512) (nat ((bl + bc + rc) * 512))) else None)"
    "length mbr = 512" "nat bl * 512 + length (boot_bytes files) \<le> nat (bl + bc) * 512"
    "nat (bl + bc) * 512 + length rootfs \<le> nat ((bl + bc + rc) * 512)"
proof -
  have m: "master_boot_record bl bc (bl + bc) rc = Inr mbr"
    using assms(1) by (auto simp: compose_sd_card_image_def Let_def then_r_Inr)
  note r = master_boot_record_reads [OF m]
  show "is_boot_record mbr bl bc (bl + bc) rc" "0 \<le> bc" using r by simp_all
  then show len: "length mbr = 512" by (simp add: is_boot_record_def SECTOR_SIZE_def)
  show fit: "nat bl * 512 + length (boot_bytes files) \<le> nat (bl + bc) * 512"
    "nat (bl + bc) * 512 + length rootfs \<le> nat ((bl + bc + rc) * 512)"
    using assms(2-5) r(4) by (simp_all add: nat_add_distrib nat_mult_distrib algebra_simps)
  have at: "nat (bl + bc) * 512 \<le> nat ((bl + bc + rc) * 512)" using fit by simp
  show "off = (bl + bc) * 512" "disk_size_bytes lay = (bl + bc + rc) * 512" "sd_files lay = files"
    using assms(1) by (auto simp: compose_sd_card_image_def Let_def then_r_Inr SECTOR_SIZE_def)
  have "length (patch (patch (replicate (nat ((bl + bc + rc) * 512)) 0) 0 mbr) (nat bl * 512) (boot_bytes files)) =
      nat ((bl + bc + rc) * 512)"
    using len fit at assms(4) by simp
  then show "disk_image lay = (if inc then Some (card_bytes mbr (boot_bytes files) rootfs (nat bl * 512)
        (nat (bl + bc) * 512) (nat ((bl + bc + rc) * 512))) else None)"
    using assms(1) at by (auto simp: compose_sd_card_image_def Let_def then_r_Inr SECTOR_SIZE_def card_bytes_def patch_empty)
qed

lemma file_write_patch: "pos \<le> length f \<Longrightarrow> file_write pos d f = patch f pos d"
  by (simp add: file_write_def)

section \<open>The two image builders\<close>

lemma ceil_sectors: "ceil_div (int n) 512 \<le> rc \<Longrightarrow> int n \<le> rc * 512"
  unfolding ceil_div_def by linarith

lemma boot_sectors_pos: "65536 \<le> boot_sectors_for mb"
  by (simp add: boot_sectors_for_def)

lemma image_on_disk:
  assumes "build_litex_sd_card_image elf dtb rootfs bl boot_mb root_mb spc label fmt rb rs kb = Inr lay"
    and "1 \<le> bl"
  obtains disk mbr rc files where
    "build_fat32_boot_partition elf dtb bl (boot_sectors_for boot_mb) spc label fmt rb rs kb = Inr files"
    "rc = max (ceil_div (int (length rootfs)) 512) (root_mb * 1024 * 1024 div 512)"
    "is_boot_record mbr bl (boot_sectors_for boot_mb) (bl + boot_sectors_for boot_mb) rc"
    "disk_image lay = Some disk" "sd_files lay = files" "0 \<le> rc"
    "disk_size_bytes lay = (bl + boot_sectors_for boot_mb + rc) * 512" "int (length disk) = disk_size_bytes lay"
    "chunk disk 0 512 = mbr"
    "chunk disk (nat bl * 512) (length (boot_bytes files)) = boot_bytes files"
    "chunk disk (nat (bl + boot_sectors_for boot_mb) * 512) (length rootfs) = rootfs"
    "nat bl * 512 + length (boot_bytes files) \<le> length disk" "bl + boot_sectors_for boot_mb < 2 ^ 32"
proof -
  let ?bc = "boot_sectors_for boot_mb"
  let ?rc = "max (ceil_div (int (length rootfs)) 512) (root_mb * 1024 * 1024 div 512)"
  obtain files mbr off where b: "build_fat32_boot_partition elf dtb bl ?bc spc label fmt rb rs kb = Inr files"
    and c: "compose_sd_card_image files rootfs bl ?bc ?rc fmt True = Inr (lay, mbr, off)"
    using assms(1) by (auto simp: build_litex_sd_card_image_def Let_def then_r_Inr SECTOR_SIZE_def)
  have "0 \<le> ceil_div (int (length rootfs)) 512" by (simp add: ceil_div_def pos_imp_zdiv_nonneg_iff)
  then have rc: "0 \<le> ?rc" by simp
  note d = compose_disk [OF c build_partition_length [OF b] ceil_sectors [OF max.cobounded1] assms(2) rc]
  have m: "master_boot_record bl ?bc (bl + ?bc) ?rc = Inr mbr"
    using c by (auto simp: compose_sd_card_image_def Let_def then_r_Inr)
  let ?disk = "card_bytes mbr (boot_bytes files) rootfs (nat bl * 512) (nat (bl + ?bc) * 512)
    (nat ((bl + ?bc + ?rc) * 512))"
  have "512 \<le> nat bl * 512" using assms(2) by simp
  note r = card_bytes_regions [OF d(7) this d(8,9)]
  have len: "int (length ?disk) = disk_size_bytes lay"
    using r(1) d(4) assms(2) rc boot_sectors_pos [of boot_mb] by simp
  have disk: "disk_image lay = Some ?disk" using d(6) by simp
  have fit: "nat bl * 512 + length (boot_bytes files) \<le> length ?disk" using d(8,9) r(1) by simp
  show ?thesis
    by (rule that [OF b refl d(1) disk d(5) rc d(4) len r(2-4) fit master_boot_record_reads(7) [OF m]])
qed

text \<open>
  Property C17: The partition table of a built card image, read back by the update tool, gives the
  two partitions of the layout, and the image holds the boot partition and the root file system at
  their offsets.
\<close>

theorem sd_image_layout:
  assumes "build_litex_sd_card_image elf dtb rootfs bl boot_mb root_mb spc label fmt rb rs kb = Inr lay"
    and "1 \<le> bl" "1 \<le> root_mb"
  shows "\<exists>disk. disk_image lay = Some disk \<and> int (length disk) = disk_size_bytes lay \<and>
    read_partition_entries disk =
      Inr (\<lparr> part_type = 0x0C, start_lba = bl, sector_count = boot_sectors_for boot_mb \<rparr>,
           \<lparr> part_type = 0x83, start_lba = bl + boot_sectors_for boot_mb,
             sector_count = disk_size_bytes lay div 512 - (bl + boot_sectors_for boot_mb) \<rparr>) \<and>
    chunk disk (nat bl * 512) (nat (boot_sectors_for boot_mb) * 512) = boot_bytes (sd_files lay) \<and>
    chunk disk (nat (bl + boot_sectors_for boot_mb) * 512) (length rootfs) = rootfs"
  using assms(1,2)
proof (rule image_on_disk)
  fix disk mbr rc files
  let ?bc = "boot_sectors_for boot_mb"
  assume b: "build_fat32_boot_partition elf dtb bl ?bc spc label fmt rb rs kb = Inr files"
    and rc: "rc = max (ceil_div (int (length rootfs)) 512) (root_mb * 1024 * 1024 div 512)"
    and mbr: "is_boot_record mbr bl ?bc (bl + ?bc) rc" "chunk disk 0 512 = mbr"
    and disk: "disk_image lay = Some disk" "sd_files lay = files"
      "disk_size_bytes lay = (bl + ?bc + rc) * 512" "int (length disk) = disk_size_bytes lay"
      "chunk disk (nat bl * 512) (length (boot_bytes files)) = boot_bytes files"
      "chunk disk (nat (bl + ?bc) * 512) (length rootfs) = rootfs"
  have "1 \<le> rc" using assms(3) by (simp add: rc)
  then have "read_partition_entries disk =
      Inr (\<lparr> part_type = 0x0C, start_lba = bl, sector_count = ?bc \<rparr>,
           \<lparr> part_type = 0x83, start_lba = bl + ?bc, sector_count = rc \<rparr>)"
    using read_entries_of_record [of disk bl ?bc "bl + ?bc" rc] mbr boot_sectors_pos [of boot_mb]
    by (simp add: SECTOR_SIZE_def)
  moreover have "disk_size_bytes lay div 512 - (bl + ?bc) = rc" by (simp add: disk(3))
  ultimately show ?thesis using disk build_partition_length [OF b] by simp
qed

text \<open>The file written seek by seek is the image built in memory.\<close>

text \<open>
  Property C18: The card file written seek by seek holds the same bytes as the image built in
  memory for a disk of the same size, and has the same layout.
\<close>

theorem written_card_is_image:
  assumes "write_litex_sd_card_image elf dtb rootfs all_bytes bl boot_mb spc label fmt rb rs kb = Inr (lay, content)"
    and "build_litex_sd_card_image elf dtb rootfs bl boot_mb root_mb spc label fmt rb rs kb = Inr lay'"
    and "disk_size_bytes lay' = all_bytes" "1 \<le> bl"
  shows "disk_image lay' = Some content \<and> lay = lay'\<lparr> disk_image := None \<rparr>"
proof -
  let ?bc = "boot_sectors_for boot_mb"
  let ?rc' = "max (ceil_div (int (length rootfs)) 512) (root_mb * 1024 * 1024 div 512)"
  obtain rc files mbr off where rcd: "root_partition_sectors_for_disk all_bytes bl ?bc = Inr rc"
    and fits: "ceil_div (int (length rootfs)) 512 \<le> rc"
    and b: "build_fat32_boot_partition elf dtb bl ?bc spc label fmt rb rs kb = Inr files"
    and c: "compose_sd_card_image files rootfs bl ?bc rc fmt False = Inr (lay, mbr, off)"
    and file_eq: "content = (let w = file_write (nat bl * 512) (boot_bytes files) (file_write 0 mbr (replicate (nat all_bytes) 0))
      in if rootfs = [] then w else file_write (nat off) rootfs w)"
    using assms(1) by (auto simp: write_litex_sd_card_image_def Let_def then_r_Inr SECTOR_SIZE_def)
  obtain mbr' off' where c': "compose_sd_card_image files rootfs bl ?bc ?rc' fmt True = Inr (lay', mbr', off')"
    using assms(2) b by (auto simp: build_litex_sd_card_image_def Let_def then_r_Inr SECTOR_SIZE_def)
  have rc: "1 \<le> rc" "all_bytes = (bl + ?bc + rc) * 512"
    using rcd by (auto simp: root_partition_sectors_for_disk_def Let_def SECTOR_SIZE_def)
  have "0 \<le> ceil_div (int (length rootfs)) 512" by (simp add: ceil_div_def pos_imp_zdiv_nonneg_iff)
  then have rc': "0 \<le> ?rc'" by simp
  note d' = compose_disk [OF c' build_partition_length [OF b] ceil_sectors [OF max.cobounded1] assms(4) rc']
  have same: "?rc' = rc" using d'(4) assms(3) rc(2) by simp
  have m: "mbr' = mbr" "off' = off" "lay = lay'\<lparr> disk_image := None \<rparr>"
    using c c' same by (auto simp: compose_sd_card_image_def Let_def then_r_Inr)
  have "rc \<ge> 0" using rc by simp
  note d = compose_disk [OF c build_partition_length [OF b] ceil_sectors [OF fits] assms(4) this]
  have n: "nat all_bytes = nat ((bl + ?bc + rc) * 512)" by (simp add: rc(2))
  have le: "nat bl * 512 + length (boot_bytes files) \<le> nat all_bytes" "512 \<le> nat all_bytes"
    "nat off = nat (bl + ?bc) * 512" "nat (bl + ?bc) * 512 \<le> nat all_bytes"
    using d(2,8,9) n assms(4) boot_sectors_pos [of boot_mb] by (auto simp: nat_mult_distrib)
  have len: "length (patch (replicate (nat all_bytes) 0) 0 mbr) = nat all_bytes" using d(7) le(2) by simp
  have "content = card_bytes mbr (boot_bytes files) rootfs (nat bl * 512) (nat (bl + ?bc) * 512) (nat all_bytes)"
    using file_eq len le d(7) by (simp add: file_write_patch card_bytes_def Let_def patch_empty)
  then show ?thesis using d'(6) m same n by simp
qed

text \<open>The floor of 65536 sectors under the size of the boot partition is below what the
  FAT32 builder accepts.\<close>

text \<open>
  Property C21: A boot partition of 32 MB or less, raised to the minimum of 65536 sectors, is
  always rejected as too small for FAT32.
\<close>

theorem smallest_boot_partition_fails:
  assumes "boot_mb \<le> 32" "1 \<le> spc" "length label = 11"
  shows "build_litex_sd_card_image elf dtb rootfs bl boot_mb root_mb spc label fmt rb rs kb =
    Inl (Value_error ''boot partition is too small for a FAT32 volume'')"
proof -
  have bc: "boot_sectors_for boot_mb = 65536" using assms(1) by (simp add: boot_sectors_for_def SECTOR_SIZE_def)
  obtain f cc where fc: "fat_size_sectors 65536 32 2 (nat spc) = (f, cc)" by fastforce
  note s = fat_size_covers [OF fc]
  have "32 + int (2 * f) + cc * int (nat spc) \<le> 65536"
    using clusters_fit(1) [OF s(2)] assms(2) by simp
  then have "cc * spc \<le> 65502" using s(1) assms(2) by simp
  then have "cc < 65525"
  proof -
    have "cc \<ge> 65525 \<Longrightarrow> cc * 1 \<le> cc * spc" using assms(2) by (intro mult_left_mono) auto
    then show ?thesis using \<open>cc * spc \<le> 65502\<close> by linarith
  qed
  then show ?thesis using assms(2,3)
    by (simp add: build_litex_sd_card_image_def Let_def build_fat32_boot_partition_def bc fc max_def)
qed

section \<open>Updates\<close>

lemma validate_facts:
  assumes "validate_target_layout sb sr tb tr rootfs = Inr u"
  shows "part_type sb \<in> {0x0B, 0x0C}" "part_type tb \<in> {0x0B, 0x0C}" "part_type sr = 0x83" "part_type tr = 0x83"
    "start_lba tb = start_lba sb" "sector_count sb \<le> sector_count tb" "start_lba tr = start_lba sr"
    "\<And>d. rootfs = Some d \<Longrightarrow> int (length d) \<le> size_bytes tr"
  using assms unfolding validate_target_layout_def if_error by (auto split: option.splits if_splits)

lemma update_parts:
  assumes "update_partitioned_sd_device taken src tgt rootfs dry = Inr (s, t)"
  obtains sb sr tb tr where
    "read_partition_entries src = Inr (sb, sr)" "read_partition_entries tgt = Inr (tb, tr)"
    "validate_target_layout sb sr tb tr rootfs = Inr ()"
    "s = \<lparr> boot_partition_offset = start_offset tb, boot_partition_bytes = size_bytes sb,
           root_partition_offset = start_offset tr,
           rootfs_bytes = (case rootfs of None \<Rightarrow> 0 | Some d \<Rightarrow> int (length d)) \<rparr>"
    "dry \<Longrightarrow> t = tgt"
    "\<not> dry \<Longrightarrow> length (chunk src (nat (start_offset sb)) (nat (size_bytes sb))) = nat (size_bytes sb)"
    "\<not> dry \<Longrightarrow> t = (let t1 = raw_write taken (nat (start_offset tb))
         (chunk src (nat (start_offset sb)) (nat (size_bytes sb))) tgt
       in case rootfs of None \<Rightarrow> t1 | Some d \<Rightarrow> raw_write taken (nat (start_offset tr)) d t1)"
proof -
  obtain sb sr tb tr where p: "read_partition_entries src = Inr (sb, sr)" "read_partition_entries tgt = Inr (tb, tr)"
    "validate_target_layout sb sr tb tr rootfs = Inr ()"
    using assms by (auto simp: update_partitioned_sd_device_def then_r_Inr)
  show ?thesis
    using assms by (intro that [OF p])
      (auto simp: update_partitioned_sd_device_def Let_def p then_r_Inr read_exact_range_def split: if_splits)
qed

lemma parse_bounds: "0 \<le> start_lba (parse_partition_entry mbr i)" "0 \<le> sector_count (parse_partition_entry mbr i)"
  by (simp_all add: parse_partition_entry_def Let_def)

lemma entries_bounds:
  assumes "read_partition_entries c = Inr (b, r)"
  shows "0 \<le> start_lba b" "0 < sector_count b" "0 \<le> start_lba r" "0 < sector_count r"
  using assms parse_bounds(1)
  by (auto simp: read_partition_entries_def Let_def parse_bounds order.strict_iff_order split: if_splits)

text \<open>
  Property C20: When the system takes whole writes, an update of a card copies the boot partition
  and the root file system given to it into the partitions of the card and changes no other byte.
\<close>

theorem update_confined:
  assumes up: "update_partitioned_sd_device taken src tgt rootfs False = Inr (s, t)"
    and full: "\<And>n. taken n = n"
    and parts: "read_partition_entries src = Inr (sb, sr)" "read_partition_entries tgt = Inr (tb, tr)"
    and inside: "start_offset tb + size_bytes tb \<le> start_offset tr"
      "start_offset tr + size_bytes tr \<le> int (length tgt)"
  shows "length t = length tgt \<and>
    chunk t (nat (start_offset tb)) (nat (size_bytes sb)) = chunk src (nat (start_offset sb)) (nat (size_bytes sb)) \<and>
    (\<forall>d. rootfs = Some d \<longrightarrow> chunk t (nat (start_offset tr)) (length d) = d) \<and>
    (\<forall>i < length tgt.
       \<not> (start_offset tb \<le> int i \<and> int i < start_offset tb + size_bytes sb) \<and>
       \<not> (\<exists>d. rootfs = Some d \<and> start_offset tr \<le> int i \<and> int i < start_offset tr + int (length d)) \<longrightarrow>
       t ! i = tgt ! i)"
  using up
proof (rule update_parts)
  fix sb' sr' tb' tr'
  assume p: "read_partition_entries src = Inr (sb', sr')" "read_partition_entries tgt = Inr (tb', tr')"
    "validate_target_layout sb' sr' tb' tr' rootfs = Inr ()"
    and src: "\<not> False \<Longrightarrow> length (chunk src (nat (start_offset sb')) (nat (size_bytes sb'))) = nat (size_bytes sb')"
    and t: "\<not> False \<Longrightarrow> t = (let t1 = raw_write taken (nat (start_offset tb'))
         (chunk src (nat (start_offset sb')) (nat (size_bytes sb'))) tgt
       in case rootfs of None \<Rightarrow> t1 | Some d \<Rightarrow> raw_write taken (nat (start_offset tr')) d t1)"
  have e: "sb' = sb" "sr' = sr" "tb' = tb" "tr' = tr" using p parts by simp_all
  note v = validate_facts [OF p(3), unfolded e]
  note b = entries_bounds [OF parts(1)] entries_bounds [OF parts(2)]
  define boot where "boot = chunk src (nat (start_offset sb)) (nat (size_bytes sb))"
  have pos: "0 \<le> start_offset tb" "0 \<le> start_offset tr" "0 < size_bytes sb" "size_bytes sb \<le> size_bytes tb"
    using b v(6) by (simp_all add: start_offset_def size_bytes_def SECTOR_SIZE_def)
  have len: "int (length boot) = size_bytes sb" using src pos(3) by (simp add: boot_def e del: length_chunk)
  then have boot_fit: "nat (start_offset tb) + length boot \<le> nat (start_offset tr)"
    "nat (start_offset tb) + length boot \<le> length tgt" "nat (start_offset tb) \<le> length tgt"
    using pos inside b by (auto simp: size_bytes_def SECTOR_SIZE_def)
  define t1 where "t1 = patch tgt (nat (start_offset tb)) boot"
  have t1: "length t1 = length tgt" "chunk t1 (nat (start_offset tb)) (length boot) = boot"
    using boot_fit by (simp_all add: t1_def chunk_simps)
  have out1: "t1 ! i = tgt ! i"
    if "i < length tgt" "\<not> (start_offset tb \<le> int i \<and> int i < start_offset tb + size_bytes sb)" for i
    using that boot_fit len pos by (auto simp: t1_def nth_patch)
  have t_eq: "t = (case rootfs of None \<Rightarrow> t1 | Some d \<Rightarrow> patch t1 (nat (start_offset tr)) d)"
  proof (cases rootfs)
    case None
    then show ?thesis using t boot_fit
      by (simp add: e raw_write_def full file_write_patch boot_def [symmetric] t1_def)
  next
    case (Some d)
    have "nat (start_offset tr) \<le> length tgt" using inside(2) b by (simp add: size_bytes_def SECTOR_SIZE_def)
    then show ?thesis using t boot_fit Some t1(1)
      by (simp add: e raw_write_def full file_write_patch boot_def [symmetric] t1_def [symmetric])
  qed
  have n: "nat (size_bytes sb) = length boot" using len by simp
  show ?thesis
  proof (cases rootfs)
    case None
    then show ?thesis unfolding boot_def [symmetric] using t_eq t1 out1 by (simp add: n)
  next
    case (Some d)
    have d: "int (length d) \<le> size_bytes tr" using v(8) Some by simp
    then have fit: "nat (start_offset tr) + length d \<le> length t1" using inside(2) pos t1(1) by linarith
    have "chunk t (nat (start_offset tb)) (length boot) = boot"
      using t_eq Some t1(2) boot_fit fit by (simp add: chunk_simps)
    moreover have "chunk t (nat (start_offset tr)) (length d) = d"
      using t_eq Some fit by (simp add: chunk_simps)
    moreover have "t ! i = tgt ! i" if "i < length tgt"
      "\<not> (start_offset tb \<le> int i \<and> int i < start_offset tb + size_bytes sb)"
      "\<not> (start_offset tr \<le> int i \<and> int i < start_offset tr + int (length d))" for i
      using that t_eq Some fit out1 [OF that(1,2)] t1(1) pos by (auto simp: nth_patch)
    moreover have "length t = length tgt" using t_eq Some fit t1(1) by simp
    ultimately show ?thesis unfolding boot_def [symmetric] using Some by (simp add: n)
  qed
qed

text \<open>The summary does not depend on what the system took of the writes: a transfer cut
  short leaves old bytes in the partition and is reported like a complete one.\<close>

text \<open>
  Property C22: When the system takes only part of the root file system, the update still reports
  its full length and the rest of the partition keeps its old bytes.
\<close>

theorem update_ignores_short_writes:
  assumes "update_partitioned_sd_device taken src tgt (Some d) False = Inr (s, t)"
    and "read_partition_entries tgt = Inr (tb, tr)" "taken (length d) \<le> i" "i < length d"
    and "start_offset tr + size_bytes tr \<le> int (length tgt)"
    and "start_offset tb + size_bytes tb \<le> start_offset tr"
  shows "rootfs_bytes s = int (length d) \<and> t ! (nat (start_offset tr) + i) = tgt ! (nat (start_offset tr) + i)"
  using assms(1)
proof (rule update_parts)
  fix sb sr tb' tr'
  assume p: "read_partition_entries src = Inr (sb, sr)" "read_partition_entries tgt = Inr (tb', tr')"
    "validate_target_layout sb sr tb' tr' (Some d) = Inr ()"
    and s: "s = \<lparr> boot_partition_offset = start_offset tb', boot_partition_bytes = size_bytes sb,
           root_partition_offset = start_offset tr',
           rootfs_bytes = (case Some d of None \<Rightarrow> 0 | Some d \<Rightarrow> int (length d)) \<rparr>"
    and t: "\<not> False \<Longrightarrow> t = (let t1 = raw_write taken (nat (start_offset tb'))
         (chunk src (nat (start_offset sb)) (nat (size_bytes sb))) tgt
       in case Some d of None \<Rightarrow> t1 | Some d \<Rightarrow> raw_write taken (nat (start_offset tr')) d t1)"
  have e: "tb' = tb" "tr' = tr" using p(2) assms(2) by simp_all
  note v = validate_facts [OF p(3), unfolded e]
  note b = entries_bounds [OF p(1)] entries_bounds [OF assms(2)]
  define boot where "boot = take (taken (length (chunk src (nat (start_offset sb)) (nat (size_bytes sb)))))
    (chunk src (nat (start_offset sb)) (nat (size_bytes sb)))"
  define at where "at = nat (start_offset tr)"
  have pos: "0 \<le> start_offset tb" "0 \<le> start_offset tr" "size_bytes sb \<le> size_bytes tb" "0 < size_bytes sb"
    using b v(6) by (simp_all add: start_offset_def size_bytes_def SECTOR_SIZE_def)
  have "length boot \<le> nat (size_bytes sb)" by (simp add: boot_def min.coboundedI1)
  then have "int (length boot) \<le> size_bytes sb" using pos(4) by simp
  then have fit: "nat (start_offset tb) + length boot \<le> at" using pos assms(6) by (auto simp: at_def)
  have d: "at + length d \<le> length tgt" using v(8) assms(5) pos by (auto simp: at_def)
  have len1: "length (patch tgt (nat (start_offset tb)) boot) = length tgt" using fit d by simp
  have "t = patch (patch tgt (nat (start_offset tb)) boot) at (take (taken (length d)) d)"
    using t fit d len1 by (simp add: e raw_write_def file_write_patch boot_def [symmetric] at_def [symmetric] del: length_chunk)
  then have "t ! (at + i) = tgt ! (at + i)" using fit d assms(3,4) len1 by (simp add: nth_patch)
  then show ?thesis by (simp add: s at_def)
qed

end
