(* ===== verification/Stage0_Read.thy ===== *)
theory Stage0_Read
  imports Stage0_Fat Sd_Card_Spec
begin

text \<open>
  The loader's FAT32 reader on a partition of the image builder: blocks of the card are
  slices of the partition, the table gives the chain the builder laid, and a range of a
  file is read as the bytes of its payload.
\<close>

section \<open>A partition on a card\<close>

text \<open>The partition at block \<open>bl\<close> of the card, with one sector per cluster, a table of
  \<open>f\<close> sectors and the entries it holds.\<close>

definition on_card :: "bytes \<Rightarrow> nat \<Rightarrow> bytes \<Rightarrow> nat \<Rightarrow> int list \<Rightarrow> bool" where
  "on_card disk bl part f entries \<longleftrightarrow>
     chunk disk (bl * 512) (length part) = part \<and> length part mod 512 = 0 \<and>
     bl + length part div 512 < 2 ^ 32 \<and> bl * 512 + length part \<le> length disk \<and>
     4 * length entries \<le> f * 512 \<and> (32 + f) * 512 \<le> length part \<and>
     (\<forall>c < length entries. chunk part (32 * 512 + 4 * c) 4 = le_bytes 4 (entries ! c) \<and>
        0 \<le> entries ! c \<and> entries ! c < 2 ^ 32)"

definition card_volume :: "nat \<Rightarrow> nat \<Rightarrow> fat32_volume" where
  "card_volume bl f =
     \<lparr> v_partition_lba = word_of_nat bl, v_sectors_per_cluster = 1,
       v_first_fat_lba = word_of_nat (bl + 32), v_fat_sector_count = word_of_nat f,
       v_first_data_lba = word_of_nat (bl + 32 + 2 * f), v_root_cluster = 2 \<rparr>"

lemma card_blocks:
  assumes "on_card disk bl part f entries" "(k + n) * 512 \<le> length part"
  shows "sdcard_read_blocks_contiguous disk (word_of_nat (bl + k)) n = chunk part (k * 512) (n * 512)"
proof -
  have p: "part = chunk disk (bl * 512) (length part)" "bl + length part div 512 < 2 ^ 32"
    using assms(1) by (simp_all add: on_card_def)
  have "k * 512 \<le> length part" using assms(2) by simp
  then have "k \<le> length part div 512" by (simp add: less_eq_div_iff_mult_less_eq)
  then have "unat (word_of_nat (bl + k) :: u32) = bl + k"
    using p(2) by (simp only: unsigned_of_nat) (simp add: take_bit_nat_eq_self)
  moreover have "chunk part (k * 512) (n * 512) = chunk disk (bl * 512 + k * 512) (n * 512)"
  proof -
    have "min (n * 512) (length part - k * 512) = n * 512" using assms(2) by simp
    then show ?thesis using chunk_chunk [of disk "bl * 512" "length part" "k * 512" "n * 512"] p(1) by simp
  qed
  ultimately show ?thesis
    by (simp add: sdcard_read_blocks_contiguous_def SD_BLOCK_SIZE_def algebra_simps)
qed

lemma card_block:
  assumes "on_card disk bl part f entries" "(k + 1) * 512 \<le> length part"
  shows "sdcard_read_block disk (word_of_nat (bl + k)) = chunk part (k * 512) 512"
  using card_blocks [OF assms] by (simp add: sdcard_read_block_def)

section \<open>The chain of a file\<close>

lemma table_entry:
  assumes "on_card disk bl part f entries" "c < length entries" "c < 2 ^ 28"
  shows "fat32_next_cluster disk (card_volume bl f) (word_of_nat c) = word_of_int (entries ! c) AND 0x0FFFFFFF"
proof -
  have o: "4 * length entries \<le> f * 512" "(32 + f) * 512 \<le> length part" "c < 2 ^ 28"
    "chunk part (32 * 512 + 4 * c) 4 = le_bytes 4 (entries ! c)" "0 \<le> entries ! c" "entries ! c < 2 ^ 32"
    using assms by (simp_all add: on_card_def del: One_nat_def)
  define q r where "q = 4 * c div 512" "r = 4 * c mod 512"
  have qr: "4 * c = q * 512 + r" "r + 4 \<le> 512"
  proof -
    show "4 * c = q * 512 + r" unfolding q_r_def by (rule div_mult_mod_eq [symmetric])
    have "r = 4 * (c mod 128)" using mult_mod_right [of 4 c 128] by (simp add: q_r_def)
    moreover have "c mod 128 < 128" by simp
    ultimately show "r + 4 \<le> 512" by linarith
  qed
  have u: "uint (word_of_nat c * 4 :: u32) = int (4 * c)"
  proof -
    have "word_of_nat c * 4 = (word_of_nat (4 * c) :: u32)" by simp
    then show ?thesis using o(3) by (simp only: unsigned_of_nat) (simp add: take_bit_nat_eq_self)
  qed
  have d: "drop_bit 9 (word_of_nat c * 4 :: u32) = word_of_nat q"
  proof -
    have "uint (drop_bit 9 (word_of_nat c * 4 :: u32)) = int q"
      by (simp add: drop_bit_eq_div uint_div u q_r_def zdiv_int)
    moreover have "int q < 2 ^ 32" using o(3) by (simp add: q_r_def)
    ultimately show ?thesis by (simp add: word_uint_eq_iff unsigned_of_nat take_bit_nat_eq_self)
  qed
  have m: "unat ((word_of_nat c * 4 :: u32) AND 511) = r"
  proof -
    have "(511 :: u32) = mask 9" by (simp add: mask_eq_exp_minus_1)
    then have "(word_of_nat c * 4 :: u32) AND 511 = take_bit 9 (word_of_nat c * 4)" by (simp add: take_bit_eq_mask)
    then have "uint ((word_of_nat c * 4 :: u32) AND 511) = int r"
      by (simp add: take_bit_eq_mod uint_mod u q_r_def zmod_int)
    then show ?thesis by (simp only: unat_eq_nat_uint nat_int)
  qed
  have fit: "(32 + q + 1) * 512 \<le> length part"
  proof -
    have "q * 512 < f * 512" using qr(1) assms(2) o(1) by simp
    then have "q < f" by simp
    then have "(32 + q + 1) * 512 \<le> (32 + f) * 512" by (intro mult_right_mono) auto
    then show ?thesis using o(2) by (rule order_trans)
  qed
  have "sdcard_read_block disk (word_of_nat (bl + (32 + q))) = chunk part ((32 + q) * 512) 512"
    using card_block [OF assms(1), of "32 + q"] fit by simp
  moreover have "read_le32 (chunk part ((32 + q) * 512) 512) r = word_of_int (entries ! c)"
  proof -
    have len: "r + 4 \<le> length (chunk part ((32 + q) * 512) 512)" using fit qr(2) by simp
    have "chunk (chunk part ((32 + q) * 512) 512) r 4 = chunk part (32 * 512 + 4 * c) 4"
      using qr by (simp add: chunk_chunk algebra_simps)
    then have "field_at 4 (chunk part ((32 + q) * 512) 512) r = entries ! c"
      using o(4-6) by (simp add: field_at_def)
    then show ?thesis using read_le32_int [OF len] by simp
  qed
  ultimately show ?thesis
    by (simp add: fat32_next_cluster_def Let_def d m card_volume_def add.assoc)
qed

definition chain_at :: "int list \<Rightarrow> nat \<Rightarrow> nat \<Rightarrow> bool" where
  "chain_at entries c n \<longleftrightarrow>
     2 \<le> c \<and> 1 \<le> n \<and> c + n \<le> length entries \<and> c + n < 0x0FFFFFF0 \<and>
     (\<forall>i < n - 1. entries ! (c + i) = int (c + i) + 1)"

lemma word_of_cluster: "c < 2 ^ 32 \<Longrightarrow> uint (word_of_nat c :: u32) = int c"
  by (simp add: unsigned_of_nat take_bit_nat_eq_self)

lemma chain_next:
  assumes "on_card disk bl part f entries" "chain_at entries c n" "i < n - 1"
  shows "fat32_next_cluster disk (card_volume bl f) (word_of_nat (c + i)) = word_of_nat (c + i + 1)"
    and "\<not> (word_of_nat (c + i + 1) :: u32) \<ge> FAT32_EOC_MIN"
    and "(word_of_nat (c + i + 1) :: u32) = word_of_nat (c + i) + 1"
proof -
  have ch: "c + n \<le> length entries" "c + n < 0x0FFFFFF0" "entries ! (c + i) = int (c + i) + 1"
    using assms(2,3) by (auto simp: chain_at_def)
  then have b: "c + i + 1 < 0x0FFFFFF0" "c + i < length entries" using assms(3) by auto
  have e: "(word_of_int (entries ! (c + i)) :: u32) = word_of_nat (c + i + 1)" by (simp add: ch(3))
  have "(word_of_nat (c + i + 1) :: u32) AND 0x0FFFFFFF = word_of_nat (c + i + 1)"
  proof -
    have "(0x0FFFFFFF :: u32) = mask 28" by (simp add: mask_eq_exp_minus_1)
    moreover have "(word_of_nat (c + i + 1) :: u32) < 2 ^ 28"
      using b word_of_cluster [of "c + i + 1"] by (simp add: word_less_def del: of_nat_add of_nat_Suc)
    ultimately show ?thesis using less_mask_eq [of "word_of_nat (c + i + 1) :: u32" 28] by simp
  qed
  then show "fat32_next_cluster disk (card_volume bl f) (word_of_nat (c + i)) = word_of_nat (c + i + 1)"
    using table_entry [OF assms(1) b(2)] b(1) e by simp
  show "\<not> (word_of_nat (c + i + 1) :: u32) \<ge> FAT32_EOC_MIN"
    using b word_of_cluster [of "c + i + 1"] by (simp add: word_le_def FAT32_EOC_MIN_def del: of_nat_add of_nat_Suc)
  show "(word_of_nat (c + i + 1) :: u32) = word_of_nat (c + i) + 1" by simp
qed

lemma count_chain:
  assumes "on_card disk bl part f entries" "chain_at entries c n" "j + d \<le> n - 1"
  shows "count_contiguous disk (card_volume bl f) (word_of_nat (c + j)) run (run + d) =
    (run + d, fat32_next_cluster disk (card_volume bl f) (word_of_nat (c + j + d)))"
  using assms(3)
proof (induction d arbitrary: j run)
  case 0
  then show ?case by (subst count_contiguous.simps) (simp add: Let_def)
next
  case (Suc d)
  note step = chain_next [OF assms(1,2), of j]
  have "count_contiguous disk (card_volume bl f) (word_of_nat (c + j)) run (run + Suc d) =
      count_contiguous disk (card_volume bl f) (word_of_nat (c + (j + 1))) (run + 1) (run + 1 + d)"
    using step Suc.prems by (subst count_contiguous.simps) (simp add: Let_def del: of_nat_add of_nat_Suc)
  also have "\<dots> = (run + 1 + d, fat32_next_cluster disk (card_volume bl f) (word_of_nat (c + (j + 1) + d)))"
    using Suc.prems by (intro Suc.IH) simp
  finally show ?case by (simp add: add.assoc)
qed

section \<open>Reading a file\<close>

text \<open>A file in the partition: its chain and, from its first cluster on, its payload.\<close>

definition file_at :: "bytes \<Rightarrow> nat \<Rightarrow> int list \<Rightarrow> nat \<Rightarrow> nat \<Rightarrow> bytes \<Rightarrow> bool" where
  "file_at part f entries c n payload \<longleftrightarrow>
     chain_at entries c n \<and> length payload \<le> n * 512 \<and>
     cluster_offset (32 + 2 * f) 1 c + n * 512 \<le> length part \<and>
     chunk part (cluster_offset (32 + 2 * f) 1 c) (length payload) = payload"

lemma cluster_block:
  assumes "2 \<le> c" "c < 2 ^ 32"
  shows "cluster_to_lba (card_volume bl f) (word_of_nat c) = word_of_nat (bl + (32 + 2 * f + (c - 2)))"
proof -
  have "(word_of_nat c :: u32) - 2 = word_of_nat (c - 2)" using assms(1) by (simp add: of_nat_diff)
  then show ?thesis by (simp add: cluster_to_lba_def card_volume_def algebra_simps)
qed

lemma file_blocks:
  assumes card: "on_card disk bl part f entries" and file_in: "file_at part f entries c n payload"
    and "j + m \<le> n"
  shows "sdcard_read_blocks_contiguous disk (cluster_to_lba (card_volume bl f) (word_of_nat (c + j))) m =
    chunk part (cluster_offset (32 + 2 * f) 1 c + j * 512) (m * 512)"
proof -
  have c: "2 \<le> c" "c + n < 0x0FFFFFF0" "cluster_offset (32 + 2 * f) 1 c + n * 512 \<le> length part"
    using file_in by (auto simp: file_at_def chain_at_def)
  let ?k = "32 + 2 * f + (c + j - 2)"
  have k: "?k * 512 = cluster_offset (32 + 2 * f) 1 c + j * 512"
    using c(1) by (simp add: cluster_offset_def algebra_simps)
  have "(?k + m) * 512 \<le> length part"
  proof -
    have "(j + m) * 512 \<le> n * 512" using assms(3) by simp
    then have "cluster_offset (32 + 2 * f) 1 c + j * 512 + m * 512 \<le> length part" using c(3) by simp
    then show ?thesis using k by (simp add: distrib_right)
  qed
  from card_blocks [OF card this] show ?thesis
    using cluster_block [of "c + j" bl f] c assms(3) by (simp only: k) simp
qed

lemma file_chunk:
  assumes "file_at part f entries c n payload" "off + m \<le> length payload"
  shows "chunk part (cluster_offset (32 + 2 * f) 1 c + off) m = chunk payload off m"
proof -
  have p: "chunk part (cluster_offset (32 + 2 * f) 1 c) (length payload) = payload"
    using assms(1) by (simp add: file_at_def)
  have "min m (length payload - off) = m" using assms(2) by simp
  then show ?thesis using chunk_chunk [of part "cluster_offset (32 + 2 * f) 1 c" "length payload" off m] p by simp
qed

text \<open>The three cases of the loop.\<close>

lemma read_range_done: "read_range disk v cluster off 0 = Inr []"
  by (simp add: read_range.simps)

lemma read_range_part:
  assumes "0 < m" "\<not> (off = 0 \<and> 512 \<le> m)"
  shows "read_range disk v cluster off m =
    (let data = chunk (sdcard_read_block disk (cluster_to_lba v cluster)) off (min (512 - off) m);
         rest = m - min (512 - off) m; next_cluster = fat32_next_cluster disk v cluster
     in if rest = 0 then Inr data
        else if next_cluster \<ge> FAT32_EOC_MIN then Inl ''FAT32 file range terminated early''
        else (case read_range disk v next_cluster 0 rest of Inl e \<Rightarrow> Inl e | Inr later \<Rightarrow> Inr (data @ later)))"
  using assms unfolding read_range.simps [of disk v cluster off m] SD_BLOCK_SIZE_def by (simp only: if_False Let_def) simp

lemma read_range_run:
  assumes "512 \<le> m" "count_contiguous disk v cluster 1 (m div 512) = (run, next_cluster)"
  shows "read_range disk v cluster 0 m =
    (let data = sdcard_read_blocks_contiguous disk (cluster_to_lba v cluster) run; rest = m - run * 512
     in if rest = 0 then Inr data
        else if next_cluster \<ge> FAT32_EOC_MIN then Inl ''FAT32 file range terminated early''
        else (case read_range disk v next_cluster 0 rest of Inl e \<Rightarrow> Inl e | Inr later \<Rightarrow> Inr (data @ later)))"
proof -
  have "m = 0 \<longleftrightarrow> False" "(0 = (0 :: nat) \<and> 512 \<le> m) \<longleftrightarrow> True" using assms(1) by auto
  then show ?thesis
    unfolding read_range.simps [of disk v cluster 0 m] SD_BLOCK_SIZE_def
    by (simp only: if_False if_True Let_def assms(2) prod.case)
qed

lemma read_last_part:
  assumes "on_card disk bl part f entries" "file_at part f entries c n payload"
    and "0 < m" "off + m \<le> 512" "j * 512 + off + m \<le> length payload" "off = 0 \<Longrightarrow> m < 512"
  shows "read_range disk (card_volume bl f) (word_of_nat (c + j)) off m = Inr (chunk payload (j * 512 + off) m)"
proof -
  have "j + 1 \<le> n"
  proof -
    have "j * 512 < n * 512" using assms(2,3,5) by (auto simp: file_at_def)
    then show ?thesis by simp
  qed
  then have b: "sdcard_read_block disk (cluster_to_lba (card_volume bl f) (word_of_nat (c + j))) =
      chunk part (cluster_offset (32 + 2 * f) 1 c + j * 512) 512"
    using file_blocks [OF assms(1,2), of j 1] by (simp add: sdcard_read_block_def)
  have "min m (512 - off) = m" using assms(4) by simp
  then have "chunk (chunk part (cluster_offset (32 + 2 * f) 1 c + j * 512) 512) off m = chunk payload (j * 512 + off) m"
    using file_chunk [OF assms(2), of "j * 512 + off" m] assms(5) by (simp add: chunk_chunk add.assoc)
  moreover have "min (512 - off) m = m" using assms(4) by simp
  moreover have "\<not> (off = 0 \<and> 512 \<le> m)" using assms(6) by auto
  note read_range_part [OF assms(3) this]
  ultimately show ?thesis by (simp only: b Let_def) simp
qed

lemma read_whole:
  assumes card: "on_card disk bl part f entries" and file_in: "file_at part f entries c n payload"
    and m: "j * 512 + m \<le> length payload"
  shows "read_range disk (card_volume bl f) (word_of_nat (c + j)) 0 m = Inr (chunk payload (j * 512) m)"
proof (cases "512 \<le> m")
  case False
  show ?thesis
  proof (cases "m = 0")
    case True
    then show ?thesis by (simp add: read_range_done)
  next
    case nz: False
    then show ?thesis using read_last_part [OF card file_in, of m 0 j] False m by simp
  qed
next
  case True
  define q r where "q = m div 512" "r = m mod 512"
  have qr: "m = q * 512 + r" "r < 512" "1 \<le> q" using True by (auto simp: q_r_def less_eq_div_iff_mult_less_eq)
  have n: "length payload \<le> n * 512" and ch: "chain_at entries c n" using file_in by (simp_all add: file_at_def)
  have jq: "j + q \<le> n"
  proof -
    have "(j + q) * 512 \<le> n * 512" using m n qr(1) by (simp add: distrib_right)
    then show ?thesis by simp
  qed
  let ?v = "card_volume bl f"
  have cnt: "count_contiguous disk ?v (word_of_nat (c + j)) 1 q =
      (q, fat32_next_cluster disk ?v (word_of_nat (c + j + (q - 1))))"
    using count_chain [OF card ch, of j "q - 1" 1] jq qr(3) by simp
  have data: "sdcard_read_blocks_contiguous disk (cluster_to_lba ?v (word_of_nat (c + j))) q =
      chunk payload (j * 512) (q * 512)"
    using file_blocks [OF card file_in jq] file_chunk [OF file_in, of "j * 512" "q * 512"] m qr(1) by simp
  show ?thesis
  proof (cases "r = 0")
    case r: True
    then have "m - q * 512 = 0" "q * 512 = m" using qr(1) by simp_all
    then show ?thesis using read_range_run [OF True cnt [unfolded q_r_def(1)]] data
      by (simp only: q_r_def(1) [symmetric] Let_def) simp
  next
    case r: False
    have more: "j + q < n"
    proof -
      have "(j + q) * 512 < n * 512" using m n qr(1) r by (simp add: distrib_right)
      then show ?thesis by simp
    qed
    note step = chain_next [OF card ch, of "j + q - 1"]
    have i: "j + q - 1 < n - 1" "c + j + (q - 1) = c + (j + q - 1)" "c + (j + q - 1) + 1 = c + (j + q)"
      using more qr(3) by auto
    have next_is: "fat32_next_cluster disk ?v (word_of_nat (c + j + (q - 1))) = word_of_nat (c + (j + q))"
      "\<not> (word_of_nat (c + (j + q)) :: u32) \<ge> FAT32_EOC_MIN"
      using step(1,2) [OF i(1)] unfolding i(2,3) by simp_all
    have last_part: "read_range disk ?v (word_of_nat (c + (j + q))) 0 r = Inr (chunk payload ((j + q) * 512) r)"
      using read_last_part [OF card file_in, of r 0 "j + q"] r qr m by (simp add: distrib_right)
    have "read_range disk ?v (word_of_nat (c + j)) 0 m =
        Inr (chunk payload (j * 512) (q * 512) @ chunk payload ((j + q) * 512) r)"
    proof -
      have "m - q * 512 = r" using qr(1) by simp
      then show ?thesis
        using read_range_run [OF True cnt [unfolded q_r_def(1)]] data next_is last_part r
        by (simp only: q_r_def(1) [symmetric] Let_def) (simp del: of_nat_add)
    qed
    also have "chunk payload (j * 512) (q * 512) @ chunk payload ((j + q) * 512) r = chunk payload (j * 512) m"
      by (simp add: qr(1) chunk_append_split distrib_right)
    finally show ?thesis .
  qed
qed

lemma read_from_offset:
  assumes card: "on_card disk bl part f entries" and file_in: "file_at part f entries c n payload"
    and m: "j * 512 + off + m \<le> length payload" "off < 512"
  shows "read_range disk (card_volume bl f) (word_of_nat (c + j)) off m = Inr (chunk payload (j * 512 + off) m)"
proof (cases "off = 0 \<or> m = 0")
  case True
  then show ?thesis
  proof
    assume "off = 0"
    then show ?thesis using read_whole [OF card file_in] m(1) by simp
  next
    assume "m = 0"
    then show ?thesis by (simp add: read_range_done)
  qed
next
  case off: False
  show ?thesis
  proof (cases "off + m \<le> 512")
    case True
    then show ?thesis using read_last_part [OF card file_in, of m off j] off m by auto
  next
    case False
    define a where "a = 512 - off"
    have a: "off + a = 512" "a < m" "0 < a" using False m(2) by (auto simp: a_def)
    have n: "length payload \<le> n * 512" and ch: "chain_at entries c n" using file_in by (simp_all add: file_at_def)
    have j: "j + 1 < n"
    proof -
      have "(j + 1) * 512 < n * 512" using m n a by simp
      then show ?thesis by simp
    qed
    let ?v = "card_volume bl f"
    have b: "sdcard_read_block disk (cluster_to_lba ?v (word_of_nat (c + j))) =
        chunk part (cluster_offset (32 + 2 * f) 1 c + j * 512) 512"
      using file_blocks [OF card file_in, of j 1] j by (simp add: sdcard_read_block_def)
    have d: "chunk (chunk part (cluster_offset (32 + 2 * f) 1 c + j * 512) 512) off a = chunk payload (j * 512 + off) a"
      using file_chunk [OF file_in, of "j * 512 + off" a] a m(1) by (simp add: chunk_chunk add.assoc a_def)
    note step = chain_next(1,2) [OF card ch, of j]
    have rest: "read_range disk ?v (word_of_nat (c + (j + 1))) 0 (m - a) = Inr (chunk payload ((j + 1) * 512) (m - a))"
      using m a by (intro read_whole [OF card file_in]) simp
    have "read_range disk ?v (word_of_nat (c + j)) off m =
        Inr (chunk payload (j * 512 + off) a @ chunk payload ((j + 1) * 512) (m - a))"
    proof -
      have k: "min (512 - off) m = a" "m - a \<noteq> 0" "0 < m" "\<not> (off = 0 \<and> 512 \<le> m)" "j < n - 1" "c + j + 1 = c + (j + 1)"
        using a off j by (auto simp: a_def)
      show ?thesis
        using step [OF k(5)] rest b d k(2)
        by (simp only: read_range_part [OF k(3,4)] k(1,6) Let_def) (simp del: of_nat_add of_nat_Suc)
    qed
    also have "\<dots> = Inr (chunk payload (j * 512 + off) m)"
    proof -
      have "j * 512 + off + a = (j + 1) * 512" using a(1) by simp
      then show ?thesis using a(2) chunk_append_split [of payload "j * 512 + off" a "m - a"] by (simp only:) simp
    qed
    finally show ?thesis .
  qed
qed

lemma skip_chain:
  "on_card disk bl part f entries \<Longrightarrow> chain_at entries c n \<Longrightarrow> i + j \<le> n - 1 \<Longrightarrow>
     skip_clusters disk (card_volume bl f) j (word_of_nat (c + i)) = Inr (word_of_nat (c + (i + j)))"
proof (induction j arbitrary: i)
  case (Suc j)
  note step = chain_next(1,2) [OF Suc.prems(1,2), of i]
  then show ?case using Suc.IH [of "i + 1"] Suc.prems
    by (simp add: Let_def add.assoc del: of_nat_add of_nat_Suc)
qed simp

lemma read_file:
  assumes card: "on_card disk bl part f entries" and file_in: "file_at part f entries c n payload"
    and m: "off + m \<le> length payload" "off < length payload" and info: "f_first_cluster info = word_of_nat c"
  shows "read_file_range_to_buffer disk (card_volume bl f) info off m = Inr (chunk payload off m)"
proof -
  have n: "length payload \<le> n * 512" and ch: "chain_at entries c n" using file_in by (simp_all add: file_at_def)
  have qr: "off = off div 512 * 512 + off mod 512" by (rule div_mult_mod_eq [symmetric])
  then have "off div 512 * 512 < n * 512" using m(2) n by linarith
  then have "off div 512 \<le> n - 1" by simp
  then have "skip_clusters disk (card_volume bl f) (off div 512) (word_of_nat c) = Inr (word_of_nat (c + off div 512))"
    using skip_chain [OF card ch, of 0 "off div 512"] by simp
  moreover have "read_range disk (card_volume bl f) (word_of_nat (c + off div 512)) (off mod 512) m =
      Inr (chunk payload (off div 512 * 512 + off mod 512) m)"
    using m(1) by (intro read_from_offset [OF card file_in]) (simp_all del: of_nat_add)
  ultimately show ?thesis
    by (simp add: read_file_range_to_buffer_def info SD_BLOCK_SIZE_def del: of_nat_add)
qed

end
