(* ===== verification/Stage0_Boot.thy ===== *)
theory Stage0_Boot
  imports Stage0_Read
begin

text \<open>
  The card and its reader together: the stage-0 loader mounts a card image built by
  \<open>build_litex_sd_card_image\<close>, finds the three boot files in its root directory and reads
  any range of them as the bytes that went in.
\<close>

section \<open>Mounting\<close>

lemma word_of_field:
  assumes "0 \<le> v" "v < 2 ^ 32"
  shows "(word_of_int v :: u32) = word_of_nat (nat v)"
  using assms by simp

lemma mounts_card:
  assumes mbr: "is_boot_record (chunk disk 0 512) bl bc rl rc" "1 \<le> bl" "bl < 2 ^ 32"
    and card: "on_card disk (nat bl) part f entries"
    and boot: "boot_sector 1 lba count f label = Inr boot" "length label = 11" "chunk part 0 512 = boot" "1 \<le> f"
  shows "load_fat32_volume_or_fail disk = Inr (card_volume (nat bl) f)"
proof -
  let ?mbr = "chunk disk 0 512"
  have r0: "sdcard_read_block disk 0 = ?mbr"
    by (simp add: sdcard_read_block_def sdcard_read_blocks_contiguous_def SD_BLOCK_SIZE_def)
  have len: "length ?mbr = 512" using mbr(1) by (simp add: is_boot_record_def SECTOR_SIZE_def)
  have p: "part_type (parse_partition_entry ?mbr 1) = 0x0C" "start_lba (parse_partition_entry ?mbr 1) = bl"
    "chunk ?mbr 510 2 = [0x55, 0xAA]" using mbr(1) by (simp_all add: is_boot_record_def)
  have kind: "?mbr ! 450 = 0x0C"
  proof -
    have "uint (?mbr ! 450) = uint (0x0C :: byte)" using p(1) by (simp add: parse_partition_entry_def)
    then show ?thesis by (simp only: word_uint_eq_iff)
  qed
  have lba: "read_le32 ?mbr 454 = word_of_nat (nat bl)"
    using read_le32_int [of 454 ?mbr] len p(2) word_of_field [of bl] mbr(2,3)
    by (simp add: parse_partition_entry_def)
  have sig: "b ! 510 = 0x55 \<and> b ! 511 = 0xAA" if "chunk b 510 2 = [0x55, 0xAA :: byte]" "length b = 512" for b
    using that by (simp add: numeral_2_eq_2 chunk_Suc)
  have "(word_of_nat (nat bl) :: u32) \<noteq> 0"
  proof
    assume "(word_of_nat (nat bl) :: u32) = 0"
    then have "uint (word_of_nat (nat bl) :: u32) = 0" by simp
    then show False using mbr(2,3) by (simp only: unsigned_of_nat) (simp add: take_bit_nat_eq_self)
  qed
  note bf = boot_sector_fields [OF boot(1,2)]
  have "1 \<le> length part div 512" using card by (simp add: on_card_def less_eq_div_iff_mult_less_eq)
  then have "(0 + 1) * 512 \<le> length part" by (simp add: less_eq_div_iff_mult_less_eq)
  from card_block [OF card this] boot(3)
  have r1: "sdcard_read_block disk (word_of_nat (nat bl)) = boot" by simp
  have f: "(word_of_nat f :: u32) \<noteq> 0"
  proof
    assume "(word_of_nat f :: u32) = 0"
    then have "uint (word_of_nat f :: u32) = 0" by simp
    then show False using bf(11) boot(4) by (simp only: unsigned_of_nat) (simp add: take_bit_nat_eq_self)
  qed
  have fields: "read_le16 boot 11 = 512" "boot ! 13 = 1" "read_le16 boot 14 = 32" "boot ! 16 = 2"
    "read_le32 boot 36 = word_of_nat f" "read_le32 boot 44 = 2"
    using bf(1-7) read_le16_int [of 11 boot] read_le16_int [of 14 boot] read_le32_int [of 36 boot] read_le32_int [of 44 boot]
    by simp_all
  show ?thesis
    using sig [OF p(3) len] sig [OF bf(8,1)] kind lba \<open>word_of_nat (nat bl) \<noteq> 0\<close> f fields
    by (simp add: load_fat32_volume_or_fail_def Let_def r0 r1 card_volume_def)
qed

section \<open>The root directory\<close>

text \<open>An entry of the directory as the loader reads it.\<close>

lemma entry_scanned:
  assumes "build_fat32_file_dir_entry layout = Inr e" "length (short_name layout) = 11"
    and "2 \<le> first_cluster layout" "first_cluster layout < 2 ^ 32"
    and "short_name layout ! 0 \<noteq> 0" "short_name layout ! 0 \<noteq> 0xE5"
  shows "e ! 0 \<noteq> 0" "e ! 0 \<noteq> 0xE5" "e ! 11 \<noteq> 0x0F" "e ! 11 AND (0x10 OR 0x08) = 0"
    "length name = 11 \<Longrightarrow> directory_name_matches e name \<longleftrightarrow> name = short_name layout"
    "push_bit 16 (ucast (read_le16 e 20)) OR ucast (read_le16 e 26) = (word_of_int (first_cluster layout) :: u32)"
    "\<not> (word_of_int (first_cluster layout) :: u32) < 2"
    "read_le32 e 28 = word_of_int (file_size layout)"
proof -
  note d = dir_entry_fields [OF assms(1,2)]
  have nth: "e ! i = short_name layout ! i" if "i < 11" for i
    using that d(1,2) nth_chunk [of i 11 0 e] by simp
  show "e ! 0 \<noteq> 0" "e ! 0 \<noteq> 0xE5" using nth [of 0] assms(5,6) by simp_all
  show "e ! 11 \<noteq> 0x0F" "e ! 11 AND (0x10 OR 0x08) = 0" using d(3) by simp_all
  show "directory_name_matches e name \<longleftrightarrow> name = short_name layout" if l: "length name = 11"
  proof -
    have "name = short_name layout \<longleftrightarrow> (\<forall>i < 11. short_name layout ! i = name ! i)"
      using l assms(2) by (auto simp: list_eq_iff_nth_eq)
    also have "\<dots> \<longleftrightarrow> (\<forall>i \<in> set [0 ..< 11]. e ! i = name ! i)"
      using nth by (simp only: set_upt atLeastLessThan_iff Ball_def) auto
    finally show ?thesis unfolding directory_name_matches_def by blast
  qed
  define hi lo where "hi = drop_bit 16 (first_cluster layout) AND 0xFFFF" "lo = first_cluster layout AND 0xFFFF"
  have m: "x AND 0xFFFF = x mod 65536" for x :: int
  proof -
    have "(0xFFFF :: int) = mask 16" by (simp add: mask_eq_exp_minus_1)
    then show ?thesis using take_bit_eq_mask [of 16 x] by (simp only: take_bit_eq_mod) simp
  qed
  have hl: "first_cluster layout = hi * 65536 + lo" "0 \<le> hi" "hi < 65536" "0 \<le> lo" "lo < 65536"
  proof -
    have "first_cluster layout div 65536 < 65536" using assms(4) by (simp add: div_less_iff_less_mult)
    moreover have "0 \<le> first_cluster layout div 65536" using assms(3) by (simp add: pos_imp_zdiv_nonneg_iff)
    ultimately have "hi = first_cluster layout div 65536" by (simp add: hi_lo_def m drop_bit_eq_div)
    then show "first_cluster layout = hi * 65536 + lo" by (simp add: hi_lo_def m)
    show "0 \<le> hi" "hi < 65536" "0 \<le> lo" "lo < 65536" by (simp_all add: hi_lo_def m)
  qed
  have u: "(ucast (word_of_int x :: u16) :: u32) = word_of_int x" if "0 \<le> x" "x < 65536" for x
  proof -
    have "uint (word_of_int x :: u16) = x" using that by (simp only: uint_word_of_int) simp
    then show ?thesis by (simp only: ucast_eq)
  qed
  have r: "(ucast (read_le16 e 20) :: u32) = word_of_int hi" "(ucast (read_le16 e 26) :: u32) = word_of_int lo"
    using read_le16_int [of 20 e] read_le16_int [of 26 e] d(1,4,5) u [OF hl(2,3)] u [OF hl(4,5)]
    by (simp_all only: hi_lo_def)
  have "(word_of_int lo :: u32) < 2 ^ 16"
    using hl(4,5) by (simp add: word_less_def uint_word_of_int)
  then have "push_bit 16 (word_of_int hi) OR word_of_int lo = (word_of_int lo + push_bit 16 (word_of_int hi) :: u32)"
    using or_shifted [of "word_of_int lo :: u32" 16 "word_of_int hi"] by (simp add: or.commute)
  then show "push_bit 16 (ucast (read_le16 e 20)) OR ucast (read_le16 e 26) = (word_of_int (first_cluster layout) :: u32)"
    unfolding r hl(1) by (simp add: push_bit_eq_mult)
  show "\<not> (word_of_int (first_cluster layout) :: u32) < 2"
    using assms(3,4) by (simp add: word_less_def uint_word_of_int)
  show "read_le32 e 28 = word_of_int (file_size layout)" using read_le32_int [of 28 e] d(1,6) by simp
qed

text \<open>The first entry with the name, among entries of other names.\<close>

lemma scan_finds:
  assumes "k < length specs" "length specs \<le> 16"
    and "\<And>i. i < length specs \<Longrightarrow> build_fat32_file_dir_entry (fst (specs ! i)) = Inr (chunk dir (32 * i) 32)"
    and "\<And>i. i < length specs \<Longrightarrow> length (short_name (fst (specs ! i))) = 11 \<and>
      short_name (fst (specs ! i)) ! 0 \<noteq> 0 \<and> short_name (fst (specs ! i)) ! 0 \<noteq> 0xE5 \<and>
      2 \<le> first_cluster (fst (specs ! i)) \<and> first_cluster (fst (specs ! i)) < 2 ^ 32"
    and "\<And>i. i < k \<Longrightarrow> short_name (fst (specs ! i)) \<noteq> short_name (fst (specs ! k))"
  shows "scan_sector dir (short_name (fst (specs ! k))) sector_entries =
    Found \<lparr> f_first_cluster = word_of_int (first_cluster (fst (specs ! k))),
            f_size = word_of_int (file_size (fst (specs ! k))) \<rparr>"
proof -
  have "scan_sector dir (short_name (fst (specs ! k))) (map (\<lambda>i. 32 * i) [i ..< 16]) =
      Found \<lparr> f_first_cluster = word_of_int (first_cluster (fst (specs ! k))),
              f_size = word_of_int (file_size (fst (specs ! k))) \<rparr>" if "i \<le> k" for i
    using that
  proof (induction "k - i" arbitrary: i)
    case 0
    then have i: "i = k" by simp
    have e: "[k ..< 16] = k # [Suc k ..< 16]" using assms(1,2) by (simp add: upt_conv_Cons)
    note en = entry_scanned [OF assms(3) [OF assms(1)]]
    show ?case using assms(4) [OF assms(1)] en
      by (simp add: i e Let_def)
  next
    case (Suc d)
    then have i: "i < k" "i < length specs" using assms(1) by auto
    have e: "[i ..< 16] = i # [Suc i ..< 16]" using i assms(2) by (simp add: upt_conv_Cons)
    note en = entry_scanned [OF assms(3) [OF i(2)]]
    have "\<not> directory_name_matches (chunk dir (32 * i) 32) (short_name (fst (specs ! k)))"
      using en(5) [of "short_name (fst (specs ! k))"] assms(4) [OF i(2)] assms(4) [OF assms(1)] assms(5) [OF i(1)] by auto
    moreover have "chunk dir (32 * i) 32 ! 0 \<noteq> 0" using en(1) assms(4) [OF i(2)] by simp
    moreover have "scan_sector dir (short_name (fst (specs ! k))) (map (\<lambda>i. 32 * i) [Suc i ..< 16]) =
      Found \<lparr> f_first_cluster = word_of_int (first_cluster (fst (specs ! k))),
              f_size = word_of_int (file_size (fst (specs ! k))) \<rparr>"
      using Suc.hyps(2) i by (intro Suc.hyps(1)) auto
    ultimately show ?case by (simp add: e Let_def)
  qed
  from this [of 0] show ?thesis by (simp add: sector_entries_def)
qed

lemma locates_file:
  assumes card: "on_card disk bl part f entries" "cluster_offset (32 + 2 * f) 1 2 + 512 \<le> length part"
    and dir: "chunk part ((32 + 2 * f) * 512) 512 = dir"
    and found: "scan_sector dir name sector_entries = Found info"
  shows "locate_root_file_or_fail disk (card_volume bl f) name = Some (Inr info)"
proof -
  have "(32 + 2 * f + 1) * 512 \<le> length part" using card(2) by (simp add: cluster_offset_def)
  from card_block [OF card(1) this] have b: "sdcard_read_block disk (word_of_nat (bl + (32 + 2 * f))) = dir"
    using dir by simp
  have "cluster_to_lba (card_volume bl f) 2 = word_of_nat (bl + (32 + 2 * f))"
    using cluster_block [of 2 bl f] by simp
  then have "scan_cluster disk name (cluster_to_lba (card_volume bl f) 2) [0 ..< unat (1 :: u32)] = Found info"
    using b found by (simp del: of_nat_add)
  moreover have "(2 :: u32) < FAT32_EOC_MIN" by (simp add: FAT32_EOC_MIN_def)
  ultimately show ?thesis
    unfolding locate_root_file_or_fail_def
    by (subst locate_from.simps) (simp add: card_volume_def)
qed

section \<open>The boot files of a built card\<close>

definition VMLINUX_NAME :: bytes where
  "VMLINUX_NAME = [0x56, 0x4D, 0x4C, 0x49, 0x4E, 0x55, 0x58, 0x20, 0x20, 0x20, 0x20]"
definition BOOT_DTB_NAME :: bytes where
  "BOOT_DTB_NAME = [0x42, 0x4F, 0x4F, 0x54, 0x20, 0x20, 0x20, 0x20, 0x44, 0x54, 0x42]"
definition BOOT_CRC_NAME :: bytes where
  "BOOT_CRC_NAME = [0x42, 0x4F, 0x4F, 0x54, 0x20, 0x20, 0x20, 0x20, 0x43, 0x52, 0x43]"

lemma stage0_names:
  "fat32_short_name ''VMLINUX'' = Inr VMLINUX_NAME" "fat32_short_name ''BOOT.DTB'' = Inr BOOT_DTB_NAME"
  "fat32_short_name ''BOOT.CRC'' = Inr BOOT_CRC_NAME"
  by code_simp+

lemma names_differ:
  "VMLINUX_NAME \<noteq> BOOT_DTB_NAME" "VMLINUX_NAME \<noteq> BOOT_CRC_NAME" "BOOT_DTB_NAME \<noteq> BOOT_CRC_NAME"
  "length VMLINUX_NAME = 11" "length BOOT_DTB_NAME = 11" "length BOOT_CRC_NAME = 11"
  "VMLINUX_NAME ! 0 = 0x56" "BOOT_DTB_NAME ! 0 = 0x42" "BOOT_CRC_NAME ! 0 = 0x42"
  by (simp_all add: VMLINUX_NAME_def BOOT_DTB_NAME_def BOOT_CRC_NAME_def)

lemma stage0_payloads:
  assumes "boot_payloads elf dtb LITTLE64_SD_BOOT_FORMAT_STAGE0 rb rs kb = Inr files"
  obtains sums crc where "build_sd_boot_checksums elf dtb = Inr sums" "serialize_sd_boot_checksums sums = Inr crc"
    "payloads files = [(VMLINUX_NAME, elf, None), (BOOT_DTB_NAME, dtb, None), (BOOT_CRC_NAME, crc, None)]"
    "boot_checksums files = Some sums"
  using assms by (auto simp: boot_payloads_def stage0_files_def stage0_names then_r_Inr)

lemma built_on_card:
  assumes spc: "spc = 1"
    and f: "1 \<le> f" "(cc + 2) * 4 \<le> f * 512" "32 + 2 * f + cc * nat spc \<le> nat count"
    and placed: "placed (nat spc * 512) 3 specs stop" "stop \<le> cc" "stop \<le> 3 + 3 * 8388608"
    and fat: "fat_table f (fat_entries cc specs) = Inr fat" and len: "length boot = 512" "length dir = 512"
    and part: "part = patch_all (partition_regions f (nat spc) boot info fat dir specs) (replicate (nat count * 512) 0)"
    and order: "in_order 0 (partition_regions f (nat spc) boot info fat dir specs) (nat count * 512)"
    and disk: "chunk disk (bl * 512) (length part) = part" "bl * 512 + length part \<le> length disk" "bl + nat count < 2 ^ 32"
  shows "on_card disk bl part f (fat_entries cc specs)" "chunk part 0 512 = boot"
    "chunk part ((32 + 2 * f) * 512) 512 = dir" "cluster_offset (32 + 2 * f) 1 2 + 512 \<le> length part"
    "(layout, payload, name, n) \<in> set specs \<Longrightarrow>
       file_at part f (fat_entries cc specs) (nat (first_cluster layout)) n payload"
proof -
  let ?blank = "replicate (nat count * 512) (0 :: byte)"
  have o: "in_order 0 (partition_regions f (nat spc) boot info fat dir specs) (length ?blank)" using order by simp
  have plen: "length part = nat count * 512" using length_patch_all [OF o] part by simp
  note region = chunk_patch_all [OF o, folded part]
  note ft = fat_table_entry [OF fat]
  have flen: "length fat = f * 512" using ft(1) [of 0] f(2) by simp
  have "chunk part 0 (length boot) = boot" by (rule region) (simp add: partition_regions_def)
  then show "chunk part 0 512 = boot" by (simp add: len)
  have "chunk part ((32 + 2 * f) * 512) (length dir) = dir" by (rule region) (simp add: partition_regions_def)
  then show "chunk part ((32 + 2 * f) * 512) 512 = dir" by (simp add: len)
  have fatr: "chunk part (32 * 512) (f * 512) = fat"
  proof -
    have "chunk part (32 * 512) (length fat) = fat" by (rule region) (simp add: partition_regions_def)
    then show ?thesis by (simp only: flen)
  qed
  have entry: "chunk part (32 * 512 + 4 * c) 4 = le_bytes 4 (fat_entries cc specs ! c) \<and>
      0 \<le> fat_entries cc specs ! c \<and> fat_entries cc specs ! c < 2 ^ 32" if "c < cc + 2" for c
  proof -
    have m: "min 4 (f * 512 - 4 * c) = 4" using that f(2) by simp
    have "chunk part (32 * 512 + 4 * c) 4 = chunk fat (4 * c) 4"
      using chunk_chunk [of part "32 * 512" "f * 512" "4 * c" 4] by (simp only: fatr m)
    then show ?thesis using ft(2-4) [of c] f(2) that by simp
  qed
  have "32 + f \<le> nat count" using f by simp
  then have "(32 + f) * 512 \<le> nat count * 512" by (rule mult_right_mono) simp
  then show "on_card disk bl part f (fat_entries cc specs)"
    using disk plen f(2) entry by (simp add: on_card_def mult.commute)
  have stop: "3 \<le> stop" using placed_le [OF placed(1)] .
  have cl: "cluster_offset (32 + 2 * f) 1 (2 + cc) \<le> length part"
    using f(3) spc unfolding cluster_offset_def plen by (intro mult_right_mono) auto
  have "cluster_offset (32 + 2 * f) 1 2 + 512 \<le> cluster_offset (32 + 2 * f) 1 (2 + cc)"
    using stop placed(2) by (simp add: cluster_offset_def)
  then show "cluster_offset (32 + 2 * f) 1 2 + 512 \<le> length part" using cl by simp
  assume m: "(layout, payload, name, n) \<in> set specs"
  note pm = placed_member [OF placed(1) m]
  define c where "c = nat (first_cluster layout)"
  have c: "int c = first_cluster layout" "3 \<le> c" "c + n \<le> stop" using pm(1,2) by (auto simp: c_def)
  have "(cluster_offset (32 + 2 * f) 1 c, payload) \<in> set (partition_regions f (nat spc) boot info fat dir specs)"
    using m spc by (force simp: partition_regions_def file_regions_def c_def)
  then have data: "chunk part (cluster_offset (32 + 2 * f) 1 c) (length payload) = payload" by (rule region)
  have "fat_entries cc specs ! (c + i) = int (c + i) + 1" if "i < n - 1" for i
  proof -
    have "int (c + i) \<noteq> first_cluster layout + int n - 1" using that c(1) by linarith
    then show ?thesis
      using chain_specs_inside [OF placed(1) _ m, of _ "c + i"] placed(2) that c(1)
      by (simp add: fat_entries_chain)
  qed
  then have ch: "chain_at (fat_entries cc specs) c n"
    using c pm(3) placed(2,3) by (simp add: chain_at_def)
  have "cluster_offset (32 + 2 * f) 1 c + n * 512 \<le> cluster_offset (32 + 2 * f) 1 (2 + cc)"
  proof -
    have "cluster_offset (32 + 2 * f) 1 c + n * 512 = cluster_offset (32 + 2 * f) 1 (c + n)"
      using cluster_offset_add [of c "32 + 2 * f" 1 n] c(2) by simp
    also have "\<dots> \<le> cluster_offset (32 + 2 * f) 1 (2 + cc)"
      using c(3) placed(2) unfolding cluster_offset_def by (intro mult_right_mono add_left_mono) auto
    finally show ?thesis .
  qed
  then show "file_at part f (fat_entries cc specs) (nat (first_cluster layout)) n payload"
    using ch data cl pm(4) spc by (simp add: file_at_def c_def)
qed

text \<open>What the loader reads under a name: the whole file, by any of its ranges.\<close>

definition reads_as :: "bytes \<Rightarrow> fat32_volume \<Rightarrow> bytes \<Rightarrow> bytes \<Rightarrow> bool" where
  "reads_as disk v name data \<longleftrightarrow>
     (\<exists>info. locate_root_file_or_fail disk v name = Some (Inr info) \<and>
        unat (f_size info) = length data \<and>
        (\<forall>off n. off < length data \<longrightarrow> off + n \<le> length data \<longrightarrow>
           read_file_range_to_buffer disk v info off n = Inr (chunk data off n)))"

text \<open>
  Property C14: Every card image the builder returns for the stage-0 loader with one sector per
  cluster and the boot partition at sector 1 or later is mounted by the loader, which finds
  VMLINUX, BOOT.DTB and BOOT.CRC in its root directory, with their sizes, and reads any range of
  them as the bytes that were put in.
\<close>

theorem stage0_reads_boot_files:
  assumes build: "build_litex_sd_card_image elf dtb rootfs bl boot_mb root_mb 1 label
      LITTLE64_SD_BOOT_FORMAT_STAGE0 rb rs kb = Inr lay"
    and "1 \<le> bl" and img: "disk_image lay = Some disk"
  shows "\<exists>v sums crc. load_fat32_volume_or_fail disk = Inr v \<and>
    build_sd_boot_checksums elf dtb = Inr sums \<and> serialize_sd_boot_checksums sums = Inr crc \<and>
    reads_as disk v VMLINUX_NAME elf \<and> reads_as disk v BOOT_DTB_NAME dtb \<and> reads_as disk v BOOT_CRC_NAME crc"
proof -
  let ?bc = "boot_sectors_for boot_mb"
  obtain mbr rc bp where b: "build_fat32_boot_partition elf dtb bl ?bc 1 label LITTLE64_SD_BOOT_FORMAT_STAGE0 rb rs kb = Inr bp"
    and mbr: "is_boot_record mbr bl ?bc (bl + ?bc) rc" "chunk disk 0 512 = mbr"
    and on_disk: "chunk disk (nat bl * 512) (length (boot_bytes bp)) = boot_bytes bp"
      "nat bl * 512 + length (boot_bytes bp) \<le> length disk" "bl + ?bc < 2 ^ 32"
    using image_on_disk [OF build assms(2)] img by (metis option.inject)
  show ?thesis
    using b
  proof (rule build_partition_regions)
    fix f cc files specs stop fat boot info dir
    assume label: "length label = 11" and f: "1 \<le> f" "(cc + 2) * 4 \<le> f * 512" "32 + 2 * f + cc * nat 1 \<le> nat ?bc"
      and files: "boot_payloads elf dtb LITTLE64_SD_BOOT_FORMAT_STAGE0 rb rs kb = Inr files"
        "map (\<lambda>(layout, payload, long_name, _). (short_name layout, payload, long_name)) specs = payloads files"
      and placed: "placed (nat 1 * 512) 3 specs stop" "stop \<le> cc" "stop \<le> 3 + 3 * 8388608"
      and fat: "fat_table f (fat_entries cc specs) = Inr fat"
      and boot: "boot_sector 1 bl (int (nat ?bc)) f label = Inr boot"
      and dir: "root_directory (nat 1 * 512) specs = Inr dir"
      and part: "boot_bytes bp = patch_all (partition_regions f (nat 1) boot info fat dir specs) (replicate (nat ?bc * 512) 0)"
        "in_order 0 (partition_regions f (nat 1) boot info fat dir specs) (nat ?bc * 512)"
    have len: "length boot = 512" "length dir = 512"
      using boot_sector_fields(1) [OF boot label] root_directory_length [OF dir] by simp_all
    have bound: "nat bl + nat ?bc < 2 ^ 32" using on_disk(3) assms(2) boot_sectors_pos [of boot_mb] by simp
    note oc = built_on_card [OF refl f placed fat len part on_disk(1,2) bound]
    let ?v = "card_volume (nat bl) f"
    have bl: "bl < 2 ^ 32" using on_disk(3) boot_sectors_pos [of boot_mb] by simp
    have mount: "load_fat32_volume_or_fail disk = Inr ?v"
      using mounts_card [OF _ assms(2) bl oc(1) boot label oc(2) f(1)] mbr by simp
    obtain sums crc where sc: "build_sd_boot_checksums elf dtb = Inr sums" "serialize_sd_boot_checksums sums = Inr crc"
      and pl: "payloads files = [(VMLINUX_NAME, elf, None), (BOOT_DTB_NAME, dtb, None), (BOOT_CRC_NAME, crc, None)]"
      by (rule stage0_payloads [OF files(1)])
    obtain l1 n1 l2 n2 l3 n3 where specs: "specs = [(l1, elf, None, n1), (l2, dtb, None, n2), (l3, crc, None, n3)]"
      and names: "short_name l1 = VMLINUX_NAME" "short_name l2 = BOOT_DTB_NAME" "short_name l3 = BOOT_CRC_NAME"
      using files(2) unfolding pl by (auto simp: map_eq_Cons_conv)
    have short: "\<forall>(layout, _, name, _) \<in> set specs. name = None \<and> length (short_name layout) = 11"
      by (simp add: specs names names_differ)
    have entries: "build_fat32_file_dir_entry (fst (specs ! i)) = Inr (chunk dir (32 * i) 32)" if "i < length specs" for i
      using root_directory_entries(1) [OF dir short that] .
    have cl: "2 \<le> first_cluster l \<and> first_cluster l < 2 ^ 32" if "(l, p, nm, n) \<in> set specs" for l p nm n
    proof -
      have "int stop \<le> 25165827" using placed(3) by simp
      moreover have "1 \<le> n" using placed_member(3) [OF placed(1) that] .
      ultimately show ?thesis using placed_member(1,2) [OF placed(1) that] by simp
    qed
    have reads: "reads_as disk ?v (short_name (fst (specs ! k))) payload"
      if k: "k < 3" "specs ! k = (l, payload, None, n)" for k l payload n
    proof -
      have kl: "k < length specs" and short_few: "length specs \<le> 16" using k(1) by (simp_all add: specs)
      have m: "(l, payload, None, n) \<in> set specs" using nth_mem [OF kl] by (simp only: k(2))
      have ok: "length (short_name (fst (specs ! i))) = 11 \<and>
        short_name (fst (specs ! i)) ! 0 \<noteq> 0 \<and> short_name (fst (specs ! i)) ! 0 \<noteq> 0xE5 \<and>
        2 \<le> first_cluster (fst (specs ! i)) \<and> first_cluster (fst (specs ! i)) < 2 ^ 32" if "i < length specs" for i
      proof -
        have "i = 0 \<or> i = 1 \<or> i = 2" using that by (auto simp: specs)
        then show ?thesis using cl [of l1 elf None n1] cl [of l2 dtb None n2] cl [of l3 crc None n3]
          by (elim disjE) (simp_all add: specs names names_differ)
      qed
      have other: "short_name (fst (specs ! i)) \<noteq> short_name (fst (specs ! k))" if "i < k" for i
      proof -
        have "(i = 0 \<and> k = 1) \<or> (i = 0 \<and> k = 2) \<or> (i = 1 \<and> k = 2)" using that k(1) by auto
        then show ?thesis by (elim disjE conjE) (simp_all add: specs names names_differ)
      qed
      define info where "info = \<lparr> f_first_cluster = (word_of_int (first_cluster l) :: u32),
        f_size = (word_of_int (file_size l) :: u32) \<rparr>"
      have "scan_sector dir (short_name (fst (specs ! k))) sector_entries = Found info"
        using scan_finds [OF kl _ entries ok other] short_few by (simp only: info_def k(2) fst_conv)
      from locates_file [OF oc(1,4,3) this]
      have loc: "locate_root_file_or_fail disk ?v (short_name (fst (specs ! k))) = Some (Inr info)" .
      have size: "file_size l = int (length payload)" "file_size l < 2 ^ 32"
        subgoal by (rule placed_member(5) [OF placed(1) m])
        subgoal using dir_entry_size [OF entries [OF kl]] by (simp only: k(2) fst_conv) simp
        done
      have "unat (f_size info) = length payload"
        unfolding info_def file_info.simps size(1) of_int_of_nat_eq
        using size by (simp add: unat_of_nat take_bit_nat_eq_self)
      moreover have "f_first_cluster info = word_of_nat (nat (first_cluster l))"
        using cl [OF m] by (simp add: info_def)
      then have "read_file_range_to_buffer disk ?v info off j = Inr (chunk payload off j)"
        if "off < length payload" "off + j \<le> length payload" for off j
        using read_file [OF oc(1) oc(5) [OF m] that(2,1)] by simp
      ultimately show ?thesis using loc by (auto simp: reads_as_def)
    qed
    have "reads_as disk ?v VMLINUX_NAME elf" "reads_as disk ?v BOOT_DTB_NAME dtb" "reads_as disk ?v BOOT_CRC_NAME crc"
      using reads [of 0 l1 elf n1] reads [of 1 l2 dtb n2] reads [of 2 l3 crc n3] by (simp_all add: specs names)
    then show ?thesis using mount sc by blast
  qed
qed

end
