(* ===== verification/Sd_Card_Build.thy ===== *)
theory Sd_Card_Build
  imports Sd_Card_Spec
begin

text \<open>
  The image builder returns a card whenever its inputs fit: no field it packs is out of
  range, no chain ends early, and the directory has room.
\<close>

section \<open>Writes that do not raise\<close>

definition writes :: "nat \<Rightarrow> writer \<Rightarrow> bool" where
  "writes N w \<longleftrightarrow> (\<forall>buf. length buf = N \<longrightarrow> (\<exists>b. w buf = Inr b \<and> length b = N))"

lemma run_writes_total: "list_all (writes N) ws \<Longrightarrow> length buf = N \<Longrightarrow> \<exists>b. run_writes ws buf = Inr b"
proof (induction ws arbitrary: buf)
  case (Cons w ws)
  then obtain c where "w buf = Inr c" "length c = N" by (auto simp: writes_def)
  then show ?case using Cons by simp
qed simp

lemma writes_simps [simp]:
  "off < N \<Longrightarrow> 0 \<le> v \<Longrightarrow> v < 256 \<Longrightarrow> writes N (put_byte off v)"
  "off + length d \<le> N \<Longrightarrow> writes N (put_bytes off d)"
  "off + 2 \<le> N \<Longrightarrow> 0 \<le> v \<Longrightarrow> v < 65536 \<Longrightarrow> writes N (write_u16_le off v)"
  "off + 4 \<le> N \<Longrightarrow> 0 \<le> v \<Longrightarrow> v < 4294967296 \<Longrightarrow> writes N (write_u32_le off v)"
  by (auto simp: writes_def write_Inr)

lemma boot_sector_total:
  assumes "1 \<le> spc" "spc < 256" "0 \<le> lba" "lba < 2 ^ 32" "0 \<le> count" "count < 2 ^ 32" "int f < 2 ^ 32" "length label = 11"
  shows "\<exists>b. boot_sector spc lba count f label = Inr b"
  unfolding boot_sector_def using assms
  by (intro run_writes_total [where N = 512]) (simp_all add: SECTOR_SIZE_def)

lemma fsinfo_total:
  assumes "0 \<le> free" "free < 2 ^ 32" "0 \<le> stop" "stop < 2 ^ 32"
  shows "\<exists>b. fsinfo_sector free stop = Inr b"
  unfolding fsinfo_sector_def using assms
  by (intro run_writes_total [where N = 512]) (simp_all add: SECTOR_SIZE_def)

lemma and_FFFF: "0 \<le> (x :: int) AND 0xFFFF" "x AND 0xFFFF < 65536"
  using take_bit_eq_mask [of 16 x] by (simp_all add: take_bit_eq_mod)

lemma dir_entry_total:
  assumes "length (short_name l) = 11" "0 \<le> file_size l" "file_size l < 2 ^ 32"
  shows "\<exists>e. build_fat32_file_dir_entry l = Inr e"
  unfolding build_fat32_file_dir_entry_def using assms and_FFFF
  by (intro run_writes_total [where N = 32]) simp_all

lemma partition_entry_total:
  assumes "0 \<le> start" "start < 2 ^ 32" "0 \<le> count" "count < 2 ^ 32" "0 \<le> kind" "kind < 256"
  shows "\<exists>e. partition_entry start count kind = Inr e"
  unfolding partition_entry_def using assms
  by (intro run_writes_total [where N = 16]) simp_all

lemma master_boot_record_total:
  assumes "0 \<le> bl" "0 \<le> bc" "0 \<le> rc" "bl + bc < 2 ^ 32" "rc < 2 ^ 32"
  shows "\<exists>mbr. master_boot_record bl bc (bl + bc) rc = Inr mbr"
proof -
  have r: "bl < 2 ^ 32" "bc < 2 ^ 32" "0 \<le> bl + bc" using assms by linarith+
  obtain e1 where e1: "partition_entry bl bc 0x0C = Inr e1"
    using partition_entry_total [OF assms(1) r(1) assms(2) r(2), of "0x0C"] by auto
  obtain e2 where e2: "partition_entry (bl + bc) rc 0x83 = Inr e2"
    using partition_entry_total [OF r(3) assms(4,3,5), of "0x83"] by auto
  note len = partition_entry_fields(1) [OF e1] partition_entry_fields(1) [OF e2]
  have "\<exists>mbr. run_writes [put_bytes 446 e1, put_bytes 462 e2, put_bytes 510 [0x55, 0xAA]] (replicate SECTOR_SIZE 0) = Inr mbr"
    by (rule run_writes_total [where N = 512]) (simp_all add: len SECTOR_SIZE_def)
  then show ?thesis by (simp add: master_boot_record_def e1 e2)
qed

section \<open>The parts of the partition\<close>

lemma chain_specs_range:
  "placed k first specs stop \<Longrightarrow> stop \<le> length entries \<Longrightarrow> stop \<le> 0x0FFFFFF8 \<Longrightarrow>
     \<forall>v \<in> set entries. 0 \<le> v \<and> v < 4294967296 \<Longrightarrow>
     \<forall>v \<in> set (chain_specs specs entries). 0 \<le> v \<and> v < 4294967296"
proof (induction k first specs stop arbitrary: entries rule: placed.induct)
  case (2 k first layout payload name n specs stop)
  have stop: "first + n \<le> stop" "placed k (first + n) specs stop" "first_cluster layout = int first"
    using 2(2) placed_le [of k "first + n" specs stop] by auto
  have "0 \<le> v \<and> v < 4294967296" if v: "v \<in> set (chain_file first n entries)" for v
  proof -
    obtain c where c: "c < length entries" "v = chain_file first n entries ! c"
      using v by (auto simp: in_set_conv_nth)
    then have "v = FAT_END \<or> v = int c + 1 \<and> c < stop \<or> v = entries ! c"
      using stop 2(3) by (auto simp: nth_chain_file)
    moreover have "entries ! c \<in> set entries" using c by simp
    ultimately show ?thesis using 2(4,5) by (auto simp: FAT_END_def)
  qed
  then have c: "\<forall>v \<in> set (chain_file first n entries). 0 \<le> v \<and> v < 4294967296" by blast
  have "chain_specs ((layout, payload, name, n) # specs) entries = chain_specs specs (chain_file first n entries)"
    by (simp add: stop(3))
  moreover have "stop \<le> length (chain_file first n entries)" using 2(3) by simp
  ultimately show ?case using 2(1) [OF stop(2) _ 2(4) c] by (simp only:) simp
qed auto

lemma fat_table_total:
  assumes "placed k 3 specs stop" "stop \<le> cc" "stop \<le> 0x0FFFFFF8" "(cc + 2) * 4 \<le> f * 512"
  shows "\<exists>fat. fat_table f (fat_entries cc specs) = Inr fat"
proof -
  have "set ((replicate (cc + 2) 0)[0 := 0x0FFFFFF8, 1 := 0xFFFFFFFF, 2 := FAT_END]) \<subseteq>
      {0, 0x0FFFFFF8, 0xFFFFFFFF, FAT_END}"
    by (intro set_update_subsetI) auto
  then have "\<forall>v \<in> set ((replicate (cc + 2) 0)[0 := 0x0FFFFFF8, 1 := 0xFFFFFFFF, 2 := FAT_END]).
      0 \<le> v \<and> v < 4294967296"
    by (fastforce simp: FAT_END_def)
  then have "\<forall>v \<in> set (fat_entries cc specs). 0 \<le> v \<and> v < 4294967296"
    unfolding fat_entries_chain using assms by (intro chain_specs_range [OF assms(1)]) auto
  then show ?thesis using fat_table_Inr [of "fat_entries cc specs" f] assms(4) by simp
qed

lemma put_specs_total:
  assumes "\<forall>(layout, payload, name, n) \<in> set specs. name = None \<and> length (short_name layout) = 11 \<and>
      0 \<le> file_size layout \<and> file_size layout < 2 ^ 32"
    and "off + 32 * length specs \<le> length dir"
  shows "\<exists>dir'. put_specs off specs dir = Inr (off + 32 * length specs, dir') \<and> length dir' = length dir"
  using assms
proof (induction specs arbitrary: off dir)
  case (Cons spec specs)
  obtain layout payload n where spec: "spec = (layout, payload, None, n)" using Cons.prems(1) by (cases spec) auto
  have l: "length (short_name layout) = 11" "0 \<le> file_size layout" "file_size layout < 2 ^ 32"
    using Cons.prems(1) by (auto simp: spec)
  obtain e where e: "build_fat32_file_dir_entry layout = Inr e" using dir_entry_total [OF l] by auto
  have "length e = 32" using dir_entry_fields(1) [OF e l(1)] .
  then show ?case
    using Cons.IH [of "off + 32" "patch dir off e"] Cons.prems
    by (simp add: spec spec_entries_def e view_put_def add.assoc)
qed simp

lemma root_directory_total:
  assumes "\<forall>(layout, payload, name, n) \<in> set specs. name = None \<and> length (short_name layout) = 11 \<and>
      0 \<le> file_size layout \<and> file_size layout < 2 ^ 32"
    and "32 * length specs < k"
  shows "\<exists>dir. root_directory k specs = Inr dir"
  using put_specs_total [OF assms(1), of 0 "replicate k 0"] assms(2)
  by (auto simp: root_directory_def put_byte_def)

section \<open>The card\<close>

definition file_clusters :: "nat \<Rightarrow> nat \<Rightarrow> nat" where
  "file_clusters cluster_size n = max 1 (nat (ceil_div (int n) (int cluster_size)))"

lemma zlib_range: "0 \<le> uint (zlib_crc32 d c)" "uint (zlib_crc32 d c) < 4294967296"
  using uint_lt2p [of "zlib_crc32 d c"] by simp_all

lemma stage0_files_total:
  assumes "flatten_elf_image elf LITTLE64_LINUX_RAM_BASE = Inr im"
    and "length (image im) < 2 ^ 32" "length dtb < 2 ^ 32"
  shows "\<exists>n1 n2 n3 crc sums. stage0_files elf dtb = Inr \<lparr> payloads = [(n1, elf, None), (n2, dtb, None), (n3, crc, None)],
      boot_checksums = Some sums, boot_entry_physical = None, boot_dtb_physical = None \<rparr> \<and>
      length n1 = 11 \<and> length n2 = 11 \<and> length n3 = 11 \<and> length crc = 32"
proof -
  have names: "\<exists>n. fat32_short_name ''VMLINUX'' = Inr n" "\<exists>n. fat32_short_name ''BOOT.DTB'' = Inr n"
    "\<exists>n. fat32_short_name ''BOOT.CRC'' = Inr n"
    by (simp_all add: fat32_short_name_def encode_ascii_def ljust_def upper_char_def)
  then obtain n1 n2 n3 where n: "fat32_short_name ''VMLINUX'' = Inr n1" "fat32_short_name ''BOOT.DTB'' = Inr n2"
    "fat32_short_name ''BOOT.CRC'' = Inr n3" by blast
  obtain sums where s: "build_sd_boot_checksums elf dtb = Inr sums"
    and f: "kernel_image_size sums = int (length (image im))" "dtb_size sums = int (length dtb)"
      "0 \<le> kernel_image_crc32 sums" "kernel_image_crc32 sums < 4294967296"
      "0 \<le> dtb_crc32 sums" "dtb_crc32 sums < 4294967296"
    by (simp add: build_sd_boot_checksums_def assms(1) zlib_range)
  have "\<exists>crc. serialize_sd_boot_checksums sums = Inr crc \<and> length crc = 32"
    unfolding serialize_sd_boot_checksums_def using f assms(2,3)
    by (simp add: pack_all_Inr BOOT_CHECKSUM_MAGIC_def BOOT_CHECKSUM_VERSION_def del: pack_all.simps)
  then show ?thesis
    using n s short_name_length [OF n(1)] short_name_length [OF n(2)] short_name_length [OF n(3)]
    by (auto simp: stage0_files_def)
qed

lemma fitting_card_is_built:
  assumes flat: "flatten_elf_image elf LITTLE64_LINUX_RAM_BASE = Inr im"
    and small: "length elf < 2 ^ 32" "length (image im) < 2 ^ 32" "length dtb < 2 ^ 32"
    and geometry: "fat_size_sectors (boot_sectors_for boot_mb) 32 2 (nat spc) = (f, cc)" "65525 \<le> cc"
    and room: "int (file_clusters (nat spc * 512) (length elf) + file_clusters (nat spc * 512) (length dtb) + 4) \<le> cc"
    and card: "1 \<le> spc" "spc < 256" "length label = 11" "1 \<le> bl"
      "rc = max (ceil_div (int (length rootfs)) 512) (root_mb * 2048)" "bl + boot_sectors_for boot_mb < 2 ^ 32" "rc < 2 ^ 32"
  shows "\<exists>lay. build_litex_sd_card_image elf dtb rootfs bl boot_mb root_mb spc label
      LITTLE64_SD_BOOT_FORMAT_STAGE0 rb rs kb = Inr lay"
proof -
  let ?bc = "boot_sectors_for boot_mb" and ?k = "nat spc * 512"
  obtain n1 n2 n3 crc sums where files: "boot_payloads elf dtb LITTLE64_SD_BOOT_FORMAT_STAGE0 rb rs kb =
      Inr \<lparr> payloads = [(n1, elf, None), (n2, dtb, None), (n3, crc, None)],
      boot_checksums = Some sums, boot_entry_physical = None, boot_dtb_physical = None \<rparr>"
    and n: "length n1 = 11" "length n2 = 11" "length n3 = 11" "length crc = 32"
    using stage0_files_total [OF flat small(2,3)] by (auto simp: boot_payloads_def)
  obtain specs stop where ps: "place_files ?k 3 [(n1, elf, None), (n2, dtb, None), (n3, crc, None)] = (specs, stop)"
    by fastforce
  have k: "1 \<le> nat spc" "512 \<le> ?k" using card(1) by auto
  have placed: "placed ?k 3 specs stop" and names: "map (\<lambda>(layout, payload, name, _). (short_name layout, payload, name)) specs =
      [(n1, elf, None), (n2, dtb, None), (n3, crc, None)]"
    using place_files_placed [OF _ ps] k by auto
  obtain l1 c1 l2 c2 l3 c3 where specs: "specs = [(l1, elf, None, c1), (l2, dtb, None, c2), (l3, crc, None, c3)]"
    and sn: "short_name l1 = n1" "short_name l2 = n2" "short_name l3 = n3"
    using names by (auto simp: map_eq_Cons_conv)
  have one: "file_clusters ?k 32 = 1"
  proof -
    have "(31 + K) div K = 1" if "512 \<le> K" for K :: int
      using that div_add_self2 [of K 31] div_pos_pos_trivial [of 31 K] by simp
    from this [of "int ?k"] k(2) have "(int 32 + int ?k - 1) div int ?k = 1" by (simp del: of_nat_mult nat_0_le int_nat_eq)
    then show ?thesis unfolding file_clusters_def ceil_div_def by simp
  qed
  have cl: "c1 = file_clusters ?k (length elf)" "c2 = file_clusters ?k (length dtb)" "c3 = 1"
    using ps n(4) one by (auto simp: specs Let_def file_clusters_def split: prod.splits)
  have used: "stop = 3 + c1 + c2 + 1" "1 + sum_list (map spec_clusters specs) = c1 + c2 + 2"
    using placed by (simp_all add: specs spec_clusters_def cl(3))
  have le: "int stop \<le> cc" using room by (simp add: used cl(1,2))
  have sizes: "\<forall>(layout, payload, name, n) \<in> set specs. name = None \<and> length (short_name layout) = 11 \<and>
      0 \<le> file_size layout \<and> file_size layout < 2 ^ 32"
    using placed small n by (simp add: specs sn)
  then have "stop \<le> 3 + length specs * 8388608" by (intro placed_bound [OF placed k(2)]) auto
  then have end_mark: "stop \<le> 0x0FFFFFF8" by (simp add: specs)
  note cover = fat_size_covers [OF geometry(1)]
  have cc: "(nat cc + 2) * 4 \<le> f * 512" "stop \<le> nat cc" 
  proof -
    have "int ((nat cc + 2) * 4) \<le> int (f * 512)" using cover(3) geometry(2) by simp
    then show "(nat cc + 2) * 4 \<le> f * 512" by (simp only: of_nat_le_iff)
    show "stop \<le> nat cc" using le by linarith
  qed
  have fit: "32 + int (2 * f) + cc * int (nat spc) \<le> ?bc"
    using clusters_fit(1) [OF cover(2)] k(1) by simp
  have pos: "0 \<le> cc * int (nat spc)" "cc \<le> cc * int (nat spc)" using geometry(2) card(1) by simp_all
  have count: "32 + 2 * f + nat cc * nat spc \<le> nat ?bc" "int f < 2 ^ 32" "?bc < 2 ^ 32" "cc < 2 ^ 32"
  proof -
    have "int (32 + 2 * f + nat cc * nat spc) \<le> ?bc" using fit geometry(2) by simp
    then show "32 + 2 * f + nat cc * nat spc \<le> nat ?bc" by linarith
    show bc: "?bc < 2 ^ 32" using card(4,6) by linarith
    have "int (2 * f) = 2 * int f" by simp
    then show "int f < 2 ^ 32" "cc < 2 ^ 32" using fit pos bc by linarith+
  qed
  obtain fat where fat: "fat_table f (fat_entries (nat cc) specs) = Inr fat"
    using fat_table_total [OF placed cc(2) end_mark cc(1)] by blast
  have lba: "0 \<le> bl" "bl < 2 ^ 32" using card(4,6) boot_sectors_pos [of boot_mb] by linarith+
  obtain boot where boot: "boot_sector (int (nat spc)) bl (int (nat ?bc)) f label = Inr boot"
    using boot_sector_total [of "int (nat spc)" bl "int (nat ?bc)" f label] card(1-3) lba count(2,3)
      boot_sectors_pos [of boot_mb] by auto
  have free: "0 \<le> int (nat cc) - int (c1 + c2 + 2)" "int (nat cc) - int (c1 + c2 + 2) < 2 ^ 32"
    using le used(1) geometry(2) count(4) by linarith+
  obtain info where info: "fsinfo_sector (int (nat cc) - int (c1 + c2 + 2)) (int stop) = Inr info"
    using fsinfo_total [OF free, of "int stop"] le count(4) by auto
  obtain dir where dir: "root_directory ?k specs = Inr dir"
    using root_directory_total [OF sizes, of ?k] k(2) by (auto simp: specs)
  note w = partition_writes [OF fat boot info dir card(3) k(1) placed cc(2) end_mark cc(1) cover(1) count(1)]
  have fits: "\<not> cc < int (1 + sum_list (map spec_clusters specs) + 2)" using le by (simp only: used)
  have "\<exists>bp. build_fat32_boot_partition elf dtb bl ?bc spc label LITTLE64_SD_BOOT_FORMAT_STAGE0 rb rs kb = Inr bp"
    unfolding build_fat32_boot_partition_def Let_def files then_r_simps geometry(1) prod.case SECTOR_SIZE_def
      boot_files.simps ps used(2) if_not_P [OF fits [unfolded used(2)]] w(1)
    using card(1,3) geometry(2) by simp
  then obtain bp where
    bp: "build_fat32_boot_partition elf dtb bl ?bc spc label LITTLE64_SD_BOOT_FORMAT_STAGE0 rb rs kb = Inr bp" by blast
  have "0 \<le> rc" by (simp add: card(5) ceil_div_def le_max_iff_disj pos_imp_zdiv_nonneg_iff)
  then obtain mbr where "master_boot_record bl ?bc (bl + ?bc) rc = Inr mbr"
    using master_boot_record_total [of bl ?bc rc] lba card(6,7) boot_sectors_pos [of boot_mb] by auto
  then obtain lay off where compose: "compose_sd_card_image bp rootfs bl ?bc rc LITTLE64_SD_BOOT_FORMAT_STAGE0 True = Inr (lay, mbr, off)"
    by (auto simp: compose_sd_card_image_def Let_def)
  have rc: "max (ceil_div (int (length rootfs)) (int 512)) (root_mb * 1024 * 1024 div int 512) = rc"
    by (simp add: card(5))
  have "\<not> rc < ceil_div (int (length rootfs)) (int 512)" by (simp add: card(5))
  then show ?thesis
    unfolding build_litex_sd_card_image_def Let_def SECTOR_SIZE_def rc bp then_r_simps compose prod.case by simp
qed

text \<open>The file of the same size is written whenever the image in memory is built.\<close>

lemma written_when_built:
  assumes "build_litex_sd_card_image elf dtb rootfs bl boot_mb root_mb spc label fmt rb rs kb = Inr lay"
    and "1 \<le> bl" "1 \<le> root_mb"
  shows "\<exists>r. write_litex_sd_card_image elf dtb rootfs (disk_size_bytes lay) bl boot_mb spc label fmt rb rs kb = Inr r"
proof -
  let ?bc = "boot_sectors_for boot_mb"
  let ?rc = "max (ceil_div (int (length rootfs)) 512) (root_mb * 1024 * 1024 div 512)"
  obtain files mbr off where b: "build_fat32_boot_partition elf dtb bl ?bc spc label fmt rb rs kb = Inr files"
    and c: "compose_sd_card_image files rootfs bl ?bc ?rc fmt True = Inr (lay, mbr, off)"
    using assms(1) by (auto simp: build_litex_sd_card_image_def Let_def then_r_Inr SECTOR_SIZE_def)
  define rc where "rc = ?rc"
  have rc: "1 \<le> rc" "ceil_div (int (length rootfs)) 512 \<le> rc" using assms(3) by (simp_all add: rc_def)
  have n: "disk_size_bytes lay = (bl + ?bc + rc) * 512"
    using c by (auto simp: compose_sd_card_image_def Let_def then_r_Inr SECTOR_SIZE_def rc_def)
  have "root_partition_sectors_for_disk (disk_size_bytes lay) bl ?bc = Inr rc"
    using rc(1) by (simp add: root_partition_sectors_for_disk_def SECTOR_SIZE_def n)
  moreover have "master_boot_record bl ?bc (bl + ?bc) rc = Inr mbr"
    using c by (auto simp: compose_sd_card_image_def Let_def then_r_Inr rc_def)
  then obtain r where "compose_sd_card_image files rootfs bl ?bc rc fmt False = Inr r"
    by (simp add: compose_sd_card_image_def Let_def)
  ultimately show ?thesis
    using rc(2) b by (cases r) (simp add: write_litex_sd_card_image_def Let_def SECTOR_SIZE_def)
qed

text \<open>
  Property C19: For the stage-0 loader both card builders return an image whenever the kernel file
  flattens, the boot partition starts at sector 1 or later, is large enough for 65525 clusters of
  1 to 255 sectors and for the files, the label has 11 bytes, the root partition at least 1 MB,
  and sizes and sector numbers fit in 32 bits: no field is out of range and no chain ends early.
\<close>

theorem card_is_built:
  assumes "flatten_elf_image elf LITTLE64_LINUX_RAM_BASE = Inr im"
    and "length elf < 2 ^ 32" "length (image im) < 2 ^ 32" "length dtb < 2 ^ 32"
    and "fat_size_sectors (boot_sectors_for boot_mb) 32 2 (nat spc) = (f, cc)" "65525 \<le> cc"
    and "int (file_clusters (nat spc * 512) (length elf) + file_clusters (nat spc * 512) (length dtb) + 4) \<le> cc"
    and "1 \<le> spc" "spc < 256" "length label = 11" "1 \<le> bl" "1 \<le> root_mb"
      "rc = max (ceil_div (int (length rootfs)) 512) (root_mb * 2048)" "bl + boot_sectors_for boot_mb < 2 ^ 32" "rc < 2 ^ 32"
  shows "\<exists>lay lay' file. build_litex_sd_card_image elf dtb rootfs bl boot_mb root_mb spc label
      LITTLE64_SD_BOOT_FORMAT_STAGE0 rb rs kb = Inr lay \<and>
    write_litex_sd_card_image elf dtb rootfs (disk_size_bytes lay) bl boot_mb spc label
      LITTLE64_SD_BOOT_FORMAT_STAGE0 rb rs kb = Inr (lay', file)"
proof -
  obtain lay where "build_litex_sd_card_image elf dtb rootfs bl boot_mb root_mb spc label
      LITTLE64_SD_BOOT_FORMAT_STAGE0 rb rs kb = Inr lay"
    using fitting_card_is_built [OF assms(1-11,13-15)] by blast
  then show ?thesis using written_when_built [OF _ assms(11,12)] by fastforce
qed

end
