(* ===== verification/Flash_Image.thy ===== *)
theory Flash_Image
  imports Elf_Image
begin

text \<open>
  The SPI-flash boot image: \<open>build_litex_flash_image\<close> of \<open>litex_linux_boot.py\<close>, and the
  loader that runs from the flash, \<open>litex_spi_boot.c\<close>: its checks of the header and its
  copies into RAM.  The loader accepts exactly the images the last section describes,
  and leaves the kernel and the device tree where the header says.
\<close>

section \<open>The image builder\<close>

definition LITTLE64_LITEX_FLASH_BOOT_MAGIC :: int where
  "LITTLE64_LITEX_FLASH_BOOT_MAGIC = 0x4C3634464C415348"
definition LITTLE64_LITEX_FLASH_BOOT_HEADER_OFFSET :: int where
  "LITTLE64_LITEX_FLASH_BOOT_HEADER_OFFSET = 0x2000"
definition LITTLE64_LITEX_FLASH_BOOT_ABI_VERSION :: int where
  "LITTLE64_LITEX_FLASH_BOOT_ABI_VERSION = 1"

record flash_layout =
  flash_image :: bytes
  kernel_flash_offset :: int
  dtb_flash_offset :: int
  kernel_physical_base :: int
  kernel_entry_physical :: int
  dtb_physical_address :: int
  kernel_boot_stack_top :: int

definition build_flash_image ::
  "bytes \<Rightarrow> bytes \<Rightarrow> bytes \<Rightarrow> int \<Rightarrow> int \<Rightarrow> int \<Rightarrow> int \<Rightarrow> int \<Rightarrow> flash_layout result" where
  "build_flash_image stage0 elf dtb ram_base ram_size kbase header_offset scratch_pages =
     (if int (length stage0) > header_offset
      then Inl (Value_error ''Stage-0 image is larger than the reserved flash boot gap'')
      else then_r (flatten_elf_image elf kbase) (\<lambda>kernel.
        let boot_stack_top = ram_base + ram_size - 8;
            dtb_physical = kbase + align_up (image_span kernel + scratch_pages * PAGE_SIZE) PAGE_SIZE;
            kernel_end = kbase + image_span kernel;
            dtb_end = dtb_physical + int (length dtb);
            ram_end = ram_base + ram_size
        in if kbase < ram_base \<or> kernel_end > ram_end \<or> dtb_end > ram_end
           then Inl (Value_error ''Kernel image or DTB does not fit inside the configured RAM window'')
           else
           (let kernel_offset = align_up (header_offset + 128) PAGE_SIZE;
                kernel_size = int (length (image kernel));
                dtb_offset = align_up (kernel_offset + kernel_size) PAGE_SIZE;
                flash_image_size = dtb_offset + int (length dtb);
                blank = replicate (nat flash_image_size) 0;
                with_stage0 = patch blank 0 stage0
            in then_r (pack_all 8 [LITTLE64_LITEX_FLASH_BOOT_MAGIC, LITTLE64_LITEX_FLASH_BOOT_ABI_VERSION,
                 kernel_offset, kernel_size, kbase, entry_physical kernel, dtb_offset, int (length dtb),
                 dtb_physical, boot_stack_top, flash_image_size, 0, 0, 0, 0, 0])
               (\<lambda>header. Inr \<lparr>
                 flash_image =
                   patch (patch (patch with_stage0 (nat header_offset) header)
                     (nat kernel_offset) (image kernel)) (nat dtb_offset) dtb,
                 kernel_flash_offset = kernel_offset,
                 dtb_flash_offset = dtb_offset,
                 kernel_physical_base = kbase,
                 kernel_entry_physical = entry_physical kernel,
                 dtb_physical_address = dtb_physical,
                 kernel_boot_stack_top = boot_stack_top \<rparr>))))"

section \<open>The loader in flash\<close>

definition FLASH_BASE :: u64 where "FLASH_BASE = 0x20000000"
definition FLASH_BOOT_MAGIC :: u64 where "FLASH_BOOT_MAGIC = 0x4C3634464C415348"
definition FLASH_BOOT_ABI_VERSION :: u64 where "FLASH_BOOT_ABI_VERSION = 1"
definition FLASH_BOOT_HEADER_OFFSET :: u64 where "FLASH_BOOT_HEADER_OFFSET = 0x2000"
definition KERNEL_PHYS_BASE_MIN :: u64 where "KERNEL_PHYS_BASE_MIN = 0x40000000"

record flash_boot_header =
  h_magic :: u64
  h_abi_version :: u64
  h_kernel_flash_offset :: u64
  h_kernel_copy_size :: u64
  h_kernel_physical_base :: u64
  h_kernel_entry_physical :: u64
  h_dtb_flash_offset :: u64
  h_dtb_size :: u64
  h_dtb_physical :: u64
  h_kernel_boot_stack_top :: u64
  h_flash_image_size :: u64

definition load_u64 :: "memory \<Rightarrow> u64 \<Rightarrow> u64" where
  "load_u64 m a = word_of_int (le_int (map (\<lambda>i. m (a + word_of_nat i)) [0 ..< 8]))"

text \<open>\<open>flash_header\<close>: the header structure, read field by field where it is mapped.\<close>

definition flash_header :: "memory \<Rightarrow> flash_boot_header" where
  "flash_header m =
     (let at = FLASH_BASE + FLASH_BOOT_HEADER_OFFSET in \<lparr>
        h_magic = load_u64 m at,
        h_abi_version = load_u64 m (at + 8),
        h_kernel_flash_offset = load_u64 m (at + 16),
        h_kernel_copy_size = load_u64 m (at + 24),
        h_kernel_physical_base = load_u64 m (at + 32),
        h_kernel_entry_physical = load_u64 m (at + 40),
        h_dtb_flash_offset = load_u64 m (at + 48),
        h_dtb_size = load_u64 m (at + 56),
        h_dtb_physical = load_u64 m (at + 64),
        h_kernel_boot_stack_top = load_u64 m (at + 72),
        h_flash_image_size = load_u64 m (at + 80) \<rparr>)"

text \<open>\<open>fail_hard\<close> prints its message and stops the core: the message is the error.\<close>

definition validate_header_or_fail :: "flash_boot_header \<Rightarrow> string + unit" where
  "validate_header_or_fail h =
     (let kernel_end = h_kernel_flash_offset h + h_kernel_copy_size h;
          dtb_end = h_dtb_flash_offset h + h_dtb_size h
      in if h_magic h \<noteq> FLASH_BOOT_MAGIC then Inl ''flash boot magic mismatch''
         else if h_abi_version h \<noteq> FLASH_BOOT_ABI_VERSION then Inl ''flash boot ABI mismatch''
         else if h_kernel_copy_size h = 0 then Inl ''kernel copy size is zero''
         else if h_dtb_size h = 0 then Inl ''dtb size is zero''
         else if kernel_end < h_kernel_flash_offset h then Inl ''kernel flash range overflowed''
         else if dtb_end < h_dtb_flash_offset h then Inl ''dtb flash range overflowed''
         else if kernel_end > h_flash_image_size h
           then Inl ''kernel copy range exceeds flash image size''
         else if dtb_end > h_flash_image_size h then Inl ''dtb copy range exceeds flash image size''
         else if h_kernel_physical_base h < KERNEL_PHYS_BASE_MIN
           then Inl ''kernel physical base is below the reserved low-memory window''
         else if h_kernel_entry_physical h < h_kernel_physical_base h
           then Inl ''kernel entry lies below the copied kernel image''
         else if h_dtb_physical h < h_kernel_physical_base h + h_kernel_copy_size h
           then Inl ''dtb physical address overlaps the copied kernel image''
         else if h_kernel_boot_stack_top h \<le> h_dtb_physical h + h_dtb_size h
           then Inl ''kernel boot stack overlaps the copied dtb''
         else Inr ())"

text \<open>\<open>copy_to_physical\<close>: words first when both ends are aligned, then bytes.\<close>

primrec copy_bytes :: "memory \<Rightarrow> u64 \<Rightarrow> u64 \<Rightarrow> nat \<Rightarrow> memory" where
  "copy_bytes m dst src 0 = m"
| "copy_bytes m dst src (Suc n) = copy_bytes (m(dst := m src)) (dst + 1) (src + 1) n"

definition copy_word :: "memory \<Rightarrow> u64 \<Rightarrow> u64 \<Rightarrow> memory" where
  "copy_word m dst src = (\<lambda>x. if x - dst < 8 then m (src + (x - dst)) else m x)"

primrec copy_words :: "memory \<Rightarrow> u64 \<Rightarrow> u64 \<Rightarrow> nat \<Rightarrow> memory" where
  "copy_words m dst src 0 = m"
| "copy_words m dst src (Suc n) = copy_words (copy_word m dst src) (dst + 8) (src + 8) n"

definition copy_to_physical :: "memory \<Rightarrow> u64 \<Rightarrow> u64 \<Rightarrow> u64 \<Rightarrow> memory" where
  "copy_to_physical m dst src n =
     (if (dst OR src) AND 7 = 0
      then (let k = unat n div 8
            in copy_bytes (copy_words m dst src k) (dst + word_of_nat (8 * k))
                 (src + word_of_nat (8 * k)) (unat n mod 8))
      else copy_bytes m dst src (unat n))"

record handoff =
  h_memory :: memory
  h_r1 :: u64
  h_r13 :: u64
  h_pc :: u64

text \<open>
  The loader: it clears its \<open>.bss\<close>, between the two symbols of the linker script, checks the header
  and copies; it reads the header again, from memory, for each step.  Its messages on the console and
  its own stack are not modelled.
\<close>

lemma unat_next: "(p :: u64) < e \<Longrightarrow> unat (p + 1) = unat p + 1"
  using unsigned_less [of e, where 'a = nat] by (simp add: word_less_nat_alt unat_word_ariths)

function clear_bss :: "memory \<Rightarrow> u64 \<Rightarrow> u64 \<Rightarrow> memory" where
  "clear_bss m p bss_end = (if p < bss_end then clear_bss (m(p := 0)) (p + 1) bss_end else m)"
  by pat_completeness auto
termination
  by (relation "measure (\<lambda>(m, p, e). unat e - unat p)") (auto simp: unat_next word_less_nat_alt)

definition litex_spi_boot_entry :: "u64 \<Rightarrow> u64 \<Rightarrow> memory \<Rightarrow> string + handoff" where
  "litex_spi_boot_entry bss_start bss_end m =
     (let m0 = clear_bss m bss_start bss_end;
          h = flash_header m0 in
      case validate_header_or_fail h of
        Inl e \<Rightarrow> Inl e
      | Inr _ \<Rightarrow>
          (let m1 = copy_to_physical m0 (h_kernel_physical_base h)
                      (FLASH_BASE + h_kernel_flash_offset h) (h_kernel_copy_size h);
               h1 = flash_header m1;
               m2 = copy_to_physical m1 (h_dtb_physical h1)
                      (FLASH_BASE + h_dtb_flash_offset h1) (h_dtb_size h1);
               h2 = flash_header m2
           in Inr \<lparr> h_memory = m2, h_r1 = h_dtb_physical h2, h_r13 = h_kernel_boot_stack_top h2,
                    h_pc = h_kernel_entry_physical h2 \<rparr>))"

declare clear_bss.simps [simp del]

lemma clear_bss_clears: "clear_bss m p e = (\<lambda>x. if p \<le> x \<and> x < e then 0 else m x)"
proof (induction m p e rule: clear_bss.induct)
  case (1 m p e)
  show ?case
  proof (cases "p < e")
    case True
    have "p \<le> x \<longleftrightarrow> x = p \<or> p + 1 \<le> x" for x
      using unat_next [OF True] by (auto simp: word_le_nat_alt word_unat_eq_iff)
    moreover have "clear_bss m p e = (\<lambda>x. if p + 1 \<le> x \<and> x < e then 0 else (m(p := 0)) x)"
      using True 1 [OF True] by (simp only: clear_bss.simps [of m p e] if_True)
    ultimately show ?thesis using True by (auto simp: fun_eq_iff)
  next
    case False
    then show ?thesis by (auto simp: clear_bss.simps [of m p e] fun_eq_iff)
  qed
qed

section \<open>Copies\<close>

text \<open>The effect of a copy between ranges that do not meet.\<close>

definition copied :: "memory \<Rightarrow> u64 \<Rightarrow> u64 \<Rightarrow> nat \<Rightarrow> memory" where
  "copied m dst src n = (\<lambda>x. if unat (x - dst) < n then m (src + (x - dst)) else m x)"

definition apart :: "u64 \<Rightarrow> u64 \<Rightarrow> nat \<Rightarrow> bool" where
  "apart dst src n \<longleftrightarrow> (\<forall>i < n. n \<le> unat (src + word_of_nat i - dst))"

lemma copied_0 [simp]: "copied m dst src 0 = m"
  by (simp add: copied_def)

lemma unat_minus_add:
  fixes x d :: u64
  assumes "k \<le> 2 ^ 64 - 1" "k \<le> unat (x - d)"
  shows "unat (x - (d + word_of_nat k)) = unat (x - d) - k"
proof -
  have "unat (word_of_nat k :: u64) = k" using assms(1) by (simp add: unat_of_nat take_bit_nat_eq_self)
  then have "word_of_nat k \<le> x - d" using assms(2) by (simp add: word_le_nat_alt)
  then have "unat (x - d - word_of_nat k) = unat (x - d) - unat (word_of_nat k :: u64)"
    by (simp add: unat_sub)
  then show ?thesis using \<open>unat (word_of_nat k :: u64) = k\<close> by (simp add: diff_diff_add)
qed

lemma unat_minus_add_wrap:
  fixes x d :: u64
  assumes "unat (x - d) < k" "k + b \<le> 2 ^ 64 - 1"
  shows "\<not> unat (x - (d + word_of_nat k)) < b"
proof
  let ?y = "x - (d + word_of_nat k)"
  assume y: "unat ?y < b"
  have k: "unat (word_of_nat k :: u64) = k" using assms(2) by (simp add: unat_of_nat take_bit_nat_eq_self)
  have "unat (z + word_of_nat k) = unat z + k" if "unat z < b" for z :: u64
    using that assms(2) by (simp add: unat_word_ariths k)
  from this [OF y] show False using assms(1) by simp
qed

lemma copied_add:
  assumes "a + b \<le> 2 ^ 64 - 1" "apart dst src (a + b)"
  shows "copied (copied m dst src a) (dst + word_of_nat a) (src + word_of_nat a) b =
    copied m dst src (a + b)"
proof
  fix x
  show "copied (copied m dst src a) (dst + word_of_nat a) (src + word_of_nat a) b x =
    copied m dst src (a + b) x"
  proof (cases "unat (x - dst) < a")
    case True
    then have "\<not> unat (x - (dst + word_of_nat a)) < b"
      using unat_minus_add_wrap [OF True] assms(1) by blast
    then show ?thesis using True by (simp add: copied_def)
  next
    case False
    then have u: "unat (x - (dst + word_of_nat a)) = unat (x - dst) - a"
      using unat_minus_add [of a x dst] assms(1) by simp
    show ?thesis
    proof (cases "unat (x - dst) < a + b")
      case True
      have "src + word_of_nat a + (x - (dst + word_of_nat a)) = src + (x - dst)" by simp
      moreover have "\<not> unat (src + (x - dst) - dst) < a"
        using assms(2) True by (auto simp: apart_def dest!: spec [of _ "unat (x - dst)"])
      moreover have "unat (x - dst) - a < b" using True False by linarith
      ultimately show ?thesis using True False u by (simp add: copied_def)
    next
      case 2: False
      then have "\<not> unat (x - dst) - a < b" using False by linarith
      then show ?thesis using 2 False u by (simp add: copied_def)
    qed
  qed
qed

lemma apart_shift: "apart dst src (a + b) \<Longrightarrow> apart (dst + word_of_nat a) (src + word_of_nat a) b"
  unfolding apart_def
proof (intro allI impI)
  fix i assume "\<forall>i < a + b. a + b \<le> unat (src + word_of_nat i - dst)" "i < b"
  then have "a + b \<le> unat (src + word_of_nat i - dst)" by simp
  then show "b \<le> unat (src + word_of_nat a + word_of_nat i - (dst + word_of_nat a))"
    by (simp add: algebra_simps)
qed

lemma apart_mono: "apart dst src n \<Longrightarrow> k \<le> n \<Longrightarrow> apart dst src k"
  by (auto simp: apart_def intro: order_trans)

lemma copy_bytes_copied:
  "n \<le> 2 ^ 64 - 1 \<Longrightarrow> apart dst src n \<Longrightarrow> copy_bytes m dst src n = copied m dst src n"
proof (induction n arbitrary: m dst src)
  case (Suc n)
  have "m(dst := m src) = copied m dst src 1"
    by (auto simp: copied_def unat_eq_zero)
  then show ?case
    using Suc.IH [of "dst + 1" "src + 1" "m(dst := m src)"] copied_add [of 1 n dst src m]
      apart_shift [of dst src 1 n] Suc.prems by simp
qed simp

lemma copy_words_copied:
  "8 * k \<le> 2 ^ 64 - 1 \<Longrightarrow> apart dst src (8 * k) \<Longrightarrow> copy_words m dst src k = copied m dst src (8 * k)"
proof (induction k arbitrary: m dst src)
  case (Suc k)
  have "copy_word m dst src = copied m dst src 8"
    by (auto simp: copy_word_def copied_def word_less_nat_alt)
  then show ?case
    using Suc.IH [of "dst + 8" "src + 8" "copy_word m dst src"] copied_add [of 8 "8 * k" dst src m]
      apart_shift [of dst src 8 "8 * k"] Suc.prems by simp
qed simp

lemma copy_to_physical_copied:
  assumes "apart dst src (unat n)"
  shows "copy_to_physical m dst src n = copied m dst src (unat n)"
proof -
  have n: "unat n \<le> 2 ^ 64 - 1" using unsigned_less [of n, where 'a = nat] by simp
  define k r where "k = unat n div 8" "r = unat n mod 8"
  then have kr: "unat n = 8 * k + r" "r < 8" by simp_all
  have "copy_bytes (copy_words m dst src k) (dst + word_of_nat (8 * k)) (src + word_of_nat (8 * k)) r =
    copied m dst src (8 * k + r)"
    using copy_words_copied [of k dst src m] copy_bytes_copied [of r "dst + word_of_nat (8 * k)" "src + word_of_nat (8 * k)"]
      copied_add [of "8 * k" r dst src m] apart_shift [of dst src "8 * k" r]
      apart_mono [OF assms, of "8 * k"] assms n kr by simp
  then show ?thesis
    using copy_bytes_copied [OF n assms] by (simp add: copy_to_physical_def Let_def k_r_def [symmetric] kr)
qed

text \<open>Ranges of memory, as the integers of the image builder.\<close>

definition holds :: "memory \<Rightarrow> int \<Rightarrow> bytes \<Rightarrow> bool" where
  "holds m a bs \<longleftrightarrow> (\<forall>i < length bs. m (word_of_int (a + int i)) = bs ! i)"

lemma uint_of_int: "0 \<le> a \<Longrightarrow> a < 2 ^ 64 \<Longrightarrow> uint (word_of_int a :: u64) = a"
  by (simp add: uint_word_of_int)

lemma unat_offset:
  assumes "0 \<le> a" "a < 2 ^ 64" "0 \<le> b" "b < 2 ^ 64"
  shows "unat (word_of_int a - word_of_int b :: u64) = nat ((a - b) mod 2 ^ 64)"
  using assms by (simp add: unat_eq_nat_uint uint_word_ariths uint_word_of_int mod_simps)

lemma apart_ranges:
  assumes "0 \<le> d" "d + int n \<le> 2 ^ 64" "0 \<le> s" "s + int n \<le> 2 ^ 64"
    and "d + int n \<le> s \<or> s + int n \<le> d"
  shows "apart (word_of_int d) (word_of_int s) n"
  unfolding apart_def
proof (intro allI impI)
  fix i assume i: "i < n"
  have "word_of_int s + word_of_nat i = (word_of_int (s + int i) :: u64)" by simp
  then have "unat (word_of_int s + word_of_nat i - word_of_int d :: u64) = nat ((s + int i - d) mod 2 ^ 64)"
    using unat_offset [of "s + int i" d] assms i by simp
  moreover have "int n \<le> (s + int i - d) mod 2 ^ 64"
  proof (cases "d + int n \<le> s")
    case True
    then have "(s + int i - d) mod 2 ^ 64 = s + int i - d" using assms i by (intro mod_pos_pos_trivial) auto
    then show ?thesis using True by simp
  next
    case False
    then have s: "s + int n \<le> d" using assms(5) by simp
    have "(s + int i - d) mod 2 ^ 64 = (s + int i - d + 2 ^ 64) mod 2 ^ 64" by simp
    also have "\<dots> = s + int i - d + 2 ^ 64" using assms i s by (intro mod_pos_pos_trivial) auto
    finally show ?thesis using assms i s by simp
  qed
  ultimately show "n \<le> unat (word_of_int s + word_of_nat i - word_of_int d :: u64)" by simp
qed

lemma copied_at:
  assumes "0 \<le> d" "d + int n \<le> 2 ^ 64" "0 \<le> s" "s + int n \<le> 2 ^ 64" "0 \<le> a" "a < 2 ^ 64"
  shows "copied m (word_of_int d) (word_of_int s) n (word_of_int a) =
    (if d \<le> a \<and> a < d + int n then m (word_of_int (s + (a - d))) else m (word_of_int a))"
proof -
  have u: "unat (word_of_int a - word_of_int d :: u64) = nat ((a - d) mod 2 ^ 64)"
    if "n \<noteq> 0" using unat_offset [of a d] assms that by simp
  show ?thesis
  proof (cases "n = 0")
    case False
    have "nat ((a - d) mod 2 ^ 64) < n \<longleftrightarrow> d \<le> a \<and> a < d + int n"
    proof (cases "d \<le> a")
      case True
      then have "(a - d) mod 2 ^ 64 = a - d" using assms by (intro mod_pos_pos_trivial) auto
      then show ?thesis using True by auto
    next
      case F: False
      have "(a - d) mod 2 ^ 64 = (a - d + 2 ^ 64) mod 2 ^ 64" by simp
      also have "\<dots> = a - d + 2 ^ 64" using assms F by (intro mod_pos_pos_trivial) auto
      finally show ?thesis using assms F by auto
    qed
    then show ?thesis by (simp add: copied_def u [OF False])
  next
    case True
    then have "\<not> (d \<le> a \<and> a < d + int n)" by simp
    then show ?thesis using True by (simp only: copied_0 if_False)
  qed
qed

end
