(* ===== verification/Flash_Boot.thy ===== *)
theory Flash_Boot
  imports Flash_Image
begin

text \<open>
  The image builder and the loader together: what \<open>build_litex_flash_image\<close> lays out is
  what \<open>litex_spi_boot.c\<close> finds, and the loader either stops with one of four messages
  the builder does not check for, or hands over a machine whose RAM holds the kernel
  image and the device tree.
\<close>

section \<open>The layout of a built image\<close>

lemma build_flash_InrE:
  assumes "build_flash_image stage0 elf dtb rb rs kb ho pages = Inr lay" "flatten_elf_image elf kb = Inr k"
  obtains header ko do' all_bytes where
    "int (length stage0) \<le> ho"
    "ko = align_up (ho + 128) PAGE_SIZE" "do' = align_up (ko + int (length (image k))) PAGE_SIZE"
    "all_bytes = do' + int (length dtb)"
    "dtb_physical_address lay = kb + align_up (image_span k + pages * PAGE_SIZE) PAGE_SIZE"
    "rb \<le> kb" "kb + image_span k \<le> rb + rs" "dtb_physical_address lay + int (length dtb) \<le> rb + rs"
    "kernel_boot_stack_top lay = rb + rs - 8"
    "pack_all 8 [LITTLE64_LITEX_FLASH_BOOT_MAGIC, LITTLE64_LITEX_FLASH_BOOT_ABI_VERSION,
       ko, int (length (image k)), kb, entry_physical k, do', int (length dtb),
       dtb_physical_address lay, kernel_boot_stack_top lay, all_bytes, 0, 0, 0, 0, 0] = Inr header"
    "flash_image lay = patch (patch (patch (patch (replicate (nat all_bytes) 0) 0 stage0) (nat ho) header)
       (nat ko) (image k)) (nat do') dtb"
    "kernel_flash_offset lay = ko" "dtb_flash_offset lay = do'" "kernel_physical_base lay = kb"
    "kernel_entry_physical lay = entry_physical k"
proof -
  note k = assms(2)
  from assms have st: "int (length stage0) \<le> ho"
    by (auto simp: build_flash_image_def then_r_Inr)
  have "\<exists>header. pack_all 8 [LITTLE64_LITEX_FLASH_BOOT_MAGIC, LITTLE64_LITEX_FLASH_BOOT_ABI_VERSION,
       align_up (ho + 128) PAGE_SIZE, int (length (image k)), kb, entry_physical k,
       align_up (align_up (ho + 128) PAGE_SIZE + int (length (image k))) PAGE_SIZE, int (length dtb),
       kb + align_up (image_span k + pages * PAGE_SIZE) PAGE_SIZE, rb + rs - 8,
       align_up (align_up (ho + 128) PAGE_SIZE + int (length (image k))) PAGE_SIZE + int (length dtb),
       0, 0, 0, 0, 0] = Inr header"
    using assms unfolding build_flash_image_def Let_def if_error then_r_Inr k by auto
  then show ?thesis using assms k st that [OF st refl refl refl]
    by (auto simp: build_flash_image_def Let_def not_less simp del: pack_all.simps)
qed

text \<open>The regions of the image, in order, and what each holds.\<close>

lemma flash_regions:
  assumes "0 \<le> ho" "int (length stage0) \<le> ho"
    and ko: "ko = align_up (ho + 128) PAGE_SIZE"
    and do': "do' = align_up (ko + int (length img)) PAGE_SIZE"
    and all_bytes: "all_bytes = do' + int (length dtb)"
    and h: "length header = 128"
    and flash: "flash = patch (patch (patch (patch (replicate (nat all_bytes) 0) 0 stage0) (nat ho) header)
       (nat ko) img) (nat do') dtb"
  shows "length flash = nat all_bytes" "chunk flash 0 (length stage0) = stage0"
    "chunk flash (nat ho) 128 = header" "chunk flash (nat ko) (length img) = img"
    "chunk flash (nat do') (length dtb) = dtb"
    "ho + 128 \<le> ko" "ko + int (length img) \<le> do'" "0 \<le> all_bytes"
proof -
  show o1: "ho + 128 \<le> ko" and o2: "ko + int (length img) \<le> do'"
    using align_up_bounds [of "ho + 128"] align_up_bounds [of "ko + int (length img)"] by (simp_all add: ko do')
  show "0 \<le> all_bytes" using o1 o2 assms(1) all_bytes by simp
  have n: "length stage0 \<le> nat ho" "nat ho + 128 \<le> nat ko" "nat ko + length img \<le> nat do'"
    "nat all_bytes = nat do' + length dtb" using assms(1,2) o1 o2 all_bytes by auto
  show "length flash = nat all_bytes" using n by (simp add: flash h)
  show "chunk flash 0 (length stage0) = stage0" "chunk flash (nat ho) 128 = header"
    "chunk flash (nat ko) (length img) = img" "chunk flash (nat do') (length dtb) = dtb"
    using n by (simp_all add: flash h chunk_simps)
qed

lemma load_u64_field:
  assumes "holds m base img" "off + 8 \<le> length img"
  shows "load_u64 m (word_of_int (base + int off)) = word_of_int (field_at 8 img off)"
proof -
  have "m (word_of_int (base + int off) + word_of_nat i) = chunk img off 8 ! i" if "i < 8" for i
  proof -
    have "word_of_int (base + int off) + word_of_nat i = (word_of_int (base + int (off + i)) :: u64)"
      by simp
    moreover have "m (word_of_int (base + int (off + i))) = img ! (off + i)"
    proof -
      have "off + i < length img" using assms(2) that by simp
      then show ?thesis using assms(1) unfolding holds_def by blast
    qed
    ultimately show ?thesis using assms(2) that by (simp only: nth_chunk)
  qed
  then have "map (\<lambda>i. m (word_of_int (base + int off) + word_of_nat i)) [0 ..< 8] = chunk img off 8"
    using assms(2) by (intro nth_equalityI) auto
  then show ?thesis by (simp only: load_u64_def field_at_def)
qed

lemma header_fields:
  assumes flash: "holds m 0x20000000 flash" "chunk flash 0x2000 128 = header" "0x2000 + 128 \<le> length flash"
    and header: "pack_all 8 [f0, f1, f2, f3, f4, f5, f6, f7, f8, f9, f10, 0, 0, 0, 0, 0] = Inr header"
  shows "flash_header m = \<lparr> h_magic = word_of_int f0, h_abi_version = word_of_int f1,
     h_kernel_flash_offset = word_of_int f2, h_kernel_copy_size = word_of_int f3,
     h_kernel_physical_base = word_of_int f4, h_kernel_entry_physical = word_of_int f5,
     h_dtb_flash_offset = word_of_int f6, h_dtb_size = word_of_int f7,
     h_dtb_physical = word_of_int f8, h_kernel_boot_stack_top = word_of_int f9,
     h_flash_image_size = word_of_int f10 \<rparr>"
proof -
  define fs where "fs = [f0, f1, f2, f3, f4, f5, f6, f7, f8, f9, f10, 0, 0, 0, 0, 0]"
  have fs: "\<forall>v \<in> set fs. 0 \<le> v \<and> v < 256 ^ 8" "header = concat (map (le_bytes 8) fs)"
    using header unfolding fs_def [symmetric] pack_all_Inr by simp_all
  have at: "load_u64 m (0x20002000 + word_of_nat (8 * i)) = word_of_int (fs ! i)" if "i < 11" for i
  proof -
    have l: "i < length fs" using that by (simp add: fs_def)
    have "min 8 (128 - 8 * i) = 8" using that by simp
    then have "chunk flash (0x2000 + 8 * i) 8 = chunk (chunk flash 0x2000 128) (8 * i) 8"
      using that by (simp add: chunk_chunk)
    also have "\<dots> = le_bytes 8 (fs ! i)" using chunk_packed [OF l, of 8] flash(2) fs(2) by simp
    finally have "field_at 8 flash (0x2000 + 8 * i) = fs ! i"
      using fs(1) l by (simp add: field_at_def del: power_numeral)
    moreover have "(0x20002000 + word_of_nat (8 * i) :: u64) = word_of_int (0x20000000 + int (0x2000 + 8 * i))"
      by simp
    ultimately show ?thesis using load_u64_field [OF flash(1), of "0x2000 + 8 * i"] flash(3) that
      by (simp del: of_int_add of_nat_mult of_nat_add)
  qed
  show ?thesis
    using at [of 0] at [of 1] at [of 2] at [of 3] at [of 4] at [of 5] at [of 6] at [of 7] at [of 8] at [of 9]
      at [of 10]
    by (simp add: flash_header_def FLASH_BASE_def FLASH_BOOT_HEADER_OFFSET_def Let_def fs_def)
qed

section \<open>What the loader does with a built image\<close>

lemma word_of_int_less_iff:
  assumes "0 \<le> a" "a < 2 ^ 64" "0 \<le> b" "b < 2 ^ 64"
  shows "(word_of_int a :: u64) < word_of_int b \<longleftrightarrow> a < b" "(word_of_int a :: u64) \<le> word_of_int b \<longleftrightarrow> a \<le> b"
    "(word_of_int a :: u64) = word_of_int b \<longleftrightarrow> a = b"
proof -
  note u = uint_of_int [OF assms(1,2)] uint_of_int [OF assms(3,4)]
  show "(word_of_int a :: u64) < word_of_int b \<longleftrightarrow> a < b" "(word_of_int a :: u64) \<le> word_of_int b \<longleftrightarrow> a \<le> b"
    by (simp_all only: word_less_def word_le_def u)
  show "(word_of_int a :: u64) = word_of_int b \<longleftrightarrow> a = b" using u by metis
qed

text \<open>The state handed to the kernel: the image and the device tree in place, the loader's \<open>.bss\<close> cleared.\<close>

definition flash_handoff :: "u64 \<Rightarrow> u64 \<Rightarrow> memory \<Rightarrow> flash_layout \<Rightarrow> bytes \<Rightarrow> bytes \<Rightarrow> handoff" where
  "flash_handoff bss_start bss_end m lay img dtb =
     \<lparr> h_memory = (\<lambda>a.
         if dtb_physical_address lay \<le> uint a \<and> uint a < dtb_physical_address lay + int (length dtb)
         then dtb ! nat (uint a - dtb_physical_address lay)
         else if kernel_physical_base lay \<le> uint a \<and> uint a < kernel_physical_base lay + int (length img)
         then img ! nat (uint a - kernel_physical_base lay)
         else if bss_start \<le> a \<and> a < bss_end then 0 else m a),
       h_r1 = word_of_int (dtb_physical_address lay),
       h_r13 = word_of_int (kernel_boot_stack_top lay),
       h_pc = word_of_int (kernel_entry_physical lay) \<rparr>"

text \<open>Copying a part of the flash to a RAM range that does not meet the flash.\<close>

lemma copy_from_flash:
  assumes flash: "holds m 0x20000000 flash" "0x20000000 + int (length flash) \<le> 0x40000000"
    and part: "0 \<le> off" "chunk flash (nat off) (length d) = d" "off + int (length d) \<le> int (length flash)"
    and dst: "0x40000000 \<le> dst" "dst + int (length d) \<le> 2 ^ 64 - 1"
  defines "m' \<equiv> copy_to_physical m (word_of_int dst) (FLASH_BASE + word_of_int off) (word_of_int (int (length d)))"
  shows "m' a = (if dst \<le> uint a \<and> uint a < dst + int (length d) then d ! nat (uint a - dst) else m a)"
    and "holds m' 0x20000000 flash"
proof -
  have src: "FLASH_BASE + word_of_int off = word_of_int (0x20000000 + off)"
    by (simp add: FLASH_BASE_def)
  have n: "unat (word_of_int (int (length d)) :: u64) = length d"
    using dst by (simp add: unat_of_nat take_bit_nat_eq_self)
  have "apart (word_of_int dst) (word_of_int (0x20000000 + off)) (length d)"
    using dst part flash(2) by (intro apart_ranges) auto
  then have m': "m' = copied m (word_of_int dst) (word_of_int (0x20000000 + off)) (length d)"
    unfolding m'_def src by (subst copy_to_physical_copied) (simp_all only: n)
  have at: "m' (word_of_int b) = (if dst \<le> b \<and> b < dst + int (length d) then d ! nat (b - dst) else m (word_of_int b))"
    if b: "0 \<le> b" "b < 2 ^ 64" for b
  proof -
    have "m (word_of_int (0x20000000 + off + (b - dst))) = d ! nat (b - dst)"
      if i: "dst \<le> b" "b < dst + int (length d)"
    proof -
      define i where "i = nat (b - dst)"
      have l: "i < length d" using i by (simp add: i_def)
      have "chunk flash (nat off) (length d) ! i = flash ! (nat off + i)"
        using l part by (intro nth_chunk) auto
      then have "d ! i = flash ! (nat off + i)" using part(2) by simp
      moreover have "nat off + i < length flash" using l part by simp
      ultimately have "m (word_of_int (0x20000000 + int (nat off + i))) = d ! i"
        using flash(1) unfolding holds_def by metis
      moreover have "0x20000000 + int (nat off + i) = 0x20000000 + off + (b - dst)"
        using i part(1) by (simp add: i_def)
      ultimately show ?thesis unfolding i_def by (simp only:)
    qed
    then show ?thesis unfolding m'
      using copied_at [of dst "length d" "0x20000000 + off" b m] dst part flash(2) b by simp
  qed
  have "0 \<le> uint a" "uint a < 2 ^ 64" using unsigned_less [of a, where 'a = int] by simp_all
  from at [OF this] show "m' a =
    (if dst \<le> uint a \<and> uint a < dst + int (length d) then d ! nat (uint a - dst) else m a)" by simp
  show "holds m' 0x20000000 flash"
    unfolding holds_def
  proof (intro allI impI)
    fix i assume i: "i < length flash"
    then have "m' (word_of_int (0x20000000 + int i)) = m (word_of_int (0x20000000 + int i))"
      using at [of "0x20000000 + int i"] flash(2) dst by simp
    then show "m' (word_of_int (0x20000000 + int i)) = flash ! i"
      using flash(1) i unfolding holds_def by metis
  qed
qed

text \<open>
  Property C15: Run on any image the flash builder returns that fits the window at 0x20000000 it
  is mapped at, with its .bss below the flash and RAM below 2^63, the SPI loader rejects an empty
  device tree, a kernel base below 0x40000000, a kernel image that reaches the device tree (a
  segment larger in the file than in memory makes one) and a device tree that reaches the boot
  stack, and otherwise hands off with the kernel and the device tree copied to their places, its
  .bss cleared and the rest of memory unchanged; its stack and console are not modelled.
\<close>

theorem flash_boot:
  assumes build: "build_flash_image stage0 elf dtb rb rs kb LITTLE64_LITEX_FLASH_BOOT_HEADER_OFFSET pages = Inr lay"
    and kernel: "flatten_elf_image elf kb = Inr k"
    and ram: "0 \<le> pages" "rb + rs \<le> 2 ^ 63"
    and flash: "holds m 0x20000000 (flash_image lay)" "0x20000000 + int (length (flash_image lay)) \<le> 0x40000000"
    and bss: "bss_end \<le> 0x20000000"
  shows "litex_spi_boot_entry bss_start bss_end m =
    (if dtb = [] then Inl ''dtb size is zero''
     else if kb < 0x40000000 then Inl ''kernel physical base is below the reserved low-memory window''
     else if dtb_physical_address lay < kb + int (length (image k))
       then Inl ''dtb physical address overlaps the copied kernel image''
     else if kernel_boot_stack_top lay \<le> dtb_physical_address lay + int (length dtb)
       then Inl ''kernel boot stack overlaps the copied dtb''
     else Inr (flash_handoff bss_start bss_end m lay (image k) dtb))"
proof -
  define m0 where "m0 = clear_bss m bss_start bss_end"
  let ?ho = LITTLE64_LITEX_FLASH_BOOT_HEADER_OFFSET
  obtain header ko do' all_bytes where
    st: "int (length stage0) \<le> ?ho"
    and lay: "ko = align_up (?ho + 128) PAGE_SIZE" "do' = align_up (ko + int (length (image k))) PAGE_SIZE"
      "all_bytes = do' + int (length dtb)"
      "dtb_physical_address lay = kb + align_up (image_span k + pages * PAGE_SIZE) PAGE_SIZE"
    and fits: "rb \<le> kb" "kb + image_span k \<le> rb + rs" "dtb_physical_address lay + int (length dtb) \<le> rb + rs"
    and stack: "kernel_boot_stack_top lay = rb + rs - 8"
    and header: "pack_all 8 [LITTLE64_LITEX_FLASH_BOOT_MAGIC, LITTLE64_LITEX_FLASH_BOOT_ABI_VERSION,
       ko, int (length (image k)), kb, entry_physical k, do', int (length dtb),
       dtb_physical_address lay, kernel_boot_stack_top lay, all_bytes, 0, 0, 0, 0, 0] = Inr header"
    and img: "flash_image lay = patch (patch (patch (patch (replicate (nat all_bytes) 0) 0 stage0) (nat ?ho) header)
       (nat ko) (image k)) (nat do') dtb"
    and fields: "kernel_flash_offset lay = ko" "dtb_flash_offset lay = do'" "kernel_physical_base lay = kb"
      "kernel_entry_physical lay = entry_physical k"
    by (rule build_flash_InrE [OF build kernel(1)])
  have hlen: "length header = 128" using header unfolding pack_all_Inr by simp
  have ho: "0 \<le> ?ho" "nat ?ho = 0x2000" by (simp_all add: LITTLE64_LITEX_FLASH_BOOT_HEADER_OFFSET_def)
  note reg = flash_regions [OF ho(1) st lay(1-3) hlen img]
  have ranges: "0 \<le> ko" "0 \<le> do'" "ko + int (length (image k)) \<le> all_bytes" "int (length (flash_image lay)) = all_bytes"
    using reg ho(1) lay(3) by auto
  have pk: "0 \<le> kb" "kb < 2 ^ 64" "0 \<le> entry_physical k" "entry_physical k < 2 ^ 64"
     "0 \<le> dtb_physical_address lay" "0 \<le> kernel_boot_stack_top lay" "kernel_boot_stack_top lay < 2 ^ 64"
    using header unfolding pack_all_Inr by simp_all
  note win = flatten_window [OF kernel(1)]
  note span = flatten_length [OF kernel(1)]
  have above: "kb + image_span k \<le> dtb_physical_address lay"
  proof -
    have "image_span k \<le> image_span k + pages * PAGE_SIZE" using ram(1) by (simp add: PAGE_SIZE_def)
    then show ?thesis using align_up_bounds(1) [of "image_span k + pages * PAGE_SIZE"] lay(4) by linarith
  qed
  have flash0: "holds m0 0x20000000 (flash_image lay)"
    unfolding holds_def
  proof (intro allI impI)
    fix i assume i: "i < length (flash_image lay)"
    have "uint (word_of_int (0x20000000 + int i) :: u64) = 0x20000000 + int i" using i flash(2) by (intro uint_of_int) auto
    then have "\<not> word_of_int (0x20000000 + int i) < bss_end" using bss by (simp add: word_less_def word_le_def del: of_int_add)
    then show "m0 (word_of_int (0x20000000 + int i)) = flash_image lay ! i"
      using flash(1) i unfolding holds_def m0_def clear_bss_clears by metis
  qed
  have hchunk: "chunk (flash_image lay) 0x2000 128 = header" using reg(3) ho(2) by simp
  have hfit: "0x2000 + 128 \<le> length (flash_image lay)"
    using reg(1,6,7) lay(3) ho by simp
  have hdr: "flash_header x = \<lparr> h_magic = word_of_int LITTLE64_LITEX_FLASH_BOOT_MAGIC,
     h_abi_version = word_of_int LITTLE64_LITEX_FLASH_BOOT_ABI_VERSION,
     h_kernel_flash_offset = word_of_int ko, h_kernel_copy_size = word_of_int (int (length (image k))),
     h_kernel_physical_base = word_of_int kb, h_kernel_entry_physical = word_of_int (entry_physical k),
     h_dtb_flash_offset = word_of_int do', h_dtb_size = word_of_int (int (length dtb)),
     h_dtb_physical = word_of_int (dtb_physical_address lay),
     h_kernel_boot_stack_top = word_of_int (kernel_boot_stack_top lay),
     h_flash_image_size = word_of_int all_bytes \<rparr>"
    if "holds x 0x20000000 (flash_image lay)" for x
    using header_fields [OF that hchunk hfit header] .
  let ?d = "dtb_physical_address lay" and ?t = "kernel_boot_stack_top lay"
  define n c where "n = int (length dtb)" and "c = int (length (image k))"
  have cs: "image_span k \<le> c" "0 < c" unfolding c_def using span win(3) by linarith+
  have big: "all_bytes < 2 ^ 64" "ko < 2 ^ 64" "do' < 2 ^ 64" "n < 2 ^ 64" "c < 2 ^ 64"
    "kb + c < 2 ^ 64" "?d < 2 ^ 64" "?d + n < 2 ^ 64" "ko + c < 2 ^ 64"
    using flash(2) ranges lay(3) cs ram(2) fits pk win(3) by (auto simp: n_def c_def)
  have sums: "word_of_int ko + word_of_int c = (word_of_int (ko + c) :: u64)"
    "word_of_int do' + word_of_int n = (word_of_int all_bytes :: u64)"
    "word_of_int kb + word_of_int c = (word_of_int (kb + c) :: u64)"
    "word_of_int ?d + word_of_int n = (word_of_int (?d + n) :: u64)"
    by (simp_all add: lay(3) n_def)
  note cmp = word_of_int_less_iff
  have val: "validate_header_or_fail (flash_header m0) =
    (if dtb = [] then Inl ''dtb size is zero''
     else if kb < 0x40000000 then Inl ''kernel physical base is below the reserved low-memory window''
     else if ?d < kb + c then Inl ''dtb physical address overlaps the copied kernel image''
     else if ?t \<le> ?d + n then Inl ''kernel boot stack overlaps the copied dtb'' else Inr ())"
  proof -
    have z: "(word_of_int c :: u64) = 0 \<longleftrightarrow> False" "(word_of_int n :: u64) = 0 \<longleftrightarrow> dtb = []"
      using cmp(3) [of c 0] cmp(3) [of n 0] cs(2) big by (simp_all add: n_def)
    have q: "(word_of_int (ko + c) :: u64) < word_of_int ko \<longleftrightarrow> False"
      "(word_of_int all_bytes :: u64) < word_of_int do' \<longleftrightarrow> False"
      "(word_of_int all_bytes :: u64) < word_of_int (ko + c) \<longleftrightarrow> False"
      "(word_of_int kb :: u64) < KERNEL_PHYS_BASE_MIN \<longleftrightarrow> kb < 0x40000000"
      "(word_of_int (entry_physical k) :: u64) < word_of_int kb \<longleftrightarrow> False"
      "(word_of_int ?d :: u64) < word_of_int (kb + c) \<longleftrightarrow> ?d < kb + c"
      "(word_of_int ?t :: u64) \<le> word_of_int (?d + n) \<longleftrightarrow> ?t \<le> ?d + n"
      using cmp(1) [of "ko + c" ko] cmp(1) [of all_bytes do'] cmp(1) [of all_bytes "ko + c"]
        cmp(1) [of kb "0x40000000"] cmp(1) [of "entry_physical k" kb] cmp(1) [of ?d "kb + c"]
        cmp(2) [of ?t "?d + n"] big ranges pk win(1) lay(3) cs
      by (auto simp del: of_int_add simp add: KERNEL_PHYS_BASE_MIN_def n_def c_def)
    show ?thesis
      unfolding validate_header_or_fail_def Let_def hdr [OF flash0] c_def [symmetric] n_def [symmetric]
      by (simp add: sums q z FLASH_BOOT_MAGIC_def FLASH_BOOT_ABI_VERSION_def LITTLE64_LITEX_FLASH_BOOT_MAGIC_def
          LITTLE64_LITEX_FLASH_BOOT_ABI_VERSION_def del: of_int_add)
  qed
  show ?thesis
  proof (cases "dtb = [] \<or> kb < 0x40000000 \<or> ?d < kb + c \<or> ?t \<le> ?d + n")
    case True
    then show ?thesis by (auto simp: litex_spi_boot_entry_def m0_def [symmetric] Let_def val n_def c_def)
  next
    case False
    define m1 where "m1 = copy_to_physical m0 (word_of_int kb) (FLASH_BASE + word_of_int ko)
      (word_of_int (int (length (image k))))"
    define m2 where "m2 = copy_to_physical m1 (word_of_int ?d) (FLASH_BASE + word_of_int do') (word_of_int n)"
    note c1 = copy_from_flash [OF flash0 flash(2) ranges(1) reg(4) _ _, of kb, folded m1_def]
    note c2 = copy_from_flash [OF c1(2) flash(2) ranges(2) reg(5) _ _, of ?d, folded n_def, folded m2_def]
    have k1: "ko + int (length (image k)) \<le> int (length (flash_image lay))" "0x40000000 \<le> kb"
      "kb + int (length (image k)) \<le> 2 ^ 64 - 1" using ranges False big by (auto simp: c_def)
    have k2: "do' + n \<le> int (length (flash_image lay))" "0x40000000 \<le> ?d" "?d + n \<le> 2 ^ 64 - 1"
      using ranges lay(3) False above win(3) big by (auto simp: n_def)
    have "litex_spi_boot_entry bss_start bss_end m = Inr \<lparr> h_memory = m2, h_r1 = word_of_int ?d, h_r13 = word_of_int ?t,
        h_pc = word_of_int (entry_physical k) \<rparr>"
    proof -
      define hh where "hh = flash_header m0"
      have same: "flash_header m0 = hh" "flash_header m1 = hh" "flash_header m2 = hh"
        using hdr [OF flash0] hdr [OF c1(2) [OF k1]] hdr [OF c2(2) [OF k1 k2]] by (simp_all only: hh_def)
      have f: "h_kernel_physical_base hh = word_of_int kb" "h_kernel_flash_offset hh = word_of_int ko"
        "h_kernel_copy_size hh = word_of_int (int (length (image k)))" "h_dtb_flash_offset hh = word_of_int do'"
        "h_dtb_size hh = word_of_int n" "h_dtb_physical hh = word_of_int ?d"
        "h_kernel_boot_stack_top hh = word_of_int ?t" "h_kernel_entry_physical hh = word_of_int (entry_physical k)"
        unfolding hh_def hdr [OF flash0] by (simp_all add: n_def)
      have v: "validate_header_or_fail hh = Inr ()" using val False by (simp add: same(1))
      show ?thesis
        unfolding litex_spi_boot_entry_def m0_def [symmetric] Let_def same(1) v f sum.case m1_def [symmetric] same(2) m2_def [symmetric]
          same(3) ..
    qed
    moreover have "m2 = h_memory (flash_handoff bss_start bss_end m lay (image k) dtb)"
      using c1(1) [OF k1] c2(1) [OF k1 k2]
      by (auto simp: flash_handoff_def fields n_def fun_eq_iff m0_def clear_bss_clears)
    ultimately show ?thesis using False by (simp add: flash_handoff_def fields n_def c_def)
  qed
qed

end
