(* ===== verification/Boot_Demo.thy ===== *)
theory Boot_Demo
  imports Stage0_Boot Sd_Card_Build Flash_Boot
begin

text \<open>
  A kernel file of one segment and the images the builders make of it: the concrete
  inputs at which the theorems on boot images are applied.
\<close>

section \<open>A kernel file\<close>

text \<open>An ELF header, one program header and four bytes to load at \<open>0x40000000\<close>.\<close>

definition demo_elf :: bytes where
  "demo_elf =
     [0x7F, 0x45, 0x4C, 0x46, 0x02, 0x01, 0x01, 0x00, 0x00, 0x00, 0x00, 0x00, 0x00, 0x00, 0x00, 0x00,
      0x02, 0x00, 0x36, 0x4C, 0x01, 0x00, 0x00, 0x00, 0x00, 0x00, 0x00, 0x40, 0x00, 0x00, 0x00, 0x00,
      0x40, 0x00, 0x00, 0x00, 0x00, 0x00, 0x00, 0x00, 0x00, 0x00, 0x00, 0x00, 0x00, 0x00, 0x00, 0x00,
      0x00, 0x00, 0x00, 0x00, 0x40, 0x00, 0x38, 0x00, 0x01, 0x00, 0x00, 0x00, 0x00, 0x00, 0x00, 0x00,
      0x01, 0x00, 0x00, 0x00, 0x05, 0x00, 0x00, 0x00, 0x78, 0x00, 0x00, 0x00, 0x00, 0x00, 0x00, 0x00,
      0x00, 0x00, 0x00, 0x40, 0x00, 0x00, 0x00, 0x00, 0x00, 0x00, 0x00, 0x40, 0x00, 0x00, 0x00, 0x00,
      0x04, 0x00, 0x00, 0x00, 0x00, 0x00, 0x00, 0x00, 0x08, 0x00, 0x00, 0x00, 0x00, 0x00, 0x00, 0x00,
      0x00, 0x10, 0x00, 0x00, 0x00, 0x00, 0x00, 0x00, 0x11, 0x22, 0x33, 0x44]"

definition demo_segment :: load_segment where
  "demo_segment = \<lparr> p_offset = 120, p_vaddr = 0x40000000, p_filesz = 4, p_memsz = 8 \<rparr>"

definition demo_loads :: elf_loads where
  "demo_loads = \<lparr> elf_entry = 0x40000000, load_segments = [demo_segment], min_vaddr = 0x40000000,
     max_vaddr = 0x40000008 \<rparr>"

definition demo_dtb :: bytes where "demo_dtb = [0xD0, 0x0D, 0xFE, 0xED]"

lemma demo_parsed: "parse_load_segments demo_elf = Inr demo_loads"
  by code_simp

lemma demo_length: "length demo_elf = 124" "length demo_dtb = 4"
  by (simp_all add: demo_elf_def demo_dtb_def)

definition demo_image :: elf_image where
  "demo_image = \<lparr> image = patch (replicate 4096 0) 0 [0x11, 0x22, 0x33, 0x44], image_span = 4096,
     virtual_base = 0x40000000, entry_physical = 0x40000000 \<rparr>"

lemma demo_window: "virtual_base_of demo_loads = 0x40000000" "image_span_of demo_loads = 4096"
  by (code_simp, code_simp)

lemma demo_data: "chunk demo_elf 120 4 = [0x11, 0x22, 0x33, 0x44]"
  by code_simp

lemma demo_fields: "elf_entry demo_loads = 0x40000000" "load_segments demo_loads = [demo_segment]"
  "p_offset demo_segment = 120" "p_vaddr demo_segment = 0x40000000" "p_filesz demo_segment = 4" "p_memsz demo_segment = 8"
  by (simp_all add: demo_loads_def demo_segment_def)

lemma demo_flat: "flatten_elf_image demo_elf 0x40000000 = Inr demo_image"
  by (simp add: flatten_elf_image_def demo_parsed Let_def demo_window demo_fields demo_image_def
      place_segment_def demo_data)

lemma demo_image_length: "length (image demo_image) = 4096"
  by (simp add: demo_image_def)

theorem flatten_loads_segments_witness:
  "length (image demo_image) = 4096 \<and>
     image demo_image ! 1 = loaded_memory demo_elf [demo_segment] 0x40000001"
proof -
  have f: "flatten_elf_image demo_elf 0x40000000 = Inr demo_image" by (rule demo_flat)
  have "\<forall>s \<in> set (load_segments demo_loads). p_filesz s \<le> p_memsz s" by (simp add: demo_fields)
  from flatten_loads_segments [OF f demo_parsed this] show ?thesis
    by (simp add: demo_image_length demo_fields) (simp add: demo_image_def)
qed

section \<open>A card\<close>

definition demo_label :: bytes where
  "demo_label = [0x4C, 0x36, 0x34, 0x42, 0x4F, 0x4F, 0x54, 0x20, 0x20, 0x20, 0x20]"

abbreviation demo_build :: "sd_card_layout result" where
  "demo_build \<equiv> build_litex_sd_card_image demo_elf demo_dtb [1, 2, 3] 2048 64 16 1 demo_label
     LITTLE64_SD_BOOT_FORMAT_STAGE0 0x40000000 0x04000000 0x40000000"

lemma demo_geometry:
  "boot_sectors_for 64 = 131072" "fat_size_sectors 131072 32 2 (Suc 0) = (1024, 128992)"
  "file_clusters 512 124 = 1" "file_clusters 512 4 = 1" "ceil_div 3 512 = 1" "length demo_label = 11"
  by (simp_all add: boot_sectors_for_def SECTOR_SIZE_def fat_size_sectors_def fat_size_rounds clusters_for_def
      required_fat_sectors_def ceil_div_def file_clusters_def demo_label_def)

theorem fat_table_covers_witness: "fat_size_sectors 131072 32 2 (Suc 0) = (1024, 128992) \<and>
    (128992 + 2) * 4 \<le> int 1024 * 512 \<and> (32 :: int) + int (2 * 1024) + 128992 * int (Suc 0) \<le> 131072"
  using fat_table_covers [OF demo_geometry(2)] demo_geometry(2) by simp

lemma demo_built: "\<exists>lay. demo_build = Inr lay"
  by (rule fitting_card_is_built [where f = 1024 and cc = 128992 and im = demo_image and rc = 32768])
     (simp_all add: LITTLE64_LINUX_RAM_BASE_def demo_flat demo_length demo_image_length demo_geometry)

theorem card_is_built_witness: "\<exists>lay lay' written. demo_build = Inr lay \<and>
    write_litex_sd_card_image demo_elf demo_dtb [1, 2, 3] (disk_size_bytes lay) 2048 64 1 demo_label
      LITTLE64_SD_BOOT_FORMAT_STAGE0 0x40000000 0x04000000 0x40000000 = Inr (lay', written)"
  by (rule card_is_built [where f = 1024 and cc = 128992 and im = demo_image and rc = 32768])
     (simp_all add: LITTLE64_LINUX_RAM_BASE_def demo_flat demo_length demo_image_length demo_geometry)

theorem sd_image_layout_witness: "\<exists>lay disk. demo_build = Inr lay \<and> disk_image lay = Some disk \<and>
    chunk disk 1048576 67108864 = boot_bytes (sd_files lay) \<and> chunk disk 68157440 3 = [1, 2, 3]"
proof -
  obtain lay where lay: "demo_build = Inr lay" using demo_built by blast
  from sd_image_layout [OF lay] show ?thesis by (auto simp: lay demo_geometry numeral_3_eq_3)
qed

theorem written_card_is_image_witness: "\<exists>lay lay' written. demo_build = Inr lay \<and>
    write_litex_sd_card_image demo_elf demo_dtb [1, 2, 3] (disk_size_bytes lay) 2048 64 1 demo_label
      LITTLE64_SD_BOOT_FORMAT_STAGE0 0x40000000 0x04000000 0x40000000 = Inr (lay', written) \<and>
    disk_image lay = Some written"
proof -
  obtain lay where lay: "demo_build = Inr lay" using demo_built by blast
  obtain lay' written where w: "write_litex_sd_card_image demo_elf demo_dtb [1, 2, 3] (disk_size_bytes lay) 2048 64 1
      demo_label LITTLE64_SD_BOOT_FORMAT_STAGE0 0x40000000 0x04000000 0x40000000 = Inr (lay', written)"
    using written_when_built [OF lay] by fastforce
  from written_card_is_image [OF w lay refl] show ?thesis using lay w by auto
qed

theorem stage0_reads_boot_files_witness: "\<exists>lay disk v. demo_build = Inr lay \<and> disk_image lay = Some disk \<and>
    load_fat32_volume_or_fail disk = Inr v \<and> reads_as disk v VMLINUX_NAME demo_elf \<and>
    reads_as disk v BOOT_DTB_NAME demo_dtb"
proof -
  obtain lay where lay: "demo_build = Inr lay" using demo_built by blast
  have one: "1 \<le> (2048 :: int)" by simp
  obtain disk where disk: "disk_image lay = Some disk" using image_on_disk [OF lay one] by metis
  from stage0_reads_boot_files [OF lay one disk] show ?thesis using lay disk by blast
qed

theorem smallest_boot_partition_fails_witness:
  "build_litex_sd_card_image demo_elf demo_dtb [] 2048 32 16 1 demo_label LITTLE64_SD_BOOT_FORMAT_STAGE0
     0x40000000 0x04000000 0x40000000 = Inl (Value_error ''boot partition is too small for a FAT32 volume'')"
  by (rule smallest_boot_partition_fails) (simp_all add: demo_geometry)

section \<open>An update\<close>

text \<open>A card of three sectors: the boot record, one sector of each partition.\<close>

lemma demo_record: "\<exists>mbr. is_boot_record mbr 1 1 2 1"
  using master_boot_record_total [of 1 1 1] master_boot_record_reads(1) [of 1 1 2 1] by fastforce

definition demo_disk :: "bytes \<Rightarrow> bytes" where "demo_disk mbr = mbr @ replicate 1024 0"

lemma demo_disk_entries:
  assumes "is_boot_record mbr 1 1 2 1"
  shows "length (demo_disk mbr) = 1536"
    "read_partition_entries (demo_disk mbr) =
      Inr (\<lparr> part_type = 0x0C, start_lba = 1, sector_count = 1 \<rparr>, \<lparr> part_type = 0x83, start_lba = 2, sector_count = 1 \<rparr>)"
proof -
  have len: "length mbr = 512" using assms by (simp add: is_boot_record_def SECTOR_SIZE_def)
  then show "length (demo_disk mbr) = 1536" by (simp add: demo_disk_def)
  have "chunk (demo_disk mbr) 0 SECTOR_SIZE = mbr" by (simp add: demo_disk_def chunk_def len SECTOR_SIZE_def)
  then show "read_partition_entries (demo_disk mbr) =
      Inr (\<lparr> part_type = 0x0C, start_lba = 1, sector_count = 1 \<rparr>, \<lparr> part_type = 0x83, start_lba = 2, sector_count = 1 \<rparr>)"
    using read_entries_of_record [of "demo_disk mbr" 1 1 2 1] assms by simp
qed

lemma demo_update:
  assumes "is_boot_record mbr 1 1 2 1"
  shows "\<exists>s t. update_partitioned_sd_device taken (demo_disk mbr) (demo_disk mbr) (Some [9]) False = Inr (s, t)"
  using demo_disk_entries [OF assms]
  by (simp add: update_partitioned_sd_device_def validate_target_layout_def size_bytes_def SECTOR_SIZE_def
      read_exact_range_def start_offset_def Let_def)

theorem update_confined_witness: "\<exists>mbr s t. is_boot_record mbr 1 1 2 1 \<and>
    update_partitioned_sd_device (\<lambda>n. n) (demo_disk mbr) (demo_disk mbr) (Some [9]) False = Inr (s, t) \<and>
    length t = 1536 \<and> chunk t 1024 1 = [9] \<and> t ! 0 = demo_disk mbr ! 0"
proof -
  obtain mbr where mbr: "is_boot_record mbr 1 1 2 1" using demo_record by blast
  obtain s t where up: "update_partitioned_sd_device (\<lambda>n. n) (demo_disk mbr) (demo_disk mbr) (Some [9]) False = Inr (s, t)"
    using demo_update [OF mbr] by blast
  note d = demo_disk_entries [OF mbr]
  from update_confined [OF up refl d(2) d(2)] show ?thesis
    using mbr up by (auto simp: start_offset_def size_bytes_def SECTOR_SIZE_def d(1))
qed

theorem update_ignores_short_writes_witness: "\<exists>mbr s t. is_boot_record mbr 1 1 2 1 \<and>
    update_partitioned_sd_device (\<lambda>_. 0) (demo_disk mbr) (demo_disk mbr) (Some [9]) False = Inr (s, t) \<and>
    rootfs_bytes s = 1 \<and> t ! 1024 = demo_disk mbr ! 1024"
proof -
  obtain mbr where mbr: "is_boot_record mbr 1 1 2 1" using demo_record by blast
  obtain s t where up: "update_partitioned_sd_device (\<lambda>_. 0) (demo_disk mbr) (demo_disk mbr) (Some [9]) False = Inr (s, t)"
    using demo_update [OF mbr] by blast
  note d = demo_disk_entries [OF mbr]
  from update_ignores_short_writes [OF up d(2), of 0] show ?thesis
    using mbr up by (auto simp: start_offset_def size_bytes_def SECTOR_SIZE_def d(1))
qed

section \<open>A flash image\<close>

abbreviation demo_flash :: "flash_layout result" where
  "demo_flash \<equiv> build_flash_image [] demo_elf demo_dtb 0x40000000 0x04000000 0x40000000
     LITTLE64_LITEX_FLASH_BOOT_HEADER_OFFSET 30"

lemma demo_flash_built: "\<exists>lay. demo_flash = Inr lay \<and> length (flash_image lay) = 16388 \<and>
    dtb_physical_address lay = 0x4001F000 \<and> kernel_boot_stack_top lay = 0x43FFFFF8"
proof -
  have im: "image_span demo_image = 4096" "entry_physical demo_image = 0x40000000" by (simp_all add: demo_image_def)
  show ?thesis
    by (simp add: build_flash_image_def demo_flat im demo_length demo_image_length Let_def
        LITTLE64_LITEX_FLASH_BOOT_HEADER_OFFSET_def LITTLE64_LITEX_FLASH_BOOT_MAGIC_def
        LITTLE64_LITEX_FLASH_BOOT_ABI_VERSION_def align_up_page [unfolded PAGE_SIZE_def]
        PAGE_SIZE_def pack_def)
qed

definition demo_memory :: "bytes \<Rightarrow> memory" where
  "demo_memory flash = (\<lambda>a. if 0x20000000 \<le> uint a then flash ! nat (uint a - 0x20000000) else 0)"

lemma demo_holds: "length flash < 2 ^ 32 \<Longrightarrow> holds (demo_memory flash) 0x20000000 flash"
proof -
  assume len: "length flash < 2 ^ 32"
  have "uint (word_of_int (0x20000000 + int i) :: u64) = 0x20000000 + int i" if "i < length flash" for i
    using that len by (intro uint_of_int) auto
  then show ?thesis by (auto simp: holds_def demo_memory_def simp del: of_int_add of_int_of_nat_eq)
qed

theorem flash_boot_witness: "\<exists>lay. demo_flash = Inr lay \<and>
    litex_spi_boot_entry 0x10000000 0x10000010 (demo_memory (flash_image lay)) =
      Inr (flash_handoff 0x10000000 0x10000010 (demo_memory (flash_image lay)) lay (image demo_image) demo_dtb)"
proof -
  obtain lay where lay: "demo_flash = Inr lay" "length (flash_image lay) = 16388"
    "dtb_physical_address lay = 0x4001F000" "kernel_boot_stack_top lay = 0x43FFFFF8"
    using demo_flash_built by blast
  from flash_boot [OF lay(1) demo_flat _ _ demo_holds, of "0x10000010" "0x10000000"] show ?thesis
    using lay by (simp add: demo_length demo_image_length demo_dtb_def)
qed

end
