(* ===== verification/Spec2Isabelle.thy ===== *)
theory Spec2Isabelle
  imports Basic_Security V4_Program V4_Bus V3_Run V2_Run Stage0_Crc Boot_Demo
begin

text \<open>
  A verification development for the Little64 processor cores and the boot images made for
  them (\<open>src/hdl/little64_cores\<close>, with \<open>update.py\<close> of \<open>src/tools\<close> and the loaders of
  \<open>src/target/c_boot\<close>).

  The program is a set of synchronous hardware designs written in Python with Amaranth: an
  instruction set (\<open>isa.py\<close>), a configuration (\<open>config.py\<close>, \<open>variants.py\<close>), and four cores
  that implement the instruction set with different micro-architectures.  A Python class
  describes the registers of a unit (\<open>Signal\<close> with an initial value), its combinational
  signals (\<open>m.d.comb\<close>) and the assignments of a clock edge (\<open>m.d.sync\<close>).  The models keep
  that shape: the registers of a unit are a record, each combinational signal is a function
  of the registers and the inputs of the cycle, and the edge is a function to the next
  record in which a later assignment wins, as in Amaranth.  Signals are words of their
  width, so additions wrap; register files and memories are functions.  A memory behind a
  bus is not part of the source: it is an argument of the theorems, with its behaviour
  (answers carry the data memory holds, after any number of wait states) as a named
  hypothesis.

  The boot images are made by \<open>litex_linux_boot.py\<close>: it flattens the kernel file and puts it,
  with the device tree, into a SPI flash image or the FAT32 partition of a SD card, which
  \<open>update.py\<close> rewrites in place; the stage-0 loaders, in C, read these images on the target.
  Their models are functions on byte strings whose raised errors are values; a loader is a
  function of the memory or the card it runs on.

  Theories and the code they model:

  \<^item> \<open>Prelude\<close>: words, folds and finite maps; the contracts the units share, as locales
    (\<open>translation_cache\<close>, \<open>register_bank\<close>, \<open>write_queue\<close>, \<dots>), interpreted in the theories of
    the units that provide them.
  \<^item> \<open>Isa\<close>, \<open>Isa_Spec\<close>, \<open>Isa_Arith\<close>, \<open>Isa_Machine\<close>: the numbers and fields of \<open>isa.py\<close>; the
    instruction set as a specification: \<open>decode\<close>, \<open>isa_execute\<close> (the effect of an
    instruction on its operands), \<open>page_walk\<close>, and \<open>arch_step\<close>, one step of the
    architecture machine with traps and interrupts.  \<open>Isa_Security\<close>: what one such step can do
    to special registers and memory, what a translation rests on, and the return from a trap.
  \<^item> \<open>Config\<close>: constructor checks and the LiteX variant table.
  \<^item> \<open>Special_Regs\<close>, \<open>Tlb\<close>, \<open>Byte_Lanes\<close>, \<open>Bus\<close>: special-register file, TLB, byte enables and
    data lanes, and bus port of the basic core.
  \<^item> \<open>Basic_Core\<close>: the states of the basic core (\<open>basic/core.py\<close>), one definition per \<open>m.State\<close>
    block, and its edge \<open>core_tick\<close>.  \<open>Basic_Exec\<close>, \<open>Basic_Refine\<close>, \<open>Basic_Sim\<close>, \<open>Basic_Live\<close>,
    \<open>Basic_Reset\<close>: the simulation of the architecture machine by the core, over any number
    of wait states, and its progress from reset.  \<open>Basic_Security\<close>: the facts of
    \<open>Isa_Security\<close> carried along that simulation, on the registers of the core and its memory.
  \<^item> \<open>V3_Execute\<close>, \<open>V3_Exec_Spec\<close>, \<open>V3_Memory\<close>, \<open>V3_Cache\<close>, \<open>V3_Tlb\<close>: the execute, memory and
    retire stages, the line cache and the TLB, which the v3 and v4 cores instantiate.
  \<^item> \<open>Pipe_Lsu\<close>, \<open>Pipe_Frontend\<close>: load-store units and fetch front ends of v3 and v4.
  \<^item> \<open>V4_Decode\<close>, \<open>V4_Store_Buffer\<close>, \<open>V4_Walk\<close>: decode stage and predictors, dispatch and
    store buffer, page-table walker of \<open>v4/core.py\<close>.
  \<^item> \<open>V4_Core\<close>: the whole v4 core.  \<open>v4_core\<close> holds its registers; the signals of \<open>elaborate\<close>
    follow in source order; the \<open>blk_*\<close> functions are the synchronous blocks and \<open>v4_step\<close>
    composes them in source order; \<open>v4_tick\<close> adds the units that advance in every cycle.
    \<open>V4_Steps\<close>: which block assigns which register, and each register after a cycle.
    \<open>V4_Order\<close>: program order of the latches.  \<open>V4_Entry\<close>: traps and interrupts.
    \<open>V4_Run\<close>: straight-line execution, with a program run from reset.  \<open>V4_Operands\<close>: the
    operands and flags of the execute slot are those of all older instructions.
    \<open>V4_Program\<close>: the core commits what the instruction set prescribes.  \<open>V4_Bus\<close>: walks end
    and bus errors stop the core, whatever the bus does.
  \<^item> \<open>V3_Core\<close>: the whole v3 core.  Its edge is one chain of alternatives, the datatype
    \<open>v3_branch\<close>; \<open>v3_take\<close> is what each of them assigns.  \<open>V3_Steps\<close>, \<open>V3_Order\<close>: each
    register after a cycle and program order, as for v4.  \<open>V3_Run\<close>: a program run from reset.
    \<open>V3_Flaws\<close>: an interrupt entry that is lost, a result that is dropped and a commit that is
    repeated because of the order of the alternatives.
  \<^item> \<open>V2_Core\<close>: the v2 core (\<open>v2/core.py\<close>), a multi-cycle controller whose units are the ones of
    v3; one definition per \<open>m.Case\<close>, edge \<open>v2_tick\<close>.  \<open>V2_Exec\<close>: the execute state carries out
    \<open>isa_execute\<close>, except that a failing store-conditional keeps the reservation.  \<open>V2_Order\<close>:
    commits and the stopped core.  \<open>V2_Demo\<close>: a run from reset.
    \<open>V2_Run\<close>: one instruction from its execute state to the next fetch, memory operations
    included, and the chained store that a cache hit drops.
  \<^item> \<open>Boot_Bytes\<close>: byte strings of the boot tools: slices, slice assignment, the little-endian
    codec, exceptions as values (\<open>boot_error\<close>), field-by-field writes, CRC-32.
  \<^item> \<open>Elf_Image\<close>: \<open>_parse_little64_elf_load_segments\<close>, \<open>flatten_little64_linux_elf_image\<close> and
    the inferred load address of \<open>litex_linux_boot.py\<close>, with an abstract ELF loader.
  \<^item> \<open>Flash_Image\<close>, \<open>Flash_Boot\<close>: \<open>build_litex_flash_image\<close> and the SPI loader
    \<open>litex_spi_boot.c\<close>, from clearing its \<open>.bss\<close> to the hand-off.
  \<^item> \<open>Fat32\<close>, \<open>Fat32_Layout\<close>, \<open>Fat32_Spec\<close>: \<open>_build_fat32_boot_partition\<close> with its files,
    allocation table and directory; the regions of the partition; its fields read back.
  \<^item> \<open>Sd_Card\<close>, \<open>Sd_Card_Spec\<close>, \<open>Sd_Card_Build\<close>: \<open>build_litex_sd_card_image\<close>,
    \<open>write_litex_sd_card_image\<close> and \<open>update_partitioned_sd_device\<close>; what is on a card and when
    one is built.
  \<^item> \<open>Stage0_Crc\<close>, \<open>Stage0_Fat\<close>, \<open>Stage0_Read\<close>, \<open>Stage0_Boot\<close>: the CRC and the FAT32 reader of
    \<open>litex_sd_boot.c\<close>, run on the cards the builder makes.
  \<^item> \<open>Boot_Demo\<close>: a small kernel file, card and flash image for the closed instances.

  What the groups of theorems show.  The decoder and the encoder are inverse, and the
  EXECUTE state of the basic core and the execute stage of the pipelined cores carry out
  the same effect of \<open>isa_execute\<close> for every instruction word.  The basic core refines
  \<open>arch_step\<close>: from an instruction boundary to the next it performs exactly one step, and it
  gets there within 34 edges when the buses answer at once.  Its user mode is confined: however
  many instructions run, no special register but the thread pointer changes until a handler of
  the vector table is entered, each instruction changes memory by at most one store, at an
  address the page tables of the root register open to user writes, and a handler that returns
  at once restores what was interrupted.  In the pipelined cores an instruction commits exactly
  the effect the specification gives it, through the execute, memory and retire stages.  The units of the pipelined cores (caches, TLBs, load-store units, front
  ends, store buffer, walker) keep their contract for every sequence of inputs.  The v4
  pipeline commits in program order with current operands, and its traps are precise.  Some
  theorems show where the code does not keep a promise, on a concrete input: a load forwarded
  past a younger store, flags that are one instruction old, interrupt pulses that are
  dropped, TLB tags that are too narrow.

  The image builders and the loaders agree: the stage-0 loader mounts every card the builder
  returns and reads the boot files back byte for byte, the flash loader copies what the flash
  builder stored or rejects the image for one of four stated reasons, the kernel image is the
  memory its segments describe, the card written to a file is the one built in memory, a card
  is built whenever its inputs fit, and an update touches only the two partitions.

  Bounds.  The walkers read three entries because there are three levels.  The fuel of the
  liveness theorems is the bound they state: 34 edges per instruction for the basic core
  (three walks of two edges per level, a split access and a vector load are the longest
  path), \<open>2 * (N + 1)\<close> cycles for an access with a bus timeout of \<open>N\<close> and \<open>6 * (N + 2)\<close> for a walk.  No definition has
  fuel of its own: an edge is a total function.

  Not modelled.  Data and instruction buses of the v4 core other than 64 bits wide, which its
  constructor refuses.
  LiteX integration, board files and device trees, and the rest of the command line:
  assembly of parts that are not under \<open>src\<close>, files and external programs.
  Of \<open>litex_sd_boot.c\<close>, the SD controller (a block read is the 512 bytes of the block), SDRAM
  set-up, the console and the loading of the kernel; of both loaders, the console output and the
  stack.
  Of \<open>update.py\<close>, the search for the image and the mount checks; a write to the device takes
  a number of bytes that is an argument of the model.
  Bus errors and the TLB of the basic core are part of \<open>core_tick\<close>, but
  the refinement theorem excludes the cycles in which they act.
\<close>

section \<open>The cores agree\<close>

text \<open>
  Property C3: For every instruction word and operands, the EXECUTE state of the basic core and
  the execute stage of the v3 and v4 cores carry out the same effect of the instruction-set
  specification, traps and flag results included.
\<close>

lemma cores_execute_alike:
  assumes "state s = EXECUTE" and "x_valid i" and "x_instruction i = current_instruction s" and "x_operands i = operands_of s"
  shows "let e = isa_execute (decode (current_instruction s)) (operands_of s) in
     do_execute cfg s = apply_effect cfg e s \<and> stage_effect i e (v3_execute i)"
  using execute_spec [OF assms(1)] v3_execute_spec [OF assms(2)] assms(3,4) by simp

lemma cores_execute_alike_witness:
  "let s = (core_init plain_config)\<lparr>state := EXECUTE\<rparr>; i = exec_sample\<lparr>x_instruction := 0, x_a := 0, x_b := 0\<rparr>;
       e = isa_execute (decode 0) (operands_of s) in
   do_execute plain_config s = apply_effect plain_config e s \<and> stage_effect i e (v3_execute i)"
proof -
  let ?s = "(core_init plain_config)\<lparr>state := EXECUTE\<rparr>" and ?i = "exec_sample\<lparr>x_instruction := 0, x_a := 0, x_b := 0\<rparr>"
  have reset: "reset_pc plain_config = 0" by (simp add: reset_pc_def plain_config_def default_config_def)
  have "x_operands ?i = operands_of ?s"
    by (simp add: x_operands_def operands_of_def exec_sample_def core_init_def reset c_a_def c_b_def post_increment_pc_def
        user_mode_def x_user_def sr_reset_def CPU_CONTROL_USER_MODE_def)
  moreover have "state ?s = EXECUTE" "x_valid ?i" "x_instruction ?i = current_instruction ?s" "current_instruction ?s = 0"
    by (simp_all add: exec_sample_def core_init_def)
  ultimately show ?thesis using cores_execute_alike [of ?s ?i plain_config] by (simp only: Let_def)
qed

end
